(* ===== verification/Prelude.thy ===== *)
theory Prelude
  imports Main "HOL-Library.Word" "HOL-Library.Sublist"
begin

text \<open>
  What every component shares: the result type of the code's fallible functions with its
  sequencing operator, loops that stop at the first error, and the collections of rewrite
  rules the component proofs use.

  A Go function that returns \<open>(T, error)\<close> is a function into \<open>'a result\<close>: \<open>fail m\<close> is the
  error \<open>errors.New(m)\<close> with the message kept, \<open>ok v\<close> the value. The sum also models
  \<open>result.Result\<close> of \<open>internal/kernel/result/result.go\<close>, whose \<open>Value\<close> is taken apart by
  every caller with the error tested first.
\<close>

named_theorems result_simps \<open>how results are taken apart\<close>
named_theorems str_simps \<open>rewriting of string operations\<close>
named_theorems value_defs \<open>definitions of the validated value types\<close>

subsection \<open>Results\<close>

datatype go_error = GoErr string

type_synonym 'a result = "go_error + 'a"

abbreviation ok :: "'a \<Rightarrow> 'a result" where
  "ok v \<equiv> Inr v"

abbreviation fail :: "string \<Rightarrow> 'a result" where
  "fail m \<equiv> Inl (GoErr m)"

text \<open>The pattern \<open>v, err := f(); if err != nil { return err }\<close> followed by the rest.\<close>

definition rbind :: "'a result \<Rightarrow> ('a \<Rightarrow> 'b result) \<Rightarrow> 'b result" where
  "rbind r f = (case r of Inl e \<Rightarrow> Inl e | Inr v \<Rightarrow> f v)"

lemma rbind_fail [simp]: "rbind (Inl e) f = Inl e"
  and rbind_ok [simp]: "rbind (Inr v) f = f v"
  by (simp_all add: rbind_def)

lemma rbind_eq_ok [result_simps]:
  "rbind r f = Inr w \<longleftrightarrow> (\<exists>v. r = Inr v \<and> f v = Inr w)"
  by (cases r) simp_all

lemma rbind_eq_fail [result_simps]:
  "rbind r f = Inl e \<longleftrightarrow> r = Inl e \<or> (\<exists>v. r = Inr v \<and> f v = Inl e)"
  by (cases r) simp_all

lemma rbind_assoc: "rbind (rbind r f) g = rbind r (\<lambda>v. rbind (f v) g)"
  by (cases r) simp_all

lemma rbind_cong [fundef_cong]:
  assumes "r = r'" and "\<And>v. r' = Inr v \<Longrightarrow> f v = g v"
  shows "rbind r f = rbind r' g"
  using assms by (cases r') simp_all

definition is_ok :: "'a result \<Rightarrow> bool" where
  "is_ok r = (case r of Inl _ \<Rightarrow> False | Inr _ \<Rightarrow> True)"

lemma is_ok_simps [simp]: "is_ok (Inr v)" "\<not> is_ok (Inl e)"
  by (simp_all add: is_ok_def)

lemma is_ok_iff [result_simps]: "is_ok r \<longleftrightarrow> (\<exists>v. r = Inr v)"
  by (cases r) simp_all

text \<open>A loop that appends the value of each element and returns at the first error.\<close>

fun collect :: "('a \<Rightarrow> 'b result) \<Rightarrow> 'a list \<Rightarrow> 'b list result" where
  "collect f [] = ok []"
| "collect f (x # xs) = rbind (f x) (\<lambda>y. rbind (collect f xs) (\<lambda>ys. ok (y # ys)))"

lemma collect_length: "collect f xs = ok ys \<Longrightarrow> length ys = length xs"
  by (induction xs arbitrary: ys) (auto simp: result_simps)

lemma collect_ok_iff: "collect f xs = ok ys \<longleftrightarrow> list_all2 (\<lambda>x y. f x = ok y) xs ys"
  by (induction xs arbitrary: ys) (auto simp: result_simps list_all2_Cons1)

lemma collect_fail: "x \<in> set xs \<Longrightarrow> f x = Inl e \<Longrightarrow> \<exists>e'. collect f xs = Inl e'"
proof (induction xs)
  case Nil
  then show ?case by simp
next
  case (Cons y ys)
  then show ?case by (cases "f y") (auto simp: result_simps)
qed

lemma list_ex_sum_cases: "(\<And>e. r = Inl e \<Longrightarrow> P) \<Longrightarrow> (\<And>v. r = Inr v \<Longrightarrow> P) \<Longrightarrow> P"
  by (cases r) auto

subsection \<open>Machine integers and panics\<close>

text \<open>Go's \<open>int64\<close>, and \<open>int\<close> on the 64-bit platforms the program is built for: the result of an
addition or a product wraps around. A run-time panic of Go, such as an index out of range, is \<open>Panics\<close>.\<close>

definition int64 :: "int \<Rightarrow> int" where
  "int64 i = (i + 2 ^ 63) mod 2 ^ 64 - 2 ^ 63"

lemma int64_id: "- (2 ^ 63) \<le> i \<Longrightarrow> i < 2 ^ 63 \<Longrightarrow> int64 i = i"
  by (simp add: int64_def)

lemma int64_bounds: "- (2 ^ 63) \<le> int64 i" "int64 i < 2 ^ 63"
  by (simp_all add: int64_def)

text \<open>Go divides towards zero.\<close>

definition go_div :: "int \<Rightarrow> int \<Rightarrow> int" where
  "go_div a b = (if (a < 0) = (b < 0) then \<bar>a\<bar> div \<bar>b\<bar> else - (\<bar>a\<bar> div \<bar>b\<bar>))"

lemma go_div_nonneg: "0 \<le> a \<Longrightarrow> 0 < b \<Longrightarrow> go_div a b = a div b"
  by (simp add: go_div_def)

datatype 'a run = Returns 'a | Panics string

definition bind_run :: "'a run \<Rightarrow> ('a \<Rightarrow> 'b run) \<Rightarrow> 'b run" where
  "bind_run m f = (case m of Returns v \<Rightarrow> f v | Panics e \<Rightarrow> Panics e)"

definition index_or_panic :: "'a list \<Rightarrow> int \<Rightarrow> 'a run" where
  "index_or_panic xs i =
     (if 0 \<le> i \<and> i < int (length xs) then Returns (xs ! nat i) else Panics ''index out of range'')"

subsection \<open>Lists\<close>

lemma find_None_prefix: "find P xs = None \<longleftrightarrow> (\<forall>x\<in>set xs. \<not> P x)"
  by (auto simp: find_None_iff)

lemma find_SomeD: "find P xs = Some x \<Longrightarrow> P x \<and> x \<in> set xs"
  by (induction xs) (auto split: if_splits)

lemma find_append: "find P (xs @ ys) = (case find P xs of None \<Rightarrow> find P ys | Some x \<Rightarrow> Some x)"
  by (induction xs) auto

lemma find_rev_last: "find P (rev xs) = (if filter P xs = [] then None else Some (last (filter P xs)))"
  by (induction xs rule: rev_induct) auto

lemma filter_unique:
  "distinct (map f xs) \<Longrightarrow> filter (\<lambda>e. f e = x) xs = [] \<or> (\<exists>e. filter (\<lambda>e. f e = x) xs = [e])"
  by (induction xs) (auto simp: filter_empty_conv image_iff)

lemma concat_map_Nil_iff: "concat (map f xs) = [] \<longleftrightarrow> (\<forall>x\<in>set xs. f x = [])"
  by (induction xs) auto

end
