(* ===== verification/GoStrings.thy ===== *)
theory GoStrings
  imports Prelude "HOL-Library.Char_ord"
begin

text \<open>
  Go strings and the parts of the standard library's \<open>strings\<close>, \<open>unicode\<close>, \<open>unicode/utf8\<close>
  and \<open>strconv\<close> packages that the repository's code calls.

  A Go string is a sequence of bytes; \<open>string\<close> is a list of 8-bit characters, so one list
  element is one byte and \<open>length\<close> is Go's \<open>len\<close>. Code points (\<open>rune\<close>) are natural numbers.
  Ranging over a string decodes UTF-8 as \<open>utf8.DecodeRune\<close> does: an invalid byte is the rune
  65533 of width 1.
\<close>

abbreviation byte :: "char \<Rightarrow> nat" where
  "byte c \<equiv> of_char c"

lemma byte_less: "byte c < 256"
  by (rule nat_of_char_less_256)

lemma byte_inj: "byte c = byte d \<longleftrightarrow> c = d"
  by simp

subsection \<open>UTF-8\<close>

abbreviation rune_error :: nat where
  "rune_error \<equiv> 65533"

definition cont_byte :: "nat \<Rightarrow> bool" where
  "cont_byte b \<longleftrightarrow> 128 \<le> b \<and> b \<le> 191"

text \<open>The allowed range of a second byte, by the first byte (three- and four-byte forms).\<close>

definition second_ok3 :: "nat \<Rightarrow> nat \<Rightarrow> bool" where
  "second_ok3 b0 b1 \<longleftrightarrow>
     (if b0 = 224 then 160 \<le> b1 \<and> b1 \<le> 191
      else if b0 = 237 then 128 \<le> b1 \<and> b1 \<le> 159
      else cont_byte b1)"

definition second_ok4 :: "nat \<Rightarrow> nat \<Rightarrow> bool" where
  "second_ok4 b0 b1 \<longleftrightarrow>
     (if b0 = 240 then 144 \<le> b1 \<and> b1 \<le> 191
      else if b0 = 244 then 128 \<le> b1 \<and> b1 \<le> 143
      else cont_byte b1)"

definition decode_rune :: "string \<Rightarrow> nat \<times> nat" where
  "decode_rune s =
     (case map of_char (take 4 s) of
        [] \<Rightarrow> (rune_error, 0)
      | b0 # r \<Rightarrow>
          if b0 < 128 then (b0, 1)
          else if 194 \<le> b0 \<and> b0 \<le> 223 then
            (case r of
               b1 # _ \<Rightarrow> if cont_byte b1 then ((b0 - 192) * 64 + (b1 - 128), 2) else (rune_error, 1)
             | _ \<Rightarrow> (rune_error, 1))
          else if 224 \<le> b0 \<and> b0 \<le> 239 then
            (case r of
               b1 # b2 # _ \<Rightarrow>
                 if second_ok3 b0 b1 \<and> cont_byte b2
                 then ((b0 - 224) * 4096 + (b1 - 128) * 64 + (b2 - 128), 3) else (rune_error, 1)
             | _ \<Rightarrow> (rune_error, 1))
          else if 240 \<le> b0 \<and> b0 \<le> 244 then
            (case r of
               b1 # b2 # b3 # _ \<Rightarrow>
                 if second_ok4 b0 b1 \<and> cont_byte b2 \<and> cont_byte b3
                 then ((b0 - 240) * 262144 + (b1 - 128) * 4096 + (b2 - 128) * 64 + (b3 - 128), 4)
                 else (rune_error, 1)
             | _ \<Rightarrow> (rune_error, 1))
          else (rune_error, 1))"

definition rune_bytes :: "nat \<Rightarrow> nat list" where
  "rune_bytes r =
     (if r < 128 then [r]
      else if r < 2048 then [192 + r div 64, 128 + r mod 64]
      else if r > 1114111 \<or> (55296 \<le> r \<and> r \<le> 57343) then [239, 191, 189]
      else if r < 65536 then [224 + r div 4096, 128 + r div 64 mod 64, 128 + r mod 64]
      else [240 + r div 262144, 128 + r div 4096 mod 64, 128 + r div 64 mod 64, 128 + r mod 64])"

definition encode_rune :: "nat \<Rightarrow> string" where
  "encode_rune r = map char_of (rune_bytes r)"

lemma decode_rune_width: "s \<noteq> [] \<Longrightarrow> 0 < snd (decode_rune s)"
  by (cases s) (auto simp: decode_rune_def split: list.split)

text \<open>The runes of a string with their byte widths, as \<open>for _, r := range s\<close> visits them.\<close>

function rune_steps :: "string \<Rightarrow> (nat \<times> nat) list" where
  "rune_steps s =
     (if s = [] then [] else decode_rune s # rune_steps (drop (snd (decode_rune s)) s))"
  by pat_completeness auto
termination
  by (relation "measure length") (auto simp: decode_rune_width)

declare rune_steps.simps [simp del]

lemma rune_steps_Nil [simp]: "rune_steps [] = []"
  by (simp add: rune_steps.simps)

definition runes :: "string \<Rightarrow> nat list" where
  "runes s = map fst (rune_steps s)"

lemma runes_Nil [simp]: "runes [] = []"
  by (simp add: runes_def)

lemma runes_step:
  "s \<noteq> [] \<Longrightarrow> runes s = fst (decode_rune s) # runes (drop (snd (decode_rune s)) s)"
  by (simp add: runes_def rune_steps.simps [of s])

definition RuneCountInString :: "string \<Rightarrow> nat" where
  "RuneCountInString s = length (rune_steps s)"

definition ValidString :: "string \<Rightarrow> bool" where
  "ValidString s \<longleftrightarrow> (rune_error, 1) \<notin> set (rune_steps s)"

definition string_of_runes :: "nat list \<Rightarrow> string" where
  "string_of_runes rs = concat (map encode_rune rs)"

definition is_ascii :: "string \<Rightarrow> bool" where
  "is_ascii s \<longleftrightarrow> list_all (\<lambda>c. byte c < 128) s"

lemma decode_rune_ascii: "byte c < 128 \<Longrightarrow> decode_rune (c # s) = (byte c, 1)"
  by (simp add: decode_rune_def)

lemma rune_steps_ascii_Cons [simp]:
  "byte c < 128 \<Longrightarrow> rune_steps (c # s) = (byte c, 1) # rune_steps s"
  by (subst rune_steps.simps) (simp add: decode_rune_ascii)

lemma rune_steps_ascii: "is_ascii s \<Longrightarrow> rune_steps s = map (\<lambda>c. (byte c, 1)) s"
  by (induction s) (auto simp: is_ascii_def)

lemma runes_ascii: "is_ascii s \<Longrightarrow> runes s = map byte s"
  by (simp add: runes_def rune_steps_ascii comp_def)

lemma ascii_ValidString: "is_ascii s \<Longrightarrow> ValidString s"
  by (auto simp: ValidString_def rune_steps_ascii is_ascii_def list_all_iff)

lemma is_ascii_append [simp]: "is_ascii (s @ t) \<longleftrightarrow> is_ascii s \<and> is_ascii t"
  by (simp add: is_ascii_def)

lemma second_ok_cont: "second_ok3 b0 b1 \<Longrightarrow> cont_byte b1" "second_ok4 b0 b1 \<Longrightarrow> cont_byte b1"
  by (auto simp: second_ok3_def second_ok4_def cont_byte_def split: if_splits)

lemma decode_rune_high:
  assumes "\<not> byte a < 128" and "c \<in> set (take (snd (decode_rune (a # r))) (a # r))"
  shows "\<not> byte c < 128"
proof -
  have cont: "cont_byte n \<Longrightarrow> \<not> n < 128" for n by (simp add: cont_byte_def)
  consider "r = []" | b where "r = [b]" | b d where "r = [b, d]" | b d e t where "r = b # d # e # t"
    by (metis neq_Nil_conv)
  then show ?thesis
    using assms
    by cases (auto simp: decode_rune_def dest!: cont dest: second_ok_cont split: if_splits)
qed

subsection \<open>Trimming\<close>

text \<open>
  \<open>strings.TrimSpace\<close> removes leading and trailing runes with \<open>unicode.IsSpace\<close>. UTF-8 is a
  prefix code, so a string begins (ends) with such a rune exactly when it begins (ends) with
  one of these byte sequences: the six ASCII spaces, U+0085, U+00A0, U+1680, U+2000 to U+200A,
  U+2028, U+2029, U+202F, U+205F and U+3000.
\<close>

definition space_runes :: "nat list" where
  "space_runes = [9, 10, 11, 12, 13, 32, 133, 160, 5760, 8192, 8193, 8194, 8195, 8196, 8197,
     8198, 8199, 8200, 8201, 8202, 8232, 8233, 8239, 8287, 12288]"

definition space_encodings :: "string list" where
  "space_encodings = map encode_rune space_runes"

lemma space_encodings_not_Nil: "[] \<notin> set space_encodings"
  by (simp add: space_encodings_def space_runes_def encode_rune_def rune_bytes_def)

function trim_prefixes :: "string list \<Rightarrow> string \<Rightarrow> string" where
  "trim_prefixes ps s =
     (case find (\<lambda>p. p \<noteq> [] \<and> prefix p s) ps of
        None \<Rightarrow> s
      | Some p \<Rightarrow> trim_prefixes ps (drop (length p) s))"
  by pat_completeness auto
termination
  by (relation "measure (\<lambda>(ps, s). length s)") (auto dest!: find_SomeD simp: prefix_def)

declare trim_prefixes.simps [simp del]

definition trim_left :: "string \<Rightarrow> string" where
  "trim_left s = trim_prefixes space_encodings s"

definition trim_right :: "string \<Rightarrow> string" where
  "trim_right s = rev (trim_prefixes (map rev space_encodings) (rev s))"

definition TrimSpace :: "string \<Rightarrow> string" where
  "TrimSpace s = trim_right (trim_left s)"

lemma trim_prefixes_stop:
  "find (\<lambda>p. p \<noteq> [] \<and> prefix p (trim_prefixes ps s)) ps = None"
proof (induction ps s rule: trim_prefixes.induct)
  case (1 ps s)
  then show ?case
    by (cases "find (\<lambda>p. p \<noteq> [] \<and> prefix p s) ps") (auto simp: trim_prefixes.simps [of ps s])
qed

lemma trim_prefixes_id:
  "find (\<lambda>p. p \<noteq> [] \<and> prefix p s) ps = None \<Longrightarrow> trim_prefixes ps s = s"
  by (simp add: trim_prefixes.simps [of ps s])

lemma trim_prefixes_idem [simp]: "trim_prefixes ps (trim_prefixes ps s) = trim_prefixes ps s"
  by (rule trim_prefixes_id) (rule trim_prefixes_stop)

lemma suffix_trim_prefixes: "suffix (trim_prefixes ps s) s"
proof (induction ps s rule: trim_prefixes.induct)
  case (1 ps s)
  show ?case
  proof (cases "find (\<lambda>p. p \<noteq> [] \<and> prefix p s) ps")
    case None
    then show ?thesis by (simp add: trim_prefixes_id)
  next
    case (Some p)
    with 1 have "suffix (trim_prefixes ps (drop (length p) s)) (drop (length p) s)" by simp
    then have "suffix (trim_prefixes ps (drop (length p) s)) s"
      by (meson suffix_drop suffix_order.trans)
    with Some show ?thesis by (simp add: trim_prefixes.simps [of ps s])
  qed
qed

lemma prefix_trim_right: "prefix (trim_right s) s"
  using suffix_trim_prefixes [of "map rev space_encodings" "rev s"]
  by (simp add: trim_right_def suffix_to_prefix)

lemma suffix_trim_left: "suffix (trim_left s) s"
  by (simp add: trim_left_def suffix_trim_prefixes)

lemma trim_right_idem [simp]: "trim_right (trim_right s) = trim_right s"
  by (simp add: trim_right_def)

lemma trim_left_trim_right: "trim_left s = s \<Longrightarrow> trim_left (trim_right s) = trim_right s"
proof -
  assume s: "trim_left s = s"
  have none: "find (\<lambda>p. p \<noteq> [] \<and> prefix p s) space_encodings = None"
    using trim_prefixes_stop [of space_encodings s] s by (simp add: trim_left_def)
  then have "find (\<lambda>p. p \<noteq> [] \<and> prefix p (trim_right s)) space_encodings = None"
    using prefix_trim_right [of s] by (auto simp: find_None_iff intro: prefix_order.trans)
  then show ?thesis by (simp add: trim_left_def trim_prefixes_id)
qed

theorem TrimSpace_idem [simp]: "TrimSpace (TrimSpace s) = TrimSpace s"
proof -
  have "trim_left (trim_left s) = trim_left s" by (simp add: trim_left_def)
  then show ?thesis by (simp add: TrimSpace_def trim_left_trim_right)
qed

lemma sublist_TrimSpace: "sublist (TrimSpace s) s"
  unfolding TrimSpace_def
  using prefix_trim_right [of "trim_left s"] suffix_trim_left [of s]
  by (metis prefix_imp_sublist sublist_order.order_trans suffix_imp_sublist)

lemma set_TrimSpace: "set (TrimSpace s) \<subseteq> set s"
  by (meson set_mono_sublist sublist_TrimSpace)

lemma length_TrimSpace: "length (TrimSpace s) \<le> length s"
  by (meson sublist_TrimSpace sublist_length_le)

lemma TrimSpace_Nil [simp]: "TrimSpace [] = []"
  using length_TrimSpace [of "[]"] by simp

text \<open>A string of visible ASCII characters is not changed by trimming.\<close>

definition graph_ascii :: "string \<Rightarrow> bool" where
  "graph_ascii s \<longleftrightarrow> list_all (\<lambda>c. 33 \<le> byte c \<and> byte c < 127) s"

lemma space_encodings_hd:
  "p \<in> set space_encodings \<Longrightarrow> p \<noteq> [] \<and> (byte (hd p) \<le> 32 \<or> 127 \<le> byte (hd p))"
  by (auto simp: space_encodings_def space_runes_def encode_rune_def rune_bytes_def)

lemma space_encodings_last:
  "p \<in> set space_encodings \<Longrightarrow> p \<noteq> [] \<and> (byte (last p) \<le> 32 \<or> 127 \<le> byte (last p))"
  by (auto simp: space_encodings_def space_runes_def encode_rune_def rune_bytes_def)

lemma trim_left_id: "s = [] \<or> 33 \<le> byte (hd s) \<and> byte (hd s) < 127 \<Longrightarrow> trim_left s = s"
  unfolding trim_left_def
  by (rule trim_prefixes_id)
     (auto simp: find_None_iff prefix_def dest!: space_encodings_hd split: list.splits)

lemma trim_right_id: "s = [] \<or> 33 \<le> byte (last s) \<and> byte (last s) < 127 \<Longrightarrow> trim_right s = s"
proof -
  assume s: "s = [] \<or> 33 \<le> byte (last s) \<and> byte (last s) < 127"
  have "find (\<lambda>p. p \<noteq> [] \<and> prefix p (rev s)) (map rev space_encodings) = None"
    unfolding find_None_iff
  proof (intro notI, elim exE conjE)
    fix p assume "p \<in> set (map rev space_encodings)" "p \<noteq> []" "prefix p (rev s)"
    then obtain q where q: "q \<in> set space_encodings" "p = rev q" by auto
    with \<open>p \<noteq> []\<close> \<open>prefix p (rev s)\<close> have "suffix q s" "q \<noteq> []"
      by (auto simp: suffix_to_prefix)
    then have "s \<noteq> []" "last s = last q" by (auto simp: suffix_def)
    with s space_encodings_last [OF q(1)] show False by auto
  qed
  then show ?thesis by (simp add: trim_right_def trim_prefixes_id)
qed

text \<open>White space is trimmed from the right up to a line break at most, when something else is behind it.\<close>

lemma trim_prefixes_before:
  assumes "trim_prefixes ps s \<noteq> []" and "\<forall>p\<in>set ps. c \<in> set p \<longrightarrow> p = [c]"
  shows "trim_prefixes ps (s @ c # rest) = trim_prefixes ps s @ c # rest"
  using assms
proof (induction ps s rule: trim_prefixes.induct)
  case (1 ps s)
  have s: "s \<noteq> []" using 1(2) suffix_trim_prefixes [of ps s] by auto
  have "prefix p (s @ c # rest) \<longleftrightarrow> prefix p s" if "p \<in> set ps" for p
  proof
    assume "prefix p (s @ c # rest)"
    then consider "prefix p s" | z where "p = s @ z" "prefix z (c # rest)" "z \<noteq> []"
      unfolding prefix_append by (metis append_Nil2 prefix_order.refl)
    then show "prefix p s"
    proof cases
      case (2 z)
      then have "c \<in> set p" by (cases z) auto
      with 1(3) that have "p = [c]" by auto
      with 2 s show ?thesis by (auto simp: Cons_eq_append_conv)
    qed
  qed (auto simp: prefix_append)
  then have find: "find (\<lambda>p. p \<noteq> [] \<and> prefix p (s @ c # rest)) ps = find (\<lambda>p. p \<noteq> [] \<and> prefix p s) ps"
    by (intro find_cong) auto
  show ?case
  proof (cases "find (\<lambda>p. p \<noteq> [] \<and> prefix p s) ps")
    case None
    with find show ?thesis by (simp add: trim_prefixes.simps [of ps])
  next
    case (Some p)
    then have "prefix p s" by (auto dest: find_SomeD)
    then have "drop (length p) (s @ c # rest) = drop (length p) s @ c # rest" by (auto simp: prefix_def)
    moreover have "trim_prefixes ps s = trim_prefixes ps (drop (length p) s)"
      using Some by (simp add: trim_prefixes.simps [of ps s])
    ultimately show ?thesis
      using find Some 1 by (simp add: trim_prefixes.simps [of ps "s @ c # rest"])
  qed
qed

lemma space_encodings_wide:
  "p \<in> set space_encodings \<Longrightarrow> length p = 1 \<or> list_all (\<lambda>c. 128 \<le> byte c) p"
  by (auto simp: space_encodings_def space_runes_def encode_rune_def rune_bytes_def)

lemma ascii_space_alone:
  assumes "byte c < 128" and "p \<in> set (map rev space_encodings)" and "c \<in> set p"
  shows "p = [c]"
proof -
  obtain q where q: "q \<in> set space_encodings" "p = rev q" using assms(2) by auto
  with assms(1,3) have "length q = 1" using space_encodings_wide [OF q(1)] by (auto simp: list_all_iff)
  with q assms(3) show ?thesis by (auto simp: length_Suc_conv)
qed

lemma trim_right_break:
  assumes "c = CHR 0x0A \<or> c = CHR 0x0D" and "trim_right rest \<noteq> []"
  shows "c \<in> set (trim_right (first @ c # rest))"
proof -
  have "\<forall>p\<in>set (map rev space_encodings). c \<in> set p \<longrightarrow> p = [c]"
    using assms(1) by (intro ballI impI ascii_space_alone) auto
  then have "trim_prefixes (map rev space_encodings) (rev rest @ c # rev first) =
      trim_prefixes (map rev space_encodings) (rev rest) @ c # rev first"
    using assms(2) by (intro trim_prefixes_before) (auto simp: trim_right_def)
  then show ?thesis by (simp add: trim_right_def)
qed

lemma TrimSpace_id:
  "s = [] \<or> (33 \<le> byte (hd s) \<and> byte (hd s) < 127 \<and> 33 \<le> byte (last s) \<and> byte (last s) < 127)
   \<Longrightarrow> TrimSpace s = s"
  by (auto simp: TrimSpace_def trim_left_id trim_right_id)

lemma TrimSpace_graph: "graph_ascii s \<Longrightarrow> TrimSpace s = s"
  by (rule TrimSpace_id) (auto simp: graph_ascii_def list_all_iff)

lemma graph_ascii_is_ascii: "graph_ascii s \<Longrightarrow> is_ascii s"
  by (auto simp: graph_ascii_def is_ascii_def list_all_iff)

subsection \<open>Lower case\<close>

definition lower_byte :: "char \<Rightarrow> char" where
  "lower_byte c = (if 65 \<le> byte c \<and> byte c \<le> 90 then char_of (byte c + 32) else c)"

text \<open>
  The non-ASCII part of \<open>unicode.ToLower\<close> (Unicode 15): runes \<open>lo, lo + stride, \<dots>, hi\<close> map
  to themselves plus a constant.
\<close>

definition lower_table :: "(nat \<times> nat \<times> nat \<times> int) list" where
  "lower_table =
   [(192, 214, 1, 32), (216, 222, 1, 32), (256, 302, 2, 1), (304, 304, 1, - 199),
    (306, 310, 2, 1), (313, 327, 2, 1), (330, 374, 2, 1), (376, 376, 1, - 121), (377, 381, 2, 1),
    (385, 385, 1, 210), (386, 388, 2, 1), (390, 390, 1, 206), (391, 391, 1, 1),
    (393, 394, 1, 205), (395, 395, 1, 1), (398, 398, 1, 79), (399, 399, 1, 202),
    (400, 400, 1, 203), (401, 401, 1, 1), (403, 403, 1, 205), (404, 404, 1, 207),
    (406, 406, 1, 211), (407, 407, 1, 209), (408, 408, 1, 1), (412, 412, 1, 211),
    (413, 413, 1, 213), (415, 415, 1, 214), (416, 420, 2, 1), (422, 422, 1, 218),
    (423, 423, 1, 1), (425, 425, 1, 218), (428, 428, 1, 1), (430, 430, 1, 218), (431, 431, 1, 1),
    (433, 434, 1, 217), (435, 437, 2, 1), (439, 439, 1, 219), (440, 440, 1, 1), (444, 444, 1, 1),
    (452, 452, 1, 2), (453, 453, 1, 1), (455, 455, 1, 2), (456, 456, 1, 1), (458, 458, 1, 2),
    (459, 475, 2, 1), (478, 494, 2, 1), (497, 497, 1, 2), (498, 500, 2, 1), (502, 502, 1, - 97),
    (503, 503, 1, - 56), (504, 542, 2, 1), (544, 544, 1, - 130), (546, 562, 2, 1),
    (570, 570, 1, 10795), (571, 571, 1, 1), (573, 573, 1, - 163), (574, 574, 1, 10792),
    (577, 577, 1, 1), (579, 579, 1, - 195), (580, 580, 1, 69), (581, 581, 1, 71),
    (582, 590, 2, 1), (880, 882, 2, 1), (886, 886, 1, 1), (895, 895, 1, 116), (902, 902, 1, 38),
    (904, 906, 1, 37), (908, 908, 1, 64), (910, 911, 1, 63), (913, 929, 1, 32),
    (931, 939, 1, 32), (975, 975, 1, 8), (984, 1006, 2, 1), (1012, 1012, 1, - 60),
    (1015, 1015, 1, 1), (1017, 1017, 1, - 7), (1018, 1018, 1, 1), (1021, 1023, 1, - 130),
    (1024, 1039, 1, 80), (1040, 1071, 1, 32), (1120, 1152, 2, 1), (1162, 1214, 2, 1),
    (1216, 1216, 1, 15), (1217, 1229, 2, 1), (1232, 1326, 2, 1), (1329, 1366, 1, 48),
    (4256, 4293, 1, 7264), (4295, 4295, 1, 7264), (4301, 4301, 1, 7264), (5024, 5103, 1, 38864),
    (5104, 5109, 1, 8), (7312, 7354, 1, - 3008), (7357, 7359, 1, - 3008), (7680, 7828, 2, 1),
    (7838, 7838, 1, - 7615), (7840, 7934, 2, 1), (7944, 7951, 1, - 8), (7960, 7965, 1, - 8),
    (7976, 7983, 1, - 8), (7992, 7999, 1, - 8), (8008, 8013, 1, - 8), (8025, 8031, 2, - 8),
    (8040, 8047, 1, - 8), (8072, 8079, 1, - 8), (8088, 8095, 1, - 8), (8104, 8111, 1, - 8),
    (8120, 8121, 1, - 8), (8122, 8123, 1, - 74), (8124, 8124, 1, - 9), (8136, 8139, 1, - 86),
    (8140, 8140, 1, - 9), (8152, 8153, 1, - 8), (8154, 8155, 1, - 100), (8168, 8169, 1, - 8),
    (8170, 8171, 1, - 112), (8172, 8172, 1, - 7), (8184, 8185, 1, - 128), (8186, 8187, 1, - 126),
    (8188, 8188, 1, - 9), (8486, 8486, 1, - 7517), (8490, 8490, 1, - 8383),
    (8491, 8491, 1, - 8262), (8498, 8498, 1, 28), (8544, 8559, 1, 16), (8579, 8579, 1, 1),
    (9398, 9423, 1, 26), (11264, 11311, 1, 48), (11360, 11360, 1, 1), (11362, 11362, 1, - 10743),
    (11363, 11363, 1, - 3814), (11364, 11364, 1, - 10727), (11367, 11371, 2, 1),
    (11373, 11373, 1, - 10780), (11374, 11374, 1, - 10749), (11375, 11375, 1, - 10783),
    (11376, 11376, 1, - 10782), (11378, 11378, 1, 1), (11381, 11381, 1, 1),
    (11390, 11391, 1, - 10815), (11392, 11490, 2, 1), (11499, 11501, 2, 1), (11506, 11506, 1, 1),
    (42560, 42604, 2, 1), (42624, 42650, 2, 1), (42786, 42798, 2, 1), (42802, 42862, 2, 1),
    (42873, 42875, 2, 1), (42877, 42877, 1, - 35332), (42878, 42886, 2, 1), (42891, 42891, 1, 1),
    (42893, 42893, 1, - 42280), (42896, 42898, 2, 1), (42902, 42920, 2, 1),
    (42922, 42922, 1, - 42308), (42923, 42923, 1, - 42319), (42924, 42924, 1, - 42315),
    (42925, 42925, 1, - 42305), (42926, 42926, 1, - 42308), (42928, 42928, 1, - 42258),
    (42929, 42929, 1, - 42282), (42930, 42930, 1, - 42261), (42931, 42931, 1, 928),
    (42932, 42946, 2, 1), (42948, 42948, 1, - 48), (42949, 42949, 1, - 42307),
    (42950, 42950, 1, - 35384), (42951, 42953, 2, 1), (42960, 42960, 1, 1), (42966, 42968, 2, 1),
    (42997, 42997, 1, 1), (65313, 65338, 1, 32), (66560, 66599, 1, 40), (66736, 66771, 1, 40),
    (66928, 66964, 2, 39), (66929, 66937, 2, 39), (66941, 66953, 2, 39), (66957, 66961, 2, 39),
    (66965, 66965, 1, 39), (68736, 68786, 1, 64), (71840, 71871, 1, 32), (93760, 93791, 1, 32),
    (125184, 125217, 1, 34)]"

definition rune_to_lower :: "nat \<Rightarrow> nat" where
  "rune_to_lower r =
     (if r < 128 then (if 65 \<le> r \<and> r \<le> 90 then r + 32 else r)
      else case find (\<lambda>(lo, hi, stride, _). lo \<le> r \<and> r \<le> hi \<and> (r - lo) mod stride = 0) lower_table of
             None \<Rightarrow> r
           | Some (_, _, _, d) \<Rightarrow> nat (int r + d))"

text \<open>\<open>strings.ToLower\<close>: bytewise on ASCII, otherwise \<open>strings.Map\<close> over the runes, which
  writes an invalid byte as the encoding of U+FFFD.\<close>

definition ToLower :: "string \<Rightarrow> string" where
  "ToLower s =
     (if is_ascii s then map lower_byte s else string_of_runes (map rune_to_lower (runes s)))"

lemma lower_byte_idem [simp]: "lower_byte (lower_byte c) = lower_byte c"
  by (simp add: lower_byte_def)

lemma byte_lower_byte_less: "byte c < 128 \<Longrightarrow> byte (lower_byte c) < 128"
  by (simp add: lower_byte_def)

lemma ToLower_ascii [simp]: "is_ascii s \<Longrightarrow> ToLower s = map lower_byte s"
  by (simp add: ToLower_def)

definition lower_ascii :: "string \<Rightarrow> bool" where
  "lower_ascii s \<longleftrightarrow> list_all (\<lambda>c. byte c < 128 \<and> \<not> (65 \<le> byte c \<and> byte c \<le> 90)) s"

lemma ToLower_id: "lower_ascii s \<Longrightarrow> ToLower s = s"
proof -
  assume s: "lower_ascii s"
  then have "is_ascii s" by (auto simp: lower_ascii_def is_ascii_def list_all_iff)
  moreover from s have "map lower_byte s = s"
    by (intro map_idI) (auto simp: lower_ascii_def lower_byte_def list_all_iff)
  ultimately show ?thesis by simp
qed

subsection \<open>Searching, replacing and joining\<close>

definition HasPrefix :: "string \<Rightarrow> string \<Rightarrow> bool" where
  "HasPrefix s p \<longleftrightarrow> prefix p s"

definition HasSuffix :: "string \<Rightarrow> string \<Rightarrow> bool" where
  "HasSuffix s p \<longleftrightarrow> suffix p s"

definition Contains :: "string \<Rightarrow> string \<Rightarrow> bool" where
  "Contains s p \<longleftrightarrow> sublist p s"

definition TrimPrefix :: "string \<Rightarrow> string \<Rightarrow> string" where
  "TrimPrefix s p = (if prefix p s then drop (length p) s else s)"

definition TrimSuffix :: "string \<Rightarrow> string \<Rightarrow> string" where
  "TrimSuffix s p = (if suffix p s then take (length s - length p) s else s)"

text \<open>\<open>strings.ContainsAny(s, chars)\<close> with ASCII \<open>chars\<close>, which is how the code calls it:
  UTF-8 never uses an ASCII byte inside a longer sequence.\<close>

definition ContainsAny :: "string \<Rightarrow> string \<Rightarrow> bool" where
  "ContainsAny s chars \<longleftrightarrow> list_ex (\<lambda>c. c \<in> set chars) s"

text \<open>\<open>strings.ReplaceAll(s, c, "")\<close> for a one-byte \<open>c\<close>.\<close>

definition remove_byte :: "char \<Rightarrow> string \<Rightarrow> string" where
  "remove_byte c s = filter (\<lambda>d. d \<noteq> c) s"

text \<open>\<open>strings.TrimRight\<close> and \<open>strings.TrimLeft\<close> with a one-byte cutset.\<close>

definition trim_right_byte :: "char \<Rightarrow> string \<Rightarrow> string" where
  "trim_right_byte c s = rev (dropWhile (\<lambda>d. d = c) (rev s))"

definition trim_left_byte :: "char \<Rightarrow> string \<Rightarrow> string" where
  "trim_left_byte c s = dropWhile (\<lambda>d. d = c) s"

fun Join :: "string list \<Rightarrow> string \<Rightarrow> string" where
  "Join [] sep = []"
| "Join [x] sep = x"
| "Join (x # y # ys) sep = x @ sep @ Join (y # ys) sep"

text \<open>\<open>strings.Split\<close> with a one-byte separator.\<close>

fun split_byte :: "char \<Rightarrow> string \<Rightarrow> string list" where
  "split_byte c [] = [[]]"
| "split_byte c (d # s) =
     (if d = c then [] # split_byte c s
      else case split_byte c s of [] \<Rightarrow> [[d]] | w # ws \<Rightarrow> (d # w) # ws)"

lemma split_byte_not_Nil [simp]: "split_byte c s \<noteq> []"
  by (induction s) (auto split: list.splits)

lemma Join_split_byte: "Join (split_byte c s) [c] = s"
proof (induction s)
  case Nil
  show ?case by simp
next
  case (Cons d s)
  then show ?case
    by (cases "split_byte c s" rule: remdups_adj.cases) (auto split: list.splits)
qed

lemma split_byte_append:
  "c \<notin> set a \<Longrightarrow> split_byte c (a @ c # s) = a # split_byte c s"
  by (induction a) auto

lemma split_byte_id: "c \<notin> set a \<Longrightarrow> split_byte c a = [a]"
  by (induction a) auto

lemma split_byte_Join:
  "ws \<noteq> [] \<Longrightarrow> (\<And>w. w \<in> set ws \<Longrightarrow> c \<notin> set w) \<Longrightarrow> split_byte c (Join ws [c]) = ws"
  by (induction ws "[c]" rule: Join.induct) (auto simp: split_byte_append split_byte_id)

lemma split_byte_no_sep: "w \<in> set (split_byte c s) \<Longrightarrow> c \<notin> set w"
  by (induction s arbitrary: w) (auto split: if_splits list.splits)

text \<open>\<open>strings.Cut\<close> and \<open>strings.IndexByte\<close>: the part before the first separator and the rest.\<close>

definition cut_byte :: "char \<Rightarrow> string \<Rightarrow> (string \<times> string) option" where
  "cut_byte c s =
     (if c \<in> set s then Some (takeWhile (\<lambda>d. d \<noteq> c) s, tl (dropWhile (\<lambda>d. d \<noteq> c) s)) else None)"

lemma cut_byte_Some: "cut_byte c s = Some (a, b) \<Longrightarrow> s = a @ c # b \<and> c \<notin> set a"
proof -
  assume c: "cut_byte c s = Some (a, b)"
  then have *: "c \<in> set s" "a = takeWhile (\<lambda>d. d \<noteq> c) s" "b = tl (dropWhile (\<lambda>d. d \<noteq> c) s)"
    by (auto simp: cut_byte_def split: if_splits)
  then have "dropWhile (\<lambda>d. d \<noteq> c) s \<noteq> []" "hd (dropWhile (\<lambda>d. d \<noteq> c) s) = c"
    using hd_dropWhile [of "\<lambda>d. d \<noteq> c" s] by auto
  then have "dropWhile (\<lambda>d. d \<noteq> c) s = c # b"
    using *(3) by (metis list.collapse)
  then have "s = a @ c # b"
    using *(2) takeWhile_dropWhile_id [of "\<lambda>d. d \<noteq> c" s] by simp
  moreover have "c \<notin> set a"
    using *(2) by (auto dest: set_takeWhileD)
  ultimately show ?thesis by simp
qed

lemma cut_byte_append: "c \<notin> set a \<Longrightarrow> cut_byte c (a @ c # b) = Some (a, b)"
  by (simp add: cut_byte_def takeWhile_append dropWhile_append)

subsection \<open>Characters of an identifier\<close>

text \<open>The byte class \<open>[0-9a-f]\<close> of the code's regular expressions.\<close>

definition hex_byte :: "char \<Rightarrow> bool" where
  "hex_byte c \<longleftrightarrow> 48 \<le> byte c \<and> byte c \<le> 57 \<or> 97 \<le> byte c \<and> byte c \<le> 102"

text \<open>A match of \<open>^[0-9a-f]{n}$\<close>.\<close>

definition hex_pattern :: "nat \<Rightarrow> string \<Rightarrow> bool" where
  "hex_pattern n s \<longleftrightarrow> length s = n \<and> list_all hex_byte s"

lemma hex_byte_graph: "hex_byte c \<Longrightarrow> 33 \<le> byte c \<and> byte c < 127 \<and> \<not> (65 \<le> byte c \<and> byte c \<le> 90)"
  by (auto simp: hex_byte_def)

lemma hex_pattern_graph: "list_all hex_byte s \<Longrightarrow> graph_ascii s"
  by (auto simp: graph_ascii_def list_all_iff dest!: hex_byte_graph)

lemma hex_pattern_lower: "list_all hex_byte s \<Longrightarrow> lower_ascii s"
  by (auto simp: lower_ascii_def list_all_iff dest!: hex_byte_graph)

text \<open>\<open>unicode.IsControl\<close> on a rune, and the code's own test for \<open>visibleString\<close> is in the
  domain model.\<close>

definition IsControl :: "nat \<Rightarrow> bool" where
  "IsControl r \<longleftrightarrow> r < 32 \<or> 127 \<le> r \<and> r < 160"

subsection \<open>Decimal numbers\<close>

fun digits :: "nat \<Rightarrow> string" where
  "digits n = (if n < 10 then [char_of (48 + n)] else digits (n div 10) @ [char_of (48 + n mod 10)])"

declare digits.simps [simp del]

text \<open>\<open>fmt.Sprintf("%d", n)\<close> and \<open>strconv.Itoa\<close>.\<close>

definition itoa :: "int \<Rightarrow> string" where
  "itoa n = (if n < 0 then CHR ''-'' # digits (nat (- n)) else digits (nat n))"

definition digit_byte :: "char \<Rightarrow> bool" where
  "digit_byte c \<longleftrightarrow> 48 \<le> byte c \<and> byte c \<le> 57"

fun decimal_value :: "nat \<Rightarrow> string \<Rightarrow> nat" where
  "decimal_value acc [] = acc"
| "decimal_value acc (c # s) = decimal_value (10 * acc + (byte c - 48)) s"

lemma digits_digit_byte: "list_all digit_byte (digits n)"
proof (induction n rule: digits.induct)
  case (1 n)
  then show ?case
    by (subst digits.simps) (simp add: digit_byte_def [of "char_of _"], linarith)
qed

lemma digits_not_Nil [simp]: "digits n \<noteq> []"
  by (subst digits.simps) simp

lemma decimal_value_append:
  "decimal_value acc (s @ t) = decimal_value (decimal_value acc s) t"
  by (induction s arbitrary: acc) simp_all

lemma decimal_value_digits: "decimal_value 0 (digits n) = n"
proof (induction n rule: digits.induct)
  case (1 n)
  show ?case
  proof (cases "n < 10")
    case True
    then show ?thesis by (subst digits.simps) simp
  next
    case False
    then have "decimal_value 0 (digits (n div 10)) = n div 10" using 1 by simp
    then show ?thesis using False by (subst digits.simps) (simp add: decimal_value_append)
  qed
qed

lemma digits_inj: "digits m = digits n \<longleftrightarrow> m = n"
  by (metis decimal_value_digits)

end
