(* ===== verification/Ids.thy ===== *)
theory Ids
  imports GoStrings
begin

text \<open>
  \<open>internal/domain/ids.go\<close>, \<open>project.go\<close>, \<open>timepoint.go\<close>, \<open>fingerprint.go\<close> and \<open>alert.go\<close>: the
  identifiers. Every identifier is a one-field struct around a normalized UUID, made by one
  constructor and printed in dashed form; the zero value of the struct holds the empty string
  and prints as it. The locale \<open>uuid_id\<close> states what all of them share and is interpreted for
  each of the types.
\<close>

subsection \<open>Normalization and printing of UUIDs\<close>

definition normalizeUUID :: "string \<Rightarrow> string result" where
  "normalizeUUID input =
     (let value = remove_byte CHR ''-'' (ToLower (TrimSpace input))
      in if \<not> hex_pattern 32 value then fail ''invalid uuid'' else ok value)"

text \<open>
  The slices \<open>value[0:8]\<close> up to \<open>value[20:32]\<close> are in range for every value a constructor
  returns: \<open>normalizeUUID_hex\<close> below, with the empty value tested first.
\<close>

definition slice :: "nat \<Rightarrow> nat \<Rightarrow> 'a list \<Rightarrow> 'a list" where
  "slice i j xs = take (j - i) (drop i xs)"

definition dashedUUID :: "string \<Rightarrow> string" where
  "dashedUUID value =
     (if value = [] then []
      else Join [slice 0 8 value, slice 8 12 value, slice 12 16 value, slice 16 20 value,
                 slice 20 32 value] ''-'')"

lemma normalizeUUID_hex: "normalizeUUID s = ok v \<Longrightarrow> hex_pattern 32 v"
  by (auto simp: normalizeUUID_def Let_def split: if_splits)

lemma hex_no_dash: "list_all hex_byte v \<Longrightarrow> remove_byte CHR ''-'' v = v"
  by (induction v) (auto simp: remove_byte_def hex_byte_def)

lemma normalizeUUID_id: "hex_pattern 32 v \<Longrightarrow> normalizeUUID v = ok v"
  by (auto simp: normalizeUUID_def hex_pattern_def hex_no_dash TrimSpace_graph hex_pattern_graph
      ToLower_id hex_pattern_lower)

lemma slices_32: "length v = 32 \<Longrightarrow>
  slice 0 8 v @ slice 8 12 v @ slice 12 16 v @ slice 16 20 v @ slice 20 32 v = v"
proof -
  have "slice i j v @ drop j v = drop i v" if "i \<le> j" for i j
    using append_take_drop_id [of "j - i" "drop i v"] that by (simp add: slice_def)
  from this [of 0 8] this [of 8 12] this [of 12 16] this [of 16 20] this [of 20 32]
  show "length v = 32 \<Longrightarrow> ?thesis" by simp
qed

lemma set_slice: "set (slice i j v) \<subseteq> set v"
  unfolding slice_def by (meson order_trans set_drop_subset set_take_subset)

lemma remove_dash_dashedUUID:
  assumes "hex_pattern 32 v"
  shows "remove_byte CHR ''-'' (dashedUUID v) = v"
proof -
  have "list_all hex_byte (slice i j v)" for i j
    using assms set_slice [of i j v] by (auto simp: hex_pattern_def list_all_iff)
  then have "remove_byte CHR ''-'' (slice i j v) = slice i j v" for i j
    by (rule hex_no_dash)
  moreover have "v \<noteq> []" using assms by (auto simp: hex_pattern_def)
  ultimately show ?thesis
    using slices_32 [of v] assms
    by (simp add: dashedUUID_def remove_byte_def hex_pattern_def)
qed

lemma dash_byte: "33 \<le> byte CHR ''-'' \<and> byte CHR ''-'' < 127"
  by simp

lemma dashedUUID_chars:
  assumes v: "hex_pattern 32 v" and c: "c \<in> set (dashedUUID v)"
  shows "hex_byte c \<or> c = CHR ''-''"
proof -
  from c have "c = CHR ''-'' \<or> c \<in> set v"
    by (auto simp: dashedUUID_def dest: set_slice [THEN subsetD] split: if_splits)
  with v show ?thesis by (auto simp: hex_pattern_def list_all_iff)
qed

lemma dashedUUID_graph: "hex_pattern 32 v \<Longrightarrow> graph_ascii (dashedUUID v)"
  unfolding graph_ascii_def list_all_iff
  by (metis dashedUUID_chars hex_byte_graph dash_byte)

lemma dashedUUID_lower: "hex_pattern 32 v \<Longrightarrow> lower_ascii (dashedUUID v)"
  unfolding lower_ascii_def list_all_iff
proof
  fix c assume "hex_pattern 32 v" "c \<in> set (dashedUUID v)"
  then have "hex_byte c \<or> c = CHR ''-''" by (rule dashedUUID_chars)
  then show "byte c < 128 \<and> \<not> (65 \<le> byte c \<and> byte c \<le> 90)"
    by (auto simp: hex_byte_def)
qed

lemma normalizeUUID_dashedUUID: "hex_pattern 32 v \<Longrightarrow> normalizeUUID (dashedUUID v) = ok v"
  by (simp add: normalizeUUID_def TrimSpace_graph dashedUUID_graph ToLower_id dashedUUID_lower
      remove_dash_dashedUUID)

lemma dashedUUID_Nil_iff: "dashedUUID v = [] \<longleftrightarrow> v = []"
  by (auto simp: dashedUUID_def)

lemma dashedUUID_inj:
  "hex_pattern 32 v \<Longrightarrow> hex_pattern 32 w \<Longrightarrow> dashedUUID v = dashedUUID w \<longleftrightarrow> v = w"
  by (metis remove_dash_dashedUUID)

lemma length_dashedUUID: "hex_pattern 32 v \<Longrightarrow> length (dashedUUID v) = 36"
  by (auto simp: dashedUUID_def slice_def hex_pattern_def)

subsection \<open>The interface of an identifier type\<close>

text \<open>
  What a type of identifiers promises: its constructor normalizes, its printer writes the
  dashed form, and its struct is determined by the value it holds.
\<close>

locale uuid_id =
  fixes mk :: "string \<Rightarrow> 'i"
    and val :: "'i \<Rightarrow> string"
    and new :: "string \<Rightarrow> 'i result"
    and str :: "'i \<Rightarrow> string"
  assumes val_mk: "val (mk s) = s"
    and mk_val: "mk (val i) = i"
    and new_eq: "new s = rbind (normalizeUUID s) (\<lambda>v. ok (mk v))"
    and str_eq: "str i = dashedUUID (val i)"
begin

lemma new_valid: "new s = ok i \<Longrightarrow> hex_pattern 32 (val i)"
  by (auto simp: new_eq result_simps val_mk dest: normalizeUUID_hex)

lemma roundtrip: "hex_pattern 32 (val i) \<Longrightarrow> new (str i) = ok i"
  by (simp add: new_eq str_eq normalizeUUID_dashedUUID mk_val)

lemma reparse: "new s = ok i \<Longrightarrow> new (str i) = ok i"
  by (rule roundtrip) (rule new_valid)

lemma str_inj: "new s = ok i \<Longrightarrow> new t = ok j \<Longrightarrow> str i = str j \<longleftrightarrow> i = j"
  by (metis new_valid dashedUUID_inj str_eq mk_val)

lemma str_empty: "str i = [] \<longleftrightarrow> val i = []"
  by (simp add: str_eq dashedUUID_Nil_iff)

lemma new_not_empty: "new s = ok i \<Longrightarrow> str i \<noteq> []"
  by (auto simp: str_empty hex_pattern_def dest: new_valid)

end

subsection \<open>The identifier types\<close>

datatype OrganizationID = OrganizationID (OrganizationID_value: string)

datatype ProjectID = ProjectID (ProjectID_value: string)

datatype ProjectKeyID = ProjectKeyID (ProjectKeyID_value: string)

datatype EventID = EventID (EventID_value: string)

datatype IssueID = IssueID (IssueID_value: string)

datatype TelegramDestinationID = TelegramDestinationID (TelegramDestinationID_value: string)

datatype WebhookDestinationID = WebhookDestinationID (WebhookDestinationID_value: string)

datatype EmailDestinationID = EmailDestinationID (EmailDestinationID_value: string)

datatype DiscordDestinationID = DiscordDestinationID (DiscordDestinationID_value: string)

datatype GoogleChatDestinationID = GoogleChatDestinationID (GoogleChatDestinationID_value: string)

datatype NtfyDestinationID = NtfyDestinationID (NtfyDestinationID_value: string)

datatype TeamsDestinationID = TeamsDestinationID (TeamsDestinationID_value: string)

datatype ZulipDestinationID = ZulipDestinationID (ZulipDestinationID_value: string)

datatype AlertRuleID = AlertRuleID (AlertRuleID_value: string)

datatype APITokenID = APITokenID (APITokenID_value: string)

datatype TeamID = TeamID (TeamID_value: string)

datatype NotificationIntentID = NotificationIntentID (NotificationIntentID_value: string)

datatype MonitorID = MonitorID (MonitorID_value: string)

datatype HeartbeatEndpointID = HeartbeatEndpointID (HeartbeatEndpointID_value: string)

datatype StatusPageID = StatusPageID (StatusPageID_value: string)

datatype StatusPageToken = StatusPageToken (StatusPageToken_value: string)

definition NewOrganizationID :: "string \<Rightarrow> OrganizationID result" where
  "NewOrganizationID input = rbind (normalizeUUID input) (\<lambda>value. ok (OrganizationID value))"

definition NewProjectID :: "string \<Rightarrow> ProjectID result" where
  "NewProjectID input = rbind (normalizeUUID input) (\<lambda>value. ok (ProjectID value))"

definition NewProjectKeyID :: "string \<Rightarrow> ProjectKeyID result" where
  "NewProjectKeyID input = rbind (normalizeUUID input) (\<lambda>value. ok (ProjectKeyID value))"

definition NewEventID :: "string \<Rightarrow> EventID result" where
  "NewEventID input = rbind (normalizeUUID input) (\<lambda>value. ok (EventID value))"

definition NewIssueID :: "string \<Rightarrow> IssueID result" where
  "NewIssueID input = rbind (normalizeUUID input) (\<lambda>value. ok (IssueID value))"

definition NewTelegramDestinationID :: "string \<Rightarrow> TelegramDestinationID result" where
  "NewTelegramDestinationID input = rbind (normalizeUUID input) (\<lambda>value. ok (TelegramDestinationID value))"

definition NewWebhookDestinationID :: "string \<Rightarrow> WebhookDestinationID result" where
  "NewWebhookDestinationID input = rbind (normalizeUUID input) (\<lambda>value. ok (WebhookDestinationID value))"

definition NewEmailDestinationID :: "string \<Rightarrow> EmailDestinationID result" where
  "NewEmailDestinationID input = rbind (normalizeUUID input) (\<lambda>value. ok (EmailDestinationID value))"

definition NewDiscordDestinationID :: "string \<Rightarrow> DiscordDestinationID result" where
  "NewDiscordDestinationID input = rbind (normalizeUUID input) (\<lambda>value. ok (DiscordDestinationID value))"

definition NewGoogleChatDestinationID :: "string \<Rightarrow> GoogleChatDestinationID result" where
  "NewGoogleChatDestinationID input = rbind (normalizeUUID input) (\<lambda>value. ok (GoogleChatDestinationID value))"

definition NewNtfyDestinationID :: "string \<Rightarrow> NtfyDestinationID result" where
  "NewNtfyDestinationID input = rbind (normalizeUUID input) (\<lambda>value. ok (NtfyDestinationID value))"

definition NewTeamsDestinationID :: "string \<Rightarrow> TeamsDestinationID result" where
  "NewTeamsDestinationID input = rbind (normalizeUUID input) (\<lambda>value. ok (TeamsDestinationID value))"

definition NewZulipDestinationID :: "string \<Rightarrow> ZulipDestinationID result" where
  "NewZulipDestinationID input = rbind (normalizeUUID input) (\<lambda>value. ok (ZulipDestinationID value))"

definition NewAlertRuleID :: "string \<Rightarrow> AlertRuleID result" where
  "NewAlertRuleID input = rbind (normalizeUUID input) (\<lambda>value. ok (AlertRuleID value))"

definition NewAPITokenID :: "string \<Rightarrow> APITokenID result" where
  "NewAPITokenID input = rbind (normalizeUUID input) (\<lambda>value. ok (APITokenID value))"

definition NewTeamID :: "string \<Rightarrow> TeamID result" where
  "NewTeamID input = rbind (normalizeUUID input) (\<lambda>value. ok (TeamID value))"

definition NewNotificationIntentID :: "string \<Rightarrow> NotificationIntentID result" where
  "NewNotificationIntentID input = rbind (normalizeUUID input) (\<lambda>value. ok (NotificationIntentID value))"

definition NewMonitorID :: "string \<Rightarrow> MonitorID result" where
  "NewMonitorID input = rbind (normalizeUUID input) (\<lambda>value. ok (MonitorID value))"

definition NewHeartbeatEndpointID :: "string \<Rightarrow> HeartbeatEndpointID result" where
  "NewHeartbeatEndpointID input = rbind (normalizeUUID input) (\<lambda>value. ok (HeartbeatEndpointID value))"

definition NewStatusPageID :: "string \<Rightarrow> StatusPageID result" where
  "NewStatusPageID input = rbind (normalizeUUID input) (\<lambda>value. ok (StatusPageID value))"

definition NewStatusPageToken :: "string \<Rightarrow> StatusPageToken result" where
  "NewStatusPageToken input = rbind (normalizeUUID input) (\<lambda>value. ok (StatusPageToken value))"

definition OrganizationID_String :: "OrganizationID \<Rightarrow> string" where
  "OrganizationID_String i = dashedUUID (OrganizationID_value i)"

definition ProjectID_String :: "ProjectID \<Rightarrow> string" where
  "ProjectID_String i = dashedUUID (ProjectID_value i)"

definition ProjectKeyID_String :: "ProjectKeyID \<Rightarrow> string" where
  "ProjectKeyID_String i = dashedUUID (ProjectKeyID_value i)"

definition EventID_String :: "EventID \<Rightarrow> string" where
  "EventID_String i = dashedUUID (EventID_value i)"

definition IssueID_String :: "IssueID \<Rightarrow> string" where
  "IssueID_String i = dashedUUID (IssueID_value i)"

definition TelegramDestinationID_String :: "TelegramDestinationID \<Rightarrow> string" where
  "TelegramDestinationID_String i = dashedUUID (TelegramDestinationID_value i)"

definition WebhookDestinationID_String :: "WebhookDestinationID \<Rightarrow> string" where
  "WebhookDestinationID_String i = dashedUUID (WebhookDestinationID_value i)"

definition EmailDestinationID_String :: "EmailDestinationID \<Rightarrow> string" where
  "EmailDestinationID_String i = dashedUUID (EmailDestinationID_value i)"

definition DiscordDestinationID_String :: "DiscordDestinationID \<Rightarrow> string" where
  "DiscordDestinationID_String i = dashedUUID (DiscordDestinationID_value i)"

definition GoogleChatDestinationID_String :: "GoogleChatDestinationID \<Rightarrow> string" where
  "GoogleChatDestinationID_String i = dashedUUID (GoogleChatDestinationID_value i)"

definition NtfyDestinationID_String :: "NtfyDestinationID \<Rightarrow> string" where
  "NtfyDestinationID_String i = dashedUUID (NtfyDestinationID_value i)"

definition TeamsDestinationID_String :: "TeamsDestinationID \<Rightarrow> string" where
  "TeamsDestinationID_String i = dashedUUID (TeamsDestinationID_value i)"

definition ZulipDestinationID_String :: "ZulipDestinationID \<Rightarrow> string" where
  "ZulipDestinationID_String i = dashedUUID (ZulipDestinationID_value i)"

definition AlertRuleID_String :: "AlertRuleID \<Rightarrow> string" where
  "AlertRuleID_String i = dashedUUID (AlertRuleID_value i)"

definition APITokenID_String :: "APITokenID \<Rightarrow> string" where
  "APITokenID_String i = dashedUUID (APITokenID_value i)"

definition TeamID_String :: "TeamID \<Rightarrow> string" where
  "TeamID_String i = dashedUUID (TeamID_value i)"

definition NotificationIntentID_String :: "NotificationIntentID \<Rightarrow> string" where
  "NotificationIntentID_String i = dashedUUID (NotificationIntentID_value i)"

definition MonitorID_String :: "MonitorID \<Rightarrow> string" where
  "MonitorID_String i = dashedUUID (MonitorID_value i)"

definition HeartbeatEndpointID_String :: "HeartbeatEndpointID \<Rightarrow> string" where
  "HeartbeatEndpointID_String i = dashedUUID (HeartbeatEndpointID_value i)"

definition StatusPageID_String :: "StatusPageID \<Rightarrow> string" where
  "StatusPageID_String i = dashedUUID (StatusPageID_value i)"

definition StatusPageToken_String :: "StatusPageToken \<Rightarrow> string" where
  "StatusPageToken_String i = dashedUUID (StatusPageToken_value i)"

definition EventID_Hex :: "EventID \<Rightarrow> string" where
  "EventID_Hex i = EventID_value i"

interpretation organizationID: uuid_id OrganizationID OrganizationID_value NewOrganizationID OrganizationID_String
  by unfold_locales (simp_all add: NewOrganizationID_def OrganizationID_String_def)

interpretation projectID: uuid_id ProjectID ProjectID_value NewProjectID ProjectID_String
  by unfold_locales (simp_all add: NewProjectID_def ProjectID_String_def)

interpretation projectKeyID: uuid_id ProjectKeyID ProjectKeyID_value NewProjectKeyID ProjectKeyID_String
  by unfold_locales (simp_all add: NewProjectKeyID_def ProjectKeyID_String_def)

interpretation eventID: uuid_id EventID EventID_value NewEventID EventID_String
  by unfold_locales (simp_all add: NewEventID_def EventID_String_def)

interpretation issueID: uuid_id IssueID IssueID_value NewIssueID IssueID_String
  by unfold_locales (simp_all add: NewIssueID_def IssueID_String_def)

interpretation telegramDestinationID: uuid_id TelegramDestinationID TelegramDestinationID_value NewTelegramDestinationID TelegramDestinationID_String
  by unfold_locales (simp_all add: NewTelegramDestinationID_def TelegramDestinationID_String_def)

interpretation webhookDestinationID: uuid_id WebhookDestinationID WebhookDestinationID_value NewWebhookDestinationID WebhookDestinationID_String
  by unfold_locales (simp_all add: NewWebhookDestinationID_def WebhookDestinationID_String_def)

interpretation emailDestinationID: uuid_id EmailDestinationID EmailDestinationID_value NewEmailDestinationID EmailDestinationID_String
  by unfold_locales (simp_all add: NewEmailDestinationID_def EmailDestinationID_String_def)

interpretation discordDestinationID: uuid_id DiscordDestinationID DiscordDestinationID_value NewDiscordDestinationID DiscordDestinationID_String
  by unfold_locales (simp_all add: NewDiscordDestinationID_def DiscordDestinationID_String_def)

interpretation googleChatDestinationID: uuid_id GoogleChatDestinationID GoogleChatDestinationID_value NewGoogleChatDestinationID GoogleChatDestinationID_String
  by unfold_locales (simp_all add: NewGoogleChatDestinationID_def GoogleChatDestinationID_String_def)

interpretation ntfyDestinationID: uuid_id NtfyDestinationID NtfyDestinationID_value NewNtfyDestinationID NtfyDestinationID_String
  by unfold_locales (simp_all add: NewNtfyDestinationID_def NtfyDestinationID_String_def)

interpretation teamsDestinationID: uuid_id TeamsDestinationID TeamsDestinationID_value NewTeamsDestinationID TeamsDestinationID_String
  by unfold_locales (simp_all add: NewTeamsDestinationID_def TeamsDestinationID_String_def)

interpretation zulipDestinationID: uuid_id ZulipDestinationID ZulipDestinationID_value NewZulipDestinationID ZulipDestinationID_String
  by unfold_locales (simp_all add: NewZulipDestinationID_def ZulipDestinationID_String_def)

interpretation alertRuleID: uuid_id AlertRuleID AlertRuleID_value NewAlertRuleID AlertRuleID_String
  by unfold_locales (simp_all add: NewAlertRuleID_def AlertRuleID_String_def)

interpretation apiTokenID: uuid_id APITokenID APITokenID_value NewAPITokenID APITokenID_String
  by unfold_locales (simp_all add: NewAPITokenID_def APITokenID_String_def)

interpretation teamID: uuid_id TeamID TeamID_value NewTeamID TeamID_String
  by unfold_locales (simp_all add: NewTeamID_def TeamID_String_def)

interpretation notificationIntentID: uuid_id NotificationIntentID NotificationIntentID_value NewNotificationIntentID NotificationIntentID_String
  by unfold_locales (simp_all add: NewNotificationIntentID_def NotificationIntentID_String_def)

interpretation monitorID: uuid_id MonitorID MonitorID_value NewMonitorID MonitorID_String
  by unfold_locales (simp_all add: NewMonitorID_def MonitorID_String_def)

interpretation heartbeatEndpointID: uuid_id HeartbeatEndpointID HeartbeatEndpointID_value NewHeartbeatEndpointID HeartbeatEndpointID_String
  by unfold_locales (simp_all add: NewHeartbeatEndpointID_def HeartbeatEndpointID_String_def)

interpretation statusPageID: uuid_id StatusPageID StatusPageID_value NewStatusPageID StatusPageID_String
  by unfold_locales (simp_all add: NewStatusPageID_def StatusPageID_String_def)

interpretation statusPageToken: uuid_id StatusPageToken StatusPageToken_value NewStatusPageToken StatusPageToken_String
  by unfold_locales (simp_all add: NewStatusPageToken_def StatusPageToken_String_def)

subsection \<open>Time points\<close>

text \<open>
  \<open>time.Time\<close> is modelled by its instant, in nanoseconds after Go's zero time, as an integer:
  \<open>IsZero\<close> is being 0, \<open>UTC\<close> changes the location and not the instant, \<open>Add\<close>, \<open>Sub\<close>, \<open>Before\<close>
  and \<open>After\<close> are integer arithmetic. A \<open>time.Duration\<close> is an integer of nanoseconds.
\<close>

type_synonym gotime = int
type_synonym duration = int

abbreviation IsZero :: "gotime \<Rightarrow> bool" where
  "IsZero t \<equiv> t = 0"

definition UTC :: "gotime \<Rightarrow> gotime" where
  "UTC t = t"

definition second :: duration where "second = 1000000000"
definition minute :: duration where "minute = 60 * second"
definition hour :: duration where "hour = 60 * minute"

lemmas duration_units = second_def minute_def hour_def

datatype TimePoint = TimePoint (TimePoint_value: gotime)

definition NewTimePoint :: "gotime \<Rightarrow> TimePoint result" where
  "NewTimePoint value =
     (if IsZero value then fail ''time point is required'' else ok (TimePoint (UTC value)))"

definition TimePoint_Time :: "TimePoint \<Rightarrow> gotime" where
  "TimePoint_Time point = TimePoint_value point"

lemma NewTimePoint_ok: "NewTimePoint t = ok p \<longleftrightarrow> t \<noteq> 0 \<and> p = TimePoint t"
  by (auto simp: NewTimePoint_def UTC_def)

subsection \<open>Projects\<close>

datatype ProjectRef = ProjectRef (ProjectRef_value: string)

datatype ProjectPublicKey = ProjectPublicKey (ProjectPublicKey_value: string)

record ProjectAuth =
  auth_organizationID :: OrganizationID
  auth_projectID :: ProjectID
  auth_scrubIP :: bool

definition NewProjectRef :: "string \<Rightarrow> ProjectRef result" where
  "NewProjectRef input =
     (let value = TrimSpace input
      in if value = [] then fail ''project ref is required'' else ok (ProjectRef value))"

definition NewProjectPublicKey :: "string \<Rightarrow> ProjectPublicKey result" where
  "NewProjectPublicKey input = rbind (normalizeUUID input) (\<lambda>value. ok (ProjectPublicKey value))"

definition ProjectPublicKey_String :: "ProjectPublicKey \<Rightarrow> string" where
  "ProjectPublicKey_String key = dashedUUID (ProjectPublicKey_value key)"

definition ProjectPublicKey_Hex :: "ProjectPublicKey \<Rightarrow> string" where
  "ProjectPublicKey_Hex key = ProjectPublicKey_value key"

interpretation projectPublicKey: uuid_id ProjectPublicKey ProjectPublicKey_value
  NewProjectPublicKey ProjectPublicKey_String
  by unfold_locales (simp_all add: NewProjectPublicKey_def ProjectPublicKey_String_def)

definition NewProjectAuthWithPolicy ::
  "OrganizationID \<Rightarrow> ProjectID \<Rightarrow> bool \<Rightarrow> ProjectAuth result" where
  "NewProjectAuthWithPolicy organizationID projectID scrubIP =
     (if OrganizationID_value organizationID = [] then fail ''organization id is required''
      else if ProjectID_value projectID = [] then fail ''project id is required''
      else ok \<lparr>auth_organizationID = organizationID, auth_projectID = projectID,
               auth_scrubIP = scrubIP\<rparr>)"

definition NewProjectAuth :: "OrganizationID \<Rightarrow> ProjectID \<Rightarrow> ProjectAuth result" where
  "NewProjectAuth organizationID projectID =
     NewProjectAuthWithPolicy organizationID projectID True"

subsection \<open>Fingerprints\<close>

record Fingerprint =
  fingerprint_algorithm :: string
  fingerprint_value :: string

definition NewFingerprint :: "string \<Rightarrow> string \<Rightarrow> Fingerprint result" where
  "NewFingerprint algorithm0 value0 =
     (let algorithm = TrimSpace algorithm0;
          value = TrimSpace (ToLower value0)
      in if algorithm = [] then fail ''fingerprint algorithm is required''
         else if \<not> hex_pattern 64 value then fail ''fingerprint value must be sha256 hex''
         else ok \<lparr>fingerprint_algorithm = algorithm, fingerprint_value = value\<rparr>)"

lemma NewFingerprint_hex:
  "hex_pattern 64 v \<Longrightarrow> TrimSpace a \<noteq> [] \<Longrightarrow>
   NewFingerprint a v = ok \<lparr>fingerprint_algorithm = TrimSpace a, fingerprint_value = v\<rparr>"
  by (simp add: NewFingerprint_def hex_pattern_def ToLower_id hex_pattern_lower TrimSpace_graph
      hex_pattern_graph)

lemma NewFingerprint_valid:
  "NewFingerprint a v = ok f \<Longrightarrow> fingerprint_algorithm f \<noteq> [] \<and> hex_pattern 64 (fingerprint_value f)"
  by (auto simp: NewFingerprint_def Let_def split: if_splits)

subsection \<open>Alert rules\<close>

text \<open>\<open>AlertTrigger\<close> and \<open>AlertActionProvider\<close> are string types in the code; any string can be
  converted to one, and \<open>Valid\<close> tells the declared constants apart from the rest.\<close>

datatype AlertRuleName = AlertRuleName (AlertRuleName_value: string)

definition NewAlertRuleName :: "string \<Rightarrow> AlertRuleName result" where
  "NewAlertRuleName input =
     (let value = TrimSpace input
      in if value = [] then fail ''alert rule name is required'' else ok (AlertRuleName value))"

definition AlertTriggerIssueOpened :: string where
  "AlertTriggerIssueOpened = ''issue_opened''"

definition AlertTrigger_Valid :: "string \<Rightarrow> bool" where
  "AlertTrigger_Valid trigger \<longleftrightarrow> trigger = AlertTriggerIssueOpened"

definition AlertActionProviders :: "string list" where
  "AlertActionProviders =
     [''telegram'', ''webhook'', ''email'', ''discord'', ''google_chat'', ''ntfy'',
      ''microsoft_teams'', ''zulip'']"

definition AlertActionProvider_Valid :: "string \<Rightarrow> bool" where
  "AlertActionProvider_Valid provider \<longleftrightarrow> provider \<in> set AlertActionProviders"

end
