(* ===== verification/Sha256.thy ===== *)
theory Sha256
  imports GoStrings
begin

text \<open>
  The standard library's \<open>crypto/sha256\<close> and \<open>encoding/hex\<close>, which the fingerprint and the
  artifact names call (FIPS 180-4). The whole hash is defined on 32-bit words, so the facts the
  code relies on, a digest of 32 bytes and 64 hexadecimal digits, are lemmas and not
  hypotheses. No collision resistance is assumed anywhere: the claims about identities are
  about the hashed text.
\<close>

unbundle bit_operations_syntax

type_synonym u32 = "32 word"

definition sha_k :: "u32 list" where
  "sha_k =
    [1116352408, 1899447441, 3049323471, 3921009573, 961987163, 1508970993,
     2453635748, 2870763221, 3624381080, 310598401, 607225278, 1426881987,
     1925078388, 2162078206, 2614888103, 3248222580, 3835390401, 4022224774,
     264347078, 604807628, 770255983, 1249150122, 1555081692, 1996064986,
     2554220882, 2821834349, 2952996808, 3210313671, 3336571891, 3584528711,
     113926993, 338241895, 666307205, 773529912, 1294757372, 1396182291,
     1695183700, 1986661051, 2177026350, 2456956037, 2730485921, 2820302411,
     3259730800, 3345764771, 3516065817, 3600352804, 4094571909, 275423344,
     430227734, 506948616, 659060556, 883997877, 958139571, 1322822218,
     1537002063, 1747873779, 1955562222, 2024104815, 2227730452, 2361852424,
     2428436474, 2756734187, 3204031479, 3329325298]"

type_synonym sha_state = "u32 \<times> u32 \<times> u32 \<times> u32 \<times> u32 \<times> u32 \<times> u32 \<times> u32"

definition sha_init :: sha_state where
  "sha_init = (0x6a09e667, 0xbb67ae85, 0x3c6ef372, 0xa54ff53a, 0x510e527f, 0x9b05688c,
     0x1f83d9ab, 0x5be0cd19)"

definition rotr32 :: "nat \<Rightarrow> u32 \<Rightarrow> u32" where
  "rotr32 n x = drop_bit n x OR push_bit (32 - n) x"

definition sha_sigma0 :: "u32 \<Rightarrow> u32" where
  "sha_sigma0 x = rotr32 7 x XOR rotr32 18 x XOR drop_bit 3 x"

definition sha_sigma1 :: "u32 \<Rightarrow> u32" where
  "sha_sigma1 x = rotr32 17 x XOR rotr32 19 x XOR drop_bit 10 x"

definition sha_Sigma0 :: "u32 \<Rightarrow> u32" where
  "sha_Sigma0 x = rotr32 2 x XOR rotr32 13 x XOR rotr32 22 x"

definition sha_Sigma1 :: "u32 \<Rightarrow> u32" where
  "sha_Sigma1 x = rotr32 6 x XOR rotr32 11 x XOR rotr32 25 x"

definition sha_ch :: "u32 \<Rightarrow> u32 \<Rightarrow> u32 \<Rightarrow> u32" where
  "sha_ch x y z = (x AND y) XOR (NOT x AND z)"

definition sha_maj :: "u32 \<Rightarrow> u32 \<Rightarrow> u32 \<Rightarrow> u32" where
  "sha_maj x y z = (x AND y) XOR (x AND z) XOR (y AND z)"

subsection \<open>Padding and blocks\<close>

definition be_bytes :: "nat \<Rightarrow> nat \<Rightarrow> nat list" where
  "be_bytes n x = rev (map (\<lambda>i. x div 256 ^ i mod 256) [0..<n])"

definition sha_pad :: "nat list \<Rightarrow> nat list" where
  "sha_pad m =
     m @ [128] @ replicate ((119 - length m mod 64) mod 64) 0 @ be_bytes 8 (8 * length m)"

fun be_words :: "nat list \<Rightarrow> u32 list" where
  "be_words (a # b # c # d # r) =
     (((of_nat a * 256 + of_nat b) * 256 + of_nat c) * 256 + of_nat d) # be_words r"
| "be_words _ = []"

fun sha_extend :: "nat \<Rightarrow> u32 list \<Rightarrow> u32 list" where
  "sha_extend 0 w = w"
| "sha_extend (Suc n) w =
     sha_extend n (w @ [sha_sigma1 (w ! (length w - 2)) + w ! (length w - 7)
                        + sha_sigma0 (w ! (length w - 15)) + w ! (length w - 16)])"

fun sha_round :: "u32 \<times> u32 \<Rightarrow> sha_state \<Rightarrow> sha_state" where
  "sha_round (k, w) (a, b, c, d, e, f, g, h) =
     (let t1 = h + sha_Sigma1 e + sha_ch e f g + k + w;
          t2 = sha_Sigma0 a + sha_maj a b c
      in (t1 + t2, a, b, c, d + t1, e, f, g))"

fun sha_add :: "sha_state \<Rightarrow> sha_state \<Rightarrow> sha_state" where
  "sha_add (a, b, c, d, e, f, g, h) (a', b', c', d', e', f', g', h') =
     (a + a', b + b', c + c', d + d', e + e', f + f', g + g', h + h')"

definition sha_block :: "nat list \<Rightarrow> sha_state \<Rightarrow> sha_state" where
  "sha_block blk st = sha_add st (fold sha_round (zip sha_k (sha_extend 48 (be_words blk))) st)"

function sha_blocks :: "nat list \<Rightarrow> sha_state \<Rightarrow> sha_state" where
  "sha_blocks m st = (if m = [] then st else sha_blocks (drop 64 m) (sha_block (take 64 m) st))"
  by pat_completeness auto
termination
  by (relation "measure (\<lambda>(m, st). length m)") auto

declare sha_blocks.simps [simp del]

fun sha_out :: "sha_state \<Rightarrow> nat list" where
  "sha_out (a, b, c, d, e, f, g, h) =
     concat (map (\<lambda>x. be_bytes 4 (unat x)) [a, b, c, d, e, f, g, h])"

text \<open>\<open>sha256.Sum256\<close>, and \<open>hex.EncodeToString\<close>.\<close>

definition Sum256 :: "string \<Rightarrow> string" where
  "Sum256 s = map char_of (sha_out (sha_blocks (sha_pad (map of_char s)) sha_init))"

definition hex_digit :: "nat \<Rightarrow> char" where
  "hex_digit n = (if n < 10 then char_of (48 + n) else char_of (87 + n))"

definition hex_encode :: "string \<Rightarrow> string" where
  "hex_encode s = concat (map (\<lambda>c. [hex_digit (byte c div 16), hex_digit (byte c mod 16)]) s)"

definition sha256_hex :: "string \<Rightarrow> string" where
  "sha256_hex s = hex_encode (Sum256 s)"

subsection \<open>The shape of a digest\<close>

lemma length_be_bytes [simp]: "length (be_bytes n x) = n"
  by (simp add: be_bytes_def)

lemma length_sha_out: "length (sha_out st) = 32"
  by (cases st rule: sha_out.cases) simp

lemma length_Sum256 [simp]: "length (Sum256 s) = 32"
  by (simp add: Sum256_def length_sha_out)

lemma length_hex_encode [simp]: "length (hex_encode s) = 2 * length s"
  by (induction s) (auto simp: hex_encode_def)

lemma hex_digit_hex_byte: "n < 16 \<Longrightarrow> hex_byte (hex_digit n)"
  by (auto simp: hex_digit_def hex_byte_def)

lemma hex_encode_hex_byte: "list_all hex_byte (hex_encode s)"
proof -
  have "byte c div 16 < 16" for c
    using byte_less [of c] by (simp add: less_mult_imp_div_less)
  then show ?thesis
    by (induction s) (auto simp: hex_encode_def intro!: hex_digit_hex_byte)
qed

lemma char_of_eq_iff_small: "m < 256 \<Longrightarrow> n < 256 \<Longrightarrow> (char_of m :: char) = char_of n \<longleftrightarrow> m = (n :: nat)"
  by (simp add: char_of_eq_iff take_bit_nat_eq_self)

lemma hex_digit_inj: "m < 16 \<Longrightarrow> n < 16 \<Longrightarrow> hex_digit m = hex_digit n \<longleftrightarrow> m = n"
  by (auto simp: hex_digit_def char_of_eq_iff_small split: if_splits)

lemma hex_encode_inj: "hex_encode s = hex_encode t \<Longrightarrow> s = t"
proof (induction s arbitrary: t)
  case Nil
  then show ?case by (cases t) (auto simp: hex_encode_def)
next
  case (Cons c s)
  then obtain d u where t: "t = d # u" by (cases t) (auto simp: hex_encode_def)
  have small: "byte x div 16 < 16" for x
    using byte_less [of x] by (simp add: less_mult_imp_div_less)
  from Cons.prems t have "byte c div 16 = byte d div 16" "byte c mod 16 = byte d mod 16"
    and *: "hex_encode s = hex_encode u"
    by (auto simp: hex_encode_def hex_digit_inj small)
  then have "byte c = byte d" by (metis div_mult_mod_eq)
  with Cons.IH [OF *] t show ?case by simp
qed

lemma hex_pattern_sha256_hex: "hex_pattern 64 (sha256_hex s)"
  by (simp add: hex_pattern_def sha256_hex_def hex_encode_hex_byte)

lemma length_sha256_hex [simp]: "length (sha256_hex s) = 64"
  using hex_pattern_sha256_hex [of s] by (simp add: hex_pattern_def)

lemma sha256_hex_bytes [simp]: "list_all hex_byte (sha256_hex s)"
  using hex_pattern_sha256_hex [of s] by (simp add: hex_pattern_def)

lemma sha256_hex_not_Nil [simp]: "sha256_hex s \<noteq> []"
  using length_sha256_hex [of s] by (metis list.size(3) zero_neq_numeral)

end
