(* ===== verification/Artifacts.thy ===== *)
theory Artifacts
  imports Ids Sha256
begin

text \<open>
  \<open>internal/domain/artifact.go\<close>, \<open>sourcemap.go\<close>, \<open>debugfile.go\<close>, \<open>minidump.go\<close> and
  \<open>event_attachment.go\<close>: the names under which artifacts are stored. A name is accepted by a
  constructor that trims it and checks it; the locale \<open>text_value\<close> states what such a
  constructor promises. The identities (release, dist and file of a source map; debug id, kind
  and file of a debug file; event and attachment of a minidump) are hashed into artifact names.
\<close>

subsection \<open>Checks on text\<close>

definition visible_rune :: "nat \<Rightarrow> bool" where
  "visible_rune r \<longleftrightarrow> \<not> (r < 32 \<or> r = 127)"

text \<open>\<open>visibleString\<close> of \<open>sourcemap.go\<close>: the loop over the runes returns at the first control
  character.\<close>

definition visibleString :: "string \<Rightarrow> bool" where
  "visibleString input \<longleftrightarrow> list_all visible_rune (runes input)"

lemma decode_rune_bytes:
  assumes "s \<noteq> []" and "c \<in> set (take (snd (decode_rune s)) s)" and "byte c < 128"
  shows "decode_rune s = (byte c, 1)"
proof (cases s)
  case Nil
  with assms show ?thesis by simp
next
  case (Cons a r)
  with assms decode_rune_high [of a c r] have "byte a < 128" by auto
  with Cons assms show ?thesis by (simp add: decode_rune_ascii)
qed

lemma ascii_byte_rune: "c \<in> set s \<Longrightarrow> byte c < 128 \<Longrightarrow> byte c \<in> set (runes s)"
proof (induction s rule: rune_steps.induct)
  case (1 s)
  then have s: "s \<noteq> []" by auto
  then have r: "runes s = fst (decode_rune s) # runes (drop (snd (decode_rune s)) s)"
    by (rule runes_step)
  from 1(2) have "c \<in> set (take (snd (decode_rune s)) s) \<or> c \<in> set (drop (snd (decode_rune s)) s)"
    by (metis Un_iff append_take_drop_id set_append)
  then show ?case
  proof
    assume "c \<in> set (take (snd (decode_rune s)) s)"
    with s 1(3) have "decode_rune s = (byte c, 1)" by (intro decode_rune_bytes)
    with r show ?thesis by simp
  next
    assume "c \<in> set (drop (snd (decode_rune s)) s)"
    with s 1 r show ?thesis by simp
  qed
qed

lemma visibleString_no_control:
  "visibleString s \<Longrightarrow> byte c < 32 \<Longrightarrow> c \<notin> set s"
  using ascii_byte_rune [of c s]
  by (auto simp: visibleString_def list_all_iff visible_rune_def)

lemma visibleString_ascii:
  "is_ascii s \<Longrightarrow> visibleString s \<longleftrightarrow> list_all (\<lambda>c. 32 \<le> byte c \<and> byte c \<noteq> 127) s"
  by (auto simp: visibleString_def runes_ascii list_all_iff visible_rune_def not_less)

lemma graph_visible: "graph_ascii s \<Longrightarrow> visibleString s"
  by (auto simp: visibleString_ascii graph_ascii_is_ascii) (auto simp: graph_ascii_def list_all_iff)

text \<open>What the text constructors check, as predicates on the trimmed value.\<close>

definition visible_text :: "nat \<Rightarrow> string \<Rightarrow> bool" where
  "visible_text n s \<longleftrightarrow> s \<noteq> [] \<and> ValidString s \<and> length s \<le> n \<and> visibleString s"

definition relative_text :: "nat \<Rightarrow> string \<Rightarrow> bool" where
  "relative_text n s \<longleftrightarrow> visible_text n s \<and> \<not> ContainsAny s [CHR 0x5C, CHR 0x00] \<and>
     \<not> Contains s ''..'' \<and> \<not> HasPrefix s ''/''"

definition plain_name :: "nat \<Rightarrow> string \<Rightarrow> bool" where
  "plain_name n s \<longleftrightarrow> visible_text n s \<and> \<not> HasPrefix s ''.'' \<and>
     \<not> ContainsAny s [CHR ''/'', CHR 0x5C, CHR 0x00]"

subsection \<open>The interface of a validated text value\<close>

locale text_value =
  fixes mk :: "string \<Rightarrow> 'v"
    and val :: "'v \<Rightarrow> string"
    and new :: "string \<Rightarrow> 'v result"
    and valid :: "string \<Rightarrow> bool"
  assumes val_mk: "val (mk s) = s"
    and new_ok_iff: "new s = ok v \<longleftrightarrow> valid (TrimSpace s) \<and> v = mk (TrimSpace s)"
begin

lemma new_valid: "new s = ok v \<Longrightarrow> valid (val v) \<and> TrimSpace (val v) = val v"
  by (simp add: new_ok_iff val_mk)

lemma reparse: "new s = ok v \<Longrightarrow> new (val v) = ok v"
  by (simp add: new_ok_iff val_mk)

lemma trim_insensitive: "new (TrimSpace s) = ok v \<longleftrightarrow> new s = ok v"
  by (simp add: new_ok_iff)

lemma is_ok_iff_valid: "is_ok (new s) \<longleftrightarrow> valid (TrimSpace s)"
  by (auto simp: is_ok_iff new_ok_iff)

end

subsection \<open>Artifact kinds, names and keys\<close>

datatype ArtifactKind = ArtifactKind (ArtifactKind_value: string)

datatype ArtifactName = ArtifactName (ArtifactName_value: string)

record ArtifactKey =
  key_organizationID :: OrganizationID
  key_projectID :: ProjectID
  key_kind :: ArtifactKind
  key_name :: ArtifactName

definition artifactNameMaxBytes :: nat where "artifactNameMaxBytes = 255"

definition ArtifactKindSourceMap :: ArtifactKind where
  "ArtifactKindSourceMap = ArtifactKind ''source_map''"

definition ArtifactKindDebugFile :: ArtifactKind where
  "ArtifactKindDebugFile = ArtifactKind ''debug_file''"

definition ArtifactKindMinidump :: ArtifactKind where
  "ArtifactKindMinidump = ArtifactKind ''minidump''"

definition ArtifactKindAttachment :: ArtifactKind where
  "ArtifactKindAttachment = ArtifactKind ''attachment''"

definition ArtifactKindUploadChunk :: ArtifactKind where
  "ArtifactKindUploadChunk = ArtifactKind ''upload_chunk''"

lemmas artifact_kind_defs = ArtifactKindSourceMap_def ArtifactKindDebugFile_def
  ArtifactKindMinidump_def ArtifactKindAttachment_def ArtifactKindUploadChunk_def

definition ParseArtifactKind :: "string \<Rightarrow> ArtifactKind result" where
  "ParseArtifactKind input =
     (let value = TrimSpace (ToLower input)
      in if value = ''source_map'' then ok ArtifactKindSourceMap
         else if value = ''debug_file'' then ok ArtifactKindDebugFile
         else if value = ''minidump'' then ok ArtifactKindMinidump
         else if value = ''attachment'' then ok ArtifactKindAttachment
         else if value = ''upload_chunk'' then ok ArtifactKindUploadChunk
         else fail ''artifact kind is invalid'')"

definition NewArtifactName :: "string \<Rightarrow> ArtifactName result" where
  "NewArtifactName input =
     (let value = TrimSpace input
      in if value = [] then fail ''artifact name is required''
         else if \<not> ValidString value then fail ''artifact name must be valid utf-8''
         else if length value > artifactNameMaxBytes then fail ''artifact name is too long''
         else if HasPrefix value ''.'' then fail ''artifact name must not start with a dot''
         else if ContainsAny value [CHR ''/'', CHR 0x5C, CHR 0x00]
              then fail ''artifact name must not contain path separators''
         else if value = ''.'' \<or> value = ''..'' \<or> Contains value ''/..'' \<or> Contains value ''../''
              then fail ''artifact name must not traverse paths''
         else if \<not> list_all visible_rune (runes value)
              then fail ''artifact name must not contain control characters''
         else ok (ArtifactName value))"

definition NewArtifactKey ::
  "OrganizationID \<Rightarrow> ProjectID \<Rightarrow> ArtifactKind \<Rightarrow> ArtifactName \<Rightarrow> ArtifactKey result" where
  "NewArtifactKey organizationID projectID kind name =
     (if OrganizationID_value organizationID = []
        then fail ''artifact key requires organization id''
      else if ProjectID_value projectID = [] then fail ''artifact key requires project id''
      else if ArtifactKind_value kind = [] then fail ''artifact key requires kind''
      else if ArtifactName_value name = [] then fail ''artifact key requires name''
      else ok \<lparr>key_organizationID = organizationID, key_projectID = projectID,
               key_kind = kind, key_name = name\<rparr>)"

lemma no_slash_no_traversal:
  "\<not> ContainsAny s [CHR ''/'', CHR 0x5C, CHR 0x00] \<Longrightarrow> \<not> Contains s ''/..'' \<and> \<not> Contains s ''../''"
  using set_mono_sublist [of "''/..''" s] set_mono_sublist [of "''../''" s]
  by (auto simp: ContainsAny_def Contains_def list_ex_iff)

interpretation artifactName: text_value ArtifactName ArtifactName_value NewArtifactName
  "plain_name artifactNameMaxBytes"
proof
  fix s v
  show "NewArtifactName s = ok v \<longleftrightarrow>
      plain_name artifactNameMaxBytes (TrimSpace s) \<and> v = ArtifactName (TrimSpace s)"
    using no_slash_no_traversal [of "TrimSpace s"]
    by (auto simp: NewArtifactName_def Let_def plain_name_def visible_text_def visibleString_def
        HasPrefix_def)
qed simp

lemma plain_name_digest:
  "hex_pattern 64 d \<Longrightarrow> list_all (\<lambda>c. 97 \<le> byte c \<and> byte c \<le> 122) e \<Longrightarrow> length e \<le> 4 \<Longrightarrow>
   plain_name artifactNameMaxBytes (d @ ''.'' @ e) \<and> TrimSpace (d @ ''.'' @ e) = d @ ''.'' @ e"
proof -
  assume d: "hex_pattern 64 d" and e: "list_all (\<lambda>c. 97 \<le> byte c \<and> byte c \<le> 122) e"
    and n: "length e \<le> 4"
  let ?s = "d @ ''.'' @ e"
  have d': "\<And>c. c \<in> set d \<Longrightarrow> hex_byte c" and e': "\<And>c. c \<in> set e \<Longrightarrow> 97 \<le> byte c \<and> byte c \<le> 122"
    and ne: "d \<noteq> []"
    using d e by (auto simp: hex_pattern_def list_all_iff)
  have g: "graph_ascii ?s"
    using d' e' by (fastforce simp: graph_ascii_def list_all_iff dest: hex_byte_graph)
  have "\<not> ContainsAny ?s [CHR ''/'', CHR 0x5C, CHR 0x00]"
    using d' e' by (fastforce simp: ContainsAny_def list_ex_iff hex_byte_def)
  moreover have "\<not> HasPrefix ?s ''.''"
    using ne d' [of "hd d"] by (cases d) (auto simp: HasPrefix_def hex_byte_def)
  moreover have "length ?s \<le> artifactNameMaxBytes"
    using d n by (simp add: artifactNameMaxBytes_def hex_pattern_def)
  ultimately show ?thesis
    using graph_visible [OF g] ascii_ValidString [OF graph_ascii_is_ascii [OF g]]
      TrimSpace_graph [OF g]
    by (simp add: plain_name_def visible_text_def)
qed

lemma digest_name_accepted:
  "list_all (\<lambda>c. 97 \<le> byte c \<and> byte c \<le> 122) e \<Longrightarrow> length e \<le> 4 \<Longrightarrow>
   NewArtifactName (sha256_hex p @ ''.'' @ e) = ok (ArtifactName (sha256_hex p @ ''.'' @ e))"
  using plain_name_digest [OF hex_pattern_sha256_hex, of e p] by (simp add: artifactName.new_ok_iff)

end
