(* ===== verification/Identities.thy ===== *)
theory Identities
  imports Artifacts
begin

text \<open>
  \<open>internal/domain/sourcemap.go\<close>, \<open>debugfile.go\<close>, \<open>minidump.go\<close> and \<open>event_attachment.go\<close>: the
  fields that identify an uploaded file, and the artifact name an identity is stored under. The
  locale \<open>hashed_identity\<close> states the scheme the three identities share: fields free of the
  separator are joined with it, hashed, and the digest gets an extension.
\<close>

subsection \<open>Releases, dists and file names\<close>

definition releaseNameMaxBytes :: nat where "releaseNameMaxBytes = 200"
definition distNameMaxBytes :: nat where "distNameMaxBytes = 64"
definition sourceMapFileNameMaxBytes :: nat where "sourceMapFileNameMaxBytes = 512"
definition debugFileNameMaxBytes :: nat where "debugFileNameMaxBytes = 512"
definition minidumpAttachmentNameMaxBytes :: nat where "minidumpAttachmentNameMaxBytes = 512"
definition debugIdentifierMinHexBytes :: nat where "debugIdentifierMinHexBytes = 32"
definition debugIdentifierMaxHexBytes :: nat where "debugIdentifierMaxHexBytes = 40"

datatype ReleaseName = ReleaseName (ReleaseName_value: string)
datatype DistName = DistName (DistName_value: string)
datatype SourceMapFileName = SourceMapFileName (SourceMapFileName_value: string)
datatype DebugFileKind = DebugFileKind (DebugFileKind_value: string)
datatype DebugIdentifier = DebugIdentifier (DebugIdentifier_value: string)
datatype DebugFileName = DebugFileName (DebugFileName_value: string)
datatype MinidumpAttachmentName = MinidumpAttachmentName (MinidumpAttachmentName_value: string)

definition NewReleaseName :: "string \<Rightarrow> ReleaseName result" where
  "NewReleaseName input =
     (let value = TrimSpace input
      in if value = [] then fail ''release is required''
         else if \<not> ValidString value then fail ''release must be valid utf-8''
         else if length value > releaseNameMaxBytes then fail ''release is too long''
         else if \<not> visibleString value
              then fail ''release must not contain control characters''
         else ok (ReleaseName value))"

definition NewOptionalDistName :: "string \<Rightarrow> DistName result" where
  "NewOptionalDistName input =
     (let value = TrimSpace input
      in if value = [] then ok (DistName [])
         else if \<not> ValidString value then fail ''dist must be valid utf-8''
         else if length value > distNameMaxBytes then fail ''dist is too long''
         else if \<not> visibleString value then fail ''dist must not contain control characters''
         else ok (DistName value))"

definition DistName_HasValue :: "DistName \<Rightarrow> bool" where
  "DistName_HasValue dist \<longleftrightarrow> DistName_value dist \<noteq> []"

definition NewSourceMapFileName :: "string \<Rightarrow> SourceMapFileName result" where
  "NewSourceMapFileName input =
     (let value = TrimSpace input
      in if value = [] then fail ''source map file name is required''
         else if \<not> ValidString value then fail ''source map file name must be valid utf-8''
         else if length value > sourceMapFileNameMaxBytes
              then fail ''source map file name is too long''
         else if \<not> visibleString value
              then fail ''source map file name must not contain control characters''
         else if ContainsAny value [CHR 0x5C, CHR 0x00]
              then fail ''source map file name must not contain backslashes or null bytes''
         else if Contains value ''..'' then fail ''source map file name must not traverse paths''
         else if HasPrefix value ''/'' then fail ''source map file name must be relative''
         else ok (SourceMapFileName value))"

definition NewDebugFileName :: "string \<Rightarrow> DebugFileName result" where
  "NewDebugFileName input =
     (let value = TrimSpace input
      in if value = [] then fail ''debug file name is required''
         else if \<not> ValidString value then fail ''debug file name must be valid utf-8''
         else if length value > debugFileNameMaxBytes then fail ''debug file name is too long''
         else if \<not> visibleString value
              then fail ''debug file name must not contain control characters''
         else if ContainsAny value [CHR 0x5C, CHR 0x00]
              then fail ''debug file name must not contain backslashes or null bytes''
         else if Contains value ''..'' then fail ''debug file name must not traverse paths''
         else if HasPrefix value ''/'' then fail ''debug file name must be relative''
         else ok (DebugFileName value))"

definition NewMinidumpAttachmentName :: "string \<Rightarrow> MinidumpAttachmentName result" where
  "NewMinidumpAttachmentName input =
     (let value = TrimSpace input
      in if value = [] then fail ''minidump attachment name is required''
         else if \<not> ValidString value then fail ''minidump attachment name must be valid utf-8''
         else if length value > minidumpAttachmentNameMaxBytes
              then fail ''minidump attachment name is too long''
         else if \<not> visibleString value
              then fail ''minidump attachment name must not contain control characters''
         else if ContainsAny value [CHR 0x5C, CHR 0x00]
              then fail ''minidump attachment name must not contain backslashes or null bytes''
         else if Contains value ''..'' then fail ''minidump attachment name must not traverse paths''
         else if HasPrefix value ''/'' then fail ''minidump attachment name must be relative''
         else ok (MinidumpAttachmentName value))"

interpretation releaseName: text_value ReleaseName ReleaseName_value NewReleaseName
  "visible_text releaseNameMaxBytes"
  by unfold_locales (auto simp: NewReleaseName_def Let_def visible_text_def)

interpretation distName: text_value DistName DistName_value NewOptionalDistName
  "\<lambda>s. s = [] \<or> visible_text distNameMaxBytes s"
  by unfold_locales (auto simp: NewOptionalDistName_def Let_def visible_text_def)

interpretation sourceMapFileName: text_value SourceMapFileName SourceMapFileName_value
  NewSourceMapFileName "relative_text sourceMapFileNameMaxBytes"
  by unfold_locales
     (auto simp: NewSourceMapFileName_def Let_def relative_text_def visible_text_def)

interpretation debugFileName: text_value DebugFileName DebugFileName_value NewDebugFileName
  "relative_text debugFileNameMaxBytes"
  by unfold_locales (auto simp: NewDebugFileName_def Let_def relative_text_def visible_text_def)

interpretation minidumpAttachmentName: text_value MinidumpAttachmentName
  MinidumpAttachmentName_value NewMinidumpAttachmentName
  "relative_text minidumpAttachmentNameMaxBytes"
  by unfold_locales
     (auto simp: NewMinidumpAttachmentName_def Let_def relative_text_def visible_text_def)

subsection \<open>Debug files\<close>

definition DebugFileKindBreakpad :: DebugFileKind where
  "DebugFileKindBreakpad = DebugFileKind ''breakpad''"

definition DebugFileKindELF :: DebugFileKind where "DebugFileKindELF = DebugFileKind ''elf''"

definition DebugFileKindMachO :: DebugFileKind where
  "DebugFileKindMachO = DebugFileKind ''macho''"

definition DebugFileKindPDB :: DebugFileKind where "DebugFileKindPDB = DebugFileKind ''pdb''"

definition ParseDebugFileKind :: "string \<Rightarrow> DebugFileKind result" where
  "ParseDebugFileKind input =
     (let value = TrimSpace (ToLower input)
      in if value = ''breakpad'' then ok DebugFileKindBreakpad
         else if value = ''elf'' then ok DebugFileKindELF
         else if value = ''macho'' then ok DebugFileKindMachO
         else if value = ''pdb'' then ok DebugFileKindPDB
         else fail ''debug file kind is invalid'')"

text \<open>\<open>isHexDigit\<close> takes a rune; it is true of ASCII digits and the letters a to f only.\<close>

definition isHexDigit :: "nat \<Rightarrow> bool" where
  "isHexDigit r \<longleftrightarrow> (if 48 \<le> r \<and> r \<le> 57 then True else if 97 \<le> r \<and> r \<le> 102 then True else False)"

definition NewDebugIdentifier :: "string \<Rightarrow> DebugIdentifier result" where
  "NewDebugIdentifier input =
     (let value = TrimSpace input
      in if value = [] then fail ''debug identifier is required''
         else let normalized = ToLower (remove_byte CHR ''-'' value)
              in if length normalized < debugIdentifierMinHexBytes
                   then fail ''debug identifier is too short''
                 else if length normalized > debugIdentifierMaxHexBytes
                   then fail ''debug identifier is too long''
                 else if \<not> list_all isHexDigit (runes normalized)
                   then fail ''debug identifier must be hexadecimal''
                 else ok (DebugIdentifier normalized))"

text \<open>A string whose runes are all hexadecimal digits is one whose bytes are.\<close>

lemma runes_isHexDigit: "list_all isHexDigit (runes s) \<longleftrightarrow> list_all hex_byte s"
proof
  have step: "list_all isHexDigit (runes s) \<Longrightarrow> list_all (\<lambda>c. byte c < 128) s" for s
  proof (induction s rule: rune_steps.induct)
    case (1 s)
    show ?case
    proof (cases s)
      case (Cons c t)
      then have r: "runes s = fst (decode_rune s) # runes (drop (snd (decode_rune s)) s)"
        by (intro runes_step) simp
      have small: "isHexDigit (fst (decode_rune s))" using 1(2) r by simp
      have "fst (decode_rune s) < 128 \<Longrightarrow> byte c < 128"
      proof (rule ccontr)
        assume "fst (decode_rune s) < 128" "\<not> byte c < 128"
        with Cons show False
          by (auto simp: decode_rune_def cont_byte_def second_ok3_def second_ok4_def
              split: list.splits if_splits)
      qed
      then have c: "byte c < 128" using small by (auto simp: isHexDigit_def split: if_splits)
      with Cons r 1 show ?thesis by (simp add: decode_rune_ascii)
    qed simp
  qed
  assume *: "list_all isHexDigit (runes s)"
  then have "is_ascii s" unfolding is_ascii_def by (rule step)
  with * show "list_all hex_byte s"
    by (auto simp: runes_ascii list_all_iff isHexDigit_def hex_byte_def split: if_splits)
next
  assume *: "list_all hex_byte s"
  then have "is_ascii s" by (intro graph_ascii_is_ascii hex_pattern_graph)
  with * show "list_all isHexDigit (runes s)"
    by (auto simp: runes_ascii list_all_iff isHexDigit_def hex_byte_def)
qed

definition debug_id_text :: "string \<Rightarrow> bool" where
  "debug_id_text s \<longleftrightarrow> debugIdentifierMinHexBytes \<le> length s \<and>
     length s \<le> debugIdentifierMaxHexBytes \<and> list_all hex_byte s"

lemma NewDebugIdentifier_valid:
  "NewDebugIdentifier s = ok d \<Longrightarrow> debug_id_text (DebugIdentifier_value d)"
  by (auto simp: NewDebugIdentifier_def Let_def debug_id_text_def runes_isHexDigit split: if_splits)

lemma NewDebugIdentifier_id:
  "debug_id_text s \<Longrightarrow> NewDebugIdentifier s = ok (DebugIdentifier s)"
  by (auto simp: NewDebugIdentifier_def Let_def debug_id_text_def runes_isHexDigit hex_no_dash
      TrimSpace_graph hex_pattern_graph ToLower_id hex_pattern_lower debugIdentifierMinHexBytes_def)

subsection \<open>Identities and the names they are stored under\<close>

definition field_separator :: char where
  "field_separator = CHR 0x1F"

locale hashed_identity =
  fixes fields :: "'i \<Rightarrow> string list"
    and ext :: string
    and artifact_name :: "'i \<Rightarrow> ArtifactName"
    and well :: "'i \<Rightarrow> bool"
  assumes name_eq: "artifact_name i =
      ArtifactName (sha256_hex (Join (fields i) [field_separator]) @ ''.'' @ ext)"
    and ext_letters: "list_all (\<lambda>c. 97 \<le> byte c \<and> byte c \<le> 122) ext" "length ext \<le> 4"
    and fields_not_Nil: "fields i \<noteq> []"
    and fields_no_separator: "well i \<Longrightarrow> f \<in> set (fields i) \<Longrightarrow> field_separator \<notin> set f"
    and fields_inj: "fields i = fields j \<Longrightarrow> i = j"
begin

lemma accepted: "NewArtifactName (ArtifactName_value (artifact_name i)) = ok (artifact_name i)"
  using digest_name_accepted [OF ext_letters] by (simp add: name_eq)

lemma preimage_inj:
  assumes "well i" "well j"
    and "Join (fields i) [field_separator] = Join (fields j) [field_separator]"
  shows "i = j"
  using assms fields_no_separator split_byte_Join [OF fields_not_Nil]
  by (metis fields_inj)

lemma only_hash_collisions:
  assumes "well i" "well j" "i \<noteq> j" "artifact_name i = artifact_name j"
  shows "Join (fields i) [field_separator] \<noteq> Join (fields j) [field_separator] \<and>
    Sum256 (Join (fields i) [field_separator]) = Sum256 (Join (fields j) [field_separator])"
proof -
  have "sha256_hex (Join (fields i) [field_separator]) =
      sha256_hex (Join (fields j) [field_separator])"
    using assms(4) by (simp add: name_eq)
  then have "Sum256 (Join (fields i) [field_separator]) =
      Sum256 (Join (fields j) [field_separator])"
    unfolding sha256_hex_def by (rule hex_encode_inj)
  with preimage_inj assms show ?thesis by blast
qed

end

record SourceMapIdentity =
  smi_release :: ReleaseName
  smi_dist :: DistName
  smi_fileName :: SourceMapFileName

definition NewSourceMapIdentity ::
  "ReleaseName \<Rightarrow> DistName \<Rightarrow> SourceMapFileName \<Rightarrow> SourceMapIdentity result" where
  "NewSourceMapIdentity release dist fileName =
     (if ReleaseName_value release = [] then fail ''source map identity requires release''
      else if SourceMapFileName_value fileName = []
           then fail ''source map identity requires file name''
      else ok \<lparr>smi_release = release, smi_dist = dist, smi_fileName = fileName\<rparr>)"

definition SourceMapIdentity_ArtifactName :: "SourceMapIdentity \<Rightarrow> ArtifactName" where
  "SourceMapIdentity_ArtifactName i =
     ArtifactName (sha256_hex
       (ReleaseName_value (smi_release i) @ [field_separator] @
        DistName_value (smi_dist i) @ [field_separator] @
        SourceMapFileName_value (smi_fileName i)) @ ''.map'')"

record DebugFileIdentity =
  dfi_debugID :: DebugIdentifier
  dfi_kind :: DebugFileKind
  dfi_fileName :: DebugFileName

definition NewDebugFileIdentity ::
  "DebugIdentifier \<Rightarrow> DebugFileKind \<Rightarrow> DebugFileName \<Rightarrow> DebugFileIdentity result" where
  "NewDebugFileIdentity debugID kind fileName =
     (if DebugIdentifier_value debugID = []
        then fail ''debug file identity requires debug identifier''
      else if DebugFileKind_value kind = [] then fail ''debug file identity requires kind''
      else if DebugFileName_value fileName = []
        then fail ''debug file identity requires file name''
      else ok \<lparr>dfi_debugID = debugID, dfi_kind = kind, dfi_fileName = fileName\<rparr>)"

definition DebugFileIdentity_ArtifactName :: "DebugFileIdentity \<Rightarrow> ArtifactName" where
  "DebugFileIdentity_ArtifactName i =
     ArtifactName (sha256_hex
       (DebugIdentifier_value (dfi_debugID i) @ [field_separator] @
        DebugFileKind_value (dfi_kind i) @ [field_separator] @
        DebugFileName_value (dfi_fileName i)) @ ''.dif'')"

record MinidumpIdentity =
  mdi_eventID :: EventID
  mdi_attachmentName :: MinidumpAttachmentName

definition NewMinidumpIdentity ::
  "EventID \<Rightarrow> MinidumpAttachmentName \<Rightarrow> MinidumpIdentity result" where
  "NewMinidumpIdentity eventID attachmentName =
     (if EventID_value eventID = [] then fail ''minidump identity requires event id''
      else if MinidumpAttachmentName_value attachmentName = []
        then fail ''minidump identity requires attachment name''
      else ok \<lparr>mdi_eventID = eventID, mdi_attachmentName = attachmentName\<rparr>)"

definition MinidumpIdentity_ArtifactName :: "MinidumpIdentity \<Rightarrow> ArtifactName" where
  "MinidumpIdentity_ArtifactName i =
     ArtifactName (sha256_hex
       (EventID_value (mdi_eventID i) @ [field_separator] @
        MinidumpAttachmentName_value (mdi_attachmentName i)) @ ''.mdmp'')"

text \<open>The identities whose fields come from their constructors.\<close>

definition SourceMapIdentity_well :: "SourceMapIdentity \<Rightarrow> bool" where
  "SourceMapIdentity_well i \<longleftrightarrow>
     NewReleaseName (ReleaseName_value (smi_release i)) = ok (smi_release i) \<and>
     NewOptionalDistName (DistName_value (smi_dist i)) = ok (smi_dist i) \<and>
     NewSourceMapFileName (SourceMapFileName_value (smi_fileName i)) = ok (smi_fileName i)"

definition DebugFileIdentity_well :: "DebugFileIdentity \<Rightarrow> bool" where
  "DebugFileIdentity_well i \<longleftrightarrow>
     NewDebugIdentifier (DebugIdentifier_value (dfi_debugID i)) = ok (dfi_debugID i) \<and>
     ParseDebugFileKind (DebugFileKind_value (dfi_kind i)) = ok (dfi_kind i) \<and>
     NewDebugFileName (DebugFileName_value (dfi_fileName i)) = ok (dfi_fileName i)"

definition MinidumpIdentity_well :: "MinidumpIdentity \<Rightarrow> bool" where
  "MinidumpIdentity_well i \<longleftrightarrow>
     NewEventID (EventID_value (mdi_eventID i)) = ok (mdi_eventID i) \<and>
     NewMinidumpAttachmentName (MinidumpAttachmentName_value (mdi_attachmentName i)) =
       ok (mdi_attachmentName i)"

lemma visible_text_no_separator: "visible_text n s \<Longrightarrow> field_separator \<notin> set s"
  by (rule visibleString_no_control) (simp_all add: visible_text_def field_separator_def)

lemma relative_text_no_separator: "relative_text n s \<Longrightarrow> field_separator \<notin> set s"
  by (rule visible_text_no_separator [of n]) (simp add: relative_text_def)

lemma hex_no_separator: "list_all hex_byte s \<Longrightarrow> field_separator \<notin> set s"
  by (auto simp: list_all_iff field_separator_def hex_byte_def)

lemma kind_no_separator:
  "ParseDebugFileKind s = ok k \<Longrightarrow> field_separator \<notin> set (DebugFileKind_value k)"
  by (auto simp: ParseDebugFileKind_def Let_def DebugFileKindBreakpad_def DebugFileKindELF_def
      DebugFileKindMachO_def DebugFileKindPDB_def field_separator_def split: if_splits)

interpretation sourceMapIdentity: hashed_identity
  "\<lambda>i. [ReleaseName_value (smi_release i), DistName_value (smi_dist i),
        SourceMapFileName_value (smi_fileName i)]" "''map''"
  SourceMapIdentity_ArtifactName SourceMapIdentity_well
proof (unfold_locales, goal_cases)
  case (5 i f)
  then show ?case
    by (auto simp: SourceMapIdentity_well_def
        dest!: releaseName.new_valid distName.new_valid sourceMapFileName.new_valid
          visible_text_no_separator relative_text_no_separator)
qed (auto simp: SourceMapIdentity_ArtifactName_def intro!: SourceMapIdentity.equality
    ReleaseName.expand DistName.expand SourceMapFileName.expand)

interpretation debugFileIdentity: hashed_identity
  "\<lambda>i. [DebugIdentifier_value (dfi_debugID i), DebugFileKind_value (dfi_kind i),
        DebugFileName_value (dfi_fileName i)]" "''dif''"
  DebugFileIdentity_ArtifactName DebugFileIdentity_well
proof (unfold_locales, goal_cases)
  case (5 i f)
  then show ?case
    by (auto simp: DebugFileIdentity_well_def debug_id_text_def
        dest!: NewDebugIdentifier_valid debugFileName.new_valid hex_no_separator
          kind_no_separator relative_text_no_separator)
qed (auto simp: DebugFileIdentity_ArtifactName_def intro!: DebugFileIdentity.equality
    DebugIdentifier.expand DebugFileKind.expand DebugFileName.expand)

interpretation minidumpIdentity: hashed_identity
  "\<lambda>i. [EventID_value (mdi_eventID i), MinidumpAttachmentName_value (mdi_attachmentName i)]"
  "''mdmp''" MinidumpIdentity_ArtifactName MinidumpIdentity_well
proof (unfold_locales, goal_cases)
  case (5 i f)
  then show ?case
    by (auto simp: MinidumpIdentity_well_def hex_pattern_def
        dest!: eventID.new_valid minidumpAttachmentName.new_valid hex_no_separator
          relative_text_no_separator)
qed (auto simp: MinidumpIdentity_ArtifactName_def intro!: MinidumpIdentity.equality
    EventID.expand MinidumpAttachmentName.expand)

subsection \<open>Event attachments\<close>

definition eventAttachmentContentTypeMaxBytes :: nat where
  "eventAttachmentContentTypeMaxBytes = 255"

record EventAttachment =
  att_kind :: ArtifactKind
  att_name :: ArtifactName
  att_byteSize :: int
  att_contentType :: string

definition normalizeAttachmentContentType :: "string \<Rightarrow> string result" where
  "normalizeAttachmentContentType input =
     (let value = TrimSpace input
      in if value = [] then ok []
         else if \<not> ValidString value
              then fail ''event attachment content type must be valid utf-8''
         else if length value > eventAttachmentContentTypeMaxBytes
              then fail ''event attachment content type is too long''
         else if \<not> list_all visible_rune (runes value)
              then fail ''event attachment content type must not contain control characters''
         else ok value)"

definition NewEventAttachment ::
  "ArtifactKind \<Rightarrow> ArtifactName \<Rightarrow> int \<Rightarrow> string \<Rightarrow> EventAttachment result" where
  "NewEventAttachment kind name byteSize contentType =
     (if ArtifactKind_value kind = [] then fail ''event attachment requires kind''
      else if ArtifactName_value name = [] then fail ''event attachment requires name''
      else if byteSize < 0 then fail ''event attachment byte size must not be negative''
      else rbind (normalizeAttachmentContentType contentType) (\<lambda>normalizedContentType.
        ok \<lparr>att_kind = kind, att_name = name, att_byteSize = byteSize,
           att_contentType = normalizedContentType\<rparr>))"

interpretation attachmentContentType: text_value "\<lambda>s. s" "\<lambda>s. s" normalizeAttachmentContentType
  "\<lambda>s. s = [] \<or> visible_text eventAttachmentContentTypeMaxBytes s"
  by unfold_locales
     (auto simp: normalizeAttachmentContentType_def Let_def visible_text_def visibleString_def)

end
