(* ===== verification/Frames.thy ===== *)
theory Frames
  imports Identities
begin

text \<open>
  \<open>internal/domain/native_module.go\<close>, \<open>native_frame.go\<close> and \<open>js_stacktrace_frame.go\<close>: the
  frames and modules an event carries. Addresses are \<open>uint64\<close> and kept as 64-bit words; line and
  column numbers are Go's \<open>int\<close>, written as \<open>int\<close> since nothing is computed with them here. The
  \<open>copy\<close> helpers of these files return an equal slice, so the model has no counterpart.
\<close>

type_synonym u64 = "64 word"

definition nativeCodeFileMaxBytes :: nat where "nativeCodeFileMaxBytes = 1024"
definition nativeFunctionMaxBytes :: nat where "nativeFunctionMaxBytes = 512"
definition nativePackageMaxBytes :: nat where "nativePackageMaxBytes = 512"
definition jsStacktraceAbsPathMaxBytes :: nat where "jsStacktraceAbsPathMaxBytes = 1024"
definition jsStacktraceFunctionMaxBytes :: nat where "jsStacktraceFunctionMaxBytes = 256"
definition jsStacktraceSourceMaxBytes :: nat where "jsStacktraceSourceMaxBytes = 1024"
definition jsStacktraceSymbolMaxBytes :: nat where "jsStacktraceSymbolMaxBytes = 256"

subsection \<open>Native modules and frames\<close>

record NativeModule =
  nm_debugID :: DebugIdentifier
  nm_codeFile :: string
  nm_imageAddr :: u64
  nm_imageSize :: u64

definition normalizeNativeCodeFile :: "string \<Rightarrow> string result" where
  "normalizeNativeCodeFile input =
     (let value = TrimSpace input
      in if value = [] then fail ''native module requires code file''
         else if \<not> ValidString value then fail ''native module code file must be valid utf-8''
         else if length value > nativeCodeFileMaxBytes then fail ''native module code file is too long''
         else if \<not> visibleString value
              then fail ''native module code file must not contain control characters''
         else ok value)"

definition NewNativeModule ::
  "DebugIdentifier \<Rightarrow> string \<Rightarrow> u64 \<Rightarrow> u64 \<Rightarrow> NativeModule result" where
  "NewNativeModule debugID codeFile imageAddr imageSize =
     (if DebugIdentifier_value debugID = []
        then fail ''native module requires debug identifier''
      else rbind (normalizeNativeCodeFile codeFile) (\<lambda>normalizedCodeFile.
        ok \<lparr>nm_debugID = debugID, nm_codeFile = normalizedCodeFile,
           nm_imageAddr = imageAddr, nm_imageSize = imageSize\<rparr>))"

record NativeFrame =
  nf_instructionAddr :: u64
  nf_moduleDebugID :: DebugIdentifier
  nf_hasModule :: bool
  nf_function :: string
  nf_pkg :: string

definition normalizeNativeFunction :: "string \<Rightarrow> string result" where
  "normalizeNativeFunction input =
     (let value = TrimSpace input
      in if value = [] then ok []
         else if \<not> ValidString value then fail ''native frame function must be valid utf-8''
         else if length value > nativeFunctionMaxBytes then fail ''native frame function is too long''
         else if \<not> visibleString value
              then fail ''native frame function must not contain control characters''
         else ok value)"

definition normalizeNativePackage :: "string \<Rightarrow> string result" where
  "normalizeNativePackage input =
     (let value = TrimSpace input
      in if value = [] then ok []
         else if \<not> ValidString value then fail ''native frame package must be valid utf-8''
         else if length value > nativePackageMaxBytes then fail ''native frame package is too long''
         else if \<not> visibleString value
              then fail ''native frame package must not contain control characters''
         else ok value)"

definition NewNativeFrame :: "u64 \<Rightarrow> string \<Rightarrow> string \<Rightarrow> NativeFrame result" where
  "NewNativeFrame instructionAddr function pkg =
     rbind (normalizeNativeFunction function) (\<lambda>normalizedFunction.
     rbind (normalizeNativePackage pkg) (\<lambda>normalizedPackage.
       ok \<lparr>nf_instructionAddr = instructionAddr, nf_moduleDebugID = DebugIdentifier [],
          nf_hasModule = False, nf_function = normalizedFunction, nf_pkg = normalizedPackage\<rparr>))"

definition NewNativeFrameWithModule ::
  "u64 \<Rightarrow> DebugIdentifier \<Rightarrow> string \<Rightarrow> string \<Rightarrow> NativeFrame result" where
  "NewNativeFrameWithModule instructionAddr moduleDebugID function pkg =
     (if DebugIdentifier_value moduleDebugID = []
        then fail ''native frame module debug identifier is required''
      else rbind (NewNativeFrame instructionAddr function pkg) (\<lambda>frame.
        ok (frame\<lparr>nf_moduleDebugID := moduleDebugID, nf_hasModule := True\<rparr>)))"

definition NativeFrame_ModuleDebugID :: "NativeFrame \<Rightarrow> DebugIdentifier \<times> bool" where
  "NativeFrame_ModuleDebugID frame = (nf_moduleDebugID frame, nf_hasModule frame)"

interpretation nativeCodeFile: text_value "\<lambda>s. s" "\<lambda>s. s" normalizeNativeCodeFile "visible_text nativeCodeFileMaxBytes"
  by unfold_locales (auto simp: normalizeNativeCodeFile_def Let_def visible_text_def)

interpretation nativeFunction: text_value "\<lambda>s. s" "\<lambda>s. s" normalizeNativeFunction "\<lambda>s. s = [] \<or> visible_text nativeFunctionMaxBytes s"
  by unfold_locales (auto simp: normalizeNativeFunction_def Let_def visible_text_def)

interpretation nativePackage: text_value "\<lambda>s. s" "\<lambda>s. s" normalizeNativePackage "\<lambda>s. s = [] \<or> visible_text nativePackageMaxBytes s"
  by unfold_locales (auto simp: normalizeNativePackage_def Let_def visible_text_def)

text \<open>What the constructors of modules and frames guarantee.\<close>

definition module_valid :: "NativeModule \<Rightarrow> bool" where
  "module_valid m \<longleftrightarrow> DebugIdentifier_value (nm_debugID m) \<noteq> [] \<and> visible_text nativeCodeFileMaxBytes (nm_codeFile m) \<and>
     TrimSpace (nm_codeFile m) = nm_codeFile m"

lemma NewNativeModule_valid: "NewNativeModule debugID codeFile imageAddr imageSize = ok m \<Longrightarrow> module_valid m"
  by (auto simp: NewNativeModule_def module_valid_def result_simps split: if_split_asm dest!: nativeCodeFile.new_valid)

definition native_frame_valid :: "NativeFrame \<Rightarrow> bool" where
  "native_frame_valid f \<longleftrightarrow>
     (nf_function f = [] \<or> visible_text nativeFunctionMaxBytes (nf_function f)) \<and>
     (nf_pkg f = [] \<or> visible_text nativePackageMaxBytes (nf_pkg f)) \<and>
     (nf_hasModule f \<longleftrightarrow> DebugIdentifier_value (nf_moduleDebugID f) \<noteq> [])"

lemma NewNativeFrame_ok: "NewNativeFrame addr fn pkg = ok f \<Longrightarrow> native_frame_valid f"
  by (auto simp: NewNativeFrame_def native_frame_valid_def result_simps
      nativeFunction.new_ok_iff nativePackage.new_ok_iff)

lemma NewNativeFrameWithModule_ok:
  "NewNativeFrameWithModule addr d fn pkg = ok f \<Longrightarrow> native_frame_valid f \<and> nf_instructionAddr f = addr \<and>
     nf_moduleDebugID f = d \<and> nf_hasModule f \<and> nf_function f = TrimSpace fn \<and> nf_pkg f = TrimSpace pkg"
  by (auto simp: NewNativeFrameWithModule_def NewNativeFrame_def native_frame_valid_def result_simps
      nativeFunction.new_ok_iff nativePackage.new_ok_iff split: if_split_asm)

subsection \<open>JavaScript frames\<close>

record JsStacktraceResolution =
  jr_source :: string
  jr_symbol :: string
  jr_originalLine :: int
  jr_originalColumn :: int

record JsStacktraceFrame =
  jf_absPath :: string
  jf_function :: string
  jf_generatedLine :: int
  jf_generatedColumn :: int
  jf_hasResolution :: bool
  jf_resolution :: JsStacktraceResolution

definition zero_resolution :: JsStacktraceResolution where
  "zero_resolution = \<lparr>jr_source = [], jr_symbol = [], jr_originalLine = 0, jr_originalColumn = 0\<rparr>"

definition normalizeJsAbsPath :: "string \<Rightarrow> string result" where
  "normalizeJsAbsPath input =
     (let value = TrimSpace input
      in if value = [] then fail ''js stacktrace frame abs path is required''
         else if \<not> ValidString value then fail ''js stacktrace frame abs path must be valid utf-8''
         else if length value > jsStacktraceAbsPathMaxBytes then fail ''js stacktrace frame abs path is too long''
         else if \<not> visibleString value
              then fail ''js stacktrace frame abs path must not contain control characters''
         else ok value)"

definition normalizeJsFunction :: "string \<Rightarrow> string result" where
  "normalizeJsFunction input =
     (let value = TrimSpace input
      in if value = [] then ok []
         else if \<not> ValidString value then fail ''js stacktrace frame function must be valid utf-8''
         else if length value > jsStacktraceFunctionMaxBytes then fail ''js stacktrace frame function is too long''
         else if \<not> visibleString value
              then fail ''js stacktrace frame function must not contain control characters''
         else ok value)"

definition normalizeJsResolvedSource :: "string \<Rightarrow> string result" where
  "normalizeJsResolvedSource input =
     (let value = TrimSpace input
      in if value = [] then fail ''js stacktrace resolution source is required''
         else if \<not> ValidString value then fail ''js stacktrace resolution source must be valid utf-8''
         else if length value > jsStacktraceSourceMaxBytes then fail ''js stacktrace resolution source is too long''
         else if \<not> visibleString value
              then fail ''js stacktrace resolution source must not contain control characters''
         else ok value)"

definition normalizeJsResolvedSymbol :: "string \<Rightarrow> string result" where
  "normalizeJsResolvedSymbol input =
     (let value = TrimSpace input
      in if value = [] then ok []
         else if \<not> ValidString value then fail ''js stacktrace resolution symbol must be valid utf-8''
         else if length value > jsStacktraceSymbolMaxBytes then fail ''js stacktrace resolution symbol is too long''
         else if \<not> visibleString value
              then fail ''js stacktrace resolution symbol must not contain control characters''
         else ok value)"

definition NewUnresolvedJsStacktraceFrame ::
  "string \<Rightarrow> string \<Rightarrow> int \<Rightarrow> int \<Rightarrow> JsStacktraceFrame result" where
  "NewUnresolvedJsStacktraceFrame absPath function generatedLine generatedColumn =
     rbind (normalizeJsAbsPath absPath) (\<lambda>normalizedAbsPath.
     rbind (normalizeJsFunction function) (\<lambda>normalizedFunction.
       if generatedLine < 1
         then fail ''js stacktrace frame generated line must be at least 1''
       else if generatedColumn < 0
         then fail ''js stacktrace frame generated column must not be negative''
       else ok \<lparr>jf_absPath = normalizedAbsPath, jf_function = normalizedFunction,
                jf_generatedLine = generatedLine, jf_generatedColumn = generatedColumn,
                jf_hasResolution = False, jf_resolution = zero_resolution\<rparr>))"

definition newJsStacktraceResolution ::
  "string \<Rightarrow> string \<Rightarrow> int \<Rightarrow> int \<Rightarrow> JsStacktraceResolution result" where
  "newJsStacktraceResolution source symbol originalLine originalColumn =
     rbind (normalizeJsResolvedSource source) (\<lambda>normalizedSource.
     rbind (normalizeJsResolvedSymbol symbol) (\<lambda>normalizedSymbol.
       if originalLine < 1
         then fail ''js stacktrace resolution original line must be at least 1''
       else if originalColumn < 0
         then fail ''js stacktrace resolution original column must not be negative''
       else ok \<lparr>jr_source = normalizedSource, jr_symbol = normalizedSymbol,
                jr_originalLine = originalLine, jr_originalColumn = originalColumn\<rparr>))"

definition NewResolvedJsStacktraceFrame ::
  "string \<Rightarrow> string \<Rightarrow> int \<Rightarrow> int \<Rightarrow> string \<Rightarrow> string \<Rightarrow> int \<Rightarrow> int \<Rightarrow>
   JsStacktraceFrame result" where
  "NewResolvedJsStacktraceFrame absPath function generatedLine generatedColumn
     resolvedSource resolvedSymbol resolvedLine resolvedColumn =
     rbind (NewUnresolvedJsStacktraceFrame absPath function generatedLine generatedColumn)
       (\<lambda>frame.
     rbind (newJsStacktraceResolution resolvedSource resolvedSymbol resolvedLine resolvedColumn)
       (\<lambda>resolution.
       ok (frame\<lparr>jf_hasResolution := True, jf_resolution := resolution\<rparr>)))"

interpretation jsAbsPath: text_value "\<lambda>s. s" "\<lambda>s. s" normalizeJsAbsPath "visible_text jsStacktraceAbsPathMaxBytes"
  by unfold_locales (auto simp: normalizeJsAbsPath_def Let_def visible_text_def)

interpretation jsFunction: text_value "\<lambda>s. s" "\<lambda>s. s" normalizeJsFunction "\<lambda>s. s = [] \<or> visible_text jsStacktraceFunctionMaxBytes s"
  by unfold_locales (auto simp: normalizeJsFunction_def Let_def visible_text_def)

interpretation jsResolvedSource: text_value "\<lambda>s. s" "\<lambda>s. s" normalizeJsResolvedSource "visible_text jsStacktraceSourceMaxBytes"
  by unfold_locales (auto simp: normalizeJsResolvedSource_def Let_def visible_text_def)

interpretation jsResolvedSymbol: text_value "\<lambda>s. s" "\<lambda>s. s" normalizeJsResolvedSymbol "\<lambda>s. s = [] \<or> visible_text jsStacktraceSymbolMaxBytes s"
  by unfold_locales (auto simp: normalizeJsResolvedSymbol_def Let_def visible_text_def)

text \<open>What a frame made by a constructor satisfies; resolving keeps the generated position.\<close>

definition js_frame_valid :: "JsStacktraceFrame \<Rightarrow> bool" where
  "js_frame_valid f \<longleftrightarrow>
     visible_text jsStacktraceAbsPathMaxBytes (jf_absPath f) \<and>
     (jf_function f = [] \<or> visible_text jsStacktraceFunctionMaxBytes (jf_function f)) \<and>
     1 \<le> jf_generatedLine f \<and> 0 \<le> jf_generatedColumn f \<and>
     (jf_hasResolution f \<longrightarrow>
        visible_text jsStacktraceSourceMaxBytes (jr_source (jf_resolution f)) \<and>
        1 \<le> jr_originalLine (jf_resolution f) \<and> 0 \<le> jr_originalColumn (jf_resolution f))"

lemma NewUnresolvedJsStacktraceFrame_valid:
  "NewUnresolvedJsStacktraceFrame p fn l c = ok f \<Longrightarrow>
   js_frame_valid f \<and> \<not> jf_hasResolution f \<and> jf_absPath f = TrimSpace p \<and>
   jf_generatedLine f = l \<and> jf_generatedColumn f = c"
  by (auto simp: NewUnresolvedJsStacktraceFrame_def js_frame_valid_def result_simps
      jsAbsPath.new_ok_iff jsFunction.new_ok_iff split: if_splits)

lemma NewResolvedJsStacktraceFrame_valid:
  "NewResolvedJsStacktraceFrame p fn l c src smb rl rc = ok f \<Longrightarrow>
   js_frame_valid f \<and> jf_hasResolution f \<and> jf_absPath f = TrimSpace p \<and>
   jf_generatedLine f = l \<and> jf_generatedColumn f = c \<and>
   jr_originalLine (jf_resolution f) = rl \<and> jr_originalColumn (jf_resolution f) = rc"
  by (auto simp: NewResolvedJsStacktraceFrame_def newJsStacktraceResolution_def js_frame_valid_def
      result_simps jsResolvedSource.new_ok_iff dest!: NewUnresolvedJsStacktraceFrame_valid
      split: if_splits)

end
