(* ===== verification/Transactions.thy ===== *)
theory Transactions
  imports Frames
begin

text \<open>
  \<open>internal/domain/performance_transaction.go\<close>: transactions with their spans and trace
  context. Label arguments of the text checks are kept, so each error has the code's message.
\<close>

definition transactionNameMaxBytes :: nat where "transactionNameMaxBytes = 512"
definition transactionOperationMaxBytes :: nat where "transactionOperationMaxBytes = 128"
definition transactionStatusMaxBytes :: nat where "transactionStatusMaxBytes = 64"
definition transactionDescriptionMaxBytes :: nat where "transactionDescriptionMaxBytes = 1024"

record TransactionTraceContext =
  trace_traceID :: string
  trace_spanID :: string
  trace_parentSpanID :: string

record TransactionSpan =
  span_spanID :: string
  span_parentSpanID :: string
  span_operation :: string
  span_description :: string
  span_duration :: duration
  span_status :: string

record TransactionData =
  tx_name :: string
  tx_operation :: string
  tx_duration :: duration
  tx_status :: string
  tx_trace :: TransactionTraceContext
  tx_hasTrace :: bool
  tx_spans :: "TransactionSpan list"

definition zero_trace :: TransactionTraceContext where
  "zero_trace = \<lparr>trace_traceID = [], trace_spanID = [], trace_parentSpanID = []\<rparr>"

definition zero_transaction :: TransactionData where
  "zero_transaction = \<lparr>tx_name = [], tx_operation = [], tx_duration = 0, tx_status = [],
     tx_trace = zero_trace, tx_hasTrace = False, tx_spans = []\<rparr>"

subsection \<open>Normalization\<close>

definition normalizeTraceID :: "string \<Rightarrow> string result" where
  "normalizeTraceID input =
     (let value = remove_byte CHR ''-'' (ToLower (TrimSpace input))
      in if \<not> hex_pattern 32 value
           then fail ''transaction trace id must be 32 hex characters''
         else ok value)"

definition normalizeSpanID :: "string \<Rightarrow> string result" where
  "normalizeSpanID input =
     (let value = ToLower (TrimSpace input)
      in if \<not> hex_pattern 16 value
           then fail ''transaction span id must be 16 hex characters''
         else ok value)"

definition normalizeOptionalSpanID :: "string \<Rightarrow> string result" where
  "normalizeOptionalSpanID input =
     (let value = TrimSpace input
      in if value = [] then ok [] else normalizeSpanID value)"

definition normalizePerformanceText :: "string \<Rightarrow> nat \<Rightarrow> string \<Rightarrow> string result" where
  "normalizePerformanceText input limit label =
     (if \<not> ValidString input then fail (label @ '' must be valid utf-8'')
      else if length input > limit then fail (label @ '' is too long'')
      else if list_ex IsControl (runes input)
           then fail (label @ '' must not contain control characters'')
      else ok input)"

definition normalizeRequiredPerformanceText :: "string \<Rightarrow> nat \<Rightarrow> string \<Rightarrow> string result" where
  "normalizeRequiredPerformanceText input limit label =
     (let value = TrimSpace input
      in if value = [] then fail (label @ '' is required'')
         else normalizePerformanceText value limit label)"

definition normalizeOptionalPerformanceText ::
  "string \<Rightarrow> string \<Rightarrow> nat \<Rightarrow> string \<Rightarrow> string result" where
  "normalizeOptionalPerformanceText input fallback limit label =
     (let trimmed = TrimSpace input;
          value = (if trimmed = [] then fallback else trimmed)
      in if value = [] then ok [] else normalizePerformanceText value limit label)"

subsection \<open>Constructors\<close>

definition NewTransactionTraceContext ::
  "string \<Rightarrow> string \<Rightarrow> string \<Rightarrow> TransactionTraceContext result" where
  "NewTransactionTraceContext traceID spanID parentSpanID =
     rbind (normalizeTraceID traceID) (\<lambda>normalizedTraceID.
     rbind (normalizeSpanID spanID) (\<lambda>normalizedSpanID.
     rbind (normalizeOptionalSpanID parentSpanID) (\<lambda>normalizedParentSpanID.
       ok \<lparr>trace_traceID = normalizedTraceID, trace_spanID = normalizedSpanID,
          trace_parentSpanID = normalizedParentSpanID\<rparr>)))"

definition NewTransactionSpan ::
  "string \<Rightarrow> string \<Rightarrow> string \<Rightarrow> string \<Rightarrow> duration \<Rightarrow> string \<Rightarrow> TransactionSpan result" where
  "NewTransactionSpan spanID parentSpanID operation description duration status =
     rbind (normalizeSpanID spanID) (\<lambda>normalizedSpanID.
     rbind (normalizeOptionalSpanID parentSpanID) (\<lambda>normalizedParentSpanID.
     rbind (normalizeOptionalPerformanceText operation ''default'' transactionOperationMaxBytes
              ''transaction span operation'') (\<lambda>normalizedOperation.
     rbind (normalizeOptionalPerformanceText description [] transactionDescriptionMaxBytes
              ''transaction span description'') (\<lambda>normalizedDescription.
     rbind (normalizeOptionalPerformanceText status ''unknown'' transactionStatusMaxBytes
              ''transaction span status'') (\<lambda>normalizedStatus.
       if duration < 0 then fail ''transaction span duration must not be negative''
       else ok \<lparr>span_spanID = normalizedSpanID, span_parentSpanID = normalizedParentSpanID,
                span_operation = normalizedOperation, span_description = normalizedDescription,
                span_duration = duration, span_status = normalizedStatus\<rparr>)))))"

definition newTransactionData ::
  "string \<Rightarrow> string \<Rightarrow> duration \<Rightarrow> string \<Rightarrow> TransactionTraceContext \<Rightarrow> bool \<Rightarrow>
   TransactionSpan list \<Rightarrow> TransactionData result" where
  "newTransactionData name operation duration status trace hasTrace spans =
     rbind (normalizeRequiredPerformanceText name transactionNameMaxBytes ''transaction name'')
       (\<lambda>normalizedName.
     rbind (normalizeOptionalPerformanceText operation ''default'' transactionOperationMaxBytes
              ''transaction operation'') (\<lambda>normalizedOperation.
     rbind (normalizeOptionalPerformanceText status ''unknown'' transactionStatusMaxBytes
              ''transaction status'') (\<lambda>normalizedStatus.
       if duration < 0 then fail ''transaction duration must not be negative''
       else ok \<lparr>tx_name = normalizedName, tx_operation = normalizedOperation,
                tx_duration = duration, tx_status = normalizedStatus, tx_trace = trace,
                tx_hasTrace = hasTrace, tx_spans = spans\<rparr>)))"

definition NewTransactionData ::
  "string \<Rightarrow> string \<Rightarrow> duration \<Rightarrow> string \<Rightarrow> TransactionSpan list \<Rightarrow> TransactionData result" where
  "NewTransactionData name operation duration status spans =
     newTransactionData name operation duration status zero_trace False spans"

definition NewTransactionDataWithTrace ::
  "string \<Rightarrow> string \<Rightarrow> duration \<Rightarrow> string \<Rightarrow> TransactionTraceContext \<Rightarrow>
   TransactionSpan list \<Rightarrow> TransactionData result" where
  "NewTransactionDataWithTrace name operation duration status trace spans =
     (if trace_traceID trace = [] then fail ''transaction trace context is required''
      else newTransactionData name operation duration status trace True spans)"

subsection \<open>What the constructors guarantee\<close>

definition performance_text :: "nat \<Rightarrow> string \<Rightarrow> bool" where
  "performance_text n s \<longleftrightarrow> ValidString s \<and> length s \<le> n \<and> list_all (\<lambda>r. \<not> IsControl r) (runes s)"

lemma normalizePerformanceText_ok:
  "normalizePerformanceText s n l = ok v \<longleftrightarrow> performance_text n s \<and> v = s"
  by (auto simp: normalizePerformanceText_def performance_text_def list_all_iff list_ex_iff)

lemma normalizeRequiredPerformanceText_ok:
  "normalizeRequiredPerformanceText s n l = ok v \<longleftrightarrow>
   v = TrimSpace s \<and> v \<noteq> [] \<and> performance_text n v"
  by (auto simp: normalizeRequiredPerformanceText_def Let_def normalizePerformanceText_ok)

lemma normalizeOptionalPerformanceText_ok:
  "normalizeOptionalPerformanceText s d n l = ok v \<longleftrightarrow>
   v = (if TrimSpace s = [] then d else TrimSpace s) \<and> (v = [] \<or> performance_text n v)"
  by (auto simp: normalizeOptionalPerformanceText_def Let_def normalizePerformanceText_ok)

lemma performance_text_graph: "graph_ascii s \<Longrightarrow> length s \<le> n \<Longrightarrow> performance_text n s"
  by (auto simp: performance_text_def ascii_ValidString graph_ascii_is_ascii runes_ascii)
     (auto simp: graph_ascii_def list_all_iff IsControl_def)

text \<open>The defaults of the code are accepted, so an absent operation or status never fails.\<close>

lemma optional_default_ok:
  "graph_ascii d \<Longrightarrow> length d \<le> n \<Longrightarrow> normalizeOptionalPerformanceText [] d n l = ok d"
  by (auto simp: normalizeOptionalPerformanceText_ok performance_text_graph)

definition transaction_valid :: "TransactionData \<Rightarrow> bool" where
  "transaction_valid t \<longleftrightarrow> tx_name t \<noteq> [] \<and> performance_text transactionNameMaxBytes (tx_name t) \<and>
     tx_operation t \<noteq> [] \<and> performance_text transactionOperationMaxBytes (tx_operation t) \<and>
     tx_status t \<noteq> [] \<and> performance_text transactionStatusMaxBytes (tx_status t) \<and>
     0 \<le> tx_duration t"

lemma newTransactionData_valid:
  "newTransactionData name op d st tr h spans = ok t \<Longrightarrow> transaction_valid t"
  by (auto simp: newTransactionData_def transaction_valid_def result_simps
      normalizeRequiredPerformanceText_ok normalizeOptionalPerformanceText_ok split: if_splits)

lemma normalizeSpanID_id: "hex_pattern 16 v \<Longrightarrow> normalizeSpanID v = ok v"
  by (auto simp: normalizeSpanID_def hex_pattern_def TrimSpace_graph hex_pattern_graph ToLower_id
      hex_pattern_lower)

lemma NewTransactionTraceContext_valid:
  "NewTransactionTraceContext t s p = ok c \<Longrightarrow>
   hex_pattern 32 (trace_traceID c) \<and> hex_pattern 16 (trace_spanID c) \<and>
   (trace_parentSpanID c = [] \<or> hex_pattern 16 (trace_parentSpanID c))"
  by (auto simp: NewTransactionTraceContext_def normalizeTraceID_def normalizeSpanID_def
      normalizeOptionalSpanID_def Let_def result_simps split: if_splits)

end
