(* ===== verification/Events.thy ===== *)
theory Events
  imports Transactions
begin

text \<open>
  \<open>internal/domain/event.go\<close>: the canonical event, the one form every protocol payload is
  brought into before it is stored. \<open>EventKind\<close> and \<open>EventLevel\<close> are string types in the code,
  so any string is a value of the type and \<open>valid\<close> tells the declared constants apart.
\<close>

subsection \<open>Kinds, levels and titles\<close>

type_synonym EventKind = string
type_synonym EventLevel = string

definition EventKindError :: EventKind where "EventKindError = ''error''"
definition EventKindDefault :: EventKind where "EventKindDefault = ''default''"
definition EventKindTransaction :: EventKind where "EventKindTransaction = ''transaction''"

definition EventLevelFatal :: EventLevel where "EventLevelFatal = ''fatal''"
definition EventLevelError :: EventLevel where "EventLevelError = ''error''"
definition EventLevelWarning :: EventLevel where "EventLevelWarning = ''warning''"
definition EventLevelInfo :: EventLevel where "EventLevelInfo = ''info''"
definition EventLevelDebug :: EventLevel where "EventLevelDebug = ''debug''"

lemmas event_kind_defs = EventKindError_def EventKindDefault_def EventKindTransaction_def
lemmas event_level_defs = EventLevelFatal_def EventLevelError_def EventLevelWarning_def
  EventLevelInfo_def EventLevelDebug_def

definition EventKind_valid :: "EventKind \<Rightarrow> bool" where
  "EventKind_valid kind \<longleftrightarrow>
     kind = EventKindError \<or> kind = EventKindDefault \<or> kind = EventKindTransaction"

definition EventLevel_valid :: "EventLevel \<Rightarrow> bool" where
  "EventLevel_valid level \<longleftrightarrow>
     level = EventLevelFatal \<or> level = EventLevelError \<or> level = EventLevelWarning \<or>
     level = EventLevelInfo \<or> level = EventLevelDebug"

definition EventKind_CreatesIssue :: "EventKind \<Rightarrow> bool" where
  "EventKind_CreatesIssue kind \<longleftrightarrow> kind = EventKindError \<or> kind = EventKindDefault"

datatype EventTitle = EventTitle (EventTitle_value: string)

definition NewEventTitle :: "string \<Rightarrow> EventTitle result" where
  "NewEventTitle input =
     (let value = TrimSpace input
      in if value = [] then fail ''event title is required'' else ok (EventTitle value))"

definition NewEventLevel :: "string \<Rightarrow> EventLevel result" where
  "NewEventLevel input =
     (let value = ToLower (TrimSpace input)
      in if \<not> EventLevel_valid value then fail ''invalid event level'' else ok value)"

lemma creates_issue_iff:
  "EventKind_valid k \<Longrightarrow> EventKind_CreatesIssue k \<longleftrightarrow> k \<noteq> EventKindTransaction"
  by (auto simp: EventKind_valid_def EventKind_CreatesIssue_def event_kind_defs)

interpretation eventTitle: text_value EventTitle EventTitle_value NewEventTitle "\<lambda>s. s \<noteq> []"
  by unfold_locales (auto simp: NewEventTitle_def Let_def)

subsection \<open>Normalization of the parts\<close>

definition normalizeDimension :: "string \<Rightarrow> string" where
  "normalizeDimension input = TrimSpace input"

fun normalizeParts :: "string list \<Rightarrow> string list" where
  "normalizeParts [] = []"
| "normalizeParts (part # parts) =
     (let value = TrimSpace part
      in if value = [] then normalizeParts parts else value # normalizeParts parts)"

text \<open>
  The loop of \<open>normalizeTags\<close> ranges over a Go map, whose iteration order is not specified: the
  argument is the map's entries in the order the loop visits them.
\<close>

fun normalizeTags_loop :: "(string \<rightharpoonup> string) \<Rightarrow> (string \<times> string) list \<Rightarrow> (string \<rightharpoonup> string)" where
  "normalizeTags_loop m [] = m"
| "normalizeTags_loop m ((key, value) # tags) =
     (let normalizedKey = TrimSpace key; normalizedValue = TrimSpace value
      in if normalizedKey = [] \<or> normalizedValue = [] then normalizeTags_loop m tags
         else normalizeTags_loop (m(normalizedKey \<mapsto> normalizedValue)) tags)"

definition normalizeTags :: "(string \<times> string) list \<Rightarrow> (string \<rightharpoonup> string)" where
  "normalizeTags tags = normalizeTags_loop Map.empty tags"

definition trimmed_part :: "string \<Rightarrow> bool" where
  "trimmed_part s \<longleftrightarrow> s \<noteq> [] \<and> TrimSpace s = s"

lemma normalizeParts_filter: "normalizeParts ps = filter (\<lambda>p. p \<noteq> []) (map TrimSpace ps)"
  by (induction ps) (auto simp: Let_def)

lemma normalizeParts_trimmed: "list_all trimmed_part (normalizeParts ps)"
  by (auto simp: normalizeParts_filter list_all_iff trimmed_part_def)

lemma normalizeParts_id: "list_all trimmed_part ps \<Longrightarrow> normalizeParts ps = ps"
  by (induction ps) (auto simp: trimmed_part_def)

lemma normalizeParts_idem: "normalizeParts (normalizeParts ps) = normalizeParts ps"
  by (rule normalizeParts_id) (rule normalizeParts_trimmed)

definition kept_tags :: "(string \<times> string) list \<Rightarrow> (string \<times> string) list" where
  "kept_tags tags =
     filter (\<lambda>(k, v). k \<noteq> [] \<and> v \<noteq> []) (map (\<lambda>(k, v). (TrimSpace k, TrimSpace v)) tags)"

lemma normalizeTags_loop_eq:
  "normalizeTags_loop m tags = m ++ map_of (rev (kept_tags tags))"
proof (induction tags arbitrary: m)
  case (Cons kv tags)
  then show ?case 
    by (cases kv) (auto simp: kept_tags_def Let_def map_add_def fun_eq_iff split: option.split)
qed (simp add: kept_tags_def)

lemma normalizeTags_eq: "normalizeTags tags = map_of (rev (kept_tags tags))"
  by (simp add: normalizeTags_def normalizeTags_loop_eq)

lemma normalizeTags_trimmed:
  "normalizeTags tags k = Some v \<Longrightarrow> trimmed_part k \<and> trimmed_part v"
  unfolding normalizeTags_eq by (drule map_of_SomeD) (auto simp: kept_tags_def trimmed_part_def)

lemma normalizeTags_order:
  assumes "distinct (map fst (kept_tags tags))" and "set tags' = set tags"
    and "distinct (map fst (kept_tags tags'))"
  shows "normalizeTags tags' = normalizeTags tags"
proof -
  have "set (kept_tags tags') = set (kept_tags tags)"
    using assms(2) by (simp add: kept_tags_def)
  with assms show ?thesis
    unfolding normalizeTags_eq by (intro map_of_eqI) (auto simp: rev_map [symmetric] map_of_is_SomeI intro!: map_of_inject_set [THEN iffD2])
qed

subsection \<open>The canonical event\<close>

record CanonicalEventParams =
  p_OrganizationID :: OrganizationID
  p_ProjectID :: ProjectID
  p_EventID :: EventID
  p_OccurredAt :: TimePoint
  p_ReceivedAt :: TimePoint
  p_Kind :: EventKind
  p_Level :: EventLevel
  p_Title :: EventTitle
  p_Platform :: string
  p_Release :: string
  p_Environment :: string
  p_Tags :: "(string \<times> string) list"
  p_DefaultGroupingParts :: "string list"
  p_ExplicitFingerprint :: "string list"
  p_Attachments :: "EventAttachment list"
  p_JsStacktrace :: "JsStacktraceFrame list"
  p_NativeModules :: "NativeModule list"
  p_NativeFrames :: "NativeFrame list"
  p_Transaction :: TransactionData

record CanonicalEvent =
  ev_organizationID :: OrganizationID
  ev_projectID :: ProjectID
  ev_eventID :: EventID
  ev_occurredAt :: TimePoint
  ev_receivedAt :: TimePoint
  ev_kind :: EventKind
  ev_level :: EventLevel
  ev_title :: EventTitle
  ev_platform :: string
  ev_release :: string
  ev_environment :: string
  ev_tags :: "string \<rightharpoonup> string"
  ev_defaultGroupingParts :: "string list"
  ev_explicitFingerprint :: "string list"
  ev_attachments :: "EventAttachment list"
  ev_jsStacktrace :: "JsStacktraceFrame list"
  ev_nativeModules :: "NativeModule list"
  ev_nativeFrames :: "NativeFrame list"
  ev_transaction :: TransactionData
  ev_hasTransaction :: bool

definition canonicalTransaction :: "CanonicalEventParams \<Rightarrow> (TransactionData \<times> bool) result" where
  "canonicalTransaction params =
     (let hasTransaction = tx_name (p_Transaction params) \<noteq> []
      in if p_Kind params \<noteq> EventKindTransaction \<and> hasTransaction
           then fail ''transaction data is only valid for transaction events''
         else if p_Kind params \<noteq> EventKindTransaction then ok (zero_transaction, False)
         else if hasTransaction then ok (p_Transaction params, True)
         else rbind (NewTransactionData (EventTitle_value (p_Title params)) ''default'' 0
                       ''unknown'' []) (\<lambda>transaction. ok (transaction, True)))"

definition NewCanonicalEvent :: "CanonicalEventParams \<Rightarrow> CanonicalEvent result" where
  "NewCanonicalEvent params =
     (if OrganizationID_value (p_OrganizationID params) = []
        then fail ''organization id is required''
      else if ProjectID_value (p_ProjectID params) = [] then fail ''project id is required''
      else if EventID_value (p_EventID params) = [] then fail ''event id is required''
      else if IsZero (TimePoint_value (p_OccurredAt params))
        then fail ''occurred time is required''
      else if IsZero (TimePoint_value (p_ReceivedAt params))
        then fail ''received time is required''
      else if \<not> EventKind_valid (p_Kind params) then fail ''invalid event kind''
      else if \<not> EventLevel_valid (p_Level params) then fail ''invalid event level''
      else if EventTitle_value (p_Title params) = [] then fail ''event title is required''
      else
        let trimmedPlatform = TrimSpace (p_Platform params);
            platform = (if trimmedPlatform = [] then ''other'' else trimmedPlatform);
            normalizedParts = normalizeParts (p_DefaultGroupingParts params);
            defaultParts = (if length normalizedParts = 0
                            then [EventTitle_value (p_Title params)] else normalizedParts)
        in rbind (canonicalTransaction params) (\<lambda>(transaction, hasTransaction).
             ok \<lparr>ev_organizationID = p_OrganizationID params,
                 ev_projectID = p_ProjectID params,
                 ev_eventID = p_EventID params,
                 ev_occurredAt = p_OccurredAt params,
                 ev_receivedAt = p_ReceivedAt params,
                 ev_kind = p_Kind params,
                 ev_level = p_Level params,
                 ev_title = p_Title params,
                 ev_platform = platform,
                 ev_release = normalizeDimension (p_Release params),
                 ev_environment = normalizeDimension (p_Environment params),
                 ev_tags = normalizeTags (p_Tags params),
                 ev_defaultGroupingParts = defaultParts,
                 ev_explicitFingerprint = normalizeParts (p_ExplicitFingerprint params),
                 ev_attachments = p_Attachments params,
                 ev_jsStacktrace = p_JsStacktrace params,
                 ev_nativeModules = p_NativeModules params,
                 ev_nativeFrames = p_NativeFrames params,
                 ev_transaction = transaction,
                 ev_hasTransaction = hasTransaction\<rparr>))"

definition CanonicalEvent_CreatesIssue :: "CanonicalEvent \<Rightarrow> bool" where
  "CanonicalEvent_CreatesIssue event = EventKind_CreatesIssue (ev_kind event)"

definition WithJsStacktrace :: "CanonicalEvent \<Rightarrow> JsStacktraceFrame list \<Rightarrow> CanonicalEvent" where
  "WithJsStacktrace event frames = event\<lparr>ev_jsStacktrace := frames\<rparr>"

definition WithNativeFrames :: "CanonicalEvent \<Rightarrow> NativeFrame list \<Rightarrow> CanonicalEvent" where
  "WithNativeFrames event frames = event\<lparr>ev_nativeFrames := frames\<rparr>"

subsection \<open>The invariant of canonical events\<close>

definition event_valid :: "CanonicalEvent \<Rightarrow> bool" where
  "event_valid ev \<longleftrightarrow>
     OrganizationID_value (ev_organizationID ev) \<noteq> [] \<and> ProjectID_value (ev_projectID ev) \<noteq> [] \<and>
     EventID_value (ev_eventID ev) \<noteq> [] \<and>
     TimePoint_value (ev_occurredAt ev) \<noteq> 0 \<and> TimePoint_value (ev_receivedAt ev) \<noteq> 0 \<and>
     EventKind_valid (ev_kind ev) \<and> EventLevel_valid (ev_level ev) \<and>
     EventTitle_value (ev_title ev) \<noteq> [] \<and> trimmed_part (ev_platform ev) \<and>
     TrimSpace (ev_release ev) = ev_release ev \<and>
     TrimSpace (ev_environment ev) = ev_environment ev \<and>
     (\<forall>k v. ev_tags ev k = Some v \<longrightarrow> trimmed_part k \<and> trimmed_part v) \<and>
     ev_defaultGroupingParts ev \<noteq> [] \<and> list_all trimmed_part (ev_explicitFingerprint ev) \<and>
     (ev_hasTransaction ev \<longleftrightarrow> ev_kind ev = EventKindTransaction) \<and>
     (ev_hasTransaction ev \<longrightarrow> tx_name (ev_transaction ev) \<noteq> [])"

lemma canonicalTransaction_ok:
  "canonicalTransaction params = ok (t, h) \<Longrightarrow>
   (h \<longleftrightarrow> p_Kind params = EventKindTransaction) \<and> (h \<longrightarrow> tx_name t \<noteq> [])"
  by (auto simp: canonicalTransaction_def Let_def result_simps NewTransactionData_def
      dest!: newTransactionData_valid split: if_splits) (auto simp: transaction_valid_def)

text \<open>What a successful call has checked, and the fields of the event it returns.\<close>

lemma NewCanonicalEvent_checks:
  "NewCanonicalEvent params = ok ev \<Longrightarrow>
   OrganizationID_value (p_OrganizationID params) \<noteq> [] \<and>
   ProjectID_value (p_ProjectID params) \<noteq> [] \<and> EventID_value (p_EventID params) \<noteq> [] \<and>
   TimePoint_value (p_OccurredAt params) \<noteq> 0 \<and> TimePoint_value (p_ReceivedAt params) \<noteq> 0 \<and>
   EventKind_valid (p_Kind params) \<and> EventLevel_valid (p_Level params) \<and>
   EventTitle_value (p_Title params) \<noteq> [] \<and>
   (\<exists>t h. canonicalTransaction params = ok (t, h) \<and> ev_transaction ev = t \<and>
      ev_hasTransaction ev = h)"
  unfolding NewCanonicalEvent_def Let_def
  by (simp split: if_split_asm) (auto simp: result_simps)

lemma NewCanonicalEvent_fields:
  assumes "NewCanonicalEvent params = ok ev"
  shows "ev_organizationID ev = p_OrganizationID params \<and> ev_projectID ev = p_ProjectID params \<and>
    ev_eventID ev = p_EventID params \<and> ev_occurredAt ev = p_OccurredAt params \<and>
    ev_receivedAt ev = p_ReceivedAt params \<and> ev_kind ev = p_Kind params \<and>
    ev_level ev = p_Level params \<and> ev_title ev = p_Title params \<and>
    ev_platform ev =
      (if TrimSpace (p_Platform params) = [] then ''other'' else TrimSpace (p_Platform params)) \<and>
    ev_release ev = TrimSpace (p_Release params) \<and>
    ev_environment ev = TrimSpace (p_Environment params) \<and>
    ev_tags ev = normalizeTags (p_Tags params) \<and>
    ev_defaultGroupingParts ev =
      (if normalizeParts (p_DefaultGroupingParts params) = [] then [EventTitle_value (p_Title params)]
       else normalizeParts (p_DefaultGroupingParts params)) \<and>
    ev_explicitFingerprint ev = normalizeParts (p_ExplicitFingerprint params)"
proof -
  obtain t h where "canonicalTransaction params = ok (t, h)"
    using NewCanonicalEvent_checks [OF assms] by auto
  with assms NewCanonicalEvent_checks [OF assms] show ?thesis
    unfolding NewCanonicalEvent_def Let_def normalizeDimension_def
    by (simp only: if_False rbind_ok prod.case sum.inject simp_thms length_0_conv) auto
qed

lemma NewCanonicalEvent_invariant:
  assumes "NewCanonicalEvent params = ok ev"
  shows "event_valid ev"
proof -
  have other: "trimmed_part ''other''" by (simp add: TrimSpace_id trimmed_part_def)
  obtain t h where "canonicalTransaction params = ok (t, h)"
    and "ev_transaction ev = t" "ev_hasTransaction ev = h"
    using NewCanonicalEvent_checks [OF assms] by auto
  with canonicalTransaction_ok [of params t h] NewCanonicalEvent_checks [OF assms]
    NewCanonicalEvent_fields [OF assms] other
  show ?thesis
    unfolding event_valid_def
    by (simp add: normalizeParts_trimmed normalizeTags_trimmed) (simp add: trimmed_part_def)
qed

lemma event_valid_creates_issue:
  "event_valid ev \<Longrightarrow> CanonicalEvent_CreatesIssue ev \<longleftrightarrow> \<not> ev_hasTransaction ev"
  by (simp add: event_valid_def CanonicalEvent_CreatesIssue_def creates_issue_iff)

lemma event_valid_updates [simp]:
  "event_valid (WithJsStacktrace ev fs) = event_valid ev"
  "event_valid (WithNativeFrames ev ns) = event_valid ev"
  by (simp_all add: event_valid_def WithJsStacktrace_def WithNativeFrames_def)

text \<open>A transaction event without transaction data takes its title for the name: it is accepted
exactly when the title passes the checks of a transaction name.\<close>

lemma canonicalTransaction_fallback:
  assumes "p_Kind params = EventKindTransaction" "tx_name (p_Transaction params) = []"
  shows "is_ok (canonicalTransaction params) \<longleftrightarrow>
    TrimSpace (EventTitle_value (p_Title params)) \<noteq> [] \<and>
    performance_text transactionNameMaxBytes (TrimSpace (EventTitle_value (p_Title params)))"
proof -
  have d: "performance_text transactionOperationMaxBytes ''default''"
    "performance_text transactionStatusMaxBytes ''unknown''"
    by (simp_all add: performance_text_graph graph_ascii_def transactionOperationMaxBytes_def
        transactionStatusMaxBytes_def)
  show ?thesis
    using assms d
    by (auto simp: canonicalTransaction_def Let_def result_simps NewTransactionData_def
        newTransactionData_def normalizeRequiredPerformanceText_ok
        normalizeOptionalPerformanceText_ok TrimSpace_id)
qed

subsection \<open>Properties\<close>

definition example_params :: "string \<Rightarrow> CanonicalEventParams" where
  "example_params release =
     \<lparr>p_OrganizationID = OrganizationID (replicate 32 CHR ''a''),
      p_ProjectID = ProjectID (replicate 32 CHR ''b''),
      p_EventID = EventID (replicate 32 CHR ''c''),
      p_OccurredAt = TimePoint 5, p_ReceivedAt = TimePoint 6,
      p_Kind = ''error'', p_Level = ''error'', p_Title = EventTitle ''boom'',
      p_Platform = [], p_Release = release, p_Environment = [],
      p_Tags = [(''k'', ''v'')], p_DefaultGroupingParts = [], p_ExplicitFingerprint = [''x''],
      p_Attachments = [], p_JsStacktrace = [], p_NativeModules = [], p_NativeFrames = [],
      p_Transaction = zero_transaction\<rparr>"

text \<open>The event the constructor makes of the example.\<close>

lemma example_params_ok: "\<exists>ev. NewCanonicalEvent (example_params r) = ok ev \<and> ev_kind ev = ''error'' \<and> ev_release ev = TrimSpace r \<and>
    ev_projectID ev = ProjectID (replicate 32 CHR ''b'') \<and> ev_title ev = EventTitle ''boom'' \<and>
    ev_defaultGroupingParts ev = [''boom''] \<and> ev_explicitFingerprint ev = [''x'']"
  by (simp add: example_params_def NewCanonicalEvent_def normalizeDimension_def canonicalTransaction_def zero_transaction_def
      EventKind_valid_def EventLevel_valid_def event_kind_defs event_level_defs TrimSpace_id)

text \<open>
  C1. Whatever parameters a decoder passes, an event that \<open>NewCanonicalEvent\<close> returns satisfies
  the invariant every later component relies on: ids, times, kind, level and title are present and
  valid, platform, release, environment, tags and fingerprint parts are trimmed, empty tags and
  parts are gone, there is at least one default grouping part, and transaction data is present,
  with a name, for transaction events and for no others.
\<close>

theorem canonical_event_invariant:
  assumes "NewCanonicalEvent params = ok ev"
  shows "event_valid ev"
  using assms by (rule NewCanonicalEvent_invariant)

theorem canonical_event_invariant_witness:
  "\<exists>ev. NewCanonicalEvent (example_params ''1.0'') = ok ev \<and> event_valid ev"
  using example_params_ok [of "''1.0''"] canonical_event_invariant by blast

end
