(* ===== verification/JsonStrings.thy ===== *)
theory JsonStrings
  imports Sha256
begin

text \<open>
  \<open>json.Marshal\<close> on a \<open>[]string\<close> (\<open>encoding/json\<close>, with its HTML escaping): what the grouping
  plan hashes. The encoding is defined byte by byte as the library writes it; \<open>json_unquote\<close> is
  a reader of string literals that shows the encoding of valid UTF-8 to be uniquely decodable.
\<close>

definition json_escape :: "char \<Rightarrow> string" where
  "json_escape c =
     (if c = CHR 0x5C \<or> c = CHR 0x22 then [CHR 0x5C, c]
      else if c = CHR 0x08 then [CHR 0x5C, CHR ''b'']
      else if c = CHR 0x0C then [CHR 0x5C, CHR ''f'']
      else if c = CHR 0x0A then [CHR 0x5C, CHR ''n'']
      else if c = CHR 0x0D then [CHR 0x5C, CHR ''r'']
      else if c = CHR 0x09 then [CHR 0x5C, CHR ''t'']
      else if byte c < 32 \<or> c = CHR ''<'' \<or> c = CHR ''>'' \<or> c = CHR ''&''
        then [CHR 0x5C, CHR ''u'', CHR ''0'', CHR ''0'', hex_digit (byte c div 16),
              hex_digit (byte c mod 16)]
      else [c])"

lemma decode_rune_pos: "decode_rune (c # t) = (r, n) \<Longrightarrow> 0 < n"
  using decode_rune_width [of "c # t"] by simp

function json_body :: "string \<Rightarrow> string" where
  "json_body s =
     (case s of
        [] \<Rightarrow> []
      | c # t \<Rightarrow>
          if byte c < 128 then json_escape c @ json_body t
          else let (r, n) = decode_rune s
               in (if r = rune_error \<and> n = 1 then [CHR 0x5C] @ ''ufffd''
                   else if r = 8232 \<or> r = 8233 then [CHR 0x5C] @ ''u202'' @ [hex_digit (r mod 16)]
                   else take n s) @ json_body (drop n s))"
  by pat_completeness auto
termination
  by (relation "measure length") (auto dest!: decode_rune_pos [OF sym])

declare json_body.simps [simp del]

definition json_string :: "string \<Rightarrow> string" where
  "json_string s = [CHR 0x22] @ json_body s @ [CHR 0x22]"

definition json_marshal_strings :: "string list \<Rightarrow> string" where
  "json_marshal_strings ss = ''['' @ Join (map json_string ss) '','' @ '']''"

lemma json_body_Nil [simp]: "json_body [] = []"
  by (simp add: json_body.simps)

lemma json_body_ascii: "byte c < 128 \<Longrightarrow> json_body (c # t) = json_escape c @ json_body t"
  by (simp add: json_body.simps [of "c # t"])

lemma json_body_high:
  "\<not> byte c < 128 \<Longrightarrow> decode_rune (c # t) = (r, n) \<Longrightarrow>
   json_body (c # t) =
     (if r = rune_error \<and> n = 1 then [CHR 0x5C] @ ''ufffd''
      else if r = 8232 \<or> r = 8233 then [CHR 0x5C] @ ''u202'' @ [hex_digit (r mod 16)]
      else take n (c # t)) @ json_body (drop n (c # t))"
  by (simp add: json_body.simps [of "c # t"])

subsection \<open>Reading a string literal back\<close>

definition hex_value :: "char \<Rightarrow> nat" where
  "hex_value c = (if byte c < 58 then byte c - 48 else byte c - 87)"

fun unescape :: "char \<Rightarrow> char" where
  "unescape c =
     (if c = CHR ''b'' then CHR 0x08 else if c = CHR ''f'' then CHR 0x0C
      else if c = CHR ''n'' then CHR 0x0A else if c = CHR ''r'' then CHR 0x0D
      else if c = CHR ''t'' then CHR 0x09 else c)"

fun json_unquote :: "string \<Rightarrow> (string \<times> string) option" where
  "json_unquote [] = None"
| "json_unquote (c # s) =
     (if c = CHR 0x22 then Some ([], s)
      else if c = CHR 0x5C then
        (case s of
           [] \<Rightarrow> None
         | e # t \<Rightarrow>
             if e = CHR ''u'' then
               (case t of
                  h1 # h2 # h3 # h4 # u \<Rightarrow>
                    map_option (\<lambda>(v, w). (encode_rune (((hex_value h1 * 16 + hex_value h2) * 16
                      + hex_value h3) * 16 + hex_value h4) @ v, w)) (json_unquote u)
                | _ \<Rightarrow> None)
             else map_option (\<lambda>(v, w). (unescape e # v, w)) (json_unquote t))
      else map_option (\<lambda>(v, w). (c # v, w)) (json_unquote s))"

lemma hex_value_digit: "n < 16 \<Longrightarrow> hex_value (hex_digit n) = n"
  by (auto simp: hex_value_def hex_digit_def)

lemma json_unquote_escape:
  assumes c: "byte c < 128"
  shows "json_unquote (json_escape c @ s) = map_option (\<lambda>(v, w). (c # v, w)) (json_unquote s)"
proof -
  have enc: "encode_rune (byte c) = [c]" using c by (simp add: encode_rune_def rune_bytes_def)
  have lt: "byte c div 16 < 16" using c by simp
  have z: "hex_value CHR ''0'' = 0" by (simp add: hex_value_def)
  show ?thesis
    using enc lt by (simp add: json_escape_def hex_value_digit z)
qed

lemma json_unquote_high:
  "list_all (\<lambda>c. \<not> byte c < 128) p \<Longrightarrow>
   json_unquote (p @ s) = map_option (\<lambda>(v, w). (p @ v, w)) (json_unquote s)"
proof (induction p)
  case Nil
  then show ?case by (simp add: case_prod_beta option.map_ident)
next
  case (Cons c p)
  then have "c \<noteq> CHR 0x22" "c \<noteq> CHR 0x5C" by auto
  with Cons show ?case by (simp add: option.map_comp comp_def case_prod_beta)
qed

lemma two_byte_bound: "b0 \<le> 223 \<Longrightarrow> cont_byte b1 \<Longrightarrow> (b0 - 192) * 64 + (b1 - 128) < 2048"
  by (auto simp: cont_byte_def)

lemma four_byte_bound:
  assumes "240 \<le> b0" "second_ok4 b0 b1"
  shows "65536 \<le> (b0 - 240) * 262144 + (b1 - 128) * 4096 + z"
proof (cases "b0 = 240")
  case True
  with assms have "16 \<le> b1 - 128" by (auto simp: second_ok4_def)
  then have "65536 \<le> (b1 - 128) * 4096" by simp
  then show ?thesis by simp
next
  case False
  with assms(1) have "1 \<le> b0 - 240" by simp
  then have "262144 \<le> (b0 - 240) * 262144" by simp
  then show ?thesis by simp
qed

lemma decode_rune_two:
  "\<not> byte c < 128 \<Longrightarrow> byte c \<le> 223 \<Longrightarrow>
   fst (decode_rune (c # t)) < 2048 \<or> fst (decode_rune (c # t)) = rune_error"
  using two_byte_bound [of "byte c" "byte (hd t)"]
  by (cases t) (simp_all add: decode_rune_def)

lemma decode_rune_four:
  assumes "240 \<le> byte c"
  shows "65536 \<le> fst (decode_rune (c # t)) \<or> fst (decode_rune (c # t)) = rune_error"
proof -
  consider "length t < 3" | a b d u where "t = a # b # d # u"
    by (metis length_Suc_conv not_less_eq numeral_3_eq_3 Suc_leI list.exhaust length_0_conv
        list.size(4) less_Suc_eq_0_disj zero_less_Suc)
  then show ?thesis
  proof cases
    case 1
    with assms show ?thesis
      by (auto simp: decode_rune_def split: list.splits)
  next
    case 2
    with assms four_byte_bound [OF assms, of "byte a" "(byte b - 128) * 64 + (byte d - 128)"]
    show ?thesis by (simp add: decode_rune_def add.assoc)
  qed
qed

text \<open>The line separators U+2028 and U+2029 have one encoding.\<close>

lemma base64_digits:
  assumes "(x::nat) * 4096 + y * 64 + z = 8192 + w" "y < 64" "z < 64" "w < 64"
  shows "x = 2 \<and> y = 0 \<and> z = w"
proof -
  from assms have "x = (8192 + w) div 4096" by simp
  moreover have "(8192 + w) div 4096 = 2" using assms(4) by simp
  ultimately have x: "x = 2" by simp
  with assms show ?thesis by (cases y) auto
qed

lemma separator_bytes:
  assumes d: "decode_rune (c # t) = (r, n)" and r: "r = 8232 \<or> r = 8233"
  shows "n = 3 \<and> take 3 (c # t) = encode_rune r"
proof -
  have "\<not> byte c < 128" using d r by (auto simp: decode_rune_ascii)
  then have c: "224 \<le> byte c" "byte c \<le> 239"
    using decode_rune_two [of c t] decode_rune_four [of c t] d r by fastforce+
  then obtain a b u where t: "t = a # b # u" and ok: "second_ok3 (byte c) (byte a)" "cont_byte (byte b)"
    and v: "(byte c - 224) * 4096 + (byte a - 128) * 64 + (byte b - 128) = r" "n = 3"
    using d r
    by (cases t rule: remdups_adj.cases) (auto simp: decode_rune_def split: if_split_asm)
  obtain w where w: "r = 8192 + w" "w < 64" using r by fastforce
  have "cont_byte (byte a)" using ok(1) by (rule second_ok_cont)
  with ok(2) v(1) w base64_digits [of "byte c - 224" "byte a - 128" "byte b - 128" w]
  have "byte c - 224 = 2" "byte a - 128 = 0" "byte b - 128 = w" "128 \<le> byte a" "128 \<le> byte b"
    by (auto simp: cont_byte_def)
  then have "byte c = 226" "byte a = 128" "byte b = 128 + w" using c by auto
  then have "c = char_of (226 :: nat)" "a = char_of (128 :: nat)" "b = char_of (128 + w)"
    by (metis char_of_char)+
  with t v(2) w r show ?thesis by (auto simp: encode_rune_def rune_bytes_def)
qed

lemma json_unquote_separator:
  assumes "r = 8232 \<or> r = 8233"
  shows "json_unquote ([CHR 0x5C] @ ''u202'' @ [hex_digit (r mod 16)] @ s) =
    map_option (\<lambda>(v, w). (encode_rune r @ v, w)) (json_unquote s)"
  using assms by (auto simp: hex_digit_def hex_value_def)

lemma take_map_high:
  assumes "\<not> byte c < 128" and "decode_rune (c # t) = (r, n)"
  shows "list_all (\<lambda>c. \<not> byte c < 128) (take n (c # t))"
  using assms decode_rune_high [of c _ t] by (auto simp: list_all_iff)

lemma ValidString_step:
  "ValidString s \<Longrightarrow> s \<noteq> [] \<Longrightarrow>
   decode_rune s \<noteq> (rune_error, 1) \<and> ValidString (drop (snd (decode_rune s)) s)"
  by (auto simp: ValidString_def rune_steps.simps [of s])

theorem json_unquote_body:
  "ValidString s \<Longrightarrow> json_unquote (json_body s @ [CHR 0x22] @ x) = Some (s, x)"
proof (induction s rule: rune_steps.induct)
  case (1 s)
  show ?case
  proof (cases s)
    case Nil
    then show ?thesis by simp
  next
    case (Cons c t)
    obtain r n where d: "decode_rune (c # t) = (r, n)" by fastforce
    have valid: "(r, n) \<noteq> (rune_error, 1)" "ValidString (drop n (c # t))"
      using ValidString_step [OF 1(2)] Cons d by auto
    have IH: "json_unquote (json_body (drop n (c # t)) @ [CHR 0x22] @ x) = Some (drop n (c # t), x)"
      using 1(1) Cons d valid by simp
    show ?thesis
    proof (cases "byte c < 128")
      case True
      with d have "n = 1" by (simp add: decode_rune_ascii)
      with IH have "json_unquote (json_body t @ [CHR 0x22] @ x) = Some (t, x)" by simp
      with True Cons show ?thesis by (simp add: json_body_ascii json_unquote_escape)
    next
      case high: False
      show ?thesis
      proof (cases "r = 8232 \<or> r = 8233")
        case True
        with d have *: "n = 3" "take 3 (c # t) = encode_rune r"
          using separator_bytes by blast+
        have "s = encode_rune r @ drop n (c # t)"
          using *(2) append_take_drop_id [of 3 "c # t"] by (simp add: *(1) Cons)
        moreover have "json_body s = [CHR 0x5C] @ ''u202'' @ [hex_digit (r mod 16)] @
            json_body (drop n (c # t))"
          using True valid(1) json_body_high [OF high d] Cons by auto
        ultimately show ?thesis
          using IH json_unquote_separator [OF True] by simp
      next
        case False
        then have "json_body s = take n (c # t) @ json_body (drop n (c # t))"
          using json_body_high [OF high d] valid(1) Cons by auto
        then show ?thesis
          using IH json_unquote_high [OF take_map_high [OF high d]] Cons by simp
      qed
    qed
  qed
qed

lemma json_string_inj:
  assumes "ValidString s" "ValidString t" "json_string s @ x = json_string t @ y"
  shows "s = t \<and> x = y"
proof -
  have "json_body s @ [CHR 0x22] @ x = json_body t @ [CHR 0x22] @ y"
    using assms(3) by (simp add: json_string_def)
  then show ?thesis
    using json_unquote_body [OF assms(1), of x] json_unquote_body [OF assms(2), of y] by simp
qed

text \<open>What follows an element of the array.\<close>

definition json_tail :: "string list \<Rightarrow> string" where
  "json_tail ps = (if ps = [] then '']'' else '','' @ Join (map json_string ps) '','' @ '']'')"

lemma json_elements_Cons:
  "Join (map json_string (p # ps)) '','' @ '']'' = json_string p @ json_tail ps"
  by (cases ps) (simp_all add: json_tail_def)

lemma json_elements_inj:
  "list_all ValidString ps \<Longrightarrow> list_all ValidString qs \<Longrightarrow>
   Join (map json_string ps) '','' @ '']'' = Join (map json_string qs) '','' @ '']'' \<Longrightarrow> ps = qs"
proof (induction ps arbitrary: qs)
  case Nil
  show ?case
  proof (cases qs)
    case (Cons q qs')
    with Nil.prems(3) have "'']'' = json_string q @ json_tail qs'"
      by (simp only: json_elements_Cons) simp
    then show ?thesis by (simp add: json_string_def)
  qed simp
next
  case (Cons p ps)
  show ?case
  proof (cases qs)
    case Nil
    with Cons.prems(3) have "json_string p @ json_tail ps = '']''"
      by (simp only: json_elements_Cons) simp
    then show ?thesis by (simp add: json_string_def)
  next
    case q: (Cons q qs')
    have "json_string p @ json_tail ps = json_string q @ json_tail qs'"
      using Cons.prems(3) by (simp only: q json_elements_Cons)
    with Cons.prems(1,2) q have eq: "p = q" "json_tail ps = json_tail qs'"
      using json_string_inj [of p q] by auto
    then have "Join (map json_string ps) '','' @ '']'' = Join (map json_string qs') '','' @ '']''"
      by (auto simp: json_tail_def split: if_split_asm)
    with eq q Cons show ?thesis by simp
  qed
qed

theorem json_marshal_strings_inj:
  "list_all ValidString ps \<Longrightarrow> list_all ValidString qs \<Longrightarrow>
   json_marshal_strings ps = json_marshal_strings qs \<longleftrightarrow> ps = qs"
  using json_elements_inj by (auto simp: json_marshal_strings_def)

end
