(* ===== verification/Grouping.thy ===== *)
theory Grouping
  imports Events JsonStrings
begin

text \<open>
  \<open>internal/plans/grouping/grouping.go\<close> and \<open>internal/plans/ingestplan/plan.go\<close>: the
  fingerprint that decides which issue an event belongs to, and the plan values the ingest
  workflow passes to its ports.
\<close>

subsection \<open>The grouping source\<close>

definition Algorithm :: string where "Algorithm = ''grouping-v0''"

record Source =
  src_Kind :: string
  src_Parts :: "string list"

fun expandDefault :: "string list \<Rightarrow> string list \<Rightarrow> string list" where
  "expandDefault [] defaults = []"
| "expandDefault (part # parts) defaults =
     (if TrimSpace part = ''{{ default }}'' then defaults @ expandDefault parts defaults
      else part # expandDefault parts defaults)"

definition sourceFor :: "CanonicalEvent \<Rightarrow> Source" where
  "sourceFor event =
     (let explicit = ev_explicitFingerprint event
      in if length explicit > 0
         then \<lparr>src_Kind = ''explicit'',
               src_Parts = expandDefault explicit (ev_defaultGroupingParts event)\<rparr>
         else if ev_kind event = EventKindError
           then \<lparr>src_Kind = ''exception'', src_Parts = ev_defaultGroupingParts event\<rparr>
         else if ev_kind event = EventKindDefault
           then \<lparr>src_Kind = ''message'', src_Parts = ev_defaultGroupingParts event\<rparr>
         else if ev_kind event = EventKindTransaction
           then \<lparr>src_Kind = ''transaction'', src_Parts = ev_defaultGroupingParts event\<rparr>
         else \<lparr>src_Kind = ''unknown'', src_Parts = [EventTitle_value (ev_title event)]\<rparr>)"

definition canonical_text :: "CanonicalEvent \<Rightarrow> string" where
  "canonical_text event =
     Algorithm @ [CHR 0x0A] @ ''project:'' @ ProjectID_String (ev_projectID event) @
     [CHR 0x0A] @ ''kind:'' @ ev_kind event @
     [CHR 0x0A] @ ''source:'' @ src_Kind (sourceFor event) @
     [CHR 0x0A] @ ''parts:'' @ json_marshal_strings (src_Parts (sourceFor event))"

text \<open>\<open>json.Marshal\<close> of a slice of strings returns no error, so both functions reach their end.\<close>

definition CanonicalString :: "CanonicalEvent \<Rightarrow> string result" where
  "CanonicalString event = ok (canonical_text event)"

definition ComputeFingerprint :: "CanonicalEvent \<Rightarrow> Fingerprint result" where
  "ComputeFingerprint event =
     (let value = hex_encode (Sum256 (canonical_text event))
      in rbind (NewFingerprint Algorithm value) (\<lambda>fingerprint. ok fingerprint))"

definition EnsureIssueFingerprint :: "CanonicalEvent \<Rightarrow> Fingerprint result" where
  "EnsureIssueFingerprint event =
     (if \<not> CanonicalEvent_CreatesIssue event then fail ''event does not create issue''
      else ComputeFingerprint event)"

subsection \<open>Ingest plans\<close>

record AcceptedEvent =
  ac_event :: CanonicalEvent
  ac_fingerprint :: Fingerprint

record IssuePlan =
  plan_event :: AcceptedEvent

definition NewAcceptedEvent :: "CanonicalEvent \<Rightarrow> Fingerprint \<Rightarrow> AcceptedEvent result" where
  "NewAcceptedEvent event fingerprint =
     (if fingerprint_value fingerprint = [] then fail ''fingerprint is required''
      else ok \<lparr>ac_event = event, ac_fingerprint = fingerprint\<rparr>)"

definition NewIssuePlan :: "AcceptedEvent \<Rightarrow> IssuePlan result" where
  "NewIssuePlan event =
     (if \<not> CanonicalEvent_CreatesIssue (ac_event event) then fail ''event does not create issue''
      else ok \<lparr>plan_event = event\<rparr>)"

subsection \<open>The fingerprint always exists and determines the grouping source\<close>

lemma ComputeFingerprint_ok:
  "ComputeFingerprint event =
   ok \<lparr>fingerprint_algorithm = Algorithm, fingerprint_value = sha256_hex (canonical_text event)\<rparr>"
proof -
  have "TrimSpace Algorithm = Algorithm" by (simp add: Algorithm_def TrimSpace_id)
  then show ?thesis
    using NewFingerprint_hex [OF hex_pattern_sha256_hex, of Algorithm "canonical_text event"]
    by (simp add: ComputeFingerprint_def Let_def sha256_hex_def Algorithm_def)
qed

lemma newline_split:
  "a @ CHR 0x0A # b = c @ CHR 0x0A # d \<Longrightarrow> CHR 0x0A \<notin> set a \<Longrightarrow> CHR 0x0A \<notin> set c \<Longrightarrow>
   a = c \<and> b = d"
  by (metis cut_byte_append option.inject prod.inject)

lemma kind_no_newline: "EventKind_valid k \<Longrightarrow> CHR 0x0A \<notin> set k"
  by (auto simp: EventKind_valid_def event_kind_defs)

lemma source_kind_no_newline: "CHR 0x0A \<notin> set (src_Kind (sourceFor ev))"
  by (simp add: sourceFor_def Let_def)

lemma project_no_newline:
  "hex_pattern 32 (ProjectID_value p) \<Longrightarrow> CHR 0x0A \<notin> set (ProjectID_String p)"
  using dashedUUID_chars [of "ProjectID_value p" "CHR 0x0A"]
  by (auto simp: ProjectID_String_def hex_byte_def)

text \<open>An event as ingestion sees it: valid, with a constructed project id and with grouping parts
that are valid UTF-8 (the parts come out of a JSON decoder, which only yields such strings).\<close>

definition groupable :: "CanonicalEvent \<Rightarrow> bool" where
  "groupable ev \<longleftrightarrow> event_valid ev \<and> hex_pattern 32 (ProjectID_value (ev_projectID ev)) \<and>
     list_all ValidString (src_Parts (sourceFor ev))"

lemma canonical_text_inj:
  assumes "groupable e" "groupable f" "canonical_text e = canonical_text f"
  shows "ev_projectID e = ev_projectID f \<and> ev_kind e = ev_kind f \<and> sourceFor e = sourceFor f"
proof -
  note wf = assms(1,2) [unfolded groupable_def event_valid_def]
  let ?rest = "\<lambda>ev. ''source:'' @ src_Kind (sourceFor ev) @ CHR 0x0A # ''parts:'' @
      json_marshal_strings (src_Parts (sourceFor ev))"
  have "ProjectID_String (ev_projectID e) @ CHR 0x0A # (''kind:'' @ ev_kind e @ CHR 0x0A # ?rest e) =
      ProjectID_String (ev_projectID f) @ CHR 0x0A # (''kind:'' @ ev_kind f @ CHR 0x0A # ?rest f)"
    using assms(3) by (simp add: canonical_text_def)
  then have p: "ProjectID_String (ev_projectID e) = ProjectID_String (ev_projectID f)"
    and "''kind:'' @ ev_kind e @ CHR 0x0A # ?rest e = ''kind:'' @ ev_kind f @ CHR 0x0A # ?rest f"
    using wf newline_split project_no_newline by blast+
  then have "ev_kind e @ CHR 0x0A # ?rest e = ev_kind f @ CHR 0x0A # ?rest f" by simp
  then have k: "ev_kind e = ev_kind f" and "?rest e = ?rest f"
    using wf newline_split [of "ev_kind e" "?rest e" "ev_kind f" "?rest f"] kind_no_newline by auto
  then have "src_Kind (sourceFor e) @ CHR 0x0A # ''parts:'' @ json_marshal_strings (src_Parts (sourceFor e))
      = src_Kind (sourceFor f) @ CHR 0x0A # ''parts:'' @ json_marshal_strings (src_Parts (sourceFor f))"
    by simp
  then have "src_Kind (sourceFor e) = src_Kind (sourceFor f)"
    and "json_marshal_strings (src_Parts (sourceFor e)) = json_marshal_strings (src_Parts (sourceFor f))"
    using newline_split source_kind_no_newline by (metis same_append_eq)+
  then have "sourceFor e = sourceFor f"
    using json_marshal_strings_inj wf by (metis Source.equality unit.exhaust)
  moreover have "ev_projectID e = ev_projectID f"
    using p wf dashedUUID_inj by (auto simp: ProjectID_String_def intro: ProjectID.expand)
  ultimately show ?thesis using k by simp
qed

text \<open>An explicit fingerprint without the placeholder groups by itself alone, whatever the
default parts are; the placeholder stands for exactly the default parts.\<close>

lemma expandDefault_no_placeholder:
  "(\<And>p. p \<in> set parts \<Longrightarrow> TrimSpace p \<noteq> ''{{ default }}'') \<Longrightarrow> expandDefault parts defaults = parts"
  by (induction parts) auto

lemma expandDefault_append:
  "expandDefault (ps @ qs) defaults = expandDefault ps defaults @ expandDefault qs defaults"
  by (induction ps) auto

lemma expandDefault_placeholder: "expandDefault [''{{ default }}''] defaults = defaults"
  by (simp add: TrimSpace_id)

lemma expandDefault_eq_concat:
  "expandDefault parts defaults =
   concat (map (\<lambda>p. if TrimSpace p = ''{{ default }}'' then defaults else [p]) parts)"
  by (induction parts) auto

subsection \<open>Properties\<close>

text \<open>
  C2. Two events with the same issue fingerprint belong to the same project, have the same kind and
  the same grouping source (which of explicit, exception, message or transaction, and the same list
  of parts), or else their canonical strings are a SHA-256 collision: no choice of parts, with line
  breaks, quotes or whatever else in them, makes the canonical string of one source read as that of
  another.
\<close>

theorem same_fingerprint_same_source:
  assumes "groupable e" and "groupable f"
    and "ComputeFingerprint e = ComputeFingerprint f"
  shows "(ev_projectID e = ev_projectID f \<and> ev_kind e = ev_kind f \<and> sourceFor e = sourceFor f) \<or>
    (canonical_text e \<noteq> canonical_text f \<and>
     Sum256 (canonical_text e) = Sum256 (canonical_text f))"
  using canonical_text_inj [OF assms(1,2)] assms(3)
  by (auto simp: ComputeFingerprint_ok sha256_hex_def dest: hex_encode_inj)

lemma example_groupable:
  "\<exists>ev. NewCanonicalEvent (example_params r) = ok ev \<and> groupable ev \<and> ev_release ev = TrimSpace r \<and>
     ev_defaultGroupingParts ev = [''boom''] \<and> ev_explicitFingerprint ev = [''x''] \<and>
     ev_projectID ev = ProjectID (replicate 32 CHR ''b'') \<and> ev_kind ev = ''error''"
proof -
  obtain ev where ev: "NewCanonicalEvent (example_params r) = ok ev"
    "ev_kind ev = ''error''" "ev_release ev = TrimSpace r"  "ev_defaultGroupingParts ev = [''boom'']"
    "ev_projectID ev = ProjectID (replicate 32 CHR ''b'')" "ev_explicitFingerprint ev = [''x'']"
    using example_params_ok by blast
  have "hex_pattern 32 (replicate 32 CHR ''b'')"
    by (simp add: hex_pattern_def list_all_iff hex_byte_def)
  moreover have "src_Parts (sourceFor ev) = [''x'']"
    using ev by (simp add: sourceFor_def TrimSpace_id)
  ultimately show ?thesis
    using ev NewCanonicalEvent_invariant [OF ev(1)]
    by (auto simp: groupable_def ascii_ValidString is_ascii_def)
qed

theorem same_fingerprint_same_source_witness:
  "\<exists>e f. NewCanonicalEvent (example_params ''1.0'') = ok e \<and>
     NewCanonicalEvent (example_params ''2.0'') = ok f \<and> e \<noteq> f \<and>
     ((ev_projectID e = ev_projectID f \<and> ev_kind e = ev_kind f \<and> sourceFor e = sourceFor f) \<or>
      (canonical_text e \<noteq> canonical_text f \<and>
       Sum256 (canonical_text e) = Sum256 (canonical_text f)))"
proof -
  obtain e f where e: "NewCanonicalEvent (example_params ''1.0'') = ok e" "groupable e"
      "ev_release e = ''1.0''" "ev_defaultGroupingParts e = [''boom'']"
      "ev_explicitFingerprint e = [''x'']" "ev_kind e = ''error''"
      "ev_projectID e = ProjectID (replicate 32 CHR ''b'')"
    and f: "NewCanonicalEvent (example_params ''2.0'') = ok f" "groupable f"
      "ev_release f = ''2.0''" "ev_defaultGroupingParts f = [''boom'']"
      "ev_explicitFingerprint f = [''x'']" "ev_kind f = ''error''"
      "ev_projectID f = ProjectID (replicate 32 CHR ''b'')"
    using example_groupable [of "''1.0''"] example_groupable [of "''2.0''"]
    by (auto simp: TrimSpace_id)
  then have "canonical_text e = canonical_text f"
    by (simp add: canonical_text_def sourceFor_def)
  then have "ComputeFingerprint e = ComputeFingerprint f" by (simp add: ComputeFingerprint_ok)
  with same_fingerprint_same_source [of e f] e f show ?thesis by auto
qed

end
