(* ===== verification/Payload.thy ===== *)
theory Payload
  imports Grouping "HOL-Library.List_Lexorder"
begin

text \<open>
  The canonical payload of \<open>internal/adapters/postgres/store.go\<close>: the JSON document stored beside
  the columns of an event. A JSON value is a tree; an object is its list of members, and the column
  (\<open>jsonb\<close>) does not keep their order. \<open>json.Marshal\<close> writes invalid UTF-8 as U+FFFD, which is
  \<open>JStr\<close> of \<open>marshalled\<close>. A duration in milliseconds is a \<open>float64\<close> in the code: \<open>JMilliseconds d\<close>
  is the number \<open>float64(d) / float64(time.Millisecond)\<close>, kept as the duration it is computed from.
\<close>

datatype json =
    JInt int
  | JUint u64
  | JMilliseconds duration
  | JString string
  | JArray "json list"
  | JObject "(string \<times> json) list"

definition marshalled :: "string \<Rightarrow> string" where
  "marshalled s = string_of_runes (runes s)"

abbreviation JStr :: "string \<Rightarrow> json" where
  "JStr s \<equiv> JString (marshalled s)"

text \<open>A member that is set only when the text is not empty.\<close>

definition member_if :: "string \<Rightarrow> string \<Rightarrow> (string \<times> json) list" where
  "member_if key text = (if text \<noteq> [] then [(key, JStr text)] else [])"

subsection \<open>RFC 3339 times\<close>

text \<open>
  The calendar date of a day counted from 1 January of the year 1, in the proleptic Gregorian
  calendar that \<open>time.Time\<close> uses: 400-year cycles of 146097 days, then centuries, four-year cycles
  and years, the last of each one day longer.
\<close>

definition month_lengths :: "bool \<Rightarrow> int list" where
  "month_lengths leap = [31, if leap then 29 else 28, 31, 30, 31, 30, 31, 31, 30, 31, 30, 31]"

fun month_day :: "int list \<Rightarrow> int \<Rightarrow> int \<Rightarrow> int \<times> int" where
  "month_day [] month day = (month, day + 1)"
| "month_day (len # lens) month day =
     (if day < len then (month, day + 1) else month_day lens (month + 1) (day - len))"

definition leap_year :: "int \<Rightarrow> bool" where
  "leap_year y \<longleftrightarrow> y mod 4 = 0 \<and> (y mod 100 \<noteq> 0 \<or> y mod 400 = 0)"

definition civil_date :: "int \<Rightarrow> int \<times> int \<times> int" where
  "civil_date d =
     (let n400 = d div 146097; d1 = d mod 146097;
          n100 = min 3 (d1 div 36524); d2 = d1 - n100 * 36524;
          n4 = d2 div 1461; d3 = d2 mod 1461;
          n1 = min 3 (d3 div 365);
          year = 400 * n400 + 100 * n100 + 4 * n4 + n1 + 1;
          (month, day) = month_day (month_lengths (leap_year year)) 1 (d3 - n1 * 365)
      in (year, month, day))"

definition padded :: "nat \<Rightarrow> int \<Rightarrow> string" where
  "padded n i =
     (let ds = digits (nat \<bar>i\<bar>); ps = replicate (n - length ds) CHR ''0'' @ ds
      in if i < 0 then CHR ''-'' # ps else ps)"

definition fraction_text :: "int \<Rightarrow> string" where
  "fraction_text nanos =
     (if nanos = 0 then []
      else CHR ''.'' # rev (dropWhile (\<lambda>c. c = CHR ''0'') (rev (padded 9 nanos))))"

definition RFC3339Nano :: "gotime \<Rightarrow> string" where
  "RFC3339Nano t =
     (let days = t div (24 * hour); rest = t mod (24 * hour); (y, m, d) = civil_date days
      in padded 4 y @ ''-'' @ padded 2 m @ ''-'' @ padded 2 d @ ''T'' @
         padded 2 (rest div hour) @ '':'' @ padded 2 (rest mod hour div minute) @ '':'' @
         padded 2 (rest mod minute div second) @ fraction_text (rest mod second) @ ''Z'')"

subsection \<open>Encoders\<close>

definition encodeTransactionSpan :: "TransactionSpan \<Rightarrow> json" where
  "encodeTransactionSpan span =
     JObject ([(''span_id'', JStr (span_spanID span)),
               (''operation'', JStr (span_operation span)),
               (''duration_ms'', JMilliseconds (span_duration span)),
               (''status'', JStr (span_status span))] @
              member_if ''parent_span_id'' (span_parentSpanID span) @
              member_if ''description'' (span_description span))"

definition encodeTransactionSpans :: "TransactionSpan list \<Rightarrow> json list option" where
  "encodeTransactionSpans spans =
     (if length spans = 0 then None else Some (map encodeTransactionSpan spans))"

definition transactionName :: "CanonicalEvent \<Rightarrow> string" where
  "transactionName event = (if \<not> ev_hasTransaction event then [] else tx_name (ev_transaction event))"

definition encodeTransaction :: "CanonicalEvent \<Rightarrow> json option" where
  "encodeTransaction event =
     (if \<not> ev_hasTransaction event then None else
      let transaction = ev_transaction event; trace = tx_trace transaction in
      Some (JObject ([(''name'', JStr (tx_name transaction)),
              (''operation'', JStr (tx_operation transaction)),
              (''duration_ms'', JMilliseconds (tx_duration transaction)),
              (''status'', JStr (tx_status transaction)),
              (''span_count'', JInt (int (length (tx_spans transaction))))] @
             (if tx_hasTrace transaction
              then [(''trace'', JObject ([(''trace_id'', JStr (trace_traceID trace)),
                       (''span_id'', JStr (trace_spanID trace))] @
                      member_if ''parent_span_id'' (trace_parentSpanID trace)))]
              else []) @
             (case encodeTransactionSpans (tx_spans transaction) of
                None \<Rightarrow> [] | Some spans \<Rightarrow> [(''spans'', JArray spans)]))))"

definition encodeJsFrame :: "JsStacktraceFrame \<Rightarrow> json" where
  "encodeJsFrame frame =
     JObject ([(''abs_path'', JStr (jf_absPath frame)),
               (''generated'', JObject [(''line'', JInt (jf_generatedLine frame)),
                                        (''column'', JInt (jf_generatedColumn frame))])] @
              member_if ''function'' (jf_function frame) @
              (if jf_hasResolution frame
               then let resolution = jf_resolution frame in
                 [(''resolved'', JObject ([(''source'', JStr (jr_source resolution)),
                      (''line'', JInt (jr_originalLine resolution)),
                      (''column'', JInt (jr_originalColumn resolution))] @
                     member_if ''symbol'' (jr_symbol resolution)))]
               else []))"

definition encodeJsStacktrace :: "JsStacktraceFrame list \<Rightarrow> json option" where
  "encodeJsStacktrace frames =
     (if length frames = 0 then None else Some (JArray (map encodeJsFrame frames)))"

definition encodeNativeModule :: "NativeModule \<Rightarrow> json" where
  "encodeNativeModule module =
     JObject [(''debug_id'', JStr (DebugIdentifier_value (nm_debugID module))),
              (''code_file'', JStr (nm_codeFile module)),
              (''image_addr'', JUint (nm_imageAddr module)),
              (''image_size'', JUint (nm_imageSize module))]"

definition encodeNativeFrame :: "NativeFrame \<Rightarrow> json" where
  "encodeNativeFrame frame =
     JObject ([(''instruction_addr'', JUint (nf_instructionAddr frame))] @
              (let (debugID, hasModule) = NativeFrame_ModuleDebugID frame in
               if hasModule then [(''module_debug_id'', JStr (DebugIdentifier_value debugID))]
               else []) @
              member_if ''function'' (nf_function frame) @ member_if ''package'' (nf_pkg frame))"

definition encodeNativeReferences :: "NativeModule list \<Rightarrow> NativeFrame list \<Rightarrow> json option" where
  "encodeNativeReferences modules frames =
     (if length modules = 0 \<and> length frames = 0 then None
      else Some (JObject
        ((if length modules > 0 then [(''modules'', JArray (map encodeNativeModule modules))] else []) @
         (if length frames > 0 then [(''frames'', JArray (map encodeNativeFrame frames))] else []))))"

definition encodeAttachment :: "EventAttachment \<Rightarrow> json" where
  "encodeAttachment attachment =
     JObject ([(''kind'', JStr (ArtifactKind_value (att_kind attachment))),
               (''name'', JStr (ArtifactName_value (att_name attachment))),
               (''byte_size'', JInt (att_byteSize attachment))] @
              member_if ''content_type'' (att_contentType attachment))"

text \<open>
  The members of a Go map are written sorted by key: \<open>entries\<close> is the map's entries in the order a
  loop over it visits them, as everywhere a tag map is ranged over.
\<close>

definition encodeTags :: "(string \<times> string) list \<Rightarrow> json" where
  "encodeTags entries = JObject (map (\<lambda>(k, v). (marshalled k, JStr v)) (sort_key fst entries))"

definition optional_member :: "string \<Rightarrow> json option \<Rightarrow> (string \<times> json) list" where
  "optional_member key encoded = (case encoded of None \<Rightarrow> [] | Some value \<Rightarrow> [(key, value)])"

definition canonicalPayloadJSON :: "(string \<times> string) list \<Rightarrow> AcceptedEvent \<Rightarrow> json" where
  "canonicalPayloadJSON entries event =
     (let canonical = ac_event event in
      JObject ([(''event_id'', JStr (EventID_Hex (ev_eventID canonical))),
               (''kind'', JStr (ev_kind canonical)),
               (''level'', JStr (ev_level canonical)),
               (''title'', JStr (EventTitle_value (ev_title canonical))),
               (''platform'', JStr (ev_platform canonical)),
               (''occurred_at'', JStr (RFC3339Nano (TimePoint_Time (ev_occurredAt canonical)))),
               (''received_at'', JStr (RFC3339Nano (TimePoint_Time (ev_receivedAt canonical)))),
               (''release'', JStr (ev_release canonical)),
               (''environment'', JStr (ev_environment canonical)),
               (''tags'', encodeTags entries),
               (''fingerprint'', JObject
                  [(''algorithm'', JStr (fingerprint_algorithm (ac_fingerprint event))),
                   (''value'', JStr (fingerprint_value (ac_fingerprint event)))])] @
              (if length (ev_attachments canonical) > 0
               then [(''attachments'', JArray (map encodeAttachment (ev_attachments canonical)))]
               else []) @
              optional_member ''js_stacktrace'' (encodeJsStacktrace (ev_jsStacktrace canonical)) @
              optional_member ''native''
                (encodeNativeReferences (ev_nativeModules canonical) (ev_nativeFrames canonical)) @
              optional_member ''transaction'' (encodeTransaction canonical)))"

text \<open>PostgreSQL stores no text with a zero byte in it, also not inside \<open>jsonb\<close>.\<close>

fun json_storable :: "json \<Rightarrow> bool" where
  "json_storable (JString s) \<longleftrightarrow> CHR 0x00 \<notin> set s"
| "json_storable (JArray js) \<longleftrightarrow> list_all json_storable js"
| "json_storable (JObject ms) \<longleftrightarrow> list_all (\<lambda>(k, v). CHR 0x00 \<notin> set k \<and> json_storable v) ms"
| "json_storable _ \<longleftrightarrow> True"

subsection \<open>Texts that need no replacement\<close>

lemma encode_rune_ascii: "byte c < 128 \<Longrightarrow> encode_rune (byte c) = [c]"
  by (simp add: encode_rune_def rune_bytes_def)

lemma marshalled_ascii: "is_ascii s \<Longrightarrow> marshalled s = s"
  by (induction s)
    (auto simp: marshalled_def runes_ascii string_of_runes_def is_ascii_def encode_rune_ascii)

lemma graph_no_nul: "graph_ascii s \<Longrightarrow> CHR 0x00 \<notin> set s"
  by (auto simp: graph_ascii_def list_all_iff)

lemma graph_marshalled: "graph_ascii s \<Longrightarrow> CHR 0x00 \<notin> set (marshalled s)"
  by (simp add: marshalled_ascii graph_ascii_is_ascii graph_no_nul)

lemma sha256_hex_graph: "graph_ascii (sha256_hex s)"
  using hex_pattern_sha256_hex [of s] by (simp add: hex_pattern_def hex_pattern_graph)

text \<open>The text of a time is printable ASCII, whatever the time.\<close>

lemma digits_graph: "graph_ascii (digits n)"
  using digits_digit_byte [of n] by (auto simp: graph_ascii_def list_all_iff digit_byte_def)

lemma padded_graph: "graph_ascii (padded n i)"
  using digits_graph by (auto simp: padded_def Let_def graph_ascii_def list_all_iff)

lemma fraction_graph: "graph_ascii (fraction_text i)"
  using padded_graph [of 9 i]
  by (auto simp: fraction_text_def graph_ascii_def list_all_iff dest: set_dropWhileD)

lemma RFC3339Nano_graph: "graph_ascii (RFC3339Nano t)"
  using padded_graph fraction_graph
  by (auto simp: RFC3339Nano_def Let_def graph_ascii_def list_all_iff split: prod.split)

end
