(* ===== verification/Actions.thy ===== *)
theory Actions
  imports Prelude
begin

text \<open>
  Operations with effects: a Go method that reads and changes state outside its arguments (the
  database of a transaction, the clock, the random source) is a function from the state to a
  result and the new state. \<open>abind\<close> is the sequencing every method uses, with the early return
  on an error; the state reached by the failed call is kept, since Go has no rollback of its own.

  \<open>evolves R m\<close> says that every run of \<open>m\<close>, failed or not, takes the state along the relation
  \<open>R\<close>. Invariants are the relations \<open>\<lambda>s t. P s \<longrightarrow> P t\<close>; the rules below reduce the claim for a
  method to the claims for the calls it makes.
\<close>

named_theorems evolves_intros \<open>how a relation is established for a composed operation\<close>
named_theorems action_simps \<open>how runs of composed operations are taken apart\<close>

type_synonym ('s, 'a) action = "'s \<Rightarrow> 'a result \<times> 's"

definition areturn :: "'a \<Rightarrow> ('s, 'a) action" where
  "areturn v s = (ok v, s)"

definition afail :: "string \<Rightarrow> ('s, 'a) action" where
  "afail m s = (fail m, s)"

definition alift :: "'a result \<Rightarrow> ('s, 'a) action" where
  "alift r s = (r, s)"

definition abind :: "('s, 'a) action \<Rightarrow> ('a \<Rightarrow> ('s, 'b) action) \<Rightarrow> ('s, 'b) action" where
  "abind m f s = (case m s of (Inl e, t) \<Rightarrow> (Inl e, t) | (Inr v, t) \<Rightarrow> f v t)"

text \<open>A loop over a list that stops at the first error.\<close>

fun aeach :: "('a \<Rightarrow> ('s, unit) action) \<Rightarrow> 'a list \<Rightarrow> ('s, unit) action" where
  "aeach f [] = areturn ()"
| "aeach f (x # xs) = abind (f x) (\<lambda>_. aeach f xs)"

lemma areturn_eq [action_simps]: "areturn v s = (r, t) \<longleftrightarrow> r = Inr v \<and> t = s"
  by (auto simp: areturn_def)

lemma afail_eq [action_simps]: "afail m s = (r, t) \<longleftrightarrow> r = fail m \<and> t = s"
  by (auto simp: afail_def)

lemma alift_eq [action_simps]: "alift x s = (r, t) \<longleftrightarrow> r = x \<and> t = s"
  by (auto simp: alift_def)

lemma abind_ok [action_simps]:
  "abind m f s = (Inr w, t) \<longleftrightarrow> (\<exists>v u. m s = (Inr v, u) \<and> f v u = (Inr w, t))"
  by (cases "m s"; cases "fst (m s)") (auto simp: abind_def)

lemma abind_fail:
  "abind m f s = (Inl e, t) \<longleftrightarrow> m s = (Inl e, t) \<or> (\<exists>v u. m s = (Inr v, u) \<and> f v u = (Inl e, t))"
  by (cases "m s"; cases "fst (m s)") (auto simp: abind_def)

lemma abind_run: "m s = (Inr v, u) \<Longrightarrow> abind m f s = f v u"
  by (simp add: abind_def)

lemma abind_stop: "m s = (Inl e, u) \<Longrightarrow> abind m f s = (Inl e, u)"
  by (simp add: abind_def)

subsection \<open>Relations every run respects\<close>

definition evolves :: "('s \<Rightarrow> 's \<Rightarrow> bool) \<Rightarrow> ('s, 'a) action \<Rightarrow> bool" where
  "evolves R m \<longleftrightarrow> (\<forall>s. R s (snd (m s)))"

definition preorder_on_states :: "('s \<Rightarrow> 's \<Rightarrow> bool) \<Rightarrow> bool" where
  "preorder_on_states R \<longleftrightarrow> reflp R \<and> transp R"

lemma evolvesD: "evolves R m \<Longrightarrow> m s = (r, t) \<Longrightarrow> R s t"
  by (metis evolves_def snd_conv)

lemma evolvesI: "(\<And>s r t. m s = (r, t) \<Longrightarrow> R s t) \<Longrightarrow> evolves R m"
  by (metis evolves_def surjective_pairing)

lemma evolves_areturn [evolves_intros]: "preorder_on_states R \<Longrightarrow> evolves R (areturn v)"
  and evolves_afail [evolves_intros]: "preorder_on_states R \<Longrightarrow> evolves R (afail m)"
  and evolves_alift [evolves_intros]: "preorder_on_states R \<Longrightarrow> evolves R (alift r)"
  by (auto simp: evolves_def preorder_on_states_def areturn_def afail_def alift_def
      dest: reflpD)

lemma evolves_abind [evolves_intros]:
  assumes "preorder_on_states R" and "evolves R m" and "\<And>v. evolves R (f v)"
  shows "evolves R (abind m f)"
proof (rule evolvesI)
  fix s r t assume run: "abind m f s = (r, t)"
  obtain x u where m: "m s = (x, u)" by fastforce
  with assms(2) have su: "R s u" by (blast intro: evolvesD)
  show "R s t"
  proof (cases x)
    case (Inl e)
    with run m su show ?thesis by (simp add: abind_def)
  next
    case (Inr v)
    with run m have "f v u = (r, t)" by (simp add: abind_def)
    with assms(3) have "R u t" by (blast intro: evolvesD)
    with su assms(1) show ?thesis by (auto simp: preorder_on_states_def dest: transpD)
  qed
qed

lemma evolves_aeach [evolves_intros]:
  "preorder_on_states R \<Longrightarrow> (\<And>x. evolves R (f x)) \<Longrightarrow> evolves R (aeach f xs)"
  by (induction xs) (auto intro: evolves_intros)

lemma evolves_if [evolves_intros]:
  "evolves R m \<Longrightarrow> evolves R n \<Longrightarrow> evolves R (if b then m else n)"
  by simp

lemma preorder_invariant [intro, simp]: "preorder_on_states (\<lambda>s t. P s \<longrightarrow> P t)"
  by (auto simp: preorder_on_states_def reflp_def transp_def)

lemma preorder_subset [intro, simp]: "preorder_on_states (\<lambda>s t. f s \<subseteq> f t)"
  by (auto simp: preorder_on_states_def reflp_def transp_def)

lemma preorder_same [intro, simp]: "preorder_on_states (\<lambda>s t. f t = f s)"
  by (auto simp: preorder_on_states_def reflp_def transp_def)

lemma preorder_conj:
  "preorder_on_states R \<Longrightarrow> preorder_on_states S \<Longrightarrow> preorder_on_states (\<lambda>s t. R s t \<and> S s t)"
  unfolding preorder_on_states_def reflp_def transp_def by blast

text \<open>An invariant of \<open>evolves\<close> form, read on one run.\<close>

lemma keepsD: "evolves (\<lambda>s t. P s \<longrightarrow> P t) m \<Longrightarrow> m s = (r, t) \<Longrightarrow> P s \<Longrightarrow> P t"
  by (drule evolvesD) auto

end
