(* ===== verification/Database.thy ===== *)
theory Database
  imports Payload Actions
begin

text \<open>
  The database of the PostgreSQL adapter (\<open>internal/adapters/postgres\<close>), with the tables and
  constraints of its migrations, and the sessions that run statements against it.

  A table is the list of its rows. UUID columns hold the dashed text form, times the instant with
  microseconds, the resolution of \<open>timestamptz\<close>; a nullable column is an option. The code's SQL is
  translated statement by statement in the theories that follow; sessions run in the UTC time zone.
\<close>

subsection \<open>Tables\<close>

record OrganizationRow =
  org_id :: string
  org_accepting_events :: bool

record ProjectRow =
  prj_id :: string
  prj_organization_id :: string
  prj_ingest_ref :: string
  prj_accepting_events :: bool
  prj_scrub_ip_addresses :: bool
  prj_next_issue_short_id :: int

record ProjectKeyRow =
  pk_id :: string
  pk_project_id :: string
  pk_public_key :: string
  pk_active :: bool

record EventRow =
  er_id :: string
  er_organization_id :: string
  er_project_id :: string
  er_event_id :: string
  er_kind :: string
  er_level :: string
  er_title :: string
  er_platform :: string
  er_occurred_at :: gotime
  er_received_at :: gotime
  er_release :: "string option"
  er_environment :: "string option"
  er_transaction_name :: "string option"
  er_fingerprint :: string
  er_canonical_payload :: json

record IssueRow =
  ir_id :: string
  ir_organization_id :: string
  ir_project_id :: string
  ir_short_id :: int
  ir_type :: string
  ir_status :: string
  ir_title :: string
  ir_first_seen_at :: gotime
  ir_last_seen_at :: gotime
  ir_event_count :: int
  ir_last_event_id :: string
  ir_release :: "string option"
  ir_environment :: "string option"
  ir_created_at :: gotime
  ir_assignee_operator_id :: "string option"
  ir_assignee_team_id :: "string option"

record FingerprintRow =
  fr_project_id :: string
  fr_fingerprint :: string
  fr_issue_id :: string
  fr_created_at :: gotime

record EventTagRow =
  tag_event_id :: string
  tag_project_id :: string
  tag_key :: string
  tag_value :: string

record TransactionRow =
  tr_event_id :: string
  tr_organization_id :: string
  tr_project_id :: string
  tr_transaction_name :: string
  tr_operation :: string
  tr_duration :: duration
  tr_status :: string
  tr_trace_id :: "string option"
  tr_span_id :: "string option"
  tr_parent_span_id :: "string option"
  tr_span_count :: int
  tr_spans :: json
  tr_occurred_at :: gotime
  tr_received_at :: gotime

record StatsRow =
  st_organization_id :: string
  st_project_id :: string
  st_bucket_at :: gotime
  st_event_count :: int
  st_issue_event_count :: int
  st_transaction_event_count :: int
  st_log_event_count :: int

record QuotaRow =
  qr_organization_id :: string
  qr_project_id :: string
  qr_daily_event_limit :: int
  qr_enabled :: bool

record RatePolicyRow =
  rp_project_key_id :: string
  rp_window_seconds :: int
  rp_event_limit :: int
  rp_enabled :: bool

record RateBucketRow =
  rb_project_key_id :: string
  rb_organization_id :: string
  rb_project_id :: string
  rb_bucket_at :: gotime
  rb_window_seconds :: int
  rb_event_count :: int
  rb_created_at :: gotime
  rb_updated_at :: gotime

record AlertRuleRow =
  ar_id :: string
  ar_project_id :: string
  ar_trigger :: string
  ar_enabled :: bool

record AlertActionRow =
  aa_rule_id :: string
  aa_provider :: string
  aa_destination_id :: string
  aa_enabled :: bool

record DestinationRow =
  dr_provider :: string
  dr_id :: string
  dr_organization_id :: string
  dr_project_id :: string
  dr_label :: string
  dr_address :: string
  dr_topic :: string
  dr_bot_email :: string
  dr_api_key :: string
  dr_stream :: string
  dr_enabled :: bool
  dr_created_at :: gotime

record IntentRow =
  ni_id :: string
  ni_organization_id :: string
  ni_project_id :: string
  ni_issue_id :: string
  ni_event_id :: string
  ni_provider :: string
  ni_destination_id :: string
  ni_status :: string
  ni_dedupe_key :: string
  ni_attempts :: int
  ni_next_attempt_at :: gotime
  ni_locked_until :: "gotime option"
  ni_provider_message_id :: "string option"
  ni_provider_status_code :: "int option"
  ni_last_error :: "string option"
  ni_created_at :: gotime
  ni_delivered_at :: "gotime option"

record OperatorRow =
  op_id :: string
  op_active :: bool

record ProjectMemberRow =
  pm_operator_id :: string
  pm_organization_id :: string
  pm_project_id :: string

record TeamProjectRow =
  tp_team_id :: string
  tp_organization_id :: string
  tp_project_id :: string

record TransitionRow =
  itr_id :: string
  itr_organization_id :: string
  itr_project_id :: string
  itr_issue_id :: string
  itr_actor_operator_id :: string
  itr_from_status :: string
  itr_to_status :: string
  itr_reason :: string
  itr_created_at :: gotime

record CommentRow =
  ic_id :: string
  ic_organization_id :: string
  ic_project_id :: string
  ic_issue_id :: string
  ic_actor_operator_id :: string
  ic_body :: string
  ic_created_at :: gotime

record AuditRow =
  ae_id :: string
  ae_organization_id :: string
  ae_project_id :: "string option"
  ae_actor_operator_id :: "string option"
  ae_action :: string
  ae_target_type :: string
  ae_target_id :: string
  ae_metadata :: json
  ae_created_at :: gotime

record MonitorRow =
  um_id :: string
  um_organization_id :: string
  um_project_id :: string
  um_monitor_type :: string
  um_name :: string
  um_target_url :: "string option"
  um_heartbeat_endpoint_id :: "string option"
  um_interval_seconds :: int
  um_timeout_seconds :: int
  um_heartbeat_grace_seconds :: "int option"
  um_enabled :: bool
  um_current_state :: string
  um_last_checked_at :: "gotime option"
  um_last_check_in_at :: "gotime option"
  um_next_check_at :: gotime
  um_check_lease_until :: "gotime option"
  um_created_by_operator_id :: "string option"
  um_created_at :: gotime
  um_updated_at :: gotime

record MonitorCheckRow =
  mc_id :: string
  mc_organization_id :: string
  mc_project_id :: string
  mc_monitor_id :: string
  mc_status :: string
  mc_http_status :: "int option"
  mc_duration :: duration
  mc_error :: string
  mc_checked_at :: gotime

record IncidentRow =
  mi_id :: string
  mi_organization_id :: string
  mi_project_id :: string
  mi_monitor_id :: string
  mi_opened_at :: gotime
  mi_resolved_at :: "gotime option"
  mi_last_check_id :: "string option"
  mi_reason :: string

record UserReportRow =
  ur_id :: string
  ur_organization_id :: string
  ur_project_id :: string
  ur_issue_id :: "string option"
  ur_event_id :: string
  ur_name :: string
  ur_email :: string
  ur_comments :: string
  ur_created_at :: gotime

record LogRecordRow =
  lr_id :: string
  lr_organization_id :: string
  lr_project_id :: string
  lr_timestamp_at :: gotime
  lr_received_at :: gotime
  lr_severity :: string
  lr_body :: string
  lr_logger :: "string option"
  lr_trace_id :: "string option"
  lr_span_id :: "string option"
  lr_release :: "string option"
  lr_environment :: "string option"
  lr_resource_attributes :: json
  lr_attributes :: json

text \<open>\<open>db_destinations\<close> stands for the eight destination tables, with the provider of the table in
each row; \<open>dr_address\<close> is the chat id, the email address or the URL, and the columns a provider does not have are
empty. The duration of a check is kept exactly, the code stores it in milliseconds. A quota row of an organization has no project.\<close>

record DB =
  db_organizations :: "OrganizationRow list"
  db_projects :: "ProjectRow list"
  db_project_keys :: "ProjectKeyRow list"
  db_events :: "EventRow list"
  db_issues :: "IssueRow list"
  db_issue_fingerprints :: "FingerprintRow list"
  db_event_tags :: "EventTagRow list"
  db_transaction_events :: "TransactionRow list"
  db_project_hourly_stats :: "StatsRow list"
  db_organization_quota_policies :: "QuotaRow list"
  db_project_quota_policies :: "QuotaRow list"
  db_rate_limit_policies :: "RatePolicyRow list"
  db_rate_limit_buckets :: "RateBucketRow list"
  db_alert_rules :: "AlertRuleRow list"
  db_alert_rule_actions :: "AlertActionRow list"
  db_destinations :: "DestinationRow list"
  db_notification_intents :: "IntentRow list"
  db_operators :: "OperatorRow list"
  db_project_members :: "ProjectMemberRow list"
  db_team_projects :: "TeamProjectRow list"
  db_issue_transitions :: "TransitionRow list"
  db_issue_comments :: "CommentRow list"
  db_audit_events :: "AuditRow list"
  db_monitors :: "MonitorRow list"
  db_monitor_checks :: "MonitorCheckRow list"
  db_monitor_incidents :: "IncidentRow list"
  db_user_reports :: "UserReportRow list"
  db_log_records :: "LogRecordRow list"

definition update_rows :: "('r \<Rightarrow> bool) \<Rightarrow> ('r \<Rightarrow> 'r) \<Rightarrow> 'r list \<Rightarrow> 'r list" where
  "update_rows P f rows = map (\<lambda>r. if P r then f r else r) rows"

text \<open>Parameters of a statement: what PostgreSQL accepts for a \<open>uuid\<close> and for a \<open>text\<close> column, and
how a \<open>time.Time\<close> is sent.\<close>

definition uuid_param :: "string \<Rightarrow> bool" where
  "uuid_param s \<longleftrightarrow> (case normalizeUUID s of Inl _ \<Rightarrow> False | Inr v \<Rightarrow> s = dashedUUID v)"

definition text_param :: "string \<Rightarrow> bool" where
  "text_param s \<longleftrightarrow> ValidString s \<and> CHR 0x00 \<notin> set s"

definition timestamptz :: "gotime \<Rightarrow> gotime" where
  "timestamptz t = t div 1000 * 1000"

definition trunc_hour :: "gotime \<Rightarrow> gotime" where
  "trunc_hour t = t div hour * hour"

definition day :: duration where "day = 24 * hour"

definition trunc_day :: "gotime \<Rightarrow> gotime" where
  "trunc_day t = t div day * day"

subsection \<open>Sessions\<close>

text \<open>
  What a session meets beside the database: other sessions that commit between two of its
  statements (at READ COMMITTED each statement sees what is committed when it starts), statements
  that fail because the connection is lost or the server refuses, the outcome of a commit, the
  random source, the clock, and the order in which a loop visits a Go map. Each of them is a function
  of the step at which it is asked; \<open>ses_tick\<close> counts the steps.
\<close>

datatype commit_outcome =
    Committed
  | CommitRefused go_error
  | CommitUnacknowledged go_error

record Env =
  env_others :: "nat \<Rightarrow> DB \<Rightarrow> DB"
  env_fault :: "nat \<Rightarrow> go_error option"
  env_commit :: "nat \<Rightarrow> commit_outcome"
  env_random :: "nat \<Rightarrow> (nat \<Rightarrow> char) option"
  env_now :: "nat \<Rightarrow> gotime"
  env_range :: "nat \<Rightarrow> (string \<rightharpoonup> string) \<Rightarrow> (string \<times> string) list"

text \<open>
  \<open>ses_db\<close> is what the statements of the session see, its own changes included, \<open>ses_base\<close> the
  database without them, to which a rollback returns; outside a transaction they are the same.
  \<open>ses_aborted\<close> is PostgreSQL's aborted state, in which every statement fails until the rollback.
  \<open>ses_world\<close> is what lies outside the database (files, for an append effect).
\<close>

record 'w Session =
  ses_env :: Env
  ses_tick :: nat
  ses_db :: DB
  ses_base :: DB
  ses_aborted :: bool
  ses_world :: 'w

definition advance :: "'w Session \<Rightarrow> 'w Session" where
  "advance s = (let others = env_others (ses_env s) (ses_tick s) in
     s\<lparr>ses_tick := Suc (ses_tick s), ses_db := others (ses_db s), ses_base := others (ses_base s)\<rparr>)"

definition statement :: "(DB \<Rightarrow> ('a \<times> DB) result) \<Rightarrow> ('w Session, 'a) action" where
  "statement f s =
     (let t = advance s in
      if ses_aborted s then (fail ''current transaction is aborted'', t)
      else case env_fault (ses_env s) (ses_tick s) of
        Some e \<Rightarrow> (Inl e, t\<lparr>ses_aborted := True\<rparr>)
      | None \<Rightarrow> (case f (ses_db t) of
          Inl e \<Rightarrow> (Inl e, t\<lparr>ses_aborted := True\<rparr>)
        | Inr (v, d) \<Rightarrow> (Inr v, t\<lparr>ses_db := d\<rparr>)))"

definition query :: "(DB \<Rightarrow> 'a result) \<Rightarrow> ('w Session, 'a) action" where
  "query f = statement (\<lambda>d. rbind (f d) (\<lambda>v. ok (v, d)))"

text \<open>\<open>QueryRow(...).Scan(...)\<close> of a query with at most one row; no row is the error \<open>ErrNoRows\<close>,
which is no error of the server and does not abort the transaction.\<close>

definition ErrNoRows :: string where "ErrNoRows = ''no rows in result set''"

definition scan_row :: "'a option \<Rightarrow> ('w Session, 'a) action" where
  "scan_row row = (case row of None \<Rightarrow> afail ErrNoRows | Some v \<Rightarrow> areturn v)"

definition begin_tx :: "('w Session, unit) action" where
  "begin_tx s = (let t = advance s in
     case env_fault (ses_env s) (ses_tick s) of
       Some e \<Rightarrow> (Inl e, t)
     | None \<Rightarrow> (ok (), t\<lparr>ses_aborted := False, ses_base := ses_db t\<rparr>))"

definition rollback_tx :: "'w Session \<Rightarrow> 'w Session" where
  "rollback_tx s = (let t = advance s in t\<lparr>ses_aborted := False, ses_db := ses_base t\<rparr>)"

definition commit_tx :: "('w Session, unit) action" where
  "commit_tx s = (let t = advance s in
     if ses_aborted s
       then (fail ''commit unexpectedly resulted in rollback'', t\<lparr>ses_aborted := False, ses_db := ses_base t\<rparr>)
     else case env_commit (ses_env s) (ses_tick s) of
       Committed \<Rightarrow> (ok (), t\<lparr>ses_base := ses_db t\<rparr>)
     | CommitRefused e \<Rightarrow> (Inl e, t\<lparr>ses_db := ses_base t\<rparr>)
     | CommitUnacknowledged e \<Rightarrow> (Inl e, t\<lparr>ses_base := ses_db t\<rparr>))"

text \<open>The shape of every method that runs in a transaction of its own: begin, the body, rollback
when the body fails, else commit.\<close>

definition in_transaction :: "('w Session, 'a) action \<Rightarrow> ('w Session, 'a) action" where
  "in_transaction body = abind begin_tx (\<lambda>_ s.
     case body s of
       (Inl e, t) \<Rightarrow> (Inl e, rollback_tx t)
     | (Inr v, t) \<Rightarrow> abind commit_tx (\<lambda>_. areturn v) t)"

definition uuid4_hex :: "(nat \<Rightarrow> char) \<Rightarrow> string" where
  "uuid4_hex random =
     (let bytes = map random [0..<16];
          bytes1 = bytes[6 := char_of (byte (bytes ! 6) mod 16 + 64)];
          bytes2 = bytes1[8 := char_of (byte (bytes1 ! 8) mod 64 + 128)]
      in hex_encode bytes2)"

lemma uuid4_hex_pattern: "hex_pattern 32 (uuid4_hex random)"
  by (simp add: uuid4_hex_def Let_def hex_pattern_def hex_encode_hex_byte)

definition randomUUID :: "('w Session, string) action" where
  "randomUUID s =
     (case env_random (ses_env s) (ses_tick s) of
        None \<Rightarrow> (fail ''random source failed'', advance s)
      | Some random \<Rightarrow> (ok (dashedUUID (uuid4_hex random)), advance s))"

definition time_Now :: "('w Session, gotime) action" where
  "time_Now s = (ok (env_now (ses_env s) (ses_tick s)), advance s)"

definition range_map :: "(string \<rightharpoonup> string) \<Rightarrow> ('w Session, (string \<times> string) list) action" where
  "range_map m s = (ok (env_range (ses_env s) (ses_tick s) m), advance s)"

text \<open>A statement on the pool, outside a transaction, is a transaction of its own.\<close>

definition pool_statement :: "(DB \<Rightarrow> ('a \<times> DB) result) \<Rightarrow> ('w Session, 'a) action" where
  "pool_statement f s = (case statement f s of
     (Inl e, t) \<Rightarrow> (Inl e, t\<lparr>ses_aborted := False, ses_db := ses_base t\<rparr>)
   | (Inr v, t) \<Rightarrow> (Inr v, t\<lparr>ses_base := ses_db t\<rparr>))"

definition pool_query :: "(DB \<Rightarrow> 'a result) \<Rightarrow> ('w Session, 'a) action" where
  "pool_query f = pool_statement (\<lambda>d. rbind (f d) (\<lambda>v. ok (v, d)))"

subsection \<open>Sessions without interference\<close>

definition quiet :: "Env \<Rightarrow> bool" where
  "quiet env \<longleftrightarrow> (\<forall>n d. env_others env n d = d)"

text \<open>What the visits of a loop over a map see: every entry once.\<close>

definition range_ok :: "Env \<Rightarrow> bool" where
  "range_ok env \<longleftrightarrow> (\<forall>n m. finite (dom m) \<longrightarrow>
     distinct (map fst (env_range env n m)) \<and> map_of (env_range env n m) = m)"

lemma advance_quiet: "quiet (ses_env s) \<Longrightarrow> advance s = s\<lparr>ses_tick := Suc (ses_tick s)\<rparr>"
  by (simp add: advance_def quiet_def)

lemma advance_env [simp]:
  "ses_env (advance s) = ses_env s" "ses_aborted (advance s) = ses_aborted s"
  "ses_world (advance s) = ses_world s" "ses_tick (advance s) = Suc (ses_tick s)"
  by (simp_all add: advance_def Let_def)

text \<open>The part of a session that only its own statements change.\<close>

lemma advance_quiet_db [simp]:
  "quiet (ses_env s) \<Longrightarrow> ses_db (advance s) = ses_db s"
  "quiet (ses_env s) \<Longrightarrow> ses_base (advance s) = ses_base s"
  by (simp_all add: advance_quiet)

lemma statement_okD:
  assumes "statement f s = (Inr v, t)"
  shows "\<exists>d. f (ses_db (advance s)) = Inr (v, d) \<and> t = (advance s)\<lparr>ses_db := d\<rparr> \<and>
    \<not> ses_aborted s"
  using assms unfolding statement_def Let_def
  by (auto split: if_split_asm option.split_asm sum.split_asm)

lemma statement_failD:
  assumes "statement f s = (Inl e, t)"
  shows "t = (advance s)\<lparr>ses_aborted := True\<rparr>"
  using assms unfolding statement_def Let_def
  by (auto split: if_split_asm option.split_asm sum.split_asm simp: advance_def Let_def)

lemma query_okD:
  "query f s = (Inr v, t) \<Longrightarrow> f (ses_db (advance s)) = Inr v \<and> t = advance s \<and> \<not> ses_aborted s"
  unfolding query_def by (drule statement_okD) (auto simp: rbind_eq_ok)

lemma query_failD: "query f s = (Inl e, t) \<Longrightarrow> t = (advance s)\<lparr>ses_aborted := True\<rparr>"
  unfolding query_def by (rule statement_failD)

lemma scan_row_eq [action_simps]:
  "scan_row row s = (Inr v, t) \<longleftrightarrow> row = Some v \<and> t = s"
  "scan_row row s = (Inl e, t) \<longleftrightarrow> row = None \<and> e = GoErr ErrNoRows \<and> t = s"
  by (auto simp: scan_row_def afail_def areturn_def split: option.split)

lemma time_Now_eq [action_simps]:
  "time_Now s = (r, t) \<longleftrightarrow> r = ok (env_now (ses_env s) (ses_tick s)) \<and> t = advance s"
  by (auto simp: time_Now_def)

lemma range_map_eq [action_simps]:
  "range_map m s = (r, t) \<longleftrightarrow> r = ok (env_range (ses_env s) (ses_tick s) m) \<and> t = advance s"
  by (auto simp: range_map_def)

lemma randomUUID_okD:
  assumes "randomUUID s = (Inr u, t)"
  shows "t = advance s \<and> (\<exists>v. hex_pattern 32 v \<and> u = dashedUUID v)"
  using assms uuid4_hex_pattern unfolding randomUUID_def
  by (auto split: option.split_asm)

lemma randomUUID_failD: "randomUUID s = (Inl e, t) \<Longrightarrow> t = advance s"
  by (auto simp: randomUUID_def split: option.split_asm)

subsection \<open>Relations on the database that every step respects\<close>

text \<open>
  A relation on databases holds along a run of a session when every statement respects it. In a
  quiet session only the session's own statements count.
\<close>

definition db_evolves :: "(DB \<Rightarrow> DB \<Rightarrow> bool) \<Rightarrow> 'w Session \<Rightarrow> 'w Session \<Rightarrow> bool" where
  "db_evolves R s t \<longleftrightarrow> ses_env t = ses_env s \<and>
     (quiet (ses_env s) \<longrightarrow> R (ses_db s) (ses_db t) \<and> ses_base t = ses_base s)"

lemma preorder_db_evolves [intro, simp]:
  "preorder_on_states R \<Longrightarrow> preorder_on_states (db_evolves R)"
  unfolding preorder_on_states_def reflp_def transp_def db_evolves_def by metis

lemma db_evolves_advance: "preorder_on_states R \<Longrightarrow> db_evolves R s (advance s)"
  by (auto simp: db_evolves_def preorder_on_states_def reflp_def)

lemma evolves_statement:
  assumes "preorder_on_states R" and "\<And>d v d'. f d = Inr (v, d') \<Longrightarrow> R d d'"
  shows "evolves (db_evolves R) (statement f)"
proof (rule evolvesI)
  fix s r t assume run: "statement f s = (r, t)"
  show "db_evolves R s t"
  proof (cases r)
    case (Inl e)
    with run have "t = (advance s)\<lparr>ses_aborted := True\<rparr>" by (auto dest: statement_failD)
    then show ?thesis using assms(1) by (auto simp: db_evolves_def preorder_on_states_def reflp_def)
  next
    case (Inr v)
    with run obtain d where "f (ses_db (advance s)) = Inr (v, d)" "t = (advance s)\<lparr>ses_db := d\<rparr>"
      by (auto dest: statement_okD)
    with assms(2) show ?thesis by (auto simp: db_evolves_def)
  qed
qed

lemma evolves_query [evolves_intros]:
  "preorder_on_states R \<Longrightarrow> evolves (db_evolves R) (query f)"
  unfolding query_def
  by (rule evolves_statement) (auto simp: rbind_eq_ok preorder_on_states_def dest: reflpD)

lemma evolves_steps [evolves_intros]:
  assumes "preorder_on_states R"
  shows "evolves (db_evolves R) (scan_row row)" "evolves (db_evolves R) time_Now"
    "evolves (db_evolves R) (range_map m)" "evolves (db_evolves R) randomUUID"
  using assms db_evolves_advance [OF assms] preorder_db_evolves [OF assms]
  by (auto intro!: evolvesI simp: scan_row_def areturn_def afail_def time_Now_def range_map_def
      randomUUID_def preorder_on_states_def [of "db_evolves R"] split: option.split_asm
      dest: reflpD)

end
