(* ===== verification/Ingest.thy ===== *)
theory Ingest
  imports Grouping Actions
begin

text \<open>
  \<open>internal/app/ingest/workflow.go\<close> and \<open>ports.go\<close>: the ingest workflow over its ports. The ports
  are a record of operations on a state that the workflow does not look into; \<open>Run\<close> of the
  transaction gets the program and hands it the ports. The locale \<open>ingest_ports\<close> states what the
  workflow relies on, and the workflow's lemmas are proved in it; \<open>IngestStore\<close> interprets it on
  the PostgreSQL store.
\<close>

subsection \<open>Commands, decisions and receipts\<close>

record IngestCommand =
  cmd_event :: CanonicalEvent

record EventAppendResult =
  append_duplicate :: bool

record IssueChange =
  change_issueID :: IssueID
  change_created :: bool

record IssueOpenedEnqueueResult =
  enqueue_count :: int

record QuotaDecision =
  quota_allowed :: bool
  quota_reason :: string

type_synonym ReceiptKind = string

definition ReceiptAcceptedIssueEvent :: ReceiptKind where
  "ReceiptAcceptedIssueEvent = ''accepted_issue_event''"
definition ReceiptAcceptedNonIssueEvent :: ReceiptKind where
  "ReceiptAcceptedNonIssueEvent = ''accepted_non_issue_event''"
definition ReceiptDuplicateEvent :: ReceiptKind where
  "ReceiptDuplicateEvent = ''duplicate_event''"
definition ReceiptQuotaRejected :: ReceiptKind where
  "ReceiptQuotaRejected = ''quota_rejected''"

lemmas receipt_kind_defs = ReceiptAcceptedIssueEvent_def ReceiptAcceptedNonIssueEvent_def
  ReceiptDuplicateEvent_def ReceiptQuotaRejected_def

record IngestReceipt =
  rcpt_kind :: ReceiptKind
  rcpt_eventID :: EventID
  rcpt_fingerprint :: Fingerprint
  rcpt_issueID :: IssueID
  rcpt_hasIssueID :: bool
  rcpt_reason :: string

record IngestTransactionResult =
  txr_receipt :: IngestReceipt

definition NewIngestCommand :: "CanonicalEvent \<Rightarrow> IngestCommand" where
  "NewIngestCommand event = \<lparr>cmd_event = event\<rparr>"

definition NewAppendedEvent :: EventAppendResult where
  "NewAppendedEvent = \<lparr>append_duplicate = False\<rparr>"

definition NewDuplicateEvent :: EventAppendResult where
  "NewDuplicateEvent = \<lparr>append_duplicate = True\<rparr>"

definition NewIssueChange :: "IssueID \<Rightarrow> bool \<Rightarrow> IssueChange" where
  "NewIssueChange issueID created = \<lparr>change_issueID = issueID, change_created = created\<rparr>"

definition NewIssueOpenedEnqueueResult :: "int \<Rightarrow> IssueOpenedEnqueueResult" where
  "NewIssueOpenedEnqueueResult count = \<lparr>enqueue_count = count\<rparr>"

definition NewQuotaAllowed :: QuotaDecision where
  "NewQuotaAllowed = \<lparr>quota_allowed = True, quota_reason = []\<rparr>"

definition NewQuotaRejected :: "string \<Rightarrow> QuotaDecision" where
  "NewQuotaRejected reason =
     \<lparr>quota_allowed = False,
      quota_reason = (if reason = [] then ''quota_exceeded'' else reason)\<rparr>"

definition transactionResult :: "IngestReceipt \<Rightarrow> IngestTransactionResult" where
  "transactionResult receipt = \<lparr>txr_receipt = receipt\<rparr>"

text \<open>The zero receipt carries what a composite literal leaves out.\<close>

definition receipt_of :: "ReceiptKind \<Rightarrow> AcceptedEvent \<Rightarrow> IngestReceipt" where
  "receipt_of kind accepted =
     \<lparr>rcpt_kind = kind, rcpt_eventID = ev_eventID (ac_event accepted),
      rcpt_fingerprint = ac_fingerprint accepted, rcpt_issueID = IssueID [],
      rcpt_hasIssueID = False, rcpt_reason = []\<rparr>"

definition duplicateReceipt :: "AcceptedEvent \<Rightarrow> IngestReceipt" where
  "duplicateReceipt accepted = receipt_of ReceiptDuplicateEvent accepted"

definition quotaReceipt :: "AcceptedEvent \<Rightarrow> QuotaDecision \<Rightarrow> IngestReceipt" where
  "quotaReceipt accepted quota =
     (receipt_of ReceiptQuotaRejected accepted)\<lparr>rcpt_reason := quota_reason quota\<rparr>"

definition nonIssueReceipt :: "AcceptedEvent \<Rightarrow> IngestReceipt" where
  "nonIssueReceipt accepted = receipt_of ReceiptAcceptedNonIssueEvent accepted"

definition issueReceipt :: "AcceptedEvent \<Rightarrow> IssueChange \<Rightarrow> IngestReceipt" where
  "issueReceipt accepted change =
     (receipt_of ReceiptAcceptedIssueEvent accepted)
       \<lparr>rcpt_issueID := change_issueID change, rcpt_hasIssueID := True\<rparr>"

lemmas receipt_defs = duplicateReceipt_def quotaReceipt_def nonIssueReceipt_def issueReceipt_def
  receipt_of_def transactionResult_def

subsection \<open>The ports and the program\<close>

record 's TransactionalIngestPorts =
  port_Exists :: "ProjectID \<Rightarrow> EventID \<Rightarrow> ('s, bool) action"
  port_Append :: "AcceptedEvent \<Rightarrow> ('s, EventAppendResult) action"
  port_CheckQuota :: "CanonicalEvent \<Rightarrow> ('s, QuotaDecision) action"
  port_Apply :: "IssuePlan \<Rightarrow> ('s, IssueChange) action"
  port_EnqueueIssueOpened ::
    "AcceptedEvent \<Rightarrow> IssueChange \<Rightarrow> ('s, IssueOpenedEnqueueResult) action"

type_synonym 's AppendEffect = "AcceptedEvent \<Rightarrow> ('s, unit) action"

type_synonym 's IngestProgram =
  "'s TransactionalIngestPorts \<Rightarrow> ('s, IngestTransactionResult) action"

type_synonym 's IngestTransaction = "'s IngestProgram \<Rightarrow> ('s, IngestTransactionResult) action"

definition noAppendEffect :: "'s AppendEffect" where
  "noAppendEffect event = areturn ()"

definition ingestProgram :: "AcceptedEvent \<Rightarrow> 's AppendEffect \<Rightarrow> 's IngestProgram" where
  "ingestProgram accepted appendEffect ports =
     (let event = ac_event accepted in
      abind (port_Exists ports (ev_projectID event) (ev_eventID event)) (\<lambda>exists.
      if exists then areturn (transactionResult (duplicateReceipt accepted)) else
      abind (port_CheckQuota ports event) (\<lambda>quota.
      if \<not> quota_allowed quota then areturn (transactionResult (quotaReceipt accepted quota)) else
      abind (port_Append ports accepted) (\<lambda>appendState.
      if append_duplicate appendState
        then areturn (transactionResult (duplicateReceipt accepted)) else
      abind (appendEffect accepted) (\<lambda>_.
      if \<not> CanonicalEvent_CreatesIssue event
        then areturn (transactionResult (nonIssueReceipt accepted)) else
      abind (alift (NewIssuePlan accepted)) (\<lambda>issuePlan.
      abind (port_Apply ports issuePlan) (\<lambda>issueChange.
      if IssueID_String (change_issueID issueChange) = [] then afail ''issue id is required'' else
      abind (if change_created issueChange
             then abind (port_EnqueueIssueOpened ports accepted issueChange) (\<lambda>_. areturn ())
             else areturn ()) (\<lambda>_.
      areturn (transactionResult (issueReceipt accepted issueChange))))))))))"

text \<open>The program after the append, and its part for events that create issues.\<close>

definition index_issue :: "AcceptedEvent \<Rightarrow> 's IngestProgram" where
  "index_issue accepted ports =
     abind (alift (NewIssuePlan accepted)) (\<lambda>issuePlan.
     abind (port_Apply ports issuePlan) (\<lambda>issueChange.
     if IssueID_String (change_issueID issueChange) = [] then afail ''issue id is required'' else
     abind (if change_created issueChange
            then abind (port_EnqueueIssueOpened ports accepted issueChange) (\<lambda>_. areturn ())
            else areturn ()) (\<lambda>_.
     areturn (transactionResult (issueReceipt accepted issueChange)))))"

definition after_append :: "AcceptedEvent \<Rightarrow> 's AppendEffect \<Rightarrow> 's IngestProgram" where
  "after_append accepted appendEffect ports =
     abind (appendEffect accepted) (\<lambda>_.
     if \<not> CanonicalEvent_CreatesIssue (ac_event accepted)
       then areturn (transactionResult (nonIssueReceipt accepted))
     else index_issue accepted ports)"

lemma ingestProgram_eq:
  "ingestProgram accepted effect ports =
     abind (port_Exists ports (ev_projectID (ac_event accepted)) (ev_eventID (ac_event accepted)))
      (\<lambda>exists. if exists then areturn (transactionResult (duplicateReceipt accepted)) else
      abind (port_CheckQuota ports (ac_event accepted)) (\<lambda>quota.
      if \<not> quota_allowed quota then areturn (transactionResult (quotaReceipt accepted quota)) else
      abind (port_Append ports accepted) (\<lambda>appendState.
      if append_duplicate appendState then areturn (transactionResult (duplicateReceipt accepted))
      else after_append accepted effect ports)))"
  by (simp only: ingestProgram_def index_issue_def after_append_def Let_def)

definition ingestCanonicalEvent ::
  "IngestCommand \<Rightarrow> 's IngestTransaction \<Rightarrow> 's AppendEffect \<Rightarrow> ('s, IngestReceipt) action" where
  "ingestCanonicalEvent command transaction appendEffect =
     abind (alift (ComputeFingerprint (cmd_event command))) (\<lambda>fingerprint.
     abind (alift (NewAcceptedEvent (cmd_event command) fingerprint)) (\<lambda>accepted.
     abind (transaction (ingestProgram accepted appendEffect)) (\<lambda>completed.
     areturn (txr_receipt completed))))"

definition IngestCanonicalEvent ::
  "IngestCommand \<Rightarrow> 's IngestTransaction \<Rightarrow> ('s, IngestReceipt) action" where
  "IngestCanonicalEvent command transaction =
     ingestCanonicalEvent command transaction noAppendEffect"

text \<open>A nil effect is \<open>None\<close>.\<close>

definition IngestCanonicalEventWithAppendEffect ::
  "IngestCommand \<Rightarrow> 's IngestTransaction \<Rightarrow> 's AppendEffect option \<Rightarrow> ('s, IngestReceipt) action"
  where
  "IngestCanonicalEventWithAppendEffect command transaction appendEffect =
     (case appendEffect of
        None \<Rightarrow> afail ''append effect is required''
      | Some effect \<Rightarrow> ingestCanonicalEvent command transaction effect)"

subsection \<open>The plan of an event always exists\<close>

definition accepted_of :: "CanonicalEvent \<Rightarrow> AcceptedEvent" where
  "accepted_of event =
     \<lparr>ac_event = event,
      ac_fingerprint = \<lparr>fingerprint_algorithm = Algorithm,
        fingerprint_value = sha256_hex (canonical_text event)\<rparr>\<rparr>"

lemma ac_event_accepted_of [simp]: "ac_event (accepted_of event) = event"
  by (simp add: accepted_of_def)

lemma NewAcceptedEvent_computed:
  "rbind (ComputeFingerprint event) (NewAcceptedEvent event) = ok (accepted_of event)"
  using hex_pattern_sha256_hex [of "canonical_text event"]
  by (auto simp: ComputeFingerprint_ok NewAcceptedEvent_def accepted_of_def hex_pattern_def)

lemma ingestCanonicalEvent_eq:
  "ingestCanonicalEvent (NewIngestCommand event) transaction effect =
   abind (transaction (ingestProgram (accepted_of event) effect)) (\<lambda>c. areturn (txr_receipt c))"
  using NewAcceptedEvent_computed [of event]
  by (auto simp: ingestCanonicalEvent_def NewIngestCommand_def fun_eq_iff abind_def alift_def
      ComputeFingerprint_ok)

lemma NewIssuePlan_created:
  "CanonicalEvent_CreatesIssue (ac_event ac) \<Longrightarrow> NewIssuePlan ac = ok \<lparr>plan_event = ac\<rparr>"
  by (simp add: NewIssuePlan_def)

subsection \<open>Histories of submissions\<close>

abbreviation key_of :: "CanonicalEvent \<Rightarrow> ProjectID \<times> EventID" where
  "key_of event \<equiv> (ev_projectID event, ev_eventID event)"

definition accepted_receipt :: "IngestReceipt \<Rightarrow> bool" where
  "accepted_receipt r \<longleftrightarrow>
     rcpt_kind r = ReceiptAcceptedIssueEvent \<or> rcpt_kind r = ReceiptAcceptedNonIssueEvent"

text \<open>Submissions one after the other, each with its outcome.\<close>

fun ingest_history :: "'s IngestTransaction \<Rightarrow> 's AppendEffect \<Rightarrow> CanonicalEvent list \<Rightarrow> 's \<Rightarrow>
    (CanonicalEvent \<times> IngestReceipt result) list \<times> 's" where
  "ingest_history run effect [] s = ([], s)"
| "ingest_history run effect (event # events) s =
     (let (x, t) = ingestCanonicalEvent (NewIngestCommand event) run effect s;
          (xs, u) = ingest_history run effect events t
      in ((event, x) # xs, u))"

definition accepted_keys ::
    "(CanonicalEvent \<times> IngestReceipt result) list \<Rightarrow> (ProjectID \<times> EventID) list" where
  "accepted_keys outcomes =
     map (\<lambda>(event, x). key_of event)
       (filter (\<lambda>(event, x). case x of Inr r \<Rightarrow> accepted_receipt r | Inl e \<Rightarrow> False) outcomes)"

lemma accepted_keys_Nil: "accepted_keys [] = []"
  by (simp add: accepted_keys_def)

lemma accepted_keys_Cons:
  "accepted_keys ((event, x) # xs) =
     (if case x of Inr r \<Rightarrow> accepted_receipt r | Inl e \<Rightarrow> False
      then key_of event # accepted_keys xs else accepted_keys xs)"
  by (simp add: accepted_keys_def)

text \<open>An effect that leaves the session's view of the database alone.\<close>

definition outside_effect :: "('s \<Rightarrow> 's \<Rightarrow> bool) \<Rightarrow> ('s \<Rightarrow> 'd) \<Rightarrow> 's AppendEffect \<Rightarrow> bool" where
  "outside_effect step store effect \<longleftrightarrow>
     (\<forall>ac. evolves (\<lambda>s t. step s t \<and> store t = store s) (effect ac))"

subsection \<open>What the workflow relies on\<close>

text \<open>
  \<open>inv\<close> is the condition on the session under which the laws hold; every call, failed or not, takes
  the session along \<open>step\<close>, which keeps it; \<open>store\<close> is what the session sees of the database and \<open>keys\<close> the project and event ids
  journalled in it. \<open>storable\<close> events are those whose ids the constructors made.
\<close>

abbreviation event_key :: "AcceptedEvent \<Rightarrow> ProjectID \<times> EventID" where
  "event_key ac \<equiv> (ev_projectID (ac_event ac), ev_eventID (ac_event ac))"

locale ingest_ports =
  fixes ports :: "'s TransactionalIngestPorts"
    and run :: "'s IngestTransaction"
    and inv :: "'s \<Rightarrow> bool"
    and step :: "'s \<Rightarrow> 's \<Rightarrow> bool"
    and store :: "'s \<Rightarrow> 'd"
    and keys :: "'d \<Rightarrow> (ProjectID \<times> EventID) set"
    and storable :: "AcceptedEvent \<Rightarrow> bool"
  assumes step_preorder: "preorder_on_states step"
    and step_inv: "step s t \<Longrightarrow> inv s \<Longrightarrow> inv t"
    and exists_step_law: "evolves step (port_Exists ports p ev)"
    and quota_step_law: "evolves step (port_CheckQuota ports event)"
    and append_step_law: "evolves step (port_Append ports ac)"
    and apply_step_law: "evolves step (port_Apply ports plan)"
    and enqueue_step_law: "evolves step (port_EnqueueIssueOpened ports ac ch)"
    and exists_ok: "storable ac \<Longrightarrow> inv s \<Longrightarrow>
      port_Exists ports (ev_projectID (ac_event ac)) (ev_eventID (ac_event ac)) s = (Inr b, t) \<Longrightarrow>
      store t = store s \<and> (b \<longleftrightarrow> event_key ac \<in> keys (store s))"
    and quota_ok: "inv s \<Longrightarrow> port_CheckQuota ports event s = (Inr q, t) \<Longrightarrow> store t = store s"
    and append_ok: "storable ac \<Longrightarrow> inv s \<Longrightarrow> port_Append ports ac s = (Inr a, t) \<Longrightarrow>
      (append_duplicate a \<longleftrightarrow> event_key ac \<in> keys (store s)) \<and>
      (append_duplicate a \<longrightarrow> store t = store s) \<and>
      keys (store t) = insert (event_key ac) (keys (store s))"
    and apply_ok: "inv s \<Longrightarrow> port_Apply ports plan s = (Inr c, t) \<Longrightarrow> keys (store t) = keys (store s)"
    and enqueue_ok: "inv s \<Longrightarrow> port_EnqueueIssueOpened ports ac ch s = (Inr n, t) \<Longrightarrow>
      keys (store t) = keys (store s)"
    and run_inv: "evolves step (prog ports) \<Longrightarrow>
      evolves (\<lambda>s t. inv s \<longrightarrow> inv t) (run prog)"
    and run_ok: "evolves step (prog ports) \<Longrightarrow> inv s \<Longrightarrow>
      run prog s = (Inr x, t) \<Longrightarrow>
      \<exists>s1 t1. inv s1 \<and> store s1 = store s \<and> prog ports s1 = (Inr x, t1) \<and> store t = store t1"
    and run_error: "evolves step (prog ports) \<Longrightarrow> inv s \<Longrightarrow>
      run prog s = (Inl err, t) \<Longrightarrow> store t = store s"
begin

abbreviation outside :: "'s AppendEffect \<Rightarrow> bool" where
  "outside \<equiv> outside_effect step store"

lemma step_refl: "step s s"
  using step_preorder by (auto simp: preorder_on_states_def dest: reflpD)

lemma outside_noAppendEffect: "outside noAppendEffect"
  by (simp add: outside_effect_def noAppendEffect_def areturn_def evolves_def step_refl)

lemma outside_step: "outside effect \<Longrightarrow> evolves step (effect ac)"
  by (auto simp: outside_effect_def evolves_def)

lemma outside_ok: "outside effect \<Longrightarrow> inv s \<Longrightarrow> effect ac s = (r, t) \<Longrightarrow> inv t \<and> store t = store s"
  by (auto simp: outside_effect_def dest: evolvesD spec [of _ ac] intro: step_inv)

lemmas port_steps = exists_step_law quota_step_law append_step_law apply_step_law enqueue_step_law

lemma program_step: "outside effect \<Longrightarrow> evolves step (ingestProgram ac effect ports)"
  unfolding ingestProgram_def Let_def
  by (intro evolves_intros step_preorder port_steps outside_step)

lemma inv_after: "evolves step m \<Longrightarrow> m s = (r, t) \<Longrightarrow> inv s \<Longrightarrow> inv t"
  using evolvesD step_inv by metis

lemma exists_step:
  assumes "storable ac" and "inv s"
    and "port_Exists ports (ev_projectID (ac_event ac)) (ev_eventID (ac_event ac)) s = (Inr b, t)"
  shows "inv t \<and> store t = store s \<and> (b \<longleftrightarrow> event_key ac \<in> keys (store s))"
  using inv_after [OF exists_step_law assms(3,2)] exists_ok [OF assms] by simp

lemma quota_step:
  assumes "inv s" and "port_CheckQuota ports event s = (Inr q, t)"
  shows "inv t \<and> store t = store s"
  using inv_after [OF quota_step_law assms(2,1)] quota_ok [OF assms] by simp

lemma append_step:
  assumes "storable ac" and "inv s" and "port_Append ports ac s = (Inr a, t)"
  shows "inv t \<and> (append_duplicate a \<longleftrightarrow> event_key ac \<in> keys (store s)) \<and>
    (append_duplicate a \<longrightarrow> store t = store s) \<and>
    keys (store t) = insert (event_key ac) (keys (store s))"
  using inv_after [OF append_step_law assms(3,2)] append_ok [OF assms] by simp

lemma apply_step:
  assumes "inv s" and "port_Apply ports plan s = (Inr c, t)"
  shows "inv t \<and> keys (store t) = keys (store s)"
  using inv_after [OF apply_step_law assms(2,1)] apply_ok [OF assms] by simp

lemma enqueue_step:
  assumes "inv s" and "port_EnqueueIssueOpened ports ac ch s = (Inr n, t)"
  shows "inv t \<and> keys (store t) = keys (store s)"
  using inv_after [OF enqueue_step_law assms(2,1)] enqueue_ok [OF assms] by simp

text \<open>The result of a run that goes on after the append.\<close>

definition accepted_kind :: "AcceptedEvent \<Rightarrow> ReceiptKind" where
  "accepted_kind ac =
     (if CanonicalEvent_CreatesIssue (ac_event ac) then ReceiptAcceptedIssueEvent
      else ReceiptAcceptedNonIssueEvent)"

text \<open>What an accepted submission has run, between the database \<open>d\<close> it started on and \<open>d'\<close>.\<close>

definition indexed :: "AcceptedEvent \<Rightarrow> 's \<Rightarrow> 'd \<Rightarrow> IngestReceipt \<Rightarrow> bool" where
  "indexed ac u d' r \<longleftrightarrow> (\<exists>c v. port_Apply ports \<lparr>plan_event = ac\<rparr> u = (Inr c, v) \<and>
     IssueID_String (change_issueID c) \<noteq> [] \<and> inv v \<and> r = issueReceipt ac c \<and>
     (if change_created c then \<exists>n w. port_EnqueueIssueOpened ports ac c v = (Inr n, w) \<and> d' = store w
      else d' = store v))"

definition accepted_run :: "AcceptedEvent \<Rightarrow> 'd \<Rightarrow> 'd \<Rightarrow> IngestReceipt \<Rightarrow> bool" where
  "accepted_run ac d d' r \<longleftrightarrow> (\<exists>u0 q u1 a u2 u3.
     inv u0 \<and> store u0 = d \<and> port_CheckQuota ports (ac_event ac) u0 = (Inr q, u1) \<and> quota_allowed q \<and>
     inv u1 \<and> store u1 = d \<and> port_Append ports ac u1 = (Inr a, u2) \<and> \<not> append_duplicate a \<and>
     inv u3 \<and> store u3 = store u2 \<and>
     (if CanonicalEvent_CreatesIssue (ac_event ac) then indexed ac u3 d' r
      else r = nonIssueReceipt ac \<and> d' = store u3))"

lemma index_issue_trace:
  assumes "index_issue ac ports s = (Inr x, t)" and "inv s"
  shows "indexed ac s (store t) (txr_receipt x)"
proof -
  obtain plan c s1 where plan: "ok plan = NewIssuePlan ac"
    and c: "port_Apply ports plan s = (Inr c, s1)" "IssueID_String (change_issueID c) \<noteq> []"
    and rest: "if change_created c then \<exists>n. port_EnqueueIssueOpened ports ac c s1 = (Inr n, t) else t = s1"
      "txr_receipt x = issueReceipt ac c"
    using assms(1) unfolding index_issue_def
    by (clarsimp simp: action_simps transactionResult_def split: if_split_asm)
  have "plan = \<lparr>plan_event = ac\<rparr>" using plan by (auto simp: NewIssuePlan_def split: if_split_asm)
  with c rest inv_after [OF apply_step_law c(1) assms(2)] show ?thesis
    unfolding indexed_def by (intro exI [of _ c] exI [of _ s1]) (auto split: if_split_asm)
qed

lemma after_append_trace:
  assumes "after_append ac effect ports s = (Inr x, t)" and "inv s" and "outside effect"
  shows "\<exists>u. inv u \<and> store u = store s \<and>
    (if CanonicalEvent_CreatesIssue (ac_event ac) then indexed ac u (store t) (txr_receipt x)
     else txr_receipt x = nonIssueReceipt ac \<and> store t = store u)"
proof -
  obtain s1 where s1: "effect ac s = (Inr (), s1)"
    and rest: "(if \<not> CanonicalEvent_CreatesIssue (ac_event ac)
        then areturn (transactionResult (nonIssueReceipt ac)) else index_issue ac ports) s1 = (Inr x, t)"
    using assms(1) unfolding after_append_def abind_ok by auto
  have "inv s1" "store s1 = store s" using outside_ok [OF assms(3,2) s1] by auto
  with rest index_issue_trace [of ac s1 x t] show ?thesis
    by (intro exI [of _ s1]) (auto simp: areturn_eq transactionResult_def)
qed

lemma receipt_kinds:
  "\<not> accepted_receipt (duplicateReceipt ac)" "\<not> accepted_receipt (quotaReceipt ac q)"
  "accepted_receipt (nonIssueReceipt ac)" "accepted_receipt (issueReceipt ac c)"
  by (simp_all add: accepted_receipt_def receipt_defs receipt_kind_defs)

text \<open>The journal after an accepted submission, and its receipt.\<close>

lemma indexed_keys:
  assumes "indexed ac u d' r" and "inv u"
  shows "keys d' = keys (store u) \<and>
    (\<exists>c. r = issueReceipt ac c \<and> IssueID_String (change_issueID c) \<noteq> [])"
proof -
  obtain c v where c: "port_Apply ports \<lparr>plan_event = ac\<rparr> u = (Inr c, v)" "inv v"
      "IssueID_String (change_issueID c) \<noteq> []" "r = issueReceipt ac c"
    and rest: "if change_created c
      then \<exists>n w. port_EnqueueIssueOpened ports ac c v = (Inr n, w) \<and> d' = store w else d' = store v"
    using assms(1) unfolding indexed_def by blast
  have "keys d' = keys (store v)"
    using rest enqueue_ok [OF c(2)] by (auto split: if_split_asm)
  with apply_ok [OF assms(2) c(1)] c show ?thesis by auto
qed

lemma accepted_run_keys:
  assumes "accepted_run ac d d' r" and "storable ac"
  shows "accepted_receipt r \<and> event_key ac \<notin> keys d \<and> keys d' = insert (event_key ac) (keys d) \<and>
    (if CanonicalEvent_CreatesIssue (ac_event ac)
     then \<exists>c. r = issueReceipt ac c \<and> IssueID_String (change_issueID c) \<noteq> []
     else r = nonIssueReceipt ac)"
proof -
  obtain u1 a u2 u3 where u: "inv u1" "store u1 = d" "port_Append ports ac u1 = (Inr a, u2)"
      "\<not> append_duplicate a" "inv u3" "store u3 = store u2"
    and rest: "if CanonicalEvent_CreatesIssue (ac_event ac) then indexed ac u3 d' r
      else r = nonIssueReceipt ac \<and> d' = store u3"
    using assms(1) unfolding accepted_run_def by blast
  with append_ok [OF assms(2) u(1,3)] indexed_keys [of ac u3 d' r] show ?thesis
    by (auto simp: receipt_kinds split: if_split_asm)
qed

lemma program_ok:
  assumes ac: "storable ac" and eff: "outside effect" and s: "inv s"
    and run: "ingestProgram ac effect ports s = (Inr x, t)"
  shows "(event_key ac \<in> keys (store s) \<and> txr_receipt x = duplicateReceipt ac \<and> store t = store s) \<or>
    (event_key ac \<notin> keys (store s) \<and> store t = store s \<and>
      (\<exists>q. \<not> quota_allowed q \<and> txr_receipt x = quotaReceipt ac q)) \<or>
    accepted_run ac (store s) (store t) (txr_receipt x)"
proof -
  let ?ev = "ac_event ac"
  obtain b s1 where ex: "port_Exists ports (ev_projectID ?ev) (ev_eventID ?ev) s = (Inr b, s1)"
    and rest1: "b \<Longrightarrow> (Inr x, t) = (Inr (transactionResult (duplicateReceipt ac)), s1)"
      "\<not> b \<Longrightarrow> abind (port_CheckQuota ports ?ev) (\<lambda>quota.
        if \<not> quota_allowed quota then areturn (transactionResult (quotaReceipt ac quota)) else
        abind (port_Append ports ac) (\<lambda>appendState.
        if append_duplicate appendState then areturn (transactionResult (duplicateReceipt ac))
        else after_append ac effect ports)) s1 = (Inr x, t)"
    using run unfolding ingestProgram_eq abind_ok [of "port_Exists ports _ _"]
    by (auto simp: areturn_eq split: if_split_asm)
  note e1 = exists_step [OF ac s ex]
  show ?thesis
  proof (cases b)
    case True
    with rest1 e1 show ?thesis by (simp add: transactionResult_def)
  next
    case False
    then obtain q s2 where q: "port_CheckQuota ports ?ev s1 = (Inr q, s2)"
      and rest2: "\<not> quota_allowed q \<Longrightarrow> (Inr x, t) = (Inr (transactionResult (quotaReceipt ac q)), s2)"
        "quota_allowed q \<Longrightarrow> \<exists>a s3. port_Append ports ac s2 = (Inr a, s3) \<and>
          (if append_duplicate a then areturn (transactionResult (duplicateReceipt ac))
           else after_append ac effect ports) s3 = (Inr x, t)"
      using rest1(2) by (auto simp: abind_ok areturn_eq split: if_split_asm)
    have e2: "inv s2" "store s2 = store s" using e1 quota_step [OF _ q] by auto
    show ?thesis
    proof (cases "quota_allowed q")
      case False
      with rest2(1) e1 e2 \<open>\<not> b\<close> show ?thesis by (auto simp: transactionResult_def)
    next
      case True
      then obtain a s3 where a: "port_Append ports ac s2 = (Inr a, s3)"
        and rest3: "(if append_duplicate a then areturn (transactionResult (duplicateReceipt ac))
           else after_append ac effect ports) s3 = (Inr x, t)"
        using rest2(2) by blast
      note app = append_step [OF ac e2(1) a]
      have new: "\<not> append_duplicate a" using app e1 e2 \<open>\<not> b\<close> by simp
      then have "after_append ac effect ports s3 = (Inr x, t)" using rest3 by simp
      from after_append_trace [OF this _ eff] app obtain u where u: "inv u" "store u = store s3"
        and fin: "if CanonicalEvent_CreatesIssue (ac_event ac) then indexed ac u (store t) (txr_receipt x)
          else txr_receipt x = nonIssueReceipt ac \<and> store t = store u"
        by blast
      have "accepted_run ac (store s) (store t) (txr_receipt x)"
        unfolding accepted_run_def using e1 e2 q True a new u fin
        by (intro exI [of _ s1] exI [of _ q] exI [of _ s2] exI [of _ a] exI [of _ s3] exI [of _ u]) simp
      then show ?thesis by blast
    qed
  qed
qed

subsubsection \<open>One ingestion\<close>

lemma ingest_inv: "outside effect \<Longrightarrow> evolves (\<lambda>s t. inv s \<longrightarrow> inv t) (ingestCanonicalEvent (NewIngestCommand event) run effect)"
  unfolding ingestCanonicalEvent_eq
  by (intro evolves_intros preorder_invariant run_inv program_step)

lemma ingest_ok:
  assumes "storable (accepted_of event)" and "outside effect" and "inv s"
    and "ingestCanonicalEvent (NewIngestCommand event) run effect s = (Inr r, t)"
  shows "(key_of event \<in> keys (store s) \<and> r = duplicateReceipt (accepted_of event) \<and>
      store t = store s) \<or>
    (key_of event \<notin> keys (store s) \<and> store t = store s \<and>
      (\<exists>q. \<not> quota_allowed q \<and> r = quotaReceipt (accepted_of event) q)) \<or>
    accepted_run (accepted_of event) (store s) (store t) r"
proof -
  obtain x where x: "run (ingestProgram (accepted_of event) effect) s = (Inr x, t)"
    and r: "r = txr_receipt x"
    using assms(4) unfolding ingestCanonicalEvent_eq by (auto simp: action_simps)
  obtain s1 t1 where "inv s1" "store s1 = store s" "store t = store t1"
    and "ingestProgram (accepted_of event) effect ports s1 = (Inr x, t1)"
    using run_ok [OF program_step [OF assms(2)] assms(3) x] by blast
  with program_ok [OF assms(1,2), of s1 x t1] r show ?thesis by simp
qed

lemma ingest_error:
  assumes "outside effect" and "inv s" and "ingestCanonicalEvent (NewIngestCommand event) run effect s = (Inl e, t)"
  shows "store t = store s"
  using assms run_error [of "ingestProgram (accepted_of event) effect"] program_step [OF assms(1)]
  unfolding ingestCanonicalEvent_eq by (auto simp: abind_fail areturn_def)

text \<open>Whatever the outcome, the journal gains the key of the event when the event is accepted, and
nothing otherwise; a key that is journalled is never accepted.\<close>

lemma ingest_keys:
  assumes "storable (accepted_of event)" and "outside effect" and "inv s"
    and run: "ingestCanonicalEvent (NewIngestCommand event) run effect s = (x, t)"
  shows "keys (store t) = (case x of
      Inr r \<Rightarrow> (if accepted_receipt r then insert (key_of event) (keys (store s)) else keys (store s))
    | Inl e \<Rightarrow> keys (store s))"
    and "(case x of Inr r \<Rightarrow> accepted_receipt r | Inl e \<Rightarrow> False) \<Longrightarrow> key_of event \<notin> keys (store s)"
proof -
  show "keys (store t) = (case x of
      Inr r \<Rightarrow> (if accepted_receipt r then insert (key_of event) (keys (store s)) else keys (store s))
    | Inl e \<Rightarrow> keys (store s))"
    using ingest_ok [OF assms(1-3), of _ t] ingest_error [OF assms(2,3), of event _ t] run
      accepted_run_keys [OF _ assms(1)]
    by (cases x) (auto simp: receipt_kinds split: if_split_asm)
  assume "case x of Inr r \<Rightarrow> accepted_receipt r | Inl e \<Rightarrow> False"
  then show "key_of event \<notin> keys (store s)"
    using ingest_ok [OF assms(1-3), of _ t] run accepted_run_keys [OF _ assms(1)]
    by (cases x) (auto simp: receipt_kinds split: if_split_asm)
qed

subsubsection \<open>A history of ingestions\<close>

lemma history_exactly_once:
  assumes "\<forall>ev\<in>set events. storable (accepted_of ev)" and eff: "outside effect" and "inv s"
    and "ingest_history run effect events s = (outcomes, t)"
  shows "distinct (accepted_keys outcomes) \<and> set (accepted_keys outcomes) \<inter> keys (store s) = {} \<and>
    keys (store t) = keys (store s) \<union> set (accepted_keys outcomes)"
  using assms(1,3,4)
proof (induction events arbitrary: s outcomes)
  case Nil
  then show ?case by (simp add: accepted_keys_Nil)
next
  case (Cons event events)
  obtain x u where x: "ingestCanonicalEvent (NewIngestCommand event) run effect s = (x, u)" by fastforce
  obtain xs where xs: "ingest_history run effect events u = (xs, t)" and outs: "outcomes = (event, x) # xs"
    using Cons.prems(3) x by (auto simp: Let_def split: prod.splits)
  have ev: "storable (accepted_of event)" using Cons.prems by simp
  have "inv u" using keepsD [OF ingest_inv [OF eff] x Cons.prems(2)] .
  with Cons.IH [OF _ _ xs] Cons.prems
  have ih: "distinct (accepted_keys xs)" "set (accepted_keys xs) \<inter> keys (store u) = {}"
    "keys (store t) = keys (store u) \<union> set (accepted_keys xs)"
    by auto
  note now = ingest_keys [OF ev eff Cons.prems(2) x]
  show ?case
    unfolding outs accepted_keys_Cons using ih now
    by (cases x) (auto split: if_split_asm)
qed

end

end
