(* ===== verification/IngestStore.thy ===== *)
theory IngestStore
  imports Database Ingest
begin

text \<open>
  The ingest ports of the PostgreSQL store: \<open>store.go\<close>, \<open>quota.go\<close> and the issue-opened outbox of
  \<open>notifications.go\<close> in \<open>internal/adapters/postgres\<close>. Each SQL statement is a function on the
  database that fails where the schema's constraints do; each method is an action of the session.
\<close>

definition no_rows_of :: "'a list \<Rightarrow> 'a option" where
  "no_rows_of rows = (case rows of [] \<Rightarrow> None | row # _ \<Rightarrow> Some row)"

definition integer32 :: "int \<Rightarrow> bool" where
  "integer32 i \<longleftrightarrow> - (2 ^ 31) \<le> i \<and> i < 2 ^ 31"

definition bigint :: "int \<Rightarrow> bool" where
  "bigint i \<longleftrightarrow> - (2 ^ 63) \<le> i \<and> i < 2 ^ 63"

definition check :: "bool \<Rightarrow> string \<Rightarrow> unit result" where
  "check b m = (if b then ok () else fail m)"

lemma check_ok [simp]: "check b m = Inr u \<longleftrightarrow> b"
  by (simp add: check_def)

definition optional_text :: "string option \<Rightarrow> bool" where
  "optional_text v = (case v of None \<Rightarrow> True | Some s \<Rightarrow> text_param s)"

definition organization_exists :: "string \<Rightarrow> DB \<Rightarrow> bool" where
  "organization_exists i d = list_ex (\<lambda>r. org_id r = i) (db_organizations d)"

definition project_exists :: "string \<Rightarrow> DB \<Rightarrow> bool" where
  "project_exists i d = list_ex (\<lambda>r. prj_id r = i) (db_projects d)"

definition event_exists :: "string \<Rightarrow> DB \<Rightarrow> bool" where
  "event_exists i d = list_ex (\<lambda>r. er_id r = i) (db_events d)"

definition issue_exists :: "string \<Rightarrow> DB \<Rightarrow> bool" where
  "issue_exists i d = list_ex (\<lambda>r. ir_id r = i) (db_issues d)"

text \<open>A nullable text column: an empty text is stored as null.\<close>

definition nullableText :: "string \<Rightarrow> string option" where
  "nullableText value0 = (let value = TrimSpace value0 in if value = [] then None else Some value)"

definition boolInt :: "bool \<Rightarrow> int" where
  "boolInt value = (if value then 1 else 0)"

subsection \<open>Projects\<close>

definition select_project_auth :: "string \<Rightarrow> string \<Rightarrow> DB \<Rightarrow> (string \<times> string \<times> bool) list" where
  "select_project_auth ref key d =
     [(prj_id p, prj_organization_id p, prj_scrub_ip_addresses p).
        p \<leftarrow> db_projects d, og \<leftarrow> db_organizations d, org_id og = prj_organization_id p,
        pk \<leftarrow> db_project_keys d, pk_project_id pk = prj_id p,
        prj_ingest_ref p = ref \<and> pk_public_key pk = key \<and> pk_active pk \<and>
        prj_accepting_events p \<and> org_accepting_events og]"

definition ResolveProjectKey ::
  "ProjectRef \<Rightarrow> ProjectPublicKey \<Rightarrow> ('w Session, ProjectAuth) action" where
  "ResolveProjectKey ref key =
     abind (pool_query (\<lambda>d.
       rbind (check (text_param (ProjectRef_value ref) \<and> uuid_param (ProjectPublicKey_String key))
         ''invalid input syntax'') (\<lambda>_.
       ok (no_rows_of (select_project_auth (ProjectRef_value ref) (ProjectPublicKey_String key) d)))))
     (\<lambda>row. abind (scan_row row) (\<lambda>(projectIDText, organizationIDText, scrubIPAddresses).
     abind (alift (NewProjectID projectIDText)) (\<lambda>projectID.
     abind (alift (NewOrganizationID organizationIDText)) (\<lambda>organizationID.
     alift (NewProjectAuthWithPolicy organizationID projectID scrubIPAddresses)))))"

subsection \<open>The event journal\<close>

definition has_event :: "string \<Rightarrow> string \<Rightarrow> DB \<Rightarrow> bool" where
  "has_event project event d =
     list_ex (\<lambda>r. er_project_id r = project \<and> er_event_id r = event) (db_events d)"

definition Exists :: "ProjectID \<Rightarrow> EventID \<Rightarrow> ('w Session, bool) action" where
  "Exists projectID eventID =
     query (\<lambda>d. rbind (check (uuid_param (ProjectID_String projectID) \<and>
                              uuid_param (EventID_String eventID)) ''invalid input syntax'') (\<lambda>_.
       ok (has_event (ProjectID_String projectID) (EventID_String eventID) d)))"

definition insert_event :: "EventRow \<Rightarrow> DB \<Rightarrow> (nat \<times> DB) result" where
  "insert_event row d =
     rbind (check (uuid_param (er_id row) \<and> uuid_param (er_organization_id row) \<and>
       uuid_param (er_project_id row) \<and> uuid_param (er_event_id row)) ''invalid input syntax for type uuid'') (\<lambda>_.
     rbind (check (list_all text_param [er_kind row, er_level row, er_title row, er_platform row,
         er_fingerprint row] \<and> list_all optional_text [er_release row, er_environment row,
         er_transaction_name row] \<and> json_storable (er_canonical_payload row))
       ''invalid byte sequence for encoding'') (\<lambda>_.
     rbind (check (er_kind row \<in> {''error'', ''default'', ''transaction''})
       ''violates check constraint events_kind_check'') (\<lambda>_.
     if has_event (er_project_id row) (er_event_id row) d then ok (0, d) else
     rbind (check (\<not> event_exists (er_id row) d) ''violates unique constraint events_pkey'') (\<lambda>_.
     rbind (check (organization_exists (er_organization_id row) d \<and>
         project_exists (er_project_id row) d) ''violates foreign key constraint'') (\<lambda>_.
     ok (1, d\<lparr>db_events := db_events d @ [row]\<rparr>))))))"

definition upsert_stats :: "StatsRow \<Rightarrow> DB \<Rightarrow> (unit \<times> DB) result" where
  "upsert_stats row d =
     (let same = (\<lambda>r. st_project_id r = st_project_id row \<and> st_bucket_at r = st_bucket_at row);
          add = (\<lambda>r. r\<lparr>st_event_count := st_event_count r + st_event_count row,
                       st_issue_event_count := st_issue_event_count r + st_issue_event_count row,
                       st_transaction_event_count :=
                         st_transaction_event_count r + st_transaction_event_count row,
                       st_log_event_count := st_log_event_count r + st_log_event_count row\<rparr>)
      in rbind (check (uuid_param (st_organization_id row) \<and> uuid_param (st_project_id row))
           ''invalid input syntax for type uuid'') (\<lambda>_.
         if list_ex same (db_project_hourly_stats d)
         then rbind (check (list_all (\<lambda>r. same r \<longrightarrow> bigint (st_event_count (add r)) \<and>
                  bigint (st_issue_event_count (add r)) \<and> bigint (st_transaction_event_count (add r)) \<and>
                  bigint (st_log_event_count (add r)))
                  (db_project_hourly_stats d)) ''bigint out of range'') (\<lambda>_.
              ok ((), d\<lparr>db_project_hourly_stats :=
                update_rows same add (db_project_hourly_stats d)\<rparr>))
         else rbind (check (organization_exists (st_organization_id row) d \<and>
                  project_exists (st_project_id row) d) ''violates foreign key constraint'') (\<lambda>_.
              ok ((), d\<lparr>db_project_hourly_stats := db_project_hourly_stats d @ [row]\<rparr>))))"

definition upsertProjectHourlyStats :: "CanonicalEvent \<Rightarrow> ('w Session, unit) action" where
  "upsertProjectHourlyStats event = statement (upsert_stats
     \<lparr>st_organization_id = OrganizationID_String (ev_organizationID event),
      st_project_id = ProjectID_String (ev_projectID event),
      st_bucket_at = trunc_hour (timestamptz (TimePoint_Time (ev_receivedAt event))),
      st_event_count = 1,
      st_issue_event_count = boolInt (CanonicalEvent_CreatesIssue event),
      st_transaction_event_count = boolInt (ev_kind event = EventKindTransaction),
      st_log_event_count = 0\<rparr>)"

definition upsert_tag :: "EventTagRow \<Rightarrow> DB \<Rightarrow> (unit \<times> DB) result" where
  "upsert_tag row d =
     (let same = (\<lambda>r. tag_event_id r = tag_event_id row \<and> tag_key r = tag_key row)
      in rbind (check (uuid_param (tag_event_id row) \<and> uuid_param (tag_project_id row) \<and>
             text_param (tag_key row) \<and> text_param (tag_value row)) ''invalid input syntax'') (\<lambda>_.
         if list_ex same (db_event_tags d)
         then ok ((), d\<lparr>db_event_tags :=
                update_rows same (\<lambda>r. r\<lparr>tag_value := tag_value row\<rparr>) (db_event_tags d)\<rparr>)
         else rbind (check (event_exists (tag_event_id row) d \<and>
                project_exists (tag_project_id row) d) ''violates foreign key constraint'') (\<lambda>_.
              ok ((), d\<lparr>db_event_tags := db_event_tags d @ [row]\<rparr>))))"

definition insertEventTags :: "string \<Rightarrow> CanonicalEvent \<Rightarrow> ('w Session, unit) action" where
  "insertEventTags eventRowID event =
     abind (range_map (ev_tags event)) (\<lambda>entries.
     aeach (\<lambda>(key, value). statement (upsert_tag
       \<lparr>tag_event_id = eventRowID, tag_project_id = ProjectID_String (ev_projectID event),
        tag_key = key, tag_value = value\<rparr>)) entries)"

definition insert_transaction :: "TransactionRow \<Rightarrow> DB \<Rightarrow> (unit \<times> DB) result" where
  "insert_transaction row d =
     rbind (check (uuid_param (tr_event_id row) \<and> uuid_param (tr_organization_id row) \<and>
       uuid_param (tr_project_id row)) ''invalid input syntax for type uuid'') (\<lambda>_.
     rbind (check (list_all text_param [tr_transaction_name row, tr_operation row, tr_status row] \<and>
       list_all optional_text [tr_trace_id row, tr_span_id row, tr_parent_span_id row] \<and>
       json_storable (tr_spans row)) ''invalid byte sequence for encoding'') (\<lambda>_.
     rbind (check (0 \<le> tr_duration row \<and> 0 \<le> tr_span_count row) ''violates check constraint'') (\<lambda>_.
     if list_ex (\<lambda>r. tr_event_id r = tr_event_id row) (db_transaction_events d) then ok ((), d) else
     rbind (check (event_exists (tr_event_id row) d \<and> organization_exists (tr_organization_id row) d \<and>
         project_exists (tr_project_id row) d) ''violates foreign key constraint'') (\<lambda>_.
     ok ((), d\<lparr>db_transaction_events := db_transaction_events d @ [row]\<rparr>)))))"

definition insertTransactionEvent :: "string \<Rightarrow> CanonicalEvent \<Rightarrow> ('w Session, unit) action" where
  "insertTransactionEvent eventRowID event =
     (if \<not> ev_hasTransaction event then areturn () else
      let transaction = ev_transaction event;
          spans = (case encodeTransactionSpans (tx_spans transaction) of
                     None \<Rightarrow> [] | Some encoded \<Rightarrow> encoded);
          (traceID, spanID, parentSpanID) =
            (if tx_hasTrace transaction
             then (trace_traceID (tx_trace transaction), trace_spanID (tx_trace transaction),
                   trace_parentSpanID (tx_trace transaction))
             else ([], [], []))
      in statement (insert_transaction
       \<lparr>tr_event_id = eventRowID,
        tr_organization_id = OrganizationID_String (ev_organizationID event),
        tr_project_id = ProjectID_String (ev_projectID event),
        tr_transaction_name = tx_name transaction, tr_operation = tx_operation transaction,
        tr_duration = tx_duration transaction, tr_status = tx_status transaction,
        tr_trace_id = nullableText traceID, tr_span_id = nullableText spanID,
        tr_parent_span_id = nullableText parentSpanID,
        tr_span_count = int (length (tx_spans transaction)), tr_spans = JArray spans,
        tr_occurred_at = timestamptz (TimePoint_Time (ev_occurredAt event)),
        tr_received_at = timestamptz (TimePoint_Time (ev_receivedAt event))\<rparr>))"

definition event_row :: "string \<Rightarrow> json \<Rightarrow> AcceptedEvent \<Rightarrow> EventRow" where
  "event_row eventRowID payload event =
     (let canonical = ac_event event in
      \<lparr>er_id = eventRowID,
       er_organization_id = OrganizationID_String (ev_organizationID canonical),
       er_project_id = ProjectID_String (ev_projectID canonical),
       er_event_id = EventID_String (ev_eventID canonical),
       er_kind = ev_kind canonical, er_level = ev_level canonical,
       er_title = EventTitle_value (ev_title canonical), er_platform = ev_platform canonical,
       er_occurred_at = timestamptz (TimePoint_Time (ev_occurredAt canonical)),
       er_received_at = timestamptz (TimePoint_Time (ev_receivedAt canonical)),
       er_release = nullableText (ev_release canonical),
       er_environment = nullableText (ev_environment canonical),
       er_transaction_name = nullableText (transactionName canonical),
       er_fingerprint = fingerprint_value (ac_fingerprint event),
       er_canonical_payload = payload\<rparr>)"

definition Append :: "AcceptedEvent \<Rightarrow> ('w Session, EventAppendResult) action" where
  "Append event =
     (let canonical = ac_event event in
      abind randomUUID (\<lambda>eventRowID.
      abind (range_map (ev_tags canonical)) (\<lambda>entries.
      abind (statement (insert_event (event_row eventRowID (canonicalPayloadJSON entries event) event)))
        (\<lambda>rowsAffected.
      if rowsAffected = 0 then areturn NewDuplicateEvent else
      abind (upsertProjectHourlyStats canonical) (\<lambda>_.
      abind (insertEventTags eventRowID canonical) (\<lambda>_.
      abind (insertTransactionEvent eventRowID canonical) (\<lambda>_.
      areturn NewAppendedEvent)))))))"

subsection \<open>The issue index\<close>

definition txStore_eventRowID :: "ProjectID \<Rightarrow> EventID \<Rightarrow> ('w Session, string) action" where
  "txStore_eventRowID projectID eventID =
     abind (query (\<lambda>d. rbind (check (uuid_param (ProjectID_String projectID) \<and>
         uuid_param (EventID_String eventID)) ''invalid input syntax for type uuid'') (\<lambda>_.
       ok (map_option er_id (find (\<lambda>r. er_project_id r = ProjectID_String projectID \<and>
         er_event_id r = EventID_String eventID) (db_events d)))))) scan_row"

definition find_fingerprint :: "string \<Rightarrow> string \<Rightarrow> DB \<Rightarrow> FingerprintRow option" where
  "find_fingerprint project fp d =
     find (\<lambda>r. fr_project_id r = project \<and> fr_fingerprint r = fp) (db_issue_fingerprints d)"

text \<open>No row is the empty id.\<close>

definition findIssueByFingerprint :: "AcceptedEvent \<Rightarrow> ('w Session, string) action" where
  "findIssueByFingerprint event =
     abind (query (\<lambda>d. rbind (check (uuid_param (ProjectID_String (ev_projectID (ac_event event))) \<and>
         text_param (fingerprint_value (ac_fingerprint event))) ''invalid input syntax'') (\<lambda>_.
       ok (find_fingerprint (ProjectID_String (ev_projectID (ac_event event)))
            (fingerprint_value (ac_fingerprint event)) d))))
     (\<lambda>row. case row of None \<Rightarrow> areturn [] | Some r \<Rightarrow> areturn (fr_issue_id r))"

definition count_event :: "gotime \<Rightarrow> string \<Rightarrow> string option \<Rightarrow> string option \<Rightarrow> IssueRow \<Rightarrow> IssueRow" where
  "count_event occurred eventRowID release environment r =
     r\<lparr>ir_event_count := ir_event_count r + 1,
       ir_last_seen_at := max (ir_last_seen_at r) occurred,
       ir_last_event_id := eventRowID,
       ir_release := (case release of None \<Rightarrow> ir_release r | Some _ \<Rightarrow> release),
       ir_environment := (case environment of None \<Rightarrow> ir_environment r | Some _ \<Rightarrow> environment)\<rparr>"

definition update_issue ::
  "string \<Rightarrow> gotime \<Rightarrow> string \<Rightarrow> string option \<Rightarrow> string option \<Rightarrow> DB \<Rightarrow> (string option \<times> DB) result" where
  "update_issue issueID occurred eventRowID release environment d =
     (let here = (\<lambda>r. ir_id r = issueID)
      in rbind (check (uuid_param issueID \<and> uuid_param eventRowID \<and> optional_text release \<and>
             optional_text environment) ''invalid input syntax'') (\<lambda>_.
         rbind (check (list_all (\<lambda>r. here r \<longrightarrow> bigint (ir_event_count r + 1)) (db_issues d))
             ''bigint out of range'') (\<lambda>_.
         if \<not> list_ex here (db_issues d) then ok (None, d) else
         rbind (check (event_exists eventRowID d) ''violates foreign key constraint'') (\<lambda>_.
         ok (Some issueID, d\<lparr>db_issues := update_rows here
              (count_event occurred eventRowID release environment) (db_issues d)\<rparr>)))))"

definition updateIssue :: "AcceptedEvent \<Rightarrow> string \<Rightarrow> string \<Rightarrow> ('w Session, IssueChange) action" where
  "updateIssue event issueID eventRowID =
     abind (statement (update_issue issueID
         (timestamptz (TimePoint_Time (ev_occurredAt (ac_event event)))) eventRowID
         (nullableText (ev_release (ac_event event)))
         (nullableText (ev_environment (ac_event event))))) (\<lambda>row.
     abind (scan_row row) (\<lambda>updatedIDText.
     abind (alift (NewIssueID updatedIDText)) (\<lambda>updatedID.
     areturn (NewIssueChange updatedID False))))"

definition take_short_id :: "string \<Rightarrow> DB \<Rightarrow> (int option \<times> DB) result" where
  "take_short_id project d =
     (let here = (\<lambda>r. prj_id r = project)
      in rbind (check (uuid_param project) ''invalid input syntax for type uuid'') (\<lambda>_.
         rbind (check (list_all (\<lambda>r. here r \<longrightarrow> bigint (prj_next_issue_short_id r + 1)) (db_projects d))
             ''bigint out of range'') (\<lambda>_.
         ok (map_option prj_next_issue_short_id (find here (db_projects d)),
             d\<lparr>db_projects := update_rows here
                 (\<lambda>r. r\<lparr>prj_next_issue_short_id := prj_next_issue_short_id r + 1\<rparr>)
                 (db_projects d)\<rparr>))))"

definition nextIssueShortID :: "ProjectID \<Rightarrow> ('w Session, int) action" where
  "nextIssueShortID projectID =
     abind (statement (take_short_id (ProjectID_String projectID))) scan_row"

definition insert_issue :: "IssueRow \<Rightarrow> DB \<Rightarrow> (unit \<times> DB) result" where
  "insert_issue row d =
     rbind (check (uuid_param (ir_id row) \<and> uuid_param (ir_organization_id row) \<and>
       uuid_param (ir_project_id row) \<and> uuid_param (ir_last_event_id row)) ''invalid input syntax for type uuid'') (\<lambda>_.
     rbind (check (list_all text_param [ir_type row, ir_title row] \<and>
       list_all optional_text [ir_release row, ir_environment row]) ''invalid byte sequence for encoding'') (\<lambda>_.
     rbind (check (ir_type row \<in> {''error'', ''default''}) ''violates check constraint issues_type_check'') (\<lambda>_.
     rbind (check (\<not> issue_exists (ir_id row) d) ''violates unique constraint issues_pkey'') (\<lambda>_.
     rbind (check (\<not> list_ex (\<lambda>r. ir_project_id r = ir_project_id row \<and>
         ir_short_id r = ir_short_id row) (db_issues d)) ''violates unique constraint'') (\<lambda>_.
     rbind (check (organization_exists (ir_organization_id row) d \<and>
         project_exists (ir_project_id row) d \<and> event_exists (ir_last_event_id row) d)
       ''violates foreign key constraint'') (\<lambda>_.
     ok ((), d\<lparr>db_issues := db_issues d @ [row]\<rparr>)))))))"

definition insertIssue ::
  "AcceptedEvent \<Rightarrow> string \<Rightarrow> int \<Rightarrow> string \<Rightarrow> ('w Session, unit) action" where
  "insertIssue event issueID shortID eventRowID =
     abind time_Now (\<lambda>now.
     let canonical = ac_event event; occurred = timestamptz (TimePoint_Time (ev_occurredAt canonical))
     in statement (insert_issue
      \<lparr>ir_id = issueID, ir_organization_id = OrganizationID_String (ev_organizationID canonical),
       ir_project_id = ProjectID_String (ev_projectID canonical), ir_short_id = shortID,
       ir_type = ev_kind canonical, ir_status = ''unresolved'',
       ir_title = EventTitle_value (ev_title canonical), ir_first_seen_at = occurred,
       ir_last_seen_at = occurred, ir_event_count = 1, ir_last_event_id = eventRowID,
       ir_release = nullableText (ev_release canonical),
       ir_environment = nullableText (ev_environment canonical),
       ir_created_at = timestamptz (UTC now), ir_assignee_operator_id = None, ir_assignee_team_id = None\<rparr>))"

definition insert_fingerprint :: "FingerprintRow \<Rightarrow> DB \<Rightarrow> (nat \<times> DB) result" where
  "insert_fingerprint row d =
     rbind (check (uuid_param (fr_project_id row) \<and> uuid_param (fr_issue_id row) \<and>
       text_param (fr_fingerprint row)) ''invalid input syntax'') (\<lambda>_.
     if find_fingerprint (fr_project_id row) (fr_fingerprint row) d \<noteq> None then ok (0, d) else
     rbind (check (project_exists (fr_project_id row) d \<and> issue_exists (fr_issue_id row) d)
       ''violates foreign key constraint'') (\<lambda>_.
     ok (1, d\<lparr>db_issue_fingerprints := db_issue_fingerprints d @ [row]\<rparr>)))"

definition delete_issue :: "string \<Rightarrow> DB \<Rightarrow> (unit \<times> DB) result" where
  "delete_issue issueID d =
     rbind (check (uuid_param issueID) ''invalid input syntax for type uuid'') (\<lambda>_.
     rbind (check (\<not> list_ex (\<lambda>r. fr_issue_id r = issueID) (db_issue_fingerprints d) \<and>
       \<not> list_ex (\<lambda>r. ni_issue_id r = issueID) (db_notification_intents d))
       ''violates foreign key constraint'') (\<lambda>_.
     ok ((), d\<lparr>db_issues := filter (\<lambda>r. ir_id r \<noteq> issueID) (db_issues d),
               db_user_reports := filter (\<lambda>r. ur_issue_id r \<noteq> Some issueID) (db_user_reports d)\<rparr>)))"

text \<open>A call whose results are assigned to blanks.\<close>

definition discard :: "('s, 'a) action \<Rightarrow> ('s, unit) action" where
  "discard m s = (ok (), snd (m s))"

definition createIssue :: "AcceptedEvent \<Rightarrow> string \<Rightarrow> ('w Session, IssueChange) action" where
  "createIssue event eventRowID =
     abind randomUUID (\<lambda>issueID.
     abind (nextIssueShortID (ev_projectID (ac_event event))) (\<lambda>shortID.
     abind (insertIssue event issueID shortID eventRowID) (\<lambda>_.
     abind time_Now (\<lambda>now.
     abind (statement (insert_fingerprint
       \<lparr>fr_project_id = ProjectID_String (ev_projectID (ac_event event)),
        fr_fingerprint = fingerprint_value (ac_fingerprint event), fr_issue_id = issueID,
        fr_created_at = timestamptz (UTC now)\<rparr>)) (\<lambda>rowsAffected.
     if rowsAffected = 1 then
       abind (alift (NewIssueID issueID)) (\<lambda>domainIssueID.
       areturn (NewIssueChange domainIssueID True))
     else
       abind (discard (statement (delete_issue issueID))) (\<lambda>_.
       abind (findIssueByFingerprint event) (\<lambda>existingID.
       updateIssue event existingID eventRowID)))))))"

definition Apply :: "IssuePlan \<Rightarrow> ('w Session, IssueChange) action" where
  "Apply plan =
     (let accepted = plan_event plan in
      abind (txStore_eventRowID (ev_projectID (ac_event accepted)) (ev_eventID (ac_event accepted))) (\<lambda>rowID.
      abind (findIssueByFingerprint accepted) (\<lambda>existingIssue.
      if existingIssue \<noteq> [] then updateIssue accepted existingIssue rowID
      else createIssue accepted rowID)))"

subsection \<open>Quotas\<close>

record quotaSnapshot =
  qs_projectEnabled :: bool
  qs_projectDailyLimit :: int
  qs_projectDailyUsed :: int
  qs_organizationEnabled :: bool
  qs_organizationLimit :: int
  qs_organizationUsed :: int

definition day_usage :: "(StatsRow \<Rightarrow> bool) \<Rightarrow> string \<Rightarrow> gotime \<Rightarrow> DB \<Rightarrow> int" where
  "day_usage P organization received d =
     sum_list (map st_event_count (filter (\<lambda>r. st_organization_id r = organization \<and>
       trunc_day received \<le> st_bucket_at r \<and> st_bucket_at r < trunc_day received + day \<and> P r)
       (db_project_hourly_stats d)))"

definition select_quota :: "string \<Rightarrow> string \<Rightarrow> gotime \<Rightarrow> DB \<Rightarrow> quotaSnapshot" where
  "select_quota organization project received d =
     (let pqp = find (\<lambda>r. qr_organization_id r = organization \<and> qr_project_id r = project)
            (db_project_quota_policies d);
          oqp = find (\<lambda>r. qr_organization_id r = organization) (db_organization_quota_policies d);
          enabled = (\<lambda>p. case p of None \<Rightarrow> False | Some r \<Rightarrow> qr_enabled r);
          limit = (\<lambda>p. case p of None \<Rightarrow> 0 | Some r \<Rightarrow> qr_daily_event_limit r)
      in \<lparr>qs_projectEnabled = enabled pqp, qs_projectDailyLimit = limit pqp,
          qs_projectDailyUsed = day_usage (\<lambda>r. st_project_id r = project) organization received d,
          qs_organizationEnabled = enabled oqp, qs_organizationLimit = limit oqp,
          qs_organizationUsed = day_usage (\<lambda>_. True) organization received d\<rparr>)"

definition quotaSnapshotForScope ::
  "OrganizationID \<Rightarrow> ProjectID \<Rightarrow> gotime \<Rightarrow> ('w Session, quotaSnapshot) action" where
  "quotaSnapshotForScope organizationID projectID receivedAt =
     query (\<lambda>d. rbind (check (uuid_param (OrganizationID_String organizationID) \<and>
         uuid_param (ProjectID_String projectID)) ''invalid input syntax for type uuid'') (\<lambda>_.
       let snapshot = select_quota (OrganizationID_String organizationID)
             (ProjectID_String projectID) (timestamptz receivedAt) d
       in rbind (check (bigint (qs_projectDailyUsed snapshot) \<and> bigint (qs_organizationUsed snapshot))
            ''bigint out of range'') (\<lambda>_. ok snapshot)))"

text \<open>\<open>used + next\<close> is an \<open>int64\<close> sum in the code.\<close>

definition quotaExceeded :: "bool \<Rightarrow> int \<Rightarrow> int \<Rightarrow> int \<Rightarrow> bool" where
  "quotaExceeded enabled used limit next =
     (if \<not> enabled then False else int64 (used + next) > limit)"

definition quotaDecision :: "quotaSnapshot \<Rightarrow> QuotaDecision" where
  "quotaDecision snapshot =
     (if quotaExceeded (qs_organizationEnabled snapshot) (qs_organizationUsed snapshot)
           (qs_organizationLimit snapshot) 1
        then NewQuotaRejected ''organization_quota_exceeded''
      else if quotaExceeded (qs_projectEnabled snapshot) (qs_projectDailyUsed snapshot)
           (qs_projectDailyLimit snapshot) 1
        then NewQuotaRejected ''project_quota_exceeded''
      else NewQuotaAllowed)"

definition CheckQuota :: "CanonicalEvent \<Rightarrow> ('w Session, QuotaDecision) action" where
  "CheckQuota event =
     abind (quotaSnapshotForScope (ev_organizationID event) (ev_projectID event)
              (TimePoint_Time (ev_receivedAt event))) (\<lambda>snapshot.
     areturn (quotaDecision snapshot))"

subsection \<open>The outbox of issue-opened notifications\<close>

record destinationAction =
  da_provider :: string
  da_destinationID :: string

definition destination_enabled :: "AlertActionRow \<Rightarrow> DB \<Rightarrow> bool" where
  "destination_enabled a d \<longleftrightarrow> aa_provider a \<in> set AlertActionProviders \<and>
     list_ex (\<lambda>r. dr_provider r = aa_provider a \<and> dr_id r = aa_destination_id a \<and> dr_enabled r)
       (db_destinations d)"

text \<open>\<open>select distinct\<close> with \<open>order by ara.provider asc, ara.destination_id asc\<close>.\<close>

definition select_destinations :: "string \<Rightarrow> DB \<Rightarrow> (string \<times> string) list" where
  "select_destinations project d =
     sort_key fst (sort_key snd (remdups
       [(aa_provider a, aa_destination_id a).
          r \<leftarrow> db_alert_rules d, a \<leftarrow> db_alert_rule_actions d,
          aa_rule_id a = ar_id r \<and> ar_project_id r = project \<and> ar_trigger r = ''issue_opened'' \<and>
          ar_enabled r \<and> aa_enabled a \<and> destination_enabled a d]))"

definition destinationActionsForIssueOpenedRules ::
  "ProjectID \<Rightarrow> ('w Session, destinationAction list) action" where
  "destinationActionsForIssueOpenedRules projectID =
     abind (query (\<lambda>d. rbind (check (uuid_param (ProjectID_String projectID))
         ''invalid input syntax for type uuid'') (\<lambda>_.
       ok (select_destinations (ProjectID_String projectID) d)))) (\<lambda>rows.
     alift (collect (\<lambda>(providerText, destinationID).
       if \<not> AlertActionProvider_Valid providerText then fail ''alert provider is invalid''
       else ok \<lparr>da_provider = providerText, da_destinationID = destinationID\<rparr>) rows))"

definition insert_intent :: "IntentRow \<Rightarrow> DB \<Rightarrow> (nat \<times> DB) result" where
  "insert_intent row d =
     rbind (check (list_all uuid_param [ni_id row, ni_organization_id row, ni_project_id row,
       ni_issue_id row, ni_event_id row, ni_destination_id row] \<and>
       list_all text_param [ni_provider row, ni_dedupe_key row]) ''invalid input syntax'') (\<lambda>_.
     rbind (check (ni_provider row \<in> set AlertActionProviders)
       ''violates check constraint notification_intents_provider_check'') (\<lambda>_.
     if list_ex (\<lambda>r. ni_dedupe_key r = ni_dedupe_key row) (db_notification_intents d)
       then ok (0, d) else
     rbind (check (\<not> list_ex (\<lambda>r. ni_id r = ni_id row) (db_notification_intents d))
       ''violates unique constraint notification_intents_pkey'') (\<lambda>_.
     rbind (check (organization_exists (ni_organization_id row) d \<and>
         project_exists (ni_project_id row) d \<and> issue_exists (ni_issue_id row) d \<and>
         event_exists (ni_event_id row) d) ''violates foreign key constraint'') (\<lambda>_.
     ok (1, d\<lparr>db_notification_intents := db_notification_intents d @ [row]\<rparr>)))))"

definition issue_opened_key :: "destinationAction \<Rightarrow> IssueChange \<Rightarrow> string" where
  "issue_opened_key destination change =
     da_provider destination @ '':issue-opened:'' @ da_destinationID destination @ '':'' @
     IssueID_String (change_issueID change)"

definition insertNotificationIntent ::
  "string \<Rightarrow> destinationAction \<Rightarrow> string \<Rightarrow> AcceptedEvent \<Rightarrow> IssueChange \<Rightarrow> gotime \<Rightarrow>
   ('w Session, int) action" where
  "insertNotificationIntent intentID destination eventRowID event change now =
     (let canonical = ac_event event in
      abind (statement (insert_intent
       \<lparr>ni_id = intentID,
        ni_organization_id = OrganizationID_String (ev_organizationID canonical),
        ni_project_id = ProjectID_String (ev_projectID canonical),
        ni_issue_id = IssueID_String (change_issueID change), ni_event_id = eventRowID,
        ni_provider = da_provider destination, ni_destination_id = da_destinationID destination,
        ni_status = ''pending'', ni_dedupe_key = issue_opened_key destination change,
        ni_attempts = 0, ni_next_attempt_at = timestamptz now, ni_locked_until = None,
        ni_provider_message_id = None, ni_provider_status_code = None, ni_last_error = None,
        ni_created_at = timestamptz now, ni_delivered_at = None\<rparr>)) (\<lambda>rowsAffected.
      areturn (int rowsAffected)))"

fun enqueue_all :: "destinationAction list \<Rightarrow> string \<Rightarrow> AcceptedEvent \<Rightarrow> IssueChange \<Rightarrow> gotime \<Rightarrow>
    int \<Rightarrow> ('w Session, int) action" where
  "enqueue_all [] eventRowID event change now count = areturn count"
| "enqueue_all (destination # destinations) eventRowID event change now count =
     abind randomUUID (\<lambda>intentID.
     abind (insertNotificationIntent intentID destination eventRowID event change now) (\<lambda>inserted.
     enqueue_all destinations eventRowID event change now (count + inserted)))"

definition EnqueueIssueOpened ::
  "AcceptedEvent \<Rightarrow> IssueChange \<Rightarrow> ('w Session, IssueOpenedEnqueueResult) action" where
  "EnqueueIssueOpened event change =
     (if \<not> change_created change then areturn (NewIssueOpenedEnqueueResult 0) else
      abind (txStore_eventRowID (ev_projectID (ac_event event)) (ev_eventID (ac_event event))) (\<lambda>rowID.
      abind (destinationActionsForIssueOpenedRules (ev_projectID (ac_event event))) (\<lambda>destinations.
      abind time_Now (\<lambda>now.
      abind (enqueue_all destinations rowID event change (UTC now) 0) (\<lambda>count.
      areturn (NewIssueOpenedEnqueueResult count))))))"

subsection \<open>The ports and the transaction\<close>

definition txStore :: "'w Session TransactionalIngestPorts" where
  "txStore = \<lparr>port_Exists = Exists, port_Append = Append, port_CheckQuota = CheckQuota,
              port_Apply = Apply, port_EnqueueIssueOpened = EnqueueIssueOpened\<rparr>"

definition Run :: "'w Session IngestTransaction" where
  "Run program = in_transaction (program txStore)"

subsection \<open>What each operation can change\<close>

text \<open>Every successful statement of the family \<open>f\<close> takes the database along \<open>R\<close>.\<close>

definition obeys :: "(DB \<Rightarrow> DB \<Rightarrow> bool) \<Rightarrow> ('x \<Rightarrow> DB \<Rightarrow> ('a \<times> DB) result) \<Rightarrow> bool" where
  "obeys R f \<longleftrightarrow> (\<forall>x d v d'. f x d = Inr (v, d') \<longrightarrow> R d d')"

lemma obeys_statement [evolves_intros]:
  "preorder_on_states R \<Longrightarrow> obeys R f \<Longrightarrow> evolves (db_evolves R) (statement (f x))"
  by (rule evolves_statement) (auto simp: obeys_def)

lemma evolves_discard [evolves_intros]: "evolves R m \<Longrightarrow> evolves R (discard m)"
  by (simp add: evolves_def discard_def)

lemma evolves_case_option [evolves_intros]:
  "evolves R m \<Longrightarrow> (\<And>v. evolves R (f v)) \<Longrightarrow> evolves R (case x of None \<Rightarrow> m | Some v \<Rightarrow> f v)"
  by (cases x) auto

lemma evolves_case_prod [evolves_intros]:
  "(\<And>a b. evolves R (f a b)) \<Longrightarrow> evolves R (case x of (a, b) \<Rightarrow> f a b)"
  by (cases x) auto

lemmas store_intros = evolves_intros preorder_db_evolves

lemma evolves_Exists: "preorder_on_states R \<Longrightarrow> evolves (db_evolves R) (Exists p e)"
  unfolding Exists_def by (rule store_intros)

lemma evolves_CheckQuota: "preorder_on_states R \<Longrightarrow> evolves (db_evolves R) (CheckQuota ev)"
  unfolding CheckQuota_def quotaSnapshotForScope_def by (intro store_intros)

lemma evolves_Append:
  assumes "preorder_on_states R" and "obeys R insert_event" "obeys R upsert_stats"
    "obeys R upsert_tag" "obeys R insert_transaction"
  shows "evolves (db_evolves R) (Append ac)"
  unfolding Append_def Let_def upsertProjectHourlyStats_def insertEventTags_def
    insertTransactionEvent_def
  using assms by (intro store_intros)

lemma evolves_eventRowID: "preorder_on_states R \<Longrightarrow> evolves (db_evolves R) (txStore_eventRowID p e)"
  unfolding txStore_eventRowID_def by (intro store_intros)

lemma evolves_findIssue: "preorder_on_states R \<Longrightarrow> evolves (db_evolves R) (findIssueByFingerprint ac)"
  unfolding findIssueByFingerprint_def by (intro store_intros)

lemma evolves_updateIssue:
  "preorder_on_states R \<Longrightarrow> (\<And>i t e r. obeys R (update_issue i t e r)) \<Longrightarrow>
   evolves (db_evolves R) (updateIssue ac i e)"
  unfolding updateIssue_def by (intro store_intros)

lemma evolves_createIssue:
  assumes "preorder_on_states R" and "\<And>i t e r. obeys R (update_issue i t e r)"
    and "obeys R take_short_id" "obeys R insert_issue" "obeys R insert_fingerprint"
      "obeys R delete_issue"
  shows "evolves (db_evolves R) (createIssue ac e)"
  unfolding createIssue_def nextIssueShortID_def insertIssue_def Let_def
  using assms by (intro store_intros evolves_findIssue evolves_updateIssue)

lemma evolves_Apply:
  assumes "preorder_on_states R" and "\<And>i t e r. obeys R (update_issue i t e r)"
    and "obeys R take_short_id" "obeys R insert_issue" "obeys R insert_fingerprint"
      "obeys R delete_issue"
  shows "evolves (db_evolves R) (Apply plan)"
  unfolding Apply_def Let_def
  using assms by (intro store_intros evolves_eventRowID evolves_findIssue evolves_updateIssue
      evolves_createIssue)

lemma evolves_enqueue_all:
  assumes "preorder_on_states R" and "obeys R insert_intent"
  shows "evolves (db_evolves R) (enqueue_all ds e ac ch now n)"
  using assms
  by (induction ds arbitrary: n)
    (auto simp: insertNotificationIntent_def Let_def intro!: store_intros)

lemma evolves_Enqueue:
  assumes "preorder_on_states R" and "obeys R insert_intent"
  shows "evolves (db_evolves R) (EnqueueIssueOpened ac ch)"
  unfolding EnqueueIssueOpened_def destinationActionsForIssueOpenedRules_def
  using assms by (intro store_intros evolves_eventRowID evolves_enqueue_all)

subsection \<open>The statements and the tables they leave alone\<close>

lemmas statement_defs = insert_event_def upsert_stats_def upsert_tag_def insert_transaction_def
  update_issue_def take_short_id_def insert_issue_def insert_fingerprint_def delete_issue_def
  insert_intent_def

abbreviation same_events :: "DB \<Rightarrow> DB \<Rightarrow> bool" where
  "same_events d d' \<equiv> db_events d' = db_events d"

lemma statements_same_events:
  "obeys same_events upsert_stats" "obeys same_events upsert_tag"
  "obeys same_events insert_transaction" "obeys same_events (update_issue i t e r)"
  "obeys same_events take_short_id" "obeys same_events insert_issue"
  "obeys same_events insert_fingerprint" "obeys same_events delete_issue"
  "obeys same_events insert_intent"
  by (auto simp: obeys_def statement_defs Let_def rbind_eq_ok split: if_split_asm)

lemma insert_event_ok:
  assumes "insert_event row d = ok (n, d')"
  shows "(n = 0 \<and> has_event (er_project_id row) (er_event_id row) d \<and> d' = d) \<or>
    (n = 1 \<and> \<not> has_event (er_project_id row) (er_event_id row) d \<and>
     \<not> event_exists (er_id row) d \<and> uuid_param (er_id row) \<and>
     organization_exists (er_organization_id row) d \<and> project_exists (er_project_id row) d \<and>
     d' = d\<lparr>db_events := db_events d @ [row]\<rparr>)"
  using assms by (auto simp: insert_event_def rbind_eq_ok split: if_split_asm)

lemma obeys_any [simp]: "obeys (\<lambda>_ _. True) f"
  by (simp add: obeys_def)

lemma preorder_any [simp]: "preorder_on_states (\<lambda>_ _. True)"
  by (simp add: preorder_on_states_def reflp_def transp_def)

subsection \<open>Transactions of quiet sessions\<close>

text \<open>
  The sessions the functional results are about: no other session commits in between, and a commit
  that reports an error has not happened.
\<close>

definition reliable :: "Env \<Rightarrow> bool" where
  "reliable env \<longleftrightarrow> quiet env \<and> (\<forall>n e. env_commit env n \<noteq> CommitUnacknowledged e)"

abbreviation session_inv :: "'w Session \<Rightarrow> bool" where
  "session_inv s \<equiv> reliable (ses_env s)"

abbreviation session_step :: "'w Session \<Rightarrow> 'w Session \<Rightarrow> bool" where
  "session_step \<equiv> db_evolves (\<lambda>_ _. True)"

lemma session_inv_quiet: "session_inv s \<Longrightarrow> quiet (ses_env s)"
  by (simp add: reliable_def)

lemma begin_tx_cases:
  assumes "begin_tx s = (r, t)" and "quiet (ses_env s)"
  shows "ses_env t = ses_env s \<and> ses_db t = ses_db s \<and> (\<forall>u. r = Inr u \<longrightarrow> ses_base t = ses_db s)"
  using assms by (auto simp: begin_tx_def advance_quiet Let_def split: option.split_asm)

lemma commit_tx_cases:
  assumes "commit_tx s = (r, t)" and "session_inv s"
  shows "ses_env t = ses_env s \<and> (case r of Inr u \<Rightarrow> ses_db t = ses_db s | Inl e \<Rightarrow> ses_db t = ses_base s)"
  using assms
  by (auto simp: commit_tx_def reliable_def advance_quiet Let_def
      split: commit_outcome.split_asm if_split_asm)

lemma rollback_tx_quiet:
  "quiet (ses_env s) \<Longrightarrow> ses_db (rollback_tx s) = ses_base s \<and> ses_env (rollback_tx s) = ses_env s"
  by (simp add: rollback_tx_def advance_quiet)

text \<open>A transaction of a quiet session: on success its database is the one the body ended with, on
failure the one it began with.\<close>

lemma in_transaction_cases:
  assumes body: "evolves session_step body" and s: "session_inv s"
    and run: "in_transaction body s = (r, t)"
  shows "ses_env t = ses_env s \<and>
    (case r of
       Inl e \<Rightarrow> ses_db t = ses_db s
     | Inr v \<Rightarrow> \<exists>s1 t1. session_inv s1 \<and> ses_db s1 = ses_db s \<and> body s1 = (Inr v, t1) \<and>
         ses_db t = ses_db t1)"
proof -
  obtain b s1 where b: "begin_tx s = (b, s1)" by fastforce
  note s1 = begin_tx_cases [OF b session_inv_quiet [OF s]]
  show ?thesis
  proof (cases b)
    case (Inl e)
    with b run s1 show ?thesis by (auto simp: in_transaction_def abind_def)
  next
    case (Inr u)
    obtain x t1 where x: "body s1 = (x, t1)" by fastforce
    then have t1: "ses_env t1 = ses_env s1" "quiet (ses_env s1) \<longrightarrow> ses_base t1 = ses_base s1"
      using evolvesD [OF body x] by (auto simp: db_evolves_def)
    have q: "quiet (ses_env s1)" "session_inv s1" "session_inv t1" "quiet (ses_env t1)"
      using s s1 t1 by (auto simp: reliable_def)
    show ?thesis
    proof (cases x)
      case (Inl e)
      with b run x Inr have "r = Inl e" "t = rollback_tx t1" by (auto simp: in_transaction_def abind_def)
      with rollback_tx_quiet [OF q(4)] t1 q s1 Inr show ?thesis by simp
    next
      case (Inr v)
      obtain y t2 where y: "commit_tx t1 = (y, t2)" by fastforce
      with b run x Inr \<open>b = Inr u\<close> have "r = (case y of Inl e \<Rightarrow> Inl e | Inr _ \<Rightarrow> Inr v)" "t = t2"
        by (auto simp: in_transaction_def abind_def areturn_def split: sum.splits)
      with commit_tx_cases [OF y q(3)] t1 q s1 x Inr \<open>b = Inr u\<close> show ?thesis
        by (cases y) (auto intro: exI [of _ s1])
    qed
  qed
qed

subsection \<open>The store provides what the workflow relies on\<close>

definition made_ids :: "ProjectID \<Rightarrow> EventID \<Rightarrow> bool" where
  "made_ids p e \<longleftrightarrow> hex_pattern 32 (ProjectID_value p) \<and> hex_pattern 32 (EventID_value e)"

definition journal_keys :: "DB \<Rightarrow> (ProjectID \<times> EventID) set" where
  "journal_keys d = {(p, e). made_ids p e \<and> has_event (ProjectID_String p) (EventID_String e) d}"

definition made_event :: "AcceptedEvent \<Rightarrow> bool" where
  "made_event ac \<longleftrightarrow> made_ids (ev_projectID (ac_event ac)) (ev_eventID (ac_event ac))"

lemma uuid_param_made: "hex_pattern 32 v \<Longrightarrow> uuid_param (dashedUUID v)"
  by (simp add: uuid_param_def normalizeUUID_dashedUUID)

lemma journal_keys_same: "same_events d d' \<Longrightarrow> journal_keys d' = journal_keys d"
  by (simp add: journal_keys_def has_event_def)

lemma journal_keys_add:
  assumes "made_event ac"
  shows "journal_keys (d\<lparr>db_events := db_events d @ [event_row i payload ac]\<rparr>) =
    insert (event_key ac) (journal_keys d)"
proof -
  have "made_ids p e \<Longrightarrow>
      ProjectID_String (ev_projectID (ac_event ac)) = ProjectID_String p \<and>
      EventID_String (ev_eventID (ac_event ac)) = EventID_String e \<longleftrightarrow> (p, e) = event_key ac" for p e
    using assms dashedUUID_inj
    by (auto simp: made_ids_def made_event_def ProjectID_String_def EventID_String_def
        intro: ProjectID.expand EventID.expand)
  with assms show ?thesis
    by (auto simp: journal_keys_def has_event_def event_row_def Let_def made_event_def)
qed

lemma same_eventsD:
  "evolves (db_evolves same_events) m \<Longrightarrow> m s = (r, t) \<Longrightarrow> quiet (ses_env s) \<Longrightarrow>
   db_events (ses_db t) = db_events (ses_db s)"
  by (drule evolvesD) (auto simp: db_evolves_def)

lemma Exists_ok:
  assumes "made_event ac" and "quiet (ses_env s)"
    and "Exists (ev_projectID (ac_event ac)) (ev_eventID (ac_event ac)) s = (Inr b, t)"
  shows "ses_db t = ses_db s \<and> (b \<longleftrightarrow> event_key ac \<in> journal_keys (ses_db s))"
  using assms unfolding Exists_def
  by (auto dest!: query_okD simp: rbind_eq_ok journal_keys_def made_event_def)

lemma CheckQuota_ok:
  assumes "quiet (ses_env s)" and "CheckQuota ev s = (Inr q, t)"
  shows "ses_db t = ses_db s \<and>
    (\<exists>snapshot. q = quotaDecision snapshot \<and> bigint (qs_projectDailyUsed snapshot) \<and>
      bigint (qs_organizationUsed snapshot) \<and>
      snapshot = select_quota (OrganizationID_String (ev_organizationID ev))
        (ProjectID_String (ev_projectID ev)) (timestamptz (TimePoint_Time (ev_receivedAt ev))) (ses_db s))"
  using assms unfolding CheckQuota_def quotaSnapshotForScope_def
  by (auto simp: abind_ok areturn_eq rbind_eq_ok Let_def dest!: query_okD)

text \<open>The part of an append that follows the insertion of the row.\<close>

definition append_rest :: "string \<Rightarrow> CanonicalEvent \<Rightarrow> ('w Session, EventAppendResult) action" where
  "append_rest eventRowID canonical =
     abind (upsertProjectHourlyStats canonical) (\<lambda>_.
     abind (insertEventTags eventRowID canonical) (\<lambda>_.
     abind (insertTransactionEvent eventRowID canonical) (\<lambda>_.
     areturn NewAppendedEvent)))"

lemma Append_okD:
  assumes run: "Append ac s = (Inr a, t)" and q: "quiet (ses_env s)"
  shows "\<exists>rowID payload n d s1. hex_pattern 32 rowID \<and> ses_env s1 = ses_env s \<and> ses_db s1 = d \<and>
    insert_event (event_row (dashedUUID rowID) payload ac) (ses_db s) = ok (n, d) \<and>
    (if n = 0 then a = NewDuplicateEvent \<and> ses_db t = d
     else append_rest (dashedUUID rowID) (ac_event ac) s1 = (Inr a, t))"
proof -
  obtain u entries n s0 s1 where u: "randomUUID s = (Inr u, s0)"
    and i: "statement (insert_event (event_row u (canonicalPayloadJSON entries ac) ac)) (advance s0) = (Inr n, s1)"
    and rest: "(if n = 0 then areturn NewDuplicateEvent else append_rest u (ac_event ac)) s1 = (Inr a, t)"
    using run unfolding Append_def Let_def append_rest_def
    by (auto simp: abind_ok range_map_eq)
  obtain v where v: "hex_pattern 32 v" "u = dashedUUID v" and s0: "s0 = advance s"
    using randomUUID_okD [OF u] by auto
  obtain d where d: "insert_event (event_row u (canonicalPayloadJSON entries ac) ac)
      (ses_db (advance (advance s0))) = ok (n, d)" and s1: "s1 = (advance (advance s0))\<lparr>ses_db := d\<rparr>"
    using statement_okD [OF i] by auto
  have "ses_db (advance (advance s0)) = ses_db s" using q s0 by simp
  with d s1 s0 v rest show ?thesis
    by (intro exI [of _ v] exI [of _ "canonicalPayloadJSON entries ac"] exI [of _ n] exI [of _ d]
        exI [of _ s1]) (auto simp: areturn_eq split: if_split_asm)
qed

lemma evolves_append_rest:
  assumes "preorder_on_states R" and "obeys R upsert_stats"
    "obeys R upsert_tag" "obeys R insert_transaction"
  shows "evolves (db_evolves R) (append_rest i ev)"
  unfolding append_rest_def Let_def upsertProjectHourlyStats_def insertEventTags_def
    insertTransactionEvent_def
  using assms by (intro store_intros)

lemma append_rest_appended: "append_rest i ev s = (Inr a, t) \<Longrightarrow> a = NewAppendedEvent"
  by (auto simp: append_rest_def abind_ok areturn_eq)

lemmas append_rest_events =
  same_eventsD [OF evolves_append_rest [OF preorder_same statements_same_events(1-3)]]
lemmas Apply_events = same_eventsD [OF evolves_Apply [OF preorder_same statements_same_events(4-8)]]
lemmas Enqueue_events = same_eventsD [OF evolves_Enqueue [OF preorder_same statements_same_events(9)]]

lemma Append_ok:
  assumes ac: "made_event ac" and q: "quiet (ses_env s)" and run: "Append ac s = (Inr a, t)"
  shows "(append_duplicate a \<longleftrightarrow> event_key ac \<in> journal_keys (ses_db s)) \<and>
    (append_duplicate a \<longrightarrow> ses_db t = ses_db s) \<and>
    journal_keys (ses_db t) = insert (event_key ac) (journal_keys (ses_db s))"
proof -
  obtain i payload n d s1 where s1: "ses_env s1 = ses_env s" "ses_db s1 = d"
    and ins: "insert_event (event_row (dashedUUID i) payload ac) (ses_db s) = ok (n, d)"
    and rest: "if n = 0 then a = NewDuplicateEvent \<and> ses_db t = d
      else append_rest (dashedUUID i) (ac_event ac) s1 = (Inr a, t)"
    using Append_okD [OF run q] by auto
  have key: "has_event (er_project_id (event_row (dashedUUID i) payload ac))
      (er_event_id (event_row (dashedUUID i) payload ac)) (ses_db s) \<longleftrightarrow>
      event_key ac \<in> journal_keys (ses_db s)"
    using ac by (simp add: event_row_def Let_def journal_keys_def made_event_def)
  show ?thesis
  proof (cases "n = 0")
    case True
    with insert_event_ok [OF ins] rest key show ?thesis
      by (auto simp: NewDuplicateEvent_def insert_absorb)
  next
    case False
    then have "db_events (ses_db t) = db_events d" and a: "a = NewAppendedEvent"
      using rest s1 q append_rest_events [of "dashedUUID i" "ac_event ac" s1]
        append_rest_appended [of "dashedUUID i" "ac_event ac" s1] by auto
    then have "journal_keys (ses_db t) = journal_keys d" by (rule_tac journal_keys_same)
    with insert_event_ok [OF ins] False key a journal_keys_add [OF ac] show ?thesis
      by (auto simp: NewAppendedEvent_def)
  qed
qed

lemma Apply_keys:
  "quiet (ses_env s) \<Longrightarrow> Apply plan s = (Inr c, t) \<Longrightarrow>
   journal_keys (ses_db t) = journal_keys (ses_db s)"
  by (rule journal_keys_same) (rule Apply_events)

lemma Enqueue_keys:
  "quiet (ses_env s) \<Longrightarrow> EnqueueIssueOpened ac ch s = (Inr n, t) \<Longrightarrow>
   journal_keys (ses_db t) = journal_keys (ses_db s)"
  by (rule journal_keys_same) (rule Enqueue_events)

lemma session_stepD: "session_step s t \<Longrightarrow> session_inv s \<Longrightarrow> session_inv t"
  by (simp add: db_evolves_def)

lemma in_transaction_inv:
  assumes "evolves session_step body"
  shows "evolves (\<lambda>s t. session_inv s \<longrightarrow> session_inv t) (in_transaction body)"
proof (rule evolvesI, rule impI)
  fix s t :: "'a Session" and r
  assume "in_transaction body s = (r, t)" "session_inv s"
  with in_transaction_cases [OF assms, of s r t] show "session_inv t" by simp
qed

interpretation postgres: ingest_ports txStore Run session_inv session_step ses_db journal_keys made_event
proof (unfold_locales, goal_cases)
  case (8 ac s b t)
  then show ?case using Exists_ok [of ac s b t] by (simp add: txStore_def reliable_def)
next
  case (9 s event q t)
  then show ?case using CheckQuota_ok [of s event q t] by (simp add: txStore_def reliable_def)
next
  case (10 ac s a t)
  then show ?case using Append_ok [of ac s a t] by (simp add: txStore_def reliable_def)
next
  case (11 s plan c t)
  then show ?case using Apply_keys [of s plan c t] by (simp add: txStore_def reliable_def)
next
  case (12 s ac ch n t)
  then show ?case using Enqueue_keys [of s ac ch n t] by (simp add: txStore_def reliable_def)
next
  case (13 prog)
  then show ?case
    using in_transaction_inv [of "prog txStore"] by (simp add: Run_def [abs_def])
next
  case (14 prog s x t)
  then show ?case using in_transaction_cases [of "prog txStore" s "Inr x" t] by (auto simp: Run_def)
next
  case (15 prog s err t)
  then show ?case using in_transaction_cases [of "prog txStore" s "Inl err" t] by (simp add: Run_def)
qed (auto simp: txStore_def intro: evolves_Exists evolves_CheckQuota evolves_Append
    evolves_Apply evolves_Enqueue session_stepD)

end
