(* ===== verification/IssueIndex.thy ===== *)
theory IssueIndex
  imports IngestStore
begin

text \<open>
  What the issue index of the store promises: an abstract index counts, for each project and
  fingerprint, the events of its issue, and \<open>Apply\<close> counts one more event for the fingerprint of its
  plan and for no other. The concrete side is the pair of tables \<open>issues\<close> and
  \<open>issue_fingerprints\<close>, with the invariant \<open>issues_consistent\<close>.
\<close>

subsection \<open>Rows of a table\<close>

lemma find_unique:
  "x \<in> set xs \<Longrightarrow> P x \<Longrightarrow> (\<And>y. y \<in> set xs \<Longrightarrow> P y \<Longrightarrow> y = x) \<Longrightarrow> find P xs = Some x"
  by (metis find_None_iff find_SomeD not_Some_eq)

lemma find_update_rows:
  "(\<And>r. P (f r) \<longleftrightarrow> P r) \<Longrightarrow>
   find P (update_rows Q f rows) = map_option (\<lambda>r. if Q r then f r else r) (find P rows)"
  by (induction rows) (auto simp: update_rows_def)

lemma map_update_rows: "(\<And>r. g (f r) = g r) \<Longrightarrow> map g (update_rows Q f rows) = map g rows"
  by (induction rows) (auto simp: update_rows_def)

lemma set_update_rows: "set (update_rows Q f rows) = (\<lambda>r. if Q r then f r else r) ` set rows"
  by (simp add: update_rows_def)

lemma ball_update_rows:
  "(\<And>r. P (f r) = P r) \<Longrightarrow> (\<forall>r\<in>set (update_rows Q f rows). P r) \<longleftrightarrow> (\<forall>r\<in>set rows. P r)"
  by (induction rows) (simp_all add: update_rows_def)

lemma bex_update_rows:
  "(\<And>r. P (f r) = P r) \<Longrightarrow> (\<exists>r\<in>set (update_rows Q f rows). P r) \<longleftrightarrow> (\<exists>r\<in>set rows. P r)"
  by (induction rows) (simp_all add: update_rows_def)

lemma distinct_map_eq: "distinct (map g xs) \<Longrightarrow> x \<in> set xs \<Longrightarrow> y \<in> set xs \<Longrightarrow> g x = g y \<Longrightarrow> x = y"
  by (auto simp: distinct_map dest: inj_onD)

subsection \<open>The invariant\<close>

text \<open>
  Issue ids, short ids within a project and fingerprints within a project are unique, every
  fingerprint leads to an issue of its project, no issue has two fingerprints and none has no
  fingerprint, and the short ids given out are below the project's next one.
\<close>

definition issues_consistent :: "DB \<Rightarrow> bool" where
  "issues_consistent d \<longleftrightarrow>
     distinct (map ir_id (db_issues d)) \<and>
     distinct (map (\<lambda>r. (ir_project_id r, ir_short_id r)) (db_issues d)) \<and>
     distinct (map (\<lambda>f. (fr_project_id f, fr_fingerprint f)) (db_issue_fingerprints d)) \<and>
     distinct (map fr_issue_id (db_issue_fingerprints d)) \<and>
     (\<forall>f\<in>set (db_issue_fingerprints d). \<exists>r\<in>set (db_issues d).
        ir_id r = fr_issue_id f \<and> ir_project_id r = fr_project_id f) \<and>
     (\<forall>r\<in>set (db_issues d). uuid_param (ir_id r) \<and>
        (\<exists>f\<in>set (db_issue_fingerprints d). fr_issue_id f = ir_id r)) \<and>
     distinct (map prj_id (db_projects d)) \<and>
     (\<forall>r\<in>set (db_issues d). \<forall>p\<in>set (db_projects d).
        prj_id p = ir_project_id r \<longrightarrow> ir_short_id r < prj_next_issue_short_id p)"

subsection \<open>The abstract index\<close>

definition issue_of :: "DB \<Rightarrow> string \<Rightarrow> string \<Rightarrow> IssueRow option" where
  "issue_of d project fp =
     (case find_fingerprint project fp d of
        None \<Rightarrow> None
      | Some f \<Rightarrow> find (\<lambda>r. ir_id r = fr_issue_id f) (db_issues d))"

definition counted :: "DB \<Rightarrow> string \<Rightarrow> string \<Rightarrow> int" where
  "counted d project fp = (case issue_of d project fp of None \<Rightarrow> 0 | Some r \<Rightarrow> ir_event_count r)"

lemma find_fingerprintD:
  "find_fingerprint p fp d = Some f \<Longrightarrow>
   f \<in> set (db_issue_fingerprints d) \<and> fr_project_id f = p \<and> fr_fingerprint f = fp"
  unfolding find_fingerprint_def by (drule find_SomeD) auto

lemma issue_of_found:
  assumes "issues_consistent d" and "find_fingerprint p fp d = Some f"
  shows "\<exists>r. issue_of d p fp = Some r \<and> r \<in> set (db_issues d) \<and> ir_id r = fr_issue_id f \<and>
    ir_project_id r = p \<and> uuid_param (ir_id r)"
proof -
  note f = find_fingerprintD [OF assms(2)]
  obtain r where r: "r \<in> set (db_issues d)" "ir_id r = fr_issue_id f" "ir_project_id r = fr_project_id f"
    using assms(1) f by (auto simp: issues_consistent_def)
  have u: "distinct (map ir_id (db_issues d))" using assms(1) by (simp add: issues_consistent_def)
  have "find (\<lambda>r. ir_id r = fr_issue_id f) (db_issues d) = Some r"
    using r distinct_map_eq [OF u] by (intro find_unique) auto
  moreover have "uuid_param (ir_id r)" using assms(1) r(1) by (simp add: issues_consistent_def)
  ultimately show ?thesis using assms(2) f r by (simp add: issue_of_def)
qed

subsection \<open>What Apply does to the database\<close>

definition issue_update :: "AcceptedEvent \<Rightarrow> string \<Rightarrow> string \<Rightarrow> DB \<Rightarrow> DB" where
  "issue_update ac issueID rowID d =
     d\<lparr>db_issues := update_rows (\<lambda>r. ir_id r = issueID)
         (count_event (timestamptz (TimePoint_Time (ev_occurredAt (ac_event ac)))) rowID
           (nullableText (ev_release (ac_event ac))) (nullableText (ev_environment (ac_event ac))))
         (db_issues d)\<rparr>"

lemma uuid_param_NewIssueID:
  "uuid_param i \<Longrightarrow> \<exists>c. NewIssueID i = ok c \<and> IssueID_String c = i"
  by (auto simp: uuid_param_def NewIssueID_def IssueID_String_def split: sum.split_asm)

lemma uuid_param_not_Nil: "uuid_param i \<Longrightarrow> i \<noteq> []"
  by (auto simp: uuid_param_def dashedUUID_def hex_pattern_def split: sum.split_asm
      dest!: normalizeUUID_hex)

lemma updateIssue_ok:
  assumes run: "updateIssue ac i rowID s = (Inr c, t)" and q: "quiet (ses_env s)"
  shows "issue_exists i (ses_db s) \<and> ses_db t = issue_update ac i rowID (ses_db s) \<and>
    change_created c = False \<and> IssueID_String (change_issueID c) = i"
proof -
  obtain row s1 where st: "statement (update_issue i
         (timestamptz (TimePoint_Time (ev_occurredAt (ac_event ac)))) rowID
         (nullableText (ev_release (ac_event ac)))
         (nullableText (ev_environment (ac_event ac)))) s = (Inr (Some row), s1)"
    and c: "NewIssueID row = ok (change_issueID c)" "change_created c = False" "t = s1"
    using run unfolding updateIssue_def
    by (auto simp: action_simps NewIssueChange_def)
  from statement_okD [OF st] q
  have "row = i \<and> uuid_param i \<and> issue_exists i (ses_db s) \<and> ses_db s1 = issue_update ac i rowID (ses_db s)"
    by (auto simp: update_issue_def Let_def rbind_eq_ok issue_update_def issue_exists_def
        split: if_split_asm)
  with c uuid_param_NewIssueID [of i] show ?thesis by auto
qed

lemma findIssue_ok:
  assumes "findIssueByFingerprint ac s = (Inr i, t)" and q: "quiet (ses_env s)"
  shows "ses_db t = ses_db s \<and> ses_env t = ses_env s \<and>
    i = (case find_fingerprint (ProjectID_String (ev_projectID (ac_event ac)))
           (fingerprint_value (ac_fingerprint ac)) (ses_db s) of None \<Rightarrow> [] | Some f \<Rightarrow> fr_issue_id f)"
proof -
  obtain row s1 where st: "query (\<lambda>d. rbind (check (uuid_param (ProjectID_String (ev_projectID (ac_event ac))) \<and>
         text_param (fingerprint_value (ac_fingerprint ac))) ''invalid input syntax'') (\<lambda>_.
       ok (find_fingerprint (ProjectID_String (ev_projectID (ac_event ac)))
            (fingerprint_value (ac_fingerprint ac)) d))) s = (Inr row, s1)"
    and rest: "(case row of None \<Rightarrow> areturn [] | Some r \<Rightarrow> areturn (fr_issue_id r)) s1 = (Inr i, t)"
    using assms(1) unfolding findIssueByFingerprint_def by (auto simp: abind_ok)
  from query_okD [OF st] rest q show ?thesis
    by (auto simp: rbind_eq_ok areturn_eq split: option.splits)
qed

lemma eventRowID_ok:
  assumes "txStore_eventRowID p e s = (Inr i, t)" and q: "quiet (ses_env s)"
  shows "ses_db t = ses_db s \<and> ses_env t = ses_env s \<and> event_exists i (ses_db s)"
proof -
  obtain row s1 where st: "query (\<lambda>d. rbind (check (uuid_param (ProjectID_String p) \<and>
         uuid_param (EventID_String e)) ''invalid input syntax for type uuid'') (\<lambda>_.
       ok (map_option er_id (find (\<lambda>r. er_project_id r = ProjectID_String p \<and>
         er_event_id r = EventID_String e) (db_events d))))) s = (Inr row, s1)"
    and rest: "row = Some i" "t = s1"
    using assms(1) unfolding txStore_eventRowID_def by (auto simp: abind_ok scan_row_eq)
  from query_okD [OF st] rest q show ?thesis
    by (auto simp: rbind_eq_ok event_exists_def list_ex_iff dest!: find_SomeD)
qed

text \<open>The row a new issue gets, and the database with it.\<close>

definition new_issue_row ::
    "AcceptedEvent \<Rightarrow> string \<Rightarrow> int \<Rightarrow> string \<Rightarrow> gotime \<Rightarrow> IssueRow" where
  "new_issue_row ac issueID shortID rowID now =
     (let canonical = ac_event ac; occurred = timestamptz (TimePoint_Time (ev_occurredAt canonical))
      in \<lparr>ir_id = issueID, ir_organization_id = OrganizationID_String (ev_organizationID canonical),
          ir_project_id = ProjectID_String (ev_projectID canonical), ir_short_id = shortID,
          ir_type = ev_kind canonical, ir_status = ''unresolved'',
          ir_title = EventTitle_value (ev_title canonical), ir_first_seen_at = occurred,
          ir_last_seen_at = occurred, ir_event_count = 1, ir_last_event_id = rowID,
          ir_release = nullableText (ev_release canonical),
          ir_environment = nullableText (ev_environment canonical),
          ir_created_at = timestamptz now, ir_assignee_operator_id = None, ir_assignee_team_id = None\<rparr>)"

definition issue_insert ::
    "AcceptedEvent \<Rightarrow> string \<Rightarrow> int \<Rightarrow> string \<Rightarrow> gotime \<Rightarrow> gotime \<Rightarrow> DB \<Rightarrow> DB" where
  "issue_insert ac issueID shortID rowID now now' d =
     d\<lparr>db_projects := update_rows (\<lambda>r. prj_id r = ProjectID_String (ev_projectID (ac_event ac)))
         (\<lambda>r. r\<lparr>prj_next_issue_short_id := prj_next_issue_short_id r + 1\<rparr>) (db_projects d),
       db_issues := db_issues d @ [new_issue_row ac issueID shortID rowID now],
       db_issue_fingerprints := db_issue_fingerprints d @
         [\<lparr>fr_project_id = ProjectID_String (ev_projectID (ac_event ac)),
           fr_fingerprint = fingerprint_value (ac_fingerprint ac), fr_issue_id = issueID,
           fr_created_at = timestamptz now'\<rparr>]\<rparr>"

definition issue_created :: "AcceptedEvent \<Rightarrow> IssueChange \<Rightarrow> string \<Rightarrow> DB \<Rightarrow> DB \<Rightarrow> bool" where
  "issue_created ac c rowID d d' \<longleftrightarrow> change_created c \<and> (\<exists>v shortID now now'. hex_pattern 32 v \<and>
    IssueID_String (change_issueID c) = dashedUUID v \<and> \<not> issue_exists (dashedUUID v) d \<and>
    (\<exists>prj\<in>set (db_projects d). prj_id prj = ProjectID_String (ev_projectID (ac_event ac)) \<and>
       shortID = prj_next_issue_short_id prj) \<and>
    (\<forall>r\<in>set (db_issues d). ir_project_id r = ProjectID_String (ev_projectID (ac_event ac)) \<longrightarrow>
       ir_short_id r \<noteq> shortID) \<and>
    d' = issue_insert ac (dashedUUID v) shortID rowID now now' d)"

lemma nextIssueShortID_ok:
  assumes "nextIssueShortID p s = (Inr n, t)" and q: "quiet (ses_env s)"
  shows "ses_env t = ses_env s \<and>
    (\<exists>prj\<in>set (db_projects (ses_db s)). prj_id prj = ProjectID_String p \<and> n = prj_next_issue_short_id prj) \<and>
    ses_db t = (ses_db s)\<lparr>db_projects := update_rows (\<lambda>r. prj_id r = ProjectID_String p)
         (\<lambda>r. r\<lparr>prj_next_issue_short_id := prj_next_issue_short_id r + 1\<rparr>) (db_projects (ses_db s))\<rparr>"
proof -
  obtain s1 where st: "statement (take_short_id (ProjectID_String p)) s = (Inr (Some n), s1)" "t = s1"
    using assms(1) unfolding nextIssueShortID_def by (auto simp: action_simps)
  from statement_okD [OF st(1)] st(2) q show ?thesis
    by (auto simp: take_short_id_def Let_def rbind_eq_ok dest!: find_SomeD)
qed

lemma createIssue_ok:
  assumes run: "createIssue ac rowID s = (Inr c, t)" and q: "quiet (ses_env s)"
    and none: "find_fingerprint (ProjectID_String (ev_projectID (ac_event ac)))
      (fingerprint_value (ac_fingerprint ac)) (ses_db s) = None"
  shows "issue_created ac c rowID (ses_db s) (ses_db t)"
proof -
  let ?P = "ProjectID_String (ev_projectID (ac_event ac))"
  let ?fp = "fingerprint_value (ac_fingerprint ac)"
  obtain i s1 n s2 s3 now' m s4 where u: "randomUUID s = (Inr i, s1)"
    and n: "nextIssueShortID (ev_projectID (ac_event ac)) s1 = (Inr n, s2)"
    and ii: "insertIssue ac i n rowID s2 = (Inr (), s3)"
    and now': "now' = UTC (env_now (ses_env s3) (ses_tick s3))"
    and fp: "statement (insert_fingerprint \<lparr>fr_project_id = ?P, fr_fingerprint = ?fp, fr_issue_id = i,
        fr_created_at = timestamptz now'\<rparr>) (advance s3) = (Inr m, s4)"
    and rest: "(if m = 1 then
       abind (alift (NewIssueID i)) (\<lambda>domainIssueID. areturn (NewIssueChange domainIssueID True))
     else
       abind (discard (statement (delete_issue i))) (\<lambda>_.
       abind (findIssueByFingerprint ac) (\<lambda>existingID. updateIssue ac existingID rowID))) s4 = (Inr c, t)"
    using run unfolding createIssue_def by (auto simp: abind_ok time_Now_eq)
  obtain v where v: "hex_pattern 32 v" "i = dashedUUID v" and s1: "s1 = advance s"
    using randomUUID_okD [OF u] by auto
  have e1: "ses_env s1 = ses_env s" "ses_db s1 = ses_db s" using s1 q by auto
  note n' = nextIssueShortID_ok [OF n, unfolded e1, OF q]
  obtain now where "statement (insert_issue (new_issue_row ac i n rowID now)) (advance s2) = (Inr (), s3)"
    using ii unfolding insertIssue_def new_issue_row_def Let_def by (auto simp: action_simps UTC_def)
  from statement_okD [OF this] n' q e1 have s3: "ses_env s3 = ses_env s"
    "\<not> issue_exists i (ses_db s)" "ses_db s3 = (ses_db s2)\<lparr>db_issues := db_issues (ses_db s2) @ [new_issue_row ac i n rowID now]\<rparr>"
    "\<forall>r\<in>set (db_issues (ses_db s)). ir_project_id r = ?P \<longrightarrow> ir_short_id r \<noteq> n"
    by (auto simp: insert_issue_def rbind_eq_ok issue_exists_def list_ex_iff new_issue_row_def Let_def)
  have "find_fingerprint ?P ?fp (ses_db s3) = None"
    using none s3(3) n' by (simp add: find_fingerprint_def)
  with statement_okD [OF fp] s3 q have m: "m = 1" "ses_db s4 = (ses_db s3)\<lparr>db_issue_fingerprints :=
      db_issue_fingerprints (ses_db s3) @ [\<lparr>fr_project_id = ?P, fr_fingerprint = ?fp, fr_issue_id = i,
        fr_created_at = timestamptz now'\<rparr>]\<rparr>"
    by (auto simp: insert_fingerprint_def rbind_eq_ok split: if_split_asm)
  then have c: "NewIssueID i = ok (change_issueID c)" "change_created c" "t = s4"
    using rest by (auto simp: action_simps NewIssueChange_def)
  have "ses_db t = issue_insert ac i n rowID now now' (ses_db s)"
    using m(2) s3(3) n' c(3) by (simp add: issue_insert_def)
  moreover have "IssueID_String (change_issueID c) = i"
    using c(1) uuid_param_NewIssueID [OF uuid_param_made [OF v(1)]] v(2) by auto
  moreover have "\<exists>prj\<in>set (db_projects (ses_db s)). prj_id prj = ?P \<and> n = prj_next_issue_short_id prj"
    using n' by blast
  ultimately show ?thesis
    using c(2) v s3(2,4) unfolding issue_created_def
    by (intro conjI exI [of _ v] exI [of _ n] exI [of _ now] exI [of _ now']) simp_all
qed

lemma Apply_cases:
  assumes run: "Apply plan s = (Inr c, t)" and q: "quiet (ses_env s)"
    and wf: "issues_consistent (ses_db s)"
  defines "ac \<equiv> plan_event plan"
  defines "P \<equiv> ProjectID_String (ev_projectID (ac_event ac))"
  defines "fp \<equiv> fingerprint_value (ac_fingerprint ac)"
  shows "(\<exists>f rowID. find_fingerprint P fp (ses_db s) = Some f \<and> \<not> change_created c \<and>
      IssueID_String (change_issueID c) = fr_issue_id f \<and>
      ses_db t = issue_update ac (fr_issue_id f) rowID (ses_db s)) \<or>
    (find_fingerprint P fp (ses_db s) = None \<and>
      (\<exists>rowID. issue_created ac c rowID (ses_db s) (ses_db t)))"
proof -
  obtain rowID s1 i s2 where r: "txStore_eventRowID (ev_projectID (ac_event ac)) (ev_eventID (ac_event ac)) s = (Inr rowID, s1)"
    and f: "findIssueByFingerprint ac s1 = (Inr i, s2)"
    and rest: "(if i \<noteq> [] then updateIssue ac i rowID else createIssue ac rowID) s2 = (Inr c, t)"
    using run unfolding Apply_def Let_def ac_def by (auto simp: abind_ok)
  note s1 = eventRowID_ok [OF r q]
  have q1: "quiet (ses_env s1)" using s1 q by simp
  have s2: "ses_db s2 = ses_db s" "quiet (ses_env s2)"
    and i: "i = (case find_fingerprint P fp (ses_db s) of None \<Rightarrow> [] | Some f \<Rightarrow> fr_issue_id f)"
    using findIssue_ok [OF f q1] s1 q1 by (simp_all add: P_def fp_def)
  show ?thesis
  proof (cases "find_fingerprint P fp (ses_db s)")
    case None
    with rest i have "createIssue ac rowID s2 = (Inr c, t)" by simp
    from createIssue_ok [OF this s2(2)] None s2 show ?thesis
      unfolding P_def fp_def by auto
  next
    case (Some f)
    have "uuid_param (fr_issue_id f)" using issue_of_found [OF wf Some] by auto
    with Some i rest have "updateIssue ac (fr_issue_id f) rowID s2 = (Inr c, t)"
      using uuid_param_not_Nil by fastforce
    from updateIssue_ok [OF this s2(2)] Some s2 show ?thesis by auto
  qed
qed

subsection \<open>Apply refines the abstract index\<close>

lemma count_event_fields [simp]:
  "ir_id (count_event t e r n row) = ir_id row"
  "ir_project_id (count_event t e r n row) = ir_project_id row"
  "ir_short_id (count_event t e r n row) = ir_short_id row"
  "ir_event_count (count_event t e r n row) = ir_event_count row + 1"
  by (simp_all add: count_event_def)

lemma issue_update_tables [simp]:
  "db_issue_fingerprints (issue_update ac i e d) = db_issue_fingerprints d"
  "db_projects (issue_update ac i e d) = db_projects d"
  by (simp_all add: issue_update_def)

lemma issue_update_consistent:
  "issues_consistent d \<Longrightarrow> issues_consistent (issue_update ac i e d)"
  unfolding issues_consistent_def
  by (simp add: issue_update_def map_update_rows ball_update_rows bex_update_rows)

lemma issue_of_update:
  "issue_of (issue_update ac i e d) p fp = map_option
     (\<lambda>r. if ir_id r = i then count_event (timestamptz (TimePoint_Time (ev_occurredAt (ac_event ac)))) e
        (nullableText (ev_release (ac_event ac))) (nullableText (ev_environment (ac_event ac))) r
      else r) (issue_of d p fp)"
  by (auto simp: issue_of_def find_fingerprint_def issue_update_def find_update_rows split: option.split)

lemma same_issue_same_fingerprint:
  assumes "issues_consistent d" and "find_fingerprint p fp d = Some f"
    and "find_fingerprint p' fp' d = Some f'" and "fr_issue_id f = fr_issue_id f'"
  shows "p = p' \<and> fp = fp'"
proof -
  have "distinct (map fr_issue_id (db_issue_fingerprints d))"
    using assms(1) by (simp add: issues_consistent_def)
  then have "f = f'" using assms find_fingerprintD by (blast intro: distinct_map_eq)
  then show ?thesis using assms(2,3) find_fingerprintD by blast
qed

lemma counted_update:
  assumes wf: "issues_consistent d" and f: "find_fingerprint p fp d = Some f"
  shows "counted (issue_update ac (fr_issue_id f) e d) p' fp' =
    counted d p' fp' + (if p' = p \<and> fp' = fp then 1 else 0)"
proof (cases "find_fingerprint p' fp' d")
  case None
  then have "\<not> (p' = p \<and> fp' = fp)" using f by auto
  with None show ?thesis
    by (auto simp: counted_def issue_of_update) (simp_all add: issue_of_def)
next
  case (Some f')
  obtain r where r: "issue_of d p' fp' = Some r" "ir_id r = fr_issue_id f'"
    using issue_of_found [OF wf Some] by auto
  have "ir_id r = fr_issue_id f \<longleftrightarrow> p' = p \<and> fp' = fp"
    using same_issue_same_fingerprint [OF wf Some f] Some f r by auto
  with r show ?thesis by (simp add: counted_def issue_of_update)
qed

lemma issue_insert_consistent:
  assumes wf: "issues_consistent d" and v: "hex_pattern 32 v" and new: "\<not> issue_exists (dashedUUID v) d"
    and prj: "prj \<in> set (db_projects d)" "prj_id prj = ProjectID_String (ev_projectID (ac_event ac))"
    and none: "find_fingerprint (ProjectID_String (ev_projectID (ac_event ac)))
      (fingerprint_value (ac_fingerprint ac)) d = None"
    and free: "\<forall>r\<in>set (db_issues d). ir_project_id r = ProjectID_String (ev_projectID (ac_event ac)) \<longrightarrow>
       ir_short_id r \<noteq> prj_next_issue_short_id prj"
  shows "issues_consistent (issue_insert ac (dashedUUID v) (prj_next_issue_short_id prj) e now now' d)"
proof -
  let ?P = "ProjectID_String (ev_projectID (ac_event ac))"
  let ?d = "issue_insert ac (dashedUUID v) (prj_next_issue_short_id prj) e now now' d"
  let ?row = "new_issue_row ac (dashedUUID v) (prj_next_issue_short_id prj) e now"
  have row: "ir_id ?row = dashedUUID v" "ir_project_id ?row = ?P"
    "ir_short_id ?row = prj_next_issue_short_id prj"
    by (simp_all add: new_issue_row_def Let_def)
  have fresh: "dashedUUID v \<notin> ir_id ` set (db_issues d)"
    using new by (auto simp: issue_exists_def list_ex_iff)
  have nofp: "\<forall>f\<in>set (db_issue_fingerprints d).
      \<not> (fr_project_id f = ?P \<and> fr_fingerprint f = fingerprint_value (ac_fingerprint ac))"
    using none by (auto simp: find_fingerprint_def find_None_iff)
  have nolink: "dashedUUID v \<notin> fr_issue_id ` set (db_issue_fingerprints d)"
  proof
    assume "dashedUUID v \<in> fr_issue_id ` set (db_issue_fingerprints d)"
    then obtain r where "r \<in> set (db_issues d)" "ir_id r = dashedUUID v"
      using wf by (auto simp: issues_consistent_def)
    with fresh show False by (metis image_eqI)
  qed
  have ids: "distinct (map prj_id (db_projects d))" using wf by (simp add: issues_consistent_def)
  have below: "\<forall>r\<in>set (db_issues ?d). \<forall>p\<in>set (db_projects ?d).
      prj_id p = ir_project_id r \<longrightarrow> ir_short_id r < prj_next_issue_short_id p"
  proof (intro ballI impI)
    fix r p assume r: "r \<in> set (db_issues ?d)" and p: "p \<in> set (db_projects ?d)"
      and eq: "prj_id p = ir_project_id r"
    from p obtain p0 where p0: "p0 \<in> set (db_projects d)" "prj_id p = prj_id p0"
      "prj_next_issue_short_id p = prj_next_issue_short_id p0 + (if prj_id p0 = ?P then 1 else 0)"
      by (auto simp: issue_insert_def set_update_rows split: if_split_asm)
    from r have "r = ?row \<or> r \<in> set (db_issues d)" by (auto simp: issue_insert_def)
    then show "ir_short_id r < prj_next_issue_short_id p"
    proof
      assume "r = ?row"
      moreover have "p0 = prj" if "prj_id p0 = ?P"
        using distinct_map_eq [OF ids p0(1) prj(1)] that prj(2) by simp
      ultimately show ?thesis using p0 eq row by simp
    next
      assume "r \<in> set (db_issues d)"
      then have "ir_short_id r < prj_next_issue_short_id p0"
        using wf p0 eq by (auto simp: issues_consistent_def)
      then show ?thesis using p0(3) by simp
    qed
  qed
  have "distinct (map ir_id (db_issues ?d))" "distinct (map (\<lambda>r. (ir_project_id r, ir_short_id r)) (db_issues ?d))"
    using wf fresh free row by (auto simp: issues_consistent_def issue_insert_def)
  moreover have "distinct (map (\<lambda>f. (fr_project_id f, fr_fingerprint f)) (db_issue_fingerprints ?d))"
    "distinct (map fr_issue_id (db_issue_fingerprints ?d))"
    using wf nofp nolink by (auto simp: issues_consistent_def issue_insert_def)
  moreover have "\<forall>f\<in>set (db_issue_fingerprints ?d). \<exists>r\<in>set (db_issues ?d).
      ir_id r = fr_issue_id f \<and> ir_project_id r = fr_project_id f"
    using wf row by (auto simp: issues_consistent_def issue_insert_def)
  moreover have "\<forall>r\<in>set (db_issues ?d). uuid_param (ir_id r) \<and>
      (\<exists>f\<in>set (db_issue_fingerprints ?d). fr_issue_id f = ir_id r)"
    using wf row uuid_param_made [OF v] by (auto simp: issues_consistent_def issue_insert_def)
  moreover have "distinct (map prj_id (db_projects ?d))"
    using ids by (simp add: issue_insert_def map_update_rows)
  ultimately show ?thesis using below by (simp add: issues_consistent_def)
qed

lemma counted_insert:
  assumes wf: "issues_consistent d" and new: "\<not> issue_exists i d"
    and none: "find_fingerprint (ProjectID_String (ev_projectID (ac_event ac)))
      (fingerprint_value (ac_fingerprint ac)) d = None"
  shows "counted (issue_insert ac i n e now now' d) p' fp' = counted d p' fp' +
    (if p' = ProjectID_String (ev_projectID (ac_event ac)) \<and>
        fp' = fingerprint_value (ac_fingerprint ac) then 1 else 0)"
proof (cases "find_fingerprint p' fp' d")
  case None
  have "find (\<lambda>r. ir_id r = i) (db_issues d) = None"
    using new by (auto simp: issue_exists_def list_ex_iff find_None_iff)
  with None show ?thesis
    by (auto simp: counted_def issue_of_def issue_insert_def find_fingerprint_def find_append
        new_issue_row_def Let_def)
next
  case (Some f)
  obtain r where r: "issue_of d p' fp' = Some r" using issue_of_found [OF wf Some] by auto
  with Some none show ?thesis
    by (auto simp: counted_def issue_of_def issue_insert_def find_fingerprint_def find_append)
qed

text \<open>The refinement: one event more for the fingerprint of the plan, the invariant kept, and the
issue of the change is the one the fingerprint leads to; it is created exactly when there was none.\<close>

lemma Apply_refines:
  assumes run: "Apply plan s = (Inr c, t)" and q: "quiet (ses_env s)"
    and wf: "issues_consistent (ses_db s)"
  defines "P \<equiv> ProjectID_String (ev_projectID (ac_event (plan_event plan)))"
  defines "fp \<equiv> fingerprint_value (ac_fingerprint (plan_event plan))"
  shows "issues_consistent (ses_db t)"
    and "counted (ses_db t) p' fp' = counted (ses_db s) p' fp' + (if p' = P \<and> fp' = fp then 1 else 0)"
    and "change_created c \<longleftrightarrow> issue_of (ses_db s) P fp = None"
    and "\<exists>r. issue_of (ses_db t) P fp = Some r \<and> ir_id r = IssueID_String (change_issueID c)"
proof -
  have "issues_consistent (ses_db t) \<and>
    counted (ses_db t) p' fp' = counted (ses_db s) p' fp' + (if p' = P \<and> fp' = fp then 1 else 0) \<and>
    (change_created c \<longleftrightarrow> issue_of (ses_db s) P fp = None) \<and>
    (\<exists>r. issue_of (ses_db t) P fp = Some r \<and> ir_id r = IssueID_String (change_issueID c))"
    using Apply_cases [OF run q wf]
  proof
    assume "\<exists>f rowID. find_fingerprint (ProjectID_String (ev_projectID (ac_event (plan_event plan))))
        (fingerprint_value (ac_fingerprint (plan_event plan))) (ses_db s) = Some f \<and> \<not> change_created c \<and>
      IssueID_String (change_issueID c) = fr_issue_id f \<and>
      ses_db t = issue_update (plan_event plan) (fr_issue_id f) rowID (ses_db s)"
    then obtain f rowID where f: "find_fingerprint P fp (ses_db s) = Some f" "\<not> change_created c"
        "IssueID_String (change_issueID c) = fr_issue_id f"
      and t: "ses_db t = issue_update (plan_event plan) (fr_issue_id f) rowID (ses_db s)"
      unfolding P_def fp_def by blast
    show ?thesis
      using issue_of_found [OF wf f(1)] f counted_update [OF wf f(1)] issue_update_consistent [OF wf]
      by (auto simp: t issue_of_update)
  next
    assume "find_fingerprint (ProjectID_String (ev_projectID (ac_event (plan_event plan))))
        (fingerprint_value (ac_fingerprint (plan_event plan))) (ses_db s) = None \<and>
      (\<exists>rowID. issue_created (plan_event plan) c rowID (ses_db s) (ses_db t))"
    then obtain rowID v now now' prj where none: "find_fingerprint P fp (ses_db s) = None"
      and c: "change_created c" "hex_pattern 32 v" "IssueID_String (change_issueID c) = dashedUUID v"
        "\<not> issue_exists (dashedUUID v) (ses_db s)"
      and prj: "prj \<in> set (db_projects (ses_db s))" "prj_id prj = P"
        "\<forall>r\<in>set (db_issues (ses_db s)). ir_project_id r = P \<longrightarrow> ir_short_id r \<noteq> prj_next_issue_short_id prj"
      and t: "ses_db t = issue_insert (plan_event plan) (dashedUUID v) (prj_next_issue_short_id prj)
        rowID now now' (ses_db s)"
      unfolding issue_created_def P_def fp_def by blast
    have "find (\<lambda>r. ir_id r = dashedUUID v) (db_issues (ses_db s)) = None"
      using c(4) by (auto simp: issue_exists_def list_ex_iff find_None_iff)
    then have "\<exists>r. issue_of (ses_db t) P fp = Some r \<and> ir_id r = dashedUUID v"
      using none by (auto simp: t issue_of_def issue_insert_def find_fingerprint_def find_append
          new_issue_row_def Let_def P_def fp_def)
    moreover have "issue_of (ses_db s) P fp = None" using none by (simp add: issue_of_def)
    ultimately show ?thesis
      using issue_insert_consistent [OF wf c(2,4) prj(1)] counted_insert [OF wf c(4)] prj none c
      by (simp add: t P_def fp_def)
  qed
  then show "issues_consistent (ses_db t)"
    and "counted (ses_db t) p' fp' = counted (ses_db s) p' fp' + (if p' = P \<and> fp' = fp then 1 else 0)"
    and "change_created c \<longleftrightarrow> issue_of (ses_db s) P fp = None"
    and "\<exists>r. issue_of (ses_db t) P fp = Some r \<and> ir_id r = IssueID_String (change_issueID c)"
    by blast+
qed

end
