(* ===== verification/IngestEffects.thy ===== *)
theory IngestEffects
  imports IssueIndex
begin

text \<open>
  What an accepted submission leaves in the database: one event more in the journal, in the hourly
  statistics of its project and, when it creates issues, in the issue of its fingerprint, within the
  daily quotas that are enabled.
\<close>

subsection \<open>Usage of a day\<close>

definition stats_consistent :: "DB \<Rightarrow> bool" where
  "stats_consistent d \<longleftrightarrow>
     distinct (map (\<lambda>r. (st_project_id r, st_bucket_at r)) (db_project_hourly_stats d)) \<and>
     (\<forall>r\<in>set (db_project_hourly_stats d). \<exists>p\<in>set (db_projects d).
        prj_id p = st_project_id r \<and> prj_organization_id p = st_organization_id r)"

text \<open>The event names the organization its project belongs to, as \<open>ResolveProjectKey\<close> pairs them.\<close>

definition in_scope :: "CanonicalEvent \<Rightarrow> DB \<Rightarrow> bool" where
  "in_scope event d \<longleftrightarrow> (\<forall>p\<in>set (db_projects d). prj_id p = ProjectID_String (ev_projectID event) \<longrightarrow>
     prj_organization_id p = OrganizationID_String (ev_organizationID event))"

lemma sum_list_update_rows:
  fixes g :: "'r \<Rightarrow> int"
  assumes "distinct (map key rows)" and "r0 \<in> set rows" and "\<And>r. Q r \<longleftrightarrow> key r = key r0"
  shows "sum_list (map g (update_rows Q f rows)) = sum_list (map g rows) + (g (f r0) - g r0)"
  using assms(1,2)
proof (induction rows)
  case (Cons r rows)
  show ?case
  proof (cases "r = r0")
    case True
    with Cons.prems assms(3) have "update_rows Q f rows = rows"
      unfolding update_rows_def by (intro map_idI) (metis image_eqI image_set distinct.simps(2) list.simps(9))
    with True assms(3) show ?thesis by (simp add: update_rows_def)
  next
    case False
    with Cons.prems assms(3) have "\<not> Q r" by (auto simp: rev_image_eqI)
    with False Cons show ?thesis by (simp add: update_rows_def)
  qed
qed simp

lemma day_usage_sum:
  "day_usage P org t d = sum_list (map (\<lambda>r. if st_organization_id r = org \<and>
     trunc_day t \<le> st_bucket_at r \<and> st_bucket_at r < trunc_day t + day \<and> P r
     then st_event_count r else 0) (db_project_hourly_stats d))"
  unfolding day_usage_def by (simp add: sum_list_map_filter')

lemma trunc_hour_day: "trunc_day t \<le> trunc_hour t \<and> trunc_hour t < trunc_day t + day"
proof -
  let ?h = "t div hour"
  have "day = hour * 24" by (simp add: day_def)
  then have "t div day = ?h div 24" using zdiv_zmult2_eq [of 24 t hour] by (simp only:)
  then have "trunc_day t = (?h div 24 * 24) * hour" by (simp add: trunc_day_def day_def)
  moreover have "trunc_day t + day = (?h div 24 * 24 + 24) * hour"
    using calculation by (simp add: day_def algebra_simps)
  moreover have "x div 24 * 24 \<le> x" "x < x div 24 * 24 + 24" for x :: int by presburger+
  moreover have "0 < hour" by (simp add: duration_units)
  ultimately show ?thesis by (simp add: trunc_hour_def mult_right_mono)
qed

lemma upsert_stats_usage:
  assumes up: "upsert_stats row d = ok ((), d')" and wf: "stats_consistent d"
    and scope: "\<forall>p\<in>set (db_projects d). prj_id p = st_project_id row \<longrightarrow>
      prj_organization_id p = st_organization_id row"
    and Q: "\<And>r r'. st_project_id r = st_project_id r' \<Longrightarrow> Q r \<longleftrightarrow> Q r'"
  shows "stats_consistent d' \<and> day_usage Q org t d' = day_usage Q org t d +
    (if st_organization_id row = org \<and> trunc_day t \<le> st_bucket_at row \<and>
        st_bucket_at row < trunc_day t + day \<and> Q row then st_event_count row else 0)"
proof (cases "\<exists>r0\<in>set (db_project_hourly_stats d).
    st_project_id r0 = st_project_id row \<and> st_bucket_at r0 = st_bucket_at row")
  case True
  then obtain r0 where r0: "r0 \<in> set (db_project_hourly_stats d)"
    "st_project_id r0 = st_project_id row" "st_bucket_at r0 = st_bucket_at row" by blast
  let ?add = "\<lambda>r. r\<lparr>st_event_count := st_event_count r + st_event_count row,
     st_issue_event_count := st_issue_event_count r + st_issue_event_count row,
     st_transaction_event_count := st_transaction_event_count r + st_transaction_event_count row,
     st_log_event_count := st_log_event_count r + st_log_event_count row\<rparr>"
  let ?same = "\<lambda>r. st_project_id r = st_project_id row \<and> st_bucket_at r = st_bucket_at row"
  have d': "d' = d\<lparr>db_project_hourly_stats := update_rows ?same ?add (db_project_hourly_stats d)\<rparr>"
    using up True by (auto simp: upsert_stats_def Let_def rbind_eq_ok list_ex_iff split: if_split_asm)
  have dist: "distinct (map (\<lambda>r. (st_project_id r, st_bucket_at r)) (db_project_hourly_stats d))"
    using wf by (simp add: stats_consistent_def)
  have org: "st_organization_id r0 = st_organization_id row"
    using wf r0 scope by (metis stats_consistent_def)
  have "Q (?add r0) = Q r0" "Q r0 = Q row" by (rule Q; simp add: r0)+
  moreover have "stats_consistent d'"
    using wf unfolding d' stats_consistent_def by (simp add: map_update_rows ball_update_rows)
  ultimately show ?thesis
    using r0 org unfolding day_usage_sum d'
    by (simp add: sum_list_update_rows [OF dist r0(1)])
next
  case False
  then have d': "d' = d\<lparr>db_project_hourly_stats := db_project_hourly_stats d @ [row]\<rparr>"
    and prj: "project_exists (st_project_id row) d"
    using up by (auto simp: upsert_stats_def Let_def rbind_eq_ok list_ex_iff split: if_split_asm)
  have "stats_consistent d'"
    using wf False prj scope unfolding d' stats_consistent_def
    by (fastforce simp: project_exists_def list_ex_iff)
  then show ?thesis unfolding day_usage_sum d' by simp
qed

subsection \<open>What the steps leave alone\<close>

abbreviation same_index :: "DB \<Rightarrow> DB \<Rightarrow> bool" where
  "same_index d d' \<equiv> (db_issues d', db_issue_fingerprints d', db_projects d') =
     (db_issues d, db_issue_fingerprints d, db_projects d)"

abbreviation same_stats :: "DB \<Rightarrow> DB \<Rightarrow> bool" where
  "same_stats d d' \<equiv> db_project_hourly_stats d' = db_project_hourly_stats d"

definition project_scopes :: "DB \<Rightarrow> (string \<times> string) list" where
  "project_scopes d = map (\<lambda>p. (prj_id p, prj_organization_id p)) (db_projects d)"

abbreviation same_scopes :: "DB \<Rightarrow> DB \<Rightarrow> bool" where
  "same_scopes d d' \<equiv> (db_project_hourly_stats d', project_scopes d') =
     (db_project_hourly_stats d, project_scopes d)"

lemma statements_same_index:
  "obeys same_index insert_event" "obeys same_index upsert_stats" "obeys same_index upsert_tag"
  "obeys same_index insert_transaction" "obeys same_index insert_intent"
  by (auto simp: obeys_def statement_defs Let_def rbind_eq_ok split: if_split_asm)

lemma statements_same_scopes:
  "obeys same_scopes insert_event" "obeys same_scopes upsert_tag" "obeys same_scopes insert_transaction"
  "obeys same_scopes (update_issue i t e r)" "obeys same_scopes take_short_id"
  "obeys same_scopes insert_issue" "obeys same_scopes insert_fingerprint"
  "obeys same_scopes delete_issue" "obeys same_scopes insert_intent"
  by (auto simp: obeys_def statement_defs Let_def rbind_eq_ok project_scopes_def map_update_rows
      split: if_split_asm)

lemma evolvesD_quiet:
  "evolves (db_evolves R) m \<Longrightarrow> m s = (r, t) \<Longrightarrow> quiet (ses_env s) \<Longrightarrow> R (ses_db s) (ses_db t)"
  by (drule evolvesD) (auto simp: db_evolves_def)

lemmas Append_index = evolvesD_quiet [OF evolves_Append [OF preorder_same statements_same_index(1-4)]]
lemmas Enqueue_index = evolvesD_quiet [OF evolves_Enqueue [OF preorder_same statements_same_index(5)]]
lemmas Apply_scopes = evolvesD_quiet [OF evolves_Apply [OF preorder_same statements_same_scopes(4-8)]]
lemmas Enqueue_scopes = evolvesD_quiet [OF evolves_Enqueue [OF preorder_same statements_same_scopes(9)]]

lemma same_index_consistent: "same_index d d' \<Longrightarrow> issues_consistent d' = issues_consistent d"
  by (simp add: issues_consistent_def)

lemma same_index_counted: "same_index d d' \<Longrightarrow> counted d' p fp = counted d p fp"
  by (auto simp: counted_def issue_of_def find_fingerprint_def split: option.splits)

lemma stats_consistent_scopes:
  "stats_consistent d \<longleftrightarrow>
     distinct (map (\<lambda>r. (st_project_id r, st_bucket_at r)) (db_project_hourly_stats d)) \<and>
     (\<forall>r\<in>set (db_project_hourly_stats d). (st_project_id r, st_organization_id r) \<in> set (project_scopes d))"
  unfolding stats_consistent_def project_scopes_def by (auto simp: image_iff) metis+

lemma in_scope_scopes:
  "in_scope ev d \<longleftrightarrow> (\<forall>x\<in>set (project_scopes d). fst x = ProjectID_String (ev_projectID ev) \<longrightarrow>
     snd x = OrganizationID_String (ev_organizationID ev))"
  by (auto simp: in_scope_def project_scopes_def)

lemma same_scopes_facts:
  assumes "same_scopes d d'"
  shows "stats_consistent d' = stats_consistent d" "in_scope ev d' = in_scope ev d"
    "day_usage Q org t d' = day_usage Q org t d"
  using assms by (auto simp: stats_consistent_scopes in_scope_scopes day_usage_def)

subsection \<open>The append\<close>

text \<open>Whether an event counts in the usage of an organization's day, and in the project \<open>p\<close> of it.\<close>

definition counts_in :: "(string \<Rightarrow> bool) \<Rightarrow> string \<Rightarrow> gotime \<Rightarrow> CanonicalEvent \<Rightarrow> bool" where
  "counts_in Q org t ev \<longleftrightarrow> OrganizationID_String (ev_organizationID ev) = org \<and>
     trunc_day t = trunc_day (timestamptz (TimePoint_Time (ev_receivedAt ev))) \<and>
     Q (ProjectID_String (ev_projectID ev))"

lemma same_day_iff:
  "trunc_day t \<le> trunc_hour u \<and> trunc_hour u < trunc_day t + day \<longleftrightarrow> trunc_day t = trunc_day u"
proof
  have d: "0 < day" by (simp add: day_def duration_units)
  assume b: "trunc_day t \<le> trunc_hour u \<and> trunc_hour u < trunc_day t + day"
  have "trunc_day t = (t div day) * day" "trunc_day u = (u div day) * day"
    by (simp_all add: trunc_day_def)
  with b trunc_hour_day [of u] have "(t div day) * day < (u div day + 1) * day"
    "(u div day) * day < (t div day + 1) * day"
    by (simp_all add: algebra_simps)
  then have "t div day < u div day + 1" "u div day < t div day + 1"
    using d by (metis mult_less_cancel_right_pos)+
  then show "trunc_day t = trunc_day u" by (simp add: trunc_day_def)
qed (use trunc_hour_day [of u] in simp)

lemma upsertProjectHourlyStats_usage:
  assumes run: "upsertProjectHourlyStats ev s = (Inr u, t)" and q: "quiet (ses_env s)"
    and wf: "stats_consistent (ses_db s)" and scope: "in_scope ev (ses_db s)"
  shows "ses_env t = ses_env s \<and> stats_consistent (ses_db t) \<and>
    project_scopes (ses_db t) = project_scopes (ses_db s) \<and>
    day_usage (\<lambda>r. Q (st_project_id r)) org tm (ses_db t) =
    day_usage (\<lambda>r. Q (st_project_id r)) org tm (ses_db s) + (if counts_in Q org tm ev then 1 else 0)"
proof -
  let ?row = "\<lparr>st_organization_id = OrganizationID_String (ev_organizationID ev),
      st_project_id = ProjectID_String (ev_projectID ev),
      st_bucket_at = trunc_hour (timestamptz (TimePoint_Time (ev_receivedAt ev))),
      st_event_count = 1,
      st_issue_event_count = boolInt (CanonicalEvent_CreatesIssue ev),
      st_transaction_event_count = boolInt (ev_kind ev = EventKindTransaction), st_log_event_count = 0\<rparr>"
  obtain d where up: "upsert_stats ?row (ses_db s) = ok ((), d)" and t: "t = (advance s)\<lparr>ses_db := d\<rparr>"
    using statement_okD [OF run [unfolded upsertProjectHourlyStats_def]] q by auto
  have "db_projects d = db_projects (ses_db s)"
    using up by (auto simp: upsert_stats_def Let_def rbind_eq_ok split: if_split_asm)
  moreover have "stats_consistent d \<and> day_usage (\<lambda>r. Q (st_project_id r)) org tm d =
      day_usage (\<lambda>r. Q (st_project_id r)) org tm (ses_db s) +
      (if st_organization_id ?row = org \<and> trunc_day tm \<le> st_bucket_at ?row \<and>
        st_bucket_at ?row < trunc_day tm + day \<and> Q (st_project_id ?row) then st_event_count ?row else 0)"
    using scope by (intro upsert_stats_usage [OF up wf]) (auto simp: in_scope_def)
  ultimately show ?thesis
    using same_day_iff [of tm "timestamptz (TimePoint_Time (ev_receivedAt ev))"] t
    by (auto simp: counts_in_def project_scopes_def)
qed

lemma Append_usage:
  assumes run: "Append ac s = (Inr a, t)" and new: "\<not> append_duplicate a" and q: "quiet (ses_env s)"
    and wf: "stats_consistent (ses_db s)" and scope: "in_scope (ac_event ac) (ses_db s)"
  shows "stats_consistent (ses_db t) \<and> project_scopes (ses_db t) = project_scopes (ses_db s) \<and>
    day_usage (\<lambda>r. Q (st_project_id r)) org tm (ses_db t) =
    day_usage (\<lambda>r. Q (st_project_id r)) org tm (ses_db s) +
      (if counts_in Q org tm (ac_event ac) then 1 else 0)"
proof -
  obtain i payload n d s1 where s1: "ses_env s1 = ses_env s" "ses_db s1 = d"
    and ins: "insert_event (event_row (dashedUUID i) payload ac) (ses_db s) = ok (n, d)"
    and rest: "append_rest (dashedUUID i) (ac_event ac) s1 = (Inr a, t)"
    using Append_okD [OF run q] new by (auto simp: NewDuplicateEvent_def split: if_split_asm)
  have d: "same_scopes (ses_db s) d"
    using statements_same_scopes(1) ins by (auto simp: obeys_def)
  obtain s2 u where s2: "upsertProjectHourlyStats (ac_event ac) s1 = (Inr u, s2)"
    and rest2: "abind (insertEventTags (dashedUUID i) (ac_event ac)) (\<lambda>_.
      abind (insertTransactionEvent (dashedUUID i) (ac_event ac)) (\<lambda>_. areturn NewAppendedEvent)) s2 = (Inr a, t)"
    using rest unfolding append_rest_def by (auto simp: abind_ok)
  have q1: "quiet (ses_env s1)" using s1 q by simp
  have c: "stats_consistent (ses_db s1)" "in_scope (ac_event ac) (ses_db s1)"
    using wf scope same_scopes_facts [OF d] s1 by auto
  note st = upsertProjectHourlyStats_usage [OF s2 q1 c]
  have "evolves (db_evolves same_scopes) (abind (insertEventTags (dashedUUID i) (ac_event ac)) (\<lambda>_.
      abind (insertTransactionEvent (dashedUUID i) (ac_event ac)) (\<lambda>_. areturn NewAppendedEvent)))"
    unfolding insertEventTags_def insertTransactionEvent_def Let_def
    using statements_same_scopes(2,3) by (intro store_intros preorder_same)
  from evolvesD_quiet [OF this rest2] st q1 have t: "same_scopes (ses_db s2) (ses_db t)" by simp
  show ?thesis
    using st same_scopes_facts [OF t] same_scopes_facts [OF d] s1 t d by auto
qed

subsection \<open>Quotas\<close>

text \<open>
  No enabled policy is exceeded on any day. A limit is an \<open>integer\<close> column, so below \<open>2^31\<close>.
\<close>

definition quota_kept :: "DB \<Rightarrow> bool" where
  "quota_kept d \<longleftrightarrow>
     (\<forall>org row. find (\<lambda>r. qr_organization_id r = org) (db_organization_quota_policies d) = Some row \<longrightarrow>
        qr_enabled row \<longrightarrow> qr_daily_event_limit row < 2 ^ 31 \<and>
        (\<forall>t. day_usage (\<lambda>_. True) org t d \<le> qr_daily_event_limit row)) \<and>
     (\<forall>org p row. find (\<lambda>r. qr_organization_id r = org \<and> qr_project_id r = p)
          (db_project_quota_policies d) = Some row \<longrightarrow>
        qr_enabled row \<longrightarrow> qr_daily_event_limit row < 2 ^ 31 \<and>
        (\<forall>t. day_usage (\<lambda>r. st_project_id r = p) org t d \<le> qr_daily_event_limit row))"

abbreviation same_policies :: "DB \<Rightarrow> DB \<Rightarrow> bool" where
  "same_policies d d' \<equiv> (db_organization_quota_policies d', db_project_quota_policies d') =
     (db_organization_quota_policies d, db_project_quota_policies d)"

lemma statements_same_policies:
  "obeys same_policies insert_event" "obeys same_policies upsert_stats" "obeys same_policies upsert_tag"
  "obeys same_policies insert_transaction" "obeys same_policies (update_issue i t e r)"
  "obeys same_policies take_short_id" "obeys same_policies insert_issue"
  "obeys same_policies insert_fingerprint" "obeys same_policies delete_issue"
  "obeys same_policies insert_intent"
  by (auto simp: obeys_def statement_defs Let_def rbind_eq_ok split: if_split_asm)

lemmas Append_policies = evolvesD_quiet [OF evolves_Append [OF preorder_same statements_same_policies(1-4)]]
lemmas Apply_policies = evolvesD_quiet [OF evolves_Apply [OF preorder_same statements_same_policies(5-9)]]
lemmas Enqueue_policies = evolvesD_quiet [OF evolves_Enqueue [OF preorder_same statements_same_policies(10)]]

lemma day_usage_trunc: "trunc_day t = trunc_day u \<Longrightarrow> day_usage P org t d = day_usage P org u d"
  by (simp add: day_usage_def)

text \<open>An enabled policy that is kept on \<open>d\<close>, as the snapshot of a day shows it.\<close>

definition within_limits :: "quotaSnapshot \<Rightarrow> int \<Rightarrow> bool" where
  "within_limits snap n \<longleftrightarrow>
     (qs_organizationEnabled snap \<longrightarrow> qs_organizationUsed snap + n \<le> qs_organizationLimit snap) \<and>
     (qs_projectEnabled snap \<longrightarrow> qs_projectDailyUsed snap + n \<le> qs_projectDailyLimit snap)"

lemma quota_kept_snapshot:
  assumes "quota_kept d" and "snap = select_quota org p t d"
  shows "within_limits snap 0 \<and> (qs_organizationEnabled snap \<longrightarrow> qs_organizationLimit snap < 2 ^ 31) \<and>
    (qs_projectEnabled snap \<longrightarrow> qs_projectDailyLimit snap < 2 ^ 31)"
  using assms by (auto simp: quota_kept_def select_quota_def within_limits_def Let_def split: option.splits)

lemma quotaExceeded_exact:
  assumes "bigint used" and "used \<le> limit" and "limit < 2 ^ 31" and "0 \<le> n" and "n < 2 ^ 31"
  shows "quotaExceeded True used limit n \<longleftrightarrow> limit < used + n"
  using assms by (simp add: quotaExceeded_def bigint_def int64_id)

text \<open>A decision that lets \<open>n\<close> events in was taken with room for them.\<close>

lemma not_exceeded_room:
  assumes kept: "quota_kept d" and snap: "snap = select_quota org p t d"
    and big: "bigint (qs_projectDailyUsed snap)" "bigint (qs_organizationUsed snap)"
    and n: "0 \<le> n" "n < 2 ^ 31"
    and allowed: "\<not> quotaExceeded (qs_organizationEnabled snap) (qs_organizationUsed snap) (qs_organizationLimit snap) n"
      "\<not> quotaExceeded (qs_projectEnabled snap) (qs_projectDailyUsed snap) (qs_projectDailyLimit snap) n"
  shows "within_limits snap n"
  using quota_kept_snapshot [OF kept snap] quotaExceeded_exact [OF big(1) _ _ n]
    quotaExceeded_exact [OF big(2) _ _ n] allowed
  by (auto simp: within_limits_def not_less)

lemma quota_kept_room:
  assumes kept: "quota_kept d" and pol: "same_policies d d'"
    and use: "\<And>Q org t. day_usage (\<lambda>r. Q (st_project_id r)) org t d' =
      day_usage (\<lambda>r. Q (st_project_id r)) org t d + (if org = og \<and> trunc_day t = trunc_day tm \<and> Q pr then n else 0)"
    and room: "within_limits (select_quota og pr tm d) n"
  shows "quota_kept d'"
proof -
  have org: "day_usage (\<lambda>_. True) org t d' \<le> qr_daily_event_limit row"
    if "find (\<lambda>r. qr_organization_id r = org) (db_organization_quota_policies d) = Some row" "qr_enabled row"
    for org row t
  proof (cases "org = og \<and> trunc_day t = trunc_day tm")
    case True
    then have "day_usage (\<lambda>_. True) org t d = day_usage (\<lambda>_. True) og tm d"
      by (simp add: day_usage_trunc [of t tm])
    with True use [of "\<lambda>_. True" org t] that room show ?thesis
      by (simp add: within_limits_def select_quota_def Let_def)
  qed (use use [of "\<lambda>_. True" org t] kept that in \<open>auto simp: quota_kept_def\<close>)
  have prj: "day_usage (\<lambda>r. st_project_id r = p) org t d' \<le> qr_daily_event_limit row"
    if "find (\<lambda>r. qr_organization_id r = org \<and> qr_project_id r = p) (db_project_quota_policies d) = Some row"
      "qr_enabled row" for org p row t
  proof (cases "org = og \<and> trunc_day t = trunc_day tm \<and> p = pr")
    case True
    then have "day_usage (\<lambda>r. st_project_id r = p) org t d = day_usage (\<lambda>r. st_project_id r = pr) og tm d"
      by (simp add: day_usage_trunc [of t tm])
    with True use [of "\<lambda>x. x = p" org t] that room show ?thesis
      by (simp add: within_limits_def select_quota_def Let_def)
  qed (use use [of "\<lambda>x. x = p" org t] kept that in \<open>auto simp: quota_kept_def\<close>)
  show ?thesis using kept pol org prj by (auto simp: quota_kept_def)
qed

lemma quota_kept_step:
  assumes kept: "quota_kept d" and pol: "same_policies d d'"
    and use: "\<And>Q org t. day_usage (\<lambda>r. Q (st_project_id r)) org t d' =
      day_usage (\<lambda>r. Q (st_project_id r)) org t d + (if counts_in Q org t ev then 1 else 0)"
    and run: "CheckQuota ev s = (Inr q, s')" "quota_allowed q" "quiet (ses_env s)" "ses_db s = d"
  shows "quota_kept d'"
proof (rule quota_kept_room [OF kept pol])
  let ?O = "OrganizationID_String (ev_organizationID ev)"
  let ?P = "ProjectID_String (ev_projectID ev)"
  let ?T = "timestamptz (TimePoint_Time (ev_receivedAt ev))"
  show "day_usage (\<lambda>r. Q (st_project_id r)) org t d' = day_usage (\<lambda>r. Q (st_project_id r)) org t d +
      (if org = ?O \<and> trunc_day t = trunc_day ?T \<and> Q ?P then 1 else 0)" for Q org t
    using use [of Q org t] by (auto simp: counts_in_def)
  obtain snap where snap: "snap = select_quota ?O ?P ?T d" "q = quotaDecision snap"
    and big: "bigint (qs_projectDailyUsed snap)" "bigint (qs_organizationUsed snap)"
    using CheckQuota_ok [OF run(3,1)] run(4) by auto
  have "\<not> quotaExceeded (qs_organizationEnabled snap) (qs_organizationUsed snap) (qs_organizationLimit snap) 1"
      "\<not> quotaExceeded (qs_projectEnabled snap) (qs_projectDailyUsed snap) (qs_projectDailyLimit snap) 1"
    using run(2) unfolding snap(2) by (auto simp: quotaDecision_def NewQuotaRejected_def split: if_split_asm)
  with not_exceeded_room [OF kept snap(1) big, of 1] show "within_limits (select_quota ?O ?P ?T d) 1"
    by (simp add: snap(1))
qed

subsection \<open>An accepted submission\<close>

definition store_consistent :: "DB \<Rightarrow> bool" where
  "store_consistent d \<longleftrightarrow> issues_consistent d \<and> stats_consistent d \<and> quota_kept d"

lemma txStore_ports:
  "port_Exists txStore = Exists" "port_CheckQuota txStore = CheckQuota" "port_Append txStore = Append"
  "port_Apply txStore = Apply" "port_EnqueueIssueOpened txStore = EnqueueIssueOpened"
  by (simp_all add: txStore_def)

lemma Enqueue_effects:
  assumes "EnqueueIssueOpened ac c s = (Inr n, t)" and q: "quiet (ses_env s)"
  shows "same_index (ses_db s) (ses_db t) \<and> same_scopes (ses_db s) (ses_db t) \<and>
    same_policies (ses_db s) (ses_db t)"
  using Enqueue_index [OF assms] Enqueue_scopes [OF assms] Enqueue_policies [OF assms] by simp

lemma indexed_effects:
  assumes "postgres.indexed ac u d' r" and q: "session_inv u" and wf: "issues_consistent (ses_db u)"
  shows "issues_consistent d' \<and> same_scopes (ses_db u) d' \<and> same_policies (ses_db u) d' \<and>
    counted d' p fp = counted (ses_db u) p fp +
      (if p = ProjectID_String (ev_projectID (ac_event ac)) \<and> fp = fingerprint_value (ac_fingerprint ac)
       then 1 else 0)"
proof -
  obtain c v where c: "Apply \<lparr>plan_event = ac\<rparr> u = (Inr c, v)" "session_inv v"
    and rest: "if change_created c
      then \<exists>n w. EnqueueIssueOpened ac c v = (Inr n, w) \<and> d' = ses_db w else d' = ses_db v"
    using assms(1) unfolding postgres.indexed_def txStore_ports by blast
  have qu: "quiet (ses_env u)" "quiet (ses_env v)" using q c(2) by (auto simp: reliable_def)
  note ap = Apply_refines(1,2) [OF c(1) qu(1) wf] Apply_scopes [OF c(1) qu(1)] Apply_policies [OF c(1) qu(1)]
  show ?thesis
  proof (cases "change_created c")
    case True
    then obtain n w where w: "EnqueueIssueOpened ac c v = (Inr n, w)" "d' = ses_db w" using rest by auto
    note en = Enqueue_effects [OF w(1) qu(2)]
    show ?thesis
      using ap(1) ap(2) [of p fp] ap(3,4) en w(2) same_index_consistent [of "ses_db v" d']
        same_index_counted [of "ses_db v" d' p fp] by simp
  qed (use rest ap(1) ap(2) [of p fp] ap(3,4) in simp)
qed

lemma accepted_effects:
  assumes acc: "postgres.accepted_run TYPE('w) ac d d' r" and wf: "store_consistent d"
    and scope: "in_scope (ac_event ac) d"
  shows "store_consistent d' \<and> project_scopes d' = project_scopes d \<and>
    counted d' p fp = counted d p fp + (if CanonicalEvent_CreatesIssue (ac_event ac) \<and>
       p = ProjectID_String (ev_projectID (ac_event ac)) \<and> fp = fingerprint_value (ac_fingerprint ac)
       then 1 else 0)"
    and "day_usage (\<lambda>r. Q (st_project_id r)) org tm d' =
      day_usage (\<lambda>r. Q (st_project_id r)) org tm d + (if counts_in Q org tm (ac_event ac) then 1 else 0)"
proof -
  obtain u0 u1 u2 u3 :: "'w Session" and q a where u0: "session_inv u0" "ses_db u0 = d" "CheckQuota (ac_event ac) u0 = (Inr q, u1)"
      "quota_allowed q"
    and u1: "session_inv u1" "ses_db u1 = d" "Append ac u1 = (Inr a, u2)" "\<not> append_duplicate a"
    and u3: "session_inv u3" "ses_db u3 = ses_db u2"
    and rest: "if CanonicalEvent_CreatesIssue (ac_event ac) then postgres.indexed ac u3 d' r
      else r = nonIssueReceipt ac \<and> d' = ses_db u3"
    using acc unfolding postgres.accepted_run_def txStore_ports by blast
  have qu: "quiet (ses_env u0)" "quiet (ses_env u1)" using u0 u1 by (auto simp: reliable_def)
  have wf': "issues_consistent d" "stats_consistent d" "quota_kept d"
    using wf by (auto simp: store_consistent_def)
  note app = Append_usage [OF u1(3,4) qu(2)] Append_index [OF u1(3) qu(2)] Append_policies [OF u1(3) qu(2)]
  have i3: "issues_consistent (ses_db u3)" "\<And>p fp. counted (ses_db u3) p fp = counted d p fp"
    using app(2) wf' u1 u3 same_index_consistent [of d "ses_db u2"] same_index_counted [of d "ses_db u2"]
    by auto
  have fin: "issues_consistent d' \<and> same_scopes (ses_db u3) d' \<and> same_policies (ses_db u3) d' \<and>
    counted d' p fp = counted (ses_db u3) p fp + (if CanonicalEvent_CreatesIssue (ac_event ac) \<and>
       p = ProjectID_String (ev_projectID (ac_event ac)) \<and> fp = fingerprint_value (ac_fingerprint ac)
       then 1 else 0)" for p fp
    using rest indexed_effects [OF _ u3(1) i3(1), of ac d' r p fp] i3(1) by (auto split: if_split_asm)
  have sc: "same_scopes (ses_db u3) d'" using fin by blast
  have use: "day_usage (\<lambda>r. Q (st_project_id r)) org tm d' =
      day_usage (\<lambda>r. Q (st_project_id r)) org tm d + (if counts_in Q org tm (ac_event ac) then 1 else 0)"
    for Q org tm
    using app(1) [of Q org tm] same_scopes_facts(3) [OF sc] u1 u3 wf' scope by simp
  have "quota_kept d'"
    using fin app(3) u1 u3 by (intro quota_kept_step [OF wf'(3) _ use u0(3,4) qu(1) u0(2)]) simp
  moreover have "stats_consistent d'" "project_scopes d' = project_scopes d"
    using app(1) same_scopes_facts(1) [OF sc] sc u1 u3 wf' scope by auto
  ultimately show "store_consistent d' \<and> project_scopes d' = project_scopes d \<and>
    counted d' p fp = counted d p fp + (if CanonicalEvent_CreatesIssue (ac_event ac) \<and>
       p = ProjectID_String (ev_projectID (ac_event ac)) \<and> fp = fingerprint_value (ac_fingerprint ac)
       then 1 else 0)"
    using fin [of p fp] i3 by (simp add: store_consistent_def)
  show "day_usage (\<lambda>r. Q (st_project_id r)) org tm d' =
      day_usage (\<lambda>r. Q (st_project_id r)) org tm d + (if counts_in Q org tm (ac_event ac) then 1 else 0)"
    by (rule use)
qed

subsection \<open>One submission and a history of them\<close>

text \<open>The project and fingerprint columns that an event is indexed under.\<close>

definition issue_key :: "CanonicalEvent \<Rightarrow> string \<times> string" where
  "issue_key event =
     (ProjectID_String (ev_projectID event), sha256_hex (canonical_text event))"

definition accepted_outcome :: "IngestReceipt result \<Rightarrow> bool" where
  "accepted_outcome x = (case x of Inl e \<Rightarrow> False | Inr r \<Rightarrow> accepted_receipt r)"

lemma in_scope_same: "project_scopes d' = project_scopes d \<Longrightarrow> in_scope ev d' = in_scope ev d"
  by (simp add: in_scope_scopes)

lemma ingest_effects:
  assumes ev: "made_event (accepted_of event)" and eff: "outside_effect session_step ses_db effect"
    and s: "session_inv s" and wf: "store_consistent (ses_db s)" and scope: "in_scope event (ses_db s)"
    and run: "ingestCanonicalEvent (NewIngestCommand event) Run effect s = (x, t)"
  shows "store_consistent (ses_db t)" and "project_scopes (ses_db t) = project_scopes (ses_db s)"
    and "counted (ses_db t) p fp = counted (ses_db s) p fp +
      (if accepted_outcome x \<and> CanonicalEvent_CreatesIssue event \<and> issue_key event = (p, fp) then 1 else 0)"
    and "day_usage (\<lambda>r. Q (st_project_id r)) org tm (ses_db t) =
      day_usage (\<lambda>r. Q (st_project_id r)) org tm (ses_db s) +
      (if accepted_outcome x \<and> counts_in Q org tm event then 1 else 0)"
proof -
  have "ses_db t = ses_db s \<and> \<not> accepted_outcome x \<or>
    accepted_outcome x \<and> (\<exists>r. postgres.accepted_run TYPE('a) (accepted_of event) (ses_db s) (ses_db t) r)"
  proof (cases x)
    case (Inl e)
    with postgres.ingest_error [OF eff s run [unfolded Inl]] show ?thesis
      by (simp add: accepted_outcome_def)
  next
    case (Inr r)
    with postgres.ingest_ok [OF ev eff s run [unfolded Inr]] postgres.accepted_run_keys [OF _ ev]
    show ?thesis by (auto simp: accepted_outcome_def postgres.receipt_kinds)
  qed
  then have "store_consistent (ses_db t) \<and> project_scopes (ses_db t) = project_scopes (ses_db s) \<and>
    counted (ses_db t) p fp = counted (ses_db s) p fp +
      (if accepted_outcome x \<and> CanonicalEvent_CreatesIssue event \<and> issue_key event = (p, fp) then 1 else 0) \<and>
    day_usage (\<lambda>r. Q (st_project_id r)) org tm (ses_db t) =
      day_usage (\<lambda>r. Q (st_project_id r)) org tm (ses_db s) +
      (if accepted_outcome x \<and> counts_in Q org tm event then 1 else 0)"
  proof (elim disjE conjE exE)
    fix r assume out: "accepted_outcome x"
      and acc: "postgres.accepted_run TYPE('a) (accepted_of event) (ses_db s) (ses_db t) r"
    have sc: "in_scope (ac_event (accepted_of event)) (ses_db s)" using scope by simp
    show ?thesis
      using accepted_effects(1) [OF acc wf sc, of p fp] accepted_effects(2) [OF acc wf sc, of Q org tm] out
      by (auto simp: issue_key_def accepted_of_def)
  qed (use wf in simp)
  then show "store_consistent (ses_db t)" "project_scopes (ses_db t) = project_scopes (ses_db s)"
    "counted (ses_db t) p fp = counted (ses_db s) p fp +
      (if accepted_outcome x \<and> CanonicalEvent_CreatesIssue event \<and> issue_key event = (p, fp) then 1 else 0)"
    "day_usage (\<lambda>r. Q (st_project_id r)) org tm (ses_db t) =
      day_usage (\<lambda>r. Q (st_project_id r)) org tm (ses_db s) +
      (if accepted_outcome x \<and> counts_in Q org tm event then 1 else 0)"
    by blast+
qed

definition accepted_events ::
    "(CanonicalEvent \<times> IngestReceipt result) list \<Rightarrow> CanonicalEvent list" where
  "accepted_events outcomes = map fst (filter (\<lambda>(event, x). accepted_outcome x) outcomes)"

lemma history_effects:
  assumes "\<forall>ev\<in>set events. made_event (accepted_of ev) \<and> in_scope ev (ses_db s)"
    and eff: "outside_effect session_step ses_db effect"
    and "session_inv s" and "store_consistent (ses_db s)"
    and "ingest_history Run effect events s = (outcomes, t)"
  shows "store_consistent (ses_db t) \<and>
    counted (ses_db t) p fp = counted (ses_db s) p fp +
      int (length (filter (\<lambda>ev. CanonicalEvent_CreatesIssue ev \<and> issue_key ev = (p, fp))
        (accepted_events outcomes))) \<and>
    day_usage (\<lambda>r. Q (st_project_id r)) org tm (ses_db t) =
      day_usage (\<lambda>r. Q (st_project_id r)) org tm (ses_db s) +
      int (length (filter (counts_in Q org tm) (accepted_events outcomes)))"
  using assms(1,3,4,5)
proof (induction events arbitrary: s outcomes)
  case Nil
  then show ?case by (simp add: accepted_events_def)
next
  case (Cons event events)
  obtain x u where x: "ingestCanonicalEvent (NewIngestCommand event) Run effect s = (x, u)" by fastforce
  obtain xs where xs: "ingest_history Run effect events u = (xs, t)" and outs: "outcomes = (event, x) # xs"
    using Cons.prems(4) x by (auto simp: Let_def split: prod.splits)
  have ev: "made_event (accepted_of event)" "in_scope event (ses_db s)" using Cons.prems by auto
  note now = ingest_effects [OF ev(1) eff Cons.prems(2,3) ev(2) x]
  have u: "session_inv u" using keepsD [OF postgres.ingest_inv [OF eff] x Cons.prems(2)] .
  have rest: "\<forall>ev\<in>set events. made_event (accepted_of ev) \<and> in_scope ev (ses_db u)"
    using Cons.prems(1) in_scope_same [OF now(2)] by simp
  note ih = Cons.IH [OF rest u now(1) xs]
  show ?case
    using ih now(3) [of p fp] now(4) [of Q org tm] by (simp add: outs accepted_events_def)
qed

subsection \<open>An example\<close>

text \<open>A database with one organization, one project and an enabled quota, an event of the project,
and a session in which nothing fails but the statements at the steps in \<open>faults\<close>.\<close>

definition example_env :: "nat set \<Rightarrow> Env" where
  "example_env faults = \<lparr>env_others = \<lambda>_ d. d,
     env_fault = \<lambda>n. if n \<in> faults then Some (GoErr ''connection reset'') else None,
     env_commit = \<lambda>_. Committed, env_random = \<lambda>n. Some (\<lambda>_. char_of n), env_now = \<lambda>_. 0,
     env_range = \<lambda>_ _. []\<rparr>"

definition example_db :: DB where
  "example_db = \<lparr>db_organizations =
       [\<lparr>org_id = dashedUUID (replicate 32 CHR ''a''), org_accepting_events = True\<rparr>],
     db_projects = [\<lparr>prj_id = dashedUUID (replicate 32 CHR ''b''),
       prj_organization_id = dashedUUID (replicate 32 CHR ''a''), prj_ingest_ref = ''1'',
       prj_accepting_events = True, prj_scrub_ip_addresses = True, prj_next_issue_short_id = 1\<rparr>],
     db_project_keys = [], db_events = [], db_issues = [], db_issue_fingerprints = [],
     db_event_tags = [], db_transaction_events = [], db_project_hourly_stats = [],
     db_organization_quota_policies = [\<lparr>qr_organization_id = dashedUUID (replicate 32 CHR ''a''),
       qr_project_id = [], qr_daily_event_limit = 2, qr_enabled = True\<rparr>],
     db_project_quota_policies = [], db_rate_limit_policies = [], db_rate_limit_buckets = [],
     db_alert_rules = [], db_alert_rule_actions = [], db_destinations = [],
     db_notification_intents = [], db_operators = [], db_project_members = [], db_team_projects = [],
     db_issue_transitions = [], db_issue_comments = [], db_audit_events = [], db_monitors = [],
     db_monitor_checks = [], db_monitor_incidents = [], db_user_reports = [], db_log_records = []\<rparr>"

definition example_session :: "nat set \<Rightarrow> unit Session" where
  "example_session faults = \<lparr>ses_env = example_env faults, ses_tick = 0, ses_db = example_db,
     ses_base = example_db, ses_aborted = False, ses_world = ()\<rparr>"

definition example_event :: CanonicalEvent where
  "example_event = \<lparr>ev_organizationID = OrganizationID (replicate 32 CHR ''a''),
      ev_projectID = ProjectID (replicate 32 CHR ''b''),
      ev_eventID = EventID (replicate 32 CHR ''c''),
      ev_occurredAt = TimePoint 5000, ev_receivedAt = TimePoint 6000,
      ev_kind = ''error'', ev_level = ''error'', ev_title = EventTitle ''boom'',
      ev_platform = ''go'', ev_release = ''1.0'', ev_environment = [],
      ev_tags = Map.empty, ev_defaultGroupingParts = [''boom''], ev_explicitFingerprint = [],
      ev_attachments = [], ev_jsStacktrace = [], ev_nativeModules = [], ev_nativeFrames = [],
      ev_transaction = zero_transaction, ev_hasTransaction = False\<rparr>"

lemma example_hex: "c \<in> set ''abc'' \<Longrightarrow> hex_pattern 32 (replicate 32 c)"
  by (auto simp: hex_pattern_def list_all_iff hex_byte_def)

lemma example_session_inv [simp]: "reliable (ses_env (example_session faults))"
  by (simp add: example_session_def example_env_def reliable_def quiet_def)

lemma example_made [simp]: "made_event (accepted_of example_event)"
  using example_hex by (simp add: made_event_def made_ids_def example_event_def accepted_of_def)

lemma example_in_scope [simp]: "in_scope example_event (ses_db (example_session faults))"
  by (simp add: in_scope_def example_session_def example_db_def example_event_def
      OrganizationID_String_def ProjectID_String_def)

lemma example_consistent [simp]: "store_consistent (ses_db (example_session faults))"
  by (auto simp: store_consistent_def issues_consistent_def stats_consistent_def quota_kept_def
      day_usage_def example_session_def example_db_def)

lemma example_outside [simp]: "outside_effect session_step ses_db noAppendEffect"
  by (rule postgres.outside_noAppendEffect)

subsection \<open>The example session accepts the example event\<close>

text \<open>Every statement of the submission, evaluated in the session without faults.\<close>

lemma example_statement:
  "\<not> ses_aborted s \<Longrightarrow> ses_env s = example_env {} \<Longrightarrow> statement f s =
   (case f (ses_db s) of Inl e \<Rightarrow> (Inl e, s\<lparr>ses_tick := Suc (ses_tick s), ses_aborted := True\<rparr>)
    | Inr (v, d) \<Rightarrow> (Inr v, s\<lparr>ses_tick := Suc (ses_tick s), ses_db := d\<rparr>))"
  by (simp add: statement_def example_env_def advance_def split: sum.splits)

lemma example_advance:
  "ses_env s = example_env X \<Longrightarrow> advance s = s\<lparr>ses_tick := Suc (ses_tick s)\<rparr>"
  by (simp add: advance_def example_env_def)

lemma example_env_simps:
  "env_random (example_env X) n = Some (\<lambda>_. char_of n)" "env_range (example_env X) n m = []"
  "env_now (example_env X) n = 0" "env_commit (example_env X) n = Committed"
  "env_fault (example_env {}) n = None"
  by (simp_all add: example_env_def)

lemma graph_text_param: "graph_ascii s \<Longrightarrow> text_param s"
  by (simp add: text_param_def ascii_ValidString graph_ascii_is_ascii graph_no_nul)

lemma example_texts: "text_param ''go''" "text_param ''boom''" "text_param ''error''" "text_param ''1.0''"
  by (rule graph_text_param; simp add: graph_ascii_def)+

lemma example_event_fields:
  "ev_organizationID example_event = OrganizationID (replicate 32 CHR ''a'')"
  "ev_projectID example_event = ProjectID (replicate 32 CHR ''b'')"
  "ev_eventID example_event = EventID (replicate 32 CHR ''c'')"
  "ev_occurredAt example_event = TimePoint 5000" "ev_receivedAt example_event = TimePoint 6000"
  "ev_kind example_event = ''error''" "ev_level example_event = ''error''"
  "ev_title example_event = EventTitle ''boom''" "ev_platform example_event = ''go''"
  "ev_release example_event = ''1.0''" "ev_environment example_event = []"
  "ev_hasTransaction example_event = False" "CanonicalEvent_CreatesIssue example_event"
  by (simp_all add: example_event_def CanonicalEvent_CreatesIssue_def EventKind_CreatesIssue_def
      event_kind_defs)

lemma example_tables:
  "db_organizations example_db =
     [\<lparr>org_id = dashedUUID (replicate 32 CHR ''a''), org_accepting_events = True\<rparr>]"
  "db_projects example_db = [\<lparr>prj_id = dashedUUID (replicate 32 CHR ''b''),
     prj_organization_id = dashedUUID (replicate 32 CHR ''a''), prj_ingest_ref = ''1'',
     prj_accepting_events = True, prj_scrub_ip_addresses = True, prj_next_issue_short_id = 1\<rparr>]"
  "db_events example_db = []" "db_issues example_db = []" "db_issue_fingerprints example_db = []"
  "db_project_hourly_stats example_db = []" "db_notification_intents example_db = []"
  "db_alert_rules example_db = []" "db_project_quota_policies example_db = []"
  "db_organization_quota_policies example_db =
     [\<lparr>qr_organization_id = dashedUUID (replicate 32 CHR ''a''),
       qr_project_id = [], qr_daily_event_limit = 2, qr_enabled = True\<rparr>]"
  by (simp_all add: example_db_def)

lemma accepted_fingerprint:
  "fingerprint_value (ac_fingerprint (accepted_of ev)) = sha256_hex (canonical_text ev)"
  by (simp add: accepted_of_def)

lemma example_hexes: "hex_pattern 32 (replicate 32 CHR ''a'')" "hex_pattern 32 (replicate 32 CHR ''b'')"
  "hex_pattern 32 (replicate 32 CHR ''c'')"
  by (rule example_hex, simp)+

lemma example_hex_de: "hex_pattern 32 (replicate 32 CHR ''d'')" "hex_pattern 32 (replicate 32 CHR ''e'')"
  by (auto simp: hex_pattern_def list_all_iff hex_byte_def)

lemma example_c: "CHR 0x00 \<notin> set (marshalled (replicate 32 CHR ''c''))"
  by (rule graph_marshalled) (simp add: graph_ascii_def list_all_iff)

lemma example_payload: "json_storable (canonicalPayloadJSON [] (accepted_of example_event))"
  by (simp add: canonicalPayloadJSON_def Let_def example_event_def accepted_of_def encodeTags_def
      encodeJsStacktrace_def encodeNativeReferences_def encodeTransaction_def optional_member_def
      marshalled_ascii is_ascii_def EventID_Hex_def TimePoint_Time_def Algorithm_def graph_marshalled
      sha256_hex_graph RFC3339Nano_graph example_c)

definition example_row :: "string \<Rightarrow> EventRow" where
  "example_row u = event_row (dashedUUID u) (canonicalPayloadJSON [] (accepted_of example_event))
     (accepted_of example_event)"

lemma example_row_fields:
  "er_project_id (example_row u) = dashedUUID (replicate 32 CHR ''b'')"
  "er_event_id (example_row u) = dashedUUID (replicate 32 CHR ''c'')" "er_id (example_row u) = dashedUUID u"
  by (simp_all add: example_row_def event_row_def Let_def example_event_fields ProjectID_String_def
      EventID_String_def)

lemma example_insert:
  "hex_pattern 32 u \<Longrightarrow> insert_event (example_row u) example_db =
   ok (1, example_db\<lparr>db_events := [example_row u]\<rparr>)"
  using example_payload
  by (simp add: example_row_def insert_event_def event_row_def Let_def check_def uuid_param_made
      example_hexes OrganizationID_String_def ProjectID_String_def EventID_String_def
      example_event_fields accepted_fingerprint has_event_def event_exists_def organization_exists_def
      project_exists_def example_tables example_texts graph_text_param optional_text_def
      nullableText_def TrimSpace_id transactionName_def sha256_hex_graph)

lemma new_issue_id: "hex_pattern 32 u \<Longrightarrow> NewIssueID (dashedUUID u) = ok (IssueID u)"
  by (simp add: NewIssueID_def normalizeUUID_dashedUUID)

lemma uuid4_not_Nil: "uuid4_hex r \<noteq> []"
  using uuid4_hex_pattern [of r] by (auto simp: hex_pattern_def)

lemmas example_run = abind_def areturn_def alift_def Let_def check_def scan_row_def query_def
  randomUUID_def range_map_def time_Now_def UTC_def begin_tx_def commit_tx_def in_transaction_def
  example_statement example_advance example_env_simps example_event_fields example_tables
  example_texts example_hexes example_insert example_row_def [symmetric] example_row_fields
  uuid_param_made uuid4_hex_pattern uuid4_not_Nil dashedUUID_Nil_iff new_issue_id sha256_hex_graph
  graph_text_param accepted_fingerprint OrganizationID_String_def ProjectID_String_def
  EventID_String_def IssueID_String_def TimePoint_Time_def organization_exists_def
  project_exists_def event_exists_def issue_exists_def has_event_def find_fingerprint_def
  optional_text_def nullableText_def TrimSpace_id update_rows_def bigint_def

lemmas example_ops = Exists_def CheckQuota_def quotaSnapshotForScope_def select_quota_def
  day_usage_def quotaDecision_def quotaExceeded_def int64_def NewQuotaAllowed_def Append_def
  upsertProjectHourlyStats_def upsert_stats_def insertEventTags_def insertTransactionEvent_def
  NewAppendedEvent_def noAppendEffect_def NewIssuePlan_created Apply_def txStore_eventRowID_def
  findIssueByFingerprint_def createIssue_def nextIssueShortID_def take_short_id_def insertIssue_def
  insert_issue_def insert_fingerprint_def NewIssueChange_def EnqueueIssueOpened_def
  destinationActionsForIssueOpenedRules_def select_destinations_def NewIssueOpenedEnqueueResult_def
  transactionResult_def

lemma example_accepted:
  "\<exists>r t. ingestCanonicalEvent (NewIngestCommand example_event) Run noAppendEffect
     (example_session {}) = (Inr r, t) \<and> accepted_receipt r"
  by (simp add: ingestCanonicalEvent_eq Run_def example_session_def ingestProgram_def txStore_def
      example_ops example_run postgres.receipt_kinds)

end
