(* ===== verification/RateLimit.thy ===== *)
theory RateLimit
  imports IssueIndex
begin

text \<open>
  \<open>internal/app/ratelimit/ratelimit.go\<close> and its store \<open>internal/adapters/postgres/rate_limit.go\<close>:
  requests per project key counted in windows of fixed length.
\<close>

subsection \<open>Commands and decisions\<close>

record RateScope =
  rs_OrganizationID :: OrganizationID
  rs_ProjectID :: ProjectID

record RateCommand =
  rc_Scope :: RateScope
  rc_PublicKey :: ProjectPublicKey
  rc_Now :: gotime

record RateDecision =
  rd_allowed :: bool
  rd_reason :: string
  rd_retryAfter :: duration

definition requireScope :: "RateScope \<Rightarrow> unit result" where
  "requireScope scope =
     (if OrganizationID_String (rs_OrganizationID scope) = [] \<or> ProjectID_String (rs_ProjectID scope) = []
      then fail ''rate limit scope is required'' else ok ())"

definition NormalizeCommand :: "RateCommand \<Rightarrow> RateCommand result" where
  "NormalizeCommand command =
     rbind (requireScope (rc_Scope command)) (\<lambda>_.
     if ProjectPublicKey_String (rc_PublicKey command) = [] then fail ''rate limit public key is required''
     else if IsZero (rc_Now command) then fail ''rate limit reference time is required''
     else ok (command\<lparr>rc_Now := UTC (rc_Now command)\<rparr>))"

definition NewAllowed :: RateDecision where
  "NewAllowed = \<lparr>rd_allowed = True, rd_reason = [], rd_retryAfter = 0\<rparr>"

definition NewRejected :: "string \<Rightarrow> duration \<Rightarrow> RateDecision" where
  "NewRejected reason retryAfter =
     \<lparr>rd_allowed = False, rd_reason = (if reason = [] then ''rate_limited'' else reason),
      rd_retryAfter = (if retryAfter < second then second else retryAfter)\<rparr>"

text \<open>A nil checker is \<open>None\<close>.\<close>

definition Check ::
  "(RateCommand \<Rightarrow> ('s, RateDecision) action) option \<Rightarrow> RateCommand \<Rightarrow> ('s, RateDecision) action" where
  "Check checker command =
     (case checker of
        None \<Rightarrow> afail ''rate limit checker is required''
      | Some CheckRateLimit \<Rightarrow> abind (alift (NormalizeCommand command)) CheckRateLimit)"

subsection \<open>Windows\<close>

text \<open>\<open>Unix()\<close> counts the seconds since 1970.\<close>

definition unix_epoch :: gotime where "unix_epoch = 62135596800 * second"

definition Unix :: "gotime \<Rightarrow> int" where
  "Unix t = (t - unix_epoch) div second"

definition time_Unix :: "int \<Rightarrow> gotime" where
  "time_Unix s = unix_epoch + s * second"

definition rateLimitBucket :: "gotime \<Rightarrow> int \<Rightarrow> gotime" where
  "rateLimitBucket now windowSeconds =
     (let unix = Unix (UTC now) in time_Unix (go_div unix windowSeconds * windowSeconds))"

definition rateLimitRetryAfter :: "gotime \<Rightarrow> gotime \<Rightarrow> int \<Rightarrow> duration" where
  "rateLimitRetryAfter now bucket windowSeconds =
     (let resetAt = bucket + windowSeconds * second; retryAfter = resetAt - UTC now
      in if retryAfter < second then second else retryAfter)"

definition requestsPerMinute :: "int \<Rightarrow> int \<Rightarrow> int" where
  "requestsPerMinute limit windowSeconds =
     (if limit \<le> 0 \<or> windowSeconds \<le> 0 then 0 else go_div (limit * 60) windowSeconds)"

subsection \<open>The store\<close>

record rateLimitPolicySnapshot =
  pol_projectKeyID :: string
  pol_organization :: string
  pol_project :: string
  pol_enabled :: bool
  pol_window :: int
  pol_limit :: int

definition select_rate_policy :: "string \<Rightarrow> string \<Rightarrow> string \<Rightarrow> DB \<Rightarrow> rateLimitPolicySnapshot list" where
  "select_rate_policy organization project key d =
     [(case find (\<lambda>r. rp_project_key_id r = pk_id pk) (db_rate_limit_policies d) of
         None \<Rightarrow> \<lparr>pol_projectKeyID = pk_id pk, pol_organization = prj_organization_id p,
                  pol_project = pk_project_id pk, pol_enabled = False, pol_window = 60, pol_limit = 600\<rparr>
       | Some r \<Rightarrow> \<lparr>pol_projectKeyID = pk_id pk, pol_organization = prj_organization_id p,
                  pol_project = pk_project_id pk, pol_enabled = rp_enabled r,
                  pol_window = rp_window_seconds r, pol_limit = rp_event_limit r\<rparr>).
        pk \<leftarrow> db_project_keys d, p \<leftarrow> db_projects d, prj_id p = pk_project_id pk \<and>
        prj_organization_id p = organization \<and> pk_project_id pk = project \<and>
        pk_public_key pk = key \<and> pk_active pk]"

definition rateLimitPolicyForCommand ::
  "RateCommand \<Rightarrow> ('w Session, rateLimitPolicySnapshot) action" where
  "rateLimitPolicyForCommand command =
     (let organization = OrganizationID_String (rs_OrganizationID (rc_Scope command));
          project = ProjectID_String (rs_ProjectID (rc_Scope command));
          key = ProjectPublicKey_String (rc_PublicKey command)
      in abind (query (\<lambda>d. rbind (check (uuid_param organization \<and> uuid_param project \<and> uuid_param key)
             ''invalid input syntax for type uuid'') (\<lambda>_.
           ok (no_rows_of (select_rate_policy organization project key d))))) scan_row)"

definition same_bucket :: "string \<Rightarrow> gotime \<Rightarrow> int \<Rightarrow> RateBucketRow \<Rightarrow> bool" where
  "same_bucket key bucket window r \<longleftrightarrow>
     rb_project_key_id r = key \<and> rb_bucket_at r = bucket \<and> rb_window_seconds r = window"

definition upsert_bucket :: "RateBucketRow \<Rightarrow> DB \<Rightarrow> (int \<times> DB) result" where
  "upsert_bucket row d =
     (let same = same_bucket (rb_project_key_id row) (rb_bucket_at row) (rb_window_seconds row)
      in rbind (check (0 < rb_window_seconds row) ''violates check constraint'') (\<lambda>_.
         case find same (db_rate_limit_buckets d) of
           Some r \<Rightarrow>
             rbind (check (integer32 (rb_event_count r + 1)) ''integer out of range'') (\<lambda>_.
             ok (rb_event_count r + 1, d\<lparr>db_rate_limit_buckets := update_rows same
               (\<lambda>r. r\<lparr>rb_event_count := rb_event_count r + 1, rb_updated_at := rb_updated_at row\<rparr>)
               (db_rate_limit_buckets d)\<rparr>))
         | None \<Rightarrow>
             rbind (check (list_ex (\<lambda>k. pk_id k = rb_project_key_id row) (db_project_keys d) \<and>
               organization_exists (rb_organization_id row) d \<and> project_exists (rb_project_id row) d)
               ''violates foreign key constraint'') (\<lambda>_.
             ok (rb_event_count row, d\<lparr>db_rate_limit_buckets := db_rate_limit_buckets d @ [row]\<rparr>))))"

definition incrementRateLimitBucket ::
  "rateLimitPolicySnapshot \<Rightarrow> gotime \<Rightarrow> gotime \<Rightarrow> ('w Session, int) action" where
  "incrementRateLimitBucket policy bucket now = statement (upsert_bucket
     \<lparr>rb_project_key_id = pol_projectKeyID policy, rb_organization_id = pol_organization policy,
      rb_project_id = pol_project policy, rb_bucket_at = timestamptz bucket,
      rb_window_seconds = pol_window policy, rb_event_count = 1,
      rb_created_at = timestamptz (UTC now), rb_updated_at = timestamptz (UTC now)\<rparr>)"

definition checkRateLimitInTx :: "RateCommand \<Rightarrow> ('w Session, RateDecision) action" where
  "checkRateLimitInTx command =
     abind (rateLimitPolicyForCommand command) (\<lambda>policy.
     if \<not> pol_enabled policy then areturn NewAllowed else
     let bucket = rateLimitBucket (rc_Now command) (pol_window policy) in
     abind (incrementRateLimitBucket policy bucket (rc_Now command)) (\<lambda>count.
     if count \<le> pol_limit policy then areturn NewAllowed else
     areturn (NewRejected ''project_key_rate_limited''
       (rateLimitRetryAfter (rc_Now command) bucket (pol_window policy)))))"

definition CheckRateLimit :: "RateCommand \<Rightarrow> ('w Session, RateDecision) action" where
  "CheckRateLimit command = in_transaction (checkRateLimitInTx command)"

subsection \<open>Windows contain their times\<close>

lemma rateLimitBucket_contains:
  assumes "unix_epoch \<le> now" and "0 < w"
  shows "rateLimitBucket now w \<le> now \<and> now < rateLimitBucket now w + w * second"
proof -
  let ?u = "Unix now"
  have s: "0 < second" by (simp add: second_def)
  have u: "0 \<le> ?u" using assms s by (simp add: Unix_def pos_imp_zdiv_nonneg_iff)
  have now: "?u * second \<le> now - unix_epoch" "now - unix_epoch < (?u + 1) * second"
    unfolding Unix_def using s by (simp_all add: second_def)
  have b: "rateLimitBucket now w = unix_epoch + ?u div w * w * second"
    using u assms by (simp add: rateLimitBucket_def UTC_def Let_def go_div_nonneg time_Unix_def)
  have "?u div w * w = ?u - ?u mod w" by (simp add: minus_mod_eq_div_mult)
  then have "?u div w * w \<le> ?u" "?u + 1 \<le> ?u div w * w + w"
    using assms(2) pos_mod_sign [of w ?u] pos_mod_bound [of w ?u] by linarith+
  then have "?u div w * w * second \<le> ?u * second" "(?u + 1) * second \<le> (?u div w * w + w) * second"
    using s by (intro mult_right_mono; simp)+
  with now show ?thesis unfolding b distrib_right by linarith
qed

lemma rateLimitRetryAfter_bounds:
  assumes "unix_epoch \<le> now" and "0 < w"
  defines "b \<equiv> rateLimitBucket now w"
  shows "second \<le> rateLimitRetryAfter now b w \<and> rateLimitRetryAfter now b w \<le> w * second \<and>
    b + w * second \<le> now + rateLimitRetryAfter now b w"
proof -
  have "second \<le> w * second" using assms(2) by (simp add: second_def)
  with rateLimitBucket_contains [OF assms(1,2)] show ?thesis
    by (auto simp: rateLimitRetryAfter_def Let_def UTC_def b_def)
qed

subsection \<open>Requests counted in a window\<close>

definition requests_in :: "DB \<Rightarrow> string \<Rightarrow> gotime \<Rightarrow> int \<Rightarrow> int" where
  "requests_in d key bucket window =
     (case find (same_bucket key bucket window) (db_rate_limit_buckets d) of
        None \<Rightarrow> 0 | Some r \<Rightarrow> rb_event_count r)"

definition policy_of :: "RateCommand \<Rightarrow> DB \<Rightarrow> rateLimitPolicySnapshot option" where
  "policy_of command d = no_rows_of (select_rate_policy
     (OrganizationID_String (rs_OrganizationID (rc_Scope command)))
     (ProjectID_String (rs_ProjectID (rc_Scope command)))
     (ProjectPublicKey_String (rc_PublicKey command)) d)"

definition window_of :: "rateLimitPolicySnapshot \<Rightarrow> RateCommand \<Rightarrow> gotime" where
  "window_of pol command = timestamptz (rateLimitBucket (rc_Now command) (pol_window pol))"

abbreviation same_policy_tables :: "DB \<Rightarrow> DB \<Rightarrow> bool" where
  "same_policy_tables d d' \<equiv> (db_project_keys d', db_projects d', db_rate_limit_policies d') =
     (db_project_keys d, db_projects d, db_rate_limit_policies d)"

lemma policy_of_same: "same_policy_tables d d' \<Longrightarrow> policy_of command d' = policy_of command d"
  by (simp add: policy_of_def select_rate_policy_def cong: if_cong)

lemma upsert_bucket_ok:
  assumes "upsert_bucket row d = ok (n, d')" and "rb_event_count row = 1"
  shows "same_policy_tables d d' \<and> n = requests_in d' (rb_project_key_id row) (rb_bucket_at row) (rb_window_seconds row) \<and>
    n = requests_in d (rb_project_key_id row) (rb_bucket_at row) (rb_window_seconds row) + 1"
proof (cases "find (same_bucket (rb_project_key_id row) (rb_bucket_at row) (rb_window_seconds row))
    (db_rate_limit_buckets d)")
  case None
  with assms show ?thesis
    by (auto simp: upsert_bucket_def Let_def rbind_eq_ok requests_in_def find_append same_bucket_def)
next
  case (Some r)
  then have "same_bucket (rb_project_key_id row) (rb_bucket_at row) (rb_window_seconds row) r"
    by (auto dest: find_SomeD)
  with Some assms show ?thesis
    by (auto simp: upsert_bucket_def Let_def rbind_eq_ok requests_in_def find_update_rows same_bucket_def [abs_def])
qed

lemma evolves_checkRateLimit: "evolves session_step (checkRateLimitInTx command)"
  unfolding checkRateLimitInTx_def rateLimitPolicyForCommand_def incrementRateLimitBucket_def Let_def
  by (intro store_intros obeys_any preorder_any)

lemma checkRateLimitInTx_ok:
  assumes run: "checkRateLimitInTx command s = (Inr dec, t)" and q: "quiet (ses_env s)"
    and pol: "policy_of command (ses_db s) = Some pol" "pol_enabled pol"
  shows "same_policy_tables (ses_db s) (ses_db t) \<and>
    requests_in (ses_db t) (pol_projectKeyID pol) (window_of pol command) (pol_window pol) =
      requests_in (ses_db s) (pol_projectKeyID pol) (window_of pol command) (pol_window pol) + 1 \<and>
    (rd_allowed dec \<longleftrightarrow>
      requests_in (ses_db t) (pol_projectKeyID pol) (window_of pol command) (pol_window pol) \<le> pol_limit pol) \<and>
    (\<not> rd_allowed dec \<longrightarrow> second \<le> rd_retryAfter dec)"
proof -
  obtain pol' s1 where p: "rateLimitPolicyForCommand command s = (Inr pol', s1)"
    and rest: "(if \<not> pol_enabled pol' then areturn NewAllowed else
     let bucket = rateLimitBucket (rc_Now command) (pol_window pol') in
     abind (incrementRateLimitBucket pol' bucket (rc_Now command)) (\<lambda>count.
     if count \<le> pol_limit pol' then areturn NewAllowed else
     areturn (NewRejected ''project_key_rate_limited''
       (rateLimitRetryAfter (rc_Now command) bucket (pol_window pol'))))) s1 = (Inr dec, t)"
    using run unfolding checkRateLimitInTx_def abind_ok by blast
  have s1: "pol' = pol" "ses_db s1 = ses_db s" "ses_env s1 = ses_env s"
    using p pol(1) q unfolding rateLimitPolicyForCommand_def Let_def
    by (auto simp: abind_ok scan_row_eq rbind_eq_ok policy_of_def dest!: query_okD)
  obtain n s2 where n: "incrementRateLimitBucket pol (rateLimitBucket (rc_Now command) (pol_window pol))
      (rc_Now command) s1 = (Inr n, s2)"
    and dec: "t = s2" "dec = (if n \<le> pol_limit pol then NewAllowed else NewRejected ''project_key_rate_limited''
       (rateLimitRetryAfter (rc_Now command) (rateLimitBucket (rc_Now command) (pol_window pol)) (pol_window pol)))"
    using rest pol(2) s1(1) by (auto simp: Let_def abind_ok areturn_eq split: if_split_asm)
  from statement_okD [OF n [unfolded incrementRateLimitBucket_def]] q s1
  obtain d where "upsert_bucket \<lparr>rb_project_key_id = pol_projectKeyID pol, rb_organization_id = pol_organization pol,
      rb_project_id = pol_project pol, rb_bucket_at = window_of pol command,
      rb_window_seconds = pol_window pol, rb_event_count = 1,
      rb_created_at = timestamptz (UTC (rc_Now command)), rb_updated_at = timestamptz (UTC (rc_Now command))\<rparr>
      (ses_db s) = ok (n, d)" "ses_db s2 = d"
    by (auto simp: window_of_def)
  with upsert_bucket_ok [OF this(1)] dec show ?thesis
    by (auto simp: NewAllowed_def NewRejected_def)
qed

text \<open>A history of requests, one after the other.\<close>

fun rate_history :: "RateCommand list \<Rightarrow> 'w Session \<Rightarrow> RateDecision result list \<times> 'w Session" where
  "rate_history [] s = ([], s)"
| "rate_history (command # commands) s =
     (let (x, t) = CheckRateLimit command s; (xs, u) = rate_history commands t in (x # xs, u))"

definition allowed_result :: "RateDecision result \<Rightarrow> bool" where
  "allowed_result x = (case x of Inl e \<Rightarrow> False | Inr dec \<Rightarrow> rd_allowed dec)"

lemma CheckRateLimit_step:
  assumes run: "CheckRateLimit command s = (x, t)" and s: "session_inv s"
    and pol: "policy_of command (ses_db s) = Some pol" "pol_enabled pol"
  defines "c \<equiv> \<lambda>u. requests_in (ses_db u) (pol_projectKeyID pol) (window_of pol command) (pol_window pol)"
  shows "session_inv t \<and> same_policy_tables (ses_db s) (ses_db t) \<and>
    c t = c s + (if is_ok x then 1 else 0) \<and>
    (is_ok x \<longrightarrow> (allowed_result x \<longleftrightarrow> c t \<le> pol_limit pol))"
proof -
  note cases = in_transaction_cases [OF evolves_checkRateLimit s run [unfolded CheckRateLimit_def]]
  show ?thesis
  proof (cases x)
    case (Inl e)
    with cases s show ?thesis by (simp add: c_def)
  next
    case (Inr dec)
    with cases have "\<exists>(s1 :: 'a Session) t1. session_inv s1 \<and> ses_db s1 = ses_db s \<and>
      checkRateLimitInTx command s1 = (Inr dec, t1) \<and> ses_db t = ses_db t1" by simp
    then obtain s1 t1 :: "'a Session" where "session_inv s1" "ses_db s1 = ses_db s" "ses_db t = ses_db t1"
      "checkRateLimitInTx command s1 = (Inr dec, t1)" by blast
    with checkRateLimitInTx_ok [of command s1 dec t1 pol] pol cases s Inr show ?thesis
      by (auto simp: c_def allowed_result_def reliable_def)
  qed
qed

lemma allowed_count_step:
  fixes n c l :: int
  assumes "0 \<le> n"
  shows "(if c + 1 \<le> l then 1 else 0) + max 0 (min n (l - (c + 1))) = max 0 (min (n + 1) (l - c))"
  using assms by (auto simp: max_def min_def)

lemma rate_history_bound:
  assumes "\<forall>c\<in>set commands. policy_of c (ses_db s) = Some pol \<and> window_of pol c = b"
    and "pol_enabled pol" and "session_inv s" and "rate_history commands s = (xs, t)"
  shows "requests_in (ses_db t) (pol_projectKeyID pol) b (pol_window pol) =
      requests_in (ses_db s) (pol_projectKeyID pol) b (pol_window pol) + int (length (filter is_ok xs)) \<and>
    int (length (filter allowed_result xs)) =
      max 0 (min (int (length (filter is_ok xs)))
        (pol_limit pol - requests_in (ses_db s) (pol_projectKeyID pol) b (pol_window pol)))"
  using assms(1,3,4)
proof (induction commands arbitrary: s xs)
  case Nil
  then show ?case by simp
next
  case (Cons c commands)
  obtain x u where x: "CheckRateLimit c s = (x, u)" by fastforce
  obtain ys where ys: "rate_history commands u = (ys, t)" and xs: "xs = x # ys"
    using Cons.prems(3) x by (auto simp: Let_def split: prod.splits)
  have c: "policy_of c (ses_db s) = Some pol" "window_of pol c = b" using Cons.prems(1) by auto
  note now = CheckRateLimit_step [OF x Cons.prems(2) c(1) assms(2)]
  have "\<forall>c\<in>set commands. policy_of c (ses_db u) = Some pol \<and> window_of pol c = b"
    using Cons.prems(1) now by (simp add: policy_of_same [of "ses_db s" "ses_db u"])
  note ih = Cons.IH [OF this _ ys]
  let ?c = "\<lambda>u. requests_in (ses_db u) (pol_projectKeyID pol) b (pol_window pol)"
  show ?case
  proof (cases "is_ok x")
    case True
    then have "allowed_result x \<longleftrightarrow> ?c s + 1 \<le> pol_limit pol" "?c u = ?c s + 1"
      using now c(2) by auto
    with True ih now allowed_count_step [of "int (length (filter is_ok ys))" "?c s" "pol_limit pol"]
    show ?thesis unfolding xs by (simp split: if_split_asm)
  next
    case False
    then have "\<not> allowed_result x" by (cases x) (simp_all add: allowed_result_def)
    with False ih now c(2) show ?thesis unfolding xs by simp
  qed
qed

end
