(* ===== verification/SourceMaps.thy ===== *)
theory SourceMaps
  imports GoStrings
begin

unbundle bit_operations_syntax

text \<open>
  \<open>internal/app/sourcemaps/parser.go\<close> and \<open>lookup.go\<close>: the mappings of a source map, a list of
  segments per generated line with Base64-VLQ deltas, and the lookup of a generated position.

  Go's \<open>int\<close> has 64 bits: the results of its arithmetic are taken through \<open>int64\<close>.
  Slices are indexed with \<open>index_or_panic\<close>, whose \<open>Panics\<close> is Go's run-time panic.
\<close>

subsection \<open>Base64-VLQ numbers\<close>

definition base64Alphabet :: string where
  "base64Alphabet = ''ABCDEFGHIJKLMNOPQRSTUVWXYZabcdefghijklmnopqrstuvwxyz0123456789+/''"

definition base64Decode :: "int list" where
  "base64Decode =
     fold (\<lambda>index table. table[byte (base64Alphabet ! index) := int index])
       [0..<length base64Alphabet] (replicate 128 (- 1))"

text \<open>The verb \<open>%q\<close> on a byte: the code point as a quoted character literal.\<close>

definition quote_byte :: "char \<Rightarrow> string" where
  "quote_byte c =
     (let b = byte c; hex = (\<lambda>n. ''0123456789abcdef'' ! n) in
      [CHR 0x27] @
      (if c = CHR 0x27 \<or> c = CHR 0x5C then [CHR 0x5C, c]
       else if 32 \<le> b \<and> b < 127 \<or> 161 \<le> b \<and> b \<noteq> 173 then encode_rune b
       else if 7 \<le> b \<and> b \<le> 13 then [CHR 0x5C, ''abtnvfr'' ! (b - 7)]
       else if b < 128 then [CHR 0x5C, CHR ''x'', hex (b div 16), hex (b mod 16)]
       else [CHR 0x5C, CHR ''u'', CHR ''0'', CHR ''0'', hex (b div 16), hex (b mod 16)]) @
      [CHR 0x27])"

definition invalid_character :: "char \<Rightarrow> 'a result" where
  "invalid_character c = fail (''invalid vlq character: '' @ quote_byte c)"

function decodeVLQ_loop ::
  "string \<Rightarrow> nat \<Rightarrow> int \<Rightarrow> nat \<Rightarrow> nat \<Rightarrow> (int \<times> nat) result" where
  "decodeVLQ_loop input position value shift consumed =
     (if length input \<le> position + consumed then fail ''unexpected end of vlq'' else
      let character = input ! (position + consumed); consumed' = consumed + 1 in
      if 128 \<le> byte character then invalid_character character else
      let digit = base64Decode ! byte character in
      if digit < 0 then invalid_character character else
      let value' = int64 (value OR push_bit shift (digit AND 31)); shift' = shift + 5 in
      if digit AND 32 \<noteq> 0 then decodeVLQ_loop input position value' shift' consumed'
      else ok (value', consumed'))"
  by pat_completeness auto
termination
  by (relation "measure (\<lambda>(input, position, value, shift, consumed). length input - (position + consumed))")
     auto

declare decodeVLQ_loop.simps [simp del]

definition decodeVLQ :: "string \<Rightarrow> nat \<Rightarrow> (int \<times> nat) result" where
  "decodeVLQ input position =
     rbind (decodeVLQ_loop input position 0 0 0) (\<lambda>(value, consumed).
     let negative = value AND 1 \<noteq> 0; value' = drop_bit 1 value
     in ok (if negative then int64 (- value') else value', consumed))"

lemma decodeVLQ_loop_consumes:
  "decodeVLQ_loop input position value shift consumed = ok (v, c) \<Longrightarrow>
   consumed < c \<and> position + c \<le> length input"
proof (induction input position "value" shift consumed rule: decodeVLQ_loop.induct)
  case (1 s p w b k)
  from 1(2) show ?case
    by (subst (asm) decodeVLQ_loop.simps)
       (auto simp: Let_def invalid_character_def split: if_splits dest!: 1(1))
qed

lemma decodeVLQ_consumes:
  "decodeVLQ input position = ok (v, c) \<Longrightarrow> 0 < c \<and> position + c \<le> length input"
  by (auto simp: decodeVLQ_def result_simps Let_def dest!: decodeVLQ_loop_consumes)

text \<open>The numbers are those a source map generator writes: the reference encoder appends five bits at a
time, the sign in the lowest one, and \<open>decodeVLQ\<close> reads every number below \<open>2 ^ 62\<close> back.\<close>

fun vlq_digits :: "nat \<Rightarrow> nat list" where
  "vlq_digits n = (if n < 32 then [n] else (n mod 32 + 32) # vlq_digits (n div 32))"

declare vlq_digits.simps [simp del]

definition encodeVLQ :: "int \<Rightarrow> string" where
  "encodeVLQ v = map ((!) base64Alphabet) (vlq_digits (nat (if v < 0 then - 2 * v + 1 else 2 * v)))"

text \<open>The two loops of \<open>init\<close> make \<open>base64Decode\<close> the inverse of the alphabet, whose characters differ.\<close>

lemma fold_update_other:
  "k \<notin> a ` set is \<Longrightarrow> fold (\<lambda>i table. table[a i := f i]) is table ! k = table ! k"
  by (induction "is" arbitrary: table) auto

lemma length_fold_update: "length (fold (\<lambda>i table. table[a i := f i]) is table) = length table"
  by (induction "is" arbitrary: table) auto

lemma fold_update:
  "distinct (map a is) \<Longrightarrow> i \<in> set is \<Longrightarrow> a i < length table \<Longrightarrow>
   fold (\<lambda>i table. table[a i := f i]) is table ! a i = f i"
  by (induction "is" arbitrary: table) (auto simp: fold_update_other)

lemma alphabet_facts:
  "distinct base64Alphabet" "list_all (\<lambda>c. byte c < 128 \<and> c \<notin> {CHR '','', CHR '';''}) base64Alphabet"
  "length base64Alphabet = 64"
  by (simp_all add: base64Alphabet_def)

definition alphabet_ok :: "nat \<Rightarrow> bool" where
  "alphabet_ok d \<longleftrightarrow> byte (base64Alphabet ! d) < 128 \<and> base64Decode ! byte (base64Alphabet ! d) = int d \<and>
     base64Alphabet ! d \<notin> {CHR '','', CHR '';''}"

lemma alphabet: "d < 64 \<Longrightarrow> alphabet_ok d"
proof -
  assume d: "d < 64"
  have "distinct (map (\<lambda>i. byte (base64Alphabet ! i)) [0..<length base64Alphabet])"
    using alphabet_facts(1) by (auto simp: distinct_map inj_on_def nth_eq_iff_index_eq)
  with d alphabet_facts show ?thesis
    by (auto simp: alphabet_ok_def base64Decode_def list_all_length
        fold_update [where a = "\<lambda>i. byte (base64Alphabet ! i)" and f = int])
qed

lemma or_shifted:
  fixes a d :: int
  assumes "0 \<le> a" "a < 2 ^ k"
  shows "a OR push_bit k d = a + d * 2 ^ k"
proof -
  have "a + push_bit k d = a OR push_bit k d"
  proof (rule disjunctive_add_eq_or, rule bit_eqI)
    fix n
    have "bit a n \<Longrightarrow> n < k"
      using assms by (metis bit_take_bit_iff take_bit_int_eq_self)
    then show "bit (a AND push_bit k d) n \<longleftrightarrow> bit (0::int) n"
      by (auto simp: bit_simps)
  qed
  then show ?thesis by (simp add: push_bit_eq_mult)
qed

lemma digit_parts:
  "d < 32 \<Longrightarrow> (int d AND 31 = int d \<and> int d AND 32 = 0)"
  "d < 32 \<Longrightarrow> ((int d + 32) AND 31 = int d \<and> (int d + 32) AND 32 = 32)"
proof -
  have "list_all (\<lambda>d. int d AND 31 = int d \<and> int d AND 32 = 0 \<and> (int d + 32) AND 31 = int d \<and> (int d + 32) AND 32 = 32) [0..<32]"
    by code_simp
  then show "d < 32 \<Longrightarrow> (int d AND 31 = int d \<and> int d AND 32 = 0)"
  "d < 32 \<Longrightarrow> ((int d + 32) AND 31 = int d \<and> (int d + 32) AND 32 = 32)"
    by (simp_all add: list_all_iff)
qed

lemma vlq_digits_less: "d \<in> set (vlq_digits n) \<Longrightarrow> d < 64"
  by (induction n rule: vlq_digits.induct)
     (subst (asm) (2) vlq_digits.simps, auto split: if_splits)

lemma decode_digits:
  assumes "0 \<le> acc" "acc < 2 ^ shift" "acc + int n * 2 ^ shift < 2 ^ 63"
    and "length pre = position + consumed"
  shows "decodeVLQ_loop (pre @ map ((!) base64Alphabet) (vlq_digits n) @ post) position acc shift consumed
    = ok (acc + int n * 2 ^ shift, consumed + length (vlq_digits n))"
  using assms
proof (induction n arbitrary: pre acc shift consumed rule: vlq_digits.induct)
  case (1 n)
  show ?case
  proof (cases "n < 32")
    case True
    with alphabet [of n] have a: "alphabet_ok n" by simp
    have i: "int64 (acc + int n * 2 ^ shift) = acc + int n * 2 ^ shift"
      by (rule int64_id) (use "1.prems" in \<open>simp_all add: order_trans [of _ 0]\<close>)
    show ?thesis
      using True a "1.prems" i
      by (subst decodeVLQ_loop.simps)
         (simp add: vlq_digits.simps [of n] alphabet_ok_def Let_def digit_parts or_shifted nth_append)
  next
    case False
    define d where "d = n mod 32"
    define m where "m = n div 32"
    have n: "n = d + 32 * m" and d: "d < 32" by (simp_all add: d_def m_def)
    from alphabet [of "d + 32"] d have a: "alphabet_ok (d + 32)" by simp
    have total: "acc + int d * 2 ^ shift + int m * 2 ^ (shift + 5) = acc + int n * 2 ^ shift"
      by (simp add: n algebra_simps power_add)
    have "0 \<le> int m * 2 ^ (shift + 5)" by simp
    with total "1.prems" have lt: "acc + int d * 2 ^ shift < 2 ^ 63" by linarith
    have i: "int64 (acc + int d * 2 ^ shift) = acc + int d * 2 ^ shift"
      by (rule int64_id) (use "1.prems" lt in \<open>simp_all add: order_trans [of _ 0]\<close>)
    have p32: "(2::int) ^ (shift + 5) = 32 * 2 ^ shift" by (simp add: power_add)
    have "int d * 2 ^ shift \<le> 31 * 2 ^ shift" using d by simp
    then have sh: "acc + int d * 2 ^ shift < 2 ^ (shift + 5)"
      using "1.prems"(2) p32 by linarith
    let ?pre = "pre @ [base64Alphabet ! (d + 32)]"
    have IH: "decodeVLQ_loop (?pre @ map ((!) base64Alphabet) (vlq_digits m) @ post) position
        (acc + int d * 2 ^ shift) (shift + 5) (consumed + 1)
      = ok (acc + int d * 2 ^ shift + int m * 2 ^ (shift + 5), consumed + 1 + length (vlq_digits m))"
      unfolding m_def
      by (rule "1.IH") (use False "1.prems" sh total in \<open>simp_all add: m_def\<close>)
    have "vlq_digits n = (d + 32) # vlq_digits m"
      using False by (simp add: vlq_digits.simps [of n] d_def m_def)
    with IH a d "1.prems" i total show ?thesis
      by (subst decodeVLQ_loop.simps)
         (simp add: alphabet_ok_def Let_def digit_parts or_shifted nth_append add.assoc)
  qed
qed

lemma decode_encode_VLQ:
  assumes "\<bar>v\<bar> < 2 ^ 62"
  shows "decodeVLQ (pre @ encodeVLQ v @ post) (length pre) = ok (v, length (encodeVLQ v))"
proof -
  define n where "n = nat (if v < 0 then - 2 * v + 1 else 2 * v)"
  have "decodeVLQ_loop (pre @ map ((!) base64Alphabet) (vlq_digits n) @ post) (length pre) 0 0 0
      = ok (0 + int n * 2 ^ 0, 0 + length (vlq_digits n))"
    by (rule decode_digits) (use assms in \<open>auto simp: n_def\<close>)
  moreover have "int n AND 1 \<noteq> 0 \<longleftrightarrow> v < 0"
    using mod_add_self1 by (auto simp: n_def and_one_eq mod_2_eq_odd)
  moreover have "drop_bit 1 (int n) = \<bar>v\<bar>"
    by (auto simp: n_def drop_bit_eq_div)
  moreover have "int64 (- \<bar>v\<bar>) = - \<bar>v\<bar>"
    by (rule int64_id) (use assms in auto)
  ultimately show ?thesis
    by (auto simp: decodeVLQ_def encodeVLQ_def n_def [symmetric])
qed

subsection \<open>Segments and lines\<close>

function decodeSegment_loop :: "string \<Rightarrow> nat \<Rightarrow> int list \<Rightarrow> int list result" where
  "decodeSegment_loop input position fields =
     (if position < length input then
        rbind (decodeVLQ input position) (\<lambda>(value, consumed).
        decodeSegment_loop input (position + consumed) (fields @ [value]))
      else ok fields)"
  by pat_completeness auto
termination
  by (relation "measure (\<lambda>(input, position, fields). length input - position)")
     (auto dest: decodeVLQ_consumes)

declare decodeSegment_loop.simps [simp del]

definition decodeSegment :: "string \<Rightarrow> int list result" where
  "decodeSegment input =
     rbind (decodeSegment_loop input 0 []) (\<lambda>fields.
     if length fields \<in> {1, 4, 5} then ok fields
     else fail (''invalid source map segment field count: '' @ itoa (int (length fields))))"

record segment =
  generatedColumn :: int
  sourceIndex :: int
  originalLine :: int
  originalColumn :: int
  nameIndex :: int

record generatedLine =
  segments :: "segment list"

record SourceMap =
  sources :: "string list"
  sm_names :: "string list"
  sm_lines :: "generatedLine list"

definition noIndex :: int where "noIndex = - 1"

text \<open>The four running totals that \<open>decodeMappings\<close> keeps across lines.\<close>

record totals =
  t_sourceIndex :: int
  t_originalLine :: int
  t_originalColumn :: int
  t_nameIndex :: int

definition no_totals :: totals where
  "no_totals = \<lparr>t_sourceIndex = 0, t_originalLine = 0, t_originalColumn = 0, t_nameIndex = 0\<rparr>"

text \<open>The body of the loop over the segments of a line, after the fields are decoded.\<close>

definition add_fields :: "int list \<Rightarrow> int \<Rightarrow> totals \<Rightarrow> segment \<times> totals" where
  "add_fields xs column t =
     (let seg = \<lparr>generatedColumn = column, sourceIndex = noIndex, originalLine = noIndex,
            originalColumn = noIndex, nameIndex = noIndex\<rparr>;
          (seg, t) = (if 4 \<le> length xs then
            let t = t\<lparr>t_sourceIndex := int64 (t_sourceIndex t + xs ! 1),
                  t_originalLine := int64 (t_originalLine t + xs ! 2),
                  t_originalColumn := int64 (t_originalColumn t + xs ! 3)\<rparr>
            in (seg\<lparr>sourceIndex := t_sourceIndex t, originalLine := t_originalLine t,
                  originalColumn := t_originalColumn t\<rparr>, t)
            else (seg, t))
      in if length xs = 5 then
           let t = t\<lparr>t_nameIndex := int64 (t_nameIndex t + xs ! 4)\<rparr>
           in (seg\<lparr>nameIndex := t_nameIndex t\<rparr>, t)
         else (seg, t))"

fun decodeLine ::
  "string list \<Rightarrow> int \<Rightarrow> totals \<Rightarrow> segment list \<Rightarrow> (segment list \<times> totals) result" where
  "decodeLine [] column t segs = ok (segs, t)"
| "decodeLine (rawSegment # rest) column t segs =
     (if rawSegment = [] then decodeLine rest column t segs else
      rbind (decodeSegment rawSegment) (\<lambda>fields.
      let column' = int64 (column + fields ! 0); (seg, t') = add_fields fields column' t
      in decodeLine rest column' t' (segs @ [seg])))"

fun decodeLines :: "string list \<Rightarrow> totals \<Rightarrow> generatedLine list result" where
  "decodeLines [] t = ok []"
| "decodeLines (rawLine # rest) t =
     (if rawLine = [] then rbind (decodeLines rest t) (\<lambda>ls. ok (\<lparr>segments = []\<rparr> # ls)) else
      rbind (decodeLine (split_byte (CHR '','') rawLine) 0 t []) (\<lambda>(segs, t').
      rbind (decodeLines rest t') (\<lambda>ls. ok (\<lparr>segments = sort_key generatedColumn segs\<rparr> # ls))))"

definition decodeMappings :: "string \<Rightarrow> generatedLine list result" where
  "decodeMappings input =
     (if input = [] then ok [] else decodeLines (split_byte (CHR '';'') input) no_totals)"

record rawSourceMap =
  raw_Version :: int
  raw_SourceRoot :: string
  raw_Sources :: "string list"
  raw_Names :: "string list"
  raw_Mappings :: string

definition joinSourceRoot :: "string \<Rightarrow> string \<Rightarrow> string" where
  "joinSourceRoot root source =
     (if HasSuffix root ''/'' then root @ source else root @ ''/'' @ source)"

text \<open>The parameter is \<open>json.Unmarshal\<close> into the struct, whose error is wrapped.\<close>

definition ParseSourceMap :: "(string \<Rightarrow> rawSourceMap result) \<Rightarrow> string \<Rightarrow> SourceMap result" where
  "ParseSourceMap unmarshal payload =
     (if payload = [] then fail ''source map payload is empty'' else
      case unmarshal payload of Inl (GoErr e) \<Rightarrow> fail (''decode source map: '' @ e) | Inr raw \<Rightarrow>
      if raw_Version raw \<noteq> 3 then
        fail (''unsupported source map version: '' @ itoa (raw_Version raw)) else
      rbind (decodeMappings (raw_Mappings raw)) (\<lambda>ls.
      ok \<lparr>sources = (if raw_SourceRoot raw = [] then raw_Sources raw
              else map (joinSourceRoot (raw_SourceRoot raw)) (raw_Sources raw)),
          sm_names = raw_Names raw, sm_lines = ls\<rparr>))"

subsection \<open>Looking a position up\<close>

record GeneratedPosition =
  gp_line :: int
  gp_column :: int

record ResolvedFrame =
  rf_source :: string
  rf_name :: "string option"
  rf_originalLine :: int
  rf_originalColumn :: int

text \<open>\<open>sort.Search\<close>: binary search for the least index with the property.\<close>

function sort_Search_loop :: "(nat \<Rightarrow> bool) \<Rightarrow> nat \<Rightarrow> nat \<Rightarrow> nat" where
  "sort_Search_loop f i j =
     (if i < j then
        let h = (i + j) div 2
        in if f h then sort_Search_loop f i h else sort_Search_loop f (h + 1) j
      else i)"
  by pat_completeness auto
termination by (relation "measure (\<lambda>(f, i, j). j - i)") auto

declare sort_Search_loop.simps [simp del]

definition sort_Search :: "nat \<Rightarrow> (nat \<Rightarrow> bool) \<Rightarrow> nat" where
  "sort_Search n f = sort_Search_loop f 0 n"

definition LookupFrame :: "SourceMap \<Rightarrow> GeneratedPosition \<Rightarrow> ResolvedFrame option run" where
  "LookupFrame sm position =
     (if gp_line position < 0 \<or> int (length (sm_lines sm)) \<le> gp_line position then Returns None else
      let segs = segments (sm_lines sm ! nat (gp_line position)) in
      if length segs = 0 then Returns None else
      let candidate = sort_Search (length segs) (\<lambda>index. gp_column position < generatedColumn (segs ! index)) in
      if candidate = 0 then Returns None else
      let chosen = segs ! (candidate - 1) in
      if sourceIndex chosen = noIndex \<or> int (length (sources sm)) \<le> sourceIndex chosen then Returns None else
      bind_run (index_or_panic (sources sm) (sourceIndex chosen)) (\<lambda>source.
      let resolved = \<lparr>rf_source = source, rf_name = None, rf_originalLine = originalLine chosen,
            rf_originalColumn = originalColumn chosen\<rparr> in
      if nameIndex chosen \<noteq> noIndex \<and> nameIndex chosen < int (length (sm_names sm)) then
        bind_run (index_or_panic (sm_names sm) (nameIndex chosen)) (\<lambda>name.
        Returns (Some (resolved\<lparr>rf_name := Some name\<rparr>)))
      else Returns (Some resolved)))"

subsection \<open>Reading back what a generator writes\<close>

definition segment_fields :: "totals \<Rightarrow> int \<Rightarrow> segment \<Rightarrow> int list" where
  "segment_fields t column s =
     (generatedColumn s - column) #
     (if sourceIndex s = noIndex then [] else
        [sourceIndex s - t_sourceIndex t, originalLine s - t_originalLine t,
         originalColumn s - t_originalColumn t] @
        (if nameIndex s = noIndex then [] else [nameIndex s - t_nameIndex t]))"

definition next_totals :: "totals \<Rightarrow> segment \<Rightarrow> totals" where
  "next_totals t s =
     (if sourceIndex s = noIndex then t else
      \<lparr>t_sourceIndex = sourceIndex s, t_originalLine = originalLine s,
       t_originalColumn = originalColumn s,
       t_nameIndex = (if nameIndex s = noIndex then t_nameIndex t else nameIndex s)\<rparr>)"

definition encode_segment :: "totals \<Rightarrow> int \<Rightarrow> segment \<Rightarrow> string" where
  "encode_segment t column s = concat (map encodeVLQ (segment_fields t column s))"

fun encode_line :: "totals \<Rightarrow> int \<Rightarrow> segment list \<Rightarrow> string list" where
  "encode_line t column [] = []"
| "encode_line t column (s # rest) =
     encode_segment t column s # encode_line (next_totals t s) (generatedColumn s) rest"

fun encode_lines :: "totals \<Rightarrow> generatedLine list \<Rightarrow> string list" where
  "encode_lines t [] = []"
| "encode_lines t (l # ls) =
     Join (encode_line t 0 (segments l)) '','' # encode_lines (foldl next_totals t (segments l)) ls"

definition encodeMappings :: "generatedLine list \<Rightarrow> string" where
  "encodeMappings ls = Join (encode_lines no_totals ls) '';''"

definition index_ok :: "int \<Rightarrow> bool" where
  "index_ok i \<longleftrightarrow> 0 \<le> i \<and> i < 2 ^ 31"

definition segment_ok :: "segment \<Rightarrow> bool" where
  "segment_ok s \<longleftrightarrow> index_ok (generatedColumn s) \<and>
     (if sourceIndex s = noIndex then
        originalLine s = noIndex \<and> originalColumn s = noIndex \<and> nameIndex s = noIndex
      else index_ok (sourceIndex s) \<and> index_ok (originalLine s) \<and> index_ok (originalColumn s) \<and>
        (nameIndex s = noIndex \<or> index_ok (nameIndex s)))"

definition line_ok :: "generatedLine \<Rightarrow> bool" where
  "line_ok l \<longleftrightarrow> list_all segment_ok (segments l) \<and> sorted (map generatedColumn (segments l))"

definition totals_ok :: "totals \<Rightarrow> bool" where
  "totals_ok t \<longleftrightarrow> index_ok (t_sourceIndex t) \<and> index_ok (t_originalLine t) \<and>
     index_ok (t_originalColumn t) \<and> index_ok (t_nameIndex t)"

lemma encodeVLQ_not_Nil [simp]: "encodeVLQ v \<noteq> []"
  by (simp add: encodeVLQ_def vlq_digits.simps [of "nat _"])

lemma encodeVLQ_chars: "c \<in> set (encodeVLQ v) \<Longrightarrow> c \<noteq> CHR '','' \<and> c \<noteq> CHR '';''"
  using alphabet [OF vlq_digits_less] by (auto simp: encodeVLQ_def alphabet_ok_def)

lemma decodeSegment_loop_encode:
  assumes "\<forall>v\<in>set fs. \<bar>v\<bar> < 2 ^ 62"
  shows "decodeSegment_loop (pre @ concat (map encodeVLQ fs)) (length pre) acc = ok (acc @ fs)"
  using assms
proof (induction fs arbitrary: pre acc)
  case Nil
  then show ?case by (simp add: decodeSegment_loop.simps)
next
  case (Cons v fs)
  then have "decodeVLQ (pre @ encodeVLQ v @ concat (map encodeVLQ fs)) (length pre) = ok (v, length (encodeVLQ v))"
    by (intro decode_encode_VLQ) simp
  with Cons.IH [of "pre @ encodeVLQ v" "acc @ [v]"] Cons.prems show ?case
    by (subst decodeSegment_loop.simps) simp
qed

lemma decodeSegment_encode:
  assumes "segment_ok s" and "totals_ok t" and "index_ok column"
  shows "decodeSegment (encode_segment t column s) = ok (segment_fields t column s)"
  using decodeSegment_loop_encode [of "segment_fields t column s" "[]" "[]"] assms
  by (auto simp: decodeSegment_def encode_segment_def segment_fields_def segment_ok_def totals_ok_def
      index_ok_def noIndex_def abs_less_iff)

lemma int64_index: "index_ok i \<Longrightarrow> int64 i = i"
  by (rule int64_id) (auto simp: index_ok_def)

lemma add_fields_encode:
  assumes "segment_ok s"
  shows "add_fields (segment_fields t column s) (generatedColumn s) t = (s, next_totals t s)"
  using assms
  by (cases s; cases t) (auto simp: add_fields_def segment_fields_def next_totals_def segment_ok_def
      int64_index Let_def)

lemma next_totals_ok: "segment_ok s \<Longrightarrow> totals_ok t \<Longrightarrow> totals_ok (next_totals t s)"
  by (auto simp: segment_ok_def totals_ok_def next_totals_def)

lemma foldl_totals_ok: "list_all segment_ok segs \<Longrightarrow> totals_ok t \<Longrightarrow> totals_ok (foldl next_totals t segs)"
  by (induction segs arbitrary: t) (auto simp: next_totals_ok)

lemma encode_segment_not_Nil [simp]: "encode_segment t column s \<noteq> []"
  by (simp add: encode_segment_def segment_fields_def)

lemma encode_segment_chars: "c \<in> set (encode_segment t column s) \<Longrightarrow> c \<noteq> CHR '','' \<and> c \<noteq> CHR '';''"
  using encodeVLQ_chars by (auto simp: encode_segment_def)

lemma decodeLine_encode:
  assumes "list_all segment_ok segs" and "totals_ok t" and "index_ok column"
  shows "decodeLine (encode_line t column segs) column t acc = ok (acc @ segs, foldl next_totals t segs)"
  using assms
proof (induction segs arbitrary: t column acc)
  case (Cons s segs)
  then have "index_ok (generatedColumn s)" "totals_ok (next_totals t s)"
    by (auto simp: segment_ok_def next_totals_ok)
  moreover have "segment_fields t column s ! 0 = generatedColumn s - column"
    by (simp add: segment_fields_def)
  ultimately show ?case
    using Cons by (simp add: decodeSegment_encode add_fields_encode int64_index)
qed simp

lemma encode_line_chars:
  "w \<in> set (encode_line t column segs) \<Longrightarrow> w \<noteq> [] \<and> CHR '','' \<notin> set w \<and> CHR '';'' \<notin> set w"
  by (induction segs arbitrary: t column) (auto simp: dest: encode_segment_chars)

lemma set_Join: "set (Join ws sep) \<subseteq> (\<Union>w\<in>set ws. set w) \<union> set sep"
  by (induction ws sep rule: Join.induct) auto

lemma Join_Nil: "(\<And>w. w \<in> set ws \<Longrightarrow> w \<noteq> []) \<Longrightarrow> Join ws sep = [] \<longleftrightarrow> ws = []"
  by (induction ws sep rule: Join.induct) auto

lemma encode_line_Nil [simp]: "encode_line t column segs = [] \<longleftrightarrow> segs = []"
  by (cases segs) auto

lemma joined_line:
  "Join (encode_line t column segs) '','' = [] \<longleftrightarrow> segs = []"
  "CHR '';'' \<notin> set (Join (encode_line t column segs) '','')"
  "segs \<noteq> [] \<Longrightarrow> split_byte (CHR '','') (Join (encode_line t column segs) '','') = encode_line t column segs"
  using encode_line_chars set_Join [of "encode_line t column segs" "'',''"]
  by (auto simp: Join_Nil split_byte_Join)

lemma decodeLines_encode:
  assumes "list_all line_ok ls" and "totals_ok t"
  shows "decodeLines (encode_lines t ls) t = ok ls"
  using assms
proof (induction ls arbitrary: t)
  case (Cons l ls)
  then have l: "list_all segment_ok (segments l)" "sort_key generatedColumn (segments l) = segments l"
    by (auto simp: line_ok_def sort_key_id_if_sorted)
  with Cons have "decodeLines (encode_lines (foldl next_totals t (segments l)) ls)
      (foldl next_totals t (segments l)) = ok ls"
    by (simp add: foldl_totals_ok)
  with l Cons.prems show ?case
    by (cases "segments l = []")
       (auto simp: joined_line decodeLine_encode index_ok_def intro: generatedLine.equality)
qed simp

lemma encode_lines_chars: "w \<in> set (encode_lines t ls) \<Longrightarrow> CHR '';'' \<notin> set w"
  by (induction ls arbitrary: t) (auto simp: joined_line)

lemma decode_encodeMappings:
  assumes "list_all line_ok ls" and "ls \<noteq> [\<lparr>segments = []\<rparr>]"
  shows "decodeMappings (encodeMappings ls) = ok ls"
proof (cases "encodeMappings ls = []")
  case True
  have "ls = []"
  proof (rule ccontr)
    assume "ls \<noteq> []"
    then obtain l ls' where ls: "ls = l # ls'" by (cases ls) auto
    with True have "ls' = []" by (cases ls') (auto simp: encodeMappings_def)
    with True ls assms(2) show False
      by (cases l) (auto simp: encodeMappings_def joined_line)
  qed
  with True show ?thesis by (simp add: decodeMappings_def)
next
  case False
  then have "ls \<noteq> []" by (auto simp: encodeMappings_def)
  then have "encode_lines no_totals ls \<noteq> []" by (cases ls) auto
  then have "split_byte (CHR '';'') (encodeMappings ls) = encode_lines no_totals ls"
    unfolding encodeMappings_def by (rule split_byte_Join) (rule encode_lines_chars)
  with False decodeLines_encode [OF assms(1), of no_totals] show ?thesis
    by (simp add: decodeMappings_def totals_ok_def no_totals_def index_ok_def)
qed

subsection \<open>What a lookup finds\<close>

lemma sort_Search_loop_least:
  assumes "i \<le> j" and "\<And>k. k < i \<Longrightarrow> \<not> f k" and "\<And>k. j \<le> k \<Longrightarrow> k < n \<Longrightarrow> f k"
    and "\<And>k l. k \<le> l \<Longrightarrow> l < n \<Longrightarrow> f k \<Longrightarrow> f l" and "j \<le> n"
  shows "sort_Search_loop f i j \<le> n \<and> (\<forall>k. k < sort_Search_loop f i j \<longrightarrow> \<not> f k) \<and>
    (\<forall>k. sort_Search_loop f i j \<le> k \<and> k < n \<longrightarrow> f k)"
  using assms
proof (induction f i j rule: sort_Search_loop.induct)
  case (1 f i j)
  define h where "h = (i + j) div 2"
  show ?case
  proof (cases "i < j")
    case False
    with "1.prems" show ?thesis by (simp add: sort_Search_loop.simps [of f i j] sort_Search_loop.simps [of f j j])
  next
    case True
    then have h: "i \<le> h" "h < j" by (auto simp: h_def)
    show ?thesis
    proof (cases "f h")
      case t: True
      have "sort_Search_loop f i h \<le> n \<and> (\<forall>k. k < sort_Search_loop f i h \<longrightarrow> \<not> f k) \<and>
          (\<forall>k. sort_Search_loop f i h \<le> k \<and> k < n \<longrightarrow> f k)"
        by (rule "1.IH"(1) [OF True h_def])
           (use t h "1.prems" in \<open>auto intro: "1.prems"(4) [of h]\<close>)
      with True t show ?thesis by (simp add: sort_Search_loop.simps [of f i j] h_def)
    next
      case ff: False
      have below: "\<not> f k" if "k < h + 1" for k
        using ff h "1.prems"(4) [of k h] "1.prems"(5) that by auto
      have "sort_Search_loop f (h + 1) j \<le> n \<and> (\<forall>k. k < sort_Search_loop f (h + 1) j \<longrightarrow> \<not> f k) \<and>
          (\<forall>k. sort_Search_loop f (h + 1) j \<le> k \<and> k < n \<longrightarrow> f k)"
        by (rule "1.IH"(2) [OF True h_def])
           (use below h "1.prems" in auto)
      with True ff show ?thesis by (simp add: sort_Search_loop.simps [of f i j] h_def)
    qed
  qed
qed

lemma sort_Search_least:
  assumes "\<And>k l. k \<le> l \<Longrightarrow> l < n \<Longrightarrow> f k \<Longrightarrow> f l"
  shows "sort_Search n f \<le> n \<and> (\<forall>k < sort_Search n f. \<not> f k) \<and>
    (\<forall>k. sort_Search n f \<le> k \<and> k < n \<longrightarrow> f k)"
  unfolding sort_Search_def by (rule sort_Search_loop_least) (use assms in auto)

lemma search_last:
  fixes c :: int
  assumes "sorted (map generatedColumn segs)"
  defines "k \<equiv> sort_Search (length segs) (\<lambda>i. c < generatedColumn (segs ! i))"
  shows "find (\<lambda>s. generatedColumn s \<le> c) (rev segs) = (if k = 0 then None else Some (segs ! (k - 1)))
    \<and> k \<le> length segs"
proof -
  have mono: "c < generatedColumn (segs ! i) \<Longrightarrow> i \<le> j \<Longrightarrow> j < length segs \<Longrightarrow> c < generatedColumn (segs ! j)" for i j
    using sorted_nth_mono [OF assms(1), of i j] by simp
  have "k \<le> length segs \<and> (\<forall>i < k. \<not> c < generatedColumn (segs ! i)) \<and>
      (\<forall>i. k \<le> i \<and> i < length segs \<longrightarrow> c < generatedColumn (segs ! i))"
    unfolding k_def by (rule sort_Search_least) (rule mono)
  then have k: "k \<le> length segs" "\<And>i. i < k \<Longrightarrow> generatedColumn (segs ! i) \<le> c"
    "\<And>i. k \<le> i \<Longrightarrow> i < length segs \<Longrightarrow> c < generatedColumn (segs ! i)"
    by auto
  have "find (\<lambda>s. generatedColumn s \<le> c) (rev (drop k segs)) = None"
    using k(3) by (auto simp: find_None_prefix in_set_conv_nth not_le)
  then have "find (\<lambda>s. generatedColumn s \<le> c) (rev segs)
      = find (\<lambda>s. generatedColumn s \<le> c) (rev (take k segs))"
    by (metis append_take_drop_id find_append option.simps(4) rev_append)
  also have "\<dots> = (if k = 0 then None else Some (segs ! (k - 1)))"
  proof (cases k)
    case (Suc i)
    with k show ?thesis by (simp add: take_Suc_conv_app_nth)
  qed simp
  finally show ?thesis using k(1) by simp
qed

definition covering_segment :: "SourceMap \<Rightarrow> GeneratedPosition \<Rightarrow> segment option" where
  "covering_segment sm position =
     (if 0 \<le> gp_line position \<and> gp_line position < int (length (sm_lines sm))
      then find (\<lambda>s. generatedColumn s \<le> gp_column position)
        (rev (segments (sm_lines sm ! nat (gp_line position))))
      else None)"

definition original_frame :: "SourceMap \<Rightarrow> segment \<Rightarrow> ResolvedFrame option run" where
  "original_frame sm s =
     (if sourceIndex s = noIndex \<or> int (length (sources sm)) \<le> sourceIndex s then Returns None
      else if sourceIndex s < 0 then Panics ''index out of range''
      else let frame = \<lparr>rf_source = sources sm ! nat (sourceIndex s), rf_name = None,
             rf_originalLine = originalLine s, rf_originalColumn = originalColumn s\<rparr> in
        if nameIndex s = noIndex \<or> int (length (sm_names sm)) \<le> nameIndex s then Returns (Some frame)
        else if nameIndex s < 0 then Panics ''index out of range''
        else Returns (Some (frame\<lparr>rf_name := Some (sm_names sm ! nat (nameIndex s))\<rparr>)))"

lemma frame_of_chosen:
  "(if sourceIndex s = noIndex \<or> int (length (sources sm)) \<le> sourceIndex s then Returns None else
      bind_run (index_or_panic (sources sm) (sourceIndex s)) (\<lambda>source.
      let resolved = \<lparr>rf_source = source, rf_name = None, rf_originalLine = originalLine s,
            rf_originalColumn = originalColumn s\<rparr> in
      if nameIndex s \<noteq> noIndex \<and> nameIndex s < int (length (sm_names sm)) then
        bind_run (index_or_panic (sm_names sm) (nameIndex s)) (\<lambda>name.
        Returns (Some (resolved\<lparr>rf_name := Some name\<rparr>)))
      else Returns (Some resolved))) = original_frame sm s"
  by (simp add: original_frame_def index_or_panic_def bind_run_def Let_def not_less)

lemma LookupFrame_covering:
  assumes "list_all (\<lambda>l. sorted (map generatedColumn (segments l))) (sm_lines sm)"
  shows "LookupFrame sm position =
    (case covering_segment sm position of None \<Rightarrow> Returns None | Some s \<Rightarrow> original_frame sm s)"
proof (cases "0 \<le> gp_line position \<and> gp_line position < int (length (sm_lines sm))")
  case True
  define segs where "segs = segments (sm_lines sm ! nat (gp_line position))"
  define k where "k = sort_Search (length segs) (\<lambda>i. gp_column position < generatedColumn (segs ! i))"
  have "sorted (map generatedColumn segs)"
    using assms True by (simp add: segs_def list_all_length nat_less_iff)
  then have found: "find (\<lambda>s. generatedColumn s \<le> gp_column position) (rev segs)
      = (if k = 0 then None else Some (segs ! (k - 1)))" and k: "k \<le> length segs"
    unfolding k_def by (simp_all add: search_last)
  have "LookupFrame sm position = (if k = 0 then Returns None else original_frame sm (segs ! (k - 1)))"
    using True k unfolding LookupFrame_def Let_def frame_of_chosen [unfolded Let_def] segs_def [symmetric] k_def [symmetric]
    by auto
  with True found show ?thesis
    by (simp add: covering_segment_def segs_def [symmetric])
next
  case False
  then show ?thesis by (auto simp: LookupFrame_def covering_segment_def)
qed

lemma decodeLine_keeps: "decodeLines ws t = ok ls \<Longrightarrow> list_all (\<lambda>l. sorted (map generatedColumn (segments l))) ls"
  by (induction ws t arbitrary: ls rule: decodeLines.induct)
     (auto simp: result_simps split: if_splits)

lemma decodeMappings_sorted:
  "decodeMappings input = ok ls \<Longrightarrow> list_all (\<lambda>l. sorted (map generatedColumn (segments l))) ls"
  by (auto simp: decodeMappings_def decodeLine_keeps split: if_splits)

subsection \<open>Properties\<close>

definition source_map_of :: "string \<Rightarrow> string list \<Rightarrow> string list \<Rightarrow> string \<Rightarrow> rawSourceMap" where
  "source_map_of root srcs names mappings =
     \<lparr>raw_Version = 3, raw_SourceRoot = root, raw_Sources = srcs, raw_Names = names, raw_Mappings = mappings\<rparr>"

lemma ParseSourceMap_okD:
  "ParseSourceMap unmarshal payload = ok sm \<Longrightarrow>
   \<exists>raw. unmarshal payload = ok raw \<and> decodeMappings (raw_Mappings raw) = ok (sm_lines sm)"
  by (auto simp: ParseSourceMap_def result_simps split: if_splits sum.splits go_error.splits)

lemma original_frame_returns:
  "segment_ok s \<Longrightarrow> \<exists>f. original_frame sm s = Returns f"
  by (auto simp: original_frame_def segment_ok_def index_ok_def Let_def split: if_splits)

lemma covering_segment_in:
  "covering_segment sm position = Some s \<Longrightarrow> \<exists>l\<in>set (sm_lines sm). s \<in> set (segments l)"
  by (force simp: covering_segment_def nat_less_iff dest!: find_SomeD split: if_splits)

text \<open>
  C8. Mappings survive the trip through their text: for all lines of segments whose columns are
  sorted and whose positions fit 31 bits, decoding what the reference generator writes (deltas
  against the previous segment, in Base64-VLQ) gives the lines back, and looking up any position in
  the parsed map returns without a panic. The one list of lines that has no text of its own is the
  single empty line, which is written like no line at all.
\<close>

theorem mappings_roundtrip:
  assumes "list_all line_ok ls" and "ls \<noteq> [\<lparr>segments = []\<rparr>]" and "payload \<noteq> []"
    and "unmarshal payload = ok (source_map_of root srcs names (encodeMappings ls))"
  shows "\<exists>sm. ParseSourceMap unmarshal payload = ok sm \<and> sm_lines sm = ls \<and>
    length (sources sm) = length srcs \<and> sm_names sm = names \<and>
    (\<forall>position. \<exists>frame. LookupFrame sm position = Returns frame)"
proof -
  obtain sm where sm: "ParseSourceMap unmarshal payload = ok sm" "sm_lines sm = ls"
    "length (sources sm) = length srcs" "sm_names sm = names"
    using assms decode_encodeMappings [OF assms(1,2)]
    by (fastforce simp: ParseSourceMap_def source_map_of_def)
  have "\<exists>frame. LookupFrame sm position = Returns frame" for position
  proof (cases "covering_segment sm position")
    case (Some s)
    with assms(1) sm(2) have "segment_ok s"
      by (auto dest!: covering_segment_in simp: line_ok_def list_all_iff)
    with Some sm assms(1) show ?thesis
      by (auto simp: LookupFrame_covering line_ok_def list_all_iff dest: original_frame_returns)
  qed (use sm assms(1) in \<open>simp add: LookupFrame_covering line_ok_def list_all_iff\<close>)
  with sm show ?thesis by blast
qed

definition example_line :: generatedLine where
  "example_line = \<lparr>segments = [\<lparr>generatedColumn = 0, sourceIndex = noIndex, originalLine = noIndex,
     originalColumn = noIndex, nameIndex = noIndex\<rparr>, \<lparr>generatedColumn = 8, sourceIndex = 0,
     originalLine = 3, originalColumn = 17, nameIndex = 0\<rparr>]\<rparr>"

lemma decoded_example:
  "decodeMappings (encodeMappings [\<lparr>segments = []\<rparr>, example_line]) = ok [\<lparr>segments = []\<rparr>, example_line]"
  by (rule decode_encodeMappings) (simp_all add: line_ok_def example_line_def segment_ok_def index_ok_def noIndex_def)

theorem mappings_roundtrip_witness:
  "\<exists>sm. ParseSourceMap (\<lambda>_. ok (source_map_of [] [''a.ts''] [''f''] (encodeMappings [\<lparr>segments = []\<rparr>, example_line])))
      ''{}'' = ok sm \<and> sm_lines sm = [\<lparr>segments = []\<rparr>, example_line] \<and>
    length (sources sm) = length [''a.ts''] \<and> sm_names sm = [''f''] \<and>
    (\<forall>position. \<exists>frame. LookupFrame sm position = Returns frame)"
  by (rule mappings_roundtrip)
     (simp_all add: line_ok_def example_line_def segment_ok_def index_ok_def noIndex_def)

text \<open>
  C9. In every source map that parses, the binary search of a lookup is right: the answer is read off
  the last segment of the generated line that starts at or before the column (the last of several
  with the same column), and there is none when the line does not exist or no segment starts there.
  What the segment then gives is \<open>original_frame\<close>: nothing when it has no source, else the source
  with its line, column and name.
\<close>

theorem lookup_finds_last_segment:
  assumes "ParseSourceMap unmarshal payload = ok sm"
  shows "LookupFrame sm position =
    (case covering_segment sm position of None \<Rightarrow> Returns None | Some s \<Rightarrow> original_frame sm s)"
  using ParseSourceMap_okD [OF assms] by (auto intro: LookupFrame_covering decodeMappings_sorted)

theorem lookup_finds_last_segment_witness:
  "\<exists>sm. ParseSourceMap (\<lambda>_. ok (source_map_of [] [''a.ts''] [''f''] (encodeMappings [\<lparr>segments = []\<rparr>, example_line]))) ''{}'' = ok sm \<and>
    LookupFrame sm \<lparr>gp_line = 1, gp_column = 9\<rparr> =
      Returns (Some \<lparr>rf_source = ''a.ts'', rf_name = Some ''f'', rf_originalLine = 3, rf_originalColumn = 17\<rparr>)"
proof -
  define sm where "sm = \<lparr>sources = [''a.ts''], sm_names = [''f''], sm_lines = [\<lparr>segments = []\<rparr>, example_line]\<rparr>"
  have sm: "ParseSourceMap (\<lambda>_. ok (source_map_of [] [''a.ts''] [''f''] (encodeMappings [\<lparr>segments = []\<rparr>, example_line]))) ''{}'' =
      ok sm" by (simp add: ParseSourceMap_def source_map_of_def sm_def decoded_example)
  from lookup_finds_last_segment [OF this, of "\<lparr>gp_line = 1, gp_column = 9\<rparr>"] sm show ?thesis
    by (auto simp: covering_segment_def original_frame_def sm_def example_line_def noIndex_def)
qed

text \<open>
  A source map can make the lookup panic: the parser accepts a mapping whose source delta is
  \<open>- n\<close> for any \<open>n > 1\<close>, the segment gets the source index \<open>- n\<close>, and \<open>LookupFrame\<close> compares it only
  with \<open>noIndex\<close> and with the number of sources before it indexes the slice.
\<close>

definition negative_source_mapping :: "int \<Rightarrow> string" where
  "negative_source_mapping n = concat (map encodeVLQ [0, - n, 0, 0])"

theorem negative_source_index_panics:
  assumes "1 < n" and "n < 2 ^ 62" and "payload \<noteq> []"
  shows "\<exists>sm. ParseSourceMap (\<lambda>_. ok (source_map_of [] srcs names (negative_source_mapping n))) payload = ok sm \<and>
    LookupFrame sm \<lparr>gp_line = 0, gp_column = 0\<rparr> = Panics ''index out of range''"
proof -
  define seg where "seg = \<lparr>generatedColumn = 0, sourceIndex = - n, originalLine = 0, originalColumn = 0,
    nameIndex = noIndex\<rparr>"
  have chars: "CHR '';'' \<notin> set (negative_source_mapping n)" "CHR '','' \<notin> set (negative_source_mapping n)"
    by (auto simp: negative_source_mapping_def dest: encodeVLQ_chars)
  have "decodeSegment (negative_source_mapping n) = ok [0, - n, 0, 0]"
    using decodeSegment_loop_encode [of "[0, - n, 0, 0]" "[]" "[]"] assms
    by (simp add: decodeSegment_def negative_source_mapping_def)
  moreover have "int64 0 = 0" "int64 (- n) = - n" using assms by (simp_all add: int64_id)
  ultimately have "decodeMappings (negative_source_mapping n) = ok [\<lparr>segments = [seg]\<rparr>]"
    using chars by (simp add: decodeMappings_def split_byte_id add_fields_def Let_def no_totals_def
        seg_def negative_source_mapping_def)
  with assms(3) have "ParseSourceMap (\<lambda>_. ok (source_map_of [] srcs names (negative_source_mapping n))) payload
      = ok \<lparr>sources = srcs, sm_names = names, sm_lines = [\<lparr>segments = [seg]\<rparr>]\<rparr>"
    by (simp add: ParseSourceMap_def source_map_of_def)
  with assms show ?thesis
    by (auto simp: LookupFrame_covering covering_segment_def original_frame_def seg_def noIndex_def)
qed

theorem negative_source_index_panics_witness:
  "\<exists>sm. ParseSourceMap (\<lambda>_. ok (source_map_of [] [''a.ts''] [] (negative_source_mapping 2))) ''{}'' = ok sm \<and>
    LookupFrame sm \<lparr>gp_line = 0, gp_column = 0\<rparr> = Panics ''index out of range''"
  by (rule negative_source_index_panics) simp_all

end
