(* ===== verification/Outbound.thy ===== *)
theory Outbound
  imports GoStrings Actions
begin

unbundle bit_operations_syntax

text \<open>
  \<open>internal/app/outbound/url.go\<close>: which addresses a webhook or a monitor may reach.

  Of the standard library, \<open>net/netip\<close> is modelled (addresses, their classification and
  \<open>ParseAddr\<close>) and so is \<open>Hostname\<close> of \<open>net/url\<close>; \<open>url.Parse\<close>, whose treatment of hosts changed
  between releases of Go, is a parameter. DNS is the \<open>Resolver\<close> port.
\<close>

subsection \<open>IP addresses\<close>

text \<open>The zero \<open>netip.Addr\<close>, an IPv4 address and an IPv6 address with its zone, bytes in network order.\<close>

datatype Addr = NoAddr | V4 "8 word list" | V6 "8 word list" string

definition Is4In6 :: "Addr \<Rightarrow> bool" where
  "Is4In6 ip = (case ip of
     V6 b zone \<Rightarrow> take 10 b = replicate 10 0 \<and> b ! 10 = 0xFF \<and> b ! 11 = 0xFF | _ \<Rightarrow> False)"

definition Unmap :: "Addr \<Rightarrow> Addr" where
  "Unmap ip = (case ip of V6 b zone \<Rightarrow> if Is4In6 ip then V4 (drop 12 b) else ip | _ \<Rightarrow> ip)"

definition IPv4Unspecified :: Addr where "IPv4Unspecified = V4 [0, 0, 0, 0]"
definition IPv6Unspecified :: Addr where "IPv6Unspecified = V6 (replicate 16 0) []"

definition IsValid :: "Addr \<Rightarrow> bool" where
  "IsValid ip \<longleftrightarrow> ip \<noteq> NoAddr"

definition IsUnspecified :: "Addr \<Rightarrow> bool" where
  "IsUnspecified ip \<longleftrightarrow> ip = IPv4Unspecified \<or> ip = IPv6Unspecified"

definition IsLoopback :: "Addr \<Rightarrow> bool" where
  "IsLoopback ip = (case Unmap ip of
     V4 b \<Rightarrow> b ! 0 = 127 | V6 b zone \<Rightarrow> b = replicate 15 0 @ [1] | NoAddr \<Rightarrow> False)"

definition IsMulticast :: "Addr \<Rightarrow> bool" where
  "IsMulticast ip = (case Unmap ip of
     V4 b \<Rightarrow> b ! 0 AND 0xF0 = 0xE0 | V6 b zone \<Rightarrow> b ! 0 = 0xFF | NoAddr \<Rightarrow> False)"

definition IsLinkLocalUnicast :: "Addr \<Rightarrow> bool" where
  "IsLinkLocalUnicast ip = (case Unmap ip of
     V4 b \<Rightarrow> b ! 0 = 169 \<and> b ! 1 = 254 | V6 b zone \<Rightarrow> b ! 0 = 0xFE \<and> b ! 1 AND 0xC0 = 0x80 | NoAddr \<Rightarrow> False)"

definition IsPrivate :: "Addr \<Rightarrow> bool" where
  "IsPrivate ip = (case Unmap ip of
     V4 b \<Rightarrow> b ! 0 = 10 \<or> (b ! 0 = 172 \<and> b ! 1 AND 0xF0 = 16) \<or> (b ! 0 = 192 \<and> b ! 1 = 168)
   | V6 b zone \<Rightarrow> b ! 0 AND 0xFE = 0xFC | NoAddr \<Rightarrow> False)"

definition IsGlobalUnicast :: "Addr \<Rightarrow> bool" where
  "IsGlobalUnicast ip \<longleftrightarrow> ip \<noteq> NoAddr \<and>
     Unmap ip \<noteq> IPv4Unspecified \<and> Unmap ip \<noteq> V4 [255, 255, 255, 255] \<and>
     Unmap ip \<noteq> IPv6Unspecified \<and> \<not> IsLoopback ip \<and> \<not> IsMulticast ip \<and> \<not> IsLinkLocalUnicast ip"

text \<open>\<open>parseIPv4Fields\<close>: \<open>prev\<close> is the character before, \<open>digLen\<close> the digits of the current field.\<close>

fun parse_ipv4_fields :: "string \<Rightarrow> char option \<Rightarrow> nat \<Rightarrow> nat \<Rightarrow> 8 word list \<Rightarrow> 8 word list option" where
  "parse_ipv4_fields [] prev val digLen fields =
     (if length fields < 3 then None else Some (fields @ [of_nat val]))"
| "parse_ipv4_fields (c # s) prev val digLen fields =
     (if digit_byte c then
        let val' = val * 10 + (byte c - 48) in
        if digLen = 1 \<and> val = 0 then None
        else if 255 < val' then None
        else parse_ipv4_fields s (Some c) val' (digLen + 1) fields
      else if c = CHR ''.'' then
        if prev = None \<or> s = [] \<or> prev = Some (CHR ''.'') then None
        else if length fields = 3 then None
        else parse_ipv4_fields s (Some c) 0 0 (fields @ [of_nat val])
      else None)"

definition hex_digit_value :: "char \<Rightarrow> nat option" where
  "hex_digit_value c =
     (if 48 \<le> byte c \<and> byte c \<le> 57 then Some (byte c - 48)
      else if 97 \<le> byte c \<and> byte c \<le> 102 then Some (byte c - 87)
      else if 65 \<le> byte c \<and> byte c \<le> 70 then Some (byte c - 55) else None)"

text \<open>The loop of \<open>parseIPv6\<close> over the colon-separated fields: the unread text, the bytes so far and
the place of the ellipsis.\<close>

function parse_ipv6_loop ::
  "string \<Rightarrow> 8 word list \<Rightarrow> nat option \<Rightarrow> (string \<times> 8 word list \<times> nat option) option" where
  "parse_ipv6_loop s ip ellipsis =
     (if 16 \<le> length ip then Some (s, ip, ellipsis) else
      let digits = takeWhile (\<lambda>c. hex_digit_value c \<noteq> None) s; off = length digits;
          acc = foldl (\<lambda>acc c. acc * 16 + the (hex_digit_value c)) 0 digits;
          rest = drop off s in
      if 4 < off \<or> off = 0 then None
      else if rest \<noteq> [] \<and> hd rest = CHR ''.'' then
        if ellipsis = None \<and> length ip \<noteq> 12 then None
        else if 16 < length ip + 4 then None
        else (case parse_ipv4_fields s None 0 0 [] of None \<Rightarrow> None
              | Some fields \<Rightarrow> Some ([], ip @ fields, ellipsis))
      else
        let ip' = ip @ [of_nat (acc div 256), of_nat (acc mod 256)] in
        if rest = [] then Some ([], ip', ellipsis)
        else if hd rest \<noteq> CHR '':'' then None
        else if length rest = 1 then None
        else if hd (tl rest) = CHR '':'' then
          if ellipsis \<noteq> None then None
          else if tl (tl rest) = [] then Some ([], ip', Some (length ip'))
          else parse_ipv6_loop (tl (tl rest)) ip' (Some (length ip'))
        else parse_ipv6_loop (tl rest) ip' ellipsis)"
  by pat_completeness auto
termination by (relation "measure (\<lambda>(s, ip, e). 16 - length ip)") auto

declare parse_ipv6_loop.simps [simp del]

definition parse_ipv6 :: "string \<Rightarrow> Addr option" where
  "parse_ipv6 text =
     (let (s, zone) = (case cut_byte (CHR ''%'') text of None \<Rightarrow> (text, None) | Some (a, z) \<Rightarrow> (a, Some z)) in
      if zone = Some [] then None else
      let zoned = (\<lambda>b. V6 b (case zone of None \<Rightarrow> [] | Some z \<Rightarrow> z));
          leading = HasPrefix s ''::''; s' = (if leading then drop 2 s else s) in
      if leading \<and> s' = [] then Some (zoned (replicate 16 0)) else
      case parse_ipv6_loop s' [] (if leading then Some 0 else None) of None \<Rightarrow> None
      | Some (rest, ip, ellipsis) \<Rightarrow>
          if rest \<noteq> [] then None
          else if length ip < 16 then
            (case ellipsis of None \<Rightarrow> None
             | Some e \<Rightarrow> Some (zoned (take e ip @ replicate (16 - length ip) 0 @ drop e ip)))
          else if ellipsis \<noteq> None then None
          else Some (zoned ip))"

definition ParseAddr :: "string \<Rightarrow> Addr option" where
  "ParseAddr s =
     (case find (\<lambda>c. c \<in> {CHR ''.'', CHR '':'', CHR ''%''}) s of
        None \<Rightarrow> None
      | Some c \<Rightarrow>
          if c = CHR ''.'' then map_option V4 (parse_ipv4_fields s None 0 0 [])
          else if c = CHR '':'' then parse_ipv6 s
          else None)"

subsection \<open>URLs\<close>

text \<open>
  The parts of a parsed \<open>url.URL\<close> the code reads; \<open>URL_text\<close> is \<open>String()\<close> after the scheme and the
  host are set. \<open>url.Parse\<close> is a function into \<open>URL option\<close>.
\<close>

record URL =
  URL_Scheme :: string
  URL_hasUser :: bool
  URL_Host :: string
  URL_Fragment :: string
  URL_text :: "string \<Rightarrow> string \<Rightarrow> string"

type_synonym url_parser = "string \<Rightarrow> URL option"

definition validOptionalPort :: "string \<Rightarrow> bool" where
  "validOptionalPort port \<longleftrightarrow> port = [] \<or> (hd port = CHR '':'' \<and> list_all digit_byte (tl port))"

definition Hostname :: "URL \<Rightarrow> string" where
  "Hostname u =
     (let host = URL_Host u;
          port = rev (takeWhile (\<lambda>c. c \<noteq> CHR '':'') (rev host));
          stripped = (if CHR '':'' \<in> set host \<and> validOptionalPort (CHR '':'' # port)
            then take (length host - length port - 1) host else host)
      in if HasPrefix stripped ''['' \<and> HasSuffix stripped '']''
         then butlast (tl stripped) else stripped)"

record DestinationURL =
  dest_value :: string
  dest_host :: string

definition parseHostIP :: "string \<Rightarrow> Addr option" where
  "parseHostIP host = ParseAddr host"

definition allowedPublicAddr :: "Addr \<Rightarrow> bool" where
  "allowedPublicAddr addr \<longleftrightarrow> IsValid addr \<and> IsGlobalUnicast addr \<and> \<not> IsPrivate addr \<and>
     \<not> IsLoopback addr \<and> \<not> IsLinkLocalUnicast addr \<and> \<not> IsUnspecified addr"

definition blockedHostName :: "string \<Rightarrow> bool" where
  "blockedHostName host \<longleftrightarrow> host = ''localhost'' \<or> HasSuffix host ''.localhost'' \<or>
     host = ''metadata.google.internal''"

definition ParseDestinationURL :: "url_parser \<Rightarrow> string \<Rightarrow> DestinationURL result" where
  "ParseDestinationURL url_Parse input =
     (let value = TrimSpace input in
      if value = [] then fail ''destination url is required'' else
      case url_Parse value of None \<Rightarrow> fail ''destination url is invalid'' | Some parsed \<Rightarrow>
      let scheme = ToLower (URL_Scheme parsed) in
      if scheme \<noteq> ''http'' \<and> scheme \<noteq> ''https'' then fail ''destination url must use http or https''
      else if URL_hasUser parsed then fail ''destination url userinfo is not allowed''
      else if URL_Host parsed = [] \<or> Hostname parsed = [] then fail ''destination url host is required''
      else if Contains (URL_Host parsed) [CHR 0x5C] then fail ''destination url host is invalid''
      else if URL_Fragment parsed \<noteq> [] then fail ''destination url fragment is not allowed''
      else
      let host = ToLower (TrimSpace (Hostname parsed)) in
      if blockedHostName host then fail ''destination url host is not allowed''
      else if (case parseHostIP host of None \<Rightarrow> False | Some addr \<Rightarrow> \<not> allowedPublicAddr addr)
        then fail ''destination url host resolves to a private address''
      else ok \<lparr>dest_value = URL_text parsed scheme (ToLower (URL_Host parsed)), dest_host = host\<rparr>)"

text \<open>A nil resolver is \<open>None\<close>.\<close>

type_synonym 's Resolver = "(string \<Rightarrow> ('s, Addr list) action) option"

definition ValidateResolvedDestination ::
  "'s Resolver \<Rightarrow> DestinationURL \<Rightarrow> ('s, DestinationURL) action" where
  "ValidateResolvedDestination resolver destination =
     (if dest_value destination = [] \<or> dest_host destination = [] then afail ''destination url is required''
      else if parseHostIP (dest_host destination) \<noteq> None then areturn destination
      else case resolver of None \<Rightarrow> afail ''resolver is required'' | Some LookupHost \<Rightarrow>
        abind (LookupHost (dest_host destination)) (\<lambda>addresses.
        if addresses = [] then afail ''destination url host has no addresses''
        else if list_ex (\<lambda>address. \<not> allowedPublicAddr address) addresses
          then afail ''destination url host resolves to a private address''
        else areturn destination))"

definition ValidateDestination ::
  "url_parser \<Rightarrow> 's Resolver \<Rightarrow> string \<Rightarrow> ('s, DestinationURL) action" where
  "ValidateDestination url_Parse resolver input =
     abind (alift (ParseDestinationURL url_Parse input)) (ValidateResolvedDestination resolver)"

subsection \<open>Which addresses are allowed\<close>

text \<open>The networks that are kept out, in CIDR notation: a prefix and its length in bits.\<close>

definition byte_bits :: "8 word \<Rightarrow> bool list" where
  "byte_bits b = map (bit b) [7, 6, 5, 4, 3, 2, 1, 0]"

fun in_network :: "8 word list \<Rightarrow> nat \<Rightarrow> 8 word list \<Rightarrow> bool" where
  "in_network (p # ps) n (b # bs) =
     (if n < 8 then take n (byte_bits p) = take n (byte_bits b)
      else p = b \<and> in_network ps (n - 8) bs)"
| "in_network ps n bs = True"

definition internal_v4 :: "(8 word list \<times> nat) list" where
  "internal_v4 = [([127], 8), ([10], 8), ([172, 16], 12), ([192, 168], 16), ([169, 254], 16),
     ([224], 4), ([0, 0, 0, 0], 32), ([255, 255, 255, 255], 32)]"

definition internal_v6 :: "(8 word list \<times> nat) list" where
  "internal_v6 = [(replicate 15 0 @ [1], 128), ([0xFC], 7), ([0xFE, 0x80], 10), ([0xFF], 8)]"

definition public_address :: "Addr \<Rightarrow> bool" where
  "public_address addr = (case Unmap addr of
     NoAddr \<Rightarrow> False
   | V4 b \<Rightarrow> \<not> list_ex (\<lambda>(p, n). in_network p n b) internal_v4
   | V6 b zone \<Rightarrow> \<not> list_ex (\<lambda>(p, n). in_network p n b) internal_v6 \<and>
       (zone = [] \<longrightarrow> b \<noteq> replicate 16 0))"

definition addr_ok :: "Addr \<Rightarrow> bool" where
  "addr_ok addr = (case addr of NoAddr \<Rightarrow> True | V4 b \<Rightarrow> length b = 4 | V6 b zone \<Rightarrow> length b = 16)"

lemma byte_masks:
  fixes b :: "8 word"
  shows "take 4 (byte_bits 224) = take 4 (byte_bits b) \<longleftrightarrow> b AND 0xF0 = 0xE0"
    "take 4 (byte_bits 16) = take 4 (byte_bits b) \<longleftrightarrow> b AND 0xF0 = 16"
    "take 2 (byte_bits 0x80) = take 2 (byte_bits b) \<longleftrightarrow> b AND 0xC0 = 0x80"
    "take 7 (byte_bits 0xFC) = take 7 (byte_bits b) \<longleftrightarrow> b AND 0xFE = 0xFC"
proof -
  have eq: "x = y \<longleftrightarrow> (\<forall>n\<in>{0,1,2,3,4,5,6,7}. bit x n = bit y n)" for x y :: "8 word"
  proof
    assume all: "\<forall>n\<in>{0,1,2,3,4,5,6,7}. bit x n = bit y n"
    show "x = y"
    proof (rule bit_word_eqI)
      fix n assume "n < LENGTH(8)"
      then have "n \<in> {0,1,2,3,4,5,6,7}" by auto
      with all show "bit x n = bit y n" by blast
    qed
  qed simp
  show "take 4 (byte_bits 224) = take 4 (byte_bits b) \<longleftrightarrow> b AND 0xF0 = 0xE0"
    "take 4 (byte_bits 16) = take 4 (byte_bits b) \<longleftrightarrow> b AND 0xF0 = 16"
    "take 2 (byte_bits 0x80) = take 2 (byte_bits b) \<longleftrightarrow> b AND 0xC0 = 0x80"
    "take 7 (byte_bits 0xFC) = take 7 (byte_bits b) \<longleftrightarrow> b AND 0xFE = 0xFC"
    unfolding eq by (auto simp: byte_bits_def bit_and_iff)
qed


lemma Unmap_ok: "addr_ok addr \<Longrightarrow> addr_ok (Unmap addr)"
  by (auto simp: Unmap_def addr_ok_def split: Addr.splits)

lemma internal_v4_iff:
  assumes "length b = 4"
  shows "list_ex (\<lambda>(p, n). in_network p n b) internal_v4 \<longleftrightarrow>
    b ! 0 = 127 \<or> b ! 0 = 10 \<or> b ! 0 = 172 \<and> b ! 1 AND 0xF0 = 16 \<or> b ! 0 = 192 \<and> b ! 1 = 168 \<or>
    b ! 0 = 169 \<and> b ! 1 = 254 \<or> b ! 0 AND 0xF0 = 0xE0 \<or> b = [0, 0, 0, 0] \<or> b = [255, 255, 255, 255]"
proof -
  obtain b0 b1 b2 b3 where b: "b = [b0, b1, b2, b3]"
    using assms by (auto simp: numeral_eq_Suc length_Suc_conv)
  show ?thesis
    unfolding b internal_v4_def by (simp add: byte_masks eq_commute [of _ "b0"] eq_commute [of _ "b1"]
        eq_commute [of _ "b2"] eq_commute [of _ "b3"])
qed

lemma in_network_full:
  "length ps = length bs \<Longrightarrow> n = 8 * length ps \<Longrightarrow> in_network ps n bs \<longleftrightarrow> bs = ps"
  by (induction ps n bs rule: in_network.induct) (auto simp: numeral_eq_Suc)

lemma internal_v6_iff:
  assumes "length b = 16"
  shows "list_ex (\<lambda>(p, n). in_network p n b) internal_v6 \<longleftrightarrow>
    b = replicate 15 0 @ [1] \<or> b ! 0 AND 0xFE = 0xFC \<or> b ! 0 = 0xFE \<and> b ! 1 AND 0xC0 = 0x80 \<or> b ! 0 = 0xFF"
proof -
  obtain b0 b1 bs where b: "b = b0 # b1 # bs"
    using assms by (auto simp: numeral_eq_Suc length_Suc_conv)
  have "in_network (replicate 15 0 @ [1]) 128 b \<longleftrightarrow> b = replicate 15 0 @ [1]"
    by (rule in_network_full) (use assms in simp_all)
  then show ?thesis
    unfolding internal_v6_def using b
    by (simp add: byte_masks eq_commute [of _ "b0"] eq_commute [of _ "b1"])
qed

lemma allowed_iff_public:
  assumes "addr_ok addr"
  shows "allowedPublicAddr addr \<longleftrightarrow> public_address addr"
proof (cases "Unmap addr")
  case NoAddr
  then show ?thesis
    by (auto simp: Unmap_def allowedPublicAddr_def IsValid_def public_address_def split: Addr.splits if_splits)
next
  case (V4 b)
  with Unmap_ok [OF assms] have "length b = 4" by (simp add: addr_ok_def)
  moreover have "addr \<noteq> NoAddr" "addr = IPv4Unspecified \<Longrightarrow> b = [0, 0, 0, 0]" "addr \<noteq> IPv6Unspecified"
    using V4 by (auto simp: Unmap_def Is4In6_def IPv4Unspecified_def IPv6Unspecified_def split: if_splits)
  ultimately show ?thesis
    using V4 by (auto simp: allowedPublicAddr_def public_address_def internal_v4_iff IsGlobalUnicast_def
        IsPrivate_def IsLoopback_def IsMulticast_def IsLinkLocalUnicast_def IsUnspecified_def IsValid_def
        IPv4Unspecified_def IPv6Unspecified_def)
next
  case (V6 b zone)
  with Unmap_ok [OF assms] have "length b = 16" by (simp add: addr_ok_def)
  moreover have "addr = V6 b zone"
    using V6 by (auto simp: Unmap_def split: Addr.splits if_splits)
  ultimately show ?thesis
    using V6 by (auto simp: allowedPublicAddr_def public_address_def internal_v6_iff IsGlobalUnicast_def
        IsPrivate_def IsLoopback_def IsMulticast_def IsLinkLocalUnicast_def IsUnspecified_def IsValid_def
        IPv4Unspecified_def IPv6Unspecified_def)
qed

lemma parse_ipv4_fields_length:
  "parse_ipv4_fields s prev val digLen fs = Some bs \<Longrightarrow> length fs \<le> 3 \<Longrightarrow> length bs = 4"
  by (induction s prev val digLen fs rule: parse_ipv4_fields.induct)
     (auto simp: Let_def split: if_splits)

lemma parse_ipv6_loop_length:
  "parse_ipv6_loop s ip e = Some (rest, ip', e') \<Longrightarrow> even (length ip) \<Longrightarrow> length ip \<le> 16 \<Longrightarrow>
   (\<forall>i. e = Some i \<longrightarrow> i \<le> length ip) \<Longrightarrow>
   length ip' \<le> 16 \<and> (\<forall>i. e' = Some i \<longrightarrow> i \<le> length ip')"
proof (induction "16 - length ip" arbitrary: s ip e rest ip' e' rule: less_induct)
  case less
  have grow: "length ip + 2 \<le> 16" if "\<not> 16 \<le> length ip" using that less.prems(2) by presburger
  have IH: "length ip2 \<le> 16 \<and> (\<forall>i. e3 = Some i \<longrightarrow> i \<le> length ip2)"
    if "parse_ipv6_loop s2 (ip @ [x, y]) e2 = Some (r2, ip2, e3)" "\<not> 16 \<le> length ip"
      "\<forall>i. e2 = Some i \<longrightarrow> i \<le> length ip + 2" for s2 x y e2 r2 ip2 e3
    by (rule less.hyps [OF _ that(1)]) (use that less.prems grow in auto)
  from less.prems(1) show ?case
    apply (subst (asm) parse_ipv6_loop.simps)
    apply (simp add: Let_def split: if_split_asm option.split_asm)
    using less.prems grow parse_ipv4_fields_length by (auto dest: IH)
qed

lemma ParseAddr_ok: "ParseAddr s = Some addr \<Longrightarrow> addr_ok addr"
  using parse_ipv4_fields_length [of s None 0 0 "[]"]
  by (auto simp: ParseAddr_def addr_ok_def parse_ipv6_def Let_def
      dest!: parse_ipv6_loop_length split: if_splits option.splits)

lemma ValidateResolvedDestination_same:
  "ValidateResolvedDestination resolver d s = (ok d', t) \<Longrightarrow> d' = d"
  by (auto simp: ValidateResolvedDestination_def action_simps split: if_split_asm option.split_asm)

subsection \<open>Properties\<close>

text \<open>
  C11. The bit tests of \<open>allowedPublicAddr\<close> keep out exactly the internal networks: loopback, private,
  link-local and multicast ranges, the unspecified and the broadcast address, in IPv4, in IPv6 and for
  IPv4 addresses written as IPv6 ones (\<open>::ffff:10.0.0.1\<close>). Everything else is let through.
\<close>

theorem allowed_addresses_are_public:
  assumes "addr_ok addr"
  shows "allowedPublicAddr addr \<longleftrightarrow> public_address addr"
  using assms by (rule allowed_iff_public)

theorem allowed_addresses_are_public_witness:
  "\<not> allowedPublicAddr (V6 (replicate 10 0 @ [0xFF, 0xFF, 10, 0, 0, 1]) [])"
  using allowed_addresses_are_public [of "V6 (replicate 10 0 @ [0xFF, 0xFF, 10, 0, 0, 1]) []"]
  by (simp add: addr_ok_def public_address_def Unmap_def Is4In6_def internal_v4_def byte_bits_def numeral_eq_Suc)

lemma Contains_byte: "Contains s [c] \<longleftrightarrow> c \<in> set s"
  by (auto simp: Contains_def sublist_def in_set_conv_decomp)

text \<open>
  C12. A destination that passes validation is safe to reach, as far as the checks of the moment can
  tell: the input parses to an http or https URL without user information and without a fragment, whose
  host name is the host of the destination; the host is not one of the blocked names; when it is an
  address, the address is public; when it is a name, the resolver was asked for it and every address it
  answered is public. The URL that is kept is the parsed one, its scheme and host in lower case.
\<close>

theorem validated_destination_is_public:
  assumes "ValidateDestination url_Parse resolver input s = (ok d, t)"
  shows "(\<exists>parsed. url_Parse (TrimSpace input) = Some parsed \<and>
      (ToLower (URL_Scheme parsed) = ''http'' \<or> ToLower (URL_Scheme parsed) = ''https'') \<and>
      \<not> URL_hasUser parsed \<and> URL_Fragment parsed = [] \<and> Hostname parsed \<noteq> [] \<and>
      CHR 0x5C \<notin> set (URL_Host parsed) \<and>
      dest_host d = ToLower (TrimSpace (Hostname parsed)) \<and>
      dest_value d = URL_text parsed (ToLower (URL_Scheme parsed)) (ToLower (URL_Host parsed))) \<and>
    \<not> blockedHostName (dest_host d) \<and>
    (case ParseAddr (dest_host d) of
       Some addr \<Rightarrow> public_address addr
     | None \<Rightarrow> \<exists>LookupHost addresses. resolver = Some LookupHost \<and>
         LookupHost (dest_host d) s = (ok addresses, t) \<and> addresses \<noteq> [] \<and>
         (\<forall>addr\<in>set addresses. addr_ok addr \<longrightarrow> public_address addr))"
proof -
  from assms have parsed: "ParseDestinationURL url_Parse input = ok d"
    and resolved: "ValidateResolvedDestination resolver d s = (ok d, t)"
    by (auto simp: ValidateDestination_def action_simps dest: ValidateResolvedDestination_same)
  have url: "\<exists>parsed. url_Parse (TrimSpace input) = Some parsed \<and>
      (ToLower (URL_Scheme parsed) = ''http'' \<or> ToLower (URL_Scheme parsed) = ''https'') \<and>
      \<not> URL_hasUser parsed \<and> URL_Fragment parsed = [] \<and> Hostname parsed \<noteq> [] \<and>
      CHR 0x5C \<notin> set (URL_Host parsed) \<and>
      dest_host d = ToLower (TrimSpace (Hostname parsed)) \<and>
      dest_value d = URL_text parsed (ToLower (URL_Scheme parsed)) (ToLower (URL_Host parsed))"
    using parsed by (auto simp: ParseDestinationURL_def Let_def Contains_byte split: if_split_asm option.split_asm)
  have host: "\<not> blockedHostName (dest_host d) \<and>
      (\<forall>addr. ParseAddr (dest_host d) = Some addr \<longrightarrow> allowedPublicAddr addr)"
    using parsed by (auto simp: ParseDestinationURL_def Let_def parseHostIP_def
        split: if_split_asm option.split_asm)
  have "case ParseAddr (dest_host d) of
       Some addr \<Rightarrow> public_address addr
     | None \<Rightarrow> \<exists>LookupHost addresses. resolver = Some LookupHost \<and>
         LookupHost (dest_host d) s = (ok addresses, t) \<and> addresses \<noteq> [] \<and>
         (\<forall>addr\<in>set addresses. addr_ok addr \<longrightarrow> public_address addr)"
    using host resolved
    by (auto simp: ValidateResolvedDestination_def parseHostIP_def action_simps list_ex_iff
        dest: ParseAddr_ok iffD1 [OF allowed_iff_public] split: if_split_asm option.split_asm option.split)
  with url host show ?thesis by blast
qed

definition example_urls :: url_parser where
  "example_urls text =
     (if text = ''http://[::%25eth0]/'' then
        Some \<lparr>URL_Scheme = ''http'', URL_hasUser = False, URL_Host = ''[::%eth0]'', URL_Fragment = [],
          URL_text = (\<lambda>scheme host. ''http://[::%25eth0]/'')\<rparr>
      else if text = ''https://hooks.example/a'' then
        Some \<lparr>URL_Scheme = ''https'', URL_hasUser = False, URL_Host = ''hooks.example'', URL_Fragment = [],
          URL_text = (\<lambda>scheme host. ''https://hooks.example/a'')\<rparr>
      else None)"

lemma example_public_address: "allowedPublicAddr (V4 [8, 8, 8, 8])"
  by (simp add: allowed_iff_public addr_ok_def public_address_def Unmap_def internal_v4_def byte_bits_def)

lemma example_destination:
  "ParseDestinationURL example_urls ''https://hooks.example/a'' =
   ok \<lparr>dest_value = ''https://hooks.example/a'', dest_host = ''hooks.example''\<rparr>"
  by (simp add: ParseDestinationURL_def example_urls_def TrimSpace_graph graph_ascii_def Hostname_def
      ToLower_id lower_ascii_def Contains_def sublist_code HasPrefix_def HasSuffix_def suffix_to_prefix
      blockedHostName_def parseHostIP_def ParseAddr_def digit_byte_def)

theorem validated_destination_is_public_witness:
  "ValidateDestination example_urls (Some (\<lambda>_. areturn [V4 [8, 8, 8, 8]])) ''https://hooks.example/a'' () =
     (ok \<lparr>dest_value = ''https://hooks.example/a'', dest_host = ''hooks.example''\<rparr>, ()) \<and>
   (\<exists>parsed. example_urls ''https://hooks.example/a'' = Some parsed \<and> \<not> URL_hasUser parsed) \<and>
   \<not> blockedHostName ''hooks.example''"
proof -
  have run: "ValidateDestination example_urls (Some (\<lambda>_. areturn [V4 [8, 8, 8, 8]])) ''https://hooks.example/a'' () =
     (ok \<lparr>dest_value = ''https://hooks.example/a'', dest_host = ''hooks.example''\<rparr>, ())"
    apply (simp add: ValidateDestination_def example_destination abind_def alift_def areturn_def
        ValidateResolvedDestination_def parseHostIP_def ParseAddr_def digit_byte_def)
    by (simp add: example_public_address)
  have "TrimSpace ''https://hooks.example/a'' = ''https://hooks.example/a''"
    by (simp add: TrimSpace_graph graph_ascii_def)
  with validated_destination_is_public [OF run] run show ?thesis by auto
qed

text \<open>
  The unspecified address with a zone passes: \<open>IsUnspecified\<close> compares with the address that has
  none, and no other test covers it. A host such as \<open>[::%25eth0]\<close> is an address literal, so it is
  not looked up either, and the destination is accepted.
\<close>

theorem zoned_unspecified_address_passes:
  assumes "url_Parse ''http://[::%25eth0]/'' = Some \<lparr>URL_Scheme = ''http'', URL_hasUser = False,
      URL_Host = ''[::%eth0]'', URL_Fragment = [], URL_text = text\<rparr>"
    and "text ''http'' ''[::%eth0]'' \<noteq> []"
  shows "ParseAddr ''::%eth0'' = Some (V6 (replicate 16 0) ''eth0'') \<and>
    (\<exists>d. ValidateDestination url_Parse resolver ''http://[::%25eth0]/'' s = (ok d, s) \<and>
      dest_host d = ''::%eth0'')"
proof -
  have addr: "ParseAddr ''::%eth0'' = Some (V6 (replicate 16 0) ''eth0'')"
    by (simp add: ParseAddr_def parse_ipv6_def cut_byte_def HasPrefix_def)
  have differ: "replicate 16 0 \<noteq> replicate 15 0 @ [1::8 word]"
    by (simp add: numeral_eq_Suc)
  have "allowedPublicAddr (V6 (replicate 16 0) ''eth0'')"
    using differ by (simp add: allowed_iff_public addr_ok_def public_address_def Unmap_def Is4In6_def
        internal_v6_iff)
  with addr assms show ?thesis
    by (simp add: ValidateDestination_def ParseDestinationURL_def TrimSpace_graph graph_ascii_def
        Hostname_def validOptionalPort_def digit_byte_def ToLower_id lower_ascii_def Contains_def
        sublist_code HasPrefix_def HasSuffix_def suffix_to_prefix blockedHostName_def parseHostIP_def
        abind_def alift_def areturn_def ValidateResolvedDestination_def)
qed

theorem zoned_unspecified_address_passes_witness:
  "\<exists>d. ValidateDestination example_urls None ''http://[::%25eth0]/'' () = (ok d, ())"
  using zoned_unspecified_address_passes [of example_urls "\<lambda>scheme host. ''http://[::%25eth0]/''" None "()"]
  by (auto simp: example_urls_def)

end
