(* ===== verification/Monitors.thy ===== *)
theory Monitors
  imports Ids Outbound
begin

text \<open>
  \<open>internal/domain/uptime_monitor.go\<close>: kinds and states of monitors, their names, intervals, timeouts
  and graces, and the definitions of HTTP and heartbeat monitors. \<open>url.Parse\<close> is a parameter.
\<close>

type_synonym MonitorKind = string
type_synonym MonitorState = string
type_synonym StatusPageVisibility = string

definition MonitorKindHTTP :: MonitorKind where "MonitorKindHTTP = ''http''"
definition MonitorKindHeartbeat :: MonitorKind where "MonitorKindHeartbeat = ''heartbeat''"
definition MonitorStateUnknown :: MonitorState where "MonitorStateUnknown = ''unknown''"
definition MonitorStateUp :: MonitorState where "MonitorStateUp = ''up''"
definition MonitorStateDown :: MonitorState where "MonitorStateDown = ''down''"
definition StatusPageVisibilityPrivate :: StatusPageVisibility where "StatusPageVisibilityPrivate = ''private''"
definition StatusPageVisibilityPublic :: StatusPageVisibility where "StatusPageVisibilityPublic = ''public''"

lemmas monitor_state_defs = MonitorStateUnknown_def MonitorStateUp_def MonitorStateDown_def
lemmas monitor_kind_defs = MonitorKindHTTP_def MonitorKindHeartbeat_def

definition MonitorKind_Valid :: "MonitorKind \<Rightarrow> bool" where
  "MonitorKind_Valid kind \<longleftrightarrow> kind = MonitorKindHTTP \<or> kind = MonitorKindHeartbeat"

definition MonitorState_Valid :: "MonitorState \<Rightarrow> bool" where
  "MonitorState_Valid state \<longleftrightarrow>
     state = MonitorStateUnknown \<or> state = MonitorStateUp \<or> state = MonitorStateDown"

definition StatusPageVisibility_Valid :: "StatusPageVisibility \<Rightarrow> bool" where
  "StatusPageVisibility_Valid visibility \<longleftrightarrow>
     visibility = StatusPageVisibilityPrivate \<or> visibility = StatusPageVisibilityPublic"

definition ParseMonitorState :: "string \<Rightarrow> MonitorState result" where
  "ParseMonitorState input =
     (let state = ToLower (TrimSpace input) in
      if MonitorState_Valid state then ok state else fail ''monitor state is invalid'')"

definition ParseStatusPageVisibility :: "string \<Rightarrow> StatusPageVisibility result" where
  "ParseStatusPageVisibility input =
     (let visibility = ToLower (TrimSpace input) in
      if StatusPageVisibility_Valid visibility then ok visibility
      else fail ''status page visibility is invalid'')"

definition MonitorStateFromHTTPStatus :: "int \<Rightarrow> MonitorState" where
  "MonitorStateFromHTTPStatus statusCode =
     (if 200 \<le> statusCode \<and> statusCode < 400 then MonitorStateUp else MonitorStateDown)"

definition MonitorStateChanged :: "MonitorState \<Rightarrow> MonitorState \<Rightarrow> bool" where
  "MonitorStateChanged previous nxt \<longleftrightarrow> previous \<noteq> nxt"

subsection \<open>Validated values\<close>

datatype MonitorName = MonitorName (MonitorName_value: string)
datatype StatusPageName = StatusPageName (StatusPageName_value: string)
datatype MonitorInterval = MonitorInterval (MonitorInterval_value: duration)
datatype MonitorTimeout = MonitorTimeout (MonitorTimeout_value: duration)
datatype MonitorGrace = MonitorGrace (MonitorGrace_value: duration)

definition monitorNameMaxBytes :: nat where "monitorNameMaxBytes = 128"
definition statusPageNameMaxBytes :: nat where "statusPageNameMaxBytes = 128"
definition monitorMinInterval :: duration where "monitorMinInterval = minute"
definition monitorMaxInterval :: duration where "monitorMaxInterval = 24 * hour"
definition monitorMinTimeout :: duration where "monitorMinTimeout = second"
definition monitorMaxTimeout :: duration where "monitorMaxTimeout = 30 * second"
definition monitorMinGrace :: duration where "monitorMinGrace = minute"
definition monitorMaxGrace :: duration where "monitorMaxGrace = 24 * hour"

lemmas monitor_bounds = monitorMinInterval_def monitorMaxInterval_def monitorMinTimeout_def
  monitorMaxTimeout_def monitorMinGrace_def monitorMaxGrace_def

definition NewMonitorName :: "string \<Rightarrow> MonitorName result" where
  "NewMonitorName input =
     (let value = TrimSpace input in
      if value = [] then fail ''monitor name is required''
      else if \<not> ValidString value then fail ''monitor name must be valid utf-8''
      else if monitorNameMaxBytes < length value then fail ''monitor name is too long''
      else if list_ex IsControl (runes value) then fail ''monitor name must not contain control characters''
      else ok (MonitorName value))"

definition NewStatusPageName :: "string \<Rightarrow> StatusPageName result" where
  "NewStatusPageName input =
     (let value = TrimSpace input in
      if value = [] then fail ''status page name is required''
      else if \<not> ValidString value then fail ''status page name must be valid utf-8''
      else if statusPageNameMaxBytes < length value then fail ''status page name is too long''
      else if list_ex IsControl (runes value) then fail ''status page name must not contain control characters''
      else ok (StatusPageName value))"

definition NormalizeHTTPMonitorURL :: "url_parser \<Rightarrow> string \<Rightarrow> string result" where
  "NormalizeHTTPMonitorURL url_Parse input =
     (let value = TrimSpace input in
      if value = [] then fail ''monitor url is required'' else
      case url_Parse value of None \<Rightarrow> fail ''monitor url is invalid'' | Some parsed \<Rightarrow>
      let scheme = ToLower (URL_Scheme parsed) in
      if scheme \<noteq> ''http'' \<and> scheme \<noteq> ''https'' then fail ''monitor url must use http or https''
      else if URL_hasUser parsed then fail ''monitor url userinfo is not allowed''
      else if URL_Host parsed = [] \<or> Hostname parsed = [] then fail ''monitor url host is required''
      else if URL_Fragment parsed \<noteq> [] then fail ''monitor url fragment is not allowed''
      else ok (URL_text parsed scheme (ToLower (URL_Host parsed))))"

definition NewMonitorInterval :: "duration \<Rightarrow> MonitorInterval result" where
  "NewMonitorInterval interval =
     (if interval < monitorMinInterval then fail ''monitor interval must be at least 60 seconds''
      else if monitorMaxInterval < interval then fail ''monitor interval must be at most 24 hours''
      else ok (MonitorInterval interval))"

definition NewMonitorTimeout :: "duration \<Rightarrow> MonitorTimeout result" where
  "NewMonitorTimeout timeout =
     (if timeout < monitorMinTimeout then fail ''monitor timeout must be at least 1 second''
      else if monitorMaxTimeout < timeout then fail ''monitor timeout must be at most 30 seconds''
      else ok (MonitorTimeout timeout))"

definition NewMonitorGrace :: "duration \<Rightarrow> MonitorGrace result" where
  "NewMonitorGrace grace =
     (if grace < monitorMinGrace then fail ''monitor grace must be at least 60 seconds''
      else if monitorMaxGrace < grace then fail ''monitor grace must be at most 24 hours''
      else ok (MonitorGrace grace))"

record HTTPMonitorDefinition =
  hm_name :: MonitorName
  hm_url :: string
  hm_interval :: MonitorInterval
  hm_timeout :: MonitorTimeout

record HeartbeatMonitorDefinition =
  hb_name :: MonitorName
  hb_endpointID :: HeartbeatEndpointID
  hb_interval :: MonitorInterval
  hb_grace :: MonitorGrace

definition NewHTTPMonitorDefinition ::
  "url_parser \<Rightarrow> string \<Rightarrow> string \<Rightarrow> duration \<Rightarrow> duration \<Rightarrow> HTTPMonitorDefinition result" where
  "NewHTTPMonitorDefinition url_Parse name targetURL interval timeout =
     rbind (NewMonitorName name) (\<lambda>monitorName.
     rbind (NormalizeHTTPMonitorURL url_Parse targetURL) (\<lambda>monitorURL.
     rbind (NewMonitorInterval interval) (\<lambda>monitorInterval.
     rbind (NewMonitorTimeout timeout) (\<lambda>monitorTimeout.
     ok \<lparr>hm_name = monitorName, hm_url = monitorURL, hm_interval = monitorInterval,
         hm_timeout = monitorTimeout\<rparr>))))"

definition NewHeartbeatMonitorDefinition ::
  "string \<Rightarrow> string \<Rightarrow> duration \<Rightarrow> duration \<Rightarrow> HeartbeatMonitorDefinition result" where
  "NewHeartbeatMonitorDefinition name endpointID interval grace =
     rbind (NewMonitorName name) (\<lambda>monitorName.
     rbind (NewHeartbeatEndpointID endpointID) (\<lambda>heartbeatEndpointID.
     rbind (NewMonitorInterval interval) (\<lambda>monitorInterval.
     rbind (NewMonitorGrace grace) (\<lambda>monitorGrace.
     ok \<lparr>hb_name = monitorName, hb_endpointID = heartbeatEndpointID, hb_interval = monitorInterval,
         hb_grace = monitorGrace\<rparr>))))"

text \<open>A valid state is read back from its own text.\<close>

lemma ParseMonitorState_valid: "ParseMonitorState s = ok t \<Longrightarrow> MonitorState_Valid t"
  by (auto simp: ParseMonitorState_def Let_def split: if_split_asm)

lemma ParseMonitorState_id: "MonitorState_Valid s \<Longrightarrow> ParseMonitorState s = ok s"
  by (auto simp: ParseMonitorState_def MonitorState_Valid_def monitor_state_defs TrimSpace_graph
      graph_ascii_def ToLower_id lower_ascii_def)

end
