(* ===== verification/QuietSessions.thy ===== *)
theory QuietSessions
  imports IngestStore
begin

text \<open>
  Runs of sessions without interference, in the form the proofs of the later components use: what a
  step returned was computed from the database it began with, and the environment is kept.
\<close>

named_theorems quiet_runs \<open>what a successful step of a quiet session did\<close>

lemma statement_quietD [quiet_runs]:
  assumes "statement f s = (Inr v, t)" and "quiet (ses_env s)"
  shows "f (ses_db s) = Inr (v, ses_db t) \<and> ses_env t = ses_env s"
  using statement_okD [OF assms(1)] assms(2) by auto

lemma query_quietD [quiet_runs]:
  assumes "query f s = (Inr v, t)" and "quiet (ses_env s)"
  shows "f (ses_db s) = Inr v \<and> ses_db t = ses_db s \<and> ses_env t = ses_env s"
  using query_okD [OF assms(1)] assms(2) by auto

lemma randomUUID_quietD [quiet_runs]:
  assumes "randomUUID s = (Inr v, t)" and "quiet (ses_env s)"
  shows "ses_db t = ses_db s \<and> ses_env t = ses_env s"
  using randomUUID_okD [OF assms(1)] assms(2) by auto

lemma time_Now_quietD [quiet_runs]:
  assumes "time_Now s = (Inr v, t)" and "quiet (ses_env s)"
  shows "ses_db t = ses_db s \<and> ses_env t = ses_env s"
  using assms by (simp add: time_Now_eq)

text \<open>A statement on the pool commits on its own.\<close>

lemma pool_statement_quiet:
  assumes "pool_statement f s = (r, t)" and "quiet (ses_env s)"
  shows "ses_env t = ses_env s \<and>
    (case r of Inr v \<Rightarrow> f (ses_db s) = Inr (v, ses_db t) \<and> ses_base t = ses_db t
     | Inl e \<Rightarrow> ses_db t = ses_base s)"
  using assms
  by (auto simp: pool_statement_def split: prod.split_asm sum.split_asm
      dest: statement_okD statement_failD)

text \<open>Outside a transaction a session sees the committed database.\<close>

definition idle :: "'w Session \<Rightarrow> bool" where
  "idle s \<longleftrightarrow> ses_base s = ses_db s"

lemma idle_advance: "idle s \<Longrightarrow> idle (advance s)"
  by (simp add: idle_def advance_def Let_def)

lemma in_transaction_idle:
  fixes s t :: "'w Session"
  assumes "in_transaction body s = (r, t)" and "idle s"
  shows "idle t"
proof -
  have commit: "idle v" if "commit_tx u = (x, v)" for u v :: "'w Session" and x
    using that by (auto simp: commit_tx_def Let_def idle_def split: if_split_asm commit_outcome.split_asm)
  have start: "idle u" if "begin_tx s = (x, u)" for x u
    using that idle_advance [OF assms(2)] by (auto simp: begin_tx_def Let_def idle_def split: option.split_asm)
  have rollback: "idle (rollback_tx u)" for u :: "'w Session"
    by (simp add: rollback_tx_def Let_def idle_def)
  show ?thesis
    using assms(1) unfolding in_transaction_def abind_def areturn_def
    by (auto split: prod.split_asm sum.split_asm dest: start commit simp: rollback)
qed

text \<open>The sessions of the results below: no interference, and no transaction open.\<close>

definition session_ready :: "'w Session \<Rightarrow> bool" where
  "session_ready s \<longleftrightarrow> reliable (ses_env s) \<and> idle s"

lemma session_ready_quiet: "session_ready s \<Longrightarrow> quiet (ses_env s)"
  by (simp add: session_ready_def reliable_def)

lemma transaction_ready:
  assumes "evolves session_step body" and "session_ready s" and "in_transaction body s = (r, t)"
  shows "session_ready t \<and>
    (case r of
       Inl e \<Rightarrow> ses_db t = ses_db s
     | Inr v \<Rightarrow> \<exists>s1 t1. quiet (ses_env s1) \<and> ses_db s1 = ses_db s \<and> body s1 = (Inr v, t1) \<and>
         ses_db t = ses_db t1)"
  using in_transaction_cases [OF assms(1) _ assms(3)] in_transaction_idle [OF assms(3)] assms(2)
  by (cases r) (auto simp: session_ready_def dest: session_inv_quiet)

lemma pool_ready:
  assumes "pool_statement f s = (r, t)" and "session_ready s"
  shows "session_ready t \<and>
    (case r of Inl e \<Rightarrow> ses_db t = ses_db s | Inr v \<Rightarrow> f (ses_db s) = Inr (v, ses_db t))"
  using pool_statement_quiet [OF assms(1) session_ready_quiet [OF assms(2)]] assms
  by (cases r) (auto simp: session_ready_def idle_def pool_statement_def
      split: prod.split_asm sum.split_asm)

text \<open>What lies outside the database (the network, a clock) leaves the session ready and the
database as it is.\<close>

definition off_store :: "('w Session, 'a) action \<Rightarrow> bool" where
  "off_store m \<longleftrightarrow> evolves (\<lambda>s t. session_ready s \<longrightarrow> session_ready t \<and> ses_db t = ses_db s) m"

lemma off_storeD: "off_store m \<Longrightarrow> m s = (r, t) \<Longrightarrow> session_ready s \<Longrightarrow> session_ready t \<and> ses_db t = ses_db s"
  unfolding off_store_def by (drule evolvesD) auto

subsection \<open>Steps keep the environment\<close>

lemma evolves_steps_any:
  "evolves session_step (alift r)"
  "evolves session_step (areturn v)"
  "evolves session_step (afail e)"
  "evolves session_step (statement f)"
  "evolves session_step (query g)"
  "evolves session_step (scan_row row)"
  "evolves session_step time_Now"
  "evolves session_step randomUUID"
  by (intro store_intros preorder_any TrueI evolves_statement)+

lemma evolves_bind_any:
  "evolves session_step m \<Longrightarrow> (\<And>v. evolves session_step (f v)) \<Longrightarrow> evolves session_step (abind m f)"
  by (intro store_intros preorder_any)

lemmas session_steps = evolves_steps_any evolves_bind_any evolves_if evolves_case_option evolves_case_prod

end
