(* ===== verification/AuditLog.thy ===== *)
theory AuditLog
  imports QuietSessions
begin

text \<open>
  The audit log: \<open>internal/app/audit/audit.go\<close> and \<open>insertAuditEvent\<close> of
  \<open>internal/adapters/postgres/audit.go\<close>, which the operations on monitors, issues and tokens call
  inside their own transaction.
\<close>

type_synonym AuditAction = string

definition ActionBootstrap :: AuditAction where "ActionBootstrap = ''bootstrap''"
definition ActionAPITokenCreated :: AuditAction where "ActionAPITokenCreated = ''api_token_created''"
definition ActionAPITokenRevoked :: AuditAction where "ActionAPITokenRevoked = ''api_token_revoked''"
definition ActionIssueAssigned :: AuditAction where "ActionIssueAssigned = ''issue_assigned''"
definition ActionIssueCommentCreated :: AuditAction where "ActionIssueCommentCreated = ''issue_comment_created''"
definition ActionIssueStatusChanged :: AuditAction where "ActionIssueStatusChanged = ''issue_status_changed''"
definition ActionMonitorCreated :: AuditAction where "ActionMonitorCreated = ''monitor_created''"
definition ActionMonitorStateChanged :: AuditAction where "ActionMonitorStateChanged = ''monitor_state_changed''"
definition ActionStatusPageCreated :: AuditAction where "ActionStatusPageCreated = ''status_page_created''"
definition ActionImportRunCompleted :: AuditAction where "ActionImportRunCompleted = ''import_run_completed''"

lemmas audit_action_defs = ActionBootstrap_def ActionAPITokenCreated_def ActionAPITokenRevoked_def
  ActionIssueAssigned_def ActionIssueCommentCreated_def ActionIssueStatusChanged_def
  ActionMonitorCreated_def ActionMonitorStateChanged_def ActionStatusPageCreated_def
  ActionImportRunCompleted_def

definition AuditAction_Valid :: "AuditAction \<Rightarrow> bool" where
  "AuditAction_Valid action \<longleftrightarrow> action = ActionBootstrap \<or> action = ActionAPITokenCreated \<or>
     action = ActionAPITokenRevoked \<or> action = ActionIssueAssigned \<or> action = ActionIssueCommentCreated \<or>
     action = ActionIssueStatusChanged \<or> action = ActionMonitorCreated \<or>
     action = ActionMonitorStateChanged \<or> action = ActionStatusPageCreated \<or>
     action = ActionImportRunCompleted"

text \<open>The metadata is a map literal of the caller, given with its keys in order, as \<open>json.Marshal\<close>
writes them.\<close>

record auditEventInput =
  ai_OrganizationID :: string
  ai_ProjectID :: string
  ai_ActorID :: string
  ai_Action :: AuditAction
  ai_TargetType :: string
  ai_TargetID :: string
  ai_Metadata :: "(string \<times> string) list"

definition nullString :: "string \<Rightarrow> string option" where
  "nullString value = (if value = [] then None else Some value)"

definition optional_uuid :: "string option \<Rightarrow> bool" where
  "optional_uuid v = (case v of None \<Rightarrow> True | Some s \<Rightarrow> uuid_param s)"

definition operator_exists :: "string \<Rightarrow> DB \<Rightarrow> bool" where
  "operator_exists i d = list_ex (\<lambda>r. op_id r = i) (db_operators d)"

definition insert_audit :: "AuditRow \<Rightarrow> DB \<Rightarrow> (unit \<times> DB) result" where
  "insert_audit row d =
     rbind (check (list_all uuid_param [ae_id row, ae_organization_id row] \<and>
       list_all optional_uuid [ae_project_id row, ae_actor_operator_id row] \<and>
       list_all text_param [ae_action row, ae_target_type row, ae_target_id row] \<and>
       json_storable (ae_metadata row)) ''invalid input syntax'') (\<lambda>_.
     rbind (check (AuditAction_Valid (ae_action row)) ''violates check constraint audit_events_action_check'') (\<lambda>_.
     rbind (check (\<not> list_ex (\<lambda>r. ae_id r = ae_id row) (db_audit_events d))
       ''violates unique constraint audit_events_pkey'') (\<lambda>_.
     rbind (check (organization_exists (ae_organization_id row) d \<and>
       (case ae_project_id row of None \<Rightarrow> True | Some p \<Rightarrow> project_exists p d) \<and>
       (case ae_actor_operator_id row of None \<Rightarrow> True | Some a \<Rightarrow> operator_exists a d))
       ''violates foreign key constraint'') (\<lambda>_.
     ok ((), d\<lparr>db_audit_events := db_audit_events d @ [row]\<rparr>)))))"

definition insertAuditEvent :: "auditEventInput \<Rightarrow> ('w Session, unit) action" where
  "insertAuditEvent input =
     abind randomUUID (\<lambda>eventID.
     abind time_Now (\<lambda>now.
     statement (insert_audit
       \<lparr>ae_id = eventID, ae_organization_id = ai_OrganizationID input,
        ae_project_id = nullString (ai_ProjectID input),
        ae_actor_operator_id = nullString (ai_ActorID input),
        ae_action = ai_Action input, ae_target_type = ai_TargetType input,
        ae_target_id = ai_TargetID input,
        ae_metadata = JObject (map (\<lambda>(k, v). (k, JStr v)) (ai_Metadata input)),
        ae_created_at = timestamptz (UTC now)\<rparr>)))"

text \<open>The audit log is all it changes.\<close>

lemma insert_audit_tables:
  "insert_audit row d = ok (u, d') \<Longrightarrow> d' = d\<lparr>db_audit_events := db_audit_events d @ [row]\<rparr>"
  by (simp add: insert_audit_def rbind_eq_ok)

lemma evolves_insertAuditEvent:
  assumes "preorder_on_states R" and "\<And>row d. R d (d\<lparr>db_audit_events := db_audit_events d @ [row]\<rparr>)"
  shows "evolves (db_evolves R) (insertAuditEvent input)"
  unfolding insertAuditEvent_def
  by (intro store_intros assms(1) evolves_statement)
     (use assms(2) in \<open>auto dest: insert_audit_tables\<close>)

lemma evolves_insertAuditEvent_any: "evolves session_step (insertAuditEvent input)"
  by (intro evolves_insertAuditEvent preorder_any TrueI)

lemma insertAuditEvent_ok:
  assumes "insertAuditEvent input s = (Inr u, t)" and "quiet (ses_env s)"
  shows "ses_env t = ses_env s \<and> (\<exists>row. ses_db t = (ses_db s)\<lparr>db_audit_events := db_audit_events (ses_db s) @ [row]\<rparr>)"
  using assms unfolding insertAuditEvent_def abind_ok
  by (auto dest!: quiet_runs insert_audit_tables)

end
