(* ===== verification/Uptime.thy ===== *)
theory Uptime
  imports Monitors AuditLog
begin

text \<open>
  Uptime monitors: \<open>internal/app/uptime/uptime.go\<close> and its store
  \<open>internal/adapters/postgres/uptime.go\<close>. A monitor is claimed when its next check is due, the check
  or the missing heartbeat is recorded in a transaction, and a change of state opens or closes the
  incident of the monitor.
\<close>

definition seconds :: "int \<Rightarrow> duration" where
  "seconds n = int64 (n * second)"

definition maxCheckLimit :: int where "maxCheckLimit = 100"

record UptimeScope =
  us_OrganizationID :: OrganizationID
  us_ProjectID :: ProjectID

record CreateHTTPMonitorCommand =
  chm_Scope :: UptimeScope
  chm_ActorID :: string
  chm_Name :: string
  chm_URL :: string
  chm_IntervalSeconds :: int
  chm_TimeoutSeconds :: int

record CreateHeartbeatMonitorCommand =
  chb_Scope :: UptimeScope
  chb_ActorID :: string
  chb_Name :: string
  chb_IntervalSeconds :: int
  chb_GraceSeconds :: int

record HeartbeatCheckInCommand =
  hci_EndpointID :: string
  hci_CheckedAt :: gotime

record CheckDueCommand =
  cd_Now :: gotime
  cd_Limit :: int

record UptimeMutationResult =
  umr_MonitorID :: string
  umr_EndpointID :: string

record HTTPMonitorCheckTarget =
  ht_Scope :: UptimeScope
  ht_MonitorID :: MonitorID
  ht_URL :: DestinationURL
  ht_Timeout :: duration

record HeartbeatTimeoutTarget =
  hbt_Scope :: UptimeScope
  hbt_MonitorID :: MonitorID

record HTTPProbeResult =
  pr_statusCode :: int
  pr_duration :: duration

record HTTPCheckObservation =
  ob_Scope :: UptimeScope
  ob_MonitorID :: MonitorID
  ob_CheckedAt :: gotime
  ob_State :: MonitorState
  ob_StatusCode :: int
  ob_Duration :: duration
  ob_Error :: string

record HTTPCheckResult =
  cr_MonitorID :: string
  cr_PreviousState :: string
  cr_CurrentState :: string
  cr_IncidentOpened :: bool
  cr_IncidentClosed :: bool

record HeartbeatCheckInResult =
  hr_MonitorID :: string
  hr_PreviousState :: string
  hr_CurrentState :: string
  hr_IncidentClosed :: bool

record HeartbeatTimeoutObservation =
  to_Scope :: UptimeScope
  to_MonitorID :: MonitorID
  to_CheckedAt :: gotime
  to_Error :: string

record HeartbeatTimeoutResult =
  htr_MonitorID :: string
  htr_PreviousState :: string
  htr_CurrentState :: string
  htr_IncidentOpened :: bool
  htr_AlreadyDown :: bool
  htr_TimeoutRecorded :: bool

record CheckSummary =
  cs_Claimed :: int
  cs_Checked :: int
  cs_Up :: int
  cs_Down :: int
  cs_Failures :: int

subsection \<open>Statements\<close>

definition in_monitor_scope :: "UptimeScope \<Rightarrow> MonitorID \<Rightarrow> MonitorRow \<Rightarrow> bool" where
  "in_monitor_scope scope monitor r \<longleftrightarrow>
     um_organization_id r = OrganizationID_String (us_OrganizationID scope) \<and>
     um_project_id r = ProjectID_String (us_ProjectID scope) \<and>
     um_id r = MonitorID_String monitor"

definition scope_params :: "UptimeScope \<Rightarrow> bool" where
  "scope_params scope \<longleftrightarrow> uuid_param (OrganizationID_String (us_OrganizationID scope)) \<and>
     uuid_param (ProjectID_String (us_ProjectID scope))"

definition btrim :: "string \<Rightarrow> string" where
  "btrim s = (let space = (\<lambda>c. c = CHR '' '') in rev (dropWhile space (rev (dropWhile space s))))"

definition monitor_exists :: "string \<Rightarrow> DB \<Rightarrow> bool" where
  "monitor_exists i d = list_ex (\<lambda>r. um_id r = i) (db_monitors d)"

definition monitor_kind_shape :: "MonitorRow \<Rightarrow> bool" where
  "monitor_kind_shape r \<longleftrightarrow>
     (um_monitor_type r = ''http'' \<and> um_target_url r \<noteq> None \<and>
      um_heartbeat_endpoint_id r = None \<and> um_heartbeat_grace_seconds r = None) \<or>
     (um_monitor_type r = ''heartbeat'' \<and> um_target_url r = None \<and> um_heartbeat_endpoint_id r \<noteq> None \<and>
      (case um_heartbeat_grace_seconds r of None \<Rightarrow> False | Some g \<Rightarrow> 60 \<le> g \<and> g \<le> 86400))"

definition insert_monitor :: "MonitorRow \<Rightarrow> DB \<Rightarrow> (unit \<times> DB) result" where
  "insert_monitor row d =
     rbind (check (list_all uuid_param [um_id row, um_organization_id row, um_project_id row] \<and>
       optional_uuid (um_created_by_operator_id row) \<and> text_param (um_name row) \<and>
       list_all optional_text [um_target_url row, um_heartbeat_endpoint_id row]) ''invalid input syntax'') (\<lambda>_.
     rbind (check (1 \<le> RuneCountInString (btrim (um_name row)) \<and> RuneCountInString (btrim (um_name row)) \<le> 128 \<and>
       60 \<le> um_interval_seconds row \<and> um_interval_seconds row \<le> 86400 \<and>
       1 \<le> um_timeout_seconds row \<and> um_timeout_seconds row \<le> 30 \<and>
       MonitorState_Valid (um_current_state row) \<and> monitor_kind_shape row) ''violates check constraint'') (\<lambda>_.
     rbind (check (\<not> monitor_exists (um_id row) d \<and>
       \<not> list_ex (\<lambda>r. um_project_id r = um_project_id row \<and> um_name r = um_name row) (db_monitors d) \<and>
       \<not> list_ex (\<lambda>r. um_monitor_type r = ''heartbeat'' \<and> um_monitor_type row = ''heartbeat'' \<and>
           um_heartbeat_endpoint_id r = um_heartbeat_endpoint_id row) (db_monitors d))
       ''violates unique constraint'') (\<lambda>_.
     rbind (check (organization_exists (um_organization_id row) d \<and> project_exists (um_project_id row) d \<and>
       (case um_created_by_operator_id row of None \<Rightarrow> True | Some a \<Rightarrow> operator_exists a d))
       ''violates foreign key constraint'') (\<lambda>_.
     ok ((), d\<lparr>db_monitors := db_monitors d @ [row]\<rparr>)))))"

definition insert_check :: "MonitorCheckRow \<Rightarrow> DB \<Rightarrow> (unit \<times> DB) result" where
  "insert_check row d =
     rbind (check (list_all uuid_param [mc_id row, mc_organization_id row, mc_project_id row, mc_monitor_id row] \<and>
       list_all text_param [mc_status row, mc_error row]) ''invalid input syntax'') (\<lambda>_.
     rbind (check (mc_status row \<in> {''up'', ''down''} \<and>
       (case mc_http_status row of None \<Rightarrow> True | Some s \<Rightarrow> 100 \<le> s \<and> s \<le> 599) \<and> 0 \<le> mc_duration row)
       ''violates check constraint'') (\<lambda>_.
     rbind (check (\<not> list_ex (\<lambda>r. mc_id r = mc_id row) (db_monitor_checks d)) ''violates unique constraint'') (\<lambda>_.
     rbind (check (organization_exists (mc_organization_id row) d \<and> project_exists (mc_project_id row) d \<and>
       monitor_exists (mc_monitor_id row) d) ''violates foreign key constraint'') (\<lambda>_.
     ok ((), d\<lparr>db_monitor_checks := db_monitor_checks d @ [row]\<rparr>)))))"

text \<open>An update of the monitors in the scope; the result is the number of rows.\<close>

definition update_monitor ::
  "UptimeScope \<Rightarrow> MonitorID \<Rightarrow> (MonitorRow \<Rightarrow> MonitorRow) \<Rightarrow> DB \<Rightarrow> (nat \<times> DB) result" where
  "update_monitor scope monitor f d =
     rbind (check (scope_params scope \<and> uuid_param (MonitorID_String monitor)) ''invalid input syntax'') (\<lambda>_.
     rbind (check (list_all (\<lambda>r. in_monitor_scope scope monitor r \<longrightarrow> MonitorState_Valid (um_current_state (f r)))
       (db_monitors d)) ''violates check constraint'') (\<lambda>_.
     ok (length (filter (in_monitor_scope scope monitor) (db_monitors d)),
         d\<lparr>db_monitors := update_rows (in_monitor_scope scope monitor) f (db_monitors d)\<rparr>)))"

definition open_incident :: "string \<Rightarrow> IncidentRow \<Rightarrow> bool" where
  "open_incident monitor r \<longleftrightarrow> mi_monitor_id r = monitor \<and> mi_resolved_at r = None"

definition insert_incident :: "IncidentRow \<Rightarrow> DB \<Rightarrow> (unit \<times> DB) result" where
  "insert_incident row d =
     rbind (check (list_all uuid_param [mi_id row, mi_organization_id row, mi_project_id row, mi_monitor_id row] \<and>
       optional_uuid (mi_last_check_id row) \<and> text_param (mi_reason row)) ''invalid input syntax'') (\<lambda>_.
     rbind (check (\<not> list_ex (\<lambda>r. mi_id r = mi_id row) (db_monitor_incidents d) \<and>
       (mi_resolved_at row = None \<longrightarrow> \<not> list_ex (open_incident (mi_monitor_id row)) (db_monitor_incidents d)))
       ''violates unique constraint'') (\<lambda>_.
     rbind (check (organization_exists (mi_organization_id row) d \<and> project_exists (mi_project_id row) d \<and>
       monitor_exists (mi_monitor_id row) d \<and>
       (case mi_last_check_id row of None \<Rightarrow> True | Some c \<Rightarrow> list_ex (\<lambda>r. mc_id r = c) (db_monitor_checks d)))
       ''violates foreign key constraint'') (\<lambda>_.
     ok ((), d\<lparr>db_monitor_incidents := db_monitor_incidents d @ [row]\<rparr>))))"

definition close_incidents :: "string \<Rightarrow> gotime \<Rightarrow> string \<Rightarrow> DB \<Rightarrow> (nat \<times> DB) result" where
  "close_incidents monitor checkedAt checkID d =
     rbind (check (uuid_param monitor \<and> uuid_param checkID) ''invalid input syntax'') (\<lambda>_.
     rbind (check (list_all (\<lambda>r. open_incident monitor r \<longrightarrow> list_ex (\<lambda>c. mc_id c = checkID) (db_monitor_checks d))
       (db_monitor_incidents d)) ''violates foreign key constraint'') (\<lambda>_.
     ok (length (filter (open_incident monitor) (db_monitor_incidents d)),
         d\<lparr>db_monitor_incidents := update_rows (open_incident monitor)
           (\<lambda>r. r\<lparr>mi_resolved_at := Some (timestamptz checkedAt), mi_last_check_id := Some checkID\<rparr>)
           (db_monitor_incidents d)\<rparr>)))"

subsection \<open>Creating monitors\<close>

definition monitor_audit :: "UptimeScope \<Rightarrow> string \<Rightarrow> AuditAction \<Rightarrow> string \<Rightarrow> (string \<times> string) list \<Rightarrow> auditEventInput" where
  "monitor_audit scope actor action target metadata =
     \<lparr>ai_OrganizationID = OrganizationID_String (us_OrganizationID scope),
      ai_ProjectID = ProjectID_String (us_ProjectID scope), ai_ActorID = actor, ai_Action = action,
      ai_TargetType = ''uptime_monitor'', ai_TargetID = target, ai_Metadata = metadata\<rparr>"

definition createHTTPMonitorInTx ::
  "CreateHTTPMonitorCommand \<Rightarrow> HTTPMonitorDefinition \<Rightarrow> ('w Session, string) action" where
  "createHTTPMonitorInTx command definition =
     abind randomUUID (\<lambda>monitorID.
     abind time_Now (\<lambda>now.
     abind (statement (insert_monitor
       \<lparr>um_id = monitorID, um_organization_id = OrganizationID_String (us_OrganizationID (chm_Scope command)),
        um_project_id = ProjectID_String (us_ProjectID (chm_Scope command)),
        um_monitor_type = MonitorKindHTTP, um_name = MonitorName_value (hm_name definition),
        um_target_url = Some (hm_url definition), um_heartbeat_endpoint_id = None,
        um_interval_seconds = go_div (MonitorInterval_value (hm_interval definition)) second,
        um_timeout_seconds = go_div (MonitorTimeout_value (hm_timeout definition)) second,
        um_heartbeat_grace_seconds = None, um_enabled = True, um_current_state = ''unknown'',
        um_last_checked_at = None, um_last_check_in_at = None, um_next_check_at = timestamptz (UTC now),
        um_check_lease_until = None, um_created_by_operator_id = Some (chm_ActorID command),
        um_created_at = timestamptz (UTC now), um_updated_at = timestamptz (UTC now)\<rparr>)) (\<lambda>_.
     areturn monitorID)))"

definition Store_CreateHTTPMonitor ::
  "url_parser \<Rightarrow> CreateHTTPMonitorCommand \<Rightarrow> ('w Session, UptimeMutationResult) action" where
  "Store_CreateHTTPMonitor url_Parse command =
     abind (alift (NewHTTPMonitorDefinition url_Parse (chm_Name command) (chm_URL command)
       (seconds (chm_IntervalSeconds command)) (seconds (chm_TimeoutSeconds command)))) (\<lambda>definition.
     in_transaction (
       abind (createHTTPMonitorInTx command definition) (\<lambda>monitorID.
       abind (insertAuditEvent (monitor_audit (chm_Scope command) (chm_ActorID command) ActionMonitorCreated monitorID
         [(''name'', MonitorName_value (hm_name definition)), (''type'', MonitorKindHTTP),
          (''url'', hm_url definition)])) (\<lambda>_.
       areturn \<lparr>umr_MonitorID = monitorID, umr_EndpointID = []\<rparr>))))"

definition createHeartbeatMonitorInTx ::
  "CreateHeartbeatMonitorCommand \<Rightarrow> ('w Session, string \<times> string) action" where
  "createHeartbeatMonitorInTx command =
     abind randomUUID (\<lambda>monitorID.
     abind randomUUID (\<lambda>endpointID.
     abind (alift (NewHeartbeatMonitorDefinition (chb_Name command) endpointID
       (seconds (chb_IntervalSeconds command)) (seconds (chb_GraceSeconds command)))) (\<lambda>definition.
     abind time_Now (\<lambda>now.
     let nextCheckAt = UTC now + MonitorInterval_value (hb_interval definition) + MonitorGrace_value (hb_grace definition) in
     abind (statement (insert_monitor
       \<lparr>um_id = monitorID, um_organization_id = OrganizationID_String (us_OrganizationID (chb_Scope command)),
        um_project_id = ProjectID_String (us_ProjectID (chb_Scope command)),
        um_monitor_type = MonitorKindHeartbeat, um_name = MonitorName_value (hb_name definition),
        um_target_url = None,
        um_heartbeat_endpoint_id = Some (HeartbeatEndpointID_String (hb_endpointID definition)),
        um_interval_seconds = go_div (MonitorInterval_value (hb_interval definition)) second,
        um_timeout_seconds = 1,
        um_heartbeat_grace_seconds = Some (go_div (MonitorGrace_value (hb_grace definition)) second),
        um_enabled = True, um_current_state = ''unknown'',
        um_last_checked_at = None, um_last_check_in_at = None, um_next_check_at = timestamptz nextCheckAt,
        um_check_lease_until = None, um_created_by_operator_id = Some (chb_ActorID command),
        um_created_at = timestamptz (UTC now), um_updated_at = timestamptz (UTC now)\<rparr>)) (\<lambda>_.
     areturn (monitorID, HeartbeatEndpointID_String (hb_endpointID definition)))))))"

definition Store_CreateHeartbeatMonitor ::
  "CreateHeartbeatMonitorCommand \<Rightarrow> ('w Session, UptimeMutationResult) action" where
  "Store_CreateHeartbeatMonitor command = in_transaction (
     abind (createHeartbeatMonitorInTx command) (\<lambda>(monitorID, endpointID).
     abind (insertAuditEvent (monitor_audit (chb_Scope command) (chb_ActorID command) ActionMonitorCreated monitorID
       [(''endpoint_id'', endpointID), (''name'', chb_Name command), (''type'', MonitorKindHeartbeat)])) (\<lambda>_.
     areturn \<lparr>umr_MonitorID = monitorID, umr_EndpointID = endpointID\<rparr>)))"

subsection \<open>Claiming monitors that are due\<close>

text \<open>
  The claim is one statement. The order among rows with the same \<open>next_check_at\<close> is not determined by
  the query, here it is that of the table; rows that another transaction has locked at the moment are
  skipped by the query, the model has none.
\<close>

definition monitorCheckLease :: duration where "monitorCheckLease = 5 * minute"

definition monitor_due :: "MonitorKind \<Rightarrow> gotime \<Rightarrow> MonitorRow \<Rightarrow> bool" where
  "monitor_due kind now r \<longleftrightarrow> um_enabled r \<and> um_monitor_type r = kind \<and> um_next_check_at r \<le> now \<and>
     (case um_check_lease_until r of None \<Rightarrow> True | Some lease \<Rightarrow> lease \<le> now)"

definition due_monitors :: "MonitorKind \<Rightarrow> gotime \<Rightarrow> int \<Rightarrow> DB \<Rightarrow> MonitorRow list" where
  "due_monitors kind now limit d =
     take (nat limit) (sort_key um_next_check_at (filter (monitor_due kind now) (db_monitors d)))"

definition claim_monitors ::
  "MonitorKind \<Rightarrow> gotime \<Rightarrow> int \<Rightarrow> gotime \<Rightarrow> DB \<Rightarrow> (MonitorRow list \<times> DB) result" where
  "claim_monitors kind now limit lease d =
     rbind (check (0 \<le> limit) ''LIMIT must not be negative'') (\<lambda>_.
     let due = due_monitors kind (timestamptz now) limit d
     in ok (due, d\<lparr>db_monitors := update_rows (\<lambda>r. um_id r \<in> set (map um_id due))
       (\<lambda>r. r\<lparr>um_check_lease_until := Some (timestamptz lease)\<rparr>) (db_monitors d)\<rparr>))"

definition scanHTTPMonitorCheckTarget :: "url_parser \<Rightarrow> MonitorRow \<Rightarrow> HTTPMonitorCheckTarget result" where
  "scanHTTPMonitorCheckTarget url_Parse row =
     (case um_target_url row of None \<Rightarrow> fail ''cannot scan NULL into *string'' | Some targetURLText \<Rightarrow>
      rbind (NewMonitorID (um_id row)) (\<lambda>monitorID.
      rbind (NewOrganizationID (um_organization_id row)) (\<lambda>organizationID.
      rbind (NewProjectID (um_project_id row)) (\<lambda>projectID.
      rbind (ParseDestinationURL url_Parse targetURLText) (\<lambda>destination.
      rbind (NewMonitorTimeout (seconds (um_timeout_seconds row))) (\<lambda>timeout.
      ok \<lparr>ht_Scope = \<lparr>us_OrganizationID = organizationID, us_ProjectID = projectID\<rparr>,
          ht_MonitorID = monitorID, ht_URL = destination, ht_Timeout = MonitorTimeout_value timeout\<rparr>))))))"

definition scanHeartbeatTimeoutTarget :: "MonitorRow \<Rightarrow> HeartbeatTimeoutTarget result" where
  "scanHeartbeatTimeoutTarget row =
     rbind (NewMonitorID (um_id row)) (\<lambda>monitorID.
     rbind (NewOrganizationID (um_organization_id row)) (\<lambda>organizationID.
     rbind (NewProjectID (um_project_id row)) (\<lambda>projectID.
     ok \<lparr>hbt_Scope = \<lparr>us_OrganizationID = organizationID, us_ProjectID = projectID\<rparr>,
         hbt_MonitorID = monitorID\<rparr>)))"

definition ClaimDueHTTPMonitors ::
  "url_parser \<Rightarrow> gotime \<Rightarrow> int \<Rightarrow> ('w Session, HTTPMonitorCheckTarget list) action" where
  "ClaimDueHTTPMonitors url_Parse now limit =
     abind (pool_statement (claim_monitors ''http'' now limit (now + monitorCheckLease))) (\<lambda>rows.
     alift (collect (scanHTTPMonitorCheckTarget url_Parse) rows))"

definition ClaimOverdueHeartbeatMonitors ::
  "gotime \<Rightarrow> int \<Rightarrow> ('w Session, HeartbeatTimeoutTarget list) action" where
  "ClaimOverdueHeartbeatMonitors now limit =
     abind (pool_statement (claim_monitors ''heartbeat'' now limit (now + monitorCheckLease))) (\<lambda>rows.
     alift (collect scanHeartbeatTimeoutTarget rows))"

subsection \<open>Recording checks\<close>

record monitorPersistenceState =
  ps_currentState :: MonitorState
  ps_intervalSeconds :: int
  ps_heartbeatGraceSeconds :: int

record heartbeatPersistenceState =
  hs_scope :: UptimeScope
  hs_monitorID :: MonitorID
  hs_currentState :: MonitorState
  hs_intervalSeconds :: int
  hs_heartbeatGraceSeconds :: int

definition lockMonitorState :: "HTTPCheckObservation \<Rightarrow> ('w Session, monitorPersistenceState) action" where
  "lockMonitorState observation =
     abind (query (\<lambda>d. rbind (check (scope_params (ob_Scope observation) \<and>
         uuid_param (MonitorID_String (ob_MonitorID observation))) ''invalid input syntax'') (\<lambda>_.
       ok (find (in_monitor_scope (ob_Scope observation) (ob_MonitorID observation)) (db_monitors d))))) (\<lambda>row.
     abind (scan_row row) (\<lambda>r.
     abind (alift (ParseMonitorState (um_current_state r))) (\<lambda>state.
     areturn \<lparr>ps_currentState = state, ps_intervalSeconds = um_interval_seconds r,
       ps_heartbeatGraceSeconds = (case um_heartbeat_grace_seconds r of None \<Rightarrow> 0 | Some g \<Rightarrow> g)\<rparr>)))"

definition lockHeartbeatMonitorStateByEndpoint ::
  "string \<Rightarrow> ('w Session, heartbeatPersistenceState) action" where
  "lockHeartbeatMonitorStateByEndpoint endpointID =
     abind (query (\<lambda>d. rbind (check (text_param endpointID) ''invalid byte sequence for encoding'') (\<lambda>_.
       ok (find (\<lambda>r. um_monitor_type r = ''heartbeat'' \<and> um_heartbeat_endpoint_id r = Some endpointID \<and> um_enabled r)
         (db_monitors d))))) (\<lambda>row.
     abind (scan_row row) (\<lambda>r.
     case um_heartbeat_grace_seconds r of None \<Rightarrow> afail ''cannot scan NULL into *int'' | Some grace \<Rightarrow>
     abind (alift (NewMonitorID (um_id r))) (\<lambda>monitorID.
     abind (alift (NewOrganizationID (um_organization_id r))) (\<lambda>organizationID.
     abind (alift (NewProjectID (um_project_id r))) (\<lambda>projectID.
     abind (alift (ParseMonitorState (um_current_state r))) (\<lambda>state.
     areturn \<lparr>hs_scope = \<lparr>us_OrganizationID = organizationID, us_ProjectID = projectID\<rparr>,
       hs_monitorID = monitorID, hs_currentState = state, hs_intervalSeconds = um_interval_seconds r,
       hs_heartbeatGraceSeconds = grace\<rparr>))))))"

definition nullableHTTPStatus :: "int \<Rightarrow> int option" where
  "nullableHTTPStatus statusCode = (if statusCode \<le> 0 then None else Some statusCode)"

definition insertMonitorCheck :: "HTTPCheckObservation \<Rightarrow> ('w Session, string) action" where
  "insertMonitorCheck observation =
     abind randomUUID (\<lambda>checkID.
     abind (statement (insert_check
       \<lparr>mc_id = checkID, mc_organization_id = OrganizationID_String (us_OrganizationID (ob_Scope observation)),
        mc_project_id = ProjectID_String (us_ProjectID (ob_Scope observation)),
        mc_monitor_id = MonitorID_String (ob_MonitorID observation), mc_status = ob_State observation,
        mc_http_status = nullableHTTPStatus (ob_StatusCode observation), mc_duration = ob_Duration observation,
        mc_error = ob_Error observation, mc_checked_at = timestamptz (ob_CheckedAt observation)\<rparr>)) (\<lambda>_.
     areturn checkID))"

definition updateMonitorAfterCheck :: "HTTPCheckObservation \<Rightarrow> int \<Rightarrow> ('w Session, unit) action" where
  "updateMonitorAfterCheck observation intervalSeconds =
     (let nextCheckAt = ob_CheckedAt observation + seconds intervalSeconds in
      abind (statement (update_monitor (ob_Scope observation) (ob_MonitorID observation) (\<lambda>r.
        r\<lparr>um_current_state := ob_State observation, um_last_checked_at := Some (timestamptz (ob_CheckedAt observation)),
          um_next_check_at := timestamptz nextCheckAt, um_check_lease_until := None,
          um_updated_at := timestamptz (ob_CheckedAt observation)\<rparr>))) (\<lambda>rowsAffected.
      if rowsAffected \<noteq> 1 then afail ''monitor not found'' else areturn ()))"

definition updateHeartbeatAfterCheckIn ::
  "HTTPCheckObservation \<Rightarrow> heartbeatPersistenceState \<Rightarrow> ('w Session, unit) action" where
  "updateHeartbeatAfterCheckIn observation state =
     (let delay = seconds (int64 (hs_intervalSeconds state + hs_heartbeatGraceSeconds state));
          nextCheckAt = ob_CheckedAt observation + delay in
      abind (statement (update_monitor (ob_Scope observation) (ob_MonitorID observation) (\<lambda>r.
        r\<lparr>um_current_state := ob_State observation, um_last_checked_at := Some (timestamptz (ob_CheckedAt observation)),
          um_last_check_in_at := Some (timestamptz (ob_CheckedAt observation)),
          um_next_check_at := timestamptz nextCheckAt, um_check_lease_until := None,
          um_updated_at := timestamptz (ob_CheckedAt observation)\<rparr>))) (\<lambda>rowsAffected.
      if rowsAffected \<noteq> 1 then afail ''monitor not found'' else areturn ()))"

record incidentTransition =
  inc_opened :: bool
  inc_closed :: bool

definition monitorIncidentReason :: "HTTPCheckObservation \<Rightarrow> string" where
  "monitorIncidentReason observation =
     (if ob_Error observation \<noteq> [] then ob_Error observation
      else if 0 < ob_StatusCode observation then ''HTTP '' @ itoa (ob_StatusCode observation)
      else ''monitor check failed'')"

definition ensureOpenMonitorIncident :: "HTTPCheckObservation \<Rightarrow> string \<Rightarrow> ('w Session, bool) action" where
  "ensureOpenMonitorIncident observation checkID =
     abind (query (\<lambda>d. rbind (check (uuid_param (MonitorID_String (ob_MonitorID observation))) ''invalid input syntax'') (\<lambda>_.
       ok (list_ex (open_incident (MonitorID_String (ob_MonitorID observation))) (db_monitor_incidents d))))) (\<lambda>already.
     if already then areturn False else
     abind randomUUID (\<lambda>incidentID.
     abind (statement (insert_incident
       \<lparr>mi_id = incidentID, mi_organization_id = OrganizationID_String (us_OrganizationID (ob_Scope observation)),
        mi_project_id = ProjectID_String (us_ProjectID (ob_Scope observation)),
        mi_monitor_id = MonitorID_String (ob_MonitorID observation),
        mi_opened_at = timestamptz (ob_CheckedAt observation), mi_resolved_at = None,
        mi_last_check_id = Some checkID, mi_reason = monitorIncidentReason observation\<rparr>)) (\<lambda>_.
     areturn True)))"

definition closeOpenMonitorIncident :: "HTTPCheckObservation \<Rightarrow> string \<Rightarrow> ('w Session, bool) action" where
  "closeOpenMonitorIncident observation checkID =
     abind (statement (close_incidents (MonitorID_String (ob_MonitorID observation)) (ob_CheckedAt observation) checkID))
       (\<lambda>rowsAffected. areturn (0 < rowsAffected))"

definition applyMonitorIncidentTransition ::
  "HTTPCheckObservation \<Rightarrow> string \<Rightarrow> ('w Session, incidentTransition) action" where
  "applyMonitorIncidentTransition observation checkID =
     (if ob_State observation = MonitorStateDown then
        abind (ensureOpenMonitorIncident observation checkID) (\<lambda>opened.
        areturn \<lparr>inc_opened = opened, inc_closed = False\<rparr>)
      else if ob_State observation = MonitorStateUp then
        abind (closeOpenMonitorIncident observation checkID) (\<lambda>closed.
        areturn \<lparr>inc_opened = False, inc_closed = closed\<rparr>)
      else areturn \<lparr>inc_opened = False, inc_closed = False\<rparr>)"

definition state_change_audit :: "UptimeScope \<Rightarrow> MonitorID \<Rightarrow> MonitorState \<Rightarrow> MonitorState \<Rightarrow> auditEventInput" where
  "state_change_audit scope monitor fromState toState =
     monitor_audit scope [] ActionMonitorStateChanged (MonitorID_String monitor)
       [(''from_state'', fromState), (''to_state'', toState)]"

definition recordHTTPMonitorCheckInTx :: "HTTPCheckObservation \<Rightarrow> ('w Session, HTTPCheckResult) action" where
  "recordHTTPMonitorCheckInTx observation =
     abind (lockMonitorState observation) (\<lambda>state.
     abind (insertMonitorCheck observation) (\<lambda>checkID.
     abind (updateMonitorAfterCheck observation (ps_intervalSeconds state)) (\<lambda>_.
     let checkResult = \<lparr>cr_MonitorID = MonitorID_String (ob_MonitorID observation),
           cr_PreviousState = ps_currentState state, cr_CurrentState = ob_State observation,
           cr_IncidentOpened = False, cr_IncidentClosed = False\<rparr> in
     if \<not> MonitorStateChanged (ps_currentState state) (ob_State observation) then areturn checkResult else
     abind (applyMonitorIncidentTransition observation checkID) (\<lambda>incident.
     abind (insertAuditEvent (state_change_audit (ob_Scope observation) (ob_MonitorID observation)
       (ps_currentState state) (ob_State observation))) (\<lambda>_.
     areturn (checkResult\<lparr>cr_IncidentOpened := inc_opened incident, cr_IncidentClosed := inc_closed incident\<rparr>))))))"

definition recordHeartbeatCheckInInTx :: "HeartbeatCheckInCommand \<Rightarrow> ('w Session, HeartbeatCheckInResult) action" where
  "recordHeartbeatCheckInInTx command =
     abind (lockHeartbeatMonitorStateByEndpoint (hci_EndpointID command)) (\<lambda>state.
     let observation = \<lparr>ob_Scope = hs_scope state, ob_MonitorID = hs_monitorID state,
           ob_CheckedAt = hci_CheckedAt command, ob_State = MonitorStateUp, ob_StatusCode = 0,
           ob_Duration = 0, ob_Error = []\<rparr> in
     abind (insertMonitorCheck observation) (\<lambda>checkID.
     abind (updateHeartbeatAfterCheckIn observation state) (\<lambda>_.
     let checkResult = \<lparr>hr_MonitorID = MonitorID_String (hs_monitorID state),
           hr_PreviousState = hs_currentState state, hr_CurrentState = MonitorStateUp,
           hr_IncidentClosed = False\<rparr> in
     if \<not> MonitorStateChanged (hs_currentState state) MonitorStateUp then areturn checkResult else
     abind (closeOpenMonitorIncident observation checkID) (\<lambda>closed.
     abind (insertAuditEvent (state_change_audit (hs_scope state) (hs_monitorID state)
       (hs_currentState state) MonitorStateUp)) (\<lambda>_.
     areturn (checkResult\<lparr>hr_IncidentClosed := closed\<rparr>))))))"

definition monitorObservationFromHeartbeatTimeout :: "HeartbeatTimeoutObservation \<Rightarrow> HTTPCheckObservation" where
  "monitorObservationFromHeartbeatTimeout observation =
     \<lparr>ob_Scope = to_Scope observation, ob_MonitorID = to_MonitorID observation,
      ob_CheckedAt = to_CheckedAt observation, ob_State = MonitorStateDown, ob_StatusCode = 0,
      ob_Duration = 0, ob_Error = to_Error observation\<rparr>"

definition recordHeartbeatTimeoutInTx ::
  "HeartbeatTimeoutObservation \<Rightarrow> ('w Session, HeartbeatTimeoutResult) action" where
  "recordHeartbeatTimeoutInTx observation =
     (let checkObservation = monitorObservationFromHeartbeatTimeout observation in
     abind (lockMonitorState checkObservation) (\<lambda>state.
     abind (insertMonitorCheck checkObservation) (\<lambda>checkID.
     abind (updateMonitorAfterCheck checkObservation (ps_intervalSeconds state)) (\<lambda>_.
     let timeoutResult = \<lparr>htr_MonitorID = MonitorID_String (to_MonitorID observation),
           htr_PreviousState = ps_currentState state, htr_CurrentState = MonitorStateDown,
           htr_IncidentOpened = False, htr_AlreadyDown = (ps_currentState state = MonitorStateDown),
           htr_TimeoutRecorded = True\<rparr> in
     if \<not> MonitorStateChanged (ps_currentState state) MonitorStateDown then areturn timeoutResult else
     abind (ensureOpenMonitorIncident checkObservation checkID) (\<lambda>opened.
     abind (insertAuditEvent (state_change_audit (to_Scope observation) (to_MonitorID observation)
       (ps_currentState state) MonitorStateDown)) (\<lambda>_.
     areturn (timeoutResult\<lparr>htr_IncidentOpened := opened\<rparr>)))))))"

definition RecordHTTPMonitorCheck :: "HTTPCheckObservation \<Rightarrow> ('w Session, HTTPCheckResult) action" where
  "RecordHTTPMonitorCheck observation = in_transaction (recordHTTPMonitorCheckInTx observation)"

definition Store_RecordHeartbeatCheckIn :: "HeartbeatCheckInCommand \<Rightarrow> ('w Session, HeartbeatCheckInResult) action" where
  "Store_RecordHeartbeatCheckIn command = in_transaction (recordHeartbeatCheckInInTx command)"

definition RecordHeartbeatTimeout :: "HeartbeatTimeoutObservation \<Rightarrow> ('w Session, HeartbeatTimeoutResult) action" where
  "RecordHeartbeatTimeout observation = in_transaction (recordHeartbeatTimeoutInTx observation)"

subsection \<open>The application\<close>

text \<open>Ports are optional because they may be nil.\<close>

record 's UptimeManager =
  umg_CreateHTTPMonitor :: "CreateHTTPMonitorCommand \<Rightarrow> ('s, UptimeMutationResult) action"
  umg_CreateHeartbeatMonitor :: "CreateHeartbeatMonitorCommand \<Rightarrow> ('s, UptimeMutationResult) action"
  umg_RecordHeartbeatCheckIn :: "HeartbeatCheckInCommand \<Rightarrow> ('s, HeartbeatCheckInResult) action"

record 's CheckStore =
  cs_ClaimDueHTTPMonitors :: "gotime \<Rightarrow> int \<Rightarrow> ('s, HTTPMonitorCheckTarget list) action"
  cs_RecordHTTPMonitorCheck :: "HTTPCheckObservation \<Rightarrow> ('s, HTTPCheckResult) action"
  cs_ClaimOverdueHeartbeatMonitors :: "gotime \<Rightarrow> int \<Rightarrow> ('s, HeartbeatTimeoutTarget list) action"
  cs_RecordHeartbeatTimeout :: "HeartbeatTimeoutObservation \<Rightarrow> ('s, HeartbeatTimeoutResult) action"

type_synonym 's HTTPProbe = "DestinationURL \<Rightarrow> duration \<Rightarrow> ('s, HTTPProbeResult) action"

definition NewHTTPProbeResult :: "int \<Rightarrow> duration \<Rightarrow> HTTPProbeResult result" where
  "NewHTTPProbeResult statusCode dur =
     (if statusCode \<le> 0 then fail ''http status code is required''
      else if dur < 0 then fail ''http probe duration must not be negative''
      else ok \<lparr>pr_statusCode = statusCode, pr_duration = dur\<rparr>)"

definition uptime_requireScope :: "UptimeScope \<Rightarrow> unit result" where
  "uptime_requireScope scope =
     (if OrganizationID_String (us_OrganizationID scope) = [] \<or> ProjectID_String (us_ProjectID scope) = []
      then fail ''uptime scope is required'' else ok ())"

definition normalizeLimit :: "int \<Rightarrow> int" where
  "normalizeLimit limit =
     (if limit \<le> 0 then maxCheckLimit else if maxCheckLimit < limit then maxCheckLimit else limit)"

definition monitorDefinition ::
  "url_parser \<Rightarrow> CreateHTTPMonitorCommand \<Rightarrow> DestinationURL \<Rightarrow> HTTPMonitorDefinition result" where
  "monitorDefinition url_Parse command destination =
     NewHTTPMonitorDefinition url_Parse (chm_Name command) (dest_value destination)
       (seconds (chm_IntervalSeconds command)) (seconds (chm_TimeoutSeconds command))"

definition CreateHTTPMonitor ::
  "url_parser \<Rightarrow> 's Resolver \<Rightarrow> 's UptimeManager option \<Rightarrow> CreateHTTPMonitorCommand \<Rightarrow>
   ('s, UptimeMutationResult) action" where
  "CreateHTTPMonitor url_Parse resolver manager command =
     (case manager of None \<Rightarrow> afail ''uptime manager is required'' | Some m \<Rightarrow>
      abind (alift (uptime_requireScope (chm_Scope command))) (\<lambda>_.
      if chm_ActorID command = [] then afail ''monitor actor is required'' else
      abind (ValidateDestination url_Parse resolver (chm_URL command)) (\<lambda>destination.
      abind (alift (monitorDefinition url_Parse command destination)) (\<lambda>definition.
      umg_CreateHTTPMonitor m \<lparr>chm_Scope = chm_Scope command, chm_ActorID = chm_ActorID command,
        chm_Name = MonitorName_value (hm_name definition), chm_URL = hm_url definition,
        chm_IntervalSeconds = go_div (MonitorInterval_value (hm_interval definition)) second,
        chm_TimeoutSeconds = go_div (MonitorTimeout_value (hm_timeout definition)) second\<rparr>))))"

definition heartbeatCommand :: "CreateHeartbeatMonitorCommand \<Rightarrow> CreateHeartbeatMonitorCommand result" where
  "heartbeatCommand command =
     rbind (NewMonitorName (chb_Name command)) (\<lambda>monitorName.
     rbind (NewMonitorInterval (seconds (chb_IntervalSeconds command))) (\<lambda>interval.
     rbind (NewMonitorGrace (seconds (chb_GraceSeconds command))) (\<lambda>grace.
     ok \<lparr>chb_Scope = chb_Scope command, chb_ActorID = chb_ActorID command,
         chb_Name = MonitorName_value monitorName,
         chb_IntervalSeconds = go_div (MonitorInterval_value interval) second,
         chb_GraceSeconds = go_div (MonitorGrace_value grace) second\<rparr>)))"

definition CreateHeartbeatMonitor ::
  "'s UptimeManager option \<Rightarrow> CreateHeartbeatMonitorCommand \<Rightarrow> ('s, UptimeMutationResult) action" where
  "CreateHeartbeatMonitor manager command =
     (case manager of None \<Rightarrow> afail ''uptime manager is required'' | Some m \<Rightarrow>
      abind (alift (uptime_requireScope (chb_Scope command))) (\<lambda>_.
      if chb_ActorID command = [] then afail ''monitor actor is required'' else
      abind (alift (heartbeatCommand command)) (umg_CreateHeartbeatMonitor m)))"

definition RecordHeartbeatCheckIn ::
  "'s UptimeManager option \<Rightarrow> HeartbeatCheckInCommand \<Rightarrow> ('s, HeartbeatCheckInResult) action" where
  "RecordHeartbeatCheckIn manager command =
     (case manager of None \<Rightarrow> afail ''uptime manager is required'' | Some m \<Rightarrow>
      abind (alift (NewHeartbeatEndpointID (hci_EndpointID command))) (\<lambda>endpointID.
      if IsZero (hci_CheckedAt command) then afail ''heartbeat check-in time is required'' else
      umg_RecordHeartbeatCheckIn m \<lparr>hci_EndpointID = HeartbeatEndpointID_String endpointID,
        hci_CheckedAt = UTC (hci_CheckedAt command)\<rparr>))"

definition failedObservation :: "gotime \<Rightarrow> HTTPMonitorCheckTarget \<Rightarrow> string \<Rightarrow> HTTPCheckObservation" where
  "failedObservation now target message =
     \<lparr>ob_Scope = ht_Scope target, ob_MonitorID = ht_MonitorID target, ob_CheckedAt = now,
      ob_State = MonitorStateDown, ob_StatusCode = 0, ob_Duration = 0, ob_Error = message\<rparr>"

text \<open>The error of a failed call is turned into an observation, so the call itself cannot fail.\<close>

definition checkHTTPMonitor ::
  "'s Resolver \<Rightarrow> 's HTTPProbe \<Rightarrow> gotime \<Rightarrow> HTTPMonitorCheckTarget \<Rightarrow> ('s, HTTPCheckObservation) action" where
  "checkHTTPMonitor resolver probe now target s =
     (case ValidateResolvedDestination resolver (ht_URL target) s of
        (Inl (GoErr e), t) \<Rightarrow> (ok (failedObservation now target e), t)
      | (Inr _, t) \<Rightarrow> (case probe (ht_URL target) (ht_Timeout target) t of
          (Inl (GoErr e), u) \<Rightarrow> (ok (failedObservation now target e), u)
        | (Inr probeValue, u) \<Rightarrow>
            (ok \<lparr>ob_Scope = ht_Scope target, ob_MonitorID = ht_MonitorID target, ob_CheckedAt = now,
               ob_State = MonitorStateFromHTTPStatus (pr_statusCode probeValue),
               ob_StatusCode = pr_statusCode probeValue, ob_Duration = pr_duration probeValue,
               ob_Error = []\<rparr>, u)))"

definition countObservation :: "CheckSummary \<Rightarrow> HTTPCheckObservation \<Rightarrow> CheckSummary" where
  "countObservation summary observation =
     (let summary = summary\<lparr>cs_Checked := cs_Checked summary + 1\<rparr>;
          summary = (if ob_State observation = MonitorStateUp then summary\<lparr>cs_Up := cs_Up summary + 1\<rparr> else summary);
          summary = (if ob_State observation = MonitorStateDown then summary\<lparr>cs_Down := cs_Down summary + 1\<rparr> else summary)
      in if ob_Error observation \<noteq> [] then summary\<lparr>cs_Failures := cs_Failures summary + 1\<rparr> else summary)"

definition heartbeatTimeoutObservation :: "gotime \<Rightarrow> HeartbeatTimeoutTarget \<Rightarrow> HeartbeatTimeoutObservation" where
  "heartbeatTimeoutObservation now target =
     \<lparr>to_Scope = hbt_Scope target, to_MonitorID = hbt_MonitorID target, to_CheckedAt = now,
      to_Error = ''heartbeat overdue''\<rparr>"

definition countHeartbeatTimeout :: "CheckSummary \<Rightarrow> HeartbeatTimeoutObservation \<Rightarrow> CheckSummary" where
  "countHeartbeatTimeout summary observation =
     (let summary = summary\<lparr>cs_Checked := cs_Checked summary + 1, cs_Down := cs_Down summary + 1\<rparr>
      in if to_Error observation \<noteq> [] then summary\<lparr>cs_Failures := cs_Failures summary + 1\<rparr> else summary)"

definition validateCheckInputs ::
  "'s CheckStore option \<Rightarrow> 's Resolver \<Rightarrow> 's HTTPProbe option \<Rightarrow> CheckDueCommand \<Rightarrow> unit result" where
  "validateCheckInputs store resolver probe command =
     (if store = None then fail ''uptime check store is required''
      else if resolver = None then fail ''uptime resolver is required''
      else if probe = None then fail ''uptime probe is required''
      else if IsZero (cd_Now command) then fail ''uptime check time is required''
      else if cd_Limit command \<le> 0 then fail ''uptime check limit must be positive''
      else ok ())"

definition validateHeartbeatCheckInputs :: "'s CheckStore option \<Rightarrow> CheckDueCommand \<Rightarrow> unit result" where
  "validateHeartbeatCheckInputs store command =
     (if store = None then fail ''uptime check store is required''
      else if IsZero (cd_Now command) then fail ''uptime check time is required''
      else if cd_Limit command \<le> 0 then fail ''uptime check limit must be positive''
      else ok ())"

fun check_http_targets ::
  "'s CheckStore \<Rightarrow> 's Resolver \<Rightarrow> 's HTTPProbe \<Rightarrow> gotime \<Rightarrow> HTTPMonitorCheckTarget list \<Rightarrow> CheckSummary \<Rightarrow>
   ('s, CheckSummary) action" where
  "check_http_targets store resolver probe now [] summary = areturn summary"
| "check_http_targets store resolver probe now (target # targets) summary =
     abind (checkHTTPMonitor resolver probe now target) (\<lambda>observation.
     abind (cs_RecordHTTPMonitorCheck store observation) (\<lambda>_.
     check_http_targets store resolver probe now targets (countObservation summary observation)))"

definition claimed_summary :: "'a list \<Rightarrow> CheckSummary" where
  "claimed_summary targets =
     \<lparr>cs_Claimed = int (length targets), cs_Checked = 0, cs_Up = 0, cs_Down = 0, cs_Failures = 0\<rparr>"

definition CheckDueHTTPMonitors ::
  "'s CheckStore option \<Rightarrow> 's Resolver \<Rightarrow> 's HTTPProbe option \<Rightarrow> CheckDueCommand \<Rightarrow> ('s, CheckSummary) action" where
  "CheckDueHTTPMonitors store resolver probe command =
     abind (alift (validateCheckInputs store resolver probe command)) (\<lambda>_.
     abind (cs_ClaimDueHTTPMonitors (the store) (cd_Now command) (normalizeLimit (cd_Limit command))) (\<lambda>targets.
     check_http_targets (the store) resolver (the probe) (cd_Now command) targets (claimed_summary targets)))"

fun time_out_targets ::
  "'s CheckStore \<Rightarrow> gotime \<Rightarrow> HeartbeatTimeoutTarget list \<Rightarrow> CheckSummary \<Rightarrow> ('s, CheckSummary) action" where
  "time_out_targets store now [] summary = areturn summary"
| "time_out_targets store now (target # targets) summary =
     (let observation = heartbeatTimeoutObservation now target in
     abind (cs_RecordHeartbeatTimeout store observation) (\<lambda>_.
     time_out_targets store now targets (countHeartbeatTimeout summary observation)))"

definition CheckDueHeartbeatMonitors ::
  "'s CheckStore option \<Rightarrow> CheckDueCommand \<Rightarrow> ('s, CheckSummary) action" where
  "CheckDueHeartbeatMonitors store command =
     abind (alift (validateHeartbeatCheckInputs store command)) (\<lambda>_.
     abind (cs_ClaimOverdueHeartbeatMonitors (the store) (cd_Now command) (normalizeLimit (cd_Limit command))) (\<lambda>targets.
     time_out_targets (the store) (cd_Now command) targets (claimed_summary targets)))"

subsection \<open>The store as the ports\<close>

definition Store_UptimeManager :: "url_parser \<Rightarrow> 'w Session UptimeManager" where
  "Store_UptimeManager url_Parse =
     \<lparr>umg_CreateHTTPMonitor = Store_CreateHTTPMonitor url_Parse,
      umg_CreateHeartbeatMonitor = Store_CreateHeartbeatMonitor,
      umg_RecordHeartbeatCheckIn = Store_RecordHeartbeatCheckIn\<rparr>"

definition Store_CheckStore :: "url_parser \<Rightarrow> 'w Session CheckStore" where
  "Store_CheckStore url_Parse =
     \<lparr>cs_ClaimDueHTTPMonitors = ClaimDueHTTPMonitors url_Parse,
      cs_RecordHTTPMonitorCheck = RecordHTTPMonitorCheck,
      cs_ClaimOverdueHeartbeatMonitors = ClaimOverdueHeartbeatMonitors,
      cs_RecordHeartbeatTimeout = RecordHeartbeatTimeout\<rparr>"

end
