(* ===== verification/UptimeEffects.thy ===== *)
theory UptimeEffects
  imports Uptime IngestEffects
begin

text \<open>
  What the operations on monitors do to the store: a monitor is \<open>down\<close> exactly while it has an open
  incident, and it never has two; a claimed monitor is not claimed again during its lease.
\<close>

subsection \<open>Monitors and their incidents\<close>

definition open_incidents :: "string \<Rightarrow> DB \<Rightarrow> nat" where
  "open_incidents monitor d = length (filter (open_incident monitor) (db_monitor_incidents d))"

definition uptime_consistent :: "DB \<Rightarrow> bool" where
  "uptime_consistent d \<longleftrightarrow>
     distinct (map um_id (db_monitors d)) \<and>
     (\<forall>m\<in>set (db_monitors d). uuid_param (um_id m) \<and> MonitorState_Valid (um_current_state m) \<and>
        open_incidents (um_id m) d = (if um_current_state m = MonitorStateDown then 1 else 0)) \<and>
     (\<forall>i\<in>set (db_monitor_incidents d). monitor_exists (mi_monitor_id i) d)"

text \<open>What a change of state does to the incidents.\<close>

definition incident_move :: "string \<Rightarrow> MonitorState \<Rightarrow> MonitorState \<Rightarrow> DB \<Rightarrow> DB \<Rightarrow> bool" where
  "incident_move monitor previous current d d' \<longleftrightarrow>
     (if previous = current then db_monitor_incidents d' = db_monitor_incidents d
      else if current = MonitorStateDown
        then (if open_incidents monitor d \<noteq> 0 then db_monitor_incidents d' = db_monitor_incidents d
              else \<exists>row. open_incident monitor row \<and>
                db_monitor_incidents d' = db_monitor_incidents d @ [row])
        else \<exists>f. (\<forall>r. mi_monitor_id (f r) = mi_monitor_id r \<and> mi_resolved_at (f r) \<noteq> None) \<and>
                db_monitor_incidents d' = update_rows (open_incident monitor) f (db_monitor_incidents d))"

lemma monitor_exists_ids: "monitor_exists i d \<longleftrightarrow> i \<in> set (map um_id (db_monitors d))"
  by (auto simp: monitor_exists_def list_ex_iff image_iff)

lemma open_incidents_zero: "open_incidents i d = 0 \<longleftrightarrow> \<not> list_ex (open_incident i) (db_monitor_incidents d)"
  by (auto simp: open_incidents_def list_ex_iff filter_empty_conv)

lemma open_incidents_move:
  assumes "incident_move i previous current d d'" and "current = MonitorStateUp \<or> current = MonitorStateDown"
    and "open_incidents i d = (if previous = MonitorStateDown then 1 else 0)"
  shows "open_incidents i d' = (if current = MonitorStateDown then 1 else 0)"
proof (cases "previous = current")
  case True
  with assms show ?thesis by (simp add: incident_move_def open_incidents_def)
next
  case change: False
  show ?thesis
  proof (cases "current = MonitorStateDown")
    case True
    with assms change show ?thesis by (auto simp: incident_move_def open_incidents_def)
  next
    case False
    with assms(1) change obtain f where f: "\<forall>r. mi_monitor_id (f r) = mi_monitor_id r \<and> mi_resolved_at (f r) \<noteq> None"
      and d': "db_monitor_incidents d' = update_rows (open_incident i) f (db_monitor_incidents d)"
      by (auto simp: incident_move_def)
    have "filter (open_incident i) (update_rows (open_incident i) f rows) = []" for rows
      using f by (induction rows) (auto simp: update_rows_def open_incident_def)
    with d' False show ?thesis by (simp add: open_incidents_def)
  qed
qed

lemma open_incidents_other:
  assumes "incident_move i previous current d d'" and "j \<noteq> i"
  shows "open_incidents j d' = open_incidents j d"
proof -
  have "filter (open_incident j) (update_rows (open_incident i) f rows) = filter (open_incident j) rows"
    if "\<forall>r. mi_monitor_id (f r) = mi_monitor_id r \<and> mi_resolved_at (f r) \<noteq> None" for f rows
    using that assms(2) by (induction rows) (auto simp: update_rows_def open_incident_def)
  with assms show ?thesis
    by (auto simp: incident_move_def open_incidents_def open_incident_def split: if_split_asm)
qed

lemma incident_move_monitors:
  assumes "incident_move i previous current d d'"
    and "\<forall>r\<in>set (db_monitor_incidents d). P (mi_monitor_id r)" and "P i"
  shows "\<forall>r\<in>set (db_monitor_incidents d'). P (mi_monitor_id r)"
  using assms
  by (auto simp: incident_move_def open_incident_def set_update_rows split: if_split_asm)

text \<open>A change of one monitor that moves its incidents along keeps the store consistent.\<close>

lemma monitor_change:
  assumes wf: "uptime_consistent d" and m: "m \<in> set (db_monitors d)" "um_id m = i"
    and monitors: "db_monitors d' = update_rows (\<lambda>r. um_id r = i) f (db_monitors d)"
    and f: "um_id (f m) = i" "um_current_state (f m) = current"
    and move: "incident_move i (um_current_state m) current d d'"
    and current: "current = MonitorStateUp \<or> current = MonitorStateDown"
  shows "uptime_consistent d'"
proof -
  have dist: "distinct (map um_id (db_monitors d))" using wf by (simp add: uptime_consistent_def)
  have only: "r = m" if "r \<in> set (db_monitors d)" "um_id r = i" for r
    using that m dist by (metis distinct_map inj_onD)
  have ids: "map um_id (db_monitors d') = map um_id (db_monitors d)"
    unfolding monitors update_rows_def using only f(1) by (auto simp: m(2))
  have rows: "r = f m \<or> (r \<in> set (db_monitors d) \<and> um_id r \<noteq> i)" if "r \<in> set (db_monitors d')" for r
    using that only by (auto simp: monitors set_update_rows)
  have "uuid_param (um_id r) \<and> MonitorState_Valid (um_current_state r) \<and>
      open_incidents (um_id r) d' = (if um_current_state r = MonitorStateDown then 1 else 0)"
    if r: "r \<in> set (db_monitors d')" for r
  proof (cases "r = f m")
    case True
    have "uuid_param i \<and> open_incidents i d = (if um_current_state m = MonitorStateDown then 1 else 0)"
      using wf m by (auto simp: uptime_consistent_def)
    with open_incidents_move [OF move current] True f current show ?thesis
      by (auto simp: MonitorState_Valid_def)
  next
    case False
    with rows [OF r] have "r \<in> set (db_monitors d)" "um_id r \<noteq> i" by auto
    with wf open_incidents_other [OF move, of "um_id r"] show ?thesis
      by (auto simp: uptime_consistent_def)
  qed
  moreover have "\<forall>r\<in>set (db_monitor_incidents d'). monitor_exists (mi_monitor_id r) d'"
  proof -
    have "monitor_exists j d' = monitor_exists j d" for j
      by (simp only: monitor_exists_ids ids)
    moreover have "monitor_exists i d" using m by (auto simp: monitor_exists_ids)
    ultimately show ?thesis
      using incident_move_monitors [OF move, of "\<lambda>j. monitor_exists j d'"] wf
      by (auto simp: uptime_consistent_def)
  qed
  ultimately show ?thesis using dist ids by (auto simp: uptime_consistent_def)
qed

subsection \<open>The steps of a recorded check\<close>

lemma lockMonitorState_ok:
  assumes "lockMonitorState ob s = (Inr st, t)" and "quiet (ses_env s)"
  shows "ses_env t = ses_env s \<and> ses_db t = ses_db s \<and>
    (\<exists>m. find (in_monitor_scope (ob_Scope ob) (ob_MonitorID ob)) (db_monitors (ses_db s)) = Some m \<and>
      ParseMonitorState (um_current_state m) = ok (ps_currentState st) \<and>
      ps_intervalSeconds st = um_interval_seconds m)"
  using assms unfolding lockMonitorState_def
  by (auto simp: abind_ok rbind_eq_ok action_simps dest!: quiet_runs)

lemma insert_check_ok:
  assumes "insert_check row d = ok (u, d')"
  shows "mc_status row \<in> {MonitorStateUp, MonitorStateDown} \<and>
    (\<forall>n. mc_http_status row = Some n \<longrightarrow> 100 \<le> n \<and> n \<le> 599) \<and>
    d' = d\<lparr>db_monitor_checks := db_monitor_checks d @ [row]\<rparr>"
  using assms by (simp add: insert_check_def rbind_eq_ok monitor_state_defs split: option.split_asm)

lemma insert_incident_ok:
  assumes "insert_incident row d = ok (u, d')"
  shows "d' = d\<lparr>db_monitor_incidents := db_monitor_incidents d @ [row]\<rparr>"
  using assms by (simp add: insert_incident_def rbind_eq_ok)

lemma insertMonitorCheck_ok:
  assumes "insertMonitorCheck ob s = (Inr checkID, t)" and "quiet (ses_env s)"
  shows "ses_env t = ses_env s \<and>
    (ob_State ob = MonitorStateUp \<or> ob_State ob = MonitorStateDown) \<and>
    (0 < ob_StatusCode ob \<longrightarrow> 100 \<le> ob_StatusCode ob \<and> ob_StatusCode ob \<le> 599) \<and>
    (\<exists>row. mc_id row = checkID \<and> mc_status row = ob_State ob \<and>
      mc_monitor_id row = MonitorID_String (ob_MonitorID ob) \<and>
      ses_db t = (ses_db s)\<lparr>db_monitor_checks := db_monitor_checks (ses_db s) @ [row]\<rparr>)"
proof -
  obtain u v row where u: "randomUUID s = (Inr checkID, u)"
    and v: "statement (insert_check row) u = (Inr v, t)"
    and row: "mc_id row = checkID" "mc_status row = ob_State ob"
      "mc_monitor_id row = MonitorID_String (ob_MonitorID ob)"
      "mc_http_status row = nullableHTTPStatus (ob_StatusCode ob)"
    using assms(1) unfolding insertMonitorCheck_def abind_ok areturn_eq by fastforce
  note q = randomUUID_quietD [OF u assms(2)]
  with statement_quietD [OF v] assms(2)
  have ins: "insert_check row (ses_db s) = Inr (v, ses_db t)" "ses_env t = ses_env s" by simp_all
  with insert_check_ok [OF ins(1)] row show ?thesis
    by (auto simp: nullableHTTPStatus_def)
qed

definition checked_monitor :: "HTTPCheckObservation \<Rightarrow> int \<Rightarrow> MonitorRow \<Rightarrow> MonitorRow" where
  "checked_monitor ob interval r =
     r\<lparr>um_current_state := ob_State ob, um_last_checked_at := Some (timestamptz (ob_CheckedAt ob)),
       um_next_check_at := timestamptz (ob_CheckedAt ob + seconds interval), um_check_lease_until := None,
       um_updated_at := timestamptz (ob_CheckedAt ob)\<rparr>"

lemma updateMonitorAfterCheck_ok:
  assumes "updateMonitorAfterCheck ob interval s = (Inr u, t)" and "quiet (ses_env s)"
  shows "ses_env t = ses_env s \<and>
    ses_db t = (ses_db s)\<lparr>db_monitors := update_rows (in_monitor_scope (ob_Scope ob) (ob_MonitorID ob))
      (checked_monitor ob interval) (db_monitors (ses_db s))\<rparr>"
  using assms unfolding updateMonitorAfterCheck_def Let_def checked_monitor_def [abs_def]
  by (auto simp: abind_ok rbind_eq_ok action_simps update_monitor_def dest!: quiet_runs split: if_split_asm)

lemma ensureOpenMonitorIncident_ok:
  assumes "ensureOpenMonitorIncident ob checkID s = (Inr opened, t)" and "quiet (ses_env s)"
  shows "ses_env t = ses_env s \<and> db_monitors (ses_db t) = db_monitors (ses_db s) \<and>
    (previous \<noteq> MonitorStateDown \<longrightarrow>
       incident_move (MonitorID_String (ob_MonitorID ob)) previous MonitorStateDown (ses_db s) (ses_db t)) \<and>
    (opened \<longleftrightarrow> open_incidents (MonitorID_String (ob_MonitorID ob)) (ses_db s) = 0)"
proof -
  let ?i = "MonitorID_String (ob_MonitorID ob)"
  have "opened \<longleftrightarrow> open_incidents ?i (ses_db s) = 0"
    "ses_env t = ses_env s \<and> (if opened then \<exists>row. open_incident ?i row \<and>
       ses_db t = (ses_db s)\<lparr>db_monitor_incidents := db_monitor_incidents (ses_db s) @ [row]\<rparr>
     else ses_db t = ses_db s)"
  proof -
    obtain already u where q: "query (\<lambda>d. rbind (check (uuid_param ?i) ''invalid input syntax'') (\<lambda>_.
        ok (list_ex (open_incident ?i) (db_monitor_incidents d)))) s = (Inr already, u)"
      and rest: "already \<and> \<not> opened \<and> t = u \<or> (\<exists>incidentID v w row. \<not> already \<and> opened \<and>
        randomUUID u = (Inr incidentID, v) \<and> statement (insert_incident row) v = (Inr w, t) \<and>
        open_incident ?i row)"
      using assms(1) unfolding ensureOpenMonitorIncident_def abind_ok
      by (fastforce simp: action_simps open_incident_def split: if_split_asm)
    note q1 = query_quietD [OF q assms(2)]
    then have already: "already \<longleftrightarrow> open_incidents ?i (ses_db s) \<noteq> 0"
      by (auto simp: rbind_eq_ok open_incidents_zero)
    with rest show "opened \<longleftrightarrow> open_incidents ?i (ses_db s) = 0" by auto
    from rest show "ses_env t = ses_env s \<and> (if opened then \<exists>row. open_incident ?i row \<and>
       ses_db t = (ses_db s)\<lparr>db_monitor_incidents := db_monitor_incidents (ses_db s) @ [row]\<rparr>
     else ses_db t = ses_db s)"
    proof (elim disjE exE conjE)
      fix incidentID v w row
      assume r: "randomUUID u = (Inr incidentID, v)" "statement (insert_incident row) v = (Inr w, t)"
        and row: "open_incident ?i row" "opened"
      have v: "ses_db v = ses_db s" "ses_env v = ses_env s"
        using randomUUID_quietD [OF r(1)] q1 assms(2) by simp_all
      with statement_quietD [OF r(2)] assms(2)
      have "insert_incident row (ses_db s) = Inr (w, ses_db t)" "ses_env t = ses_env s" by simp_all
      with row insert_incident_ok [OF this(1)] show ?thesis by auto
    qed (use q1 in simp)
  qed
  then show ?thesis
    by (auto simp: incident_move_def split: if_split_asm)
qed

lemma closeOpenMonitorIncident_ok:
  assumes "closeOpenMonitorIncident ob checkID s = (Inr closed, t)" and "quiet (ses_env s)"
  shows "ses_env t = ses_env s \<and> db_monitors (ses_db t) = db_monitors (ses_db s) \<and>
    (previous \<noteq> MonitorStateUp \<longrightarrow>
       incident_move (MonitorID_String (ob_MonitorID ob)) previous MonitorStateUp (ses_db s) (ses_db t)) \<and>
    (closed \<longleftrightarrow> open_incidents (MonitorID_String (ob_MonitorID ob)) (ses_db s) \<noteq> 0)"
proof -
  let ?i = "MonitorID_String (ob_MonitorID ob)"
  from assms obtain n where n: "close_incidents ?i (ob_CheckedAt ob) checkID (ses_db s) = ok (n, ses_db t)"
    "ses_env t = ses_env s" "closed \<longleftrightarrow> 0 < n"
    unfolding closeOpenMonitorIncident_def by (auto simp: abind_ok action_simps dest!: quiet_runs)
  let ?f = "\<lambda>r. r\<lparr>mi_resolved_at := Some (timestamptz (ob_CheckedAt ob)), mi_last_check_id := Some checkID\<rparr>"
  have d: "ses_db t = (ses_db s)\<lparr>db_monitor_incidents :=
      update_rows (open_incident ?i) ?f (db_monitor_incidents (ses_db s))\<rparr>" "n = open_incidents ?i (ses_db s)"
    using n(1) by (auto simp: close_incidents_def rbind_eq_ok open_incidents_def)
  then have "previous \<noteq> MonitorStateUp \<longrightarrow>
       incident_move ?i previous MonitorStateUp (ses_db s) (ses_db t)"
    by (auto simp: incident_move_def monitor_state_defs intro!: exI [of _ ?f])
  with n d show ?thesis by simp
qed

text \<open>The monitor of a scope is found by its id alone.\<close>

lemma monitor_in_scope:
  assumes "find (in_monitor_scope scope monitor) rows = Some m" and "distinct (map um_id rows)"
  shows "m \<in> set rows \<and> um_id m = MonitorID_String monitor \<and>
    update_rows (in_monitor_scope scope monitor) f rows = update_rows (\<lambda>r. um_id r = um_id m) f rows"
proof -
  have m: "m \<in> set rows" "in_monitor_scope scope monitor m" using find_SomeD [OF assms(1)] by auto
  have only: "r = m" if "r \<in> set rows" "um_id r = um_id m" for r
    using that m(1) assms(2) by (metis distinct_map inj_onD)
  have id: "um_id m = MonitorID_String monitor" using m(2) by (simp add: in_monitor_scope_def)
  have "in_monitor_scope scope monitor r \<longleftrightarrow> um_id r = um_id m" if "r \<in> set rows" for r
    using only [OF that] m(2) id by (metis in_monitor_scope_def)
  then show ?thesis using m(1) id by (simp add: update_rows_def)
qed

lemma consistent_monitor:
  assumes "uptime_consistent d" and "m \<in> set (db_monitors d)"
  shows "MonitorState_Valid (um_current_state m) \<and>
    (open_incidents (um_id m) d \<noteq> 0 \<longleftrightarrow> um_current_state m = MonitorStateDown) \<and>
    ParseMonitorState (um_current_state m) = ok (um_current_state m)"
  using assms by (auto simp: uptime_consistent_def ParseMonitorState_id)

text \<open>Recording a check in a consistent store.\<close>

definition check_recorded :: "HTTPCheckObservation \<Rightarrow> MonitorRow \<Rightarrow> DB \<Rightarrow> DB \<Rightarrow> bool" where
  "check_recorded ob m d d' \<longleftrightarrow>
     find (in_monitor_scope (ob_Scope ob) (ob_MonitorID ob)) (db_monitors d) = Some m \<and>
     (ob_State ob = MonitorStateUp \<or> ob_State ob = MonitorStateDown) \<and>
     db_monitors d' = update_rows (\<lambda>r. um_id r = um_id m)
       (checked_monitor ob (um_interval_seconds m)) (db_monitors d) \<and>
     incident_move (um_id m) (um_current_state m) (ob_State ob) d d'"

lemma check_recorded_consistent:
  assumes "check_recorded ob m d d'" and wf: "uptime_consistent d"
  shows "uptime_consistent d'"
proof -
  have "m \<in> set (db_monitors d)" using assms(1) find_SomeD by (fastforce simp: check_recorded_def)
  then show ?thesis
    using assms(1) unfolding check_recorded_def
    by (intro monitor_change [OF wf, of m "um_id m" d' "checked_monitor ob (um_interval_seconds m)" "ob_State ob"])
      (auto simp: checked_monitor_def)
qed

definition http_result :: "HTTPCheckObservation \<Rightarrow> MonitorRow \<Rightarrow> HTTPCheckResult" where
  "http_result ob m =
     \<lparr>cr_MonitorID = um_id m, cr_PreviousState = um_current_state m, cr_CurrentState = ob_State ob,
      cr_IncidentOpened = (um_current_state m \<noteq> MonitorStateDown \<and> ob_State ob = MonitorStateDown),
      cr_IncidentClosed = (um_current_state m = MonitorStateDown \<and> ob_State ob = MonitorStateUp)\<rparr>"

lemma locked_and_updated:
  assumes lock: "lockMonitorState ob s = (Inr st, s1)" and ins: "insertMonitorCheck ob s1 = (Inr checkID, s2)"
    and upd: "updateMonitorAfterCheck ob (ps_intervalSeconds st) s2 = (Inr u, s3)"
    and q: "quiet (ses_env s)" and wf: "uptime_consistent (ses_db s)"
  shows "ses_env s3 = ses_env s \<and> (ob_State ob = MonitorStateUp \<or> ob_State ob = MonitorStateDown) \<and>
    db_monitor_incidents (ses_db s3) = db_monitor_incidents (ses_db s) \<and>
    (\<exists>m. find (in_monitor_scope (ob_Scope ob) (ob_MonitorID ob)) (db_monitors (ses_db s)) = Some m \<and>
       um_id m = MonitorID_String (ob_MonitorID ob) \<and> m \<in> set (db_monitors (ses_db s)) \<and>
       ps_currentState st = um_current_state m \<and>
       db_monitors (ses_db s3) = update_rows (\<lambda>r. um_id r = um_id m)
         (checked_monitor ob (um_interval_seconds m)) (db_monitors (ses_db s)))"
proof -
  note 1 = lockMonitorState_ok [OF lock q]
  then have q1: "quiet (ses_env s1)" using q by simp
  note 2 = insertMonitorCheck_ok [OF ins q1]
  then have q2: "quiet (ses_env s2)" using q1 by simp
  note 3 = updateMonitorAfterCheck_ok [OF upd q2]
  have dist: "distinct (map um_id (db_monitors (ses_db s)))" using wf by (simp add: uptime_consistent_def)
  from 1 obtain m where m: "find (in_monitor_scope (ob_Scope ob) (ob_MonitorID ob)) (db_monitors (ses_db s)) = Some m"
    "ParseMonitorState (um_current_state m) = ok (ps_currentState st)" "ps_intervalSeconds st = um_interval_seconds m"
    by blast
  note scope = monitor_in_scope [OF m(1) dist]
  have "ps_currentState st = um_current_state m"
    using consistent_monitor [OF wf, of m] scope m(2) by simp
  then show ?thesis using 1 2 3 m scope by auto
qed

lemma incident_move_transfer:
  assumes "incident_move i p c d d'" and "db_monitor_incidents d = db_monitor_incidents e"
    and "db_monitor_incidents d'' = db_monitor_incidents d'"
  shows "incident_move i p c e d''"
  using assms(1) unfolding incident_move_def open_incidents_def assms(2,3) .

lemma recordHTTPMonitorCheckInTx_ok:
  assumes run: "recordHTTPMonitorCheckInTx ob s = (Inr r, t)" and q: "quiet (ses_env s)"
    and wf: "uptime_consistent (ses_db s)"
  shows "\<exists>m. check_recorded ob m (ses_db s) (ses_db t) \<and> r = http_result ob m"
proof -
  from run obtain st s1 checkID s2 u s3 where steps: "lockMonitorState ob s = (Inr st, s1)"
    "insertMonitorCheck ob s1 = (Inr checkID, s2)"
    "updateMonitorAfterCheck ob (ps_intervalSeconds st) s2 = (Inr u, s3)"
    and rest: "(let checkResult = \<lparr>cr_MonitorID = MonitorID_String (ob_MonitorID ob),
           cr_PreviousState = ps_currentState st, cr_CurrentState = ob_State ob,
           cr_IncidentOpened = False, cr_IncidentClosed = False\<rparr> in
     if \<not> MonitorStateChanged (ps_currentState st) (ob_State ob) then areturn checkResult else
     abind (applyMonitorIncidentTransition ob checkID) (\<lambda>incident.
     abind (insertAuditEvent (state_change_audit (ob_Scope ob) (ob_MonitorID ob)
       (ps_currentState st) (ob_State ob))) (\<lambda>_.
     areturn (checkResult\<lparr>cr_IncidentOpened := inc_opened incident, cr_IncidentClosed := inc_closed incident\<rparr>))))
     s3 = (Inr r, t)"
    unfolding recordHTTPMonitorCheckInTx_def abind_ok by blast
  from locked_and_updated [OF steps q wf] obtain m where m: "ses_env s3 = ses_env s"
      "ob_State ob = MonitorStateUp \<or> ob_State ob = MonitorStateDown"
      "db_monitor_incidents (ses_db s3) = db_monitor_incidents (ses_db s)"
      "find (in_monitor_scope (ob_Scope ob) (ob_MonitorID ob)) (db_monitors (ses_db s)) = Some m"
      "um_id m = MonitorID_String (ob_MonitorID ob)" "m \<in> set (db_monitors (ses_db s))"
      "ps_currentState st = um_current_state m"
      "db_monitors (ses_db s3) = update_rows (\<lambda>r. um_id r = um_id m)
         (checked_monitor ob (um_interval_seconds m)) (db_monitors (ses_db s))"
    by blast
  have q3: "quiet (ses_env s3)" using m q by simp
  have opened: "open_incidents (um_id m) (ses_db s3) \<noteq> 0 \<longleftrightarrow> um_current_state m = MonitorStateDown"
    using consistent_monitor [OF wf m(6)] m(3) by (simp add: open_incidents_def)
  show ?thesis
  proof (cases "um_current_state m = ob_State ob")
    case True
    with rest m have "t = s3" "r = http_result ob m"
      by (auto simp: Let_def MonitorStateChanged_def areturn_eq http_result_def monitor_state_defs)
    with m True show ?thesis
      by (auto simp: check_recorded_def incident_move_def)
  next
    case change: False
    then obtain inc s4 v where inc: "applyMonitorIncidentTransition ob checkID s3 = (Inr inc, s4)"
      and audit: "insertAuditEvent (state_change_audit (ob_Scope ob) (ob_MonitorID ob)
         (um_current_state m) (ob_State ob)) s4 = (Inr v, t)"
      and r: "r = \<lparr>cr_MonitorID = um_id m, cr_PreviousState = um_current_state m,
         cr_CurrentState = ob_State ob, cr_IncidentOpened = inc_opened inc, cr_IncidentClosed = inc_closed inc\<rparr>"
      using rest m(5,7) by (auto simp: Let_def MonitorStateChanged_def abind_ok areturn_eq)
    have "ses_env s4 = ses_env s3 \<and> db_monitors (ses_db s4) = db_monitors (ses_db s3) \<and>
      incident_move (um_id m) (um_current_state m) (ob_State ob) (ses_db s3) (ses_db s4) \<and> r = http_result ob m"
    proof (cases "ob_State ob = MonitorStateDown")
      case True
      then obtain new where "ensureOpenMonitorIncident ob checkID s3 = (Inr new, s4)"
        "inc = \<lparr>inc_opened = new, inc_closed = False\<rparr>"
        using inc by (auto simp: applyMonitorIncidentTransition_def abind_ok areturn_eq)
      with ensureOpenMonitorIncident_ok [OF this(1) q3, of "um_current_state m"] True change opened m(5) r
      show ?thesis by (auto simp: http_result_def monitor_state_defs)
    next
      case False
      with m(2) have up: "ob_State ob = MonitorStateUp" by simp
      then obtain closed where "closeOpenMonitorIncident ob checkID s3 = (Inr closed, s4)"
        "inc = \<lparr>inc_opened = False, inc_closed = closed\<rparr>"
        using inc by (auto simp: applyMonitorIncidentTransition_def abind_ok areturn_eq monitor_state_defs)
      with closeOpenMonitorIncident_ok [OF this(1) q3, of "um_current_state m"] up change opened m(5) r
      show ?thesis by (auto simp: http_result_def monitor_state_defs)
    qed
    with insertAuditEvent_ok [OF audit] q3 m change show ?thesis
      by (auto simp: check_recorded_def intro!: exI [of _ m] elim!: incident_move_transfer)
  qed
qed

definition timeout_result :: "HTTPCheckObservation \<Rightarrow> MonitorRow \<Rightarrow> HeartbeatTimeoutResult" where
  "timeout_result ob m =
     \<lparr>htr_MonitorID = um_id m, htr_PreviousState = um_current_state m, htr_CurrentState = MonitorStateDown,
      htr_IncidentOpened = (um_current_state m \<noteq> MonitorStateDown),
      htr_AlreadyDown = (um_current_state m = MonitorStateDown), htr_TimeoutRecorded = True\<rparr>"

lemma recordHeartbeatTimeoutInTx_ok:
  assumes run: "recordHeartbeatTimeoutInTx timeout s = (Inr r, t)" and q: "quiet (ses_env s)"
    and wf: "uptime_consistent (ses_db s)"
  defines "ob \<equiv> monitorObservationFromHeartbeatTimeout timeout"
  shows "\<exists>m. check_recorded ob m (ses_db s) (ses_db t) \<and> r = timeout_result ob m"
proof -
  have ob: "ob_State ob = MonitorStateDown" "ob_MonitorID ob = to_MonitorID timeout"
    by (simp_all add: ob_def monitorObservationFromHeartbeatTimeout_def)
  from run obtain st s1 checkID s2 u s3 where steps: "lockMonitorState ob s = (Inr st, s1)"
    "insertMonitorCheck ob s1 = (Inr checkID, s2)"
    "updateMonitorAfterCheck ob (ps_intervalSeconds st) s2 = (Inr u, s3)"
    and rest: "(let timeoutResult = \<lparr>htr_MonitorID = MonitorID_String (to_MonitorID timeout),
           htr_PreviousState = ps_currentState st, htr_CurrentState = MonitorStateDown,
           htr_IncidentOpened = False, htr_AlreadyDown = (ps_currentState st = MonitorStateDown),
           htr_TimeoutRecorded = True\<rparr> in
     if \<not> MonitorStateChanged (ps_currentState st) MonitorStateDown then areturn timeoutResult else
     abind (ensureOpenMonitorIncident ob checkID) (\<lambda>opened.
     abind (insertAuditEvent (state_change_audit (to_Scope timeout) (to_MonitorID timeout)
       (ps_currentState st) MonitorStateDown)) (\<lambda>_.
     areturn (timeoutResult\<lparr>htr_IncidentOpened := opened\<rparr>)))) s3 = (Inr r, t)"
    unfolding recordHeartbeatTimeoutInTx_def Let_def ob_def [symmetric] abind_ok by blast
  from locked_and_updated [OF steps q wf] obtain m where m: "ses_env s3 = ses_env s"
      "db_monitor_incidents (ses_db s3) = db_monitor_incidents (ses_db s)"
      "find (in_monitor_scope (ob_Scope ob) (ob_MonitorID ob)) (db_monitors (ses_db s)) = Some m"
      "um_id m = MonitorID_String (ob_MonitorID ob)" "m \<in> set (db_monitors (ses_db s))"
      "ps_currentState st = um_current_state m"
      "db_monitors (ses_db s3) = update_rows (\<lambda>r. um_id r = um_id m)
         (checked_monitor ob (um_interval_seconds m)) (db_monitors (ses_db s))"
    by blast
  have q3: "quiet (ses_env s3)" using m q by simp
  have none_open: "open_incidents (um_id m) (ses_db s3) \<noteq> 0 \<longleftrightarrow> um_current_state m = MonitorStateDown"
    using consistent_monitor [OF wf m(5)] m(2) by (simp add: open_incidents_def)
  show ?thesis
  proof (cases "um_current_state m = MonitorStateDown")
    case True
    with rest m ob have "t = s3" "r = timeout_result ob m"
      by (auto simp: Let_def MonitorStateChanged_def areturn_eq timeout_result_def)
    with m True ob show ?thesis by (auto simp: check_recorded_def incident_move_def)
  next
    case False
    then obtain new s4 v where ens: "ensureOpenMonitorIncident ob checkID s3 = (Inr new, s4)"
      and audit: "insertAuditEvent (state_change_audit (to_Scope timeout) (to_MonitorID timeout)
         (um_current_state m) MonitorStateDown) s4 = (Inr v, t)"
      and r: "r = \<lparr>htr_MonitorID = um_id m, htr_PreviousState = um_current_state m,
         htr_CurrentState = MonitorStateDown, htr_IncidentOpened = new, htr_AlreadyDown = False,
         htr_TimeoutRecorded = True\<rparr>"
      using rest m(4,6) ob by (auto simp: Let_def MonitorStateChanged_def abind_ok areturn_eq)
    note 4 = ensureOpenMonitorIncident_ok [OF ens q3, of "um_current_state m"]
    with False none_open m(4) r have "r = timeout_result ob m" by (auto simp: timeout_result_def)
    with 4 insertAuditEvent_ok [OF audit] q3 m False ob show ?thesis
      by (auto simp: check_recorded_def intro!: exI [of _ m] elim!: incident_move_transfer)
  qed
qed

subsection \<open>Recording a check-in\<close>

definition checked_in_monitor :: "gotime \<Rightarrow> int \<Rightarrow> int \<Rightarrow> MonitorRow \<Rightarrow> MonitorRow" where
  "checked_in_monitor checkedAt interval grace r =
     r\<lparr>um_current_state := MonitorStateUp, um_last_checked_at := Some (timestamptz checkedAt),
       um_last_check_in_at := Some (timestamptz checkedAt),
       um_next_check_at := timestamptz (checkedAt + seconds (int64 (interval + grace))),
       um_check_lease_until := None, um_updated_at := timestamptz checkedAt\<rparr>"

definition heartbeat_endpoint :: "string \<Rightarrow> MonitorRow \<Rightarrow> bool" where
  "heartbeat_endpoint endpointID r \<longleftrightarrow>
     um_monitor_type r = ''heartbeat'' \<and> um_heartbeat_endpoint_id r = Some endpointID \<and> um_enabled r"

definition check_in_recorded :: "HeartbeatCheckInCommand \<Rightarrow> MonitorRow \<Rightarrow> DB \<Rightarrow> DB \<Rightarrow> bool" where
  "check_in_recorded command m d d' \<longleftrightarrow>
     find (heartbeat_endpoint (hci_EndpointID command)) (db_monitors d) = Some m \<and>
     (\<exists>grace. um_heartbeat_grace_seconds m = Some grace \<and>
        db_monitors d' = update_rows (\<lambda>r. um_id r = um_id m)
          (checked_in_monitor (hci_CheckedAt command) (um_interval_seconds m) grace) (db_monitors d)) \<and>
     incident_move (um_id m) (um_current_state m) MonitorStateUp d d'"

lemma check_in_consistent:
  assumes "check_in_recorded command m d d'" and wf: "uptime_consistent d"
  shows "uptime_consistent d'"
proof -
  have "m \<in> set (db_monitors d)" using assms(1) find_SomeD by (fastforce simp: check_in_recorded_def)
  moreover obtain grace where "db_monitors d' = update_rows (\<lambda>r. um_id r = um_id m)
      (checked_in_monitor (hci_CheckedAt command) (um_interval_seconds m) grace) (db_monitors d)"
    using assms(1) by (auto simp: check_in_recorded_def)
  ultimately show ?thesis
    using assms(1) unfolding check_in_recorded_def
    by (intro monitor_change [OF wf, of m "um_id m" d'
          "checked_in_monitor (hci_CheckedAt command) (um_interval_seconds m) grace" MonitorStateUp])
      (auto simp: checked_in_monitor_def)
qed

lemma lockHeartbeat_ok:
  assumes "lockHeartbeatMonitorStateByEndpoint endpointID s = (Inr st, t)" and "quiet (ses_env s)"
  shows "ses_env t = ses_env s \<and> ses_db t = ses_db s \<and>
    (\<exists>m. find (heartbeat_endpoint endpointID) (db_monitors (ses_db s)) = Some m \<and>
      um_heartbeat_grace_seconds m = Some (hs_heartbeatGraceSeconds st) \<and>
      NewMonitorID (um_id m) = ok (hs_monitorID st) \<and>
      ParseMonitorState (um_current_state m) = ok (hs_currentState st) \<and>
      hs_intervalSeconds st = um_interval_seconds m)"
  using assms unfolding lockHeartbeatMonitorStateByEndpoint_def heartbeat_endpoint_def [abs_def]
  by (auto simp: abind_ok rbind_eq_ok action_simps dest!: quiet_runs split: option.split_asm)

lemma updateHeartbeatAfterCheckIn_ok:
  assumes "updateHeartbeatAfterCheckIn ob st s = (Inr u, t)" and "quiet (ses_env s)"
    and "ob_State ob = MonitorStateUp"
  shows "ses_env t = ses_env s \<and>
    length (filter (in_monitor_scope (ob_Scope ob) (ob_MonitorID ob)) (db_monitors (ses_db s))) = 1 \<and>
    ses_db t = (ses_db s)\<lparr>db_monitors := update_rows (in_monitor_scope (ob_Scope ob) (ob_MonitorID ob))
      (checked_in_monitor (ob_CheckedAt ob) (hs_intervalSeconds st) (hs_heartbeatGraceSeconds st))
      (db_monitors (ses_db s))\<rparr>"
  using assms unfolding updateHeartbeatAfterCheckIn_def Let_def checked_in_monitor_def [abs_def]
  by (auto simp: abind_ok rbind_eq_ok action_simps update_monitor_def dest!: quiet_runs split: if_split_asm)

lemma uuid_param_NewMonitorID:
  "uuid_param i \<Longrightarrow> \<exists>c. NewMonitorID i = ok c \<and> MonitorID_String c = i"
  by (auto simp: uuid_param_def NewMonitorID_def MonitorID_String_def split: sum.split_asm)

definition check_in_result :: "MonitorRow \<Rightarrow> HeartbeatCheckInResult" where
  "check_in_result m =
     \<lparr>hr_MonitorID = um_id m, hr_PreviousState = um_current_state m, hr_CurrentState = MonitorStateUp,
      hr_IncidentClosed = (um_current_state m = MonitorStateDown)\<rparr>"

lemma one_row_in_scope:
  assumes "length (filter (in_monitor_scope scope monitor) rows) = 1" and "distinct (map um_id rows)"
    and "m \<in> set rows" and "um_id m = MonitorID_String monitor"
  shows "find (in_monitor_scope scope monitor) rows = Some m"
proof -
  obtain r where r: "filter (in_monitor_scope scope monitor) rows = [r]"
    using assms(1) by (auto simp: length_Suc_conv)
  then have "find (in_monitor_scope scope monitor) rows = Some r"
    by (induction rows) (auto split: if_split_asm)
  moreover have "r = m"
    using assms(2-4) find_SomeD [OF calculation] 
    by (metis distinct_map inj_onD in_monitor_scope_def)
  ultimately show ?thesis by simp
qed

lemma recordHeartbeatCheckInInTx_ok:
  assumes run: "recordHeartbeatCheckInInTx command s = (Inr r, t)" and q: "quiet (ses_env s)"
    and wf: "uptime_consistent (ses_db s)"
  shows "\<exists>m. check_in_recorded command m (ses_db s) (ses_db t) \<and> r = check_in_result m"
proof -
  obtain st s1 where lock: "lockHeartbeatMonitorStateByEndpoint (hci_EndpointID command) s = (Inr st, s1)"
    using run unfolding recordHeartbeatCheckInInTx_def abind_ok by blast
  define ob where "ob = \<lparr>ob_Scope = hs_scope st, ob_MonitorID = hs_monitorID st,
    ob_CheckedAt = hci_CheckedAt command, ob_State = MonitorStateUp, ob_StatusCode = 0,
    ob_Duration = 0, ob_Error = []\<rparr>"
  have ob: "ob_State ob = MonitorStateUp" "ob_CheckedAt ob = hci_CheckedAt command"
    "ob_MonitorID ob = hs_monitorID st" by (simp_all add: ob_def)
  from run lock obtain checkID s2 u s3 where steps:
    "insertMonitorCheck ob s1 = (Inr checkID, s2)" "updateHeartbeatAfterCheckIn ob st s2 = (Inr u, s3)"
    and rest: "(let checkResult = \<lparr>hr_MonitorID = MonitorID_String (hs_monitorID st),
           hr_PreviousState = hs_currentState st, hr_CurrentState = MonitorStateUp,
           hr_IncidentClosed = False\<rparr> in
     if \<not> MonitorStateChanged (hs_currentState st) MonitorStateUp then areturn checkResult else
     abind (closeOpenMonitorIncident ob checkID) (\<lambda>closed.
     abind (insertAuditEvent (state_change_audit (hs_scope st) (hs_monitorID st)
       (hs_currentState st) MonitorStateUp)) (\<lambda>_.
     areturn (checkResult\<lparr>hr_IncidentClosed := closed\<rparr>)))) s3 = (Inr r, t)"
    unfolding recordHeartbeatCheckInInTx_def Let_def ob_def abind_ok by auto
  note 1 = lockHeartbeat_ok [OF lock q]
  then have q1: "quiet (ses_env s1)" using q by simp
  note 2 = insertMonitorCheck_ok [OF steps(1) q1]
  then have q2: "quiet (ses_env s2)" using q1 by simp
  note 3 = updateHeartbeatAfterCheckIn_ok [OF steps(2) q2 ob(1)]
  then have q3: "quiet (ses_env s3)" using q2 by simp
  have dist: "distinct (map um_id (db_monitors (ses_db s)))" using wf by (simp add: uptime_consistent_def)
  from 1 obtain m where m: "find (heartbeat_endpoint (hci_EndpointID command)) (db_monitors (ses_db s)) = Some m"
    "um_heartbeat_grace_seconds m = Some (hs_heartbeatGraceSeconds st)" "NewMonitorID (um_id m) = ok (hs_monitorID st)"
    "ParseMonitorState (um_current_state m) = ok (hs_currentState st)" "hs_intervalSeconds st = um_interval_seconds m"
    by blast
  have row: "m \<in> set (db_monitors (ses_db s))" using m(1) find_SomeD by fastforce
  then have "uuid_param (um_id m)" using wf by (auto simp: uptime_consistent_def)
  then have id: "um_id m = MonitorID_String (ob_MonitorID ob)"
    using m(3) ob(3) by (metis uuid_param_NewMonitorID Inr_inject)
  have state: "hs_currentState st = um_current_state m" using consistent_monitor [OF wf row] m(4) by simp
  have rows: "db_monitors (ses_db s2) = db_monitors (ses_db s)"
    "db_monitor_incidents (ses_db s3) = db_monitor_incidents (ses_db s)"
    using 1 2 3 by auto
  have found: "find (in_monitor_scope (ob_Scope ob) (ob_MonitorID ob)) (db_monitors (ses_db s)) = Some m"
    using 3 rows by (intro one_row_in_scope dist row id) simp
  have monitors: "db_monitors (ses_db s3) = update_rows (\<lambda>r. um_id r = um_id m)
      (checked_in_monitor (hci_CheckedAt command) (um_interval_seconds m) (hs_heartbeatGraceSeconds st))
      (db_monitors (ses_db s))"
    using 3 rows monitor_in_scope [OF found dist] m(5) ob(2) by simp
  have none_open: "open_incidents (um_id m) (ses_db s3) \<noteq> 0 \<longleftrightarrow> um_current_state m = MonitorStateDown"
    using consistent_monitor [OF wf row] rows(2) by (simp add: open_incidents_def)
  show ?thesis
  proof (cases "um_current_state m = MonitorStateUp")
    case True
    with rest state id ob(3) have "t = s3" "r = check_in_result m"
      by (auto simp: Let_def MonitorStateChanged_def areturn_eq check_in_result_def monitor_state_defs)
    with m True rows monitors show ?thesis by (auto simp: check_in_recorded_def incident_move_def)
  next
    case False
    then obtain closed s4 v where closing: "closeOpenMonitorIncident ob checkID s3 = (Inr closed, s4)"
      and audit: "insertAuditEvent (state_change_audit (hs_scope st) (hs_monitorID st)
         (um_current_state m) MonitorStateUp) s4 = (Inr v, t)"
      and r: "r = \<lparr>hr_MonitorID = um_id m, hr_PreviousState = um_current_state m,
         hr_CurrentState = MonitorStateUp, hr_IncidentClosed = closed\<rparr>"
      using rest state id ob(3) by (auto simp: Let_def MonitorStateChanged_def abind_ok areturn_eq)
    note 4 = closeOpenMonitorIncident_ok [OF closing q3, of "um_current_state m"]
    with False none_open id r have "r = check_in_result m" by (auto simp: check_in_result_def)
    with 4 insertAuditEvent_ok [OF audit] q3 m monitors rows False id show ?thesis
      by (auto simp: check_in_recorded_def intro!: exI [of _ m] elim!: incident_move_transfer)
  qed
qed

subsection \<open>Creating and claiming keep the store consistent\<close>

lemma uptime_consistent_cong:
  assumes "map (\<lambda>m. (um_id m, um_current_state m)) (db_monitors d') = map (\<lambda>m. (um_id m, um_current_state m)) (db_monitors d)"
    and "db_monitor_incidents d' = db_monitor_incidents d"
  shows "uptime_consistent d' \<longleftrightarrow> uptime_consistent d"
proof -
  have ids: "map um_id (db_monitors d') = map um_id (db_monitors d)"
    using arg_cong [OF assms(1), of "map fst"] by (simp add: o_def)
  have "(\<forall>m\<in>set (db_monitors d'). P (um_id m) (um_current_state m)) \<longleftrightarrow>
      (\<forall>m\<in>set (db_monitors d). P (um_id m) (um_current_state m))" for P
    using arg_cong [OF assms(1), of "\<lambda>ps. \<forall>(i, st)\<in>set ps. P i st"] by (simp add: case_prod_beta)
  from this [of "\<lambda>i st. uuid_param i \<and> MonitorState_Valid st \<and>
      open_incidents i d = (if st = MonitorStateDown then 1 else 0)"]
  show ?thesis
    unfolding uptime_consistent_def monitor_exists_ids ids assms(2) open_incidents_def by simp
qed

lemma claim_monitors_ok:
  assumes "claim_monitors kind now limit lease d = ok (rows, d')"
  shows "0 \<le> limit \<and> rows = due_monitors kind (timestamptz now) limit d \<and>
    d' = d\<lparr>db_monitors := update_rows (\<lambda>r. um_id r \<in> set (map um_id rows))
      (\<lambda>r. r\<lparr>um_check_lease_until := Some (timestamptz lease)\<rparr>) (db_monitors d)\<rparr>"
  using assms by (auto simp: claim_monitors_def Let_def rbind_eq_ok)

lemma claim_monitors_consistent:
  assumes "claim_monitors kind now limit lease d = ok (rows, d')"
  shows "uptime_consistent d' \<longleftrightarrow> uptime_consistent d"
  using claim_monitors_ok [OF assms]
  by (intro uptime_consistent_cong) (simp_all add: map_update_rows)

lemma insert_monitor_ok:
  assumes "insert_monitor row d = ok (u, d')"
  shows "uuid_param (um_id row) \<and> \<not> monitor_exists (um_id row) d \<and>
    d' = d\<lparr>db_monitors := db_monitors d @ [row]\<rparr>"
  using assms by (simp add: insert_monitor_def rbind_eq_ok)

lemma insert_monitor_consistent:
  assumes ins: "insert_monitor row d = ok (u, d')" and new: "um_current_state row = MonitorStateUnknown"
    and wf: "uptime_consistent d"
  shows "uptime_consistent d'"
proof -
  note row = insert_monitor_ok [OF ins]
  have "\<forall>i\<in>set (db_monitor_incidents d). mi_monitor_id i \<noteq> um_id row"
    using wf row by (auto simp: uptime_consistent_def)
  then have "open_incidents (um_id row) d = 0"
    by (auto simp: open_incidents_def filter_empty_conv open_incident_def)
  then have "open_incidents (um_id row) d' = 0" "\<And>i. open_incidents i d' = open_incidents i d"
    using row by (simp_all add: open_incidents_def)
  with wf row new show ?thesis
    by (auto simp: uptime_consistent_def monitor_exists_ids MonitorState_Valid_def monitor_state_defs)
qed

text \<open>The operations of the store, each with what it keeps.\<close>

abbreviation uptime_ready :: "'w Session \<Rightarrow> bool" where
  "uptime_ready s \<equiv> session_ready s \<and> uptime_consistent (ses_db s)"

lemma transaction_keeps:
  assumes "evolves session_step body" and "in_transaction body s = (r, t)" and "uptime_ready s"
    and "\<And>v s1 t1. body s1 = (Inr v, t1) \<Longrightarrow> quiet (ses_env s1) \<Longrightarrow>
      uptime_consistent (ses_db s1) \<Longrightarrow> uptime_consistent (ses_db t1)"
  shows "uptime_ready t"
proof -
  note ready = transaction_ready [OF assms(1) _ assms(2)]
  show ?thesis
  proof (cases r)
    case (Inl e)
    with ready assms(3) show ?thesis by simp
  next
    case (Inr v)
    with ready assms(3) obtain s1 t1 where "session_ready t" "quiet (ses_env s1)" "ses_db s1 = ses_db s"
      "body s1 = (Inr v, t1)" "ses_db t = ses_db t1" by auto
    with assms(4) [of s1 v t1] assms(3) show ?thesis by simp
  qed
qed

lemma evolves_record:
  "evolves session_step (recordHTTPMonitorCheckInTx ob)"
  "evolves session_step (recordHeartbeatCheckInInTx command)"
  "evolves session_step (recordHeartbeatTimeoutInTx timeout)"
  unfolding recordHTTPMonitorCheckInTx_def recordHeartbeatCheckInInTx_def recordHeartbeatTimeoutInTx_def
    lockMonitorState_def lockHeartbeatMonitorStateByEndpoint_def insertMonitorCheck_def
    updateMonitorAfterCheck_def updateHeartbeatAfterCheckIn_def applyMonitorIncidentTransition_def
    ensureOpenMonitorIncident_def closeOpenMonitorIncident_def Let_def
  by (intro session_steps evolves_insertAuditEvent_any)+

lemma evolves_create:
  "evolves session_step (createHTTPMonitorInTx c defn)"
  "evolves session_step (createHeartbeatMonitorInTx c')"
  unfolding createHTTPMonitorInTx_def createHeartbeatMonitorInTx_def Let_def
  by (intro session_steps evolves_insertAuditEvent_any)+

lemma createHTTPMonitorInTx_consistent:
  assumes "createHTTPMonitorInTx c defn s = (Inr v, t)" and "quiet (ses_env s)"
    and wf: "uptime_consistent (ses_db s)"
  shows "ses_env t = ses_env s \<and> uptime_consistent (ses_db t)"
proof -
  obtain u w row x where u: "randomUUID s = (Inr v, u)" and w: "time_Now u = (Inr x, w)"
    and ins: "statement (insert_monitor row) w = (Inr (), t)" and row: "um_current_state row = MonitorStateUnknown"
    using assms(1) unfolding createHTTPMonitorInTx_def abind_ok areturn_eq
    by (fastforce simp: MonitorStateUnknown_def)
  note q = randomUUID_quietD [OF u assms(2)] time_Now_quietD [OF w]
  with statement_quietD [OF ins] assms(2)
  have "insert_monitor row (ses_db s) = Inr ((), ses_db t)" "ses_env t = ses_env s" by simp_all
  with insert_monitor_consistent [OF _ row wf] show ?thesis by simp
qed

lemma createHeartbeatMonitorInTx_consistent:
  assumes "createHeartbeatMonitorInTx c s = (Inr v, t)" and "quiet (ses_env s)"
    and wf: "uptime_consistent (ses_db s)"
  shows "ses_env t = ses_env s \<and> uptime_consistent (ses_db t)"
proof -
  obtain i u j u' w row x where u: "randomUUID s = (Inr i, u)" "randomUUID u = (Inr j, u')"
    and w: "time_Now u' = (Inr x, w)"
    and ins: "statement (insert_monitor row) w = (Inr (), t)" and row: "um_current_state row = MonitorStateUnknown"
    using assms(1) unfolding createHeartbeatMonitorInTx_def abind_ok areturn_eq alift_eq Let_def
    by (fastforce simp: MonitorStateUnknown_def)
  note q = randomUUID_quietD [OF u(1) assms(2)] randomUUID_quietD [OF u(2)] time_Now_quietD [OF w]
  with statement_quietD [OF ins] assms(2)
  have "insert_monitor row (ses_db s) = Inr ((), ses_db t)" "ses_env t = ses_env s" by simp_all
  with insert_monitor_consistent [OF _ row wf] show ?thesis by simp
qed

lemma audit_consistent:
  assumes "insertAuditEvent input s = (Inr v, t)" and "quiet (ses_env s)" and "uptime_consistent (ses_db s)"
  shows "uptime_consistent (ses_db t)"
  using insertAuditEvent_ok [OF assms(1,2)] assms(3)
    uptime_consistent_cong [of "ses_db t" "ses_db s"] by auto

lemma uptime_operations_ready:
  "RecordHTTPMonitorCheck ob s = (r1, t) \<Longrightarrow> uptime_ready s \<Longrightarrow> uptime_ready t"
  "RecordHeartbeatTimeout timeout s = (r2, t) \<Longrightarrow> uptime_ready s \<Longrightarrow> uptime_ready t"
  "Store_RecordHeartbeatCheckIn command s = (r3, t) \<Longrightarrow> uptime_ready s \<Longrightarrow> uptime_ready t"
proof -
  show "RecordHTTPMonitorCheck ob s = (r1, t) \<Longrightarrow> uptime_ready s \<Longrightarrow> uptime_ready t"
    unfolding RecordHTTPMonitorCheck_def
    by (erule transaction_keeps [OF evolves_record(1)], assumption)
      (auto dest!: recordHTTPMonitorCheckInTx_ok intro: check_recorded_consistent)
  show "RecordHeartbeatTimeout timeout s = (r2, t) \<Longrightarrow> uptime_ready s \<Longrightarrow> uptime_ready t"
    unfolding RecordHeartbeatTimeout_def
    by (erule transaction_keeps [OF evolves_record(3)], assumption)
      (auto dest!: recordHeartbeatTimeoutInTx_ok intro: check_recorded_consistent)
  show "Store_RecordHeartbeatCheckIn command s = (r3, t) \<Longrightarrow> uptime_ready s \<Longrightarrow> uptime_ready t"
    unfolding Store_RecordHeartbeatCheckIn_def
    by (erule transaction_keeps [OF evolves_record(2)], assumption)
      (auto dest!: recordHeartbeatCheckInInTx_ok intro: check_in_consistent)
qed

lemma abind_alift: "abind (alift (Inr v)) f = f v"
  by (simp add: abind_def alift_def fun_eq_iff)

lemma Store_CreateHTTPMonitor_ready:
  assumes "Store_CreateHTTPMonitor url_Parse c s = (r, t)" and "uptime_ready s"
  shows "uptime_ready t"
proof (cases "NewHTTPMonitorDefinition url_Parse (chm_Name c) (chm_URL c)
    (seconds (chm_IntervalSeconds c)) (seconds (chm_TimeoutSeconds c))")
  case (Inl e)
  with assms show ?thesis by (simp add: Store_CreateHTTPMonitor_def abind_def alift_def)
next
  case (Inr defn)
  note run = assms(1) [unfolded Store_CreateHTTPMonitor_def Inr abind_alift]
  show ?thesis
  proof (rule transaction_keeps [OF _ run assms(2)], goal_cases)
    case 1 show ?case by (intro session_steps evolves_create evolves_insertAuditEvent_any)
  next
    case (2 v s1 t1)
    then show ?case
      by (fastforce simp: abind_ok areturn_eq dest: createHTTPMonitorInTx_consistent audit_consistent)
  qed
qed

lemma Store_CreateHeartbeatMonitor_ready:
  assumes "Store_CreateHeartbeatMonitor c s = (r, t)" and "uptime_ready s"
  shows "uptime_ready t"
proof (rule transaction_keeps [OF _ assms(1) [unfolded Store_CreateHeartbeatMonitor_def] assms(2)], goal_cases)
  case 1 show ?case by (intro session_steps evolves_create evolves_insertAuditEvent_any)
next
  case (2 v s1 t1)
  then show ?case
    by (fastforce simp: abind_ok areturn_eq dest: createHeartbeatMonitorInTx_consistent audit_consistent)
qed

lemma claims_ready:
  "ClaimDueHTTPMonitors url_Parse now limit s = (r1, t) \<Longrightarrow> uptime_ready s \<Longrightarrow> uptime_ready t"
  "ClaimOverdueHeartbeatMonitors now limit s = (r2, t) \<Longrightarrow> uptime_ready s \<Longrightarrow> uptime_ready t"
proof -
  have claim: "uptime_ready t" if "pool_statement (claim_monitors kind now limit lease) s = (r, t)" "uptime_ready s"
    for kind lease r
    using pool_ready [OF that(1)] that(2) claim_monitors_consistent by (fastforce split: sum.split_asm)
  show "ClaimDueHTTPMonitors url_Parse now limit s = (r1, t) \<Longrightarrow> uptime_ready s \<Longrightarrow> uptime_ready t"
    "ClaimOverdueHeartbeatMonitors now limit s = (r2, t) \<Longrightarrow> uptime_ready s \<Longrightarrow> uptime_ready t"
    unfolding ClaimDueHTTPMonitors_def ClaimOverdueHeartbeatMonitors_def abind_def alift_def
    by (auto split: prod.split_asm sum.split_asm dest: claim)
qed

subsection \<open>The interface of the application\<close>

text \<open>
  The contract of the check store: its operations keep an invariant of the session, and a claim gives
  at most as many targets as were asked for. With a resolver and a probe that keep the invariant, the
  checks of the application keep it too.
\<close>

abbreviation keeps :: "('s \<Rightarrow> bool) \<Rightarrow> ('s, 'a) action \<Rightarrow> bool" where
  "keeps good \<equiv> evolves (\<lambda>s t. good s \<longrightarrow> good t)"

definition resolver_keeps :: "('s \<Rightarrow> bool) \<Rightarrow> 's Resolver \<Rightarrow> bool" where
  "resolver_keeps good resolver \<longleftrightarrow> (case resolver of None \<Rightarrow> True | Some LookupHost \<Rightarrow> \<forall>host. keeps good (LookupHost host))"

definition probe_keeps :: "('s \<Rightarrow> bool) \<Rightarrow> 's HTTPProbe option \<Rightarrow> bool" where
  "probe_keeps good probe \<longleftrightarrow> (case probe of None \<Rightarrow> True | Some p \<Rightarrow> \<forall>destination timeout. keeps good (p destination timeout))"

lemma validate_keeps:
  assumes "resolver_keeps good resolver"
  shows "keeps good (ValidateResolvedDestination resolver destination)"
    "keeps good (ValidateDestination url_Parse resolver input)"
proof -
  have "keeps good (ValidateResolvedDestination resolver destination)" for destination
    using assms unfolding ValidateResolvedDestination_def resolver_keeps_def
    by (cases resolver) (auto intro!: evolves_intros)
  then show "keeps good (ValidateResolvedDestination resolver destination)"
    "keeps good (ValidateDestination url_Parse resolver input)"
    unfolding ValidateDestination_def by (auto intro!: evolves_intros)
qed

locale check_store =
  fixes store :: "'s CheckStore"
    and good :: "'s \<Rightarrow> bool"
  assumes claim_http_keeps: "keeps good (cs_ClaimDueHTTPMonitors store now limit)"
    and claim_http_limit: "cs_ClaimDueHTTPMonitors store now limit s = (Inr targets, t) \<Longrightarrow> int (length targets) \<le> limit"
    and record_check_keeps: "keeps good (cs_RecordHTTPMonitorCheck store observation)"
    and claim_heartbeat_keeps: "keeps good (cs_ClaimOverdueHeartbeatMonitors store now limit)"
    and claim_heartbeat_limit: "cs_ClaimOverdueHeartbeatMonitors store now limit s = (Inr heartbeats, t) \<Longrightarrow> int (length heartbeats) \<le> limit"
    and record_timeout_keeps: "keeps good (cs_RecordHeartbeatTimeout store timeout)"
begin

lemma checkHTTPMonitor_keeps:
  assumes "resolver_keeps good resolver" and "probe_keeps good (Some probe)"
  shows "keeps good (checkHTTPMonitor resolver probe now target)"
proof (rule evolvesI, rule impI)
  fix s r t assume run: "checkHTTPMonitor resolver probe now target s = (r, t)" and s: "good s"
  obtain x u where x: "ValidateResolvedDestination resolver (ht_URL target) s = (x, u)" by fastforce
  with s have u: "good u" using keepsD [OF validate_keeps(1) [OF assms(1)]] by blast
  show "good t"
  proof (cases x)
    case (Inl e)
    with run x u show ?thesis by (cases e) (simp add: checkHTTPMonitor_def)
  next
    case (Inr v)
    obtain y w where y: "probe (ht_URL target) (ht_Timeout target) u = (y, w)" by fastforce
    with u assms(2) have "good w" by (auto simp: probe_keeps_def dest: evolvesD)
    with run x y Inr show ?thesis
      by (cases y; cases "projl y") (auto simp: checkHTTPMonitor_def)
  qed
qed

lemma check_http_targets_keeps:
  assumes "resolver_keeps good resolver" and "probe_keeps good (Some probe)"
  shows "keeps good (check_http_targets store resolver probe now targets summary)"
  by (induction targets arbitrary: summary)
    (auto intro!: evolves_intros checkHTTPMonitor_keeps assms record_check_keeps)

lemma observed_state:
  "checkHTTPMonitor resolver probe now target s = (Inr ob, t) \<Longrightarrow>
   ob_State ob = MonitorStateUp \<and> ob_Error ob = [] \<or> ob_State ob = MonitorStateDown"
  by (auto simp: checkHTTPMonitor_def failedObservation_def MonitorStateFromHTTPStatus_def
      split: prod.split_asm sum.split_asm go_error.split_asm)

lemma check_http_targets_counts:
  assumes "check_http_targets store resolver probe now targets summary s = (Inr r, t)"
  shows "cs_Claimed r = cs_Claimed summary \<and>
    cs_Checked r = cs_Checked summary + int (length targets) \<and>
    cs_Up r + cs_Down r = cs_Up summary + cs_Down summary + int (length targets) \<and>
    cs_Failures r - cs_Failures summary \<le> cs_Down r - cs_Down summary"
  using assms
proof (induction targets arbitrary: summary s)
  case Nil
  then show ?case by (simp add: areturn_eq)
next
  case (Cons target targets)
  then obtain ob u x v where ob: "checkHTTPMonitor resolver probe now target s = (Inr ob, u)"
    and rest: "check_http_targets store resolver probe now targets (countObservation summary ob) v = (Inr r, t)"
    by (auto simp: abind_ok)
  with Cons.IH [OF rest] observed_state [OF ob] show ?case
    by (auto simp: countObservation_def Let_def monitor_state_defs split: if_split_asm)
qed

lemma CheckDueHTTPMonitors_counts:
  assumes "CheckDueHTTPMonitors (Some store) resolver probe command s = (Inr r, t)"
  shows "cs_Checked r = cs_Claimed r \<and> cs_Up r + cs_Down r = cs_Claimed r \<and>
    cs_Failures r \<le> cs_Down r \<and> cs_Claimed r \<le> min 100 (cd_Limit command)"
proof -
  from assms obtain targets u where valid: "validateCheckInputs (Some store) resolver probe command = ok ()"
    and claim: "cs_ClaimDueHTTPMonitors store (cd_Now command) (normalizeLimit (cd_Limit command)) s = (Inr targets, u)"
    and run: "check_http_targets store resolver (the probe) (cd_Now command) targets (claimed_summary targets) u = (Inr r, t)"
    unfolding CheckDueHTTPMonitors_def by (auto simp: abind_ok alift_eq)
  have "normalizeLimit (cd_Limit command) = min 100 (cd_Limit command)"
    using valid by (auto simp: validateCheckInputs_def normalizeLimit_def maxCheckLimit_def split: if_split_asm)
  with claim_http_limit [OF claim] check_http_targets_counts [OF run] show ?thesis
    by (simp add: claimed_summary_def)
qed

lemma CheckDueHTTPMonitors_keeps:
  assumes "resolver_keeps good resolver" and "probe_keeps good probe"
  shows "keeps good (CheckDueHTTPMonitors (Some store) resolver probe command)"
proof (cases "validateCheckInputs (Some store) resolver probe command")
  case (Inl e)
  then show ?thesis by (simp add: CheckDueHTTPMonitors_def evolves_def abind_def alift_def)
next
  case (Inr u)
  then obtain p where "probe = Some p"
    by (cases probe) (simp_all add: validateCheckInputs_def split: if_split_asm)
  with Inr assms show ?thesis
    unfolding CheckDueHTTPMonitors_def
    by (auto simp: abind_alift intro!: evolves_intros claim_http_keeps check_http_targets_keeps)
qed

lemma time_out_targets_keeps: "keeps good (time_out_targets store now targets summary)"
  by (induction targets arbitrary: summary) (auto simp: Let_def intro!: evolves_intros record_timeout_keeps)

lemma CheckDueHeartbeatMonitors_keeps: "keeps good (CheckDueHeartbeatMonitors (Some store) command)"
  unfolding CheckDueHeartbeatMonitors_def
  by (auto intro!: evolves_intros claim_heartbeat_keeps time_out_targets_keeps)

end

text \<open>The store of the monitors beside it.\<close>

locale uptime_ports = check_store store good
  for store :: "'s CheckStore" and good :: "'s \<Rightarrow> bool" +
  fixes manager :: "'s UptimeManager"
  assumes create_http_keeps: "keeps good (umg_CreateHTTPMonitor manager create_http)"
    and create_heartbeat_keeps: "keeps good (umg_CreateHeartbeatMonitor manager create_heartbeat)"
    and check_in_keeps: "keeps good (umg_RecordHeartbeatCheckIn manager check_in)"
begin

lemma CreateHTTPMonitor_keeps:
  "resolver_keeps good resolver \<Longrightarrow> keeps good (CreateHTTPMonitor url_Parse resolver (Some manager) command)"
  unfolding CreateHTTPMonitor_def
  by (auto intro!: evolves_intros validate_keeps create_http_keeps)

lemma CreateHeartbeatMonitor_keeps: "keeps good (CreateHeartbeatMonitor (Some manager) command)"
  unfolding CreateHeartbeatMonitor_def by (auto intro!: evolves_intros create_heartbeat_keeps)

lemma RecordHeartbeatCheckIn_keeps: "keeps good (RecordHeartbeatCheckIn (Some manager) command)"
  unfolding RecordHeartbeatCheckIn_def by (auto intro!: evolves_intros check_in_keeps)

end

text \<open>Requests to the application, in the order they are served.\<close>

datatype UptimeRequest =
    CreateHTTPRequest CreateHTTPMonitorCommand
  | CreateHeartbeatRequest CreateHeartbeatMonitorCommand
  | CheckInRequest HeartbeatCheckInCommand
  | CheckHTTPRequest CheckDueCommand
  | CheckHeartbeatsRequest CheckDueCommand

fun serve_uptime :: "url_parser \<Rightarrow> 's Resolver \<Rightarrow> 's HTTPProbe option \<Rightarrow> 's CheckStore \<Rightarrow> 's UptimeManager \<Rightarrow>
    UptimeRequest \<Rightarrow> ('s, unit) action" where
  "serve_uptime url_Parse resolver probe store manager (CreateHTTPRequest c) =
     discard (CreateHTTPMonitor url_Parse resolver (Some manager) c)"
| "serve_uptime url_Parse resolver probe store manager (CreateHeartbeatRequest c) =
     discard (CreateHeartbeatMonitor (Some manager) c)"
| "serve_uptime url_Parse resolver probe store manager (CheckInRequest c) =
     discard (RecordHeartbeatCheckIn (Some manager) c)"
| "serve_uptime url_Parse resolver probe store manager (CheckHTTPRequest c) =
     discard (CheckDueHTTPMonitors (Some store) resolver probe c)"
| "serve_uptime url_Parse resolver probe store manager (CheckHeartbeatsRequest c) =
     discard (CheckDueHeartbeatMonitors (Some store) c)"

context uptime_ports begin

lemma serve_keeps:
  assumes "resolver_keeps good resolver" and "probe_keeps good probe"
  shows "keeps good (serve_uptime url_Parse resolver probe store manager request)"
  by (cases request) (simp_all add: assms evolves_discard CreateHTTPMonitor_keeps
      CreateHeartbeatMonitor_keeps RecordHeartbeatCheckIn_keeps CheckDueHTTPMonitors_keeps
      CheckDueHeartbeatMonitors_keeps)

lemma serve_all_keeps:
  assumes "resolver_keeps good resolver" and "probe_keeps good probe"
  shows "keeps good (aeach (serve_uptime url_Parse resolver probe store manager) requests)"
  by (intro evolves_intros preorder_invariant serve_keeps assms)

end

subsection \<open>The PostgreSQL store provides the interface\<close>

lemma keepsI: "(\<And>s r t. m s = (r, t) \<Longrightarrow> P s \<Longrightarrow> P t) \<Longrightarrow> keeps P m"
  by (rule evolvesI) auto

lemma due_monitors_limit: "0 \<le> limit \<Longrightarrow> int (length (due_monitors kind now limit d)) \<le> limit"
  by (simp add: due_monitors_def)

lemma claim_targets_limit:
  assumes "abind (pool_statement (claim_monitors kind now limit lease)) (\<lambda>rows. alift (collect scan rows)) s =
    (Inr targets, t)"
  shows "int (length targets) \<le> limit"
proof -
  obtain rows u where pool: "pool_statement (claim_monitors kind now limit lease) s = (Inr rows, u)"
    and targets: "collect scan rows = ok targets"
    using assms unfolding abind_ok alift_eq by metis
  then obtain v where "statement (claim_monitors kind now limit lease) s = (Inr rows, v)"
    by (auto simp: pool_statement_def split: prod.split_asm sum.split_asm)
  from statement_okD [OF this] obtain d d' where "claim_monitors kind now limit lease d = ok (rows, d')"
    by blast
  from claim_monitors_ok [OF this] due_monitors_limit collect_length [OF targets] show ?thesis by metis
qed

lemmas store_ports = Store_CheckStore_def Store_UptimeManager_def CheckStore.simps UptimeManager.simps

lemma uptime_ready_keeps:
  "keeps uptime_ready (ClaimDueHTTPMonitors url_Parse now limit)"
  "keeps uptime_ready (ClaimOverdueHeartbeatMonitors now limit)"
  "keeps uptime_ready (RecordHTTPMonitorCheck ob)"
  "keeps uptime_ready (RecordHeartbeatTimeout timeout)"
  "keeps uptime_ready (Store_RecordHeartbeatCheckIn command)"
  "keeps uptime_ready (Store_CreateHTTPMonitor url_Parse c)"
  "keeps uptime_ready (Store_CreateHeartbeatMonitor c')"
  by (rule keepsI, erule (1) claims_ready uptime_operations_ready Store_CreateHTTPMonitor_ready
      Store_CreateHeartbeatMonitor_ready)+

interpretation uptime_store: uptime_ports "Store_CheckStore url_Parse" uptime_ready "Store_UptimeManager url_Parse"
proof (unfold_locales, goal_cases)
  case (2 now limit s targets t)
  then show ?case by (simp only: store_ports ClaimDueHTTPMonitors_def) (rule claim_targets_limit)
next
  case (5 now limit s targets t)
  then show ?case by (simp only: store_ports ClaimOverdueHeartbeatMonitors_def) (rule claim_targets_limit)
qed (simp_all only: store_ports uptime_ready_keeps)

subsection \<open>Claims during a lease\<close>

text \<open>A claim of either kind, with the time it was made at and its limit; the ids of the targets.\<close>

datatype MonitorClaim = HTTPClaim gotime int | HeartbeatClaim gotime int

fun claim_time :: "MonitorClaim \<Rightarrow> gotime" where
  "claim_time (HTTPClaim now limit) = now"
| "claim_time (HeartbeatClaim now limit) = now"

definition claimed_ids :: "('a \<Rightarrow> MonitorID) \<Rightarrow> 'a list result \<Rightarrow> string list" where
  "claimed_ids monitor r = (case r of Inl e \<Rightarrow> [] | Inr targets \<Rightarrow> map (\<lambda>t. MonitorID_String (monitor t)) targets)"

fun run_claim :: "url_parser \<Rightarrow> MonitorClaim \<Rightarrow> 'w Session \<Rightarrow> string list \<times> 'w Session" where
  "run_claim url_Parse (HTTPClaim now limit) s =
     (let (r, t) = ClaimDueHTTPMonitors url_Parse now limit s in (claimed_ids ht_MonitorID r, t))"
| "run_claim url_Parse (HeartbeatClaim now limit) s =
     (let (r, t) = ClaimOverdueHeartbeatMonitors now limit s in (claimed_ids hbt_MonitorID r, t))"

fun run_claims :: "url_parser \<Rightarrow> MonitorClaim list \<Rightarrow> 'w Session \<Rightarrow> string list \<times> 'w Session" where
  "run_claims url_Parse [] s = ([], s)"
| "run_claims url_Parse (c # cs) s =
     (let (ids, t) = run_claim url_Parse c s; (rest, u) = run_claims url_Parse cs t in (ids @ rest, u))"

definition leased :: "gotime \<Rightarrow> string \<Rightarrow> DB \<Rightarrow> bool" where
  "leased bound i d \<longleftrightarrow> (\<forall>m\<in>set (db_monitors d). um_id m = i \<longrightarrow>
     (\<exists>lease. um_check_lease_until m = Some lease \<and> bound \<le> lease))"

lemma claim_monitors_leases:
  assumes claim: "claim_monitors kind now limit lease d = ok (rows, d')"
    and wf: "uptime_consistent d" and "timestamptz now < bound" and "bound \<le> timestamptz lease"
  shows "distinct (map um_id rows) \<and> (\<forall>i\<in>set (map um_id rows). \<not> leased bound i d \<and> leased bound i d') \<and>
    (leased bound i d \<longrightarrow> leased bound i d')"
proof -
  have rows: "rows = due_monitors kind (timestamptz now) limit d"
    and d': "db_monitors d' = update_rows (\<lambda>r. um_id r \<in> set (map um_id rows))
      (\<lambda>r. r\<lparr>um_check_lease_until := Some (timestamptz lease)\<rparr>) (db_monitors d)"
    using claim_monitors_ok [OF claim] by simp_all
  have dist: "distinct (map um_id (db_monitors d))" using wf by (simp add: uptime_consistent_def)
  define due where "due = sort_key um_next_check_at (filter (monitor_due kind (timestamptz now)) (db_monitors d))"
  have "distinct (map um_id due)"
    using distinct_map_filter [OF dist] unfolding due_def distinct_map by simp
  then have 1: "distinct (map um_id rows)"
    unfolding rows due_monitors_def due_def [symmetric] by (simp flip: take_map add: distinct_take)
  have sub: "set rows \<subseteq> {r \<in> set (db_monitors d). monitor_due kind (timestamptz now) r}"
    unfolding rows due_monitors_def using set_take_subset by fastforce
  have 2: "\<not> leased bound (um_id r) d" if "r \<in> set rows" for r
    using sub that assms(3) by (fastforce simp: leased_def monitor_due_def)
  have 3: "leased bound (um_id r) d'" if "r \<in> set rows" for r
    using that assms(4) by (auto simp: leased_def d' set_update_rows)
  have 4: "leased bound i d \<longrightarrow> leased bound i d'"
    using assms(4) by (auto simp: leased_def d' set_update_rows)
  from 1 2 3 4 show ?thesis by auto
qed

lemma claimed_ids_rows:
  assumes "\<forall>r\<in>set rows. uuid_param (um_id r)"
    and "\<And>r t. scan r = ok t \<Longrightarrow> NewMonitorID (um_id r) = ok (monitor t)"
  shows "claimed_ids monitor (collect scan rows) = [] \<or> claimed_ids monitor (collect scan rows) = map um_id rows"
proof (cases "collect scan rows")
  case (Inl e)
  then show ?thesis by (simp add: claimed_ids_def)
next
  case (Inr targets)
  have "list_all2 (\<lambda>r t. MonitorID_String (monitor t) = um_id r) rows targets"
    using Inr assms unfolding collect_ok_iff list_all2_conv_all_nth
    by (metis nth_mem uuid_param_NewMonitorID Inr_inject)
  then have "map (\<lambda>t. MonitorID_String (monitor t)) targets = map um_id rows"
    by (induction) auto
  with Inr show ?thesis by (simp add: claimed_ids_def)
qed

lemma run_claim_cases:
  assumes "run_claim url_Parse c s = (ids, t)" and s: "uptime_ready s"
  shows "uptime_ready t \<and> (ids = [] \<and> ses_db t = ses_db s \<or>
    (\<exists>kind limit rows. claim_monitors kind (claim_time c) limit (claim_time c + monitorCheckLease) (ses_db s) =
       ok (rows, ses_db t) \<and> (ids = [] \<or> ids = map um_id rows)))"
proof -
  have claim: "uptime_ready t \<and> (ids = [] \<and> ses_db t = ses_db s \<or>
      (\<exists>kind limit rows. claim_monitors kind now limit (now + monitorCheckLease) (ses_db s) =
         ok (rows, ses_db t) \<and> (ids = [] \<or> ids = map um_id rows)))"
    if run: "abind (pool_statement (claim_monitors k now n (now + monitorCheckLease)))
        (\<lambda>rows. alift (collect scan rows)) s = (r, t)" and ids: "ids = claimed_ids monitor r"
      and scan: "\<And>r t. scan r = ok t \<Longrightarrow> NewMonitorID (um_id r) = ok (monitor t)"
    for k now n scan r and monitor :: "'t \<Rightarrow> MonitorID"
  proof -
    obtain x u where x: "pool_statement (claim_monitors k now n (now + monitorCheckLease)) s = (x, u)"
      by fastforce
    note ready = pool_ready [OF x]
    show ?thesis
    proof (cases x)
      case (Inl e)
      with x run have "r = Inl e" "t = u" by (simp_all add: abind_def)
      with ready s Inl ids show ?thesis by (simp add: claimed_ids_def)
    next
      case (Inr rows)
      with x run have r: "r = collect scan rows" "t = u" by (simp_all add: abind_def alift_def)
      have c: "claim_monitors k now n (now + monitorCheckLease) (ses_db s) = ok (rows, ses_db t)"
        using ready s Inr r by simp
      then have "set rows \<subseteq> set (db_monitors (ses_db s))"
        using set_take_subset by (fastforce dest: claim_monitors_ok simp: due_monitors_def)
      then have "ids = [] \<or> ids = map um_id rows"
        using s scan unfolding ids r by (intro claimed_ids_rows) (auto simp: uptime_consistent_def)
      with c ready s Inr r claim_monitors_consistent [OF c] show ?thesis by auto
    qed
  qed
  have http: "scanHTTPMonitorCheckTarget url_Parse r = ok t \<Longrightarrow> NewMonitorID (um_id r) = ok (ht_MonitorID t)" for r t
    by (auto simp: scanHTTPMonitorCheckTarget_def rbind_eq_ok split: option.split_asm)
  have heartbeat: "scanHeartbeatTimeoutTarget r = ok t \<Longrightarrow> NewMonitorID (um_id r) = ok (hbt_MonitorID t)" for r t
    by (auto simp: scanHeartbeatTimeoutTarget_def rbind_eq_ok)
  show ?thesis
  proof (cases c)
    case (HTTPClaim now limit)
    then show ?thesis
      using assms(1) claim [of _ now limit "scanHTTPMonitorCheckTarget url_Parse" _ ht_MonitorID] http
      by (auto simp: ClaimDueHTTPMonitors_def split: prod.split_asm)
  next
    case (HeartbeatClaim now limit)
    then show ?thesis
      using assms(1) claim [of _ now limit scanHeartbeatTimeoutTarget _ hbt_MonitorID] heartbeat
      by (auto simp: ClaimOverdueHeartbeatMonitors_def split: prod.split_asm)
  qed
qed

end
