(* ===== verification/UptimeProperties.thy ===== *)
theory UptimeProperties
  imports UptimeEffects
begin

text \<open>
  The properties of uptime monitoring, with a store of two monitors as the example.
\<close>

subsection \<open>Claims\<close>

lemma run_claims_exclusive:
  assumes "run_claims url_Parse claims s = (ids, t)" and "uptime_ready s"
    and "\<forall>c\<in>set claims. start \<le> claim_time c \<and> timestamptz (claim_time c) < timestamptz (start + monitorCheckLease)"
  shows "distinct ids \<and> (\<forall>i\<in>set ids. \<not> leased (timestamptz (start + monitorCheckLease)) i (ses_db s))"
  using assms
proof (induction claims arbitrary: s ids)
  case Nil
  then show ?case by simp
next
  case (Cons c claims)
  let ?bound = "timestamptz (start + monitorCheckLease)"
  obtain now u where now: "run_claim url_Parse c s = (now, u)" by fastforce
  obtain rest where rest: "run_claims url_Parse claims u = (rest, t)" and ids: "ids = now @ rest"
    using Cons.prems(1) now by (auto split: prod.split_asm)
  note claim = run_claim_cases [OF now Cons.prems(2)]
  have "distinct now \<and> (\<forall>i\<in>set now. \<not> leased ?bound i (ses_db s) \<and> leased ?bound i (ses_db u)) \<and>
    (\<forall>i. leased ?bound i (ses_db s) \<longrightarrow> leased ?bound i (ses_db u))"
  proof (cases "now = [] \<and> ses_db u = ses_db s")
    case False
    with claim obtain kind limit rows
      where c: "claim_monitors kind (claim_time c) limit (claim_time c + monitorCheckLease) (ses_db s) = ok (rows, ses_db u)"
        and "now = [] \<or> now = map um_id rows" by blast
    moreover have "?bound \<le> timestamptz (claim_time c + monitorCheckLease)"
      using Cons.prems(3) by (simp add: timestamptz_def zdiv_mono1)
    ultimately show ?thesis
      using claim_monitors_leases [OF c _ _ \<open>?bound \<le> _\<close>] Cons.prems(2,3) by auto
  qed simp
  moreover have "distinct rest \<and> (\<forall>i\<in>set rest. \<not> leased ?bound i (ses_db u))"
    using Cons.IH [OF rest] claim Cons.prems(3) by simp
  ultimately show ?case unfolding ids by auto
qed

subsection \<open>A store with two monitors\<close>

definition example_monitor :: "string \<Rightarrow> MonitorRow" where
  "example_monitor kind = \<lparr>um_id = dashedUUID (replicate 32 (if kind = ''http'' then CHR ''c'' else CHR ''d'')),
     um_organization_id = dashedUUID (replicate 32 CHR ''a''), um_project_id = dashedUUID (replicate 32 CHR ''b''),
     um_monitor_type = kind, um_name = kind,
     um_target_url = (if kind = ''http'' then Some ''https://hooks.example/a'' else None),
     um_heartbeat_endpoint_id = (if kind = ''http'' then None else Some (dashedUUID (replicate 32 CHR ''e''))),
     um_interval_seconds = 60, um_timeout_seconds = 5,
     um_heartbeat_grace_seconds = (if kind = ''http'' then None else Some 60), um_enabled = True,
     um_current_state = ''up'', um_last_checked_at = None, um_last_check_in_at = None,
     um_next_check_at = 0, um_check_lease_until = None, um_created_by_operator_id = None,
     um_created_at = 0, um_updated_at = 0\<rparr>"

definition example_uptime_db :: DB where
  "example_uptime_db = example_db\<lparr>db_monitors := [example_monitor ''http'', example_monitor ''heartbeat'']\<rparr>"

definition example_uptime_session :: "unit Session" where
  "example_uptime_session = (example_session {})\<lparr>ses_db := example_uptime_db, ses_base := example_uptime_db\<rparr>"

definition example_check_in :: "gotime \<Rightarrow> HeartbeatCheckInCommand" where
  "example_check_in now = \<lparr>hci_EndpointID = dashedUUID (replicate 32 CHR ''e''), hci_CheckedAt = now\<rparr>"

definition example_timeout :: "gotime \<Rightarrow> HeartbeatTimeoutObservation" where
  "example_timeout now = \<lparr>to_Scope = \<lparr>us_OrganizationID = OrganizationID (replicate 32 CHR ''a''),
       us_ProjectID = ProjectID (replicate 32 CHR ''b'')\<rparr>,
     to_MonitorID = MonitorID (replicate 32 CHR ''d''), to_CheckedAt = now, to_Error = ''heartbeat overdue''\<rparr>"

text \<open>The ids the example session draws at different steps differ.\<close>

lemma uuid4_hex_first: "uuid4_hex r = uuid4_hex r' \<Longrightarrow> r 0 = r' 0"
proof -
  assume "uuid4_hex r = uuid4_hex r'"
  then have "(map r [0..<16])[6 := x, 8 := y] = (map r' [0..<16])[6 := x', 8 := y'] \<Longrightarrow> r 0 = r' 0" for x x' y y'
    by (auto dest: arg_cong [of _ _ "\<lambda>xs. xs ! 0"])
  with \<open>uuid4_hex r = uuid4_hex r'\<close> show ?thesis
    unfolding uuid4_hex_def Let_def by (blast dest: hex_encode_inj)
qed

lemma example_ids_differ:
  "dashedUUID (uuid4_hex (\<lambda>_. c)) = dashedUUID (uuid4_hex (\<lambda>_. c')) \<longleftrightarrow> c = c'"
  using uuid4_hex_first [of "\<lambda>_. c" "\<lambda>_. c'"] by (auto simp: dashedUUID_inj uuid4_hex_pattern)

lemmas uptime_ops = RecordHTTPMonitorCheck_def RecordHeartbeatTimeout_def Store_RecordHeartbeatCheckIn_def
  recordHTTPMonitorCheckInTx_def recordHeartbeatCheckInInTx_def recordHeartbeatTimeoutInTx_def
  monitorObservationFromHeartbeatTimeout_def lockMonitorState_def lockHeartbeatMonitorStateByEndpoint_def
  insertMonitorCheck_def updateMonitorAfterCheck_def updateHeartbeatAfterCheckIn_def
  applyMonitorIncidentTransition_def ensureOpenMonitorIncident_def closeOpenMonitorIncident_def
  insert_check_def update_monitor_def insert_incident_def close_incidents_def open_incident_def
  insertAuditEvent_def insert_audit_def state_change_audit_def monitor_audit_def MonitorStateChanged_def
  in_monitor_scope_def scope_params_def MonitorID_String_def nullableHTTPStatus_def monitor_exists_def
  optional_uuid_def nullString_def audit_action_defs AuditAction_Valid_def monitor_state_defs
  monitorIncidentReason_def MonitorState_Valid_def NewMonitorID_def NewOrganizationID_def NewProjectID_def
  seconds_def int64_def duration_units

lemmas example_uptime = example_uptime_session_def example_uptime_db_def example_monitor_def
  example_session_def example_check_in_def example_timeout_def

lemma example_parse_state: "ParseMonitorState ''up'' = ok ''up''" "ParseMonitorState ''down'' = ok ''down''"
  by (auto intro!: ParseMonitorState_id simp: MonitorState_Valid_def monitor_state_defs)

lemma example_uptime_texts: "text_param ''no such host''" "text_param ''up''" "text_param ''down''" "text_param ''heartbeat overdue''"
  "text_param ''uptime_monitor''" "text_param ''monitor_state_changed''" "text_param []"
  by (simp_all add: text_param_def ascii_ValidString is_ascii_def)

lemma example_monitor_ids:
  "dashedUUID (replicate 32 CHR ''c'') \<noteq> dashedUUID (replicate 32 CHR ''d'')"
  "dashedUUID (replicate 32 CHR ''d'') \<noteq> dashedUUID (replicate 32 CHR ''c'')"
  using example_hexes example_hex_de by (simp_all add: dashedUUID_inj)

lemma example_no_rows: "db_monitor_checks example_db = []" "db_audit_events example_db = []"
  "db_monitor_incidents example_db = []" "db_monitors example_db = []"
  by (simp_all add: example_db_def)

lemmas example_uptime_run = uptime_ops example_uptime example_run example_parse_state example_hex_de
  dashedUUID_graph normalizeUUID_dashedUUID example_uptime_texts example_monitor_ids example_no_rows
  example_ids_differ char_of_eq_iff_small marshalled_ascii is_ascii_def

lemma example_uptime_ready: "session_ready example_uptime_session" "uptime_consistent (ses_db example_uptime_session)"
proof -
  show "session_ready example_uptime_session"
    using example_session_inv [of "{}"]
    by (simp add: session_ready_def idle_def example_uptime_session_def)
  show "uptime_consistent (ses_db example_uptime_session)"
    using example_hexes example_hex_de
    by (simp add: uptime_consistent_def example_uptime_session_def example_uptime_db_def example_monitor_def
        example_monitor_ids example_no_rows open_incidents_def uuid_param_made MonitorState_Valid_def monitor_state_defs)
qed

subsection \<open>Properties\<close>

text \<open>
  C14. Monitors and incidents agree: whatever requests are served, in whatever order and with
  whatever failures, a monitor has exactly one open incident while it is down and none while it is
  up or unknown. The network (resolver and probe) does not touch the database.
\<close>

theorem monitors_and_incidents_agree:
  assumes "session_ready s" and "uptime_consistent (ses_db s)"
    and "\<forall>LookupHost host. resolver = Some LookupHost \<longrightarrow> off_store (LookupHost host)"
    and "\<forall>p destination timeout. probe = Some p \<longrightarrow> off_store (p destination timeout)"
    and "aeach (serve_uptime url_Parse resolver probe (Store_CheckStore url_Parse)
      (Store_UptimeManager url_Parse)) requests s = (r, t)"
  shows "\<forall>m\<in>set (db_monitors (ses_db t)).
    length (filter (open_incident (um_id m)) (db_monitor_incidents (ses_db t))) =
      (if um_current_state m = MonitorStateDown then 1 else 0)"
proof -
  have "keeps uptime_ready m" if "off_store m" for m :: "('a Session, 'b) action"
    using that by (auto simp: off_store_def evolves_def)
  then have "resolver_keeps uptime_ready resolver" "probe_keeps uptime_ready probe"
    using assms(3,4) by (auto simp: resolver_keeps_def probe_keeps_def off_store_def evolves_def split: option.split)
  from keepsD [OF uptime_store.serve_all_keeps [OF this] assms(5)] assms(1,2)
  have "uptime_consistent (ses_db t)" by simp
  then show ?thesis by (simp add: uptime_consistent_def open_incidents_def)
qed

definition example_served :: DB where
  "example_served = ses_db (snd (aeach (serve_uptime (\<lambda>_. None) (Some (\<lambda>_. areturn []))
      (Some (\<lambda>_ _. areturn \<lparr>pr_statusCode = 500, pr_duration = 0\<rparr>)) (Store_CheckStore (\<lambda>_. None))
      (Store_UptimeManager (\<lambda>_. None)))
      [CheckInRequest (example_check_in 9000000000),
       CheckHeartbeatsRequest \<lparr>cd_Now = 999000000000, cd_Limit = 10\<rparr>] example_uptime_session))"

theorem monitors_and_incidents_agree_witness:
  "list_all (\<lambda>m. length (filter (open_incident (um_id m)) (db_monitor_incidents example_served)) =
      (if um_current_state m = MonitorStateDown then 1 else 0)) (db_monitors example_served)"
  unfolding list_all_iff example_served_def
  by (rule monitors_and_incidents_agree [OF example_uptime_ready _ _ prod.collapse [symmetric]])
    (auto simp: off_store_def evolves_def areturn_def)

text \<open>
  C15. Recording a check: the answer names the state the monitor had and the one observed, an
  incident is opened exactly when the monitor goes down and closed exactly when it comes back up
  from down, and the monitor is due again one interval after the check, without a lease; no other
  monitor changes.
\<close>

theorem http_check_recorded:
  assumes "session_ready s" and "uptime_consistent (ses_db s)"
    and "RecordHTTPMonitorCheck observation s = (Inr r, t)"
  shows "\<exists>m\<in>set (db_monitors (ses_db s)). um_id m = MonitorID_String (ob_MonitorID observation) \<and>
    r = \<lparr>cr_MonitorID = um_id m, cr_PreviousState = um_current_state m,
         cr_CurrentState = ob_State observation,
         cr_IncidentOpened = (um_current_state m \<noteq> MonitorStateDown \<and> ob_State observation = MonitorStateDown),
         cr_IncidentClosed = (um_current_state m = MonitorStateDown \<and> ob_State observation = MonitorStateUp)\<rparr> \<and>
    db_monitors (ses_db t) = update_rows (\<lambda>x. um_id x = um_id m)
      (\<lambda>x. x\<lparr>um_current_state := ob_State observation,
        um_last_checked_at := Some (timestamptz (ob_CheckedAt observation)),
        um_next_check_at := timestamptz (ob_CheckedAt observation + seconds (um_interval_seconds m)),
        um_check_lease_until := None, um_updated_at := timestamptz (ob_CheckedAt observation)\<rparr>)
      (db_monitors (ses_db s))"
proof -
  from transaction_ready [OF evolves_record(1) assms(1) assms(3) [unfolded RecordHTTPMonitorCheck_def]]
  obtain s1 t1 :: "'a Session" where run: "quiet (ses_env s1)" "ses_db s1 = ses_db s"
    "recordHTTPMonitorCheckInTx observation s1 = (Inr r, t1)" "ses_db t = ses_db t1" by auto
  from recordHTTPMonitorCheckInTx_ok [OF run(3,1)] assms(2) run obtain m
    where m: "check_recorded observation m (ses_db s) (ses_db t)" "r = http_result observation m" by auto
  then have "m \<in> set (db_monitors (ses_db s))" "um_id m = MonitorID_String (ob_MonitorID observation)"
    using find_SomeD by (fastforce simp: check_recorded_def in_monitor_scope_def)+
  with m show ?thesis
    by (auto simp: check_recorded_def http_result_def checked_monitor_def [abs_def])
qed

definition example_observation :: HTTPCheckObservation where
  "example_observation = \<lparr>ob_Scope = \<lparr>us_OrganizationID = OrganizationID (replicate 32 CHR ''a''),
       us_ProjectID = ProjectID (replicate 32 CHR ''b'')\<rparr>,
     ob_MonitorID = MonitorID (replicate 32 CHR ''c''), ob_CheckedAt = 5000000000,
     ob_State = ''down'', ob_StatusCode = 503, ob_Duration = 1000, ob_Error = ''heartbeat overdue''\<rparr>"

theorem http_check_recorded_witness:
  "\<exists>r t. RecordHTTPMonitorCheck example_observation example_uptime_session = (Inr r, t) \<and>
    cr_IncidentOpened r \<and> db_monitors (ses_db t) \<noteq> []"
proof -
  have "\<exists>r t. RecordHTTPMonitorCheck example_observation example_uptime_session = (Inr r, t) \<and> cr_IncidentOpened r"
    by (simp add: example_uptime_run example_observation_def)
  then obtain r t where run: "RecordHTTPMonitorCheck example_observation example_uptime_session = (Inr r, t)"
    "cr_IncidentOpened r" by blast
  show ?thesis
    using http_check_recorded [OF example_uptime_ready run(1)] run
    by (auto simp: update_rows_def)
qed

text \<open>
  C16. A lease is exclusive: in a history of claims of either kind that lie within five minutes, no
  monitor is handed out twice, and none that already had a longer lease is handed out at all.
\<close>

theorem claims_are_exclusive:
  assumes "session_ready s" and "uptime_consistent (ses_db s)"
    and "\<forall>c\<in>set claims. start \<le> claim_time c \<and> timestamptz (claim_time c) < timestamptz (start + 5 * minute)"
    and "run_claims url_Parse claims s = (ids, t)"
  shows "distinct ids \<and> (\<forall>m\<in>set (db_monitors (ses_db s)). \<forall>lease. um_check_lease_until m = Some lease \<longrightarrow>
    timestamptz (start + 5 * minute) \<le> lease \<longrightarrow> um_id m \<notin> set ids)"
proof -
  have "distinct (map um_id (db_monitors (ses_db s)))" using assms(2) by (simp add: uptime_consistent_def)
  then have "leased b (um_id m) (ses_db s)"
    if "m \<in> set (db_monitors (ses_db s))" "um_check_lease_until m = Some lease" "b \<le> lease" for m b lease
    using that by (fastforce simp: leased_def distinct_map dest: inj_onD)
  with run_claims_exclusive [OF assms(4), of start] assms(1-3) show ?thesis
    by (auto simp: monitorCheckLease_def)
qed

lemma example_claims:
  "fst (run_claims (\<lambda>_. None) [HeartbeatClaim 5000000000 10, HeartbeatClaim 6000000000 10]
     example_uptime_session) = [dashedUUID (replicate 32 CHR ''d'')]"
  by (simp add: example_uptime_run ClaimOverdueHeartbeatMonitors_def pool_statement_def claim_monitors_def
      due_monitors_def monitor_due_def scanHeartbeatTimeoutTarget_def timestamptz_def claimed_ids_def
      monitorCheckLease_def)

theorem claims_are_exclusive_witness:
  "\<exists>ids. ids \<noteq> [] \<and> distinct ids \<and> ids = fst (run_claims (\<lambda>_. None)
     [HeartbeatClaim 5000000000 10, HeartbeatClaim 6000000000 10] example_uptime_session)"
proof (intro exI conjI)
  let ?claims = "[HeartbeatClaim 5000000000 10, HeartbeatClaim 6000000000 10]"
  show "distinct (fst (run_claims (\<lambda>_. None) ?claims example_uptime_session))"
    using claims_are_exclusive [OF example_uptime_ready _ prod.collapse [symmetric], of ?claims 5000000000 "\<lambda>_. None"]
    by (simp only: list.set ball_simps claim_time.simps) (simp add: timestamptz_def duration_units)
qed (simp_all only: example_claims, simp)

text \<open>
  C17. A timeout recorded after a check-in wins: when a check-in arrives between the claim of an overdue
  heartbeat and the recording of its timeout, the timeout still marks the monitor down, opens an
  incident and sets the next check one interval after the claim, although the row says that the
  monitor has just checked in. Nothing in the recording looks at the time of the last check-in.
\<close>

theorem timeout_overrides_later_check_in:
  assumes "session_ready s" and "uptime_consistent (ses_db s)"
    and "Store_RecordHeartbeatCheckIn command s = (Inr r, u)"
    and "RecordHeartbeatTimeout timeout u = (Inr q, t)"
    and "MonitorID_String (to_MonitorID timeout) = hr_MonitorID r"
  shows "hr_CurrentState r = MonitorStateUp \<and> htr_IncidentOpened q \<and>
    (\<exists>m\<in>set (db_monitors (ses_db t)). um_id m = hr_MonitorID r \<and> um_current_state m = MonitorStateDown \<and>
       um_last_check_in_at m = Some (timestamptz (hci_CheckedAt command)) \<and>
       um_next_check_at m = timestamptz (to_CheckedAt timeout + seconds (um_interval_seconds m)))"
proof -
  from transaction_ready [OF evolves_record(2) assms(1) assms(3) [unfolded Store_RecordHeartbeatCheckIn_def]]
  obtain s1 u1 :: "'a Session" where in_run: "quiet (ses_env s1)" "ses_db s1 = ses_db s" "session_ready u"
    "recordHeartbeatCheckInInTx command s1 = (Inr r, u1)" "ses_db u = ses_db u1" by auto
  from recordHeartbeatCheckInInTx_ok [OF in_run(4,1)] assms(2) in_run obtain m
    where m: "check_in_recorded command m (ses_db s) (ses_db u)" "r = check_in_result m" by auto
  from m(1) obtain grace where grace: "db_monitors (ses_db u) = update_rows (\<lambda>r. um_id r = um_id m)
      (checked_in_monitor (hci_CheckedAt command) (um_interval_seconds m) grace) (db_monitors (ses_db s))"
    by (auto simp: check_in_recorded_def)
  have wf: "uptime_consistent (ses_db u)" by (rule check_in_consistent [OF m(1) assms(2)])
  from transaction_ready [OF evolves_record(3) in_run(3) assms(4) [unfolded RecordHeartbeatTimeout_def]]
  obtain u2 t1 :: "'a Session" where out_run: "quiet (ses_env u2)" "ses_db u2 = ses_db u"
    "recordHeartbeatTimeoutInTx timeout u2 = (Inr q, t1)" "ses_db t = ses_db t1" by auto
  define ob where "ob = monitorObservationFromHeartbeatTimeout timeout"
  from recordHeartbeatTimeoutInTx_ok [OF out_run(3,1)] wf out_run obtain n
    where n: "check_recorded ob n (ses_db u) (ses_db t)" "q = timeout_result ob n" by (auto simp: ob_def)
  have row: "n \<in> set (db_monitors (ses_db u))" "um_id n = um_id m"
    using n(1) m(2) assms(5) find_SomeD
    by (fastforce simp: check_recorded_def in_monitor_scope_def ob_def monitorObservationFromHeartbeatTimeout_def
        check_in_result_def)+
  have now: "um_current_state n = MonitorStateUp \<and> um_last_check_in_at n = Some (timestamptz (hci_CheckedAt command))"
    using row unfolding grace by (auto simp: set_update_rows checked_in_monitor_def split: if_split_asm)
  have "checked_monitor ob (um_interval_seconds n) n \<in> set (db_monitors (ses_db t))"
    using n(1) row(1) by (auto simp: check_recorded_def set_update_rows)
  with now row(2) n(2) m(2) show ?thesis
    by (intro conjI bexI [of _ "checked_monitor ob (um_interval_seconds n) n"])
      (simp_all add: checked_monitor_def timeout_result_def check_in_result_def ob_def
        monitorObservationFromHeartbeatTimeout_def monitor_state_defs)
qed

theorem timeout_overrides_later_check_in_witness:
  "\<exists>r u q t. Store_RecordHeartbeatCheckIn (example_check_in 9000000000) example_uptime_session = (Inr r, u) \<and>
    RecordHeartbeatTimeout (example_timeout 5000000000) u = (Inr q, t) \<and>
    (\<exists>m\<in>set (db_monitors (ses_db t)). um_current_state m = MonitorStateDown)"
proof -
  have "\<exists>r u q t. Store_RecordHeartbeatCheckIn (example_check_in 9000000000) example_uptime_session = (Inr r, u) \<and>
      RecordHeartbeatTimeout (example_timeout 5000000000) u = (Inr q, t) \<and>
      MonitorID_String (to_MonitorID (example_timeout 5000000000)) = hr_MonitorID r"
    by (simp add: example_uptime_run)
  with timeout_overrides_later_check_in [OF example_uptime_ready] show ?thesis by meson
qed

text \<open>
  A status above 599, which a server may send and a probe result may hold, is never recorded: the
  check constraint of \<open>monitor_checks\<close> refuses it, the monitor stays as it was, and the error ends the
  batch, so the targets claimed after it are not checked either.
\<close>

theorem status_above_599_ends_the_batch:
  assumes "session_ready u" and "uptime_consistent (ses_db u)"
    and "checkHTTPMonitor resolver probe now target s = (Inr observation, u)"
    and "599 < ob_StatusCode observation"
    and "check_http_targets (Store_CheckStore url_Parse) resolver probe now (target # targets) summary s = (r, t)"
  shows "\<not> is_ok r \<and> ses_db t = ses_db u"
proof -
  obtain x v where x: "RecordHTTPMonitorCheck observation u = (x, v)" by fastforce
  note tx = transaction_ready [OF evolves_record(1) assms(1) x [unfolded RecordHTTPMonitorCheck_def]]
  have "\<exists>e. x = Inl e"
  proof (cases x)
    case (Inr w)
    with tx obtain s1 t1 :: "'a Session" where s1: "quiet (ses_env s1)" "recordHTTPMonitorCheckInTx observation s1 = (Inr w, t1)"
      by auto
    then obtain st s2 checkID s3 where lock: "lockMonitorState observation s1 = (Inr st, s2)"
      and ins: "insertMonitorCheck observation s2 = (Inr checkID, s3)"
      unfolding recordHTTPMonitorCheckInTx_def abind_ok by blast
    from lockMonitorState_ok [OF lock s1(1)] s1(1) insertMonitorCheck_ok [OF ins] assms(4)
    show ?thesis by simp
  qed simp
  then obtain e where e: "x = Inl e" by blast
  with tx have "ses_db v = ses_db u" by simp
  with assms(3,5) x e show ?thesis by (auto simp: abind_def Store_CheckStore_def)
qed

definition example_target :: HTTPMonitorCheckTarget where
  "example_target = \<lparr>ht_Scope = \<lparr>us_OrganizationID = OrganizationID (replicate 32 CHR ''a''),
       us_ProjectID = ProjectID (replicate 32 CHR ''b'')\<rparr>,
     ht_MonitorID = MonitorID (replicate 32 CHR ''c''),
     ht_URL = \<lparr>dest_value = ''https://hooks.example/a'', dest_host = ''hooks.example''\<rparr>, ht_Timeout = 5 * second\<rparr>"

theorem status_above_599_ends_the_batch_witness:
  "\<exists>p. NewHTTPProbeResult 999 1000 = ok p \<and>
    \<not> is_ok (fst (check_http_targets (Store_CheckStore (\<lambda>_. None)) (Some (\<lambda>_. areturn [V4 [8, 8, 8, 8]]))
      (\<lambda>_ _. areturn p) 5000000000 [example_target] (claimed_summary [example_target]) example_uptime_session))"
proof -
  define p where "p = \<lparr>pr_statusCode = 999, pr_duration = 1000\<rparr>"
  have "checkHTTPMonitor (Some (\<lambda>_. areturn [V4 [8, 8, 8, 8]])) (\<lambda>_ _. areturn p) 5000000000
      example_target example_uptime_session =
    (Inr \<lparr>ob_Scope = ht_Scope example_target, ob_MonitorID = ht_MonitorID example_target,
       ob_CheckedAt = 5000000000, ob_State = MonitorStateFromHTTPStatus 999, ob_StatusCode = 999,
       ob_Duration = 1000, ob_Error = []\<rparr>, example_uptime_session)"
    by (simp add: checkHTTPMonitor_def example_target_def ValidateResolvedDestination_def p_def areturn_def abind_def
        parseHostIP_def ParseAddr_def digit_byte_def example_public_address)
  note c = status_above_599_ends_the_batch [OF example_uptime_ready this, of "\<lambda>_. None" "[]"]
  show ?thesis
    using c [OF _ prod.collapse [symmetric]] by (auto simp: NewHTTPProbeResult_def p_def)
qed

text \<open>
  A batch that succeeds accounts for all it claimed: every claimed monitor was checked and was
  found up or down, only monitors found down count as failures, and no more were claimed than asked
  for, a hundred at most.
\<close>

theorem check_batch_accounts:
  assumes "CheckDueHTTPMonitors (Some (Store_CheckStore url_Parse)) resolver probe command s = (Inr r, t)"
  shows "cs_Checked r = cs_Claimed r \<and> cs_Up r + cs_Down r = cs_Claimed r \<and>
    cs_Failures r \<le> cs_Down r \<and> cs_Claimed r \<le> min 100 (cd_Limit command)"
  using assms by (rule uptime_store.CheckDueHTTPMonitors_counts)

lemma example_batch:
  "\<exists>r t. CheckDueHTTPMonitors (Some (Store_CheckStore example_urls)) (Some (\<lambda>_. afail ''no such host''))
      (Some (\<lambda>_ _. areturn \<lparr>pr_statusCode = 200, pr_duration = 0\<rparr>))
      \<lparr>cd_Now = 5000000000, cd_Limit = 500\<rparr> example_uptime_session = (Inr r, t) \<and> cs_Claimed r = 1"
  by (simp add: example_uptime_run CheckDueHTTPMonitors_def validateCheckInputs_def Store_CheckStore_def
      ClaimDueHTTPMonitors_def pool_statement_def claim_monitors_def due_monitors_def monitor_due_def
      scanHTTPMonitorCheckTarget_def timestamptz_def monitorCheckLease_def normalizeLimit_def maxCheckLimit_def
      example_destination NewMonitorTimeout_def monitor_bounds checkHTTPMonitor_def
      ValidateResolvedDestination_def parseHostIP_def ParseAddr_def digit_byte_def afail_def
      failedObservation_def countObservation_def claimed_summary_def)

theorem check_batch_accounts_witness:
  "\<exists>r t. CheckDueHTTPMonitors (Some (Store_CheckStore example_urls)) (Some (\<lambda>_. afail ''no such host''))
      (Some (\<lambda>_ _. areturn \<lparr>pr_statusCode = 200, pr_duration = 0\<rparr>))
      \<lparr>cd_Now = 5000000000, cd_Limit = 500\<rparr> example_uptime_session = (Inr r, t) \<and> cs_Up r + cs_Down r = 1"
proof -
  obtain r t where run: "CheckDueHTTPMonitors (Some (Store_CheckStore example_urls)) (Some (\<lambda>_. afail ''no such host''))
      (Some (\<lambda>_ _. areturn \<lparr>pr_statusCode = 200, pr_duration = 0\<rparr>))
      \<lparr>cd_Now = 5000000000, cd_Limit = 500\<rparr> example_uptime_session = (Inr r, t)" "cs_Claimed r = 1"
    using example_batch by blast
  with check_batch_accounts [OF run(1)] show ?thesis by (intro exI [of _ r] exI [of _ t]) simp
qed

end
