(* ===== verification/Notifications.thy ===== *)
theory Notifications
  imports Outbound Events
begin

text \<open>
  The values and the texts of notifications: \<open>internal/domain/notification.go\<close> and
  \<open>internal/plans/notifyplan/telegram.go\<close>. \<open>net/mail\<close> is a parameter: \<open>mail_ParseAddress\<close> gives the
  \<open>Address\<close> field of the parsed address.
\<close>

type_synonym address_parser = "string \<Rightarrow> string option"

abbreviation newline :: string where "newline \<equiv> [CHR 0x0A]"

text \<open>The characters \<open>"\r\n\t"\<close>.\<close>

abbreviation control_space :: string where "control_space \<equiv> [CHR 0x0D, CHR 0x0A, CHR 0x09]"

subsection \<open>Labels of destinations\<close>

text \<open>The eight label types have the same constructor up to the name in its messages.\<close>

definition destination_label :: "string \<Rightarrow> (string \<Rightarrow> 'l) \<Rightarrow> string \<Rightarrow> 'l result" where
  "destination_label provider mk input =
     (let value = TrimSpace input in
      if value = [] then fail (provider @ '' label is required'')
      else if ContainsAny value control_space then fail (provider @ '' label cannot contain control whitespace'')
      else if 80 < RuneCountInString value then fail (provider @ '' label is too long'')
      else ok (mk value))"

datatype TelegramDestinationLabel = TelegramDestinationLabel (TelegramDestinationLabel_value: string)
datatype WebhookDestinationLabel = WebhookDestinationLabel (WebhookDestinationLabel_value: string)
datatype EmailDestinationLabel = EmailDestinationLabel (EmailDestinationLabel_value: string)
datatype DiscordDestinationLabel = DiscordDestinationLabel (DiscordDestinationLabel_value: string)
datatype GoogleChatDestinationLabel = GoogleChatDestinationLabel (GoogleChatDestinationLabel_value: string)
datatype NtfyDestinationLabel = NtfyDestinationLabel (NtfyDestinationLabel_value: string)
datatype TeamsDestinationLabel = TeamsDestinationLabel (TeamsDestinationLabel_value: string)
datatype ZulipDestinationLabel = ZulipDestinationLabel (ZulipDestinationLabel_value: string)

definition NewTelegramDestinationLabel :: "string \<Rightarrow> TelegramDestinationLabel result" where
  "NewTelegramDestinationLabel = destination_label ''telegram'' TelegramDestinationLabel"

definition NewWebhookDestinationLabel :: "string \<Rightarrow> WebhookDestinationLabel result" where
  "NewWebhookDestinationLabel = destination_label ''webhook'' WebhookDestinationLabel"

definition NewEmailDestinationLabel :: "string \<Rightarrow> EmailDestinationLabel result" where
  "NewEmailDestinationLabel = destination_label ''email'' EmailDestinationLabel"

definition NewDiscordDestinationLabel :: "string \<Rightarrow> DiscordDestinationLabel result" where
  "NewDiscordDestinationLabel = destination_label ''discord'' DiscordDestinationLabel"

definition NewGoogleChatDestinationLabel :: "string \<Rightarrow> GoogleChatDestinationLabel result" where
  "NewGoogleChatDestinationLabel = destination_label ''google chat'' GoogleChatDestinationLabel"

definition NewNtfyDestinationLabel :: "string \<Rightarrow> NtfyDestinationLabel result" where
  "NewNtfyDestinationLabel = destination_label ''ntfy'' NtfyDestinationLabel"

definition NewTeamsDestinationLabel :: "string \<Rightarrow> TeamsDestinationLabel result" where
  "NewTeamsDestinationLabel = destination_label ''microsoft teams'' TeamsDestinationLabel"

definition NewZulipDestinationLabel :: "string \<Rightarrow> ZulipDestinationLabel result" where
  "NewZulipDestinationLabel = destination_label ''zulip'' ZulipDestinationLabel"

subsection \<open>Addresses, topics and texts\<close>

datatype TelegramChatID = TelegramChatID (TelegramChatID_value: string)
datatype EmailAddress = EmailAddress (EmailAddress_value: string)
datatype ZulipBotEmail = ZulipBotEmail (ZulipBotEmail_value: string)
datatype ZulipAPIKey = ZulipAPIKey (ZulipAPIKey_value: string)
datatype ZulipStreamName = ZulipStreamName (ZulipStreamName_value: string)
datatype ZulipTopicName = ZulipTopicName (ZulipTopicName_value: string)
datatype NtfyTopic = NtfyTopic (NtfyTopic_value: string)
datatype NotificationSubject = NotificationSubject (NotificationSubject_value: string)
datatype NotificationText = NotificationText (NotificationText_value: string)

definition NewTelegramChatID :: "string \<Rightarrow> TelegramChatID result" where
  "NewTelegramChatID input =
     (let value = TrimSpace input in
      if value = [] then fail ''telegram chat id is required''
      else if ContainsAny value (control_space @ '' '') then fail ''telegram chat id cannot contain whitespace''
      else if 128 < RuneCountInString value then fail ''telegram chat id is too long''
      else ok (TelegramChatID value))"

definition NewEmailAddress :: "address_parser \<Rightarrow> string \<Rightarrow> EmailAddress result" where
  "NewEmailAddress mail_ParseAddress input =
     (let value = TrimSpace input in
      if value = [] then fail ''email address is required''
      else if ContainsAny value (control_space @ '' '') then fail ''email address cannot contain whitespace''
      else case mail_ParseAddress value of None \<Rightarrow> fail ''email address is invalid'' | Some parsed \<Rightarrow>
      if parsed \<noteq> value then fail ''email address must not include a display name''
      else if 254 < RuneCountInString value then fail ''email address is too long''
      else ok (EmailAddress value))"

definition NewZulipBotEmail :: "address_parser \<Rightarrow> string \<Rightarrow> ZulipBotEmail result" where
  "NewZulipBotEmail mail_ParseAddress input =
     (let value = TrimSpace input in
      if value = [] then fail ''zulip bot email is required''
      else if ContainsAny value (control_space @ '' '') then fail ''zulip bot email cannot contain whitespace''
      else case mail_ParseAddress value of None \<Rightarrow> fail ''zulip bot email is invalid'' | Some parsed \<Rightarrow>
      if parsed \<noteq> value then fail ''zulip bot email must not include a display name''
      else if 254 < RuneCountInString value then fail ''zulip bot email is too long''
      else ok (ZulipBotEmail value))"

definition NewZulipAPIKey :: "string \<Rightarrow> ZulipAPIKey result" where
  "NewZulipAPIKey input =
     (let value = TrimSpace input in
      if value = [] then fail ''zulip api key is required''
      else if ContainsAny value (control_space @ '' '') then fail ''zulip api key cannot contain whitespace''
      else if 256 < RuneCountInString value then fail ''zulip api key is too long''
      else ok (ZulipAPIKey value))"

definition NewZulipStreamName :: "string \<Rightarrow> ZulipStreamName result" where
  "NewZulipStreamName input =
     (let value = TrimSpace input in
      if value = [] then fail ''zulip stream is required''
      else if ContainsAny value control_space then fail ''zulip stream cannot contain control whitespace''
      else if 128 < RuneCountInString value then fail ''zulip stream is too long''
      else ok (ZulipStreamName value))"

definition NewZulipTopicName :: "string \<Rightarrow> ZulipTopicName result" where
  "NewZulipTopicName input =
     (let value = TrimSpace input in
      if value = [] then fail ''zulip topic is required''
      else if ContainsAny value control_space then fail ''zulip topic cannot contain control whitespace''
      else if 128 < RuneCountInString value then fail ''zulip topic is too long''
      else ok (ZulipTopicName value))"

definition NewNtfyTopic :: "string \<Rightarrow> NtfyTopic result" where
  "NewNtfyTopic input =
     (let value = TrimSpace input in
      if value = [] then fail ''ntfy topic is required''
      else if ContainsAny value (control_space @ '' /?#'') then fail ''ntfy topic is invalid''
      else if 128 < RuneCountInString value then fail ''ntfy topic is too long''
      else ok (NtfyTopic value))"

definition NewNotificationSubject :: "string \<Rightarrow> NotificationSubject result" where
  "NewNotificationSubject input =
     (let value = TrimSpace input in
      if value = [] then fail ''notification subject is required''
      else if ContainsAny value [CHR 0x0D, CHR 0x0A] then fail ''notification subject cannot contain line breaks''
      else if 240 < RuneCountInString value then fail ''notification subject is too long''
      else ok (NotificationSubject value))"

definition NewNotificationText :: "string \<Rightarrow> NotificationText result" where
  "NewNotificationText input =
     (let value = TrimSpace input in
      if value = [] then fail ''notification text is required''
      else if 4096 < RuneCountInString value then fail ''notification text is too long''
      else ok (NotificationText value))"

subsection \<open>The notification of an opened issue\<close>

record IssueOpened =
  io_event :: CanonicalEvent
  io_issueID :: IssueID
  io_issueShortID :: int

record EmailIssueOpened =
  eio_subject :: NotificationSubject
  eio_body :: NotificationText

definition NewIssueOpened :: "CanonicalEvent \<Rightarrow> IssueID \<Rightarrow> int \<Rightarrow> IssueOpened result" where
  "NewIssueOpened event issueID issueShortID =
     (if \<not> CanonicalEvent_CreatesIssue event then fail ''issue event is required''
      else if IssueID_String issueID = [] then fail ''issue id is required''
      else if issueShortID < 1 then fail ''issue short id must be positive''
      else ok \<lparr>io_event = event, io_issueID = issueID, io_issueShortID = issueShortID\<rparr>)"

definition base_url :: "string \<Rightarrow> string" where
  "base_url publicURL = trim_right_byte CHR ''/'' (TrimSpace publicURL)"

definition TelegramIssueOpenedText :: "IssueOpened \<Rightarrow> string \<Rightarrow> NotificationText result" where
  "TelegramIssueOpenedText opened publicURL =
     (let baseURL = base_url publicURL in
      if baseURL = [] then fail ''public url is required'' else
      NewNotificationText (''New issue #'' @ itoa (io_issueShortID opened) @ newline @
        EventTitle_value (ev_title (io_event opened)) @ newline @
        ''Level: '' @ ev_level (io_event opened) @ newline @
        ''Event: '' @ EventID_String (ev_eventID (io_event opened)) @ newline @
        baseURL @ ''/issues/'' @ IssueID_String (io_issueID opened)))"

definition trimSubjectTitle :: "string \<Rightarrow> nat \<Rightarrow> string" where
  "trimSubjectTitle input limit =
     (let rs = runes (TrimSpace input) in
      if length rs \<le> limit then string_of_runes rs else string_of_runes (take limit rs))"

definition emailIssueOpenedSubject :: "IssueOpened \<Rightarrow> NotificationSubject result" where
  "emailIssueOpenedSubject opened =
     (let title = trimSubjectTitle (EventTitle_value (ev_title (io_event opened))) 160 in
      NewNotificationSubject (''New issue #'' @ itoa (io_issueShortID opened) @ '': '' @ title))"

definition EmailIssueOpenedMessage :: "IssueOpened \<Rightarrow> string \<Rightarrow> EmailIssueOpened result" where
  "EmailIssueOpenedMessage opened publicURL =
     (let baseURL = base_url publicURL in
      if baseURL = [] then fail ''public url is required'' else
      rbind (emailIssueOpenedSubject opened) (\<lambda>subject.
      rbind (NewNotificationText (''New issue #'' @ itoa (io_issueShortID opened) @ newline @ newline @
        ''Title: '' @ EventTitle_value (ev_title (io_event opened)) @ newline @
        ''Level: '' @ ev_level (io_event opened) @ newline @
        ''Platform: '' @ ev_platform (io_event opened) @ newline @
        ''Event: '' @ EventID_String (ev_eventID (io_event opened)) @ newline @
        ''Issue: '' @ baseURL @ ''/issues/'' @ IssueID_String (io_issueID opened))) (\<lambda>body.
      ok \<lparr>eio_subject = subject, eio_body = body\<rparr>)))"

end
