(* ===== verification/Deliveries.thy ===== *)
theory Deliveries
  imports Notifications Actions
begin

text \<open>
  The delivery of notifications: the types of \<open>internal/app/notifications/ports.go\<close> and the batches of
  \<open>internal/app/notifications/workflow.go\<close>. The eight providers have types and functions of their own
  in the code, of two shapes: Telegram and email send a text and get the id of the message back, the
  others post a JSON payload to a validated URL and get an HTTP status. Each shape is one definition
  here, of which the functions of the providers are instances.
\<close>

subsection \<open>Types of the ports\<close>

record 'd Delivery =
  dl_intentID :: NotificationIntentID
  dl_destination :: 'd
  dl_event :: CanonicalEvent
  dl_issueID :: IssueID
  dl_issueShortID :: int

record IssuePayload =
  pl_EventID :: string
  pl_IssueID :: string
  pl_IssueShortID :: int
  pl_Title :: string
  pl_Level :: string
  pl_Platform :: string
  pl_IssueURL :: string

record ('d, 'b) Message =
  msg_intentID :: NotificationIntentID
  msg_destination :: 'd
  msg_body :: 'b

record MessageReceipt =
  mr_providerMessageID :: string

record StatusReceipt =
  sr_delivered :: bool
  sr_status :: int
  sr_reason :: string

record NtfyTarget =
  nt_destinationURL :: DestinationURL
  nt_topic :: NtfyTopic

record ZulipTarget =
  zt_destinationURL :: DestinationURL
  zt_botEmail :: ZulipBotEmail
  zt_apiKey :: ZulipAPIKey
  zt_stream :: ZulipStreamName
  zt_topic :: ZulipTopicName

type_synonym TelegramDelivery = "TelegramChatID Delivery"
type_synonym WebhookDelivery = "DestinationURL Delivery"
type_synonym EmailDelivery = "EmailAddress Delivery"
type_synonym DiscordDelivery = "DestinationURL Delivery"
type_synonym GoogleChatDelivery = "DestinationURL Delivery"
type_synonym NtfyDelivery = "NtfyTarget Delivery"
type_synonym TeamsDelivery = "DestinationURL Delivery"
type_synonym ZulipDelivery = "ZulipTarget Delivery"

type_synonym TelegramMessage = "(TelegramChatID, NotificationText) Message"
type_synonym WebhookMessage = "(DestinationURL, IssuePayload) Message"
type_synonym EmailMessage = "(EmailAddress, EmailIssueOpened) Message"
type_synonym DiscordMessage = "(DestinationURL, IssuePayload) Message"
type_synonym GoogleChatMessage = "(DestinationURL, IssuePayload) Message"
type_synonym NtfyMessage = "(NtfyTarget, IssuePayload) Message"
type_synonym TeamsMessage = "(DestinationURL, IssuePayload) Message"
type_synonym ZulipMessage = "(ZulipTarget, IssuePayload) Message"

text \<open>The outbox of a provider; \<open>'f\<close> is what \<open>MarkFailed\<close> is told, a reason or a receipt.\<close>

record ('s, 'd, 'r, 'f) Outbox =
  box_Claim :: "gotime \<Rightarrow> int \<Rightarrow> ('s, 'd Delivery list) action"
  box_MarkDelivered :: "NotificationIntentID \<Rightarrow> gotime \<Rightarrow> 'r \<Rightarrow> ('s, unit) action"
  box_MarkFailed :: "NotificationIntentID \<Rightarrow> gotime \<Rightarrow> 'f \<Rightarrow> ('s, unit) action"

type_synonym 's TelegramOutbox = "('s, TelegramChatID, MessageReceipt, string) Outbox"
type_synonym 's WebhookOutbox = "('s, DestinationURL, StatusReceipt, StatusReceipt) Outbox"
type_synonym 's EmailOutbox = "('s, EmailAddress, MessageReceipt, string) Outbox"
type_synonym 's DiscordOutbox = "('s, DestinationURL, StatusReceipt, StatusReceipt) Outbox"
type_synonym 's GoogleChatOutbox = "('s, DestinationURL, StatusReceipt, StatusReceipt) Outbox"
type_synonym 's NtfyOutbox = "('s, NtfyTarget, StatusReceipt, StatusReceipt) Outbox"
type_synonym 's TeamsOutbox = "('s, DestinationURL, StatusReceipt, StatusReceipt) Outbox"
type_synonym 's ZulipOutbox = "('s, ZulipTarget, StatusReceipt, StatusReceipt) Outbox"

type_synonym ('s, 'm, 'r) Sender = "'m \<Rightarrow> ('s, 'r) action"

definition NewDeliveredReceipt :: "int \<Rightarrow> StatusReceipt" where
  "NewDeliveredReceipt status = \<lparr>sr_delivered = True, sr_status = status, sr_reason = []\<rparr>"

definition NewFailedReceipt :: "int \<Rightarrow> string \<Rightarrow> StatusReceipt" where
  "NewFailedReceipt status reason = \<lparr>sr_delivered = False, sr_status = status, sr_reason = reason\<rparr>"

definition NewWebhookDeliveredReceipt :: "int \<Rightarrow> StatusReceipt" where
  "NewWebhookDeliveredReceipt = NewDeliveredReceipt"
definition NewWebhookFailedReceipt :: "int \<Rightarrow> string \<Rightarrow> StatusReceipt" where
  "NewWebhookFailedReceipt = NewFailedReceipt"
definition NewDiscordDeliveredReceipt :: "int \<Rightarrow> StatusReceipt" where
  "NewDiscordDeliveredReceipt = NewDeliveredReceipt"
definition NewDiscordFailedReceipt :: "int \<Rightarrow> string \<Rightarrow> StatusReceipt" where
  "NewDiscordFailedReceipt = NewFailedReceipt"
definition NewGoogleChatDeliveredReceipt :: "int \<Rightarrow> StatusReceipt" where
  "NewGoogleChatDeliveredReceipt = NewDeliveredReceipt"
definition NewGoogleChatFailedReceipt :: "int \<Rightarrow> string \<Rightarrow> StatusReceipt" where
  "NewGoogleChatFailedReceipt = NewFailedReceipt"
definition NewNtfyDeliveredReceipt :: "int \<Rightarrow> StatusReceipt" where
  "NewNtfyDeliveredReceipt = NewDeliveredReceipt"
definition NewNtfyFailedReceipt :: "int \<Rightarrow> string \<Rightarrow> StatusReceipt" where
  "NewNtfyFailedReceipt = NewFailedReceipt"
definition NewTeamsDeliveredReceipt :: "int \<Rightarrow> StatusReceipt" where
  "NewTeamsDeliveredReceipt = NewDeliveredReceipt"
definition NewTeamsFailedReceipt :: "int \<Rightarrow> string \<Rightarrow> StatusReceipt" where
  "NewTeamsFailedReceipt = NewFailedReceipt"
definition NewZulipDeliveredReceipt :: "int \<Rightarrow> StatusReceipt" where
  "NewZulipDeliveredReceipt = NewDeliveredReceipt"
definition NewZulipFailedReceipt :: "int \<Rightarrow> string \<Rightarrow> StatusReceipt" where
  "NewZulipFailedReceipt = NewFailedReceipt"

lemmas delivery_receipt_defs = NewDeliveredReceipt_def NewFailedReceipt_def NewWebhookDeliveredReceipt_def NewWebhookFailedReceipt_def
  NewDiscordDeliveredReceipt_def NewDiscordFailedReceipt_def
  NewGoogleChatDeliveredReceipt_def NewGoogleChatFailedReceipt_def
  NewNtfyDeliveredReceipt_def NewNtfyFailedReceipt_def
  NewTeamsDeliveredReceipt_def NewTeamsFailedReceipt_def
  NewZulipDeliveredReceipt_def NewZulipFailedReceipt_def

subsection \<open>Commands and receipts of a batch\<close>

record BatchCommand =
  bc_now :: gotime
  bc_limit :: int
  bc_publicURL :: string

record BatchReceipt =
  br_claimed :: int
  br_delivered :: int
  br_failed :: int

definition NewBatchCommand :: "gotime \<Rightarrow> int \<Rightarrow> string \<Rightarrow> BatchCommand result" where
  "NewBatchCommand now limit publicURL =
     (if IsZero now then fail ''batch time is required''
      else if limit < 1 then fail ''batch limit must be positive''
      else if publicURL = [] then fail ''public url is required''
      else ok \<lparr>bc_now = UTC now, bc_limit = limit, bc_publicURL = publicURL\<rparr>)"

definition NewTelegramBatchCommand :: "gotime \<Rightarrow> int \<Rightarrow> string \<Rightarrow> BatchCommand result" where
  "NewTelegramBatchCommand = NewBatchCommand"
definition NewWebhookBatchCommand :: "gotime \<Rightarrow> int \<Rightarrow> string \<Rightarrow> BatchCommand result" where
  "NewWebhookBatchCommand = NewBatchCommand"
definition NewEmailBatchCommand :: "gotime \<Rightarrow> int \<Rightarrow> string \<Rightarrow> BatchCommand result" where
  "NewEmailBatchCommand = NewBatchCommand"
definition NewDiscordBatchCommand :: "gotime \<Rightarrow> int \<Rightarrow> string \<Rightarrow> BatchCommand result" where
  "NewDiscordBatchCommand = NewBatchCommand"
definition NewGoogleChatBatchCommand :: "gotime \<Rightarrow> int \<Rightarrow> string \<Rightarrow> BatchCommand result" where
  "NewGoogleChatBatchCommand = NewBatchCommand"
definition NewNtfyBatchCommand :: "gotime \<Rightarrow> int \<Rightarrow> string \<Rightarrow> BatchCommand result" where
  "NewNtfyBatchCommand = NewBatchCommand"
definition NewTeamsBatchCommand :: "gotime \<Rightarrow> int \<Rightarrow> string \<Rightarrow> BatchCommand result" where
  "NewTeamsBatchCommand = NewBatchCommand"
definition NewZulipBatchCommand :: "gotime \<Rightarrow> int \<Rightarrow> string \<Rightarrow> BatchCommand result" where
  "NewZulipBatchCommand = NewBatchCommand"

definition one_failed :: "BatchReceipt \<Rightarrow> BatchReceipt" where
  "one_failed receipt = receipt\<lparr>br_failed := br_failed receipt + 1\<rparr>"

definition one_delivered :: "BatchReceipt \<Rightarrow> BatchReceipt" where
  "one_delivered receipt = receipt\<lparr>br_delivered := br_delivered receipt + 1\<rparr>"

subsection \<open>Messages\<close>

definition opened_message ::
  "'d Delivery \<Rightarrow> (IssueOpened \<Rightarrow> 'b result) \<Rightarrow> ('d, 'b) Message result" where
  "opened_message delivery body =
     rbind (NewIssueOpened (dl_event delivery) (dl_issueID delivery) (dl_issueShortID delivery)) (\<lambda>opened.
     rbind (body opened) (\<lambda>b.
     ok \<lparr>msg_intentID = dl_intentID delivery, msg_destination = dl_destination delivery, msg_body = b\<rparr>))"

definition issue_payload :: "string \<Rightarrow> IssueOpened \<Rightarrow> IssuePayload result" where
  "issue_payload publicURL opened =
     (let baseURL = base_url publicURL in
      if baseURL = [] then fail ''public url is required'' else
      ok \<lparr>pl_EventID = EventID_String (ev_eventID (io_event opened)),
          pl_IssueID = IssueID_String (io_issueID opened), pl_IssueShortID = io_issueShortID opened,
          pl_Title = EventTitle_value (ev_title (io_event opened)), pl_Level = ev_level (io_event opened),
          pl_Platform = ev_platform (io_event opened),
          pl_IssueURL = baseURL @ ''/issues/'' @ IssueID_String (io_issueID opened)\<rparr>)"

definition telegramMessage :: "TelegramDelivery \<Rightarrow> string \<Rightarrow> TelegramMessage result" where
  "telegramMessage delivery publicURL =
     opened_message delivery (\<lambda>opened. TelegramIssueOpenedText opened publicURL)"

definition emailMessage :: "EmailDelivery \<Rightarrow> string \<Rightarrow> EmailMessage result" where
  "emailMessage delivery publicURL =
     opened_message delivery (\<lambda>opened. EmailIssueOpenedMessage opened publicURL)"

definition webhookMessage :: "WebhookDelivery \<Rightarrow> string \<Rightarrow> WebhookMessage result" where
  "webhookMessage delivery publicURL = opened_message delivery (issue_payload publicURL)"

definition discordMessage :: "DiscordDelivery \<Rightarrow> string \<Rightarrow> DiscordMessage result" where
  "discordMessage delivery publicURL = opened_message delivery (issue_payload publicURL)"

definition googleChatMessage :: "GoogleChatDelivery \<Rightarrow> string \<Rightarrow> GoogleChatMessage result" where
  "googleChatMessage delivery publicURL = opened_message delivery (issue_payload publicURL)"

definition ntfyMessage :: "NtfyDelivery \<Rightarrow> string \<Rightarrow> NtfyMessage result" where
  "ntfyMessage delivery publicURL = opened_message delivery (issue_payload publicURL)"

definition teamsMessage :: "TeamsDelivery \<Rightarrow> string \<Rightarrow> TeamsMessage result" where
  "teamsMessage delivery publicURL = opened_message delivery (issue_payload publicURL)"

definition zulipMessage :: "ZulipDelivery \<Rightarrow> string \<Rightarrow> ZulipMessage result" where
  "zulipMessage delivery publicURL = opened_message delivery (issue_payload publicURL)"

subsection \<open>One delivery\<close>

text \<open>A delivery never fails for the caller: errors are marked and counted, and the error of the mark
itself is dropped.\<close>

type_synonym 's delivery_step = "BatchReceipt \<Rightarrow> 's \<Rightarrow> BatchReceipt \<times> 's"

definition mark_failure ::
  "('s, 'd, 'r, 'f) Outbox \<Rightarrow> NotificationIntentID \<Rightarrow> gotime \<Rightarrow> 'f \<Rightarrow> 's delivery_step" where
  "mark_failure outbox intentID now failure receipt s =
     (one_failed receipt, snd (box_MarkFailed outbox intentID now failure s))"

definition mark_delivered ::
  "('s, 'd, 'r, 'f) Outbox \<Rightarrow> NotificationIntentID \<Rightarrow> gotime \<Rightarrow> 'r \<Rightarrow> 's delivery_step" where
  "mark_delivered outbox intentID now sendReceipt receipt s =
     (case box_MarkDelivered outbox intentID now sendReceipt s of
        (Inl e, t) \<Rightarrow> (one_failed receipt, t)
      | (Inr u, t) \<Rightarrow> (one_delivered receipt, t))"

definition deliver_text ::
  "BatchCommand \<Rightarrow> (('d, 'b) Message result) \<Rightarrow> 'd Delivery \<Rightarrow> ('s, 'd, MessageReceipt, string) Outbox \<Rightarrow>
   ('s, ('d, 'b) Message, MessageReceipt) Sender \<Rightarrow> 's delivery_step" where
  "deliver_text command message delivery outbox sender receipt s =
     (let intentID = dl_intentID delivery; now = bc_now command in
      case message of
        Inl (GoErr e) \<Rightarrow> mark_failure outbox intentID now e receipt s
      | Inr m \<Rightarrow> (case sender m s of
          (Inl (GoErr e), t) \<Rightarrow> mark_failure outbox intentID now e receipt t
        | (Inr sendReceipt, t) \<Rightarrow> mark_delivered outbox intentID now sendReceipt receipt t))"

definition deliver_payload ::
  "BatchCommand \<Rightarrow> 's Resolver \<Rightarrow> DestinationURL \<Rightarrow> (('d, 'b) Message result) \<Rightarrow> 'd Delivery \<Rightarrow>
   ('s, 'd, StatusReceipt, StatusReceipt) Outbox \<Rightarrow>
   ('s, ('d, 'b) Message, StatusReceipt) Sender \<Rightarrow> 's delivery_step" where
  "deliver_payload command resolver destinationURL message delivery outbox sender receipt s =
     (let intentID = dl_intentID delivery; now = bc_now command in
      case ValidateResolvedDestination resolver destinationURL s of
        (Inl (GoErr e), t) \<Rightarrow> mark_failure outbox intentID now (NewFailedReceipt 0 e) receipt t
      | (Inr d, t) \<Rightarrow> (case message of
          Inl (GoErr e) \<Rightarrow> mark_failure outbox intentID now (NewFailedReceipt 0 e) receipt t
        | Inr m \<Rightarrow> (case sender m t of
            (Inl (GoErr e), u) \<Rightarrow> mark_failure outbox intentID now (NewFailedReceipt 0 e) receipt u
          | (Inr sendReceipt, u) \<Rightarrow>
              if \<not> sr_delivered sendReceipt then mark_failure outbox intentID now sendReceipt receipt u
              else mark_delivered outbox intentID now sendReceipt receipt u)))"

definition markTelegramFailure ::
  "'s TelegramOutbox \<Rightarrow> NotificationIntentID \<Rightarrow> gotime \<Rightarrow> string \<Rightarrow> 's delivery_step" where
  "markTelegramFailure = mark_failure"

definition deliverTelegramDelivery ::
  "BatchCommand \<Rightarrow> TelegramDelivery \<Rightarrow> 's TelegramOutbox \<Rightarrow> ('s, TelegramMessage, MessageReceipt) Sender \<Rightarrow>
   's delivery_step" where
  "deliverTelegramDelivery command delivery outbox sender =
     deliver_text command (telegramMessage delivery (bc_publicURL command)) delivery outbox sender"

definition markWebhookFailure ::
  "'s WebhookOutbox \<Rightarrow> NotificationIntentID \<Rightarrow> gotime \<Rightarrow> StatusReceipt \<Rightarrow> 's delivery_step" where
  "markWebhookFailure = mark_failure"

definition deliverWebhookDelivery ::
  "BatchCommand \<Rightarrow> 's Resolver \<Rightarrow> WebhookDelivery \<Rightarrow> 's WebhookOutbox \<Rightarrow> ('s, WebhookMessage, StatusReceipt) Sender \<Rightarrow>
   's delivery_step" where
  "deliverWebhookDelivery command resolver delivery outbox sender =
     deliver_payload command resolver (dl_destination delivery)
       (webhookMessage delivery (bc_publicURL command)) delivery outbox sender"

definition markEmailFailure ::
  "'s EmailOutbox \<Rightarrow> NotificationIntentID \<Rightarrow> gotime \<Rightarrow> string \<Rightarrow> 's delivery_step" where
  "markEmailFailure = mark_failure"

definition deliverEmailDelivery ::
  "BatchCommand \<Rightarrow> EmailDelivery \<Rightarrow> 's EmailOutbox \<Rightarrow> ('s, EmailMessage, MessageReceipt) Sender \<Rightarrow>
   's delivery_step" where
  "deliverEmailDelivery command delivery outbox sender =
     deliver_text command (emailMessage delivery (bc_publicURL command)) delivery outbox sender"

definition markDiscordFailure ::
  "'s DiscordOutbox \<Rightarrow> NotificationIntentID \<Rightarrow> gotime \<Rightarrow> StatusReceipt \<Rightarrow> 's delivery_step" where
  "markDiscordFailure = mark_failure"

definition deliverDiscordDelivery ::
  "BatchCommand \<Rightarrow> 's Resolver \<Rightarrow> DiscordDelivery \<Rightarrow> 's DiscordOutbox \<Rightarrow> ('s, DiscordMessage, StatusReceipt) Sender \<Rightarrow>
   's delivery_step" where
  "deliverDiscordDelivery command resolver delivery outbox sender =
     deliver_payload command resolver (dl_destination delivery)
       (discordMessage delivery (bc_publicURL command)) delivery outbox sender"

definition markGoogleChatFailure ::
  "'s GoogleChatOutbox \<Rightarrow> NotificationIntentID \<Rightarrow> gotime \<Rightarrow> StatusReceipt \<Rightarrow> 's delivery_step" where
  "markGoogleChatFailure = mark_failure"

definition deliverGoogleChatDelivery ::
  "BatchCommand \<Rightarrow> 's Resolver \<Rightarrow> GoogleChatDelivery \<Rightarrow> 's GoogleChatOutbox \<Rightarrow> ('s, GoogleChatMessage, StatusReceipt) Sender \<Rightarrow>
   's delivery_step" where
  "deliverGoogleChatDelivery command resolver delivery outbox sender =
     deliver_payload command resolver (dl_destination delivery)
       (googleChatMessage delivery (bc_publicURL command)) delivery outbox sender"

definition markNtfyFailure ::
  "'s NtfyOutbox \<Rightarrow> NotificationIntentID \<Rightarrow> gotime \<Rightarrow> StatusReceipt \<Rightarrow> 's delivery_step" where
  "markNtfyFailure = mark_failure"

definition deliverNtfyDelivery ::
  "BatchCommand \<Rightarrow> 's Resolver \<Rightarrow> NtfyDelivery \<Rightarrow> 's NtfyOutbox \<Rightarrow> ('s, NtfyMessage, StatusReceipt) Sender \<Rightarrow>
   's delivery_step" where
  "deliverNtfyDelivery command resolver delivery outbox sender =
     deliver_payload command resolver (nt_destinationURL (dl_destination delivery))
       (ntfyMessage delivery (bc_publicURL command)) delivery outbox sender"

definition markTeamsFailure ::
  "'s TeamsOutbox \<Rightarrow> NotificationIntentID \<Rightarrow> gotime \<Rightarrow> StatusReceipt \<Rightarrow> 's delivery_step" where
  "markTeamsFailure = mark_failure"

definition deliverTeamsDelivery ::
  "BatchCommand \<Rightarrow> 's Resolver \<Rightarrow> TeamsDelivery \<Rightarrow> 's TeamsOutbox \<Rightarrow> ('s, TeamsMessage, StatusReceipt) Sender \<Rightarrow>
   's delivery_step" where
  "deliverTeamsDelivery command resolver delivery outbox sender =
     deliver_payload command resolver (dl_destination delivery)
       (teamsMessage delivery (bc_publicURL command)) delivery outbox sender"

definition markZulipFailure ::
  "'s ZulipOutbox \<Rightarrow> NotificationIntentID \<Rightarrow> gotime \<Rightarrow> StatusReceipt \<Rightarrow> 's delivery_step" where
  "markZulipFailure = mark_failure"

definition deliverZulipDelivery ::
  "BatchCommand \<Rightarrow> 's Resolver \<Rightarrow> ZulipDelivery \<Rightarrow> 's ZulipOutbox \<Rightarrow> ('s, ZulipMessage, StatusReceipt) Sender \<Rightarrow>
   's delivery_step" where
  "deliverZulipDelivery command resolver delivery outbox sender =
     deliver_payload command resolver (zt_destinationURL (dl_destination delivery))
       (zulipMessage delivery (bc_publicURL command)) delivery outbox sender"

subsection \<open>Batches\<close>

fun deliver_each :: "('d Delivery \<Rightarrow> 's delivery_step) \<Rightarrow> 'd Delivery list \<Rightarrow> 's delivery_step" where
  "deliver_each step [] receipt s = (receipt, s)"
| "deliver_each step (delivery # deliveries) receipt s =
     (let (nextReceipt, t) = step delivery receipt s in deliver_each step deliveries nextReceipt t)"

definition deliver_batch ::
  "BatchCommand \<Rightarrow> ('s, 'd, 'r, 'f) Outbox \<Rightarrow> ('d Delivery \<Rightarrow> 's delivery_step) \<Rightarrow> ('s, BatchReceipt) action" where
  "deliver_batch command outbox step =
     abind (box_Claim outbox (bc_now command) (bc_limit command)) (\<lambda>deliveries s.
     let (receipt, t) = deliver_each step deliveries
       \<lparr>br_claimed = int (length deliveries), br_delivered = 0, br_failed = 0\<rparr> s in (ok receipt, t))"

definition DeliverTelegramBatch ::
  "BatchCommand \<Rightarrow> 's TelegramOutbox \<Rightarrow> ('s, TelegramMessage, MessageReceipt) Sender \<Rightarrow> ('s, BatchReceipt) action" where
  "DeliverTelegramBatch command outbox sender =
     deliver_batch command outbox (\<lambda>delivery. deliverTelegramDelivery command delivery outbox sender)"

definition DeliverWebhookBatch ::
  "BatchCommand \<Rightarrow> 's Resolver \<Rightarrow> 's WebhookOutbox \<Rightarrow> ('s, WebhookMessage, StatusReceipt) Sender \<Rightarrow>
   ('s, BatchReceipt) action" where
  "DeliverWebhookBatch command resolver outbox sender =
     deliver_batch command outbox (\<lambda>delivery. deliverWebhookDelivery command resolver delivery outbox sender)"

definition DeliverEmailBatch ::
  "BatchCommand \<Rightarrow> 's EmailOutbox \<Rightarrow> ('s, EmailMessage, MessageReceipt) Sender \<Rightarrow> ('s, BatchReceipt) action" where
  "DeliverEmailBatch command outbox sender =
     deliver_batch command outbox (\<lambda>delivery. deliverEmailDelivery command delivery outbox sender)"

definition DeliverDiscordBatch ::
  "BatchCommand \<Rightarrow> 's Resolver \<Rightarrow> 's DiscordOutbox \<Rightarrow> ('s, DiscordMessage, StatusReceipt) Sender \<Rightarrow>
   ('s, BatchReceipt) action" where
  "DeliverDiscordBatch command resolver outbox sender =
     deliver_batch command outbox (\<lambda>delivery. deliverDiscordDelivery command resolver delivery outbox sender)"

definition DeliverGoogleChatBatch ::
  "BatchCommand \<Rightarrow> 's Resolver \<Rightarrow> 's GoogleChatOutbox \<Rightarrow> ('s, GoogleChatMessage, StatusReceipt) Sender \<Rightarrow>
   ('s, BatchReceipt) action" where
  "DeliverGoogleChatBatch command resolver outbox sender =
     deliver_batch command outbox (\<lambda>delivery. deliverGoogleChatDelivery command resolver delivery outbox sender)"

definition DeliverNtfyBatch ::
  "BatchCommand \<Rightarrow> 's Resolver \<Rightarrow> 's NtfyOutbox \<Rightarrow> ('s, NtfyMessage, StatusReceipt) Sender \<Rightarrow>
   ('s, BatchReceipt) action" where
  "DeliverNtfyBatch command resolver outbox sender =
     deliver_batch command outbox (\<lambda>delivery. deliverNtfyDelivery command resolver delivery outbox sender)"

definition DeliverTeamsBatch ::
  "BatchCommand \<Rightarrow> 's Resolver \<Rightarrow> 's TeamsOutbox \<Rightarrow> ('s, TeamsMessage, StatusReceipt) Sender \<Rightarrow>
   ('s, BatchReceipt) action" where
  "DeliverTeamsBatch command resolver outbox sender =
     deliver_batch command outbox (\<lambda>delivery. deliverTeamsDelivery command resolver delivery outbox sender)"

definition DeliverZulipBatch ::
  "BatchCommand \<Rightarrow> 's Resolver \<Rightarrow> 's ZulipOutbox \<Rightarrow> ('s, ZulipMessage, StatusReceipt) Sender \<Rightarrow>
   ('s, BatchReceipt) action" where
  "DeliverZulipBatch command resolver outbox sender =
     deliver_batch command outbox (\<lambda>delivery. deliverZulipDelivery command resolver delivery outbox sender)"

end
