(* ===== verification/DeliveryStore.thy ===== *)
theory DeliveryStore
  imports Deliveries QuietSessions
begin

text \<open>
  The outbox of \<open>internal/adapters/postgres/notifications.go\<close>: the statements that claim intents and mark
  them, one of each for every provider. The statements differ in the destination table and in the
  columns they clear, which are parameters here.
\<close>

subsection \<open>Claiming\<close>

definition destination_of :: "string \<Rightarrow> string \<Rightarrow> DestinationRow \<Rightarrow> bool" where
  "destination_of provider destination r \<longleftrightarrow> dr_provider r = provider \<and> dr_id r = destination"

definition claimable :: "string \<Rightarrow> gotime \<Rightarrow> DB \<Rightarrow> IntentRow \<Rightarrow> bool" where
  "claimable provider now d r \<longleftrightarrow>
     ni_provider r = provider \<and>
     list_ex (\<lambda>dr. destination_of provider (ni_destination_id r) dr \<and> dr_enabled dr) (db_destinations d) \<and>
     ni_status r \<in> {''pending'', ''failed''} \<and> ni_next_attempt_at r \<le> now \<and>
     (case ni_locked_until r of None \<Rightarrow> True | Some until \<Rightarrow> until < now)"

definition claimed_intent :: "(IntentRow \<Rightarrow> IntentRow) \<Rightarrow> gotime \<Rightarrow> IntentRow \<Rightarrow> IntentRow" where
  "claimed_intent clear now r =
     (clear r)\<lparr>ni_status := ''delivering'', ni_attempts := ni_attempts r + 1,
       ni_locked_until := Some (now + 60 * second), ni_last_error := None\<rparr>"

type_synonym DeliveryRow = "IntentRow \<times> DestinationRow \<times> EventRow \<times> IssueRow"

text \<open>The result joins the claimed intents with their destination, event and issue, the issue seen
last first. Rows with equal keys come in the order of the table here; the queries leave it open, as
they do which of the intents created at the same time are within the limit.\<close>

definition delivery_rows :: "string \<Rightarrow> IntentRow list \<Rightarrow> DB \<Rightarrow> DeliveryRow list" where
  "delivery_rows provider updated d =
     rev (sort_key (\<lambda>(u, dr, e, i). ir_last_seen_at i) (rev
       [(u, dr, e, i). u \<leftarrow> updated,
          dr \<leftarrow> filter (destination_of provider (ni_destination_id u)) (db_destinations d),
          e \<leftarrow> filter (\<lambda>e. er_id e = ni_event_id u) (db_events d),
          i \<leftarrow> filter (\<lambda>i. ir_id i = ni_issue_id u) (db_issues d)]))"

definition due_intents :: "string \<Rightarrow> gotime \<Rightarrow> int \<Rightarrow> DB \<Rightarrow> IntentRow list" where
  "due_intents provider now limit d =
     take (nat limit) (sort_key ni_created_at (filter (claimable provider now d) (db_notification_intents d)))"

definition claim_intents ::
  "string \<Rightarrow> (IntentRow \<Rightarrow> IntentRow) \<Rightarrow> gotime \<Rightarrow> int \<Rightarrow> DB \<Rightarrow> (DeliveryRow list \<times> DB) result" where
  "claim_intents provider clear now limit d =
     rbind (check (0 \<le> limit) ''LIMIT must not be negative'') (\<lambda>_.
     let due = due_intents provider (timestamptz now) limit d;
         ids = set (map ni_id due)
     in rbind (check (list_all (\<lambda>r. integer32 (ni_attempts r + 1)) due) ''integer out of range'') (\<lambda>_.
        ok (delivery_rows provider (map (claimed_intent clear (timestamptz now)) due) d,
            d\<lparr>db_notification_intents := update_rows (\<lambda>r. ni_id r \<in> ids)
              (claimed_intent clear (timestamptz now)) (db_notification_intents d)\<rparr>)))"

definition clear_nothing :: "IntentRow \<Rightarrow> IntentRow" where
  "clear_nothing r = r"

definition clear_message_id :: "IntentRow \<Rightarrow> IntentRow" where
  "clear_message_id r = r\<lparr>ni_provider_message_id := None\<rparr>"

definition clear_status_code :: "IntentRow \<Rightarrow> IntentRow" where
  "clear_status_code r = r\<lparr>ni_provider_status_code := None\<rparr>"

subsection \<open>Reading a claimed row\<close>

definition newNotificationEvent :: "EventRow \<Rightarrow> CanonicalEvent result" where
  "newNotificationEvent e =
     rbind (NewOrganizationID (er_organization_id e)) (\<lambda>organizationID.
     rbind (NewProjectID (er_project_id e)) (\<lambda>projectID.
     rbind (NewEventID (er_event_id e)) (\<lambda>eventID.
     rbind (NewEventLevel (er_level e)) (\<lambda>level.
     rbind (NewEventTitle (er_title e)) (\<lambda>title.
     rbind (NewTimePoint (er_occurred_at e)) (\<lambda>occurredPoint.
     rbind (NewTimePoint (er_received_at e)) (\<lambda>receivedPoint.
     NewCanonicalEvent
       \<lparr>p_OrganizationID = organizationID, p_ProjectID = projectID, p_EventID = eventID,
        p_OccurredAt = occurredPoint, p_ReceivedAt = receivedPoint, p_Kind = er_kind e, p_Level = level,
        p_Title = title, p_Platform = er_platform e, p_Release = [], p_Environment = [], p_Tags = [],
        p_DefaultGroupingParts = [EventTitle_value title], p_ExplicitFingerprint = [],
        p_Attachments = [], p_JsStacktrace = [], p_NativeModules = [], p_NativeFrames = [],
        p_Transaction = zero_transaction\<rparr>)))))))"

text \<open>The constructors read the destination between the intent id and the event.\<close>

definition new_delivery :: "'d result \<Rightarrow> DeliveryRow \<Rightarrow> 'd Delivery result" where
  "new_delivery destination row = (case row of (u, dr, e, i) \<Rightarrow>
     rbind (NewNotificationIntentID (ni_id u)) (\<lambda>intentID.
     rbind destination (\<lambda>d.
     rbind (newNotificationEvent e) (\<lambda>event.
     rbind (NewIssueID (ir_id i)) (\<lambda>issueID.
     ok \<lparr>dl_intentID = intentID, dl_destination = d, dl_event = event, dl_issueID = issueID,
         dl_issueShortID = ir_short_id i\<rparr>)))))"

definition row_destination :: "DeliveryRow \<Rightarrow> DestinationRow" where
  "row_destination row = fst (snd row)"

definition newTelegramDelivery :: "DeliveryRow \<Rightarrow> TelegramDelivery result" where
  "newTelegramDelivery row = new_delivery (NewTelegramChatID (dr_address (row_destination row))) row"

definition newEmailDelivery :: "address_parser \<Rightarrow> DeliveryRow \<Rightarrow> EmailDelivery result" where
  "newEmailDelivery mail_ParseAddress row =
     new_delivery (NewEmailAddress mail_ParseAddress (dr_address (row_destination row))) row"

definition newWebhookDelivery :: "url_parser \<Rightarrow> DeliveryRow \<Rightarrow> WebhookDelivery result" where
  "newWebhookDelivery url_Parse row =
     new_delivery (ParseDestinationURL url_Parse (dr_address (row_destination row))) row"

definition newDiscordDelivery :: "url_parser \<Rightarrow> DeliveryRow \<Rightarrow> DiscordDelivery result" where
  "newDiscordDelivery url_Parse row =
     new_delivery (ParseDestinationURL url_Parse (dr_address (row_destination row))) row"

definition newGoogleChatDelivery :: "url_parser \<Rightarrow> DeliveryRow \<Rightarrow> GoogleChatDelivery result" where
  "newGoogleChatDelivery url_Parse row =
     new_delivery (ParseDestinationURL url_Parse (dr_address (row_destination row))) row"

definition newTeamsDelivery :: "url_parser \<Rightarrow> DeliveryRow \<Rightarrow> TeamsDelivery result" where
  "newTeamsDelivery url_Parse row =
     new_delivery (ParseDestinationURL url_Parse (dr_address (row_destination row))) row"

definition newNtfyDelivery :: "url_parser \<Rightarrow> DeliveryRow \<Rightarrow> NtfyDelivery result" where
  "newNtfyDelivery url_Parse row =
     new_delivery (
       rbind (ParseDestinationURL url_Parse (dr_address (row_destination row))) (\<lambda>destinationURL.
       rbind (NewNtfyTopic (dr_topic (row_destination row))) (\<lambda>topic.
       ok \<lparr>nt_destinationURL = destinationURL, nt_topic = topic\<rparr>))) row"

definition newZulipDelivery :: "url_parser \<Rightarrow> address_parser \<Rightarrow> DeliveryRow \<Rightarrow> ZulipDelivery result" where
  "newZulipDelivery url_Parse mail_ParseAddress row =
     new_delivery (
       rbind (ParseDestinationURL url_Parse (dr_address (row_destination row))) (\<lambda>destinationURL.
       rbind (NewZulipBotEmail mail_ParseAddress (dr_bot_email (row_destination row))) (\<lambda>botEmail.
       rbind (NewZulipAPIKey (dr_api_key (row_destination row))) (\<lambda>apiKey.
       rbind (NewZulipStreamName (dr_stream (row_destination row))) (\<lambda>stream.
       rbind (NewZulipTopicName (dr_topic (row_destination row))) (\<lambda>topic.
       ok \<lparr>zt_destinationURL = destinationURL, zt_botEmail = botEmail, zt_apiKey = apiKey,
           zt_stream = stream, zt_topic = topic\<rparr>)))))) row"

definition claim_deliveries ::
  "string \<Rightarrow> (IntentRow \<Rightarrow> IntentRow) \<Rightarrow> (DeliveryRow \<Rightarrow> 'd Delivery result) \<Rightarrow> gotime \<Rightarrow> int \<Rightarrow>
   ('w Session, 'd Delivery list) action" where
  "claim_deliveries provider clear scan now limit =
     abind (pool_statement (claim_intents provider clear (UTC now) limit)) (\<lambda>rows.
     alift (collect scan rows))"

definition ClaimTelegramDeliveries ::
  "gotime \<Rightarrow> int \<Rightarrow> ('w Session, TelegramDelivery list) action" where
  "ClaimTelegramDeliveries = claim_deliveries ''telegram'' clear_nothing newTelegramDelivery"

definition ClaimWebhookDeliveries ::
  "url_parser \<Rightarrow> gotime \<Rightarrow> int \<Rightarrow> ('w Session, WebhookDelivery list) action" where
  "ClaimWebhookDeliveries url_Parse = claim_deliveries ''webhook'' clear_status_code (newWebhookDelivery url_Parse)"

definition ClaimEmailDeliveries ::
  "address_parser \<Rightarrow> gotime \<Rightarrow> int \<Rightarrow> ('w Session, EmailDelivery list) action" where
  "ClaimEmailDeliveries mail_ParseAddress = claim_deliveries ''email'' clear_message_id (newEmailDelivery mail_ParseAddress)"

definition ClaimDiscordDeliveries ::
  "url_parser \<Rightarrow> gotime \<Rightarrow> int \<Rightarrow> ('w Session, DiscordDelivery list) action" where
  "ClaimDiscordDeliveries url_Parse = claim_deliveries ''discord'' clear_status_code (newDiscordDelivery url_Parse)"

definition ClaimGoogleChatDeliveries ::
  "url_parser \<Rightarrow> gotime \<Rightarrow> int \<Rightarrow> ('w Session, GoogleChatDelivery list) action" where
  "ClaimGoogleChatDeliveries url_Parse = claim_deliveries ''google_chat'' clear_status_code (newGoogleChatDelivery url_Parse)"

definition ClaimNtfyDeliveries ::
  "url_parser \<Rightarrow> gotime \<Rightarrow> int \<Rightarrow> ('w Session, NtfyDelivery list) action" where
  "ClaimNtfyDeliveries url_Parse = claim_deliveries ''ntfy'' clear_status_code (newNtfyDelivery url_Parse)"

definition ClaimTeamsDeliveries ::
  "url_parser \<Rightarrow> gotime \<Rightarrow> int \<Rightarrow> ('w Session, TeamsDelivery list) action" where
  "ClaimTeamsDeliveries url_Parse = claim_deliveries ''microsoft_teams'' clear_status_code (newTeamsDelivery url_Parse)"

definition ClaimZulipDeliveries ::
  "url_parser \<Rightarrow> address_parser \<Rightarrow> gotime \<Rightarrow> int \<Rightarrow> ('w Session, ZulipDelivery list) action" where
  "ClaimZulipDeliveries url_Parse mail_ParseAddress = claim_deliveries ''zulip'' clear_status_code (newZulipDelivery url_Parse mail_ParseAddress)"

subsection \<open>Marking\<close>

text \<open>The check constraint on delivered intents: a receipt of the provider is present.\<close>

definition delivered_receipt_present :: "IntentRow \<Rightarrow> bool" where
  "delivered_receipt_present r \<longleftrightarrow> ni_status r \<noteq> ''delivered'' \<or>
     (ni_delivered_at r \<noteq> None \<and>
      (if ni_provider r \<in> {''telegram'', ''email''} then ni_provider_message_id r \<noteq> None
       else ni_provider r \<in> set AlertActionProviders \<and> ni_provider_status_code r \<noteq> None))"

definition mark_intent :: "NotificationIntentID \<Rightarrow> (IntentRow \<Rightarrow> IntentRow) \<Rightarrow> DB \<Rightarrow> (unit \<times> DB) result" where
  "mark_intent intentID f d =
     (let id_text = NotificationIntentID_String intentID in
      rbind (check (uuid_param id_text) ''invalid input syntax'') (\<lambda>_.
      rbind (check (list_all (\<lambda>r. ni_id r = id_text \<longrightarrow> delivered_receipt_present (f r)) (db_notification_intents d))
        ''violates check constraint notification_intents_delivered_receipt_present'') (\<lambda>_.
      ok ((), d\<lparr>db_notification_intents := update_rows (\<lambda>r. ni_id r = id_text) f (db_notification_intents d)\<rparr>))))"

definition MarkTelegramDelivered ::
  "NotificationIntentID \<Rightarrow> gotime \<Rightarrow> MessageReceipt \<Rightarrow> ('w Session, unit) action" where
  "MarkTelegramDelivered intentID now receipt = pool_statement (\<lambda>d.
     rbind (check (text_param (mr_providerMessageID receipt)) ''invalid byte sequence for encoding'') (\<lambda>_.
     mark_intent intentID (\<lambda>r. r\<lparr>ni_status := ''delivered'', ni_locked_until := None,
       ni_delivered_at := Some (timestamptz (UTC now)),
       ni_provider_message_id := Some (mr_providerMessageID receipt), ni_last_error := None\<rparr>) d))"

definition MarkEmailDelivered ::
  "NotificationIntentID \<Rightarrow> gotime \<Rightarrow> MessageReceipt \<Rightarrow> ('w Session, unit) action" where
  "MarkEmailDelivered intentID now receipt = pool_statement (\<lambda>d.
     rbind (check (text_param (mr_providerMessageID receipt)) ''invalid byte sequence for encoding'') (\<lambda>_.
     mark_intent intentID (\<lambda>r. r\<lparr>ni_status := ''delivered'', ni_locked_until := None,
       ni_delivered_at := Some (timestamptz (UTC now)),
       ni_provider_message_id := Some (mr_providerMessageID receipt), ni_provider_status_code := None,
       ni_last_error := None\<rparr>) d))"

definition mark_status_delivered ::
  "NotificationIntentID \<Rightarrow> gotime \<Rightarrow> StatusReceipt \<Rightarrow> ('w Session, unit) action" where
  "mark_status_delivered intentID now receipt = pool_statement (\<lambda>d.
     rbind (check (integer32 (sr_status receipt)) ''integer out of range'') (\<lambda>_.
     mark_intent intentID (\<lambda>r. r\<lparr>ni_status := ''delivered'', ni_locked_until := None,
       ni_delivered_at := Some (timestamptz (UTC now)),
       ni_provider_status_code := Some (sr_status receipt), ni_provider_message_id := None,
       ni_last_error := None\<rparr>) d))"

text \<open>
  The marks of failed deliveries set \<open>next_attempt_at\<close> to \<open>$2 + make_interval(mins => ...)\<close>. Before a
  statement runs it is prepared, and its types are resolved: a parameter without a cast beside an operand
  takes the type of that operand, the operator is looked up for the two types, and the column takes the
  result when it is of its own type (none of these types is cast to another on assignment). The marks write
  \<open>$2\<close> without a cast, where the claims write \<open>$1::timestamptz\<close>.
\<close>

datatype sql_type = TimestampTZ | Interval

fun plus_operator :: "sql_type \<Rightarrow> sql_type \<Rightarrow> sql_type option" where
  "plus_operator TimestampTZ Interval = Some TimestampTZ"
| "plus_operator Interval TimestampTZ = Some TimestampTZ"
| "plus_operator Interval Interval = Some Interval"
| "plus_operator TimestampTZ TimestampTZ = None"

text \<open>The type of a parameter with an optional cast, beside an operand on its right.\<close>

definition parameter_type :: "sql_type option \<Rightarrow> sql_type \<Rightarrow> sql_type" where
  "parameter_type cast operand = (case cast of None \<Rightarrow> operand | Some t \<Rightarrow> t)"

definition sum_type :: "sql_type option \<Rightarrow> sql_type \<Rightarrow> sql_type option" where
  "sum_type cast operand = plus_operator (parameter_type cast operand) operand"

definition prepare_assignment :: "sql_type \<Rightarrow> sql_type option \<Rightarrow> unit result" where
  "prepare_assignment column expression =
     (case expression of
        None \<Rightarrow> fail ''operator does not exist''
      | Some t \<Rightarrow> check (t = column) ''column is of type timestamp with time zone but expression is of type interval'')"

text \<open>The cast that the marks give their parameter: none.\<close>

definition retry_parameter_cast :: "sql_type option" where
  "retry_parameter_cast = None"

definition prepare_retry :: "unit result" where
  "prepare_retry = prepare_assignment TimestampTZ (sum_type retry_parameter_cast Interval)"

text \<open>The row a mark of a failure asks for, in a statement that is prepared; \<open>$2\<close> is one minute after the failure.\<close>

definition backoff_minutes :: "int \<Rightarrow> int" where
  "backoff_minutes attempts = min 60 (2 ^ nat (min (max (attempts - 1) 0) 6))"

definition failed_intent :: "gotime \<Rightarrow> string \<Rightarrow> IntentRow \<Rightarrow> IntentRow" where
  "failed_intent now reason r = r\<lparr>ni_status := ''failed'', ni_locked_until := None,
     ni_next_attempt_at := timestamptz (UTC now + minute) + backoff_minutes (ni_attempts r) * minute,
     ni_last_error := Some reason\<rparr>"

definition MarkTelegramFailed ::
  "NotificationIntentID \<Rightarrow> gotime \<Rightarrow> string \<Rightarrow> ('w Session, unit) action" where
  "MarkTelegramFailed intentID now reason = pool_statement (\<lambda>d.
     rbind prepare_retry (\<lambda>_.
     rbind (check (text_param reason) ''invalid byte sequence for encoding'') (\<lambda>_.
     mark_intent intentID (failed_intent now reason) d)))"

definition MarkEmailFailed ::
  "NotificationIntentID \<Rightarrow> gotime \<Rightarrow> string \<Rightarrow> ('w Session, unit) action" where
  "MarkEmailFailed intentID now reason = pool_statement (\<lambda>d.
     rbind prepare_retry (\<lambda>_.
     rbind (check (text_param reason) ''invalid byte sequence for encoding'') (\<lambda>_.
     mark_intent intentID (\<lambda>r. (failed_intent now reason r)\<lparr>ni_provider_message_id := None,
       ni_provider_status_code := None\<rparr>) d)))"

definition mark_status_failed ::
  "NotificationIntentID \<Rightarrow> gotime \<Rightarrow> StatusReceipt \<Rightarrow> ('w Session, unit) action" where
  "mark_status_failed intentID now receipt = pool_statement (\<lambda>d.
     rbind prepare_retry (\<lambda>_.
     rbind (check (integer32 (sr_status receipt) \<and> text_param (sr_reason receipt)) ''invalid parameter'') (\<lambda>_.
     mark_intent intentID (\<lambda>r. (failed_intent now (sr_reason receipt) r)\<lparr>
       ni_provider_status_code := (if sr_status receipt = 0 then None else Some (sr_status receipt))\<rparr>) d)))"

lemma prepare_retry_refused:
  "prepare_retry = fail ''column is of type timestamp with time zone but expression is of type interval''"
  by (simp add: prepare_retry_def prepare_assignment_def sum_type_def parameter_type_def retry_parameter_cast_def check_def)

definition MarkWebhookDelivered ::
  "NotificationIntentID \<Rightarrow> gotime \<Rightarrow> StatusReceipt \<Rightarrow> ('w Session, unit) action" where
  "MarkWebhookDelivered = mark_status_delivered"

definition MarkWebhookFailed ::
  "NotificationIntentID \<Rightarrow> gotime \<Rightarrow> StatusReceipt \<Rightarrow> ('w Session, unit) action" where
  "MarkWebhookFailed = mark_status_failed"

definition MarkDiscordDelivered ::
  "NotificationIntentID \<Rightarrow> gotime \<Rightarrow> StatusReceipt \<Rightarrow> ('w Session, unit) action" where
  "MarkDiscordDelivered = mark_status_delivered"

definition MarkDiscordFailed ::
  "NotificationIntentID \<Rightarrow> gotime \<Rightarrow> StatusReceipt \<Rightarrow> ('w Session, unit) action" where
  "MarkDiscordFailed = mark_status_failed"

definition MarkGoogleChatDelivered ::
  "NotificationIntentID \<Rightarrow> gotime \<Rightarrow> StatusReceipt \<Rightarrow> ('w Session, unit) action" where
  "MarkGoogleChatDelivered = mark_status_delivered"

definition MarkGoogleChatFailed ::
  "NotificationIntentID \<Rightarrow> gotime \<Rightarrow> StatusReceipt \<Rightarrow> ('w Session, unit) action" where
  "MarkGoogleChatFailed = mark_status_failed"

definition MarkNtfyDelivered ::
  "NotificationIntentID \<Rightarrow> gotime \<Rightarrow> StatusReceipt \<Rightarrow> ('w Session, unit) action" where
  "MarkNtfyDelivered = mark_status_delivered"

definition MarkNtfyFailed ::
  "NotificationIntentID \<Rightarrow> gotime \<Rightarrow> StatusReceipt \<Rightarrow> ('w Session, unit) action" where
  "MarkNtfyFailed = mark_status_failed"

definition MarkTeamsDelivered ::
  "NotificationIntentID \<Rightarrow> gotime \<Rightarrow> StatusReceipt \<Rightarrow> ('w Session, unit) action" where
  "MarkTeamsDelivered = mark_status_delivered"

definition MarkTeamsFailed ::
  "NotificationIntentID \<Rightarrow> gotime \<Rightarrow> StatusReceipt \<Rightarrow> ('w Session, unit) action" where
  "MarkTeamsFailed = mark_status_failed"

definition MarkZulipDelivered ::
  "NotificationIntentID \<Rightarrow> gotime \<Rightarrow> StatusReceipt \<Rightarrow> ('w Session, unit) action" where
  "MarkZulipDelivered = mark_status_delivered"

definition MarkZulipFailed ::
  "NotificationIntentID \<Rightarrow> gotime \<Rightarrow> StatusReceipt \<Rightarrow> ('w Session, unit) action" where
  "MarkZulipFailed = mark_status_failed"

subsection \<open>The outboxes\<close>

definition TelegramOutbox_Store :: "'w Session TelegramOutbox" where
  "TelegramOutbox_Store = \<lparr>box_Claim = ClaimTelegramDeliveries,
     box_MarkDelivered = MarkTelegramDelivered, box_MarkFailed = MarkTelegramFailed\<rparr>"

definition WebhookOutbox_Store :: "url_parser \<Rightarrow> 'w Session WebhookOutbox" where
  "WebhookOutbox_Store url_Parse = \<lparr>box_Claim = ClaimWebhookDeliveries url_Parse,
     box_MarkDelivered = MarkWebhookDelivered, box_MarkFailed = MarkWebhookFailed\<rparr>"

definition EmailOutbox_Store :: "address_parser \<Rightarrow> 'w Session EmailOutbox" where
  "EmailOutbox_Store mail_ParseAddress = \<lparr>box_Claim = ClaimEmailDeliveries mail_ParseAddress,
     box_MarkDelivered = MarkEmailDelivered, box_MarkFailed = MarkEmailFailed\<rparr>"

definition DiscordOutbox_Store :: "url_parser \<Rightarrow> 'w Session DiscordOutbox" where
  "DiscordOutbox_Store url_Parse = \<lparr>box_Claim = ClaimDiscordDeliveries url_Parse,
     box_MarkDelivered = MarkDiscordDelivered, box_MarkFailed = MarkDiscordFailed\<rparr>"

definition GoogleChatOutbox_Store :: "url_parser \<Rightarrow> 'w Session GoogleChatOutbox" where
  "GoogleChatOutbox_Store url_Parse = \<lparr>box_Claim = ClaimGoogleChatDeliveries url_Parse,
     box_MarkDelivered = MarkGoogleChatDelivered, box_MarkFailed = MarkGoogleChatFailed\<rparr>"

definition NtfyOutbox_Store :: "url_parser \<Rightarrow> 'w Session NtfyOutbox" where
  "NtfyOutbox_Store url_Parse = \<lparr>box_Claim = ClaimNtfyDeliveries url_Parse,
     box_MarkDelivered = MarkNtfyDelivered, box_MarkFailed = MarkNtfyFailed\<rparr>"

definition TeamsOutbox_Store :: "url_parser \<Rightarrow> 'w Session TeamsOutbox" where
  "TeamsOutbox_Store url_Parse = \<lparr>box_Claim = ClaimTeamsDeliveries url_Parse,
     box_MarkDelivered = MarkTeamsDelivered, box_MarkFailed = MarkTeamsFailed\<rparr>"

definition ZulipOutbox_Store :: "url_parser \<Rightarrow> address_parser \<Rightarrow> 'w Session ZulipOutbox" where
  "ZulipOutbox_Store url_Parse mail_ParseAddress = \<lparr>box_Claim = ClaimZulipDeliveries url_Parse mail_ParseAddress,
     box_MarkDelivered = MarkZulipDelivered, box_MarkFailed = MarkZulipFailed\<rparr>"

lemmas outbox_defs = TelegramOutbox_Store_def WebhookOutbox_Store_def EmailOutbox_Store_def DiscordOutbox_Store_def GoogleChatOutbox_Store_def NtfyOutbox_Store_def TeamsOutbox_Store_def ZulipOutbox_Store_def
lemmas claim_defs = ClaimTelegramDeliveries_def ClaimWebhookDeliveries_def ClaimEmailDeliveries_def ClaimDiscordDeliveries_def ClaimGoogleChatDeliveries_def ClaimNtfyDeliveries_def ClaimTeamsDeliveries_def ClaimZulipDeliveries_def
lemmas mark_defs = MarkTelegramDelivered_def MarkTelegramFailed_def MarkWebhookDelivered_def MarkWebhookFailed_def MarkEmailDelivered_def MarkEmailFailed_def MarkDiscordDelivered_def MarkDiscordFailed_def MarkGoogleChatDelivered_def MarkGoogleChatFailed_def MarkNtfyDelivered_def MarkNtfyFailed_def MarkTeamsDelivered_def MarkTeamsFailed_def MarkZulipDelivered_def MarkZulipFailed_def

end
