(* ===== verification/DeliveryEffects.thy ===== *)
theory DeliveryEffects
  imports DeliveryStore IngestEffects
begin

text \<open>
  What a batch does to the intents: the ones it claims get an attempt and end up delivered or, when they
  failed or their mark is lost, delivering; all others are left alone. The contract of an outbox is a
  locale, of which the eight outboxes of the store are interpretations.
\<close>

subsection \<open>Rows\<close>

definition open_status :: "IntentRow \<Rightarrow> bool" where
  "open_status r \<longleftrightarrow> ni_status r = ''pending'' \<or> ni_status r = ''failed''"

definition row_claimed :: "gotime \<Rightarrow> IntentRow \<Rightarrow> IntentRow \<Rightarrow> bool" where
  "row_claimed now r r' \<longleftrightarrow>
     open_status r \<and> ni_next_attempt_at r \<le> timestamptz now \<and> ni_id r' = ni_id r \<and>
     ni_status r' = ''delivering'' \<and> ni_attempts r' = ni_attempts r + 1"

definition claim_effect :: "gotime \<Rightarrow> string list \<Rightarrow> IntentRow list \<Rightarrow> IntentRow list \<Rightarrow> bool" where
  "claim_effect now ids rows rows' \<longleftrightarrow>
     list_all2 (\<lambda>r r'. (r' = r \<and> ni_id r \<notin> set ids) \<or> row_claimed now r r') rows rows' \<and>
     distinct ids \<and> set ids \<subseteq> ni_id ` set rows"

definition row_marked :: "string \<Rightarrow> IntentRow \<Rightarrow> IntentRow \<Rightarrow> bool" where
  "row_marked i r r' \<longleftrightarrow>
     (if ni_id r = i
      then ni_id r' = i \<and> ni_status r' = ''delivered'' \<and> ni_attempts r' = ni_attempts r \<and> delivered_receipt_present r'
      else r' = r)"

definition mark_effect :: "string \<Rightarrow> IntentRow list \<Rightarrow> IntentRow list \<Rightarrow> bool" where
  "mark_effect i rows rows' \<longleftrightarrow> rows' = rows \<or> list_all2 (row_marked i) rows rows'"

text \<open>A row before and after a whole batch.\<close>

definition batch_row :: "gotime \<Rightarrow> IntentRow \<Rightarrow> IntentRow \<Rightarrow> bool" where
  "batch_row now r r' \<longleftrightarrow> r' = r \<or>
     (open_status r \<and> ni_next_attempt_at r \<le> timestamptz now \<and> ni_id r' = ni_id r \<and>
      ni_attempts r' = ni_attempts r + 1 \<and>
      (ni_status r' = ''delivering'' \<or> ni_status r' = ''delivered'' \<and> delivered_receipt_present r'))"

lemma list_all2_ids:
  assumes "list_all2 R rows rows'" and "\<And>r r'. R r r' \<Longrightarrow> ni_id r' = ni_id r"
  shows "map ni_id rows' = map ni_id rows"
  using assms by (induction rows rows' rule: list_all2_induct) auto

lemma mark_effect_ids: "mark_effect i rows rows' \<Longrightarrow> map ni_id rows' = map ni_id rows"
  by (auto simp: mark_effect_def row_marked_def dest!: list_all2_ids split: if_split_asm)

lemma claim_effect_ids: "claim_effect now ids rows rows' \<Longrightarrow> map ni_id rows' = map ni_id rows"
  by (auto simp: claim_effect_def row_claimed_def dest!: list_all2_ids)

text \<open>
  The rows of a batch that handed over the messages of the intents \<open>handed\<close>: each of them has one attempt
  more, and no other intent became delivered.
\<close>

definition batch_outcome :: "gotime \<Rightarrow> string set \<Rightarrow> IntentRow \<Rightarrow> IntentRow \<Rightarrow> bool" where
  "batch_outcome now handed r r' \<longleftrightarrow> batch_row now r r' \<and>
     (ni_id r \<in> handed \<longrightarrow> ni_attempts r' = ni_attempts r + 1) \<and>
     (r' \<noteq> r \<longrightarrow> ni_status r' = ''delivered'' \<longrightarrow> ni_id r \<in> handed)"

text \<open>A batch in progress: \<open>pending\<close> are the claimed intents whose delivery is still to come.\<close>

definition in_batch :: "gotime \<Rightarrow> string set \<Rightarrow> string set \<Rightarrow> IntentRow \<Rightarrow> IntentRow \<Rightarrow> bool" where
  "in_batch now pending handed r r' \<longleftrightarrow> batch_outcome now handed r r' \<and> (ni_id r \<in> pending \<longrightarrow> row_claimed now r r')"

lemma claim_starts_batch:
  assumes "claim_effect now ids rows rows'"
  shows "list_all2 (in_batch now (set ids) {}) rows rows'"
  using assms unfolding claim_effect_def
  by (auto elim!: list_all2_mono simp: in_batch_def batch_outcome_def batch_row_def row_claimed_def)

lemma mark_continues_batch:
  assumes "list_all2 (in_batch now (insert i pending) handed) rows rows'" and "mark_effect i rows' rows''"
    and "rows'' = rows' \<or> i \<in> handed'" and "i \<notin> pending" and "handed' = handed \<or> handed' = insert i handed"
  shows "list_all2 (in_batch now pending handed') rows rows''"
proof -
  have same: "in_batch now pending handed' r r'" if "in_batch now (insert i pending) handed r r'" for r r'
    using that assms(5) by (auto simp: in_batch_def batch_outcome_def row_claimed_def)
  show ?thesis
  proof (cases "rows'' = rows'")
    case True
    with assms(1) same show ?thesis by (auto elim!: list_all2_mono)
  next
    case False
    with assms(3) have handed: "i \<in> handed'" by simp
    from False have "list_all2 (row_marked i) rows' rows''" using assms(2) by (simp add: mark_effect_def)
    with assms(1) show ?thesis
    proof (rule list_all2_trans [rotated])
      fix r r' r''
      assume a: "in_batch now (insert i pending) handed r r'" and b: "row_marked i r' r''"
      show "in_batch now pending handed' r r''"
      proof (cases "ni_id r = i")
        case True
        with a have c: "row_claimed now r r'" by (simp add: in_batch_def)
        with True b handed assms(4) show ?thesis
          by (auto simp: in_batch_def batch_outcome_def batch_row_def row_claimed_def row_marked_def)
      next
        case False
        from a have "ni_id r' = ni_id r" by (auto simp: in_batch_def batch_outcome_def batch_row_def)
        with False b have "r'' = r'" by (simp add: row_marked_def)
        with a same show ?thesis by simp
      qed
    qed
  qed
qed

subsection \<open>The contract of an outbox\<close>

text \<open>
  \<open>good\<close> is the condition on the session, \<open>intents\<close> the table of intents it sees, and \<open>sent\<close> a record of
  the intents whose message was handed to the sender, kept outside the store.
\<close>

locale outbox =
  fixes box :: "('s, 'd, 'r, 'f) Outbox"
    and good :: "'s \<Rightarrow> bool"
    and intents :: "'s \<Rightarrow> IntentRow list"
    and sent :: "'s \<Rightarrow> NotificationIntentID list"
  assumes claim_law: "good s \<Longrightarrow> box_Claim box now limit s = (r, t) \<Longrightarrow> good t \<and> sent t = sent s \<and>
      claim_effect now (case r of Inl e \<Rightarrow> [] | Inr ds \<Rightarrow> map (\<lambda>d. NotificationIntentID_String (dl_intentID d)) ds)
        (intents s) (intents t)"
    and claim_limit: "good s \<Longrightarrow> box_Claim box now limit s = (Inr deliveries, t) \<Longrightarrow> int (length deliveries) \<le> limit"
    and delivered_law: "good s \<Longrightarrow> box_MarkDelivered box i now receipt s = (u, t) \<Longrightarrow> good t \<and> sent t = sent s \<and>
      mark_effect (NotificationIntentID_String i) (intents s) (intents t)"
    and failed_law: "good s \<Longrightarrow> box_MarkFailed box i now failure s = (u', t) \<Longrightarrow> good t \<and> sent t = sent s \<and>
      intents t = intents s"
begin

text \<open>A call of the network leaves the store alone; the sender records its message, the resolver nothing.\<close>

definition quiet_call :: "('s, 'a) action \<Rightarrow> bool" where
  "quiet_call m \<longleftrightarrow> evolves (\<lambda>s t. good s \<longrightarrow> good t \<and> intents t = intents s \<and> sent t = sent s) m"

definition sending :: "('s, ('d, 'b) Message, 'rr) Sender \<Rightarrow> bool" where
  "sending sender \<longleftrightarrow> (\<forall>m. evolves (\<lambda>s t. good s \<longrightarrow> good t \<and> intents t = intents s \<and>
     sent t = sent s @ [msg_intentID m]) (sender m))"

lemma sendingD:
  assumes "sending sender" and "good s" and "sender m s = (r, t)"
  shows "good t \<and> intents t = intents s \<and> sent t = sent s @ [msg_intentID m]"
  using assms by (auto simp: sending_def dest: evolvesD)

text \<open>What a step of a batch may do for the delivery of intent \<open>i\<close>.\<close>

definition step_ok :: "gotime \<Rightarrow> ('d Delivery \<Rightarrow> 's delivery_step) \<Rightarrow> bool" where
  "step_ok now step \<longleftrightarrow> (\<forall>d receipt s rc t. good s \<longrightarrow> step d receipt s = (rc, t) \<longrightarrow>
     good t \<and> (sent t = sent s \<or> sent t = sent s @ [dl_intentID d]) \<and>
     (rc = one_failed receipt \<or> rc = one_delivered receipt) \<and>
     (intents t = intents s \<or> sent t = sent s @ [dl_intentID d]) \<and>
     mark_effect (NotificationIntentID_String (dl_intentID d)) (intents s) (intents t))"

lemma mark_failure_step:
  assumes "good s" and "mark_failure box i now f receipt s = (rc, t)"
  shows "good t \<and> sent t = sent s \<and> rc = one_failed receipt \<and> intents t = intents s"
  using failed_law [OF assms(1) surjective_pairing, of i now f] assms(2) by (simp add: mark_failure_def)

lemma mark_delivered_step:
  assumes "good s" and "mark_delivered box i now r receipt s = (rc, t)"
  shows "good t \<and> sent t = sent s \<and> (rc = one_failed receipt \<or> rc = one_delivered receipt) \<and>
    mark_effect (NotificationIntentID_String i) (intents s) (intents t)"
proof -
  obtain u v where uv: "box_MarkDelivered box i now r s = (u, v)" by fastforce
  with assms(2) have "v = t" "rc = one_failed receipt \<or> rc = one_delivered receipt"
    by (auto simp: mark_delivered_def split: sum.split_asm)
  with delivered_law [OF assms(1) uv] show ?thesis by simp
qed

lemma deliver_each_effect:
  assumes "step_ok now step" and "good s" and "deliver_each step deliveries receipt s = (rc, t)"
    and "list_all2 (in_batch now (set (map (\<lambda>d. NotificationIntentID_String (dl_intentID d)) deliveries)) handed) rows (intents s)"
    and "distinct (map (\<lambda>d. NotificationIntentID_String (dl_intentID d)) deliveries)"
  shows "good t \<and>
    (\<exists>ids. sent t = sent s @ ids \<and> subseq ids (map dl_intentID deliveries) \<and>
      list_all2 (batch_outcome now (handed \<union> NotificationIntentID_String ` set ids)) rows (intents t)) \<and>
    br_claimed rc = br_claimed receipt \<and>
    br_delivered rc + br_failed rc = br_delivered receipt + br_failed receipt + int (length deliveries)"
  using assms(2-5)
proof (induction deliveries arbitrary: receipt s handed)
  case Nil
  then show ?case by (auto elim!: list_all2_mono simp: in_batch_def)
next
  case (Cons d deliveries)
  obtain rc1 u where u: "step d receipt s = (rc1, u)" by fastforce
  with Cons.prems(2) have rest: "deliver_each step deliveries rc1 u = (rc, t)" by simp
  let ?i = "NotificationIntentID_String (dl_intentID d)"
  let ?rest = "set (map (\<lambda>d. NotificationIntentID_String (dl_intentID d)) deliveries)"
  from assms(1) [unfolded step_ok_def, rule_format, OF Cons.prems(1) u] have now:
    "good u" "sent u = sent s \<or> sent u = sent s @ [dl_intentID d]"
    "rc1 = one_failed receipt \<or> rc1 = one_delivered receipt"
    "intents u = intents s \<or> sent u = sent s @ [dl_intentID d]"
    "mark_effect ?i (intents s) (intents u)" by blast+
  from now(2) obtain new where new: "sent u = sent s @ new" "new = [] \<or> new = [dl_intentID d]" by auto
  let ?handed = "handed \<union> NotificationIntentID_String ` set new"
  have "list_all2 (in_batch now ?rest ?handed) rows (intents u)"
    using mark_continues_batch [OF _ now(5), of now ?rest handed rows ?handed] Cons.prems(3,4) now(4) new by auto
  from Cons.IH [OF now(1) rest this] Cons.prems(4)
  obtain ids where ih: "good t" "sent t = sent u @ ids" "subseq ids (map dl_intentID deliveries)"
    "list_all2 (batch_outcome now (?handed \<union> NotificationIntentID_String ` set ids)) rows (intents t)"
    "br_claimed rc = br_claimed rc1"
    "br_delivered rc + br_failed rc = br_delivered rc1 + br_failed rc1 + int (length deliveries)" by auto
  have "sent t = sent s @ (new @ ids) \<and> subseq (new @ ids) (map dl_intentID (d # deliveries)) \<and>
      list_all2 (batch_outcome now (handed \<union> NotificationIntentID_String ` set (new @ ids))) rows (intents t)"
    using new ih by (auto simp: image_Un Un_assoc)
  with ih now(3) show ?case by (auto simp: one_failed_def one_delivered_def)
qed

text \<open>A batch as a whole.\<close>

definition batch_effect :: "gotime \<Rightarrow> 's \<Rightarrow> 's \<Rightarrow> bool" where
  "batch_effect now s t \<longleftrightarrow> good t \<and>
     (\<exists>ids. sent t = sent s @ ids \<and> distinct (map NotificationIntentID_String ids) \<and>
       (\<forall>i\<in>set ids. \<exists>x\<in>set (intents s). ni_id x = NotificationIntentID_String i \<and> open_status x \<and>
          ni_next_attempt_at x \<le> timestamptz now) \<and>
       list_all2 (batch_outcome now (NotificationIntentID_String ` set ids)) (intents s) (intents t))"

lemma deliver_batch_effect:
  assumes step: "step_ok (bc_now command) step" and s: "good s"
    and run: "deliver_batch command box step s = (r, t)"
  shows "batch_effect (bc_now command) s t"
proof -
  obtain c u where c: "box_Claim box (bc_now command) (bc_limit command) s = (c, u)" by fastforce
  note claim = claim_law [OF s c]
  show ?thesis
  proof (cases c)
    case (Inl e)
    with run c have "t = u" by (simp add: deliver_batch_def abind_def)
    with claim Inl show ?thesis
      using claim_starts_batch [of "bc_now command" "[]" "intents s" "intents u"]
      by (auto elim!: list_all2_mono simp: in_batch_def batch_effect_def)
  next
    case (Inr ds)
    let ?ids = "map (\<lambda>d. NotificationIntentID_String (dl_intentID d)) ds"
    obtain rc where rc: "deliver_each step ds \<lparr>br_claimed = int (length ds), br_delivered = 0, br_failed = 0\<rparr> u = (rc, t)"
      using run c Inr by (auto simp: deliver_batch_def abind_def split: prod.split_asm)
    have effect: "claim_effect (bc_now command) ?ids (intents s) (intents u)" using claim Inr by simp
    have dist: "distinct ?ids" using effect by (simp add: claim_effect_def)
    have start: "list_all2 (in_batch (bc_now command) (set ?ids) {}) (intents s) (intents u)"
      using claim_starts_batch [OF effect] .
    have "good u" "sent u = sent s" using claim by simp_all
    with deliver_each_effect [OF step _ rc start dist] obtain ids where
      fin: "good t" "sent t = sent s @ ids" "subseq ids (map dl_intentID ds)"
        "list_all2 (batch_outcome (bc_now command) (NotificationIntentID_String ` set ids)) (intents s) (intents t)"
      by auto
    have "subseq (map NotificationIntentID_String ids) ?ids"
      using subseq_map [OF fin(3), of NotificationIntentID_String] by (simp add: o_def)
    with dist have d: "distinct (map NotificationIntentID_String ids)" unfolding subseq_conv_nths by (auto intro: distinct_nthsI)
    have "\<exists>x\<in>set (intents s). ni_id x = NotificationIntentID_String i \<and> open_status x \<and>
        ni_next_attempt_at x \<le> timestamptz (bc_now command)" if "i \<in> set ids" for i
    proof -
      from that fin(3) have "i \<in> set (map dl_intentID ds)"
        unfolding subseq_conv_nths by (blast dest: in_set_nthsD)
      then have i: "NotificationIntentID_String i \<in> set ?ids" by auto
      then have "NotificationIntentID_String i \<in> ni_id ` set (intents s)"
        using effect unfolding claim_effect_def by blast
      then obtain x where x: "x \<in> set (intents s)" "ni_id x = NotificationIntentID_String i"
        by (metis imageE)
      then obtain n where n: "n < length (intents s)" "intents s ! n = x" by (auto simp: in_set_conv_nth)
      with start have "in_batch (bc_now command) (set ?ids) {} x (intents u ! n)"
        by (auto simp: list_all2_conv_all_nth)
      with x i show ?thesis by (auto simp: in_batch_def row_claimed_def)
    qed
    with fin d show ?thesis unfolding batch_effect_def by blast
  qed
qed

lemma deliver_batch_counts:
  assumes "step_ok (bc_now command) step" and "good s" and "deliver_batch command box step s = (Inr rc, t)"
  shows "br_delivered rc + br_failed rc = br_claimed rc \<and> br_claimed rc \<le> bc_limit command"
proof -
  obtain ds u where c: "box_Claim box (bc_now command) (bc_limit command) s = (Inr ds, u)"
    and each: "deliver_each step ds \<lparr>br_claimed = int (length ds), br_delivered = 0, br_failed = 0\<rparr> u = (rc, t)"
    using assms(3) unfolding deliver_batch_def abind_ok by (fastforce simp: case_prod_beta prod_eq_iff)
  note claim = claim_law [OF assms(2) c]
  then have "distinct (map (\<lambda>d. NotificationIntentID_String (dl_intentID d)) ds)" by (simp add: claim_effect_def)
  from deliver_each_effect [OF assms(1) _ each claim_starts_batch this] claim claim_limit [OF assms(2) c]
  show ?thesis by auto
qed

lemma deliver_batch_error:
  assumes "good s" and "deliver_batch command box step s = (Inl e, t)"
  shows "sent t = sent s"
proof -
  obtain c u where c: "box_Claim box (bc_now command) (bc_limit command) s = (c, u)" by fastforce
  with assms(2) have "t = u"
    by (cases c) (auto simp: deliver_batch_def abind_def split: prod.split_asm)
  with claim_law [OF assms(1) c] show ?thesis by simp
qed

text \<open>A batch of which every delivery fails leaves the claimed intents as the claim left them.\<close>

definition step_failed :: "('d Delivery \<Rightarrow> 's delivery_step) \<Rightarrow> bool" where
  "step_failed step \<longleftrightarrow> (\<forall>d receipt s rc t. good s \<longrightarrow> step d receipt s = (rc, t) \<longrightarrow>
     good t \<and> intents t = intents s \<and> rc = one_failed receipt)"

lemma deliver_each_failed:
  assumes "step_failed step" and "good s" and "deliver_each step deliveries receipt s = (rc, t)"
  shows "good t \<and> intents t = intents s \<and> br_delivered rc = br_delivered receipt"
  using assms(2,3)
proof (induction deliveries arbitrary: receipt s)
  case (Cons d deliveries)
  obtain rc1 u where u: "step d receipt s = (rc1, u)" by fastforce
  from assms(1) [unfolded step_failed_def, rule_format, OF Cons.prems(1) u]
  have "good u" "intents u = intents s" "br_delivered rc1 = br_delivered receipt" by (auto simp: one_failed_def)
  with Cons.IH [of u rc1] Cons.prems(2) u show ?case by simp
qed simp

lemma deliver_batch_failed:
  assumes "step_failed step" and "good s" and "deliver_batch command box step s = (r, t)"
  shows "list_all2 (\<lambda>x y. y = x \<or> row_claimed (bc_now command) x y) (intents s) (intents t)"
    and "r = Inr rc \<Longrightarrow> br_delivered rc = 0"
proof -
  obtain c u where c: "box_Claim box (bc_now command) (bc_limit command) s = (c, u)" by fastforce
  note claim = claim_law [OF assms(2) c]
  have rows: "list_all2 (\<lambda>x y. y = x \<or> row_claimed (bc_now command) x y) (intents s) (intents u)"
    using claim by (auto simp: claim_effect_def elim!: list_all2_mono)
  have "list_all2 (\<lambda>x y. y = x \<or> row_claimed (bc_now command) x y) (intents s) (intents t) \<and>
    (r = Inr rc \<longrightarrow> br_delivered rc = 0)"
  proof (cases c)
    case (Inl e)
    with assms(3) c have "t = u" "r = Inl e" by (simp_all add: deliver_batch_def abind_def)
    with rows show ?thesis by simp
  next
    case (Inr ds)
    obtain rc' where rc': "deliver_each step ds \<lparr>br_claimed = int (length ds), br_delivered = 0, br_failed = 0\<rparr> u = (rc', t)"
      "r = Inr rc'"
      using assms(3) c Inr by (auto simp: deliver_batch_def abind_def split: prod.split_asm)
    from deliver_each_failed [OF assms(1) _ rc'(1)] claim rows rc'(2) show ?thesis by auto
  qed
  then show "list_all2 (\<lambda>x y. y = x \<or> row_claimed (bc_now command) x y) (intents s) (intents t)"
    and "r = Inr rc \<Longrightarrow> br_delivered rc = 0" by blast+
qed

lemma one_step:
  assumes "good s" and "mark_failure box i now f receipt s = (rc, t) \<or> mark_delivered box i now r receipt s = (rc, t)"
  shows "good t \<and> sent t = sent s \<and> (rc = one_failed receipt \<or> rc = one_delivered receipt) \<and>
    mark_effect (NotificationIntentID_String i) (intents s) (intents t)"
  using assms(2)
proof
  assume "mark_failure box i now f receipt s = (rc, t)"
  from mark_failure_step [OF assms(1) this] show ?thesis by (simp add: mark_effect_def)
next
  assume "mark_delivered box i now r receipt s = (rc, t)"
  from mark_delivered_step [OF assms(1) this] show ?thesis by blast
qed

end

lemma opened_message_intent:
  "opened_message delivery body = ok m \<Longrightarrow> msg_intentID m = dl_intentID delivery"
  by (auto simp: opened_message_def rbind_eq_ok)

text \<open>The two shapes of a delivery are steps of a batch.\<close>

locale text_outbox = outbox box good intents sent
  for box :: "('s, 'd, MessageReceipt, string) Outbox"
    and good :: "'s \<Rightarrow> bool" and intents :: "'s \<Rightarrow> IntentRow list"
    and sent :: "'s \<Rightarrow> NotificationIntentID list"
begin

lemma deliver_text_step:
  assumes "sending sender" and "\<And>d m. message d = ok m \<Longrightarrow> msg_intentID m = dl_intentID d"
  shows "step_ok (bc_now command) (\<lambda>d. deliver_text command (message d) d box sender)"
  unfolding step_ok_def
proof (intro allI impI)
  fix d receipt s rc t
  assume s: "good s" and run: "deliver_text command (message d) d box sender receipt s = (rc, t)"
  let ?i = "dl_intentID d" and ?now = "bc_now command"
  show "good t \<and> (sent t = sent s \<or> sent t = sent s @ [?i]) \<and> (rc = one_failed receipt \<or> rc = one_delivered receipt) \<and>
    (intents t = intents s \<or> sent t = sent s @ [?i]) \<and>
    mark_effect (NotificationIntentID_String ?i) (intents s) (intents t)"
  proof (cases "message d")
    case (Inl e)
    then obtain e' where "mark_failure box ?i ?now e' receipt s = (rc, t)"
      using run by (cases e) (simp add: deliver_text_def)
    from mark_failure_step [OF s this] show ?thesis by (simp add: mark_effect_def)
  next
    case (Inr m)
    obtain x u where x: "sender m s = (x, u)" by fastforce
    note u = sendingD [OF assms(1) s x]
    then have sent: "sent u = sent s @ [?i]" using assms(2) [OF Inr] by simp
    have "(\<exists>e. mark_failure box ?i ?now e receipt u = (rc, t)) \<or> (\<exists>r. mark_delivered box ?i ?now r receipt u = (rc, t))"
      using run Inr x by (cases x; cases "projl x") (auto simp: deliver_text_def)
    then have "good t \<and> sent t = sent u \<and> (rc = one_failed receipt \<or> rc = one_delivered receipt) \<and>
      mark_effect (NotificationIntentID_String ?i) (intents u) (intents t)"
      by (elim disjE exE) (rule one_step, use u in simp, blast)+
    with u sent show ?thesis by simp
  qed
qed

end

text \<open>A sender that refuses every message, with an error or a receipt that says so.\<close>

definition refuses_text :: "('s, ('d, 'b) Message, MessageReceipt) Sender \<Rightarrow> bool" where
  "refuses_text sender \<longleftrightarrow> (\<forall>m s. \<exists>e. fst (sender m s) = Inl e)"

definition refuses_status :: "('s, ('d, 'b) Message, StatusReceipt) Sender \<Rightarrow> bool" where
  "refuses_status sender \<longleftrightarrow> (\<forall>m s r. fst (sender m s) = Inr r \<longrightarrow> \<not> sr_delivered r)"

context text_outbox
begin

lemma deliver_text_failed:
  assumes "sending sender" and "refuses_text sender"
  shows "step_failed (\<lambda>d. deliver_text command (message d) d box sender)"
  unfolding step_failed_def
proof (intro allI impI)
  fix d receipt s rc t
  assume s: "good s" and run: "deliver_text command (message d) d box sender receipt s = (rc, t)"
  obtain u e where u: "good u" "intents u = intents s" "mark_failure box (dl_intentID d) (bc_now command) e receipt u = (rc, t)"
  proof (cases "message d")
    case (Inl e)
    then obtain e' where "mark_failure box (dl_intentID d) (bc_now command) e' receipt s = (rc, t)"
      using run by (cases e) (simp add: deliver_text_def)
    with s show ?thesis using that by blast
  next
    case (Inr m)
    obtain e u where x: "sender m s = (Inl (GoErr e), u)"
      using assms(2) by (metis refuses_text_def go_error.exhaust prod.collapse)
    then have "mark_failure box (dl_intentID d) (bc_now command) e receipt u = (rc, t)"
      using run Inr by (simp add: deliver_text_def)
    with that sendingD [OF assms(1) s x] show ?thesis by blast
  qed
  from mark_failure_step [OF u(1,3)] u(2) show "good t \<and> intents t = intents s \<and> rc = one_failed receipt" by simp
qed

end

locale status_outbox = outbox box good intents sent
  for box :: "('s, 'd, StatusReceipt, StatusReceipt) Outbox"
    and good :: "'s \<Rightarrow> bool" and intents :: "'s \<Rightarrow> IntentRow list"
    and sent :: "'s \<Rightarrow> NotificationIntentID list"
begin

definition quiet_resolver :: "'s Resolver \<Rightarrow> bool" where
  "quiet_resolver resolver \<longleftrightarrow> (case resolver of None \<Rightarrow> True | Some LookupHost \<Rightarrow> \<forall>host. quiet_call (LookupHost host))"

lemma quiet_validation:
  assumes "quiet_resolver resolver"
  shows "quiet_call (ValidateResolvedDestination resolver destination)"
proof -
  let ?R = "\<lambda>s t. good s \<longrightarrow> good t \<and> intents t = intents s \<and> sent t = sent s"
  have "preorder_on_states ?R"
    by (auto simp: preorder_on_states_def reflp_def transp_def)
  then show ?thesis
    using assms unfolding quiet_call_def ValidateResolvedDestination_def quiet_resolver_def
    by (cases resolver) (auto intro!: evolves_intros)
qed

lemma deliver_payload_step:
  assumes "sending sender" and "quiet_resolver resolver"
    and "\<And>d m. message d = ok m \<Longrightarrow> msg_intentID m = dl_intentID d"
  shows "step_ok (bc_now command) (\<lambda>d. deliver_payload command resolver (destination d) (message d) d box sender)"
  unfolding step_ok_def
proof (intro allI impI)
  fix d receipt s rc t
  assume s: "good s" and run: "deliver_payload command resolver (destination d) (message d) d box sender receipt s = (rc, t)"
  let ?i = "dl_intentID d" and ?now = "bc_now command"
  obtain v w where v: "ValidateResolvedDestination resolver (destination d) s = (v, w)" by fastforce
  have w: "good w" "intents w = intents s" "sent w = sent s"
    using evolvesD [OF quiet_validation [OF assms(2), unfolded quiet_call_def] v] s by simp_all
  show "good t \<and> (sent t = sent s \<or> sent t = sent s @ [?i]) \<and> (rc = one_failed receipt \<or> rc = one_delivered receipt) \<and>
    (intents t = intents s \<or> sent t = sent s @ [?i]) \<and>
    mark_effect (NotificationIntentID_String ?i) (intents s) (intents t)"
  proof (cases "(\<exists>e. v = Inl e) \<or> (\<exists>e. message d = Inl e)")
    case True
    then obtain f where "mark_failure box ?i ?now f receipt w = (rc, t)"
      using run v by (cases v; cases "projl v"; cases "message d"; cases "projl (message d)") (auto simp: deliver_payload_def)
    from mark_failure_step [OF w(1) this] w show ?thesis by (simp add: mark_effect_def)
  next
    case False
    then obtain dest m where ok: "v = Inr dest" "message d = Inr m"
      by (cases v; cases "message d") auto
    obtain x u where x: "sender m w = (x, u)" by fastforce
    note u = sendingD [OF assms(1) w(1) x]
    then have sent: "sent u = sent s @ [?i]" using assms(3) [OF ok(2)] w by simp
    have "(\<exists>e. mark_failure box ?i ?now e receipt u = (rc, t)) \<or> (\<exists>r. mark_delivered box ?i ?now r receipt u = (rc, t))"
      using run ok v x by (cases x; cases "projl x") (auto simp: deliver_payload_def Let_def split: if_split_asm)
    then have "good t \<and> sent t = sent u \<and> (rc = one_failed receipt \<or> rc = one_delivered receipt) \<and>
      mark_effect (NotificationIntentID_String ?i) (intents u) (intents t)"
      by (elim disjE exE) (rule one_step, use u in simp, blast)+
    with u w sent show ?thesis by simp
  qed
qed

end

context status_outbox
begin

lemma deliver_payload_failed:
  assumes "sending sender" and "quiet_resolver resolver" and "refuses_status sender"
  shows "step_failed (\<lambda>d. deliver_payload command resolver (destination d) (message d) d box sender)"
  unfolding step_failed_def
proof (intro allI impI)
  fix d receipt s rc t
  assume s: "good s" and run: "deliver_payload command resolver (destination d) (message d) d box sender receipt s = (rc, t)"
  obtain v w where v: "ValidateResolvedDestination resolver (destination d) s = (v, w)" by fastforce
  have w: "good w" "intents w = intents s"
    using evolvesD [OF quiet_validation [OF assms(2), unfolded quiet_call_def] v] s by simp_all
  obtain u f where u: "good u" "intents u = intents s" "mark_failure box (dl_intentID d) (bc_now command) f receipt u = (rc, t)"
  proof (cases "(\<exists>e. v = Inl e) \<or> (\<exists>e. message d = Inl e)")
    case True
    then obtain f where "mark_failure box (dl_intentID d) (bc_now command) f receipt w = (rc, t)"
      using run v by (cases v; cases "projl v"; cases "message d"; cases "projl (message d)") (auto simp: deliver_payload_def)
    with w that show ?thesis by blast
  next
    case False
    then obtain dest m where ok: "v = Inr dest" "message d = Inr m"
      by (cases v; cases "message d") auto
    obtain x u where x: "sender m w = (x, u)" by fastforce
    have "\<not> sr_delivered r" if "x = Inr r" for r
      using assms(3) x that by (metis refuses_status_def fst_conv)
    then obtain f where "mark_failure box (dl_intentID d) (bc_now command) f receipt u = (rc, t)"
      using run ok v x by (cases x; cases "projl x") (auto simp: deliver_payload_def Let_def)
    with sendingD [OF assms(1) w(1) x] w show ?thesis by (intro that) simp_all
  qed
  from mark_failure_step [OF u(1,3)] u(2) show "good t \<and> intents t = intents s \<and> rc = one_failed receipt" by simp
qed

end

subsection \<open>The outboxes of the store\<close>

definition delivery_consistent :: "DB \<Rightarrow> bool" where
  "delivery_consistent d \<longleftrightarrow>
     distinct (map ni_id (db_notification_intents d)) \<and> distinct (map er_id (db_events d)) \<and>
     distinct (map ir_id (db_issues d)) \<and>
     distinct (map (\<lambda>r. (dr_provider r, dr_id r)) (db_destinations d)) \<and>
     (\<forall>r\<in>set (db_notification_intents d). uuid_param (ni_id r))"

abbreviation delivery_ready :: "'w Session \<Rightarrow> bool" where
  "delivery_ready s \<equiv> session_ready s \<and> delivery_consistent (ses_db s)"

abbreviation session_intents :: "'w Session \<Rightarrow> IntentRow list" where
  "session_intents s \<equiv> db_notification_intents (ses_db s)"

lemma delivery_consistent_intents:
  assumes "delivery_consistent d" and "map ni_id rows = map ni_id (db_notification_intents d)"
  shows "delivery_consistent (d\<lparr>db_notification_intents := rows\<rparr>)"
proof -
  have "(\<forall>r\<in>set rows. uuid_param (ni_id r)) \<longleftrightarrow> (\<forall>i\<in>set (map ni_id rows). uuid_param i)" by simp
  also have "\<dots> \<longleftrightarrow> (\<forall>r\<in>set (db_notification_intents d). uuid_param (ni_id r))" unfolding assms(2) by simp
  finally show ?thesis using assms by (simp add: delivery_consistent_def)
qed

lemma pool_statement_world: "pool_statement f s = (r, t) \<Longrightarrow> ses_world t = ses_world s"
  by (auto simp: pool_statement_def statement_def Let_def split: prod.split_asm sum.split_asm
      if_split_asm option.split_asm)

text \<open>A mark, on a session that is ready.\<close>

lemma mark_intent_ok:
  assumes "mark_intent i f d = ok (u, d')"
  shows "d' = d\<lparr>db_notification_intents := update_rows (\<lambda>r. ni_id r = NotificationIntentID_String i) f
      (db_notification_intents d)\<rparr> \<and>
    (\<forall>r\<in>set (db_notification_intents d). ni_id r = NotificationIntentID_String i \<longrightarrow> delivered_receipt_present (f r))"
  using assms by (auto simp: mark_intent_def Let_def rbind_eq_ok list_all_iff)

lemma mark_law:
  assumes run: "pool_statement (\<lambda>d. rbind (check c m) (\<lambda>_. mark_intent i f d)) s = (r, t)" and s: "delivery_ready s"
    and f: "\<And>r. ni_id (f r) = ni_id r \<and> ni_status (f r) = ''delivered'' \<and> ni_attempts (f r) = ni_attempts r"
  shows "delivery_ready t \<and> ses_world t = ses_world s \<and>
    mark_effect (NotificationIntentID_String i) (session_intents s) (session_intents t)"
proof -
  note ready = pool_ready [OF run] pool_statement_world [OF run]
  show ?thesis
  proof (cases r)
    case (Inl e)
    with ready s show ?thesis by (simp add: mark_effect_def)
  next
    case (Inr v)
    with ready s have "mark_intent i f (ses_db s) = ok (v, ses_db t)" by (auto simp: rbind_eq_ok)
    note d = mark_intent_ok [OF this]
    let ?rows = "session_intents s" and ?i = "NotificationIntentID_String i"
    have rows: "session_intents t = update_rows (\<lambda>r. ni_id r = ?i) f ?rows" using d by simp
    have "list_all2 (row_marked ?i) ?rows (update_rows (\<lambda>r. ni_id r = ?i) f ?rows)"
      using d f by (auto simp: update_rows_def list_all2_map2 row_marked_def intro!: list.rel_refl_strong)
    moreover have "delivery_consistent (ses_db t)"
      using d f s delivery_consistent_intents [of "ses_db s" "update_rows (\<lambda>r. ni_id r = ?i) f ?rows"]
      by (simp add: map_update_rows)
    ultimately show ?thesis using ready s rows by (simp add: mark_effect_def)
  qed
qed

text \<open>The mark of a failure is refused before it touches a row.\<close>

lemma refused_law:
  assumes run: "pool_statement (\<lambda>d. rbind prepare_retry (f d)) s = (r, t)" and s: "delivery_ready s"
  shows "delivery_ready t \<and> ses_world t = ses_world s \<and> session_intents t = session_intents s"
  using pool_ready [OF run] pool_statement_world [OF run] s
  by (cases r) (auto simp: prepare_retry_refused result_simps)

text \<open>A claim. Joins over unique keys give every claimed intent at most one row.\<close>

lemma subseq_joined:
  assumes "\<forall>u\<in>set us. g u = [] \<or> (\<exists>z. g u = [(u, z)])"
  shows "subseq (map (\<lambda>row. f (fst row)) (concat (map g us))) (map f us)"
  using assms
proof (induction us)
  case (Cons u us)
  then consider "g u = []" | z where "g u = [(u, z)]" by auto
  then show ?case using Cons by cases auto
qed simp

lemma delivery_rows_ids:
  assumes wf: "delivery_consistent d" and us: "distinct (map ni_id us)"
  shows "distinct (map (\<lambda>row. ni_id (fst row)) (delivery_rows provider us d)) \<and>
    (\<lambda>row. ni_id (fst row)) ` set (delivery_rows provider us d) \<subseteq> ni_id ` set us"
proof -
  define g :: "IntentRow \<Rightarrow> DeliveryRow list" where "g u = [(u, dr, e, i).
      dr \<leftarrow> filter (destination_of provider (ni_destination_id u)) (db_destinations d),
      e \<leftarrow> filter (\<lambda>e. er_id e = ni_event_id u) (db_events d),
      i \<leftarrow> filter (\<lambda>i. ir_id i = ni_issue_id u) (db_issues d)]" for u
  have one: "g u = [] \<or> (\<exists>z. g u = [(u, z)])" for u
  proof -
    have "destination_of provider (ni_destination_id u) =
        (\<lambda>r. (dr_provider r, dr_id r) = (provider, ni_destination_id u))"
      by (auto simp: destination_of_def)
    then have "filter (destination_of provider (ni_destination_id u)) (db_destinations d) = [] \<or>
        (\<exists>dr. filter (destination_of provider (ni_destination_id u)) (db_destinations d) = [dr])"
      using wf filter_unique [of "\<lambda>r. (dr_provider r, dr_id r)" "db_destinations d" "(provider, ni_destination_id u)"]
      by (simp add: delivery_consistent_def)
    moreover have "filter (\<lambda>e. er_id e = ni_event_id u) (db_events d) = [] \<or>
        (\<exists>e. filter (\<lambda>e. er_id e = ni_event_id u) (db_events d) = [e])"
      "filter (\<lambda>i. ir_id i = ni_issue_id u) (db_issues d) = [] \<or>
        (\<exists>i. filter (\<lambda>i. ir_id i = ni_issue_id u) (db_issues d) = [i])"
      using wf by (auto simp: delivery_consistent_def intro!: filter_unique)
    ultimately show ?thesis unfolding g_def by (elim disjE exE) simp_all
  qed
  have sub: "subseq (map (\<lambda>row. ni_id (fst row)) (concat (map g us))) (map ni_id us)"
    by (rule subseq_joined) (use one in blast)
  then have "distinct (map (\<lambda>row. ni_id (fst row)) (concat (map g us)))"
    using us unfolding subseq_conv_nths by (auto intro: distinct_nthsI)
  moreover have "set (map (\<lambda>row. ni_id (fst row)) (concat (map g us))) \<subseteq> set (map ni_id us)"
    using sub unfolding subseq_conv_nths by (metis set_nths_subset)
  moreover have rows: "delivery_rows provider us d = rev (sort_key (\<lambda>(u, dr, e, i). ir_last_seen_at i) (rev (concat (map g us))))"
    unfolding delivery_rows_def g_def by simp
  moreover have "distinct (map f (rev (sort_key k (rev xs)))) = distinct (map f xs)"
    "set (rev (sort_key k (rev xs))) = set xs" for f :: "DeliveryRow \<Rightarrow> string" and k :: "DeliveryRow \<Rightarrow> int" and xs
    by (simp_all add: distinct_map)
  ultimately show ?thesis unfolding rows by simp
qed

lemma claimed_intent_row:
  assumes "\<And>r. ni_id (clear r) = ni_id r"
  shows "ni_id (claimed_intent clear now r) = ni_id r" "ni_status (claimed_intent clear now r) = ''delivering''"
    "ni_attempts (claimed_intent clear now r) = ni_attempts r + 1"
  using assms by (simp_all add: claimed_intent_def)

lemma claim_intents_ok:
  assumes run: "claim_intents provider clear now limit d = ok (rows, d')" and wf: "delivery_consistent d"
    and clear: "\<And>r. ni_id (clear r) = ni_id r"
  defines "ids \<equiv> map (\<lambda>row. ni_id (fst row)) rows"
  shows "claim_effect now ids (db_notification_intents d) (db_notification_intents d') \<and> delivery_consistent d' \<and>
    int (length rows) \<le> limit"
proof -
  let ?now = "timestamptz now" and ?rows = "db_notification_intents d"
  define due where "due = due_intents provider ?now limit d"
  have rows: "rows = delivery_rows provider (map (claimed_intent clear ?now) due) d" and limit: "0 \<le> limit"
    and d': "d' = d\<lparr>db_notification_intents :=
      update_rows (\<lambda>r. ni_id r \<in> set (map ni_id due)) (claimed_intent clear ?now) ?rows\<rparr>"
    using run by (auto simp: claim_intents_def Let_def rbind_eq_ok due_def)
  have dist: "distinct (map ni_id ?rows)" using wf by (simp add: delivery_consistent_def)
  have due_set: "set due \<subseteq> {r \<in> set ?rows. claimable provider ?now d r}"
    unfolding due_def due_intents_def using set_take_subset by fastforce
  have "distinct (map ni_id (sort_key ni_created_at (filter (claimable provider ?now d) ?rows)))"
    using distinct_map_filter [OF dist] unfolding distinct_map by simp
  then have due_dist: "distinct (map ni_id due)"
    unfolding due_def due_intents_def by (simp flip: take_map add: distinct_take)
  have claimed_ids: "map ni_id (map (claimed_intent clear ?now) due) = map ni_id due"
    using claimed_intent_row(1) [of clear, OF clear] by simp
  note joined = delivery_rows_ids [OF wf, of "map (claimed_intent clear ?now) due" provider, unfolded claimed_ids, OF due_dist]
  have ids_due: "set ids \<subseteq> set (map ni_id due)"
    using joined claimed_ids unfolding ids_def rows by (metis image_set list.set_map set_map)
  have row: "(claimed_intent clear ?now r = r \<and> ni_id r \<notin> set ids) \<or> row_claimed now r (claimed_intent clear ?now r)"
    if "r \<in> set ?rows" "ni_id r \<in> set (map ni_id due)" for r
  proof -
    from that obtain x where "x \<in> set due" "ni_id x = ni_id r" by auto
    with due_set dist that(1) have "x = r" by (auto simp: distinct_map dest: inj_onD)
    with \<open>x \<in> set due\<close> due_set have "claimable provider ?now d r" by auto
    then have "row_claimed now r (claimed_intent clear ?now r)"
      using claimed_intent_row [of clear, OF clear] by (auto simp: row_claimed_def open_status_def claimable_def)
    then show ?thesis ..
  qed
  have "list_all2 (\<lambda>r r'. (r' = r \<and> ni_id r \<notin> set ids) \<or> row_claimed now r r') ?rows (db_notification_intents d')"
    using row ids_due by (auto simp: d' update_rows_def list_all2_map2 intro!: list.rel_refl_strong)
  moreover have "set ids \<subseteq> ni_id ` set ?rows" using ids_due due_set by auto
  ultimately have "claim_effect now ids ?rows (db_notification_intents d')"
    using joined by (simp add: claim_effect_def ids_def rows)
  moreover have "delivery_consistent d'"
    unfolding d' by (rule delivery_consistent_intents [OF wf])
      (simp add: map_update_rows claimed_intent_row(1) [of clear, OF clear])
  moreover have "int (length rows) \<le> limit"
  proof -
    have "distinct ids" using joined by (simp add: ids_def rows)
    then have "length ids = card (set ids)" by (simp add: distinct_card)
    also have "\<dots> \<le> card (set (map ni_id due))" using ids_due by (simp add: card_mono)
    also have "\<dots> \<le> length due" by (metis card_length length_map)
    also have "\<dots> \<le> nat limit" by (simp add: due_def due_intents_def)
    finally show ?thesis using limit by (simp add: ids_def)
  qed
  ultimately show ?thesis by simp
qed

lemma uuid_param_NewIntentID:
  "uuid_param i \<Longrightarrow> \<exists>c. NewNotificationIntentID i = ok c \<and> NotificationIntentID_String c = i"
  by (auto simp: uuid_param_def NewNotificationIntentID_def NotificationIntentID_String_def split: sum.split_asm)

lemma new_delivery_intent:
  assumes "new_delivery dest row = ok delivery" and "uuid_param (ni_id (fst row))"
  shows "NotificationIntentID_String (dl_intentID delivery) = ni_id (fst row)"
proof -
  have "NewNotificationIntentID (ni_id (fst row)) = ok (dl_intentID delivery)"
    using assms(1) by (cases row) (auto simp: new_delivery_def rbind_eq_ok)
  with assms(2) show ?thesis
    by (metis uuid_param_NewIntentID Inr_inject)
qed

lemma claim_law_store:
  assumes run: "claim_deliveries provider clear scan now limit s = (r, t)" and s: "delivery_ready s"
    and clear: "\<And>r. ni_id (clear r) = ni_id r"
    and scan: "\<And>row delivery. scan row = ok delivery \<Longrightarrow> \<exists>dest. new_delivery dest row = ok delivery"
  shows "delivery_ready t \<and> ses_world t = ses_world s \<and>
    claim_effect now (case r of Inl e \<Rightarrow> [] | Inr ds \<Rightarrow> map (\<lambda>d. NotificationIntentID_String (dl_intentID d)) ds)
      (session_intents s) (session_intents t)"
proof -
  obtain x u where x: "pool_statement (claim_intents provider clear (UTC now) limit) s = (x, u)" by fastforce
  note ready = pool_ready [OF x] pool_statement_world [OF x]
  have none: "claim_effect now [] rows rows" for rows
    by (simp add: claim_effect_def list.rel_refl)
  show ?thesis
  proof (cases x)
    case (Inl e)
    with run x have "r = Inl e" "t = u" by (simp_all add: claim_deliveries_def abind_def)
    with ready s Inl none show ?thesis by simp
  next
    case (Inr rows)
    with run x have r: "r = collect scan rows" "t = u" by (simp_all add: claim_deliveries_def abind_def alift_def)
    have c: "claim_intents provider clear now limit (ses_db s) = ok (rows, ses_db t)"
      using ready s Inr r by (simp add: UTC_def)
    let ?ids = "map (\<lambda>row. ni_id (fst row)) rows"
    from claim_intents_ok [OF c _ clear] s
    have effect: "claim_effect now ?ids (session_intents s) (session_intents t)" "delivery_consistent (ses_db t)" by auto
    have ids: "case r of Inl e \<Rightarrow> True | Inr ds \<Rightarrow> map (\<lambda>d. NotificationIntentID_String (dl_intentID d)) ds = ?ids"
    proof (cases r)
      case (Inr ds)
      have "set ?ids \<subseteq> ni_id ` set (session_intents s)" using effect(1) by (simp add: claim_effect_def)
      moreover have "\<forall>i\<in>ni_id ` set (session_intents s). uuid_param i"
        using s by (simp add: delivery_consistent_def)
      ultimately have uuid: "uuid_param (ni_id (fst row))" if "row \<in> set rows" for row
        using that by auto
      have scanned: "list_all2 (\<lambda>row d. scan row = ok d) rows ds"
        using Inr r(1) collect_ok_iff [of scan rows ds] by simp
      have "list_all2 (\<lambda>row d. NotificationIntentID_String (dl_intentID d) = ni_id (fst row)) rows ds"
        unfolding list_all2_conv_all_nth
      proof (intro conjI allI impI)
        show "length rows = length ds" using scanned by (rule list_all2_lengthD)
        fix n assume n: "n < length rows"
        then obtain dest where "new_delivery dest (rows ! n) = ok (ds ! n)"
          using scan list_all2_nthD [OF scanned n] by blast
        with uuid n show "NotificationIntentID_String (dl_intentID (ds ! n)) = ni_id (fst (rows ! n))"
          by (intro new_delivery_intent) simp_all
      qed
      then have "map (\<lambda>d. NotificationIntentID_String (dl_intentID d)) ds = ?ids" by induction auto
      with Inr show ?thesis by simp
    qed simp
    have sub: "claim_effect now [] (session_intents s) (session_intents t)"
      using effect(1) by (auto simp: claim_effect_def elim!: list_all2_mono)
    have base: "delivery_ready t" "ses_world t = ses_world s" using ready s r(2) effect(2) Inr by simp_all
    show ?thesis
    proof (cases r)
      case (Inl e)
      with base sub show ?thesis by simp
    next
      case (Inr ds)
      then have "map (\<lambda>d. NotificationIntentID_String (dl_intentID d)) ds = ?ids" using ids by simp
      with base effect(1) Inr show ?thesis by simp
    qed
  qed
qed

lemma claim_limit_store:
  assumes run: "claim_deliveries provider clear scan now limit s = (Inr deliveries, t)" and s: "delivery_ready s"
    and clear: "\<And>r. ni_id (clear r) = ni_id r"
  shows "int (length deliveries) \<le> limit"
proof -
  obtain rows u where pool: "pool_statement (claim_intents provider clear (UTC now) limit) s = (Inr rows, u)"
    and rows: "collect scan rows = ok deliveries"
    using run unfolding claim_deliveries_def abind_ok alift_eq by metis
  from pool_ready [OF pool] s have "claim_intents provider clear now limit (ses_db s) = ok (rows, ses_db u)"
    by (simp add: UTC_def)
  from claim_intents_ok [OF this _ clear] s collect_length [OF rows] show ?thesis by simp
qed

text \<open>Every outbox of the store fulfils the contract.\<close>

lemma store_outbox:
  fixes md :: "NotificationIntentID \<Rightarrow> gotime \<Rightarrow> 'r \<Rightarrow> (NotificationIntentID list Session, unit) action"
  assumes "\<And>r. ni_id (clear r) = ni_id r"
    and "\<And>row delivery. scan row = ok delivery \<Longrightarrow> \<exists>dest. new_delivery dest row = ok delivery"
    and "\<And>i now receipt s u t. md i now receipt s = (u, t) \<Longrightarrow> delivery_ready s \<Longrightarrow> delivery_ready t \<and>
      ses_world t = ses_world s \<and>
      mark_effect (NotificationIntentID_String i) (session_intents s) (session_intents t)"
    and "\<And>i now failure s u t. mf i now failure s = (u, t) \<Longrightarrow> delivery_ready s \<Longrightarrow> delivery_ready t \<and>
      ses_world t = ses_world s \<and>
      session_intents t = session_intents s"
  shows "outbox \<lparr>box_Claim = claim_deliveries provider clear scan, box_MarkDelivered = md, box_MarkFailed = mf\<rparr>
    delivery_ready session_intents ses_world"
proof (unfold_locales, goal_cases)
  case (1 s now limit r t)
  then show ?case using claim_law_store [of provider clear scan now limit s r t] assms(1,2) by auto
next
  case (2 s now limit deliveries t)
  then show ?case using claim_limit_store [of provider clear scan now limit s deliveries t] assms(1) by auto
next
  case (3 s i now receipt u t)
  then show ?case using assms(3) by auto
next
  case (4 s i now failure u t)
  then show ?case using assms(4) by auto
qed

lemma clear_ids: "ni_id (clear_nothing r) = ni_id r" "ni_id (clear_message_id r) = ni_id r"
  "ni_id (clear_status_code r) = ni_id r"
  by (simp_all add: clear_nothing_def clear_message_id_def clear_status_code_def)

lemma scan_deliveries:
  "newTelegramDelivery row = ok td \<Longrightarrow> \<exists>dest. new_delivery dest row = ok td"
  "newEmailDelivery mail_ParseAddress row = ok ed \<Longrightarrow> \<exists>dest. new_delivery dest row = ok ed"
  "newWebhookDelivery url_Parse row = ok wd \<Longrightarrow> \<exists>dest. new_delivery dest row = ok wd"
  "newDiscordDelivery url_Parse row = ok wd \<Longrightarrow> \<exists>dest. new_delivery dest row = ok wd"
  "newGoogleChatDelivery url_Parse row = ok wd \<Longrightarrow> \<exists>dest. new_delivery dest row = ok wd"
  "newTeamsDelivery url_Parse row = ok wd \<Longrightarrow> \<exists>dest. new_delivery dest row = ok wd"
  "newNtfyDelivery url_Parse row = ok nd \<Longrightarrow> \<exists>dest. new_delivery dest row = ok nd"
  "newZulipDelivery url_Parse mail_ParseAddress row = ok zd \<Longrightarrow> \<exists>dest. new_delivery dest row = ok zd"
  by (auto simp: newTelegramDelivery_def newEmailDelivery_def newWebhookDelivery_def newDiscordDelivery_def
      newGoogleChatDelivery_def newTeamsDelivery_def newNtfyDelivery_def newZulipDelivery_def)

lemma marks_of_the_store:
  "MarkTelegramDelivered i now mr s = (u, t) \<Longrightarrow> delivery_ready s \<Longrightarrow> delivery_ready t \<and> ses_world t = ses_world s \<and>
     mark_effect (NotificationIntentID_String i) (session_intents s) (session_intents t)"
  "MarkEmailDelivered i now mr s = (u, t) \<Longrightarrow> delivery_ready s \<Longrightarrow> delivery_ready t \<and> ses_world t = ses_world s \<and>
     mark_effect (NotificationIntentID_String i) (session_intents s) (session_intents t)"
  "mark_status_delivered i now sr s = (u, t) \<Longrightarrow> delivery_ready s \<Longrightarrow> delivery_ready t \<and> ses_world t = ses_world s \<and>
     mark_effect (NotificationIntentID_String i) (session_intents s) (session_intents t)"
  "MarkTelegramFailed i now reason s = (u, t) \<Longrightarrow> delivery_ready s \<Longrightarrow> delivery_ready t \<and> ses_world t = ses_world s \<and>
     session_intents t = session_intents s"
  "MarkEmailFailed i now reason s = (u, t) \<Longrightarrow> delivery_ready s \<Longrightarrow> delivery_ready t \<and> ses_world t = ses_world s \<and>
     session_intents t = session_intents s"
  "mark_status_failed i now sr s = (u, t) \<Longrightarrow> delivery_ready s \<Longrightarrow> delivery_ready t \<and> ses_world t = ses_world s \<and>
     session_intents t = session_intents s"
  by (unfold MarkTelegramDelivered_def MarkEmailDelivered_def mark_status_delivered_def, (erule mark_law, assumption, simp)+)
    (unfold MarkTelegramFailed_def MarkEmailFailed_def mark_status_failed_def, (erule refused_law, assumption)+)

interpretation telegram: text_outbox TelegramOutbox_Store delivery_ready session_intents ses_world
  unfolding TelegramOutbox_Store_def ClaimTelegramDeliveries_def
  by (intro text_outbox.intro store_outbox clear_ids scan_deliveries marks_of_the_store)

interpretation webhook: status_outbox "WebhookOutbox_Store url_Parse" delivery_ready session_intents ses_world
  unfolding WebhookOutbox_Store_def ClaimWebhookDeliveries_def MarkWebhookDelivered_def MarkWebhookFailed_def
  by (intro status_outbox.intro store_outbox clear_ids scan_deliveries marks_of_the_store)

interpretation email: text_outbox "EmailOutbox_Store mail_ParseAddress" delivery_ready session_intents ses_world
  unfolding EmailOutbox_Store_def ClaimEmailDeliveries_def
  by (intro text_outbox.intro store_outbox clear_ids scan_deliveries marks_of_the_store)

interpretation discord: status_outbox "DiscordOutbox_Store url_Parse" delivery_ready session_intents ses_world
  unfolding DiscordOutbox_Store_def ClaimDiscordDeliveries_def MarkDiscordDelivered_def MarkDiscordFailed_def
  by (intro status_outbox.intro store_outbox clear_ids scan_deliveries marks_of_the_store)

interpretation google_chat: status_outbox "GoogleChatOutbox_Store url_Parse" delivery_ready session_intents ses_world
  unfolding GoogleChatOutbox_Store_def ClaimGoogleChatDeliveries_def MarkGoogleChatDelivered_def MarkGoogleChatFailed_def
  by (intro status_outbox.intro store_outbox clear_ids scan_deliveries marks_of_the_store)

interpretation ntfy: status_outbox "NtfyOutbox_Store url_Parse" delivery_ready session_intents ses_world
  unfolding NtfyOutbox_Store_def ClaimNtfyDeliveries_def MarkNtfyDelivered_def MarkNtfyFailed_def
  by (intro status_outbox.intro store_outbox clear_ids scan_deliveries marks_of_the_store)

interpretation teams: status_outbox "TeamsOutbox_Store url_Parse" delivery_ready session_intents ses_world
  unfolding TeamsOutbox_Store_def ClaimTeamsDeliveries_def MarkTeamsDelivered_def MarkTeamsFailed_def
  by (intro status_outbox.intro store_outbox clear_ids scan_deliveries marks_of_the_store)

interpretation zulip: status_outbox "ZulipOutbox_Store url_Parse mail_ParseAddress" delivery_ready session_intents ses_world
  unfolding ZulipOutbox_Store_def ClaimZulipDeliveries_def MarkZulipDelivered_def MarkZulipFailed_def
  by (intro status_outbox.intro store_outbox clear_ids scan_deliveries marks_of_the_store)

end
