(* ===== verification/DeliveryProperties.thy ===== *)
theory DeliveryProperties
  imports DeliveryEffects
begin

text \<open>
  The properties of the delivery of notifications, over histories of batches of all eight providers.
  The session records the intents whose messages were handed to a sender.
\<close>

type_synonym delivery_session = "NotificationIntentID list Session"

record Senders =
  snd_Telegram :: "(delivery_session, TelegramMessage, MessageReceipt) Sender"
  snd_Webhook :: "(delivery_session, WebhookMessage, StatusReceipt) Sender"
  snd_Email :: "(delivery_session, EmailMessage, MessageReceipt) Sender"
  snd_Discord :: "(delivery_session, DiscordMessage, StatusReceipt) Sender"
  snd_GoogleChat :: "(delivery_session, GoogleChatMessage, StatusReceipt) Sender"
  snd_Ntfy :: "(delivery_session, NtfyMessage, StatusReceipt) Sender"
  snd_Teams :: "(delivery_session, TeamsMessage, StatusReceipt) Sender"
  snd_Zulip :: "(delivery_session, ZulipMessage, StatusReceipt) Sender"

datatype Provider = Telegram | Webhook | Email | Discord | GoogleChat | Ntfy | Teams | Zulip

fun deliver :: "url_parser \<Rightarrow> address_parser \<Rightarrow> delivery_session Resolver \<Rightarrow> Senders \<Rightarrow> Provider \<Rightarrow> BatchCommand \<Rightarrow>
    (delivery_session, BatchReceipt) action" where
  "deliver url_Parse mail_ParseAddress resolver senders Telegram command =
     DeliverTelegramBatch command TelegramOutbox_Store (snd_Telegram senders)"
| "deliver url_Parse mail_ParseAddress resolver senders Webhook command =
     DeliverWebhookBatch command resolver (WebhookOutbox_Store url_Parse) (snd_Webhook senders)"
| "deliver url_Parse mail_ParseAddress resolver senders Email command =
     DeliverEmailBatch command (EmailOutbox_Store mail_ParseAddress) (snd_Email senders)"
| "deliver url_Parse mail_ParseAddress resolver senders Discord command =
     DeliverDiscordBatch command resolver (DiscordOutbox_Store url_Parse) (snd_Discord senders)"
| "deliver url_Parse mail_ParseAddress resolver senders GoogleChat command =
     DeliverGoogleChatBatch command resolver (GoogleChatOutbox_Store url_Parse) (snd_GoogleChat senders)"
| "deliver url_Parse mail_ParseAddress resolver senders Ntfy command =
     DeliverNtfyBatch command resolver (NtfyOutbox_Store url_Parse) (snd_Ntfy senders)"
| "deliver url_Parse mail_ParseAddress resolver senders Teams command =
     DeliverTeamsBatch command resolver (TeamsOutbox_Store url_Parse) (snd_Teams senders)"
| "deliver url_Parse mail_ParseAddress resolver senders Zulip command =
     DeliverZulipBatch command resolver (ZulipOutbox_Store url_Parse mail_ParseAddress) (snd_Zulip senders)"

text \<open>The network: a sender records its message and leaves the store alone, a lookup changes nothing.\<close>

definition recording :: "(delivery_session, ('d, 'b) Message, 'r) Sender \<Rightarrow> bool" where
  "recording sender \<longleftrightarrow> (\<forall>m. evolves (\<lambda>s t. session_ready s \<longrightarrow> session_ready t \<and> ses_db t = ses_db s \<and>
     ses_world t = ses_world s @ [msg_intentID m]) (sender m))"

definition network :: "delivery_session Resolver \<Rightarrow> Senders \<Rightarrow> bool" where
  "network resolver senders \<longleftrightarrow>
     recording (snd_Telegram senders) \<and> recording (snd_Webhook senders) \<and> recording (snd_Email senders) \<and>
     recording (snd_Discord senders) \<and> recording (snd_GoogleChat senders) \<and> recording (snd_Ntfy senders) \<and>
     recording (snd_Teams senders) \<and> recording (snd_Zulip senders) \<and>
     (\<forall>LookupHost host. resolver = Some LookupHost \<longrightarrow> evolves (\<lambda>s t. session_ready s \<longrightarrow>
        session_ready t \<and> ses_db t = ses_db s \<and> ses_world t = ses_world s) (LookupHost host))"

lemma recording_sending:
  assumes "recording sender"
  shows "evolves (\<lambda>s t. delivery_ready s \<longrightarrow> delivery_ready t \<and> session_intents t = session_intents s \<and>
    ses_world t = ses_world s @ [msg_intentID m]) (sender m)"
  using assms by (auto simp: recording_def evolves_def)

text \<open>Every batch is a batch of the contract.\<close>

lemma network_sending:
  assumes "network resolver senders"
  shows "telegram.sending (snd_Telegram senders)" "webhook.sending (snd_Webhook senders)"
    "email.sending (snd_Email senders)" "discord.sending (snd_Discord senders)"
    "google_chat.sending (snd_GoogleChat senders)" "ntfy.sending (snd_Ntfy senders)"
    "teams.sending (snd_Teams senders)" "zulip.sending (snd_Zulip senders)"
  using assms unfolding network_def telegram.sending_def webhook.sending_def email.sending_def discord.sending_def
    google_chat.sending_def ntfy.sending_def teams.sending_def zulip.sending_def
  by (intro allI recording_sending; simp)+

lemma network_resolver:
  assumes "network resolver senders"
  shows "webhook.quiet_resolver resolver" "discord.quiet_resolver resolver" "google_chat.quiet_resolver resolver"
    "ntfy.quiet_resolver resolver" "teams.quiet_resolver resolver" "zulip.quiet_resolver resolver"
proof -
  have "evolves (\<lambda>s t. delivery_ready s \<longrightarrow> delivery_ready t \<and> session_intents t = session_intents s \<and>
      ses_world t = ses_world s) (LookupHost host)" if "resolver = Some LookupHost" for LookupHost host
    using assms that by (auto simp: network_def evolves_def)
  then show "webhook.quiet_resolver resolver" "discord.quiet_resolver resolver" "google_chat.quiet_resolver resolver"
    "ntfy.quiet_resolver resolver" "teams.quiet_resolver resolver" "zulip.quiet_resolver resolver"
    by (auto simp: webhook.quiet_resolver_def webhook.quiet_call_def discord.quiet_resolver_def discord.quiet_call_def
        google_chat.quiet_resolver_def google_chat.quiet_call_def ntfy.quiet_resolver_def ntfy.quiet_call_def
        teams.quiet_resolver_def teams.quiet_call_def zulip.quiet_resolver_def zulip.quiet_call_def split: option.split)
qed

lemma message_intents:
  "telegramMessage td url = ok tm \<Longrightarrow> msg_intentID tm = dl_intentID td"
  "webhookMessage wd url = ok wm \<Longrightarrow> msg_intentID wm = dl_intentID wd"
  "emailMessage ed url = ok em \<Longrightarrow> msg_intentID em = dl_intentID ed"
  "discordMessage wd url = ok wm \<Longrightarrow> msg_intentID wm = dl_intentID wd"
  "googleChatMessage wd url = ok wm \<Longrightarrow> msg_intentID wm = dl_intentID wd"
  "ntfyMessage nd url = ok nm \<Longrightarrow> msg_intentID nm = dl_intentID nd"
  "teamsMessage wd url = ok wm \<Longrightarrow> msg_intentID wm = dl_intentID wd"
  "zulipMessage zd url = ok zm \<Longrightarrow> msg_intentID zm = dl_intentID zd"
  unfolding telegramMessage_def webhookMessage_def emailMessage_def discordMessage_def googleChatMessage_def
    ntfyMessage_def teamsMessage_def zulipMessage_def
  by (erule opened_message_intent)+

lemma deliver_steps:
  assumes "network resolver senders"
  shows "telegram.step_ok (bc_now command) (\<lambda>d. deliverTelegramDelivery command d TelegramOutbox_Store (snd_Telegram senders))"
    "webhook.step_ok (bc_now command) (\<lambda>d. deliverWebhookDelivery command resolver d (WebhookOutbox_Store url_Parse) (snd_Webhook senders))"
    "email.step_ok (bc_now command) (\<lambda>d. deliverEmailDelivery command d (EmailOutbox_Store mail_ParseAddress) (snd_Email senders))"
    "discord.step_ok (bc_now command) (\<lambda>d. deliverDiscordDelivery command resolver d (DiscordOutbox_Store url_Parse) (snd_Discord senders))"
    "google_chat.step_ok (bc_now command) (\<lambda>d. deliverGoogleChatDelivery command resolver d (GoogleChatOutbox_Store url_Parse) (snd_GoogleChat senders))"
    "ntfy.step_ok (bc_now command) (\<lambda>d. deliverNtfyDelivery command resolver d (NtfyOutbox_Store url_Parse) (snd_Ntfy senders))"
    "teams.step_ok (bc_now command) (\<lambda>d. deliverTeamsDelivery command resolver d (TeamsOutbox_Store url_Parse) (snd_Teams senders))"
    "zulip.step_ok (bc_now command) (\<lambda>d. deliverZulipDelivery command resolver d (ZulipOutbox_Store url_Parse mail_ParseAddress) (snd_Zulip senders))"
  unfolding deliverTelegramDelivery_def deliverWebhookDelivery_def deliverEmailDelivery_def deliverDiscordDelivery_def
    deliverGoogleChatDelivery_def deliverNtfyDelivery_def deliverTeamsDelivery_def deliverZulipDelivery_def
  by (intro telegram.deliver_text_step webhook.deliver_payload_step email.deliver_text_step discord.deliver_payload_step
      google_chat.deliver_payload_step ntfy.deliver_payload_step teams.deliver_payload_step zulip.deliver_payload_step
      network_sending [OF assms] network_resolver [OF assms]; erule message_intents)+

lemmas batch_defs = DeliverTelegramBatch_def DeliverWebhookBatch_def DeliverEmailBatch_def DeliverDiscordBatch_def
  DeliverGoogleChatBatch_def DeliverNtfyBatch_def DeliverTeamsBatch_def DeliverZulipBatch_def

definition deliver_effect :: "gotime \<Rightarrow> delivery_session \<Rightarrow> delivery_session \<Rightarrow> bool" where
  "deliver_effect now s t \<longleftrightarrow> delivery_ready t \<and>
     (\<exists>ids. ses_world t = ses_world s @ ids \<and> distinct (map NotificationIntentID_String ids) \<and>
       (\<forall>i\<in>set ids. \<exists>x\<in>set (session_intents s). ni_id x = NotificationIntentID_String i \<and> open_status x \<and>
          ni_next_attempt_at x \<le> timestamptz now) \<and>
       list_all2 (batch_outcome now (NotificationIntentID_String ` set ids)) (session_intents s) (session_intents t))"

lemma deliver_has_effect:
  assumes "network resolver senders" and "delivery_ready s"
    and "deliver url_Parse mail_ParseAddress resolver senders provider command s = (r, t)"
  shows "deliver_effect (bc_now command) s t"
  using assms(3) deliver_steps [OF assms(1), of command]
  unfolding deliver_effect_def telegram.batch_effect_def [symmetric]
  by (cases provider; simp only: deliver.simps batch_defs)
    (rule telegram.deliver_batch_effect webhook.deliver_batch_effect email.deliver_batch_effect
      discord.deliver_batch_effect google_chat.deliver_batch_effect ntfy.deliver_batch_effect
      teams.deliver_batch_effect zulip.deliver_batch_effect; (assumption | rule assms(2)))+

lemma deliver_counts:
  assumes "network resolver senders" and "delivery_ready s"
    and "deliver url_Parse mail_ParseAddress resolver senders provider command s = (Inr rc, t)"
  shows "br_delivered rc + br_failed rc = br_claimed rc \<and> br_claimed rc \<le> bc_limit command"
  using assms(3) deliver_steps [OF assms(1), of command]
  by (cases provider; simp only: deliver.simps batch_defs)
    (rule telegram.deliver_batch_counts webhook.deliver_batch_counts email.deliver_batch_counts
      discord.deliver_batch_counts google_chat.deliver_batch_counts ntfy.deliver_batch_counts
      teams.deliver_batch_counts zulip.deliver_batch_counts; (assumption | rule assms(2)))+

subsection \<open>Histories of batches\<close>

fun run_batches :: "url_parser \<Rightarrow> address_parser \<Rightarrow> delivery_session Resolver \<Rightarrow> Senders \<Rightarrow>
    (Provider \<times> BatchCommand) list \<Rightarrow> delivery_session \<Rightarrow> delivery_session" where
  "run_batches url_Parse mail_ParseAddress resolver senders [] s = s"
| "run_batches url_Parse mail_ParseAddress resolver senders ((provider, command) # batches) s =
     run_batches url_Parse mail_ParseAddress resolver senders batches
       (snd (deliver url_Parse mail_ParseAddress resolver senders provider command s))"

lemma run_batches_ready:
  assumes "network resolver senders" and "delivery_ready s"
  shows "delivery_ready (run_batches url_Parse mail_ParseAddress resolver senders batches s)"
  using assms(2)
proof (induction batches arbitrary: s)
  case (Cons b batches)
  obtain p c where "b = (p, c)" by fastforce
  have "delivery_ready (snd (deliver url_Parse mail_ParseAddress resolver senders p c s))"
    using deliver_has_effect [OF assms(1) Cons.prems surjective_pairing] by (simp add: deliver_effect_def)
  with Cons.IH \<open>b = (p, c)\<close> show ?case by simp
qed simp

text \<open>The number of messages of an intent that were handed over.\<close>

definition messages_for :: "string \<Rightarrow> delivery_session \<Rightarrow> nat" where
  "messages_for i s = count_list (map NotificationIntentID_String (ses_world s)) i"

lemma count_list_distinct: "distinct xs \<Longrightarrow> count_list xs x = (if x \<in> set xs then 1 else 0)"
  by (induction xs) auto

definition row_lived :: "nat \<Rightarrow> delivery_session \<Rightarrow> delivery_session \<Rightarrow> bool" where
  "row_lived n s t \<longleftrightarrow> (let r = session_intents s ! n; r' = session_intents t ! n in
     length (session_intents t) = length (session_intents s) \<and> ni_id r' = ni_id r \<and>
     messages_for (ni_id r) s \<le> messages_for (ni_id r) t \<and>
     int (messages_for (ni_id r) t) - int (messages_for (ni_id r) s) \<le> ni_attempts r' - ni_attempts r \<and>
     (ni_status r' = ''delivered'' \<longrightarrow> ni_status r = ''delivered'' \<or>
        messages_for (ni_id r) s < messages_for (ni_id r) t))"

definition row_kept :: "nat \<Rightarrow> delivery_session \<Rightarrow> delivery_session \<Rightarrow> bool" where
  "row_kept n s t \<longleftrightarrow> session_intents t ! n = session_intents s ! n \<and>
     messages_for (ni_id (session_intents s ! n)) t = messages_for (ni_id (session_intents s ! n)) s"

lemma row_lived_trans: "row_lived n s u \<Longrightarrow> row_lived n u t \<Longrightarrow> row_lived n s t"
  by (fastforce simp: row_lived_def Let_def)

lemma row_kept_trans: "row_kept n s u \<Longrightarrow> row_kept n u t \<Longrightarrow> row_kept n s t"
  by (simp add: row_kept_def)

definition row_due :: "gotime \<Rightarrow> IntentRow \<Rightarrow> bool" where
  "row_due now r \<longleftrightarrow> open_status r \<and> ni_next_attempt_at r \<le> timestamptz now"

lemma deliver_effect_row:
  assumes "deliver_effect now s t" and "n < length (session_intents s)"
  defines "r \<equiv> session_intents s ! n" and "r' \<equiv> session_intents t ! n"
  shows "batch_row now r r'" and "row_lived n s t"
    and "delivery_ready s \<Longrightarrow> \<not> row_due now r \<Longrightarrow> row_kept n s t"
proof -
  from assms(1) obtain ids where ids: "ses_world t = ses_world s @ ids" "distinct (map NotificationIntentID_String ids)"
    and handed: "\<forall>i\<in>set ids. \<exists>x\<in>set (session_intents s). ni_id x = NotificationIntentID_String i \<and> open_status x \<and>
      ni_next_attempt_at x \<le> timestamptz now"
    and rows: "list_all2 (batch_outcome now (NotificationIntentID_String ` set ids)) (session_intents s) (session_intents t)"
    unfolding deliver_effect_def by blast
  have count: "messages_for (ni_id r) t =
      messages_for (ni_id r) s + (if ni_id r \<in> NotificationIntentID_String ` set ids then 1 else 0)"
    using count_list_distinct [OF ids(2), of "ni_id r"] by (simp add: messages_for_def ids(1))
  from rows assms(2) have row: "batch_outcome now (NotificationIntentID_String ` set ids) r r'"
    unfolding r_def r'_def by (simp add: list_all2_nthD)
  then show "batch_row now r r'" by (simp add: batch_outcome_def)
  from row count list_all2_lengthD [OF rows] show "row_lived n s t"
    by (auto simp: row_lived_def Let_def batch_outcome_def batch_row_def simp flip: r_def r'_def)
  assume s: "delivery_ready s" and not_due: "\<not> row_due now r"
  have "ni_id r \<notin> NotificationIntentID_String ` set ids"
  proof
    assume "ni_id r \<in> NotificationIntentID_String ` set ids"
    then obtain x where x: "x \<in> set (session_intents s)" "ni_id x = ni_id r" "row_due now x"
      using handed by (fastforce simp: row_due_def)
    have "distinct (map ni_id (session_intents s))" using s by (simp add: delivery_consistent_def)
    with x(1,2) assms(2) have "x = r" unfolding r_def by (auto simp: distinct_map dest: inj_onD)
    with x not_due show False by simp
  qed
  with row count not_due show "row_kept n s t"
    by (auto simp: row_kept_def batch_outcome_def batch_row_def row_due_def simp flip: r_def r'_def)
qed

lemma run_batches_row:
  assumes "network resolver senders" and "delivery_ready s" and "n < length (session_intents s)"
    and "t = run_batches url_Parse mail_ParseAddress resolver senders batches s"
  shows "row_lived n s t"
    and "\<forall>(p, c)\<in>set batches. \<not> row_due (bc_now c) (session_intents s ! n) \<Longrightarrow> row_kept n s t"
proof -
  have "row_lived n s t \<and>
    ((\<forall>(p, c)\<in>set batches. \<not> row_due (bc_now c) (session_intents s ! n)) \<longrightarrow> row_kept n s t)"
    using assms(2-4)
  proof (induction batches arbitrary: s)
    case Nil
    then show ?case by (simp add: row_lived_def row_kept_def)
  next
    case (Cons b batches)
    obtain p c where b: "b = (p, c)" by fastforce
    define u where "u = snd (deliver url_Parse mail_ParseAddress resolver senders p c s)"
    have eff: "deliver_effect (bc_now c) s u"
      using deliver_has_effect [OF assms(1) Cons.prems(1)] unfolding u_def by (metis surjective_pairing)
    note one = deliver_effect_row [OF eff Cons.prems(2)]
    have "length (session_intents u) = length (session_intents s)"
      using one(2) by (simp add: row_lived_def Let_def)
    moreover have "delivery_ready u" using eff by (simp add: deliver_effect_def)
    ultimately have rest: "row_lived n u t \<and>
        ((\<forall>(p, c)\<in>set batches. \<not> row_due (bc_now c) (session_intents u ! n)) \<longrightarrow> row_kept n u t)"
      using Cons.prems(2,3) by (intro Cons.IH) (simp_all add: b u_def)
    show ?case
    proof (intro conjI impI)
      show "row_lived n s t" using one(2) rest by (blast intro: row_lived_trans)
    next
      assume idle: "\<forall>(p, c)\<in>set (b # batches). \<not> row_due (bc_now c) (session_intents s ! n)"
      with one(3) Cons.prems(1) have "row_kept n s u" by (simp add: b)
      moreover from this have "session_intents u ! n = session_intents s ! n" by (simp add: row_kept_def)
      ultimately show "row_kept n s t" using rest idle by (auto intro: row_kept_trans)
    qed
  qed
  then show "row_lived n s t"
    and "\<forall>(p, c)\<in>set batches. \<not> row_due (bc_now c) (session_intents s ! n) \<Longrightarrow> row_kept n s t" by simp_all
qed

text \<open>The life of an intent: its status and its attempts.\<close>

inductive life_step :: "string \<times> int \<Rightarrow> string \<times> int \<Rightarrow> bool" where
  stranded: "status = ''pending'' \<or> status = ''failed'' \<Longrightarrow> life_step (status, n) (''delivering'', n + 1)"
| delivered: "status = ''pending'' \<or> status = ''failed'' \<Longrightarrow> life_step (status, n) (''delivered'', n + 1)"

inductive_simps life_step_from: "life_step (status, n) x"

definition life_of :: "IntentRow \<Rightarrow> string \<times> int" where
  "life_of r = (ni_status r, ni_attempts r)"

lemma batch_row_life: "batch_row now r r' \<Longrightarrow> r' = r \<or> life_step (life_of r) (life_of r')"
  by (auto simp: batch_row_def open_status_def life_of_def life_step_from)

text \<open>No step leads back to where a step begins.\<close>

lemma life_step_once: "(life_step ^^ k) x y \<Longrightarrow> k \<le> 1"
proof (rule ccontr)
  assume run: "(life_step ^^ k) x y" and "\<not> k \<le> 1"
  then have "k = Suc (Suc (k - 2))" by simp
  with run obtain u v where "life_step x u" "life_step u v" by (metis relpowp_Suc_D2)
  then show False by (auto elim!: life_step.cases)
qed

lemma run_batches_life:
  assumes "network resolver senders" and "delivery_ready s" and "n < length (session_intents s)"
    and "t = run_batches url_Parse mail_ParseAddress resolver senders batches s"
  shows "\<exists>k\<le>length batches. (life_step ^^ k) (life_of (session_intents s ! n)) (life_of (session_intents t ! n))"
  using assms(2-4)
proof (induction batches arbitrary: s)
  case Nil
  then show ?case by simp
next
  case (Cons b batches)
  obtain p c where b: "b = (p, c)" by fastforce
  define u where "u = snd (deliver url_Parse mail_ParseAddress resolver senders p c s)"
  have eff: "deliver_effect (bc_now c) s u"
    using deliver_has_effect [OF assms(1) Cons.prems(1)] unfolding u_def by (metis surjective_pairing)
  note one = deliver_effect_row [OF eff Cons.prems(2)]
  have "length (session_intents u) = length (session_intents s)"
    using one(2) by (simp add: row_lived_def Let_def)
  moreover have "delivery_ready u" using eff by (simp add: deliver_effect_def)
  ultimately have "\<exists>k\<le>length batches. (life_step ^^ k) (life_of (session_intents u ! n)) (life_of (session_intents t ! n))"
    using Cons.prems(2,3) by (intro Cons.IH) (simp_all add: b u_def)
  then obtain k where k: "k \<le> length batches"
    "(life_step ^^ k) (life_of (session_intents u ! n)) (life_of (session_intents t ! n))" by blast
  from batch_row_life [OF one(1)] show ?case
  proof
    assume "session_intents u ! n = session_intents s ! n"
    with k show ?thesis by (auto intro: exI [of _ k])
  next
    assume "life_step (life_of (session_intents s ! n)) (life_of (session_intents u ! n))"
    from relpowp_Suc_I2 [OF this k(2)] k(1) show ?thesis by (intro exI [of _ "Suc k"]) simp
  qed
qed

text \<open>Senders that refuse every message.\<close>

definition outage :: "Senders \<Rightarrow> bool" where
  "outage senders \<longleftrightarrow> refuses_text (snd_Telegram senders) \<and> refuses_text (snd_Email senders) \<and>
     refuses_status (snd_Webhook senders) \<and> refuses_status (snd_Discord senders) \<and>
     refuses_status (snd_GoogleChat senders) \<and> refuses_status (snd_Ntfy senders) \<and>
     refuses_status (snd_Teams senders) \<and> refuses_status (snd_Zulip senders)"

lemma outage_steps:
  assumes "network resolver senders" and "outage senders"
  shows "telegram.step_failed (\<lambda>d. deliverTelegramDelivery command d TelegramOutbox_Store (snd_Telegram senders))"
    "webhook.step_failed (\<lambda>d. deliverWebhookDelivery command resolver d (WebhookOutbox_Store url_Parse) (snd_Webhook senders))"
    "email.step_failed (\<lambda>d. deliverEmailDelivery command d (EmailOutbox_Store mail_ParseAddress) (snd_Email senders))"
    "discord.step_failed (\<lambda>d. deliverDiscordDelivery command resolver d (DiscordOutbox_Store url_Parse) (snd_Discord senders))"
    "google_chat.step_failed (\<lambda>d. deliverGoogleChatDelivery command resolver d (GoogleChatOutbox_Store url_Parse) (snd_GoogleChat senders))"
    "ntfy.step_failed (\<lambda>d. deliverNtfyDelivery command resolver d (NtfyOutbox_Store url_Parse) (snd_Ntfy senders))"
    "teams.step_failed (\<lambda>d. deliverTeamsDelivery command resolver d (TeamsOutbox_Store url_Parse) (snd_Teams senders))"
    "zulip.step_failed (\<lambda>d. deliverZulipDelivery command resolver d (ZulipOutbox_Store url_Parse mail_ParseAddress) (snd_Zulip senders))"
  using assms(2) unfolding outage_def deliverTelegramDelivery_def deliverWebhookDelivery_def deliverEmailDelivery_def
    deliverDiscordDelivery_def deliverGoogleChatDelivery_def deliverNtfyDelivery_def deliverTeamsDelivery_def deliverZulipDelivery_def
  by (intro telegram.deliver_text_failed webhook.deliver_payload_failed email.deliver_text_failed discord.deliver_payload_failed
      google_chat.deliver_payload_failed ntfy.deliver_payload_failed teams.deliver_payload_failed zulip.deliver_payload_failed
      network_sending [OF assms(1)] network_resolver [OF assms(1)]; blast)+

lemma deliver_outage_rows:
  assumes "network resolver senders" and "outage senders" and "delivery_ready s"
    and "deliver url_Parse mail_ParseAddress resolver senders provider command s = (x, u)"
  shows "list_all2 (\<lambda>r r'. r' = r \<or> row_claimed (bc_now command) r r') (session_intents s) (session_intents u)"
  using assms(4) outage_steps [OF assms(1,2), of command]
  by (cases provider; simp only: deliver.simps batch_defs)
    (rule telegram.deliver_batch_failed(1) webhook.deliver_batch_failed(1) email.deliver_batch_failed(1)
      discord.deliver_batch_failed(1) google_chat.deliver_batch_failed(1) ntfy.deliver_batch_failed(1)
      teams.deliver_batch_failed(1) zulip.deliver_batch_failed(1); (assumption | rule assms(3)))+

lemma deliver_outage_counts:
  assumes "network resolver senders" and "outage senders" and "delivery_ready s"
    and "deliver url_Parse mail_ParseAddress resolver senders provider command s = (Inr receipt, u)"
  shows "br_delivered receipt = 0"
  using assms(4) outage_steps [OF assms(1,2), of command]
  by (cases provider; simp only: deliver.simps batch_defs)
    (rule telegram.deliver_batch_failed(2) webhook.deliver_batch_failed(2) email.deliver_batch_failed(2)
      discord.deliver_batch_failed(2) google_chat.deliver_batch_failed(2) ntfy.deliver_batch_failed(2)
      teams.deliver_batch_failed(2) zulip.deliver_batch_failed(2); (assumption | rule assms(3) refl))+

text \<open>A batch that fails as a whole failed before anything was sent.\<close>

lemma deliver_error:
  assumes "network resolver senders" and "delivery_ready s"
    and "deliver url_Parse mail_ParseAddress resolver senders provider command s = (Inl e, t)"
  shows "ses_world t = ses_world s"
  using assms(3) telegram.deliver_batch_error [OF assms(2)] webhook.deliver_batch_error [OF assms(2)]
    email.deliver_batch_error [OF assms(2)] discord.deliver_batch_error [OF assms(2)]
    google_chat.deliver_batch_error [OF assms(2)] ntfy.deliver_batch_error [OF assms(2)]
    teams.deliver_batch_error [OF assms(2)] zulip.deliver_batch_error [OF assms(2)]
  by (cases provider) (simp_all add: batch_defs)

subsection \<open>A store with one intent\<close>

definition example_issue :: IssueRow where
  "example_issue = \<lparr>ir_id = dashedUUID (replicate 32 CHR ''d''), ir_organization_id = dashedUUID (replicate 32 CHR ''a''),
     ir_project_id = dashedUUID (replicate 32 CHR ''b''), ir_short_id = 1, ir_type = ''error'',
     ir_status = ''unresolved'', ir_title = ''boom'', ir_first_seen_at = 5000, ir_last_seen_at = 5000,
     ir_event_count = 1, ir_last_event_id = dashedUUID (replicate 32 CHR ''c''), ir_release = None,
     ir_environment = None, ir_created_at = 5000, ir_assignee_operator_id = None, ir_assignee_team_id = None\<rparr>"

definition example_chat :: DestinationRow where
  "example_chat = \<lparr>dr_provider = ''telegram'', dr_id = dashedUUID (replicate 32 CHR ''e''),
     dr_organization_id = dashedUUID (replicate 32 CHR ''a''), dr_project_id = dashedUUID (replicate 32 CHR ''b''),
     dr_label = ''ops'', dr_address = ''4711'', dr_topic = [], dr_bot_email = [], dr_api_key = [], dr_stream = [],
     dr_enabled = True, dr_created_at = 0\<rparr>"

definition example_intent :: IntentRow where
  "example_intent = \<lparr>ni_id = dashedUUID (replicate 32 CHR ''a''),
     ni_organization_id = dashedUUID (replicate 32 CHR ''a''), ni_project_id = dashedUUID (replicate 32 CHR ''b''),
     ni_issue_id = dashedUUID (replicate 32 CHR ''d''), ni_event_id = dashedUUID (replicate 32 CHR ''c''),
     ni_provider = ''telegram'', ni_destination_id = dashedUUID (replicate 32 CHR ''e''), ni_status = ''pending'',
     ni_dedupe_key = ''issue'', ni_attempts = 0, ni_next_attempt_at = 0, ni_locked_until = None,
     ni_provider_message_id = None, ni_provider_status_code = None, ni_last_error = None,
     ni_created_at = 0, ni_delivered_at = None\<rparr>"

definition example_event_row :: EventRow where
  "example_event_row = \<lparr>er_id = dashedUUID (replicate 32 CHR ''c''), er_organization_id = dashedUUID (replicate 32 CHR ''a''),
     er_project_id = dashedUUID (replicate 32 CHR ''b''), er_event_id = dashedUUID (replicate 32 CHR ''c''),
     er_kind = ''error'', er_level = ''error'', er_title = ''boom'', er_platform = ''go'', er_occurred_at = 5000,
     er_received_at = 6000, er_release = None, er_environment = None, er_transaction_name = None,
     er_fingerprint = ''f'', er_canonical_payload = JArray []\<rparr>"

definition example_delivery_db :: DB where
  "example_delivery_db = example_db\<lparr>db_events := [example_event_row], db_issues := [example_issue],
     db_destinations := [example_chat], db_notification_intents := [example_intent]\<rparr>"

definition example_delivery_session :: delivery_session where
  "example_delivery_session = \<lparr>ses_env = example_env {}, ses_tick = 0, ses_db = example_delivery_db,
     ses_base = example_delivery_db, ses_aborted = False, ses_world = []\<rparr>"

text \<open>Senders that record their message and answer \<open>r\<close>.\<close>

definition answering :: "'r result \<Rightarrow> (delivery_session, ('d, 'b) Message, 'r) Sender" where
  "answering r m s = (r, s\<lparr>ses_world := ses_world s @ [msg_intentID m]\<rparr>)"

definition example_senders :: "MessageReceipt result \<Rightarrow> StatusReceipt result \<Rightarrow> Senders" where
  "example_senders r q = \<lparr>snd_Telegram = answering r, snd_Webhook = answering q, snd_Email = answering r,
     snd_Discord = answering q, snd_GoogleChat = answering q, snd_Ntfy = answering q, snd_Teams = answering q,
     snd_Zulip = answering q\<rparr>"

definition example_batch :: "gotime \<Rightarrow> BatchCommand" where
  "example_batch now = \<lparr>bc_now = now, bc_limit = 10, bc_publicURL = ''https://go.example''\<rparr>"

lemma recording_answering: "recording (answering r)"
  by (simp add: recording_def evolves_def answering_def session_ready_def idle_def)

lemma example_network: "network None (example_senders r q)"
  by (simp add: network_def example_senders_def recording_answering)

lemma example_delivery_fields:
  "ses_env example_delivery_session = example_env {}" "ses_tick example_delivery_session = 0" 
  "ses_aborted example_delivery_session = False" "ses_world example_delivery_session = []"
  "ses_db example_delivery_session = example_delivery_db" "ses_base example_delivery_session = example_delivery_db"
  by (simp_all add: example_delivery_session_def)


lemma example_strings: "RuneCountInString ''4711'' = 4" "\<not> ContainsAny ''4711'' (control_space @ '' '')" "ToLower ''error'' = ''error''"
  by (code_simp)+

lemma example_notification_event:
  "newNotificationEvent example_event_row = ok (example_event\<lparr>ev_release := []\<rparr>)"
  by (simp add: newNotificationEvent_def example_event_row_def NewOrganizationID_def NewProjectID_def NewEventID_def normalizeUUID_dashedUUID example_hexes
   NewEventLevel_def NewEventTitle_def NewTimePoint_ok TrimSpace_id graph_ascii_def example_strings EventLevel_valid_def NewCanonicalEvent_def Let_def event_level_defs event_kind_defs EventKind_valid_def NewTimePoint_def UTC_def normalizeParts_filter normalizeTags_def canonicalTransaction_def zero_transaction_def normalizeDimension_def example_event_def)

definition example_delivery :: TelegramDelivery where
  "example_delivery = \<lparr>dl_intentID = NotificationIntentID (replicate 32 CHR ''a''), dl_destination = TelegramChatID ''4711'',
     dl_event = example_event\<lparr>ev_release := []\<rparr>, dl_issueID = IssueID (replicate 32 CHR ''d''), dl_issueShortID = 1\<rparr>"

lemma example_scan:
  "ni_id r = dashedUUID (replicate 32 CHR ''a'') \<Longrightarrow>
   newTelegramDelivery (r, example_chat, example_event_row, example_issue) = ok example_delivery"
  using example_strings
  by (simp add: newTelegramDelivery_def new_delivery_def row_destination_def example_chat_def NewTelegramChatID_def
    example_notification_event example_issue_def example_delivery_def NewIssueID_def NewNotificationIntentID_def normalizeUUID_dashedUUID
    example_hexes example_hex_de TrimSpace_id graph_ascii_def)

lemma example_issue_opened:
  "NewIssueOpened (dl_event example_delivery) (dl_issueID example_delivery) (dl_issueShortID example_delivery) =
     ok \<lparr>io_event = example_event\<lparr>ev_release := []\<rparr>, io_issueID = IssueID (replicate 32 CHR ''d''), io_issueShortID = 1\<rparr>"
  by (simp add: NewIssueOpened_def example_delivery_def CanonicalEvent_CreatesIssue_def EventKind_CreatesIssue_def
      event_kind_defs example_event_fields IssueID_String_def dashedUUID_Nil_iff)

text \<open>The text of the message is short enough.\<close>

lemma RuneCount_le_length: "RuneCountInString s \<le> length s"
  unfolding RuneCountInString_def
proof (induction s rule: rune_steps.induct)
  case (1 s)
  show ?case
  proof (cases "s = []")
    case False
    with 1 have "length (rune_steps (drop (snd (decode_rune s)) s)) \<le> length s - snd (decode_rune s)" by simp
    also have "\<dots> < length s" using decode_rune_width [OF False] False by simp
    finally show ?thesis using False by (subst rune_steps.simps) simp
  qed simp
qed

lemma NewNotificationText_ok:
  "33 \<le> byte (hd s) \<and> byte (hd s) < 127 \<and> 33 \<le> byte (last s) \<and> byte (last s) < 127 \<Longrightarrow> s \<noteq> [] \<Longrightarrow> length s \<le> 4096 \<Longrightarrow>
   is_ok (NewNotificationText s)"
  using RuneCount_le_length [of s] by (simp add: NewNotificationText_def TrimSpace_id Let_def)

lemma example_message_ok: "is_ok (telegramMessage example_delivery ''https://go.example'')"
proof -
  have hex: "dashedUUID (replicate 32 CHR ''d'') = ''dddddddd-dddd-dddd-dddd-dddddddddddd''"
    "dashedUUID (replicate 32 CHR ''c'') = ''cccccccc-cccc-cccc-cccc-cccccccccccc''"
    by (simp_all add: dashedUUID_def slice_def numeral_eq_Suc)
  have url: "base_url ''https://go.example'' = ''https://go.example''" "itoa 1 = ''1''" 
    by (simp add: base_url_def TrimSpace_id, code_simp) code_simp
  have "is_ok (TelegramIssueOpenedText \<lparr>io_event = example_event\<lparr>ev_release := []\<rparr>,
      io_issueID = IssueID (replicate 32 CHR ''d''), io_issueShortID = 1\<rparr> ''https://go.example'')"
    unfolding TelegramIssueOpenedText_def Let_def
    by (simp add: url hex example_event_fields EventID_String_def IssueID_String_def del: is_ok_iff) 
      (rule NewNotificationText_ok; simp)
  then show ?thesis
    by (auto simp: telegramMessage_def opened_message_def example_issue_opened rbind_eq_ok is_ok_iff)
qed

definition example_message :: TelegramMessage where
  "example_message = projr (telegramMessage example_delivery ''https://go.example'')"

lemma example_message: "telegramMessage example_delivery ''https://go.example'' = ok example_message"
  using example_message_ok by (auto simp: example_message_def is_ok_iff)

lemma example_message_intent: "msg_intentID example_message = NotificationIntentID (replicate 32 CHR ''a'')"
  using message_intents(1) [OF example_message] by (simp add: example_delivery_def)

lemma example_columns:
  "ir_id example_issue = dashedUUID (replicate 32 CHR ''d'')"
  "er_id example_event_row = dashedUUID (replicate 32 CHR ''c'')"
  "dr_provider example_chat = ''telegram''" "dr_id example_chat = dashedUUID (replicate 32 CHR ''e'')"
  "dr_enabled example_chat" "dl_intentID example_delivery = NotificationIntentID (replicate 32 CHR ''a'')"
  by (simp_all add: example_issue_def example_event_row_def example_chat_def example_delivery_def)

lemmas delivery_run = batch_defs deliver_batch_def outbox_defs example_batch_def example_senders_def claim_defs
   claim_deliveries_def pool_statement_def example_delivery_fields example_run
   claim_intents_def due_intents_def claimable_def destination_of_def example_delivery_db_def timestamptz_def
   delivery_rows_def claimed_intent_def clear_nothing_def integer32_def
   example_intent_def example_columns example_scan deliverTelegramDelivery_def deliver_text_def example_message answering_def
   mark_failure_def mark_delivered_def one_failed_def one_delivered_def MarkTelegramDelivered_def MarkTelegramFailed_def
   mark_intent_def NotificationIntentID_String_def delivered_receipt_present_def prepare_retry_refused

lemma example_texts': "text_param ''42''" "text_param ''timeout''"
  by (rule graph_text_param; simp add: graph_ascii_def)+

lemma example_delivered:
  "\<exists>t. deliver url_Parse mail_ParseAddress None (example_senders (ok \<lparr>mr_providerMessageID = ''42''\<rparr>) q) Telegram
     (example_batch 5000000000) example_delivery_session = (Inr \<lparr>br_claimed = 1, br_delivered = 1, br_failed = 0\<rparr>, t) \<and>
     map ni_status (session_intents t) = [''delivered'']"
  by (simp add: delivery_run example_texts')
lemma example_failed:
  "\<exists>t. deliver url_Parse mail_ParseAddress None (example_senders (fail ''timeout'') q) Telegram
     (example_batch 5000000000) example_delivery_session = (Inr \<lparr>br_claimed = 1, br_delivered = 0, br_failed = 1\<rparr>, t) \<and>
     map ni_status (session_intents t) = [''delivering'']"
  by (simp add: delivery_run example_texts')
lemma example_intent_row: "session_intents example_delivery_session = [example_intent]"
  by (simp add: example_delivery_fields example_delivery_db_def)

lemma example_delivery_ready: "delivery_ready example_delivery_session"
  using example_session_inv [of "{}"]
  by (simp add: session_ready_def idle_def example_delivery_fields delivery_consistent_def example_delivery_db_def
      example_intent_def uuid_param_made example_hexes example_session_def)

subsection \<open>Properties\<close>

text \<open>
  C20. An intent that was delivered, or that a batch took and did not mark, is left alone for good: no
  batch of any provider changes its row or hands over another message for it. An intent left in
  \<open>delivering\<close> (its delivery failed, the process stopped, or the mark failed) is never tried again,
  though its lease of a minute suggests that it should be.
\<close>

theorem settled_intents_are_left_alone:
  assumes "network resolver senders" and "delivery_ready s"
    and "n < length (session_intents s)"
    and "ni_status (session_intents s ! n) = ''delivering'' \<or> ni_status (session_intents s ! n) = ''delivered''"
    and "t = run_batches url_Parse mail_ParseAddress resolver senders batches s"
  shows "session_intents t ! n = session_intents s ! n \<and>
    messages_for (ni_id (session_intents s ! n)) t = messages_for (ni_id (session_intents s ! n)) s"
  using run_batches_row(2) [OF assms(1-3,5)] assms(4) by (auto simp: row_kept_def row_due_def open_status_def)

theorem settled_intents_are_left_alone_witness:
  "\<exists>t. deliver (\<lambda>_. None) (\<lambda>_. None) None (example_senders (ok \<lparr>mr_providerMessageID = ''42''\<rparr>) (fail ''timeout'')) Telegram
      (example_batch 5000000000) example_delivery_session = (Inr \<lparr>br_claimed = 1, br_delivered = 1, br_failed = 0\<rparr>, t) \<and>
    ni_status (session_intents (run_batches (\<lambda>_. None) (\<lambda>_. None) None
      (example_senders (ok \<lparr>mr_providerMessageID = ''42''\<rparr>) (fail ''timeout''))
      [(Telegram, example_batch 9000000000), (Email, example_batch 9000000000)] t) ! 0) = ''delivered''"
proof -
  let ?senders = "example_senders (ok \<lparr>mr_providerMessageID = ''42''\<rparr>) (fail ''timeout'')"
  obtain t where t: "deliver (\<lambda>_. None) (\<lambda>_. None) None ?senders Telegram (example_batch 5000000000)
      example_delivery_session = (Inr \<lparr>br_claimed = 1, br_delivered = 1, br_failed = 0\<rparr>, t)"
    "map ni_status (session_intents t) = [''delivered'']"
    using example_delivered [of "\<lambda>_. None" "\<lambda>_. None" "fail ''timeout''"] by auto
  from deliver_has_effect [OF example_network example_delivery_ready t(1)] have "delivery_ready t"
    by (simp add: deliver_effect_def)
  moreover have "0 < length (session_intents t)" "ni_status (session_intents t ! 0) = ''delivered''"
    using t(2) by (auto simp: map_eq_Cons_conv)
  ultimately show ?thesis
    using settled_intents_are_left_alone [OF example_network _ _ disjI2 refl] t(1) by metis
qed

text \<open>
  C21. Messages and attempts: in any history of batches of all providers, the messages handed over for an
  intent are no more than the attempts its row gained, and an intent that became delivered had a message.
\<close>

theorem messages_match_attempts:
  assumes "network resolver senders" and "delivery_ready s"
    and "n < length (session_intents s)"
    and "t = run_batches url_Parse mail_ParseAddress resolver senders batches s"
    and "r = session_intents s ! n" and "r' = session_intents t ! n"
  shows "ni_id r' = ni_id r \<and>
    int (messages_for (ni_id r) t) - int (messages_for (ni_id r) s) \<le> ni_attempts r' - ni_attempts r \<and>
    (ni_status r' = ''delivered'' \<longrightarrow> ni_status r = ''delivered'' \<or> messages_for (ni_id r) s < messages_for (ni_id r) t)"
  using run_batches_row(1) [OF assms(1-4)] assms(5,6) by (simp add: row_lived_def Let_def)

theorem messages_match_attempts_witness:
  "\<exists>t. t = run_batches (\<lambda>_. None) (\<lambda>_. None) None (example_senders (ok \<lparr>mr_providerMessageID = ''42''\<rparr>) (fail ''timeout''))
      [(Telegram, example_batch 5000000000)] example_delivery_session \<and>
    ni_status (session_intents t ! 0) = ''delivered'' \<and> 0 < messages_for (ni_id example_intent) t"
proof -
  let ?senders = "example_senders (ok \<lparr>mr_providerMessageID = ''42''\<rparr>) (fail ''timeout'')"
  let ?t = "run_batches (\<lambda>_. None) (\<lambda>_. None) None ?senders [(Telegram, example_batch 5000000000)] example_delivery_session"
  from example_delivered [of "\<lambda>_. None" "\<lambda>_. None" "fail ''timeout''"]
  have "map ni_status (session_intents ?t) = [''delivered'']" by auto
  then have "ni_status (session_intents ?t ! 0) = ''delivered''" by (auto simp: map_eq_Cons_conv)
  moreover have "0 < length (session_intents example_delivery_session)"
    "session_intents example_delivery_session ! 0 = example_intent"
    "ni_status example_intent \<noteq> ''delivered''"
    by (simp_all only: example_intent_row) (simp_all add: example_intent_def)
  ultimately show ?thesis
    using messages_match_attempts [OF example_network example_delivery_ready _ refl refl refl, of 0 "\<lambda>_. None" "\<lambda>_. None"
      "ok \<lparr>mr_providerMessageID = ''42''\<rparr>" "fail ''timeout''" "[(Telegram, example_batch 5000000000)]"]
    by (intro exI [of _ ?t]) auto
qed

text \<open>
  C22. The life cycle: what a history of batches does to an intent is a run of the machine \<open>life_step\<close>, from
  pending (or failed, which no batch writes) with one attempt more to delivering or delivered, of at most one
  step a batch. From delivering and delivered there is no step, so the run has one step at most: whatever the
  history, an intent gets one attempt.
\<close>

theorem intents_follow_the_life_cycle:
  assumes "network resolver senders" and "delivery_ready s"
    and "n < length (session_intents s)"
    and "t = run_batches url_Parse mail_ParseAddress resolver senders batches s"
  shows "\<exists>k\<le>length batches. k \<le> 1 \<and>
    (life_step ^^ k) (life_of (session_intents s ! n)) (life_of (session_intents t ! n))"
  using run_batches_life [OF assms] life_step_once by blast

theorem intents_follow_the_life_cycle_witness:
  "\<exists>k\<le>1. (life_step ^^ k) (''pending'', 0) (life_of (session_intents (run_batches (\<lambda>_. None) (\<lambda>_. None) None
     (example_senders (fail ''timeout'') (fail ''timeout'')) [(Telegram, example_batch 5000000000)]
     example_delivery_session) ! 0))"
proof -
  have "life_of (session_intents example_delivery_session ! 0) = (''pending'', 0)"
    "0 < length (session_intents example_delivery_session)"
    by (simp_all only: example_intent_row) (simp_all add: example_intent_def life_of_def)
  with intents_follow_the_life_cycle [OF example_network example_delivery_ready _ refl] show ?thesis
    by (metis One_nat_def length_Cons list.size(3))
qed

text \<open>
  C23. An outage strands intents: when the senders refuse every message, the batch delivers nothing, and every
  intent it took is left in \<open>delivering\<close> with the attempt counted, since the mark of a failure is refused for
  the type of its parameter. No later batch touches such an intent or hands over a message for it, whatever
  the provider, and although the senders work again. So a failure is never retried, and no delay is ever waited.
\<close>

theorem outage_strands_intents:
  assumes "network resolver senders" and "outage senders" and "delivery_ready s"
    and "deliver url_Parse mail_ParseAddress resolver senders provider command s = (x, u)"
    and "network resolver' senders'" and "t = run_batches url_Parse' mail_ParseAddress' resolver' senders' batches u"
    and "n < length (session_intents s)"
  shows "(\<forall>receipt. x = Inr receipt \<longrightarrow> br_delivered receipt = 0 \<and> br_failed receipt = br_claimed receipt) \<and>
    (session_intents u ! n = session_intents s ! n \<or>
     ni_status (session_intents u ! n) = ''delivering'' \<and>
     ni_attempts (session_intents u ! n) = ni_attempts (session_intents s ! n) + 1 \<and>
     session_intents t ! n = session_intents u ! n \<and>
     messages_for (ni_id (session_intents u ! n)) t = messages_for (ni_id (session_intents u ! n)) u)"
proof -
  note batch = deliver_outage_rows [OF assms(1-4)]
  have "br_delivered receipt = 0 \<and> br_failed receipt = br_claimed receipt" if "x = Inr receipt" for receipt
    using deliver_counts [OF assms(1,3)] deliver_outage_counts [OF assms(1-3)] assms(4) that by fastforce
  moreover have u: "delivery_ready u" using deliver_has_effect [OF assms(1,3,4)] by (simp add: deliver_effect_def)
  moreover have n: "n < length (session_intents u)" using list_all2_lengthD [OF batch] assms(7) by simp
  moreover have "session_intents u ! n = session_intents s ! n \<or> row_claimed (bc_now command) (session_intents s ! n) (session_intents u ! n)"
    using list_all2_nthD [OF batch assms(7)] .
  moreover have "row_kept n u t" if "ni_status (session_intents u ! n) = ''delivering''"
    using run_batches_row(2) [OF assms(5) u n assms(6)] that by (auto simp: row_due_def open_status_def)
  ultimately show ?thesis by (auto simp: row_claimed_def row_kept_def)
qed

lemma example_outage: "outage (example_senders (fail e) (fail e'))"
  by (simp add: outage_def example_senders_def refuses_text_def refuses_status_def answering_def)

theorem outage_strands_intents_witness:
  "\<exists>u. deliver (\<lambda>_. None) (\<lambda>_. None) None (example_senders (fail ''timeout'') (fail ''timeout'')) Telegram
      (example_batch 5000000000) example_delivery_session = (Inr \<lparr>br_claimed = 1, br_delivered = 0, br_failed = 1\<rparr>, u) \<and>
    ni_status (session_intents (run_batches (\<lambda>_. None) (\<lambda>_. None) None
      (example_senders (ok \<lparr>mr_providerMessageID = ''42''\<rparr>) (fail ''timeout''))
      [(Telegram, example_batch 9000000000000), (Telegram, example_batch 99000000000000)] u) ! 0) = ''delivering''"
proof -
  let ?senders = "example_senders (fail ''timeout'') (fail ''timeout'')"
  obtain u where u: "deliver (\<lambda>_. None) (\<lambda>_. None) None ?senders Telegram (example_batch 5000000000)
      example_delivery_session = (Inr \<lparr>br_claimed = 1, br_delivered = 0, br_failed = 1\<rparr>, u)"
    "map ni_status (session_intents u) = [''delivering'']"
    using example_failed [of "\<lambda>_. None" "\<lambda>_. None" "fail ''timeout''"] by auto
  then have st: "ni_status (session_intents u ! 0) = ''delivering''" by (auto simp: map_eq_Cons_conv)
  moreover have "session_intents u ! 0 \<noteq> session_intents example_delivery_session ! 0"
    using st by (auto simp only: example_intent_row) (simp add: example_intent_def)
  moreover have "0 < length (session_intents example_delivery_session)" by (simp add: example_intent_row)
  ultimately show ?thesis
    using outage_strands_intents [OF example_network example_outage example_delivery_ready u(1) example_network refl, of 0] u(1)
    by metis
qed

text \<open>
  A batch accounts for all it claimed: every claimed intent counts as delivered or as failed, and there
  are no more than the limit. A batch that ends in an error handed over nothing.
\<close>

theorem delivery_batch_accounts:
  assumes "network resolver senders" and "delivery_ready s"
    and "deliver url_Parse mail_ParseAddress resolver senders provider command s = (r, t)"
  shows "case r of
      Inr receipt \<Rightarrow> br_delivered receipt + br_failed receipt = br_claimed receipt \<and> br_claimed receipt \<le> bc_limit command
    | Inl e \<Rightarrow> ses_world t = ses_world s"
  using deliver_counts [OF assms(1,2)] deliver_error [OF assms(1,2)] assms(3) by (auto split: sum.split)

theorem delivery_batch_accounts_witness:
  "\<exists>receipt t. deliver (\<lambda>_. None) (\<lambda>_. None) None (example_senders (fail ''timeout'') (fail ''timeout'')) Telegram
      (example_batch 5000000000) example_delivery_session = (Inr receipt, t) \<and> br_claimed receipt = 1 \<and>
    br_delivered receipt + br_failed receipt = 1"
proof -
  obtain receipt t where run: "deliver (\<lambda>_. None) (\<lambda>_. None) None (example_senders (fail ''timeout'') (fail ''timeout''))
      Telegram (example_batch 5000000000) example_delivery_session = (Inr receipt, t)" "br_claimed receipt = 1"
    using example_failed [of "\<lambda>_. None" "\<lambda>_. None" "fail ''timeout''"] by auto
  with delivery_batch_accounts [OF example_network example_delivery_ready run(1)] show ?thesis by auto
qed

text \<open>
  C25. No message to an internal host: when the host of a destination resolves to an address that is not
  public, none of the six providers that post to a URL hands its message to the sender; the delivery
  counts as failed, and the reason is passed to the outbox. This is so whatever the sender, and if only one of the addresses is
  internal.
\<close>

lemma private_destination:
  assumes "dest_value url \<noteq> []" and "dest_host url \<noteq> []" and "parseHostIP (dest_host url) = None"
    and "LookupHost (dest_host url) s = (ok addresses, t)"
    and "address \<in> set addresses" and "addr_ok address" and "\<not> public_address address"
  shows "deliver_payload command (Some LookupHost) url message delivery box sender receipt s =
    mark_failure box (dl_intentID delivery) (bc_now command)
      (NewFailedReceipt 0 ''destination url host resolves to a private address'') receipt t"
proof -
  have "\<not> allowedPublicAddr address" using assms(6,7) allowed_iff_public by blast
  then have "list_ex (\<lambda>a. \<not> allowedPublicAddr a) addresses" "addresses \<noteq> []"
    using assms(5) by (auto simp: list_ex_iff)
  then have "ValidateResolvedDestination (Some LookupHost) url s =
      (fail ''destination url host resolves to a private address'', t)"
    using assms(1-4) by (simp add: ValidateResolvedDestination_def abind_def afail_def)
  then show ?thesis by (simp add: deliver_payload_def)
qed

theorem private_destinations_get_no_message:
  assumes "dest_value url \<noteq> []" and "dest_host url \<noteq> []" and "parseHostIP (dest_host url) = None"
    and "LookupHost (dest_host url) s = (ok addresses, t)"
    and "address \<in> set addresses" and "addr_ok address" and "\<not> public_address address"
    and "dl_destination wd = url" and "nt_destinationURL (dl_destination nd) = url"
    and "zt_destinationURL (dl_destination zd) = url"
    and "reason = ''destination url host resolves to a private address''"
  shows
    "deliverWebhookDelivery command (Some LookupHost) wd box webhook_sender receipt s =
       markWebhookFailure box (dl_intentID wd) (bc_now command) (NewWebhookFailedReceipt 0 reason) receipt t \<and>
     deliverDiscordDelivery command (Some LookupHost) wd box discord_sender receipt s =
       markDiscordFailure box (dl_intentID wd) (bc_now command) (NewDiscordFailedReceipt 0 reason) receipt t \<and>
     deliverGoogleChatDelivery command (Some LookupHost) wd box google_chat_sender receipt s =
       markGoogleChatFailure box (dl_intentID wd) (bc_now command) (NewGoogleChatFailedReceipt 0 reason) receipt t \<and>
     deliverTeamsDelivery command (Some LookupHost) wd box teams_sender receipt s =
       markTeamsFailure box (dl_intentID wd) (bc_now command) (NewTeamsFailedReceipt 0 reason) receipt t \<and>
     deliverNtfyDelivery command (Some LookupHost) nd ntfy_box ntfy_sender receipt s =
       markNtfyFailure ntfy_box (dl_intentID nd) (bc_now command) (NewNtfyFailedReceipt 0 reason) receipt t \<and>
     deliverZulipDelivery command (Some LookupHost) zd zulip_box zulip_sender receipt s =
       markZulipFailure zulip_box (dl_intentID zd) (bc_now command) (NewZulipFailedReceipt 0 reason) receipt t"
  unfolding deliverWebhookDelivery_def deliverDiscordDelivery_def deliverGoogleChatDelivery_def deliverTeamsDelivery_def
    deliverNtfyDelivery_def deliverZulipDelivery_def assms(8-11)
    markWebhookFailure_def markDiscordFailure_def markGoogleChatFailure_def markTeamsFailure_def markNtfyFailure_def
    markZulipFailure_def NewWebhookFailedReceipt_def NewDiscordFailedReceipt_def NewGoogleChatFailedReceipt_def
    NewTeamsFailedReceipt_def NewNtfyFailedReceipt_def NewZulipFailedReceipt_def
  by (intro conjI private_destination [of url LookupHost s addresses t address, OF assms(1-7)])

theorem private_destinations_get_no_message_witness:
  "\<exists>wd. dl_destination wd = \<lparr>dest_value = ''https://hooks.example/a'', dest_host = ''hooks.example''\<rparr> \<and>
    deliverWebhookDelivery (example_batch 5000000000) (Some (\<lambda>_. areturn [V4 [8, 8, 8, 8], V4 [10, 0, 0, 1]])) wd
      (WebhookOutbox_Store (\<lambda>_. None)) (answering (ok (NewWebhookDeliveredReceipt 200)))
      \<lparr>br_claimed = 1, br_delivered = 0, br_failed = 0\<rparr> example_delivery_session =
    markWebhookFailure (WebhookOutbox_Store (\<lambda>_. None)) (dl_intentID wd) 5000000000
      (NewWebhookFailedReceipt 0 ''destination url host resolves to a private address'')
      \<lparr>br_claimed = 1, br_delivered = 0, br_failed = 0\<rparr> example_delivery_session"
proof -
  define url where "url = \<lparr>dest_value = ''https://hooks.example/a'', dest_host = ''hooks.example''\<rparr>"
  define wd :: WebhookDelivery where "wd = \<lparr>dl_intentID = NotificationIntentID (replicate 32 CHR ''a''),
    dl_destination = url, dl_event = example_event, dl_issueID = IssueID (replicate 32 CHR ''d''), dl_issueShortID = 1\<rparr>"
  define nd :: NtfyDelivery where "nd = \<lparr>dl_intentID = NotificationIntentID (replicate 32 CHR ''a''),
    dl_destination = \<lparr>nt_destinationURL = url, nt_topic = NtfyTopic ''t''\<rparr>, dl_event = example_event,
    dl_issueID = IssueID (replicate 32 CHR ''d''), dl_issueShortID = 1\<rparr>"
  define zd :: ZulipDelivery where "zd = \<lparr>dl_intentID = NotificationIntentID (replicate 32 CHR ''a''),
    dl_destination = \<lparr>zt_destinationURL = url, zt_botEmail = ZulipBotEmail ''b'', zt_apiKey = ZulipAPIKey ''k'',
      zt_stream = ZulipStreamName ''s'', zt_topic = ZulipTopicName ''t''\<rparr>, dl_event = example_event,
    dl_issueID = IssueID (replicate 32 CHR ''d''), dl_issueShortID = 1\<rparr>"
  have "dest_value url \<noteq> []" "dest_host url \<noteq> []" "parseHostIP (dest_host url) = None"
    by (simp_all add: url_def parseHostIP_def ParseAddr_def digit_byte_def)
  moreover have "addr_ok (V4 [10, 0, 0, 1])" "\<not> public_address (V4 [10, 0, 0, 1])"
    by (simp_all add: addr_ok_def public_address_def Unmap_def Is4In6_def internal_v4_def byte_bits_def numeral_eq_Suc)
  moreover have "(\<lambda>_. areturn [V4 [8, 8, 8, 8], V4 [10, 0, 0, 1]]) (dest_host url) example_delivery_session =
      (ok [V4 [8, 8, 8, 8], V4 [10, 0, 0, 1]], example_delivery_session)" by (simp add: areturn_def)
  ultimately show ?thesis
    using private_destinations_get_no_message [of url "\<lambda>_. areturn [V4 [8, 8, 8, 8], V4 [10, 0, 0, 1]]"
        example_delivery_session "[V4 [8, 8, 8, 8], V4 [10, 0, 0, 1]]" example_delivery_session "V4 [10, 0, 0, 1]" wd nd zd
        _ "example_batch 5000000000" "WebhookOutbox_Store (\<lambda>_. None)" "answering (ok (NewWebhookDeliveredReceipt 200))"]
    by (intro exI [of _ wd]) (simp add: wd_def nd_def zd_def example_batch_def url_def)
qed

text \<open>
  C26. Line breaks stop the mail: the subject shows the first 160 runes of the trimmed title. When that part
  holds a carriage return or a line feed with anything but white space behind it, the subject is refused, and
  the email counts as failed without being sent, whatever the sender and the public URL. Titles are only
  trimmed when an event is stored, so SDKs can send such titles. (A line break that comes later in the title,
  or one with nothing but white space between it and the cut, is cut off and does not stop the mail.)
\<close>

theorem shown_line_breaks_stop_the_mail:
  assumes "trimSubjectTitle (EventTitle_value (ev_title (dl_event delivery))) 160 = first @ c # rest"
    and "c = CHR 0x0A \<or> c = CHR 0x0D" and "trim_right rest \<noteq> []"
  shows "\<exists>reason. deliverEmailDelivery command delivery box sender receipt s =
    markEmailFailure box (dl_intentID delivery) (bc_now command) reason receipt s"
proof -
  have "\<exists>e. emailMessage delivery (bc_publicURL command) = Inl e"
  proof (cases "NewIssueOpened (dl_event delivery) (dl_issueID delivery) (dl_issueShortID delivery)")
    case (Inr opened)
    then have ev: "io_event opened = dl_event delivery" by (auto simp: NewIssueOpened_def split: if_split_asm)
    let ?subject = "(''New issue #'' @ itoa (io_issueShortID opened) @ '': '' @ first) @ c # rest"
    have "c \<in> set (TrimSpace ?subject)"
      using trim_right_break [OF assms(2,3), of "''New issue #'' @ itoa (io_issueShortID opened) @ '': '' @ first"]
      by (simp add: TrimSpace_def trim_left_id)
    then have "\<exists>e. NewNotificationSubject ?subject = Inl e"
      unfolding NewNotificationSubject_def Let_def using assms(2) by (auto simp: ContainsAny_def list_ex_iff)
    then obtain e where "emailIssueOpenedSubject opened = Inl e"
      unfolding emailIssueOpenedSubject_def ev Let_def assms(1) by auto
    then have "\<exists>e. EmailIssueOpenedMessage opened (bc_publicURL command) = Inl e"
      by (simp add: EmailIssueOpenedMessage_def Let_def)
    with Inr show ?thesis by (elim exE) (simp add: emailMessage_def opened_message_def)
  qed (simp add: emailMessage_def opened_message_def)
  then obtain m where "emailMessage delivery (bc_publicURL command) = Inl (GoErr m)"
    by (metis go_error.exhaust)
  then show ?thesis
    by (intro exI [of _ m]) (simp add: deliverEmailDelivery_def deliver_text_def markEmailFailure_def)
qed

theorem shown_line_breaks_stop_the_mail_witness:
  "NewEventTitle (''boom'' @ [CHR 0x0A] @ ''at main'') = ok (EventTitle (''boom'' @ [CHR 0x0A] @ ''at main'')) \<and>
   (\<exists>delivery reason. EventTitle_value (ev_title (dl_event delivery)) = ''boom'' @ [CHR 0x0A] @ ''at main'' \<and>
     deliverEmailDelivery (example_batch 5000000000) delivery (EmailOutbox_Store (\<lambda>_. None))
       (answering (ok \<lparr>mr_providerMessageID = ''42''\<rparr>)) \<lparr>br_claimed = 1, br_delivered = 0, br_failed = 0\<rparr> example_delivery_session =
     markEmailFailure (EmailOutbox_Store (\<lambda>_. None)) (dl_intentID delivery) 5000000000 reason
       \<lparr>br_claimed = 1, br_delivered = 0, br_failed = 0\<rparr> example_delivery_session)"
proof -
  define title where "title = ''boom'' @ [CHR 0x0A] @ ''at main''"
  have trim: "TrimSpace title = title" by (rule TrimSpace_id) (simp add: title_def)
  define d :: EmailDelivery where "d = \<lparr>dl_intentID = NotificationIntentID (replicate 32 CHR ''a''),
    dl_destination = EmailAddress ''ops@go.example'', dl_event = example_event\<lparr>ev_title := EventTitle title\<rparr>,
    dl_issueID = IssueID (replicate 32 CHR ''d''), dl_issueShortID = 1\<rparr>"
  have shown: "trimSubjectTitle title 160 = title"
    unfolding trimSubjectTitle_def trim unfolding title_def by code_simp
  have "trimSubjectTitle (EventTitle_value (ev_title (dl_event d))) 160 = ''boom'' @ CHR 0x0A # ''at main''"
    by (simp add: d_def shown) (simp add: title_def)
  moreover have "trim_right ''at main'' = ''at main''" by (simp add: trim_right_id)
  ultimately have mail: "\<exists>reason. deliverEmailDelivery (example_batch 5000000000) d (EmailOutbox_Store (\<lambda>_. None))
       (answering (ok \<lparr>mr_providerMessageID = ''42''\<rparr>)) \<lparr>br_claimed = 1, br_delivered = 0, br_failed = 0\<rparr> example_delivery_session =
     markEmailFailure (EmailOutbox_Store (\<lambda>_. None)) (dl_intentID d) 5000000000 reason
       \<lparr>br_claimed = 1, br_delivered = 0, br_failed = 0\<rparr> example_delivery_session"
    using shown_line_breaks_stop_the_mail [of d "''boom''" "CHR 0x0A" "''at main''" "example_batch 5000000000" "EmailOutbox_Store (\<lambda>_. None)"
      "answering (ok \<lparr>mr_providerMessageID = ''42''\<rparr>)" "\<lparr>br_claimed = 1, br_delivered = 0, br_failed = 0\<rparr>" example_delivery_session]
    by (simp add: example_batch_def)
  have "NewEventTitle title = ok (EventTitle title)" "title \<noteq> []"
    using trim by (simp_all add: NewEventTitle_def title_def)
  with mail show ?thesis unfolding title_def [symmetric]
    by (intro conjI exI [of _ d]) (auto simp: d_def)
qed

end
