(* ===== verification/FilePaths.thy ===== *)
theory FilePaths
  imports Artifacts
begin

text \<open>
  \<open>path/filepath\<close> on Unix, as far as \<open>internal/adapters/filesystem/vault.go\<close> uses it: cleaning, joining and
  relating paths. The root of the vault is absolute, so all its paths are; the functions are those of the
  library on absolute paths.
\<close>

fun clean_components :: "string list \<Rightarrow> string list \<Rightarrow> string list" where
  "clean_components out [] = rev out"
| "clean_components out (c # cs) =
     (if c = [] \<or> c = ''.'' then clean_components out cs
      else if c = ''..'' then clean_components (tl out) cs
      else clean_components (c # out) cs)"

definition path_components :: "string \<Rightarrow> string list" where
  "path_components p = clean_components [] (split_byte CHR ''/'' p)"

definition path_of :: "string list \<Rightarrow> string" where
  "path_of cs = CHR ''/'' # Join cs ''/''"

definition IsAbs :: "string \<Rightarrow> bool" where
  "IsAbs p \<longleftrightarrow> HasPrefix p ''/''"

definition Clean :: "string \<Rightarrow> string" where
  "Clean p = path_of (path_components p)"

definition filepath_Join :: "string list \<Rightarrow> string" where
  "filepath_Join elems = Clean (Join (filter (\<lambda>e. e \<noteq> []) elems) ''/'')"

text \<open>Everything up to the last slash, cleaned.\<close>

definition Dir :: "string \<Rightarrow> string" where
  "Dir p = Clean (rev (dropWhile (\<lambda>c. c \<noteq> CHR ''/'') (rev p)))"

fun drop_common :: "string list \<Rightarrow> string list \<Rightarrow> string list \<times> string list" where
  "drop_common (b # bs) (t # ts) = (if b = t then drop_common bs ts else (b # bs, t # ts))"
| "drop_common bs ts = (bs, ts)"

definition Rel :: "string \<Rightarrow> string \<Rightarrow> string" where
  "Rel base target =
     (let (bs, ts) = drop_common (path_components base) (path_components target);
          steps = replicate (length bs) ''..'' @ ts
      in if steps = [] then ''.'' else Join steps ''/'')"

subsection \<open>Clean paths\<close>

text \<open>A component that cleaning keeps.\<close>

definition plain_component :: "string \<Rightarrow> bool" where
  "plain_component c \<longleftrightarrow> c \<noteq> [] \<and> c \<noteq> ''.'' \<and> c \<noteq> ''..'' \<and> CHR ''/'' \<notin> set c"

lemma clean_components_append:
  "list_all plain_component cs \<Longrightarrow> clean_components out (cs @ ds) = clean_components (rev cs @ out) ds"
  by (induction cs arbitrary: out) (simp_all add: plain_component_def)

lemma clean_components_plain: "list_all plain_component cs \<Longrightarrow> clean_components out cs = rev out @ cs"
  using clean_components_append [of cs out "[]"] by simp

lemma clean_components_plain_out:
  "(\<And>c. c \<in> set cs \<Longrightarrow> CHR ''/'' \<notin> set c) \<Longrightarrow> list_all plain_component out \<Longrightarrow>
   list_all plain_component (clean_components out cs)"
proof (induction cs arbitrary: out)
  case (Cons c cs)
  have "list_all plain_component (tl out)" using Cons.prems(2) by (cases out) auto
  moreover have "plain_component c" if "c \<noteq> []" "c \<noteq> ''.''" "c \<noteq> ''..''"
    using that Cons.prems(1) [of c] by (simp add: plain_component_def)
  ultimately show ?case using Cons.IH Cons.prems by simp
qed (simp add: list_all_iff)

lemma path_components_plain: "list_all plain_component (path_components p)"
  unfolding path_components_def
  by (rule clean_components_plain_out) (auto dest: split_byte_no_sep)

lemma split_path_of: "list_all plain_component cs \<Longrightarrow> split_byte CHR ''/'' (path_of cs) = [] # (if cs = [] then [[]] else cs)"
  by (auto simp: path_of_def list_all_iff plain_component_def intro!: split_byte_Join)

lemma path_components_path_of: "list_all plain_component cs \<Longrightarrow> path_components (path_of cs) = cs"
  by (auto simp: path_components_def split_path_of clean_components_plain)

lemma path_of_inj: "list_all plain_component cs \<Longrightarrow> list_all plain_component ds \<Longrightarrow> path_of cs = path_of ds \<longleftrightarrow> cs = ds"
  by (metis path_components_path_of)

lemma Clean_path_of: "list_all plain_component cs \<Longrightarrow> Clean (path_of cs) = path_of cs"
  by (simp add: Clean_def path_components_path_of)

lemma Clean_Clean: "Clean (Clean p) = Clean p"
  by (simp add: Clean_def path_components_path_of path_components_plain)

lemma Join_append: "xs \<noteq> [] \<Longrightarrow> ys \<noteq> [] \<Longrightarrow> Join (xs @ ys) c = Join xs c @ c @ Join ys c"
  by (induction xs c rule: Join.induct) (auto simp: neq_Nil_conv)

lemma path_of_snoc: "path_of (cs @ [c]) = (if cs = [] then [] else path_of cs) @ CHR ''/'' # c"
  by (simp add: path_of_def Join_append)

lemma filepath_Join_path_of:
  assumes "list_all plain_component rs" and "list_all plain_component cs"
  shows "filepath_Join (path_of rs # cs) = path_of (rs @ cs)"
proof -
  have ne: "filter (\<lambda>e. e \<noteq> []) (path_of rs # cs) = path_of rs # cs"
    using assms(2) by (auto simp: path_of_def filter_id_conv list_all_iff plain_component_def)
  have "path_components (Join (path_of rs # cs) ''/'') = rs @ cs"
  proof (cases "cs = []")
    case True
    then show ?thesis using assms by (simp add: path_components_path_of)
  next
    case False
    let ?rs = "if rs = [] then [[]] else rs"
    have joined: "Join (path_of rs # cs) ''/'' = CHR ''/'' # Join (?rs @ cs) ''/''"
      using False Join_append [of "[path_of rs]" cs "''/''"] Join_append [of ?rs cs "''/''"] by (simp add: path_of_def)
    have "\<forall>c\<in>set (?rs @ cs). CHR ''/'' \<notin> set c"
      using assms by (auto simp: list_all_iff plain_component_def)
    then have "split_byte CHR ''/'' (Join (?rs @ cs) ''/'') = ?rs @ cs" by (intro split_byte_Join) auto
    then have "path_components (Join (path_of rs # cs) ''/'') = clean_components [] ([] # ?rs @ cs)"
      unfolding path_components_def joined by simp
    also have "\<dots> = rs @ cs"
      using assms clean_components_plain [of "rs @ cs" "[]"] clean_components_plain [of cs "[]"] by simp
    finally show ?thesis .
  qed
  then show ?thesis unfolding filepath_Join_def ne by (simp add: Clean_def)
qed

lemma Dir_path_of:
  assumes "list_all plain_component cs" and "plain_component c"
  shows "Dir (path_of (cs @ [c])) = path_of cs"
proof -
  have "CHR ''/'' \<notin> set c" using assms(2) by (simp add: plain_component_def)
  then have "rev (dropWhile (\<lambda>c. c \<noteq> CHR ''/'') (rev (path_of (cs @ [c])))) =
      (if cs = [] then [] else path_of cs) @ ''/''"
    by (auto simp: path_of_snoc dropWhile_append3)
  moreover have "path_components ((if cs = [] then [] else path_of cs) @ ''/'') = cs"
  proof (cases "cs = []")
    case True
    then show ?thesis by (simp add: path_components_def)
  next
    case False
    then have "path_of cs @ ''/'' = CHR ''/'' # Join (cs @ [[]]) ''/''" by (simp add: path_of_def Join_append)
    moreover have "\<forall>c\<in>set (cs @ [[]]). CHR ''/'' \<notin> set c"
      using assms(1) by (auto simp: list_all_iff plain_component_def)
    then have "split_byte CHR ''/'' (Join (cs @ [[]]) ''/'') = cs @ [[]]" by (intro split_byte_Join) auto
    moreover have "clean_components [] (cs @ [[]]) = cs"
      using clean_components_append [OF assms(1), of "[]" "[[]]"] by simp
    ultimately show ?thesis using False by (simp add: path_components_def)
  qed
  ultimately show ?thesis by (simp add: Dir_def Clean_def)
qed

lemma drop_common_prefix: "drop_common bs (bs @ ts) = ([], ts)"
  by (induction bs) (cases ts, auto)

lemma Rel_below:
  assumes "list_all plain_component rs" and "list_all plain_component cs"
  shows "Rel (path_of rs) (path_of (rs @ cs)) = (if cs = [] then ''.'' else Join cs ''/'')"
  using assms by (simp add: Rel_def path_components_path_of drop_common_prefix)

end
