(* ===== verification/Vault.thy ===== *)
theory Vault
  imports FilePaths Actions "HOL-Library.AList" "HOL-Library.Char_ord" "HOL-Library.List_Lexorder"
begin

text \<open>
  The artifact vault: the interface of \<open>internal/app/artifacts/ports.go\<close> and its implementation on a
  directory tree, \<open>internal/adapters/filesystem/vault.go\<close>. The calls of \<open>os\<close> and \<open>io\<close> work on an explicit file
  system: files with their contents, directories, and an environment that makes calls fail and names the
  temporary files. Other processes do not touch the tree while an operation runs.
\<close>

subsection \<open>Readers\<close>

text \<open>An \<open>io.Reader\<close>: the bytes it yields, and whether it ends in an error instead of \<open>io.EOF\<close>.\<close>

record Reader =
  rd_data :: string
  rd_error :: "string option"

definition LimitReader :: "nat \<Rightarrow> Reader \<Rightarrow> Reader" where
  "LimitReader n r =
     (if n \<le> length (rd_data r) then \<lparr>rd_data = take n (rd_data r), rd_error = None\<rparr> else r)"

definition MultiReader :: "string \<Rightarrow> Reader \<Rightarrow> Reader" where
  "MultiReader start r = \<lparr>rd_data = start @ rd_data r, rd_error = rd_error r\<rparr>"

text \<open>\<open>io.ReadFull\<close> with \<open>io.EOF\<close> and \<open>io.ErrUnexpectedEOF\<close> accepted: the bytes read and the rest.\<close>

definition ReadFull :: "nat \<Rightarrow> Reader \<Rightarrow> (string \<times> Reader) result" where
  "ReadFull n r =
     (if n \<le> length (rd_data r) then ok (take n (rd_data r), r\<lparr>rd_data := drop n (rd_data r)\<rparr>)
      else case rd_error r of Some e \<Rightarrow> fail e | None \<Rightarrow> ok (rd_data r, r\<lparr>rd_data := []\<rparr>))"

definition ReadAll :: "Reader \<Rightarrow> string result" where
  "ReadAll r = (case rd_error r of Some e \<Rightarrow> fail e | None \<Rightarrow> ok (rd_data r))"

subsection \<open>The file system\<close>

record FS =
  fs_files :: "(string \<times> string) list"
  fs_dirs :: "string list"
  fs_tick :: nat
  fs_faults :: "nat \<Rightarrow> string option"
  fs_temp :: "nat \<Rightarrow> string"
  fs_written :: "nat \<Rightarrow> nat"

datatype os_error = NotExist | OSError string

fun os_error_text :: "os_error \<Rightarrow> string" where
  "os_error_text NotExist = ''no such file or directory''"
| "os_error_text (OSError e) = e"

type_synonym 'a os_call = "FS \<Rightarrow> (os_error + 'a) \<times> FS"

definition os_step :: "'a os_call \<Rightarrow> 'a os_call" where
  "os_step f s =
     (let t = s\<lparr>fs_tick := Suc (fs_tick s)\<rparr> in
      case fs_faults s (fs_tick s) of Some e \<Rightarrow> (Inl (OSError e), t) | None \<Rightarrow> f t)"

definition write_file :: "string \<Rightarrow> string \<Rightarrow> FS \<Rightarrow> FS" where
  "write_file p content s = s\<lparr>fs_files := AList.update p content (fs_files s)\<rparr>"

definition remove_file :: "string \<Rightarrow> FS \<Rightarrow> FS" where
  "remove_file p s = s\<lparr>fs_files := AList.delete p (fs_files s)\<rparr>"

definition os_MkdirAll :: "string \<Rightarrow> unit os_call" where
  "os_MkdirAll p = os_step (\<lambda>s.
     if map_of (fs_files s) p \<noteq> None then (Inl (OSError ''not a directory''), s)
     else (Inr (), s\<lparr>fs_dirs := List.insert p (fs_dirs s)\<rparr>))"

text \<open>The environment chooses the random part of the name; a name that is taken counts as a failure.\<close>

definition os_CreateTemp :: "string \<Rightarrow> string \<Rightarrow> string os_call" where
  "os_CreateTemp dir pattern = os_step (\<lambda>s.
     let p = filepath_Join [dir, pattern @ fs_temp s (fs_tick s)] in
     if map_of (fs_files s) p \<noteq> None \<or> p \<in> set (fs_dirs s) then (Inl (OSError ''file exists''), s)
     else (Inr p, write_file p [] s))"

text \<open>A write that fails leaves some of the bytes in the file; a reader that fails leaves those it yielded.\<close>

definition io_Copy :: "string \<Rightarrow> Reader \<Rightarrow> int os_call" where
  "io_Copy p r s =
     (let t = s\<lparr>fs_tick := Suc (fs_tick s)\<rparr> in
      case fs_faults s (fs_tick s) of
        Some e \<Rightarrow> (Inl (OSError e), write_file p (take (fs_written s (fs_tick s)) (rd_data r)) t)
      | None \<Rightarrow> (case rd_error r of
          Some e \<Rightarrow> (Inl (OSError e), write_file p (rd_data r) t)
        | None \<Rightarrow> (Inr (int (length (rd_data r))), write_file p (rd_data r) t)))"

definition os_Close :: "unit os_call" where
  "os_Close = os_step (\<lambda>s. (Inr (), s))"

definition os_Chmod :: "string \<Rightarrow> unit os_call" where
  "os_Chmod p = os_step (\<lambda>s. (Inr (), s))"

definition os_Rename :: "string \<Rightarrow> string \<Rightarrow> unit os_call" where
  "os_Rename old new = os_step (\<lambda>s.
     case map_of (fs_files s) old of
       None \<Rightarrow> (Inl NotExist, s)
     | Some content \<Rightarrow>
         if new \<in> set (fs_dirs s) then (Inl (OSError ''file exists''), s)
         else (Inr (), write_file new content (if old = new then s else remove_file old s)))"

definition os_Remove :: "string \<Rightarrow> unit os_call" where
  "os_Remove p = os_step (\<lambda>s.
     if map_of (fs_files s) p = None then (Inl NotExist, s) else (Inr (), remove_file p s))"

text \<open>Reading the opened file may fail later: the reader then ends in the error, after some of the bytes.\<close>

definition os_Open :: "string \<Rightarrow> Reader os_call" where
  "os_Open p = os_step (\<lambda>s.
     case map_of (fs_files s) p of
       None \<Rightarrow> (Inl NotExist, s)
     | Some content \<Rightarrow>
         (Inr (case fs_faults s (fs_tick s) of
            Some e \<Rightarrow> \<lparr>rd_data = take (fs_written s (fs_tick s)) content, rd_error = Some e\<rparr>
          | None \<Rightarrow> \<lparr>rd_data = content, rd_error = None\<rparr>),
          s\<lparr>fs_tick := Suc (fs_tick s)\<rparr>))"

text \<open>The files of a directory with their sizes, by name. Directories among the entries are skipped by the caller.\<close>

definition entry_name :: "string \<Rightarrow> string \<Rightarrow> string option" where
  "entry_name dir p =
     (let name = drop (length dir + 1) p in
      if HasPrefix p (dir @ ''/'') \<and> CHR ''/'' \<notin> set name \<and> name \<noteq> [] then Some name else None)"

definition os_ReadDir :: "string \<Rightarrow> (string \<times> int) list os_call" where
  "os_ReadDir dir = os_step (\<lambda>s.
     if dir \<notin> set (fs_dirs s) then (Inl NotExist, s)
     else (Inr (sort_key fst (List.map_filter (\<lambda>(p, content).
       map_option (\<lambda>name. (name, int (length content))) (entry_name dir p)) (fs_files s))), s))"

text \<open>\<open>entry.Info\<close> of an entry that is skipped when it fails.\<close>

definition os_Info :: "(string \<times> int) \<Rightarrow> int os_call" where
  "os_Info entry = os_step (\<lambda>s. (Inr (snd entry), s))"

subsection \<open>The interface\<close>

record StoredArtifact =
  sa_key :: ArtifactKey
  sa_size :: int

definition NewStoredArtifact :: "ArtifactKey \<Rightarrow> int \<Rightarrow> StoredArtifact" where
  "NewStoredArtifact key n = \<lparr>sa_key = key, sa_size = n\<rparr>"

record ArtifactScope =
  as_organizationID :: OrganizationID
  as_projectID :: ProjectID
  as_kind :: ArtifactKind

definition NewArtifactScope :: "OrganizationID \<Rightarrow> ProjectID \<Rightarrow> ArtifactKind \<Rightarrow> ArtifactScope result" where
  "NewArtifactScope organizationID projectID kind =
     (if OrganizationID_String organizationID = [] then fail ''artifact scope requires organization id''
      else if ProjectID_String projectID = [] then fail ''artifact scope requires project id''
      else if ArtifactKind_value kind = [] then fail ''artifact scope requires kind''
      else ok \<lparr>as_organizationID = organizationID, as_projectID = projectID, as_kind = kind\<rparr>)"

definition ErrArtifactNotFound :: go_error where
  "ErrArtifactNotFound = GoErr ''artifact not found''"

record 's ArtifactVault =
  av_Put :: "ArtifactKey \<Rightarrow> Reader option \<Rightarrow> ('s, StoredArtifact) action"
  av_Get :: "ArtifactKey \<Rightarrow> ('s, Reader) action"
  av_Delete :: "ArtifactKey \<Rightarrow> ('s, unit) action"
  av_List :: "ArtifactScope \<Rightarrow> ('s, StoredArtifact list) action"

subsection \<open>The vault on a directory tree\<close>

definition tempFilePrefix :: string where "tempFilePrefix = ''.artifact-''"

definition ctx_Err :: "(FS, unit) action" where
  "ctx_Err s =
     (let t = s\<lparr>fs_tick := Suc (fs_tick s)\<rparr> in
      case fs_faults s (fs_tick s) of Some e \<Rightarrow> (fail (''context '' @ e), t) | None \<Rightarrow> (ok (), t))"

text \<open>\<open>fmt.Errorf("...: %w", err)\<close> around a call.\<close>

definition wrapped :: "string \<Rightarrow> 'a os_call \<Rightarrow> (FS, 'a) action" where
  "wrapped text call s =
     (case call s of (Inl e, t) \<Rightarrow> (fail (text @ os_error_text e), t) | (Inr v, t) \<Rightarrow> (ok v, t))"

definition NewVault :: "string \<Rightarrow> (FS, string) action" where
  "NewVault root =
     (let cleaned = TrimSpace root in
      if cleaned = [] then afail ''artifact root is required''
      else if \<not> IsAbs cleaned then afail ''artifact root must be an absolute path''
      else let resolved = Clean cleaned in
        abind (wrapped ''create artifact root: '' (os_MkdirAll resolved)) (\<lambda>_.
        abind (wrapped ''stat artifact root: '' (os_step (\<lambda>s.
          if resolved \<in> set (fs_dirs s) then (Inr True, s)
          else if map_of (fs_files s) resolved \<noteq> None then (Inr False, s) else (Inl NotExist, s)))) (\<lambda>isDir.
        if \<not> isDir then afail ''artifact root must be a directory'' else areturn resolved)))"

definition pathInside :: "string \<Rightarrow> string \<Rightarrow> bool" where
  "pathInside root candidate =
     (let relative = Rel root candidate in
      if relative = ''.'' then True
      else if HasPrefix relative ''..'' then False
      else \<not> Contains relative ''../'')"

definition scopeDirFromKey :: "string \<Rightarrow> ArtifactKey \<Rightarrow> string result" where
  "scopeDirFromKey root key =
     (let cleaned = Clean (filepath_Join [root, OrganizationID_String (key_organizationID key),
        ProjectID_String (key_projectID key), ArtifactKind_value (key_kind key)]) in
      if \<not> pathInside root cleaned then fail ''artifact scope path escapes root'' else ok cleaned)"

definition keyPath :: "string \<Rightarrow> ArtifactKey \<Rightarrow> string result" where
  "keyPath root key =
     (if ArtifactName_value (key_name key) = [] \<or> ArtifactKind_value (key_kind key) = []
      then fail ''artifact key is incomplete''
      else rbind (scopeDirFromKey root key) (\<lambda>scopeDir.
        let cleaned = Clean (filepath_Join [scopeDir, ArtifactName_value (key_name key)]) in
        if \<not> pathInside root cleaned then fail ''artifact path escapes root'' else ok cleaned))"

definition scopePath :: "string \<Rightarrow> ArtifactScope \<Rightarrow> string result" where
  "scopePath root scope =
     (if ArtifactKind_value (as_kind scope) = [] then fail ''artifact scope is incomplete''
      else let cleaned = Clean (filepath_Join [root, OrganizationID_String (as_organizationID scope),
        ProjectID_String (as_projectID scope), ArtifactKind_value (as_kind scope)]) in
      if \<not> pathInside root cleaned then fail ''artifact scope path escapes root'' else ok cleaned)"

text \<open>The exits of \<open>PutArtifact\<close> that remove the temporary file.\<close>

definition discard :: "string \<Rightarrow> string \<Rightarrow> os_error \<Rightarrow> (FS, 'a) action" where
  "discard tempPath text e s = (fail (text @ os_error_text e), snd (os_Remove tempPath s))"

text \<open>\<open>PutArtifact\<close> from the copy on: the contents go to the temporary file, which becomes the artifact.\<close>

definition publish :: "ArtifactKey \<Rightarrow> string \<Rightarrow> Reader \<Rightarrow> string \<Rightarrow> (FS, StoredArtifact) action" where
  "publish key finalPath reader tempPath s =
     (let (copied, t) = io_Copy tempPath reader s;
          (closed, u) = os_Close t
      in (case copied of Inl e \<Rightarrow> discard tempPath ''write artifact: '' e u | Inr written \<Rightarrow>
         (case closed of Inl e \<Rightarrow> discard tempPath ''close artifact: '' e u | Inr _ \<Rightarrow>
         (case os_Chmod tempPath u of
           (Inl e, v) \<Rightarrow> discard tempPath ''set artifact permissions: '' e v
         | (Inr _, v) \<Rightarrow> (case os_Rename tempPath finalPath v of
             (Inl e, w) \<Rightarrow> discard tempPath ''publish artifact: '' e w
           | (Inr _, w) \<Rightarrow> (ok (NewStoredArtifact key written), w))))))"

definition PutArtifact :: "string \<Rightarrow> ArtifactKey \<Rightarrow> Reader option \<Rightarrow> (FS, StoredArtifact) action" where
  "PutArtifact root key contents =
     (case contents of None \<Rightarrow> afail ''artifact contents are required'' | Some reader \<Rightarrow>
      abind ctx_Err (\<lambda>_.
      abind (alift (keyPath root key)) (\<lambda>finalPath.
      let parentDir = Dir finalPath in
      abind (wrapped ''create artifact directory: '' (os_MkdirAll parentDir)) (\<lambda>_.
      abind (wrapped ''create temp artifact: '' (os_CreateTemp parentDir tempFilePrefix)) (\<lambda>tempPath.
      publish key finalPath reader tempPath)))))"

definition GetArtifact :: "string \<Rightarrow> ArtifactKey \<Rightarrow> (FS, Reader) action" where
  "GetArtifact root key =
     abind ctx_Err (\<lambda>_.
     abind (alift (keyPath root key)) (\<lambda>finalPath s.
     case os_Open finalPath s of
       (Inl NotExist, t) \<Rightarrow> (Inl ErrArtifactNotFound, t)
     | (Inl e, t) \<Rightarrow> (fail (''open artifact: '' @ os_error_text e), t)
     | (Inr file, t) \<Rightarrow> (ok file, t)))"

definition DeleteArtifact :: "string \<Rightarrow> ArtifactKey \<Rightarrow> (FS, unit) action" where
  "DeleteArtifact root key =
     abind ctx_Err (\<lambda>_.
     abind (alift (keyPath root key)) (\<lambda>finalPath s.
     case os_Remove finalPath s of
       (Inl NotExist, t) \<Rightarrow> (ok (), t)
     | (Inl e, t) \<Rightarrow> (fail (''delete artifact: '' @ os_error_text e), t)
     | (Inr _, t) \<Rightarrow> (ok (), t)))"

fun list_entries :: "ArtifactScope \<Rightarrow> (string \<times> int) list \<Rightarrow> FS \<Rightarrow> StoredArtifact list \<times> FS" where
  "list_entries scope [] s = ([], s)"
| "list_entries scope (entry # entries) s =
     (if HasPrefix (fst entry) tempFilePrefix then list_entries scope entries s
      else case rbind (NewArtifactName (fst entry)) (\<lambda>name.
          NewArtifactKey (as_organizationID scope) (as_projectID scope) (as_kind scope) name) of
        Inl e \<Rightarrow> list_entries scope entries s
      | Inr key \<Rightarrow> (case os_Info entry s of
          (Inl e, t) \<Rightarrow> list_entries scope entries t
        | (Inr n, t) \<Rightarrow>
            let (stored, u) = list_entries scope entries t in (NewStoredArtifact key n # stored, u)))"

definition ListArtifacts :: "string \<Rightarrow> ArtifactScope \<Rightarrow> (FS, StoredArtifact list) action" where
  "ListArtifacts root scope =
     abind ctx_Err (\<lambda>_.
     abind (alift (scopePath root scope)) (\<lambda>scopeDir s.
     case os_ReadDir scopeDir s of
       (Inl NotExist, t) \<Rightarrow> (ok [], t)
     | (Inl e, t) \<Rightarrow> (fail (''list artifacts: '' @ os_error_text e), t)
     | (Inr entries, t) \<Rightarrow>
         let (stored, u) = list_entries scope entries t in
         (ok (sort_key (\<lambda>a. ArtifactName_value (key_name (sa_key a))) stored), u)))"

definition FilesystemVault :: "string \<Rightarrow> FS ArtifactVault" where
  "FilesystemVault root = \<lparr>av_Put = PutArtifact root, av_Get = GetArtifact root,
     av_Delete = DeleteArtifact root, av_List = ListArtifacts root\<rparr>"

end
