(* ===== verification/VaultKeys.thy ===== *)
theory VaultKeys
  imports Vault
begin

text \<open>
  The paths of artifact keys in the directory tree: every key of validated parts has a path of its own,
  which lies inside the root.
\<close>

subsection \<open>Keys\<close>

definition artifact_kinds :: "ArtifactKind list" where
  "artifact_kinds = [ArtifactKindSourceMap, ArtifactKindDebugFile, ArtifactKindMinidump,
     ArtifactKindAttachment, ArtifactKindUploadChunk]"

text \<open>A key made of ids, kinds and names of their constructors.\<close>

definition key_ok :: "ArtifactKey \<Rightarrow> bool" where
  "key_ok key \<longleftrightarrow>
     hex_pattern 32 (OrganizationID_value (key_organizationID key)) \<and>
     hex_pattern 32 (ProjectID_value (key_projectID key)) \<and>
     key_kind key \<in> set artifact_kinds \<and>
     NewArtifactName (ArtifactName_value (key_name key)) = ok (key_name key)"

definition scope_ok :: "ArtifactScope \<Rightarrow> bool" where
  "scope_ok scope \<longleftrightarrow>
     hex_pattern 32 (OrganizationID_value (as_organizationID scope)) \<and>
     hex_pattern 32 (ProjectID_value (as_projectID scope)) \<and> as_kind scope \<in> set artifact_kinds"

definition scope_of :: "ArtifactKey \<Rightarrow> ArtifactScope" where
  "scope_of key = \<lparr>as_organizationID = key_organizationID key, as_projectID = key_projectID key, as_kind = key_kind key\<rparr>"

definition scope_components :: "ArtifactScope \<Rightarrow> string list" where
  "scope_components scope = [OrganizationID_String (as_organizationID scope),
     ProjectID_String (as_projectID scope), ArtifactKind_value (as_kind scope)]"

lemma key_ok_scope: "key_ok key \<Longrightarrow> scope_ok (scope_of key)"
  by (simp add: key_ok_def scope_ok_def scope_of_def)

text \<open>Components without dots and slashes.\<close>

definition dotless :: "string \<Rightarrow> bool" where
  "dotless s \<longleftrightarrow> s \<noteq> [] \<and> CHR ''.'' \<notin> set s \<and> CHR ''/'' \<notin> set s"

lemma dotless_plain: "dotless s \<Longrightarrow> plain_component s"
  by (auto simp: dotless_def plain_component_def)

lemma dotless_dashedUUID: "hex_pattern 32 v \<Longrightarrow> dotless (dashedUUID v)"
proof -
  assume v: "hex_pattern 32 v"
  then have "v \<noteq> []" by (auto simp: hex_pattern_def)
  moreover have no: "\<not> hex_byte CHR ''.''" "\<not> hex_byte CHR ''/''" "CHR ''.'' \<noteq> CHR ''-''" "CHR ''/'' \<noteq> CHR ''-''"
    by (simp_all add: hex_byte_def)
  have "CHR ''.'' \<notin> set (dashedUUID v)" "CHR ''/'' \<notin> set (dashedUUID v)"
    using dashedUUID_chars [OF v] no by blast+
  ultimately show ?thesis by (simp add: dotless_def dashedUUID_Nil_iff)
qed

lemma dotless_kind: "k \<in> set artifact_kinds \<Longrightarrow> dotless (ArtifactKind_value k)"
  by (auto simp: artifact_kinds_def artifact_kind_defs dotless_def)

lemma scope_components_dotless: "scope_ok scope \<Longrightarrow> list_all dotless (scope_components scope)"
  by (simp add: scope_ok_def scope_components_def OrganizationID_String_def ProjectID_String_def
      dotless_dashedUUID dotless_kind)

lemma artifact_name_component:
  assumes "NewArtifactName v = ok name"
  shows "plain_component (ArtifactName_value name)" "\<not> HasPrefix (ArtifactName_value name) ''.''"
    "CHR ''/'' \<notin> set (ArtifactName_value name)"
proof -
  let ?n = "ArtifactName_value name"
  from artifactName.new_valid [OF assms] have n: "?n \<noteq> []" "\<not> HasPrefix ?n ''.''"
    "\<not> ContainsAny ?n [CHR ''/'', CHR 0x5C, CHR 0x00]"
    by (simp_all add: plain_name_def visible_text_def)
  show "\<not> HasPrefix ?n ''.''" by (rule n)
  show slash: "CHR ''/'' \<notin> set ?n" using n(3) by (force simp: ContainsAny_def list_ex_iff)
  from n(2) have "?n \<noteq> ''.''" "?n \<noteq> ''..''" by (auto simp: HasPrefix_def)
  with n(1) slash show "plain_component ?n" by (simp add: plain_component_def)
qed

lemma dotless_Join:
  "list_all dotless cs \<Longrightarrow> cs \<noteq> [] \<Longrightarrow> CHR ''.'' \<notin> set (Join cs ''/'') \<and> Join cs ''/'' \<noteq> [] \<and> hd (Join cs ''/'') \<noteq> CHR ''/''"
proof (induction cs "''/''" rule: Join.induct)
  case (2 s)
  then show ?case by (cases s) (auto simp: dotless_def)
next
  case (3 s t ss)
  then show ?case by (cases s) (auto simp: dotless_def)
qed simp

lemma no_dots_before_slash:
  assumes "CHR ''.'' \<notin> set d" and "CHR ''/'' \<notin> set n"
  shows "\<not> Contains (d @ n) ''../''"
proof
  assume "Contains (d @ n) ''../''"
  then obtain a b where ab: "d @ n = a @ ''../'' @ b" by (auto simp: Contains_def sublist_def)
  then consider us where "d = a @ us" "us @ n = ''../'' @ b" | us where "d @ us = a" "n = us @ ''../'' @ b"
    by (auto simp: append_eq_append_conv2)
  then show False
  proof cases
    case 1
    with assms(1) have "us = []" by (cases us) auto
    with 1 assms(2) show False by auto
  next
    case 2
    with assms(2) show False by auto
  qed
qed

text \<open>No key leads outside the root.\<close>

lemma pathInside_scope:
  assumes "list_all plain_component rs" and "list_all dotless cs" and "cs \<noteq> []"
  shows "pathInside (path_of rs) (path_of (rs @ cs))"
proof -
  have "list_all plain_component cs" using assms(2) dotless_plain by (auto simp: list_all_iff)
  then have rel: "Rel (path_of rs) (path_of (rs @ cs)) = Join cs ''/''" using Rel_below [OF assms(1)] assms(3) by simp
  note j = dotless_Join [OF assms(2,3)]
  then have "\<not> HasPrefix (Join cs ''/'') ''..''" by (cases "Join cs ''/''") (auto simp: HasPrefix_def)
  moreover have "\<not> Contains (Join cs ''/'') ''../''"
    using no_dots_before_slash [of "Join cs ''/''" "[]"] j by simp
  ultimately show ?thesis by (simp add: pathInside_def rel)
qed

lemma pathInside_key:
  assumes "list_all plain_component rs" and "list_all dotless cs" and "cs \<noteq> []"
    and "plain_component n" and "CHR ''/'' \<notin> set n"
  shows "pathInside (path_of rs) (path_of (rs @ cs @ [n]))"
proof -
  have "list_all plain_component (cs @ [n])" using assms(2,4) dotless_plain by (auto simp: list_all_iff)
  then have rel: "Rel (path_of rs) (path_of (rs @ cs @ [n])) = Join cs ''/'' @ ''/'' @ n"
    using Rel_below [OF assms(1)] assms(3) by (simp add: Join_append)
  note j = dotless_Join [OF assms(2,3)]
  then have "\<not> HasPrefix (Join cs ''/'' @ ''/'' @ n) ''..''" by (cases "Join cs ''/''") (auto simp: HasPrefix_def)
  moreover have "\<not> Contains (Join cs ''/'' @ ''/'' @ n) ''../''"
    using no_dots_before_slash [of "Join cs ''/'' @ ''/''" n] j assms(5) by simp
  moreover have "Join cs ''/'' @ ''/'' @ n \<noteq> ''.''" using j by (cases "Join cs ''/''") auto
  ultimately show ?thesis unfolding pathInside_def rel Let_def by simp
qed

definition key_path :: "string \<Rightarrow> ArtifactKey \<Rightarrow> string" where
  "key_path root key = path_of (path_components root @ scope_components (scope_of key) @ [ArtifactName_value (key_name key)])"

definition scope_path :: "string \<Rightarrow> ArtifactScope \<Rightarrow> string" where
  "scope_path root scope = path_of (path_components root @ scope_components scope)"

definition root_ok :: "string \<Rightarrow> bool" where
  "root_ok root \<longleftrightarrow> Clean root = root"

lemma root_path: "root_ok root \<Longrightarrow> root = path_of (path_components root)"
  by (simp add: root_ok_def Clean_def)

lemma scope_plain: "scope_ok scope \<Longrightarrow> list_all plain_component (path_components root @ scope_components scope)"
  using scope_components_dotless [of scope] path_components_plain [of root]
  by (auto simp: list_all_iff dotless_plain)

lemma joined_scope:
  assumes "root_ok root" and "scope_ok scope"
  shows "Clean (filepath_Join (root # scope_components scope)) = scope_path root scope"
proof -
  have "list_all plain_component (scope_components scope)"
    using scope_plain [OF assms(2), of root] by simp
  from filepath_Join_path_of [OF path_components_plain this]
  show ?thesis unfolding scope_path_def using Clean_path_of [OF scope_plain [OF assms(2)]]
    by (subst root_path [OF assms(1)]) simp
qed

lemma scopePath_ok:
  assumes "root_ok root" and "scope_ok scope"
  shows "scopePath root scope = ok (scope_path root scope)"
proof -
  have inside: "pathInside root (scope_path root scope)"
    using pathInside_scope [OF path_components_plain scope_components_dotless [OF assms(2)], of root] root_path [OF assms(1)]
    by (simp add: scope_path_def scope_components_def)
  have "ArtifactKind_value (as_kind scope) \<noteq> []"
    using assms(2) dotless_kind by (auto simp: scope_ok_def dotless_def)
  with inside joined_scope [OF assms] show ?thesis by (simp add: scopePath_def scope_components_def)
qed

lemma scopeDirFromKey_ok:
  assumes "root_ok root" and "key_ok key"
  shows "scopeDirFromKey root key = ok (scope_path root (scope_of key))"
proof -
  have "pathInside root (scope_path root (scope_of key))"
    using pathInside_scope [OF path_components_plain scope_components_dotless [OF key_ok_scope [OF assms(2)]], of root]
      root_path [OF assms(1)]
    by (simp add: scope_path_def scope_components_def)
  with joined_scope [OF assms(1) key_ok_scope [OF assms(2)]] show ?thesis
    by (simp add: scopeDirFromKey_def scope_components_def scope_of_def)
qed

lemma key_plain:
  assumes "key_ok key"
  shows "list_all plain_component (path_components root @ scope_components (scope_of key) @ [ArtifactName_value (key_name key)])"
  using scope_plain [OF key_ok_scope [OF assms], of root] artifact_name_component [of _ "key_name key"] assms
  by (auto simp: key_ok_def)

lemma keyPath_ok:
  assumes "root_ok root" and "key_ok key"
  shows "keyPath root key = ok (key_path root key)"
proof -
  let ?n = "ArtifactName_value (key_name key)"
  let ?cs = "scope_components (scope_of key)"
  have n: "plain_component ?n" "CHR ''/'' \<notin> set ?n"
    using artifact_name_component [of _ "key_name key"] assms(2) by (auto simp: key_ok_def)
  have "pathInside root (key_path root key)"
    using pathInside_key [OF path_components_plain scope_components_dotless [OF key_ok_scope [OF assms(2)]] _ n, of root]
      root_path [OF assms(1)]
    by (simp add: key_path_def scope_components_def)
  moreover have "filepath_Join [scope_path root (scope_of key), ?n] = key_path root key"
    using filepath_Join_path_of [OF scope_plain [OF key_ok_scope [OF assms(2)]], of "[?n]" root] n
    by (simp add: scope_path_def key_path_def)
  moreover have "Clean (key_path root key) = key_path root key"
    unfolding key_path_def by (rule Clean_path_of [OF key_plain [OF assms(2)]])
  moreover have "?n \<noteq> []" "ArtifactKind_value (key_kind key) \<noteq> []"
    using n(1) assms(2) dotless_kind by (auto simp: plain_component_def key_ok_def dotless_def)
  ultimately show ?thesis
    by (simp add: keyPath_def scopeDirFromKey_ok [OF assms])
qed

lemma key_path_inj:
  assumes "key_ok key" and "key_ok key'" and "key_path root key = key_path root key'"
  shows "key = key'"
proof -
  have "scope_components (scope_of key) @ [ArtifactName_value (key_name key)] =
      scope_components (scope_of key') @ [ArtifactName_value (key_name key')]"
    using assms(3) path_of_inj [OF key_plain [OF assms(1)] key_plain [OF assms(2)], of root root]
    by (simp add: key_path_def)
  then have eqs: "dashedUUID (OrganizationID_value (key_organizationID key)) = dashedUUID (OrganizationID_value (key_organizationID key'))"
    "dashedUUID (ProjectID_value (key_projectID key)) = dashedUUID (ProjectID_value (key_projectID key'))"
    "ArtifactKind_value (key_kind key) = ArtifactKind_value (key_kind key')"
    "ArtifactName_value (key_name key) = ArtifactName_value (key_name key')"
    by (simp_all add: scope_components_def scope_of_def OrganizationID_String_def ProjectID_String_def)
  have "OrganizationID_value (key_organizationID key) = OrganizationID_value (key_organizationID key')"
    "ProjectID_value (key_projectID key) = ProjectID_value (key_projectID key')"
    using eqs(1,2) assms(1,2) by (simp_all add: key_ok_def dashedUUID_inj)
  with eqs(3,4) show ?thesis
    by (intro ArtifactKey.equality OrganizationID.expand ProjectID.expand ArtifactKind.expand ArtifactName.expand) simp_all
qed

lemma Dir_key_path: "key_ok key \<Longrightarrow> Dir (key_path root key) = scope_path root (scope_of key)"
  using key_plain [of key root] Dir_path_of [of "path_components root @ scope_components (scope_of key)"]
  by (simp add: key_path_def scope_path_def)

end
