(* ===== verification/VaultContract.thy ===== *)
theory VaultContract
  imports VaultKeys
begin

text \<open>
  The contract of the artifact vault as a locale, and its interpretation on the vault in a directory tree:
  a partial function from keys to contents that only a successful put and a delete change.
\<close>

subsection \<open>The contract\<close>

text \<open>
  \<open>good\<close> is the condition on the state, \<open>calm\<close> says that nothing fails, \<open>store\<close> is the content of the vault.
\<close>

locale artifact_vault =
  fixes vault :: "'s ArtifactVault"
    and good :: "'s \<Rightarrow> bool"
    and calm :: "'s \<Rightarrow> bool"
    and store :: "'s \<Rightarrow> ArtifactKey \<Rightarrow> string option"
  assumes put_law: "good s \<Longrightarrow> key_ok key \<Longrightarrow> av_Put vault key (Some reader) s = (r, t) \<Longrightarrow>
      good t \<and> (calm s \<longrightarrow> calm t) \<and> (case r of
        Inl e \<Rightarrow> store t = store s
      | Inr stored \<Rightarrow> rd_error reader = None \<and> store t = (store s)(key \<mapsto> rd_data reader) \<and>
          stored = \<lparr>sa_key = key, sa_size = int (length (rd_data reader))\<rparr>)"
    and put_calm: "good s \<Longrightarrow> key_ok key \<Longrightarrow> calm s \<Longrightarrow> rd_error reader = None \<Longrightarrow>
      is_ok (fst (av_Put vault key (Some reader) s))"
    and get_law: "good s \<Longrightarrow> key_ok key \<Longrightarrow> av_Get vault key s = (r', t) \<Longrightarrow>
      good t \<and> (calm s \<longrightarrow> calm t) \<and> store t = store s \<and> (case r' of
        Inl e \<Rightarrow> e = ErrArtifactNotFound \<longrightarrow> store s key = None
      | Inr body \<Rightarrow> \<exists>content. store s key = Some content \<and> (rd_error body = None \<longrightarrow> rd_data body = content))"
    and get_calm: "good s \<Longrightarrow> key_ok key \<Longrightarrow> calm s \<Longrightarrow> store s key = Some content \<Longrightarrow>
      \<exists>t. av_Get vault key s = (ok \<lparr>rd_data = content, rd_error = None\<rparr>, t)"
    and delete_law: "good s \<Longrightarrow> key_ok key \<Longrightarrow> av_Delete vault key s = (r'', t) \<Longrightarrow>
      good t \<and> (calm s \<longrightarrow> calm t) \<and> (case r'' of
        Inl e \<Rightarrow> store t = store s | Inr _ \<Rightarrow> store t = (store s)(key := None))"
    and delete_calm: "good s \<Longrightarrow> key_ok key \<Longrightarrow> calm s \<Longrightarrow> is_ok (fst (av_Delete vault key s))"
    and list_law: "good s \<Longrightarrow> scope_ok scope \<Longrightarrow> av_List vault scope s = (l, t) \<Longrightarrow>
      good t \<and> (calm s \<longrightarrow> calm t) \<and> store t = store s \<and> (case l of
        Inl e \<Rightarrow> True
      | Inr stored \<Rightarrow> \<forall>a\<in>set stored. key_ok (sa_key a) \<and> scope_of (sa_key a) = scope \<and>
          (\<exists>content. store s (sa_key a) = Some content \<and> sa_size a = int (length content)))"
    and list_calm: "good s \<Longrightarrow> scope_ok scope \<Longrightarrow> calm s \<Longrightarrow> av_List vault scope s = (l, t) \<Longrightarrow>
      \<exists>stored. l = Inr stored \<and> sorted (map (\<lambda>a. ArtifactName_value (key_name (sa_key a))) stored) \<and>
        sa_key ` set stored = {key. key_ok key \<and> scope_of key = scope \<and> store s key \<noteq> None}"

subsection \<open>The directory tree\<close>

text \<open>The path of a temporary file: its name starts with a dot, which no artifact name does.\<close>

definition temp_path :: "string \<Rightarrow> bool" where
  "temp_path p \<longleftrightarrow> (\<exists>cs t. list_all plain_component cs \<and> list_all digit_byte t \<and>
     p = path_of (cs @ [tempFilePrefix @ t]))"

definition fs_paths :: "FS \<Rightarrow> string set" where
  "fs_paths s = fst ` set (fs_files s)"

definition vault_good :: "string \<Rightarrow> FS \<Rightarrow> bool" where
  "vault_good root s \<longleftrightarrow>
     distinct (map fst (fs_files s)) \<and>
     (\<forall>p\<in>fs_paths s. Dir p \<in> set (fs_dirs s) \<and>
        (temp_path p \<or> (\<exists>key. key_ok key \<and> p = key_path root key))) \<and>
     (\<forall>n. list_all digit_byte (fs_temp s n))"

definition vault_calm :: "FS \<Rightarrow> bool" where
  "vault_calm s \<longleftrightarrow> fs_faults s = (\<lambda>_. None)"

definition vault_store :: "string \<Rightarrow> FS \<Rightarrow> ArtifactKey \<Rightarrow> string option" where
  "vault_store root s key = (if key_ok key then map_of (fs_files s) (key_path root key) else None)"

lemma temp_component: "list_all digit_byte t \<Longrightarrow> plain_component (tempFilePrefix @ t)"
  by (auto simp: plain_component_def tempFilePrefix_def list_all_iff digit_byte_def)

lemma temp_path_not_key:
  assumes "temp_path p" and "key_ok key"
  shows "p \<noteq> key_path root key"
proof
  assume "p = key_path root key"
  from assms(1) obtain cs t where t: "list_all plain_component cs" "list_all digit_byte t"
    "p = path_of (cs @ [tempFilePrefix @ t])" by (auto simp: temp_path_def)
  let ?n = "ArtifactName_value (key_name key)"
  have "cs @ [tempFilePrefix @ t] = (path_components root @ scope_components (scope_of key)) @ [?n]"
    using t temp_component [OF t(2)] key_plain [OF assms(2), of root] \<open>p = key_path root key\<close>
    by (simp add: key_path_def path_of_inj)
  then have "?n = tempFilePrefix @ t" by simp
  moreover have "\<not> HasPrefix ?n ''.''"
    using assms(2) artifact_name_component(2) by (auto simp: key_ok_def)
  ultimately show False by (simp add: HasPrefix_def tempFilePrefix_def)
qed

text \<open>Steps of the file system.\<close>

lemma os_step_cases:
  assumes "os_step f s = (r, t)"
  shows "(\<exists>e. fs_faults s (fs_tick s) = Some e \<and> r = Inl (OSError e) \<and> t = s\<lparr>fs_tick := Suc (fs_tick s)\<rparr>) \<or>
    (fs_faults s (fs_tick s) = None \<and> f (s\<lparr>fs_tick := Suc (fs_tick s)\<rparr>) = (r, t))"
  using assms by (auto simp: os_step_def Let_def split: option.split_asm)

lemma vault_good_tick [simp]: "vault_good root (s\<lparr>fs_tick := n\<rparr>) = vault_good root s"
  "vault_calm (s\<lparr>fs_tick := n\<rparr>) = vault_calm s"
  "vault_store root (s\<lparr>fs_tick := n\<rparr>) = vault_store root s"
  by (simp_all add: vault_good_def fs_paths_def vault_calm_def vault_store_def fun_eq_iff)

lemma map_of_write: "map_of (fs_files (write_file p c s)) = (map_of (fs_files s))(p \<mapsto> c)"
  by (simp add: write_file_def update_conv')

lemma map_of_remove: "map_of (fs_files (remove_file p s)) = (map_of (fs_files s))(p := None)"
  by (simp add: remove_file_def delete_conv')

lemma write_file_fields [simp]: "fs_dirs (write_file p c s) = fs_dirs s" "fs_temp (write_file p c s) = fs_temp s"
  "fs_faults (write_file p c s) = fs_faults s" "fs_tick (write_file p c s) = fs_tick s"
  "fs_written (write_file p c s) = fs_written s"
  by (simp_all add: write_file_def)

lemma remove_file_fields [simp]: "fs_dirs (remove_file p s) = fs_dirs s" "fs_temp (remove_file p s) = fs_temp s"
  "fs_faults (remove_file p s) = fs_faults s" "fs_tick (remove_file p s) = fs_tick s"
  "fs_written (remove_file p s) = fs_written s"
  by (simp_all add: remove_file_def)

lemma good_write:
  assumes "vault_good root s" and "Dir p \<in> set (fs_dirs s)"
    and "temp_path p \<or> (\<exists>key. key_ok key \<and> p = key_path root key)"
  shows "vault_good root (write_file p c s)"
proof -
  have "fs_paths (write_file p c s) = insert p (fs_paths s)"
    by (simp add: fs_paths_def write_file_def dom_update)
  moreover have "distinct (map fst (fs_files (write_file p c s)))"
    using assms(1) by (simp add: vault_good_def write_file_def distinct_update)
  ultimately show ?thesis using assms by (simp add: vault_good_def)
qed

lemma good_remove: "vault_good root s \<Longrightarrow> vault_good root (remove_file p s)"
proof -
  assume s: "vault_good root s"
  have "fs_paths (remove_file p s) \<subseteq> fs_paths s"
    using dom_delete_subset [of p "fs_files s"] by (simp add: fs_paths_def remove_file_def)
  moreover have "distinct (map fst (fs_files (remove_file p s)))"
    using s by (simp add: vault_good_def remove_file_def distinct_delete)
  ultimately show ?thesis using s unfolding vault_good_def by auto
qed

lemma store_write_temp:
  "temp_path p \<Longrightarrow> vault_store root (write_file p c s) = vault_store root s"
  "temp_path p \<Longrightarrow> vault_store root (remove_file p s) = vault_store root s"
  by (auto simp: vault_store_def fun_eq_iff map_of_write map_of_remove dest: temp_path_not_key)

lemma store_write_key:
  "key_ok key \<Longrightarrow> vault_store root (write_file (key_path root key) c s) = (vault_store root s)(key \<mapsto> c)"
  "key_ok key \<Longrightarrow> vault_store root (remove_file (key_path root key) s) = (vault_store root s)(key := None)"
  by (auto simp: vault_store_def map_of_write map_of_remove fun_eq_iff dest: key_path_inj)

subsection \<open>Putting\<close>

text \<open>What a call leaves as it is.\<close>

definition vault_same :: "string \<Rightarrow> FS \<Rightarrow> FS \<Rightarrow> bool" where
  "vault_same root s t \<longleftrightarrow> vault_good root t \<and> vault_calm t = vault_calm s \<and>
     vault_store root t = vault_store root s \<and> set (fs_dirs s) \<subseteq> set (fs_dirs t)"

lemma vault_same_refl: "vault_good root s \<Longrightarrow> vault_same root s s"
  by (simp add: vault_same_def)

lemma vault_same_trans: "vault_same root s t \<Longrightarrow> vault_same root t u \<Longrightarrow> vault_same root s u"
  by (auto simp: vault_same_def)

lemma vault_same_tick: "vault_good root s \<Longrightarrow> vault_same root s (s\<lparr>fs_tick := n\<rparr>)"
  by (simp add: vault_same_def)

lemma MkdirAll_same:
  assumes "os_MkdirAll d s = (r, t)" and "vault_good root s"
  shows "vault_same root s t \<and> (r = Inr () \<longrightarrow> d \<in> set (fs_dirs t))"
proof -
  have dirs: "vault_good root (u\<lparr>fs_dirs := List.insert d (fs_dirs u)\<rparr>)" if "vault_good root u" for u
    using that by (auto simp: vault_good_def fs_paths_def)
  have "vault_store root (u\<lparr>fs_dirs := ds\<rparr>) = vault_store root u" "vault_calm (u\<lparr>fs_dirs := ds\<rparr>) = vault_calm u" for u ds
    by (simp_all add: vault_store_def fun_eq_iff vault_calm_def)
  with dirs [of "s\<lparr>fs_tick := Suc (fs_tick s)\<rparr>"] assms show ?thesis
    by (auto simp: os_MkdirAll_def dest!: os_step_cases split: if_split_asm intro!: vault_same_tick)
      (auto simp: vault_same_def)
qed

lemma temp_path_under:
  assumes "list_all plain_component cs" and "list_all digit_byte t"
  shows "temp_path (path_of (cs @ [tempFilePrefix @ t]))" "Dir (path_of (cs @ [tempFilePrefix @ t])) = path_of cs"
    "filepath_Join [path_of cs, tempFilePrefix @ t] = path_of (cs @ [tempFilePrefix @ t])"
  using assms temp_component [OF assms(2)] filepath_Join_path_of [of cs "[tempFilePrefix @ t]"]
  by (auto simp: temp_path_def Dir_path_of)

lemma CreateTemp_same:
  assumes "os_CreateTemp (path_of cs) tempFilePrefix s = (r, t)" and "vault_good root s"
    and "list_all plain_component cs" and "path_of cs \<in> set (fs_dirs s)"
  shows "vault_same root s t \<and> (\<forall>p. r = Inr p \<longrightarrow> temp_path p \<and> Dir p = path_of cs)"
proof -
  have t: "list_all digit_byte (fs_temp s n)" for n using assms(2) by (simp add: vault_good_def)
  note temp = temp_path_under [OF assms(3) t]
  have "vault_same root s (write_file (path_of (cs @ [tempFilePrefix @ fs_temp s n])) [] (s\<lparr>fs_tick := m\<rparr>))" for n m
    using good_write [of root "s\<lparr>fs_tick := m\<rparr>" "path_of (cs @ [tempFilePrefix @ fs_temp s n])"] assms(2,4) temp
    by (simp add: vault_same_def store_write_temp vault_calm_def)
  with assms(1) temp vault_same_tick [OF assms(2)] show ?thesis
    by (auto simp: os_CreateTemp_def Let_def dest!: os_step_cases split: if_split_asm)
qed

lemma Copy_same:
  assumes "io_Copy p reader s = (r, t)" and "vault_good root s" and "temp_path p" and "Dir p \<in> set (fs_dirs s)"
  shows "vault_same root s t \<and>
    (\<forall>n. r = Inr n \<longrightarrow> n = int (length (rd_data reader)) \<and> rd_error reader = None \<and>
       map_of (fs_files t) p = Some (rd_data reader))"
proof -
  have "vault_same root s (write_file p c (s\<lparr>fs_tick := m\<rparr>))" for c m
    using good_write [of root "s\<lparr>fs_tick := m\<rparr>" p c] assms(2-4)
    by (simp add: vault_same_def store_write_temp vault_calm_def)
  with assms(1) show ?thesis
    by (auto simp: io_Copy_def Let_def map_of_write split: option.split_asm)
qed

lemma Close_same:
  assumes "os_Close s = (r, t) \<or> os_Chmod p s = (r, t)" and "vault_good root s"
  shows "vault_same root s t \<and> fs_files t = fs_files s"
  using assms vault_same_tick [OF assms(2)] by (auto simp: os_Close_def os_Chmod_def dest!: os_step_cases)

lemma Remove_same:
  assumes "vault_good root s" and "temp_path p"
  shows "vault_same root s (snd (os_Remove p s))"
proof -
  have "vault_same root s (remove_file p (s\<lparr>fs_tick := m\<rparr>))" for m
    using good_remove [of root "s\<lparr>fs_tick := m\<rparr>" p] assms by (simp add: vault_same_def store_write_temp vault_calm_def)
  then show ?thesis
    using vault_same_tick [OF assms(1)] by (auto simp: os_Remove_def os_step_def Let_def split: option.split)
qed

lemma discard_same:
  assumes "discard p text e s = (r, t)" and "vault_good root s" and "temp_path p"
  shows "vault_same root s t \<and> (\<exists>e. r = Inl e)"
  using assms Remove_same [OF assms(2,3)] by (auto simp: discard_def)

lemma Rename_effect:
  assumes "os_Rename p (key_path root key) s = (r, t)" and "vault_good root s" and "temp_path p" and "key_ok key"
    and "map_of (fs_files s) p = Some content" and "scope_path root (scope_of key) \<in> set (fs_dirs s)"
  shows "vault_good root t \<and> vault_calm t = vault_calm s \<and>
    vault_store root t = (case r of Inl e \<Rightarrow> vault_store root s | Inr _ \<Rightarrow> (vault_store root s)(key \<mapsto> content))"
proof -
  let ?u = "\<lambda>m. remove_file p (s\<lparr>fs_tick := m\<rparr>)"
  have ne: "p \<noteq> key_path root key" by (rule temp_path_not_key [OF assms(3,4)])
  have "vault_good root (write_file (key_path root key) content (?u m))" for m
    using good_remove [of root "s\<lparr>fs_tick := m\<rparr>" p] assms(2,4,6)
    by (intro good_write) (auto simp: Dir_key_path)
  moreover have "vault_store root (write_file (key_path root key) content (?u m)) = (vault_store root s)(key \<mapsto> content)" for m
    by (simp add: store_write_key(1) [OF assms(4)] store_write_temp(2) [OF assms(3)])
  ultimately show ?thesis
    using assms(1,2,5) ne
    by (auto simp: os_Rename_def vault_calm_def dest!: os_step_cases split: if_split_asm)
qed

lemma wrapped_cases:
  assumes "wrapped text call s = (r, t)"
  shows "(\<exists>e. call s = (Inl e, t) \<and> r = fail (text @ os_error_text e)) \<or> (\<exists>v. call s = (Inr v, t) \<and> r = ok v)"
  using assms by (auto simp: wrapped_def split: prod.split_asm sum.split_asm)

lemma ctx_Err_same:
  assumes "ctx_Err s = (r, t)" and "vault_good root s"
  shows "vault_same root s t \<and> fs_files t = fs_files s \<and> (\<forall>e. r = Inl e \<longrightarrow> e \<noteq> ErrArtifactNotFound) \<and>
    (vault_calm s \<longrightarrow> r = ok ())"
  using assms vault_same_tick [OF assms(2)]
  by (auto simp: ctx_Err_def Let_def ErrArtifactNotFound_def vault_calm_def split: option.split_asm)

text \<open>What a put does, and how its steps lead there.\<close>

definition put_effect :: "string \<Rightarrow> ArtifactKey \<Rightarrow> Reader \<Rightarrow> FS \<Rightarrow> StoredArtifact result \<Rightarrow> FS \<Rightarrow> bool" where
  "put_effect root key reader s r t \<longleftrightarrow> vault_good root t \<and> vault_calm t = vault_calm s \<and> (case r of
      Inl e \<Rightarrow> vault_store root t = vault_store root s
    | Inr stored \<Rightarrow> rd_error reader = None \<and> vault_store root t = (vault_store root s)(key \<mapsto> rd_data reader) \<and>
        stored = \<lparr>sa_key = key, sa_size = int (length (rd_data reader))\<rparr>)"

lemma put_effect_fail: "vault_same root s t \<Longrightarrow> put_effect root key reader s (Inl e) t"
  by (simp add: put_effect_def vault_same_def)

lemma put_effect_after: "vault_same root s u \<Longrightarrow> put_effect root key reader u r t \<Longrightarrow> put_effect root key reader s r t"
  by (auto simp: put_effect_def vault_same_def split: sum.splits)

lemma put_effect_bind:
  assumes "abind m f s = (r, t)" and "\<And>x u. m s = (x, u) \<Longrightarrow> vault_same root s u"
    and "\<And>v u. m s = (Inr v, u) \<Longrightarrow> f v u = (r, t) \<Longrightarrow> put_effect root key reader u r t"
  shows "put_effect root key reader s r t"
proof -
  obtain x u where m: "m s = (x, u)" by fastforce
  show ?thesis
  proof (cases x)
    case (Inl e)
    with assms(1) m have "r = Inl e" "t = u" by (simp_all add: abind_def)
    with assms(2) [OF m] show ?thesis by (simp add: put_effect_fail)
  next
    case (Inr v)
    with assms(1) m have "f v u = (r, t)" by (simp add: abind_def)
    with Inr m assms(3) show ?thesis using put_effect_after [OF assms(2) [OF m]] by blast
  qed
qed

lemma discard_effect:
  assumes "discard p text e s = (r, t)" and "vault_good root s" and "temp_path p"
  shows "put_effect root key reader s r t"
  using discard_same [OF assms] put_effect_fail by auto

lemma publish_effect:
  assumes s: "vault_good root s" "scope_path root (scope_of key) \<in> set (fs_dirs s)" and key: "key_ok key"
    and p: "temp_path p" "Dir p = scope_path root (scope_of key)"
    and run: "publish key (key_path root key) reader p s = (r, t)"
  shows "put_effect root key reader s r t"
proof -
  obtain copied s4 where copy: "io_Copy p reader s = (copied, s4)" by fastforce
  obtain closed s5 where close: "os_Close s4 = (closed, s5)" by fastforce
  obtain changed s6 where chmod: "os_Chmod p s5 = (changed, s6)" by fastforce
  obtain renamed s7 where ren: "os_Rename p (key_path root key) s6 = (renamed, s7)" by fastforce
  from Copy_same [OF copy s(1) p(1)] s(2) p(2) have c4: "vault_same root s s4" "\<And>n. copied = Inr n \<Longrightarrow>
      n = int (length (rd_data reader)) \<and> rd_error reader = None \<and> map_of (fs_files s4) p = Some (rd_data reader)" by auto
  have c5: "vault_same root s4 s5 \<and> fs_files s5 = fs_files s4"
    using Close_same [of s4 closed s5 p root] close c4(1) by (simp add: vault_same_def)
  have c6: "vault_same root s5 s6 \<and> fs_files s6 = fs_files s5"
    using Close_same [of s5 changed s6 p root] chmod c5 by (simp add: vault_same_def)
  have same: "vault_same root s s5" "vault_same root s s6" using c4(1) c5 c6 by (meson vault_same_trans)+
  then have good: "vault_good root s6" "scope_path root (scope_of key) \<in> set (fs_dirs s6)"
    using s(2) by (auto simp: vault_same_def)
  consider (drop) u e msg where "vault_same root s u" "discard p msg e u = (r, t)"
    | (last) n where "copied = Inr n" "(case renamed of Inl e \<Rightarrow> discard p ''publish artifact: '' e s7
        | Inr _ \<Rightarrow> (ok (NewStoredArtifact key n), s7)) = (r, t)"
    using run copy close chmod ren same by (auto simp: publish_def split: sum.split_asm)
  then show ?thesis
  proof cases
    case drop
    then have "vault_good root u" by (simp add: vault_same_def)
    from put_effect_after [OF drop(1) discard_effect [OF drop(2) this p(1)]] show ?thesis .
  next
    case (last n)
    note n = c4(2) [OF last(1)]
    have "map_of (fs_files s6) p = Some (rd_data reader)" using n c5 c6 by simp
    from Rename_effect [OF ren good(1) p(1) key this good(2)]
    have ren': "vault_good root s7 \<and> vault_calm s7 = vault_calm s6 \<and> vault_store root s7 =
        (case renamed of Inl e \<Rightarrow> vault_store root s6 | Inr _ \<Rightarrow> (vault_store root s6)(key \<mapsto> rd_data reader))" .
    have "put_effect root key reader s6 r t"
    proof (cases renamed)
      case (Inl e)
      then have d: "discard p ''publish artifact: '' e s7 = (r, t)" using last(2) by simp
      from ren' Inl have "vault_good root s7" by simp
      from discard_same [OF d this p(1)] ren' Inl show ?thesis by (auto simp: put_effect_def vault_same_def)
    next
      case (Inr u)
      with last(2) ren' n show ?thesis by (auto simp: put_effect_def NewStoredArtifact_def)
    qed
    then show ?thesis by (rule put_effect_after [OF same(2)])
  qed
qed

lemma PutArtifact_effect:
  assumes root: "root_ok root" and s: "vault_good root s" and key: "key_ok key"
    and run: "PutArtifact root key (Some reader) s = (r, t)"
  shows "put_effect root key reader s r t"
proof -
  define cs where "cs = path_components root @ scope_components (scope_of key)"
  have cs: "list_all plain_component cs" "scope_path root (scope_of key) = path_of cs"
    using scope_plain [OF key_ok_scope [OF key], of root] by (simp_all add: scope_path_def cs_def)
  define mk where "mk = wrapped ''create artifact directory: '' (os_MkdirAll (path_of cs))"
  define temp where "temp = wrapped ''create temp artifact: '' (os_CreateTemp (path_of cs) tempFilePrefix)"
  have run': "abind ctx_Err (\<lambda>_. abind mk (\<lambda>_. abind temp (publish key (key_path root key) reader))) s = (r, t)"
    using run unfolding PutArtifact_def
    by (simp add: keyPath_ok [OF root key] Dir_key_path [OF key] cs(2) alift_def abind_def Let_def mk_def temp_def
        split: prod.split_asm sum.split_asm)
  show ?thesis
  proof (rule put_effect_bind [OF run'])
    show "vault_same root s u" if "ctx_Err s = (x, u)" for x u using ctx_Err_same [OF that s] by simp
  next
    fix v s1 assume c: "ctx_Err s = (Inr v, s1)" and run1: "abind mk (\<lambda>_. abind temp (publish key (key_path root key) reader)) s1 = (r, t)"
    from ctx_Err_same [OF c s] have s1: "vault_good root s1" by (simp add: vault_same_def)
    show "put_effect root key reader s1 r t"
    proof (rule put_effect_bind [OF run1])
      show "vault_same root s1 u" if "mk s1 = (x, u)" for x u
        using wrapped_cases [OF that [unfolded mk_def]] MkdirAll_same [OF _ s1] by blast
    next
      fix v s2 assume m: "mk s1 = (Inr v, s2)" and run2: "abind temp (publish key (key_path root key) reader) s2 = (r, t)"
      from wrapped_cases [OF m [unfolded mk_def]] have m': "os_MkdirAll (path_of cs) s1 = (Inr (), s2)" by auto
      from MkdirAll_same [OF m' s1] have s2: "vault_good root s2" "path_of cs \<in> set (fs_dirs s2)"
        by (auto simp: vault_same_def)
      show "put_effect root key reader s2 r t"
      proof (rule put_effect_bind [OF run2])
        show "vault_same root s2 u" if "temp s2 = (x, u)" for x u
          using wrapped_cases [OF that [unfolded temp_def]] CreateTemp_same [OF _ s2(1) cs(1) s2(2)] by blast
      next
        fix p s3 assume c3: "temp s2 = (Inr p, s3)" and run3: "publish key (key_path root key) reader p s3 = (r, t)"
        from wrapped_cases [OF c3 [unfolded temp_def]] have "os_CreateTemp (path_of cs) tempFilePrefix s2 = (Inr p, s3)" by auto
        from CreateTemp_same [OF this s2(1) cs(1) s2(2)] s2(2) have "vault_good root s3" "path_of cs \<in> set (fs_dirs s3)"
          "temp_path p" "Dir p = path_of cs" by (auto simp: vault_same_def)
        with publish_effect [of root s3 key p reader r t] key run3 cs(2) show "put_effect root key reader s3 r t" by simp
      qed
    qed
  qed
qed

subsection \<open>Getting, deleting and listing\<close>

lemma GetArtifact_effect:
  assumes root: "root_ok root" and s: "vault_good root s" and key: "key_ok key" and run: "GetArtifact root key s = (r, t)"
  shows "vault_same root s t \<and> (case r of
      Inl e \<Rightarrow> e = ErrArtifactNotFound \<longrightarrow> vault_store root s key = None
    | Inr body \<Rightarrow> \<exists>content. vault_store root s key = Some content \<and> (rd_error body = None \<longrightarrow> rd_data body = content)) \<and>
    (vault_calm s \<longrightarrow> (\<forall>content. vault_store root s key = Some content \<longrightarrow>
       r = ok \<lparr>rd_data = content, rd_error = None\<rparr>))"
proof -
  obtain r1 s1 where c: "ctx_Err s = (r1, s1)" by fastforce
  note c' = ctx_Err_same [OF c s]
  then have s1: "vault_good root s1" by (simp add: vault_same_def)
  show ?thesis
  proof (cases r1)
    case (Inl e)
    with run c have "r = Inl e" "t = s1" by (simp_all add: GetArtifact_def abind_def)
    with c' Inl show ?thesis by auto
  next
    case (Inr u)
    obtain q where q: "os_Open (key_path root key) s1 = (q, t)"
      and r: "r = (case q of Inl NotExist \<Rightarrow> Inl ErrArtifactNotFound
        | Inl e \<Rightarrow> fail (''open artifact: '' @ os_error_text e) | Inr file \<Rightarrow> ok file)"
      using run c Inr by (auto simp: GetArtifact_def abind_def alift_def keyPath_ok [OF root key]
          split: prod.split_asm sum.split_asm os_error.split_asm)
    have store: "vault_store root s key = map_of (fs_files s1) (key_path root key)"
      using c' key by (simp add: vault_store_def)
    have same: "vault_same root s1 t"
      using q vault_same_tick [OF s1] by (auto simp: os_Open_def dest!: os_step_cases split: option.split_asm)
    have calm: "vault_calm s = (fs_faults s1 = (\<lambda>_. None))" using c' by (simp add: vault_same_def vault_calm_def)
    have "vault_same root s t" using c' same by (blast intro: vault_same_trans)
    with q store show ?thesis
      by (auto simp: r calm os_Open_def ErrArtifactNotFound_def dest!: os_step_cases split: option.split_asm)
  qed
qed

lemma DeleteArtifact_effect:
  assumes root: "root_ok root" and s: "vault_good root s" and key: "key_ok key" and run: "DeleteArtifact root key s = (r, t)"
  shows "vault_good root t \<and> vault_calm t = vault_calm s \<and> (case r of
      Inl e \<Rightarrow> vault_store root t = vault_store root s | Inr _ \<Rightarrow> vault_store root t = (vault_store root s)(key := None)) \<and>
    (vault_calm s \<longrightarrow> is_ok r)"
proof -
  obtain r1 s1 where c: "ctx_Err s = (r1, s1)" by fastforce
  note c' = ctx_Err_same [OF c s]
  then have s1: "vault_good root s1" by (simp add: vault_same_def)
  show ?thesis
  proof (cases r1)
    case (Inl e)
    with run c have "r = Inl e" "t = s1" by (simp_all add: DeleteArtifact_def abind_def)
    with c' Inl show ?thesis by (auto simp: vault_same_def)
  next
    case (Inr u)
    let ?p = "key_path root key"
    obtain q where q: "os_Remove ?p s1 = (q, t)"
      and r: "r = (case q of Inl NotExist \<Rightarrow> ok () | Inl e \<Rightarrow> fail (''delete artifact: '' @ os_error_text e) | Inr _ \<Rightarrow> ok ())"
      using run c Inr by (auto simp: DeleteArtifact_def abind_def alift_def keyPath_ok [OF root key]
          split: prod.split_asm sum.split_asm os_error.split_asm)
    let ?u = "s1\<lparr>fs_tick := Suc (fs_tick s1)\<rparr>"
    consider (fault) e where "fs_faults s1 (fs_tick s1) = Some e" "q = Inl (OSError e)" "t = ?u"
      | (none) "map_of (fs_files s1) ?p = None" "q = Inl NotExist" "t = ?u"
      | (gone) "q = Inr ()" "t = remove_file ?p ?u"
      using q by (auto simp: os_Remove_def dest!: os_step_cases split: if_split_asm)
    then have "vault_good root t \<and> vault_calm t = vault_calm s1 \<and> (case r of
      Inl e \<Rightarrow> vault_store root t = vault_store root s1 | Inr _ \<Rightarrow> vault_store root t = (vault_store root s1)(key := None)) \<and>
      (vault_calm s1 \<longrightarrow> is_ok r)"
    proof cases
      case fault
      with s1 show ?thesis by (auto simp: r vault_calm_def)
    next
      case none
      then have "vault_store root s1 key = None" by (simp add: vault_store_def)
      then have "(vault_store root s1)(key := None) = vault_store root s1" by (rule fun_upd_idem)
      with none s1 show ?thesis by (simp add: r)
    next
      case gone
      then show ?thesis
        using good_remove [of root ?u ?p] s1 store_write_key(2) [OF key, of root ?u] by (simp add: r vault_calm_def)
    qed
    with c' show ?thesis by (auto simp: vault_same_def split: sum.splits)
  qed
qed

text \<open>The entries of a scope directory.\<close>

lemma entry_name_path:
  assumes "list_all plain_component ds" and "ds \<noteq> []" and "list_all plain_component (cs @ [n])"
  shows "entry_name (path_of ds) (path_of (cs @ [n])) = (if cs = ds then Some n else None)"
proof (cases "cs = ds")
  case True
  with assms show ?thesis by (auto simp: entry_name_def path_of_snoc HasPrefix_def plain_component_def)
next
  case False
  have "entry_name (path_of ds) (path_of (cs @ [n])) \<noteq> Some m" for m
  proof
    assume m: "entry_name (path_of ds) (path_of (cs @ [n])) = Some m"
    then have "path_of (cs @ [n]) = path_of ds @ ''/'' @ m" "CHR ''/'' \<notin> set m"
      by (auto simp: entry_name_def Let_def HasPrefix_def prefix_def split: if_split_asm)
    then have "path_of (cs @ [n]) = CHR ''/'' # Join (ds @ [m]) ''/''" using assms(2) by (simp add: path_of_def Join_append)
    moreover have "\<forall>c\<in>set (ds @ [m]). CHR ''/'' \<notin> set c"
      using assms(1) \<open>CHR ''/'' \<notin> set m\<close> by (auto simp: list_all_iff plain_component_def)
    then have "split_byte CHR ''/'' (Join (ds @ [m]) ''/'') = ds @ [m]" by (intro split_byte_Join) auto
    ultimately have "split_byte CHR ''/'' (path_of (cs @ [n])) = [] # ds @ [m]" by simp
    then show False using split_path_of [OF assms(3)] False by simp
  qed
  then have "entry_name (path_of ds) (path_of (cs @ [n])) = None" by blast
  with False show ?thesis by simp
qed

definition entry_key :: "ArtifactScope \<Rightarrow> string \<Rightarrow> ArtifactKey option" where
  "entry_key scope name =
     (if HasPrefix name tempFilePrefix then None
      else case rbind (NewArtifactName name) (\<lambda>name.
          NewArtifactKey (as_organizationID scope) (as_projectID scope) (as_kind scope) name) of
        Inl e \<Rightarrow> None | Inr key \<Rightarrow> Some key)"

lemma list_entries_effect:
  assumes "list_entries scope es s = (stored, t)"
  shows "\<exists>n. t = s\<lparr>fs_tick := n\<rparr>"
    and "\<forall>a\<in>set stored. \<exists>name n. (name, n) \<in> set es \<and> entry_key scope name = Some (sa_key a) \<and> sa_size a = n"
    and "vault_calm s \<Longrightarrow> sa_key ` set stored = {key. \<exists>name n. (name, n) \<in> set es \<and> entry_key scope name = Some key}"
proof -
  have "(\<exists>n. t = s\<lparr>fs_tick := n\<rparr>) \<and>
    (\<forall>a\<in>set stored. \<exists>name n. (name, n) \<in> set es \<and> entry_key scope name = Some (sa_key a) \<and> sa_size a = n) \<and>
    (vault_calm s \<longrightarrow> sa_key ` set stored = {key. \<exists>name n. (name, n) \<in> set es \<and> entry_key scope name = Some key})"
    using assms
  proof (induction es arbitrary: s stored t)
    case Nil
    then show ?case by (auto intro: exI [of _ "fs_tick s"])
  next
    case (Cons e es)
    obtain name n where e: "e = (name, n)" by fastforce
    show ?case
    proof (cases "entry_key scope name")
      case None
      then have rest: "list_entries scope es s = (stored, t)"
        using Cons.prems by (auto simp: e entry_key_def split: if_split_asm sum.split_asm)
      from Cons.IH [OF rest] None show ?thesis by (auto simp: e)
    next
      case (Some key)
      obtain x u where info: "os_Info e s = (x, u)" by fastforce
      then have u: "u = s\<lparr>fs_tick := Suc (fs_tick s)\<rparr>" "\<And>m. x = Inr m \<Longrightarrow> m = n" "vault_calm s \<Longrightarrow> x = Inr n"
        by (auto simp: os_Info_def e vault_calm_def dest!: os_step_cases)
      obtain rest t' where rest: "list_entries scope es u = (rest, t')" by fastforce
      have t: "t' = t" "stored = (case x of Inl _ \<Rightarrow> rest | Inr m \<Rightarrow> NewStoredArtifact key m # rest)"
        using Cons.prems Some info rest
        by (auto simp: e entry_key_def split: if_split_asm sum.split_asm prod.split_asm)
      have IH: "\<exists>n. t = u\<lparr>fs_tick := n\<rparr>"
        "\<forall>a\<in>set rest. \<exists>name n. (name, n) \<in> set es \<and> entry_key scope name = Some (sa_key a) \<and> sa_size a = n"
        "vault_calm u \<Longrightarrow> sa_key ` set rest = {key. \<exists>name n. (name, n) \<in> set es \<and> entry_key scope name = Some key}"
        using Cons.IH [OF rest] t(1) by auto
      have "\<exists>n. t = s\<lparr>fs_tick := n\<rparr>" using IH(1) u(1) by auto
      moreover have "\<forall>a\<in>set stored. \<exists>name n. (name, n) \<in> set (e # es) \<and> entry_key scope name = Some (sa_key a) \<and> sa_size a = n"
      proof
        fix a assume "a \<in> set stored"
        then consider "a \<in> set rest" | "x = Inr n" "a = NewStoredArtifact key n"
          using t(2) u(2) by (cases x) auto
        then show "\<exists>name n. (name, n) \<in> set (e # es) \<and> entry_key scope name = Some (sa_key a) \<and> sa_size a = n"
        proof cases
          case 1
          with IH(2) show ?thesis by fastforce
        next
          case 2
          with Some show ?thesis by (auto simp: e NewStoredArtifact_def)
        qed
      qed
      moreover have "sa_key ` set stored = {key. \<exists>name n. (name, n) \<in> set (e # es) \<and> entry_key scope name = Some key}"
        if "vault_calm s"
      proof -
        have "vault_calm u" using that u(1) by simp
        with IH(3) u(3) [OF that] t(2) Some show ?thesis by (auto simp: e NewStoredArtifact_def)
      qed
      ultimately show ?thesis by blast
    qed
  qed
  then show "\<exists>n. t = s\<lparr>fs_tick := n\<rparr>"
    and "\<forall>a\<in>set stored. \<exists>name n. (name, n) \<in> set es \<and> entry_key scope name = Some (sa_key a) \<and> sa_size a = n"
    and "vault_calm s \<Longrightarrow> sa_key ` set stored = {key. \<exists>name n. (name, n) \<in> set es \<and> entry_key scope name = Some key}"
    by simp_all
qed


text \<open>The entries of a scope that have a key are the artifacts of the scope.\<close>

lemma scope_components_inj:
  assumes "scope_ok a" and "scope_ok b" and "scope_components a = scope_components b"
  shows "a = b"
proof -
  from assms(3) have eqs: "dashedUUID (OrganizationID_value (as_organizationID a)) = dashedUUID (OrganizationID_value (as_organizationID b))"
    "dashedUUID (ProjectID_value (as_projectID a)) = dashedUUID (ProjectID_value (as_projectID b))"
    "ArtifactKind_value (as_kind a) = ArtifactKind_value (as_kind b)"
    by (simp_all add: scope_components_def OrganizationID_String_def ProjectID_String_def)
  then have "OrganizationID_value (as_organizationID a) = OrganizationID_value (as_organizationID b)"
    "ProjectID_value (as_projectID a) = ProjectID_value (as_projectID b)"
    using assms(1,2) by (simp_all add: scope_ok_def dashedUUID_inj)
  with eqs(3) show ?thesis
    by (intro ArtifactScope.equality OrganizationID.expand ProjectID.expand ArtifactKind.expand) simp_all
qed

lemma entry_key_name:
  assumes "scope_ok scope" and "NewArtifactName name = ok nm" and "ArtifactName_value nm = name"
  shows "entry_key scope name = Some key \<longleftrightarrow> key_ok key \<and> scope_of key = scope \<and> key_name key = nm"
proof -
  have "\<not> HasPrefix name tempFilePrefix"
    using artifact_name_component(2) [OF assms(2)] assms(3) by (auto simp: HasPrefix_def tempFilePrefix_def prefix_def)
  moreover have "name \<noteq> []" using artifact_name_component(1) [OF assms(2)] assms(3) by (simp add: plain_component_def)
  moreover have "ArtifactKind_value (as_kind scope) \<noteq> []"
    using assms(1) dotless_kind by (auto simp: scope_ok_def dotless_def)
  ultimately have "entry_key scope name = Some \<lparr>key_organizationID = as_organizationID scope,
      key_projectID = as_projectID scope, key_kind = as_kind scope, key_name = nm\<rparr>"
    using assms by (auto simp: entry_key_def NewArtifactKey_def scope_ok_def hex_pattern_def)
  with assms show ?thesis by (auto simp: key_ok_def scope_ok_def scope_of_def)
qed

lemma entry_key_temp: "entry_key scope (tempFilePrefix @ t) = None"
  by (simp add: entry_key_def HasPrefix_def)

definition scope_entries :: "string \<Rightarrow> ArtifactScope \<Rightarrow> FS \<Rightarrow> (string \<times> int) set" where
  "scope_entries root scope s = {(name, int (length content)) | name p content.
     (p, content) \<in> set (fs_files s) \<and> entry_name (scope_path root scope) p = Some name}"

lemma read_entries:
  "set (sort_key fst (List.map_filter (\<lambda>(p, content).
       map_option (\<lambda>name. (name, int (length content))) (entry_name dir p)) fs)) =
   {(name, int (length content)) | name p content. (p, content) \<in> set fs \<and> entry_name dir p = Some name}"
  by (induction fs) (auto simp: map_filter_simps split: option.split)

lemma scope_entries_store:
  assumes s: "vault_good root s" and scope: "scope_ok scope"
  shows "(\<exists>name. (name, n) \<in> scope_entries root scope s \<and> entry_key scope name = Some key) \<longleftrightarrow>
    key_ok key \<and> scope_of key = scope \<and> (\<exists>content. vault_store root s key = Some content \<and> n = int (length content))"
    (is "?l \<longleftrightarrow> ?r")
proof -
  let ?ds = "path_components root @ scope_components scope"
  have ds: "list_all plain_component ?ds" "?ds \<noteq> []" by (rule scope_plain [OF scope]) (simp add: scope_components_def)
  have key_entry: "entry_name (scope_path root scope) (key_path root k) =
      (if scope_of k = scope then Some (ArtifactName_value (key_name k)) else None)" if k: "key_ok k" for k
    using entry_name_path [OF ds, of "path_components root @ scope_components (scope_of k)" "ArtifactName_value (key_name k)"]
      key_plain [OF k, of root] scope_components_inj [OF key_ok_scope [OF k] scope]
    by (auto simp: scope_path_def key_path_def)
  have temp_entry: "entry_key scope name = None"
    if p: "temp_path p" "entry_name (scope_path root scope) p = Some name" for p name
  proof -
    from p(1) obtain cs t where t: "list_all plain_component cs" "list_all digit_byte t"
      "p = path_of (cs @ [tempFilePrefix @ t])" by (auto simp: temp_path_def)
    with entry_name_path [OF ds, of cs "tempFilePrefix @ t"] p(2) temp_component [OF t(2)]
    have "name = tempFilePrefix @ t" by (auto simp: scope_path_def split: if_split_asm)
    then show ?thesis by (simp add: entry_key_temp)
  qed
  show ?thesis
  proof
    assume ?l
    then obtain name p content where f: "(p, content) \<in> set (fs_files s)" "entry_name (scope_path root scope) p = Some name"
      "entry_key scope name = Some key" "n = int (length content)" by (auto simp: scope_entries_def)
    have m: "map_of (fs_files s) p = Some content" using s f(1) by (simp add: vault_good_def)
    have "p \<in> fs_paths s" using f(1) by (force simp: fs_paths_def)
    with s temp_entry [OF _ f(2)] f(3) obtain k where k: "key_ok k" "p = key_path root k" by (auto simp: vault_good_def)
    with key_entry [OF k(1)] f(2) have kn: "scope_of k = scope" "name = ArtifactName_value (key_name k)"
      by (auto split: if_split_asm)
    have "NewArtifactName name = ok (key_name k)" using k(1) kn(2) by (simp add: key_ok_def)
    from entry_key_name [OF scope this] kn(2) f(3) have key: "key_ok key" "scope_of key = scope" "key_name key = key_name k"
      by auto
    have "key = k" using key(2,3) kn(1) by (auto simp: scope_of_def intro!: ArtifactKey.equality)
    with key k m f(4) show ?r by (simp add: vault_store_def)
  next
    assume r: ?r
    then obtain content where c: "vault_store root s key = Some content" "n = int (length content)" by auto
    let ?n = "ArtifactName_value (key_name key)"
    have "(key_path root key, content) \<in> set (fs_files s)"
      using r c by (auto simp: vault_store_def dest: map_of_SomeD)
    with key_entry [of key] r c(2) have "(?n, n) \<in> scope_entries root scope s" by (auto simp: scope_entries_def)
    moreover have "entry_key scope ?n = Some key"
      using entry_key_name [OF scope, of ?n "key_name key" key] r by (simp add: key_ok_def)
    ultimately show ?l by blast
  qed
qed

lemma ListArtifacts_effect:
  assumes root: "root_ok root" and s: "vault_good root s" and scope: "scope_ok scope"
    and run: "ListArtifacts root scope s = (r, t)"
  shows "vault_same root s t"
    and "r = Inr stored \<Longrightarrow> a \<in> set stored \<Longrightarrow> key_ok (sa_key a) \<and> scope_of (sa_key a) = scope \<and>
      (\<exists>content. vault_store root s (sa_key a) = Some content \<and> sa_size a = int (length content))"
    and "vault_calm s \<Longrightarrow> \<exists>stored. r = Inr stored \<and>
      sorted (map (\<lambda>a. ArtifactName_value (key_name (sa_key a))) stored) \<and>
      sa_key ` set stored = {key. key_ok key \<and> scope_of key = scope \<and> vault_store root s key \<noteq> None}"
proof -
  obtain r1 s1 where c: "ctx_Err s = (r1, s1)" by fastforce
  note c' = ctx_Err_same [OF c s]
  then have s1: "vault_good root s1" by (simp add: vault_same_def)
  have none: "vault_store root s key = None"
    if "scope_path root scope \<notin> set (fs_dirs s1)" "key_ok key" "scope_of key = scope" for key
  proof (rule ccontr)
    assume "vault_store root s key \<noteq> None"
    then have "key_path root key \<in> fs_paths s1"
      using c' that(2) by (force simp: vault_store_def fs_paths_def dest: map_of_SomeD)
    with s1 have "Dir (key_path root key) \<in> set (fs_dirs s1)" by (auto simp: vault_good_def)
    with that show False by (simp add: Dir_key_path)
  qed
  have "vault_same root s t \<and>
    (\<forall>stored. r = Inr stored \<longrightarrow> (\<forall>a\<in>set stored. key_ok (sa_key a) \<and> scope_of (sa_key a) = scope \<and>
      (\<exists>content. vault_store root s (sa_key a) = Some content \<and> sa_size a = int (length content)))) \<and>
    (vault_calm s \<longrightarrow> (\<exists>stored. r = Inr stored \<and>
      sorted (map (\<lambda>a. ArtifactName_value (key_name (sa_key a))) stored) \<and>
      sa_key ` set stored = {key. key_ok key \<and> scope_of key = scope \<and> vault_store root s key \<noteq> None}))"
  proof (cases r1)
    case (Inl e)
    with run c have "r = Inl e" "t = s1" by (simp_all add: ListArtifacts_def abind_def)
    with c' Inl show ?thesis by auto
  next
    case (Inr u)
    have calm: "vault_calm s = (fs_faults s1 = (\<lambda>_. None))" using c' by (simp add: vault_same_def vault_calm_def)
    obtain q u where q: "os_ReadDir (scope_path root scope) s1 = (q, u)" by fastforce
    note run' = run [unfolded ListArtifacts_def abind_def alift_def scopePath_ok [OF root scope]]
    consider (fault) e where "q = Inl (OSError e)" "\<not> vault_calm s"
      | (missing) "q = Inl NotExist" "scope_path root scope \<notin> set (fs_dirs s1)"
      | (entries) es where "q = Inr es" "set es = scope_entries root scope s1"
      using os_step_cases [OF q [unfolded os_ReadDir_def]] read_entries [of "scope_path root scope" "fs_files s1"]
      by (fastforce simp: calm scope_entries_def split: if_split_asm)
    moreover have "u = s1\<lparr>fs_tick := Suc (fs_tick s1)\<rparr>"
      using os_step_cases [OF q [unfolded os_ReadDir_def]] by (auto split: if_split_asm)
    then have "vault_same root s u" using vault_same_tick [OF s1] c' by (blast intro: vault_same_trans)
    moreover have "scope_entries root scope s1 = scope_entries root scope s" using c' by (simp add: scope_entries_def)
    ultimately show ?thesis
    proof cases
      case fault
      then show ?thesis using run' c Inr q \<open>vault_same root s u\<close> by auto
    next
      case missing
      then show ?thesis using run' c Inr q \<open>vault_same root s u\<close> none by auto
    next
      case entries
      obtain stored u' where l: "list_entries scope es u = (stored, u')" by fastforce
      have rt: "t = u'" "r = ok (sort_key (\<lambda>a. ArtifactName_value (key_name (sa_key a))) stored)"
        using run' c Inr q entries(1) l by auto
      note l' = list_entries_effect [OF l]
      have es: "(\<exists>name. (name, n) \<in> set es \<and> entry_key scope name = Some key) \<longleftrightarrow>
        key_ok key \<and> scope_of key = scope \<and> (\<exists>content. vault_store root s key = Some content \<and> n = int (length content))" for key n
        using scope_entries_store [OF s scope] entries(2) \<open>scope_entries root scope s1 = scope_entries root scope s\<close> by simp
      have "vault_same root s t"
        using l'(1) rt(1) vault_same_tick \<open>vault_same root s u\<close> by (auto simp: vault_same_def)
      moreover have "key_ok (sa_key a) \<and> scope_of (sa_key a) = scope \<and>
          (\<exists>content. vault_store root s (sa_key a) = Some content \<and> sa_size a = int (length content))" if "a \<in> set stored" for a
        using l'(2) that es [of "sa_size a" "sa_key a"] by blast
      moreover have "sa_key ` set stored = {key. key_ok key \<and> scope_of key = scope \<and> vault_store root s key \<noteq> None}" if "vault_calm s"
      proof -
        have "vault_calm u" using that \<open>vault_same root s u\<close> by (simp add: vault_same_def)
        from l'(3) [OF this] have "sa_key ` set stored =
            {key. \<exists>n name. (name, n) \<in> set es \<and> entry_key scope name = Some key}" by auto
        then show ?thesis by (auto simp: es)
      qed
      ultimately show ?thesis by (simp add: rt)
    qed
  qed
  then show "vault_same root s t"
    and "r = Inr stored \<Longrightarrow> a \<in> set stored \<Longrightarrow> key_ok (sa_key a) \<and> scope_of (sa_key a) = scope \<and>
      (\<exists>content. vault_store root s (sa_key a) = Some content \<and> sa_size a = int (length content))"
    and "vault_calm s \<Longrightarrow> \<exists>stored. r = Inr stored \<and>
      sorted (map (\<lambda>a. ArtifactName_value (key_name (sa_key a))) stored) \<and>
      sa_key ` set stored = {key. key_ok key \<and> scope_of key = scope \<and> vault_store root s key \<noteq> None}"
    by blast+
qed

subsection \<open>When no call fails\<close>

text \<open>A tree without temporary files, whose directories are the root and those of the scopes.\<close>

definition tidy :: "string \<Rightarrow> FS \<Rightarrow> bool" where
  "tidy root s \<longleftrightarrow> (\<forall>p\<in>fs_paths s. \<exists>key. key_ok key \<and> p = key_path root key) \<and>
     (\<forall>d\<in>set (fs_dirs s). d = root \<or> (\<exists>scope. scope_ok scope \<and> d = scope_path root scope))"

lemma fs_paths_simps [simp]:
  "fs_paths (write_file p c s) = insert p (fs_paths s)"
  "fs_paths (remove_file p s) = fs_paths s - {p}"
  "fs_paths (s\<lparr>fs_tick := n\<rparr>) = fs_paths s"
  "fs_paths (s\<lparr>fs_dirs := ds\<rparr>) = fs_paths s"
  by (simp_all add: fs_paths_def write_file_def remove_file_def dom_update) (auto simp: AList.delete_eq)

lemma tidy_cong: "fs_paths t = fs_paths s \<Longrightarrow> set (fs_dirs t) = set (fs_dirs s) \<Longrightarrow> tidy root t = tidy root s"
  by (simp add: tidy_def)

lemma tidy_tick [simp]: "tidy root (s\<lparr>fs_tick := n\<rparr>) = tidy root s"
  by (simp add: tidy_def)

lemma tidy_remove: "tidy root s \<Longrightarrow> tidy root (remove_file p s)"
  by (simp add: tidy_def)

lemma map_of_paths: "map_of (fs_files s) p = None \<longleftrightarrow> p \<notin> fs_paths s"
  by (simp add: fs_paths_def map_of_eq_None_iff)

lemma calm_step: "vault_calm s \<Longrightarrow> os_step f s = f (s\<lparr>fs_tick := Suc (fs_tick s)\<rparr>)"
  by (simp add: os_step_def vault_calm_def)

text \<open>Directories, keys and temporary files never meet: their paths differ in length or in the last name.\<close>

lemma scope_path_not_key: "scope_ok scope \<Longrightarrow> key_ok key \<Longrightarrow> scope_path root scope \<noteq> key_path root key"
  using path_of_inj [OF scope_plain key_plain, of scope key root root]
  by (auto simp: scope_path_def key_path_def scope_components_def)

lemma root_not_below: "root_ok root \<Longrightarrow> list_all plain_component (path_components root @ cs) \<Longrightarrow> cs \<noteq> [] \<Longrightarrow>
    path_of (path_components root @ cs) \<noteq> root"
  using path_of_inj [of "path_components root @ cs" "path_components root"] root_path [of root] by auto

lemma tidy_dirs:
  assumes "tidy root s" and "root_ok root" and "key_ok key"
  shows "key_path root key \<notin> set (fs_dirs s)"
    "scope_path root (scope_of key) \<notin> fs_paths s"
    "list_all digit_byte t \<Longrightarrow> path_of (path_components root @ scope_components (scope_of key) @ [tempFilePrefix @ t]) \<notin> fs_paths s"
    "list_all digit_byte t \<Longrightarrow> path_of (path_components root @ scope_components (scope_of key) @ [tempFilePrefix @ t]) \<notin> set (fs_dirs s)"
proof -
  show "key_path root key \<notin> set (fs_dirs s)"
    using assms scope_path_not_key [of _ key root] root_not_below [of root "scope_components (scope_of key) @ [ArtifactName_value (key_name key)]"]
      key_plain [OF assms(3), of root]
    by (force simp: tidy_def key_path_def)
  show "scope_path root (scope_of key) \<notin> fs_paths s"
    using assms scope_path_not_key [OF key_ok_scope [OF assms(3)]] by (auto simp: tidy_def)
  assume t: "list_all digit_byte t"
  let ?cs = "path_components root @ scope_components (scope_of key)"
  have plain: "list_all plain_component (?cs @ [tempFilePrefix @ t])"
    using scope_plain [OF key_ok_scope [OF assms(3)], of root] temp_component [OF t] by simp
  have "temp_path (path_of (?cs @ [tempFilePrefix @ t]))"
    using scope_plain [OF key_ok_scope [OF assms(3)], of root] t unfolding temp_path_def by blast
  then show "path_of (path_components root @ scope_components (scope_of key) @ [tempFilePrefix @ t]) \<notin> fs_paths s"
    using assms(1) temp_path_not_key by (force simp: tidy_def)
  have "path_of (?cs @ [tempFilePrefix @ t]) \<noteq> scope_path root scope" if "scope_ok scope" for scope
    using path_of_inj [OF plain scope_plain [OF that, of root]] by (auto simp: scope_path_def scope_components_def)
  moreover have "path_of (?cs @ [tempFilePrefix @ t]) \<noteq> root"
    using root_not_below [OF assms(2), of "scope_components (scope_of key) @ [tempFilePrefix @ t]"] plain by simp
  ultimately show "path_of (path_components root @ scope_components (scope_of key) @ [tempFilePrefix @ t]) \<notin> set (fs_dirs s)"
    using assms(1) by (auto simp: tidy_def)
qed

lemma PutArtifact_calm:
  assumes root: "root_ok root" and s: "vault_good root s" "vault_calm s" "tidy root s" and key: "key_ok key"
    and run: "PutArtifact root key (Some reader) s = (r, t)"
  shows "tidy root t \<and> (rd_error reader = None \<longrightarrow> is_ok r)"
proof -
  let ?d = "scope_path root (scope_of key)"
  define s1 where "s1 = s\<lparr>fs_tick := Suc (fs_tick s)\<rparr>"
  define s2 where "s2 = (let u = s1\<lparr>fs_tick := Suc (fs_tick s1)\<rparr> in u\<lparr>fs_dirs := List.insert ?d (fs_dirs u)\<rparr>)"
  define p where "p = path_of (path_components root @ scope_components (scope_of key) @ [tempFilePrefix @ fs_temp s (Suc (fs_tick s2))])"
  have digits: "list_all digit_byte (fs_temp s n)" for n using s(1) by (simp add: vault_good_def)
  have s2: "vault_calm s2" "tidy root s2" "fs_paths s2 = fs_paths s" "fs_temp s2 = fs_temp s" "fs_dirs s2 = List.insert ?d (fs_dirs s)"
    using s(2,3) key_ok_scope [OF key] by (auto simp: s2_def s1_def Let_def vault_calm_def tidy_def)
  have new: "p \<notin> fs_paths s2" "p \<notin> set (fs_dirs s2)" "key_path root key \<notin> set (fs_dirs s2)" "p \<noteq> key_path root key"
    using tidy_dirs [OF s2(2) root key] digits temp_path_not_key [OF temp_path_under(1) [OF scope_plain [OF key_ok_scope [OF key], of root] digits] key]
    by (simp_all add: p_def)
  have join: "filepath_Join [?d, tempFilePrefix @ fs_temp s n] =
      path_of (path_components root @ scope_components (scope_of key) @ [tempFilePrefix @ fs_temp s n])" for n
    using temp_path_under(3) [OF scope_plain [OF key_ok_scope [OF key], of root] digits] by (simp add: scope_path_def)
  have mk: "os_MkdirAll ?d s1 = (Inr (), s2)"
    using s(2,3) tidy_dirs(2) [OF s(3) root key]
    by (simp add: os_MkdirAll_def calm_step s1_def s2_def vault_calm_def [symmetric] Let_def map_of_paths)
  have temp: "os_CreateTemp ?d tempFilePrefix s2 = (Inr p, write_file p [] (s2\<lparr>fs_tick := Suc (fs_tick s2)\<rparr>))"
    using new s2 by (simp add: os_CreateTemp_def calm_step join p_def map_of_paths Let_def)
  define s3 where "s3 = write_file p [] (s2\<lparr>fs_tick := Suc (fs_tick s2)\<rparr>)"
  have "PutArtifact root key (Some reader) s = publish key (key_path root key) reader p s3"
    using s(2) mk temp
    by (simp add: PutArtifact_def abind_def alift_def ctx_Err_def vault_calm_def keyPath_ok [OF root key] Dir_key_path [OF key]
        Let_def wrapped_def s1_def [symmetric] s3_def)
  with run have run: "publish key (key_path root key) reader p s3 = (r, t)" by simp
  have s3: "vault_calm s3" "fs_paths s3 = insert p (fs_paths s)" "set (fs_dirs s3) = insert ?d (set (fs_dirs s))"
    using s2 by (simp_all add: s3_def vault_calm_def)
  have p3: "map_of (fs_files s3) p = Some []" by (simp add: s3_def map_of_write)
  let ?s4 = "write_file p (rd_data reader) (s3\<lparr>fs_tick := Suc (fs_tick s3)\<rparr>)"
  define s5 where "s5 = ?s4\<lparr>fs_tick := Suc (fs_tick ?s4)\<rparr>"
  have s5: "vault_calm s5" "fs_paths s5 = insert p (fs_paths s)" "set (fs_dirs s5) = insert ?d (set (fs_dirs s))"
    "map_of (fs_files s5) p = Some (rd_data reader)"
    using s3 by (simp_all add: s5_def vault_calm_def map_of_write)
  have close: "os_Close ?s4 = (Inr (), s5)"
    using s3(1) by (simp add: os_Close_def calm_step vault_calm_def s5_def os_step_def)
  have copy: "io_Copy p reader s3 = ((case rd_error reader of Some e \<Rightarrow> Inl (OSError e)
      | None \<Rightarrow> Inr (int (length (rd_data reader)))), ?s4)"
    using s3(1) by (simp add: io_Copy_def vault_calm_def Let_def split: option.split)
  show ?thesis
  proof (cases "rd_error reader")
    case (Some e)
    have "os_Remove p s5 = (Inr (), remove_file p (s5\<lparr>fs_tick := Suc (fs_tick s5)\<rparr>))"
      using s5 by (simp add: os_Remove_def calm_step)
    with run copy close Some have "t = remove_file p (s5\<lparr>fs_tick := Suc (fs_tick s5)\<rparr>)"
      by (simp add: publish_def discard_def)
    with s5 new(1) s2 Some show ?thesis by (auto simp: tidy_def)
  next
    case None
    define s6 where "s6 = s5\<lparr>fs_tick := Suc (fs_tick s5)\<rparr>"
    define s7 where "s7 = s6\<lparr>fs_tick := Suc (fs_tick s6)\<rparr>"
    have s7: "vault_calm s6" "fs_paths s7 = insert p (fs_paths s)" "set (fs_dirs s7) = insert ?d (set (fs_dirs s))"
      "map_of (fs_files s7) p = Some (rd_data reader)"
      using s5 by (simp_all add: s6_def s7_def)
    have "os_Chmod p s5 = (Inr (), s6)" using s5(1) by (simp add: os_Chmod_def calm_step s6_def)
    moreover have "os_Rename p (key_path root key) s6 = (Inr (), write_file (key_path root key) (rd_data reader) (remove_file p s7))"
      using s7 new(3,4) s2(5) by (simp add: os_Rename_def calm_step s7_def [symmetric])
    ultimately have "r = ok (NewStoredArtifact key (int (length (rd_data reader))))"
      "t = write_file (key_path root key) (rd_data reader) (remove_file p s7)"
      using run copy close None by (simp_all add: publish_def)
    with s7 new(1) s2 key show ?thesis by (auto simp: tidy_def)
  qed
qed

lemma ctx_Err_tick: "ctx_Err s = (r, t) \<Longrightarrow> fs_files t = fs_files s \<and> fs_dirs t = fs_dirs s"
  by (auto simp: ctx_Err_def Let_def split: option.split_asm)

lemma GetArtifact_tidy:
  assumes "GetArtifact root key s = (r, t)" and "tidy root s"
  shows "tidy root t"
proof -
  have "fs_files t = fs_files s \<and> fs_dirs t = fs_dirs s"
    using assms(1) by (auto simp: GetArtifact_def abind_def alift_def os_Open_def os_step_def Let_def dest!: ctx_Err_tick
      split: prod.split_asm sum.split_asm os_error.split_asm option.split_asm if_split_asm)
  with assms(2) show ?thesis by (simp add: tidy_def fs_paths_def)
qed

lemma DeleteArtifact_tidy: "DeleteArtifact root key s = (r, t) \<Longrightarrow> tidy root s \<Longrightarrow> tidy root t"
  by (auto simp: DeleteArtifact_def abind_def alift_def os_Remove_def os_step_def Let_def tidy_def fs_paths_def remove_file_def AList.delete_eq
      dest!: ctx_Err_tick split: prod.split_asm sum.split_asm os_error.split_asm option.split_asm if_split_asm)

lemma ListArtifacts_tidy: "ListArtifacts root scope s = (r, t) \<Longrightarrow> tidy root s \<Longrightarrow> tidy root t"
  by (auto simp: ListArtifacts_def abind_def alift_def os_ReadDir_def os_step_def Let_def tidy_def fs_paths_def
      dest!: ctx_Err_tick list_entries_effect(1) split: prod.split_asm sum.split_asm os_error.split_asm option.split_asm if_split_asm)

text \<open>The vault in a directory tree keeps the contract, for every cleaned root.\<close>

definition rooted :: "string \<Rightarrow> FS \<Rightarrow> bool" where
  "rooted root s \<longleftrightarrow> root_ok root \<and> vault_good root s"

definition untroubled :: "string \<Rightarrow> FS \<Rightarrow> bool" where
  "untroubled root s \<longleftrightarrow> vault_calm s \<and> tidy root s"

lemmas filesystem_defs = FilesystemVault_def rooted_def untroubled_def

interpretation filesystem_vault: artifact_vault "FilesystemVault root" "rooted root" "untroubled root" "vault_store root"
proof
  fix s t :: FS and key reader r
  assume s: "rooted root s" "key_ok key"
  show "rooted root t \<and> (untroubled root s \<longrightarrow> untroubled root t) \<and> (case r of
        Inl e \<Rightarrow> vault_store root t = vault_store root s
      | Inr stored \<Rightarrow> rd_error reader = None \<and> vault_store root t = (vault_store root s)(key \<mapsto> rd_data reader) \<and>
          stored = \<lparr>sa_key = key, sa_size = int (length (rd_data reader))\<rparr>)"
    if "av_Put (FilesystemVault root) key (Some reader) s = (r, t)"
    using PutArtifact_effect [of root s key reader r t] PutArtifact_calm [of root s key reader r t] s that
    by (auto simp: filesystem_defs put_effect_def)
  show "is_ok (fst (av_Put (FilesystemVault root) key (Some reader) s))" if "untroubled root s" "rd_error reader = None"
    using PutArtifact_calm [of root s key reader] s that by (cases "PutArtifact root key (Some reader) s") (auto simp: filesystem_defs)
next
  fix s t :: FS and key r
  assume s: "rooted root s" "key_ok key"
  show "rooted root t \<and> (untroubled root s \<longrightarrow> untroubled root t) \<and> vault_store root t = vault_store root s \<and> (case r of
        Inl e \<Rightarrow> e = ErrArtifactNotFound \<longrightarrow> vault_store root s key = None
      | Inr body \<Rightarrow> \<exists>content. vault_store root s key = Some content \<and> (rd_error body = None \<longrightarrow> rd_data body = content))"
    if "av_Get (FilesystemVault root) key s = (r, t)"
    using GetArtifact_effect [of root s key r t] GetArtifact_tidy [of root key s r t] s that
    by (auto simp: filesystem_defs vault_same_def)
  show "\<exists>t. av_Get (FilesystemVault root) key s = (ok \<lparr>rd_data = content, rd_error = None\<rparr>, t)"
    if "untroubled root s" "vault_store root s key = Some content" for content
    using GetArtifact_effect [of root s key "fst (GetArtifact root key s)" "snd (GetArtifact root key s)"] s that
    by (cases "GetArtifact root key s") (auto simp: filesystem_defs)
next
  fix s t :: FS and key r
  assume s: "rooted root s" "key_ok key"
  show "rooted root t \<and> (untroubled root s \<longrightarrow> untroubled root t) \<and> (case r of
        Inl e \<Rightarrow> vault_store root t = vault_store root s | Inr _ \<Rightarrow> vault_store root t = (vault_store root s)(key := None))"
    if "av_Delete (FilesystemVault root) key s = (r, t)"
    using DeleteArtifact_effect [of root s key r t] DeleteArtifact_tidy [of root key s r t] s that by (auto simp: filesystem_defs)
  show "is_ok (fst (av_Delete (FilesystemVault root) key s))" if "untroubled root s"
    using DeleteArtifact_effect [of root s key "fst (DeleteArtifact root key s)" "snd (DeleteArtifact root key s)"] s that
    by (simp add: filesystem_defs)
next
  fix s t :: FS and scope l
  assume s: "rooted root s" "scope_ok scope" and run: "av_List (FilesystemVault root) scope s = (l, t)"
  show "rooted root t \<and> (untroubled root s \<longrightarrow> untroubled root t) \<and> vault_store root t = vault_store root s \<and> (case l of
        Inl e \<Rightarrow> True
      | Inr stored \<Rightarrow> \<forall>a\<in>set stored. key_ok (sa_key a) \<and> scope_of (sa_key a) = scope \<and>
          (\<exists>content. vault_store root s (sa_key a) = Some content \<and> sa_size a = int (length content)))"
    using ListArtifacts_effect(1,2) [of root s scope l t] ListArtifacts_tidy [of root scope s l t] s run
    by (auto simp: filesystem_defs vault_same_def split: sum.split)
  show "\<exists>stored. l = Inr stored \<and> sorted (map (\<lambda>a. ArtifactName_value (key_name (sa_key a))) stored) \<and>
        sa_key ` set stored = {key. key_ok key \<and> scope_of key = scope \<and> vault_store root s key \<noteq> None}"
    if "untroubled root s"
    using ListArtifacts_effect(3) [of root s scope l t] s run that by (simp add: filesystem_defs)
qed

end
