(* ===== verification/ArtifactServices.thy ===== *)
theory ArtifactServices
  imports VaultContract SourceMaps Events
begin

text \<open>
  The services that keep uploaded files in the artifact vault: \<open>service.go\<close> and \<open>sniff.go\<close> of
  \<open>internal/app/sourcemaps\<close>, \<open>debugfiles\<close> and \<open>minidumps\<close>. They work on any vault; what they promise is
  proved in the locale of the vault's contract.
\<close>

subsection \<open>Storing at most so many bytes\<close>

text \<open>
  The part the three \<open>Upload\<close> methods share: one byte more than allowed is read, and an artifact that has it is
  deleted again. The error of that deletion is dropped.
\<close>

definition put_within :: "'s ArtifactVault \<Rightarrow> int \<Rightarrow> go_error \<Rightarrow> ArtifactKey \<Rightarrow> Reader \<Rightarrow> ('s, int) action" where
  "put_within vault maxBytes tooLarge key contents =
     abind (av_Put vault key (Some (LimitReader (nat (maxBytes + 1)) contents))) (\<lambda>put s.
     if sa_size put > maxBytes then (Inl tooLarge, snd (av_Delete vault key s))
     else (ok (sa_size put), s))"

text \<open>The part \<open>Load\<close> and \<open>Get\<close> share: the error of a missing artifact becomes the service's own.\<close>

definition get_artifact :: "'s ArtifactVault \<Rightarrow> go_error \<Rightarrow> ArtifactKey \<Rightarrow> ('s, Reader) action" where
  "get_artifact vault notFound key s =
     (case av_Get vault key s of
       (Inl e, t) \<Rightarrow> (Inl (if e = ErrArtifactNotFound then notFound else e), t)
     | (Inr body, t) \<Rightarrow> (ok body, t))"

text \<open>\<open>io.ReadAll(io.LimitReader(body, max+1))\<close> with the check of the length.\<close>

definition read_within :: "int \<Rightarrow> go_error \<Rightarrow> Reader \<Rightarrow> string result" where
  "read_within maxBytes tooLarge body =
     rbind (ReadAll (LimitReader (nat (maxBytes + 1)) body)) (\<lambda>payload.
     if int (length payload) > maxBytes then Inl tooLarge else ok payload)"

subsection \<open>Source maps\<close>

definition sourceMapMaxBytes :: int where "sourceMapMaxBytes = 64 * 1024 * 1024"

definition ErrSourceMapNotFound :: go_error where "ErrSourceMapNotFound = GoErr ''source map not found''"
definition ErrSourceMapTooLarge :: go_error where "ErrSourceMapTooLarge = GoErr ''source map exceeds size limit''"

record StoredSourceMap =
  sm_identity :: SourceMapIdentity
  sm_size :: int

definition SourceMapKey :: "OrganizationID \<Rightarrow> ProjectID \<Rightarrow> SourceMapIdentity \<Rightarrow> ArtifactKey result" where
  "SourceMapKey organizationID projectID identity =
     NewArtifactKey organizationID projectID ArtifactKindSourceMap (SourceMapIdentity_ArtifactName identity)"

definition SourceMapUpload :: "'s ArtifactVault \<Rightarrow> OrganizationID \<Rightarrow> ProjectID \<Rightarrow> SourceMapIdentity \<Rightarrow>
    Reader option \<Rightarrow> ('s, StoredSourceMap) action" where
  "SourceMapUpload vault organizationID projectID identity contents =
     (case contents of None \<Rightarrow> afail ''source map contents are required'' | Some reader \<Rightarrow>
      abind (alift (SourceMapKey organizationID projectID identity)) (\<lambda>key.
      abind (put_within vault sourceMapMaxBytes ErrSourceMapTooLarge key reader) (\<lambda>n.
      areturn \<lparr>sm_identity = identity, sm_size = n\<rparr>)))"

definition SourceMapLoad :: "(string \<Rightarrow> rawSourceMap result) \<Rightarrow> 's ArtifactVault \<Rightarrow> OrganizationID \<Rightarrow> ProjectID \<Rightarrow>
    SourceMapIdentity \<Rightarrow> ('s, SourceMap) action" where
  "SourceMapLoad unmarshal vault organizationID projectID identity =
     abind (alift (SourceMapKey organizationID projectID identity)) (\<lambda>key.
     abind (get_artifact vault ErrSourceMapNotFound key) (\<lambda>body.
     alift (rbind (read_within sourceMapMaxBytes ErrSourceMapTooLarge body) (ParseSourceMap unmarshal))))"

text \<open>\<open>LookupFrame\<close> may panic on a map with negative indexes, and \<open>Resolve\<close> with it.\<close>

definition SourceMapResolve :: "(string \<Rightarrow> rawSourceMap result) \<Rightarrow> 's ArtifactVault \<Rightarrow> OrganizationID \<Rightarrow> ProjectID \<Rightarrow>
    SourceMapIdentity \<Rightarrow> GeneratedPosition \<Rightarrow> 's \<Rightarrow> ResolvedFrame result run \<times> 's" where
  "SourceMapResolve unmarshal vault organizationID projectID identity position s =
     (case SourceMapLoad unmarshal vault organizationID projectID identity s of
       (Inl e, t) \<Rightarrow> (Returns (Inl e), t)
     | (Inr loaded, t) \<Rightarrow>
         (bind_run (LookupFrame loaded position) (\<lambda>found.
            Returns (case found of None \<Rightarrow> Inl ErrSourceMapNotFound | Some frame \<Rightarrow> ok frame)), t))"

subsection \<open>Debug files\<close>

definition debugFileMaxBytes :: int where "debugFileMaxBytes = 256 * 1024 * 1024"
definition debugFileSniffPrefixSize :: nat where "debugFileSniffPrefixSize = 64"

definition ErrDebugFileNotFound :: go_error where "ErrDebugFileNotFound = GoErr ''debug file not found''"
definition ErrDebugFileTooLarge :: go_error where "ErrDebugFileTooLarge = GoErr ''debug file exceeds size limit''"
definition ErrUnsupportedDebugFile :: go_error where
  "ErrUnsupportedDebugFile = GoErr ''debug file format is not supported''"
definition ErrDebugFileMismatch :: go_error where
  "ErrDebugFileMismatch = GoErr ''debug file payload does not match declared kind''"

definition elfMagic :: string where "elfMagic = [CHR 0x7F, CHR 0x45, CHR 0x4C, CHR 0x46]"

definition machoMagics :: "string list" where
  "machoMagics =
     [[CHR 0xFE, CHR 0xED, CHR 0xFA, CHR 0xCE], [CHR 0xFE, CHR 0xED, CHR 0xFA, CHR 0xCF],
      [CHR 0xCE, CHR 0xFA, CHR 0xED, CHR 0xFE], [CHR 0xCF, CHR 0xFA, CHR 0xED, CHR 0xFE],
      [CHR 0xCA, CHR 0xFE, CHR 0xBA, CHR 0xBE], [CHR 0xBE, CHR 0xBA, CHR 0xFE, CHR 0xCA]]"

definition pdbMagic :: string where
  "pdbMagic = ''Microsoft C/C++ MSF 7.00'' @ [CHR 0x0D, CHR 0x0A, CHR 0x1A] @ ''DS''"

definition breakpadMagic :: string where "breakpadMagic = ''MODULE ''"

definition DetectKind :: "string \<Rightarrow> DebugFileKind result" where
  "DetectKind start =
     (if start = [] then fail ''debug file payload is empty''
      else if HasPrefix start elfMagic then ok DebugFileKindELF
      else if HasPrefix start pdbMagic then ok DebugFileKindPDB
      else if HasPrefix start breakpadMagic then ok DebugFileKindBreakpad
      else if list_ex (HasPrefix start) machoMagics then ok DebugFileKindMachO
      else Inl ErrUnsupportedDebugFile)"

definition MatchesDeclaredKind :: "DebugFileKind \<Rightarrow> string \<Rightarrow> unit result" where
  "MatchesDeclaredKind declared start =
     rbind (DetectKind start) (\<lambda>detected.
     if DebugFileKind_value detected \<noteq> DebugFileKind_value declared then Inl ErrDebugFileMismatch else ok ())"

record StoredDebugFile =
  df_identity :: DebugFileIdentity
  df_size :: int

record Listing =
  storedKey :: ArtifactKey
  listing_size :: int

definition DebugFileKey :: "OrganizationID \<Rightarrow> ProjectID \<Rightarrow> DebugFileIdentity \<Rightarrow> ArtifactKey result" where
  "DebugFileKey organizationID projectID identity =
     NewArtifactKey organizationID projectID ArtifactKindDebugFile (DebugFileIdentity_ArtifactName identity)"

definition DebugFileUpload :: "'s ArtifactVault \<Rightarrow> OrganizationID \<Rightarrow> ProjectID \<Rightarrow> DebugFileIdentity \<Rightarrow>
    Reader option \<Rightarrow> ('s, StoredDebugFile) action" where
  "DebugFileUpload vault organizationID projectID identity contents =
     (case contents of None \<Rightarrow> afail ''debug file contents are required'' | Some reader \<Rightarrow>
      abind (alift (ReadFull debugFileSniffPrefixSize reader)) (\<lambda>(start, rest).
      abind (alift (MatchesDeclaredKind (dfi_kind identity) start)) (\<lambda>_.
      abind (alift (DebugFileKey organizationID projectID identity)) (\<lambda>key.
      abind (put_within vault debugFileMaxBytes ErrDebugFileTooLarge key (MultiReader start rest)) (\<lambda>n.
      areturn \<lparr>df_identity = identity, df_size = n\<rparr>)))))"

definition DebugFileGet :: "'s ArtifactVault \<Rightarrow> OrganizationID \<Rightarrow> ProjectID \<Rightarrow> DebugFileIdentity \<Rightarrow> ('s, Reader) action" where
  "DebugFileGet vault organizationID projectID identity =
     abind (alift (DebugFileKey organizationID projectID identity)) (\<lambda>key.
     get_artifact vault ErrDebugFileNotFound key)"

definition listing_of :: "StoredArtifact \<Rightarrow> Listing" where
  "listing_of item = \<lparr>storedKey = sa_key item, listing_size = sa_size item\<rparr>"

definition DebugFileList :: "'s ArtifactVault \<Rightarrow> OrganizationID \<Rightarrow> ProjectID \<Rightarrow> ('s, Listing list) action" where
  "DebugFileList vault organizationID projectID =
     abind (alift (NewArtifactScope organizationID projectID ArtifactKindDebugFile)) (\<lambda>scope.
     abind (av_List vault scope) (\<lambda>stored. areturn (map listing_of stored)))"

subsection \<open>Minidumps\<close>

definition minidumpMaxBytes :: int where "minidumpMaxBytes = 100 * 1024 * 1024"
definition minidumpSniffPrefixSize :: nat where "minidumpSniffPrefixSize = 16"

definition ErrMinidumpNotFound :: go_error where "ErrMinidumpNotFound = GoErr ''minidump not found''"
definition ErrMinidumpTooLarge :: go_error where "ErrMinidumpTooLarge = GoErr ''minidump exceeds size limit''"
definition ErrUnsupportedMinidump :: go_error where
  "ErrUnsupportedMinidump = GoErr ''minidump payload is not supported''"

definition minidumpMagic :: string where "minidumpMagic = ''MDMP''"

definition DetectMinidump :: "string \<Rightarrow> unit result" where
  "DetectMinidump start =
     (if start = [] then fail ''minidump payload is empty''
      else if \<not> HasPrefix start minidumpMagic then Inl ErrUnsupportedMinidump else ok ())"

record StoredMinidump =
  md_identity :: MinidumpIdentity
  md_size :: int

definition MinidumpKey :: "OrganizationID \<Rightarrow> ProjectID \<Rightarrow> MinidumpIdentity \<Rightarrow> ArtifactKey result" where
  "MinidumpKey organizationID projectID identity =
     NewArtifactKey organizationID projectID ArtifactKindMinidump (MinidumpIdentity_ArtifactName identity)"

definition MinidumpUpload :: "'s ArtifactVault \<Rightarrow> OrganizationID \<Rightarrow> ProjectID \<Rightarrow> MinidumpIdentity \<Rightarrow>
    Reader option \<Rightarrow> ('s, StoredMinidump) action" where
  "MinidumpUpload vault organizationID projectID identity contents =
     (case contents of None \<Rightarrow> afail ''minidump contents are required'' | Some reader \<Rightarrow>
      abind (alift (ReadFull minidumpSniffPrefixSize reader)) (\<lambda>(start, rest).
      abind (alift (DetectMinidump start)) (\<lambda>_.
      abind (alift (MinidumpKey organizationID projectID identity)) (\<lambda>key.
      abind (put_within vault minidumpMaxBytes ErrMinidumpTooLarge key (MultiReader start rest)) (\<lambda>n.
      areturn \<lparr>md_identity = identity, md_size = n\<rparr>)))))"

definition MinidumpGet :: "'s ArtifactVault \<Rightarrow> OrganizationID \<Rightarrow> ProjectID \<Rightarrow> MinidumpIdentity \<Rightarrow> ('s, Reader) action" where
  "MinidumpGet vault organizationID projectID identity =
     abind (alift (MinidumpKey organizationID projectID identity)) (\<lambda>key.
     get_artifact vault ErrMinidumpNotFound key)"

definition MinidumpDelete :: "'s ArtifactVault \<Rightarrow> OrganizationID \<Rightarrow> ProjectID \<Rightarrow> MinidumpIdentity \<Rightarrow> ('s, unit) action" where
  "MinidumpDelete vault organizationID projectID identity =
     abind (alift (MinidumpKey organizationID projectID identity)) (av_Delete vault)"

definition MinidumpList :: "'s ArtifactVault \<Rightarrow> OrganizationID \<Rightarrow> ProjectID \<Rightarrow> ('s, Listing list) action" where
  "MinidumpList vault organizationID projectID =
     abind (alift (NewArtifactScope organizationID projectID ArtifactKindMinidump)) (\<lambda>scope.
     abind (av_List vault scope) (\<lambda>stored. areturn (map listing_of stored)))"

subsection \<open>The keys of identities\<close>

lemma artifact_key_ok:
  assumes "hex_pattern 32 (OrganizationID_value organizationID)" and "hex_pattern 32 (ProjectID_value projectID)"
    and "kind \<in> set artifact_kinds" and "NewArtifactName (ArtifactName_value name) = ok name"
  shows "\<exists>key. NewArtifactKey organizationID projectID kind name = ok key \<and> key_ok key"
proof -
  have "ArtifactName_value name \<noteq> []" using artifact_name_component(1) [OF assms(4)] by (simp add: plain_component_def)
  moreover have "ArtifactKind_value kind \<noteq> []" using dotless_kind [OF assms(3)] by (simp add: dotless_def)
  ultimately show ?thesis using assms by (auto simp: NewArtifactKey_def key_ok_def hex_pattern_def)
qed

lemma service_key_ok:
  assumes "hex_pattern 32 (OrganizationID_value organizationID)" and "hex_pattern 32 (ProjectID_value projectID)"
  shows "\<exists>key. SourceMapKey organizationID projectID i = ok key \<and> key_ok key"
    "\<exists>key. DebugFileKey organizationID projectID j = ok key \<and> key_ok key"
    "\<exists>key. MinidumpKey organizationID projectID k = ok key \<and> key_ok key"
  unfolding SourceMapKey_def DebugFileKey_def MinidumpKey_def
  by (rule artifact_key_ok [OF assms]; simp add: artifact_kinds_def sourceMapIdentity.accepted
      debugFileIdentity.accepted minidumpIdentity.accepted)+

lemma service_key_scope:
  "SourceMapKey organizationID projectID i = ok key \<Longrightarrow>
    scope_of key = \<lparr>as_organizationID = organizationID, as_projectID = projectID, as_kind = ArtifactKindSourceMap\<rparr>"
  "DebugFileKey organizationID projectID j = ok key \<Longrightarrow>
    scope_of key = \<lparr>as_organizationID = organizationID, as_projectID = projectID, as_kind = ArtifactKindDebugFile\<rparr>"
  "MinidumpKey organizationID projectID k = ok key \<Longrightarrow>
    scope_of key = \<lparr>as_organizationID = organizationID, as_projectID = projectID, as_kind = ArtifactKindMinidump\<rparr>"
  by (auto simp: SourceMapKey_def DebugFileKey_def MinidumpKey_def NewArtifactKey_def scope_of_def split: if_split_asm)

lemma NewArtifactScope_ok:
  assumes "hex_pattern 32 (OrganizationID_value organizationID)" and "hex_pattern 32 (ProjectID_value projectID)"
    and "kind \<in> set artifact_kinds"
  shows "NewArtifactScope organizationID projectID kind =
      ok \<lparr>as_organizationID = organizationID, as_projectID = projectID, as_kind = kind\<rparr>"
    "scope_ok \<lparr>as_organizationID = organizationID, as_projectID = projectID, as_kind = kind\<rparr>"
  using assms dotless_kind [OF assms(3)] dotless_dashedUUID [OF assms(1)] dotless_dashedUUID [OF assms(2)]
  by (auto simp: NewArtifactScope_def scope_ok_def dotless_def OrganizationID_String_def ProjectID_String_def)

lemma ReadFull_MultiReader:
  assumes "ReadFull n reader = ok (start, rest)"
  shows "MultiReader start rest = reader" "start = take n (rd_data reader)"
  using assms by (auto simp: ReadFull_def MultiReader_def split: if_split_asm option.split_asm)

subsection \<open>What the services promise on every vault\<close>

text \<open>
  The effect of an upload under a key: either the vault is as before, or the contents are too long and the key has
  lost its artifact (or holds the cut contents, when the deletion failed), or the key holds the contents.
\<close>

definition upload_effect :: "int \<Rightarrow> go_error \<Rightarrow> ArtifactKey \<Rightarrow> Reader \<Rightarrow> (ArtifactKey \<rightharpoonup> string) \<Rightarrow> int result \<Rightarrow>
    (ArtifactKey \<rightharpoonup> string) \<Rightarrow> bool" where
  "upload_effect maxBytes tooLarge key reader before r after \<longleftrightarrow> (case r of
     Inl e \<Rightarrow> after = before \<or> e = tooLarge \<and> int (length (rd_data reader)) > maxBytes \<and>
       (after = before(key := None) \<or> after = before(key \<mapsto> take (nat (maxBytes + 1)) (rd_data reader)))
   | Inr n \<Rightarrow> n = int (length (rd_data reader)) \<and> n \<le> maxBytes \<and> rd_error reader = None \<and>
       after = before(key \<mapsto> rd_data reader))"

lemma LimitReader_within:
  assumes "0 \<le> maxBytes" and "rd_error (LimitReader (nat (maxBytes + 1)) reader) = None"
    and "int (length (rd_data (LimitReader (nat (maxBytes + 1)) reader))) \<le> maxBytes"
  shows "LimitReader (nat (maxBytes + 1)) reader = reader" "int (length (rd_data reader)) \<le> maxBytes"
  using assms by (auto simp: LimitReader_def split: if_split_asm)

lemma LimitReader_beyond:
  assumes "0 \<le> maxBytes" and "int (length (rd_data (LimitReader (nat (maxBytes + 1)) reader))) > maxBytes"
  shows "LimitReader (nat (maxBytes + 1)) reader = \<lparr>rd_data = take (nat (maxBytes + 1)) (rd_data reader), rd_error = None\<rparr>"
    "int (length (rd_data reader)) > maxBytes"
  using assms by (auto simp: LimitReader_def nat_le_iff split: if_split_asm)

context artifact_vault begin

lemma put_within_effect:
  assumes s: "good s" and key: "key_ok key" and maxBytes: "0 \<le> maxBytes"
    and run: "put_within vault maxBytes tooLarge key reader s = (r, t)"
  shows "good t \<and> (calm s \<longrightarrow> calm t) \<and> upload_effect maxBytes tooLarge key reader (store s) r (store t)"
    and "calm s \<Longrightarrow> int (length (rd_data reader)) \<le> maxBytes \<Longrightarrow> rd_error reader = None \<Longrightarrow> is_ok r"
    and "calm s \<Longrightarrow> int (length (rd_data reader)) > maxBytes \<Longrightarrow> r = Inl tooLarge \<and> store t = (store s)(key := None)"
proof -
  let ?l = "LimitReader (nat (maxBytes + 1)) reader"
  obtain q u where put: "av_Put vault key (Some ?l) s = (q, u)" by fastforce
  note law = put_law [OF s key put]
  obtain d v where del: "av_Delete vault key u = (d, v)" by fastforce
  have calm_put: "is_ok q" if "calm s" "rd_error ?l = None"
    using put_calm [OF s key that] put by simp
  show "good t \<and> (calm s \<longrightarrow> calm t) \<and> upload_effect maxBytes tooLarge key reader (store s) r (store t)"
  proof (cases q)
    case (Inl e)
    with law run put show ?thesis by (auto simp: put_within_def abind_def upload_effect_def)
  next
    case (Inr stored)
    with law have st: "rd_error ?l = None" "store u = (store s)(key \<mapsto> rd_data ?l)" "sa_size stored = int (length (rd_data ?l))"
      "good u" "calm s \<longrightarrow> calm u" by auto
    show ?thesis
    proof (cases "sa_size stored > maxBytes")
      case True
      with run put del Inr have "r = Inl tooLarge" "t = v" by (simp_all add: put_within_def abind_def)
      with delete_law [OF st(4) key del] st LimitReader_beyond [OF maxBytes, of reader] True
      show ?thesis by (auto simp: upload_effect_def split: sum.split_asm)
    next
      case False
      with run put Inr have "r = ok (sa_size stored)" "t = u" by (simp_all add: put_within_def abind_def)
      with st LimitReader_within [OF maxBytes st(1)] False show ?thesis by (simp add: upload_effect_def)
    qed
  qed
  show "is_ok r" if c: "calm s" "int (length (rd_data reader)) \<le> maxBytes" "rd_error reader = None"
  proof -
    have l: "?l = reader" using c(2,3) maxBytes by (auto simp: LimitReader_def)
    with calm_put [OF c(1)] c(3) obtain stored where "q = ok stored" by (auto simp: result_simps)
    with law run put l c(2) show ?thesis by (auto simp: put_within_def abind_def)
  qed
  show "r = Inl tooLarge \<and> store t = (store s)(key := None)" if c: "calm s" "int (length (rd_data reader)) > maxBytes"
  proof -
    have l: "rd_error ?l = None" "int (length (rd_data ?l)) > maxBytes"
      using c(2) maxBytes by (auto simp: LimitReader_def nat_le_iff)
    with calm_put [OF c(1)] obtain stored where q: "q = ok stored" by (auto simp: result_simps)
    with law l c(1) have st: "sa_size stored > maxBytes" "good u" "calm u" "store u = (store s)(key \<mapsto> rd_data ?l)" by auto
    with run put del q have "r = Inl tooLarge" "t = v" by (simp_all add: put_within_def abind_def)
    with delete_law [OF st(2) key del] delete_calm [OF st(2) key st(3)] del st(4) show ?thesis
      by (auto simp: result_simps)
  qed
qed

lemma get_artifact_effect:
  assumes s: "good s" and key: "key_ok key" and run: "get_artifact vault notFound key s = (r, t)"
  shows "good t \<and> (calm s \<longrightarrow> calm t) \<and> store t = store s"
    and "calm s \<Longrightarrow> store s key = Some content \<Longrightarrow> r = ok \<lparr>rd_data = content, rd_error = None\<rparr>"
    and "r = ok body \<Longrightarrow> rd_error body = None \<Longrightarrow> store s key = Some (rd_data body)"
proof -
  obtain q u where get: "av_Get vault key s = (q, u)" by fastforce
  have run': "r = (case q of Inl e \<Rightarrow> Inl (if e = ErrArtifactNotFound then notFound else e) | Inr body \<Rightarrow> ok body)" "t = u"
    using run get by (auto simp: get_artifact_def split: sum.splits)
  with get_law [OF s key get]
  show "good t \<and> (calm s \<longrightarrow> calm t) \<and> store t = store s"
    and "r = ok body \<Longrightarrow> rd_error body = None \<Longrightarrow> store s key = Some (rd_data body)"
    by (auto split: sum.split_asm)
  show "r = ok \<lparr>rd_data = content, rd_error = None\<rparr>" if "calm s" "store s key = Some content"
    using get_calm [OF s key that] get run' by auto
qed

text \<open>The three uploads.\<close>

lemma SourceMapUpload_runs:
  assumes "SourceMapKey organizationID projectID identity = ok key"
  shows "SourceMapUpload vault organizationID projectID identity (Some reader) s =
    (case put_within vault sourceMapMaxBytes ErrSourceMapTooLarge key reader s of
      (Inl e, t) \<Rightarrow> (Inl e, t) | (Inr n, t) \<Rightarrow> (ok \<lparr>sm_identity = identity, sm_size = n\<rparr>, t))"
  using assms by (auto simp: SourceMapUpload_def abind_def alift_def areturn_def split: prod.split sum.split)

lemma DebugFileUpload_runs:
  assumes "DebugFileKey organizationID projectID identity = ok key"
    and "ReadFull debugFileSniffPrefixSize reader = ok (start, rest)" and "MatchesDeclaredKind (dfi_kind identity) start = ok ()"
  shows "DebugFileUpload vault organizationID projectID identity (Some reader) s =
    (case put_within vault debugFileMaxBytes ErrDebugFileTooLarge key reader s of
      (Inl e, t) \<Rightarrow> (Inl e, t) | (Inr n, t) \<Rightarrow> (ok \<lparr>df_identity = identity, df_size = n\<rparr>, t))"
  using assms ReadFull_MultiReader [OF assms(2)]
  by (auto simp: DebugFileUpload_def abind_def alift_def areturn_def split: prod.split sum.split)

lemma MinidumpUpload_runs:
  assumes "MinidumpKey organizationID projectID identity = ok key"
    and "ReadFull minidumpSniffPrefixSize reader = ok (start, rest)" and "DetectMinidump start = ok ()"
  shows "MinidumpUpload vault organizationID projectID identity (Some reader) s =
    (case put_within vault minidumpMaxBytes ErrMinidumpTooLarge key reader s of
      (Inl e, t) \<Rightarrow> (Inl e, t) | (Inr n, t) \<Rightarrow> (ok \<lparr>md_identity = identity, md_size = n\<rparr>, t))"
  using assms ReadFull_MultiReader [OF assms(2)]
  by (auto simp: MinidumpUpload_def abind_def alift_def areturn_def split: prod.split sum.split)

lemma MinidumpUpload_effect:
  assumes s: "good s"
    and ids: "hex_pattern 32 (OrganizationID_value organizationID)" "hex_pattern 32 (ProjectID_value projectID)"
    and run: "MinidumpUpload vault organizationID projectID identity contents s = (r, t)"
  shows "good t \<and> (calm s \<longrightarrow> calm t) \<and> (\<exists>key. MinidumpKey organizationID projectID identity = ok key \<and> key_ok key \<and>
    (\<forall>other. other \<noteq> key \<longrightarrow> store t other = store s other) \<and>
    (case r of
      Inl e \<Rightarrow> (e \<noteq> ErrMinidumpTooLarge \<longrightarrow> store t = store s) \<and>
        (calm s \<longrightarrow> store t = store s \<or> store t = (store s)(key := None))
    | Inr stored \<Rightarrow> \<exists>reader. contents = Some reader \<and> store t = (store s)(key \<mapsto> rd_data reader) \<and>
        md_size stored = int (length (rd_data reader)) \<and> md_size stored \<le> minidumpMaxBytes))"
proof -
  obtain key where key: "MinidumpKey organizationID projectID identity = ok key" "key_ok key"
    using service_key_ok(3) [OF ids, of identity] by blast
  consider (early) e where "r = Inl e" "t = s"
    | (put) reader start rest where "contents = Some reader" "ReadFull minidumpSniffPrefixSize reader = ok (start, rest)"
      "DetectMinidump start = ok ()"
    using run by (auto simp: MinidumpUpload_def abind_def alift_def afail_def split: option.split_asm sum.split_asm prod.split_asm)
  then show ?thesis
  proof cases
    case early
    with s key show ?thesis by auto
  next
    case put
    obtain q u where q: "put_within vault minidumpMaxBytes ErrMinidumpTooLarge key reader s = (q, u)" by fastforce
    have "0 \<le> minidumpMaxBytes" by (simp add: minidumpMaxBytes_def)
    note eff = put_within_effect [OF s key(2) this q]
    have "t = u" "r = (case q of Inl e \<Rightarrow> Inl e | Inr n \<Rightarrow> ok \<lparr>md_identity = identity, md_size = n\<rparr>)"
      using run MinidumpUpload_runs [OF key(1) put(2,3)] q put(1) by (auto split: sum.split_asm)
    moreover have "store u = store s \<or> store u = (store s)(key := None)" if "q = Inl e" "calm s" for e
      using eff that by (cases "int (length (rd_data reader)) > minidumpMaxBytes") (auto simp: upload_effect_def)
    ultimately show ?thesis using eff(1) key put(1) by (cases q) (auto simp: upload_effect_def)
  qed
qed

end

end
