(* ===== verification/Breakpad.thy ===== *)
theory Breakpad
  imports Frames
begin

text \<open>
  \<open>internal/app/debugfiles/breakpad.go\<close>: the text format of Breakpad symbol files, from which the debug id, the
  file name and the functions are read, and the function that covers an offset. What is used of \<open>bufio.Scanner\<close>,
  \<open>strings.Fields\<close> and \<open>strconv.ParseUint\<close> comes first.
\<close>

subsection \<open>Fields, lines and hexadecimal numbers\<close>

text \<open>\<open>strings.Fields\<close>: the words between runs of runes with \<open>unicode.IsSpace\<close>.\<close>

function Fields_from :: "string \<Rightarrow> string \<Rightarrow> string list" where
  "Fields_from w s =
     (if s = [] then (if w = [] then [] else [w])
      else case find (\<lambda>p. p \<noteq> [] \<and> prefix p s) space_encodings of
        Some p \<Rightarrow> (if w = [] then [] else [w]) @ Fields_from [] (drop (length p) s)
      | None \<Rightarrow> Fields_from (w @ [hd s]) (tl s))"
  by pat_completeness auto
termination
  by (relation "measure (\<lambda>(w, s). length s)") (auto dest!: find_SomeD simp: prefix_def)

declare Fields_from.simps [simp del]

definition Fields :: "string \<Rightarrow> string list" where
  "Fields s = Fields_from [] s"

text \<open>
  The tokens of \<open>bufio.ScanLines\<close>. The scanner's buffer grows to 1 MiB; a line that does not fit into it with its
  line feed ends the scan with an error.
\<close>

definition scannerBufferBytes :: nat where "scannerBufferBytes = 1024 * 1024"

definition scan_lines :: "string \<Rightarrow> string list" where
  "scan_lines payload =
     (let ls = split_byte (CHR 0x0A) payload in if last ls = [] then butlast ls else ls)"

definition dropCR :: "string \<Rightarrow> string" where
  "dropCR line = TrimSuffix line [CHR 0x0D]"

definition hex_digit_value :: "char \<Rightarrow> nat option" where
  "hex_digit_value c =
     (if 48 \<le> byte c \<and> byte c \<le> 57 then Some (byte c - 48)
      else if 97 \<le> byte c \<and> byte c \<le> 102 then Some (byte c - 87)
      else if 65 \<le> byte c \<and> byte c \<le> 70 then Some (byte c - 55)
      else None)"

fun hex_number :: "nat \<Rightarrow> string \<Rightarrow> nat option" where
  "hex_number n [] = Some n"
| "hex_number n (c # s) =
     (case hex_digit_value c of None \<Rightarrow> None
      | Some d \<Rightarrow> if n * 16 + d < 2 ^ 64 then hex_number (n * 16 + d) s else None)"

text \<open>\<open>strconv.ParseUint(s, 16, 64)\<close>, whose error the caller only tests.\<close>

definition ParseUint16 :: "string \<Rightarrow> u64 option" where
  "ParseUint16 s = (if s = [] then None else map_option of_nat (hex_number 0 s))"

subsection \<open>Symbol files\<close>

record breakpadFunction =
  bf_address :: u64
  bf_size :: u64
  bf_name :: string

record breakpadSymbols =
  bs_debugID :: DebugIdentifier
  bs_codeFile :: string
  bs_functions :: "breakpadFunction list"

definition no_symbols :: breakpadSymbols where
  "no_symbols = \<lparr>bs_debugID = DebugIdentifier [], bs_codeFile = [], bs_functions = []\<rparr>"

definition parseBreakpadHex :: "string \<Rightarrow> u64 option" where
  "parseBreakpadHex input = ParseUint16 (TrimPrefix (TrimPrefix (TrimSpace input) ''0x'') ''0X'')"

definition parseBreakpadModule :: "string \<Rightarrow> breakpadSymbols result" where
  "parseBreakpadModule line =
     (let fields = Fields line in
      if length fields < 5 then fail ''breakpad module header is invalid''
      else rbind (NewDebugIdentifier (fields ! 3)) (\<lambda>debugID.
        ok (no_symbols\<lparr>bs_debugID := debugID, bs_codeFile := Join (drop 4 fields) '' ''\<rparr>)))"

definition parseBreakpadFunction :: "string \<Rightarrow> breakpadFunction option" where
  "parseBreakpadFunction line =
     (let fields = Fields line;
          offset = (if length fields > 1 \<and> fields ! 1 = ''m'' then 2 else 1)
      in if length fields < offset + 4 then None
         else case parseBreakpadHex (fields ! offset) of None \<Rightarrow> None | Some address \<Rightarrow>
           (case parseBreakpadHex (fields ! (offset + 1)) of None \<Rightarrow> None | Some n \<Rightarrow>
             let name = TrimSpace (Join (drop (offset + 3) fields) '' '') in
             if name = [] then None else Some \<lparr>bf_address = address, bf_size = n, bf_name = name\<rparr>))"

text \<open>The body of the loop of \<open>parseBreakpadSymbols\<close>, for the text of one line.\<close>

definition scan_line :: "string \<Rightarrow> breakpadSymbols \<Rightarrow> breakpadSymbols result" where
  "scan_line token symbols =
     (let line = TrimSpace token in
      if line = [] then ok symbols
      else if HasPrefix line ''MODULE '' then
        rbind (parseBreakpadModule line) (\<lambda>parsed.
        ok (symbols\<lparr>bs_debugID := bs_debugID parsed, bs_codeFile := bs_codeFile parsed\<rparr>))
      else if HasPrefix line ''FUNC '' then
        (case parseBreakpadFunction line of None \<Rightarrow> ok symbols
         | Some function \<Rightarrow> ok (symbols\<lparr>bs_functions := bs_functions symbols @ [function]\<rparr>))
      else ok symbols)"

fun scan_symbols :: "string list \<Rightarrow> breakpadSymbols \<Rightarrow> breakpadSymbols result" where
  "scan_symbols [] symbols = ok symbols"
| "scan_symbols (line # rest) symbols =
     (if length line \<ge> scannerBufferBytes then fail ''bufio.Scanner: token too long''
      else rbind (scan_line (dropCR line) symbols) (scan_symbols rest))"

definition parseBreakpadSymbols :: "string \<Rightarrow> breakpadSymbols result" where
  "parseBreakpadSymbols payload =
     rbind (scan_symbols (scan_lines payload) no_symbols) (\<lambda>symbols.
     if DebugIdentifier_value (bs_debugID symbols) = [] then fail ''breakpad symbols require module header''
     else ok symbols)"

definition function_contains :: "breakpadFunction \<Rightarrow> u64 \<Rightarrow> bool" where
  "function_contains function offset =
     (if offset < bf_address function then False
      else if bf_size function = 0 then offset = bf_address function
      else offset - bf_address function < bf_size function)"

definition symbols_lookup :: "breakpadSymbols \<Rightarrow> u64 \<Rightarrow> string option" where
  "symbols_lookup symbols offset =
     map_option bf_name (find (\<lambda>function. function_contains function offset) (bs_functions symbols))"

subsection \<open>Which function covers an offset\<close>

text \<open>The interval of a function in unbounded numbers: the sum of address and size may exceed 64 bits.\<close>

definition covers :: "breakpadFunction \<Rightarrow> u64 \<Rightarrow> bool" where
  "covers function offset \<longleftrightarrow> unat (bf_address function) \<le> unat offset \<and>
     unat offset < unat (bf_address function) + max 1 (unat (bf_size function))"

lemma function_contains_covers: "function_contains function offset = covers function offset"
proof (cases "offset < bf_address function")
  case True
  then show ?thesis by (simp add: function_contains_def covers_def word_less_nat_alt)
next
  case False
  then have le: "bf_address function \<le> offset" by simp
  then have le': "unat (bf_address function) \<le> unat offset" by (simp add: word_le_nat_alt)
  show ?thesis
  proof (cases "bf_size function = 0")
    case True
    with le' show ?thesis
      using False by (auto simp: function_contains_def covers_def less_Suc_eq_le word_unat_eq_iff)
  next
    case size0: False
    then have "1 \<le> unat (bf_size function)" by (simp add: Suc_le_eq unat_gt_0)
    with le le' size0 False show ?thesis
      by (auto simp: function_contains_def covers_def word_less_nat_alt unat_sub max_def)
  qed
qed

subsection \<open>Writing symbol files\<close>

fun hex_digits :: "nat \<Rightarrow> string" where
  "hex_digits n = (if n < 16 then [hex_digit n] else hex_digits (n div 16) @ [hex_digit (n mod 16)])"

declare hex_digits.simps [simp del]

text \<open>Words of visible ASCII characters with single spaces between them.\<close>

definition spaced_words :: "string \<Rightarrow> bool" where
  "spaced_words s \<longleftrightarrow> list_all (\<lambda>w. w \<noteq> [] \<and> graph_ascii w) (split_byte (CHR '' '') s)"

definition module_line :: "breakpadSymbols \<Rightarrow> string" where
  "module_line symbols = Join [''MODULE'', ''Linux'', ''x86_64'', DebugIdentifier_value (bs_debugID symbols), bs_codeFile symbols] '' ''"

definition function_line :: "breakpadFunction \<Rightarrow> string" where
  "function_line f = Join [''FUNC'', hex_digits (unat (bf_address f)), hex_digits (unat (bf_size f)), ''0'', bf_name f] '' ''"

definition render_lines :: "breakpadSymbols \<Rightarrow> string list" where
  "render_lines symbols = module_line symbols # map function_line (bs_functions symbols)"

definition render_symbols :: "breakpadSymbols \<Rightarrow> string" where
  "render_symbols symbols = Join (render_lines symbols) [CHR 0x0A]"

definition renderable :: "breakpadSymbols \<Rightarrow> bool" where
  "renderable symbols \<longleftrightarrow>
     debug_id_text (DebugIdentifier_value (bs_debugID symbols)) \<and> spaced_words (bs_codeFile symbols) \<and>
     list_all (\<lambda>f. spaced_words (bf_name f)) (bs_functions symbols) \<and>
     list_all (\<lambda>line. length line < scannerBufferBytes) (render_lines symbols)"

lemma find_space_graph: "33 \<le> byte c \<and> byte c < 127 \<Longrightarrow> find (\<lambda>p. p \<noteq> [] \<and> prefix p (c # s)) space_encodings = None"
  by (auto simp: find_None_iff prefix_def Cons_eq_append_conv dest!: space_encodings_hd)

lemma find_space_blank: "find (\<lambda>p. p \<noteq> [] \<and> prefix p (CHR '' '' # s)) space_encodings = Some '' ''"
proof -
  have char: "char_of (32 :: nat) = CHR '' ''" by (simp add: char_of_def bit_simps)
  have blank: "p = '' ''" if "p \<in> set space_encodings" "byte (hd p) = 32" for p
    using that by (auto simp: space_encodings_def space_runes_def encode_rune_def rune_bytes_def char)
  have "byte (CHR '' '') = 32" by simp
  then have only: "p = '' ''" if "p \<in> set space_encodings" "p \<noteq> []" "prefix p (CHR '' '' # s)" for p
    using that blank [of p] by (cases p) auto
  have "'' '' \<in> set space_encodings"
    by (simp add: space_encodings_def space_runes_def encode_rune_def rune_bytes_def char)
  then have "find (\<lambda>p. p \<noteq> [] \<and> prefix p (CHR '' '' # s)) space_encodings \<noteq> None"
    by (auto simp: find_None_iff)
  then obtain p where p: "find (\<lambda>p. p \<noteq> [] \<and> prefix p (CHR '' '' # s)) space_encodings = Some p" by blast
  with find_SomeD [OF p] only show ?thesis by simp
qed

lemma Fields_from_word: "graph_ascii w \<Longrightarrow> Fields_from u (w @ s) = Fields_from (u @ w) s"
proof (induction w arbitrary: u)
  case (Cons c w)
  then show ?case
    by (subst Fields_from.simps) (simp add: graph_ascii_def find_space_graph)
qed simp

lemma Fields_from_blank: "Fields_from u (CHR '' '' # s) = (if u = [] then [] else [u]) @ Fields_from [] s"
  by (subst Fields_from.simps) (simp add: find_space_blank)

lemma Fields_from_Nil [simp]: "Fields_from u [] = (if u = [] then [] else [u])"
  by (simp add: Fields_from.simps)

lemma Fields_Join:
  "list_all (\<lambda>w. w \<noteq> [] \<and> graph_ascii w) ws \<Longrightarrow> Fields (Join ws '' '') = ws"
  unfolding Fields_def
proof (induction ws "'' ''" rule: Join.induct)
  case (2 w)
  then show ?case using Fields_from_word [of w "[]" "[]"] by simp
next
  case (3 w v ws)
  then show ?case using Fields_from_word [of w "[]" "CHR '' '' # Join (v # ws) '' ''"]
    by (simp add: Fields_from_blank)
qed simp

lemma Join_flat: "ws \<noteq> [] \<Longrightarrow> Join (vs @ [Join ws sep]) sep = Join (vs @ ws) sep"
proof (induction vs sep rule: Join.induct)
  case (2 v sep)
  then show ?case by (cases ws) auto
qed auto

lemma spaced_words_split: "spaced_words s \<Longrightarrow> list_all (\<lambda>w. w \<noteq> [] \<and> graph_ascii w) (split_byte (CHR '' '') s)"
  by (simp add: spaced_words_def)

text \<open>A line of words is its own trimmed text, its words are its fields, and it has no line feed.\<close>

lemma Join_hd_last:
  assumes "list_all (\<lambda>w. w \<noteq> [] \<and> graph_ascii w) ws" and "ws \<noteq> []"
  shows "Join ws '' '' \<noteq> []" "hd (Join ws '' '') = hd (hd ws)" "last (Join ws '' '') = last (last ws)"
    "CHR 0x0A \<notin> set (Join ws '' '')" "CHR 0x0D \<notin> set (Join ws '' '')"
  using assms
  by (induction ws "'' ''" rule: Join.induct) (auto simp: graph_ascii_def list_all_iff)

lemma TrimSpace_words:
  assumes "list_all (\<lambda>w. w \<noteq> [] \<and> graph_ascii w) ws" and "ws \<noteq> []"
  shows "TrimSpace (dropCR (Join ws '' '')) = Join ws '' ''" "TrimSpace (Join ws '' '') = Join ws '' ''"
proof -
  have g: "w \<noteq> [] \<and> graph_ascii w" if "w \<in> set ws" for w using assms(1) that by (auto simp: list_all_iff)
  have "33 \<le> byte (hd (hd ws)) \<and> byte (hd (hd ws)) < 127" "33 \<le> byte (last (last ws)) \<and> byte (last (last ws)) < 127"
    using g [of "hd ws"] g [of "last ws"] assms(2) by (auto simp: graph_ascii_def list_all_iff)
  then show "TrimSpace (Join ws '' '') = Join ws '' ''"
    using Join_hd_last [OF assms] by (intro TrimSpace_id) auto
  moreover have "dropCR (Join ws '' '') = Join ws '' ''"
    using Join_hd_last(5) [OF assms] by (auto simp: dropCR_def TrimSuffix_def suffix_def)
  ultimately show "TrimSpace (dropCR (Join ws '' '')) = Join ws '' ''" by simp
qed

lemma hex_digits_hex: "list_all hex_byte (hex_digits n) \<and> hex_digits n \<noteq> []"
proof (induction n rule: hex_digits.induct)
  case (1 n)
  then show ?case
    by (subst (1 2) hex_digits.simps) (auto simp: hex_digit_hex_byte)
qed

lemma hex_digit_value_digit: "n < 16 \<Longrightarrow> hex_digit_value (hex_digit n) = Some n"
  by (auto simp: hex_digit_value_def hex_digit_def)

lemma hex_number_append:
  "hex_number n (s @ t) = (case hex_number n s of None \<Rightarrow> None | Some m \<Rightarrow> hex_number m t)"
  by (induction s arbitrary: n) (auto split: option.split)

lemma hex_number_digits: "n < 2 ^ 64 \<Longrightarrow> hex_number 0 (hex_digits n) = Some n"
proof (induction n rule: hex_digits.induct)
  case (1 n)
  show ?case
  proof (cases "n < 16")
    case True
    then show ?thesis by (subst hex_digits.simps) (simp add: hex_digit_value_digit)
  next
    case False
    with 1 have "hex_number 0 (hex_digits (n div 16)) = Some (n div 16)" by simp
    moreover have "n div 16 * 16 + n mod 16 = n" by simp
    ultimately show ?thesis
      using False 1(2) by (subst hex_digits.simps) (simp add: hex_number_append hex_digit_value_digit)
  qed
qed

lemma parseBreakpadHex_digits:
  fixes w :: u64
  shows "parseBreakpadHex (hex_digits (unat w)) = Some w"
proof -
  let ?s = "hex_digits (unat w)"
  have hex: "list_all hex_byte ?s" "?s \<noteq> []" using hex_digits_hex by auto
  have "TrimSpace ?s = ?s" by (rule TrimSpace_graph [OF hex_pattern_graph [OF hex(1)]])
  moreover have "TrimPrefix ?s ''0x'' = ?s" "TrimPrefix ?s ''0X'' = ?s"
    using hex(1) by (auto simp: TrimPrefix_def prefix_def hex_byte_def)
  moreover have "unat w < 2 ^ 64" using unsigned_less [of w] by simp
  ultimately show ?thesis
    using hex(2) by (simp add: parseBreakpadHex_def ParseUint16_def hex_number_digits)
qed

lemma parse_module_line:
  assumes "debug_id_text (DebugIdentifier_value (bs_debugID symbols))" and "spaced_words (bs_codeFile symbols)"
  shows "scan_line (dropCR (module_line symbols)) s =
      ok (s\<lparr>bs_debugID := bs_debugID symbols, bs_codeFile := bs_codeFile symbols\<rparr>)"
    "CHR 0x0A \<notin> set (module_line symbols)" "module_line symbols \<noteq> []"
proof -
  let ?id = "DebugIdentifier_value (bs_debugID symbols)"
  define ws where "ws = [''MODULE'', ''Linux'', ''x86_64'', ?id] @ split_byte (CHR '' '') (bs_codeFile symbols)"
  have id: "?id \<noteq> []" "graph_ascii ?id"
    using assms(1) hex_pattern_graph by (auto simp: debug_id_text_def debugIdentifierMinHexBytes_def)
  have ws: "list_all (\<lambda>w. w \<noteq> [] \<and> graph_ascii w) ws" "ws \<noteq> []"
    using id spaced_words_split [OF assms(2)] by (simp_all add: ws_def graph_ascii_def)
  have line: "module_line symbols = Join ws '' ''"
    using Join_flat [of "split_byte (CHR '' '') (bs_codeFile symbols)" "[''MODULE'', ''Linux'', ''x86_64'', ?id]" "'' ''"]
    by (simp add: module_line_def ws_def Join_split_byte)
  have pre: "HasPrefix (Join ws '' '') ''MODULE ''" "Join ws '' '' \<noteq> []"
    by (simp_all add: ws_def HasPrefix_def)
  have len: "\<not> length ws < 5" "drop 4 ws = split_byte (CHR '' '') (bs_codeFile symbols)" "ws ! 3 = ?id"
    by (simp_all add: ws_def Suc_le_eq)
  have "parseBreakpadModule (Join ws '' '') = ok (no_symbols\<lparr>bs_debugID := bs_debugID symbols, bs_codeFile := bs_codeFile symbols\<rparr>)"
    using len NewDebugIdentifier_id [OF assms(1)] by (simp add: parseBreakpadModule_def Fields_Join [OF ws(1)] Join_split_byte)
  then show "scan_line (dropCR (module_line symbols)) s =
      ok (s\<lparr>bs_debugID := bs_debugID symbols, bs_codeFile := bs_codeFile symbols\<rparr>)"
    using pre by (simp add: scan_line_def line TrimSpace_words [OF ws])
  show "CHR 0x0A \<notin> set (module_line symbols)" "module_line symbols \<noteq> []"
    using Join_hd_last [OF ws] by (simp_all add: line)
qed

lemma parse_function_line:
  assumes "spaced_words (bf_name f)"
  shows "scan_line (dropCR (function_line f)) s = ok (s\<lparr>bs_functions := bs_functions s @ [f]\<rparr>)"
    "CHR 0x0A \<notin> set (function_line f)" "function_line f \<noteq> []"
proof -
  let ?a = "hex_digits (unat (bf_address f))" and ?n = "hex_digits (unat (bf_size f))"
  define ns where "ns = split_byte (CHR '' '') (bf_name f)"
  define ws where "ws = [''FUNC'', ?a, ?n, ''0''] @ ns"
  have ns: "list_all (\<lambda>w. w \<noteq> [] \<and> graph_ascii w) ns" "ns \<noteq> []" "Join ns '' '' = bf_name f"
    using spaced_words_split [OF assms] by (simp_all add: ns_def Join_split_byte)
  have hex: "?a \<noteq> []" "graph_ascii ?a" "?n \<noteq> []" "graph_ascii ?n" "?a \<noteq> ''m''"
    using hex_digits_hex [of "unat (bf_address f)"] hex_digits_hex [of "unat (bf_size f)"]
    by (auto intro: hex_pattern_graph simp: hex_byte_def)
  have ws: "list_all (\<lambda>w. w \<noteq> [] \<and> graph_ascii w) ws" "ws \<noteq> []"
    using hex ns by (simp_all add: ws_def graph_ascii_def)
  have line: "function_line f = Join ws '' ''"
    using Join_flat [OF ns(2), of "[''FUNC'', ?a, ?n, ''0'']" "'' ''"] by (simp add: function_line_def ws_def ns(3))
  have pre: "HasPrefix (Join ws '' '') ''FUNC ''" "\<not> HasPrefix (Join ws '' '') ''MODULE ''" "Join ws '' '' \<noteq> []"
    using ns(2) by (auto simp: ws_def HasPrefix_def)
  have len: "\<not> length ws < 5" "drop 4 ws = ns" "ws ! 1 = ?a" "ws ! 2 = ?n"
    using ns(2) by (simp_all add: ws_def Suc_le_eq)
  have "parseBreakpadFunction (Join ws '' '') = Some f"
    using len hex(5) ns Join_hd_last(1) [OF ns(1,2)] TrimSpace_words(2) [OF ns(1,2)]
    by (simp add: parseBreakpadFunction_def Fields_Join [OF ws(1)] parseBreakpadHex_digits Let_def numeral_2_eq_2)
  then show "scan_line (dropCR (function_line f)) s = ok (s\<lparr>bs_functions := bs_functions s @ [f]\<rparr>)"
    using pre by (simp add: scan_line_def line TrimSpace_words [OF ws])
  show "CHR 0x0A \<notin> set (function_line f)" "function_line f \<noteq> []"
    using Join_hd_last [OF ws] by (simp_all add: line)
qed

lemma scan_function_lines:
  "list_all (\<lambda>f. spaced_words (bf_name f)) fs \<Longrightarrow> list_all (\<lambda>line. length line < scannerBufferBytes) (map function_line fs) \<Longrightarrow>
   scan_symbols (map function_line fs) s = ok (s\<lparr>bs_functions := bs_functions s @ fs\<rparr>)"
  by (induction fs arbitrary: s) (simp_all add: parse_function_line(1))

lemma parse_render_symbols:
  assumes "renderable symbols"
  shows "parseBreakpadSymbols (render_symbols symbols) = ok symbols"
proof -
  let ?fs = "bs_functions symbols"
  have r: "debug_id_text (DebugIdentifier_value (bs_debugID symbols))" "spaced_words (bs_codeFile symbols)"
    "list_all (\<lambda>f. spaced_words (bf_name f)) ?fs"
    "length (module_line symbols) < scannerBufferBytes" "list_all (\<lambda>line. length line < scannerBufferBytes) (map function_line ?fs)"
    using assms by (simp_all add: renderable_def render_lines_def)
  have no: "CHR 0x0A \<notin> set line \<and> line \<noteq> []" if "line \<in> set (render_lines symbols)" for line
    using that parse_module_line(2,3) [OF r(1,2)] parse_function_line(2,3) r(3) by (auto simp: render_lines_def list_all_iff)
  have "split_byte (CHR 0x0A) (render_symbols symbols) = render_lines symbols"
    unfolding render_symbols_def using no by (intro split_byte_Join) (auto simp: render_lines_def)
  moreover have "last (render_lines symbols) \<noteq> []" using no last_in_set [of "render_lines symbols"] by (auto simp: render_lines_def)
  ultimately have "scan_lines (render_symbols symbols) = render_lines symbols" by (simp add: scan_lines_def Let_def)
  moreover have "DebugIdentifier_value (bs_debugID symbols) \<noteq> []"
    using r(1) by (auto simp: debug_id_text_def debugIdentifierMinHexBytes_def)
  ultimately show ?thesis
    using r by (simp add: parseBreakpadSymbols_def render_lines_def parse_module_line(1) scan_function_lines no_symbols_def)
qed

end
