(* ===== verification/Symbolication.thy ===== *)
theory Symbolication
  imports ArtifactServices Breakpad
begin

text \<open>
  \<open>internal/app/debugfiles/apply.go\<close>: the names of the functions in the native frames of an event, looked up in
  the Breakpad files that are stored for its project.
\<close>

definition openBreakpadSymbols :: "'s ArtifactVault \<Rightarrow> ArtifactKey \<Rightarrow> ('s, breakpadSymbols) action" where
  "openBreakpadSymbols vault key =
     abind (get_artifact vault ErrDebugFileNotFound key) (\<lambda>reader.
     alift (rbind (read_within debugFileMaxBytes ErrDebugFileTooLarge reader) parseBreakpadSymbols))"

text \<open>The loop of \<open>FindBreakpadSymbols\<close> over the stored artifacts: what cannot be opened is skipped.\<close>

fun first_symbols :: "'s ArtifactVault \<Rightarrow> DebugIdentifier \<Rightarrow> StoredArtifact list \<Rightarrow> ('s, breakpadSymbols) action" where
  "first_symbols vault debugID [] s = (Inl ErrDebugFileNotFound, s)"
| "first_symbols vault debugID (listing # rest) s =
     (case openBreakpadSymbols vault (sa_key listing) s of
       (Inl e, t) \<Rightarrow> first_symbols vault debugID rest t
     | (Inr symbols, t) \<Rightarrow>
         if bs_debugID symbols \<noteq> debugID then first_symbols vault debugID rest t else (ok symbols, t))"

definition FindBreakpadSymbols :: "'s ArtifactVault \<Rightarrow> OrganizationID \<Rightarrow> ProjectID \<Rightarrow> DebugIdentifier \<Rightarrow>
    ('s, breakpadSymbols) action" where
  "FindBreakpadSymbols vault organizationID projectID debugID =
     abind (alift (NewArtifactScope organizationID projectID ArtifactKindDebugFile)) (\<lambda>scope.
     abind (av_List vault scope) (first_symbols vault debugID))"

definition nativeModuleForDebugID :: "NativeModule list \<Rightarrow> DebugIdentifier \<Rightarrow> NativeModule option" where
  "nativeModuleForDebugID modules debugID = find (\<lambda>module. nm_debugID module = debugID) modules"

definition nativeInstructionOffset :: "NativeFrame \<Rightarrow> NativeModule option \<Rightarrow> u64 option" where
  "nativeInstructionOffset frame found =
     (case found of None \<Rightarrow> Some (nf_instructionAddr frame) | Some module \<Rightarrow>
       let imageAddr = nm_imageAddr module; instructionAddr = nf_instructionAddr frame in
       if instructionAddr < imageAddr then None
       else if nm_imageSize module = 0 then Some (instructionAddr - imageAddr)
       else if instructionAddr - imageAddr \<ge> nm_imageSize module then None
       else Some (instructionAddr - imageAddr))"

definition nativeFramePackage :: "NativeFrame \<Rightarrow> NativeModule option \<Rightarrow> string" where
  "nativeFramePackage frame found =
     (if nf_pkg frame \<noteq> [] then nf_pkg frame
      else case found of None \<Rightarrow> [] | Some module \<Rightarrow> nm_codeFile module)"

text \<open>The last part of \<open>symbolicateSingleFrame\<close>: the frame with the function of the symbols.\<close>

definition symbolicated_frame :: "NativeFrame \<Rightarrow> NativeModule option \<Rightarrow> u64 \<Rightarrow> breakpadSymbols \<Rightarrow> NativeFrame option" where
  "symbolicated_frame frame found offset symbols =
     (case symbols_lookup symbols offset of None \<Rightarrow> None | Some function \<Rightarrow>
       (case NewNativeFrameWithModule (nf_instructionAddr frame) (nf_moduleDebugID frame) function
           (nativeFramePackage frame found) of
         Inl e \<Rightarrow> None | Inr symbolicated \<Rightarrow> Some symbolicated))"

definition symbolicateSingleFrame :: "'s ArtifactVault \<Rightarrow> CanonicalEvent \<Rightarrow> NativeModule list \<Rightarrow> NativeFrame \<Rightarrow>
    's \<Rightarrow> NativeFrame option \<times> 's" where
  "symbolicateSingleFrame vault event modules frame s =
     (let (debugID, hasModule) = NativeFrame_ModuleDebugID frame in
      if \<not> hasModule then (None, s)
      else let found = nativeModuleForDebugID modules debugID in
        case nativeInstructionOffset frame found of None \<Rightarrow> (None, s) | Some offset \<Rightarrow>
        (case FindBreakpadSymbols vault (ev_organizationID event) (ev_projectID event) debugID s of
          (Inl e, t) \<Rightarrow> (None, t)
        | (Inr symbols, t) \<Rightarrow> (symbolicated_frame frame found offset symbols, t)))"

fun symbolicate_frames :: "'s ArtifactVault \<Rightarrow> CanonicalEvent \<Rightarrow> NativeModule list \<Rightarrow> NativeFrame list \<Rightarrow>
    's \<Rightarrow> NativeFrame list \<times> bool \<times> 's" where
  "symbolicate_frames vault event modules [] s = ([], False, s)"
| "symbolicate_frames vault event modules (frame # frames) s =
     (let (symbolicated, t) = symbolicateSingleFrame vault event modules frame s;
          (updated, hasUpdate, u) = symbolicate_frames vault event modules frames t
      in case symbolicated of None \<Rightarrow> (frame # updated, hasUpdate, u) | Some frame' \<Rightarrow> (frame' # updated, True, u))"

definition SymbolicateCanonicalEvent :: "'s ArtifactVault option \<Rightarrow> CanonicalEvent \<Rightarrow> 's \<Rightarrow> CanonicalEvent \<times> 's" where
  "SymbolicateCanonicalEvent service event s =
     (case service of None \<Rightarrow> (event, s) | Some vault \<Rightarrow>
      if ev_nativeFrames event = [] then (event, s)
      else let (updated, hasUpdate, t) = symbolicate_frames vault event (ev_nativeModules event) (ev_nativeFrames event) s in
        (if \<not> hasUpdate then event else WithNativeFrames event updated, t))"

subsection \<open>What the stored files say\<close>

text \<open>The symbols in the contents of a stored debug file, and the files of a project that have a debug id.\<close>

definition symbols_in :: "string \<Rightarrow> breakpadSymbols option" where
  "symbols_in content =
     (if int (length content) > debugFileMaxBytes then None
      else case parseBreakpadSymbols content of Inl e \<Rightarrow> None | Inr symbols \<Rightarrow> Some symbols)"

definition debug_scope :: "OrganizationID \<Rightarrow> ProjectID \<Rightarrow> ArtifactScope" where
  "debug_scope organizationID projectID =
     \<lparr>as_organizationID = organizationID, as_projectID = projectID, as_kind = ArtifactKindDebugFile\<rparr>"

definition symbols_at :: "(ArtifactKey \<rightharpoonup> string) \<Rightarrow> DebugIdentifier \<Rightarrow> ArtifactKey \<Rightarrow> breakpadSymbols option" where
  "symbols_at stored debugID key =
     (case stored key of None \<Rightarrow> None | Some content \<Rightarrow>
       (case symbols_in content of None \<Rightarrow> None | Some symbols \<Rightarrow>
         if bs_debugID symbols = debugID then Some symbols else None))"

text \<open>The symbols of the first such file, in the order of the artifact names.\<close>

definition first_in_store :: "(ArtifactKey \<rightharpoonup> string) \<Rightarrow> ArtifactScope \<Rightarrow> DebugIdentifier \<Rightarrow> breakpadSymbols option \<Rightarrow> bool" where
  "first_in_store stored scope debugID found \<longleftrightarrow>
     (case found of
       None \<Rightarrow> \<forall>key. key_ok key \<longrightarrow> scope_of key = scope \<longrightarrow> symbols_at stored debugID key = None
     | Some symbols \<Rightarrow> \<exists>key. key_ok key \<and> scope_of key = scope \<and> symbols_at stored debugID key = Some symbols \<and>
         (\<forall>key'. key_ok key' \<longrightarrow> scope_of key' = scope \<longrightarrow>
            ArtifactName_value (key_name key') < ArtifactName_value (key_name key) \<longrightarrow> symbols_at stored debugID key' = None))"

lemma same_scope_name: "scope_of key = scope_of key' \<Longrightarrow> key_name key = key_name key' \<Longrightarrow> key = key'"
  by (simp add: scope_of_def)

lemma first_in_store_unique:
  assumes "first_in_store stored scope debugID a" and "first_in_store stored scope debugID b"
  shows "a = b"
proof -
  have "symbols = symbols'"
    if "key_ok key" "scope_of key = scope" "symbols_at stored debugID key = Some symbols"
      "\<forall>key'. key_ok key' \<longrightarrow> scope_of key' = scope \<longrightarrow> ArtifactName_value (key_name key') < ArtifactName_value (key_name key) \<longrightarrow>
        symbols_at stored debugID key' = None"
      "key_ok key'" "scope_of key' = scope" "symbols_at stored debugID key' = Some symbols'"
      "\<forall>k. key_ok k \<longrightarrow> scope_of k = scope \<longrightarrow> ArtifactName_value (key_name k) < ArtifactName_value (key_name key') \<longrightarrow>
        symbols_at stored debugID k = None"
    for key key' symbols symbols'
  proof -
    have "ArtifactName_value (key_name key) = ArtifactName_value (key_name key')"
      using that by (metis linorder_neqE option.distinct(1))
    then have "key_name key = key_name key'" by (rule ArtifactName.expand)
    then show ?thesis using that same_scope_name [of key key'] by simp
  qed
  with assms show ?thesis
    by (cases a; cases b) (auto simp: first_in_store_def)
qed

context artifact_vault begin

lemma openBreakpadSymbols_effect:
  assumes s: "good s" and key: "key_ok key" and run: "openBreakpadSymbols vault key s = (r, t)"
  shows "good t \<and> (calm s \<longrightarrow> calm t) \<and> store t = store s"
    and "calm s \<Longrightarrow> store s key = Some content \<Longrightarrow>
      symbols_in content = (case r of Inl e \<Rightarrow> None | Inr symbols \<Rightarrow> Some symbols)"
proof -
  obtain q u where get: "get_artifact vault ErrDebugFileNotFound key s = (q, u)" by fastforce
  note get' = get_artifact_effect [OF s key get]
  have t: "t = u" using run get by (auto simp: openBreakpadSymbols_def abind_def alift_def split: sum.split_asm)
  with get'(1) show "good t \<and> (calm s \<longrightarrow> calm t) \<and> store t = store s" by simp
  show "symbols_in content = (case r of Inl e \<Rightarrow> None | Inr symbols \<Rightarrow> Some symbols)"
    if c: "calm s" "store s key = Some content"
  proof -
    have "r = rbind (read_within debugFileMaxBytes ErrDebugFileTooLarge \<lparr>rd_data = content, rd_error = None\<rparr>) parseBreakpadSymbols"
      using run get get'(2) [OF c] by (simp add: openBreakpadSymbols_def abind_def alift_def)
    then show ?thesis
      by (auto simp: symbols_in_def read_within_def ReadAll_def LimitReader_def debugFileMaxBytes_def rbind_def
          split: if_split_asm sum.split)
  qed
qed

lemma first_symbols_effect:
  assumes "good s" and "\<forall>a\<in>set items. key_ok (sa_key a) \<and> store s (sa_key a) \<noteq> None"
    and "first_symbols vault debugID items s = (r, t)"
  shows "good t \<and> (calm s \<longrightarrow> calm t) \<and> store t = store s"
    and "calm s \<Longrightarrow> (case r of Inl e \<Rightarrow> None | Inr symbols \<Rightarrow> Some symbols) =
      (case find (\<lambda>a. symbols_at (store s) debugID (sa_key a) \<noteq> None) items of
        None \<Rightarrow> None | Some a \<Rightarrow> symbols_at (store s) debugID (sa_key a))"
proof -
  have "(good t \<and> (calm s \<longrightarrow> calm t) \<and> store t = store s) \<and> (calm s \<longrightarrow>
      (case r of Inl e \<Rightarrow> None | Inr symbols \<Rightarrow> Some symbols) =
      (case find (\<lambda>a. symbols_at (store s) debugID (sa_key a) \<noteq> None) items of
        None \<Rightarrow> None | Some a \<Rightarrow> symbols_at (store s) debugID (sa_key a)))"
    using assms
  proof (induction items arbitrary: s)
    case (Cons a items)
    obtain q u where o: "openBreakpadSymbols vault (sa_key a) s = (q, u)" by fastforce
    from Cons.prems have key: "key_ok (sa_key a)" "good s" and "store s (sa_key a) \<noteq> None" by auto
    then obtain content where content: "store s (sa_key a) = Some content" by blast
    note o' = openBreakpadSymbols_effect [OF key(2,1) o]
    have at: "symbols_at (store s) debugID (sa_key a) =
        (case q of Inl e \<Rightarrow> None | Inr symbols \<Rightarrow> if bs_debugID symbols = debugID then Some symbols else None)" if "calm s"
      using o'(2) [OF that content] content by (simp add: symbols_at_def split: sum.split)
    show ?case
    proof (cases "\<exists>symbols. q = Inr symbols \<and> bs_debugID symbols = debugID")
      case True
      with Cons.prems(3) o have "r = q" "t = u" by auto
      with True o'(1) at show ?thesis by auto
    next
      case False
      then have rest: "first_symbols vault debugID items u = (r, t)"
        using Cons.prems(3) o by (auto split: sum.split_asm)
      have same: "store u = store s" using o'(1) by simp
      from Cons.IH [OF _ _ rest] o'(1) Cons.prems(2)
      have IH: "(good t \<and> (calm u \<longrightarrow> calm t) \<and> store t = store u) \<and> (calm u \<longrightarrow>
        (case r of Inl e \<Rightarrow> None | Inr symbols \<Rightarrow> Some symbols) =
        (case find (\<lambda>a. symbols_at (store u) debugID (sa_key a) \<noteq> None) items of
          None \<Rightarrow> None | Some a \<Rightarrow> symbols_at (store u) debugID (sa_key a)))" by auto
      have "symbols_at (store s) debugID (sa_key a) = None" if "calm s"
        using at [OF that] False by (auto split: sum.split)
      with IH [unfolded same] o'(1) show ?thesis by auto
    qed
  qed auto
  then show "good t \<and> (calm s \<longrightarrow> calm t) \<and> store t = store s"
    and "calm s \<Longrightarrow> (case r of Inl e \<Rightarrow> None | Inr symbols \<Rightarrow> Some symbols) =
      (case find (\<lambda>a. symbols_at (store s) debugID (sa_key a) \<noteq> None) items of
        None \<Rightarrow> None | Some a \<Rightarrow> symbols_at (store s) debugID (sa_key a))" by blast+
qed

lemma FindBreakpadSymbols_effect:
  assumes s: "good s" and ids: "hex_pattern 32 (OrganizationID_value organizationID)" "hex_pattern 32 (ProjectID_value projectID)"
    and run: "FindBreakpadSymbols vault organizationID projectID debugID s = (r, t)"
  shows "good t \<and> (calm s \<longrightarrow> calm t) \<and> store t = store s"
    and "calm s \<Longrightarrow> first_in_store (store s) (debug_scope organizationID projectID) debugID
      (case r of Inl e \<Rightarrow> None | Inr symbols \<Rightarrow> Some symbols)"
proof -
  let ?scope = "debug_scope organizationID projectID"
  have scope: "NewArtifactScope organizationID projectID ArtifactKindDebugFile = ok ?scope" "scope_ok ?scope"
    using NewArtifactScope_ok [OF ids, of ArtifactKindDebugFile] by (simp_all add: debug_scope_def artifact_kinds_def)
  obtain l u where l: "av_List vault ?scope s = (l, u)" by fastforce
  note law = list_law [OF s scope(2) l]
  have run': "(case l of Inl e \<Rightarrow> (Inl e, u) | Inr items \<Rightarrow> first_symbols vault debugID items u) = (r, t)"
    using run l scope(1) by (auto simp: FindBreakpadSymbols_def abind_def alift_def split: sum.split_asm)
  have items: "good u" "\<forall>a\<in>set items. key_ok (sa_key a) \<and> store u (sa_key a) \<noteq> None"
      "first_symbols vault debugID items u = (r, t)" if "l = Inr items" for items
    using law run' that by auto
  show "good t \<and> (calm s \<longrightarrow> calm t) \<and> store t = store s"
  proof (cases l)
    case (Inl e)
    with run' law show ?thesis by auto
  next
    case (Inr it)
    with first_symbols_effect(1) [OF items [OF Inr]] law show ?thesis by auto
  qed
  show "first_in_store (store s) ?scope debugID (case r of Inl e \<Rightarrow> None | Inr symbols \<Rightarrow> Some symbols)" if c: "calm s"
  proof -
    from list_calm [OF s scope(2) c l] obtain it where it: "l = Inr it"
      "sorted (map (\<lambda>a. ArtifactName_value (key_name (sa_key a))) it)"
      "sa_key ` set it = {key. key_ok key \<and> scope_of key = ?scope \<and> store s key \<noteq> None}" by blast
    have cu: "calm u" "store u = store s" using law c by auto
    note f = first_symbols_effect(2) [OF items [OF it(1)] cu(1)]
    have stored: "key \<in> sa_key ` set it" if "key_ok key" "scope_of key = ?scope" "symbols_at (store s) debugID key \<noteq> None" for key
      using that it(3) by (auto simp: symbols_at_def split: option.split_asm)
    show ?thesis
    proof (cases "find (\<lambda>a. symbols_at (store s) debugID (sa_key a) \<noteq> None) it")
      case None
      then have "symbols_at (store s) debugID key = None" if "key_ok key" "scope_of key = ?scope" for key
        using stored [OF that] by (force simp: find_None_iff)
      with f None cu(2) show ?thesis by (simp add: first_in_store_def)
    next
      case (Some a)
      from Some obtain i where i: "i < length it" "a = it ! i" "symbols_at (store s) debugID (sa_key a) \<noteq> None"
        "\<forall>j<i. symbols_at (store s) debugID (sa_key (it ! j)) = None"
        by (auto simp: find_Some_iff)
      from i(3) obtain symbols where symbols: "symbols_at (store s) debugID (sa_key a) = Some symbols" by blast
      have "sa_key a \<in> sa_key ` set it" using i(1,2) by auto
      then have a: "key_ok (sa_key a)" "scope_of (sa_key a) = ?scope" using it(3) by auto
      have "symbols_at (store s) debugID key = None"
        if key: "key_ok key" "scope_of key = ?scope" "ArtifactName_value (key_name key) < ArtifactName_value (key_name (sa_key a))" for key
      proof (rule ccontr)
        assume "symbols_at (store s) debugID key \<noteq> None"
        from stored [OF key(1,2) this] obtain j where j: "j < length it" "key = sa_key (it ! j)"
          by (auto simp: in_set_conv_nth)
        have "i \<le> j" using i(4) j \<open>symbols_at (store s) debugID key \<noteq> None\<close> by (auto intro: leI)
        with it(2) j i(1,2) have "ArtifactName_value (key_name (sa_key a)) \<le> ArtifactName_value (key_name key)"
          using sorted_nth_mono [OF it(2), of i j] by simp
        with key(3) show False by simp
      qed
      with f Some cu(2) symbols a show ?thesis by (auto simp: first_in_store_def)
    qed
  qed
qed

end

subsection \<open>What becomes of the frames\<close>

text \<open>The frame with another function name and, if it had none, a package.\<close>

definition same_place :: "NativeFrame \<Rightarrow> NativeFrame \<Rightarrow> bool" where
  "same_place f g \<longleftrightarrow> nf_instructionAddr g = nf_instructionAddr f \<and> nf_moduleDebugID g = nf_moduleDebugID f \<and>
     nf_hasModule g = nf_hasModule f"

lemma symbolicated_frame_place:
  assumes "symbolicated_frame frame found offset symbols = Some g" and "nf_hasModule frame"
  shows "native_frame_valid g \<and> same_place frame g"
  using assms by (auto simp: symbolicated_frame_def same_place_def split: option.split_asm sum.split_asm
      dest: NewNativeFrameWithModule_ok)

text \<open>The frame that the symbols of its module give.\<close>

definition symbolicated_by :: "NativeModule list \<Rightarrow> NativeFrame \<Rightarrow> breakpadSymbols option \<Rightarrow> NativeFrame" where
  "symbolicated_by modules frame symbols =
     (if \<not> nf_hasModule frame then frame
      else let found = nativeModuleForDebugID modules (nf_moduleDebugID frame) in
        case (nativeInstructionOffset frame found, symbols) of
          (Some offset, Some symbols) \<Rightarrow> (case symbolicated_frame frame found offset symbols of None \<Rightarrow> frame | Some g \<Rightarrow> g)
        | _ \<Rightarrow> frame)"

context artifact_vault begin

lemma symbolicateSingleFrame_effect:
  assumes s: "good s" and ids: "hex_pattern 32 (OrganizationID_value (ev_organizationID event))"
      "hex_pattern 32 (ProjectID_value (ev_projectID event))"
    and run: "symbolicateSingleFrame vault event modules frame s = (r, t)"
  shows "good t \<and> (calm s \<longrightarrow> calm t) \<and> store t = store s"
    and "r = Some g \<Longrightarrow> native_frame_valid g \<and> same_place frame g"
    and "calm s \<Longrightarrow> \<exists>symbols. first_in_store (store s) (debug_scope (ev_organizationID event) (ev_projectID event))
      (nf_moduleDebugID frame) symbols \<and> (case r of None \<Rightarrow> frame | Some g \<Rightarrow> g) = symbolicated_by modules frame symbols"
proof -
  obtain q u where find: "FindBreakpadSymbols vault (ev_organizationID event) (ev_projectID event) (nf_moduleDebugID frame) s = (q, u)"
    by fastforce
  note find' = FindBreakpadSymbols_effect [OF s ids find]
  let ?found = "nativeModuleForDebugID modules (nf_moduleDebugID frame)"
  note run' = run [unfolded symbolicateSingleFrame_def NativeFrame_ModuleDebugID_def Let_def prod.case find]
  show "good t \<and> (calm s \<longrightarrow> calm t) \<and> store t = store s"
    using run' find'(1) s by (auto split: if_split_asm option.split_asm sum.split_asm)
  show "native_frame_valid g \<and> same_place frame g" if "r = Some g"
    using run' that by (auto dest: symbolicated_frame_place split: if_split_asm option.split_asm sum.split_asm)
  show "\<exists>symbols. first_in_store (store s) (debug_scope (ev_organizationID event) (ev_projectID event))
      (nf_moduleDebugID frame) symbols \<and> (case r of None \<Rightarrow> frame | Some g \<Rightarrow> g) = symbolicated_by modules frame symbols" if "calm s"
    using find'(2) [OF that] run'
    by (intro exI [of _ "case q of Inl e \<Rightarrow> None | Inr symbols \<Rightarrow> Some symbols"])
      (auto simp: symbolicated_by_def Let_def split: if_split_asm option.splits sum.splits)
qed

lemma symbolicate_frames_effect:
  assumes "good s" and ids: "hex_pattern 32 (OrganizationID_value (ev_organizationID event))"
      "hex_pattern 32 (ProjectID_value (ev_projectID event))"
    and "symbolicate_frames vault event modules frames s = (updated, hasUpdate, t)"
  shows "good t \<and> (calm s \<longrightarrow> calm t) \<and> store t = store s \<and>
    list_all2 (\<lambda>f g. (g = f \<or> native_frame_valid g) \<and> same_place f g) frames updated \<and>
    (\<not> hasUpdate \<longrightarrow> updated = frames) \<and>
    (calm s \<longrightarrow> list_all2 (\<lambda>f g. \<exists>symbols. first_in_store (store s) (debug_scope (ev_organizationID event) (ev_projectID event))
      (nf_moduleDebugID f) symbols \<and> g = symbolicated_by modules f symbols) frames updated)"
  using assms(1,4)
proof (induction frames arbitrary: s updated hasUpdate)
  case (Cons frame frames)
  obtain r u where one: "symbolicateSingleFrame vault event modules frame s = (r, u)" by fastforce
  obtain rest upd v where rest: "symbolicate_frames vault event modules frames u = (rest, upd, v)"
    by (cases "symbolicate_frames vault event modules frames u") auto
  note one' = symbolicateSingleFrame_effect [OF Cons.prems(1) ids one]
  have out: "updated = (case r of None \<Rightarrow> frame | Some g \<Rightarrow> g) # rest" "hasUpdate = (upd \<or> r \<noteq> None)" "t = v"
    using Cons.prems(2) one rest by (auto split: option.split_asm)
  have same: "store u = store s" using one'(1) by simp
  from Cons.IH [of u rest upd] rest one'(1) out(3)
  have IH: "good t \<and> (calm u \<longrightarrow> calm t) \<and> store t = store u \<and>
    list_all2 (\<lambda>f g. (g = f \<or> native_frame_valid g) \<and> same_place f g) frames rest \<and> (\<not> upd \<longrightarrow> rest = frames) \<and>
    (calm u \<longrightarrow> list_all2 (\<lambda>f g. \<exists>symbols. first_in_store (store u) (debug_scope (ev_organizationID event) (ev_projectID event))
      (nf_moduleDebugID f) symbols \<and> g = symbolicated_by modules f symbols) frames rest)" by simp
  have "same_place frame frame" by (simp add: same_place_def)
  with one'(2) have "(case r of None \<Rightarrow> frame | Some g \<Rightarrow> g) = frame \<or> native_frame_valid (case r of None \<Rightarrow> frame | Some g \<Rightarrow> g)"
    "same_place frame (case r of None \<Rightarrow> frame | Some g \<Rightarrow> g)" by (auto split: option.split)
  with IH [unfolded same] one'(1,3) out show ?case by auto
qed auto

lemma SymbolicateCanonicalEvent_effect:
  assumes s: "good s" and ids: "hex_pattern 32 (OrganizationID_value (ev_organizationID event))"
      "hex_pattern 32 (ProjectID_value (ev_projectID event))"
    and run: "SymbolicateCanonicalEvent (Some vault) event s = (event', t)"
  shows "good t \<and> (calm s \<longrightarrow> calm t) \<and> store t = store s \<and>
    event' = event\<lparr>ev_nativeFrames := ev_nativeFrames event'\<rparr> \<and>
    list_all2 (\<lambda>f g. (g = f \<or> native_frame_valid g) \<and> same_place f g) (ev_nativeFrames event) (ev_nativeFrames event') \<and>
    (calm s \<longrightarrow> list_all2 (\<lambda>f g. \<exists>symbols. first_in_store (store s) (debug_scope (ev_organizationID event) (ev_projectID event))
      (nf_moduleDebugID f) symbols \<and> g = symbolicated_by (ev_nativeModules event) f symbols)
      (ev_nativeFrames event) (ev_nativeFrames event'))"
proof (cases "ev_nativeFrames event = []")
  case True
  with run s show ?thesis by (auto simp: SymbolicateCanonicalEvent_def)
next
  case False
  obtain updated hasUpdate u where frames: "symbolicate_frames vault event (ev_nativeModules event) (ev_nativeFrames event) s =
      (updated, hasUpdate, u)" by (cases "symbolicate_frames vault event (ev_nativeModules event) (ev_nativeFrames event) s") auto
  note f = symbolicate_frames_effect [OF s ids frames]
  have "u = t" "ev_nativeFrames event' = updated" "event' = event\<lparr>ev_nativeFrames := updated\<rparr>"
    using run frames False f by (auto simp: SymbolicateCanonicalEvent_def WithNativeFrames_def split: if_split_asm)
  with f show ?thesis by simp
qed

end

end
