(* ===== verification/SourceMapApply.thy ===== *)
theory SourceMapApply
  imports ArtifactServices
begin

text \<open>
  \<open>internal/app/sourcemaps/apply.go\<close>: the frames of an event's JavaScript stack trace are resolved through the
  source maps stored for its release. \<open>url.Parse\<close> and \<open>json.Unmarshal\<close> are parameters.
\<close>

text \<open>What is read of a parsed \<open>url.URL\<close>.\<close>

record PathURL =
  pu_Scheme :: string
  pu_Host :: string
  pu_Path :: string

definition sourceMapFileNameFromAbsPath :: "(string \<Rightarrow> PathURL option) \<Rightarrow> string \<Rightarrow> SourceMapFileName result" where
  "sourceMapFileNameFromAbsPath url_Parse absPath =
     (let trimmed = TrimSpace absPath in
      if trimmed = [] then fail ''abs path is empty''
      else NewSourceMapFileName (case url_Parse trimmed of
          None \<Rightarrow> trimmed
        | Some parsed \<Rightarrow>
            if (pu_Scheme parsed \<noteq> [] \<or> pu_Host parsed \<noteq> []) \<and> pu_Path parsed \<noteq> []
            then TrimPrefix (pu_Path parsed) ''/'' else trimmed))"

definition firstDistTag :: "(string \<rightharpoonup> string) \<Rightarrow> string option" where
  "firstDistTag tags =
     find (\<lambda>value. value \<noteq> []) (map (\<lambda>key. TrimSpace (case tags key of None \<Rightarrow> [] | Some value \<Rightarrow> value))
       [''dist'', ''sentry.dist'', ''sentry_dist''])"

definition sourceMapDistFromCanonicalEvent :: "CanonicalEvent \<Rightarrow> DistName option" where
  "sourceMapDistFromCanonicalEvent event =
     (case NewOptionalDistName (case firstDistTag (ev_tags event) of None \<Rightarrow> [] | Some candidate \<Rightarrow> candidate) of
       Inl e \<Rightarrow> None | Inr dist \<Rightarrow> Some dist)"

definition NewGeneratedPosition :: "int \<Rightarrow> int \<Rightarrow> GeneratedPosition" where
  "NewGeneratedPosition line column = \<lparr>gp_line = line, gp_column = column\<rparr>"

text \<open>The parts of \<open>resolveSingleFrame\<close> before and after the call of the resolver.\<close>

definition frame_identity :: "(string \<Rightarrow> PathURL option) \<Rightarrow> ReleaseName \<Rightarrow> DistName \<Rightarrow> JsStacktraceFrame \<Rightarrow>
    SourceMapIdentity option" where
  "frame_identity url_Parse release dist frame =
     (if jf_hasResolution frame then None
      else case rbind (sourceMapFileNameFromAbsPath url_Parse (jf_absPath frame)) (NewSourceMapIdentity release dist) of
        Inl e \<Rightarrow> None | Inr identity \<Rightarrow> Some identity)"

definition frame_position :: "JsStacktraceFrame \<Rightarrow> GeneratedPosition" where
  "frame_position frame = NewGeneratedPosition (int64 (jf_generatedLine frame - 1)) (jf_generatedColumn frame)"

definition frame_resolved :: "JsStacktraceFrame \<Rightarrow> ResolvedFrame \<Rightarrow> JsStacktraceFrame option" where
  "frame_resolved frame resolved =
     (let symbol = (case rf_name resolved of None \<Rightarrow> jf_function frame | Some name \<Rightarrow> name) in
      case NewResolvedJsStacktraceFrame (jf_absPath frame) (jf_function frame) (jf_generatedLine frame)
          (jf_generatedColumn frame) (rf_source resolved) symbol (int64 (rf_originalLine resolved + 1))
          (rf_originalColumn resolved) of
        Inl e \<Rightarrow> None | Inr frame' \<Rightarrow> Some frame')"

definition resolveSingleFrame :: "(string \<Rightarrow> PathURL option) \<Rightarrow> (string \<Rightarrow> rawSourceMap result) \<Rightarrow> 's ArtifactVault \<Rightarrow>
    OrganizationID \<Rightarrow> ProjectID \<Rightarrow> ReleaseName \<Rightarrow> DistName \<Rightarrow> JsStacktraceFrame \<Rightarrow> 's \<Rightarrow>
    JsStacktraceFrame option run \<times> 's" where
  "resolveSingleFrame url_Parse unmarshal vault organizationID projectID release dist frame s =
     (case frame_identity url_Parse release dist frame of None \<Rightarrow> (Returns None, s) | Some identity \<Rightarrow>
      let (lookup, t) = SourceMapResolve unmarshal vault organizationID projectID identity (frame_position frame) s in
      (bind_run lookup (\<lambda>r. Returns (case r of Inl e \<Rightarrow> None | Inr resolved \<Rightarrow> frame_resolved frame resolved)), t))"

fun resolve_frames :: "(JsStacktraceFrame \<Rightarrow> 's \<Rightarrow> JsStacktraceFrame option run \<times> 's) \<Rightarrow> JsStacktraceFrame list \<Rightarrow> 's \<Rightarrow>
    (JsStacktraceFrame list \<times> bool) run \<times> 's" where
  "resolve_frames resolve [] s = (Returns ([], False), s)"
| "resolve_frames resolve (frame # frames) s =
     (case resolve frame s of
       (Panics p, t) \<Rightarrow> (Panics p, t)
     | (Returns resolved, t) \<Rightarrow>
         (case resolve_frames resolve frames t of
           (Panics p, u) \<Rightarrow> (Panics p, u)
         | (Returns (updated, hasUpdate), u) \<Rightarrow>
             (Returns (case resolved of None \<Rightarrow> (frame # updated, hasUpdate)
                | Some frame' \<Rightarrow> (frame' # updated, True)), u)))"

definition ResolveCanonicalEvent :: "(string \<Rightarrow> PathURL option) \<Rightarrow> (string \<Rightarrow> rawSourceMap result) \<Rightarrow>
    's ArtifactVault option \<Rightarrow> CanonicalEvent \<Rightarrow> 's \<Rightarrow> CanonicalEvent run \<times> 's" where
  "ResolveCanonicalEvent url_Parse unmarshal resolver event s =
     (case resolver of None \<Rightarrow> (Returns event, s) | Some vault \<Rightarrow>
      if ev_jsStacktrace event = [] then (Returns event, s)
      else (case (NewReleaseName (ev_release event), sourceMapDistFromCanonicalEvent event) of
        (Inr release, Some dist) \<Rightarrow>
          let (out, t) = resolve_frames (resolveSingleFrame url_Parse unmarshal vault (ev_organizationID event)
                (ev_projectID event) release dist) (ev_jsStacktrace event) s in
          (bind_run out (\<lambda>(updated, hasUpdate).
             Returns (if \<not> hasUpdate then event else WithJsStacktrace event updated)), t)
      | _ \<Rightarrow> (Returns event, s)))"

subsection \<open>What the stored maps say\<close>

definition map_in :: "(string \<Rightarrow> rawSourceMap result) \<Rightarrow> string \<Rightarrow> SourceMap option" where
  "map_in unmarshal content =
     (if int (length content) > sourceMapMaxBytes then None
      else case ParseSourceMap unmarshal content of Inl e \<Rightarrow> None | Inr sm \<Rightarrow> Some sm)"

text \<open>The map stored for an identity, and the frame it gives: the original position is that of the last segment of
the generated line that starts at or before the column.\<close>

definition stored_map :: "(string \<Rightarrow> rawSourceMap result) \<Rightarrow> (ArtifactKey \<rightharpoonup> string) \<Rightarrow> OrganizationID \<Rightarrow> ProjectID \<Rightarrow>
    SourceMapIdentity \<Rightarrow> SourceMap option" where
  "stored_map unmarshal stored organizationID projectID identity =
     (case SourceMapKey organizationID projectID identity of Inl e \<Rightarrow> None | Inr key \<Rightarrow>
       (case stored key of None \<Rightarrow> None | Some content \<Rightarrow> map_in unmarshal content))"

definition frame_by_map :: "JsStacktraceFrame \<Rightarrow> SourceMap option \<Rightarrow> JsStacktraceFrame option run" where
  "frame_by_map frame found =
     (case found of None \<Rightarrow> Returns None | Some sm \<Rightarrow>
       (case covering_segment sm (frame_position frame) of None \<Rightarrow> Returns None | Some segment \<Rightarrow>
         bind_run (original_frame sm segment) (\<lambda>original.
           Returns (case original of None \<Rightarrow> None | Some resolved \<Rightarrow> frame_resolved frame resolved))))"

definition frame_by_store :: "(string \<Rightarrow> PathURL option) \<Rightarrow> (string \<Rightarrow> rawSourceMap result) \<Rightarrow> (ArtifactKey \<rightharpoonup> string) \<Rightarrow>
    OrganizationID \<Rightarrow> ProjectID \<Rightarrow> ReleaseName \<Rightarrow> DistName \<Rightarrow> JsStacktraceFrame \<Rightarrow> JsStacktraceFrame option run" where
  "frame_by_store url_Parse unmarshal stored organizationID projectID release dist frame =
     (case frame_identity url_Parse release dist frame of None \<Rightarrow> Returns None | Some identity \<Rightarrow>
      frame_by_map frame (stored_map unmarshal stored organizationID projectID identity))"

text \<open>The frames of a trace, resolved by a function of the frame: the first panic ends it.\<close>

fun resolve_all :: "(JsStacktraceFrame \<Rightarrow> JsStacktraceFrame option run) \<Rightarrow> JsStacktraceFrame list \<Rightarrow> JsStacktraceFrame list run" where
  "resolve_all f [] = Returns []"
| "resolve_all f (frame # frames) =
     bind_run (f frame) (\<lambda>resolved. bind_run (resolve_all f frames) (\<lambda>rest.
       Returns ((case resolved of None \<Rightarrow> frame | Some frame' \<Rightarrow> frame') # rest)))"

text \<open>A frame that keeps its generated position and is what its constructor accepts.\<close>

definition resolved_from :: "JsStacktraceFrame \<Rightarrow> JsStacktraceFrame \<Rightarrow> bool" where
  "resolved_from f g \<longleftrightarrow> g = f \<or> (\<not> jf_hasResolution f \<and> js_frame_valid g \<and> jf_hasResolution g \<and>
     jf_absPath g = TrimSpace (jf_absPath f) \<and> jf_generatedLine g = jf_generatedLine f \<and>
     jf_generatedColumn g = jf_generatedColumn f)"

lemma frame_resolved_from:
  "frame_resolved frame resolved = Some g \<Longrightarrow> \<not> jf_hasResolution frame \<Longrightarrow> resolved_from frame g"
  by (auto simp: frame_resolved_def resolved_from_def Let_def split: sum.split_asm
      dest!: NewResolvedJsStacktraceFrame_valid)

lemma bind_run_simps [simp]: "bind_run (Returns v) f = f v" "bind_run (Panics p) f = Panics p"
  by (simp_all add: bind_run_def)

lemma resolve_frames_from:
  assumes "\<And>f s r t g. resolve f s = (Returns r, t) \<Longrightarrow> r = Some g \<Longrightarrow> resolved_from f g"
    and "resolve_frames resolve frames s = (Returns (updated, hasUpdate), t)"
  shows "list_all2 resolved_from frames updated \<and> (\<not> hasUpdate \<longrightarrow> updated = frames)"
  using assms(2)
proof (induction frames arbitrary: s updated hasUpdate)
  case (Cons frame frames)
  have refl: "resolved_from f f" for f by (simp add: resolved_from_def)
  from Cons.prems obtain resolved u rest upd where steps: "resolve frame s = (Returns resolved, u)"
    "resolve_frames resolve frames u = (Returns (rest, upd), t)"
    "(updated, hasUpdate) = (case resolved of None \<Rightarrow> (frame # rest, upd) | Some frame' \<Rightarrow> (frame' # rest, True))"
    by (auto split: prod.split_asm run.split_asm)
  from Cons.IH [OF steps(2)] steps(3) assms(1) [OF steps(1)] refl show ?case
    by (auto split: option.split_asm)
qed simp

lemma lookup_covering:
  "ParseSourceMap unmarshal payload = ok sm \<Longrightarrow> LookupFrame sm position =
    (case covering_segment sm position of None \<Rightarrow> Returns None | Some s \<Rightarrow> original_frame sm s)"
  by (auto dest!: ParseSourceMap_okD intro: LookupFrame_covering decodeMappings_sorted)

context artifact_vault begin

lemma SourceMapResolve_effect:
  assumes s: "good s" and ids: "hex_pattern 32 (OrganizationID_value organizationID)" "hex_pattern 32 (ProjectID_value projectID)"
    and run: "SourceMapResolve unmarshal vault organizationID projectID identity position s = (r, t)"
  shows "good t \<and> (calm s \<longrightarrow> calm t) \<and> store t = store s"
    and "calm s \<Longrightarrow> bind_run r (\<lambda>r. Returns (case r of Inl e \<Rightarrow> None | Inr resolved \<Rightarrow> f resolved)) =
      (case stored_map unmarshal (store s) organizationID projectID identity of None \<Rightarrow> Returns None | Some sm \<Rightarrow>
        (case covering_segment sm position of None \<Rightarrow> Returns None | Some segment \<Rightarrow>
          bind_run (original_frame sm segment) (\<lambda>original.
            Returns (case original of None \<Rightarrow> None | Some resolved \<Rightarrow> f resolved))))"
proof -
  obtain key where key: "SourceMapKey organizationID projectID identity = ok key" "key_ok key"
    using service_key_ok(1) [OF ids, of identity] by blast
  obtain q u where get: "get_artifact vault ErrSourceMapNotFound key s = (q, u)" by fastforce
  note get' = get_artifact_effect [OF s key(2) get]
  define loaded where "loaded = rbind q (\<lambda>body. rbind (read_within sourceMapMaxBytes ErrSourceMapTooLarge body) (ParseSourceMap unmarshal))"
  have load: "SourceMapLoad unmarshal vault organizationID projectID identity s = (loaded, u)"
    using key get by (simp add: SourceMapLoad_def loaded_def abind_def alift_def split: sum.split)
  have run': "t = u" "r = (case loaded of Inl e \<Rightarrow> Returns (Inl e) | Inr sm \<Rightarrow> bind_run (LookupFrame sm position) (\<lambda>found.
      Returns (case found of None \<Rightarrow> Inl ErrSourceMapNotFound | Some frame \<Rightarrow> ok frame)))"
    using run load by (auto simp: SourceMapResolve_def split: sum.split_asm)
  with get'(1) show "good t \<and> (calm s \<longrightarrow> calm t) \<and> store t = store s" by simp
  assume c: "calm s"
  show "bind_run r (\<lambda>r. Returns (case r of Inl e \<Rightarrow> None | Inr resolved \<Rightarrow> f resolved)) =
      (case stored_map unmarshal (store s) organizationID projectID identity of None \<Rightarrow> Returns None | Some sm \<Rightarrow>
        (case covering_segment sm position of None \<Rightarrow> Returns None | Some segment \<Rightarrow>
          bind_run (original_frame sm segment) (\<lambda>original.
            Returns (case original of None \<Rightarrow> None | Some resolved \<Rightarrow> f resolved))))"
  proof (cases loaded)
    case (Inl e)
    have "stored_map unmarshal (store s) organizationID projectID identity = None"
    proof (cases "store s key")
      case (Some content)
      with get'(2) [OF c] Inl have "rbind (read_within sourceMapMaxBytes ErrSourceMapTooLarge \<lparr>rd_data = content, rd_error = None\<rparr>)
          (ParseSourceMap unmarshal) = Inl e" by (simp add: loaded_def)
      then show ?thesis using key Some
        by (auto simp: stored_map_def map_in_def read_within_def ReadAll_def LimitReader_def sourceMapMaxBytes_def result_simps
            split: if_split_asm)
    qed (simp add: stored_map_def key)
    with run'(2) Inl show ?thesis by simp
  next
    case (Inr sm)
    then obtain body where body: "q = ok body" "rbind (read_within sourceMapMaxBytes ErrSourceMapTooLarge body)
        (ParseSourceMap unmarshal) = ok sm" by (auto simp: loaded_def result_simps)
    then have "rd_error body = None \<or> LimitReader (nat (sourceMapMaxBytes + 1)) body \<noteq> body"
      by (auto simp: read_within_def ReadAll_def result_simps split: option.split_asm)
    with body(2) have "rd_error body = None"
      by (auto simp: read_within_def ReadAll_def LimitReader_def sourceMapMaxBytes_def result_simps split: if_split_asm option.split_asm)
    from get'(3) [OF body(1) this] have content: "store s key = Some (rd_data body)" .
    with body(2) key \<open>rd_error body = None\<close> have "stored_map unmarshal (store s) organizationID projectID identity = Some sm"
      by (auto simp: stored_map_def map_in_def read_within_def ReadAll_def LimitReader_def sourceMapMaxBytes_def result_simps
          split: if_split_asm)
    moreover have "ParseSourceMap unmarshal (rd_data body) = ok sm"
      using body(2) \<open>rd_error body = None\<close>
      by (auto simp: read_within_def ReadAll_def LimitReader_def sourceMapMaxBytes_def result_simps split: if_split_asm)
    ultimately show ?thesis
      using run'(2) Inr lookup_covering [of unmarshal "rd_data body" sm position]
      by (auto simp: bind_run_def split: option.split run.split)
  qed
qed

lemma resolveSingleFrame_effect:
  assumes s: "good s" and ids: "hex_pattern 32 (OrganizationID_value organizationID)" "hex_pattern 32 (ProjectID_value projectID)"
    and run: "resolveSingleFrame url_Parse unmarshal vault organizationID projectID release dist frame s = (r, t)"
  shows "good t \<and> (calm s \<longrightarrow> calm t) \<and> store t = store s"
    and "calm s \<Longrightarrow> r = frame_by_store url_Parse unmarshal (store s) organizationID projectID release dist frame"
proof -
  have "(good t \<and> (calm s \<longrightarrow> calm t) \<and> store t = store s) \<and>
    (calm s \<longrightarrow> r = frame_by_store url_Parse unmarshal (store s) organizationID projectID release dist frame)"
  proof (cases "frame_identity url_Parse release dist frame")
    case None
    with run s show ?thesis by (auto simp: resolveSingleFrame_def frame_by_store_def)
  next
    case (Some identity)
    obtain lookup u where l: "SourceMapResolve unmarshal vault organizationID projectID identity (frame_position frame) s = (lookup, u)"
      by fastforce
    note l' = SourceMapResolve_effect [OF s ids l]
    from run Some l have "t = u" "r = bind_run lookup (\<lambda>r. Returns (case r of Inl e \<Rightarrow> None | Inr resolved \<Rightarrow> frame_resolved frame resolved))"
      by (auto simp: resolveSingleFrame_def)
    with l' Some show ?thesis by (auto simp: frame_by_store_def frame_by_map_def)
  qed
  then show "good t \<and> (calm s \<longrightarrow> calm t) \<and> store t = store s"
    and "calm s \<Longrightarrow> r = frame_by_store url_Parse unmarshal (store s) organizationID projectID release dist frame" by blast+
qed

lemma resolve_frames_effect:
  assumes "good s" and ids: "hex_pattern 32 (OrganizationID_value organizationID)" "hex_pattern 32 (ProjectID_value projectID)"
    and "resolve_frames (resolveSingleFrame url_Parse unmarshal vault organizationID projectID release dist) frames s = (out, t)"
  shows "good t \<and> (calm s \<longrightarrow> calm t) \<and> store t = store s \<and>
    (calm s \<longrightarrow> resolve_all (frame_by_store url_Parse unmarshal (store s) organizationID projectID release dist) frames =
      bind_run out (\<lambda>(updated, hasUpdate). Returns updated))"
  using assms(1,4)
proof (induction frames arbitrary: s out t)
  case (Cons frame frames)
  let ?resolve = "resolveSingleFrame url_Parse unmarshal vault organizationID projectID release dist"
  obtain r u where one: "?resolve frame s = (r, u)" by fastforce
  note one' = resolveSingleFrame_effect [OF Cons.prems(1) ids one]
  show ?case
  proof (cases r)
    case (Panics p)
    then have "calm s \<Longrightarrow> frame_by_store url_Parse unmarshal (store s) organizationID projectID release dist frame = Panics p"
      using one'(2) by simp
    with Panics Cons.prems one one'(1) show ?thesis by auto
  next
    case (Returns resolved)
    obtain out' v where rest: "resolve_frames ?resolve frames u = (out', v)" by fastforce
    have out: "t = v" "out = (case out' of Panics p \<Rightarrow> Panics p | Returns (updated, hasUpdate) \<Rightarrow>
        Returns (case resolved of None \<Rightarrow> (frame # updated, hasUpdate) | Some frame' \<Rightarrow> (frame' # updated, True)))"
      using Cons.prems(2) one Returns rest by (auto split: run.split_asm)
    have same: "store u = store s" "good u" "calm s \<Longrightarrow> calm u" using one'(1) by simp_all
    have f: "calm s \<Longrightarrow> frame_by_store url_Parse unmarshal (store s) organizationID projectID release dist frame = Returns resolved"
      using one'(2) Returns by simp
    note IH = Cons.IH [OF same(2) rest, unfolded same(1)]
    show ?thesis
    proof (cases out')
      case (Panics p)
      with IH same(3) out f show ?thesis by simp
    next
      case (Returns rest')
      obtain updated upd where "rest' = (updated, upd)" by fastforce
      with IH same(3) out Returns f show ?thesis by (cases resolved) simp_all
    qed
  qed
qed auto

lemma ResolveCanonicalEvent_effect:
  assumes s: "good s" and ids: "hex_pattern 32 (OrganizationID_value (ev_organizationID event))"
      "hex_pattern 32 (ProjectID_value (ev_projectID event))"
    and run: "ResolveCanonicalEvent url_Parse unmarshal (Some vault) event s = (out, t)"
  shows "good t \<and> (calm s \<longrightarrow> calm t) \<and> store t = store s"
    and "out = Returns event' \<Longrightarrow> event' = event\<lparr>ev_jsStacktrace := ev_jsStacktrace event'\<rparr> \<and>
      list_all2 resolved_from (ev_jsStacktrace event) (ev_jsStacktrace event')"
    and "calm s \<Longrightarrow> NewReleaseName (ev_release event) = ok release \<Longrightarrow> sourceMapDistFromCanonicalEvent event = Some dist \<Longrightarrow>
      out = bind_run (resolve_all (frame_by_store url_Parse unmarshal (store s) (ev_organizationID event)
        (ev_projectID event) release dist) (ev_jsStacktrace event)) (\<lambda>frames. Returns (event\<lparr>ev_jsStacktrace := frames\<rparr>))"
proof -
  have refl: "list_all2 resolved_from fs fs" for fs by (rule list_all2_refl) (simp add: resolved_from_def)
  have "(good t \<and> (calm s \<longrightarrow> calm t) \<and> store t = store s) \<and>
    (\<forall>event'. out = Returns event' \<longrightarrow> event' = event\<lparr>ev_jsStacktrace := ev_jsStacktrace event'\<rparr> \<and>
      list_all2 resolved_from (ev_jsStacktrace event) (ev_jsStacktrace event')) \<and>
    (\<forall>release dist. calm s \<longrightarrow> NewReleaseName (ev_release event) = ok release \<longrightarrow> sourceMapDistFromCanonicalEvent event = Some dist \<longrightarrow>
      out = bind_run (resolve_all (frame_by_store url_Parse unmarshal (store s) (ev_organizationID event)
        (ev_projectID event) release dist) (ev_jsStacktrace event)) (\<lambda>frames. Returns (event\<lparr>ev_jsStacktrace := frames\<rparr>)))"
  proof (cases "ev_jsStacktrace event = [] \<or> (\<forall>release. NewReleaseName (ev_release event) \<noteq> ok release) \<or>
      sourceMapDistFromCanonicalEvent event = None")
    case True
    then have "out = Returns event" "t = s"
      using run by (auto simp: ResolveCanonicalEvent_def split: sum.split_asm option.split_asm if_split_asm)
    with True s refl show ?thesis by auto
  next
    case False
    then obtain release dist where rd: "NewReleaseName (ev_release event) = ok release"
      "sourceMapDistFromCanonicalEvent event = Some dist" by auto
    let ?resolve = "resolveSingleFrame url_Parse unmarshal vault (ev_organizationID event) (ev_projectID event) release dist"
    obtain frames u where fs: "resolve_frames ?resolve (ev_jsStacktrace event) s = (frames, u)" by fastforce
    have out: "t = u" "out = bind_run frames (\<lambda>(updated, hasUpdate). Returns (if \<not> hasUpdate then event else WithJsStacktrace event updated))"
      using run False rd fs by (auto simp: ResolveCanonicalEvent_def)
    note eff = resolve_frames_effect [OF s ids fs]
    have origin: "resolved_from f g" if "?resolve f s = (Returns r, t)" "r = Some g" for f s r t g
      using that by (auto simp: resolveSingleFrame_def frame_identity_def bind_run_def dest: frame_resolved_from
          split: option.split_asm prod.split_asm run.split_asm sum.split_asm if_split_asm)
    show ?thesis
    proof (cases frames)
      case (Panics p)
      with eff out rd show ?thesis by auto
    next
      case (Returns upd)
      obtain updated hasUpdate where upd: "upd = (updated, hasUpdate)" by fastforce
      have l: "list_all2 resolved_from (ev_jsStacktrace event) updated" "\<not> hasUpdate \<longrightarrow> updated = ev_jsStacktrace event"
        using resolve_frames_from [of ?resolve "ev_jsStacktrace event" s updated hasUpdate u] origin fs Returns upd by blast+
      have "out = Returns (event\<lparr>ev_jsStacktrace := updated\<rparr>)"
        using out(2) Returns upd l(2) by (auto simp: WithJsStacktrace_def)
      with eff out(1) Returns upd rd l(1) show ?thesis by auto
    qed
  qed
  then show "good t \<and> (calm s \<longrightarrow> calm t) \<and> store t = store s"
    and "out = Returns event' \<Longrightarrow> event' = event\<lparr>ev_jsStacktrace := ev_jsStacktrace event'\<rparr> \<and>
      list_all2 resolved_from (ev_jsStacktrace event) (ev_jsStacktrace event')"
    and "calm s \<Longrightarrow> NewReleaseName (ev_release event) = ok release \<Longrightarrow> sourceMapDistFromCanonicalEvent event = Some dist \<Longrightarrow>
      out = bind_run (resolve_all (frame_by_store url_Parse unmarshal (store s) (ev_organizationID event)
        (ev_projectID event) release dist) (ev_jsStacktrace event)) (\<lambda>frames. Returns (event\<lparr>ev_jsStacktrace := frames\<rparr>))"
    by blast+
qed

end

subsection \<open>Which frame a map gives\<close>

text \<open>
  The specification of a resolution, in the numbers of a reader: generated and original lines count from one,
  lines of the map from zero. It shares the constructors of names and the parser of maps with the code.
\<close>

definition path_of_url :: "(string \<Rightarrow> PathURL option) \<Rightarrow> string \<Rightarrow> string" where
  "path_of_url url_Parse text = (case url_Parse text of None \<Rightarrow> text | Some u \<Rightarrow>
     if pu_Path u = [] \<or> pu_Scheme u = [] \<and> pu_Host u = [] then text
     else if hd (pu_Path u) = CHR ''/'' then tl (pu_Path u) else pu_Path u)"

definition map_of_path :: "(string \<Rightarrow> PathURL option) \<Rightarrow> (string \<Rightarrow> rawSourceMap result) \<Rightarrow> (ArtifactKey \<rightharpoonup> string) \<Rightarrow>
    OrganizationID \<Rightarrow> ProjectID \<Rightarrow> ReleaseName \<Rightarrow> DistName \<Rightarrow> string \<Rightarrow> SourceMap option" where
  "map_of_path url_Parse unmarshal stored organizationID projectID release dist path =
     (if path = [] then None else
      case NewSourceMapFileName (path_of_url url_Parse path) of Inl e \<Rightarrow> None | Inr file \<Rightarrow>
      case NewSourceMapIdentity release dist file of Inl e \<Rightarrow> None | Inr identity \<Rightarrow>
        stored_map unmarshal stored organizationID projectID identity)"

definition segment_at :: "SourceMap \<Rightarrow> int \<Rightarrow> int \<Rightarrow> segment option" where
  "segment_at sm line column =
     (let earlier = (if 1 \<le> line \<and> line \<le> int (length (sm_lines sm))
        then filter (\<lambda>s. generatedColumn s \<le> column) (segments (sm_lines sm ! nat (line - 1))) else [])
      in if earlier = [] then None else Some (last earlier))"

definition resolution_at :: "SourceMap \<Rightarrow> string \<Rightarrow> segment \<Rightarrow> JsStacktraceResolution" where
  "resolution_at sm function s =
     \<lparr>jr_source = TrimSpace (sources sm ! nat (sourceIndex s)),
      jr_symbol = TrimSpace (if 0 \<le> nameIndex s \<and> nameIndex s < int (length (sm_names sm))
        then sm_names sm ! nat (nameIndex s) else function),
      jr_originalLine = originalLine s + 1, jr_originalColumn = originalColumn s\<rparr>"

definition acceptable_resolution :: "JsStacktraceResolution \<Rightarrow> bool" where
  "acceptable_resolution r \<longleftrightarrow> visible_text jsStacktraceSourceMaxBytes (jr_source r) \<and>
     (jr_symbol r = [] \<or> visible_text jsStacktraceSymbolMaxBytes (jr_symbol r)) \<and>
     1 \<le> jr_originalLine r \<and> jr_originalLine r < 2 ^ 63 \<and> 0 \<le> jr_originalColumn r"

definition mapped_frame :: "(string \<Rightarrow> PathURL option) \<Rightarrow> (string \<Rightarrow> rawSourceMap result) \<Rightarrow> (ArtifactKey \<rightharpoonup> string) \<Rightarrow>
    OrganizationID \<Rightarrow> ProjectID \<Rightarrow> ReleaseName \<Rightarrow> DistName \<Rightarrow> JsStacktraceFrame \<Rightarrow> JsStacktraceFrame option run" where
  "mapped_frame url_Parse unmarshal stored organizationID projectID release dist frame =
     (if jf_hasResolution frame then Returns None else
      case map_of_path url_Parse unmarshal stored organizationID projectID release dist (jf_absPath frame) of
        None \<Rightarrow> Returns None
      | Some sm \<Rightarrow> (case segment_at sm (jf_generatedLine frame) (jf_generatedColumn frame) of
          None \<Rightarrow> Returns None
        | Some s \<Rightarrow>
            if sourceIndex s = -1 \<or> int (length (sources sm)) \<le> sourceIndex s then Returns None
            else if sourceIndex s < -1 \<or> nameIndex s < -1 then Panics ''index out of range''
            else let r = resolution_at sm (jf_function frame) s in
              Returns (if acceptable_resolution r then Some (frame\<lparr>jf_hasResolution := True, jf_resolution := r\<rparr>) else None)))"

text \<open>What a frame without a resolution is when its constructor made it.\<close>

definition js_frame_made :: "JsStacktraceFrame \<Rightarrow> bool" where
  "js_frame_made f \<longleftrightarrow> js_frame_valid f \<and> TrimSpace (jf_absPath f) = jf_absPath f \<and>
     TrimSpace (jf_function f) = jf_function f \<and> jf_generatedLine f < 2 ^ 63"

lemma NewUnresolvedJsStacktraceFrame_made:
  "NewUnresolvedJsStacktraceFrame p fn l c = ok f \<Longrightarrow> l < 2 ^ 63 \<Longrightarrow> js_frame_made f"
  by (auto simp: NewUnresolvedJsStacktraceFrame_def js_frame_made_def js_frame_valid_def result_simps
      jsAbsPath.new_ok_iff jsFunction.new_ok_iff split: if_splits)

text \<open>The lines of a parsed map fit the integers of the machine.\<close>

definition lines_fit :: "segment \<Rightarrow> bool" where
  "lines_fit s \<longleftrightarrow> - (2 ^ 63) \<le> originalLine s \<and> originalLine s < 2 ^ 63"

lemma add_fields_fit: "lines_fit (fst (add_fields xs column t))"
  using int64_bounds by (simp add: add_fields_def lines_fit_def Let_def noIndex_def)

lemma decodeLine_fit:
  "decodeLine ws column t segs = ok (segs', t') \<Longrightarrow> list_all lines_fit segs \<Longrightarrow> list_all lines_fit segs'"
proof (induction ws column t segs rule: decodeLine.induct)
  case (2 w ws column t segs)
  show ?case
  proof (cases "w = []")
    case False
    then obtain fields where f: "decodeSegment w = ok fields" using 2(3) by (auto simp: rbind_eq_ok)
    obtain seg t1 where a: "add_fields fields (int64 (column + fields ! 0)) t = (seg, t1)" by fastforce
    have "lines_fit seg" using add_fields_fit a by (metis fst_conv)
    with 2 False f a show ?thesis by (simp add: Let_def)
  qed (use 2 in simp)
qed simp

lemma decodeLines_fit: "decodeLines ws t = ok ls \<Longrightarrow> list_all (\<lambda>l. list_all lines_fit (segments l)) ls"
proof (induction ws t arbitrary: ls rule: decodeLines.induct)
  case (2 w ws t)
  show ?case
  proof (cases "w = []")
    case False
    then obtain segs t' rest where d: "decodeLine (split_byte (CHR '','') w) 0 t [] = ok (segs, t')" "decodeLines ws t' = ok rest"
        "ls = \<lparr>segments = sort_key generatedColumn segs\<rparr> # rest"
      using 2(3) by (auto simp: rbind_eq_ok)
    from decodeLine_fit [OF d(1)] have "list_all lines_fit (sort_key generatedColumn segs)" by (simp add: list_all_iff)
    with 2(2) [OF False d(1) refl d(2)] d(3) show ?thesis by simp
  qed (use 2 in \<open>auto simp: rbind_eq_ok\<close>)
qed simp

lemma stored_map_fits:
  assumes "stored_map unmarshal stored organizationID projectID identity = Some sm" and "segment_at sm line column = Some s"
  shows "lines_fit s"
proof -
  obtain content where "ParseSourceMap unmarshal content = ok sm"
    using assms(1) by (auto simp: stored_map_def map_in_def split: sum.split_asm option.split_asm if_split_asm)
  then obtain input where "decodeMappings input = ok (sm_lines sm)" using ParseSourceMap_okD by blast
  then have fit: "list_all (\<lambda>l. list_all lines_fit (segments l)) (sm_lines sm)"
    by (auto simp: decodeMappings_def split: if_split_asm dest: decodeLines_fit)
  have l: "1 \<le> line" "line \<le> int (length (sm_lines sm))"
      "s \<in> set (filter (\<lambda>s. generatedColumn s \<le> column) (segments (sm_lines sm ! nat (line - 1))))"
    using assms(2) last_in_set [of "filter (\<lambda>s. generatedColumn s \<le> column) (segments (sm_lines sm ! nat (line - 1)))"]
    unfolding segment_at_def Let_def by (simp_all split: if_split_asm)
  then have "sm_lines sm ! nat (line - 1) \<in> set (sm_lines sm)" by (intro nth_mem) linarith
  with fit l(3) show ?thesis by (auto simp: list_all_iff)
qed

lemma segment_at_covering:
  "segment_at sm line column = covering_segment sm \<lparr>gp_line = line - 1, gp_column = column\<rparr>"
  by (simp add: segment_at_def covering_segment_def find_rev_last Let_def) linarith

lemma newJsStacktraceResolution_ok_iff:
  "newJsStacktraceResolution source symbol line column = ok r \<longleftrightarrow>
     r = \<lparr>jr_source = TrimSpace source, jr_symbol = TrimSpace symbol, jr_originalLine = line, jr_originalColumn = column\<rparr> \<and>
     visible_text jsStacktraceSourceMaxBytes (TrimSpace source) \<and>
     (TrimSpace symbol = [] \<or> visible_text jsStacktraceSymbolMaxBytes (TrimSpace symbol)) \<and> 1 \<le> line \<and> 0 \<le> column"
  by (auto simp: newJsStacktraceResolution_def rbind_eq_ok jsResolvedSource.new_ok_iff jsResolvedSymbol.new_ok_iff not_less)

lemma frame_resolved_mapped:
  assumes f: "js_frame_made frame" "\<not> jf_hasResolution frame"
    and fit: "- (2 ^ 63) \<le> rf_originalLine resolved" "rf_originalLine resolved < 2 ^ 63"
    and r: "r = \<lparr>jr_source = TrimSpace (rf_source resolved),
      jr_symbol = TrimSpace (case rf_name resolved of None \<Rightarrow> jf_function frame | Some name \<Rightarrow> name),
      jr_originalLine = rf_originalLine resolved + 1, jr_originalColumn = rf_originalColumn resolved\<rparr>"
  shows "frame_resolved frame resolved =
    (if acceptable_resolution r then Some (frame\<lparr>jf_hasResolution := True, jf_resolution := r\<rparr>) else None)"
proof -
  have frame: "NewUnresolvedJsStacktraceFrame (jf_absPath frame) (jf_function frame) (jf_generatedLine frame)
      (jf_generatedColumn frame) = ok (frame\<lparr>jf_resolution := zero_resolution\<rparr>)"
    using f by (auto simp: NewUnresolvedJsStacktraceFrame_def js_frame_made_def js_frame_valid_def result_simps
        jsAbsPath.new_ok_iff jsFunction.new_ok_iff)
  have line: "int64 (rf_originalLine resolved + 1) = rf_originalLine resolved + 1" if "rf_originalLine resolved + 1 < 2 ^ 63"
    using fit that by (intro int64_id) simp_all
  have over: "int64 (rf_originalLine resolved + 1) < 1" if "\<not> rf_originalLine resolved + 1 < 2 ^ 63"
  proof -
    have "rf_originalLine resolved + 1 = 2 ^ 63" using that fit(2) by simp
    then show ?thesis by (simp add: int64_def)
  qed
  define made where "made = newJsStacktraceResolution (rf_source resolved)
    (case rf_name resolved of None \<Rightarrow> jf_function frame | Some name \<Rightarrow> name) (int64 (rf_originalLine resolved + 1))
    (rf_originalColumn resolved)"
  have "made = ok q \<longleftrightarrow> acceptable_resolution r \<and> q = r" for q
    unfolding made_def using line over by (cases "rf_originalLine resolved + 1 < 2 ^ 63")
      (auto simp: newJsStacktraceResolution_ok_iff acceptable_resolution_def r)
  moreover have "frame_resolved frame resolved =
      (case made of Inl e \<Rightarrow> None | Inr q \<Rightarrow> Some (frame\<lparr>jf_hasResolution := True, jf_resolution := q\<rparr>))"
    by (simp add: frame_resolved_def Let_def NewResolvedJsStacktraceFrame_def frame made_def [symmetric] rbind_def split: sum.split)
  ultimately show ?thesis by (cases made) auto
qed

lemma map_of_path_stored:
  assumes "js_frame_made frame" and "\<not> jf_hasResolution frame"
  shows "map_of_path url_Parse unmarshal stored organizationID projectID release dist (jf_absPath frame) =
    (case frame_identity url_Parse release dist frame of None \<Rightarrow> None | Some identity \<Rightarrow>
      stored_map unmarshal stored organizationID projectID identity)"
proof -
  have "prefix ''/'' path \<longleftrightarrow> path \<noteq> [] \<and> hd path = CHR ''/''" for path :: string by (cases path) auto
  then have "path_of_url url_Parse path = (case url_Parse path of None \<Rightarrow> path
      | Some u \<Rightarrow> if (pu_Scheme u \<noteq> [] \<or> pu_Host u \<noteq> []) \<and> pu_Path u \<noteq> [] then TrimPrefix (pu_Path u) ''/'' else path)" for path
    by (auto simp: path_of_url_def TrimPrefix_def drop_Suc split: option.split)
  then show ?thesis
    using assms by (auto simp: map_of_path_def frame_identity_def sourceMapFileNameFromAbsPath_def js_frame_made_def Let_def rbind_def
        split: sum.split)
qed

lemma frame_by_store_mapped:
  assumes "js_frame_made frame"
  shows "frame_by_store url_Parse unmarshal stored organizationID projectID release dist frame =
    mapped_frame url_Parse unmarshal stored organizationID projectID release dist frame"
proof (cases "jf_hasResolution frame \<or> frame_identity url_Parse release dist frame = None")
  case True
  then show ?thesis
    using map_of_path_stored [OF assms] by (auto simp: mapped_frame_def frame_by_store_def frame_identity_def)
next
  case False
  then obtain identity where i: "frame_identity url_Parse release dist frame = Some identity" "\<not> jf_hasResolution frame" by auto
  note path = map_of_path_stored [OF assms i(2), of url_Parse unmarshal stored organizationID projectID release dist, unfolded i(1)]
  have line: "int64 (jf_generatedLine frame - 1) = jf_generatedLine frame - 1"
    using assms by (intro int64_id) (auto simp: js_frame_made_def js_frame_valid_def)
  show ?thesis
  proof (cases "stored_map unmarshal stored organizationID projectID identity")
    case None
    with i path show ?thesis by (simp add: mapped_frame_def frame_by_store_def frame_by_map_def)
  next
    case (Some sm)
    have seg: "covering_segment sm (frame_position frame) = segment_at sm (jf_generatedLine frame) (jf_generatedColumn frame)"
      by (simp add: segment_at_covering frame_position_def NewGeneratedPosition_def line)
    show ?thesis
    proof (cases "segment_at sm (jf_generatedLine frame) (jf_generatedColumn frame)")
      case None
      with i path Some seg show ?thesis by (simp add: mapped_frame_def frame_by_store_def frame_by_map_def)
    next
      case at: (Some s)
      have fit: "- (2 ^ 63) \<le> originalLine s" "originalLine s < 2 ^ 63"
        using stored_map_fits [OF Some at] by (simp_all add: lines_fit_def)
      have "bind_run (original_frame sm s) (\<lambda>original.
          Returns (case original of None \<Rightarrow> None | Some resolved \<Rightarrow> frame_resolved frame resolved)) =
        (if sourceIndex s = -1 \<or> int (length (sources sm)) \<le> sourceIndex s then Returns None
         else if sourceIndex s < -1 \<or> nameIndex s < -1 then Panics ''index out of range''
         else let r = resolution_at sm (jf_function frame) s in
           Returns (if acceptable_resolution r then Some (frame\<lparr>jf_hasResolution := True, jf_resolution := r\<rparr>) else None))"
        using fit by (auto simp: original_frame_def noIndex_def Let_def resolution_at_def
            frame_resolved_mapped [OF assms i(2) _ _ refl])
      with i path Some at seg show ?thesis by (simp add: mapped_frame_def frame_by_store_def frame_by_map_def)
    qed
  qed
qed

lemma resolve_all_cong:
  "(\<And>f. f \<in> set fs \<Longrightarrow> resolve f = resolve' f) \<Longrightarrow> resolve_all resolve fs = resolve_all resolve' fs"
  by (induction fs) auto

end
