(* ===== verification/ArtifactProperties.thy ===== *)
theory ArtifactProperties
  imports Symbolication SourceMapApply
begin

text \<open>
  The properties of the artifact vault in a directory tree, of the services on it and of what they do to events.
\<close>

subsection \<open>An example\<close>

definition example_tree :: FS where
  "example_tree = \<lparr>fs_files = [], fs_dirs = [''/srv''], fs_tick = 0, fs_faults = (\<lambda>_. None),
     fs_temp = (\<lambda>_. ''7''), fs_written = (\<lambda>_. 0)\<rparr>"

definition example_org :: OrganizationID where "example_org = OrganizationID (replicate 32 CHR ''a'')"
definition example_project :: ProjectID where "example_project = ProjectID (replicate 32 CHR ''b'')"

definition example_debug_id :: DebugIdentifier where "example_debug_id = DebugIdentifier (replicate 32 CHR ''d'')"

definition example_debug_file :: DebugFileIdentity where
  "example_debug_file = \<lparr>dfi_debugID = example_debug_id, dfi_kind = DebugFileKindBreakpad, dfi_fileName = DebugFileName ''a.sym''\<rparr>"

lemma example_root: "root_ok ''/srv''"
  by (simp add: root_ok_def Clean_def path_components_def path_of_def)

lemma example_tree_good: "rooted ''/srv'' example_tree" "untroubled ''/srv'' example_tree" "vault_store ''/srv'' example_tree = (\<lambda>_. None)"
  using example_root by (simp_all add: rooted_def untroubled_def vault_good_def vault_calm_def tidy_def fs_paths_def vault_store_def
      example_tree_def digit_byte_def fun_eq_iff)

lemma example_ids: "hex_pattern 32 (OrganizationID_value example_org)" "hex_pattern 32 (ProjectID_value example_project)"
  by (simp_all add: example_org_def example_project_def hex_pattern_def list_all_iff hex_byte_def)

subsection \<open>Where artifacts are\<close>

text \<open>
  C27. No artifact key leads out of the vault, and no two keys share a file: for keys of validated parts and a
  cleaned root, \<open>keyPath\<close> succeeds, the check against escaping paths never fires, the path is the root followed by
  four components (organization, project, kind and name), and it determines the key.
\<close>

theorem key_paths_are_inside_and_distinct:
  assumes "root_ok root" and "key_ok key" and "key_ok key'"
  shows "\<exists>p q. keyPath root key = ok p \<and> keyPath root key' = ok q \<and> (p = q \<longleftrightarrow> key = key') \<and> pathInside root p \<and>
    path_components p = path_components root @ [OrganizationID_String (key_organizationID key),
      ProjectID_String (key_projectID key), ArtifactKind_value (key_kind key), ArtifactName_value (key_name key)]"
proof -
  have inside: "pathInside root (key_path root key)"
  proof -
    have n: "plain_component (ArtifactName_value (key_name key))" "CHR ''/'' \<notin> set (ArtifactName_value (key_name key))"
      using artifact_name_component [of _ "key_name key"] assms(2) by (auto simp: key_ok_def)
    show ?thesis
      using pathInside_key [OF path_components_plain scope_components_dotless [OF key_ok_scope [OF assms(2)]] _ n, of root]
        root_path [OF assms(1)] by (simp add: key_path_def scope_components_def)
  qed
  have "path_components (key_path root key) =
      path_components root @ scope_components (scope_of key) @ [ArtifactName_value (key_name key)]"
    unfolding key_path_def by (rule path_components_path_of [OF key_plain [OF assms(2)]])
  with inside keyPath_ok [OF assms(1,2)] keyPath_ok [OF assms(1,3)] key_path_inj [OF assms(2,3)] show ?thesis
    by (auto simp: scope_components_def scope_of_def)
qed

definition example_key :: "string \<Rightarrow> ArtifactKey" where
  "example_key name = \<lparr>key_organizationID = example_org, key_projectID = example_project, key_kind = ArtifactKindDebugFile,
     key_name = ArtifactName name\<rparr>"

lemma example_keys: "key_ok (example_key ''a'')" "key_ok (example_key ''b'')"
  using example_ids
  by (simp_all add: key_ok_def example_key_def artifact_kinds_def artifactName.new_ok_iff plain_name_def visible_text_def
      TrimSpace_id artifactNameMaxBytes_def visibleString_ascii ascii_ValidString is_ascii_def HasPrefix_def ContainsAny_def)

theorem key_paths_are_inside_and_distinct_witness:
  "\<exists>p q. keyPath ''/srv'' (example_key ''a'') = ok p \<and> keyPath ''/srv'' (example_key ''b'') = ok q \<and> p \<noteq> q \<and> pathInside ''/srv'' p"
  using key_paths_are_inside_and_distinct [OF example_root example_keys] by (auto simp: example_key_def)

subsection \<open>Uploads\<close>

text \<open>Storing a debug file when no call fails.\<close>

lemma debug_file_upload_stores:
  assumes "rooted root s" and "untroubled root s"
    and "hex_pattern 32 (OrganizationID_value org)" and "hex_pattern 32 (ProjectID_value project)"
    and "DetectKind (take debugFileSniffPrefixSize content) = ok (dfi_kind identity)"
    and "int (length content) \<le> debugFileMaxBytes"
  shows "\<exists>key t. DebugFileKey org project identity = ok key \<and> key_ok key \<and>
    DebugFileUpload (FilesystemVault root) org project identity (Some \<lparr>rd_data = content, rd_error = None\<rparr>) s =
      (ok \<lparr>df_identity = identity, df_size = int (length content)\<rparr>, t) \<and>
    rooted root t \<and> untroubled root t \<and> vault_store root t = (vault_store root s)(key \<mapsto> content)"
proof -
  let ?reader = "\<lparr>rd_data = content, rd_error = None\<rparr>" and ?vault = "FilesystemVault root"
  obtain key where key: "DebugFileKey org project identity = ok key" "key_ok key"
    using service_key_ok(2) [OF assms(3,4), of identity] by blast
  have "\<exists>x. ReadFull debugFileSniffPrefixSize ?reader = ok x" by (simp add: ReadFull_def)
  then obtain start rest where read: "ReadFull debugFileSniffPrefixSize ?reader = ok (start, rest)" by auto
  have matches: "MatchesDeclaredKind (dfi_kind identity) start = ok ()"
    using ReadFull_MultiReader(2) [OF read] assms(5) by (simp add: MatchesDeclaredKind_def)
  obtain r t where put: "put_within ?vault debugFileMaxBytes ErrDebugFileTooLarge key ?reader s = (r, t)" by fastforce
  have "0 \<le> debugFileMaxBytes" by (simp add: debugFileMaxBytes_def)
  note eff = filesystem_vault.put_within_effect [OF assms(1) key(2) this put]
  from eff(2) [OF assms(2)] assms(6) obtain n where "r = ok n" by (auto simp: result_simps)
  with eff(1) assms(2) have "r = ok (int (length content))" "rooted root t" "untroubled root t"
    "vault_store root t = (vault_store root s)(key \<mapsto> content)" by (auto simp: upload_effect_def)
  with filesystem_vault.DebugFileUpload_runs [OF key(1) read matches] put key show ?thesis by auto
qed

text \<open>
  C28. What is uploaded is served: when no call of the operating system fails, a debug file of the declared kind and
  of at most 256 MiB is stored, \<open>Get\<close> for its identity then yields its bytes, and no other artifact has changed.
\<close>

theorem uploaded_debug_file_is_served:
  assumes "rooted root s" and "untroubled root s"
    and "hex_pattern 32 (OrganizationID_value org)" and "hex_pattern 32 (ProjectID_value project)"
    and "DetectKind (take debugFileSniffPrefixSize content) = ok (dfi_kind identity)"
    and "int (length content) \<le> debugFileMaxBytes"
  shows "\<exists>key t u. DebugFileKey org project identity = ok key \<and>
    DebugFileUpload (FilesystemVault root) org project identity (Some \<lparr>rd_data = content, rd_error = None\<rparr>) s =
      (ok \<lparr>df_identity = identity, df_size = int (length content)\<rparr>, t) \<and>
    DebugFileGet (FilesystemVault root) org project identity t = (ok \<lparr>rd_data = content, rd_error = None\<rparr>, u) \<and>
    vault_store root u = (vault_store root s)(key \<mapsto> content)"
proof -
  obtain key t where t: "DebugFileKey org project identity = ok key" "key_ok key"
    "DebugFileUpload (FilesystemVault root) org project identity (Some \<lparr>rd_data = content, rd_error = None\<rparr>) s =
      (ok \<lparr>df_identity = identity, df_size = int (length content)\<rparr>, t)"
    "rooted root t" "untroubled root t" "vault_store root t = (vault_store root s)(key \<mapsto> content)"
    using debug_file_upload_stores [OF assms] by blast
  obtain q u where get: "get_artifact (FilesystemVault root) ErrDebugFileNotFound key t = (q, u)" by fastforce
  note got = filesystem_vault.get_artifact_effect [OF t(4) t(2) get]
  have "DebugFileGet (FilesystemVault root) org project identity t = (ok \<lparr>rd_data = content, rd_error = None\<rparr>, u)"
    using got(2) [OF t(5)] t(6) get t(1) by (simp add: DebugFileGet_def abind_def alift_def)
  with t got(1) show ?thesis by auto
qed

theorem uploaded_debug_file_is_served_witness:
  "\<exists>key t u. DebugFileKey example_org example_project example_debug_file = ok key \<and>
    DebugFileUpload (FilesystemVault ''/srv'') example_org example_project example_debug_file
      (Some \<lparr>rd_data = ''MODULE x'', rd_error = None\<rparr>) example_tree = (ok \<lparr>df_identity = example_debug_file, df_size = 8\<rparr>, t) \<and>
    DebugFileGet (FilesystemVault ''/srv'') example_org example_project example_debug_file t =
      (ok \<lparr>rd_data = ''MODULE x'', rd_error = None\<rparr>, u) \<and>
    vault_store ''/srv'' u = [key \<mapsto> ''MODULE x'']"
  using uploaded_debug_file_is_served [OF example_tree_good(1,2) example_ids, of "''MODULE x''" example_debug_file] example_tree_good(3)
  by (simp add: DetectKind_def debugFileSniffPrefixSize_def HasPrefix_def elfMagic_def pdbMagic_def breakpadMagic_def
      example_debug_file_def debugFileMaxBytes_def)

text \<open>
  C29. An upload of a minidump touches no other artifact, whichever calls fail and wherever: the store changes at most
  under the key of its identity; when the upload succeeds the key holds exactly the uploaded bytes, which are at most
  100 MiB, and when it fails with any other error than that of the size everything is as before.
\<close>

theorem minidump_upload_is_isolated:
  assumes "rooted root s"
    and "hex_pattern 32 (OrganizationID_value org)" and "hex_pattern 32 (ProjectID_value project)"
    and "MinidumpUpload (FilesystemVault root) org project identity contents s = (r, t)"
  shows "rooted root t \<and> (\<exists>key. MinidumpKey org project identity = ok key \<and>
    (\<forall>other. other \<noteq> key \<longrightarrow> vault_store root t other = vault_store root s other) \<and>
    (case r of
      Inl e \<Rightarrow> e \<noteq> ErrMinidumpTooLarge \<longrightarrow> vault_store root t = vault_store root s
    | Inr stored \<Rightarrow> \<exists>reader. contents = Some reader \<and> vault_store root t key = Some (rd_data reader) \<and>
        md_size stored = int (length (rd_data reader)) \<and> md_size stored \<le> minidumpMaxBytes))"
proof -
  note effect = filesystem_vault.MinidumpUpload_effect [OF assms]
  then obtain key where "MinidumpKey org project identity = ok key" by blast
  with effect show ?thesis by (cases r) auto
qed

text \<open>The same tree with a disk that fails at the fourth call.\<close>

definition failing_tree :: FS where
  "failing_tree = example_tree\<lparr>fs_faults := (\<lambda>n. if n = 3 then Some ''no space left'' else None)\<rparr>"

definition example_minidump :: MinidumpIdentity where
  "example_minidump = \<lparr>mdi_eventID = EventID (replicate 32 CHR ''e''), mdi_attachmentName = MinidumpAttachmentName ''a.dmp''\<rparr>"

theorem minidump_upload_is_isolated_witness:
  "\<exists>r t. MinidumpUpload (FilesystemVault ''/srv'') example_org example_project example_minidump
      (Some \<lparr>rd_data = ''MDMPx'', rd_error = None\<rparr>) failing_tree = (r, t) \<and> rooted ''/srv'' t"
proof -
  have good: "rooted ''/srv'' failing_tree"
    using example_tree_good(1) by (simp add: failing_tree_def rooted_def vault_good_def fs_paths_def)
  obtain r t where run: "MinidumpUpload (FilesystemVault ''/srv'') example_org example_project example_minidump
      (Some \<lparr>rd_data = ''MDMPx'', rd_error = None\<rparr>) failing_tree = (r, t)" by fastforce
  with minidump_upload_is_isolated [OF good example_ids run] show ?thesis by blast
qed

text \<open>
  C30. A source map that is too large destroys the one stored before: \<open>Upload\<close> writes the first 64 MiB and one byte
  over the artifact of the same identity, finds it too large and deletes it. The caller gets the error of the size,
  and the earlier map, if there was one, is gone.
\<close>

theorem too_large_upload_deletes_stored_map:
  assumes "rooted root s" and "untroubled root s"
    and "hex_pattern 32 (OrganizationID_value org)" and "hex_pattern 32 (ProjectID_value project)"
    and "int (length (rd_data reader)) > sourceMapMaxBytes"
  shows "\<exists>key t. SourceMapKey org project identity = ok key \<and>
    SourceMapUpload (FilesystemVault root) org project identity (Some reader) s = (Inl ErrSourceMapTooLarge, t) \<and>
    vault_store root t = (vault_store root s)(key := None)"
proof -
  let ?vault = "FilesystemVault root"
  obtain key where key: "SourceMapKey org project identity = ok key" "key_ok key"
    using service_key_ok(1) [OF assms(3,4), of identity] by blast
  obtain r t where put: "put_within ?vault sourceMapMaxBytes ErrSourceMapTooLarge key reader s = (r, t)" by fastforce
  have "0 \<le> sourceMapMaxBytes" by (simp add: sourceMapMaxBytes_def)
  from filesystem_vault.put_within_effect(3) [OF assms(1) key(2) this put assms(2,5)]
  show ?thesis using filesystem_vault.SourceMapUpload_runs [OF key(1)] put key(1) by auto
qed

definition example_map_identity :: SourceMapIdentity where
  "example_map_identity = \<lparr>smi_release = ReleaseName ''1.0'', smi_dist = DistName [], smi_fileName = SourceMapFileName ''a.js''\<rparr>"

text \<open>A tree that holds a map of this identity.\<close>

lemma example_stored_map:
  "\<exists>key s. SourceMapKey example_org example_project example_map_identity = ok key \<and>
    rooted ''/srv'' s \<and> untroubled ''/srv'' s \<and> vault_store ''/srv'' s key = Some ''{}''"
proof -
  obtain key where key: "SourceMapKey example_org example_project example_map_identity = ok key" "key_ok key"
    using service_key_ok(1) [OF example_ids, of example_map_identity] by blast
  let ?small = "\<lparr>rd_data = ''{}'', rd_error = None\<rparr>"
  obtain r s where put: "put_within (FilesystemVault ''/srv'') sourceMapMaxBytes ErrSourceMapTooLarge key ?small example_tree = (r, s)"
    by fastforce
  have max: "0 \<le> sourceMapMaxBytes" "int (length (rd_data ?small)) \<le> sourceMapMaxBytes" by (simp_all add: sourceMapMaxBytes_def)
  note eff = filesystem_vault.put_within_effect [OF example_tree_good(1) key(2) max(1) put]
  from eff(2) [OF example_tree_good(2) max(2)] obtain n where "r = ok n" by (auto simp: result_simps)
  with eff(1) example_tree_good(2) key(1) show ?thesis by (auto simp: upload_effect_def)
qed

theorem too_large_upload_deletes_stored_map_witness:
  "\<exists>key s t. SourceMapKey example_org example_project example_map_identity = ok key \<and>
    vault_store ''/srv'' s key = Some ''{}'' \<and>
    SourceMapUpload (FilesystemVault ''/srv'') example_org example_project example_map_identity
      (Some \<lparr>rd_data = replicate (nat sourceMapMaxBytes + 1) CHR ''a'', rd_error = None\<rparr>) s = (Inl ErrSourceMapTooLarge, t) \<and>
    vault_store ''/srv'' t key = None"
proof -
  have max: "0 \<le> sourceMapMaxBytes" by (simp add: sourceMapMaxBytes_def)
  obtain key s where key: "SourceMapKey example_org example_project example_map_identity = ok key"
    and s: "rooted ''/srv'' s" "untroubled ''/srv'' s" "vault_store ''/srv'' s key = Some ''{}''"
    using example_stored_map by blast
  have "int (length (rd_data \<lparr>rd_data = replicate (nat sourceMapMaxBytes + 1) CHR ''a'', rd_error = None\<rparr>)) > sourceMapMaxBytes"
    unfolding Reader.select_convs length_replicate using max by simp
  from too_large_upload_deletes_stored_map [OF s(1,2) example_ids this, of example_map_identity] key s(3) show ?thesis
    by (metis fun_upd_same sum.inject(2))
qed

subsection \<open>What the services do to events\<close>

text \<open>
  C31. Symbolication keeps events well-formed: whatever the stored files hold and whichever calls fail, the event
  differs from the given one at most in its native frames; each of them keeps its address and its module, and frames
  that their constructor would accept stay such frames. The vault's contents are not changed.
\<close>

theorem symbolication_keeps_events_valid:
  assumes "rooted root s"
    and "hex_pattern 32 (OrganizationID_value (ev_organizationID event))" and "hex_pattern 32 (ProjectID_value (ev_projectID event))"
    and "event_valid event" and "list_all native_frame_valid (ev_nativeFrames event)"
    and "SymbolicateCanonicalEvent (Some (FilesystemVault root)) event s = (event', t)"
  shows "event_valid event' \<and> list_all native_frame_valid (ev_nativeFrames event') \<and>
    event' = event\<lparr>ev_nativeFrames := ev_nativeFrames event'\<rparr> \<and>
    list_all2 same_place (ev_nativeFrames event) (ev_nativeFrames event') \<and> vault_store root t = vault_store root s"
proof -
  from filesystem_vault.SymbolicateCanonicalEvent_effect [OF assms(1-3,6)]
  have e: "vault_store root t = vault_store root s" "event' = event\<lparr>ev_nativeFrames := ev_nativeFrames event'\<rparr>"
    and l: "list_all2 (\<lambda>f g. (g = f \<or> native_frame_valid g) \<and> same_place f g) (ev_nativeFrames event) (ev_nativeFrames event')"
    by auto
  have "event_valid event'"
    using assms(4) event_valid_updates(2) [of event "ev_nativeFrames event'"] e(2) by (simp add: WithNativeFrames_def)
  moreover have "list_all native_frame_valid (ev_nativeFrames event')"
    using l assms(5) by (auto simp: list_all2_conv_all_nth list_all_length)
  moreover have "list_all2 same_place (ev_nativeFrames event) (ev_nativeFrames event')"
    using l by (rule list_all2_mono) simp
  ultimately show ?thesis using e by simp
qed

definition example_frame :: "u64 \<Rightarrow> NativeFrame" where
  "example_frame addr = \<lparr>nf_instructionAddr = addr, nf_moduleDebugID = example_debug_id, nf_hasModule = True,
     nf_function = [], nf_pkg = []\<rparr>"

definition example_module :: NativeModule where
  "example_module = \<lparr>nm_debugID = example_debug_id, nm_codeFile = ''app'', nm_imageAddr = 4096, nm_imageSize = 256\<rparr>"

definition example_js_frame :: JsStacktraceFrame where
  "example_js_frame = \<lparr>jf_absPath = ''a.js'', jf_function = ''f'', jf_generatedLine = 2, jf_generatedColumn = 9,
     jf_hasResolution = False, jf_resolution = zero_resolution\<rparr>"

definition framed_event :: CanonicalEvent where
  "framed_event = \<lparr>ev_organizationID = example_org, ev_projectID = example_project, ev_eventID = EventID ''e'',
     ev_occurredAt = TimePoint 1, ev_receivedAt = TimePoint 1, ev_kind = EventKindError, ev_level = EventLevelError,
     ev_title = EventTitle ''t'', ev_platform = ''native'', ev_release = ''1.0'', ev_environment = [], ev_tags = Map.empty,
     ev_defaultGroupingParts = [''t''], ev_explicitFingerprint = [], ev_attachments = [], ev_jsStacktrace = [example_js_frame],
     ev_nativeModules = [example_module], ev_nativeFrames = [example_frame 4128, example_frame 12],
     ev_transaction = zero_transaction, ev_hasTransaction = False\<rparr>"

lemma example_event_ids: "hex_pattern 32 (OrganizationID_value (ev_organizationID framed_event))"
  "hex_pattern 32 (ProjectID_value (ev_projectID framed_event))"
  using example_ids by (simp_all add: framed_event_def)

theorem symbolication_keeps_events_valid_witness:
  "\<exists>event' t. SymbolicateCanonicalEvent (Some (FilesystemVault ''/srv'')) framed_event failing_tree = (event', t) \<and>
    event_valid event' \<and> length (ev_nativeFrames event') = 2"
proof -
  have good: "rooted ''/srv'' failing_tree"
    using example_tree_good(1) by (simp add: failing_tree_def rooted_def vault_good_def fs_paths_def)
  have valid: "event_valid framed_event"
    using example_ids
    by (auto simp: event_valid_def framed_event_def hex_pattern_def trimmed_part_def TrimSpace_id EventKind_valid_def EventLevel_valid_def
        EventKindError_def EventLevelError_def EventKindTransaction_def)
  have frames: "list_all native_frame_valid (ev_nativeFrames framed_event)"
    by (simp add: framed_event_def example_frame_def native_frame_valid_def example_debug_id_def)
  obtain event' t where run: "SymbolicateCanonicalEvent (Some (FilesystemVault ''/srv'')) framed_event failing_tree = (event', t)"
    by fastforce
  from symbolication_keeps_events_valid [OF good example_event_ids valid frames run]
  have "event_valid event'" "length (ev_nativeFrames event') = length (ev_nativeFrames framed_event)"
    by (auto dest: list_all2_lengthD)
  with run show ?thesis by (simp add: framed_event_def)
qed

text \<open>What an uploaded file says about the frames of its module.\<close>

lemma render_symbols_kind: "DetectKind (take debugFileSniffPrefixSize (render_symbols symbols)) = ok DebugFileKindBreakpad"
proof -
  have "\<exists>rest. module_line symbols = ''MODULE Linux '' @ rest" by (simp add: module_line_def)
  then obtain rest where "module_line symbols = ''MODULE Linux '' @ rest" by blast
  then have "\<exists>rest. render_symbols symbols = ''MODULE Linux '' @ rest"
    by (cases "map function_line (bs_functions symbols)") (simp_all add: render_symbols_def render_lines_def)
  then obtain rest where "render_symbols symbols = ''MODULE Linux '' @ rest" by blast
  then show ?thesis
    by (simp add: DetectKind_def HasPrefix_def debugFileSniffPrefixSize_def elfMagic_def pdbMagic_def breakpadMagic_def)
qed

lemma symbols_in_render:
  "renderable symbols \<Longrightarrow> int (length (render_symbols symbols)) \<le> debugFileMaxBytes \<Longrightarrow> symbols_in (render_symbols symbols) = Some symbols"
  by (simp add: symbols_in_def parse_render_symbols)

lemma spaced_words_function:
  assumes "spaced_words name" and "length name \<le> nativeFunctionMaxBytes"
  shows "normalizeNativeFunction name = ok name"
proof -
  let ?ws = "split_byte (CHR '' '') name"
  have ws: "list_all (\<lambda>w. w \<noteq> [] \<and> graph_ascii w) ?ws" using assms(1) by (rule spaced_words_split)
  have name: "Join ?ws '' '' = name" by (rule Join_split_byte)
  have "set name \<subseteq> (\<Union>w\<in>set ?ws. set w) \<union> {CHR '' ''}" using set_Join [of ?ws "'' ''"] name by simp
  then have chars: "32 \<le> byte c \<and> byte c < 127" if "c \<in> set name" for c
    using that ws by (fastforce simp: list_all_iff graph_ascii_def)
  then have "is_ascii name" by (fastforce simp: is_ascii_def list_all_iff)
  moreover have "visibleString name" unfolding visibleString_ascii [OF \<open>is_ascii name\<close>] list_all_iff using chars by fastforce
  moreover have "name \<noteq> []" using Join_hd_last(1) [OF ws] name by simp
  ultimately show ?thesis
    using assms(2) TrimSpace_words(2) [OF ws] name by (simp add: nativeFunction.new_ok_iff visible_text_def ascii_ValidString)
qed

lemma first_in_store_upload:
  assumes "symbols_in content = Some symbols" and "key_ok key" and "scope_of key = scope"
    and "\<forall>other. key_ok other \<longrightarrow> scope_of other = scope \<longrightarrow> symbols_at stored (bs_debugID symbols) other = None"
  shows "first_in_store (stored(key \<mapsto> content)) scope (bs_debugID symbols) (Some symbols)"
  using assms by (auto simp: first_in_store_def symbols_at_def intro!: exI [of _ key])

text \<open>
  C32. Uploaded symbols name the frames of their module: when no call fails and no other debug file of the project has
  the same debug id, a Breakpad file with the symbols is accepted, and symbolicating an event afterwards gives every
  frame of the module the name of the first function, in the order of the file, whose range covers the frame's offset
  in the module; ranges are taken in unbounded numbers. The name may have at most 512 bytes, and the frame's package
  has to be one its constructor accepts.
\<close>

theorem uploaded_symbols_name_frames:
  assumes "rooted root s" and "untroubled root s"
    and "hex_pattern 32 (OrganizationID_value (ev_organizationID event))" and "hex_pattern 32 (ProjectID_value (ev_projectID event))"
    and "renderable symbols" and "int (length (render_symbols symbols)) \<le> debugFileMaxBytes"
    and "dfi_kind identity = DebugFileKindBreakpad"
    and "\<forall>key. key_ok key \<longrightarrow> scope_of key = debug_scope (ev_organizationID event) (ev_projectID event) \<longrightarrow>
      symbols_at (vault_store root s) (bs_debugID symbols) key = None"
    and "i < length (ev_nativeFrames event)" and "frame = ev_nativeFrames event ! i"
    and "nf_hasModule frame" and "nf_moduleDebugID frame = bs_debugID symbols"
    and "found = nativeModuleForDebugID (ev_nativeModules event) (bs_debugID symbols)"
    and "nativeInstructionOffset frame found = Some offset"
    and "find (\<lambda>f. covers f offset) (bs_functions symbols) = Some f"
    and "length (bf_name f) \<le> nativeFunctionMaxBytes" and "is_ok (normalizeNativePackage (nativeFramePackage frame found))"
  shows "\<exists>stored t event' u. DebugFileUpload (FilesystemVault root) (ev_organizationID event) (ev_projectID event) identity
      (Some \<lparr>rd_data = render_symbols symbols, rd_error = None\<rparr>) s = (ok stored, t) \<and>
    SymbolicateCanonicalEvent (Some (FilesystemVault root)) event t = (event', u) \<and>
    nf_function (ev_nativeFrames event' ! i) = bf_name f"
proof -
  let ?org = "ev_organizationID event" and ?project = "ev_projectID event"
  have "DetectKind (take debugFileSniffPrefixSize (render_symbols symbols)) = ok (dfi_kind identity)"
    using render_symbols_kind assms(7) by simp
  from debug_file_upload_stores [OF assms(1-4) this assms(6)]
  obtain key t where t: "DebugFileKey ?org ?project identity = ok key" "key_ok key"
    "DebugFileUpload (FilesystemVault root) ?org ?project identity (Some \<lparr>rd_data = render_symbols symbols, rd_error = None\<rparr>) s =
      (ok \<lparr>df_identity = identity, df_size = int (length (render_symbols symbols))\<rparr>, t)"
    "rooted root t" "untroubled root t" "vault_store root t = (vault_store root s)(key \<mapsto> render_symbols symbols)" by blast
  have "scope_of key = debug_scope ?org ?project"
    using service_key_scope(2) [OF t(1)] by (simp add: debug_scope_def)
  from first_in_store_upload [OF symbols_in_render [OF assms(5,6)] t(2) this assms(8)]
  have first: "first_in_store (vault_store root t) (debug_scope ?org ?project) (nf_moduleDebugID frame) (Some symbols)"
    using t(6) assms(12) by simp
  obtain event' u where run: "SymbolicateCanonicalEvent (Some (FilesystemVault root)) event t = (event', u)" by fastforce
  from filesystem_vault.SymbolicateCanonicalEvent_effect [OF t(4) assms(3,4) run] t(5) assms(9,10)
  obtain given where "first_in_store (vault_store root t) (debug_scope ?org ?project) (nf_moduleDebugID frame) given"
    "ev_nativeFrames event' ! i = symbolicated_by (ev_nativeModules event) frame given"
    by (auto simp: list_all2_conv_all_nth)
  with first_in_store_unique [OF first] have frame': "ev_nativeFrames event' ! i =
      symbolicated_by (ev_nativeModules event) frame (Some symbols)" by blast
  have lookup: "symbols_lookup symbols offset = Some (bf_name f)"
    using assms(15) by (simp add: symbols_lookup_def function_contains_covers)
  have "f \<in> set (bs_functions symbols)" using find_SomeD [OF assms(15)] by simp
  then have "spaced_words (bf_name f)" using assms(5) by (auto simp: renderable_def list_all_iff)
  with assms(16) have name: "normalizeNativeFunction (bf_name f) = ok (bf_name f)" by (simp add: spaced_words_function)
  obtain pkg where "normalizeNativePackage (nativeFramePackage frame found) = ok pkg"
    using assms(17) by (auto simp: result_simps)
  moreover have "DebugIdentifier_value (nf_moduleDebugID frame) \<noteq> []"
    using assms(5,12) by (auto simp: renderable_def debug_id_text_def debugIdentifierMinHexBytes_def)
  ultimately have "nf_function (symbolicated_by (ev_nativeModules event) frame (Some symbols)) = bf_name f"
    using assms(11-14) lookup name
    by (simp add: symbolicated_by_def symbolicated_frame_def NewNativeFrameWithModule_def NewNativeFrame_def)
  with t(3) run frame' show ?thesis by auto
qed

definition example_symbols :: breakpadSymbols where
  "example_symbols = \<lparr>bs_debugID = example_debug_id, bs_codeFile = ''app'', bs_functions =
     [\<lparr>bf_address = 16, bf_size = 4, bf_name = ''init''\<rparr>, \<lparr>bf_address = 32, bf_size = 16, bf_name = ''main loop''\<rparr>]\<rparr>"

theorem uploaded_symbols_name_frames_witness:
  "\<exists>stored t event' u. DebugFileUpload (FilesystemVault ''/srv'') (ev_organizationID framed_event) (ev_projectID framed_event)
      example_debug_file (Some \<lparr>rd_data = render_symbols example_symbols, rd_error = None\<rparr>) example_tree = (ok stored, t) \<and>
    SymbolicateCanonicalEvent (Some (FilesystemVault ''/srv'')) framed_event t = (event', u) \<and>
    nf_function (ev_nativeFrames event' ! 0) = ''main loop''"
proof -
  have hex: "hex_digits 16 = ''10''" "hex_digits 4 = ''4''" "hex_digits 32 = ''20''"
    by (simp_all add: hex_digits.simps hex_digit_def char_of_def bit_simps)
  have short: "length (render_symbols example_symbols) < 100"
    by (simp add: render_symbols_def render_lines_def module_line_def function_line_def example_symbols_def hex example_debug_id_def)
  have ok: "renderable example_symbols"
    by (simp add: renderable_def example_symbols_def example_debug_id_def debug_id_text_def debugIdentifierMinHexBytes_def
        debugIdentifierMaxHexBytes_def list_all_iff hex_byte_def spaced_words_def graph_ascii_def render_lines_def module_line_def
        function_line_def hex scannerBufferBytes_def)
  let ?f = "\<lparr>bf_address = 32, bf_size = 16, bf_name = ''main loop''\<rparr>"
  have "bf_name ?f = ''main loop''" by simp
  moreover have "\<exists>stored t event' u. DebugFileUpload (FilesystemVault ''/srv'') (ev_organizationID framed_event)
      (ev_projectID framed_event) example_debug_file (Some \<lparr>rd_data = render_symbols example_symbols, rd_error = None\<rparr>) example_tree =
      (ok stored, t) \<and>
    SymbolicateCanonicalEvent (Some (FilesystemVault ''/srv'')) framed_event t = (event', u) \<and>
    nf_function (ev_nativeFrames event' ! 0) = bf_name ?f"
  proof (rule uploaded_symbols_name_frames [OF example_tree_good(1,2) example_event_ids ok, where f = ?f and i = 0 and offset = 32
        and frame = "example_frame 4128" and found = "Some example_module"])
    show "is_ok (normalizeNativePackage (nativeFramePackage (example_frame 4128) (Some example_module)))"
      by (simp add: nativePackage.is_ok_iff_valid nativeFramePackage_def example_frame_def example_module_def TrimSpace_id visible_text_def
          nativePackageMaxBytes_def visibleString_ascii ascii_ValidString is_ascii_def)
  qed (use short in \<open>simp_all add: debugFileMaxBytes_def example_debug_file_def symbols_at_def example_tree_good(3) framed_event_def
      example_frame_def example_symbols_def nativeModuleForDebugID_def example_module_def nativeInstructionOffset_def covers_def
      nativeFunctionMaxBytes_def\<close>)
  ultimately show ?thesis by simp
qed

text \<open>
  C33. Source maps resolve frames: when no call fails, for an event with a valid release and dist tag and frames made
  by their constructor, every frame that has no resolution yet gets the one its stored map gives. The map is that of
  the release, the dist and the file of the frame's path. A frame at line \<open>l\<close> (from 1) and column \<open>c\<close> belongs to the
  last segment of line \<open>l - 1\<close> of the map that starts at or before \<open>c\<close>; it gets the segment's source, the name of the
  segment or else its own function, the segment's line plus one and its column. Frames without such a map, segment or
  source, and those for which this is no acceptable resolution, stay as they are. A segment with a negative index
  makes the whole call panic, and nothing else does.
\<close>

theorem stored_maps_resolve_frames:
  assumes "rooted root s" and "untroubled root s"
    and "hex_pattern 32 (OrganizationID_value (ev_organizationID event))" and "hex_pattern 32 (ProjectID_value (ev_projectID event))"
    and "NewReleaseName (ev_release event) = ok release" and "sourceMapDistFromCanonicalEvent event = Some dist"
    and "\<forall>f\<in>set (ev_jsStacktrace event). js_frame_made f"
    and "ResolveCanonicalEvent url_Parse unmarshal (Some (FilesystemVault root)) event s = (out, t)"
  shows "out = bind_run (resolve_all (mapped_frame url_Parse unmarshal (vault_store root s) (ev_organizationID event)
      (ev_projectID event) release dist) (ev_jsStacktrace event)) (\<lambda>frames. Returns (event\<lparr>ev_jsStacktrace := frames\<rparr>)) \<and>
    vault_store root t = vault_store root s \<and>
    (case out of Panics p \<Rightarrow> p = ''index out of range''
     | Returns event' \<Rightarrow> list_all2 resolved_from (ev_jsStacktrace event) (ev_jsStacktrace event'))"
proof -
  note eff = filesystem_vault.ResolveCanonicalEvent_effect [OF assms(1,3,4,8)]
  have frame: "p = ''index out of range''" if "mapped_frame url_Parse unmarshal stored org project release dist f = Panics p"
    for stored org project f p
    using that by (auto simp: mapped_frame_def Let_def split: option.split_asm if_split_asm)
  have all: "p = ''index out of range''" if "resolve_all (mapped_frame url_Parse unmarshal stored org project release dist) fs = Panics p"
    for stored org project fs p
    using that by (induction fs) (auto simp: bind_run_def split: run.split_asm dest: frame)
  have "resolve_all (frame_by_store url_Parse unmarshal stored org project release dist) (ev_jsStacktrace event) =
      resolve_all (mapped_frame url_Parse unmarshal stored org project release dist) (ev_jsStacktrace event)" for stored org project
    by (rule resolve_all_cong) (use assms(7) frame_by_store_mapped in blast)
  with eff(3) [OF assms(2,5,6)] eff(1,2) show ?thesis
    by (cases out) (auto simp: bind_run_def split: run.split_asm dest: all)
qed

definition example_mappings :: "string \<Rightarrow> rawSourceMap result" where
  "example_mappings content = ok (source_map_of [] [''a.ts''] [''main''] (encodeMappings [\<lparr>segments = []\<rparr>, example_line]))"

lemma example_parsed_map:
  "ParseSourceMap example_mappings ''{}'' =
    ok \<lparr>sources = [''a.ts''], sm_names = [''main''], sm_lines = [\<lparr>segments = []\<rparr>, example_line]\<rparr>"
  by (simp add: ParseSourceMap_def example_mappings_def source_map_of_def decoded_example)

text \<open>Line 2, column 9 of \<open>a.js\<close> is line 4, column 17 of \<open>a.ts\<close>, in \<open>main\<close>.\<close>

definition example_resolved_frame :: JsStacktraceFrame where
  "example_resolved_frame = example_js_frame\<lparr>jf_hasResolution := True,
     jf_resolution := \<lparr>jr_source = ''a.ts'', jr_symbol = ''main'', jr_originalLine = 4, jr_originalColumn = 17\<rparr>\<rparr>"

theorem stored_maps_resolve_frames_witness:
  "\<exists>s. rooted ''/srv'' s \<and>
    fst (ResolveCanonicalEvent (\<lambda>_. None) example_mappings (Some (FilesystemVault ''/srv'')) framed_event s) =
      Returns (framed_event\<lparr>ev_jsStacktrace := [example_resolved_frame]\<rparr>)"
proof -
  obtain key s where key: "SourceMapKey example_org example_project example_map_identity = ok key"
    and s: "rooted ''/srv'' s" "untroubled ''/srv'' s" "vault_store ''/srv'' s key = Some ''{}''"
    using example_stored_map by blast
  obtain out t where run: "ResolveCanonicalEvent (\<lambda>_. None) example_mappings (Some (FilesystemVault ''/srv'')) framed_event s =
    (out, t)" by fastforce
  have release: "NewReleaseName (ev_release framed_event) = ok (ReleaseName ''1.0'')"
    by (simp add: framed_event_def releaseName.new_ok_iff TrimSpace_id visible_text_def releaseNameMaxBytes_def
        visibleString_ascii ascii_ValidString is_ascii_def)
  have dist: "sourceMapDistFromCanonicalEvent framed_event = Some (DistName [])"
    by (simp add: sourceMapDistFromCanonicalEvent_def firstDistTag_def framed_event_def NewOptionalDistName_def)
  have made: "\<forall>f\<in>set (ev_jsStacktrace framed_event). js_frame_made f"
    by (simp add: framed_event_def example_js_frame_def js_frame_made_def js_frame_valid_def visible_text_def TrimSpace_id
        jsStacktraceAbsPathMaxBytes_def jsStacktraceFunctionMaxBytes_def visibleString_ascii ascii_ValidString is_ascii_def)
  have event: "ev_organizationID framed_event = example_org" "ev_projectID framed_event = example_project"
    "ev_jsStacktrace framed_event = [example_js_frame]" by (simp_all add: framed_event_def)
  have "map_of_path (\<lambda>_. None) example_mappings (vault_store ''/srv'' s) example_org example_project (ReleaseName ''1.0'') (DistName [])
      ''a.js'' = Some \<lparr>sources = [''a.ts''], sm_names = [''main''], sm_lines = [\<lparr>segments = []\<rparr>, example_line]\<rparr>"
    using key s(3)
    by (simp add: map_of_path_def path_of_url_def NewSourceMapFileName_def TrimSpace_id Let_def ascii_ValidString is_ascii_def
        visibleString_ascii sourceMapFileNameMaxBytes_def ContainsAny_def Contains_def sublist_code HasPrefix_def
        NewSourceMapIdentity_def stored_map_def map_in_def sourceMapMaxBytes_def example_parsed_map flip: example_map_identity_def)
  then have "mapped_frame (\<lambda>_. None) example_mappings (vault_store ''/srv'' s) example_org example_project (ReleaseName ''1.0'')
      (DistName []) example_js_frame = Returns (Some example_resolved_frame)"
    by (simp add: mapped_frame_def example_js_frame_def segment_at_def example_line_def noIndex_def resolution_at_def TrimSpace_id
        acceptable_resolution_def visible_text_def jsStacktraceSourceMaxBytes_def jsStacktraceSymbolMaxBytes_def visibleString_ascii
        ascii_ValidString is_ascii_def example_resolved_frame_def)
  with stored_maps_resolve_frames [OF s(1,2) example_event_ids release dist made run] event
  have "out = Returns (framed_event\<lparr>ev_jsStacktrace := [example_resolved_frame]\<rparr>)" by simp
  with run s(1) show ?thesis by (intro exI [of _ s]) simp
qed

end
