(* ===== verification/Minidumps.thy ===== *)
theory Minidumps
  imports Breakpad ArtifactServices
begin

text \<open>
  \<open>internal/app/minidumps/metadata.go\<close>: the modules and the crash address in a Microsoft minidump. Offsets and
  counts are \<open>uint32\<close> and wrap around, as in the code. The reader is any \<open>io.ReaderAt\<close>: a function of an offset and
  a number of bytes, with \<open>None\<close> for an error.
\<close>

type_synonym u32 = "32 word"
type_synonym u16 = "16 word"
type_synonym ReaderAt = "nat \<Rightarrow> nat \<Rightarrow> string option"

text \<open>\<open>bytes.Reader.ReadAt\<close>.\<close>

definition bytes_ReadAt :: "string \<Rightarrow> ReaderAt" where
  "bytes_ReadAt content offset n =
     (if offset + n \<le> length content then Some (take n (drop offset content)) else None)"

subsection \<open>Little-endian numbers and UTF-16\<close>

definition le_value :: "string \<Rightarrow> nat" where
  "le_value s = foldr (\<lambda>c n. byte c + 256 * n) s 0"

fun utf16_units :: "string \<Rightarrow> nat list" where
  "utf16_units (a # b # s) = le_value [a, b] # utf16_units s"
| "utf16_units _ = []"

text \<open>\<open>utf16.Decode\<close>.\<close>

fun utf16_Decode :: "nat list \<Rightarrow> nat list" where
  "utf16_Decode [] = []"
| "utf16_Decode [u] = [if u < 0xD800 \<or> 0xE000 \<le> u then u else rune_error]"
| "utf16_Decode (u # v # us) =
     (if u < 0xD800 \<or> 0xE000 \<le> u then u # utf16_Decode (v # us)
      else if u < 0xDC00 \<and> 0xDC00 \<le> v \<and> v < 0xE000
        then ((u - 0xD800) * 1024 + (v - 0xDC00) + 0x10000) # utf16_Decode us
      else rune_error # utf16_Decode (v # us))"

text \<open>\<open>%08x\<close> and the like.\<close>

definition padded_hex :: "nat \<Rightarrow> nat \<Rightarrow> string" where
  "padded_hex width n = replicate (width - length (hex_digits n)) (CHR ''0'') @ hex_digits n"

subsection \<open>Limits\<close>

definition minidumpHeaderBytes :: int where "minidumpHeaderBytes = 32"
definition minidumpDirectoryBytes :: u32 where "minidumpDirectoryBytes = 12"
definition minidumpModuleBytes :: u32 where "minidumpModuleBytes = 108"
definition minidumpMaxStreamCount :: u32 where "minidumpMaxStreamCount = 128"
definition minidumpMaxModuleCount :: u32 where "minidumpMaxModuleCount = 512"
definition minidumpMaxStringBytes :: u32 where "minidumpMaxStringBytes = 4096"
definition minidumpMaxCodeViewBytes :: u32 where "minidumpMaxCodeViewBytes = 4096"
definition minidumpModuleListStream :: u32 where "minidumpModuleListStream = 4"
definition minidumpExceptionStream :: u32 where "minidumpExceptionStream = 6"
definition minidumpX64RipOffset :: u32 where "minidumpX64RipOffset = 248"
definition minidumpExceptionCtxSize :: u32 where "minidumpExceptionCtxSize = 160"
definition minidumpExceptionCtxRVA :: u32 where "minidumpExceptionCtxRVA = 164"
definition minidumpModuleBase :: u32 where "minidumpModuleBase = 0"
definition minidumpModuleSize :: u32 where "minidumpModuleSize = 8"
definition minidumpModuleNameRVA :: u32 where "minidumpModuleNameRVA = 20"
definition minidumpModuleCvSize :: u32 where "minidumpModuleCvSize = 76"
definition minidumpModuleCvRVA :: u32 where "minidumpModuleCvRVA = 80"

lemmas minidump_limits = minidumpHeaderBytes_def minidumpDirectoryBytes_def minidumpModuleBytes_def
  minidumpMaxStreamCount_def minidumpMaxModuleCount_def minidumpMaxStringBytes_def minidumpMaxCodeViewBytes_def
  minidumpModuleListStream_def minidumpExceptionStream_def minidumpX64RipOffset_def minidumpExceptionCtxSize_def
  minidumpExceptionCtxRVA_def minidumpModuleBase_def minidumpModuleSize_def minidumpModuleNameRVA_def
  minidumpModuleCvSize_def minidumpModuleCvRVA_def

definition codeViewPDB70Signature :: string where "codeViewPDB70Signature = ''RSDS''"

subsection \<open>Reading\<close>

definition readMinidumpBytes :: "ReaderAt \<Rightarrow> int \<Rightarrow> u32 \<Rightarrow> u32 \<Rightarrow> string option" where
  "readMinidumpBytes reader n offset byteCount =
     (let start = uint offset; finish = start + uint byteCount in
      if start < 0 \<or> finish < start \<or> finish > n then None else reader (nat start) (unat byteCount))"

definition readMinidumpUint32 :: "ReaderAt \<Rightarrow> int \<Rightarrow> u32 \<Rightarrow> u32 option" where
  "readMinidumpUint32 reader n offset =
     map_option (\<lambda>payload. of_nat (le_value payload)) (readMinidumpBytes reader n offset 4)"

definition readMinidumpUint64 :: "ReaderAt \<Rightarrow> int \<Rightarrow> u32 \<Rightarrow> u64 option" where
  "readMinidumpUint64 reader n offset =
     map_option (\<lambda>payload. of_nat (le_value payload)) (readMinidumpBytes reader n offset 8)"

definition readMinidumpString :: "ReaderAt \<Rightarrow> int \<Rightarrow> u32 \<Rightarrow> string option" where
  "readMinidumpString reader n rva =
     Option.bind (readMinidumpUint32 reader n rva) (\<lambda>byteCount.
     if byteCount = 0 \<or> byteCount > minidumpMaxStringBytes \<or> byteCount mod 2 \<noteq> 0 then None
     else map_option (\<lambda>payload. string_of_runes (utf16_Decode (utf16_units payload)))
       (readMinidumpBytes reader n (rva + 4) byteCount))"

subsection \<open>Streams\<close>

record streamDirectoryEntry =
  streamType :: u32
  dataSize :: u32
  rva :: u32

definition readMinidumpDirectoryEntry :: "ReaderAt \<Rightarrow> int \<Rightarrow> u32 \<Rightarrow> streamDirectoryEntry option" where
  "readMinidumpDirectoryEntry reader n offset =
     Option.bind (readMinidumpUint32 reader n offset) (\<lambda>typ.
     Option.bind (readMinidumpUint32 reader n (offset + 4)) (\<lambda>len.
     Option.bind (readMinidumpUint32 reader n (offset + 8)) (\<lambda>start.
     Some \<lparr>streamType = typ, dataSize = len, rva = start\<rparr>)))"

text \<open>The loop over the indexes of the directory, with the number of entries that are left.\<close>

fun directory_entries :: "ReaderAt \<Rightarrow> int \<Rightarrow> u32 \<Rightarrow> u32 \<Rightarrow> nat \<Rightarrow> streamDirectoryEntry list option" where
  "directory_entries reader n directoryRVA index 0 = Some []"
| "directory_entries reader n directoryRVA index (Suc k) =
     Option.bind (readMinidumpDirectoryEntry reader n (directoryRVA + index * minidumpDirectoryBytes)) (\<lambda>entry.
     Option.bind (directory_entries reader n directoryRVA (index + 1) k) (\<lambda>entries. Some (entry # entries)))"

definition readMinidumpDirectory :: "ReaderAt \<Rightarrow> int \<Rightarrow> streamDirectoryEntry list option" where
  "readMinidumpDirectory reader n =
     (if n < minidumpHeaderBytes then None
      else Option.bind (readMinidumpUint32 reader n 8) (\<lambda>streamCount.
        if streamCount = 0 then Some []
        else if streamCount > minidumpMaxStreamCount then None
        else Option.bind (readMinidumpUint32 reader n 12) (\<lambda>directoryRVA.
          directory_entries reader n directoryRVA 0 (unat streamCount))))"

definition findMinidumpStream :: "streamDirectoryEntry list \<Rightarrow> u32 \<Rightarrow> streamDirectoryEntry option" where
  "findMinidumpStream entries typ = find (\<lambda>entry. streamType entry = typ) entries"

text \<open>The sums are taken in \<open>uint64\<close>, where they cannot wrap.\<close>

definition minidumpRangeWithinStream :: "streamDirectoryEntry \<Rightarrow> u32 \<Rightarrow> u32 \<Rightarrow> bool" where
  "minidumpRangeWithinStream entry offset byteCount \<longleftrightarrow>
     uint offset \<ge> uint (rva entry) \<and> uint offset + uint byteCount \<le> uint (rva entry) + uint (dataSize entry)"

subsection \<open>Modules\<close>

definition pdb70DebugIdentifier :: "string \<Rightarrow> u32 \<Rightarrow> string" where
  "pdb70DebugIdentifier guid age =
     (let start = padded_hex 8 (le_value (take 4 guid)) @ padded_hex 4 (le_value (take 2 (drop 4 guid))) @
        padded_hex 4 (le_value (take 2 (drop 6 guid))) @ hex_encode (take 8 (drop 8 guid)) in
      if age = 0 then start else start @ hex_digits (unat age))"

definition parseMinidumpCodeViewDebugID :: "ReaderAt \<Rightarrow> int \<Rightarrow> u32 \<Rightarrow> u32 \<Rightarrow> DebugIdentifier option" where
  "parseMinidumpCodeViewDebugID reader n start len =
     (if len < 24 \<or> len > minidumpMaxCodeViewBytes then None
      else Option.bind (readMinidumpBytes reader n start len) (\<lambda>payload.
        if \<not> HasPrefix payload codeViewPDB70Signature then None
        else case NewDebugIdentifier (pdb70DebugIdentifier (take 16 (drop 4 payload))
            (of_nat (le_value (take 4 (drop 20 payload))))) of
          Inl e \<Rightarrow> None | Inr debugID \<Rightarrow> Some debugID))"

definition parseMinidumpModule :: "ReaderAt \<Rightarrow> int \<Rightarrow> u32 \<Rightarrow> NativeModule option" where
  "parseMinidumpModule reader n offset =
     Option.bind (readMinidumpUint64 reader n (offset + minidumpModuleBase)) (\<lambda>imageAddr.
     Option.bind (readMinidumpUint32 reader n (offset + minidumpModuleSize)) (\<lambda>imageSize.
     Option.bind (readMinidumpUint32 reader n (offset + minidumpModuleNameRVA)) (\<lambda>nameRVA.
     Option.bind (readMinidumpUint32 reader n (offset + minidumpModuleCvSize)) (\<lambda>cvSize.
     Option.bind (readMinidumpUint32 reader n (offset + minidumpModuleCvRVA)) (\<lambda>cvRVA.
     Option.bind (parseMinidumpCodeViewDebugID reader n cvRVA cvSize) (\<lambda>debugID.
     Option.bind (readMinidumpString reader n nameRVA) (\<lambda>codeFile.
     (case NewNativeModule debugID codeFile imageAddr (ucast imageSize) of
       Inl e \<Rightarrow> None | Inr module \<Rightarrow> Some module))))))))"

fun module_entries :: "ReaderAt \<Rightarrow> int \<Rightarrow> streamDirectoryEntry \<Rightarrow> u32 \<Rightarrow> nat \<Rightarrow> NativeModule list" where
  "module_entries reader n entry index 0 = []"
| "module_entries reader n entry index (Suc k) =
     (let offset = rva entry + 4 + index * minidumpModuleBytes in
      if \<not> minidumpRangeWithinStream entry offset minidumpModuleBytes then []
      else case parseMinidumpModule reader n offset of
        None \<Rightarrow> module_entries reader n entry (index + 1) k
      | Some module \<Rightarrow> module # module_entries reader n entry (index + 1) k)"

definition parseMinidumpModules :: "ReaderAt \<Rightarrow> int \<Rightarrow> streamDirectoryEntry list \<Rightarrow> NativeModule list" where
  "parseMinidumpModules reader n entries =
     (case findMinidumpStream entries minidumpModuleListStream of None \<Rightarrow> [] | Some entry \<Rightarrow>
       (case readMinidumpUint32 reader n (rva entry) of None \<Rightarrow> [] | Some moduleCount \<Rightarrow>
         if moduleCount = 0 \<or> moduleCount > minidumpMaxModuleCount then []
         else module_entries reader n entry 0 (unat moduleCount)))"

subsection \<open>The crash\<close>

definition parseMinidumpExceptionInstruction :: "ReaderAt \<Rightarrow> int \<Rightarrow> streamDirectoryEntry list \<Rightarrow> u64 option" where
  "parseMinidumpExceptionInstruction reader n entries =
     Option.bind (findMinidumpStream entries minidumpExceptionStream) (\<lambda>entry.
     if dataSize entry < minidumpExceptionCtxRVA + 4 then None
     else Option.bind (readMinidumpUint32 reader n (rva entry + minidumpExceptionCtxSize)) (\<lambda>contextSize.
       Option.bind (readMinidumpUint32 reader n (rva entry + minidumpExceptionCtxRVA)) (\<lambda>contextRVA.
       if contextSize < minidumpX64RipOffset + 8 then None
       else Option.bind (readMinidumpUint64 reader n (contextRVA + minidumpX64RipOffset)) (\<lambda>instructionAddr.
         if instructionAddr = 0 then None else Some instructionAddr))))"

definition minidumpModuleContainsInstructionAddr :: "NativeModule \<Rightarrow> u64 \<Rightarrow> bool" where
  "minidumpModuleContainsInstructionAddr module instructionAddr =
     (if instructionAddr < nm_imageAddr module then False
      else if nm_imageSize module = 0 then instructionAddr = nm_imageAddr module
      else instructionAddr - nm_imageAddr module < nm_imageSize module)"

definition minidumpModuleForInstructionAddr :: "NativeModule list \<Rightarrow> u64 \<Rightarrow> NativeModule option" where
  "minidumpModuleForInstructionAddr modules instructionAddr =
     find (\<lambda>module. minidumpModuleContainsInstructionAddr module instructionAddr) modules"

definition plain_frames :: "u64 \<Rightarrow> NativeFrame list" where
  "plain_frames instructionAddr =
     (case NewNativeFrame instructionAddr [] [] of Inl e \<Rightarrow> [] | Inr frame \<Rightarrow> [frame])"

definition parseMinidumpFrames :: "ReaderAt \<Rightarrow> int \<Rightarrow> streamDirectoryEntry list \<Rightarrow> NativeModule list \<Rightarrow> NativeFrame list" where
  "parseMinidumpFrames reader n entries modules =
     (case parseMinidumpExceptionInstruction reader n entries of None \<Rightarrow> [] | Some instructionAddr \<Rightarrow>
       (case minidumpModuleForInstructionAddr modules instructionAddr of
         None \<Rightarrow> plain_frames instructionAddr
       | Some module \<Rightarrow>
           (case NewNativeFrameWithModule instructionAddr (nm_debugID module) [] (nm_codeFile module) of
             Inl e \<Rightarrow> plain_frames instructionAddr | Inr frame \<Rightarrow> [frame])))"

record NativeMetadata =
  meta_modules :: "NativeModule list"
  meta_frames :: "NativeFrame list"

definition ParseNativeMetadata :: "ReaderAt option \<Rightarrow> int \<Rightarrow> NativeMetadata result" where
  "ParseNativeMetadata reader n =
     (case reader of None \<Rightarrow> fail ''minidump reader is required'' | Some reader \<Rightarrow>
       (case readMinidumpBytes reader n 0 (of_nat (length minidumpMagic)) of
         None \<Rightarrow> fail ''minidump payload is empty''
       | Some start \<Rightarrow>
           if start \<noteq> minidumpMagic then Inl ErrUnsupportedMinidump
           else (case readMinidumpDirectory reader n of
               None \<Rightarrow> ok \<lparr>meta_modules = [], meta_frames = []\<rparr>
             | Some entries \<Rightarrow>
                 let modules = parseMinidumpModules reader n entries in
                 ok \<lparr>meta_modules = modules, meta_frames = parseMinidumpFrames reader n entries modules\<rparr>)))"

end
