(* ===== verification/MinidumpFormat.thy ===== *)
theory MinidumpFormat
  imports Minidumps
begin

text \<open>
  A writer of minidumps, and the proof that the parser reads back what it writes. The offsets a file uses are
  described by \<open>holds_at\<close>: which bytes are found where.
\<close>

subsection \<open>Bytes at offsets\<close>

definition holds_at :: "string \<Rightarrow> nat \<Rightarrow> string \<Rightarrow> bool" where
  "holds_at content offset bs \<longleftrightarrow> offset + length bs \<le> length content \<and> take (length bs) (drop offset content) = bs"

lemma holds_at_iff: "holds_at content offset bs \<longleftrightarrow> (\<exists>p s. content = p @ bs @ s \<and> length p = offset)"
proof
  assume h: "holds_at content offset bs"
  have "content = take offset content @ take (length bs) (drop offset content) @ drop (length bs) (drop offset content)"
    by (metis append_take_drop_id)
  with h have "content = take offset content @ bs @ drop (length bs) (drop offset content)" "length (take offset content) = offset"
    by (simp_all add: holds_at_def)
  then show "\<exists>p s. content = p @ bs @ s \<and> length p = offset" by blast
qed (auto simp: holds_at_def)

lemma holds_at_start: "holds_at (a @ bs @ c) (length a) bs"
  by (auto simp: holds_at_iff)

lemma holds_at_after: "holds_at c offset bs \<Longrightarrow> holds_at (a @ c) (length a + offset) bs"
  by (simp add: holds_at_def)

lemma holds_at_before: "holds_at c offset bs \<Longrightarrow> holds_at (c @ d) offset bs"
  by (simp add: holds_at_def)

lemma holds_at_part: "holds_at c offset (x @ y @ z) \<Longrightarrow> holds_at c (offset + length x) y"
  by (auto simp: holds_at_iff) (metis append.assoc length_append)

lemma holds_at_concat:
  assumes "j < length bs"
  shows "holds_at (concat bs) (length (concat (take j bs))) (bs ! j)"
proof -
  have "concat bs = concat (take j bs) @ bs ! j @ concat (drop (Suc j) bs)"
    using id_take_nth_drop [OF assms] by (metis concat.simps(2) concat_append)
  then show ?thesis using holds_at_start by metis
qed

subsection \<open>Numbers\<close>

fun le_bytes :: "nat \<Rightarrow> nat \<Rightarrow> string" where
  "le_bytes 0 n = []"
| "le_bytes (Suc k) n = char_of (n mod 256) # le_bytes k (n div 256)"

lemma length_le_bytes [simp]: "length (le_bytes k n) = k"
  by (induction k arbitrary: n) simp_all

lemma le_value_Cons [simp]: "le_value (c # s) = byte c + 256 * le_value s" "le_value [] = 0"
  by (simp_all add: le_value_def)

lemma le_value_bytes: "n < 256 ^ k \<Longrightarrow> le_value (le_bytes k n) = n"
proof (induction k arbitrary: n)
  case (Suc k)
  then have "n div 256 < 256 ^ k" by (simp add: less_mult_imp_div_less mult.commute)
  with Suc.IH [of "n div 256"] show ?case by simp
qed simp

lemma le_value_u32: "of_nat (le_value (le_bytes 4 (unat (w :: u32)))) = w"
proof -
  have "unat w < 256 ^ 4" using unsigned_less [of w] by simp
  then show ?thesis by (simp add: le_value_bytes)
qed

lemma le_value_u64: "of_nat (le_value (le_bytes 8 (unat (w :: u64)))) = w"
proof -
  have "unat w < 256 ^ 8" using unsigned_less [of w] by simp
  then show ?thesis by (simp add: le_value_bytes)
qed

subsection \<open>What the reader finds\<close>

definition u32_at :: "string \<Rightarrow> nat \<Rightarrow> u32 \<Rightarrow> bool" where
  "u32_at content offset w \<longleftrightarrow> holds_at content offset (le_bytes 4 (unat w))"

definition u64_at :: "string \<Rightarrow> nat \<Rightarrow> u64 \<Rightarrow> bool" where
  "u64_at content offset w \<longleftrightarrow> holds_at content offset (le_bytes 8 (unat w))"

lemma read_bytes:
  assumes "holds_at content (unat offset) bs" and "length bs = unat n"
  shows "readMinidumpBytes (bytes_ReadAt content) (int (length content)) offset n = Some bs"
proof -
  have "int (unat offset + unat n) \<le> int (length content)"
    using assms by (simp add: holds_at_def del: of_nat_add)
  then have "uint offset + uint n \<le> int (length content)" by simp
  moreover have "nat (uint offset) = unat offset" by simp
  ultimately show ?thesis
    using assms by (simp add: readMinidumpBytes_def Let_def bytes_ReadAt_def holds_at_def not_less)
qed

lemma read_u32: "u32_at content (unat offset) w \<Longrightarrow> readMinidumpUint32 (bytes_ReadAt content) (int (length content)) offset = Some w"
  by (simp add: readMinidumpUint32_def u32_at_def read_bytes le_value_u32)

lemma read_u64: "u64_at content (unat offset) w \<Longrightarrow> readMinidumpUint64 (bytes_ReadAt content) (int (length content)) offset = Some w"
  by (simp add: readMinidumpUint64_def u64_at_def read_bytes le_value_u64)

lemma unat_offset:
  fixes off k :: u32
  assumes "unat off + unat k < 2 ^ 32"
  shows "unat (off + k) = unat off + unat k"
  using assms by (simp add: unat_word_ariths)

subsection \<open>Names and debug ids\<close>

lemma utf16_units_bytes: "list_all (\<lambda>u. u < 65536) us \<Longrightarrow> utf16_units (concat (map (le_bytes 2) us)) = us"
proof (induction us)
  case (Cons u us)
  then have "u < 256 ^ 2" by simp
  then have "le_value (le_bytes 2 u) = u" by (rule le_value_bytes)
  with Cons show ?case by (simp add: numeral_2_eq_2)
qed simp

lemma length_hex_digits: "n < 16 ^ Suc k \<Longrightarrow> length (hex_digits n) \<le> Suc k"
proof (induction k arbitrary: n)
  case 0
  then show ?case by (subst hex_digits.simps) simp
next
  case (Suc k)
  then have "n div 16 < 16 ^ Suc k" by (simp add: less_mult_imp_div_less mult.commute)
  with Suc.IH [of "n div 16"] show ?case by (subst hex_digits.simps) simp
qed

lemma padded_hex_text: "n < 16 ^ Suc k \<Longrightarrow> length (padded_hex (Suc k) n) = Suc k \<and> list_all hex_byte (padded_hex (Suc k) n)"
  using length_hex_digits [of n k] hex_digits_hex [of n]
  by (auto simp: padded_hex_def list_all_iff hex_byte_def)

lemma le_value_less: "le_value s < 256 ^ length s"
proof (induction s)
  case (Cons c s)
  then have "Suc (le_value s) \<le> 256 ^ length s" by simp
  then have "256 * Suc (le_value s) \<le> 256 * 256 ^ length s" by (rule mult_le_mono2)
  then have "256 + 256 * le_value s \<le> 256 * 256 ^ length s" by simp
  with byte_less [of c] have "byte c + 256 * le_value s < 256 * 256 ^ length s" by linarith
  then show ?case by simp
qed simp

lemma pdb70_debug_id:
  assumes "length guid = 16"
  shows "NewDebugIdentifier (pdb70DebugIdentifier guid age) = ok (DebugIdentifier (pdb70DebugIdentifier guid age))"
proof (rule NewDebugIdentifier_id)
  have v: "le_value (take 4 guid) < 16 ^ Suc 7" "le_value (take 2 (drop 4 guid)) < 16 ^ Suc 3" "le_value (take 2 (drop 6 guid)) < 16 ^ Suc 3"
    using le_value_less [of "take 4 guid"] le_value_less [of "take 2 (drop 4 guid)"] le_value_less [of "take 2 (drop 6 guid)"] assms
    by simp_all
  note p = padded_hex_text [OF v(1)] padded_hex_text [OF v(2)] padded_hex_text [OF v(3)]
  have e: "length (hex_encode (take 8 (drop 8 guid))) = 16" "list_all hex_byte (hex_encode (take 8 (drop 8 guid)))"
    using assms hex_encode_hex_byte by auto
  have "unat age < 16 ^ Suc 7" using unsigned_less [of age] by simp
  from length_hex_digits [OF this] hex_digits_hex [of "unat age"] p e
  show "debug_id_text (pdb70DebugIdentifier guid age)"
    by (auto simp: pdb70DebugIdentifier_def debug_id_text_def debugIdentifierMinHexBytes_def debugIdentifierMaxHexBytes_def Let_def eval_nat_numeral)
qed

subsection \<open>The writer\<close>

text \<open>A module as a dump describes it: its name is UTF-16, its debug id a GUID of 16 bytes and an age.\<close>

record dump_module =
  dm_base :: u64
  dm_size :: u32
  dm_name :: "nat list"
  dm_guid :: string
  dm_age :: u32

definition dm_codeFile :: "dump_module \<Rightarrow> string" where
  "dm_codeFile m = string_of_runes (utf16_Decode (dm_name m))"

definition dump_module_ok :: "dump_module \<Rightarrow> bool" where
  "dump_module_ok m \<longleftrightarrow> dm_name m \<noteq> [] \<and> length (dm_name m) \<le> 2048 \<and> list_all (\<lambda>u. u < 65536) (dm_name m) \<and>
     length (dm_guid m) = 16 \<and> normalizeNativeCodeFile (dm_codeFile m) = ok (dm_codeFile m)"

definition native_module :: "dump_module \<Rightarrow> NativeModule" where
  "native_module m = \<lparr>nm_debugID = DebugIdentifier (pdb70DebugIdentifier (dm_guid m) (dm_age m)),
     nm_codeFile = dm_codeFile m, nm_imageAddr = dm_base m, nm_imageSize = ucast (dm_size m)\<rparr>"

definition zeros :: "nat \<Rightarrow> string" where "zeros n = replicate n (CHR 0x00)"

lemma length_zeros [simp]: "length (zeros n) = n"
  by (simp add: zeros_def)

text \<open>The CodeView record and the name of a module, and its entry in the list, for the offset of the two.\<close>

definition module_blob :: "dump_module \<Rightarrow> string" where
  "module_blob m = (codeViewPDB70Signature @ dm_guid m @ le_bytes 4 (unat (dm_age m))) @
     le_bytes 4 (2 * length (dm_name m)) @ concat (map (le_bytes 2) (dm_name m))"

definition module_entry :: "nat \<Rightarrow> dump_module \<Rightarrow> string" where
  "module_entry offset m = le_bytes 8 (unat (dm_base m)) @ le_bytes 4 (unat (dm_size m)) @ zeros 8 @
     le_bytes 4 (offset + 24) @ zeros 52 @ le_bytes 4 24 @ le_bytes 4 offset @ zeros 24"

lemma length_module_entry [simp]: "length (module_entry offset m) = 108"
  by (simp add: module_entry_def)

definition blob_offset :: "dump_module list \<Rightarrow> nat \<Rightarrow> nat" where
  "blob_offset ms j = 484 + 108 * length ms + length (concat (map module_blob (take j ms)))"

definition write_header :: string where
  "write_header = minidumpMagic @ zeros 4 @ le_bytes 4 2 @ le_bytes 4 32 @ zeros 16"

definition write_directory :: "nat \<Rightarrow> string" where
  "write_directory count = (le_bytes 4 6 @ le_bytes 4 168 @ le_bytes 4 56) @ (le_bytes 4 4 @ le_bytes 4 (4 + 108 * count) @ le_bytes 4 480)"

definition write_crash :: "u32 \<Rightarrow> u64 \<Rightarrow> string" where
  "write_crash ctx addr = zeros 160 @ le_bytes 4 256 @ le_bytes 4 (unat ctx) @ zeros 248 @ le_bytes 8 (unat addr)"

text \<open>The CPU context is at offset 224; \<open>ctx\<close> is the offset the exception stream gives for it.\<close>

definition write_minidump :: "dump_module list \<Rightarrow> u32 \<Rightarrow> u64 \<Rightarrow> string" where
  "write_minidump ms ctx addr = write_header @ write_directory (length ms) @ write_crash ctx addr @ le_bytes 4 (length ms) @
     concat (map (\<lambda>j. module_entry (blob_offset ms j) (ms ! j)) [0..<length ms]) @ concat (map module_blob ms)"

lemma fixed_lengths: "length write_header = 32" "length (write_directory n) = 24" "length (write_crash ctx addr) = 424"
  by (simp_all add: write_header_def write_directory_def write_crash_def minidumpMagic_def)

lemma length_module_blob: "length (dm_guid m) = 16 \<Longrightarrow> length (module_blob m) = 28 + 2 * length (dm_name m)"
  by (simp add: module_blob_def codeViewPDB70Signature_def length_concat comp_def sum_list_triv)

lemma length_entries: "length (concat (map (\<lambda>j. module_entry (f j) (g j)) xs)) = 108 * length xs"
  by (induction xs) simp_all

text \<open>What a written dump holds at its offsets.\<close>

lemma written_header: "holds_at (write_minidump ms ctx addr) 0 minidumpMagic" "u32_at (write_minidump ms ctx addr) 8 2"
  "u32_at (write_minidump ms ctx addr) 12 32"
proof -
  have h: "holds_at (write_minidump ms ctx addr) 0 write_header" by (simp add: write_minidump_def holds_at_def)
  show "holds_at (write_minidump ms ctx addr) 0 minidumpMagic"
    using holds_at_part [of _ 0 "[]" minidumpMagic] h by (simp add: write_header_def)
  show "u32_at (write_minidump ms ctx addr) 8 2"
    using holds_at_part [of _ 0 "minidumpMagic @ zeros 4" "le_bytes 4 2"] h by (simp add: write_header_def u32_at_def minidumpMagic_def)
  show "u32_at (write_minidump ms ctx addr) 12 32"
    using holds_at_part [of _ 0 "minidumpMagic @ zeros 4 @ le_bytes 4 2" "le_bytes 4 32"] h
    by (simp add: write_header_def u32_at_def minidumpMagic_def)
qed

lemma written_directory:
  assumes "length ms \<le> 512"
  shows "u32_at (write_minidump ms ctx addr) 32 6" "u32_at (write_minidump ms ctx addr) 36 168" "u32_at (write_minidump ms ctx addr) 40 56"
    "u32_at (write_minidump ms ctx addr) 44 4" "u32_at (write_minidump ms ctx addr) 48 (of_nat (4 + 108 * length ms))"
    "u32_at (write_minidump ms ctx addr) 52 480"
proof -
  have h: "holds_at (write_minidump ms ctx addr) 32 (write_directory (length ms))"
    using holds_at_start [of write_header "write_directory (length ms)"] by (simp add: write_minidump_def fixed_lengths)
  have n: "unat (of_nat (4 + 108 * length ms) :: u32) = 4 + 108 * length ms"
    using assms by (simp add: unat_of_nat del: of_nat_add)
  have piece: "holds_at (write_minidump ms ctx addr) (32 + length x) y" if "write_directory (length ms) = x @ y @ z" for x y z
    using holds_at_part [of _ 32 x y z] h that by simp
  show "u32_at (write_minidump ms ctx addr) 32 6"
    using piece [of "[]" "le_bytes 4 6"] by (simp add: write_directory_def u32_at_def)
  show "u32_at (write_minidump ms ctx addr) 36 168"
    using piece [of "le_bytes 4 6" "le_bytes 4 168"] by (simp add: write_directory_def u32_at_def)
  show "u32_at (write_minidump ms ctx addr) 40 56"
    using piece [of "le_bytes 4 6 @ le_bytes 4 168" "le_bytes 4 56"] by (simp add: write_directory_def u32_at_def)
  show "u32_at (write_minidump ms ctx addr) 44 4"
    using piece [of "le_bytes 4 6 @ le_bytes 4 168 @ le_bytes 4 56" "le_bytes 4 4"] by (simp add: write_directory_def u32_at_def)
  show "u32_at (write_minidump ms ctx addr) 48 (of_nat (4 + 108 * length ms))"
    using piece [of "le_bytes 4 6 @ le_bytes 4 168 @ le_bytes 4 56 @ le_bytes 4 4" "le_bytes 4 (4 + 108 * length ms)"] n
    by (simp add: write_directory_def u32_at_def)
  show "u32_at (write_minidump ms ctx addr) 52 480"
    using piece [of "le_bytes 4 6 @ le_bytes 4 168 @ le_bytes 4 56 @ le_bytes 4 4 @ le_bytes 4 (4 + 108 * length ms)" "le_bytes 4 480"]
    by (simp add: write_directory_def u32_at_def)
qed

lemma written_crash: "u32_at (write_minidump ms ctx addr) 216 256" "u32_at (write_minidump ms ctx addr) 220 ctx" "u64_at (write_minidump ms ctx addr) 472 addr"
proof -
  have h: "holds_at (write_minidump ms ctx addr) 56 (write_crash ctx addr)"
    using holds_at_start [of "write_header @ write_directory (length ms)" "write_crash ctx addr"] by (simp add: write_minidump_def fixed_lengths)
  have piece: "holds_at (write_minidump ms ctx addr) (56 + length x) y" if "write_crash ctx addr = x @ y @ z" for x y z
    using holds_at_part [of _ 56 x y z] h that by simp
  show "u32_at (write_minidump ms ctx addr) 216 256"
    using piece [of "zeros 160" "le_bytes 4 256"] by (simp add: write_crash_def u32_at_def)
  show "u32_at (write_minidump ms ctx addr) 220 ctx"
    using piece [of "zeros 160 @ le_bytes 4 256" "le_bytes 4 (unat ctx)"] by (simp add: write_crash_def u32_at_def)
  show "u64_at (write_minidump ms ctx addr) 472 addr"
    using piece [of "zeros 160 @ le_bytes 4 256 @ le_bytes 4 (unat ctx) @ zeros 248" "le_bytes 8 (unat addr)"] by (simp add: write_crash_def u64_at_def)
qed

lemma blob_offset_bound:
  assumes "list_all dump_module_ok ms" and "length ms \<le> 512" and "j \<le> length ms"
  shows "blob_offset ms j \<le> 484 + 108 * 512 + 512 * 4124"
proof -
  have "length (module_blob m) \<le> 4124" if "m \<in> set ms" for m
    using that assms(1) length_module_blob [of m] by (auto simp: list_all_iff dump_module_ok_def)
  then have "length (concat (map module_blob (take k ms))) \<le> k * 4124" if "k \<le> length ms" for k
    using that
  proof (induction k)
    case (Suc k)
    then have "length (module_blob (ms ! k)) \<le> 4124" using \<open>\<And>m. m \<in> set ms \<Longrightarrow> length (module_blob m) \<le> 4124\<close> by simp
    moreover have "length (concat (map module_blob (take (Suc k) ms))) =
        length (concat (map module_blob (take k ms))) + length (module_blob (ms ! k))"
      using Suc.prems by (simp add: take_Suc_conv_app_nth)
    moreover have "length (concat (map module_blob (take k ms))) \<le> k * 4124" using Suc by simp
    ultimately show ?case by simp
  qed simp
  from this [OF assms(3)] assms(2,3) show ?thesis by (simp add: blob_offset_def)
qed

lemma written_modules:
  assumes "j < length ms"
  shows "holds_at (write_minidump ms ctx addr) (484 + 108 * j) (module_entry (blob_offset ms j) (ms ! j))"
    "holds_at (write_minidump ms ctx addr) (blob_offset ms j) (module_blob (ms ! j))"
proof -
  let ?es = "map (\<lambda>j. module_entry (blob_offset ms j) (ms ! j)) [0..<length ms]"
  let ?front = "write_header @ write_directory (length ms) @ write_crash ctx addr @ le_bytes 4 (length ms)"
  have front: "length ?front = 484" by (simp add: fixed_lengths)
  have w: "write_minidump ms ctx addr = ?front @ concat ?es @ concat (map module_blob ms)" by (simp add: write_minidump_def)
  have "length (concat (take j ?es)) = 108 * j"
    using assms by (simp add: take_map length_entries)
  then have "holds_at (concat ?es) (108 * j) (module_entry (blob_offset ms j) (ms ! j))"
    using holds_at_concat [of j ?es] assms by simp
  from holds_at_after [OF holds_at_before [OF this, of "concat (map module_blob ms)"], of ?front]
  show "holds_at (write_minidump ms ctx addr) (484 + 108 * j) (module_entry (blob_offset ms j) (ms ! j))"
    unfolding w front .
  have "holds_at (concat (map module_blob ms)) (length (concat (map module_blob (take j ms)))) (module_blob (ms ! j))"
    using holds_at_concat [of j "map module_blob ms"] assms by (simp add: take_map)
  note after = holds_at_after [OF this, of "?front @ concat ?es"]
  have len: "length (?front @ concat ?es) = 484 + 108 * length ms"
    unfolding length_append [of ?front "concat ?es"] front by (simp add: length_entries)
  have "write_minidump ms ctx addr = (?front @ concat ?es) @ concat (map module_blob ms)" using w by simp
  with after have "holds_at (write_minidump ms ctx addr) (484 + 108 * length ms + length (concat (map module_blob (take j ms)))) (module_blob (ms ! j))"
    unfolding len by simp
  then show "holds_at (write_minidump ms ctx addr) (blob_offset ms j) (module_blob (ms ! j))" unfolding blob_offset_def [of ms j] .
qed

lemma written_count: "length ms \<le> 512 \<Longrightarrow> u32_at (write_minidump ms ctx addr) 480 (of_nat (length ms))"
  using holds_at_start [of "write_header @ write_directory (length ms) @ write_crash ctx addr" "le_bytes 4 (length ms)"]
  by (simp add: u32_at_def unat_of_nat write_minidump_def fixed_lengths)

subsection \<open>Reading modules back\<close>

lemma u32_part:
  "holds_at c offset (x @ le_bytes 4 n @ z) \<Longrightarrow> n < 2 ^ 32 \<Longrightarrow> u32_at c (offset + length x) (of_nat n)"
  using holds_at_part [of c offset x "le_bytes 4 n" z] by (simp add: u32_at_def unat_of_nat)

lemma parse_module_written:
  assumes ms: "list_all dump_module_ok ms" "length ms \<le> 512" and j: "j < length ms"
    and off: "unat offset = 484 + 108 * j"
    and c: "c = write_minidump ms ctx addr" and r: "reader = bytes_ReadAt c" and n: "n = int (length c)"
  shows "parseMinidumpModule reader n offset = Some (native_module (ms ! j))"
proof -
  let ?m = "ms ! j" and ?b = "blob_offset ms j"
  have m: "dump_module_ok ?m" using ms(1) j by (simp add: list_all_length)
  have b: "?b \<le> 484 + 108 * 512 + 512 * 4124" using blob_offset_bound [OF ms] j by simp
  have e: "holds_at c (484 + 108 * j) (module_entry ?b ?m)" and blob: "holds_at c ?b (module_blob ?m)"
    using written_modules(1,2) [OF j] by (simp_all add: c)
  have fits: "484 + 108 * j + 108 < 2 ^ 32" using j ms(2) by simp
  have at: "unat (offset + k) = 484 + 108 * j + unat k" if "unat k \<le> 108" for k
    using unat_offset [of offset k] that off fits by simp
  have base: "u64_at c (484 + 108 * j) (dm_base ?m)"
    using holds_at_part [of c "484 + 108 * j" "[]"] e by (simp add: module_entry_def u64_at_def)
  have len: "u32_at c (484 + 108 * j + 8) (dm_size ?m)"
    using holds_at_part [of c "484 + 108 * j" "le_bytes 8 (unat (dm_base ?m))"] e by (simp add: module_entry_def u32_at_def)
  have name: "u32_at c (484 + 108 * j + 20) (of_nat (?b + 24))"
    using u32_part [of c "484 + 108 * j" "le_bytes 8 (unat (dm_base ?m)) @ le_bytes 4 (unat (dm_size ?m)) @ zeros 8" "?b + 24"] e b
    by (simp add: module_entry_def)
  have cvSize: "u32_at c (484 + 108 * j + 76) 24"
    using u32_part [of c "484 + 108 * j" "le_bytes 8 (unat (dm_base ?m)) @ le_bytes 4 (unat (dm_size ?m)) @ zeros 8 @
      le_bytes 4 (?b + 24) @ zeros 52" 24] e by (simp add: module_entry_def)
  have cvRVA: "u32_at c (484 + 108 * j + 80) (of_nat ?b)"
    using u32_part [of c "484 + 108 * j" "le_bytes 8 (unat (dm_base ?m)) @ le_bytes 4 (unat (dm_size ?m)) @ zeros 8 @
      le_bytes 4 (?b + 24) @ zeros 52 @ le_bytes 4 24" ?b] e b by (simp add: module_entry_def)
  let ?cv = "codeViewPDB70Signature @ dm_guid ?m @ le_bytes 4 (unat (dm_age ?m))"
  have guid: "length (dm_guid ?m) = 16" using m by (simp add: dump_module_ok_def)
  have ub: "unat (of_nat ?b :: u32) = ?b" "unat (of_nat (?b + 24) :: u32) = ?b + 24" using b by (simp_all add: unat_of_nat del: of_nat_add)
  have "holds_at c ?b ?cv" using holds_at_part [of c ?b "[]" ?cv] blob by (simp add: module_blob_def)
  then have "readMinidumpBytes reader n (of_nat ?b) 24 = Some ?cv"
    unfolding r n by (intro read_bytes) (simp_all add: ub guid codeViewPDB70Signature_def)
  then have debug: "parseMinidumpCodeViewDebugID reader n (of_nat ?b) 24 = Some (nm_debugID (native_module ?m))"
    using pdb70_debug_id [OF guid] guid
    by (simp add: parseMinidumpCodeViewDebugID_def minidump_limits HasPrefix_def codeViewPDB70Signature_def native_module_def le_value_u32)
  let ?us = "dm_name ?m"
  have us: "?us \<noteq> []" "length ?us \<le> 2048" "list_all (\<lambda>u. u < 65536) ?us" using m by (simp_all add: dump_module_ok_def)
  have lens: "length (concat (map (le_bytes 2) ?us)) = 2 * length ?us" by (simp add: length_concat comp_def sum_list_triv)
  have count: "u32_at c (?b + 24) (of_nat (2 * length ?us))"
    using u32_part [of c ?b ?cv "2 * length ?us" "concat (map (le_bytes 2) ?us)"] blob us(2) guid
    by (simp add: module_blob_def codeViewPDB70Signature_def)
  have chars: "holds_at c (?b + 28) (concat (map (le_bytes 2) ?us))"
    using holds_at_part [of c ?b "?cv @ le_bytes 4 (2 * length ?us)" "concat (map (le_bytes 2) ?us)" "[]"] blob guid
    by (simp add: module_blob_def codeViewPDB70Signature_def)
  have uc: "unat (of_nat (2 * length ?us) :: u32) = 2 * length ?us" using us(2) by (simp add: unat_of_nat del: of_nat_mult)
  have string: "readMinidumpString reader n (of_nat (?b + 24)) = Some (dm_codeFile ?m)"
  proof -
    have "readMinidumpUint32 reader n (of_nat (?b + 24)) = Some (of_nat (2 * length ?us))"
      unfolding r n using count by (intro read_u32) (simp only: ub)
    moreover have "readMinidumpBytes reader n (of_nat (?b + 24) + 4) (of_nat (2 * length ?us)) = Some (concat (map (le_bytes 2) ?us))"
    proof -
      have "unat (of_nat (?b + 24) + 4 :: u32) = ?b + 28"
        using unat_offset [of "of_nat (?b + 24)" 4] ub(2) b by simp
      with chars show ?thesis unfolding r n by (intro read_bytes) (simp_all only: lens uc)
    qed
    moreover have "(of_nat (2 * length ?us) :: u32) \<noteq> 0" "\<not> (of_nat (2 * length ?us) :: u32) > minidumpMaxStringBytes"
      "(of_nat (2 * length ?us) :: u32) mod 2 = 0"
      using uc us(1,2) by (simp_all add: minidump_limits word_less_nat_alt unat_mod word_unat_eq_iff)
    ultimately show ?thesis
      using utf16_units_bytes [OF us(3)] by (simp add: readMinidumpString_def dm_codeFile_def)
  qed
  have "readMinidumpUint64 reader n (offset + minidumpModuleBase) = Some (dm_base ?m)"
    unfolding r n using base at [of minidumpModuleBase] by (intro read_u64) (simp add: minidump_limits)
  moreover have "readMinidumpUint32 reader n (offset + minidumpModuleSize) = Some (dm_size ?m)"
    unfolding r n using len at [of minidumpModuleSize] by (intro read_u32) (simp add: minidump_limits)
  moreover have "readMinidumpUint32 reader n (offset + minidumpModuleNameRVA) = Some (of_nat (?b + 24))"
    unfolding r n using name at [of minidumpModuleNameRVA] by (intro read_u32) (simp add: minidump_limits)
  moreover have "readMinidumpUint32 reader n (offset + minidumpModuleCvSize) = Some 24"
    unfolding r n using cvSize at [of minidumpModuleCvSize] by (intro read_u32) (simp add: minidump_limits)
  moreover have "readMinidumpUint32 reader n (offset + minidumpModuleCvRVA) = Some (of_nat ?b)"
    unfolding r n using cvRVA at [of minidumpModuleCvRVA] by (intro read_u32) (simp add: minidump_limits)
  moreover have "NewNativeModule (nm_debugID (native_module ?m)) (dm_codeFile ?m) (dm_base ?m) (ucast (dm_size ?m)) = ok (native_module ?m)"
    using m pdb70_debug_id [OF guid, THEN NewDebugIdentifier_valid, of "dm_age ?m"]
    by (auto simp: NewNativeModule_def native_module_def dump_module_ok_def debug_id_text_def debugIdentifierMinHexBytes_def)
  ultimately show ?thesis using debug string by (simp add: parseMinidumpModule_def)
qed

lemma uint_unat: "uint w = int (unat w)"
  by simp

lemma module_entries_written:
  assumes ms: "list_all dump_module_ok ms" "length ms \<le> 512"
    and c: "c = write_minidump ms ctx addr" "reader = bytes_ReadAt c" "n = int (length c)"
    and entry: "rva entry = 480" "dataSize entry = of_nat (4 + 108 * length ms)"
    and k: "j + k = length ms"
  shows "module_entries reader n entry (of_nat j) k = map native_module (drop j ms)"
  using k
proof (induction k arbitrary: j)
  case (Suc k)
  then have j: "j < length ms" by simp
  have eq: "rva entry + 4 + of_nat j * minidumpModuleBytes = of_nat (484 + 108 * j)"
    by (simp add: entry minidump_limits)
  have off: "unat (of_nat (484 + 108 * j) :: u32) = 484 + 108 * j"
    using j ms(2) by (simp add: unat_of_nat del: of_nat_add of_nat_mult)
  have size: "unat (of_nat (4 + 108 * length ms) :: u32) = 4 + 108 * length ms"
    using ms(2) by (simp add: unat_of_nat del: of_nat_add of_nat_mult)
  have within: "minidumpRangeWithinStream entry (of_nat (484 + 108 * j)) minidumpModuleBytes"
  proof -
    have "uint (of_nat (484 + 108 * j) :: u32) = int (484 + 108 * j)" "uint (of_nat (4 + 108 * length ms) :: u32) = int (4 + 108 * length ms)"
      by (simp_all only: uint_unat off size)
    then show ?thesis using j by (simp add: minidumpRangeWithinStream_def entry minidump_limits del: of_nat_add of_nat_mult)
  qed
  have "module_entries reader n entry (of_nat j + 1) k = map native_module (drop (Suc j) ms)"
    using Suc.IH [of "Suc j"] Suc.prems by (simp add: add.commute)
  with within parse_module_written [OF ms j off c] show ?case
    using j by (simp add: Let_def eq Cons_nth_drop_Suc [symmetric] del: of_nat_add of_nat_mult)
qed simp

text \<open>The frame of a crash, with the module whose range in unbounded numbers holds the address.\<close>

definition module_range :: "NativeModule \<Rightarrow> u64 \<Rightarrow> bool" where
  "module_range module addr \<longleftrightarrow> unat (nm_imageAddr module) \<le> unat addr \<and>
     unat addr < unat (nm_imageAddr module) + max 1 (unat (nm_imageSize module))"

lemma module_contains_range: "minidumpModuleContainsInstructionAddr module addr = module_range module addr"
  using function_contains_covers [of "\<lparr>bf_address = nm_imageAddr module, bf_size = nm_imageSize module, bf_name = []\<rparr>" addr]
  unfolding minidumpModuleContainsInstructionAddr_def module_range_def function_contains_def covers_def breakpadFunction.select_convs .

definition crash_frame :: "NativeModule list \<Rightarrow> u64 \<Rightarrow> NativeFrame" where
  "crash_frame modules addr =
     (let alone = \<lparr>nf_instructionAddr = addr, nf_moduleDebugID = DebugIdentifier [], nf_hasModule = False, nf_function = [], nf_pkg = []\<rparr> in
      case find (\<lambda>module. module_range module addr) modules of None \<Rightarrow> alone
      | Some module \<Rightarrow>
          if length (nm_codeFile module) \<le> nativePackageMaxBytes
          then alone\<lparr>nf_moduleDebugID := nm_debugID module, nf_hasModule := True, nf_pkg := nm_codeFile module\<rparr> else alone)"

lemma parse_frames:
  assumes "list_all module_valid modules" and "parseMinidumpExceptionInstruction reader n entries = Some addr"
  shows "parseMinidumpFrames reader n entries modules = [crash_frame modules addr]"
proof (cases "find (\<lambda>module. module_range module addr) modules")
  case None
  with assms(2) show ?thesis
    by (simp add: parseMinidumpFrames_def minidumpModuleForInstructionAddr_def module_contains_range crash_frame_def plain_frames_def
        NewNativeFrame_def normalizeNativeFunction_def normalizeNativePackage_def)
next
  case (Some m)
  with assms(1) have m: "module_valid m" by (auto simp: list_all_iff dest: find_SomeD)
  then have "normalizeNativePackage (nm_codeFile m) =
      (if length (nm_codeFile m) \<le> nativePackageMaxBytes then ok (nm_codeFile m) else fail ''native frame package is too long'')"
    by (auto simp: normalizeNativePackage_def module_valid_def visible_text_def Let_def)
  with Some m assms(2) show ?thesis
    by (auto simp: parseMinidumpFrames_def minidumpModuleForInstructionAddr_def module_contains_range crash_frame_def plain_frames_def
        NewNativeFrame_def NewNativeFrameWithModule_def normalizeNativeFunction_def normalizeNativePackage_def [of "[]"] module_valid_def)
qed

lemma native_module_valid: "dump_module_ok m \<Longrightarrow> module_valid (native_module m)"
  using pdb70_debug_id [of "dm_guid m" "dm_age m", THEN NewDebugIdentifier_valid] nativeCodeFile.new_valid [of "dm_codeFile m" "dm_codeFile m"]
  by (auto simp: dump_module_ok_def module_valid_def native_module_def debug_id_text_def debugIdentifierMinHexBytes_def)

lemma parse_written:
  assumes ms: "list_all dump_module_ok ms" "length ms \<le> 512"
    and c: "c = write_minidump ms ctx addr" "reader = bytes_ReadAt c" "n = int (length c)"
    and at: "u64_at c (unat (ctx + 248)) at" "at \<noteq> 0"
  shows "ParseNativeMetadata (Some reader) n =
    ok \<lparr>meta_modules = map native_module ms, meta_frames = [crash_frame (map native_module ms) at]\<rparr>"
proof -
  have u: "unat (k :: u32) = m \<Longrightarrow> u32_at c m w \<Longrightarrow> readMinidumpUint32 reader n k = Some w" for k m w
    unfolding c(2,3) by (intro read_u32) simp
  note dir = written_directory [OF ms(2), of ctx addr, folded c(1)]
  note head = written_header [of ms ctx addr, folded c(1)]
  note crash = written_crash [of ms ctx addr, folded c(1)]
  have n: "480 \<le> n" by (simp add: c(3) c(1) write_minidump_def fixed_lengths)
  let ?ex = "\<lparr>streamType = 6, dataSize = 168, rva = 56\<rparr>" and ?ml = "\<lparr>streamType = 4, dataSize = of_nat (4 + 108 * length ms), rva = 480\<rparr>"
  have magic: "readMinidumpBytes reader n 0 (of_nat (length minidumpMagic)) = Some minidumpMagic"
    unfolding c(2,3) using head(1) by (intro read_bytes) (simp_all add: minidumpMagic_def)
  have entry: "readMinidumpDirectoryEntry reader n (32 + 0 * minidumpDirectoryBytes) = Some ?ex"
    "readMinidumpDirectoryEntry reader n (32 + (0 + 1) * minidumpDirectoryBytes) = Some ?ml"
    using u [OF _ dir(1), of 32] u [OF _ dir(2), of 36] u [OF _ dir(3), of 40] u [OF _ dir(4), of 44] u [OF _ dir(5), of 48] u [OF _ dir(6), of 52]
    by (simp_all add: readMinidumpDirectoryEntry_def minidump_limits del: of_nat_add of_nat_mult)
  have two: "directory_entries reader n 32 0 2 = Some [?ex, ?ml]"
    unfolding numeral_2_eq_2 using entry by simp
  have "readMinidumpUint32 reader n 8 = Some 2" "readMinidumpUint32 reader n 12 = Some 32"
    by (rule u [OF _ head(2)], simp) (rule u [OF _ head(3)], simp)
  with two n have entries: "readMinidumpDirectory reader n = Some [?ex, ?ml]"
    by (simp add: readMinidumpDirectory_def minidump_limits word_less_nat_alt)
  have count: "unat (of_nat (length ms) :: u32) = length ms" using ms(2) by (simp add: unat_of_nat)
  have modules: "parseMinidumpModules reader n [?ex, ?ml] = map native_module ms"
  proof (cases "ms = []")
    case True
    then show ?thesis
      using u [OF _ written_count [OF ms(2), of ctx addr, folded c(1)], of 480]
      by (simp add: parseMinidumpModules_def findMinidumpStream_def minidump_limits)
  next
    case False
    then have "(of_nat (length ms) :: u32) \<noteq> 0" "\<not> (of_nat (length ms) :: u32) > 512"
      using count ms(2) by (auto simp: word_less_nat_alt word_unat_eq_iff)
    then show ?thesis
      using u [OF _ written_count [OF ms(2), of ctx addr, folded c(1)], of 480] count
        module_entries_written [OF ms c, of ?ml 0 "length ms"]
      by (simp add: parseMinidumpModules_def findMinidumpStream_def minidump_limits del: of_nat_add of_nat_mult)
  qed
  have "readMinidumpUint64 reader n (ctx + 248) = Some at"
    unfolding c(2,3) by (rule read_u64 [OF at(1)])
  then have "parseMinidumpExceptionInstruction reader n [?ex, ?ml] = Some at"
    using u [OF _ crash(1), of 216] u [OF _ crash(2), of 220] at(2)
    by (simp add: parseMinidumpExceptionInstruction_def findMinidumpStream_def minidump_limits word_less_nat_alt)
  moreover have "list_all module_valid (map native_module ms)"
    using ms(1) native_module_valid by (auto simp: list_all_iff)
  ultimately have "parseMinidumpFrames reader n [?ex, ?ml] (map native_module ms) = [crash_frame (map native_module ms) at]"
    by (intro parse_frames)
  with magic entries modules show ?thesis by (simp add: ParseNativeMetadata_def Let_def)
qed

subsection \<open>Properties\<close>

text \<open>
  A reader that is only asked for bytes inside the file, and for at most 4096 of them at a time.
\<close>

definition guarded :: "int \<Rightarrow> ReaderAt \<Rightarrow> ReaderAt" where
  "guarded n reader offset count = (if int offset + int count \<le> n \<and> count \<le> 4096 then reader offset count else None)"

lemma guarded_bytes: "unat k \<le> 4096 \<Longrightarrow> readMinidumpBytes (guarded n reader) n offset k = readMinidumpBytes reader n offset k"
  by (simp add: readMinidumpBytes_def guarded_def Let_def)

lemma guarded_numbers: "readMinidumpUint32 (guarded n reader) n = readMinidumpUint32 reader n"
  "readMinidumpUint64 (guarded n reader) n = readMinidumpUint64 reader n"
  by (simp_all add: fun_eq_iff readMinidumpUint32_def readMinidumpUint64_def guarded_bytes)

lemma guarded_string: "readMinidumpString (guarded n reader) n = readMinidumpString reader n"
proof
  fix start
  show "readMinidumpString (guarded n reader) n start = readMinidumpString reader n start"
    unfolding readMinidumpString_def guarded_numbers
    by (cases "readMinidumpUint32 reader n start") (auto simp: minidump_limits guarded_bytes word_le_nat_alt word_less_nat_alt not_less)
qed

lemma guarded_code_view: "parseMinidumpCodeViewDebugID (guarded n reader) n = parseMinidumpCodeViewDebugID reader n"
proof (intro ext)
  fix start len
  show "parseMinidumpCodeViewDebugID (guarded n reader) n start len = parseMinidumpCodeViewDebugID reader n start len"
    unfolding parseMinidumpCodeViewDebugID_def by (auto simp: minidump_limits guarded_bytes word_le_nat_alt word_less_nat_alt not_less)
qed

lemma guarded_module: "parseMinidumpModule (guarded n reader) n = parseMinidumpModule reader n"
  unfolding fun_eq_iff parseMinidumpModule_def guarded_numbers guarded_string guarded_code_view by simp

lemma guarded_module_entries: "module_entries (guarded n reader) n entry index k = module_entries reader n entry index k"
  by (induction k arbitrary: index) (simp_all add: Let_def guarded_module split: option.split)

lemma guarded_modules: "parseMinidumpModules (guarded n reader) n = parseMinidumpModules reader n"
  unfolding fun_eq_iff parseMinidumpModules_def guarded_numbers guarded_module_entries by simp

lemma guarded_frames: "parseMinidumpFrames (guarded n reader) n = parseMinidumpFrames reader n"
  unfolding fun_eq_iff parseMinidumpFrames_def parseMinidumpExceptionInstruction_def guarded_numbers by simp

lemma guarded_directory: "readMinidumpDirectory (guarded n reader) n = readMinidumpDirectory reader n"
proof -
  have entry: "readMinidumpDirectoryEntry (guarded n reader) n = readMinidumpDirectoryEntry reader n"
    unfolding fun_eq_iff readMinidumpDirectoryEntry_def guarded_numbers by simp
  have loop: "directory_entries (guarded n reader) n start index k = directory_entries reader n start index k" for start index k
    by (induction k arbitrary: index) (simp_all add: entry)
  show ?thesis unfolding readMinidumpDirectory_def guarded_numbers loop by simp
qed

lemma parseMinidumpModule_valid: "parseMinidumpModule reader n offset = Some m \<Longrightarrow> module_valid m"
proof -
  assume "parseMinidumpModule reader n offset = Some m"
  then obtain d c a z where "(case NewNativeModule d c a (ucast (z :: u32)) of Inl e \<Rightarrow> None | Inr m \<Rightarrow> Some m) = Some m"
    unfolding parseMinidumpModule_def bind_eq_Some_conv by blast
  then have "NewNativeModule d c a (ucast z) = ok m" by (cases "NewNativeModule d c a (ucast z)") simp_all
  then show ?thesis by (rule NewNativeModule_valid)
qed

lemma module_entries_valid: "list_all module_valid (module_entries reader n entry index k) \<and> length (module_entries reader n entry index k) \<le> k"
proof (induction k arbitrary: index)
  case (Suc k)
  from Suc.IH [of "index + 1"] parseMinidumpModule_valid show ?case by (auto simp: Let_def split: option.split)
qed simp

lemma parse_modules_valid: "list_all module_valid (parseMinidumpModules reader n entries) \<and> length (parseMinidumpModules reader n entries) \<le> 512"
proof -
  have "length (module_entries reader n entry 0 (unat k)) \<le> 512" if "\<not> k > minidumpMaxModuleCount" for entry k
    using module_entries_valid [of reader n entry 0 "unat k"] that by (simp add: minidump_limits not_less word_le_nat_alt)
  with module_entries_valid show ?thesis by (auto simp: parseMinidumpModules_def split: option.split)
qed

text \<open>
  C34. A minidump is read within bounds, whatever its bytes are: no read reaches past the end of the file or asks for
  more than 4096 bytes (the result is that of a reader which refuses such reads), at most 512 modules and one frame
  come out, all of them as their constructors make them, and the frame is the one of the crash address, which is not
  zero. With the four bytes of the magic at its start a file is never an error.
\<close>

theorem minidump_parsed_within_bounds:
  "ParseNativeMetadata (Some reader) n = ParseNativeMetadata (Some (guarded n reader)) n \<and>
   (case ParseNativeMetadata (Some reader) n of
      Inl e \<Rightarrow> readMinidumpBytes reader n 0 4 \<noteq> Some minidumpMagic
    | Inr meta \<Rightarrow> list_all module_valid (meta_modules meta) \<and> length (meta_modules meta) \<le> 512 \<and>
        (meta_frames meta = [] \<or> (\<exists>addr. addr \<noteq> 0 \<and> meta_frames meta = [crash_frame (meta_modules meta) addr])))"
proof
  have magic: "(of_nat (length minidumpMagic) :: u32) = 4" by (simp add: minidumpMagic_def)
  show "ParseNativeMetadata (Some reader) n = ParseNativeMetadata (Some (guarded n reader)) n"
    unfolding ParseNativeMetadata_def option.case magic guarded_directory guarded_modules guarded_frames by (simp add: guarded_bytes)
  have "parseMinidumpFrames reader n entries ms = [] \<or>
      (\<exists>addr. addr \<noteq> 0 \<and> parseMinidumpFrames reader n entries ms = [crash_frame ms addr])" if "list_all module_valid ms" for entries ms
  proof (cases "parseMinidumpExceptionInstruction reader n entries")
    case (Some addr)
    then have "addr \<noteq> 0" by (auto simp: parseMinidumpExceptionInstruction_def bind_eq_Some_conv split: if_split_asm)
    with parse_frames [OF that Some] show ?thesis by blast
  qed (simp add: parseMinidumpFrames_def)
  with parse_modules_valid show "case ParseNativeMetadata (Some reader) n of
      Inl e \<Rightarrow> readMinidumpBytes reader n 0 4 \<noteq> Some minidumpMagic
    | Inr meta \<Rightarrow> list_all module_valid (meta_modules meta) \<and> length (meta_modules meta) \<le> 512 \<and>
        (meta_frames meta = [] \<or> (\<exists>addr. addr \<noteq> 0 \<and> meta_frames meta = [crash_frame (meta_modules meta) addr]))"
    by (auto simp: ParseNativeMetadata_def magic Let_def split: option.split)
qed

text \<open>
  C35. What a writer of minidumps puts down is read back: for up to 512 modules with UTF-16 names, GUIDs, ages,
  addresses and sizes and for a crash address that is not zero, the parser returns the modules in order, with the debug
  ids of their PDB 7.0 records, and the frame of the crash: in the first module whose range, in unbounded numbers, has
  the address, unless that module's path is longer than a frame's package may be.
\<close>

theorem minidump_roundtrip:
  assumes "list_all dump_module_ok ms" and "length ms \<le> 512" and "addr \<noteq> 0"
  shows "ParseNativeMetadata (Some (bytes_ReadAt (write_minidump ms 224 addr))) (int (length (write_minidump ms 224 addr))) =
    ok \<lparr>meta_modules = map native_module ms, meta_frames = [crash_frame (map native_module ms) addr]\<rparr>"
  using parse_written [OF assms(1,2) refl refl refl, of 224 addr addr] written_crash(3) [of ms 224 addr] assms(3) by simp

definition example_dump_module :: dump_module where
  "example_dump_module = \<lparr>dm_base = 4096, dm_size = 256, dm_name = [97, 112, 112], dm_guid = replicate 16 CHR ''a'', dm_age = 1\<rparr>"

theorem minidump_roundtrip_witness:
  "ParseNativeMetadata (Some (bytes_ReadAt (write_minidump [example_dump_module] 224 4100)))
     (int (length (write_minidump [example_dump_module] 224 4100))) =
    ok \<lparr>meta_modules = [native_module example_dump_module], meta_frames = [crash_frame [native_module example_dump_module] 4100]\<rparr>"
proof -
  have name: "dm_codeFile example_dump_module = ''app''"
    by (simp add: dm_codeFile_def example_dump_module_def string_of_runes_def encode_rune_def rune_bytes_def char_of_def bit_simps)
  have "dump_module_ok example_dump_module"
    using name by (simp add: dump_module_ok_def nativeCodeFile.new_ok_iff visible_text_def TrimSpace_id nativeCodeFileMaxBytes_def
        visibleString_ascii ascii_ValidString is_ascii_def) (simp add: example_dump_module_def)
  with minidump_roundtrip [of "[example_dump_module]" 4100] show ?thesis by simp
qed

text \<open>
  An offset past the end of the file can point at its start: the crash address is read at the context's offset plus
  248 in 32 bits, and nothing checks the sum or compares the offset with the file. In a dump whose context lies at
  \<open>2^32 - 248\<close>, outside the file, the address is read from offset 0, and the frame's address is the magic number.
\<close>

theorem context_offset_wraps_around:
  "ParseNativeMetadata (Some (bytes_ReadAt (write_minidump [] (2 ^ 32 - 248) addr))) (int (length (write_minidump [] (2 ^ 32 - 248) addr))) =
    ok \<lparr>meta_modules = [], meta_frames = [crash_frame [] 0x504D444D]\<rparr>"
proof -
  let ?c = "write_minidump [] (2 ^ 32 - 248) addr"
  have "?c = (minidumpMagic @ zeros 4) @ le_bytes 4 2 @ le_bytes 4 32 @ zeros 16 @ write_directory 0 @ write_crash (2 ^ 32 - 248) addr @ le_bytes 4 0"
    by (simp add: write_minidump_def write_header_def)
  moreover have "minidumpMagic @ zeros 4 = le_bytes 8 (unat (0x504D444D :: u64))"
  proof -
    have eight: "(8 :: nat) = Suc (Suc (Suc (Suc (Suc (Suc (Suc (Suc 0)))))))" and four: "(4 :: nat) = Suc (Suc (Suc (Suc 0)))" by simp_all
    have "unat (0x504D444D :: u64) = 0x504D444D" by simp
    then show ?thesis unfolding eight le_bytes.simps zeros_def four replicate.simps minidumpMagic_def
      by (simp add: char_of_def bit_simps)
  qed
  ultimately have "u64_at ?c 0 0x504D444D" by (simp add: u64_at_def holds_at_def)
  then show ?thesis using parse_written [of "[]" ?c "2 ^ 32 - 248" addr "bytes_ReadAt ?c" "int (length ?c)" "0x504D444D"] by simp
qed

end
