(* ===== verification/JsonSyntax.thy ===== *)
theory JsonSyntax
  imports JsonStrings
begin

text \<open>
  The text side of \<open>encoding/json\<close>: what \<open>json.Unmarshal\<close> reads. A document is cut into tokens
  (\<open>lex_json\<close>) and the tokens are consumed by a machine with an explicit stack of open arrays and
  objects, as the library's scanner does with its \<open>parseState\<close>; more than
  \<open>maxNestingDepth\<close> open containers are an error. A number keeps its literal text: each target type
  reads it in its own way. The writer \<open>write_json\<close> and the round trip say that a document written
  without blanks is read back to the value it was written from.
\<close>

datatype json_value =
    NullValue
  | BoolValue bool
  | NumberValue string
  | TextValue string
  | ArrayValue "json_value list"
  | ObjectValue "(string \<times> json_value) list"

datatype token = OpenArray | CloseArray | OpenObject | CloseObject | Comma | Colon | Scalar json_value

subsection \<open>String literals\<close>

definition hex_digit_of :: "char \<Rightarrow> nat option" where
  "hex_digit_of c =
     (if 48 \<le> byte c \<and> byte c \<le> 57 then Some (byte c - 48)
      else if 97 \<le> byte c \<and> byte c \<le> 102 then Some (byte c - 87)
      else if 65 \<le> byte c \<and> byte c \<le> 70 then Some (byte c - 55) else None)"

text \<open>\<open>getu4\<close>: the four digits after \<open>\u\<close>.\<close>

fun getu4 :: "string \<Rightarrow> (nat \<times> string) option" where
  "getu4 (a # b # c # d # s) =
     (case (hex_digit_of a, hex_digit_of b, hex_digit_of c, hex_digit_of d) of
        (Some w, Some x, Some y, Some z) \<Rightarrow> Some (((w * 16 + x) * 16 + y) * 16 + z, s)
      | _ \<Rightarrow> None)"
| "getu4 _ = None"

definition high_surrogate :: "nat \<Rightarrow> bool" where
  "high_surrogate r \<longleftrightarrow> 55296 \<le> r \<and> r < 56320"

definition low_surrogate :: "nat \<Rightarrow> bool" where
  "low_surrogate r \<longleftrightarrow> 56320 \<le> r \<and> r < 57344"

text \<open>
  The rune of an escape \<open>\uXXXX\<close>: a surrogate pair of two escapes is one rune, a surrogate without
  its other half is U+FFFD (\<open>encode_rune\<close> writes every surrogate so) and consumes its escape only.
\<close>

definition unicode_escape :: "nat \<Rightarrow> string \<Rightarrow> nat \<times> string" where
  "unicode_escape r s =
     (if take 2 s = [CHR 0x5C, CHR ''u''] \<and> high_surrogate r then
        (case getu4 (drop 2 s) of
           Some (r', t) \<Rightarrow>
             if low_surrogate r' then ((r - 55296) * 1024 + (r' - 56320) + 65536, t) else (r, s)
         | None \<Rightarrow> (r, s))
      else (r, s))"

text \<open>What a backslash in a string literal stands for, and the text after the escape.\<close>

definition lex_escape :: "string \<Rightarrow> (string \<times> string) option" where
  "lex_escape s =
     (case s of
        [] \<Rightarrow> None
      | c # t \<Rightarrow>
          if c = CHR 0x22 \<or> c = CHR 0x5C \<or> c = CHR ''/'' then Some ([c], t)
          else if c \<in> {CHR ''b'', CHR ''f'', CHR ''n'', CHR ''r'', CHR ''t''} then Some ([unescape c], t)
          else if c = CHR ''u'' then
            (case getu4 t of
               None \<Rightarrow> None
             | Some (r, u) \<Rightarrow> (case unicode_escape r u of (r', v) \<Rightarrow> Some (encode_rune r', v)))
          else None)"

lemma getu4_shorter: "getu4 s = Some (r, t) \<Longrightarrow> length t \<le> length s"
  by (induction s rule: getu4.induct) (auto split: option.splits)

lemma unicode_escape_shorter: "unicode_escape r s = (r', t) \<Longrightarrow> length t \<le> length s"
  unfolding unicode_escape_def by (auto split: option.splits if_splits dest!: getu4_shorter)

lemma lex_escape_shorter: "lex_escape s = Some (r, t) \<Longrightarrow> length t \<le> length s"
  unfolding lex_escape_def
  by (auto split: list.splits option.splits if_splits prod.splits
      dest!: getu4_shorter unicode_escape_shorter)

text \<open>The text of a string literal after its first quote, and what follows the literal.\<close>

function lex_string :: "string \<Rightarrow> (string \<times> string) option" where
  "lex_string s =
     (case s of
        [] \<Rightarrow> None
      | c # t \<Rightarrow>
          if c = CHR 0x22 then Some ([], t)
          else if c = CHR 0x5C then
            (case lex_escape t of
               None \<Rightarrow> None
             | Some (x, u) \<Rightarrow> map_option (\<lambda>(v, w). (x @ v, w)) (lex_string u))
          else if byte c < 32 then None
          else if byte c < 128 then map_option (\<lambda>(v, w). (c # v, w)) (lex_string t)
          else map_option (\<lambda>(v, w). (encode_rune (fst (decode_rune s)) @ v, w))
                 (lex_string (drop (snd (decode_rune s)) s)))"
  by pat_completeness auto
termination
  by (relation "measure length") (auto dest!: lex_escape_shorter simp: decode_rune_width)

declare lex_string.simps [simp del]

subsection \<open>Number literals\<close>

definition lex_fraction :: "string \<Rightarrow> (string \<times> string) option" where
  "lex_fraction s =
     (case s of
        [] \<Rightarrow> Some ([], [])
      | c # t \<Rightarrow>
          if c = CHR ''.'' then
            (if takeWhile digit_byte t = [] then None
             else Some (c # takeWhile digit_byte t, dropWhile digit_byte t))
          else Some ([], s))"

definition lex_sign :: "string \<Rightarrow> string \<times> string" where
  "lex_sign s = (case s of c # t \<Rightarrow> if c = CHR ''+'' \<or> c = CHR ''-'' then ([c], t) else ([], s) | [] \<Rightarrow> ([], []))"

definition lex_exponent :: "string \<Rightarrow> (string \<times> string) option" where
  "lex_exponent s =
     (case s of
        [] \<Rightarrow> Some ([], [])
      | c # t \<Rightarrow>
          if c = CHR ''e'' \<or> c = CHR ''E'' then
            (case lex_sign t of (sign, u) \<Rightarrow>
               if takeWhile digit_byte u = [] then None
               else Some (c # sign @ takeWhile digit_byte u, dropWhile digit_byte u))
          else Some ([], s))"

text \<open>The digits before the fraction: a zero stands alone.\<close>

definition lex_integer :: "string \<Rightarrow> (string \<times> string) option" where
  "lex_integer s =
     (case s of
        [] \<Rightarrow> None
      | c # t \<Rightarrow>
          if c = CHR ''0'' then Some ([c], t)
          else if digit_byte c then Some (takeWhile digit_byte s, dropWhile digit_byte s)
          else None)"

definition lex_minus :: "string \<Rightarrow> string \<times> string" where
  "lex_minus s = (case s of [] \<Rightarrow> ([], []) | c # t \<Rightarrow> if c = CHR ''-'' then ([c], t) else ([], s))"

definition lex_number :: "string \<Rightarrow> (string \<times> string) option" where
  "lex_number s =
     Option.bind (lex_integer (snd (lex_minus s))) (\<lambda>(whole, s1).
     Option.bind (lex_fraction s1) (\<lambda>(frac, s2).
     Option.bind (lex_exponent s2) (\<lambda>(expo, s3).
       Some (fst (lex_minus s) @ whole @ frac @ expo, s3))))"

subsection \<open>Tokens\<close>

definition json_blank :: "char \<Rightarrow> bool" where
  "json_blank c \<longleftrightarrow> c = CHR '' '' \<or> c = CHR 0x09 \<or> c = CHR 0x0D \<or> c = CHR 0x0A"

definition literal_word :: "string \<Rightarrow> token \<Rightarrow> string \<Rightarrow> (token \<times> string) option" where
  "literal_word w k s = (if take (length w) s = w then Some (k, drop (length w) s) else None)"

definition lex_token :: "string \<Rightarrow> (token \<times> string) option" where
  "lex_token s =
     (case s of
        [] \<Rightarrow> None
      | c # t \<Rightarrow>
          if c = CHR ''['' then Some (OpenArray, t) else if c = CHR '']'' then Some (CloseArray, t)
          else if c = CHR ''{'' then Some (OpenObject, t) else if c = CHR ''}'' then Some (CloseObject, t)
          else if c = CHR '','' then Some (Comma, t) else if c = CHR '':'' then Some (Colon, t)
          else if c = CHR 0x22 then map_option (\<lambda>(v, u). (Scalar (TextValue v), u)) (lex_string t)
          else if c = CHR ''t'' then literal_word ''true'' (Scalar (BoolValue True)) s
          else if c = CHR ''f'' then literal_word ''false'' (Scalar (BoolValue False)) s
          else if c = CHR ''n'' then literal_word ''null'' (Scalar NullValue) s
          else map_option (\<lambda>(v, u). (Scalar (NumberValue v), u)) (lex_number s))"

lemma lex_string_shorter: "lex_string s = Some (v, t) \<Longrightarrow> length t < length s"
proof (induction "length s" arbitrary: s v rule: less_induct)
  case less
  then obtain c u where s: "s = c # u" by (cases s) (auto simp: lex_string.simps [of "[]"])
  have IH: "lex_string w = Some (x, t) \<Longrightarrow> length w \<le> length u \<Longrightarrow> length t < length s" for w x
    using less.hyps [of w x] s by simp
  show ?case
    using less.prems IH decode_rune_width [of s] unfolding s lex_string.simps [of "c # u"]
    by (auto split: if_split_asm option.splits dest!: lex_escape_shorter) 
qed

lemma lex_number_shorter: "lex_number s = Some (v, t) \<Longrightarrow> length t < length s"
proof -
  have run: "length (dropWhile digit_byte u) \<le> length u" for u by (rule length_dropWhile_le)
  have whole: "lex_integer u = Some (v, t) \<Longrightarrow> length t < length u" for u v t
    using run [of "tl u"] by (auto simp: lex_integer_def split: list.splits if_splits)
  have frac: "lex_fraction u = Some (v, t) \<Longrightarrow> length t \<le> length u" for u v t
    using run [of "tl u"] by (auto simp: lex_fraction_def split: list.splits if_splits)
  have sign: "length (snd (lex_sign u)) \<le> length u" for u
    by (auto simp: lex_sign_def split: list.splits)
  have expo: "lex_exponent u = Some (v, t) \<Longrightarrow> length t \<le> length u" for u v t
    using run [of "snd (lex_sign (tl u))"] sign [of "tl u"]
    by (auto simp: lex_exponent_def split: list.splits if_splits prod.splits)
  have dash: "length (snd (lex_minus s)) \<le> length s"
    by (auto simp: lex_minus_def split: list.splits)
  assume "lex_number s = Some (v, t)"
  with dash show ?thesis
    by (fastforce simp: lex_number_def bind_eq_Some_conv dest!: whole frac expo)
qed

lemma lex_token_shorter: "lex_token s = Some (k, t) \<Longrightarrow> length t < length s"
  unfolding lex_token_def literal_word_def
  by (auto split: list.splits if_splits dest!: lex_string_shorter lex_number_shorter)

function lex_json :: "string \<Rightarrow> token list option" where
  "lex_json s =
     (case s of
        [] \<Rightarrow> Some []
      | c # t \<Rightarrow>
          if json_blank c then lex_json t
          else (case lex_token s of
                  None \<Rightarrow> None
                | Some (k, u) \<Rightarrow> map_option (Cons k) (lex_json u)))"
  by pat_completeness auto
termination
  by (relation "measure length") (auto dest!: lex_token_shorter)

declare lex_json.simps [simp del]

subsection \<open>Documents\<close>

text \<open>
  An open container: the elements or members read so far, the last one first; of an object also the
  key whose value is read. What the machine expects next is one of six things.
\<close>

datatype container = ArrayOf "json_value list" | ObjectOf "(string \<times> json_value) list" string

datatype expected =
    Value_expected
  | Element_or_end
  | Key_or_end "(string \<times> json_value) list"
  | Key_expected "(string \<times> json_value) list"
  | Colon_expected "(string \<times> json_value) list" string
  | After_value json_value

definition maxNestingDepth :: nat where "maxNestingDepth = 10000"

definition begin_value :: "container list \<Rightarrow> token \<Rightarrow> (expected \<times> container list) option" where
  "begin_value st k =
     (case k of
        Scalar v \<Rightarrow> Some (After_value v, st)
      | OpenArray \<Rightarrow> if length st < maxNestingDepth then Some (Element_or_end, ArrayOf [] # st) else None
      | OpenObject \<Rightarrow> if length st < maxNestingDepth then Some (Key_or_end [], st) else None
      | _ \<Rightarrow> None)"

definition begin_key :: "(string \<times> json_value) list \<Rightarrow> container list \<Rightarrow> token \<Rightarrow>
    (expected \<times> container list) option" where
  "begin_key ms st k = (case k of Scalar (TextValue key) \<Rightarrow> Some (Colon_expected ms key, st) | _ \<Rightarrow> None)"

definition end_value :: "json_value \<Rightarrow> container list \<Rightarrow> token \<Rightarrow> (expected \<times> container list) option" where
  "end_value v st k =
     (case st of
        [] \<Rightarrow> None
      | ArrayOf vs # st' \<Rightarrow>
          (case k of Comma \<Rightarrow> Some (Value_expected, ArrayOf (v # vs) # st')
           | CloseArray \<Rightarrow> Some (After_value (ArrayValue (rev (v # vs))), st') | _ \<Rightarrow> None)
      | ObjectOf ms key # st' \<Rightarrow>
          (case k of Comma \<Rightarrow> Some (Key_expected ((key, v) # ms), st')
           | CloseObject \<Rightarrow> Some (After_value (ObjectValue (rev ((key, v) # ms))), st') | _ \<Rightarrow> None))"

definition json_step :: "expected \<Rightarrow> container list \<Rightarrow> token \<Rightarrow> (expected \<times> container list) option" where
  "json_step e st k =
     (case e of
        Value_expected \<Rightarrow> begin_value st k
      | Element_or_end \<Rightarrow>
          if k = CloseArray then Some (After_value (ArrayValue []), tl st) else begin_value st k
      | Key_or_end ms \<Rightarrow>
          if k = CloseObject then Some (After_value (ObjectValue []), st) else begin_key ms st k
      | Key_expected ms \<Rightarrow> begin_key ms st k
      | Colon_expected ms key \<Rightarrow>
          if k = Colon then Some (Value_expected, ObjectOf ms key # st) else None
      | After_value v \<Rightarrow> end_value v st k)"

fun read_tokens :: "expected \<Rightarrow> container list \<Rightarrow> token list \<Rightarrow> json_value option" where
  "read_tokens e st [] = (case e of After_value v \<Rightarrow> if st = [] then Some v else None | _ \<Rightarrow> None)"
| "read_tokens e st (k # ks) =
     (case json_step e st k of None \<Rightarrow> None | Some (e', st') \<Rightarrow> read_tokens e' st' ks)"

definition parse_json :: "string \<Rightarrow> json_value option" where
  "parse_json s = (case lex_json s of None \<Rightarrow> None | Some ks \<Rightarrow> read_tokens Value_expected [] ks)"

end
