(* ===== verification/JsonText.thy ===== *)
theory JsonText
  imports JsonSyntax
begin

text \<open>
  Writing JSON: a value as \<open>json.Marshal\<close> prints it, without blanks and with the escapes of
  \<open>JsonStrings\<close>, and the round trip: what is written is parsed back to the same value.
\<close>

subsection \<open>The writer\<close>

fun separated :: "token list list \<Rightarrow> token list" where
  "separated [] = []"
| "separated [x] = x"
| "separated (x # xs) = x @ Comma # separated xs"

lemma size_member: "m \<in> set ms \<Longrightarrow> size (snd m) < Suc (size_list (size_prod (\<lambda>_. 0) size) ms)"
  by (induction ms) auto

fun tokens_of :: "json_value \<Rightarrow> token list" where
  "tokens_of (ArrayValue vs) = OpenArray # separated (map tokens_of vs) @ [CloseArray]"
| "tokens_of (ObjectValue ms) = OpenObject # separated
     (map (\<lambda>m. [Scalar (TextValue (fst m)), Colon] @ tokens_of (snd m)) ms) @ [CloseObject]"
| "tokens_of v = [Scalar v]"

fun token_text :: "token \<Rightarrow> string" where
  "token_text OpenArray = ''[''"
| "token_text CloseArray = '']''"
| "token_text OpenObject = ''{''"
| "token_text CloseObject = ''}''"
| "token_text Comma = '',''"
| "token_text Colon = '':''"
| "token_text (Scalar v) =
     (case v of
        NullValue \<Rightarrow> ''null''
      | BoolValue b \<Rightarrow> if b then ''true'' else ''false''
      | NumberValue n \<Rightarrow> n
      | TextValue s \<Rightarrow> json_string s
      | _ \<Rightarrow> [])"

definition write_json :: "json_value \<Rightarrow> string" where
  "write_json v = concat (map token_text (tokens_of v))"

text \<open>Nested containers, and the values a writer may be given.\<close>

fun depth :: "json_value \<Rightarrow> nat" where
  "depth (ArrayValue vs) = Suc (fold max (map depth vs) 0)"
| "depth (ObjectValue ms) = Suc (fold max (map (\<lambda>m. depth (snd m)) ms) 0)"
| "depth v = 0"

fun writable :: "json_value \<Rightarrow> bool" where
  "writable (ArrayValue vs) \<longleftrightarrow> (\<forall>v\<in>set vs. writable v)"
| "writable (ObjectValue ms) \<longleftrightarrow> (\<forall>m\<in>set ms. ValidString (fst m) \<and> writable (snd m))"
| "writable (NumberValue n) \<longleftrightarrow> lex_number n = Some (n, [])"
| "writable (TextValue s) \<longleftrightarrow> ValidString s"
| "writable v \<longleftrightarrow> True"

subsection \<open>Tokens are read back\<close>

lemma fold_max_le: "fold max ns (a::nat) \<le> b \<longleftrightarrow> a \<le> b \<and> (\<forall>n\<in>set ns. n \<le> b)"
  by (induction ns arbitrary: a) auto

lemma fold_max_add: "v \<in> set vs \<Longrightarrow> Suc (fold max (map f vs) 0) + k \<le> (n::nat) \<Longrightarrow> f v + Suc k \<le> n"
  using fold_max_le [of "map f vs" 0 "fold max (map f vs) 0"] by fastforce

lemma tokens_of_start: "\<exists>k ks. tokens_of v = k # ks \<and> k \<noteq> CloseArray \<and> k \<noteq> CloseObject"
  by (cases v) auto

lemma first_element:
  "read_tokens Element_or_end st (tokens_of v @ ks) = read_tokens Value_expected st (tokens_of v @ ks)"
  using tokens_of_start [of v] by (auto simp: json_step_def)

lemma elements_read:
  assumes "\<And>v st ks. v \<in> set vs \<Longrightarrow> length st = n \<Longrightarrow>
      read_tokens Value_expected st (tokens_of v @ ks) = read_tokens (After_value v) st ks"
    and "vs \<noteq> []" and "Suc (length st) = n"
  shows "read_tokens Value_expected (ArrayOf acc # st) (separated (map tokens_of vs) @ CloseArray # ks) =
    read_tokens (After_value (ArrayValue (rev acc @ vs))) st ks"
  using assms
proof (induction vs arbitrary: acc rule: induct_list012)
  case (2 v)
  then show ?case by (simp add: json_step_def end_value_def)
next
  case (3 v w vs)
  have "read_tokens Value_expected (ArrayOf (v # acc) # st) (separated (map tokens_of (w # vs)) @ CloseArray # ks) =
      read_tokens (After_value (ArrayValue (rev (v # acc) @ w # vs))) st ks"
    by (rule "3.IH"(2)) (use 3 in auto)
  with 3 show ?case by (simp add: json_step_def end_value_def)
qed simp

lemma members_read:
  assumes "\<And>m st ks. m \<in> set ms \<Longrightarrow> length st = n \<Longrightarrow>
      read_tokens Value_expected st (tokens_of (snd m) @ ks) = read_tokens (After_value (snd m)) st ks"
    and "ms \<noteq> []" and "Suc (length st) = n"
    and "e = (if acc = [] then Key_or_end [] else Key_expected acc)"
  shows "read_tokens e st
      (separated (map (\<lambda>m. [Scalar (TextValue (fst m)), Colon] @ tokens_of (snd m)) ms) @ CloseObject # ks) =
    read_tokens (After_value (ObjectValue (rev acc @ ms))) st ks"
  using assms
proof (induction ms arbitrary: e acc rule: induct_list012)
  case (2 m)
  then show ?case by (simp add: json_step_def end_value_def begin_key_def)
next
  case (3 m m' ms)
  have "read_tokens (Key_expected (m # acc)) st
      (separated (map (\<lambda>m. [Scalar (TextValue (fst m)), Colon] @ tokens_of (snd m)) (m' # ms)) @ CloseObject # ks) =
      read_tokens (After_value (ObjectValue (rev (m # acc) @ m' # ms))) st ks"
    by (rule "3.IH"(2)) (use 3 in auto)
  with 3 show ?case
    by (cases "acc = []") (simp_all add: json_step_def end_value_def begin_key_def)
qed simp

lemma value_read:
  "depth v + length st \<le> maxNestingDepth \<Longrightarrow>
   read_tokens Value_expected st (tokens_of v @ ks) = read_tokens (After_value v) st ks"
proof (induction v arbitrary: st ks rule: tokens_of.induct)
  case (1 vs)
  show ?case
  proof (cases "vs = []")
    case False
    then obtain v ws where vs: "vs = v # ws" by (cases vs) auto
    have first: "read_tokens Element_or_end (ArrayOf [] # st) (separated (map tokens_of vs) @ CloseArray # ks) =
        read_tokens Value_expected (ArrayOf [] # st) (separated (map tokens_of vs) @ CloseArray # ks)"
      using first_element [of _ v] unfolding vs by (cases ws) auto
    have "read_tokens Value_expected (ArrayOf [] # st) (separated (map tokens_of vs) @ CloseArray # ks) =
        read_tokens (After_value (ArrayValue (rev [] @ vs))) st ks"
      by (rule elements_read [where n = "Suc (length st)"])
        (use 1 False fold_max_add [where f = depth and vs = vs] in auto)
    with first 1 show ?thesis by (simp add: json_step_def begin_value_def)
  qed (use 1 in \<open>simp add: json_step_def begin_value_def\<close>)
next
  case (2 ms)
  show ?case
  proof (cases "ms = []")
    case False
    have "read_tokens (Key_or_end []) st (separated (map (\<lambda>m. [Scalar (TextValue (fst m)), Colon] @
          tokens_of (snd m)) ms) @ CloseObject # ks) =
        read_tokens (After_value (ObjectValue (rev [] @ ms))) st ks"
      by (rule members_read [where n = "Suc (length st)"])
        (use 2 False fold_max_add [where f = "\<lambda>m. depth (snd m)" and vs = ms] in auto)
    with 2 show ?thesis by (simp add: json_step_def begin_value_def)
  qed (use 2 in \<open>simp add: json_step_def begin_value_def\<close>)
qed (simp_all add: json_step_def begin_value_def)

subsection \<open>Text is cut into its tokens\<close>

text \<open>A valid rune is written back as the bytes it was decoded from.\<close>

lemma base64_div: "(a :: nat) < 64 \<Longrightarrow> (x * 64 + a) div 64 = x \<and> (x * 64 + a) mod 64 = a"
  by simp

lemma byte_char: "byte c = n \<Longrightarrow> c = char_of n"
  by (metis char_of_char)

lemma second_ok_bounds:
  assumes "second_ok3 b0 b1"
  shows "128 \<le> b1" "b1 \<le> 191" "b0 = 224 \<Longrightarrow> 160 \<le> b1" "b0 = 237 \<Longrightarrow> b1 \<le> 159"
  using assms by (auto simp: second_ok3_def cont_byte_def split: if_split_asm)

lemma second_ok4_bounds:
  assumes "second_ok4 b0 b1"
  shows "128 \<le> b1" "b1 \<le> 191" "b0 = 240 \<Longrightarrow> 144 \<le> b1" "b0 = 244 \<Longrightarrow> b1 \<le> 143"
  using assms by (auto simp: second_ok4_def cont_byte_def split: if_split_asm)

lemma encode_two:
  assumes "194 \<le> b0" "b0 \<le> 223" "cont_byte b1"
  shows "rune_bytes ((b0 - 192) * 64 + (b1 - 128)) = [b0, b1]"
proof -
  obtain x y where "b0 = 192 + x" "b1 = 128 + y" "2 \<le> x" "x < 32" "y < 64"
    using assms by (auto simp: cont_byte_def le_iff_add)
  then show ?thesis by (auto simp: rune_bytes_def)
qed

lemma encode_three:
  assumes "224 \<le> b0" "b0 \<le> 239" "second_ok3 b0 b1" "cont_byte b2"
  shows "rune_bytes ((b0 - 224) * 4096 + (b1 - 128) * 64 + (b2 - 128)) = [b0, b1, b2]"
proof -
  obtain x y z where xyz: "b0 = 224 + x" "b1 = 128 + y" "b2 = 128 + z" "x < 16" "y < 64" "z < 64"
      "x = 0 \<Longrightarrow> 32 \<le> y" "x = 13 \<Longrightarrow> y \<le> 31"
    using assms second_ok_bounds [OF assms(3)]
    by (auto simp: cont_byte_def le_iff_add)
  define r where "r = x * 4096 + y * 64 + z"
  have "2048 \<le> r" using xyz unfolding r_def by (cases "x = 0") auto
  moreover have "\<not> (55296 \<le> r \<and> r \<le> 57343)"
  proof (cases "x = 13")
    case False
    then consider "x \<le> 12" | "14 \<le> x" by linarith
    then show ?thesis by cases (use xyz in \<open>auto simp: r_def\<close>)
  qed (use xyz in \<open>auto simp: r_def\<close>)
  moreover have "r < 65536" using xyz unfolding r_def by auto
  moreover have "r = (x * 64 + y) * 64 + z" by (simp add: r_def)
  then have "r div 64 = x * 64 + y" "r mod 64 = z"
    using base64_div [OF xyz(6), of "x * 64 + y"] by simp_all
  moreover have "r div 4096 = r div 64 div 64" by (simp add: div_mult2_eq)
  ultimately have "r div 4096 = x" "r div 64 mod 64 = y" "r mod 64 = z" "2048 \<le> r"
      "\<not> (55296 \<le> r \<and> r \<le> 57343)" "r < 65536"
    using base64_div [OF xyz(5), of x] by simp_all
  moreover have "(b0 - 224) * 4096 + (b1 - 128) * 64 + (b2 - 128) = r" by (simp add: xyz(1-3) r_def)
  moreover have "rune_bytes r = [224 + r div 4096, 128 + r div 64 mod 64, 128 + r mod 64]"
  proof -
    have "\<not> r < 128" "\<not> r < 2048" "\<not> (r > 1114111 \<or> (55296 \<le> r \<and> r \<le> 57343))" "r < 65536"
      using calculation(4-6) by linarith+
    then show ?thesis by (simp only: rune_bytes_def if_False if_True)
  qed
  ultimately show ?thesis by (simp only: xyz(1-3))
qed

lemma encode_four:
  assumes "240 \<le> b0" "b0 \<le> 244" "second_ok4 b0 b1" "cont_byte b2" "cont_byte b3"
  shows "rune_bytes ((b0 - 240) * 262144 + (b1 - 128) * 4096 + (b2 - 128) * 64 + (b3 - 128)) =
    [b0, b1, b2, b3]"
proof -
  have four: "b0 - 240 = 4 \<Longrightarrow> b1 \<le> 143"
    using assms(1) second_ok4_bounds(4) [OF assms(3)] by linarith
  obtain w x y z where wxyz: "b0 = 240 + w" "b1 = 128 + x" "b2 = 128 + y" "b3 = 128 + z"
      "w \<le> 4" "x < 64" "y < 64" "z < 64" "w = 0 \<Longrightarrow> 16 \<le> x" "w = 4 \<Longrightarrow> x \<le> 15"
    by (rule that [of "b0 - 240" "b1 - 128" "b2 - 128" "b3 - 128"])
      (use assms second_ok4_bounds [OF assms(3)] four in \<open>auto simp: cont_byte_def\<close>)
  define r where "r = w * 262144 + x * 4096 + y * 64 + z"
  have "65536 \<le> r" using wxyz unfolding r_def by (cases "w = 0") auto
  moreover have "r \<le> 1114111" using wxyz unfolding r_def by (cases "w = 4") auto
  moreover have "r = ((w * 64 + x) * 64 + y) * 64 + z" by (simp add: r_def)
  then have "r div 64 = (w * 64 + x) * 64 + y" "r mod 64 = z"
    using base64_div [OF wxyz(8), of "(w * 64 + x) * 64 + y"] by simp_all
  moreover have "r div 4096 = r div 64 div 64" "r div 262144 = r div 64 div 64 div 64"
    by (simp_all add: div_mult2_eq)
  ultimately have "r div 262144 = w" "r div 4096 mod 64 = x" "r div 64 mod 64 = y" "r mod 64 = z"
      "65536 \<le> r" "r \<le> 1114111"
    using base64_div [OF wxyz(6), of w] base64_div [OF wxyz(7), of "w * 64 + x"] by simp_all
  moreover have "(b0 - 240) * 262144 + (b1 - 128) * 4096 + (b2 - 128) * 64 + (b3 - 128) = r"
    by (simp add: wxyz(1-4) r_def)
  moreover have "rune_bytes r = [240 + r div 262144, 128 + r div 4096 mod 64, 128 + r div 64 mod 64, 128 + r mod 64]"
  proof -
    have "\<not> r < 128" "\<not> r < 2048" "\<not> (r > 1114111 \<or> (55296 \<le> r \<and> r \<le> 57343))" "\<not> r < 65536"
      using calculation(5,6) by linarith+
    then show ?thesis by (simp only: rune_bytes_def if_False)
  qed
  ultimately show ?thesis by (simp only: wxyz(1-4))
qed

lemma encode_decoded:
  assumes "decode_rune s = (r, n)" and "(r, n) \<noteq> (rune_error, 1)" and "s \<noteq> []"
  shows "encode_rune r = take n s \<and> (\<forall>x. decode_rune (take n s @ x) = (r, n)) \<and> n \<le> length s"
proof -
  obtain c t where s: "s = c # t" using assms(3) by (cases s) auto
  have chars: "map char_of (map of_char cs :: nat list) = cs" for cs :: string
    by (simp add: comp_def)
  consider "byte c < 128" | "194 \<le> byte c" "byte c \<le> 223" | "224 \<le> byte c" "byte c \<le> 239"
    | "240 \<le> byte c" "byte c \<le> 244"
    using assms unfolding s by (auto simp: decode_rune_def split: if_split_asm)
  then show ?thesis
  proof cases
    case 1
    then have r: "r = byte c" "n = 1" using assms(1) by (simp_all add: s decode_rune_ascii)
    with 1 show ?thesis by (simp add: s decode_rune_ascii encode_rune_def rune_bytes_def)
  next
    case 2
    then obtain a u where t: "t = a # u" and ok: "cont_byte (byte a)"
      and r: "r = (byte c - 192) * 64 + (byte a - 128)" "n = 2"
      using assms unfolding s by (cases t) (auto simp: decode_rune_def split: if_split_asm)
    show ?thesis using 2 ok encode_two [OF 2 ok] by (simp add: s t r decode_rune_def encode_rune_def)
  next
    case 3
    then obtain a b u where t: "t = a # b # u" and ok: "second_ok3 (byte c) (byte a)" "cont_byte (byte b)"
      and r: "r = (byte c - 224) * 4096 + (byte a - 128) * 64 + (byte b - 128)" "n = 3"
      using assms unfolding s
      by (cases t rule: remdups_adj.cases) (auto simp: decode_rune_def split: if_split_asm)
    show ?thesis using 3 ok encode_three [OF 3 ok]
      by (simp add: s t r decode_rune_def encode_rune_def)
  next
    case 4
    have "\<not> length t < 3"
      using assms 4 unfolding s by (auto simp: decode_rune_def split: list.splits if_split_asm)
    then obtain a b d u where t: "t = a # b # d # u"
      by (metis One_nat_def Suc_less_eq length_Cons less_Suc_eq_0_disj list.exhaust list.size(3) numeral_3_eq_3 zero_less_Suc)
    then have ok: "second_ok4 (byte c) (byte a)" "cont_byte (byte b)" "cont_byte (byte d)"
      and r: "r = (byte c - 240) * 262144 + (byte a - 128) * 4096 + (byte b - 128) * 64 + (byte d - 128)" "n = 4"
      using assms 4 unfolding s by (auto simp: decode_rune_def split: if_split_asm)
    show ?thesis using 4 ok encode_four [OF 4 ok]
      by (simp add: s t r decode_rune_def encode_rune_def)
  qed
qed

text \<open>One step of the string reader for what the writer puts for one rune.\<close>

lemma hex_digit_of_digit: "n < 16 \<Longrightarrow> hex_digit_of (hex_digit n) = Some n"
  by (auto simp: hex_digit_of_def hex_digit_def)

lemma lex_string_quote [simp]: "lex_string (CHR 0x22 # s) = Some ([], s)"
  by (simp add: lex_string.simps [of "CHR 0x22 # s"])

lemma lex_string_escape:
  "lex_escape t = Some (x, u) \<Longrightarrow>
   lex_string (CHR 0x5C # t) = map_option (\<lambda>(v, w). (x @ v, w)) (lex_string u)"
  by (simp add: lex_string.simps [of "CHR 0x5C # t"])

lemma lex_string_plain:
  "32 \<le> byte c \<Longrightarrow> byte c < 128 \<Longrightarrow> c \<noteq> CHR 0x22 \<Longrightarrow> c \<noteq> CHR 0x5C \<Longrightarrow>
   lex_string (c # t) = map_option (\<lambda>(v, w). (c # v, w)) (lex_string t)"
  by (simp add: lex_string.simps [of "c # t"])

lemma small_unicode_escape: "r < 55296 \<Longrightarrow> unicode_escape r s = (r, s)"
  by (simp add: unicode_escape_def high_surrogate_def)

lemma lex_string_ascii:
  assumes c: "byte c < 128"
  shows "lex_string (json_escape c @ s) = map_option (\<lambda>(v, w). (c # v, w)) (lex_string s)"
proof -
  show ?thesis
  proof (cases "c = CHR 0x5C \<or> c = CHR 0x22 \<or> c = CHR 0x08 \<or> c = CHR 0x0C \<or> c = CHR 0x0A \<or> c = CHR 0x0D \<or> c = CHR 0x09")
    case False
    then have ne: "c \<noteq> CHR 0x5C" "c \<noteq> CHR 0x22" "c \<noteq> CHR 0x08" "c \<noteq> CHR 0x0C" "c \<noteq> CHR 0x0A" "c \<noteq> CHR 0x0D" "c \<noteq> CHR 0x09"
      by simp_all
    show ?thesis
    proof (cases "byte c < 32 \<or> c = CHR ''<'' \<or> c = CHR ''>'' \<or> c = CHR ''&''")
      case True
      have esc: "json_escape c = CHR 0x5C # ''u00'' @ [hex_digit (byte c div 16), hex_digit (byte c mod 16)]"
        using True by (simp add: json_escape_def ne)
      have zero: "hex_digit_of CHR ''0'' = Some 0" by (simp add: hex_digit_of_def)
      have "byte c div 16 < 16" "byte c mod 16 < 16" using c by simp_all
      then have "getu4 (''00'' @ [hex_digit (byte c div 16), hex_digit (byte c mod 16)] @ s) = Some (byte c, s)"
        by (simp add: hex_digit_of_digit zero)
      moreover have "encode_rune (byte c) = [c]" using c by (simp add: encode_rune_def rune_bytes_def)
      ultimately have "lex_escape (''u00'' @ [hex_digit (byte c div 16), hex_digit (byte c mod 16)] @ s) = Some ([c], s)"
        using c by (simp add: lex_escape_def small_unicode_escape)
      then show ?thesis using lex_string_escape [of _ "[c]" s] by (simp add: esc)
    qed (use c ne in \<open>simp add: json_escape_def lex_string_plain\<close>)
  qed (elim disjE; simp add: json_escape_def lex_escape_def lex_string_escape)
qed

lemma lex_string_separator:
  assumes "r = 8232 \<or> r = 8233"
  shows "lex_string ([CHR 0x5C] @ ''u202'' @ [hex_digit (r mod 16)] @ s) =
    map_option (\<lambda>(v, w). (encode_rune r @ v, w)) (lex_string s)"
proof -
  have "lex_escape (''u202'' @ [hex_digit (r mod 16)] @ s) = Some (encode_rune r, s)"
    using assms by (auto simp: lex_escape_def hex_digit_def hex_digit_of_def small_unicode_escape)
  then show ?thesis by (simp add: lex_string_escape)
qed

lemma lex_string_rune:
  assumes high: "\<not> byte c < 128" and d: "decode_rune (c # t) = (r, n)" "(r, n) \<noteq> (rune_error, 1)"
  shows "lex_string (take n (c # t) @ s) =
    map_option (\<lambda>(v, w). (take n (c # t) @ v, w)) (lex_string s)"
proof -
  have dec: "encode_rune r = take n (c # t)" "decode_rune (take n (c # t) @ s) = (r, n)"
    using encode_decoded [OF d] by auto
  have n: "0 < n" "length (take n (c # t)) = n"
    using decode_rune_pos [OF d(1)] encode_decoded [OF d] by simp_all
  obtain u where u: "take n (c # t) = c # u" using n(1) by (cases n) auto
  have "c \<noteq> CHR 0x22" "c \<noteq> CHR 0x5C" using high by auto
  then have "lex_string (c # u @ s) = map_option (\<lambda>(v, w). (encode_rune r @ v, w)) (lex_string (drop n (c # u @ s)))"
    using high dec(2) u by (simp add: lex_string.simps [of "c # u @ s"])
  moreover have "drop n (c # u @ s) = s" using n(2) u by (metis append_Cons append_eq_conv_conj)
  ultimately show ?thesis using dec(1) u by simp
qed

lemma lex_string_body:
  "ValidString s \<Longrightarrow> lex_string (json_body s @ CHR 0x22 # x) = Some (s, x)"
proof (induction s rule: rune_steps.induct)
  case (1 s)
  show ?case
  proof (cases s)
    case (Cons c t)
    obtain r n where d: "decode_rune (c # t) = (r, n)" by fastforce
    have valid: "(r, n) \<noteq> (rune_error, 1)" "ValidString (drop n (c # t))"
      using ValidString_step [OF 1(2)] Cons d by auto
    have IH: "lex_string (json_body (drop n (c # t)) @ CHR 0x22 # x) = Some (drop n (c # t), x)"
      using 1(1) Cons d valid by simp
    show ?thesis
    proof (cases "byte c < 128")
      case True
      with d have "n = 1" by (simp add: decode_rune_ascii)
      with IH True Cons show ?thesis by (simp add: json_body_ascii lex_string_ascii)
    next
      case high: False
      note body = json_body_high [OF high d]
      show ?thesis
      proof (cases "r = 8232 \<or> r = 8233")
        case True
        have "n = 3" "take 3 (c # t) = encode_rune r" using separator_bytes [OF d True] by simp_all
        then have "s = encode_rune r @ drop n (c # t)" using Cons by (metis append_take_drop_id)
        moreover have "json_body s = [CHR 0x5C] @ ''u202'' @ [hex_digit (r mod 16)] @ json_body (drop n (c # t))"
          using True valid(1) body Cons by auto
        ultimately show ?thesis using IH lex_string_separator [OF True] by simp
      next
        case False
        then have "json_body s = take n (c # t) @ json_body (drop n (c # t))"
          using body valid(1) Cons by auto
        then show ?thesis using IH lex_string_rune [OF high d valid(1)] Cons by simp
      qed
    qed
  qed simp
qed

text \<open>A number ends where no digit, point or exponent follows.\<close>

definition number_stops :: "string \<Rightarrow> bool" where
  "number_stops s \<longleftrightarrow>
     (case s of [] \<Rightarrow> True | c # t \<Rightarrow> \<not> digit_byte c \<and> c \<noteq> CHR ''.'' \<and> c \<noteq> CHR ''e'' \<and> c \<noteq> CHR ''E'')"

lemma digits_stop:
  "number_stops x \<Longrightarrow>
   takeWhile digit_byte (s @ x) = takeWhile digit_byte s \<and>
   dropWhile digit_byte (s @ x) = dropWhile digit_byte s @ x"
  by (induction s) (auto simp: number_stops_def split: list.splits)

lemma lex_number_append:
  assumes x: "number_stops x" and n: "lex_number s = Some (v, t)"
  shows "lex_number (s @ x) = Some (v, t @ x)"
proof -
  have whole: "lex_integer u = Some (v, t) \<Longrightarrow> lex_integer (u @ x) = Some (v, t @ x)" for u v t
    using digits_stop [OF x, of "tl u"] by (auto simp: lex_integer_def split: list.splits if_splits)
  have frac: "lex_fraction u = Some (v, t) \<Longrightarrow> lex_fraction (u @ x) = Some (v, t @ x)" for u v t
    using digits_stop [OF x, of "tl u"] x
    by (cases u) (auto simp: lex_fraction_def number_stops_def split: list.splits if_splits)
  have sign: "u \<noteq> [] \<Longrightarrow> lex_sign (u @ x) = (fst (lex_sign u), snd (lex_sign u) @ x)" for u
    by (cases u) (auto simp: lex_sign_def)
  have expo: "lex_exponent (u @ x) = Some (v, t @ x)" if u: "lex_exponent u = Some (v, t)" for u v t
  proof (cases u)
    case Nil
    with u x show ?thesis by (auto simp: lex_exponent_def number_stops_def split: list.splits)
  next
    case (Cons c w)
    show ?thesis
    proof (cases "c = CHR ''e'' \<or> c = CHR ''E''")
      case True
      obtain sg w' where sg: "lex_sign w = (sg, w')" by fastforce
      have w': "takeWhile digit_byte w' \<noteq> []" "v = c # sg @ takeWhile digit_byte w'" "t = dropWhile digit_byte w'"
        using u Cons True sg by (simp_all add: lex_exponent_def split: if_split_asm)
      then have "w \<noteq> []" using sg by (auto simp: lex_sign_def)
      then have "lex_sign (w @ x) = (sg, w' @ x)" using sign [of w] sg by simp
      then show ?thesis using w' digits_stop [OF x, of w'] Cons True by (simp add: lex_exponent_def)
    qed (use u Cons in \<open>auto simp: lex_exponent_def\<close>)
  qed
  have dash: "s \<noteq> [] \<Longrightarrow> lex_minus (s @ x) = (fst (lex_minus s), snd (lex_minus s) @ x)"
    by (cases s) (auto simp: lex_minus_def)
  obtain w a f b e where parts: "lex_integer (snd (lex_minus s)) = Some (w, a)" "lex_fraction a = Some (f, b)"
      "lex_exponent b = Some (e, t)" "v = fst (lex_minus s) @ w @ f @ e"
    using n by (auto simp: lex_number_def bind_eq_Some_conv)
  then have "s \<noteq> []" by (auto simp: lex_minus_def lex_integer_def)
  then show ?thesis
    using whole [OF parts(1)] frac [OF parts(2)] expo [OF parts(3)] dash parts(4)
    by (simp add: lex_number_def)
qed

fun token_ok :: "token \<Rightarrow> bool" where
  "token_ok (Scalar v) \<longleftrightarrow>
     (case v of NumberValue n \<Rightarrow> lex_number n = Some (n, []) | TextValue s \<Rightarrow> ValidString s
      | ArrayValue _ \<Rightarrow> False | ObjectValue _ \<Rightarrow> False | _ \<Rightarrow> True)"
| "token_ok _ \<longleftrightarrow> True"

definition scalar :: "token \<Rightarrow> bool" where
  "scalar k \<longleftrightarrow> (case k of Scalar _ \<Rightarrow> True | _ \<Rightarrow> False)"

text \<open>No two scalars stand next to each other.\<close>

fun apart :: "token list \<Rightarrow> bool" where
  "apart (k # k' # ks) \<longleftrightarrow> (scalar k \<longrightarrow> \<not> scalar k') \<and> apart (k' # ks)"
| "apart _ \<longleftrightarrow> True"

lemma lex_number_start:
  "lex_number (c # s) = Some r \<Longrightarrow> c = CHR ''-'' \<or> digit_byte c"
  by (auto simp: lex_number_def lex_minus_def lex_integer_def bind_eq_Some_conv digit_byte_def
      split: if_splits)

lemma lex_token_text:
  assumes "token_ok k" and "scalar k \<Longrightarrow> number_stops x"
  shows "lex_token (token_text k @ x) = Some (k, x) \<and>
    (\<exists>c t. token_text k @ x = c # t \<and> \<not> json_blank c)"
proof (cases k)
  case (Scalar v)
  show ?thesis
  proof (cases v)
    case (NumberValue n)
    have n: "lex_number n = Some (n, [])" using assms(1) Scalar NumberValue by simp
    then obtain c t where c: "n = c # t"
      by (cases n) (auto simp: lex_number_def lex_minus_def lex_integer_def)
    have "c = CHR ''-'' \<or> digit_byte c" using n c lex_number_start by auto
    then have ne: "c \<noteq> CHR ''[''" "c \<noteq> CHR '']''" "c \<noteq> CHR ''{''" "c \<noteq> CHR ''}''" "c \<noteq> CHR '',''"
        "c \<noteq> CHR '':''" "c \<noteq> CHR 0x22" "c \<noteq> CHR ''t''" "c \<noteq> CHR ''f''" "c \<noteq> CHR ''n''" "\<not> json_blank c"
      by (auto simp: digit_byte_def json_blank_def)
    have "lex_number (n @ x) = Some (n, x)"
      using lex_number_append [OF _ n, of x] assms(2) Scalar by (simp add: scalar_def)
    then show ?thesis using ne c Scalar NumberValue by (simp add: lex_token_def)
  next
    case (TextValue s)
    then show ?thesis
      using assms(1) Scalar by (simp add: lex_token_def json_string_def lex_string_body json_blank_def)
  qed (use assms Scalar in \<open>auto simp: lex_token_def literal_word_def json_blank_def\<close>)
qed (simp_all add: lex_token_def json_blank_def)

lemma lex_tokens:
  "list_all token_ok ks \<Longrightarrow> apart ks \<Longrightarrow> lex_json (concat (map token_text ks)) = Some ks"
proof (induction ks)
  case (Cons k ks)
  have stops: "scalar k \<Longrightarrow> number_stops (concat (map token_text ks))"
    using Cons.prems
    by (cases ks; cases "hd ks") (auto simp: number_stops_def scalar_def digit_byte_def)
  have tok: "token_ok k" using Cons.prems by simp
  obtain c t where c: "token_text k @ concat (map token_text ks) = c # t" "\<not> json_blank c"
    using lex_token_text [OF tok stops] by blast
  have "apart ks" using Cons.prems(2) by (cases ks) auto
  then show ?case
    using lex_token_text [OF tok stops] c Cons
    by (simp add: lex_json.simps [of "c # t"])
qed (simp add: lex_json.simps)

lemma apart_append:
  "apart (ks @ ls) \<longleftrightarrow>
   apart ks \<and> apart ls \<and> (ks \<noteq> [] \<and> ls \<noteq> [] \<longrightarrow> scalar (last ks) \<longrightarrow> \<not> scalar (hd ls))"
  by (induction ks rule: apart.induct) (cases ls; auto)+

lemma apart_punctuation: "\<not> scalar k \<Longrightarrow> apart (k # ks) \<longleftrightarrow> apart ks"
  by (cases ks) auto

lemma punctuation [simp]: "\<not> scalar OpenArray" "\<not> scalar CloseArray" "\<not> scalar OpenObject"
  "\<not> scalar CloseObject" "\<not> scalar Comma" "\<not> scalar Colon" "scalar (Scalar v)"
  by (simp_all add: scalar_def)

lemma apart_separated:
  "(\<And>x. x \<in> set xs \<Longrightarrow> apart x) \<Longrightarrow> apart (separated xs)"
  by (induction xs rule: separated.induct) 
    (auto simp: apart_append apart_punctuation)

lemma set_separated: "set (separated xs) \<subseteq> insert Comma (\<Union>x\<in>set xs. set x)"
  by (induction xs rule: separated.induct) auto

lemma tokens_of_ok: "writable v \<Longrightarrow> list_all token_ok (tokens_of v) \<and> apart (tokens_of v)"
proof (induction v rule: tokens_of.induct)
  case (1 vs)
  then have "apart (separated (map tokens_of vs))" by (auto intro!: apart_separated)
  moreover have "list_all token_ok (separated (map tokens_of vs))"
    using 1 set_separated [of "map tokens_of vs"] by (fastforce simp: list_all_iff)
  ultimately show ?case by (simp add: apart_append apart_punctuation)
next
  case (2 ms)
  let ?ts = "\<lambda>m. [Scalar (TextValue (fst m)), Colon] @ tokens_of (snd m)"
  have member: "list_all token_ok (?ts m) \<and> apart (?ts m)" if "m \<in> set ms" for m
    using 2 that by (auto simp: apart_punctuation)
  then have "apart (separated (map ?ts ms))" by (intro apart_separated) auto
  moreover have "list_all token_ok (separated (map ?ts ms))"
    using member set_separated [of "map ?ts ms"] by (fastforce simp: list_all_iff)
  ultimately show ?case by (simp add: apart_append apart_punctuation)
qed auto

theorem write_parse:
  assumes "writable v" and "depth v \<le> maxNestingDepth"
  shows "parse_json (write_json v) = Some v"
proof -
  have "lex_json (write_json v) = Some (tokens_of v)"
    using lex_tokens tokens_of_ok [OF assms(1)] by (simp add: write_json_def)
  moreover have "read_tokens Value_expected [] (tokens_of v) = Some v"
    using value_read [of v "[]" "[]"] assms(2) by simp
  ultimately show ?thesis by (simp add: parse_json_def)
qed

end
