(* ===== verification/JsonNumbers.thy ===== *)
theory JsonNumbers
  imports JsonSyntax
begin

text \<open>
  What the sources do with the number literals of a JSON document: \<open>strconv.ParseInt\<close> and
  \<open>ParseUint\<close> in base 10, and \<open>float64\<close>. A finite \<open>float64\<close> is its sign, a mantissa below \<open>2^53\<close>
  and a binary exponent, the canonical ones of IEEE 754; reading a literal and multiplying round the
  exact value to the nearest \<open>float64\<close>, ties to even. Its text is the shortest decimal that reads
  back as the same number, as \<open>strconv\<close> and \<open>fmt\<close> print it.
\<close>

subsection \<open>Integers\<close>

definition ParseUint10 :: "string \<Rightarrow> nat option" where
  "ParseUint10 s =
     (if s \<noteq> [] \<and> list_all digit_byte s \<and> decimal_value 0 s < 2 ^ 64 then Some (decimal_value 0 s) else None)"

definition ParseInt10 :: "string \<Rightarrow> int option" where
  "ParseInt10 s =
     (case lex_sign s of (sign, ds) \<Rightarrow>
        if ds = [] \<or> \<not> list_all digit_byte ds then None
        else let n = int (decimal_value 0 ds); v = (if sign = ''-'' then - n else n)
             in if - (2 ^ 63) \<le> v \<and> v < 2 ^ 63 then Some v else None)"

subsection \<open>Floating point\<close>

datatype float64 = Float64 (f64_negative: bool) (f64_mantissa: nat) (f64_exponent: int)

fun bit_length :: "nat \<Rightarrow> nat" where
  "bit_length n = (if n = 0 then 0 else Suc (bit_length (n div 2)))"

definition half_even :: "nat \<Rightarrow> nat \<Rightarrow> nat" where
  "half_even p q =
     (if 2 * (p mod q) < q \<or> 2 * (p mod q) = q \<and> even (p div q) then p div q else p div q + 1)"

text \<open>The ratio \<open>p / q\<close> divided by \<open>2^e\<close>, as a ratio.\<close>

definition scale_ratio :: "nat \<Rightarrow> nat \<Rightarrow> int \<Rightarrow> nat \<times> nat" where
  "scale_ratio p q e = (if 0 \<le> e then (p, q * 2 ^ nat e) else (p * 2 ^ nat (- e), q))"

definition float_exponent :: "nat \<Rightarrow> nat \<Rightarrow> int" where
  "float_exponent p q =
     (let e = int (bit_length p) - int (bit_length q) - 53; (n, d) = scale_ratio p q e
      in max (-1074) (if 2 ^ 53 \<le> n div d then e + 1 else e))"

text \<open>The nearest mantissa and exponent; none when the value is beyond the largest \<open>float64\<close>.\<close>

definition round_ratio :: "nat \<Rightarrow> nat \<Rightarrow> (nat \<times> int) option" where
  "round_ratio p q =
     (if p = 0 then Some (0, -1074) else
      let e = float_exponent p q; (n, d) = scale_ratio p q e; m = half_even n d;
          (m', e') = (if m = 2 ^ 53 then (2 ^ 52, e + 1) else (m, e))
      in if 971 < e' then None else Some (m', e'))"

text \<open>A literal: its sign, all its digits as one number, and the power of ten that scales them.\<close>

definition literal_parts :: "string \<Rightarrow> bool \<times> nat \<times> int" where
  "literal_parts s =
     (let s0 = snd (lex_minus s); whole = takeWhile digit_byte s0; s1 = dropWhile digit_byte s0;
          point = (s1 \<noteq> [] \<and> hd s1 = CHR ''.''); s2 = (if point then tl s1 else s1);
          frac = (if point then takeWhile digit_byte s2 else []);
          s3 = (if point then dropWhile digit_byte s2 else s2);
          (sign, ds) = lex_sign (tl s3); x = (if s3 = [] then 0 else int (decimal_value 0 ds))
      in (fst (lex_minus s) \<noteq> [], decimal_value 0 (whole @ frac),
          (if sign = ''-'' then - x else x) - int (length frac)))"

definition ParseFloat :: "string \<Rightarrow> float64 option" where
  "ParseFloat s =
     (case literal_parts s of (neg, m, x) \<Rightarrow>
        map_option (\<lambda>(m', e). Float64 neg m' e)
          (if 0 \<le> x then round_ratio (m * 10 ^ nat x) 1 else round_ratio m (10 ^ nat (- x))))"

text \<open>The exact value of a mantissa and exponent as a ratio.\<close>

definition exact_ratio :: "nat \<Rightarrow> int \<Rightarrow> nat \<times> nat" where
  "exact_ratio m e = (if 0 \<le> e then (m * 2 ^ nat e, 1) else (m, 2 ^ nat (- e)))"

text \<open>
  \<open>int64(f * c)\<close> for a positive integer constant \<open>c\<close>: the product is rounded to \<open>float64\<close>, the
  conversion drops the fraction. Go leaves a value outside the range to the implementation: on amd64
  it is the smallest \<open>int64\<close>.
\<close>

definition float_times_to_int64 :: "float64 \<Rightarrow> nat \<Rightarrow> int" where
  "float_times_to_int64 f c =
     (case exact_ratio (f64_mantissa f) (f64_exponent f) of (p, q) \<Rightarrow>
      case round_ratio (p * c) q of
        None \<Rightarrow> - (2 ^ 63)
      | Some (m, e) \<Rightarrow>
          (case exact_ratio m e of (n, d) \<Rightarrow>
             let v = (if f64_negative f then - int (n div d) else int (n div d))
             in if - (2 ^ 63) \<le> v \<and> v < 2 ^ 63 then v else - (2 ^ 63)))"

subsection \<open>The shortest decimal\<close>

text \<open>How often a positive ratio below 1 must be multiplied by ten to reach 1.\<close>

function leading_zeros :: "nat \<Rightarrow> nat \<Rightarrow> nat" where
  "leading_zeros p q = (if p = 0 \<or> q \<le> p then 0 else Suc (leading_zeros (10 * p) q))"
  by pat_completeness auto
termination by (relation "measure (\<lambda>(p, q). q - p)") auto

declare leading_zeros.simps [simp del]

text \<open>The place of the decimal point: \<open>10^(k-1) \<le> p/q < 10^k\<close>.\<close>

definition decimal_point :: "nat \<Rightarrow> nat \<Rightarrow> int" where
  "decimal_point p q = (if q \<le> p then int (length (digits (p div q))) else 1 - int (leading_zeros p q))"

definition scale_ten :: "nat \<Rightarrow> nat \<Rightarrow> int \<Rightarrow> nat \<times> nat" where
  "scale_ten p q s = (if 0 \<le> s then (p * 10 ^ nat s, q) else (p, q * 10 ^ nat (- s)))"

text \<open>The number of \<open>n\<close> digits nearest to the ratio among those that read back as \<open>f\<close>.\<close>

definition decimal_of_length :: "nat \<Rightarrow> int \<Rightarrow> nat \<Rightarrow> nat option" where
  "decimal_of_length m e n =
     (case exact_ratio m e of (p, q) \<Rightarrow>
      let s = int n - decimal_point p q; (u, v) = scale_ten p q s;
          reads = (\<lambda>d. (case scale_ten d 1 (- s) of (x, y) \<Rightarrow> round_ratio x y = Some (m, e)));
          lo = u div v; up = half_even u v = lo + 1
      in if reads lo \<and> \<not> (up \<and> reads (lo + 1)) then Some lo
         else if reads (lo + 1) then Some (lo + 1) else None)"

text \<open>The digits without trailing zeros, and the place of the point before the first of them.\<close>

definition shortest_decimal :: "nat \<Rightarrow> int \<Rightarrow> string \<times> int" where
  "shortest_decimal m e =
     (if m = 0 then ([], 0) else
      case exact_ratio m e of (p, q) \<Rightarrow>
      case List.find (\<lambda>n. decimal_of_length m e n \<noteq> None) [1..<18] of
        None \<Rightarrow> ([], 0)
      | Some n \<Rightarrow>
          (case decimal_of_length m e n of
             None \<Rightarrow> ([], 0)
           | Some d \<Rightarrow> (trim_right_byte CHR ''0'' (digits d),
               decimal_point p q + (if length (digits d) = n then 0 else 1))))"

subsection \<open>Printing\<close>

text \<open>The exponent form \<open>d.ddde+xx\<close> and the plain form of the digits with the point at \<open>k\<close>.\<close>

definition exponent_text :: "int \<Rightarrow> string" where
  "exponent_text x =
     (if x < 0 then ''-'' else ''+'') @ (if \<bar>x\<bar> < 10 then ''0'' else []) @ digits (nat \<bar>x\<bar>)"

definition exponent_form :: "string \<Rightarrow> int \<Rightarrow> string" where
  "exponent_form ds k =
     (if ds = [] then ''0'' else take 1 ds) @ (if length ds \<le> 1 then [] else ''.'' @ drop 1 ds) @
     ''e'' @ exponent_text (if ds = [] then 0 else k - 1)"

definition plain_form :: "string \<Rightarrow> int \<Rightarrow> string" where
  "plain_form ds k =
     (if k \<le> 0 then ''0'' @ (if ds = [] then [] else ''.'' @ replicate (nat (- k)) CHR ''0'' @ ds)
      else take (nat k) ds @ replicate (nat k - length ds) CHR ''0'' @
        (if length ds \<le> nat k then [] else ''.'' @ drop (nat k) ds))"

definition minus_sign :: "float64 \<Rightarrow> string" where
  "minus_sign f = (if f64_negative f then ''-'' else [])"

text \<open>\<open>fmt.Sprint\<close> of a \<open>float64\<close>: \<open>%g\<close> with the shortest digits, which takes the exponent form
  below \<open>1e-4\<close> and from \<open>1e6\<close>.\<close>

definition Sprint_float :: "float64 \<Rightarrow> string" where
  "Sprint_float f =
     (case shortest_decimal (f64_mantissa f) (f64_exponent f) of (ds, k) \<Rightarrow>
        minus_sign f @ (if ds \<noteq> [] \<and> (k - 1 < -4 \<or> 6 \<le> k - 1) then exponent_form ds k else plain_form ds k))"

end
