(* ===== verification/JsonDecode.thy ===== *)
theory JsonDecode
  imports JsonText JsonNumbers "HOL-Library.List_Lexorder" "HOL-Library.Char_ord" "HOL-Library.AList"
begin

text \<open>
  The decoding side of \<open>json.Unmarshal\<close>, one decoder per target type of the sources: a decoder takes
  the JSON value and what the target holds, and returns what it holds after, or nothing when the
  library reports a type error (every caller then drops the target). \<open>null\<close> leaves a target as it
  is and empties slices, maps and pointers. A member of an object goes to the field of its name, or
  of its name up to case; a repeated member is decoded over what the first one left. A
  \<open>json.RawMessage\<close> is the JSON value it is the text of, absent when its length is 0. Then
  \<open>any\<close>, with \<open>fmt.Sprint\<close> and \<open>json.Marshal\<close> of such a value.

  One corner is left out: an array decoded for a repeated member over a longer slice, with \<open>null\<close>
  elements beyond the slice's length, which the library fills from the slice's old backing array.
\<close>

type_synonym 'a decoder = "json_value \<Rightarrow> 'a \<Rightarrow> 'a option"
type_synonym RawMessage = "json_value option"

subsection \<open>Scalars\<close>

definition decode_text :: "string decoder" where
  "decode_text v old = (case v of NullValue \<Rightarrow> Some old | TextValue s \<Rightarrow> Some s | _ \<Rightarrow> None)"

definition decode_int :: "int decoder" where
  "decode_int v old = (case v of NullValue \<Rightarrow> Some old | NumberValue n \<Rightarrow> ParseInt10 n | _ \<Rightarrow> None)"

definition decode_uint :: "nat decoder" where
  "decode_uint v old = (case v of NullValue \<Rightarrow> Some old | NumberValue n \<Rightarrow> ParseUint10 n | _ \<Rightarrow> None)"

definition decode_float :: "float64 decoder" where
  "decode_float v old = (case v of NullValue \<Rightarrow> Some old | NumberValue n \<Rightarrow> ParseFloat n | _ \<Rightarrow> None)"

definition decode_bool :: "bool decoder" where
  "decode_bool v old = (case v of NullValue \<Rightarrow> Some old | BoolValue b \<Rightarrow> Some b | _ \<Rightarrow> None)"

text \<open>A pointer: \<open>null\<close> is the nil pointer, anything else is decoded into what it points to.\<close>

definition decode_pointer :: "'a decoder \<Rightarrow> 'a \<Rightarrow> 'a option decoder" where
  "decode_pointer dec zero v old =
     (if v = NullValue then Some None
      else map_option Some (dec v (case old of None \<Rightarrow> zero | Some x \<Rightarrow> x)))"

definition decode_raw :: "RawMessage decoder" where
  "decode_raw v old = Some (Some v)"

subsection \<open>Slices, maps and structs\<close>

fun decode_elements :: "'a decoder \<Rightarrow> 'a \<Rightarrow> json_value list \<Rightarrow> 'a list \<Rightarrow> 'a list option" where
  "decode_elements dec zero [] old = Some []"
| "decode_elements dec zero (v # vs) old =
     (case dec v (case old of [] \<Rightarrow> zero | x # _ \<Rightarrow> x) of
        None \<Rightarrow> None
      | Some y \<Rightarrow> map_option (Cons y) (decode_elements dec zero vs (drop 1 old)))"

definition decode_slice :: "'a decoder \<Rightarrow> 'a \<Rightarrow> 'a list decoder" where
  "decode_slice dec zero v old =
     (case v of NullValue \<Rightarrow> Some [] | ArrayValue vs \<Rightarrow> decode_elements dec zero vs old | _ \<Rightarrow> None)"

text \<open>
  A Go map with string keys is an association list with distinct keys: only the order in which a
  \<open>range\<close> loop visits the entries is not determined by the program, and it is not this order.
\<close>

fun decode_entries :: "(json_value \<Rightarrow> 'a option) \<Rightarrow> (string \<times> json_value) list \<Rightarrow> (string \<times> 'a) list \<Rightarrow>
    (string \<times> 'a) list option" where
  "decode_entries dec [] m = Some m"
| "decode_entries dec ((k, v) # ms) m =
     (case dec v of None \<Rightarrow> None | Some x \<Rightarrow> decode_entries dec ms (AList.update k x m))"

definition decode_map :: "(json_value \<Rightarrow> 'a option) \<Rightarrow> (string \<times> 'a) list decoder" where
  "decode_map dec v old =
     (case v of NullValue \<Rightarrow> Some [] | ObjectValue ms \<Rightarrow> decode_entries dec ms old | _ \<Rightarrow> None)"

text \<open>
  The case folding of member names: ASCII letters, and the two other runes that fold to ASCII
  letters, U+017F and U+212A. The names of the sources are ASCII.
\<close>

definition fold_rune :: "nat \<Rightarrow> nat" where
  "fold_rune r = (if 97 \<le> r \<and> r \<le> 122 then r - 32 else if r = 383 then 83 else if r = 8490 then 75 else r)"

definition same_name :: "string \<Rightarrow> string \<Rightarrow> bool" where
  "same_name name key \<longleftrightarrow>
     key = name \<or> map fold_rune (runes key) = map fold_rune (runes name)"

type_synonym 'r field = "string \<times> 'r decoder"

definition into :: "'a decoder \<Rightarrow> ('r \<Rightarrow> 'a) \<Rightarrow> ('a \<Rightarrow> 'r \<Rightarrow> 'r) \<Rightarrow> 'r decoder" where
  "into dec get put v r = map_option (\<lambda>x. put x r) (dec v (get r))"

fun decode_members :: "'r field list \<Rightarrow> (string \<times> json_value) list \<Rightarrow> 'r \<Rightarrow> 'r option" where
  "decode_members fields [] r = Some r"
| "decode_members fields ((k, v) # ms) r =
     (case List.find (\<lambda>f. same_name (fst f) k) fields of
        None \<Rightarrow> decode_members fields ms r
      | Some f \<Rightarrow> (case snd f v r of None \<Rightarrow> None | Some r' \<Rightarrow> decode_members fields ms r'))"

definition decode_struct :: "'r field list \<Rightarrow> 'r decoder" where
  "decode_struct fields v r =
     (case v of NullValue \<Rightarrow> Some r | ObjectValue ms \<Rightarrow> decode_members fields ms r | _ \<Rightarrow> None)"

definition Unmarshal :: "'a decoder \<Rightarrow> 'a \<Rightarrow> string \<Rightarrow> 'a option" where
  "Unmarshal dec zero s = (case parse_json s of None \<Rightarrow> None | Some v \<Rightarrow> dec v zero)"

subsection \<open>Values of any type\<close>

datatype any =
    NilAny
  | BoolAny bool
  | FloatAny float64
  | TextAny string
  | ListAny "any list"
  | MapAny "(string \<times> any) list"

fun decode_any :: "json_value \<Rightarrow> any option" where
  "decode_any NullValue = Some NilAny"
| "decode_any (BoolValue b) = Some (BoolAny b)"
| "decode_any (NumberValue n) = map_option FloatAny (ParseFloat n)"
| "decode_any (TextValue s) = Some (TextAny s)"
| "decode_any (ArrayValue vs) = map_option ListAny (those (map decode_any vs))"
| "decode_any (ObjectValue ms) =
     map_option (\<lambda>xs. MapAny (fold (\<lambda>(k, x). AList.update k x) xs []))
       (those (map (\<lambda>m. map_option (Pair (fst m)) (decode_any (snd m))) ms))"

fun Sprint :: "any \<Rightarrow> string" where
  "Sprint NilAny = ''<nil>''"
| "Sprint (BoolAny b) = (if b then ''true'' else ''false'')"
| "Sprint (FloatAny f) = Sprint_float f"
| "Sprint (TextAny s) = s"
| "Sprint (ListAny xs) = ''['' @ Join (map Sprint xs) '' '' @ '']''"
| "Sprint (MapAny ms) = ''map['' @
     Join (map (\<lambda>(k, t). k @ '':'' @ t) (sort_key fst (map (\<lambda>m. (fst m, Sprint (snd m))) ms))) '' '' @ '']''"

text \<open>\<open>json.Marshal\<close> of a \<open>float64\<close>: the exponent form below \<open>1e-6\<close> and from \<open>1e21\<close>, with a
  one-digit exponent written as one digit.\<close>

definition json_float :: "float64 \<Rightarrow> string" where
  "json_float f =
     (case shortest_decimal (f64_mantissa f) (f64_exponent f) of (ds, k) \<Rightarrow>
        minus_sign f @
        (if ds \<noteq> [] \<and> (k - 1 < -6 \<or> 21 \<le> k - 1)
         then take 1 ds @ (if length ds \<le> 1 then [] else ''.'' @ drop 1 ds) @ ''e'' @
           (if k - 1 < 0 then ''-'' else ''+'') @ digits (nat \<bar>k - 1\<bar>)
         else plain_form ds k))"

fun any_value :: "any \<Rightarrow> json_value" where
  "any_value NilAny = NullValue"
| "any_value (BoolAny b) = BoolValue b"
| "any_value (FloatAny f) = NumberValue (json_float f)"
| "any_value (TextAny s) = TextValue s"
| "any_value (ListAny xs) = ArrayValue (map any_value xs)"
| "any_value (MapAny ms) = ObjectValue (sort_key fst (map (\<lambda>m. (fst m, any_value (snd m))) ms))"

definition Marshal_any :: "any \<Rightarrow> string" where
  "Marshal_any x = write_json (any_value x)"

end
