(* ===== verification/RawEvents.thy ===== *)
theory RawEvents
  imports JsonDecode Events
begin

text \<open>
  \<open>internal/adapters/sentryprotocol/payload.go\<close> and \<open>envelope.go\<close>, the data: the structs the JSON of
  an SDK is decoded into, each with its zero value and with its fields by the member names of the
  struct tags. Also the errors of \<open>error.go\<close> and the project of \<open>project.go\<close>.
\<close>

subsection \<open>Errors and the project\<close>

type_synonym ErrorCode = string

definition ErrorInvalidEnvelope :: ErrorCode where "ErrorInvalidEnvelope = ''invalid_envelope''"
definition ErrorInvalidEvent :: ErrorCode where "ErrorInvalidEvent = ''invalid_event''"

text \<open>An error of the parser is a \<open>ProtocolError\<close> with its code, or one a constructor of the domain made.\<close>

datatype parse_error = ProtocolError ErrorCode string | DomainError go_error | EndOfInput

type_synonym 'a parsed = "parse_error + 'a"

definition NewProtocolError :: "ErrorCode \<Rightarrow> string \<Rightarrow> parse_error" where
  "NewProtocolError code message = ProtocolError code message"

definition Code :: "parse_error \<Rightarrow> ErrorCode option" where
  "Code err = (case err of ProtocolError code message \<Rightarrow> Some code | _ \<Rightarrow> None)"

definition pbind :: "'a parsed \<Rightarrow> ('a \<Rightarrow> 'b parsed) \<Rightarrow> 'b parsed" where
  "pbind r f = (case r of Inl e \<Rightarrow> Inl e | Inr x \<Rightarrow> f x)"

definition domain :: "'a result \<Rightarrow> 'a parsed" where
  "domain r = map_sum DomainError (\<lambda>x. x) r"

lemma pbind_simps [simp]: "pbind (Inl e) f = Inl e" "pbind (Inr x) f = f x"
  by (simp_all add: pbind_def)

lemma pbind_eq_ok [result_simps]: "pbind r f = Inr y \<longleftrightarrow> (\<exists>x. r = Inr x \<and> f x = Inr y)"
  by (cases r) simp_all

lemma pbind_eq_fail [result_simps]: "pbind r f = Inl e \<longleftrightarrow> r = Inl e \<or> (\<exists>x. r = Inr x \<and> f x = Inl e)"
  by (cases r) simp_all

lemma domain_simps [simp]: "domain (Inl e) = Inl (DomainError e)" "domain (Inr x) = Inr x"
  by (simp_all add: domain_def)

lemma domain_eq_ok [result_simps]: "domain r = Inr x \<longleftrightarrow> r = Inr x"
  by (cases r) simp_all

record ProjectContext =
  pc_organizationID :: OrganizationID
  pc_projectID :: ProjectID
  pc_scrubIP :: bool

definition NewProjectContextWithPrivacy :: "OrganizationID \<Rightarrow> ProjectID \<Rightarrow> bool \<Rightarrow> ProjectContext" where
  "NewProjectContextWithPrivacy organizationID projectID scrubIP =
     \<lparr>pc_organizationID = organizationID, pc_projectID = projectID, pc_scrubIP = scrubIP\<rparr>"

definition NewProjectContext :: "OrganizationID \<Rightarrow> ProjectID \<Rightarrow> ProjectContext" where
  "NewProjectContext organizationID projectID = NewProjectContextWithPrivacy organizationID projectID True"

definition ScrubIPAddresses :: "ProjectContext \<Rightarrow> bool" where
  "ScrubIPAddresses project = pc_scrubIP project"

subsection \<open>Stack traces\<close>

record rawFrame =
  rf_Filename :: string
  rf_AbsPath :: string
  rf_Function :: string
  rf_Package :: string
  rf_DebugID :: string
  rf_InstructionAddr :: RawMessage
  rf_InApp :: "bool option"
  rf_Lineno :: int
  rf_Colno :: int

definition no_frame :: rawFrame where
  "no_frame = \<lparr>rf_Filename = [], rf_AbsPath = [], rf_Function = [], rf_Package = [], rf_DebugID = [],
     rf_InstructionAddr = None, rf_InApp = None, rf_Lineno = 0, rf_Colno = 0\<rparr>"

definition rawFrame_fields :: "rawFrame field list" where
  "rawFrame_fields =
     [(''filename'', into decode_text rf_Filename (\<lambda>x. rf_Filename_update (\<lambda>_. x))),
      (''abs_path'', into decode_text rf_AbsPath (\<lambda>x. rf_AbsPath_update (\<lambda>_. x))),
      (''function'', into decode_text rf_Function (\<lambda>x. rf_Function_update (\<lambda>_. x))),
      (''package'', into decode_text rf_Package (\<lambda>x. rf_Package_update (\<lambda>_. x))),
      (''debug_id'', into decode_text rf_DebugID (\<lambda>x. rf_DebugID_update (\<lambda>_. x))),
      (''instruction_addr'', into decode_raw rf_InstructionAddr (\<lambda>x. rf_InstructionAddr_update (\<lambda>_. x))),
      (''in_app'', into (decode_pointer decode_bool False) rf_InApp (\<lambda>x. rf_InApp_update (\<lambda>_. x))),
      (''lineno'', into decode_int rf_Lineno (\<lambda>x. rf_Lineno_update (\<lambda>_. x))),
      (''colno'', into decode_int rf_Colno (\<lambda>x. rf_Colno_update (\<lambda>_. x)))]"

record rawStacktrace =
  rst_Frames :: "rawFrame list"

definition rawStacktrace_fields :: "rawStacktrace field list" where
  "rawStacktrace_fields =
     [(''frames'', into (decode_slice (decode_struct rawFrame_fields) no_frame) rst_Frames
         (\<lambda>x. rst_Frames_update (\<lambda>_. x)))]"

record rawExceptionValue =
  rx_Type :: string
  rx_Value :: string
  rx_Stacktrace :: rawStacktrace

definition no_exception_value :: rawExceptionValue where
  "no_exception_value = \<lparr>rx_Type = [], rx_Value = [], rx_Stacktrace = \<lparr>rst_Frames = []\<rparr>\<rparr>"

definition rawExceptionValue_fields :: "rawExceptionValue field list" where
  "rawExceptionValue_fields =
     [(''type'', into decode_text rx_Type (\<lambda>x. rx_Type_update (\<lambda>_. x))),
      (''value'', into decode_text rx_Value (\<lambda>x. rx_Value_update (\<lambda>_. x))),
      (''stacktrace'', into (decode_struct rawStacktrace_fields) rx_Stacktrace (\<lambda>x. rx_Stacktrace_update (\<lambda>_. x)))]"

record rawException =
  rex_Values :: "rawExceptionValue list"

definition decode_exception_values :: "rawExceptionValue list decoder" where
  "decode_exception_values = decode_slice (decode_struct rawExceptionValue_fields) no_exception_value"

definition rawException_fields :: "rawException field list" where
  "rawException_fields =
     [(''values'', into decode_exception_values rex_Values (\<lambda>x. rex_Values_update (\<lambda>_. x)))]"

subsection \<open>Transactions and debug images\<close>

record rawTraceContext =
  rtc_TraceID :: string
  rtc_SpanID :: string
  rtc_ParentSpanID :: string
  rtc_Operation :: string
  rtc_Status :: string

definition no_trace_context :: rawTraceContext where
  "no_trace_context = \<lparr>rtc_TraceID = [], rtc_SpanID = [], rtc_ParentSpanID = [], rtc_Operation = [],
     rtc_Status = []\<rparr>"

definition rawTraceContext_fields :: "rawTraceContext field list" where
  "rawTraceContext_fields =
     [(''trace_id'', into decode_text rtc_TraceID (\<lambda>x. rtc_TraceID_update (\<lambda>_. x))),
      (''span_id'', into decode_text rtc_SpanID (\<lambda>x. rtc_SpanID_update (\<lambda>_. x))),
      (''parent_span_id'', into decode_text rtc_ParentSpanID (\<lambda>x. rtc_ParentSpanID_update (\<lambda>_. x))),
      (''op'', into decode_text rtc_Operation (\<lambda>x. rtc_Operation_update (\<lambda>_. x))),
      (''status'', into decode_text rtc_Status (\<lambda>x. rtc_Status_update (\<lambda>_. x)))]"

record rawContexts =
  rc_Trace :: rawTraceContext

definition no_contexts :: rawContexts where
  "no_contexts = \<lparr>rc_Trace = no_trace_context\<rparr>"

definition rawContexts_fields :: "rawContexts field list" where
  "rawContexts_fields =
     [(''trace'', into (decode_struct rawTraceContext_fields) rc_Trace (\<lambda>x. rc_Trace_update (\<lambda>_. x)))]"

record rawSpan =
  rsp_SpanID :: string
  rsp_ParentSpanID :: string
  rsp_Operation :: string
  rsp_Description :: string
  rsp_Status :: string
  rsp_StartTime :: RawMessage
  rsp_Timestamp :: RawMessage

definition no_span :: rawSpan where
  "no_span = \<lparr>rsp_SpanID = [], rsp_ParentSpanID = [], rsp_Operation = [], rsp_Description = [],
     rsp_Status = [], rsp_StartTime = None, rsp_Timestamp = None\<rparr>"

definition rawSpan_fields :: "rawSpan field list" where
  "rawSpan_fields =
     [(''span_id'', into decode_text rsp_SpanID (\<lambda>x. rsp_SpanID_update (\<lambda>_. x))),
      (''parent_span_id'', into decode_text rsp_ParentSpanID (\<lambda>x. rsp_ParentSpanID_update (\<lambda>_. x))),
      (''op'', into decode_text rsp_Operation (\<lambda>x. rsp_Operation_update (\<lambda>_. x))),
      (''description'', into decode_text rsp_Description (\<lambda>x. rsp_Description_update (\<lambda>_. x))),
      (''status'', into decode_text rsp_Status (\<lambda>x. rsp_Status_update (\<lambda>_. x))),
      (''start_timestamp'', into decode_raw rsp_StartTime (\<lambda>x. rsp_StartTime_update (\<lambda>_. x))),
      (''timestamp'', into decode_raw rsp_Timestamp (\<lambda>x. rsp_Timestamp_update (\<lambda>_. x)))]"

record rawDebugImage =
  rdi_DebugID :: string
  rdi_CodeFile :: string
  rdi_ImageAddr :: RawMessage
  rdi_ImageSize :: RawMessage

definition no_image :: rawDebugImage where
  "no_image = \<lparr>rdi_DebugID = [], rdi_CodeFile = [], rdi_ImageAddr = None, rdi_ImageSize = None\<rparr>"

definition rawDebugImage_fields :: "rawDebugImage field list" where
  "rawDebugImage_fields =
     [(''debug_id'', into decode_text rdi_DebugID (\<lambda>x. rdi_DebugID_update (\<lambda>_. x))),
      (''code_file'', into decode_text rdi_CodeFile (\<lambda>x. rdi_CodeFile_update (\<lambda>_. x))),
      (''image_addr'', into decode_raw rdi_ImageAddr (\<lambda>x. rdi_ImageAddr_update (\<lambda>_. x))),
      (''image_size'', into decode_raw rdi_ImageSize (\<lambda>x. rdi_ImageSize_update (\<lambda>_. x)))]"

record rawDebugMeta =
  rdm_Images :: "rawDebugImage list"

definition rawDebugMeta_fields :: "rawDebugMeta field list" where
  "rawDebugMeta_fields =
     [(''images'', into (decode_slice (decode_struct rawDebugImage_fields) no_image) rdm_Images
         (\<lambda>x. rdm_Images_update (\<lambda>_. x)))]"

subsection \<open>Events\<close>

record rawLogEntry =
  rle_Message :: string

definition rawLogEntry_fields :: "rawLogEntry field list" where
  "rawLogEntry_fields = [(''message'', into decode_text rle_Message (\<lambda>x. rle_Message_update (\<lambda>_. x)))]"

record rawEventPayload =
  raw_EventID :: string
  raw_Timestamp :: RawMessage
  raw_StartTime :: RawMessage
  raw_Type :: string
  raw_Level :: string
  raw_Logger :: string
  raw_Platform :: string
  raw_Release :: string
  raw_Dist :: string
  raw_Environment :: string
  raw_ServerName :: string
  raw_Message :: RawMessage
  raw_Logentry :: rawLogEntry
  raw_Exception :: RawMessage
  raw_Transaction :: string
  raw_Culprit :: string
  raw_Fingerprint :: "any list"
  raw_Tags :: RawMessage
  raw_User :: RawMessage
  raw_Request :: RawMessage
  raw_SDK :: RawMessage
  raw_Contexts :: rawContexts
  raw_Spans :: "rawSpan list"
  raw_DebugMeta :: rawDebugMeta

definition no_payload :: rawEventPayload where
  "no_payload = \<lparr>raw_EventID = [], raw_Timestamp = None, raw_StartTime = None, raw_Type = [], raw_Level = [],
     raw_Logger = [], raw_Platform = [], raw_Release = [], raw_Dist = [], raw_Environment = [],
     raw_ServerName = [], raw_Message = None, raw_Logentry = \<lparr>rle_Message = []\<rparr>, raw_Exception = None,
     raw_Transaction = [], raw_Culprit = [], raw_Fingerprint = [], raw_Tags = None, raw_User = None,
     raw_Request = None, raw_SDK = None, raw_Contexts = no_contexts, raw_Spans = [],
     raw_DebugMeta = \<lparr>rdm_Images = []\<rparr>\<rparr>"

definition rawEventPayload_fields :: "rawEventPayload field list" where
  "rawEventPayload_fields =
     [(''event_id'', into decode_text raw_EventID (\<lambda>x. raw_EventID_update (\<lambda>_. x))),
      (''timestamp'', into decode_raw raw_Timestamp (\<lambda>x. raw_Timestamp_update (\<lambda>_. x))),
      (''start_timestamp'', into decode_raw raw_StartTime (\<lambda>x. raw_StartTime_update (\<lambda>_. x))),
      (''type'', into decode_text raw_Type (\<lambda>x. raw_Type_update (\<lambda>_. x))),
      (''level'', into decode_text raw_Level (\<lambda>x. raw_Level_update (\<lambda>_. x))),
      (''logger'', into decode_text raw_Logger (\<lambda>x. raw_Logger_update (\<lambda>_. x))),
      (''platform'', into decode_text raw_Platform (\<lambda>x. raw_Platform_update (\<lambda>_. x))),
      (''release'', into decode_text raw_Release (\<lambda>x. raw_Release_update (\<lambda>_. x))),
      (''dist'', into decode_text raw_Dist (\<lambda>x. raw_Dist_update (\<lambda>_. x))),
      (''environment'', into decode_text raw_Environment (\<lambda>x. raw_Environment_update (\<lambda>_. x))),
      (''server_name'', into decode_text raw_ServerName (\<lambda>x. raw_ServerName_update (\<lambda>_. x))),
      (''message'', into decode_raw raw_Message (\<lambda>x. raw_Message_update (\<lambda>_. x))),
      (''logentry'', into (decode_struct rawLogEntry_fields) raw_Logentry (\<lambda>x. raw_Logentry_update (\<lambda>_. x))),
      (''exception'', into decode_raw raw_Exception (\<lambda>x. raw_Exception_update (\<lambda>_. x))),
      (''transaction'', into decode_text raw_Transaction (\<lambda>x. raw_Transaction_update (\<lambda>_. x))),
      (''culprit'', into decode_text raw_Culprit (\<lambda>x. raw_Culprit_update (\<lambda>_. x))),
      (''fingerprint'', into (decode_slice (\<lambda>v _. decode_any v) NilAny) raw_Fingerprint
         (\<lambda>x. raw_Fingerprint_update (\<lambda>_. x))),
      (''tags'', into decode_raw raw_Tags (\<lambda>x. raw_Tags_update (\<lambda>_. x))),
      (''user'', into decode_raw raw_User (\<lambda>x. raw_User_update (\<lambda>_. x))),
      (''request'', into decode_raw raw_Request (\<lambda>x. raw_Request_update (\<lambda>_. x))),
      (''sdk'', into decode_raw raw_SDK (\<lambda>x. raw_SDK_update (\<lambda>_. x))),
      (''contexts'', into (decode_struct rawContexts_fields) raw_Contexts (\<lambda>x. raw_Contexts_update (\<lambda>_. x))),
      (''spans'', into (decode_slice (decode_struct rawSpan_fields) no_span) raw_Spans
         (\<lambda>x. raw_Spans_update (\<lambda>_. x))),
      (''debug_meta'', into (decode_struct rawDebugMeta_fields) raw_DebugMeta
         (\<lambda>x. raw_DebugMeta_update (\<lambda>_. x)))]"

end
