(* ===== verification/ClientAddresses.thy ===== *)
theory ClientAddresses
  imports RawEvents Outbound Breakpad
begin

text \<open>
  The client address of an event (\<open>internal/adapters/sentryprotocol/payload.go\<close>): which of the
  addresses in its user, request and tags is kept, and which tags are dropped because they carry one.
  Of \<open>net/netip\<close>, \<open>ParseAddrPort\<close> and \<open>Addr.String\<close> beside what \<open>Outbound\<close> has. A \<open>range\<close> over a
  map visits the keys in an order the language leaves open: \<open>ord\<close> gives it, for each loop by its name.
\<close>

subsection \<open>Ranging over a map\<close>

type_synonym map_order = "string \<Rightarrow> string list \<Rightarrow> string list"

definition range_entries :: "map_order \<Rightarrow> string \<Rightarrow> (string \<times> 'a) list \<Rightarrow> (string \<times> 'a) list" where
  "range_entries ord loop m = map (\<lambda>k. (k, the (map_of m k))) (ord loop (map fst m))"

text \<open>Every loop visits every key once.\<close>

definition visits_all :: "map_order \<Rightarrow> bool" where
  "visits_all ord \<longleftrightarrow> (\<forall>loop ks. distinct ks \<longrightarrow> distinct (ord loop ks) \<and> set (ord loop ks) = set ks)"

subsection \<open>Addresses as text\<close>

fun groups :: "8 word list \<Rightarrow> nat list" where
  "groups (a # b # bs) = (unat a * 256 + unat b) # groups bs"
| "groups _ = []"

definition zero_run :: "nat list \<Rightarrow> nat \<Rightarrow> nat" where
  "zero_run gs i = length (takeWhile (\<lambda>g. g = 0) (drop i gs))"

text \<open>The start and length of the first longest run of two or more zero groups.\<close>

definition longest_run :: "nat list \<Rightarrow> nat \<times> nat" where
  "longest_run gs = fold (\<lambda>i (b, l). if 2 \<le> zero_run gs i \<and> l < zero_run gs i then (i, zero_run gs i) else (b, l))
     [0..<8] (0, 0)"

definition string4 :: "8 word list \<Rightarrow> string" where
  "string4 b = Join (map (\<lambda>x. digits (unat x)) b) ''.''"

definition string6 :: "8 word list \<Rightarrow> string \<Rightarrow> string" where
  "string6 b zone =
     (let gs = groups b; (start, len) = longest_run gs in
      (if len = 0 then Join (map hex_digits gs) '':''
       else Join (map hex_digits (take start gs)) '':'' @ ''::'' @
         Join (map hex_digits (drop (start + len) gs)) '':'') @
      (if zone = [] then [] else CHR ''%'' # zone))"

definition Addr_String :: "Addr \<Rightarrow> string" where
  "Addr_String ip =
     (case ip of
        NoAddr \<Rightarrow> ''invalid IP''
      | V4 b \<Rightarrow> string4 b
      | V6 b zone \<Rightarrow>
          if Is4In6 ip then ''::ffff:'' @ string4 (drop 12 b) @ (if zone = [] then [] else CHR ''%'' # zone)
          else string6 b zone)"

text \<open>The text before and after the last byte \<open>c\<close>.\<close>

definition cut_last :: "char \<Rightarrow> string \<Rightarrow> (string \<times> string) option" where
  "cut_last c s =
     (if c \<in> set s
      then Some (rev (tl (dropWhile (\<lambda>d. d \<noteq> c) (rev s))), rev (takeWhile (\<lambda>d. d \<noteq> c) (rev s))) else None)"

text \<open>\<open>netip.ParseAddrPort\<close>, of which the code uses the address.\<close>

definition ParseAddrPort :: "string \<Rightarrow> (Addr \<times> nat) option" where
  "ParseAddrPort s =
     (case cut_last (CHR '':'') s of
        None \<Rightarrow> None
      | Some (ip, port) \<Rightarrow>
          if ip = [] \<or> port = [] then None else
          let bracket = (hd ip = CHR ''['') in
          if bracket \<and> (length ip < 2 \<or> last ip \<noteq> CHR '']'') then None else
          let host = (if bracket then butlast (tl ip) else ip) in
          (case ParseUint10 port of
             None \<Rightarrow> None
           | Some n \<Rightarrow>
               if 2 ^ 16 \<le> n then None else
               (case ParseAddr host of
                  None \<Rightarrow> None
                | Some addr \<Rightarrow>
                    let is4 = (case addr of V4 b \<Rightarrow> True | _ \<Rightarrow> False) in
                    if bracket = is4 then None else Some (addr, n))))"

subsection \<open>Candidates\<close>

definition ReplaceAll_byte :: "char \<Rightarrow> char \<Rightarrow> string \<Rightarrow> string" where
  "ReplaceAll_byte a b s = map (\<lambda>c. if c = a then b else c) s"

definition isClientIPTagKey :: "string \<Rightarrow> bool" where
  "isClientIPTagKey input =
     (let key = ReplaceAll_byte CHR ''.'' CHR ''_''
                  (ReplaceAll_byte CHR ''-'' CHR ''_'' (ToLower (TrimSpace input)))
      in key = ''client_ip'' \<or> key = ''ip_address'' \<or> key = ''remote_addr'' \<or> key = ''user_ip'' \<or>
         key = ''user_ip_address'')"

definition isForwardedForHeader :: "string \<Rightarrow> bool" where
  "isForwardedForHeader input =
     (let key = ReplaceAll_byte CHR ''-'' CHR ''_'' (ToLower (TrimSpace input))
      in key = ''x_forwarded_for'' \<or> key = ''x_real_ip'')"

definition publicClientIP :: "string \<Rightarrow> string option" where
  "publicClientIP input =
     (let value0 = TrimSpace input in
      if value0 = [] \<or> value0 = ''<nil>'' then None else
      let value1 = (case ParseAddrPort value0 of Some (addr, port) \<Rightarrow> Addr_String addr | None \<Rightarrow> value0) in
      (case ParseAddr value1 of
         None \<Rightarrow> None
       | Some addr \<Rightarrow>
           if \<not> IsValid addr then None
           else if \<not> IsGlobalUnicast addr \<or> IsPrivate addr \<or> IsLoopback addr \<or> IsLinkLocalUnicast addr \<or>
             IsUnspecified addr then None
           else Some (Addr_String addr)))"

fun firstPublicClientIP :: "string list \<Rightarrow> string option" where
  "firstPublicClientIP [] = None"
| "firstPublicClientIP (candidate # candidates) =
     (case List.find (\<lambda>part. publicClientIP part \<noteq> None) (split_byte CHR '','' candidate) of
        Some part \<Rightarrow> publicClientIP part
      | None \<Rightarrow> firstPublicClientIP candidates)"

definition member_of :: "(string \<times> any) list \<Rightarrow> string \<Rightarrow> any" where
  "member_of m k = (case map_of m k of None \<Rightarrow> NilAny | Some x \<Rightarrow> x)"

definition userIPCandidates :: "RawMessage \<Rightarrow> string list" where
  "userIPCandidates payload =
     (case payload of
        None \<Rightarrow> []
      | Some v \<Rightarrow>
          (case decode_struct [(''ip_address'', decode_text)] v [] of None \<Rightarrow> [] | Some ip \<Rightarrow> [ip]))"

definition requestEnvIPCandidates :: "(string \<times> any) list \<Rightarrow> string list" where
  "requestEnvIPCandidates env =
     (if env = [] then []
      else [Sprint (member_of env ''REMOTE_ADDR''), Sprint (member_of env ''HTTP_X_FORWARDED_FOR'')])"

definition headerMapIPCandidates :: "map_order \<Rightarrow> (string \<times> any) list \<Rightarrow> string list" where
  "headerMapIPCandidates ord headers =
     concat (map (\<lambda>(key, x). if \<not> isForwardedForHeader key then [] else [Sprint x])
       (range_entries ord ''headerMapIPCandidates'' headers))"

definition headerPairIPCandidates :: "any list list \<Rightarrow> string list" where
  "headerPairIPCandidates headers =
     concat (map (\<lambda>pair. if length pair < 2 \<or> \<not> isForwardedForHeader (Sprint (pair ! 0)) then []
       else [Sprint (pair ! 1)]) headers)"

definition decode_pairs :: "any list list decoder" where
  "decode_pairs = decode_slice (decode_slice (\<lambda>v _. decode_any v) NilAny) []"

definition requestHeaderIPCandidates :: "map_order \<Rightarrow> RawMessage \<Rightarrow> string list" where
  "requestHeaderIPCandidates ord payload =
     (case payload of
        None \<Rightarrow> []
      | Some v \<Rightarrow>
          (case decode_map decode_any v [] of
             Some headers \<Rightarrow> headerMapIPCandidates ord headers
           | None \<Rightarrow> (case decode_pairs v [] of Some pairs \<Rightarrow> headerPairIPCandidates pairs | None \<Rightarrow> [])))"

record request_ip =
  rip_Env :: "(string \<times> any) list"
  rip_Headers :: RawMessage

definition request_ip_fields :: "request_ip field list" where
  "request_ip_fields =
     [(''env'', into (decode_map decode_any) rip_Env (\<lambda>x. rip_Env_update (\<lambda>_. x))),
      (''headers'', into decode_raw rip_Headers (\<lambda>x. rip_Headers_update (\<lambda>_. x)))]"

definition requestIPCandidates :: "map_order \<Rightarrow> RawMessage \<Rightarrow> string list" where
  "requestIPCandidates ord payload =
     (case payload of
        None \<Rightarrow> []
      | Some v \<Rightarrow>
          (case decode_struct request_ip_fields v \<lparr>rip_Env = [], rip_Headers = None\<rparr> of
             None \<Rightarrow> []
           | Some req \<Rightarrow> requestEnvIPCandidates (rip_Env req) @ requestHeaderIPCandidates ord (rip_Headers req)))"

definition clientIPCandidates :: "map_order \<Rightarrow> rawEventPayload \<Rightarrow> (string \<times> string) list \<Rightarrow> string list" where
  "clientIPCandidates ord payload tags =
     userIPCandidates (raw_User payload) @ requestIPCandidates ord (raw_Request payload) @
     map snd (filter (\<lambda>(key, value). isClientIPTagKey key) (range_entries ord ''clientIPCandidates'' tags))"

definition clientIPTag ::
  "map_order \<Rightarrow> ProjectContext \<Rightarrow> rawEventPayload \<Rightarrow> (string \<times> string) list \<Rightarrow> string option" where
  "clientIPTag ord project payload tags =
     (if ScrubIPAddresses project then None else firstPublicClientIP (clientIPCandidates ord payload tags))"

text \<open>The copy is in the order of the original: the loop's order makes no difference to a map.\<close>

definition withoutClientIPTags :: "(string \<times> string) list \<Rightarrow> (string \<times> string) list" where
  "withoutClientIPTags tags = filter (\<lambda>(key, value). \<not> isClientIPTagKey key) tags"

subsection \<open>A chosen address is public\<close>

lemma publicClientIP_public:
  assumes "publicClientIP s = Some ip"
  shows "\<exists>addr. ip = Addr_String addr \<and> addr_ok addr \<and> public_address addr"
proof -
  obtain addr x where addr: "ParseAddr x = Some addr" "ip = Addr_String addr" "IsValid addr"
      "IsGlobalUnicast addr" "\<not> IsPrivate addr" "\<not> IsLoopback addr" "\<not> IsLinkLocalUnicast addr" "\<not> IsUnspecified addr"
    using assms by (auto simp: publicClientIP_def Let_def split: if_split_asm option.split_asm)
  have "allowedPublicAddr addr" using addr by (simp add: allowedPublicAddr_def)
  then show ?thesis using addr(2) allowed_iff_public [OF ParseAddr_ok [OF addr(1)]] ParseAddr_ok [OF addr(1)] by blast
qed

lemma firstPublicClientIP_public:
  "firstPublicClientIP cs = Some ip \<Longrightarrow> \<exists>addr. ip = Addr_String addr \<and> addr_ok addr \<and> public_address addr"
  by (induction cs) (auto split: option.split_asm dest: publicClientIP_public)

end
