(* ===== verification/LogRecords.thy ===== *)
theory LogRecords
  imports ClientAddresses
begin

text \<open>
  \<open>internal/domain/log_record.go\<close>: log severities, attribute sets and log records. Each constructor
  checks its texts and trims them; \<open>log_record_valid\<close> is what every record it returns satisfies. A
  set of attributes is a map, kept as an association list with distinct keys.
\<close>

subsection \<open>Severities\<close>

type_synonym LogSeverity = string

definition LogSeverityTrace :: LogSeverity where "LogSeverityTrace = ''trace''"
definition LogSeverityDebug :: LogSeverity where "LogSeverityDebug = ''debug''"
definition LogSeverityInfo :: LogSeverity where "LogSeverityInfo = ''info''"
definition LogSeverityWarning :: LogSeverity where "LogSeverityWarning = ''warning''"
definition LogSeverityError :: LogSeverity where "LogSeverityError = ''error''"
definition LogSeverityFatal :: LogSeverity where "LogSeverityFatal = ''fatal''"

lemmas log_severity_defs = LogSeverityTrace_def LogSeverityDebug_def LogSeverityInfo_def
  LogSeverityWarning_def LogSeverityError_def LogSeverityFatal_def

definition NewLogSeverity :: "string \<Rightarrow> LogSeverity result" where
  "NewLogSeverity input =
     (let value = ToLower (TrimSpace input) in
      if value = [] \<or> value = ''info'' \<or> value = ''information'' then ok LogSeverityInfo
      else if value = ''trace'' then ok LogSeverityTrace
      else if value = ''debug'' then ok LogSeverityDebug
      else if value = ''warn'' \<or> value = ''warning'' then ok LogSeverityWarning
      else if value = ''error'' then ok LogSeverityError
      else if value = ''fatal'' \<or> value = ''critical'' then ok LogSeverityFatal
      else fail ''invalid log severity'')"

definition LogSeverity_valid :: "LogSeverity \<Rightarrow> bool" where
  "LogSeverity_valid severity \<longleftrightarrow>
     severity = LogSeverityTrace \<or> severity = LogSeverityDebug \<or> severity = LogSeverityInfo \<or>
     severity = LogSeverityWarning \<or> severity = LogSeverityError \<or> severity = LogSeverityFatal"

lemma NewLogSeverity_valid: "NewLogSeverity input = ok severity \<Longrightarrow> LogSeverity_valid severity"
  by (auto simp: NewLogSeverity_def Let_def LogSeverity_valid_def split: if_split_asm)

subsection \<open>Texts\<close>

definition logBodyMaxBytes :: nat where "logBodyMaxBytes = 8 * 1024"
definition logLoggerMaxBytes :: nat where "logLoggerMaxBytes = 256"
definition logDimensionMaxBytes :: nat where "logDimensionMaxBytes = 256"
definition logAttributeKeyLimit :: nat where "logAttributeKeyLimit = 128"
definition logAttributeValueMax :: nat where "logAttributeValueMax = 1024"
definition logAttributeCountMax :: nat where "logAttributeCountMax = 64"

definition log_control_rune :: "nat \<Rightarrow> bool" where
  "log_control_rune r \<longleftrightarrow> r \<noteq> 10 \<and> r \<noteq> 13 \<and> r \<noteq> 9 \<and> (r < 32 \<or> 127 \<le> r \<and> r < 160)"

definition normalizeLogText :: "string \<Rightarrow> nat \<Rightarrow> string \<Rightarrow> string result" where
  "normalizeLogText input limit label =
     (let value = TrimSpace input in
      if value = [] then ok []
      else if \<not> ValidString value then fail (label @ '' must be valid utf-8'')
      else if limit < length value then fail (label @ '' is too long'')
      else if list_ex log_control_rune (runes value) then fail (label @ '' must not contain control characters'')
      else ok value)"

definition normalizeRequiredLogText :: "string \<Rightarrow> nat \<Rightarrow> string \<Rightarrow> string result" where
  "normalizeRequiredLogText input limit label =
     rbind (normalizeLogText input limit label) (\<lambda>value.
       if value = [] then fail (label @ '' is required'') else ok value)"

definition normalizeOptionalLogTraceID :: "string \<Rightarrow> string result" where
  "normalizeOptionalLogTraceID input =
     (let value = TrimSpace input in
      if value = [] then ok []
      else (case normalizeTraceID value of
              Inl e \<Rightarrow> fail ''log trace id must be 32 hex characters'' | Inr normalized \<Rightarrow> ok normalized))"

definition normalizeOptionalLogSpanID :: "string \<Rightarrow> string result" where
  "normalizeOptionalLogSpanID input =
     (let value = TrimSpace input in
      if value = [] then ok []
      else (case normalizeSpanID value of
              Inl e \<Rightarrow> fail ''log span id must be 16 hex characters'' | Inr normalized \<Rightarrow> ok normalized))"

text \<open>A text a record may hold: trimmed, valid UTF-8, within its limit, without control characters.\<close>

definition log_text :: "nat \<Rightarrow> string \<Rightarrow> bool" where
  "log_text limit s \<longleftrightarrow> TrimSpace s = s \<and> length s \<le> limit \<and>
     (s = [] \<or> ValidString s \<and> \<not> list_ex log_control_rune (runes s))"

lemma normalizeLogText_text: "normalizeLogText input limit label = ok value \<Longrightarrow> log_text limit value"
  by (auto simp: normalizeLogText_def Let_def log_text_def split: if_split_asm)

lemma normalizeRequiredLogText_text:
  "normalizeRequiredLogText input limit label = ok value \<Longrightarrow> log_text limit value \<and> value \<noteq> []"
  by (auto simp: normalizeRequiredLogText_def result_simps dest: normalizeLogText_text split: if_split_asm)

lemma normalizeOptionalLogTraceID_hex:
  "normalizeOptionalLogTraceID input = ok value \<Longrightarrow> value = [] \<or> hex_pattern 32 value"
  by (auto simp: normalizeOptionalLogTraceID_def normalizeTraceID_def Let_def split: if_split_asm sum.split_asm)

lemma normalizeOptionalLogSpanID_hex:
  "normalizeOptionalLogSpanID input = ok value \<Longrightarrow> value = [] \<or> hex_pattern 16 value"
  by (auto simp: normalizeOptionalLogSpanID_def normalizeSpanID_def Let_def split: if_split_asm sum.split_asm)

subsection \<open>Attributes\<close>

datatype LogAttributeSet = LogAttributeSet (log_values: "(string \<times> string) list")

definition log_attribute :: "string \<times> string \<Rightarrow> (string \<times> string) result" where
  "log_attribute entry =
     rbind (normalizeLogText (fst entry) logAttributeKeyLimit ''log attribute key'') (\<lambda>normalizedKey.
     if normalizedKey = [] then fail ''log attribute key is required''
     else rbind (normalizeLogText (snd entry) logAttributeValueMax ''log attribute value'') (\<lambda>normalizedValue.
       ok (normalizedKey, normalizedValue)))"

definition NewLogAttributeSet :: "map_order \<Rightarrow> (string \<times> string) list \<Rightarrow> LogAttributeSet result" where
  "NewLogAttributeSet ord input =
     (if logAttributeCountMax < length input then fail ''too many log attributes''
      else rbind (collect log_attribute (range_entries ord ''NewLogAttributeSet'' input)) (\<lambda>entries.
        ok (LogAttributeSet (fold (\<lambda>(key, value). AList.update key value) entries []))))"

definition log_attributes_valid :: "LogAttributeSet \<Rightarrow> bool" where
  "log_attributes_valid attrs \<longleftrightarrow> distinct (map fst (log_values attrs)) \<and>
     list_all (\<lambda>(k, v). k \<noteq> [] \<and> log_text logAttributeKeyLimit k \<and> log_text logAttributeValueMax v) (log_values attrs)"

lemma log_attribute_text:
  "log_attribute entry = ok (k, v) \<Longrightarrow>
   k \<noteq> [] \<and> log_text logAttributeKeyLimit k \<and> log_text logAttributeValueMax v"
  by (auto simp: log_attribute_def result_simps dest: normalizeLogText_text split: if_split_asm)

lemma distinct_fold_update:
  "distinct (map fst m) \<Longrightarrow> distinct (map fst (fold (\<lambda>(key, value). AList.update key value) entries m))"
  by (induction entries arbitrary: m) (auto simp: distinct_update)

lemma set_update: "set (AList.update k v m) \<subseteq> insert (k, v) (set m)"
  by (induction m) auto

lemma set_fold_update:
  "set (fold (\<lambda>(key, value). AList.update key value) entries m) \<subseteq> set entries \<union> set m"
proof (induction entries arbitrary: m)
  case (Cons e entries)
  then show ?case using set_update [of "fst e" "snd e" m] by (cases e) fastforce
qed simp

lemma NewLogAttributeSet_valid:
  assumes "NewLogAttributeSet ord input = ok attributes"
  shows "log_attributes_valid attributes"
proof -
  obtain entries where entries: "collect log_attribute (range_entries ord ''NewLogAttributeSet'' input) = ok entries"
    and attrs: "attributes = LogAttributeSet (fold (\<lambda>(key, value). AList.update key value) entries [])"
    using assms by (auto simp: NewLogAttributeSet_def result_simps split: if_split_asm)
  have "k \<noteq> [] \<and> log_text logAttributeKeyLimit k \<and> log_text logAttributeValueMax v" if kv: "(k, v) \<in> set entries" for k v
  proof -
    obtain i where i: "i < length entries" "entries ! i = (k, v)" using kv by (auto simp: in_set_conv_nth)
    with entries have "log_attribute (range_entries ord ''NewLogAttributeSet'' input ! i) = ok (k, v)"
      by (auto simp: collect_ok_iff list_all2_conv_all_nth)
    then show ?thesis by (rule log_attribute_text)
  qed
  then show ?thesis
    using set_fold_update [of entries "[]"] distinct_fold_update [of "[]" entries]
    by (auto simp: attrs log_attributes_valid_def list_all_iff)
qed

subsection \<open>Records\<close>

record LogRecordParams =
  lp_OrganizationID :: OrganizationID
  lp_ProjectID :: ProjectID
  lp_Timestamp :: TimePoint
  lp_ReceivedAt :: TimePoint
  lp_Severity :: LogSeverity
  lp_Body :: string
  lp_Logger :: string
  lp_TraceID :: string
  lp_SpanID :: string
  lp_Release :: string
  lp_Environment :: string
  lp_ResourceAttributes :: "(string \<times> string) list"
  lp_Attributes :: "(string \<times> string) list"

record LogRecord =
  log_organizationID :: OrganizationID
  log_projectID :: ProjectID
  log_timestamp :: TimePoint
  log_receivedAt :: TimePoint
  log_severity :: LogSeverity
  log_body :: string
  log_logger :: string
  log_traceID :: string
  log_spanID :: string
  log_release :: string
  log_environment :: string
  log_resourceAttributes :: LogAttributeSet
  log_attributes :: LogAttributeSet

definition NewLogRecord :: "map_order \<Rightarrow> LogRecordParams \<Rightarrow> LogRecord result" where
  "NewLogRecord ord params =
     (if OrganizationID_value (lp_OrganizationID params) = [] then fail ''organization id is required''
      else if ProjectID_value (lp_ProjectID params) = [] then fail ''project id is required''
      else if IsZero (TimePoint_value (lp_Timestamp params)) then fail ''log timestamp is required''
      else if IsZero (TimePoint_value (lp_ReceivedAt params)) then fail ''log received time is required''
      else if \<not> LogSeverity_valid (lp_Severity params) then fail ''invalid log severity''
      else
        rbind (normalizeRequiredLogText (lp_Body params) logBodyMaxBytes ''log body'') (\<lambda>body.
        rbind (normalizeLogText (lp_Logger params) logLoggerMaxBytes ''log logger'') (\<lambda>logger.
        rbind (normalizeOptionalLogTraceID (lp_TraceID params)) (\<lambda>traceID.
        rbind (normalizeOptionalLogSpanID (lp_SpanID params)) (\<lambda>spanID.
        rbind (normalizeLogText (lp_Release params) logDimensionMaxBytes ''log release'') (\<lambda>release.
        rbind (normalizeLogText (lp_Environment params) logDimensionMaxBytes ''log environment'') (\<lambda>environment.
        rbind (NewLogAttributeSet ord (lp_ResourceAttributes params)) (\<lambda>resourceAttributes.
        rbind (NewLogAttributeSet ord (lp_Attributes params)) (\<lambda>attributes.
          ok \<lparr>log_organizationID = lp_OrganizationID params, log_projectID = lp_ProjectID params,
              log_timestamp = lp_Timestamp params, log_receivedAt = lp_ReceivedAt params,
              log_severity = lp_Severity params, log_body = body, log_logger = logger, log_traceID = traceID,
              log_spanID = spanID, log_release = release, log_environment = environment,
              log_resourceAttributes = resourceAttributes, log_attributes = attributes\<rparr>)))))))))"

definition log_record_valid :: "LogRecord \<Rightarrow> bool" where
  "log_record_valid record \<longleftrightarrow>
     OrganizationID_value (log_organizationID record) \<noteq> [] \<and> ProjectID_value (log_projectID record) \<noteq> [] \<and>
     \<not> IsZero (TimePoint_value (log_timestamp record)) \<and> \<not> IsZero (TimePoint_value (log_receivedAt record)) \<and>
     LogSeverity_valid (log_severity record) \<and> log_body record \<noteq> [] \<and> log_text logBodyMaxBytes (log_body record) \<and>
     log_text logLoggerMaxBytes (log_logger record) \<and>
     (log_traceID record = [] \<or> hex_pattern 32 (log_traceID record)) \<and>
     (log_spanID record = [] \<or> hex_pattern 16 (log_spanID record)) \<and>
     log_text logDimensionMaxBytes (log_release record) \<and> log_text logDimensionMaxBytes (log_environment record) \<and>
     log_attributes_valid (log_resourceAttributes record) \<and> log_attributes_valid (log_attributes record)"

lemma NewLogRecord_invariant:
  assumes "NewLogRecord ord params = ok record"
  shows "log_record_valid record \<and> log_organizationID record = lp_OrganizationID params \<and>
    log_projectID record = lp_ProjectID params \<and> log_timestamp record = lp_Timestamp params \<and>
    log_receivedAt record = lp_ReceivedAt params"
  using assms
  by (auto simp: NewLogRecord_def result_simps log_record_valid_def split: if_split_asm
      dest!: normalizeRequiredLogText_text dest: normalizeLogText_text normalizeOptionalLogTraceID_hex
        normalizeOptionalLogSpanID_hex NewLogAttributeSet_valid)

end
