(* ===== verification/TimeParse.thy ===== *)
theory TimeParse
  imports Payload
begin

text \<open>
  \<open>time.Parse(time.RFC3339Nano, value)\<close>, the layout \<open>2006-01-02T15:04:05.999999999Z07:00\<close>: the
  steps of the general parser on that layout. It is lenient where the library is: an hour of one
  digit, a comma before the fraction, any number of fraction digits of which nine count, a day range
  checked at the end. The fast path the library tries first accepts a part of these texts with the
  same instants. The instant is in nanoseconds after Go's zero time.
\<close>

definition is_digit_at :: "nat \<Rightarrow> string \<Rightarrow> bool" where
  "is_digit_at i s \<longleftrightarrow> i < length s \<and> digit_byte (s ! i)"

text \<open>\<open>getnum\<close>: one or two digits, two when the field is of fixed width.\<close>

definition getnum :: "string \<Rightarrow> bool \<Rightarrow> (int \<times> string) option" where
  "getnum s fixed =
     (if \<not> is_digit_at 0 s then None
      else if \<not> is_digit_at 1 s then
        (if fixed then None else Some (int (decimal_value 0 (take 1 s)), drop 1 s))
      else Some (int (decimal_value 0 (take 2 s)), drop 2 s))"

text \<open>\<open>skip\<close> on a literal byte of the layout.\<close>

definition skip_byte :: "char \<Rightarrow> string \<Rightarrow> string option" where
  "skip_byte c s = (case s of [] \<Rightarrow> None | d # t \<Rightarrow> if d = c then Some t else None)"

text \<open>The year: four bytes, the first a digit, that are a number.\<close>

definition parse_year :: "string \<Rightarrow> (int \<times> string) option" where
  "parse_year s =
     (if length s < 4 \<or> \<not> list_all digit_byte (take 4 s) then None
      else Some (int (decimal_value 0 (take 4 s)), drop 4 s))"

text \<open>A number in a range, and the byte of the layout before it.\<close>

definition parse_field :: "char \<Rightarrow> bool \<Rightarrow> (int \<Rightarrow> bool) \<Rightarrow> string \<Rightarrow> (int \<times> string) option" where
  "parse_field c fixed in_range s =
     Option.bind (skip_byte c s) (\<lambda>t.
     Option.bind (getnum t fixed) (\<lambda>(n, u).
       if in_range n then Some (n, u) else None))"

text \<open>The fraction, when there is one: the nanoseconds of its first nine digits.\<close>

definition parse_fraction :: "string \<Rightarrow> int \<times> string" where
  "parse_fraction s =
     (case s of
        [] \<Rightarrow> (0, [])
      | c # t \<Rightarrow>
          if (c = CHR ''.'' \<or> c = CHR '','') \<and> is_digit_at 0 t then
            let ds = take 9 (takeWhile digit_byte t)
            in (int (decimal_value 0 ds) * 10 ^ (9 - length ds), dropWhile digit_byte t)
          else (0, s))"

text \<open>The zone offset in seconds: \<open>Z\<close>, or a sign, two digits, a colon and two digits.\<close>

definition parse_offset :: "string \<Rightarrow> (int \<times> string) option" where
  "parse_offset s =
     (if s \<noteq> [] \<and> hd s = CHR ''Z'' then Some (0, tl s)
      else if length s < 6 \<or> s ! 3 \<noteq> CHR '':'' then None
      else Option.bind (getnum (take 2 (drop 1 s)) True) (\<lambda>(hr, _).
           Option.bind (getnum (take 2 (drop 4 s)) True) (\<lambda>(mm, _).
             if hr > 24 \<or> mm > 60 then None
             else let offset = (hr * 60 + mm) * 60
                  in if hd s = CHR ''+'' then Some (offset, drop 6 s)
                     else if hd s = CHR ''-'' then Some (- offset, drop 6 s) else None)))"

definition days_in :: "int \<Rightarrow> int \<Rightarrow> int" where
  "days_in month year = month_lengths (leap_year year) ! nat (month - 1)"

text \<open>The days from 1 January of the year 1 to a date.\<close>

definition days_before_year :: "int \<Rightarrow> int" where
  "days_before_year y = 365 * (y - 1) + (y - 1) div 4 - (y - 1) div 100 + (y - 1) div 400"

definition days_of_date :: "int \<Rightarrow> int \<Rightarrow> int \<Rightarrow> int" where
  "days_of_date y m d =
     days_before_year y + sum_list (take (nat (m - 1)) (month_lengths (leap_year y))) + (d - 1)"

definition parse_rfc3339nano :: "string \<Rightarrow> gotime option" where
  "parse_rfc3339nano s =
     Option.bind (parse_year s) (\<lambda>(y, s1).
     Option.bind (parse_field CHR ''-'' True (\<lambda>m. 0 < m \<and> m \<le> 12) s1) (\<lambda>(m, s2).
     Option.bind (parse_field CHR ''-'' True (\<lambda>_. True) s2) (\<lambda>(d, s3).
     Option.bind (parse_field CHR ''T'' False (\<lambda>h. h < 24) s3) (\<lambda>(h, s4).
     Option.bind (parse_field CHR '':'' True (\<lambda>n. n < 60) s4) (\<lambda>(mi, s5).
     Option.bind (parse_field CHR '':'' True (\<lambda>n. n < 60) s5) (\<lambda>(se, s6).
       (case parse_fraction s6 of (nanos, s7) \<Rightarrow>
          Option.bind (parse_offset s7) (\<lambda>(offset, s8).
            if s8 \<noteq> [] \<or> d < 1 \<or> days_in m y < d then None
            else Some (days_of_date y m d * (24 * hour) + h * hour + mi * minute + (se - offset) * second
              + nanos)))))))))"

end
