(* ===== verification/StoreEvents.thy ===== *)
theory StoreEvents
  imports ClientAddresses TimeParse RateLimit
begin

text \<open>
  \<open>internal/adapters/sentryprotocol/payload.go\<close>: an event payload becomes a canonical event. The
  definitions follow the file: tags, times, kind, level and title, transactions, exceptions and
  frames, native modules, and \<open>parseEventPayload\<close> over them. A helper that returns a value and a
  flag returns an option.
\<close>

subsection \<open>Tags\<close>

definition put_tag :: "string \<Rightarrow> string \<Rightarrow> (string \<times> string) list \<Rightarrow> (string \<times> string) list" where
  "put_tag key value tags = AList.update key value tags"

definition normalizeTagObject :: "map_order \<Rightarrow> (string \<times> any) list \<Rightarrow> (string \<times> string) list" where
  "normalizeTagObject ord object =
     fold (\<lambda>(key, x) tags.
       let tagKey = TrimSpace key; tagValue = TrimSpace (Sprint x)
       in if tagKey = [] \<or> tagValue = [] \<or> tagValue = ''<nil>'' then tags else put_tag tagKey tagValue tags)
     (range_entries ord ''normalizeTagObject'' object) []"

definition normalizeTagPairs :: "any list list \<Rightarrow> (string \<times> string) list" where
  "normalizeTagPairs pairs =
     fold (\<lambda>pair tags.
       if length pair < 2 then tags else
       let tagKey = TrimSpace (Sprint (pair ! 0)); tagValue = TrimSpace (Sprint (pair ! 1))
       in if tagKey = [] \<or> tagValue = [] \<or> tagKey = ''<nil>'' \<or> tagValue = ''<nil>'' then tags
          else put_tag tagKey tagValue tags)
     pairs []"

definition parseTags :: "map_order \<Rightarrow> RawMessage \<Rightarrow> (string \<times> string) list" where
  "parseTags ord payload =
     (case payload of
        None \<Rightarrow> []
      | Some v \<Rightarrow>
          (case decode_map decode_any v [] of
             Some object \<Rightarrow> normalizeTagObject ord object
           | None \<Rightarrow> (case decode_pairs v [] of Some pairs \<Rightarrow> normalizeTagPairs pairs | None \<Rightarrow> [])))"

definition withEventDistTag ::
  "(string \<times> string) list \<Rightarrow> string \<Rightarrow> (string \<times> string) list parsed" where
  "withEventDistTag tags input =
     (case NewOptionalDistName input of
        Inl e \<Rightarrow> Inl (NewProtocolError ErrorInvalidEvent ''invalid dist'')
      | Inr dist \<Rightarrow> Inr (if \<not> DistName_HasValue dist then tags else put_tag ''dist'' (DistName_value dist) tags))"

definition eventTags ::
  "map_order \<Rightarrow> ProjectContext \<Rightarrow> rawEventPayload \<Rightarrow> (string \<times> string) list parsed" where
  "eventTags ord project payload =
     (let tags = parseTags ord (raw_Tags payload);
          clientIP = clientIPTag ord project payload tags
      in pbind (withEventDistTag (withoutClientIPTags tags) (raw_Dist payload)) (\<lambda>distTags.
         let tagged = (case clientIP of None \<Rightarrow> distTags | Some ip \<Rightarrow> put_tag ''client_ip'' ip distTags);
             serverName = TrimSpace (raw_ServerName payload)
         in Inr (if serverName \<noteq> [] then put_tag ''server_name'' serverName tagged else tagged)))"

subsection \<open>Times\<close>

definition parseTextTimestamp :: "string \<Rightarrow> TimePoint parsed" where
  "parseTextTimestamp input =
     (case parse_rfc3339nano input of
        None \<Rightarrow> Inl (NewProtocolError ErrorInvalidEvent ''invalid timestamp'')
      | Some instant \<Rightarrow> domain (NewTimePoint instant))"

definition parseTimestamp :: "RawMessage \<Rightarrow> TimePoint parsed" where
  "parseTimestamp payload =
     (case payload of
        None \<Rightarrow> Inl (NewProtocolError ErrorInvalidEvent ''timestamp is required'')
      | Some v \<Rightarrow>
          (case decode_text v [] of
             Some s \<Rightarrow> parseTextTimestamp s
           | None \<Rightarrow>
               (case decode_float v (Float64 False 0 (-1074)) of
                  None \<Rightarrow> Inl (NewProtocolError ErrorInvalidEvent ''invalid timestamp'')
                | Some seconds \<Rightarrow>
                    domain (NewTimePoint (unix_epoch + float_times_to_int64 seconds 1000000000)))))"

text \<open>\<open>Time.Sub\<close> saturates at the ends of the \<open>int64\<close> range.\<close>

definition time_Sub :: "gotime \<Rightarrow> gotime \<Rightarrow> duration" where
  "time_Sub t u = max (- (2 ^ 63)) (min (2 ^ 63 - 1) (t - u))"

subsection \<open>Exceptions and messages\<close>

definition exceptionValues :: "RawMessage \<Rightarrow> rawException" where
  "exceptionValues payload =
     (case payload of
        None \<Rightarrow> \<lparr>rex_Values = []\<rparr>
      | Some v \<Rightarrow>
          (let object = decode_struct rawException_fields v \<lparr>rex_Values = []\<rparr> in
           case object of
             Some x \<Rightarrow>
               if rex_Values x \<noteq> [] then x
               else \<lparr>rex_Values = (case decode_exception_values v [] of Some xs \<Rightarrow> xs | None \<Rightarrow> [])\<rparr>
           | None \<Rightarrow> \<lparr>rex_Values = (case decode_exception_values v [] of Some xs \<Rightarrow> xs | None \<Rightarrow> [])\<rparr>))"

definition selectedException :: "rawException \<Rightarrow> rawExceptionValue" where
  "selectedException exception =
     (if rex_Values exception = [] then no_exception_value else last (rex_Values exception))"

definition selectedInAppFrame :: "rawFrame list \<Rightarrow> rawFrame option" where
  "selectedInAppFrame frames = List.find (\<lambda>frame. rf_InApp frame = Some True) (rev frames)"

definition selectedFrame :: "rawStacktrace \<Rightarrow> rawFrame" where
  "selectedFrame stacktrace =
     (case selectedInAppFrame (rst_Frames stacktrace) of
        Some frame \<Rightarrow> frame
      | None \<Rightarrow> if rst_Frames stacktrace = [] then no_frame else last (rst_Frames stacktrace))"

definition frameFilename :: "rawFrame \<Rightarrow> string" where
  "frameFilename frame = (if TrimSpace (rf_Filename frame) \<noteq> [] then rf_Filename frame else rf_AbsPath frame)"

definition messageText :: "RawMessage \<Rightarrow> string" where
  "messageText payload =
     (case payload of
        None \<Rightarrow> []
      | Some v \<Rightarrow>
          (case decode_text v [] of
             Some s \<Rightarrow> s
           | None \<Rightarrow> (case decode_struct [(''message'', decode_text)] v [] of Some s \<Rightarrow> s | None \<Rightarrow> [])))"

definition normalizeFingerprint :: "any list \<Rightarrow> string list" where
  "normalizeFingerprint xs =
     filter (\<lambda>s. s \<noteq> []) (map (\<lambda>x. TrimSpace (Sprint x)) (filter (\<lambda>x. x \<noteq> NilAny) xs))"

subsection \<open>Kind, level and title\<close>

definition eventKind :: "string \<Rightarrow> rawEventPayload \<Rightarrow> EventKind" where
  "eventKind itemType payload =
     (if itemType = ''transaction'' \<or> raw_Type payload = ''transaction'' then EventKindTransaction
      else if 0 < length (rex_Values (exceptionValues (raw_Exception payload))) then EventKindError
      else EventKindDefault)"

definition eventLevel :: "EventKind \<Rightarrow> string \<Rightarrow> EventLevel" where
  "eventLevel kind input =
     (if input = [] \<and> kind = EventKindTransaction then EventLevelInfo
      else if input = [] then EventLevelError
      else (case NewEventLevel input of Inl e \<Rightarrow> EventLevelError | Inr level \<Rightarrow> level))"

definition titleCandidates :: "EventKind \<Rightarrow> rawEventPayload \<Rightarrow> string list" where
  "titleCandidates kind payload =
     (if kind = EventKindError then
        let exception = selectedException (exceptionValues (raw_Exception payload));
            exceptionTitle = TrimSpace (rx_Type exception @ '': '' @ rx_Value exception)
        in [exceptionTitle, rx_Type exception, messageText (raw_Message payload),
            rle_Message (raw_Logentry payload), raw_Transaction payload, raw_Culprit payload]
      else if kind = EventKindTransaction then [raw_Transaction payload, raw_Culprit payload]
      else [messageText (raw_Message payload), rle_Message (raw_Logentry payload), raw_Transaction payload,
            raw_Culprit payload])"

fun first_title :: "string list \<Rightarrow> EventTitle option" where
  "first_title [] = None"
| "first_title (candidate # candidates) =
     (case NewEventTitle candidate of Inr title \<Rightarrow> Some title | Inl e \<Rightarrow> first_title candidates)"

definition eventTitle :: "EventKind \<Rightarrow> rawEventPayload \<Rightarrow> EventTitle parsed" where
  "eventTitle kind payload =
     (case first_title (titleCandidates kind payload) of
        Some title \<Rightarrow> Inr title
      | None \<Rightarrow>
          let fallback = (if kind = EventKindTransaction then ''<transaction>''
                else if kind = EventKindError then ''<unknown error>'' else ''<event>'')
          in domain (NewEventTitle fallback))"

definition defaultGroupingParts :: "EventKind \<Rightarrow> rawEventPayload \<Rightarrow> EventTitle \<Rightarrow> string list" where
  "defaultGroupingParts kind payload title =
     (if kind = EventKindError then
        let exception = selectedException (exceptionValues (raw_Exception payload));
            frame = selectedFrame (rx_Stacktrace exception)
        in [rx_Type exception, rx_Value exception, frameFilename frame, rf_Function frame, itoa (rf_Lineno frame)]
      else if kind = EventKindTransaction then [raw_Transaction payload]
      else [raw_Level payload, raw_Logger payload, messageText (raw_Message payload), raw_Transaction payload,
            EventTitle_value title])"

subsection \<open>Transactions\<close>

definition transactionTrace :: "rawTraceContext \<Rightarrow> TransactionTraceContext option parsed" where
  "transactionTrace raw =
     (let traceID = TrimSpace (rtc_TraceID raw); spanID = TrimSpace (rtc_SpanID raw);
          parentSpanID = TrimSpace (rtc_ParentSpanID raw)
      in if traceID = [] \<and> spanID = [] \<and> parentSpanID = [] then Inr None
         else (case NewTransactionTraceContext traceID spanID parentSpanID of
                 Inl e \<Rightarrow> Inl (NewProtocolError ErrorInvalidEvent ''invalid trace context'')
               | Inr trace \<Rightarrow> Inr (Some trace)))"

definition transactionDuration :: "RawMessage \<Rightarrow> TimePoint \<Rightarrow> duration parsed" where
  "transactionDuration startPayload stop =
     (if startPayload = None then Inr 0
      else (case parseTimestamp startPayload of
              Inl e \<Rightarrow> Inl (NewProtocolError ErrorInvalidEvent ''invalid start timestamp'')
            | Inr start \<Rightarrow>
                let duration = time_Sub (TimePoint_Time stop) (TimePoint_Time start)
                in if duration < 0
                   then Inl (NewProtocolError ErrorInvalidEvent ''transaction duration is negative'')
                   else Inr duration))"

definition parsed_transactionName :: "rawEventPayload \<Rightarrow> EventTitle \<Rightarrow> string" where
  "parsed_transactionName payload title =
     (if TrimSpace (raw_Transaction payload) \<noteq> [] then TrimSpace (raw_Transaction payload)
      else EventTitle_value title)"

definition spanDuration :: "rawSpan \<Rightarrow> duration option" where
  "spanDuration raw =
     (if rsp_StartTime raw = None \<or> rsp_Timestamp raw = None then Some 0
      else (case parseTimestamp (rsp_StartTime raw) of
              Inl e \<Rightarrow> None
            | Inr start \<Rightarrow>
                (case parseTimestamp (rsp_Timestamp raw) of
                   Inl e \<Rightarrow> None
                 | Inr stop \<Rightarrow>
                     let duration = time_Sub (TimePoint_Time stop) (TimePoint_Time start)
                     in if duration < 0 then None else Some duration)))"

definition buildTransactionSpan :: "rawSpan \<Rightarrow> TransactionSpan option" where
  "buildTransactionSpan raw =
     (case spanDuration raw of
        None \<Rightarrow> None
      | Some duration \<Rightarrow>
          (case NewTransactionSpan (rsp_SpanID raw) (rsp_ParentSpanID raw) (rsp_Operation raw)
                  (rsp_Description raw) duration (rsp_Status raw) of
             Inl e \<Rightarrow> None
           | Inr span \<Rightarrow> Some span))"

definition transactionSpans :: "rawSpan list \<Rightarrow> TransactionSpan list" where
  "transactionSpans rawSpans = List.map_filter buildTransactionSpan rawSpans"

definition transactionData ::
  "EventKind \<Rightarrow> rawEventPayload \<Rightarrow> EventTitle \<Rightarrow> TimePoint \<Rightarrow> TransactionData parsed" where
  "transactionData kind payload title occurredAt =
     (if kind \<noteq> EventKindTransaction then Inr zero_transaction else
      pbind (transactionDuration (raw_StartTime payload) occurredAt) (\<lambda>duration.
      pbind (transactionTrace (rc_Trace (raw_Contexts payload))) (\<lambda>traceState.
        let spans = transactionSpans (raw_Spans payload); name = parsed_transactionName payload title;
            operation = rtc_Operation (rc_Trace (raw_Contexts payload));
            status = rtc_Status (rc_Trace (raw_Contexts payload))
        in (case traceState of
              Some trace \<Rightarrow> domain (NewTransactionDataWithTrace name operation duration status trace spans)
            | None \<Rightarrow> domain (NewTransactionData name operation duration status spans)))))"

subsection \<open>JavaScript frames\<close>

definition isJsPlatform :: "string \<Rightarrow> bool" where
  "isJsPlatform platform =
     (let normalized = ToLower (TrimSpace platform) in normalized = ''javascript'' \<or> normalized = ''node'')"

definition buildJsStacktraceFrame :: "rawFrame \<Rightarrow> JsStacktraceFrame option" where
  "buildJsStacktraceFrame frame =
     (let absPath = (if TrimSpace (rf_AbsPath frame) = [] then TrimSpace (rf_Filename frame)
                     else TrimSpace (rf_AbsPath frame))
      in if absPath = [] then None
         else if rf_Lineno frame < 1 then None
         else (case NewUnresolvedJsStacktraceFrame absPath (TrimSpace (rf_Function frame)) (rf_Lineno frame)
                      (max (rf_Colno frame) 0) of
                 Inl e \<Rightarrow> None
               | Inr built \<Rightarrow> Some built))"

definition exception_frames :: "rawException \<Rightarrow> rawFrame list" where
  "exception_frames exception = concat (map (\<lambda>x. rst_Frames (rx_Stacktrace x)) (rex_Values exception))"

definition jsStacktraceFrames :: "EventKind \<Rightarrow> rawEventPayload \<Rightarrow> JsStacktraceFrame list" where
  "jsStacktraceFrames kind payload =
     (if kind \<noteq> EventKindError then []
      else if \<not> isJsPlatform (raw_Platform payload) then []
      else List.map_filter buildJsStacktraceFrame (exception_frames (exceptionValues (raw_Exception payload))))"

subsection \<open>Native modules and frames\<close>

definition parseAddressText :: "string \<Rightarrow> u64 option" where
  "parseAddressText input =
     (let address = TrimPrefix (TrimPrefix (TrimSpace input) ''0x'') ''0X''
      in if address = [] then None else ParseUint16 address)"

definition parseJSONAddress :: "RawMessage \<Rightarrow> u64 option" where
  "parseJSONAddress payload =
     (case payload of
        None \<Rightarrow> None
      | Some v \<Rightarrow>
          (case decode_text v [] of
             Some s \<Rightarrow> parseAddressText s
           | None \<Rightarrow> map_option of_nat (decode_uint v 0)))"

definition buildNativeModule :: "rawDebugImage \<Rightarrow> NativeModule option" where
  "buildNativeModule img =
     (case NewDebugIdentifier (rdi_DebugID img) of
        Inl e \<Rightarrow> None
      | Inr debugID \<Rightarrow>
          let imageAddr = (case parseJSONAddress (rdi_ImageAddr img) of None \<Rightarrow> 0 | Some a \<Rightarrow> a);
              imageSize = (case parseJSONAddress (rdi_ImageSize img) of None \<Rightarrow> 0 | Some a \<Rightarrow> a)
          in (case NewNativeModule debugID (rdi_CodeFile img) imageAddr imageSize of
                Inl e \<Rightarrow> None
              | Inr module \<Rightarrow> Some module))"

definition nativeModules :: "rawEventPayload \<Rightarrow> NativeModule list" where
  "nativeModules payload = List.map_filter buildNativeModule (rdm_Images (raw_DebugMeta payload))"

definition nativeModuleForPackage :: "string \<Rightarrow> NativeModule list \<Rightarrow> NativeModule option" where
  "nativeModuleForPackage pkg modules =
     (if TrimSpace pkg = [] then None else List.find (\<lambda>m. nm_codeFile m = TrimSpace pkg) modules)"

definition nativeModuleContainsInstructionAddr :: "NativeModule \<Rightarrow> u64 \<Rightarrow> bool" where
  "nativeModuleContainsInstructionAddr m instructionAddr =
     (if instructionAddr < nm_imageAddr m then False
      else if nm_imageSize m = 0 then instructionAddr = nm_imageAddr m
      else instructionAddr - nm_imageAddr m < nm_imageSize m)"

definition nativeModuleForInstructionAddr :: "u64 \<Rightarrow> NativeModule list \<Rightarrow> NativeModule option" where
  "nativeModuleForInstructionAddr instructionAddr modules =
     List.find (\<lambda>m. nativeModuleContainsInstructionAddr m instructionAddr) modules"

definition nativeFrameDebugID :: "rawFrame \<Rightarrow> NativeModule list \<Rightarrow> u64 \<Rightarrow> DebugIdentifier option" where
  "nativeFrameDebugID frame modules instructionAddr =
     (case NewDebugIdentifier (rf_DebugID frame) of
        Inr debugID \<Rightarrow> Some debugID
      | Inl e \<Rightarrow>
          (case nativeModuleForPackage (rf_Package frame) modules of
             Some module \<Rightarrow> Some (nm_debugID module)
           | None \<Rightarrow> map_option nm_debugID (nativeModuleForInstructionAddr instructionAddr modules)))"

definition buildNativeFrame :: "rawFrame \<Rightarrow> NativeModule list \<Rightarrow> NativeFrame option" where
  "buildNativeFrame frame modules =
     (case parseJSONAddress (rf_InstructionAddr frame) of
        None \<Rightarrow> None
      | Some instructionAddr \<Rightarrow>
          (case (case nativeFrameDebugID frame modules instructionAddr of
                   Some debugID \<Rightarrow>
                     NewNativeFrameWithModule instructionAddr debugID (rf_Function frame) (rf_Package frame)
                 | None \<Rightarrow> NewNativeFrame instructionAddr (rf_Function frame) (rf_Package frame)) of
             Inl e \<Rightarrow> None
           | Inr built \<Rightarrow> Some built))"

definition nativeStacktraceFrames :: "EventKind \<Rightarrow> rawEventPayload \<Rightarrow> NativeFrame list" where
  "nativeStacktraceFrames kind payload =
     (if kind \<noteq> EventKindError then []
      else List.map_filter (\<lambda>raw. buildNativeFrame raw (nativeModules payload))
        (exception_frames (exceptionValues (raw_Exception payload))))"

subsection \<open>Event payloads\<close>

definition payload_event ::
  "map_order \<Rightarrow> ProjectContext \<Rightarrow> TimePoint \<Rightarrow> string \<Rightarrow> rawEventPayload \<Rightarrow> CanonicalEvent parsed" where
  "payload_event ord project receivedAt itemType raw =
     (case NewEventID (raw_EventID raw) of
        Inl e \<Rightarrow> Inl (NewProtocolError ErrorInvalidEvent ''invalid event id'')
      | Inr eventID \<Rightarrow>
          pbind (parseTimestamp (raw_Timestamp raw)) (\<lambda>occurredAt.
          let kind = eventKind itemType raw; level = eventLevel kind (raw_Level raw) in
          pbind (eventTitle kind raw) (\<lambda>title.
          pbind (eventTags ord project raw) (\<lambda>tags.
          pbind (transactionData kind raw title occurredAt) (\<lambda>transaction.
            domain (NewCanonicalEvent
              \<lparr>p_OrganizationID = pc_organizationID project, p_ProjectID = pc_projectID project,
               p_EventID = eventID, p_OccurredAt = occurredAt, p_ReceivedAt = receivedAt, p_Kind = kind,
               p_Level = level, p_Title = title, p_Platform = raw_Platform raw, p_Release = raw_Release raw,
               p_Environment = raw_Environment raw, p_Tags = range_entries ord ''normalizeTags'' tags,
               p_DefaultGroupingParts = defaultGroupingParts kind raw title,
               p_ExplicitFingerprint = normalizeFingerprint (raw_Fingerprint raw), p_Attachments = [],
               p_JsStacktrace = jsStacktraceFrames kind raw, p_NativeModules = nativeModules raw,
               p_NativeFrames = nativeStacktraceFrames kind raw, p_Transaction = transaction\<rparr>))))))"

definition parseEventPayload ::
  "map_order \<Rightarrow> ProjectContext \<Rightarrow> TimePoint \<Rightarrow> string \<Rightarrow> string \<Rightarrow> string \<Rightarrow> CanonicalEvent parsed" where
  "parseEventPayload ord project receivedAt payload itemType eventIDOverride =
     (case Unmarshal (decode_struct rawEventPayload_fields) no_payload payload of
        None \<Rightarrow> Inl (NewProtocolError ErrorInvalidEvent ''invalid event json'')
      | Some raw \<Rightarrow>
          payload_event ord project receivedAt itemType
            (if eventIDOverride \<noteq> [] then raw\<lparr>raw_EventID := eventIDOverride\<rparr> else raw))"

definition ParseStoreEvent ::
  "map_order \<Rightarrow> ProjectContext \<Rightarrow> TimePoint \<Rightarrow> string \<Rightarrow> CanonicalEvent parsed" where
  "ParseStoreEvent ord project receivedAt payload =
     parseEventPayload ord project receivedAt payload ''event'' []"

end
