(* ===== verification/LogItems.thy ===== *)
theory LogItems
  imports LogRecords StoreEvents
begin

text \<open>
  \<open>internal/adapters/sentryprotocol/logs.go\<close>: the log items of an envelope, in the SDK's format and
  in that of OpenTelemetry, become log records. A function of the source over a \<open>json.RawMessage\<close> takes
  the JSON value of the text.
\<close>

subsection \<open>The JSON of log items\<close>

type_synonym raw_map = "(string \<times> json_value) list"

definition decode_raw_map :: "raw_map decoder" where
  "decode_raw_map = decode_map Some"

record rawSentryLog =
  rsl_Timestamp :: RawMessage
  rsl_ObservedTimestamp :: RawMessage
  rsl_Level :: string
  rsl_Severity :: string
  rsl_SeverityText :: string
  rsl_Body :: RawMessage
  rsl_Message :: RawMessage
  rsl_Logger :: string
  rsl_TraceID :: string
  rsl_SpanID :: string
  rsl_Release :: string
  rsl_Environment :: string
  rsl_Attributes :: raw_map
  rsl_Resource :: raw_map
  rsl_ResourceAttributes :: raw_map
  rsl_Contexts :: rawContexts

definition no_log :: rawSentryLog where
  "no_log = \<lparr>rsl_Timestamp = None, rsl_ObservedTimestamp = None, rsl_Level = [], rsl_Severity = [],
     rsl_SeverityText = [], rsl_Body = None, rsl_Message = None, rsl_Logger = [], rsl_TraceID = [], rsl_SpanID = [],
     rsl_Release = [], rsl_Environment = [], rsl_Attributes = [], rsl_Resource = [], rsl_ResourceAttributes = [],
     rsl_Contexts = no_contexts\<rparr>"

definition rawSentryLog_fields :: "rawSentryLog field list" where
  "rawSentryLog_fields =
     [(''timestamp'', into decode_raw rsl_Timestamp (\<lambda>x. rsl_Timestamp_update (\<lambda>_. x))),
      (''observed_timestamp'', into decode_raw rsl_ObservedTimestamp (\<lambda>x. rsl_ObservedTimestamp_update (\<lambda>_. x))),
      (''level'', into decode_text rsl_Level (\<lambda>x. rsl_Level_update (\<lambda>_. x))),
      (''severity'', into decode_text rsl_Severity (\<lambda>x. rsl_Severity_update (\<lambda>_. x))),
      (''severity_text'', into decode_text rsl_SeverityText (\<lambda>x. rsl_SeverityText_update (\<lambda>_. x))),
      (''body'', into decode_raw rsl_Body (\<lambda>x. rsl_Body_update (\<lambda>_. x))),
      (''message'', into decode_raw rsl_Message (\<lambda>x. rsl_Message_update (\<lambda>_. x))),
      (''logger'', into decode_text rsl_Logger (\<lambda>x. rsl_Logger_update (\<lambda>_. x))),
      (''trace_id'', into decode_text rsl_TraceID (\<lambda>x. rsl_TraceID_update (\<lambda>_. x))),
      (''span_id'', into decode_text rsl_SpanID (\<lambda>x. rsl_SpanID_update (\<lambda>_. x))),
      (''release'', into decode_text rsl_Release (\<lambda>x. rsl_Release_update (\<lambda>_. x))),
      (''environment'', into decode_text rsl_Environment (\<lambda>x. rsl_Environment_update (\<lambda>_. x))),
      (''attributes'', into decode_raw_map rsl_Attributes (\<lambda>x. rsl_Attributes_update (\<lambda>_. x))),
      (''resource'', into decode_raw_map rsl_Resource (\<lambda>x. rsl_Resource_update (\<lambda>_. x))),
      (''resource_attributes'', into decode_raw_map rsl_ResourceAttributes (\<lambda>x. rsl_ResourceAttributes_update (\<lambda>_. x))),
      (''contexts'', into (decode_struct rawContexts_fields) rsl_Contexts (\<lambda>x. rsl_Contexts_update (\<lambda>_. x)))]"

definition decode_logs :: "rawSentryLog list decoder" where
  "decode_logs = decode_slice (decode_struct rawSentryLog_fields) no_log"

record rawSentryLogBatch =
  rlb_Items :: "rawSentryLog list"
  rlb_Logs :: "rawSentryLog list"

definition rawSentryLogBatch_fields :: "rawSentryLogBatch field list" where
  "rawSentryLogBatch_fields =
     [(''items'', into decode_logs rlb_Items (\<lambda>x. rlb_Items_update (\<lambda>_. x))),
      (''logs'', into decode_logs rlb_Logs (\<lambda>x. rlb_Logs_update (\<lambda>_. x)))]"

record rawOTLPAttribute =
  roa_Key :: string
  roa_Value :: RawMessage

definition rawOTLPAttribute_fields :: "rawOTLPAttribute field list" where
  "rawOTLPAttribute_fields =
     [(''key'', into decode_text roa_Key (\<lambda>x. roa_Key_update (\<lambda>_. x))),
      (''value'', into decode_raw roa_Value (\<lambda>x. roa_Value_update (\<lambda>_. x)))]"

definition decode_otlp_attributes :: "rawOTLPAttribute list decoder" where
  "decode_otlp_attributes = decode_slice (decode_struct rawOTLPAttribute_fields) \<lparr>roa_Key = [], roa_Value = None\<rparr>"

record rawOTLPLogRecord =
  rol_TimeUnixNano :: RawMessage
  rol_ObservedTimeUnixNano :: RawMessage
  rol_SeverityText :: string
  rol_SeverityNumber :: int
  rol_Body :: RawMessage
  rol_Attributes :: "rawOTLPAttribute list"
  rol_TraceID :: string
  rol_SpanID :: string

definition no_otlp_record :: rawOTLPLogRecord where
  "no_otlp_record = \<lparr>rol_TimeUnixNano = None, rol_ObservedTimeUnixNano = None, rol_SeverityText = [],
     rol_SeverityNumber = 0, rol_Body = None, rol_Attributes = [], rol_TraceID = [], rol_SpanID = []\<rparr>"

definition rawOTLPLogRecord_fields :: "rawOTLPLogRecord field list" where
  "rawOTLPLogRecord_fields =
     [(''timeUnixNano'', into decode_raw rol_TimeUnixNano (\<lambda>x. rol_TimeUnixNano_update (\<lambda>_. x))),
      (''observedTimeUnixNano'', into decode_raw rol_ObservedTimeUnixNano (\<lambda>x. rol_ObservedTimeUnixNano_update (\<lambda>_. x))),
      (''severityText'', into decode_text rol_SeverityText (\<lambda>x. rol_SeverityText_update (\<lambda>_. x))),
      (''severityNumber'', into decode_int rol_SeverityNumber (\<lambda>x. rol_SeverityNumber_update (\<lambda>_. x))),
      (''body'', into decode_raw rol_Body (\<lambda>x. rol_Body_update (\<lambda>_. x))),
      (''attributes'', into decode_otlp_attributes rol_Attributes (\<lambda>x. rol_Attributes_update (\<lambda>_. x))),
      (''traceId'', into decode_text rol_TraceID (\<lambda>x. rol_TraceID_update (\<lambda>_. x))),
      (''spanId'', into decode_text rol_SpanID (\<lambda>x. rol_SpanID_update (\<lambda>_. x)))]"

record rawOTLPScope =
  ros_Name :: string

definition rawOTLPScope_fields :: "rawOTLPScope field list" where
  "rawOTLPScope_fields = [(''name'', into decode_text ros_Name (\<lambda>x. ros_Name_update (\<lambda>_. x)))]"

record rawOTLPScopeLogs =
  rosl_Scope :: rawOTLPScope
  rosl_LogRecords :: "rawOTLPLogRecord list"

definition rawOTLPScopeLogs_fields :: "rawOTLPScopeLogs field list" where
  "rawOTLPScopeLogs_fields =
     [(''scope'', into (decode_struct rawOTLPScope_fields) rosl_Scope (\<lambda>x. rosl_Scope_update (\<lambda>_. x))),
      (''logRecords'', into (decode_slice (decode_struct rawOTLPLogRecord_fields) no_otlp_record) rosl_LogRecords
         (\<lambda>x. rosl_LogRecords_update (\<lambda>_. x)))]"

record rawOTLPResource =
  ror_Attributes :: "rawOTLPAttribute list"

definition rawOTLPResource_fields :: "rawOTLPResource field list" where
  "rawOTLPResource_fields =
     [(''attributes'', into decode_otlp_attributes ror_Attributes (\<lambda>x. ror_Attributes_update (\<lambda>_. x)))]"

record rawOTLPResourceLogs =
  rorl_Resource :: rawOTLPResource
  rorl_ScopeLogs :: "rawOTLPScopeLogs list"

definition rawOTLPResourceLogs_fields :: "rawOTLPResourceLogs field list" where
  "rawOTLPResourceLogs_fields =
     [(''resource'', into (decode_struct rawOTLPResource_fields) rorl_Resource (\<lambda>x. rorl_Resource_update (\<lambda>_. x))),
      (''scopeLogs'', into (decode_slice (decode_struct rawOTLPScopeLogs_fields)
          \<lparr>rosl_Scope = \<lparr>ros_Name = []\<rparr>, rosl_LogRecords = []\<rparr>) rorl_ScopeLogs (\<lambda>x. rorl_ScopeLogs_update (\<lambda>_. x)))]"

record rawOTLPLogs =
  rolg_ResourceLogs :: "rawOTLPResourceLogs list"

definition rawOTLPLogs_fields :: "rawOTLPLogs field list" where
  "rawOTLPLogs_fields =
     [(''resourceLogs'', into (decode_slice (decode_struct rawOTLPResourceLogs_fields)
          \<lparr>rorl_Resource = \<lparr>ror_Attributes = []\<rparr>, rorl_ScopeLogs = []\<rparr>) rolg_ResourceLogs
          (\<lambda>x. rolg_ResourceLogs_update (\<lambda>_. x)))]"

subsection \<open>Values as text\<close>

definition FormatBool :: "bool \<Rightarrow> string" where
  "FormatBool b = (if b then ''true'' else ''false'')"

definition compactJSON :: "json_value \<Rightarrow> string" where
  "compactJSON payload = (case decode_any payload of None \<Rightarrow> [] | Some x \<Rightarrow> Marshal_any x)"

text \<open>\<open>typedAnyValueString\<close>, over the function it calls back for the first of the keys that is present.\<close>

definition typedAnyValueString :: "(json_value \<Rightarrow> string) \<Rightarrow> raw_map \<Rightarrow> string" where
  "typedAnyValueString anyString m =
     (case List.find (\<lambda>key. map_of m key \<noteq> None)
             [''stringValue'', ''intValue'', ''doubleValue'', ''boolValue'', ''bytesValue''] of
        Some key \<Rightarrow> anyString (the (map_of m key))
      | None \<Rightarrow>
          (case map_of m ''kvlistValue'' of
             Some raw \<Rightarrow> compactJSON raw
           | None \<Rightarrow> (case map_of m ''arrayValue'' of Some raw \<Rightarrow> compactJSON raw | None \<Rightarrow> [])))"

lemma typedAnyValueString_cong [fundef_cong]:
  assumes "m = m'" and "\<And>key x. map_of m' key = Some x \<Longrightarrow> f x = g x"
  shows "typedAnyValueString f m = typedAnyValueString g m'"
  using assms by (auto simp: typedAnyValueString_def split: option.split dest!: find_SomeD)

lemma decode_entries_members:
  "decode_entries Some ms m = Some m' \<Longrightarrow> map_of m' key = Some x \<Longrightarrow> map_of m key = Some x \<or> (key, x) \<in> set ms"
  by (induction ms arbitrary: m) (fastforce simp: update_conv split: prod.splits if_split_asm)+

lemma decode_raw_map_smaller:
  assumes "decode_raw_map v [] = Some m" and "map_of m key = Some x"
  shows "size x < size v"
proof -
  obtain ms where v: "v = ObjectValue ms"
    using assms by (cases v) (auto simp: decode_raw_map_def decode_map_def)
  then have "(key, x) \<in> set ms"
    using assms decode_entries_members [of ms "[]" m key x] by (simp add: decode_raw_map_def decode_map_def)
  then show ?thesis using size_member [of "(key, x)" ms] by (simp add: v)
qed

text \<open>\<open>anyValueString\<close> of a value that is present: \<open>json.Number\<close> holds the literal of a number.\<close>

function any_value_string :: "json_value \<Rightarrow> string" where
  "any_value_string v =
     (case decode_text v [] of
        Some s \<Rightarrow> TrimSpace s
      | None \<Rightarrow>
          (case v of
             NumberValue n \<Rightarrow> TrimSpace n
           | _ \<Rightarrow>
               (case decode_bool v False of
                  Some boolean \<Rightarrow> FormatBool boolean
                | None \<Rightarrow>
                    (case decode_raw_map v [] of
                       Some m \<Rightarrow> typedAnyValueString any_value_string m
                     | None \<Rightarrow> []))))"
  by pat_completeness auto
termination
  by (relation "measure size") (auto dest: decode_raw_map_smaller)

declare any_value_string.simps [simp del]

definition anyValueString :: "RawMessage \<Rightarrow> string" where
  "anyValueString payload = (case payload of None \<Rightarrow> [] | Some v \<Rightarrow> any_value_string v)"

definition attributeValueString :: "json_value \<Rightarrow> string" where
  "attributeValueString payload =
     (case decode_struct [(''value'', decode_raw)] payload None of
        Some (Some v) \<Rightarrow> anyValueString (Some v)
      | _ \<Rightarrow> anyValueString (Some payload))"

fun firstNonEmptyString :: "string list \<Rightarrow> string" where
  "firstNonEmptyString [] = []"
| "firstNonEmptyString (value # vs) = (if TrimSpace value \<noteq> [] then TrimSpace value else firstNonEmptyString vs)"

definition jsonMessageText :: "RawMessage \<Rightarrow> string" where
  "jsonMessageText payload =
     (if payload = None then []
      else if anyValueString payload \<noteq> [] then anyValueString payload else messageText payload)"

subsection \<open>Attributes\<close>

type_synonym attributes = "(string \<times> string) list"

definition attribute :: "attributes \<Rightarrow> string \<Rightarrow> string" where
  "attribute m key = (case map_of m key of None \<Rightarrow> [] | Some v \<Rightarrow> v)"

definition jsonObjectToAttributes :: "map_order \<Rightarrow> raw_map \<Rightarrow> attributes" where
  "jsonObjectToAttributes ord object =
     fold (\<lambda>(key, raw) m.
       let value = attributeValueString raw
       in if TrimSpace key = [] \<or> value = [] then m else AList.update (TrimSpace key) value m)
     (range_entries ord ''jsonObjectToAttributes'' object) []"

definition otlpAttributes :: "rawOTLPAttribute list \<Rightarrow> attributes" where
  "otlpAttributes as =
     fold (\<lambda>a m.
       let key = TrimSpace (roa_Key a); value = anyValueString (roa_Value a)
       in if key = [] \<or> value = [] then m else AList.update key value m) as []"

text \<open>The order of the two loops makes no difference: each writes distinct keys.\<close>

definition mergeAttributes :: "attributes \<Rightarrow> attributes \<Rightarrow> attributes" where
  "mergeAttributes as bs = fold (\<lambda>(key, value). AList.update key value) bs as"

subsection \<open>Times, severities and bodies\<close>

definition logTimestamp :: "RawMessage \<Rightarrow> RawMessage \<Rightarrow> TimePoint \<Rightarrow> TimePoint parsed" where
  "logTimestamp timestamp observed fallback =
     (if timestamp \<noteq> None then parseTimestamp timestamp
      else if observed \<noteq> None then parseTimestamp observed
      else Inr fallback)"

definition parseUnixNanoText :: "string \<Rightarrow> TimePoint parsed" where
  "parseUnixNanoText input =
     (case ParseInt10 (TrimSpace input) of
        None \<Rightarrow> Inl (NewProtocolError ErrorInvalidEnvelope ''invalid otel log timestamp'')
      | Some nanos \<Rightarrow> domain (NewTimePoint (unix_epoch + nanos)))"

definition unixNanoTimePoint :: "json_value \<Rightarrow> TimePoint parsed" where
  "unixNanoTimePoint payload =
     (case decode_text payload [] of
        Some s \<Rightarrow> parseUnixNanoText s
      | None \<Rightarrow>
          (case decode_int payload 0 of
             None \<Rightarrow> Inl (NewProtocolError ErrorInvalidEnvelope ''invalid otel log timestamp'')
           | Some number \<Rightarrow> domain (NewTimePoint (unix_epoch + number))))"

definition otlpLogTimestamp :: "rawOTLPLogRecord \<Rightarrow> TimePoint \<Rightarrow> TimePoint parsed" where
  "otlpLogTimestamp raw fallback =
     (case rol_TimeUnixNano raw of
        Some v \<Rightarrow> unixNanoTimePoint v
      | None \<Rightarrow> (case rol_ObservedTimeUnixNano raw of Some v \<Rightarrow> unixNanoTimePoint v | None \<Rightarrow> Inr fallback))"

definition logSeverity :: "string \<Rightarrow> LogSeverity parsed" where
  "logSeverity input =
     (case NewLogSeverity input of
        Inl e \<Rightarrow> Inl (NewProtocolError ErrorInvalidEnvelope ''invalid log severity'') | Inr severity \<Rightarrow> Inr severity)"

definition severityTextFromNumber :: "int \<Rightarrow> string" where
  "severityTextFromNumber value =
     (if 21 \<le> value then ''fatal'' else if 17 \<le> value then ''error'' else if 13 \<le> value then ''warning''
      else if 9 \<le> value then ''info'' else if 5 \<le> value then ''debug'' else if 1 \<le> value then ''trace''
      else ''info'')"

definition TrimRight_digits :: "string \<Rightarrow> string" where
  "TrimRight_digits s = rev (dropWhile digit_byte (rev s))"

definition otlpLogSeverity :: "rawOTLPLogRecord \<Rightarrow> LogSeverity parsed" where
  "otlpLogSeverity raw =
     (let value = TrimRight_digits (TrimSpace (rol_SeverityText raw))
      in if value \<noteq> [] then logSeverity value else logSeverity (severityTextFromNumber (rol_SeverityNumber raw)))"

definition sentryLogBody :: "rawSentryLog \<Rightarrow> attributes \<Rightarrow> string parsed" where
  "sentryLogBody raw as =
     (if jsonMessageText (rsl_Body raw) \<noteq> [] then Inr (jsonMessageText (rsl_Body raw))
      else if jsonMessageText (rsl_Message raw) \<noteq> [] then Inr (jsonMessageText (rsl_Message raw))
      else
        let s = firstNonEmptyString [attribute as ''body'', attribute as ''message'', attribute as ''sentry.message'']
        in if s \<noteq> [] then Inr s else Inl (NewProtocolError ErrorInvalidEnvelope ''log body is required''))"

subsection \<open>Records\<close>

definition sentryLogRecord :: "map_order \<Rightarrow> ProjectContext \<Rightarrow> TimePoint \<Rightarrow> rawSentryLog \<Rightarrow> LogRecord parsed" where
  "sentryLogRecord ord project receivedAt raw =
     (let as = jsonObjectToAttributes ord (rsl_Attributes raw);
          resourceAttributes = mergeAttributes (jsonObjectToAttributes ord (rsl_Resource raw))
            (jsonObjectToAttributes ord (rsl_ResourceAttributes raw))
      in pbind (logTimestamp (rsl_Timestamp raw) (rsl_ObservedTimestamp raw) receivedAt) (\<lambda>timestamp.
         pbind (logSeverity (firstNonEmptyString
                  [rsl_Level raw, rsl_Severity raw, rsl_SeverityText raw, attribute as ''level''])) (\<lambda>severity.
         pbind (sentryLogBody raw as) (\<lambda>body.
           domain (NewLogRecord ord
             \<lparr>lp_OrganizationID = pc_organizationID project, lp_ProjectID = pc_projectID project,
              lp_Timestamp = timestamp, lp_ReceivedAt = receivedAt, lp_Severity = severity, lp_Body = body,
              lp_Logger = firstNonEmptyString [rsl_Logger raw, attribute as ''logger'', attribute as ''logger.name''],
              lp_TraceID = firstNonEmptyString
                [rsl_TraceID raw, rtc_TraceID (rc_Trace (rsl_Contexts raw)), attribute as ''trace_id''],
              lp_SpanID = firstNonEmptyString
                [rsl_SpanID raw, rtc_SpanID (rc_Trace (rsl_Contexts raw)), attribute as ''span_id''],
              lp_Release = firstNonEmptyString
                [rsl_Release raw, attribute as ''sentry.release'', attribute as ''release''],
              lp_Environment = firstNonEmptyString
                [rsl_Environment raw, attribute as ''sentry.environment'', attribute as ''environment''],
              lp_ResourceAttributes = resourceAttributes, lp_Attributes = as\<rparr>)))))"

definition otlpLogRecord ::
  "map_order \<Rightarrow> ProjectContext \<Rightarrow> TimePoint \<Rightarrow> attributes \<Rightarrow> rawOTLPScope \<Rightarrow> rawOTLPLogRecord \<Rightarrow> LogRecord parsed" where
  "otlpLogRecord ord project receivedAt resourceAttributes scope raw =
     (let as = otlpAttributes (rol_Attributes raw)
      in pbind (otlpLogTimestamp raw receivedAt) (\<lambda>timestamp.
         pbind (otlpLogSeverity raw) (\<lambda>severity.
           domain (NewLogRecord ord
             \<lparr>lp_OrganizationID = pc_organizationID project, lp_ProjectID = pc_projectID project,
              lp_Timestamp = timestamp, lp_ReceivedAt = receivedAt, lp_Severity = severity,
              lp_Body = anyValueString (rol_Body raw),
              lp_Logger = firstNonEmptyString
                [ros_Name scope, attribute as ''logger.name'', attribute resourceAttributes ''service.name''],
              lp_TraceID = rol_TraceID raw, lp_SpanID = rol_SpanID raw,
              lp_Release = firstNonEmptyString
                [attribute as ''sentry.release'', attribute resourceAttributes ''service.version''],
              lp_Environment = firstNonEmptyString
                [attribute as ''sentry.environment'', attribute resourceAttributes ''deployment.environment''],
              lp_ResourceAttributes = resourceAttributes, lp_Attributes = as\<rparr>))))"

definition MaxLogRecordsPerItem :: nat where "MaxLogRecordsPerItem = 100"

definition parseSentryLogPayload :: "string \<Rightarrow> rawSentryLog list parsed" where
  "parseSentryLogPayload payload =
     (let batch = Unmarshal (decode_struct rawSentryLogBatch_fields) \<lparr>rlb_Items = [], rlb_Logs = []\<rparr> payload;
          batched = (case batch of None \<Rightarrow> [] | Some b \<Rightarrow> if rlb_Items b \<noteq> [] then rlb_Items b else rlb_Logs b);
          listed = (case Unmarshal decode_logs [] payload of None \<Rightarrow> [] | Some logs \<Rightarrow> logs)
      in if batched \<noteq> [] then Inr batched
         else if listed \<noteq> [] then Inr listed
         else (case Unmarshal (decode_struct rawSentryLog_fields) no_log payload of
                 None \<Rightarrow> Inl (NewProtocolError ErrorInvalidEnvelope ''invalid log json'')
               | Some single \<Rightarrow> Inr [single]))"

text \<open>The loop that builds a record of each raw record and returns at the first error.\<close>

fun parse_records :: "('a \<Rightarrow> LogRecord parsed) \<Rightarrow> 'a list \<Rightarrow> LogRecord list parsed" where
  "parse_records f [] = Inr []"
| "parse_records f (x # xs) = pbind (f x) (\<lambda>r. pbind (parse_records f xs) (\<lambda>rs. Inr (r # rs)))"

definition parseSentryLogItem :: "map_order \<Rightarrow> ProjectContext \<Rightarrow> TimePoint \<Rightarrow> string \<Rightarrow> LogRecord list parsed" where
  "parseSentryLogItem ord project receivedAt payload =
     pbind (parseSentryLogPayload payload) (\<lambda>rawLogs.
     if MaxLogRecordsPerItem < length rawLogs
     then Inl (NewProtocolError ErrorInvalidEnvelope ''too many log records'')
     else parse_records (sentryLogRecord ord project receivedAt) rawLogs)"

text \<open>The records of the three nested loops in their order, each with its resource and scope.\<close>

definition otlp_entries :: "rawOTLPLogs \<Rightarrow> (attributes \<times> rawOTLPScope \<times> rawOTLPLogRecord) list" where
  "otlp_entries raw =
     concat (map (\<lambda>resourceLogs.
       let resourceAttributes = otlpAttributes (ror_Attributes (rorl_Resource resourceLogs))
       in concat (map (\<lambda>scopeLogs. map (\<lambda>r. (resourceAttributes, rosl_Scope scopeLogs, r)) (rosl_LogRecords scopeLogs))
            (rorl_ScopeLogs resourceLogs)))
     (rolg_ResourceLogs raw))"

fun otlp_records ::
  "map_order \<Rightarrow> ProjectContext \<Rightarrow> TimePoint \<Rightarrow> LogRecord list \<Rightarrow>
   (attributes \<times> rawOTLPScope \<times> rawOTLPLogRecord) list \<Rightarrow> LogRecord list parsed" where
  "otlp_records ord project receivedAt records [] = Inr records"
| "otlp_records ord project receivedAt records ((resourceAttributes, scope, raw) # entries) =
     pbind (otlpLogRecord ord project receivedAt resourceAttributes scope raw) (\<lambda>record.
       if MaxLogRecordsPerItem < length (records @ [record])
       then Inl (NewProtocolError ErrorInvalidEnvelope ''too many log records'')
       else otlp_records ord project receivedAt (records @ [record]) entries)"

definition parseOTLPLogItem :: "map_order \<Rightarrow> ProjectContext \<Rightarrow> TimePoint \<Rightarrow> string \<Rightarrow> LogRecord list parsed" where
  "parseOTLPLogItem ord project receivedAt payload =
     (case Unmarshal (decode_struct rawOTLPLogs_fields) \<lparr>rolg_ResourceLogs = []\<rparr> payload of
        None \<Rightarrow> Inl (NewProtocolError ErrorInvalidEnvelope ''invalid otel log json'')
      | Some raw \<Rightarrow>
          pbind (otlp_records ord project receivedAt [] (otlp_entries raw)) (\<lambda>records.
            if records = [] then Inl (NewProtocolError ErrorInvalidEnvelope ''otel log records are required'')
            else Inr records))"

subsection \<open>Accepted items\<close>

text \<open>A record of the project, received at the given time.\<close>

definition project_log :: "ProjectContext \<Rightarrow> TimePoint \<Rightarrow> LogRecord \<Rightarrow> bool" where
  "project_log project receivedAt record \<longleftrightarrow>
     log_record_valid record \<and> log_organizationID record = pc_organizationID project \<and>
     log_projectID record = pc_projectID project \<and> log_receivedAt record = receivedAt"

lemma sentryLogRecord_project:
  "sentryLogRecord ord project receivedAt raw = Inr record \<Longrightarrow> project_log project receivedAt record"
  by (auto simp: sentryLogRecord_def Let_def result_simps project_log_def dest!: NewLogRecord_invariant)

lemma otlpLogRecord_project:
  "otlpLogRecord ord project receivedAt as scope raw = Inr record \<Longrightarrow> project_log project receivedAt record"
  by (auto simp: otlpLogRecord_def Let_def result_simps project_log_def dest!: NewLogRecord_invariant)

lemma parse_records_all:
  assumes "\<And>x r. f x = Inr r \<Longrightarrow> P r"
  shows "parse_records f xs = Inr rs \<Longrightarrow> length rs = length xs \<and> list_all P rs"
  by (induction xs arbitrary: rs) (auto simp: result_simps assms)

lemma parseSentryLogItem_records:
  assumes "parseSentryLogItem ord project receivedAt payload = Inr records"
  shows "length records \<le> MaxLogRecordsPerItem \<and> list_all (project_log project receivedAt) records"
proof -
  obtain rawLogs where rawLogs: "length rawLogs \<le> MaxLogRecordsPerItem"
      "parse_records (sentryLogRecord ord project receivedAt) rawLogs = Inr records"
    using assms by (auto simp: parseSentryLogItem_def result_simps linorder_not_less split: if_split_asm)
  then show ?thesis
    using parse_records_all [of "sentryLogRecord ord project receivedAt" "project_log project receivedAt" rawLogs records]
      sentryLogRecord_project by auto
qed

lemma otlp_records_all:
  "otlp_records ord project receivedAt records entries = Inr all_records \<Longrightarrow>
   length records \<le> MaxLogRecordsPerItem \<Longrightarrow> list_all (project_log project receivedAt) records \<Longrightarrow>
   length all_records \<le> MaxLogRecordsPerItem \<and> list_all (project_log project receivedAt) all_records"
  by (induction ord project receivedAt records entries rule: otlp_records.induct)
    (auto simp: result_simps otlpLogRecord_project split: if_split_asm)

lemma parseOTLPLogItem_records:
  assumes "parseOTLPLogItem ord project receivedAt payload = Inr records"
  shows "length records \<le> MaxLogRecordsPerItem \<and> list_all (project_log project receivedAt) records"
  using assms otlp_records_all [of ord project receivedAt "[]"]
  by (auto simp: parseOTLPLogItem_def result_simps split: option.split_asm if_split_asm)

end
