(* ===== verification/TimeText.thy ===== *)
theory TimeText
  imports TimeParse
begin

text \<open>
  The round trip of times: the text \<open>RFC3339Nano\<close> of an instant from 1 January 1 to 31 December
  9999 is parsed back to the instant.
\<close>

subsection \<open>Dates\<close>

lemma month_day_inverse:
  assumes "month_day lens k day = (m, d)" and "0 \<le> day" and "day < sum_list lens"
  shows "\<exists>i. m = k + int i \<and> i < length lens \<and> sum_list (take i lens) + (d - 1) = day \<and>
    1 \<le> d \<and> d \<le> lens ! i"
  using assms
proof (induction lens arbitrary: k day)
  case (Cons len lens)
  show ?case
  proof (cases "day < len")
    case True
    with Cons.prems show ?thesis by (intro exI [of _ 0]) auto
  next
    case False
    with Cons.prems obtain i where "m = k + 1 + int i" "i < length lens"
        "sum_list (take i lens) + (d - 1) = day - len" "1 \<le> d" "d \<le> lens ! i"
      using Cons.IH [of "k + 1" "day - len"] by auto
    then show ?thesis by (intro exI [of _ "Suc i"]) auto
  qed
qed simp

lemma year_length: "sum_list (month_lengths leap) = (if leap then 366 else 365)"
  by (simp add: month_lengths_def)

lemma days_before_year_split:
  assumes "0 \<le> b" "b \<le> 3" "0 \<le> c" "c \<le> 24" "0 \<le> e" "e \<le> 3"
  shows "days_before_year (400 * a + 100 * b + 4 * c + e + 1) = 146097 * a + 36524 * b + 1461 * c + 365 * e"
proof -
  have "(400 * a + 100 * b + 4 * c + e) div 4 = 100 * a + 25 * b + c"
    by (rule int_div_pos_eq [where r = e]) (use assms in \<open>simp_all add: algebra_simps\<close>)
  moreover have "(400 * a + 100 * b + 4 * c + e) div 100 = 4 * a + b"
    by (rule int_div_pos_eq [where r = "4 * c + e"]) (use assms in \<open>simp_all add: algebra_simps\<close>)
  moreover have "(400 * a + 100 * b + 4 * c + e) div 400 = a"
    by (rule int_div_pos_eq [where r = "100 * b + 4 * c + e"]) (use assms in \<open>simp_all add: algebra_simps\<close>)
  ultimately show ?thesis by (simp add: days_before_year_def)
qed

lemma min_div_rest:
  fixes x n k :: int
  assumes "0 \<le> x" "0 < n" "0 \<le> k" "q = min k (x div n)" "r = x - q * n"
  shows "0 \<le> q" "q \<le> k" "q < k \<Longrightarrow> r < n" "0 \<le> r" "x < (k + 1) * n + j \<Longrightarrow> 0 \<le> j \<Longrightarrow> r < n + j"
proof -
  have dm: "x = n * (x div n) + x mod n" "0 \<le> x mod n" "x mod n < n" "0 \<le> x div n"
    using assms by (simp_all add: pos_imp_zdiv_nonneg_iff)
  show "0 \<le> q" "q \<le> k" using dm assms by simp_all
  show "r < n" if "q < k"
  proof -
    have "q = x div n" using that assms(4) by auto
    then have "r = x mod n" using assms(5) by (simp add: minus_mult_div_eq_mod mult.commute)
    then show ?thesis using dm by simp
  qed
  have "q * n \<le> n * (x div n)" using assms(2,4) by (simp add: mult.commute mult_left_mono)
  then show "0 \<le> r" using dm assms(5) by linarith
  show "r < n + j" if "x < (k + 1) * n + j" "0 \<le> j"
  proof (cases "q < k")
    case True
    then have "q = x div n" using assms(4) by auto
    then have "r = x mod n" using assms(5) by (simp add: minus_mult_div_eq_mod mult.commute)
    then show ?thesis using dm that by simp
  next
    case False
    then have "q = k" using assms(4) by auto
    then show ?thesis using that assms(5) by (simp add: algebra_simps)
  qed
qed

lemma days_before_year_mono:
  assumes "10000 \<le> y"
  shows "days_before_year 10000 \<le> days_before_year y"
proof -
  define k where "k = (y - 1) div 100"
  have four: "2499 \<le> (y - 1) div 4" "24 \<le> (y - 1) div 400" using assms by simp_all
  have "100 * k \<le> y - 1" by (simp add: k_def)
  then have "k - 99 \<le> 365 * y - 3650000"
    using assms by (cases "k \<le> 99") simp_all
  with four show ?thesis by (simp add: days_before_year_def k_def [symmetric])
qed

lemma civil_date_inverse:
  assumes "civil_date d = (y, m, day)"
  shows "days_of_date y m day = d \<and> 1 \<le> m \<and> m \<le> 12 \<and> 1 \<le> day \<and> day \<le> days_in m y \<and>
    (0 \<le> d \<longrightarrow> 1 \<le> y) \<and> (d < days_before_year 10000 \<longrightarrow> y < 10000)"
proof -
  define a where "a = d div 146097"
  define d1 where "d1 = d mod 146097"
  define b where "b = min 3 (d1 div 36524)"
  define d2 where "d2 = d1 - b * 36524"
  define c where "c = d2 div 1461"
  define d3 where "d3 = d2 mod 1461"
  define e where "e = min 3 (d3 div 365)"
  define yday where "yday = d3 - e * 365"
  have "(case month_day (month_lengths (leap_year (400 * a + 100 * b + 4 * c + e + 1))) 1 yday of
      (month, day) \<Rightarrow> (400 * a + 100 * b + 4 * c + e + 1, month, day)) = (y, m, day)"
    using assms unfolding civil_date_def Let_def a_def [symmetric] d1_def [symmetric] b_def [symmetric]
      d2_def [symmetric] c_def [symmetric] d3_def [symmetric] e_def [symmetric] yday_def [symmetric] .
  then have y: "y = 400 * a + 100 * b + 4 * c + e + 1"
    and md: "month_day (month_lengths (leap_year y)) 1 yday = (m, day)"
    by (auto split: prod.splits)
  have d1: "0 \<le> d1" "d1 < 146097" "d = 146097 * a + d1" by (simp_all add: a_def d1_def)
  have b: "0 \<le> b" "b \<le> 3" "b < 3 \<Longrightarrow> d2 < 36524" "d2 < 36525" "0 \<le> d2"
    using min_div_rest [OF d1(1) _ _ b_def d2_def] min_div_rest(5) [OF d1(1) _ _ b_def d2_def, of 1] d1(2) by auto
  have d3: "0 \<le> d3" "d3 < 1461" "d2 = 1461 * c + d3" by (simp_all add: c_def d3_def)
  have c: "0 \<le> c" "c \<le> 24" using b d3 by linarith+
  have e: "0 \<le> e" "e \<le> 3" "e < 3 \<Longrightarrow> yday < 365" "yday < 366" "0 \<le> yday"
    using min_div_rest [OF d3(1) _ _ e_def yday_def] min_div_rest(5) [OF d3(1) _ _ e_def yday_def, of 1] d3(2) by auto
  have total: "days_before_year y + yday = d"
    using days_before_year_split [OF b(1,2) c e(1,2)] y d1(3) d3(3) by (simp add: d2_def yday_def)
  have "yday < sum_list (month_lengths (leap_year y))"
  proof (cases "yday < 365")
    case False
    with e have "e = 3" by linarith
    with False e have yd: "e = 3" "d3 = 1460" by (simp_all add: yday_def)
    have four: "y mod 4 = 0" by (rule int_mod_pos_eq [where q = "100 * a + 25 * b + c + 1"]) (simp_all add: y yd)
    have "leap_year y"
    proof (cases "c = 24")
      case True
      then have "b = 3" using b d3 yd by linarith
      then have "y mod 400 = 0"
        using True by (intro int_mod_pos_eq [where q = "a + 1"]) (simp_all add: y yd)
      with four show ?thesis by (simp add: leap_year_def)
    next
      case False
      then have "y mod 100 = 4 * c + 4"
        using c by (intro int_mod_pos_eq [where q = "4 * a + b"]) (simp_all add: y yd)
      with four c show ?thesis by (simp add: leap_year_def)
    qed
    with e show ?thesis by (simp add: year_length)
  qed (simp add: year_length)
  then obtain i where i: "m = 1 + int i" "i < length (month_lengths (leap_year y))"
      "sum_list (take i (month_lengths (leap_year y))) + (day - 1) = yday"
      "1 \<le> day" "day \<le> month_lengths (leap_year y) ! i"
    using month_day_inverse [OF md e(5)] by blast
  then have "nat (m - 1) = i" "i < 12" by (simp_all add: month_lengths_def)
  moreover have "1 \<le> y" if "0 \<le> d"
    using y b(1) c(1) e(1) that by (simp add: a_def pos_imp_zdiv_nonneg_iff)
  moreover have "y < 10000" if "d < days_before_year 10000"
  proof (rule ccontr)
    assume "\<not> y < 10000"
    then have "days_before_year 10000 \<le> days_before_year y" using days_before_year_mono by simp
    with total e(5) that show False by linarith
  qed
  ultimately show ?thesis using i total by (simp add: days_of_date_def days_in_def)
qed

subsection \<open>Digits\<close>

lemma digits_step: "10 \<le> n \<Longrightarrow> digits n = digits (n div 10) @ [char_of (48 + n mod 10)]"
  by (subst digits.simps) simp

lemma length_digits: "n < 10 ^ k \<Longrightarrow> 0 < k \<Longrightarrow> length (digits n) \<le> k"
proof (induction k arbitrary: n)
  case (Suc k)
  show ?case
  proof (cases "n < 10")
    case True
    then show ?thesis by (subst digits.simps) simp
  next
    case False
    then have "0 < k" using Suc.prems(1) by (cases k) auto
    moreover have "n div 10 < 10 ^ k" using Suc.prems(1) by (simp add: less_mult_imp_div_less mult.commute)
    ultimately show ?thesis using Suc.IH [of "n div 10"] False by (simp add: digits_step)
  qed
qed simp

lemma decimal_value_zeros: "decimal_value 0 (replicate k CHR ''0'' @ s) = decimal_value 0 s"
  by (induction k) simp_all

lemma padded_text:
  assumes "0 \<le> i" and "i < 10 ^ n" and "0 < n"
  shows "length (padded n i) = n" "list_all digit_byte (padded n i)" "int (decimal_value 0 (padded n i)) = i"
proof -
  have "nat i < 10 ^ n"
    using assms(1,2) by (simp add: nat_less_iff)
  then have "length (digits (nat i)) \<le> n" using assms(3) by (rule length_digits)
  then show "length (padded n i) = n" using assms(1) by (simp add: padded_def Let_def)
  show "list_all digit_byte (padded n i)"
    using assms(1) digits_digit_byte [of "nat i"] by (auto simp: padded_def Let_def list_all_iff digit_byte_def)
  show "int (decimal_value 0 (padded n i)) = i"
    using assms(1) by (simp add: padded_def Let_def decimal_value_zeros decimal_value_digits)
qed

lemma padded_two:
  assumes "0 \<le> i" and "i < 100"
  obtains a b where "padded 2 i = [a, b]" "digit_byte a" "digit_byte b" "int (decimal_value 0 [a, b]) = i"
proof -
  have "length (padded 2 i) = 2" using assms padded_text(1) [of i 2] by simp
  then obtain a b where ab: "padded 2 i = [a, b]"
    by (cases "padded 2 i"; cases "tl (padded 2 i)") auto
  have "i < 10 ^ 2" "(0 :: nat) < 2" using assms(2) by simp_all
  from padded_text(2,3) [OF assms(1) this] have "list_all digit_byte [a, b]" "int (decimal_value 0 [a, b]) = i"
    unfolding ab by blast+
  then show ?thesis by (intro that [OF ab]) simp_all
qed

lemma parse_padded:
  assumes "0 \<le> i" and "i < 100" and "ok_range i"
  shows "parse_field c fixed ok_range (c # padded 2 i @ s) = Some (i, s)"
proof -
  obtain a b where ab: "padded 2 i = [a, b]" "digit_byte a" "digit_byte b" "int (decimal_value 0 [a, b]) = i"
    using padded_two [OF assms(1,2)] .
  then have "getnum (padded 2 i @ s) fixed = Some (i, s)"
    by (simp add: getnum_def is_digit_at_def)
  then show ?thesis using assms(3) by (simp add: parse_field_def skip_byte_def)
qed

lemma parse_padded_year:
  assumes "0 \<le> y" and "y < 10000"
  shows "parse_year (padded 4 y @ s) = Some (y, s)"
  using padded_text [of y 4] assms by (simp add: parse_year_def)

text \<open>The fraction: its zeros at the end are dropped and counted again.\<close>

lemma stripped_digits:
  obtains k where "ds = rev (dropWhile (\<lambda>c. c = CHR ''0'') (rev ds)) @ replicate k CHR ''0''"
proof -
  have "rev ds = takeWhile (\<lambda>c. c = CHR ''0'') (rev ds) @ dropWhile (\<lambda>c. c = CHR ''0'') (rev ds)" by simp
  then have "ds = rev (dropWhile (\<lambda>c. c = CHR ''0'') (rev ds)) @ rev (takeWhile (\<lambda>c. c = CHR ''0'') (rev ds))"
    by (metis rev_append rev_rev_ident)
  moreover have "takeWhile (\<lambda>c. c = CHR ''0'') (rev ds) = replicate (length (takeWhile (\<lambda>c. c = CHR ''0'') (rev ds))) CHR ''0''"
    by (rule replicate_length_same [symmetric]) (auto dest: set_takeWhileD)
  ultimately show ?thesis using that by (metis rev_replicate)
qed

lemma decimal_value_append_zeros:
  "decimal_value n (s @ replicate k CHR ''0'') = decimal_value n s * 10 ^ k"
proof -
  have "decimal_value m (replicate k CHR ''0'') = m * 10 ^ k" for m
    by (induction k arbitrary: m) simp_all
  then show ?thesis by (simp add: decimal_value_append)
qed

lemma parse_fraction_text:
  assumes "0 \<le> nanos" and "nanos < 1000000000"
  shows "parse_fraction (fraction_text nanos @ CHR ''Z'' # s) = (nanos, CHR ''Z'' # s)"
proof (cases "nanos = 0")
  case True
  then show ?thesis by (simp add: fraction_text_def parse_fraction_def)
next
  case False
  let ?ds = "rev (dropWhile (\<lambda>c. c = CHR ''0'') (rev (padded 9 nanos)))"
  obtain k where k: "padded 9 nanos = ?ds @ replicate k CHR ''0''" using stripped_digits .
  have nine: "length (padded 9 nanos) = 9" "list_all digit_byte (padded 9 nanos)"
      "int (decimal_value 0 (padded 9 nanos)) = nanos"
    using padded_text [of nanos 9] assms by simp_all
  have "length (padded 9 nanos) = length ?ds + k" by (subst k) simp
  then have len: "length ?ds \<le> 9" "k = 9 - length ?ds" using nine(1) by simp_all
  have "list_all digit_byte (?ds @ replicate k CHR ''0'')" using nine(2) k by simp
  then have ok: "list_all digit_byte ?ds" by simp
  have "decimal_value 0 (padded 9 nanos) = decimal_value 0 ?ds * 10 ^ k"
    by (subst k) (rule decimal_value_append_zeros)
  then have val: "int (decimal_value 0 ?ds) * 10 ^ (9 - length ?ds) = nanos"
    using nine(3) len(2) by (metis of_nat_mult of_nat_numeral of_nat_power)
  then have "?ds \<noteq> []" using False by (intro notI) simp
  then obtain d rest where ds: "?ds = d # rest" by (cases ?ds) auto
  have z: "\<not> digit_byte CHR ''Z''" by (simp add: digit_byte_def)
  have run: "takeWhile digit_byte (?ds @ CHR ''Z'' # s) = ?ds" "dropWhile digit_byte (?ds @ CHR ''Z'' # s) = CHR ''Z'' # s"
    using ok z by (simp_all add: list_all_iff takeWhile_append2 dropWhile_append2 del: set_rev)
  have "digit_byte d" using ok ds by simp
  then have "is_digit_at 0 (?ds @ CHR ''Z'' # s)" by (simp only: ds) (simp add: is_digit_at_def)
  then have "parse_fraction (CHR ''.'' # ?ds @ CHR ''Z'' # s) = (nanos, CHR ''Z'' # s)"
    using run len(1) val by (simp add: parse_fraction_def Let_def)
  then show ?thesis using False by (simp add: fraction_text_def)
qed

subsection \<open>The round trip\<close>

definition first_ten_thousand_years :: gotime where
  "first_ten_thousand_years = days_before_year 10000 * (24 * hour)"

theorem time_roundtrip:
  assumes "0 \<le> t" and "t < first_ten_thousand_years"
  shows "parse_rfc3339nano (RFC3339Nano t) = Some t"
proof -
  define days where "days = t div (24 * hour)"
  define rest where "rest = t mod (24 * hour)"
  obtain y m d where date: "civil_date days = (y, m, d)" by (cases "civil_date days")
  note inverse = civil_date_inverse [OF date]
  have t: "t = days * (24 * hour) + rest" "0 \<le> rest" "rest < 24 * hour" "0 \<le> days"
    using assms(1) by (simp_all add: days_def rest_def duration_units pos_imp_zdiv_nonneg_iff)
  have "days < days_before_year 10000"
    using assms(2) t(1,2) unfolding first_ten_thousand_years_def duration_units by linarith
  then have y: "0 \<le> y" "y < 10000" using inverse t(4) by auto
  define h where "h = rest div hour"
  define mi where "mi = rest mod hour div minute"
  define se where "se = rest mod minute div second"
  define nanos where "nanos = rest mod second"
  have parts: "rest = h * hour + mi * minute + se * second + nanos" "0 \<le> h" "h < 24" "0 \<le> mi" "mi < 60"
      "0 \<le> se" "se < 60" "0 \<le> nanos" "nanos < 1000000000"
  proof -
    have split: "x = x div n * n + x mod n" "0 \<le> x mod n" "x mod n < n" if "0 < n" for x n :: int
      using that by simp_all
    have sub: "rest mod hour mod minute = rest mod minute" "rest mod minute mod second = rest mod second"
      by (simp_all add: duration_units mod_mod_cancel)
    have pos: "0 < hour" "0 < minute" "0 < second" by (simp_all add: duration_units)
    show "rest = h * hour + mi * minute + se * second + nanos"
      using split(1) [OF pos(1), of rest] split(1) [OF pos(2), of "rest mod hour"]
        split(1) [OF pos(3), of "rest mod minute"]
      unfolding h_def mi_def se_def nanos_def sub by linarith
    have lt: "h < 24" "mi < 60" "se < 60"
      using t(3) split(3) [OF pos(1), of rest] split(3) [OF pos(2), of rest]
      unfolding h_def mi_def se_def duration_units by simp_all
    have ge: "0 \<le> h" "0 \<le> mi" "0 \<le> se" "0 \<le> nanos"
      using t(2) unfolding h_def mi_def se_def nanos_def
      by (simp_all add: duration_units pos_imp_zdiv_nonneg_iff)
    show "0 \<le> h" "h < 24" "0 \<le> mi" "mi < 60" "0 \<le> se" "se < 60" "0 \<le> nanos" "nanos < 1000000000"
      using lt ge by (simp_all add: nanos_def second_def)
  qed
  have month: "0 \<le> m" "m < 100" "0 < m \<and> m \<le> 12" using inverse by auto
  have "days_in m y \<le> 31"
  proof -
    have "\<forall>x\<in>set (month_lengths leap). x \<le> 31" for leap by (simp add: month_lengths_def)
    moreover have "length (month_lengths (leap_year y)) = 12" by (simp add: month_lengths_def)
    then have "nat (m - 1) < length (month_lengths (leap_year y))" using month by linarith
    ultimately show ?thesis unfolding days_in_def by (meson nth_mem)
  qed
  then have day: "0 \<le> d" "d < 100" "1 \<le> d" "d \<le> days_in m y" using inverse by auto
  have offset: "parse_offset (CHR ''Z'' # []) = Some (0, [])" by (simp add: parse_offset_def)
  have written: "RFC3339Nano t = padded 4 y @ CHR ''-'' # padded 2 m @ CHR ''-'' # padded 2 d @ CHR ''T'' #
      padded 2 h @ CHR '':'' # padded 2 mi @ CHR '':'' # padded 2 se @ fraction_text nanos @ ''Z''"
    using date by (simp add: RFC3339Nano_def Let_def days_def [symmetric] rest_def [symmetric] h_def [symmetric]
        mi_def [symmetric] se_def [symmetric] nanos_def [symmetric])
  show ?thesis
    unfolding parse_rfc3339nano_def written
    using y month day parts t(1) inverse
    by (simp add: parse_padded_year parse_padded parse_fraction_text offset)
qed

end
