(* ===== verification/ParsedEvents.thy ===== *)
theory ParsedEvents
  imports StoreEvents TimeText IngestEffects
begin

text \<open>
  What the parser of event payloads guarantees: an accepted payload is a well-formed event of the
  project, ready for ingestion, and the addresses of clients are kept out of its tags.
\<close>

subsection \<open>Frames and modules\<close>

lemma map_filter_all: "(\<And>x y. f x = Some y \<Longrightarrow> P y) \<Longrightarrow> list_all P (List.map_filter f xs)"
  by (auto simp: list_all_iff List.map_filter_def)

lemma js_frames_valid:
  "list_all (\<lambda>f. js_frame_valid f \<and> \<not> jf_hasResolution f) (jsStacktraceFrames kind raw)"
  unfolding jsStacktraceFrames_def
  by (auto intro!: map_filter_all simp: buildJsStacktraceFrame_def Let_def
      dest!: NewUnresolvedJsStacktraceFrame_valid split: if_split_asm sum.split_asm)

lemma modules_valid: "list_all module_valid (nativeModules raw)"
  unfolding nativeModules_def
  by (auto intro!: map_filter_all simp: buildNativeModule_def Let_def
      dest!: NewNativeModule_valid split: sum.split_asm)

lemma native_frames_valid: "list_all native_frame_valid (nativeStacktraceFrames kind raw)"
  unfolding nativeStacktraceFrames_def
  by (auto intro!: map_filter_all simp: buildNativeFrame_def
      dest: NewNativeFrame_ok NewNativeFrameWithModule_ok split: option.split_asm sum.split_asm)

subsection \<open>Events\<close>

lemma NewCanonicalEvent_parts:
  assumes "NewCanonicalEvent params = ok ev"
  shows "ev_jsStacktrace ev = p_JsStacktrace params \<and> ev_nativeModules ev = p_NativeModules params \<and>
    ev_nativeFrames ev = p_NativeFrames params \<and> ev_attachments ev = p_Attachments params \<and>
    (ev_hasTransaction ev \<longrightarrow> transaction_valid (ev_transaction ev) \<or> ev_transaction ev = p_Transaction params)"
proof -
  obtain t h where th: "canonicalTransaction params = ok (t, h)"
    using NewCanonicalEvent_checks [OF assms] by auto
  have "h \<Longrightarrow> transaction_valid t \<or> t = p_Transaction params"
    using th by (auto simp: canonicalTransaction_def Let_def result_simps NewTransactionData_def
        dest!: newTransactionData_valid split: if_split_asm)
  with assms NewCanonicalEvent_checks [OF assms] th show ?thesis
    unfolding NewCanonicalEvent_def Let_def
    by (simp only: if_False rbind_ok prod.case sum.inject simp_thms) auto
qed

lemma transactionData_valid:
  "transactionData kind payload title at = Inr t \<Longrightarrow> kind = EventKindTransaction \<Longrightarrow> transaction_valid t"
  by (auto simp: transactionData_def Let_def result_simps NewTransactionData_def NewTransactionDataWithTrace_def
      dest!: newTransactionData_valid split: option.split_asm if_split_asm)

text \<open>What an accepted payload went through.\<close>

lemma payload_event_steps:
  assumes "payload_event ord project receivedAt itemType raw = Inr ev"
  obtains eventID occurredAt title tags transaction where
    "NewEventID (raw_EventID raw) = ok eventID" "parseTimestamp (raw_Timestamp raw) = Inr occurredAt"
    "eventTitle (eventKind itemType raw) raw = Inr title" "eventTags ord project raw = Inr tags"
    "transactionData (eventKind itemType raw) raw title occurredAt = Inr transaction"
    "NewCanonicalEvent
       \<lparr>p_OrganizationID = pc_organizationID project, p_ProjectID = pc_projectID project,
        p_EventID = eventID, p_OccurredAt = occurredAt, p_ReceivedAt = receivedAt,
        p_Kind = eventKind itemType raw, p_Level = eventLevel (eventKind itemType raw) (raw_Level raw),
        p_Title = title, p_Platform = raw_Platform raw, p_Release = raw_Release raw,
        p_Environment = raw_Environment raw, p_Tags = range_entries ord ''normalizeTags'' tags,
        p_DefaultGroupingParts = defaultGroupingParts (eventKind itemType raw) raw title,
        p_ExplicitFingerprint = normalizeFingerprint (raw_Fingerprint raw), p_Attachments = [],
        p_JsStacktrace = jsStacktraceFrames (eventKind itemType raw) raw, p_NativeModules = nativeModules raw,
        p_NativeFrames = nativeStacktraceFrames (eventKind itemType raw) raw, p_Transaction = transaction\<rparr> = ok ev"
  using assms by (auto simp: payload_event_def Let_def result_simps split: sum.split_asm)

lemma parseEventPayload_payload:
  assumes "parseEventPayload ord project receivedAt payload itemType override = Inr ev"
  obtains raw where "payload_event ord project receivedAt itemType raw = Inr ev"
  using assms by (auto simp: parseEventPayload_def split: option.split_asm)

lemma parsed_event:
  assumes "parseEventPayload ord project receivedAt payload itemType override = Inr ev"
  shows "event_valid ev \<and> ev_organizationID ev = pc_organizationID project \<and>
    ev_projectID ev = pc_projectID project \<and> ev_receivedAt ev = receivedAt \<and>
    list_all (\<lambda>f. js_frame_valid f \<and> \<not> jf_hasResolution f) (ev_jsStacktrace ev) \<and>
    list_all native_frame_valid (ev_nativeFrames ev) \<and> list_all module_valid (ev_nativeModules ev) \<and>
    (ev_kind ev \<noteq> EventKindError \<longrightarrow> ev_jsStacktrace ev = [] \<and> ev_nativeFrames ev = []) \<and>
    (ev_hasTransaction ev \<longrightarrow> transaction_valid (ev_transaction ev)) \<and>
    (hex_pattern 32 (ProjectID_value (pc_projectID project)) \<longrightarrow> made_event (accepted_of ev))"
proof -
  obtain raw where "payload_event ord project receivedAt itemType raw = Inr ev"
    using parseEventPayload_payload [OF assms] .
  then show ?thesis
  proof (rule payload_event_steps)
    fix eventID occurredAt title tags transaction
    assume id: "NewEventID (raw_EventID raw) = ok eventID"
      and t: "transactionData (eventKind itemType raw) raw title occurredAt = Inr transaction"
      and new: "NewCanonicalEvent
       \<lparr>p_OrganizationID = pc_organizationID project, p_ProjectID = pc_projectID project,
        p_EventID = eventID, p_OccurredAt = occurredAt, p_ReceivedAt = receivedAt,
        p_Kind = eventKind itemType raw, p_Level = eventLevel (eventKind itemType raw) (raw_Level raw),
        p_Title = title, p_Platform = raw_Platform raw, p_Release = raw_Release raw,
        p_Environment = raw_Environment raw, p_Tags = range_entries ord ''normalizeTags'' tags,
        p_DefaultGroupingParts = defaultGroupingParts (eventKind itemType raw) raw title,
        p_ExplicitFingerprint = normalizeFingerprint (raw_Fingerprint raw), p_Attachments = [],
        p_JsStacktrace = jsStacktraceFrames (eventKind itemType raw) raw, p_NativeModules = nativeModules raw,
        p_NativeFrames = nativeStacktraceFrames (eventKind itemType raw) raw, p_Transaction = transaction\<rparr> = ok ev"
    have "event_valid ev" using NewCanonicalEvent_invariant [OF new] .
    moreover from this have "ev_hasTransaction ev \<Longrightarrow> ev_kind ev = EventKindTransaction"
      by (simp add: event_valid_def)
    moreover have "hex_pattern 32 (EventID_value eventID)" using eventID.new_valid [OF id] .
    ultimately show ?thesis
      using NewCanonicalEvent_fields [OF new] NewCanonicalEvent_parts [OF new] transactionData_valid [OF t]
        js_frames_valid [of "eventKind itemType raw" raw] native_frames_valid [of "eventKind itemType raw" raw]
        modules_valid [of raw]
      by (auto simp: made_event_def made_ids_def jsStacktraceFrames_def nativeStacktraceFrames_def)
  qed
qed

text \<open>
  C37. Every accepted payload, of any bytes, is a well-formed event: it satisfies the invariant of
  canonical events, belongs to the project it was sent to and carries the time it was received at;
  its frames and modules satisfy the invariants of their constructors, and only an error event has
  frames; a transaction event has valid transaction data. An event of a real project can so be
  submitted: it has the ids the ingestion theorems ask for.
\<close>

theorem parsed_events_are_well_formed:
  assumes "parseEventPayload ord project receivedAt payload itemType override = Inr ev"
  shows "event_valid ev \<and> ev_organizationID ev = pc_organizationID project \<and>
    ev_projectID ev = pc_projectID project \<and> ev_receivedAt ev = receivedAt \<and>
    list_all (\<lambda>f. js_frame_valid f \<and> \<not> jf_hasResolution f) (ev_jsStacktrace ev) \<and>
    list_all native_frame_valid (ev_nativeFrames ev) \<and> list_all module_valid (ev_nativeModules ev) \<and>
    (ev_kind ev \<noteq> EventKindError \<longrightarrow> ev_jsStacktrace ev = [] \<and> ev_nativeFrames ev = []) \<and>
    (ev_hasTransaction ev \<longrightarrow> transaction_valid (ev_transaction ev)) \<and>
    (hex_pattern 32 (ProjectID_value (pc_projectID project)) \<longrightarrow> made_event (accepted_of ev))"
  using assms by (rule parsed_event)

subsection \<open>Client addresses\<close>

lemma TrimSpace_client_key [simp]: "isClientIPTagKey (TrimSpace k) = isClientIPTagKey k"
  by (simp add: isClientIPTagKey_def TrimSpace_idem)

lemma put_tag_map: "map_of (put_tag k v m) = (map_of m)(k \<mapsto> v)"
  by (simp add: put_tag_def update_conv fun_eq_iff)

lemma distinct_put_tag: "distinct (map fst m) \<Longrightarrow> distinct (map fst (put_tag k v m))"
  by (simp add: put_tag_def distinct_update)

lemma distinct_fold_tags:
  assumes "\<And>x m. distinct (map fst m) \<Longrightarrow> distinct (map fst (f x m))"
  shows "distinct (map fst m) \<Longrightarrow> distinct (map fst (fold f xs m))"
  by (induction xs arbitrary: m) (simp_all add: assms)

lemma distinct_parseTags: "distinct (map fst (parseTags ord payload))"
proof -
  have "distinct (map fst (normalizeTagObject ord xs))" for xs
    unfolding normalizeTagObject_def
    by (rule distinct_fold_tags) (auto simp: Let_def distinct_put_tag split: prod.splits)
  moreover have "distinct (map fst (normalizeTagPairs ps))" for ps
    unfolding normalizeTagPairs_def
    by (rule distinct_fold_tags) (auto simp: Let_def distinct_put_tag)
  ultimately show ?thesis by (simp add: parseTags_def split: option.split)
qed

lemma distinct_withoutClientIPTags:
  "distinct (map fst tags) \<Longrightarrow> distinct (map fst (withoutClientIPTags tags))"
  by (simp add: withoutClientIPTags_def distinct_map_filter)

text \<open>What the entries of a map are in the order of a loop.\<close>

lemma range_entries_in:
  assumes "visits_all ord" and "distinct (map fst m)" and "(k, v) \<in> set (range_entries ord loop m)"
  shows "map_of m k = Some v"
proof -
  have "k \<in> fst ` set m"
    using assms by (auto simp: visits_all_def range_entries_def)
  then obtain w where "map_of m k = Some w" by (metis map_of_eq_None_iff not_Some_eq)
  with assms(3) show ?thesis by (auto simp: range_entries_def)
qed

lemma withoutClientIPTags_key: "map_of (withoutClientIPTags tags) k = Some v \<Longrightarrow> \<not> isClientIPTagKey k"
  by (auto simp: withoutClientIPTags_def dest!: map_of_SomeD)

lemma plain_keys: "\<not> isClientIPTagKey ''dist''" "\<not> isClientIPTagKey ''server_name''"
  by (simp_all add: isClientIPTagKey_def ReplaceAll_byte_def TrimSpace_graph graph_ascii_def ToLower_ascii
      is_ascii_def lower_byte_def)

lemma eventTags_client:
  assumes "eventTags ord project raw = Inr tags"
  shows "distinct (map fst tags) \<and>
    (map_of tags k = Some v \<and> isClientIPTagKey k \<longrightarrow>
      k = ''client_ip'' \<and> clientIPTag ord project raw (parseTags ord (raw_Tags raw)) = Some v)"
proof -
  let ?kept = "withoutClientIPTags (parseTags ord (raw_Tags raw))"
  obtain distTags where dist: "withEventDistTag ?kept (raw_Dist raw) = Inr distTags"
    using assms by (auto simp: eventTags_def Let_def result_simps)
  have kept: "distinct (map fst ?kept)" by (rule distinct_withoutClientIPTags) (rule distinct_parseTags)
  have d: "distinct (map fst distTags)" "map_of distTags k = Some v \<Longrightarrow> \<not> isClientIPTagKey k"
    using dist kept withoutClientIPTags_key [of "parseTags ord (raw_Tags raw)" k v] plain_keys(1)
    by (auto simp: withEventDistTag_def put_tag_map distinct_put_tag split: sum.split_asm if_split_asm)
  show ?thesis
    using assms dist d plain_keys(2)
    by (auto simp: eventTags_def Let_def put_tag_map distinct_put_tag split: option.split_asm if_split_asm)
qed

text \<open>
  C38. The addresses of clients: a tag of an accepted event whose key is one of the spellings of a
  client address (\<open>client_ip\<close>, \<open>User.IP\<close>, \<open>remote-addr\<close> and the like, in any case) is the tag
  \<open>client_ip\<close>; it holds the text of a public address, and it exists only for a project that does not
  scrub addresses. Private, loopback and link-local addresses are never stored in it, in whatever
  order the loops over the maps of the payload run.
\<close>

theorem client_addresses_are_public_or_scrubbed:
  assumes "visits_all ord"
    and "parseEventPayload ord project receivedAt payload itemType override = Inr ev"
    and "ev_tags ev key = Some tag" and "isClientIPTagKey key"
  shows "\<not> pc_scrubIP project \<and> key = ''client_ip'' \<and>
    (\<exists>addr. tag = TrimSpace (Addr_String addr) \<and> addr_ok addr \<and> public_address addr)"
proof -
  obtain raw where raw: "payload_event ord project receivedAt itemType raw = Inr ev"
    using parseEventPayload_payload [OF assms(2)] .
  then obtain tags where tags: "eventTags ord project raw = Inr tags"
      "ev_tags ev = normalizeTags (range_entries ord ''normalizeTags'' tags)"
    by (rule payload_event_steps) (auto dest: NewCanonicalEvent_fields)
  obtain k v where kv: "(k, v) \<in> set (range_entries ord ''normalizeTags'' tags)" "key = TrimSpace k" "tag = TrimSpace v"
    using assms(3) unfolding tags(2) normalizeTags_eq
    by (auto simp: kept_tags_def dest!: map_of_SomeD)
  have "distinct (map fst tags)" using eventTags_client [OF tags(1)] by blast
  then have "map_of tags k = Some v" using range_entries_in [OF assms(1) _ kv(1)] by simp
  moreover have "isClientIPTagKey k" using assms(4) kv(2) by simp
  ultimately have found: "k = ''client_ip''" "clientIPTag ord project raw (parseTags ord (raw_Tags raw)) = Some v"
    using eventTags_client [OF tags(1)] by blast+
  from found(2) have "\<not> pc_scrubIP project"
    "firstPublicClientIP (clientIPCandidates ord raw (parseTags ord (raw_Tags raw))) = Some v"
    by (auto simp: clientIPTag_def ScrubIPAddresses_def split: if_split_asm)
  moreover have "TrimSpace ''client_ip'' = ''client_ip''" by (simp add: TrimSpace_graph graph_ascii_def)
  ultimately show ?thesis using firstPublicClientIP_public kv found(1) by blast
qed

end
