(* ===== verification/CspReports.thy ===== *)
theory CspReports
  imports ParsedEvents
begin

text \<open>
  \<open>internal/adapters/sentryprotocol/csp.go\<close>: reports of browsers about violations of a content security
  policy, in the legacy format and in that of the Reporting API, become events whose id is derived
  from the report and the time it was received.
\<close>

subsection \<open>The JSON of reports\<close>

record rawCSPReport =
  csp_DocumentURI :: string
  csp_Referrer :: string
  csp_ViolatedDirective :: string
  csp_EffectiveDirective :: string
  csp_BlockedURI :: string
  csp_SourceFile :: string
  csp_Disposition :: string
  csp_LineNumber :: int
  csp_ColumnNumber :: int
  csp_StatusCode :: int

definition no_csp_report :: rawCSPReport where
  "no_csp_report = \<lparr>csp_DocumentURI = [], csp_Referrer = [], csp_ViolatedDirective = [], csp_EffectiveDirective = [],
     csp_BlockedURI = [], csp_SourceFile = [], csp_Disposition = [], csp_LineNumber = 0, csp_ColumnNumber = 0,
     csp_StatusCode = 0\<rparr>"

definition rawCSPReport_fields :: "rawCSPReport field list" where
  "rawCSPReport_fields =
     [(''document-uri'', into decode_text csp_DocumentURI (\<lambda>x. csp_DocumentURI_update (\<lambda>_. x))),
      (''referrer'', into decode_text csp_Referrer (\<lambda>x. csp_Referrer_update (\<lambda>_. x))),
      (''violated-directive'', into decode_text csp_ViolatedDirective (\<lambda>x. csp_ViolatedDirective_update (\<lambda>_. x))),
      (''effective-directive'', into decode_text csp_EffectiveDirective (\<lambda>x. csp_EffectiveDirective_update (\<lambda>_. x))),
      (''blocked-uri'', into decode_text csp_BlockedURI (\<lambda>x. csp_BlockedURI_update (\<lambda>_. x))),
      (''source-file'', into decode_text csp_SourceFile (\<lambda>x. csp_SourceFile_update (\<lambda>_. x))),
      (''disposition'', into decode_text csp_Disposition (\<lambda>x. csp_Disposition_update (\<lambda>_. x))),
      (''line-number'', into decode_int csp_LineNumber (\<lambda>x. csp_LineNumber_update (\<lambda>_. x))),
      (''column-number'', into decode_int csp_ColumnNumber (\<lambda>x. csp_ColumnNumber_update (\<lambda>_. x))),
      (''status-code'', into decode_int csp_StatusCode (\<lambda>x. csp_StatusCode_update (\<lambda>_. x)))]"

record rawCSPReportCarrier =
  rcc_Report :: rawCSPReport

definition rawCSPReportCarrier_fields :: "rawCSPReportCarrier field list" where
  "rawCSPReportCarrier_fields =
     [(''csp-report'', into (decode_struct rawCSPReport_fields) rcc_Report (\<lambda>x. rcc_Report_update (\<lambda>_. x)))]"

record rawReportingCSPBody =
  rcb_DocumentURL :: string
  rcb_Referrer :: string
  rcb_ViolatedDirective :: string
  rcb_EffectiveDirective :: string
  rcb_BlockedURL :: string
  rcb_SourceFile :: string
  rcb_Disposition :: string
  rcb_LineNumber :: int
  rcb_ColumnNumber :: int
  rcb_StatusCode :: int

definition no_csp_body :: rawReportingCSPBody where
  "no_csp_body = \<lparr>rcb_DocumentURL = [], rcb_Referrer = [], rcb_ViolatedDirective = [], rcb_EffectiveDirective = [],
     rcb_BlockedURL = [], rcb_SourceFile = [], rcb_Disposition = [], rcb_LineNumber = 0, rcb_ColumnNumber = 0,
     rcb_StatusCode = 0\<rparr>"

definition rawReportingCSPBody_fields :: "rawReportingCSPBody field list" where
  "rawReportingCSPBody_fields =
     [(''documentURL'', into decode_text rcb_DocumentURL (\<lambda>x. rcb_DocumentURL_update (\<lambda>_. x))),
      (''referrer'', into decode_text rcb_Referrer (\<lambda>x. rcb_Referrer_update (\<lambda>_. x))),
      (''violatedDirective'', into decode_text rcb_ViolatedDirective (\<lambda>x. rcb_ViolatedDirective_update (\<lambda>_. x))),
      (''effectiveDirective'', into decode_text rcb_EffectiveDirective (\<lambda>x. rcb_EffectiveDirective_update (\<lambda>_. x))),
      (''blockedURL'', into decode_text rcb_BlockedURL (\<lambda>x. rcb_BlockedURL_update (\<lambda>_. x))),
      (''sourceFile'', into decode_text rcb_SourceFile (\<lambda>x. rcb_SourceFile_update (\<lambda>_. x))),
      (''disposition'', into decode_text rcb_Disposition (\<lambda>x. rcb_Disposition_update (\<lambda>_. x))),
      (''lineNumber'', into decode_int rcb_LineNumber (\<lambda>x. rcb_LineNumber_update (\<lambda>_. x))),
      (''columnNumber'', into decode_int rcb_ColumnNumber (\<lambda>x. rcb_ColumnNumber_update (\<lambda>_. x))),
      (''statusCode'', into decode_int rcb_StatusCode (\<lambda>x. rcb_StatusCode_update (\<lambda>_. x)))]"

record rawReportingAPIReport =
  rra_Type :: string
  rra_URL :: string
  rra_Body :: rawReportingCSPBody

definition no_api_report :: rawReportingAPIReport where
  "no_api_report = \<lparr>rra_Type = [], rra_URL = [], rra_Body = no_csp_body\<rparr>"

definition rawReportingAPIReport_fields :: "rawReportingAPIReport field list" where
  "rawReportingAPIReport_fields =
     [(''type'', into decode_text rra_Type (\<lambda>x. rra_Type_update (\<lambda>_. x))),
      (''url'', into decode_text rra_URL (\<lambda>x. rra_URL_update (\<lambda>_. x))),
      (''body'', into (decode_struct rawReportingCSPBody_fields) rra_Body (\<lambda>x. rra_Body_update (\<lambda>_. x)))]"

subsection \<open>Reports\<close>

fun firstNonEmpty :: "string list \<Rightarrow> string" where
  "firstNonEmpty [] = []"
| "firstNonEmpty (value # vs) = (if TrimSpace value \<noteq> [] then TrimSpace value else firstNonEmpty vs)"

definition cspDirective :: "rawCSPReport \<Rightarrow> string" where
  "cspDirective report = firstNonEmpty [csp_EffectiveDirective report, csp_ViolatedDirective report]"

definition normalizeCSPReport :: "rawCSPReport \<Rightarrow> rawCSPReport" where
  "normalizeCSPReport report = report
     \<lparr>csp_DocumentURI := TrimSpace (csp_DocumentURI report), csp_Referrer := TrimSpace (csp_Referrer report),
      csp_ViolatedDirective := TrimSpace (csp_ViolatedDirective report),
      csp_EffectiveDirective := TrimSpace (csp_EffectiveDirective report),
      csp_BlockedURI := TrimSpace (csp_BlockedURI report), csp_SourceFile := TrimSpace (csp_SourceFile report),
      csp_Disposition := TrimSpace (csp_Disposition report)\<rparr>"

definition validCSPReport :: "rawCSPReport \<Rightarrow> bool" where
  "validCSPReport report \<longleftrightarrow> cspDirective report \<noteq> [] \<and>
     firstNonEmpty [csp_DocumentURI report, csp_SourceFile report, csp_BlockedURI report] \<noteq> []"

text \<open>
  The two parsers below only tell their caller whether there is a report: it replaces every error of
  theirs by its own, so an error is \<open>None\<close>.
\<close>

definition parseLegacyCSPReport :: "string \<Rightarrow> rawCSPReport option" where
  "parseLegacyCSPReport payload =
     (case Unmarshal (decode_struct rawCSPReportCarrier_fields) \<lparr>rcc_Report = no_csp_report\<rparr> payload of
        None \<Rightarrow> None
      | Some carrier \<Rightarrow>
          let report = normalizeCSPReport (rcc_Report carrier)
          in if \<not> validCSPReport report then None else Some report)"

definition normalizeReportingAPIReport :: "rawReportingAPIReport \<Rightarrow> rawCSPReport option" where
  "normalizeReportingAPIReport report =
     (let body = rra_Body report;
          normalized = normalizeCSPReport
            \<lparr>csp_DocumentURI = firstNonEmpty [rcb_DocumentURL body, rra_URL report], csp_Referrer = rcb_Referrer body,
             csp_ViolatedDirective = rcb_ViolatedDirective body, csp_EffectiveDirective = rcb_EffectiveDirective body,
             csp_BlockedURI = rcb_BlockedURL body, csp_SourceFile = rcb_SourceFile body,
             csp_Disposition = rcb_Disposition body, csp_LineNumber = rcb_LineNumber body,
             csp_ColumnNumber = rcb_ColumnNumber body, csp_StatusCode = rcb_StatusCode body\<rparr>
      in if \<not> validCSPReport normalized then None else Some normalized)"

definition first_violation :: "rawReportingAPIReport list \<Rightarrow> rawCSPReport option" where
  "first_violation reports =
     (case List.find (\<lambda>item. rra_Type item = ''csp-violation'') reports of
        None \<Rightarrow> None
      | Some item \<Rightarrow> normalizeReportingAPIReport item)"

definition parseReportingAPICSPReport :: "string \<Rightarrow> rawCSPReport option" where
  "parseReportingAPICSPReport payload =
     (let reports = (case Unmarshal (decode_slice (decode_struct rawReportingAPIReport_fields) no_api_report) [] payload of
            None \<Rightarrow> None | Some items \<Rightarrow> first_violation items)
      in (case Unmarshal (decode_struct rawReportingAPIReport_fields) no_api_report payload of
            Some report \<Rightarrow> if rra_Type report = ''csp-violation'' then normalizeReportingAPIReport report else reports
          | None \<Rightarrow> reports))"

definition parseCSPReportPayload :: "string \<Rightarrow> rawCSPReport parsed" where
  "parseCSPReportPayload payload =
     (case parseLegacyCSPReport payload of
        Some legacy \<Rightarrow> Inr legacy
      | None \<Rightarrow>
          (case parseReportingAPICSPReport payload of
             Some reporting \<Rightarrow> Inr reporting
           | None \<Rightarrow> Inl (NewProtocolError ErrorInvalidEvent ''invalid csp report'')))"

subsection \<open>Events of reports\<close>

definition cspTitle :: "rawCSPReport \<Rightarrow> EventTitle parsed" where
  "cspTitle report =
     (let blocked = firstNonEmpty [csp_BlockedURI report, ''inline'']
      in domain (NewEventTitle (''CSP violation: '' @ cspDirective report @ '' blocked '' @ blocked)))"

definition appendTag :: "string \<Rightarrow> string \<Rightarrow> (string \<times> string) list \<Rightarrow> (string \<times> string) list" where
  "appendTag key value tags = (if TrimSpace value = [] then tags else put_tag key value tags)"

definition cspTags :: "rawCSPReport \<Rightarrow> (string \<times> string) list" where
  "cspTags report =
     appendTag ''csp.disposition'' (csp_Disposition report)
     (appendTag ''csp.source_file'' (csp_SourceFile report)
     (appendTag ''csp.document_uri'' (csp_DocumentURI report)
     (appendTag ''csp.blocked_uri'' (csp_BlockedURI report)
     (appendTag ''csp.violated_directive'' (csp_ViolatedDirective report)
       [(''security.type'', ''csp''), (''csp.effective_directive'', cspDirective report)]))))"

definition cspGroupingParts :: "rawCSPReport \<Rightarrow> EventTitle \<Rightarrow> string list" where
  "cspGroupingParts report title =
     [''csp'', cspDirective report, firstNonEmpty [csp_SourceFile report, csp_DocumentURI report],
      firstNonEmpty [csp_BlockedURI report, EventTitle_value title]]"

text \<open>The first sixteen bytes of the digest, with the version and the variant of a random UUID.\<close>

definition uuid_bytes :: "string \<Rightarrow> string" where
  "uuid_bytes hash =
     (let bytes = take 16 hash
      in bytes[6 := char_of (byte (bytes ! 6) mod 16 + 64), 8 := char_of (byte (bytes ! 8) mod 64 + 128)])"

definition deterministicCSPEventID :: "string \<Rightarrow> TimePoint \<Rightarrow> EventID result" where
  "deterministicCSPEventID payload receivedAt =
     NewEventID (hex_encode (uuid_bytes (Sum256 (payload @ RFC3339Nano (TimePoint_Time receivedAt)))))"

definition ParseCSPReport :: "map_order \<Rightarrow> ProjectContext \<Rightarrow> TimePoint \<Rightarrow> string \<Rightarrow> CanonicalEvent parsed" where
  "ParseCSPReport ord project receivedAt payload =
     pbind (parseCSPReportPayload payload) (\<lambda>report.
     pbind (domain (deterministicCSPEventID payload receivedAt)) (\<lambda>eventID.
     pbind (cspTitle report) (\<lambda>title.
       domain (NewCanonicalEvent
         \<lparr>p_OrganizationID = pc_organizationID project, p_ProjectID = pc_projectID project,
          p_EventID = eventID, p_OccurredAt = receivedAt, p_ReceivedAt = receivedAt, p_Kind = EventKindDefault,
          p_Level = EventLevelWarning, p_Title = title, p_Platform = ''security'', p_Release = [],
          p_Environment = [], p_Tags = range_entries ord ''normalizeTags'' (cspTags report),
          p_DefaultGroupingParts = cspGroupingParts report title, p_ExplicitFingerprint = [], p_Attachments = [],
          p_JsStacktrace = [], p_NativeModules = [], p_NativeFrames = [], p_Transaction = zero_transaction\<rparr>))))"

subsection \<open>What a report becomes\<close>

lemma length_uuid_bytes: "16 \<le> length hash \<Longrightarrow> length (uuid_bytes hash) = 16"
  by (simp add: uuid_bytes_def Let_def)

lemma deterministicCSPEventID_ok:
  "deterministicCSPEventID payload receivedAt =
     ok (EventID (hex_encode (uuid_bytes (Sum256 (payload @ RFC3339Nano (TimePoint_Time receivedAt))))))"
  by (simp add: deterministicCSPEventID_def NewEventID_def normalizeUUID_id hex_pattern_def hex_encode_hex_byte
      length_uuid_bytes)

lemma ParseCSPReport_event:
  assumes "ParseCSPReport ord project receivedAt payload = Inr ev"
  shows "event_valid ev \<and> ev_organizationID ev = pc_organizationID project \<and>
    ev_projectID ev = pc_projectID project \<and> ev_receivedAt ev = receivedAt \<and> ev_kind ev = EventKindDefault \<and>
    ev_eventID ev =
      EventID (hex_encode (uuid_bytes (Sum256 (payload @ RFC3339Nano (TimePoint_Time receivedAt)))))"
  using assms
  by (auto simp: ParseCSPReport_def result_simps deterministicCSPEventID_ok
      dest: NewCanonicalEvent_invariant NewCanonicalEvent_fields)

end
