(* ===== verification/Envelopes.thy ===== *)
theory Envelopes
  imports LogItems CspReports
begin

text \<open>
  \<open>internal/adapters/sentryprotocol/envelope.go\<close>: envelopes of SDKs. The reader is a \<open>bufio.Reader\<close> on
  the bytes of the request: its state is what it has not handed out yet, and its buffer of
  \<open>buffer_size\<close> bytes shows in \<open>ReadLine\<close>, which returns a longer line in pieces. The two loops of the
  file are \<open>partial_function\<close>s, whose value is \<open>None\<close> when they do not return; the theorems
  show that they always do.
\<close>

subsection \<open>The buffered reader\<close>

definition buffer_size :: nat where "buffer_size = 4096"

definition newline :: char where "newline = CHR 0x0A"
definition carriage_return :: char where "carriage_return = CHR 0x0D"

definition TrimSuffix_byte :: "char \<Rightarrow> string \<Rightarrow> string" where
  "TrimSuffix_byte c s = (if s \<noteq> [] \<and> last s = c then butlast s else s)"

text \<open>
  \<open>Reader.ReadLine\<close>: the piece of the line, whether more of the line follows, whether the input was at
  its end, and the bytes left. A full buffer ends in the middle of a line: a carriage return at its end
  is put back, for it may belong to the line's end.
\<close>

definition ReadLine :: "string \<Rightarrow> (string \<times> bool \<times> bool) \<times> string" where
  "ReadLine s =
     (let window = take buffer_size s in
      if newline \<in> set window then
        let line = takeWhile (\<lambda>c. c \<noteq> newline) s
        in ((TrimSuffix_byte carriage_return line, False, False), drop (Suc (length line)) s)
      else if length window = buffer_size then
        if last window = carriage_return
        then ((butlast window, True, False), drop (buffer_size - 1) s)
        else ((window, True, False), drop buffer_size s)
      else if s = [] then (([], False, True), [])
      else ((s, False, False), []))"

text \<open>\<open>readLimitedLine\<close> after \<open>line\<close> was read: the line and whether its error is \<open>io.EOF\<close>.\<close>

partial_function (option) read_limited ::
  "nat \<Rightarrow> string \<Rightarrow> string \<Rightarrow> string \<Rightarrow> ((string \<times> bool) \<times> string) parsed option" where
  "read_limited limit message line s =
     (case ReadLine s of ((chunk, unfinished, at_end), rest) \<Rightarrow>
        if limit < length (line @ chunk) then Some (Inl (NewProtocolError ErrorInvalidEnvelope message))
        else if at_end then Some (Inr ((line @ chunk, True), rest))
        else if \<not> unfinished then Some (Inr ((line @ chunk, False), rest))
        else read_limited limit message (line @ chunk) rest)"

definition readLimitedLine :: "nat \<Rightarrow> string \<Rightarrow> string \<Rightarrow> ((string \<times> bool) \<times> string) parsed option" where
  "readLimitedLine limit message s = read_limited limit message [] s"

definition consumeTrailingNewline :: "string \<Rightarrow> string" where
  "consumeTrailingNewline s =
     (let s1 = (if s \<noteq> [] \<and> hd s = carriage_return then tl s else s)
      in if s1 \<noteq> [] \<and> hd s1 = newline then tl s1 else s1)"

text \<open>The line without the line end \<open>bytes.TrimSuffix\<close> takes off.\<close>

definition trim_line :: "string \<Rightarrow> string" where
  "trim_line line = TrimSuffix_byte carriage_return (TrimSuffix_byte newline line)"

subsection \<open>Headers and items\<close>

definition MaxEnvelopeHeaderSize :: nat where "MaxEnvelopeHeaderSize = 8 * 1024"
definition MaxEnvelopeItemHeader :: nat where "MaxEnvelopeItemHeader = 8 * 1024"
definition MaxEnvelopeItemBytes :: nat where "MaxEnvelopeItemBytes = 1 * 1024 * 1024"
definition MaxEnvelopeItems :: nat where "MaxEnvelopeItems = 64"

record envelopeHeader =
  eh_EventID :: string
  eh_DSN :: string

definition envelopeHeader_fields :: "envelopeHeader field list" where
  "envelopeHeader_fields =
     [(''event_id'', into decode_text eh_EventID (\<lambda>x. eh_EventID_update (\<lambda>_. x))),
      (''dsn'', into decode_text eh_DSN (\<lambda>x. eh_DSN_update (\<lambda>_. x)))]"

record itemHeader =
  ih_Type :: string
  ih_Length :: "int option"

definition itemHeader_fields :: "itemHeader field list" where
  "itemHeader_fields =
     [(''type'', into decode_text ih_Type (\<lambda>x. ih_Type_update (\<lambda>_. x))),
      (''length'', into (decode_pointer decode_int 0) ih_Length (\<lambda>x. ih_Length_update (\<lambda>_. x)))]"

definition envelope_error :: "string \<Rightarrow> parse_error" where
  "envelope_error message = NewProtocolError ErrorInvalidEnvelope message"

definition readEnvelopeHeader :: "string \<Rightarrow> (envelopeHeader \<times> string) parsed option" where
  "readEnvelopeHeader reader =
     (case readLimitedLine MaxEnvelopeHeaderSize ''envelope header too large'' reader of
        None \<Rightarrow> None
      | Some (Inl e) \<Rightarrow> Some (Inl e)
      | Some (Inr ((line, at_end), rest)) \<Rightarrow>
          Some (if at_end \<and> line = [] then Inl (envelope_error ''empty envelope'')
                else (case Unmarshal (decode_struct envelopeHeader_fields) \<lparr>eh_EventID = [], eh_DSN = []\<rparr> (trim_line line) of
                        None \<Rightarrow> Inl (envelope_error ''invalid envelope header'')
                      | Some header \<Rightarrow> Inr (header, rest))))"

definition parseItemHeader :: "string \<Rightarrow> itemHeader parsed" where
  "parseItemHeader line =
     (case Unmarshal (decode_struct itemHeader_fields) \<lparr>ih_Type = [], ih_Length = None\<rparr> line of
        None \<Rightarrow> Inl (envelope_error ''invalid item header'')
      | Some header \<Rightarrow>
          if ih_Type header = [] then Inl (envelope_error ''item type is required'')
          else if (case ih_Length header of None \<Rightarrow> False | Some n \<Rightarrow> n < 0)
          then Inl (envelope_error ''item length is invalid'')
          else Inr header)"

definition readItemPayload :: "string \<Rightarrow> itemHeader \<Rightarrow> (string \<times> string) parsed option" where
  "readItemPayload reader header =
     (case ih_Length header of
        None \<Rightarrow>
          (case readLimitedLine MaxEnvelopeItemBytes ''item payload too large'' reader of
             None \<Rightarrow> None
           | Some (Inl e) \<Rightarrow> Some (Inl e)
           | Some (Inr ((payload, at_end), rest)) \<Rightarrow> Some (Inr (trim_line payload, rest)))
      | Some n \<Rightarrow>
          Some (if int MaxEnvelopeItemBytes < n then Inl (envelope_error ''item payload too large'')
                else if length reader < nat n then Inl (envelope_error ''incomplete item payload'')
                else Inr (take (nat n) reader, consumeTrailingNewline (drop (nat n) reader))))"

subsection \<open>Reports of users\<close>

record UserReportItem =
  ur_EventID :: string
  ur_Name :: string
  ur_Email :: string
  ur_Comments :: string

record legacyUserReportPayload =
  lu_EventID :: string
  lu_Name :: string
  lu_Email :: string
  lu_Comments :: string

definition legacyUserReportPayload_fields :: "legacyUserReportPayload field list" where
  "legacyUserReportPayload_fields =
     [(''event_id'', into decode_text lu_EventID (\<lambda>x. lu_EventID_update (\<lambda>_. x))),
      (''name'', into decode_text lu_Name (\<lambda>x. lu_Name_update (\<lambda>_. x))),
      (''email'', into decode_text lu_Email (\<lambda>x. lu_Email_update (\<lambda>_. x))),
      (''comments'', into decode_text lu_Comments (\<lambda>x. lu_Comments_update (\<lambda>_. x)))]"

record feedbackPayload =
  fp_EventID :: string
  fp_Contexts :: raw_map

definition feedbackPayload_fields :: "feedbackPayload field list" where
  "feedbackPayload_fields =
     [(''event_id'', into decode_text fp_EventID (\<lambda>x. fp_EventID_update (\<lambda>_. x))),
      (''contexts'', into decode_raw_map fp_Contexts (\<lambda>x. fp_Contexts_update (\<lambda>_. x)))]"

record feedbackContext =
  fc_Message :: string
  fc_Name :: string
  fc_ContactEmail :: string
  fc_AssociatedEventID :: string

definition feedbackContext_fields :: "feedbackContext field list" where
  "feedbackContext_fields =
     [(''message'', into decode_text fc_Message (\<lambda>x. fc_Message_update (\<lambda>_. x))),
      (''name'', into decode_text fc_Name (\<lambda>x. fc_Name_update (\<lambda>_. x))),
      (''contact_email'', into decode_text fc_ContactEmail (\<lambda>x. fc_ContactEmail_update (\<lambda>_. x))),
      (''associated_event_id'', into decode_text fc_AssociatedEventID (\<lambda>x. fc_AssociatedEventID_update (\<lambda>_. x)))]"

definition parseLegacyUserReportItem :: "string \<Rightarrow> UserReportItem parsed" where
  "parseLegacyUserReportItem payload =
     (case Unmarshal (decode_struct legacyUserReportPayload_fields)
             \<lparr>lu_EventID = [], lu_Name = [], lu_Email = [], lu_Comments = []\<rparr> payload of
        None \<Rightarrow> Inl (envelope_error ''invalid user report'')
      | Some legacy \<Rightarrow>
          Inr \<lparr>ur_EventID = TrimSpace (lu_EventID legacy), ur_Name = TrimSpace (lu_Name legacy),
            ur_Email = TrimSpace (lu_Email legacy), ur_Comments = TrimSpace (lu_Comments legacy)\<rparr>)"

definition parseFeedbackItem :: "string \<Rightarrow> UserReportItem parsed" where
  "parseFeedbackItem payload =
     (case Unmarshal (decode_struct feedbackPayload_fields) \<lparr>fp_EventID = [], fp_Contexts = []\<rparr> payload of
        None \<Rightarrow> Inl (envelope_error ''invalid feedback'')
      | Some feedback \<Rightarrow>
          (case map_of (fp_Contexts feedback) ''feedback'' of
             None \<Rightarrow> Inl (envelope_error ''feedback context is required'')
           | Some contextPayload \<Rightarrow>
               (case decode_struct feedbackContext_fields contextPayload
                       \<lparr>fc_Message = [], fc_Name = [], fc_ContactEmail = [], fc_AssociatedEventID = []\<rparr> of
                  None \<Rightarrow> Inl (envelope_error ''invalid feedback context'')
                | Some context \<Rightarrow>
                    Inr \<lparr>ur_EventID =
                        (if TrimSpace (fc_AssociatedEventID context) = [] then TrimSpace (fp_EventID feedback)
                         else TrimSpace (fc_AssociatedEventID context)),
                      ur_Name = TrimSpace (fc_Name context), ur_Email = TrimSpace (fc_ContactEmail context),
                      ur_Comments = TrimSpace (fc_Message context)\<rparr>)))"

definition parseUserReportItem :: "string \<Rightarrow> string \<Rightarrow> UserReportItem parsed" where
  "parseUserReportItem itemType payload =
     (if itemType = ''feedback'' then parseFeedbackItem payload else parseLegacyUserReportItem payload)"

subsection \<open>Applying an item\<close>

definition isSupportedItem :: "string \<Rightarrow> bool" where
  "isSupportedItem itemType \<longleftrightarrow> itemType = ''event'' \<or> itemType = ''transaction''"

definition isLogItem :: "string \<Rightarrow> bool" where
  "isLogItem itemType \<longleftrightarrow> itemType = ''log'' \<or> itemType = ''otel_log''"

definition isUserReportItem :: "string \<Rightarrow> bool" where
  "isUserReportItem itemType \<longleftrightarrow> itemType = ''user_report'' \<or> itemType = ''feedback''"

definition isIgnoredItem :: "string \<Rightarrow> bool" where
  "isIgnoredItem itemType \<longleftrightarrow> List.member
     [''attachment'', ''check_in'', ''client_report'', ''profile'', ''profile_chunk'', ''replay_event'',
      ''replay_recording'', ''replay_video'', ''session'', ''sessions'', ''span''] itemType"

definition isReservedItem :: "string \<Rightarrow> bool" where
  "isReservedItem itemType \<longleftrightarrow> List.member [''form_data'', ''security'', ''unreal_report''] itemType"

text \<open>The event of the state, present when \<open>hasEvent\<close> is set.\<close>

record envelopeState =
  es_event :: "CanonicalEvent option"
  es_itemType :: string
  es_ignored :: "string list"
  es_userReports :: "UserReportItem list"
  es_logs :: "LogRecord list"

definition no_items :: envelopeState where
  "no_items = \<lparr>es_event = None, es_itemType = [], es_ignored = [], es_userReports = [], es_logs = []\<rparr>"

definition parseLogItem :: "map_order \<Rightarrow> ProjectContext \<Rightarrow> TimePoint \<Rightarrow> string \<Rightarrow> string \<Rightarrow> LogRecord list parsed" where
  "parseLogItem ord project receivedAt itemType payload =
     (if itemType = ''otel_log'' then parseOTLPLogItem ord project receivedAt payload
      else parseSentryLogItem ord project receivedAt payload)"

definition applyLogItem ::
  "map_order \<Rightarrow> ProjectContext \<Rightarrow> TimePoint \<Rightarrow> envelopeState \<Rightarrow> string \<Rightarrow> string \<Rightarrow> envelopeState parsed" where
  "applyLogItem ord project receivedAt state itemType payload =
     (if es_event state \<noteq> None then Inl (envelope_error ''mixed event and log items'')
      else pbind (parseLogItem ord project receivedAt itemType payload) (\<lambda>logs.
        Inr (state\<lparr>es_logs := es_logs state @ logs, es_itemType := itemType\<rparr>)))"

definition applyUserReportItem :: "envelopeState \<Rightarrow> string \<Rightarrow> string \<Rightarrow> envelopeState parsed" where
  "applyUserReportItem state itemType payload =
     pbind (parseUserReportItem itemType payload) (\<lambda>report.
       Inr (state\<lparr>es_userReports := es_userReports state @ [report]\<rparr>))"

definition applyItem ::
  "map_order \<Rightarrow> ProjectContext \<Rightarrow> TimePoint \<Rightarrow> envelopeHeader \<Rightarrow> envelopeState \<Rightarrow> string \<Rightarrow> string \<Rightarrow>
   envelopeState parsed" where
  "applyItem ord project receivedAt header state itemType payload =
     (if isReservedItem itemType then Inl (envelope_error ''reserved item type'')
      else if isUserReportItem itemType then applyUserReportItem state itemType payload
      else if isLogItem itemType then applyLogItem ord project receivedAt state itemType payload
      else if isIgnoredItem itemType then Inr (state\<lparr>es_ignored := es_ignored state @ [itemType]\<rparr>)
      else if \<not> isSupportedItem itemType then Inr (state\<lparr>es_ignored := es_ignored state @ [itemType]\<rparr>)
      else if es_event state \<noteq> None then Inl (envelope_error ''multiple supported event items'')
      else if es_logs state \<noteq> [] then Inl (envelope_error ''mixed log and event items'')
      else pbind (parseEventPayload ord project receivedAt payload itemType (eh_EventID header)) (\<lambda>event.
        Inr (state\<lparr>es_event := Some event, es_itemType := itemType\<rparr>)))"

subsection \<open>Envelopes\<close>

text \<open>The rest of an item after its header: the payload is read and the item applied.\<close>

definition read_item ::
  "map_order \<Rightarrow> ProjectContext \<Rightarrow> TimePoint \<Rightarrow> envelopeHeader \<Rightarrow> envelopeState \<Rightarrow> string \<Rightarrow> string \<Rightarrow>
   (envelopeState \<times> string) parsed option" where
  "read_item ord project receivedAt header state line reader =
     (case parseItemHeader (trim_line line) of
        Inl e \<Rightarrow> Some (Inl e)
      | Inr item \<Rightarrow>
          (case readItemPayload reader item of
             None \<Rightarrow> None
           | Some (Inl e) \<Rightarrow> Some (Inl e)
           | Some (Inr (payload, rest)) \<Rightarrow>
               Some (case applyItem ord project receivedAt header state (ih_Type item) payload of
                       Inl e \<Rightarrow> Inl e
                     | Inr nextState \<Rightarrow> Inr (nextState, rest))))"

text \<open>
  The loop of \<open>ParseEnvelope\<close>. A line that ends with \<open>io.EOF\<close> and is not empty makes that error the
  result: it is a header whose length is a multiple of the buffer's, at the end of the input.
\<close>

partial_function (option) read_items ::
  "map_order \<Rightarrow> ProjectContext \<Rightarrow> TimePoint \<Rightarrow> envelopeHeader \<Rightarrow> nat \<Rightarrow> envelopeState \<Rightarrow> string \<Rightarrow>
   envelopeState parsed option" where
  "read_items ord project receivedAt header itemCount state reader =
     (case readLimitedLine MaxEnvelopeItemHeader ''item header too large'' reader of
        None \<Rightarrow> None
      | Some (Inl e) \<Rightarrow> Some (Inl e)
      | Some (Inr ((line, at_end), rest)) \<Rightarrow>
          if at_end \<and> line = [] then Some (Inr state)
          else if at_end then Some (Inl EndOfInput)
          else if MaxEnvelopeItems < Suc itemCount then Some (Inl (envelope_error ''too many envelope items''))
          else
            (case read_item ord project receivedAt header state line rest of
               None \<Rightarrow> None
             | Some (Inl e) \<Rightarrow> Some (Inl e)
             | Some (Inr (nextState, left)) \<Rightarrow>
                 read_items ord project receivedAt header (Suc itemCount) nextState left))"

definition ParseEnvelope ::
  "map_order \<Rightarrow> ProjectContext \<Rightarrow> TimePoint \<Rightarrow> string \<Rightarrow> envelopeState parsed option" where
  "ParseEnvelope ord project receivedAt payload =
     (case readEnvelopeHeader payload of
        None \<Rightarrow> None
      | Some (Inl e) \<Rightarrow> Some (Inl e)
      | Some (Inr (header, reader)) \<Rightarrow> read_items ord project receivedAt header 0 no_items reader)"

definition EnvelopeHeaderDSN :: "string \<Rightarrow> string parsed option" where
  "EnvelopeHeaderDSN payload =
     (case readEnvelopeHeader payload of
        None \<Rightarrow> None
      | Some (Inl e) \<Rightarrow> Some (Inl e)
      | Some (Inr (header, reader)) \<Rightarrow> Some (Inr (TrimSpace (eh_DSN header))))"

subsection \<open>Reading always ends\<close>

lemma ReadLine_progress:
  "ReadLine s = ((chunk, unfinished, at_end), rest) \<Longrightarrow>
   length rest \<le> length s \<and> (unfinished \<longrightarrow> length rest < length s)"
  by (auto simp: ReadLine_def Let_def buffer_size_def split: if_split_asm)

lemma read_limited_returns:
  "\<exists>r. read_limited limit message line s = Some r \<and>
     (\<forall>l at_end rest. r = Inr ((l, at_end), rest) \<longrightarrow> length l \<le> limit \<and> length rest \<le> length s)"
proof (induction s arbitrary: line rule: length_induct)
  case (1 s)
  obtain chunk unfinished at_end rest where step: "ReadLine s = ((chunk, unfinished, at_end), rest)"
    by (cases "ReadLine s") auto
  note progress = ReadLine_progress [OF step]
  show ?case
  proof (cases "limit < length (line @ chunk) \<or> at_end \<or> \<not> unfinished")
    case True
    with progress show ?thesis
      by (subst read_limited.simps) (auto simp: step)
  next
    case False
    then have "length rest < length s" using progress by simp
    with 1 obtain r where "read_limited limit message (line @ chunk) rest = Some r \<and>
        (\<forall>l at_end left. r = Inr ((l, at_end), left) \<longrightarrow> length l \<le> limit \<and> length left \<le> length rest)"
      by blast
    with False \<open>length rest < length s\<close> show ?thesis
      by (subst read_limited.simps) (fastforce simp: step)
  qed
qed

lemma readLimitedLine_returns: "\<exists>r. readLimitedLine limit message s = Some r"
  using read_limited_returns [of limit message "[]" s] by (auto simp: readLimitedLine_def)

lemma readItemPayload_returns: "\<exists>r. readItemPayload reader item = Some r"
  using readLimitedLine_returns [of MaxEnvelopeItemBytes "''item payload too large''" reader]
  by (auto simp: readItemPayload_def split: option.split sum.split prod.split)

lemma read_item_returns: "\<exists>r. read_item ord project receivedAt header state line reader = Some r"
proof (cases "parseItemHeader (trim_line line)")
  case (Inr item)
  obtain r where "readItemPayload reader item = Some r" using readItemPayload_returns by blast
  with Inr show ?thesis by (auto simp: read_item_def split: sum.split prod.split)
qed (simp add: read_item_def)

lemma readEnvelopeHeader_returns: "\<exists>r. readEnvelopeHeader reader = Some r"
  using readLimitedLine_returns [of MaxEnvelopeHeaderSize "''envelope header too large''" reader]
  by (auto simp: readEnvelopeHeader_def split: option.split sum.split prod.split)

subsection \<open>What an accepted envelope holds\<close>

text \<open>The state after some number of items: an event or logs, each well formed, and bounded lists.\<close>

definition project_event :: "ProjectContext \<Rightarrow> TimePoint \<Rightarrow> CanonicalEvent \<Rightarrow> bool" where
  "project_event project receivedAt ev \<longleftrightarrow>
     event_valid ev \<and> ev_organizationID ev = pc_organizationID project \<and>
     ev_projectID ev = pc_projectID project \<and> ev_receivedAt ev = receivedAt \<and>
     (hex_pattern 32 (ProjectID_value (pc_projectID project)) \<longrightarrow> made_event (accepted_of ev))"

definition state_valid :: "ProjectContext \<Rightarrow> TimePoint \<Rightarrow> nat \<Rightarrow> envelopeState \<Rightarrow> bool" where
  "state_valid project receivedAt itemCount state \<longleftrightarrow>
     (es_event state = None \<or> es_logs state = []) \<and>
     (\<forall>ev. es_event state = Some ev \<longrightarrow> project_event project receivedAt ev) \<and>
     list_all (project_log project receivedAt) (es_logs state) \<and>
     length (es_logs state) \<le> itemCount * MaxLogRecordsPerItem \<and>
     length (es_ignored state) + length (es_userReports state) + (if es_event state = None then 0 else 1) \<le> itemCount"

lemma parseLogItem_records:
  "parseLogItem ord project receivedAt itemType payload = Inr records \<Longrightarrow>
   length records \<le> MaxLogRecordsPerItem \<and> list_all (project_log project receivedAt) records"
  using parseSentryLogItem_records parseOTLPLogItem_records
  by (auto simp: parseLogItem_def split: if_split_asm)

lemma applyItem_valid:
  assumes "applyItem ord project receivedAt header state itemType payload = Inr nextState"
    and "state_valid project receivedAt n state"
  shows "state_valid project receivedAt (Suc n) nextState"
  using assms parseLogItem_records [of ord project receivedAt itemType payload]
  by (auto simp: applyItem_def applyUserReportItem_def applyLogItem_def state_valid_def project_event_def
      result_simps dest!: parsed_event split: if_split_asm)

lemma read_item_valid:
  assumes "read_item ord project receivedAt header state line reader = Some (Inr (nextState, left))"
    and "state_valid project receivedAt n state"
  shows "state_valid project receivedAt (Suc n) nextState"
  using assms by (auto simp: read_item_def split: sum.split_asm option.split_asm prod.split_asm dest: applyItem_valid)

lemma state_valid_mono: "state_valid project receivedAt m state \<Longrightarrow> m \<le> n \<Longrightarrow> state_valid project receivedAt n state"
  by (auto simp: state_valid_def elim: order_trans intro: mult_le_mono1)

lemma read_items_returns:
  "itemCount \<le> MaxEnvelopeItems \<Longrightarrow> state_valid project receivedAt itemCount state \<Longrightarrow>
   \<exists>r. read_items ord project receivedAt header itemCount state reader = Some r \<and>
     (\<forall>final. r = Inr final \<longrightarrow> state_valid project receivedAt MaxEnvelopeItems final)"
proof (induction "MaxEnvelopeItems - itemCount" arbitrary: itemCount state reader)
  case (0 itemCount state reader)
  obtain r where "readLimitedLine MaxEnvelopeItemHeader ''item header too large'' reader = Some r"
    using readLimitedLine_returns by blast
  with 0 show ?case
    by (subst read_items.simps) (auto simp: state_valid_mono split: sum.split prod.split)
next
  case (Suc k itemCount state reader)
  obtain r where line: "readLimitedLine MaxEnvelopeItemHeader ''item header too large'' reader = Some r"
    using readLimitedLine_returns by blast
  show ?case
  proof (cases r)
    case (Inl e)
    then show ?thesis by (subst read_items.simps) (simp add: line)
  next
    case (Inr x)
    obtain l at_end rest where x: "x = ((l, at_end), rest)" by (cases x) auto
    obtain item where item: "read_item ord project receivedAt header state l rest = Some item"
      using read_item_returns by blast
    have room: "\<not> MaxEnvelopeItems < Suc itemCount" using Suc.hyps(2) by simp
    show ?thesis
    proof (cases "at_end")
      case True
      with Suc.prems show ?thesis
        by (subst read_items.simps) (simp add: line Inr x state_valid_mono)
    next
      case False
      show ?thesis
      proof (cases item)
        case (Inl e)
        with False show ?thesis by (subst read_items.simps) (simp add: line Inr x item room)
      next
        case right: (Inr y)
        obtain nextState left where y: "y = (nextState, left)" by (cases y)
        have "state_valid project receivedAt (Suc itemCount) nextState"
          using read_item_valid Suc.prems(2) item right y by blast
        moreover have "k = MaxEnvelopeItems - Suc itemCount" "Suc itemCount \<le> MaxEnvelopeItems"
          using Suc.hyps(2) by simp_all
        ultimately obtain r' where
          "read_items ord project receivedAt header (Suc itemCount) nextState left = Some r' \<and>
            (\<forall>final. r' = Inr final \<longrightarrow> state_valid project receivedAt MaxEnvelopeItems final)"
          using Suc.hyps(1) [of "Suc itemCount" nextState left] by blast
        with False show ?thesis by (subst read_items.simps) (simp add: line Inr x item right y room)
      qed
    qed
  qed
qed

lemma ParseEnvelope_returns:
  "\<exists>r. ParseEnvelope ord project receivedAt payload = Some r \<and>
    (\<forall>state. r = Inr state \<longrightarrow> state_valid project receivedAt MaxEnvelopeItems state)"
proof -
  obtain h where h: "readEnvelopeHeader payload = Some h" using readEnvelopeHeader_returns by blast
  show ?thesis
  proof (cases h)
    case (Inr x)
    obtain header reader where x: "x = (header, reader)" by (cases x)
    have "state_valid project receivedAt 0 no_items" by (simp add: state_valid_def no_items_def)
    then show ?thesis
      using read_items_returns [of 0 project receivedAt no_items ord header reader] by (simp add: ParseEnvelope_def h Inr x)
  qed (simp add: ParseEnvelope_def h)
qed

end
