(* ===== verification/SentEvents.thy ===== *)
theory SentEvents
  imports ParsedEvents
begin

text \<open>
  From the SDK's JSON to the stored event: an error with a stack trace, written as an SDK writes it,
  is parsed into the canonical event with the same id, time, title and frames.
\<close>

subsection \<open>Members and fs\<close>

text \<open>The names of a struct differ also when their case is folded, so each member has one field.\<close>

definition names_apart :: "'r field list \<Rightarrow> bool" where
  "names_apart fs \<longleftrightarrow> distinct (map (\<lambda>f. map fold_rune (runes (fst f))) fs)"

lemma find_field:
  assumes "names_apart fs" and "map_of fs k = Some dec"
  shows "List.find (\<lambda>f. same_name (fst f) k) fs = Some (k, dec)"
  using assms
proof (induction fs)
  case (Cons f fs)
  show ?case
  proof (cases "fst f = k")
    case True
    with Cons.prems(2) show ?thesis by (cases f) (simp add: same_name_def)
  next
    case False
    with Cons.prems(2) have found: "map_of fs k = Some dec" by (cases f) auto
    then have "(k, dec) \<in> set fs" by (rule map_of_SomeD)
    then have "map fold_rune (runes k) \<in> set (map (\<lambda>f. map fold_rune (runes (fst f))) fs)" by force
    moreover have "map fold_rune (runes (fst f)) \<notin> set (map (\<lambda>f. map fold_rune (runes (fst f))) fs)"
      using Cons.prems(1) by (simp add: names_apart_def)
    ultimately have "map fold_rune (runes k) \<noteq> map fold_rune (runes (fst f))" by metis
    then have "\<not> same_name (fst f) k" using False by (auto simp: same_name_def)
    with Cons found show ?thesis by (simp add: names_apart_def)
  qed
qed simp

lemma decode_member:
  assumes "names_apart fs" and "map_of fs k \<noteq> None"
  shows "decode_members fs ((k, v) # ms) r =
    (case the (map_of fs k) v r of None \<Rightarrow> None | Some r' \<Rightarrow> decode_members fs ms r')"
proof -
  obtain dec where "map_of fs k = Some dec" using assms(2) by blast
  then show ?thesis using find_field [OF assms(1)] by simp
qed

lemma runes_name: "list_all (\<lambda>c. byte c < 128) s \<Longrightarrow> runes s = map byte s"
  by (simp add: runes_ascii is_ascii_def)

lemma payload_names: "names_apart rawEventPayload_fields"
  by (simp add: names_apart_def rawEventPayload_fields_def runes_name fold_rune_def)

lemma frame_names: "names_apart rawFrame_fields" "names_apart rawStacktrace_fields"
  "names_apart rawExceptionValue_fields" "names_apart rawException_fields"
  by (simp_all add: names_apart_def rawFrame_fields_def rawStacktrace_fields_def rawExceptionValue_fields_def
      rawException_fields_def runes_name fold_rune_def)

lemma decode_elements_map:
  "(\<And>x. x \<in> set xs \<Longrightarrow> dec (g x) zero = Some (h x)) \<Longrightarrow>
   decode_elements dec zero (map g xs) [] = Some (map h xs)"
  by (induction xs) auto

lemma ParseInt10_digits: "n < 2 ^ 63 \<Longrightarrow> ParseInt10 (digits n) = Some (int n)"
proof -
  assume n: "n < 2 ^ 63"
  obtain c s where ds: "digits n = c # s" by (cases "digits n") auto
  have "digit_byte c" using digits_digit_byte [of n] ds by simp
  then have "c \<noteq> CHR ''+''" "c \<noteq> CHR ''-''" by (auto simp: digit_byte_def)
  then have "lex_sign (digits n) = ([], digits n)" by (simp add: lex_sign_def ds)
  then show ?thesis
    using n digits_digit_byte [of n] by (simp add: ParseInt10_def decimal_value_digits Let_def)
qed

lemma lex_number_digits: "lex_number (digits n) = Some (digits n, [])"
proof (cases "n = 0")
  case True
  have "digits 0 = ''0''" by code_simp
  with True show ?thesis
    by (simp add: lex_number_def lex_minus_def lex_integer_def lex_fraction_def lex_exponent_def digit_byte_def)
next
  case False
  have no_zero: "hd (digits n) \<noteq> CHR ''0''" using False
  proof (induction n rule: digits.induct)
    case (1 n)
    show ?case
    proof (cases "n < 10")
      case True
      then have "digits n = [char_of (48 + n)]" by (subst digits.simps) simp
      moreover have "byte (char_of (48 + n)) = 48 + n" using True by simp
      moreover have "byte CHR ''0'' = 48" by simp
      ultimately show ?thesis using 1(2) by (metis add_cancel_left_right list.sel(1))
    next
      case False
      with 1 have "hd (digits (n div 10)) \<noteq> CHR ''0''" by simp
      with False show ?thesis by (simp add: digits_step hd_append)
    qed
  qed
  obtain c s where ds: "digits n = c # s" by (cases "digits n") auto
  have ok: "list_all digit_byte (c # s)" using digits_digit_byte [of n] ds by simp
  then have "c \<noteq> CHR ''-''" by (auto simp: digit_byte_def)
  moreover have run: "takeWhile digit_byte s = s" "dropWhile digit_byte s = []" using ok by (auto simp: list_all_iff)
  ultimately show ?thesis using ok no_zero
    by (simp add: ds run lex_number_def lex_minus_def lex_integer_def lex_fraction_def lex_exponent_def)
qed

subsection \<open>What an SDK sends\<close>

record sdk_frame =
  sf_filename :: string
  sf_abs_path :: string
  sf_function :: string
  sf_lineno :: nat
  sf_colno :: nat
  sf_in_app :: bool

definition frame_json :: "sdk_frame \<Rightarrow> json_value" where
  "frame_json f = ObjectValue
     [(''filename'', TextValue (sf_filename f)), (''abs_path'', TextValue (sf_abs_path f)),
      (''function'', TextValue (sf_function f)), (''lineno'', NumberValue (digits (sf_lineno f))),
      (''colno'', NumberValue (digits (sf_colno f))), (''in_app'', BoolValue (sf_in_app f))]"

definition exception_json :: "string \<Rightarrow> string \<Rightarrow> sdk_frame list \<Rightarrow> json_value" where
  "exception_json typ val frames = ObjectValue [(''values'', ArrayValue [ObjectValue
     [(''type'', TextValue typ), (''value'', TextValue val),
      (''stacktrace'', ObjectValue [(''frames'', ArrayValue (map frame_json frames))])]])]"

definition error_json ::
  "string \<Rightarrow> gotime \<Rightarrow> string \<Rightarrow> string \<Rightarrow> string \<Rightarrow> sdk_frame list \<Rightarrow> string \<Rightarrow> json_value" where
  "error_json eventID t platform typ val frames ip = ObjectValue
     [(''event_id'', TextValue eventID), (''timestamp'', TextValue (RFC3339Nano t)),
      (''platform'', TextValue platform), (''exception'', exception_json typ val frames),
      (''user'', ObjectValue [(''ip_address'', TextValue ip)])]"

definition raw_frame :: "sdk_frame \<Rightarrow> rawFrame" where
  "raw_frame f = no_frame\<lparr>rf_Filename := sf_filename f, rf_AbsPath := sf_abs_path f, rf_Function := sf_function f,
     rf_Lineno := int (sf_lineno f), rf_Colno := int (sf_colno f), rf_InApp := Some (sf_in_app f)\<rparr>"

definition sendable_frame :: "sdk_frame \<Rightarrow> bool" where
  "sendable_frame f \<longleftrightarrow> ValidString (sf_filename f) \<and> ValidString (sf_abs_path f) \<and> ValidString (sf_function f) \<and>
     sf_lineno f < 2 ^ 63 \<and> sf_colno f < 2 ^ 63"

lemma frame_fields:
  "map_of rawFrame_fields ''filename'' = Some (into decode_text rf_Filename (\<lambda>x. rf_Filename_update (\<lambda>_. x)))"
  "map_of rawFrame_fields ''abs_path'' = Some (into decode_text rf_AbsPath (\<lambda>x. rf_AbsPath_update (\<lambda>_. x)))"
  "map_of rawFrame_fields ''function'' = Some (into decode_text rf_Function (\<lambda>x. rf_Function_update (\<lambda>_. x)))"
  "map_of rawFrame_fields ''lineno'' = Some (into decode_int rf_Lineno (\<lambda>x. rf_Lineno_update (\<lambda>_. x)))"
  "map_of rawFrame_fields ''colno'' = Some (into decode_int rf_Colno (\<lambda>x. rf_Colno_update (\<lambda>_. x)))"
  "map_of rawFrame_fields ''in_app'' =
     Some (into (decode_pointer decode_bool False) rf_InApp (\<lambda>x. rf_InApp_update (\<lambda>_. x)))"
  by (simp_all add: rawFrame_fields_def)

lemma payload_fields:
  "map_of rawEventPayload_fields ''event_id'' = Some (into decode_text raw_EventID (\<lambda>x. raw_EventID_update (\<lambda>_. x)))"
  "map_of rawEventPayload_fields ''timestamp'' = Some (into decode_raw raw_Timestamp (\<lambda>x. raw_Timestamp_update (\<lambda>_. x)))"
  "map_of rawEventPayload_fields ''platform'' = Some (into decode_text raw_Platform (\<lambda>x. raw_Platform_update (\<lambda>_. x)))"
  "map_of rawEventPayload_fields ''exception'' = Some (into decode_raw raw_Exception (\<lambda>x. raw_Exception_update (\<lambda>_. x)))"
  "map_of rawEventPayload_fields ''user'' = Some (into decode_raw raw_User (\<lambda>x. raw_User_update (\<lambda>_. x)))"
  by (simp_all add: rawEventPayload_fields_def)

lemmas decode_scalars = into_def decode_text_def decode_int_def decode_pointer_def decode_bool_def decode_raw_def

lemma frame_decoded:
  assumes "sendable_frame f"
  shows "decode_struct rawFrame_fields (frame_json f) no_frame = Some (raw_frame f)"
  using assms
  by (simp add: decode_struct_def frame_json_def decode_member [OF frame_names(1)] frame_fields decode_scalars
      ParseInt10_digits sendable_frame_def raw_frame_def del: decode_members.simps(2))
     

lemma exception_decoded:
  assumes "list_all sendable_frame frames"
  shows "exceptionValues (Some (exception_json typ val frames)) =
    \<lparr>rex_Values = [\<lparr>rx_Type = typ, rx_Value = val, rx_Stacktrace = \<lparr>rst_Frames = map raw_frame frames\<rparr>\<rparr>]\<rparr>"
proof -
  have frames: "decode_elements (decode_struct rawFrame_fields) no_frame (map frame_json frames) [] =
      Some (map raw_frame frames)"
    using assms by (intro decode_elements_map frame_decoded) (simp add: list_all_iff)
  have stack: "map_of rawStacktrace_fields ''frames'' = Some (into (decode_slice (decode_struct rawFrame_fields) no_frame)
      rst_Frames (\<lambda>x. rst_Frames_update (\<lambda>_. x)))"
    by (simp add: rawStacktrace_fields_def)
  have exc: "map_of rawExceptionValue_fields ''type'' = Some (into decode_text rx_Type (\<lambda>x. rx_Type_update (\<lambda>_. x)))"
    "map_of rawExceptionValue_fields ''value'' = Some (into decode_text rx_Value (\<lambda>x. rx_Value_update (\<lambda>_. x)))"
    "map_of rawExceptionValue_fields ''stacktrace'' =
       Some (into (decode_struct rawStacktrace_fields) rx_Stacktrace (\<lambda>x. rx_Stacktrace_update (\<lambda>_. x)))"
    by (simp_all add: rawExceptionValue_fields_def)
  have top: "map_of rawException_fields ''values'' = Some (into decode_exception_values rex_Values
      (\<lambda>x. rex_Values_update (\<lambda>_. x)))"
    by (simp add: rawException_fields_def)
  show ?thesis
    by (simp add: exceptionValues_def exception_json_def decode_struct_def decode_slice_def decode_exception_values_def
        decode_member [OF frame_names(2)] decode_member [OF frame_names(3)] decode_member [OF frame_names(4)]
        stack exc top frames decode_scalars no_exception_value_def del: decode_members.simps(2))
qed

lemma error_decoded:
  "decode_struct rawEventPayload_fields (error_json eventID t platform typ val frames ip) no_payload =
    Some (no_payload\<lparr>raw_EventID := eventID, raw_Timestamp := Some (TextValue (RFC3339Nano t)),
      raw_Platform := platform, raw_Exception := Some (exception_json typ val frames),
      raw_User := Some (ObjectValue [(''ip_address'', TextValue ip)])\<rparr>)"
  by (simp add: decode_struct_def error_json_def decode_member [OF payload_names] payload_fields decode_scalars
      no_payload_def del: decode_members.simps(2))

subsection \<open>What is stored\<close>

text \<open>The frame a title is grouped by: the last one of the application, or else the last one.\<close>

definition grouping_frame :: "sdk_frame list \<Rightarrow> sdk_frame option" where
  "grouping_frame frames =
     (case List.find sf_in_app (rev frames) of
        Some f \<Rightarrow> Some f
      | None \<Rightarrow> if frames = [] then None else Some (last frames))"

definition grouping_parts :: "string \<Rightarrow> string \<Rightarrow> sdk_frame list \<Rightarrow> string list" where
  "grouping_parts typ val frames =
     normalizeParts (case grouping_frame frames of
       None \<Rightarrow> [typ, val, [], [], ''0'']
     | Some f \<Rightarrow> [typ, val, (if TrimSpace (sf_filename f) \<noteq> [] then sf_filename f else sf_abs_path f),
         sf_function f, digits (sf_lineno f)])"

text \<open>A frame whose path and function the constructor accepts, and the frame it becomes.\<close>

definition js_frame_ok :: "sdk_frame \<Rightarrow> bool" where
  "js_frame_ok f \<longleftrightarrow> TrimSpace (sf_abs_path f) = sf_abs_path f \<and>
     visible_text jsStacktraceAbsPathMaxBytes (sf_abs_path f) \<and> TrimSpace (sf_function f) = sf_function f \<and>
     (sf_function f = [] \<or> visible_text jsStacktraceFunctionMaxBytes (sf_function f)) \<and> 1 \<le> sf_lineno f"

definition js_frame :: "sdk_frame \<Rightarrow> JsStacktraceFrame" where
  "js_frame f = \<lparr>jf_absPath = sf_abs_path f, jf_function = sf_function f, jf_generatedLine = int (sf_lineno f),
     jf_generatedColumn = int (sf_colno f), jf_hasResolution = False, jf_resolution = zero_resolution\<rparr>"

lemma visible_text_not_Nil: "visible_text n s \<Longrightarrow> s \<noteq> []"
  by (simp add: visible_text_def)

lemma js_frame_built:
  assumes "js_frame_ok f"
  shows "buildJsStacktraceFrame (raw_frame f) = Some (js_frame f)"
proof -
  have path: "sf_abs_path f \<noteq> []" using assms by (auto simp: js_frame_ok_def dest: visible_text_not_Nil)
  have "normalizeJsAbsPath (sf_abs_path f) = ok (sf_abs_path f)" "normalizeJsFunction (sf_function f) = ok (sf_function f)"
    using assms by (auto simp: jsAbsPath.new_ok_iff jsFunction.new_ok_iff js_frame_ok_def)
  with path assms show ?thesis
    by (simp add: buildJsStacktraceFrame_def raw_frame_def NewUnresolvedJsStacktraceFrame_def js_frame_def js_frame_ok_def)
qed

lemma map_filter_map_Some: "(\<And>x. x \<in> set xs \<Longrightarrow> f (g x) = Some (h x)) \<Longrightarrow> List.map_filter f (map g xs) = map h xs"
  by (induction xs) (auto simp: List.map_filter_simps)

lemma selected_raw_frame:
  "selectedFrame \<lparr>rst_Frames = map raw_frame frames\<rparr> =
    (case grouping_frame frames of None \<Rightarrow> no_frame | Some f \<Rightarrow> raw_frame f)"
proof -
  have "List.find (\<lambda>frame. rf_InApp frame = Some True) (map raw_frame fs) = map_option raw_frame (List.find sf_in_app fs)"
    for fs by (induction fs) (auto simp: raw_frame_def)
  from this [of "rev frames"] show ?thesis
    by (auto simp: selectedFrame_def selectedInAppFrame_def grouping_frame_def rev_map last_map split: option.split)
qed

text \<open>A document is written with valid strings and a few levels of nesting.\<close>

lemma error_json_writable:
  assumes "ValidString eventID" "ValidString platform" "ValidString typ" "ValidString val" "ValidString ip"
    and "list_all sendable_frame frames"
  shows "parse_json (write_json (error_json eventID t platform typ val frames ip)) =
    Some (error_json eventID t platform typ val frames ip)"
proof (rule write_parse)
  have names: "list_all is_ascii [''event_id'', ''timestamp'', ''platform'', ''exception'', ''values'', ''type'', ''value'',
      ''stacktrace'', ''frames'', ''filename'', ''abs_path'', ''function'', ''lineno'', ''colno'', ''in_app'', ''user'', ''ip_address'']"
    by (simp add: is_ascii_def)
  have time: "ValidString (RFC3339Nano t)"
    using RFC3339Nano_graph by (intro ascii_ValidString graph_ascii_is_ascii)
  show "writable (error_json eventID t platform typ val frames ip)"
    using assms names time
    by (auto simp: error_json_def exception_json_def frame_json_def sendable_frame_def list_all_iff ascii_ValidString
        lex_number_digits)
  have frame: "depth (frame_json f) = 1" for f by (simp add: frame_json_def)
  have flat: "fold max (map depth (map frame_json frames)) 0 \<le> 1"
    by (simp add: fold_max_le frame)
  then show "depth (error_json eventID t platform typ val frames ip) \<le> maxNestingDepth"
    by (simp add: error_json_def exception_json_def maxNestingDepth_def)
qed

lemma range_entries_single:
  assumes "visits_all ord"
  shows "range_entries ord loop [(k, v)] = [(k, v)]"
proof -
  have "distinct (ord loop [k])" "set (ord loop [k]) = {k}" using assms by (auto simp: visits_all_def)
  then have "length (ord loop [k]) = card {k}" by (metis distinct_card)
  then obtain x where "ord loop [k] = [x]" by (auto simp: length_Suc_conv)
  with \<open>set (ord loop [k]) = {k}\<close> have "ord loop [k] = [k]" by simp
  then show ?thesis by (simp add: range_entries_def)
qed

lemma digits_zero: "digits 0 = ''0''"
  by code_simp

lemma range_entries_Nil: "visits_all ord \<Longrightarrow> range_entries ord loop [] = []"
proof -
  assume "visits_all ord"
  then have "set (ord loop []) = set []" unfolding visits_all_def using distinct.simps(1) by blast
  then show ?thesis by (simp add: range_entries_def)
qed

lemma sent_error_parsed:
  assumes "ValidString platform" "ValidString typ" "ValidString val" "ValidString ip" "list_all sendable_frame frames"
    and "visits_all ord" and "hex_pattern 32 eventID" and "0 < t" and "t < first_ten_thousand_years"
    and "trimmed_part (typ @ '': '' @ val)" and "TimePoint_value receivedAt \<noteq> 0"
    and "hex_pattern 32 (OrganizationID_value (pc_organizationID project))"
    and "hex_pattern 32 (ProjectID_value (pc_projectID project))"
  shows "\<exists>ev. ParseStoreEvent ord project receivedAt
        (write_json (error_json eventID t platform typ val frames ip)) = Inr ev \<and>
      ev_eventID ev = EventID eventID \<and> ev_occurredAt ev = TimePoint t \<and> ev_kind ev = EventKindError \<and>
      ev_tags ev = normalizeTags (case (if pc_scrubIP project then None else firstPublicClientIP [ip]) of
        None \<Rightarrow> [] | Some a \<Rightarrow> [(''client_ip'', a)]) \<and>
      ev_level ev = EventLevelError \<and> ev_title ev = EventTitle (typ @ '': '' @ val) \<and>
      ev_defaultGroupingParts ev =
        (if grouping_parts typ val frames = [] then [typ @ '': '' @ val] else grouping_parts typ val frames) \<and>
      (isJsPlatform platform \<and> list_all js_frame_ok frames \<longrightarrow> ev_jsStacktrace ev = map js_frame frames)"
proof -
  let ?raw = "no_payload\<lparr>raw_EventID := eventID, raw_Timestamp := Some (TextValue (RFC3339Nano t)),
      raw_Platform := platform, raw_Exception := Some (exception_json typ val frames),
      raw_User := Some (ObjectValue [(''ip_address'', TextValue ip)])\<rparr>"
  have hex: "ValidString eventID"
    using assms(7) by (auto intro!: ascii_ValidString graph_ascii_is_ascii hex_pattern_graph simp: hex_pattern_def)
  have raw: "Unmarshal (decode_struct rawEventPayload_fields) no_payload
      (write_json (error_json eventID t platform typ val frames ip)) = Some ?raw"
    using assms(1-5) hex by (simp add: Unmarshal_def error_json_writable error_decoded)
  note exc = exception_decoded [OF assms(5), of "typ" "val"]
  have id: "NewEventID eventID = ok (EventID eventID)"
    using assms(7) by (simp add: NewEventID_def normalizeUUID_id)
  have time: "parseTimestamp (Some (TextValue (RFC3339Nano t))) = Inr (TimePoint t)"
    using assms(8,9) time_roundtrip [of t]
    by (simp add: parseTimestamp_def decode_text_def parseTextTimestamp_def NewTimePoint_def UTC_def)
  have kind: "eventKind ''event'' ?raw = EventKindError"
    by (simp add: eventKind_def exc no_payload_def)
  have level: "eventLevel EventKindError (raw_Level no_payload) = EventLevelError"
    by (simp add: eventLevel_def event_kind_defs no_payload_def)
  have title: "eventTitle EventKindError ?raw = Inr (EventTitle (typ @ '': '' @ val))"
    using assms(10) by (simp add: eventTitle_def titleCandidates_def exc selectedException_def NewEventTitle_def trimmed_part_def)
  note no_entries = range_entries_Nil [OF assms(6)]
  let ?tags = "case (if pc_scrubIP project then None else firstPublicClientIP [ip]) of
      None \<Rightarrow> [] | Some a \<Rightarrow> [(''client_ip'', a)]"
  have entries: "range_entries ord ''normalizeTags'' ?tags = ?tags"
    using no_entries range_entries_single [OF assms(6)]
    by (cases "if pc_scrubIP project then None else firstPublicClientIP [ip]") (simp_all only: option.case)
  have user: "userIPCandidates (Some (ObjectValue [(''ip_address'', TextValue ip)])) = [ip]"
    by (simp add: userIPCandidates_def decode_struct_def decode_text_def same_name_def)
  have dist: "NewOptionalDistName [] = ok (DistName [])"
    by (simp add: NewOptionalDistName_def)
  have parsed: "parseTags ord (raw_Tags no_payload) = []" by (simp add: no_payload_def parseTags_def)
  have found: "clientIPTag ord project ?raw [] = (if pc_scrubIP project then None else firstPublicClientIP [ip])"
    by (simp add: clientIPTag_def ScrubIPAddresses_def clientIPCandidates_def requestIPCandidates_def user no_entries
        no_payload_def)
  have names: "raw_Dist no_payload = []" "raw_ServerName no_payload = []" by (simp_all add: no_payload_def)
  have tags: "eventTags ord project ?raw = Inr ?tags"
    by (cases "clientIPTag ord project ?raw []", insert found)
      (simp_all add: eventTags_def parsed names withoutClientIPTags_def put_tag_def withEventDistTag_def dist
        DistName_HasValue_def del: firstPublicClientIP.simps)
  have none: "transactionData EventKindError ?raw title occurredAt = Inr zero_transaction" for title occurredAt
    by (simp add: transactionData_def event_kind_defs)
  have parts: "normalizeParts (defaultGroupingParts EventKindError ?raw title) = grouping_parts typ val frames" for title
    by (simp add: defaultGroupingParts_def exc selectedException_def selected_raw_frame grouping_parts_def
        frameFilename_def no_frame_def raw_frame_def itoa_def digits_zero split: option.split)
  let ?params = "\<lparr>p_OrganizationID = pc_organizationID project, p_ProjectID = pc_projectID project,
      p_EventID = EventID eventID, p_OccurredAt = TimePoint t, p_ReceivedAt = receivedAt,
      p_Kind = EventKindError, p_Level = EventLevelError, p_Title = EventTitle (typ @ '': '' @ val),
      p_Platform = raw_Platform ?raw, p_Release = raw_Release ?raw, p_Environment = raw_Environment ?raw, p_Tags = ?tags,
      p_DefaultGroupingParts = defaultGroupingParts EventKindError ?raw (EventTitle (typ @ '': '' @ val)),
      p_ExplicitFingerprint = normalizeFingerprint (raw_Fingerprint ?raw), p_Attachments = [],
      p_JsStacktrace = jsStacktraceFrames EventKindError ?raw, p_NativeModules = nativeModules ?raw,
      p_NativeFrames = nativeStacktraceFrames EventKindError ?raw, p_Transaction = zero_transaction\<rparr>"
  have "eventID \<noteq> []" "OrganizationID_value (pc_organizationID project) \<noteq> []" "ProjectID_value (pc_projectID project) \<noteq> []"
    using assms(7,12,13) by (auto simp: hex_pattern_def)
  then have "\<exists>ev. NewCanonicalEvent ?params = ok ev"
    using assms(8,10,11)
    by (simp add: NewCanonicalEvent_def canonicalTransaction_def Let_def EventKind_valid_def EventLevel_valid_def
        trimmed_part_def zero_transaction_def event_kind_defs)
  then obtain ev where new: "NewCanonicalEvent ?params = ok ev" by blast
  have "ParseStoreEvent ord project receivedAt (write_json (error_json eventID t platform typ val frames ip)) = Inr ev"
    using new by (simp add: ParseStoreEvent_def parseEventPayload_def raw payload_event_def id time kind level title tags
        none entries)
  moreover have "jsStacktraceFrames EventKindError ?raw = map js_frame frames"
    if "isJsPlatform platform" "list_all js_frame_ok frames"
    using that by (auto simp: jsStacktraceFrames_def exc exception_frames_def list_all_iff
        intro!: map_filter_map_Some js_frame_built)
  ultimately show ?thesis
    using NewCanonicalEvent_fields [OF new] NewCanonicalEvent_parts [OF new] parts by auto
qed

text \<open>
  C39. What an SDK reports is what is stored: an error with any number of frames and the address of its
  user, written as JSON, is parsed into the event with its id, its time to the nanosecond, the title
  \<open>type: value\<close>, and the default grouping of type, value and the last frame of the application. From a
  JavaScript platform the frames the constructor accepts become the frames of the event, each with its
  position. The only tag is \<open>client_ip\<close>, with the public address of the user, when the project keeps
  addresses; a project that scrubs them stores no tag.
\<close>

theorem sent_errors_are_stored_as_sent:
  assumes "ValidString platform" "ValidString typ" "ValidString val" "ValidString ip" "list_all sendable_frame frames"
    and "visits_all ord" and "hex_pattern 32 eventID" and "0 < t" and "t < first_ten_thousand_years"
    and "trimmed_part (typ @ '': '' @ val)" and "TimePoint_value receivedAt \<noteq> 0"
    and "hex_pattern 32 (OrganizationID_value (pc_organizationID project))"
    and "hex_pattern 32 (ProjectID_value (pc_projectID project))"
  shows "\<exists>ev. ParseStoreEvent ord project receivedAt
        (write_json (error_json eventID t platform typ val frames ip)) = Inr ev \<and>
      ev_eventID ev = EventID eventID \<and> ev_occurredAt ev = TimePoint t \<and> ev_kind ev = EventKindError \<and>
      ev_tags ev = normalizeTags (case (if pc_scrubIP project then None else firstPublicClientIP [ip]) of
        None \<Rightarrow> [] | Some a \<Rightarrow> [(''client_ip'', a)]) \<and>
      ev_level ev = EventLevelError \<and> ev_title ev = EventTitle (typ @ '': '' @ val) \<and>
      ev_defaultGroupingParts ev =
        (if grouping_parts typ val frames = [] then [typ @ '': '' @ val] else grouping_parts typ val frames) \<and>
      (isJsPlatform platform \<and> list_all js_frame_ok frames \<longrightarrow> ev_jsStacktrace ev = map js_frame frames)"
  using assms by (rule sent_error_parsed)

subsection \<open>An error of a browser\<close>

definition browser_frames :: "sdk_frame list" where
  "browser_frames =
     [\<lparr>sf_filename = ''app.js'', sf_abs_path = ''https://a.example/app.js'', sf_function = ''render'',
       sf_lineno = 12, sf_colno = 7, sf_in_app = True\<rparr>,
      \<lparr>sf_filename = ''lib.js'', sf_abs_path = ''https://a.example/lib.js'', sf_function = [],
       sf_lineno = 1, sf_colno = 0, sf_in_app = False\<rparr>]"

definition open_project :: ProjectContext where
  "open_project = NewProjectContextWithPrivacy (OrganizationID (replicate 32 CHR ''a''))
     (ProjectID (replicate 32 CHR ''b'')) False"

definition browser_error :: string where
  "browser_error = write_json (error_json (replicate 32 CHR ''c'') 1500000000 ''javascript'' ''TypeError''
     ''x is null'' browser_frames ''8.8.8.8'')"

lemma visits_in_order: "visits_all (\<lambda>_ ks. ks)"
  by (simp add: visits_all_def)

lemma browser_trims:
  "TrimSpace ''javascript'' = ''javascript''" "TrimSpace ''8.8.8.8'' = ''8.8.8.8''" "TrimSpace ''client_ip'' = ''client_ip''"
  "TrimSpace ''TypeError'' = ''TypeError''" "TrimSpace ''x is null'' = ''x is null''" "TrimSpace ''app.js'' = ''app.js''"
  "TrimSpace ''render'' = ''render''" "TrimSpace ''12'' = ''12''" "TrimSpace ''TypeError: x is null'' = ''TypeError: x is null''"
  "TrimSpace ''https://a.example/app.js'' = ''https://a.example/app.js''"
  "TrimSpace ''https://a.example/lib.js'' = ''https://a.example/lib.js''"
  by (simp_all add: TrimSpace_id)

lemma browser_texts:
  "ValidString ''javascript''" "ValidString ''TypeError''" "ValidString ''x is null''" "ValidString ''8.8.8.8''"
  "list_all sendable_frame browser_frames"
  by (simp_all add: browser_frames_def sendable_frame_def ascii_ValidString is_ascii_def)

lemma browser_ids:
  "hex_pattern 32 (replicate 32 CHR ''c'')"
  "0 < (1500000000 :: gotime)" "(1500000000 :: gotime) < first_ten_thousand_years"
  "trimmed_part (''TypeError'' @ '': '' @ ''x is null'')" "TimePoint_value (TimePoint 1) \<noteq> 0"
  "hex_pattern 32 (OrganizationID_value (pc_organizationID open_project))"
  "hex_pattern 32 (ProjectID_value (pc_projectID open_project))"
proof -
  show "trimmed_part (''TypeError'' @ '': '' @ ''x is null'')" by (simp add: trimmed_part_def browser_trims)
qed code_simp+

lemma public_address_kept: "firstPublicClientIP [''8.8.8.8''] = Some ''8.8.8.8''"
proof -
  have "cut_last CHR '':'' ''8.8.8.8'' = None" "ParseAddr ''8.8.8.8'' = Some (V4 [8, 8, 8, 8])"
    "Addr_String (V4 [8, 8, 8, 8]) = ''8.8.8.8''" "split_byte CHR '','' ''8.8.8.8'' = [''8.8.8.8'']"
    by code_simp+
  moreover have "IsGlobalUnicast (V4 [8, 8, 8, 8])" "IsValid (V4 [8, 8, 8, 8])" "\<not> IsPrivate (V4 [8, 8, 8, 8])"
    "\<not> IsLoopback (V4 [8, 8, 8, 8])" "\<not> IsLinkLocalUnicast (V4 [8, 8, 8, 8])" "\<not> IsUnspecified (V4 [8, 8, 8, 8])"
    by code_simp+
  ultimately show ?thesis by (simp add: publicClientIP_def browser_trims ParseAddrPort_def Let_def)
qed

lemma browser_outcome:
  "isJsPlatform ''javascript''" "list_all js_frame_ok browser_frames"
  "firstPublicClientIP [''8.8.8.8''] = Some ''8.8.8.8''" "pc_scrubIP open_project = False"
  "normalizeTags [(''client_ip'', ''8.8.8.8'')] ''client_ip'' = Some ''8.8.8.8''"
  "grouping_parts ''TypeError'' ''x is null'' browser_frames = [''TypeError'', ''x is null'', ''app.js'', ''render'', ''12'']"
proof -
  show "isJsPlatform ''javascript''" by (simp add: isJsPlatform_def browser_trims ToLower_id lower_ascii_def)
  show "list_all js_frame_ok browser_frames"
    by (simp add: js_frame_ok_def browser_frames_def browser_trims visible_text_def ascii_ValidString is_ascii_def
        visibleString_def runes_name visible_rune_def jsStacktraceAbsPathMaxBytes_def jsStacktraceFunctionMaxBytes_def)
  show "normalizeTags [(''client_ip'', ''8.8.8.8'')] ''client_ip'' = Some ''8.8.8.8''"
    by (simp add: normalizeTags_eq kept_tags_def browser_trims)
  have "digits 12 = ''12''" by code_simp
  then show "grouping_parts ''TypeError'' ''x is null'' browser_frames =
      [''TypeError'', ''x is null'', ''app.js'', ''render'', ''12'']"
    by (simp add: grouping_parts_def grouping_frame_def browser_frames_def browser_trims)
qed (rule public_address_kept, simp add: open_project_def NewProjectContextWithPrivacy_def)

lemmas browser_parsed = sent_error_parsed [OF browser_texts visits_in_order browser_ids,
    folded browser_error_def]

theorem parsed_events_are_well_formed_witness:
  "\<exists>ev. parseEventPayload (\<lambda>_ ks. ks) open_project (TimePoint 1) browser_error ''event'' [] = Inr ev \<and>
     event_valid ev \<and> made_event (accepted_of ev) \<and> length (ev_jsStacktrace ev) = 2"
proof -
  obtain ev where ev: "parseEventPayload (\<lambda>_ ks. ks) open_project (TimePoint 1) browser_error ''event'' [] = Inr ev"
      "ev_jsStacktrace ev = map js_frame browser_frames"
    using browser_parsed browser_outcome(1,2) unfolding ParseStoreEvent_def by blast
  with parsed_events_are_well_formed [OF ev(1)] browser_ids(7) show ?thesis
    by (auto simp: browser_frames_def)
qed

theorem client_addresses_are_public_or_scrubbed_witness:
  "\<exists>ev addr. parseEventPayload (\<lambda>_ ks. ks) open_project (TimePoint 1) browser_error ''event'' [] = Inr ev \<and>
     ev_tags ev ''client_ip'' = Some ''8.8.8.8'' \<and> ''8.8.8.8'' = TrimSpace (Addr_String addr) \<and> public_address addr"
proof -
  obtain ev where ev: "parseEventPayload (\<lambda>_ ks. ks) open_project (TimePoint 1) browser_error ''event'' [] = Inr ev"
      "ev_tags ev ''client_ip'' = Some ''8.8.8.8''"
    using browser_parsed browser_outcome(3-5) unfolding ParseStoreEvent_def by (auto simp del: firstPublicClientIP.simps)
  moreover have "isClientIPTagKey ''client_ip''"
    by (simp add: isClientIPTagKey_def ReplaceAll_byte_def browser_trims ToLower_ascii is_ascii_def lower_byte_def)
  ultimately show ?thesis using client_addresses_are_public_or_scrubbed [OF visits_in_order ev] by auto
qed

theorem sent_errors_are_stored_as_sent_witness:
  "\<exists>ev. ParseStoreEvent (\<lambda>_ ks. ks) open_project (TimePoint 1) browser_error = Inr ev \<and>
     ev_title ev = EventTitle ''TypeError: x is null'' \<and> ev_tags ev ''client_ip'' = Some ''8.8.8.8'' \<and>
     ev_defaultGroupingParts ev = [''TypeError'', ''x is null'', ''app.js'', ''render'', ''12''] \<and>
     map jf_generatedLine (ev_jsStacktrace ev) = [12, 1]"
proof -
  have frames: "map jf_generatedLine (map js_frame browser_frames) = [12, 1]"
    by (simp add: browser_frames_def js_frame_def)
  obtain ev where ev: "ParseStoreEvent (\<lambda>_ ks. ks) open_project (TimePoint 1) browser_error = Inr ev"
      "ev_title ev = EventTitle ''TypeError: x is null''" "ev_tags ev ''client_ip'' = Some ''8.8.8.8''"
      "ev_defaultGroupingParts ev = [''TypeError'', ''x is null'', ''app.js'', ''render'', ''12'']"
      "ev_jsStacktrace ev = map js_frame browser_frames"
    using sent_errors_are_stored_as_sent [OF browser_texts visits_in_order browser_ids,
        folded browser_error_def] browser_outcome
    by (auto simp del: firstPublicClientIP.simps)
  show ?thesis using ev frames by (intro exI [of _ ev]) (simp only: simp_thms)
qed

end
