(* ===== verification/SentEnvelopes.thy ===== *)
theory SentEnvelopes
  imports Envelopes SentEvents
begin

text \<open>
  The framing of envelopes: an envelope an SDK writes, with the length of each item in its header, is
  taken apart into exactly its items, whatever bytes their payloads have.
\<close>

subsection \<open>Lines\<close>

definition one_line :: "string \<Rightarrow> bool" where
  "one_line l \<longleftrightarrow> newline \<notin> set l \<and> (l = [] \<or> last l \<noteq> carriage_return)"

lemma trim_one_line: "one_line l \<Longrightarrow> trim_line l = l"
  by (cases l rule: rev_cases) (auto simp: one_line_def trim_line_def TrimSuffix_byte_def)

lemma one_line_drop: "one_line l \<Longrightarrow> one_line (drop k l)"
  by (auto simp: one_line_def dest: in_set_dropD)

lemma take_line: "takeWhile (\<lambda>c. c \<noteq> x) (l @ x # rest) = l" if "x \<notin> set l"
  using that by (induction l) auto

lemma ReadLine_short:
  assumes "one_line l" and "length l < buffer_size"
  shows "ReadLine (l @ newline # rest) = ((l, False, False), rest)"
proof -
  have "newline \<in> set (take buffer_size (l @ newline # rest))"
    using assms(2) by (cases "buffer_size - length l") auto
  moreover have "takeWhile (\<lambda>c. c \<noteq> newline) (l @ newline # rest) = l"
    using assms(1) by (intro take_line) (simp add: one_line_def)
  ultimately show ?thesis
    using assms(1) by (auto simp: ReadLine_def TrimSuffix_byte_def one_line_def)
qed

lemma ReadLine_long:
  assumes "one_line l" and "buffer_size \<le> length l"
  shows "\<exists>k. 0 < k \<and> k \<le> length l \<and>
    ReadLine (l @ newline # rest) = ((take k l, True, False), drop k l @ newline # rest)"
proof -
  let ?window = "take buffer_size l"
  have window: "take buffer_size (l @ newline # rest) = ?window" "length ?window = buffer_size"
    using assms(2) by simp_all
  have none: "newline \<notin> set ?window" using assms(1) by (auto simp: one_line_def dest: in_set_takeD)
  show ?thesis
  proof (cases "last ?window = carriage_return")
    case True
    have "butlast ?window = take (buffer_size - 1) l" using assms(2) by (simp add: butlast_take)
    with True window none assms(2) show ?thesis
      by (intro exI [of _ "buffer_size - 1"]) (auto simp: ReadLine_def buffer_size_def)
  next
    case False
    with window none assms(2) show ?thesis
      by (intro exI [of _ buffer_size]) (auto simp: ReadLine_def buffer_size_def)
  qed
qed

lemma read_limited_line:
  assumes "one_line l" and "length (line @ l) \<le> limit"
  shows "read_limited limit message line (l @ newline # rest) = Some (Inr ((line @ l, False), rest))"
  using assms
proof (induction l arbitrary: line rule: length_induct)
  case (1 l)
  show ?case
  proof (cases "length l < buffer_size")
    case True
    with 1(2,3) show ?thesis by (subst read_limited.simps) (simp add: ReadLine_short)
  next
    case False
    then obtain k where k: "0 < k" "k \<le> length l"
        "ReadLine (l @ newline # rest) = ((take k l, True, False), drop k l @ newline # rest)"
      using ReadLine_long [OF 1(2)] by auto
    have "read_limited limit message (line @ take k l) (drop k l @ newline # rest) =
        Some (Inr (((line @ take k l) @ drop k l, False), rest))"
      using 1 k one_line_drop [OF 1(2)] by (intro 1(1) [rule_format]) auto
    with k 1(3) show ?thesis by (subst read_limited.simps) simp
  qed
qed

lemma readLimitedLine_line:
  "one_line l \<Longrightarrow> length l \<le> limit \<Longrightarrow>
   readLimitedLine limit message (l @ newline # rest) = Some (Inr ((l, False), rest))"
  by (simp add: readLimitedLine_def read_limited_line)

subsection \<open>What an SDK writes\<close>

record sent_item =
  si_header :: string
  si_type :: string
  si_payload :: string

text \<open>The line feed after the last payload may be missing.\<close>

fun sent_items :: "bool \<Rightarrow> sent_item list \<Rightarrow> string" where
  "sent_items ended [] = []"
| "sent_items ended (i # items) =
     si_header i @ newline # si_payload i @ (if items = [] \<and> \<not> ended then [] else [newline]) @ sent_items ended items"

definition sent_envelope :: "string \<Rightarrow> bool \<Rightarrow> sent_item list \<Rightarrow> string" where
  "sent_envelope header_line ended items = header_line @ newline # sent_items ended items"

text \<open>A header line that names the type of the item and the length of its payload.\<close>

definition item_ok :: "sent_item \<Rightarrow> bool" where
  "item_ok i \<longleftrightarrow> one_line (si_header i) \<and> length (si_header i) \<le> MaxEnvelopeItemHeader \<and>
     parseItemHeader (si_header i) = Inr \<lparr>ih_Type = si_type i, ih_Length = Some (int (length (si_payload i)))\<rparr> \<and>
     length (si_payload i) \<le> MaxEnvelopeItemBytes"

fun apply_items ::
  "map_order \<Rightarrow> ProjectContext \<Rightarrow> TimePoint \<Rightarrow> envelopeHeader \<Rightarrow> envelopeState \<Rightarrow> sent_item list \<Rightarrow>
   envelopeState parsed" where
  "apply_items ord project receivedAt header state [] = Inr state"
| "apply_items ord project receivedAt header state (i # items) =
     pbind (applyItem ord project receivedAt header state (si_type i) (si_payload i)) (\<lambda>nextState.
       apply_items ord project receivedAt header nextState items)"

lemma item_read:
  assumes "item_ok i"
  shows "read_item ord project receivedAt header state (si_header i)
      (si_payload i @ (if items = [] \<and> \<not> ended then [] else [newline]) @ sent_items ended items) =
    Some (pbind (applyItem ord project receivedAt header state (si_type i) (si_payload i)) (\<lambda>nextState.
      Inr (nextState, sent_items ended items)))"
proof -
  have left: "consumeTrailingNewline ((if items = [] \<and> \<not> ended then [] else [newline]) @ sent_items ended items) =
      sent_items ended items"
    by (simp add: consumeTrailingNewline_def newline_def carriage_return_def)
  show ?thesis
    using assms left
    by (auto simp: read_item_def item_ok_def trim_one_line readItemPayload_def pbind_def split: sum.split)
qed

lemma items_read:
  assumes "list_all item_ok items" and "itemCount + length items \<le> MaxEnvelopeItems"
  shows "read_items ord project receivedAt header itemCount state (sent_items ended items) =
    Some (apply_items ord project receivedAt header state items)"
  using assms
proof (induction items arbitrary: itemCount state)
  case Nil
  have "readLimitedLine MaxEnvelopeItemHeader ''item header too large'' [] = Some (Inr (([], True), []))"
    unfolding readLimitedLine_def by (subst read_limited.simps) (simp add: ReadLine_def buffer_size_def)
  then show ?case by (subst read_items.simps) simp
next
  case (Cons i items)
  let ?rest = "si_payload i @ (if items = [] \<and> \<not> ended then [] else [newline]) @ sent_items ended items"
  have line: "readLimitedLine MaxEnvelopeItemHeader ''item header too large'' (si_header i @ newline # ?rest) =
      Some (Inr ((si_header i, False), ?rest))"
    using Cons.prems(1) by (intro readLimitedLine_line) (simp_all add: item_ok_def)
  note item = item_read [of i ord project receivedAt header state items ended]
  show ?case
  proof (cases "applyItem ord project receivedAt header state (si_type i) (si_payload i)")
    case (Inl e)
    with Cons.prems line item show ?thesis by (subst read_items.simps) simp
  next
    case (Inr nextState)
    with Cons.prems line item Cons.IH [of "Suc itemCount" nextState] show ?thesis
      by (subst read_items.simps) simp
  qed
qed

lemma envelope_read:
  assumes "Unmarshal (decode_struct envelopeHeader_fields) \<lparr>eh_EventID = [], eh_DSN = []\<rparr> header_line = Some header"
    and "one_line header_line" and "length header_line \<le> MaxEnvelopeHeaderSize"
    and "list_all item_ok items" and "length items \<le> MaxEnvelopeItems"
  shows "ParseEnvelope ord project receivedAt (sent_envelope header_line ended items) =
    Some (apply_items ord project receivedAt header no_items items)"
proof -
  have "readLimitedLine MaxEnvelopeHeaderSize ''envelope header too large'' (header_line @ newline # sent_items ended items) =
      Some (Inr ((header_line, False), sent_items ended items))"
    using assms(2,3) by (rule readLimitedLine_line)
  then have "readEnvelopeHeader (sent_envelope header_line ended items) = Some (Inr (header, sent_items ended items))"
    using assms(1,2) by (simp add: readEnvelopeHeader_def sent_envelope_def trim_one_line)
  with items_read [OF assms(4), of 0] assms(5) show ?thesis by (simp add: ParseEnvelope_def)
qed


subsection \<open>The header line of an item\<close>

definition item_line :: "string \<Rightarrow> string \<Rightarrow> string" where
  "item_line itemType payload =
     write_json (ObjectValue [(''type'', TextValue itemType), (''length'', NumberValue (digits (length payload)))])"

lemma item_names: "names_apart itemHeader_fields"
  by (simp add: names_apart_def itemHeader_fields_def runes_name fold_rune_def)

lemma item_line_parsed:
  assumes "ValidString itemType" and "itemType \<noteq> []" and "length payload < 2 ^ 63"
  shows "parseItemHeader (item_line itemType payload) = Inr \<lparr>ih_Type = itemType, ih_Length = Some (int (length payload))\<rparr>"
proof -
  let ?v = "ObjectValue [(''type'', TextValue itemType), (''length'', NumberValue (digits (length payload)))]"
  have "writable ?v" using assms(1) by (simp add: ascii_ValidString is_ascii_def lex_number_digits)
  then have "parse_json (item_line itemType payload) = Some ?v"
    by (simp add: item_line_def write_parse maxNestingDepth_def)
  moreover have "map_of itemHeader_fields ''type'' = Some (into decode_text ih_Type (\<lambda>x. ih_Type_update (\<lambda>_. x)))"
    "map_of itemHeader_fields ''length'' =
       Some (into (decode_pointer decode_int 0) ih_Length (\<lambda>x. ih_Length_update (\<lambda>_. x)))"
    by (simp_all add: itemHeader_fields_def)
  ultimately show ?thesis
    using assms(2,3)
    by (simp add: parseItemHeader_def Unmarshal_def decode_struct_def decode_member [OF item_names] decode_scalars
        ParseInt10_digits del: decode_members.simps(2))
qed

lemma digits_no_newline: "newline \<notin> set (digits n)"
  using digits_digit_byte [of n] by (auto simp: list_all_iff digit_byte_def newline_def)

subsection \<open>Envelopes\<close>

text \<open>
  C13. Parsing an envelope always ends, whatever the bytes: the two loops of the reader return. An
  accepted envelope holds an event or logs, never both; the event and every log record are well formed,
  belong to the project and carry the time of receipt; there are at most 64 items and 100 log records
  for each.
\<close>

theorem envelopes_are_always_parsed:
  "\<exists>r. ParseEnvelope ord project receivedAt payload = Some r \<and>
    (\<forall>state. r = Inr state \<longrightarrow>
      (es_event state = None \<or> es_logs state = []) \<and>
      (\<forall>ev. es_event state = Some ev \<longrightarrow> event_valid ev \<and> ev_organizationID ev = pc_organizationID project \<and>
        ev_projectID ev = pc_projectID project \<and> ev_receivedAt ev = receivedAt) \<and>
      list_all (project_log project receivedAt) (es_logs state) \<and>
      length (es_logs state) \<le> 64 * 100 \<and> length (es_ignored state) + length (es_userReports state) \<le> 64)"
  using ParseEnvelope_returns [of ord project receivedAt payload]
  by (fastforce simp: state_valid_def project_event_def MaxEnvelopeItems_def MaxLogRecordsPerItem_def)

text \<open>
  C40. The framing of envelopes: an envelope whose header lines give the length of each payload is taken
  apart into exactly the items the SDK wrote, applied one after the other, whatever bytes the payloads
  have (line feeds, lines that look like headers), however long the header lines are up to their limit,
  and with or without a line feed at the end. The first item that is refused makes its error the result.
\<close>

theorem envelopes_are_read_item_by_item:
  assumes "Unmarshal (decode_struct envelopeHeader_fields) \<lparr>eh_EventID = [], eh_DSN = []\<rparr> header_line = Some header"
    and "one_line header_line" and "length header_line \<le> MaxEnvelopeHeaderSize"
    and "list_all item_ok items" and "length items \<le> MaxEnvelopeItems"
  shows "ParseEnvelope ord project receivedAt (sent_envelope header_line ended items) =
    Some (apply_items ord project receivedAt header no_items items)"
  using assms by (rule envelope_read)

subsection \<open>A session and an error in an envelope\<close>

definition small_error :: string where
  "small_error = write_json (error_json (replicate 32 CHR ''c'') 1000000000 ''node'' ''E'' ''x'' [] [])"

definition two_items :: "sent_item list" where
  "two_items =
     [\<lparr>si_header = item_line ''session'' [newline, CHR ''a''], si_type = ''session'', si_payload = [newline, CHR ''a'']\<rparr>,
      \<lparr>si_header = item_line ''event'' small_error, si_type = ''event'', si_payload = small_error\<rparr>]"

lemma first_second: "RFC3339Nano 1000000000 = ''0001-01-01T00:00:01Z''"
proof -
  have ds: "digits 0 = ''0''" "digits (Suc 0) = ''1''" and day: "civil_date 0 = (1, 1, 1)" by code_simp+
  have "padded 4 1 = ''0001''" "padded 2 1 = ''01''" "padded 2 0 = ''00''"
    by (simp_all add: padded_def ds numeral_eq_Suc)
  then show ?thesis by (simp add: RFC3339Nano_def day fraction_text_def duration_units)
qed

lemma small_error_length: "length small_error \<le> 1000"
proof -
  have "json_body (replicate 32 CHR ''c'') = replicate 32 CHR ''c''"
    by (simp add: json_body_ascii json_escape_def numeral_eq_Suc)
  then show ?thesis
    by (simp add: small_error_def write_json_def error_json_def exception_json_def json_string_def first_second
        json_body_ascii json_escape_def)
qed

lemma item_lines:
  assumes "length payload \<le> 1000"
  shows "one_line (item_line ''session'' payload)" "length (item_line ''session'' payload) \<le> MaxEnvelopeItemHeader"
    "one_line (item_line ''event'' payload)" "length (item_line ''event'' payload) \<le> MaxEnvelopeItemHeader"
proof -
  have "length (digits (length payload)) \<le> 4" using assms by (intro length_digits) simp_all
  then show "one_line (item_line ''session'' payload)" "length (item_line ''session'' payload) \<le> MaxEnvelopeItemHeader"
    "one_line (item_line ''event'' payload)" "length (item_line ''event'' payload) \<le> MaxEnvelopeItemHeader"
    using digits_no_newline [of "length payload"]
    by (simp_all add: one_line_def item_line_def write_json_def json_string_def json_body_ascii json_escape_def
        newline_def carriage_return_def MaxEnvelopeItemHeader_def)
qed

lemma two_items_ok: "list_all item_ok two_items" "length two_items \<le> MaxEnvelopeItems"
  using small_error_length item_lines [of small_error] item_lines [of "[newline, CHR ''a'']"]
  by (simp_all add: two_items_def item_ok_def item_line_parsed ascii_ValidString is_ascii_def MaxEnvelopeItemBytes_def
      MaxEnvelopeItems_def)

lemma empty_header:
  "Unmarshal (decode_struct envelopeHeader_fields) \<lparr>eh_EventID = [], eh_DSN = []\<rparr> (write_json (ObjectValue [])) =
    Some \<lparr>eh_EventID = [], eh_DSN = []\<rparr>"
  "one_line (write_json (ObjectValue []))" "length (write_json (ObjectValue [])) \<le> MaxEnvelopeHeaderSize"
proof -
  have "parse_json (write_json (ObjectValue [])) = Some (ObjectValue [])"
    by (rule write_parse) (simp_all add: maxNestingDepth_def)
  then show "Unmarshal (decode_struct envelopeHeader_fields) \<lparr>eh_EventID = [], eh_DSN = []\<rparr> (write_json (ObjectValue [])) =
      Some \<lparr>eh_EventID = [], eh_DSN = []\<rparr>"
    by (simp add: Unmarshal_def decode_struct_def)
qed (simp_all add: write_json_def one_line_def newline_def carriage_return_def MaxEnvelopeHeaderSize_def)

lemma small_error_sent:
  assumes "hex_pattern 32 (OrganizationID_value (pc_organizationID project))"
    and "hex_pattern 32 (ProjectID_value (pc_projectID project))" and "TimePoint_value receivedAt \<noteq> 0"
  shows "\<exists>ev. ParseStoreEvent (\<lambda>_ ks. ks) project receivedAt small_error = Inr ev \<and>
    ev_eventID ev = EventID (replicate 32 CHR ''c'') \<and> ev_title ev = EventTitle ''E: x''"
proof -
  have "trimmed_part (''E'' @ '': '' @ ''x'')" by (simp add: trimmed_part_def TrimSpace_id)
  moreover have "ValidString ''node''" "ValidString ''E''" "ValidString ''x''" "ValidString []" "list_all sendable_frame []"
    by (simp_all add: ascii_ValidString is_ascii_def)
  moreover have "(1000000000 :: gotime) < first_ten_thousand_years" "(0 :: gotime) < 1000000000" by code_simp+
  ultimately show ?thesis
    using sent_error_parsed [of "''node''" "''E''" "''x''" "[]" "[]" "\<lambda>_ ks. ks" "replicate 32 CHR ''c''" 1000000000
        receivedAt project] visits_in_order browser_ids(1,5-7) assms
    unfolding small_error_def by auto
qed

lemma small_error_parsed:
  "\<exists>ev. parseEventPayload (\<lambda>_ ks. ks) open_project (TimePoint 1) small_error ''event'' [] = Inr ev \<and>
     ev_title ev = EventTitle ''E: x''"
  using small_error_sent [of open_project "TimePoint 1"] browser_ids(5-7) unfolding ParseStoreEvent_def by auto

lemma two_items_applied:
  assumes "parseEventPayload (\<lambda>_ ks. ks) open_project (TimePoint 1) small_error ''event'' [] = Inr ev"
  shows "apply_items (\<lambda>_ ks. ks) open_project (TimePoint 1) \<lparr>eh_EventID = [], eh_DSN = []\<rparr> no_items two_items =
    Inr (no_items\<lparr>es_ignored := [''session''], es_event := Some ev, es_itemType := ''event''\<rparr>)"
  using assms
  by (simp add: two_items_def applyItem_def isReservedItem_def isUserReportItem_def isLogItem_def isIgnoredItem_def
      isSupportedItem_def no_items_def)

definition two_item_envelope :: string where
  "two_item_envelope = sent_envelope (write_json (ObjectValue [])) False two_items"

theorem envelopes_are_read_item_by_item_witness:
  "\<exists>state ev. ParseEnvelope (\<lambda>_ ks. ks) open_project (TimePoint 1) two_item_envelope = Some (Inr state) \<and>
     es_event state = Some ev \<and> ev_title ev = EventTitle ''E: x'' \<and> es_ignored state = [''session'']"
proof -
  obtain ev where ev: "parseEventPayload (\<lambda>_ ks. ks) open_project (TimePoint 1) small_error ''event'' [] = Inr ev"
      "ev_title ev = EventTitle ''E: x''"
    using small_error_parsed by blast
  with envelopes_are_read_item_by_item [OF empty_header two_items_ok] two_items_applied [OF ev(1)]
  show ?thesis by (simp add: two_item_envelope_def)
qed

theorem envelopes_are_always_parsed_witness:
  "\<exists>state ev. ParseEnvelope (\<lambda>_ ks. ks) open_project (TimePoint 1) two_item_envelope = Some (Inr state) \<and>
     es_event state = Some ev \<and> event_valid ev \<and> ev_projectID ev = pc_projectID open_project \<and> es_logs state = []"
proof -
  obtain ev where ev: "parseEventPayload (\<lambda>_ ks. ks) open_project (TimePoint 1) small_error ''event'' [] = Inr ev"
    using small_error_parsed by blast
  then have "ParseEnvelope (\<lambda>_ ks. ks) open_project (TimePoint 1) two_item_envelope =
      Some (Inr (no_items\<lparr>es_ignored := [''session''], es_event := Some ev, es_itemType := ''event''\<rparr>))"
    using envelope_read [OF empty_header two_items_ok] two_items_applied by (simp add: two_item_envelope_def)
  with envelopes_are_always_parsed [of "\<lambda>_ ks. ks" open_project "TimePoint 1" two_item_envelope] show ?thesis
    by auto
qed

end
