(* ===== verification/UserReports.thy ===== *)
theory UserReports
  imports QuietSessions Notifications
begin

text \<open>
  Reports of users on events: \<open>internal/app/userreports/userreports.go\<close> and its store
  \<open>internal/adapters/postgres/user_reports.go\<close>. An event has at most one report, which a later
  report replaces.
\<close>

subsection \<open>Commands\<close>

definition maxReporterNameLength :: nat where "maxReporterNameLength = 128"
definition maxReporterEmailLength :: nat where "maxReporterEmailLength = 254"
definition maxCommentsLength :: nat where "maxCommentsLength = 20000"

record ReportScope =
  us_OrganizationID :: OrganizationID
  us_ProjectID :: ProjectID

record SubmitCommand =
  sc_Scope :: ReportScope
  sc_EventID :: EventID
  sc_Name :: string
  sc_Email :: string
  sc_Comments :: string

record SubmitReceipt =
  sr_ReportID :: string
  sr_EventID :: string

record IssueReportsQuery =
  iq_Scope :: ReportScope
  iq_IssueID :: IssueID
  iq_Limit :: int

record IssueReportView =
  rv_ID :: string
  rv_EventID :: string
  rv_Name :: string
  rv_Email :: string
  rv_Comments :: string
  rv_CreatedAt :: string

definition requireReportScope :: "ReportScope \<Rightarrow> unit result" where
  "requireReportScope scope =
     (if OrganizationID_String (us_OrganizationID scope) = [] \<or> ProjectID_String (us_ProjectID scope) = []
      then fail ''user report scope is required'' else ok ())"

definition normalizeReporterName :: "string \<Rightarrow> string result" where
  "normalizeReporterName input =
     (let value = TrimSpace input in
      if value = [] then fail ''user report name is required''
      else if maxReporterNameLength < length value then fail ''user report name is too long''
      else ok value)"

definition normalizeReporterEmail :: "address_parser \<Rightarrow> string \<Rightarrow> string result" where
  "normalizeReporterEmail mail_ParseAddress input =
     (let value = TrimSpace input in
      if value = [] then fail ''user report email is required''
      else if maxReporterEmailLength < length value then fail ''user report email is too long''
      else (case mail_ParseAddress value of
              None \<Rightarrow> fail ''user report email is invalid'' | Some address \<Rightarrow> ok address))"

definition normalizeComments :: "string \<Rightarrow> string result" where
  "normalizeComments input =
     (let value = TrimSpace input in
      if value = [] then fail ''user report comments are required''
      else if maxCommentsLength < length value then fail ''user report comments are too long''
      else ok value)"

definition normalizeSubmitCommand :: "address_parser \<Rightarrow> SubmitCommand \<Rightarrow> SubmitCommand result" where
  "normalizeSubmitCommand mail_ParseAddress command =
     rbind (requireReportScope (sc_Scope command)) (\<lambda>_.
     if EventID_String (sc_EventID command) = [] then fail ''user report event id is required'' else
     rbind (normalizeReporterName (sc_Name command)) (\<lambda>name.
     rbind (normalizeReporterEmail mail_ParseAddress (sc_Email command)) (\<lambda>email.
     rbind (normalizeComments (sc_Comments command)) (\<lambda>comments.
     ok (command\<lparr>sc_Name := name, sc_Email := email, sc_Comments := comments\<rparr>)))))"

definition PrepareSubmit :: "address_parser \<Rightarrow> SubmitCommand \<Rightarrow> SubmitCommand result" where
  "PrepareSubmit mail_ParseAddress command = normalizeSubmitCommand mail_ParseAddress command"

definition normalizeIssueReportsQuery :: "IssueReportsQuery \<Rightarrow> IssueReportsQuery result" where
  "normalizeIssueReportsQuery q =
     rbind (requireReportScope (iq_Scope q)) (\<lambda>_.
     if IssueID_String (iq_IssueID q) = [] then fail ''issue id is required''
     else if iq_Limit q < 1 then fail ''user report limit must be positive''
     else if 250 < iq_Limit q then fail ''user report limit must be at most 250''
     else ok q)"

subsection \<open>The writer and the reader\<close>

text \<open>A nil writer or reader is \<open>None\<close>.\<close>

type_synonym 's UserReportWriter = "SubmitCommand \<Rightarrow> ('s, SubmitReceipt) action"
type_synonym 's UserReportReader = "IssueReportsQuery \<Rightarrow> ('s, IssueReportView list) action"

definition Submit :: "address_parser \<Rightarrow> 's UserReportWriter option \<Rightarrow> SubmitCommand \<Rightarrow> ('s, SubmitReceipt) action" where
  "Submit mail_ParseAddress writer command =
     (case writer of
        None \<Rightarrow> afail ''user report writer is required''
      | Some SubmitUserReport \<Rightarrow> abind (alift (normalizeSubmitCommand mail_ParseAddress command)) SubmitUserReport)"

definition ListForIssue :: "'s UserReportReader option \<Rightarrow> IssueReportsQuery \<Rightarrow> ('s, IssueReportView list) action" where
  "ListForIssue reader q =
     (case reader of
        None \<Rightarrow> afail ''user report reader is required''
      | Some ListIssueUserReports \<Rightarrow> abind (alift (normalizeIssueReportsQuery q)) ListIssueUserReports)"

subsection \<open>The store\<close>

text \<open>
  The event a report is about with the issue of its fingerprint, if there is one (the left joins).
  \<open>(project_id, event_id)\<close> and \<open>(project_id, fingerprint)\<close> are unique.
\<close>

definition linked_event :: "string \<Rightarrow> string \<Rightarrow> string \<Rightarrow> DB \<Rightarrow> (string \<times> string option) option" where
  "linked_event organization project event d =
     map_option (\<lambda>e. (er_event_id e,
         (case find_fingerprint (er_project_id e) (er_fingerprint e) d of
            None \<Rightarrow> None
          | Some f \<Rightarrow> map_option ir_id (find (\<lambda>i. ir_id i = fr_issue_id f) (db_issues d)))))
       (find (\<lambda>e. er_organization_id e = organization \<and> er_project_id e = project \<and> er_event_id e = event)
         (db_events d))"

definition same_report :: "string \<Rightarrow> string \<Rightarrow> UserReportRow \<Rightarrow> bool" where
  "same_report project event r \<longleftrightarrow> ur_project_id r = project \<and> ur_event_id r = event"

text \<open>\<open>insert ... on conflict (project_id, event_id) do update ... returning id\<close>\<close>

definition upsert_report :: "UserReportRow \<Rightarrow> DB \<Rightarrow> (string \<times> DB) result" where
  "upsert_report row d =
     (let same = same_report (ur_project_id row) (ur_event_id row)
      in case find same (db_user_reports d) of
           Some r \<Rightarrow> ok (ur_id r, d\<lparr>db_user_reports := update_rows same
             (\<lambda>r. r\<lparr>ur_issue_id := ur_issue_id row, ur_name := ur_name row, ur_email := ur_email row,
                    ur_comments := ur_comments row, ur_created_at := ur_created_at row\<rparr>) (db_user_reports d)\<rparr>)
         | None \<Rightarrow>
             rbind (check (\<not> list_ex (\<lambda>r. ur_id r = ur_id row) (db_user_reports d))
               ''violates unique constraint user_reports_pkey'') (\<lambda>_.
             rbind (check (organization_exists (ur_organization_id row) d \<and> project_exists (ur_project_id row) d)
               ''violates foreign key constraint'') (\<lambda>_.
             ok (ur_id row, d\<lparr>db_user_reports := db_user_reports d @ [row]\<rparr>))))"

definition report_row :: "string \<Rightarrow> gotime \<Rightarrow> SubmitCommand \<Rightarrow> string \<times> string option \<Rightarrow> UserReportRow" where
  "report_row reportID now command linked =
     \<lparr>ur_id = reportID, ur_organization_id = OrganizationID_String (us_OrganizationID (sc_Scope command)),
      ur_project_id = ProjectID_String (us_ProjectID (sc_Scope command)), ur_issue_id = snd linked,
      ur_event_id = fst linked, ur_name = sc_Name command, ur_email = sc_Email command,
      ur_comments = sc_Comments command, ur_created_at = timestamptz (UTC now)\<rparr>"

definition submit_report :: "string \<Rightarrow> gotime \<Rightarrow> SubmitCommand \<Rightarrow> DB \<Rightarrow> (string option \<times> DB) result" where
  "submit_report reportID now command d =
     (let organization = OrganizationID_String (us_OrganizationID (sc_Scope command));
          project = ProjectID_String (us_ProjectID (sc_Scope command));
          event = EventID_String (sc_EventID command)
      in rbind (check (list_all uuid_param [organization, project, event, reportID] \<and>
             list_all text_param [sc_Name command, sc_Email command, sc_Comments command])
           ''invalid input syntax'') (\<lambda>_.
         case linked_event organization project event d of
           None \<Rightarrow> ok (None, d)
         | Some linked \<Rightarrow>
             rbind (upsert_report (report_row reportID now command linked) d) (\<lambda>(savedID, d').
             ok (Some savedID, d'))))"

text \<open>\<open>errors.Is(scanErr, pgx.ErrNoRows)\<close> becomes an error of its own.\<close>

definition SubmitUserReport :: "SubmitCommand \<Rightarrow> ('w Session, SubmitReceipt) action" where
  "SubmitUserReport command =
     abind randomUUID (\<lambda>reportID.
     abind time_Now (\<lambda>now s.
       case abind (pool_statement (submit_report reportID now command)) scan_row s of
         (Inl e, t) \<Rightarrow> (Inl (if e = GoErr ErrNoRows then GoErr ''user report event was not found'' else e), t)
       | (Inr savedID, t) \<Rightarrow>
           (ok \<lparr>sr_ReportID = savedID, sr_EventID = EventID_String (sc_EventID command)\<rparr>, t)))"

text \<open>\<open>value.UTC().Format("2006-01-02 15:04:05 UTC")\<close>\<close>

definition formatTime :: "gotime \<Rightarrow> string" where
  "formatTime t =
     (let days = t div (24 * hour); rest = t mod (24 * hour); (y, m, d) = civil_date days
      in padded 4 y @ ''-'' @ padded 2 m @ ''-'' @ padded 2 d @ '' '' @
         padded 2 (rest div hour) @ '':'' @ padded 2 (rest mod hour div minute) @ '':'' @
         padded 2 (rest mod minute div second) @ '' UTC'')"

definition report_view :: "UserReportRow \<Rightarrow> IssueReportView" where
  "report_view r =
     \<lparr>rv_ID = ur_id r, rv_EventID = ur_event_id r, rv_Name = ur_name r, rv_Email = ur_email r,
      rv_Comments = ur_comments r, rv_CreatedAt = formatTime (ur_created_at r)\<rparr>"

definition ListIssueUserReports :: "IssueReportsQuery \<Rightarrow> ('w Session, IssueReportView list) action" where
  "ListIssueUserReports q =
     (let organization = OrganizationID_String (us_OrganizationID (iq_Scope q));
          project = ProjectID_String (us_ProjectID (iq_Scope q)); issue = IssueID_String (iq_IssueID q)
      in abind (pool_query (\<lambda>d.
           rbind (check (list_all uuid_param [organization, project, issue]) ''invalid input syntax'') (\<lambda>_.
           rbind (check (0 \<le> iq_Limit q) ''LIMIT must not be negative'') (\<lambda>_.
           ok (take (nat (iq_Limit q)) (sort_key (\<lambda>r. - ur_created_at r)
             (filter (\<lambda>r. ur_organization_id r = organization \<and> ur_project_id r = project \<and>
               ur_issue_id r = Some issue) (db_user_reports d)))))))) (\<lambda>rows.
         areturn (map report_view rows)))"

subsection \<open>What a submission does\<close>

definition reports_unique :: "DB \<Rightarrow> bool" where
  "reports_unique d \<longleftrightarrow> distinct (map (\<lambda>r. (ur_project_id r, ur_event_id r)) (db_user_reports d)) \<and>
     distinct (map ur_id (db_user_reports d))"

text \<open>The report on an event, and all others.\<close>

definition report_on :: "string \<Rightarrow> string \<Rightarrow> DB \<Rightarrow> UserReportRow option" where
  "report_on project event d = find (same_report project event) (db_user_reports d)"

definition other_reports :: "string \<Rightarrow> string \<Rightarrow> DB \<Rightarrow> UserReportRow list" where
  "other_reports project event d = filter (\<lambda>r. \<not> same_report project event r) (db_user_reports d)"

abbreviation except_reports :: "DB \<Rightarrow> DB" where
  "except_reports d \<equiv> d\<lparr>db_user_reports := []\<rparr>"

lemma upsert_report_effect:
  assumes run: "upsert_report row d = ok (saved, d')"
  shows "report_on (ur_project_id row) (ur_event_id row) d' =
      Some (case report_on (ur_project_id row) (ur_event_id row) d of
        None \<Rightarrow> row
      | Some r \<Rightarrow> r\<lparr>ur_issue_id := ur_issue_id row, ur_name := ur_name row, ur_email := ur_email row,
          ur_comments := ur_comments row, ur_created_at := ur_created_at row\<rparr>)"
    and "saved = (case report_on (ur_project_id row) (ur_event_id row) d of None \<Rightarrow> ur_id row | Some r \<Rightarrow> ur_id r)"
    and "other_reports (ur_project_id row) (ur_event_id row) d' = other_reports (ur_project_id row) (ur_event_id row) d"
    and "except_reports d' = except_reports d"
    and "reports_unique d \<Longrightarrow> reports_unique d'"
proof -
  let ?same = "same_report (ur_project_id row) (ur_event_id row)"
  let ?upd = "\<lambda>r. r\<lparr>ur_issue_id := ur_issue_id row, ur_name := ur_name row, ur_email := ur_email row,
          ur_comments := ur_comments row, ur_created_at := ur_created_at row\<rparr>"
  have same: "?same row" by (simp add: same_report_def)
  have upd: "?same (?upd r) = ?same r" for r by (simp add: same_report_def)
  have updated: "find ?same (update_rows ?same ?upd rows) = map_option ?upd (find ?same rows)" for rows
    by (induction rows) (auto simp: update_rows_def upd)
  have others: "filter (\<lambda>r. \<not> ?same r) (update_rows ?same ?upd rows) = filter (\<lambda>r. \<not> ?same r) rows" for rows
    by (induction rows) (auto simp: update_rows_def upd)
  have keys: "map (\<lambda>r. (ur_project_id r, ur_event_id r)) (update_rows ?same ?upd rows) =
      map (\<lambda>r. (ur_project_id r, ur_event_id r)) rows" "map ur_id (update_rows ?same ?upd rows) = map ur_id rows" for rows
    by (simp_all add: update_rows_def)
  have "report_on (ur_project_id row) (ur_event_id row) d' =
      Some (case report_on (ur_project_id row) (ur_event_id row) d of None \<Rightarrow> row | Some r \<Rightarrow> ?upd r) \<and>
    saved = (case report_on (ur_project_id row) (ur_event_id row) d of None \<Rightarrow> ur_id row | Some r \<Rightarrow> ur_id r) \<and>
    other_reports (ur_project_id row) (ur_event_id row) d' = other_reports (ur_project_id row) (ur_event_id row) d \<and>
    except_reports d' = except_reports d \<and> (reports_unique d \<longrightarrow> reports_unique d')"
  proof (cases "find ?same (db_user_reports d)")
    case None
    then have new: "d' = d\<lparr>db_user_reports := db_user_reports d @ [row]\<rparr>" "saved = ur_id row"
      "\<not> list_ex (\<lambda>r. ur_id r = ur_id row) (db_user_reports d)"
      using run by (auto simp: upsert_report_def Let_def rbind_eq_ok)
    have "\<not> same_report (ur_project_id row) (ur_event_id row) r" if "r \<in> set (db_user_reports d)" for r
      using None that by (simp add: find_None_iff)
    then have "(ur_project_id row, ur_event_id row) \<notin> (\<lambda>r. (ur_project_id r, ur_event_id r)) ` set (db_user_reports d)"
      by (force simp: same_report_def)
    with None new same show ?thesis
      by (auto simp: report_on_def other_reports_def find_append reports_unique_def list_ex_iff)
  next
    case (Some r)
    then have "d' = d\<lparr>db_user_reports := update_rows ?same ?upd (db_user_reports d)\<rparr>" "saved = ur_id r"
      using run by (auto simp: upsert_report_def Let_def)
    with Some show ?thesis
      by (simp add: report_on_def other_reports_def updated others reports_unique_def keys)
  qed
  then show "report_on (ur_project_id row) (ur_event_id row) d' =
      Some (case report_on (ur_project_id row) (ur_event_id row) d of None \<Rightarrow> row | Some r \<Rightarrow> ?upd r)"
    and "saved = (case report_on (ur_project_id row) (ur_event_id row) d of None \<Rightarrow> ur_id row | Some r \<Rightarrow> ur_id r)"
    and "other_reports (ur_project_id row) (ur_event_id row) d' = other_reports (ur_project_id row) (ur_event_id row) d"
    and "except_reports d' = except_reports d" and "reports_unique d \<Longrightarrow> reports_unique d'"
    by blast+
qed

text \<open>What a stored report says: the texts of the command, on the event and the issue it belongs to.\<close>

definition report_says :: "SubmitCommand \<Rightarrow> string option \<Rightarrow> UserReportRow \<Rightarrow> bool" where
  "report_says command issue r \<longleftrightarrow> ur_name r = sc_Name command \<and> ur_email r = sc_Email command \<and>
     ur_comments r = sc_Comments command \<and> ur_issue_id r = issue"

lemma linked_event_fst: "linked_event organization project event d = Some linked \<Longrightarrow> fst linked = event"
  by (auto simp: linked_event_def dest: find_SomeD)

lemma SubmitUserReport_effect:
  assumes run: "SubmitUserReport command s = (x, t)" and s: "session_ready s"
  defines "project \<equiv> ProjectID_String (us_ProjectID (sc_Scope command))"
    and "event \<equiv> EventID_String (sc_EventID command)"
  shows "session_ready t"
    and "except_reports (ses_db t) = except_reports (ses_db s)"
    and "x = Inl e \<Longrightarrow> ses_db t = ses_db s"
    and "x = Inr receipt \<Longrightarrow> (\<exists>issue r.
      linked_event (OrganizationID_String (us_OrganizationID (sc_Scope command))) project event (ses_db s) = Some (event, issue) \<and>
      report_on project event (ses_db t) = Some r \<and> report_says command issue r \<and>
      receipt = \<lparr>sr_ReportID = ur_id r, sr_EventID = event\<rparr> \<and>
      (\<forall>old. report_on project event (ses_db s) = Some old \<longrightarrow> ur_id r = ur_id old) \<and>
      other_reports project event (ses_db t) = other_reports project event (ses_db s))"
    and "reports_unique (ses_db s) \<Longrightarrow> reports_unique (ses_db t)"
proof -
  obtain i s1 where i: "randomUUID s = (i, s1)" by fastforce
  have s1: "session_ready s1 \<and> ses_db s1 = ses_db s"
    using i session_ready_quiet [OF s] s idle_advance [of s]
    by (auto simp: randomUUID_def session_ready_def split: option.split_asm)
  have goal: "session_ready t \<and> except_reports (ses_db t) = except_reports (ses_db s) \<and>
    (case x of Inl e \<Rightarrow> ses_db t = ses_db s
     | Inr receipt \<Rightarrow> (\<exists>issue r.
      linked_event (OrganizationID_String (us_OrganizationID (sc_Scope command))) project event (ses_db s) = Some (event, issue) \<and>
      report_on project event (ses_db t) = Some r \<and> report_says command issue r \<and>
      receipt = \<lparr>sr_ReportID = ur_id r, sr_EventID = event\<rparr> \<and>
      (\<forall>old. report_on project event (ses_db s) = Some old \<longrightarrow> ur_id r = ur_id old) \<and>
      other_reports project event (ses_db t) = other_reports project event (ses_db s))) \<and>
    (reports_unique (ses_db s) \<longrightarrow> reports_unique (ses_db t))"
  proof (cases i)
    case (Inl e)
    with run i s1 show ?thesis by (auto simp: SubmitUserReport_def abind_def)
  next
    case (Inr reportID)
    let ?now = "env_now (ses_env s1) (ses_tick s1)"
    obtain y u where y: "pool_statement (submit_report reportID ?now command) (advance s1) = (y, u)" by fastforce
    have ready: "session_ready (advance s1)" "ses_db (advance s1) = ses_db s"
      using s1 session_ready_quiet [of s1] idle_advance [of s1] by (auto simp: session_ready_def)
    note u = pool_ready [OF y ready(1), unfolded ready(2)]
    have out: "t = u \<and> x = (case y of
        Inl e \<Rightarrow> Inl (if e = GoErr ErrNoRows then GoErr ''user report event was not found'' else e)
      | Inr None \<Rightarrow> fail ''user report event was not found''
      | Inr (Some saved) \<Rightarrow> ok \<lparr>sr_ReportID = saved, sr_EventID = event\<rparr>)"
      using run i Inr y
      by (auto simp: SubmitUserReport_def abind_def time_Now_def scan_row_def areturn_def afail_def event_def
          split: sum.splits option.splits)
    show ?thesis
    proof (cases y)
      case (Inl e)
      with u out show ?thesis by simp
    next
      case right: (Inr row)
      let ?org = "OrganizationID_String (us_OrganizationID (sc_Scope command))"
      have sub: "submit_report reportID ?now command (ses_db s) = ok (row, ses_db u)" using u right by simp
      show ?thesis
      proof (cases "linked_event ?org project event (ses_db s)")
        case None
        with sub have "row = None" "ses_db u = ses_db s"
          by (auto simp: submit_report_def Let_def rbind_eq_ok project_def event_def)
        with u out right show ?thesis by simp
      next
        case (Some linked)
        let ?row = "report_row reportID ?now command linked"
        obtain saved where up: "upsert_report ?row (ses_db s) = ok (saved, ses_db u)" and row: "row = Some saved"
          using sub Some by (auto simp: submit_report_def Let_def rbind_eq_ok project_def event_def split: prod.split_asm)
        have fields: "ur_project_id ?row = project" "ur_event_id ?row = event" "ur_issue_id ?row = snd linked"
            "ur_name ?row = sc_Name command" "ur_email ?row = sc_Email command" "ur_comments ?row = sc_Comments command"
          using linked_event_fst [OF Some] by (simp_all add: report_row_def project_def)
        note effect = upsert_report_effect [OF up, unfolded fields]
        have link: "linked_event ?org project event (ses_db s) = Some (event, snd linked)"
          using Some linked_event_fst [OF Some] by (cases linked) simp
        obtain r where r: "report_on project event (ses_db u) = Some r" "report_says command (snd linked) r" "ur_id r = saved"
            "\<forall>old. report_on project event (ses_db s) = Some old \<longrightarrow> ur_id r = ur_id old"
          using effect(1,2) by (auto simp: report_says_def fields split: option.splits)
        show ?thesis using u out right row link r effect(3-5) by auto
      qed
    qed
  qed
  then show "session_ready t" "except_reports (ses_db t) = except_reports (ses_db s)"
    "reports_unique (ses_db s) \<Longrightarrow> reports_unique (ses_db t)" by blast+
  show "ses_db t = ses_db s" if "x = Inl e" using goal that by simp
  show "\<exists>issue r.
      linked_event (OrganizationID_String (us_OrganizationID (sc_Scope command))) project event (ses_db s) = Some (event, issue) \<and>
      report_on project event (ses_db t) = Some r \<and> report_says command issue r \<and>
      receipt = \<lparr>sr_ReportID = ur_id r, sr_EventID = event\<rparr> \<and>
      (\<forall>old. report_on project event (ses_db s) = Some old \<longrightarrow> ur_id r = ur_id old) \<and>
      other_reports project event (ses_db t) = other_reports project event (ses_db s)" if "x = Inr receipt"
    using goal that by simp
qed

end
