(* ===== verification/LogStore.thy ===== *)
theory LogStore
  imports LogItems UserReports IngestEffects
begin

text \<open>
  The store of log records: \<open>internal/app/logs/logs.go\<close> and \<open>internal/adapters/postgres/logs.go\<close>
  with the quota check of \<open>quota.go\<close>. The records of a request are appended in one transaction, each counted
  in the hourly statistics its quotas are computed from. The ports are the locale \<open>log_ports\<close>, which
  the store interprets.
\<close>

subsection \<open>Commands and receipts\<close>

record LogIngestCommand =
  lic_records :: "LogRecord list"

record LogQuotaDecision =
  lq_allowed :: bool
  lq_reason :: string

type_synonym LogReceiptKind = string

definition ReceiptAcceptedLogRecords :: LogReceiptKind where
  "ReceiptAcceptedLogRecords = ''accepted_log_records''"
definition ReceiptLogQuotaRejected :: LogReceiptKind where
  "ReceiptLogQuotaRejected = ''quota_rejected''"

record LogIngestReceipt =
  lir_kind :: LogReceiptKind
  lir_count :: nat
  lir_reason :: string

definition NewLogIngestCommand :: "LogRecord list \<Rightarrow> LogIngestCommand" where
  "NewLogIngestCommand records = \<lparr>lic_records = records\<rparr>"

definition NewLogQuotaAllowed :: LogQuotaDecision where
  "NewLogQuotaAllowed = \<lparr>lq_allowed = True, lq_reason = []\<rparr>"

definition NewLogQuotaRejected :: "string \<Rightarrow> LogQuotaDecision" where
  "NewLogQuotaRejected reason =
     \<lparr>lq_allowed = False, lq_reason = (if TrimSpace reason = [] then ''quota_exceeded'' else reason)\<rparr>"

definition acceptedLogReceipt :: "nat \<Rightarrow> LogIngestReceipt" where
  "acceptedLogReceipt appended = \<lparr>lir_kind = ReceiptAcceptedLogRecords, lir_count = appended, lir_reason = []\<rparr>"

definition quotaLogReceipt :: "LogQuotaDecision \<Rightarrow> LogIngestReceipt" where
  "quotaLogReceipt quota = \<lparr>lir_kind = ReceiptLogQuotaRejected, lir_count = 0, lir_reason = lq_reason quota\<rparr>"

definition requireRecordScope :: "LogRecord \<Rightarrow> unit result" where
  "requireRecordScope record =
     (if OrganizationID_String (log_organizationID record) = [] \<or> ProjectID_String (log_projectID record) = []
      then fail ''log record scope is required'' else ok ())"

definition requireSameScope :: "LogRecord \<Rightarrow> LogRecord \<Rightarrow> unit result" where
  "requireSameScope first next =
     (if OrganizationID_String (log_organizationID first) \<noteq> OrganizationID_String (log_organizationID next)
        then fail ''log records must share one organization''
      else if ProjectID_String (log_projectID first) \<noteq> ProjectID_String (log_projectID next)
        then fail ''log records must share one project''
      else ok ())"

definition normalizeIngestCommand :: "LogIngestCommand \<Rightarrow> LogIngestCommand result" where
  "normalizeIngestCommand command =
     (case lic_records command of
        [] \<Rightarrow> fail ''log records are required''
      | first # _ \<Rightarrow>
          rbind (requireRecordScope first) (\<lambda>_.
          rbind (collect (requireSameScope first) (lic_records command)) (\<lambda>_. ok command)))"

subsection \<open>The program over its ports\<close>

record 's LogPorts =
  port_AppendLogRecords :: "LogRecord list \<Rightarrow> ('s, nat) action"
  port_CheckLogQuota :: "LogRecord \<Rightarrow> int \<Rightarrow> ('s, LogQuotaDecision) action"

type_synonym 's LogIngestProgram = "'s LogPorts \<Rightarrow> ('s, LogIngestReceipt) action"
type_synonym 's LogIngestTransaction = "'s LogIngestProgram \<Rightarrow> ('s, LogIngestReceipt) action"

text \<open>\<open>command.records[0]\<close> exists in a normalised command.\<close>

definition logIngestProgram :: "LogIngestCommand \<Rightarrow> 's LogIngestProgram" where
  "logIngestProgram command ports =
     abind (port_CheckLogQuota ports (hd (lic_records command)) (int (length (lic_records command)))) (\<lambda>quota.
     if \<not> lq_allowed quota then areturn (quotaLogReceipt quota) else
     abind (port_AppendLogRecords ports (lic_records command)) (\<lambda>appended.
     areturn (acceptedLogReceipt appended)))"

definition LogIngest :: "'s LogIngestTransaction option \<Rightarrow> LogIngestCommand \<Rightarrow> ('s, LogIngestReceipt) action" where
  "LogIngest transaction command =
     (case transaction of
        None \<Rightarrow> afail ''log ingest transaction is required''
      | Some run \<Rightarrow>
          abind (alift (normalizeIngestCommand command)) (\<lambda>normalized. run (logIngestProgram normalized)))"

subsection \<open>Queries\<close>

record AttributeFilter =
  af_Key :: string
  af_Value :: string

record LogQuery =
  lg_Scope :: ReportScope
  lg_Limit :: int
  lg_Severity :: string
  lg_Logger :: string
  lg_Environment :: string
  lg_Release :: string
  lg_ResourceAttribute :: AttributeFilter
  lg_LogAttribute :: AttributeFilter

record LogDetailQuery =
  ld_Scope :: ReportScope
  ld_ID :: string

record FilterView =
  fv_Severity :: string
  fv_Logger :: string
  fv_Environment :: string
  fv_Release :: string
  fv_ResourceKey :: string
  fv_ResourceValue :: string
  fv_AttributeKey :: string
  fv_AttributeValue :: string
  fv_HasResourceFilter :: bool
  fv_HasAttributeFilter :: bool

record LogRecordView =
  lv_ID :: string
  lv_Timestamp :: string
  lv_ReceivedAt :: string
  lv_Severity :: string
  lv_Body :: string
  lv_Logger :: string
  lv_TraceID :: string
  lv_SpanID :: string
  lv_Release :: string
  lv_Environment :: string
  lv_ResourceAttributes :: "(string \<times> string) list"
  lv_Attributes :: "(string \<times> string) list"

definition defaultLimit :: int where "defaultLimit = 100"
definition maxLimit :: int where "maxLimit = 200"

definition requireLogScope :: "ReportScope \<Rightarrow> unit result" where
  "requireLogScope scope =
     (if OrganizationID_String (us_OrganizationID scope) = [] \<or> ProjectID_String (us_ProjectID scope) = []
      then fail ''log scope is required'' else ok ())"

definition normalizeOptionalSeverity :: "string \<Rightarrow> string result" where
  "normalizeOptionalSeverity input =
     (let value = TrimSpace input in if value = [] then ok [] else NewLogSeverity value)"

definition normalizeAttributeFilter :: "AttributeFilter \<Rightarrow> AttributeFilter" where
  "normalizeAttributeFilter flt = \<lparr>af_Key = TrimSpace (af_Key flt), af_Value = TrimSpace (af_Value flt)\<rparr>"

definition normalizeLimit :: "int \<Rightarrow> int" where
  "normalizeLimit limit = (if limit \<le> 0 then defaultLimit else if limit > maxLimit then maxLimit else limit)"

definition NormalizeQuery :: "LogQuery \<Rightarrow> LogQuery result" where
  "NormalizeQuery q =
     rbind (requireLogScope (lg_Scope q)) (\<lambda>_.
     rbind (normalizeOptionalSeverity (lg_Severity q)) (\<lambda>severity.
     ok (q\<lparr>lg_Severity := severity, lg_Logger := TrimSpace (lg_Logger q),
           lg_Environment := TrimSpace (lg_Environment q), lg_Release := TrimSpace (lg_Release q),
           lg_ResourceAttribute := normalizeAttributeFilter (lg_ResourceAttribute q),
           lg_LogAttribute := normalizeAttributeFilter (lg_LogAttribute q),
           lg_Limit := normalizeLimit (lg_Limit q)\<rparr>)))"

text \<open>\<open>^[0-9a-f-]{36}$\<close>\<close>

definition logRecordIDPattern :: "string \<Rightarrow> bool" where
  "logRecordIDPattern s \<longleftrightarrow> length s = 36 \<and> list_all (\<lambda>c. List.member ''0123456789abcdef-'' c) s"

definition NormalizeDetailQuery :: "LogDetailQuery \<Rightarrow> LogDetailQuery result" where
  "NormalizeDetailQuery q =
     rbind (requireLogScope (ld_Scope q)) (\<lambda>_.
     let i = TrimSpace (ld_ID q) in
     if \<not> logRecordIDPattern i then fail ''log record id is invalid'' else ok (q\<lparr>ld_ID := i\<rparr>))"

type_synonym 's LogLister = "LogQuery \<Rightarrow> ('s, LogRecordView list \<times> FilterView) action"
type_synonym 's LogDetailReader = "LogDetailQuery \<Rightarrow> ('s, LogRecordView) action"

definition LogList :: "'s LogLister option \<Rightarrow> LogQuery \<Rightarrow> ('s, LogRecordView list \<times> FilterView) action" where
  "LogList reader q =
     (case reader of
        None \<Rightarrow> afail ''log reader is required''
      | Some ListLogRecords \<Rightarrow> abind (alift (NormalizeQuery q)) ListLogRecords)"

definition LogDetail :: "'s LogDetailReader option \<Rightarrow> LogDetailQuery \<Rightarrow> ('s, LogRecordView) action" where
  "LogDetail reader q =
     (case reader of
        None \<Rightarrow> afail ''log reader is required''
      | Some ShowLogRecord \<Rightarrow> abind (alift (NormalizeDetailQuery q)) ShowLogRecord)"

subsection \<open>The statements\<close>

definition insert_log_record :: "LogRecordRow \<Rightarrow> DB \<Rightarrow> (unit \<times> DB) result" where
  "insert_log_record row d =
     rbind (check (list_all uuid_param [lr_id row, lr_organization_id row, lr_project_id row])
       ''invalid input syntax for type uuid'') (\<lambda>_.
     rbind (check (list_all text_param [lr_severity row, lr_body row] \<and>
       list_all optional_text [lr_logger row, lr_trace_id row, lr_span_id row, lr_release row, lr_environment row] \<and>
       json_storable (lr_resource_attributes row) \<and> json_storable (lr_attributes row))
       ''invalid byte sequence for encoding'') (\<lambda>_.
     rbind (check (List.member [''trace'', ''debug'', ''info'', ''warning'', ''error'', ''fatal''] (lr_severity row))
       ''violates check constraint log_records_severity_check'') (\<lambda>_.
     rbind (check (\<not> list_ex (\<lambda>r. lr_id r = lr_id row) (db_log_records d))
       ''violates unique constraint log_records_pkey'') (\<lambda>_.
     rbind (check (organization_exists (lr_organization_id row) d \<and> project_exists (lr_project_id row) d)
       ''violates foreign key constraint'') (\<lambda>_.
     ok ((), d\<lparr>db_log_records := db_log_records d @ [row]\<rparr>))))))"

text \<open>\<open>json.Marshal\<close> of a map of texts never fails.\<close>

definition attributes_json :: "LogAttributeSet \<Rightarrow> json" where
  "attributes_json attrs = JObject (map (\<lambda>(k, v). (marshalled k, JStr v)) (log_values attrs))"

definition log_row :: "string \<Rightarrow> LogRecord \<Rightarrow> LogRecordRow" where
  "log_row recordID record =
     \<lparr>lr_id = recordID, lr_organization_id = OrganizationID_String (log_organizationID record),
      lr_project_id = ProjectID_String (log_projectID record),
      lr_timestamp_at = timestamptz (TimePoint_Time (log_timestamp record)),
      lr_received_at = timestamptz (TimePoint_Time (log_receivedAt record)),
      lr_severity = log_severity record, lr_body = log_body record,
      lr_logger = nullableText (log_logger record), lr_trace_id = nullableText (log_traceID record),
      lr_span_id = nullableText (log_spanID record), lr_release = nullableText (log_release record),
      lr_environment = nullableText (log_environment record),
      lr_resource_attributes = attributes_json (log_resourceAttributes record),
      lr_attributes = attributes_json (log_attributes record)\<rparr>"

text \<open>The row \<open>upsertProjectHourlyLogStats\<close> adds; the counts of issues and transactions gain nothing.\<close>

definition log_stats_row :: "LogRecord \<Rightarrow> StatsRow" where
  "log_stats_row record =
     \<lparr>st_organization_id = OrganizationID_String (log_organizationID record),
      st_project_id = ProjectID_String (log_projectID record),
      st_bucket_at = trunc_hour (timestamptz (TimePoint_Time (log_receivedAt record))),
      st_event_count = 1, st_issue_event_count = 0, st_transaction_event_count = 0, st_log_event_count = 1\<rparr>"

definition upsertProjectHourlyLogStats :: "LogRecord \<Rightarrow> ('w Session, unit) action" where
  "upsertProjectHourlyLogStats record = statement (upsert_stats (log_stats_row record))"

definition appendLogRecord :: "LogRecord \<Rightarrow> ('w Session, unit) action" where
  "appendLogRecord record =
     abind randomUUID (\<lambda>recordID.
     abind (statement (insert_log_record (log_row recordID record))) (\<lambda>_.
     upsertProjectHourlyLogStats record))"

definition AppendLogRecords :: "LogRecord list \<Rightarrow> ('w Session, nat) action" where
  "AppendLogRecords records = abind (aeach appendLogRecord records) (\<lambda>_. areturn (length records))"

definition logQuotaDecision :: "quotaSnapshot \<Rightarrow> int \<Rightarrow> LogQuotaDecision" where
  "logQuotaDecision snapshot count0 =
     (let count = (if count0 < 1 then 1 else count0) in
      if quotaExceeded (qs_organizationEnabled snapshot) (qs_organizationUsed snapshot)
           (qs_organizationLimit snapshot) count
        then NewLogQuotaRejected ''organization_quota_exceeded''
      else if quotaExceeded (qs_projectEnabled snapshot) (qs_projectDailyUsed snapshot)
           (qs_projectDailyLimit snapshot) count
        then NewLogQuotaRejected ''project_quota_exceeded''
      else NewLogQuotaAllowed)"

definition CheckLogQuota :: "LogRecord \<Rightarrow> int \<Rightarrow> ('w Session, LogQuotaDecision) action" where
  "CheckLogQuota record count =
     abind (quotaSnapshotForScope (log_organizationID record) (log_projectID record)
              (TimePoint_Time (log_receivedAt record))) (\<lambda>snapshot.
     areturn (logQuotaDecision snapshot count))"

definition logStore :: "'w Session LogPorts" where
  "logStore = \<lparr>port_AppendLogRecords = AppendLogRecords, port_CheckLogQuota = CheckLogQuota\<rparr>"

definition RunLogIngest :: "'w Session LogIngestTransaction" where
  "RunLogIngest program = in_transaction (program logStore)"

subsection \<open>Reading log records\<close>

text \<open>
  \<open>logListSQL\<close> puts the conditions of the query together as a text with numbered placeholders, beside the list
  of their arguments. A condition is kept with the numbers it names: \<open>column = $n\<close> or \<open>column ->> $k = $n\<close>.
\<close>

datatype sql_arg = ArgText string | ArgInt int

datatype sql_condition =
    ColumnIs string nat
  | MemberIs string nat nat

definition appendTextFilter ::
  "sql_condition list \<Rightarrow> sql_arg list \<Rightarrow> string \<Rightarrow> string \<Rightarrow> sql_condition list \<times> sql_arg list" where
  "appendTextFilter conditions args0 column value =
     (if TrimSpace value = [] then (conditions, args0) else
      let args = args0 @ [ArgText (TrimSpace value)]
      in (conditions @ [ColumnIs column (length args)], args))"

definition appendJSONFilter ::
  "sql_condition list \<Rightarrow> sql_arg list \<Rightarrow> string \<Rightarrow> AttributeFilter \<Rightarrow> sql_condition list \<times> sql_arg list" where
  "appendJSONFilter conditions args0 column flt =
     (if TrimSpace (af_Key flt) = [] \<or> TrimSpace (af_Value flt) = [] then (conditions, args0) else
      let args1 = args0 @ [ArgText (TrimSpace (af_Key flt))];
          keyParam = length args1;
          args2 = args1 @ [ArgText (TrimSpace (af_Value flt))];
          valueParam = length args2
      in (conditions @ [MemberIs column keyParam valueParam], args2))"

definition logListSQL :: "LogQuery \<Rightarrow> (sql_condition list \<times> nat) \<times> sql_arg list" where
  "logListSQL q =
     (let args = [ArgText (OrganizationID_String (us_OrganizationID (lg_Scope q))),
                  ArgText (ProjectID_String (us_ProjectID (lg_Scope q)))];
          conditions = [ColumnIs ''organization_id'' 1, ColumnIs ''project_id'' 2];
          (conditions, args) = appendTextFilter conditions args ''severity'' (lg_Severity q);
          (conditions, args) = appendTextFilter conditions args ''logger'' (lg_Logger q);
          (conditions, args) = appendTextFilter conditions args ''environment'' (lg_Environment q);
          (conditions, args) = appendTextFilter conditions args ''release'' (lg_Release q);
          (conditions, args) = appendJSONFilter conditions args ''resource_attributes'' (lg_ResourceAttribute q);
          (conditions, args) = appendJSONFilter conditions args ''attributes'' (lg_LogAttribute q);
          args = args @ [ArgInt (lg_Limit q)]
      in ((conditions, length args), args))"

text \<open>What PostgreSQL makes of them: a null is equal to nothing.\<close>

definition log_column :: "string \<Rightarrow> LogRecordRow \<Rightarrow> string option" where
  "log_column column r =
     (if column = ''organization_id'' then Some (lr_organization_id r)
      else if column = ''project_id'' then Some (lr_project_id r)
      else if column = ''severity'' then Some (lr_severity r)
      else if column = ''logger'' then lr_logger r
      else if column = ''environment'' then lr_environment r
      else if column = ''release'' then lr_release r
      else None)"

definition log_document :: "string \<Rightarrow> LogRecordRow \<Rightarrow> json" where
  "log_document column r = (if column = ''resource_attributes'' then lr_resource_attributes r else lr_attributes r)"

definition member_text :: "json \<Rightarrow> string \<Rightarrow> string option" where
  "member_text document key =
     (case document of
        JObject members \<Rightarrow> (case map_of members key of Some (JString v) \<Rightarrow> Some v | _ \<Rightarrow> None)
      | _ \<Rightarrow> None)"

definition text_arg :: "sql_arg list \<Rightarrow> nat \<Rightarrow> string option" where
  "text_arg args n =
     (if 1 \<le> n \<and> n \<le> length args then (case args ! (n - 1) of ArgText v \<Rightarrow> Some v | ArgInt i \<Rightarrow> None) else None)"

definition sql_equal :: "string option \<Rightarrow> string option \<Rightarrow> bool" where
  "sql_equal x y \<longleftrightarrow> x \<noteq> None \<and> x = y"

fun sql_holds :: "sql_arg list \<Rightarrow> LogRecordRow \<Rightarrow> sql_condition \<Rightarrow> bool" where
  "sql_holds args r (ColumnIs column n) \<longleftrightarrow> sql_equal (log_column column r) (text_arg args n)"
| "sql_holds args r (MemberIs column k n) \<longleftrightarrow>
     (case text_arg args k of
        None \<Rightarrow> False
      | Some key \<Rightarrow> sql_equal (member_text (log_document column r) key) (text_arg args n))"

definition limit_arg :: "sql_arg list \<Rightarrow> nat \<Rightarrow> int result" where
  "limit_arg args n =
     (if 1 \<le> n \<and> n \<le> length args
      then (case args ! (n - 1) of
              ArgInt i \<Rightarrow> if 0 \<le> i then ok i else fail ''LIMIT must not be negative''
            | ArgText v \<Rightarrow> fail ''invalid input syntax for type bigint'')
      else fail ''there is no parameter'')"

definition text_args_ok :: "sql_arg list \<Rightarrow> bool" where
  "text_args_ok args \<longleftrightarrow> list_all (\<lambda>a. case a of ArgText v \<Rightarrow> text_param v | ArgInt i \<Rightarrow> True) args"

definition select_log_records :: "(sql_condition list \<times> nat) \<times> sql_arg list \<Rightarrow> DB \<Rightarrow> LogRecordRow list result" where
  "select_log_records statement_args d =
     (let ((conditions, limitParam), args) = statement_args in
      rbind (check (text_args_ok args \<and> list_all (\<lambda>n. case text_arg args n of None \<Rightarrow> False | Some v \<Rightarrow> uuid_param v) [1, 2])
        ''invalid input syntax'') (\<lambda>_.
      rbind (limit_arg args limitParam) (\<lambda>limit.
      ok (take (nat limit) (sort_key (\<lambda>r. - lr_received_at r)
        (filter (\<lambda>r. list_all (sql_holds args r) conditions) (db_log_records d)))))))"

text \<open>\<open>attributeViews\<close>: a document that is no object of texts has no attributes.\<close>

fun text_members :: "(string \<times> json) list \<Rightarrow> (string \<times> string) list option" where
  "text_members [] = Some []"
| "text_members ((k, JString v) # members) = map_option (\<lambda>rest. (k, v) # rest) (text_members members)"
| "text_members (_ # members) = None"

definition attributeViews :: "json \<Rightarrow> (string \<times> string) list" where
  "attributeViews payload =
     (case payload of
        JObject members \<Rightarrow> (case text_members members of None \<Rightarrow> [] | Some attrs \<Rightarrow> sort_key fst attrs)
      | _ \<Rightarrow> [])"

definition coalesce_text :: "string option \<Rightarrow> string" where
  "coalesce_text v = (case v of None \<Rightarrow> [] | Some s \<Rightarrow> s)"

definition scanLogRecord :: "LogRecordRow \<Rightarrow> LogRecordView" where
  "scanLogRecord row =
     \<lparr>lv_ID = lr_id row, lv_Timestamp = formatTime (lr_timestamp_at row),
      lv_ReceivedAt = formatTime (lr_received_at row), lv_Severity = lr_severity row, lv_Body = lr_body row,
      lv_Logger = coalesce_text (lr_logger row), lv_TraceID = coalesce_text (lr_trace_id row),
      lv_SpanID = coalesce_text (lr_span_id row), lv_Release = coalesce_text (lr_release row),
      lv_Environment = coalesce_text (lr_environment row),
      lv_ResourceAttributes = attributeViews (lr_resource_attributes row),
      lv_Attributes = attributeViews (lr_attributes row)\<rparr>"

definition filterView :: "LogQuery \<Rightarrow> FilterView" where
  "filterView q =
     \<lparr>fv_Severity = lg_Severity q, fv_Logger = lg_Logger q, fv_Environment = lg_Environment q,
      fv_Release = lg_Release q, fv_ResourceKey = af_Key (lg_ResourceAttribute q),
      fv_ResourceValue = af_Value (lg_ResourceAttribute q), fv_AttributeKey = af_Key (lg_LogAttribute q),
      fv_AttributeValue = af_Value (lg_LogAttribute q),
      fv_HasResourceFilter = (af_Key (lg_ResourceAttribute q) \<noteq> []),
      fv_HasAttributeFilter = (af_Key (lg_LogAttribute q) \<noteq> [])\<rparr>"

definition ListLogRecords :: "LogQuery \<Rightarrow> ('w Session, LogRecordView list \<times> FilterView) action" where
  "ListLogRecords q =
     abind (pool_query (select_log_records (logListSQL q))) (\<lambda>rows.
     areturn (map scanLogRecord rows, filterView q))"

text \<open>The \<open>uuid\<close> type takes a hyphen after every group of four digits, wherever the groups stand.\<close>

fun uuid_in :: "nat \<Rightarrow> string \<Rightarrow> string option" where
  "uuid_in 0 s = (if s = [] then Some [] else None)"
| "uuid_in (Suc n) (a # b # s) =
     (if hex_byte a \<and> hex_byte b
      then map_option (\<lambda>rest. a # b # rest)
        (uuid_in n (if even n \<and> 0 < n \<and> s \<noteq> [] \<and> hd s = CHR ''-'' then tl s else s))
      else None)"
| "uuid_in (Suc n) s = None"

definition ShowLogRecord :: "LogDetailQuery \<Rightarrow> ('w Session, LogRecordView) action" where
  "ShowLogRecord q =
     (let organization = OrganizationID_String (us_OrganizationID (ld_Scope q));
          project = ProjectID_String (us_ProjectID (ld_Scope q))
      in abind (pool_query (\<lambda>d.
           rbind (check (uuid_param organization \<and> uuid_param project \<and> uuid_in 16 (ld_ID q) \<noteq> None)
             ''invalid input syntax for type uuid'') (\<lambda>_.
           ok (find (\<lambda>r. lr_organization_id r = organization \<and> lr_project_id r = project \<and>
             Some (lr_id r) = map_option dashedUUID (uuid_in 16 (ld_ID q))) (db_log_records d)))))
         (\<lambda>row. abind (scan_row row) (\<lambda>r. areturn (scanLogRecord r))))"

subsection \<open>What the program relies on\<close>

text \<open>
  \<open>ready\<close> holds between transactions and \<open>working\<close> inside one; \<open>room r n d\<close> is what a check that allows \<open>n\<close>
  records beside \<open>r\<close> has found, \<open>added\<close> what appending records does to the store.
\<close>

locale log_ports =
  fixes ports :: "'s LogPorts"
    and run :: "'s LogIngestTransaction"
    and ready :: "'s \<Rightarrow> bool"
    and working :: "'s \<Rightarrow> bool"
    and step :: "'s \<Rightarrow> 's \<Rightarrow> bool"
    and store :: "'s \<Rightarrow> 'd"
    and room :: "LogRecord \<Rightarrow> int \<Rightarrow> 'd \<Rightarrow> bool"
    and added :: "LogRecord list \<Rightarrow> 'd \<Rightarrow> 'd \<Rightarrow> bool"
  assumes step_preorder: "preorder_on_states step"
    and check_step: "evolves step (port_CheckLogQuota ports r n)"
    and append_step: "evolves step (port_AppendLogRecords ports rs)"
    and check_ok: "working s \<Longrightarrow> port_CheckLogQuota ports r n s = (Inr q, t) \<Longrightarrow>
      working t \<and> store t = store s \<and> (lq_allowed q \<longrightarrow> room r n (store s))"
    and append_ok: "working s \<Longrightarrow> port_AppendLogRecords ports rs s = (Inr k, t) \<Longrightarrow>
      k = length rs \<and> added rs (store s) (store t)"
    and run_ok: "evolves step (program ports) \<Longrightarrow> ready s \<Longrightarrow> run program s = (Inr x, t) \<Longrightarrow>
      ready t \<and> (\<exists>s1 t1. working s1 \<and> store s1 = store s \<and> program ports s1 = (Inr x, t1) \<and> store t = store t1)"
    and run_error: "evolves step (program ports) \<Longrightarrow> ready s \<Longrightarrow> run program s = (Inl e, t) \<Longrightarrow>
      ready t \<and> store t = store s"
begin

lemma program_step: "evolves step (logIngestProgram command ports)"
  unfolding logIngestProgram_def by (intro evolves_intros step_preorder check_step append_step)

lemma program_ok:
  assumes "logIngestProgram command ports s = (Inr r, t)" and "working s"
  defines "records \<equiv> lic_records command"
  shows "store t = store s \<and> (\<exists>q. \<not> lq_allowed q \<and> r = quotaLogReceipt q) \<or>
    r = acceptedLogReceipt (length records) \<and> room (hd records) (int (length records)) (store s) \<and>
    added records (store s) (store t)"
  using assms(1) unfolding logIngestProgram_def
  by (auto simp: abind_ok areturn_eq records_def split: if_split_asm
      dest!: check_ok [OF assms(2)] dest: append_ok)

lemma ingested:
  assumes "LogIngest (Some run) command s = (x, t)" and "ready s"
  defines "records \<equiv> lic_records command"
  shows "ready t \<and> (case x of
      Inl e \<Rightarrow> store t = store s
    | Inr r \<Rightarrow> normalizeIngestCommand command = ok command \<and>
        (store t = store s \<and> (\<exists>q. \<not> lq_allowed q \<and> r = quotaLogReceipt q) \<or>
         r = acceptedLogReceipt (length records) \<and> room (hd records) (int (length records)) (store s) \<and>
         added records (store s) (store t)))"
proof -
  have same: "normalizeIngestCommand command = ok c \<Longrightarrow> c = command" for c
    by (auto simp: normalizeIngestCommand_def result_simps split: list.split_asm)
  show ?thesis
  proof (cases "normalizeIngestCommand command")
    case (Inl e)
    with assms show ?thesis by (auto simp: LogIngest_def abind_def alift_def)
  next
    case (Inr c)
    with assms(1) same have run: "run (logIngestProgram command) s = (x, t)"
      by (auto simp: LogIngest_def abind_def alift_def)
    show ?thesis
    proof (cases x)
      case (Inl e)
      with run run_error [of "logIngestProgram command", OF program_step assms(2)] show ?thesis by simp
    next
      case right: (Inr r)
      from run_ok [of "logIngestProgram command", OF program_step assms(2) run [unfolded right]] obtain s1 t1 where
        "ready t" "working s1" "store s1 = store s" "logIngestProgram command ports s1 = (Inr r, t1)" "store t = store t1"
        by blast
      with program_ok [of command s1 r t1] right Inr same show ?thesis by (auto simp: records_def)
    qed
  qed
qed

end

subsection \<open>What an append adds\<close>

definition log_counts_in :: "(string \<Rightarrow> bool) \<Rightarrow> string \<Rightarrow> gotime \<Rightarrow> LogRecord \<Rightarrow> bool" where
  "log_counts_in Q org t r \<longleftrightarrow> org = OrganizationID_String (log_organizationID r) \<and>
     trunc_day t = trunc_day (timestamptz (TimePoint_Time (log_receivedAt r))) \<and>
     Q (ProjectID_String (log_projectID r))"

definition log_in_scope :: "DB \<Rightarrow> LogRecord \<Rightarrow> bool" where
  "log_in_scope d r \<longleftrightarrow> (\<forall>x\<in>set (project_scopes d). fst x = ProjectID_String (log_projectID r) \<longrightarrow>
     snd x = OrganizationID_String (log_organizationID r))"

abbreviation except_logs :: "DB \<Rightarrow> DB" where
  "except_logs d \<equiv> d\<lparr>db_log_records := [], db_project_hourly_stats := []\<rparr>"

definition logs_added :: "LogRecord list \<Rightarrow> DB \<Rightarrow> DB \<Rightarrow> bool" where
  "logs_added records d d' \<longleftrightarrow>
     (\<exists>ids. length ids = length records \<and> db_log_records d' = db_log_records d @ map2 log_row ids records) \<and>
     except_logs d' = except_logs d \<and>
     (stats_consistent d \<longrightarrow> list_all (log_in_scope d) records \<longrightarrow> stats_consistent d' \<and>
       (\<forall>Q org t. day_usage (\<lambda>r. Q (st_project_id r)) org t d' =
          day_usage (\<lambda>r. Q (st_project_id r)) org t d + int (length (filter (log_counts_in Q org t) records))))"

lemma logs_added_none: "logs_added [] d d"
  by (simp add: logs_added_def)

lemma except_logs_scope: "except_logs d' = except_logs d \<Longrightarrow> log_in_scope d' = log_in_scope d"
proof -
  assume "except_logs d' = except_logs d"
  then have "db_projects (except_logs d') = db_projects (except_logs d)" by simp
  then show ?thesis by (simp add: log_in_scope_def project_scopes_def fun_eq_iff)
qed

lemma logs_added_trans:
  assumes "logs_added xs d d1" and "logs_added ys d1 d2"
  shows "logs_added (xs @ ys) d d2"
proof -
  obtain ids ids' where ids: "length ids = length xs" "db_log_records d1 = db_log_records d @ map2 log_row ids xs"
      "length ids' = length ys" "db_log_records d2 = db_log_records d1 @ map2 log_row ids' ys"
    using assms by (auto simp: logs_added_def)
  then have "length (ids @ ids') = length (xs @ ys) \<and>
      db_log_records d2 = db_log_records d @ map2 log_row (ids @ ids') (xs @ ys)" by simp
  then have rows: "\<exists>ids. length ids = length (xs @ ys) \<and> db_log_records d2 = db_log_records d @ map2 log_row ids (xs @ ys)"
    by blast
  have rest: "except_logs d1 = except_logs d" "except_logs d2 = except_logs d1"
    using assms by (simp_all add: logs_added_def)
  show ?thesis
    unfolding logs_added_def
  proof (intro conjI rows impI)
    show "except_logs d2 = except_logs d" using rest by simp
    assume wf: "stats_consistent d" "list_all (log_in_scope d) (xs @ ys)"
    have one: "stats_consistent d1 \<and> (\<forall>Q org t. day_usage (\<lambda>r. Q (st_project_id r)) org t d1 =
        day_usage (\<lambda>r. Q (st_project_id r)) org t d + int (length (filter (log_counts_in Q org t) xs)))"
      using assms(1) wf by (simp add: logs_added_def)
    moreover have "list_all (log_in_scope d1) ys" using wf except_logs_scope [OF rest(1)] by simp
    ultimately show "stats_consistent d2" "\<forall>Q org t. day_usage (\<lambda>r. Q (st_project_id r)) org t d2 =
        day_usage (\<lambda>r. Q (st_project_id r)) org t d + int (length (filter (log_counts_in Q org t) (xs @ ys)))"
      using assms(2) by (simp_all add: logs_added_def)
  qed
qed

lemma stats_row_added:
  assumes up: "upsert_stats (log_stats_row record) d = ok ((), d')" and wf: "stats_consistent d"
    and scope: "log_in_scope d record"
  shows "stats_consistent d' \<and> day_usage (\<lambda>r. Q (st_project_id r)) org t d' =
    day_usage (\<lambda>r. Q (st_project_id r)) org t d + (if log_counts_in Q org t record then 1 else 0)"
proof -
  let ?row = "log_stats_row record" and ?u = "timestamptz (TimePoint_Time (log_receivedAt record))"
  have "\<forall>p\<in>set (db_projects d). prj_id p = st_project_id ?row \<longrightarrow> prj_organization_id p = st_organization_id ?row"
    using scope by (auto simp: log_in_scope_def project_scopes_def log_stats_row_def)
  from upsert_stats_usage [OF up wf this, of "\<lambda>r. Q (st_project_id r)" org t]
  have "stats_consistent d' \<and> day_usage (\<lambda>r. Q (st_project_id r)) org t d' = day_usage (\<lambda>r. Q (st_project_id r)) org t d +
    (if st_organization_id ?row = org \<and> trunc_day t \<le> st_bucket_at ?row \<and>
        st_bucket_at ?row < trunc_day t + day \<and> Q (st_project_id ?row) then st_event_count ?row else 0)" by simp
  then show ?thesis using same_day_iff [of t ?u] by (auto simp: log_stats_row_def log_counts_in_def)
qed

lemma upsert_stats_only:
  "upsert_stats row d = ok (u, d') \<Longrightarrow> d' = d\<lparr>db_project_hourly_stats := db_project_hourly_stats d'\<rparr>"
  by (auto simp: upsert_stats_def Let_def rbind_eq_ok split: if_split_asm)

lemma appendLogRecord_added:
  assumes run: "appendLogRecord record s = (Inr u, t)" and q: "quiet (ses_env s)"
  shows "quiet (ses_env t) \<and> logs_added [record] (ses_db s) (ses_db t)"
proof -
  obtain i s1 s2 where i: "randomUUID s = (Inr i, s1)"
    and ins: "statement (insert_log_record (log_row i record)) s1 = (Inr (), s2)"
    and up: "statement (upsert_stats (log_stats_row record)) s2 = (Inr u, t)"
    using run by (auto simp: appendLogRecord_def upsertProjectHourlyLogStats_def abind_ok)
  have s1: "ses_db s1 = ses_db s" "quiet (ses_env s1)" using randomUUID_quietD [OF i q] q by auto
  have s2: "insert_log_record (log_row i record) (ses_db s) = ok ((), ses_db s2)" "quiet (ses_env s2)"
    using statement_quietD [OF ins s1(2)] s1 by auto
  have t: "upsert_stats (log_stats_row record) (ses_db s2) = ok ((), ses_db t)" "quiet (ses_env t)"
    using statement_quietD [OF up s2(2)] s2 by auto
  have d2: "ses_db s2 = (ses_db s)\<lparr>db_log_records := db_log_records (ses_db s) @ [log_row i record]\<rparr>"
    using s2(1) by (auto simp: insert_log_record_def rbind_eq_ok)
  have stats: "\<exists>rows. ses_db t = (ses_db s2)\<lparr>db_project_hourly_stats := rows\<rparr>"
    using upsert_stats_only [OF t(1)] by metis
  have same: "stats_consistent (ses_db s2) = stats_consistent (ses_db s)"
      "log_in_scope (ses_db s2) record = log_in_scope (ses_db s) record"
      "day_usage P org tm (ses_db s2) = day_usage P org tm (ses_db s)" for P org tm
    by (simp_all add: d2 stats_consistent_def log_in_scope_def project_scopes_def day_usage_def)
  have "\<exists>ids. length ids = length [record] \<and> db_log_records (ses_db t) = db_log_records (ses_db s) @ map2 log_row ids [record]"
    using stats by (intro exI [of _ "[i]"]) (auto simp: d2)
  moreover have "except_logs (ses_db t) = except_logs (ses_db s)" using stats by (auto simp: d2)
  moreover have "stats_consistent (ses_db s) \<longrightarrow> list_all (log_in_scope (ses_db s)) [record] \<longrightarrow>
      stats_consistent (ses_db t) \<and> (\<forall>Q org tm. day_usage (\<lambda>r. Q (st_project_id r)) org tm (ses_db t) =
        day_usage (\<lambda>r. Q (st_project_id r)) org tm (ses_db s) + int (length (filter (log_counts_in Q org tm) [record])))"
    using stats_row_added [OF t(1)] same by auto
  ultimately show ?thesis using t(2) by (simp add: logs_added_def)
qed

lemma append_all_added:
  "aeach appendLogRecord records s = (Inr u, t) \<Longrightarrow> quiet (ses_env s) \<Longrightarrow> logs_added records (ses_db s) (ses_db t)"
proof (induction records arbitrary: s)
  case Nil
  then show ?case by (simp add: areturn_eq logs_added_none)
next
  case (Cons r records)
  then obtain v s1 where "appendLogRecord r s = (Inr v, s1)" "aeach appendLogRecord records s1 = (Inr u, t)"
    by (auto simp: abind_ok)
  with appendLogRecord_added [of r s v s1] Cons logs_added_trans [of "[r]" "ses_db s" "ses_db s1" records "ses_db t"]
  show ?case by simp
qed

subsection \<open>The store provides it\<close>

text \<open>While the quotas are kept and \<open>n\<close> is small, the sums of the check do not wrap around.\<close>

definition log_room :: "LogRecord \<Rightarrow> int \<Rightarrow> DB \<Rightarrow> bool" where
  "log_room r n d \<longleftrightarrow> (quota_kept d \<longrightarrow> 1 \<le> n \<longrightarrow> n < 2 ^ 31 \<longrightarrow>
     within_limits (select_quota (OrganizationID_String (log_organizationID r)) (ProjectID_String (log_projectID r))
       (timestamptz (TimePoint_Time (log_receivedAt r))) d) n)"

abbreviation quiet_session :: "'w Session \<Rightarrow> bool" where
  "quiet_session s \<equiv> quiet (ses_env s)"

lemma CheckLogQuota_room:
  assumes "CheckLogQuota r n s = (Inr q, t)" and "quiet (ses_env s)"
  shows "quiet (ses_env t) \<and> ses_db t = ses_db s \<and> (lq_allowed q \<longrightarrow> log_room r n (ses_db s))"
proof -
  obtain snap where snap: "quotaSnapshotForScope (log_organizationID r) (log_projectID r) (TimePoint_Time (log_receivedAt r)) s = (Inr snap, t)"
    and q: "q = logQuotaDecision snap n"
    using assms(1) by (auto simp: CheckLogQuota_def abind_ok areturn_eq)
  have eq: "snap = select_quota (OrganizationID_String (log_organizationID r)) (ProjectID_String (log_projectID r))
       (timestamptz (TimePoint_Time (log_receivedAt r))) (ses_db s)"
    and big: "bigint (qs_projectDailyUsed snap)" "bigint (qs_organizationUsed snap)"
    and t: "ses_db t = ses_db s" "ses_env t = ses_env s"
    using query_quietD [OF snap [unfolded quotaSnapshotForScope_def] assms(2)]
    by (auto simp: rbind_eq_ok Let_def)
  have "log_room r n (ses_db s)" if "lq_allowed q"
  proof -
    have "within_limits snap n" if kept: "quota_kept (ses_db s)" and n: "1 \<le> n" "n < 2 ^ 31"
    proof -
      have "\<not> quotaExceeded (qs_organizationEnabled snap) (qs_organizationUsed snap) (qs_organizationLimit snap) n"
          "\<not> quotaExceeded (qs_projectEnabled snap) (qs_projectDailyUsed snap) (qs_projectDailyLimit snap) n"
        using \<open>lq_allowed q\<close> n(1) unfolding q
        by (auto simp: logQuotaDecision_def Let_def NewLogQuotaRejected_def split: if_split_asm)
      with not_exceeded_room [OF kept eq big, of n] n show ?thesis by simp
    qed
    then show ?thesis using eq by (simp add: log_room_def)
  qed
  with t assms(2) show ?thesis by simp
qed

lemma AppendLogRecords_added:
  "AppendLogRecords rs s = (Inr k, t) \<Longrightarrow> quiet (ses_env s) \<Longrightarrow> k = length rs \<and> logs_added rs (ses_db s) (ses_db t)"
  by (auto simp: AppendLogRecords_def abind_ok areturn_eq dest: append_all_added)

lemma evolves_log_steps:
  "evolves session_step (AppendLogRecords rs)" "evolves session_step (CheckLogQuota r n)"
proof -
  have "evolves session_step (appendLogRecord r)" for r
    unfolding appendLogRecord_def upsertProjectHourlyLogStats_def by (intro session_steps)
  then show "evolves session_step (AppendLogRecords rs)"
    unfolding AppendLogRecords_def by (intro session_steps evolves_aeach preorder_db_evolves preorder_any)
  show "evolves session_step (CheckLogQuota r n)"
    unfolding CheckLogQuota_def quotaSnapshotForScope_def by (intro session_steps)
qed

interpretation log_store: log_ports logStore RunLogIngest session_ready quiet_session session_step ses_db log_room logs_added
proof (unfold_locales, goal_cases)
  case 1
  show ?case by (intro preorder_db_evolves preorder_any)
next
  case (2 r n)
  show ?case by (simp add: logStore_def evolves_log_steps)
next
  case (3 rs)
  show ?case by (simp add: logStore_def evolves_log_steps)
next
  case (4 s r n q t)
  then show ?case using CheckLogQuota_room [of r n s q t] by (simp add: logStore_def)
next
  case (5 s rs k t)
  then show ?case using AppendLogRecords_added [of rs s k t] by (simp add: logStore_def)
next
  case (6 program s x t)
  then show ?case using transaction_ready [of "program logStore" s "Inr x" t] by (auto simp: RunLogIngest_def)
next
  case (7 program s e t)
  then show ?case using transaction_ready [of "program logStore" s "Inl e" t] by (simp add: RunLogIngest_def)
qed

text \<open>Records of one request: of one project, received at one time, in the organization of the project.\<close>

definition one_request :: "OrganizationID \<Rightarrow> ProjectID \<Rightarrow> TimePoint \<Rightarrow> LogRecord list \<Rightarrow> bool" where
  "one_request organizationID projectID receivedAt records \<longleftrightarrow>
     list_all (\<lambda>r. log_organizationID r = organizationID \<and> log_projectID r = projectID \<and>
       log_receivedAt r = receivedAt) records"

lemma except_logs_same:
  assumes "except_logs d' = except_logs d"
  shows "same_index d d'" "same_policies d d'" "db_events d' = db_events d" "project_scopes d' = project_scopes d"
proof -
  have "db_issues (except_logs d') = db_issues (except_logs d)" "db_projects (except_logs d') = db_projects (except_logs d)"
    "db_issue_fingerprints (except_logs d') = db_issue_fingerprints (except_logs d)" "db_events (except_logs d') = db_events (except_logs d)"
    "db_organization_quota_policies (except_logs d') = db_organization_quota_policies (except_logs d)"
    "db_project_quota_policies (except_logs d') = db_project_quota_policies (except_logs d)"
    by (simp_all only: assms)
  then show "same_index d d'" "same_policies d d'" "db_events d' = db_events d" "project_scopes d' = project_scopes d"
    by (simp_all add: project_scopes_def)
qed

lemma log_ingest_effect:
  assumes run: "LogIngest (Some RunLogIngest) (NewLogIngestCommand records) s = (x, t)"
    and s: "session_ready s" "store_consistent (ses_db s)"
    and records: "one_request og pj at records" "list_all (log_in_scope (ses_db s)) records" "length records < 2 ^ 31"
  shows "session_ready t \<and> store_consistent (ses_db t) \<and> db_events (ses_db t) = db_events (ses_db s) \<and>
    project_scopes (ses_db t) = project_scopes (ses_db s) \<and>
    (case x of
       Inl e \<Rightarrow> ses_db t = ses_db s
     | Inr r \<Rightarrow> lir_kind r = ReceiptLogQuotaRejected \<and> ses_db t = ses_db s \<or>
         r = acceptedLogReceipt (length records) \<and> logs_added records (ses_db s) (ses_db t) \<and>
         day_usage (\<lambda>_. True) (OrganizationID_String og) (timestamptz (TimePoint_Time at)) (ses_db t) =
           day_usage (\<lambda>_. True) (OrganizationID_String og) (timestamptz (TimePoint_Time at)) (ses_db s) + int (length records))"
proof -
  note out = log_store.ingested [OF run s(1)]
  show ?thesis
  proof (cases "ses_db t = ses_db s \<and> (\<forall>r. x = Inr r \<longrightarrow> lir_kind r = ReceiptLogQuotaRejected)")
    case True
    with out s show ?thesis by (auto split: sum.split)
  next
    case False
    then obtain r where x: "x = Inr r" and acc: "r = acceptedLogReceipt (length records)"
      "log_room (hd records) (int (length records)) (ses_db s)" "logs_added records (ses_db s) (ses_db t)"
      "normalizeIngestCommand (NewLogIngestCommand records) = ok (NewLogIngestCommand records)"
      using out by (cases x) (auto simp: NewLogIngestCommand_def quotaLogReceipt_def)
    then obtain first rest where cons: "records = first # rest"
      by (cases records) (auto simp: normalizeIngestCommand_def NewLogIngestCommand_def)
    have wf: "issues_consistent (ses_db s)" "stats_consistent (ses_db s)" "quota_kept (ses_db s)"
      using s(2) by (auto simp: store_consistent_def)
    have rest: "except_logs (ses_db t) = except_logs (ses_db s)" using acc(3) by (simp add: logs_added_def)
    note same = except_logs_same [OF rest]
    have use: "day_usage (\<lambda>r. Q (st_project_id r)) org tm (ses_db t) = day_usage (\<lambda>r. Q (st_project_id r)) org tm (ses_db s) +
        int (length (filter (log_counts_in Q org tm) records))" and stats: "stats_consistent (ses_db t)" for Q org tm
      using acc(3) wf(2) records(2) by (auto simp: logs_added_def)
    let ?O = "OrganizationID_String og" and ?P = "ProjectID_String pj" and ?T = "timestamptz (TimePoint_Time at)"
    have each: "log_counts_in Q org tm r \<longleftrightarrow> org = ?O \<and> trunc_day tm = trunc_day ?T \<and> Q ?P"
      if "r \<in> set records" for Q org tm r
      using records(1) that by (auto simp: one_request_def list_all_iff log_counts_in_def)
    then have count: "int (length (filter (log_counts_in Q org tm) records)) =
        (if org = ?O \<and> trunc_day tm = trunc_day ?T \<and> Q ?P then int (length records) else 0)" for Q org tm
      by (auto simp: filter_empty_conv filter_id_conv cong: filter_cong)
    have "within_limits (select_quota ?O ?P ?T (ses_db s)) (int (length records))"
      using acc(2) wf(3) records(1,3) by (simp add: log_room_def cons one_request_def)
    then have "quota_kept (ses_db t)"
      using use count by (intro quota_kept_room [OF wf(3) same(2)]) auto
    moreover have "issues_consistent (ses_db t)" using same_index_consistent [OF same(1)] wf(1) by simp
    ultimately have "store_consistent (ses_db t)" using stats by (simp add: store_consistent_def)
    with out x acc same use [of "\<lambda>_. True"] count [of "\<lambda>_. True"] show ?thesis by auto
  qed
qed

subsection \<open>A listing is the filter of its query\<close>

definition matches_text :: "string \<Rightarrow> string option \<Rightarrow> bool" where
  "matches_text value column \<longleftrightarrow> TrimSpace value = [] \<or> column = Some (TrimSpace value)"

definition matches_attribute :: "AttributeFilter \<Rightarrow> json \<Rightarrow> bool" where
  "matches_attribute flt document \<longleftrightarrow> TrimSpace (af_Key flt) = [] \<or> TrimSpace (af_Value flt) = [] \<or>
     member_text document (TrimSpace (af_Key flt)) = Some (TrimSpace (af_Value flt))"

definition log_matches :: "LogQuery \<Rightarrow> LogRecordRow \<Rightarrow> bool" where
  "log_matches q r \<longleftrightarrow>
     lr_organization_id r = OrganizationID_String (us_OrganizationID (lg_Scope q)) \<and>
     lr_project_id r = ProjectID_String (us_ProjectID (lg_Scope q)) \<and>
     matches_text (lg_Severity q) (Some (lr_severity r)) \<and> matches_text (lg_Logger q) (lr_logger r) \<and>
     matches_text (lg_Environment q) (lr_environment r) \<and> matches_text (lg_Release q) (lr_release r) \<and>
     matches_attribute (lg_ResourceAttribute q) (lr_resource_attributes r) \<and>
     matches_attribute (lg_LogAttribute q) (lr_attributes r)"

text \<open>The conditions of a statement mean \<open>P\<close>, whatever arguments are added after theirs.\<close>

definition means :: "LogRecordRow \<Rightarrow> sql_condition list \<times> sql_arg list \<Rightarrow> bool \<Rightarrow> bool" where
  "means r stmt P \<longleftrightarrow> (\<forall>added. list_all (sql_holds (snd stmt @ added) r) (fst stmt) \<longleftrightarrow> P)"

lemma meansD: "means r (conditions, args) P \<Longrightarrow> list_all (sql_holds (args @ added) r) conditions \<longleftrightarrow> P"
  by (simp add: means_def)

lemma text_arg_last: "text_arg (args @ ArgText v # added) (Suc (length args)) = Some v"
  by (simp add: text_arg_def)

lemma means_text:
  assumes "means r (conditions, args) P"
  shows "means r (appendTextFilter conditions args column value) (P \<and> matches_text value (log_column column r))"
  using meansD [OF assms, of "ArgText (TrimSpace value) # _"] meansD [OF assms]
  by (auto simp: means_def appendTextFilter_def matches_text_def Let_def text_arg_last sql_equal_def)

lemma means_attribute:
  assumes "means r (conditions, args) P"
  shows "means r (appendJSONFilter conditions args column flt) (P \<and> matches_attribute flt (log_document column r))"
proof -
  have key: "text_arg (args @ ArgText k # ArgText v # added) (Suc (length args)) = Some k" for k v added
    by (rule text_arg_last)
  have val: "text_arg (args @ ArgText k # ArgText v # added) (Suc (Suc (length args))) = Some v" for k v added
    using text_arg_last [of "args @ [ArgText k]" v added] by simp
  show ?thesis
    using meansD [OF assms, of "ArgText (TrimSpace (af_Key flt)) # ArgText (TrimSpace (af_Value flt)) # _"] meansD [OF assms]
    by (auto simp: means_def appendJSONFilter_def matches_attribute_def Let_def key val sql_equal_def)
qed

lemma logListSQL_means:
  assumes "logListSQL q = ((conditions, n), args)"
  shows "list_all (sql_holds args r) conditions \<longleftrightarrow> log_matches q r"
    and "limit_arg args n = (if 0 \<le> lg_Limit q then ok (lg_Limit q) else fail ''LIMIT must not be negative'')"
proof -
  let ?org = "OrganizationID_String (us_OrganizationID (lg_Scope q))" and ?prj = "ProjectID_String (us_ProjectID (lg_Scope q))"
  obtain c1 a1 where 1: "appendTextFilter [ColumnIs ''organization_id'' 1, ColumnIs ''project_id'' 2]
      [ArgText ?org, ArgText ?prj] ''severity'' (lg_Severity q) = (c1, a1)" by fastforce
  obtain c2 a2 where 2: "appendTextFilter c1 a1 ''logger'' (lg_Logger q) = (c2, a2)" by fastforce
  obtain c3 a3 where 3: "appendTextFilter c2 a2 ''environment'' (lg_Environment q) = (c3, a3)" by fastforce
  obtain c4 a4 where 4: "appendTextFilter c3 a3 ''release'' (lg_Release q) = (c4, a4)" by fastforce
  obtain c5 a5 where 5: "appendJSONFilter c4 a4 ''resource_attributes'' (lg_ResourceAttribute q) = (c5, a5)" by fastforce
  obtain c6 a6 where 6: "appendJSONFilter c5 a5 ''attributes'' (lg_LogAttribute q) = (c6, a6)" by fastforce
  have sql: "conditions = c6" "args = a6 @ [ArgInt (lg_Limit q)]" "n = Suc (length a6)"
    using assms unfolding logListSQL_def Let_def 1 2 3 4 5 6 split_conv by simp_all
  have 0: "means r ([ColumnIs ''organization_id'' 1, ColumnIs ''project_id'' 2], [ArgText ?org, ArgText ?prj])
      (lr_organization_id r = ?org \<and> lr_project_id r = ?prj)"
    by (simp add: means_def text_arg_def log_column_def sql_equal_def)
  note m = means_attribute [OF means_attribute [OF means_text [OF means_text [OF means_text [OF means_text [OF 0,
      of "''severity''" "lg_Severity q", unfolded 1], of "''logger''" "lg_Logger q", unfolded 2],
      of "''environment''" "lg_Environment q", unfolded 3], of "''release''" "lg_Release q", unfolded 4],
      of "''resource_attributes''" "lg_ResourceAttribute q", unfolded 5], of "''attributes''" "lg_LogAttribute q", unfolded 6]
  show "list_all (sql_holds args r) conditions \<longleftrightarrow> log_matches q r"
    using meansD [OF m, of "[ArgInt (lg_Limit q)]"]
    by (simp add: sql log_matches_def log_column_def log_document_def conj_assoc)
  show "limit_arg args n = (if 0 \<le> lg_Limit q then ok (lg_Limit q) else fail ''LIMIT must not be negative'')"
    by (simp add: sql limit_arg_def)
qed

lemma log_listing:
  assumes "ListLogRecords q s = (Inr (views, filters), t)" and "session_ready s"
  shows "views = map scanLogRecord (take (nat (lg_Limit q)) (sort_key (\<lambda>r. - lr_received_at r)
      (filter (log_matches q) (db_log_records (ses_db s))))) \<and> ses_db t = ses_db s"
proof -
  obtain rows where rows: "pool_query (select_log_records (logListSQL q)) s = (Inr rows, t)"
    and views: "views = map scanLogRecord rows"
    using assms(1) by (auto simp: ListLogRecords_def abind_ok areturn_eq)
  have run: "select_log_records (logListSQL q) (ses_db s) = ok rows" "ses_db t = ses_db s"
    using pool_ready [OF rows [unfolded pool_query_def] assms(2)] by (auto simp: rbind_eq_ok)
  obtain conditions n args where sql: "logListSQL q = ((conditions, n), args)" by (metis surj_pair)
  have "(\<lambda>r. list_all (sql_holds args r) conditions) = log_matches q"
    using logListSQL_means(1) [OF sql] by (simp add: fun_eq_iff)
  with run(1) logListSQL_means(2) [OF sql] have "rows = take (nat (lg_Limit q)) (sort_key (\<lambda>r. - lr_received_at r)
      (filter (log_matches q) (db_log_records (ses_db s))))"
    by (auto simp: select_log_records_def sql rbind_eq_ok Let_def split: if_split_asm)
  with views run(2) show ?thesis by simp
qed

end
