(* ===== verification/Intake.thy ===== *)
theory Intake
  imports RateLimit LogStore SourceMapApply Symbolication Minidumps Envelopes
begin

text \<open>
  The intake of SDKs: \<open>internal/adapters/http/sentry.go\<close>. A handler reads the request, agrees on the
  credentials, resolves the project, parses, enriches and stores what was sent, and writes one answer.
  It works on a session of the store whose world holds the files of the artifact vault. What the
  code does not hold itself is a parameter: the decoders of \<open>compress/gzip\<close> and \<open>mime/multipart\<close>, \<open>net/url\<close>
  and \<open>net/mail\<close>, and \<open>json.Unmarshal\<close> of source maps.
\<close>

subsection \<open>Requests and answers\<close>

text \<open>What is read of a \<open>url.URL\<close> here: the user of its userinfo and its path.\<close>

record DSNURL =
  du_Username :: string
  du_Path :: string

text \<open>
  A file of a form: it is read at offsets or from its start, and its calls of \<open>Seek\<close> may fail, counted from 0.
  A form that could be parsed has its values and the files that can be opened.
\<close>

record FormFile =
  ff_readerAt :: ReaderAt
  ff_reader :: Reader
  ff_size :: int
  ff_contentType :: string
  ff_seek :: "nat \<Rightarrow> go_error option"

record MultipartForm =
  mf_values :: "(string \<times> string list) list"
  mf_file :: "string \<Rightarrow> FormFile option"

datatype form_error = FormTooLarge | FormInvalid

record Libraries =
  lib_ord :: map_order
  lib_gunzip :: "Reader \<Rightarrow> Reader option"
  lib_dsn_Parse :: "string \<Rightarrow> DSNURL option"
  lib_url_Parse :: "string \<Rightarrow> PathURL option"
  lib_source_map :: "string \<Rightarrow> rawSourceMap result"
  lib_ParseAddress :: address_parser
  lib_ParseMultipartForm :: "Reader \<Rightarrow> form_error + MultipartForm"

record HttpRequest =
  hr_projectRef :: string
  hr_query :: "(string \<times> string list) list"
  hr_header :: "string \<Rightarrow> string"
  hr_body :: Reader

definition query_Get :: "HttpRequest \<Rightarrow> string \<Rightarrow> string" where
  "query_Get req key = (case map_of (hr_query req) key of Some (value # _) \<Rightarrow> value | _ \<Rightarrow> [])"

datatype answer_value = Text string | Flag bool | Number nat

record Answer =
  ans_status :: nat
  ans_retryAfter :: "string option"
  ans_body :: "(string \<times> answer_value) list"

text \<open>A handler writes an answer; it may panic, and it would not reply if it did not return.\<close>

datatype reply = Reply Answer | Panicked string | NoReturn

text \<open>The world of a session: the files of the vault, and the variable \<open>uploaded\<close> of \<open>ingestMinidumpEvent\<close>.\<close>

record 'fs IntakeWorld =
  iw_files :: 'fs
  iw_uploaded :: bool

type_synonym 'fs intake = "'fs IntakeWorld Session"
type_synonym 'fs handler = "'fs intake \<Rightarrow> reply \<times> 'fs intake"

record 'fs IngestEnrichments =
  en_SourceMapResolver :: "'fs ArtifactVault option"
  en_DebugFileStore :: "'fs ArtifactVault option"
  en_MinidumpStore :: "'fs ArtifactVault option"

text \<open>An operation on the vault's files, in a session.\<close>

definition on_files :: "('fs \<Rightarrow> 'a \<times> 'fs) \<Rightarrow> 'fs intake \<Rightarrow> 'a \<times> 'fs intake" where
  "on_files m s = (let (v, files) = m (iw_files (ses_world s))
     in (v, s\<lparr>ses_world := (ses_world s)\<lparr>iw_files := files\<rparr>\<rparr>))"

definition set_uploaded :: "bool \<Rightarrow> ('fs intake, unit) action" where
  "set_uploaded b s = (ok (), s\<lparr>ses_world := (ses_world s)\<lparr>iw_uploaded := b\<rparr>\<rparr>)"

fun Error :: "go_error \<Rightarrow> string" where
  "Error (GoErr m) = m"

definition writeJSON :: "nat \<Rightarrow> (string \<times> answer_value) list \<Rightarrow> 'fs handler" where
  "writeJSON status body s = (Reply \<lparr>ans_status = status, ans_retryAfter = None, ans_body = body\<rparr>, s)"

definition writeRetry :: "string \<Rightarrow> (string \<times> answer_value) list \<Rightarrow> 'fs handler" where
  "writeRetry after body s = (Reply \<lparr>ans_status = 429, ans_retryAfter = Some after, ans_body = body\<rparr>, s)"

definition detail :: "nat \<Rightarrow> string \<Rightarrow> 'fs handler" where
  "detail status message = writeJSON status [(''detail'', Text message)]"

definition no_return :: "'fs handler" where
  "no_return s = (NoReturn, s)"

text \<open>A call with its two continuations: the answer to an error, and the rest of the handler.\<close>

definition attempt :: "('s, 'a) action \<Rightarrow> (go_error \<Rightarrow> 's \<Rightarrow> 'r \<times> 's) \<Rightarrow> ('a \<Rightarrow> 's \<Rightarrow> 'r \<times> 's) \<Rightarrow> 's \<Rightarrow> 'r \<times> 's" where
  "attempt m on_error rest s = (case m s of (Inl e, t) \<Rightarrow> on_error e t | (Inr v, t) \<Rightarrow> rest v t)"

definition attempt_result :: "'a result \<Rightarrow> (go_error \<Rightarrow> 'r) \<Rightarrow> ('a \<Rightarrow> 'r) \<Rightarrow> 'r" where
  "attempt_result x on_error rest = (case x of Inl e \<Rightarrow> on_error e | Inr v \<Rightarrow> rest v)"

subsection \<open>The body\<close>

definition maxStoreRequestBytes :: nat where "maxStoreRequestBytes = 1 * 1024 * 1024"
definition maxUserFeedbackRequestBytes :: nat where "maxUserFeedbackRequestBytes = 1 * 1024 * 1024"
definition minidumpMultipartOverheadBytes :: int where "minidumpMultipartOverheadBytes = 1 * 1024 * 1024"
definition MaxEnvelopeBytes :: nat where "MaxEnvelopeBytes = 20 * 1024 * 1024"

datatype sentryRequestKind = sentryStoreRequest | sentryEnvelopeRequest

definition sentryRequestLimit :: "sentryRequestKind \<Rightarrow> nat" where
  "sentryRequestLimit kind = (if kind = sentryStoreRequest then maxStoreRequestBytes else MaxEnvelopeBytes)"

text \<open>\<open>http.MaxBytesReader\<close>\<close>

definition MaxBytesReader :: "nat \<Rightarrow> Reader \<Rightarrow> Reader" where
  "MaxBytesReader n r =
     (if length (rd_data r) \<le> n then r
      else \<lparr>rd_data = take n (rd_data r), rd_error = Some ''http: request body too large''\<rparr>)"

definition sentryBodyReader :: "Libraries \<Rightarrow> HttpRequest \<Rightarrow> Reader \<Rightarrow> Reader result" where
  "sentryBodyReader lib req body =
     (let encoding = ToLower (TrimSpace (hr_header req ''Content-Encoding'')) in
      if encoding = [] \<or> encoding = ''identity'' then ok body
      else if encoding = ''gzip''
        then (case lib_gunzip lib body of None \<Rightarrow> fail ''invalid_gzip'' | Some reader \<Rightarrow> ok reader)
      else fail ''unsupported_content_encoding'')"

definition read_up_to :: "nat \<Rightarrow> Reader \<Rightarrow> string result" where
  "read_up_to limit reader =
     (case ReadAll (LimitReader (limit + 1) reader) of
        Inl e \<Rightarrow> fail ''payload_too_large''
      | Inr body \<Rightarrow> if limit < length body then fail ''payload_too_large'' else ok body)"

definition readSentryBody :: "Libraries \<Rightarrow> HttpRequest \<Rightarrow> sentryRequestKind \<Rightarrow> string result" where
  "readSentryBody lib req kind =
     (let limit = sentryRequestLimit kind in
      rbind (sentryBodyReader lib req (MaxBytesReader (limit + 1) (hr_body req))) (read_up_to limit))"

definition readSentryUserFeedbackBody :: "HttpRequest \<Rightarrow> string result" where
  "readSentryUserFeedbackBody req =
     read_up_to maxUserFeedbackRequestBytes (MaxBytesReader (maxUserFeedbackRequestBytes + 1) (hr_body req))"

definition httpStatusForBodyError :: "go_error \<Rightarrow> nat" where
  "httpStatusForBodyError e =
     (if Error e = ''unsupported_content_encoding'' then 415
      else if Error e = ''payload_too_large'' then 413 else 400)"

subsection \<open>Credentials\<close>

record sentryAuthCarrier =
  ca_projectRef :: string
  ca_publicKey :: string
  ca_source :: string

text \<open>
  \<open>sentryKeyPattern\<close> is \<open>(?:^|[\s,])(sentry_key|glitchtip_key)=([^,\s]+)\<close>: the first place where
  a key follows the start of the header, a blank or a comma.
\<close>

definition pattern_space :: "char \<Rightarrow> bool" where
  "pattern_space c \<longleftrightarrow> byte c \<in> {9, 10, 12, 13, 32}"

definition key_here :: "string \<Rightarrow> string option" where
  "key_here s =
     (let value = (\<lambda>rest. takeWhile (\<lambda>c. c \<noteq> CHR '','' \<and> \<not> pattern_space c) rest);
          found = (if HasPrefix s ''sentry_key='' then value (drop (length ''sentry_key='') s)
                   else if HasPrefix s ''glitchtip_key='' then value (drop (length ''glitchtip_key='') s)
                   else [])
      in if found = [] then None else Some found)"

fun key_after_separator :: "string \<Rightarrow> string option" where
  "key_after_separator [] = None"
| "key_after_separator (c # s) =
     (if (c = CHR '','' \<or> pattern_space c) \<and> key_here s \<noteq> None then key_here s else key_after_separator s)"

definition headerAuthPublicKey :: "string \<Rightarrow> string" where
  "headerAuthPublicKey header =
     (case key_here header of
        Some value \<Rightarrow> value
      | None \<Rightarrow> (case key_after_separator header of Some value \<Rightarrow> value | None \<Rightarrow> []))"

definition authSourcesFromRequest :: "HttpRequest \<Rightarrow> sentryAuthCarrier list" where
  "authSourcesFromRequest req =
     (let source = (\<lambda>(name, value). if value \<noteq> []
        then [\<lparr>ca_projectRef = TrimSpace (hr_projectRef req), ca_publicKey = TrimSpace value, ca_source = name\<rparr>] else [])
      in concat (map source
           [(''query:sentry_key'', query_Get req ''sentry_key''),
            (''query:glitchtip_key'', query_Get req ''glitchtip_key''),
            (''header:x-sentry-auth'', headerAuthPublicKey (hr_header req ''X-Sentry-Auth'')),
            (''header:authorization'', headerAuthPublicKey (hr_header req ''Authorization''))]))"

text \<open>\<open>path.Base\<close>\<close>

definition path_Base :: "string \<Rightarrow> string" where
  "path_Base p =
     (if p = [] then ''.'' else
      let base = rev (takeWhile (\<lambda>c. c \<noteq> CHR ''/'') (rev (trim_right_byte CHR ''/'' p)))
      in if base = [] then ''/'' else base)"

definition authCarrierFromDSN :: "Libraries \<Rightarrow> string \<Rightarrow> sentryAuthCarrier option" where
  "authCarrierFromDSN lib input =
     (case lib_dsn_Parse lib input of
        None \<Rightarrow> None
      | Some parsed \<Rightarrow>
          let base = path_Base (trim_right_byte CHR ''/'' (du_Path parsed));
              projectRef = (if base = ''.'' \<or> base = ''/'' then [] else base)
          in Some \<lparr>ca_projectRef = TrimSpace projectRef, ca_publicKey = TrimSpace (du_Username parsed),
                   ca_source = ''envelope:dsn''\<rparr>)"

text \<open>The value is \<open>None\<close> when reading the header does not return.\<close>

definition authSourcesFromEnvelope :: "Libraries \<Rightarrow> string \<Rightarrow> sentryAuthCarrier list option" where
  "authSourcesFromEnvelope lib body =
     (case EnvelopeHeaderDSN body of
        None \<Rightarrow> None
      | Some (Inl e) \<Rightarrow> Some []
      | Some (Inr dsn) \<Rightarrow>
          if dsn = [] then Some [] else
          (case authCarrierFromDSN lib dsn of
             None \<Rightarrow> Some [\<lparr>ca_projectRef = [], ca_publicKey = [], ca_source = ''envelope:dsn:invalid''\<rparr>]
           | Some carrier \<Rightarrow> Some [carrier]))"

text \<open>The loop of \<open>agreeSentryAuthSources\<close>, with \<open>canonical\<close> as its state.\<close>

fun agree_sources :: "sentryAuthCarrier \<Rightarrow> sentryAuthCarrier list \<Rightarrow> sentryAuthCarrier result" where
  "agree_sources canonical [] =
     (if ca_projectRef canonical = [] \<or> ca_publicKey canonical = [] then fail ''denied'' else ok canonical)"
| "agree_sources canonical (source # others) =
     (if ca_projectRef source = [] \<or> ca_publicKey source = [] then fail ''denied''
      else if ca_projectRef canonical = [] then agree_sources source others
      else if ca_projectRef canonical \<noteq> ca_projectRef source \<or> ca_publicKey canonical \<noteq> ca_publicKey source
        then fail ''denied''
      else agree_sources canonical others)"

definition agreeSentryAuthSources :: "sentryAuthCarrier list \<Rightarrow> sentryAuthCarrier result" where
  "agreeSentryAuthSources found =
     agree_sources \<lparr>ca_projectRef = [], ca_publicKey = [], ca_source = []\<rparr> found"

definition decodeSentryAuthCarrier ::
  "Libraries \<Rightarrow> HttpRequest \<Rightarrow> string \<Rightarrow> sentryRequestKind \<Rightarrow> sentryAuthCarrier result option" where
  "decodeSentryAuthCarrier lib req body kind =
     (case (if kind = sentryEnvelopeRequest then authSourcesFromEnvelope lib body else Some []) of
        None \<Rightarrow> None
      | Some more_sources \<Rightarrow> Some (agreeSentryAuthSources (authSourcesFromRequest req @ more_sources)))"

definition resolveProjectAuth :: "sentryAuthCarrier \<Rightarrow> ('w Session, ProjectAuth) action" where
  "resolveProjectAuth carrier =
     abind (alift (NewProjectRef (ca_projectRef carrier))) (\<lambda>ref.
     abind (alift (NewProjectPublicKey (ca_publicKey carrier))) (\<lambda>key.
     ResolveProjectKey ref key))"

definition checkSentryRateLimit ::
  "ProjectAuth \<Rightarrow> sentryAuthCarrier \<Rightarrow> TimePoint \<Rightarrow> ('w Session, RateDecision) action" where
  "checkSentryRateLimit auth carrier receivedAt =
     abind (alift (NewProjectPublicKey (ca_publicKey carrier))) (\<lambda>publicKey.
     Check (Some CheckRateLimit)
       \<lparr>rc_Scope = \<lparr>rs_OrganizationID = auth_organizationID auth, rs_ProjectID = auth_projectID auth\<rparr>,
        rc_PublicKey = publicKey, rc_Now = TimePoint_Time receivedAt\<rparr>)"

definition receive_time :: "('w Session, TimePoint) action" where
  "receive_time = abind time_Now (\<lambda>now. alift (NewTimePoint (UTC now)))"

subsection \<open>Parsing\<close>

text \<open>The event of a request, present when \<open>hasEvent\<close> is set.\<close>

record parsedSentryEvent =
  pe_event :: "CanonicalEvent option"
  pe_logs :: "LogRecord list"
  pe_userReports :: "UserReportItem list"

definition parseSentryRequest ::
  "Libraries \<Rightarrow> ProjectContext \<Rightarrow> TimePoint \<Rightarrow> string \<Rightarrow> sentryRequestKind \<Rightarrow> parsedSentryEvent parsed option" where
  "parseSentryRequest lib project receivedAt body kind =
     (if kind = sentryStoreRequest
      then Some (pbind (ParseStoreEvent (lib_ord lib) project receivedAt body) (\<lambda>event.
        Inr \<lparr>pe_event = Some event, pe_logs = [], pe_userReports = []\<rparr>))
      else (case ParseEnvelope (lib_ord lib) project receivedAt body of
        None \<Rightarrow> None
      | Some (Inl e) \<Rightarrow> Some (Inl e)
      | Some (Inr envelope) \<Rightarrow> Some (
          if es_logs envelope \<noteq> [] \<and> es_userReports envelope \<noteq> []
            then Inl (NewProtocolError ErrorInvalidEnvelope ''mixed log and report items'')
          else (case es_event envelope of
            None \<Rightarrow>
              if es_logs envelope \<noteq> [] then Inr \<lparr>pe_event = None, pe_logs = es_logs envelope, pe_userReports = []\<rparr>
              else Inr \<lparr>pe_event = None, pe_logs = [], pe_userReports = es_userReports envelope\<rparr>
          | Some event \<Rightarrow>
              Inr \<lparr>pe_event = Some event, pe_logs = [], pe_userReports = es_userReports envelope\<rparr>))))"

text \<open>The names of functions of native frames are looked up after the positions of JavaScript frames, which may panic.\<close>

definition applyIngestEnrichments ::
  "Libraries \<Rightarrow> 'fs IngestEnrichments \<Rightarrow> CanonicalEvent \<Rightarrow> 'fs \<Rightarrow> CanonicalEvent run \<times> 'fs" where
  "applyIngestEnrichments lib en event s =
     (case ResolveCanonicalEvent (lib_url_Parse lib) (lib_source_map lib) (en_SourceMapResolver en) event s of
        (Panics m, t) \<Rightarrow> (Panics m, t)
      | (Returns enriched, t) \<Rightarrow>
          (case SymbolicateCanonicalEvent (en_DebugFileStore en) enriched t of (event', u) \<Rightarrow> (Returns event', u)))"

definition enrichParsed ::
  "Libraries \<Rightarrow> 'fs IngestEnrichments \<Rightarrow> parsedSentryEvent \<Rightarrow> (parsedSentryEvent \<Rightarrow> 'fs handler) \<Rightarrow> 'fs handler" where
  "enrichParsed lib en parsed rest s =
     (case pe_event parsed of
        None \<Rightarrow> rest parsed s
      | Some event \<Rightarrow>
          (case on_files (applyIngestEnrichments lib en event) s of
             (Panics m, t) \<Rightarrow> (Panicked m, t)
           | (Returns enriched, t) \<Rightarrow> rest (parsed\<lparr>pe_event := Some enriched\<rparr>) t))"

subsection \<open>Reports of users\<close>

definition prepareParsedUserReport :: "Libraries \<Rightarrow> ProjectAuth \<Rightarrow> UserReportItem \<Rightarrow> SubmitCommand result" where
  "prepareParsedUserReport lib auth report =
     (case NewEventID (ur_EventID report) of
        Inl e \<Rightarrow> fail ''user report event id is invalid''
      | Inr eventID \<Rightarrow>
          PrepareSubmit (lib_ParseAddress lib)
            \<lparr>sc_Scope = \<lparr>us_OrganizationID = auth_organizationID auth, us_ProjectID = auth_projectID auth\<rparr>,
             sc_EventID = eventID, sc_Name = ur_Name report, sc_Email = ur_Email report,
             sc_Comments = ur_Comments report\<rparr>)"

definition prepareParsedUserReports ::
  "Libraries \<Rightarrow> ProjectAuth \<Rightarrow> UserReportItem list \<Rightarrow> SubmitCommand list result" where
  "prepareParsedUserReports lib auth reports = collect (prepareParsedUserReport lib auth) reports"

definition submitPreparedUserReports :: "Libraries \<Rightarrow> SubmitCommand list \<Rightarrow> ('w Session, unit) action" where
  "submitPreparedUserReports lib commands =
     aeach (\<lambda>command. abind (Submit (lib_ParseAddress lib) (Some SubmitUserReport) command) (\<lambda>_. areturn ())) commands"

definition parseUserFeedbackRequest :: "string \<Rightarrow> UserReportItem result" where
  "parseUserFeedbackRequest body =
     (case Unmarshal (decode_struct legacyUserReportPayload_fields)
             \<lparr>lu_EventID = [], lu_Name = [], lu_Email = [], lu_Comments = []\<rparr> body of
        None \<Rightarrow> fail ''invalid_user_feedback''
      | Some payload \<Rightarrow>
          ok \<lparr>ur_EventID = TrimSpace (lu_EventID payload), ur_Name = TrimSpace (lu_Name payload),
              ur_Email = TrimSpace (lu_Email payload), ur_Comments = TrimSpace (lu_Comments payload)\<rparr>)"

subsection \<open>Writing answers\<close>

definition writeProtocolError :: "parse_error \<Rightarrow> 'fs handler" where
  "writeProtocolError e =
     detail 400 (case Code e of Some code \<Rightarrow> code | None \<Rightarrow> ''invalid_event'')"

definition writeIngestReceipt :: "IngestReceipt \<Rightarrow> 'fs handler" where
  "writeIngestReceipt receipt =
     (if rcpt_kind receipt = ReceiptQuotaRejected
      then writeRetry ''60'' [(''detail'', Text (rcpt_reason receipt)), (''id'', Text (EventID_Hex (rcpt_eventID receipt)))]
      else writeJSON 200
        ((''id'', Text (EventID_Hex (rcpt_eventID receipt))) #
         (if rcpt_kind receipt = ReceiptDuplicateEvent then [(''duplicate'', Flag True)] else [])))"

definition writeLogReceipt :: "LogIngestReceipt \<Rightarrow> 'fs handler" where
  "writeLogReceipt receipt =
     (if lir_kind receipt = ReceiptLogQuotaRejected
      then writeRetry ''60'' [(''detail'', Text (lir_reason receipt))]
      else writeJSON 200 [(''accepted'', Number (lir_count receipt))])"

text \<open>\<open>int(duration.Seconds())\<close>, exact for the durations a \<open>float64\<close> holds to the nanosecond.\<close>

definition retryAfterSeconds :: "duration \<Rightarrow> string" where
  "retryAfterSeconds d = (let seconds = go_div d second in itoa (if seconds < 1 then 1 else seconds))"

definition writeRateLimitDecision :: "RateDecision \<Rightarrow> 'fs handler" where
  "writeRateLimitDecision decision =
     writeRetry (retryAfterSeconds (rd_retryAfter decision)) [(''detail'', Text (rd_reason decision))]"

subsection \<open>Events and envelopes\<close>

text \<open>The parts of a handler that follow the credentials: who sent it, and when it came.\<close>

definition authorised ::
  "sentryAuthCarrier result \<Rightarrow> (sentryAuthCarrier \<Rightarrow> ProjectAuth \<Rightarrow> 'fs handler) \<Rightarrow> 'fs handler" where
  "authorised carrierResult rest =
     attempt_result carrierResult (\<lambda>_. detail 403 ''denied'') (\<lambda>carrier.
     attempt (resolveProjectAuth carrier) (\<lambda>_. detail 403 ''denied'') (rest carrier))"

definition received :: "(TimePoint \<Rightarrow> 'fs handler) \<Rightarrow> 'fs handler" where
  "received rest = attempt receive_time (\<lambda>_. detail 500 ''clock_error'') rest"

definition rate_limited ::
  "ProjectAuth \<Rightarrow> sentryAuthCarrier \<Rightarrow> TimePoint \<Rightarrow> 'fs handler \<Rightarrow> 'fs handler" where
  "rate_limited auth carrier receivedAt rest =
     attempt (checkSentryRateLimit auth carrier receivedAt) (\<lambda>_. detail 503 ''rate_limit_unavailable'') (\<lambda>rateLimit.
     if \<not> rd_allowed rateLimit then writeRateLimitDecision rateLimit else rest)"

definition project_of :: "ProjectAuth \<Rightarrow> ProjectContext" where
  "project_of auth = NewProjectContextWithPrivacy (auth_organizationID auth) (auth_projectID auth) (auth_scrubIP auth)"

definition ingest_event :: "CanonicalEvent \<Rightarrow> (IngestReceipt \<Rightarrow> 'fs handler) \<Rightarrow> 'fs handler" where
  "ingest_event event rest =
     attempt (IngestCanonicalEvent (NewIngestCommand event) Run) (\<lambda>_. detail 503 ''storage_unavailable'') rest"

text \<open>What is stored of a parsed request; without an event and without logs only reports are left.\<close>

definition store_parsed ::
  "Libraries \<Rightarrow> ProjectAuth \<Rightarrow> sentryAuthCarrier \<Rightarrow> TimePoint \<Rightarrow> parsedSentryEvent \<Rightarrow> SubmitCommand list \<Rightarrow> 'fs handler" where
  "store_parsed lib auth carrier receivedAt parsed reportCommands =
     (if pe_event parsed = None \<and> pe_logs parsed = []
      then attempt (submitPreparedUserReports lib reportCommands) (\<lambda>e. detail 400 (Error e)) (\<lambda>_. writeJSON 200 [])
      else rate_limited auth carrier receivedAt (
        if pe_logs parsed \<noteq> []
        then attempt (LogIngest (Some RunLogIngest) (NewLogIngestCommand (pe_logs parsed)))
          (\<lambda>_. detail 503 ''storage_unavailable'') writeLogReceipt
        else ingest_event (the (pe_event parsed)) (\<lambda>receipt.
          if rcpt_kind receipt = ReceiptQuotaRejected then writeIngestReceipt receipt
          else attempt (submitPreparedUserReports lib reportCommands) (\<lambda>e. detail 400 (Error e))
            (\<lambda>_. writeIngestReceipt receipt))))"

definition handleSentryIngestCarrier ::
  "Libraries \<Rightarrow> 'fs IngestEnrichments \<Rightarrow> bool \<Rightarrow> HttpRequest \<Rightarrow> sentryRequestKind \<Rightarrow> 'fs handler" where
  "handleSentryIngestCarrier lib en configured req kind =
     (if \<not> configured then detail 503 ''ingest_backend_not_configured'' else
      attempt_result (readSentryBody lib req kind) (\<lambda>e. detail (httpStatusForBodyError e) (Error e)) (\<lambda>body.
      case decodeSentryAuthCarrier lib req body kind of None \<Rightarrow> no_return | Some carrierResult \<Rightarrow>
      authorised carrierResult (\<lambda>carrier auth.
      received (\<lambda>receivedAt.
      case parseSentryRequest lib (project_of auth) receivedAt body kind of
        None \<Rightarrow> no_return
      | Some (Inl e) \<Rightarrow> writeProtocolError e
      | Some (Inr parsed) \<Rightarrow>
          enrichParsed lib en parsed (\<lambda>enriched.
          attempt_result (prepareParsedUserReports lib auth (pe_userReports enriched))
            (\<lambda>e. detail 400 (Error e)) (\<lambda>reportCommands.
          store_parsed lib auth carrier receivedAt enriched reportCommands))))))"

definition sentryStoreHandler :: "Libraries \<Rightarrow> 'fs IngestEnrichments \<Rightarrow> bool \<Rightarrow> HttpRequest \<Rightarrow> 'fs handler" where
  "sentryStoreHandler lib en configured req = handleSentryIngestCarrier lib en configured req sentryStoreRequest"

definition sentryEnvelopeHandler :: "Libraries \<Rightarrow> 'fs IngestEnrichments \<Rightarrow> bool \<Rightarrow> HttpRequest \<Rightarrow> 'fs handler" where
  "sentryEnvelopeHandler lib en configured req = handleSentryIngestCarrier lib en configured req sentryEnvelopeRequest"

subsection \<open>Policy reports and feedback\<close>

text \<open>The credentials of a request without an envelope.\<close>

definition requestCarrier :: "HttpRequest \<Rightarrow> sentryAuthCarrier result" where
  "requestCarrier req = agreeSentryAuthSources (authSourcesFromRequest req)"

lemma decode_store_carrier: "decodeSentryAuthCarrier lib req body sentryStoreRequest = Some (requestCarrier req)"
  by (simp add: decodeSentryAuthCarrier_def requestCarrier_def)

definition handleSentrySecurityCarrier :: "Libraries \<Rightarrow> bool \<Rightarrow> HttpRequest \<Rightarrow> 'fs handler" where
  "handleSentrySecurityCarrier lib configured req =
     (if \<not> configured then detail 503 ''ingest_backend_not_configured'' else
      attempt_result (readSentryBody lib req sentryStoreRequest) (\<lambda>e. detail (httpStatusForBodyError e) (Error e)) (\<lambda>body.
      authorised (requestCarrier req) (\<lambda>carrier auth.
      received (\<lambda>receivedAt.
      case ParseCSPReport (lib_ord lib) (project_of auth) receivedAt body of
        Inl e \<Rightarrow> writeProtocolError e
      | Inr event \<Rightarrow>
          rate_limited auth carrier receivedAt (ingest_event event writeIngestReceipt)))))"

definition handleSentryUserFeedbackCarrier :: "Libraries \<Rightarrow> bool \<Rightarrow> HttpRequest \<Rightarrow> 'fs handler" where
  "handleSentryUserFeedbackCarrier lib configured req =
     (if \<not> configured then detail 503 ''ingest_backend_not_configured'' else
      attempt_result (readSentryUserFeedbackBody req) (\<lambda>e. detail (httpStatusForBodyError e) (Error e)) (\<lambda>body.
      authorised (requestCarrier req) (\<lambda>carrier auth.
      attempt_result (parseUserFeedbackRequest body) (\<lambda>e. detail 400 (Error e)) (\<lambda>report.
      attempt_result (prepareParsedUserReports lib auth [report]) (\<lambda>e. detail 400 (Error e)) (\<lambda>reportCommands.
      attempt (submitPreparedUserReports lib reportCommands) (\<lambda>e. detail 400 (Error e)) (\<lambda>_.
      writeJSON 200 [(''eventID'', Text (ur_EventID report))]))))))"

end
