(* ===== verification/MinidumpIntake.thy ===== *)
theory MinidumpIntake
  imports Intake
begin

text \<open>
  The intake of minidumps (\<open>internal/adapters/http/sentry.go\<close>): the file is uploaded while the transaction
  that stores its event is open, and deleted again when the transaction fails after the upload.
\<close>

subsection \<open>The form\<close>

record minidumpMetadata =
  mm_eventID :: string
  mm_release :: string
  mm_environment :: string
  mm_level :: string
  mm_platform :: string

record minidumpUpload =
  mu_file :: FormFile
  mu_metadata :: minidumpMetadata

record preparedMinidumpEvent =
  pm_event :: CanonicalEvent
  pm_identity :: MinidumpIdentity

definition no_metadata :: minidumpMetadata where
  "no_metadata = \<lparr>mm_eventID = [], mm_release = [], mm_environment = [], mm_level = [], mm_platform = []\<rparr>"

definition firstNonEmpty :: "string list \<Rightarrow> string" where
  "firstNonEmpty values0 = (case find (\<lambda>v. v \<noteq> []) (map TrimSpace values0) of None \<Rightarrow> [] | Some v \<Rightarrow> v)"

definition firstFormValue :: "MultipartForm \<Rightarrow> string \<Rightarrow> string" where
  "firstFormValue form name =
     (case map_of (mf_values form) name of Some (value # _) \<Rightarrow> TrimSpace value | _ \<Rightarrow> [])"

definition sentryMetadata_fields :: "minidumpMetadata field list" where
  "sentryMetadata_fields =
     [(''event_id'', into decode_text mm_eventID (\<lambda>x. mm_eventID_update (\<lambda>_. x))),
      (''release'', into decode_text mm_release (\<lambda>x. mm_release_update (\<lambda>_. x))),
      (''environment'', into decode_text mm_environment (\<lambda>x. mm_environment_update (\<lambda>_. x))),
      (''level'', into decode_text mm_level (\<lambda>x. mm_level_update (\<lambda>_. x))),
      (''platform'', into decode_text mm_platform (\<lambda>x. mm_platform_update (\<lambda>_. x)))]"

definition mergeSentryMetadataJSON :: "minidumpMetadata \<Rightarrow> string \<Rightarrow> minidumpMetadata" where
  "mergeSentryMetadataJSON metadata input =
     (if TrimSpace input = [] then metadata else
      case Unmarshal (decode_struct sentryMetadata_fields) no_metadata input of
        None \<Rightarrow> metadata
      | Some payload \<Rightarrow>
          \<lparr>mm_eventID = firstNonEmpty [mm_eventID metadata, mm_eventID payload],
           mm_release = firstNonEmpty [mm_release metadata, mm_release payload],
           mm_environment = firstNonEmpty [mm_environment metadata, mm_environment payload],
           mm_level = firstNonEmpty [mm_level metadata, mm_level payload],
           mm_platform = firstNonEmpty [mm_platform metadata, mm_platform payload]\<rparr>)"

definition minidumpMetadataFromForm :: "MultipartForm \<Rightarrow> minidumpMetadata" where
  "minidumpMetadataFromForm form =
     (let metadata = mergeSentryMetadataJSON no_metadata (firstFormValue form ''sentry'');
          first = (\<lambda>value name nested. firstNonEmpty [value, firstFormValue form name, firstFormValue form nested])
      in \<lparr>mm_eventID = first (mm_eventID metadata) ''event_id'' ''sentry[event_id]'',
          mm_release = first (mm_release metadata) ''release'' ''sentry[release]'',
          mm_environment = first (mm_environment metadata) ''environment'' ''sentry[environment]'',
          mm_level = first (mm_level metadata) ''level'' ''sentry[level]'',
          mm_platform = first (mm_platform metadata) ''platform'' ''sentry[platform]''\<rparr>)"

definition maxMinidumpRequestBytes :: int where
  "maxMinidumpRequestBytes = minidumpMaxBytes + minidumpMultipartOverheadBytes"

text \<open>Files of the form are temporary: removing them when the handler returns changes nothing modelled here.\<close>

definition readMinidumpMultipart :: "Libraries \<Rightarrow> HttpRequest \<Rightarrow> minidumpUpload result" where
  "readMinidumpMultipart lib req =
     (case lib_ParseMultipartForm lib (MaxBytesReader (nat maxMinidumpRequestBytes) (hr_body req)) of
        Inl FormTooLarge \<Rightarrow> Inl ErrMinidumpTooLarge
      | Inl FormInvalid \<Rightarrow> fail ''invalid_multipart''
      | Inr form \<Rightarrow>
          (case mf_file form ''upload_file_minidump'' of
             None \<Rightarrow> fail ''missing_upload_file_minidump''
           | Some file \<Rightarrow>
               if ff_size file > minidumpMaxBytes then Inl ErrMinidumpTooLarge
               else ok \<lparr>mu_file = file, mu_metadata = minidumpMetadataFromForm form\<rparr>))"

text \<open>The file is read after its first and left with its second call of \<open>Seek\<close>.\<close>

definition parseMinidumpNativeMetadata :: "FormFile \<Rightarrow> NativeMetadata result" where
  "parseMinidumpNativeMetadata file =
     (case ff_seek file 0 of Some seekErr \<Rightarrow> Inl seekErr | None \<Rightarrow>
      let metadata = ParseNativeMetadata (Some (ff_readerAt file)) (ff_size file) in
      case ff_seek file 1 of Some resetErr \<Rightarrow> Inl resetErr | None \<Rightarrow> metadata)"

subsection \<open>The event\<close>

definition randomEventID :: "('w Session, EventID) action" where
  "randomEventID s =
     (case env_random (ses_env s) (ses_tick s) of
        None \<Rightarrow> (fail ''random source failed'', advance s)
      | Some random \<Rightarrow> (NewEventID (uuid4_hex random), advance s))"

definition minidumpEventID :: "minidumpMetadata \<Rightarrow> ('w Session, EventID) action" where
  "minidumpEventID metadata =
     (if mm_eventID metadata \<noteq> []
      then alift (case NewEventID (mm_eventID metadata) of
        Inl e \<Rightarrow> fail ''invalid_minidump_event_id'' | Inr eventID \<Rightarrow> ok eventID)
      else randomEventID)"

definition minidumpLevel :: "minidumpMetadata \<Rightarrow> EventLevel result" where
  "minidumpLevel metadata = (if mm_level metadata = [] then ok EventLevelFatal else NewEventLevel (mm_level metadata))"

definition minidumpPlatform :: "minidumpMetadata \<Rightarrow> string" where
  "minidumpPlatform metadata = (if mm_platform metadata = [] then ''native'' else mm_platform metadata)"

text \<open>\<open>prepareMinidumpEvent\<close> after the event id.\<close>

definition minidump_event ::
  "ProjectAuth \<Rightarrow> TimePoint \<Rightarrow> minidumpUpload \<Rightarrow> NativeMetadata \<Rightarrow> EventID \<Rightarrow> preparedMinidumpEvent result" where
  "minidump_event auth receivedAt upload metadata eventID =
     rbind (NewMinidumpAttachmentName ''upload_file_minidump'') (\<lambda>attachmentName.
     rbind (NewMinidumpIdentity eventID attachmentName) (\<lambda>identity.
     rbind (NewEventAttachment ArtifactKindMinidump (MinidumpIdentity_ArtifactName identity)
       (ff_size (mu_file upload)) (ff_contentType (mu_file upload))) (\<lambda>attachment.
     rbind (minidumpLevel (mu_metadata upload)) (\<lambda>level.
     rbind (NewEventTitle ''Native crash minidump'') (\<lambda>title.
     rbind (NewCanonicalEvent
       \<lparr>p_OrganizationID = auth_organizationID auth, p_ProjectID = auth_projectID auth, p_EventID = eventID,
        p_OccurredAt = receivedAt, p_ReceivedAt = receivedAt, p_Kind = EventKindError, p_Level = level,
        p_Title = title, p_Platform = minidumpPlatform (mu_metadata upload),
        p_Release = mm_release (mu_metadata upload), p_Environment = mm_environment (mu_metadata upload),
        p_Tags = [], p_DefaultGroupingParts = [''native'', ''minidump''], p_ExplicitFingerprint = [],
        p_Attachments = [attachment], p_JsStacktrace = [], p_NativeModules = meta_modules metadata,
        p_NativeFrames = meta_frames metadata, p_Transaction = zero_transaction\<rparr>) (\<lambda>event.
     ok \<lparr>pm_event = event, pm_identity = identity\<rparr>))))))"

definition prepareMinidumpEvent ::
  "ProjectAuth \<Rightarrow> TimePoint \<Rightarrow> minidumpUpload \<Rightarrow> NativeMetadata \<Rightarrow> ('w Session, preparedMinidumpEvent) action" where
  "prepareMinidumpEvent auth receivedAt upload metadata =
     abind (minidumpEventID (mu_metadata upload)) (\<lambda>eventID.
     alift (minidump_event auth receivedAt upload metadata eventID))"

subsection \<open>Storing the event and the file\<close>

definition uploadEffect :: "'fs ArtifactVault \<Rightarrow> preparedMinidumpEvent \<Rightarrow> FormFile \<Rightarrow> 'fs intake AppendEffect" where
  "uploadEffect vault prepared file accepted =
     (case ff_seek file 2 of Some seekErr \<Rightarrow> alift (Inl seekErr) | None \<Rightarrow>
      abind (on_files (MinidumpUpload vault (ev_organizationID (pm_event prepared)) (ev_projectID (pm_event prepared))
        (pm_identity prepared) (Some (ff_reader file)))) (\<lambda>_.
      set_uploaded True))"

definition cleanupStoredMinidump :: "'fs ArtifactVault \<Rightarrow> preparedMinidumpEvent \<Rightarrow> ('fs intake, unit) action" where
  "cleanupStoredMinidump vault prepared =
     on_files (MinidumpDelete vault (ev_organizationID (pm_event prepared)) (ev_projectID (pm_event prepared))
       (pm_identity prepared))"

definition ingestMinidumpEvent ::
  "'fs ArtifactVault \<Rightarrow> preparedMinidumpEvent \<Rightarrow> FormFile \<Rightarrow> ('fs intake, IngestReceipt) action" where
  "ingestMinidumpEvent vault prepared file =
     abind (set_uploaded False) (\<lambda>_ s.
     case IngestCanonicalEventWithAppendEffect (NewIngestCommand (pm_event prepared)) Run
            (Some (uploadEffect vault prepared file)) s of
       (Inl receiptErr, t) \<Rightarrow>
         (Inl receiptErr, if iw_uploaded (ses_world t) then snd (cleanupStoredMinidump vault prepared t) else t)
     | (Inr receipt, t) \<Rightarrow> (ok receipt, t))"

definition minidumpHTTPStatus :: "go_error \<Rightarrow> nat" where
  "minidumpHTTPStatus e =
     (if e = ErrMinidumpTooLarge then 413
      else if e = ErrUnsupportedMinidump then 400
      else if List.member [''invalid_multipart'', ''missing_upload_file_minidump'', ''invalid_minidump_event_id''] (Error e)
        then 400
      else 503)"

definition minidumpErrorDetail :: "go_error \<Rightarrow> string" where
  "minidumpErrorDetail e =
     (if e = ErrUnsupportedMinidump then ''invalid_minidump''
      else if e = ErrMinidumpTooLarge then ''payload_too_large'' else Error e)"

definition minidump_error :: "go_error \<Rightarrow> 'fs handler" where
  "minidump_error e = detail (minidumpHTTPStatus e) (minidumpErrorDetail e)"

definition symbolicated_minidump ::
  "'fs IngestEnrichments \<Rightarrow> preparedMinidumpEvent \<Rightarrow> (preparedMinidumpEvent \<Rightarrow> 'fs handler) \<Rightarrow> 'fs handler" where
  "symbolicated_minidump en prepared rest s =
     (case on_files (SymbolicateCanonicalEvent (en_DebugFileStore en) (pm_event prepared)) s of
        (event, t) \<Rightarrow> rest (prepared\<lparr>pm_event := event\<rparr>) t)"

definition handleSentryMinidumpCarrier ::
  "Libraries \<Rightarrow> 'fs IngestEnrichments \<Rightarrow> bool \<Rightarrow> HttpRequest \<Rightarrow> 'fs handler" where
  "handleSentryMinidumpCarrier lib en configured req =
     (if \<not> configured then detail 503 ''ingest_backend_not_configured'' else
      case en_MinidumpStore en of None \<Rightarrow> detail 503 ''minidump_store_not_configured'' | Some vault \<Rightarrow>
      authorised (requestCarrier req) (\<lambda>carrier auth.
      received (\<lambda>receivedAt.
      rate_limited auth carrier receivedAt (
      attempt_result (readMinidumpMultipart lib req) minidump_error (\<lambda>upload.
      attempt_result (parseMinidumpNativeMetadata (mu_file upload)) minidump_error (\<lambda>metadata.
      attempt (prepareMinidumpEvent auth receivedAt upload metadata) (\<lambda>e. detail 400 (Error e)) (\<lambda>prepared.
      symbolicated_minidump en prepared (\<lambda>symbolicated.
      attempt (ingestMinidumpEvent vault symbolicated (mu_file upload)) minidump_error writeIngestReceipt))))))))"

subsection \<open>The routes\<close>

datatype IntakeRoute = StoreRoute | EnvelopeRoute | MinidumpRoute | SecurityRoute | FeedbackRoute

text \<open>The intake's part of the routes of \<open>server.go\<close>; two paths lead to the handler of policy reports.\<close>

fun serve :: "Libraries \<Rightarrow> 'fs IngestEnrichments \<Rightarrow> bool \<Rightarrow> IntakeRoute \<Rightarrow> HttpRequest \<Rightarrow> 'fs handler" where
  "serve lib en configured StoreRoute req = sentryStoreHandler lib en configured req"
| "serve lib en configured EnvelopeRoute req = sentryEnvelopeHandler lib en configured req"
| "serve lib en configured MinidumpRoute req = handleSentryMinidumpCarrier lib en configured req"
| "serve lib en configured SecurityRoute req = handleSentrySecurityCarrier lib configured req"
| "serve lib en configured FeedbackRoute req = handleSentryUserFeedbackCarrier lib configured req"

text \<open>Requests one after the other, with their replies.\<close>

fun serve_all :: "Libraries \<Rightarrow> 'fs IngestEnrichments \<Rightarrow> bool \<Rightarrow> (IntakeRoute \<times> HttpRequest) list \<Rightarrow> 'fs intake \<Rightarrow>
    reply list \<times> 'fs intake" where
  "serve_all lib en configured [] s = ([], s)"
| "serve_all lib en configured ((route, req) # requests) s =
     (let (r, t) = serve lib en configured route req s; (rs, u) = serve_all lib en configured requests t in (r # rs, u))"

end
