(* ===== verification/IntakeEffects.thy ===== *)
theory IntakeEffects
  imports MinidumpIntake
begin

text \<open>
  What a request to the intake does to the store. The handlers are taken apart with \<open>leads P h Q\<close>: from
  every session that satisfies \<open>P\<close>, the handler \<open>h\<close> replies and leaves a session as \<open>Q\<close> says. The rules
  \<open>intake_rules\<close> follow the steps of the handlers.
\<close>

subsection \<open>From one session to the next\<close>

named_theorems intake_rules \<open>how the handlers of the intake are taken apart\<close>

definition leads :: "('s \<Rightarrow> bool) \<Rightarrow> ('s \<Rightarrow> 'r \<times> 's) \<Rightarrow> ('r \<Rightarrow> 's \<Rightarrow> bool) \<Rightarrow> bool" where
  "leads P h Q \<longleftrightarrow> (\<forall>s r t. P s \<longrightarrow> h s = (r, t) \<longrightarrow> Q r t)"

lemma leadsI: "(\<And>s r t. P s \<Longrightarrow> h s = (r, t) \<Longrightarrow> Q r t) \<Longrightarrow> leads P h Q"
  by (simp add: leads_def)

lemma leadsD: "leads P h Q \<Longrightarrow> P s \<Longrightarrow> h s = (r, t) \<Longrightarrow> Q r t"
  by (simp add: leads_def)

lemma leads_attempt:
  assumes "leads P m M" and "\<And>e. leads (M (Inl e)) (on_error e) Q" and "\<And>v. leads (M (Inr v)) (rest v) Q"
  shows "leads P (attempt m on_error rest) Q"
proof (rule leadsI)
  fix s r t assume P: "P s" and run: "attempt m on_error rest s = (r, t)"
  obtain x u where x: "m s = (x, u)" by fastforce
  with assms(1) P have "M x u" by (rule leadsD)
  with x run assms(2,3) show "Q r t"
    by (cases x) (auto simp: attempt_def dest: leadsD)
qed

lemma leads_attempt_result [intake_rules]:
  "(\<And>e. x = Inl e \<Longrightarrow> leads P (on_error e) Q) \<Longrightarrow> (\<And>v. x = Inr v \<Longrightarrow> leads P (rest v) Q) \<Longrightarrow>
   leads P (attempt_result x on_error rest) Q"
  by (cases x) (simp_all add: attempt_result_def)

lemma leads_if [intake_rules]:
  "(b \<Longrightarrow> leads P h Q) \<Longrightarrow> (\<not> b \<Longrightarrow> leads P h' Q) \<Longrightarrow> leads P (if b then h else h') Q"
  by simp

lemma leads_case_option [intake_rules]:
  "(x = None \<Longrightarrow> leads P h Q) \<Longrightarrow> (\<And>v. x = Some v \<Longrightarrow> leads P (h' v) Q) \<Longrightarrow>
   leads P (case x of None \<Rightarrow> h | Some v \<Rightarrow> h' v) Q"
  by (cases x) simp_all

lemma leads_case_sum [intake_rules]:
  "(\<And>e. x = Inl e \<Longrightarrow> leads P (h e) Q) \<Longrightarrow> (\<And>v. x = Inr v \<Longrightarrow> leads P (h' v) Q) \<Longrightarrow>
   leads P (case x of Inl e \<Rightarrow> h e | Inr v \<Rightarrow> h' v) Q"
  by (cases x) simp_all

lemma leads_write:
  "(\<And>s. P s \<Longrightarrow> Q (Reply \<lparr>ans_status = n, ans_retryAfter = None, ans_body = body\<rparr>) s) \<Longrightarrow> leads P (writeJSON n body) Q"
  "(\<And>s. P s \<Longrightarrow> Q (Reply \<lparr>ans_status = n, ans_retryAfter = None, ans_body = [(''detail'', Text m)]\<rparr>) s) \<Longrightarrow>
   leads P (detail n m) Q"
  "(\<And>s. P s \<Longrightarrow> Q (Reply \<lparr>ans_status = 429, ans_retryAfter = Some after, ans_body = body\<rparr>) s) \<Longrightarrow>
   leads P (writeRetry after body) Q"
  by (auto simp: leads_def writeJSON_def detail_def writeRetry_def)

lemma leads_conj: "leads P h Q \<Longrightarrow> leads P h R \<Longrightarrow> leads P h (\<lambda>r t. Q r t \<and> R r t)"
  by (simp add: leads_def)

lemma leads_mono: "leads P h Q \<Longrightarrow> (\<And>s. P' s \<Longrightarrow> P s) \<Longrightarrow> (\<And>r t. Q r t \<Longrightarrow> Q' r t) \<Longrightarrow> leads P' h Q'"
  unfolding leads_def by blast

subsection \<open>The world is only changed by what works on files\<close>

abbreviation same_world :: "'w Session \<Rightarrow> 'w Session \<Rightarrow> bool" where
  "same_world s t \<equiv> ses_world t = ses_world s"

named_theorems world_rules \<open>which steps leave the world of a session alone\<close>

lemma world_statement [world_rules]: "evolves same_world (statement f)"
  by (auto simp: evolves_def statement_def Let_def split: option.split sum.split)

lemma world_query [world_rules]: "evolves same_world (query f)"
  unfolding query_def by (rule world_statement)

lemma world_pool [world_rules]: "evolves same_world (pool_statement f)"
  by (auto simp: evolves_def pool_statement_def split: prod.split sum.split dest: evolvesD [OF world_statement])

lemma world_pool_query [world_rules]: "evolves same_world (pool_query f)"
  unfolding pool_query_def by (rule world_pool)

lemma world_steps [world_rules]:
  "evolves same_world (scan_row row)" "evolves same_world time_Now" "evolves same_world (range_map m)"
  "evolves same_world randomUUID" "evolves same_world begin_tx" "evolves same_world commit_tx"
  by (auto simp: evolves_def scan_row_def areturn_def afail_def time_Now_def range_map_def randomUUID_def
      begin_tx_def commit_tx_def Let_def split: option.split commit_outcome.split)

lemma world_rollback: "ses_world (rollback_tx s) = ses_world s"
  by (simp add: rollback_tx_def Let_def)

lemma world_discard [world_rules]: "evolves same_world m \<Longrightarrow> evolves same_world (IngestStore.discard m)"
  by (auto simp: evolves_def IngestStore.discard_def)

lemmas world_intros = world_rules evolves_areturn evolves_afail evolves_alift evolves_abind evolves_aeach
  evolves_if evolves_case_option evolves_case_prod preorder_same

lemma world_in_transaction [world_rules]:
  fixes body :: "('w Session, 'a) action"
  assumes "evolves same_world body"
  shows "evolves same_world (in_transaction body)"
proof -
  have "evolves same_world (abind commit_tx (\<lambda>_. areturn v) :: ('w Session, 'a) action)" for v
    by (intro world_intros)
  then have commit: "ses_world (snd (abind commit_tx (\<lambda>_. areturn (v :: 'a)) u)) = ses_world u" for v and u :: "'w Session"
    by (simp add: evolves_def)
  have "evolves same_world (\<lambda>s. case body s of (Inl e, t) \<Rightarrow> (Inl e, rollback_tx t)
      | (Inr v, t) \<Rightarrow> abind commit_tx (\<lambda>_. areturn v) t)"
  proof (rule evolvesI)
    fix s t r assume run: "(case body s of (Inl e, t) \<Rightarrow> (Inl e, rollback_tx t)
      | (Inr v, t) \<Rightarrow> abind commit_tx (\<lambda>_. areturn v) t) = (r, t)"
    obtain x u where x: "body s = (x, u)" by fastforce
    have "ses_world u = ses_world s" using evolvesD [OF assms x] .
    with run x commit [of _ u] show "ses_world t = ses_world s"
      by (cases x) (auto simp: world_rollback, metis snd_conv)
  qed
  then show ?thesis unfolding in_transaction_def by (intro world_intros)
qed

lemma world_ports [world_rules]:
  "evolves same_world (Exists p e)" "evolves same_world (CheckQuota ev)" "evolves same_world (Append ac)"
  "evolves same_world (Apply plan)" "evolves same_world (EnqueueIssueOpened ac ch)"
proof -
  show "evolves same_world (Exists p e)" "evolves same_world (CheckQuota ev)"
    unfolding Exists_def CheckQuota_def quotaSnapshotForScope_def by (intro world_intros)+
  show "evolves same_world (Append ac)"
    unfolding Append_def upsertProjectHourlyStats_def insertEventTags_def insertTransactionEvent_def Let_def
    by (intro world_intros)
  have find: "evolves same_world (findIssueByFingerprint ac)" for ac
    unfolding findIssueByFingerprint_def by (intro world_intros)
  have upd: "evolves same_world (updateIssue ac i r)" for ac i r
    unfolding updateIssue_def by (intro world_intros)
  have row: "evolves same_world (txStore_eventRowID p e)" for p e
    unfolding txStore_eventRowID_def by (intro world_intros)
  have create: "evolves same_world (createIssue ac r)" for ac r
    unfolding createIssue_def nextIssueShortID_def insertIssue_def Let_def by (intro world_intros find upd)
  show "evolves same_world (Apply plan)"
    unfolding Apply_def Let_def by (intro world_intros find upd row create)
  have all: "evolves same_world (enqueue_all ds r ac ch now n)" for ds r ac ch now n
    by (induction ds arbitrary: n) (auto simp: insertNotificationIntent_def Let_def intro!: world_intros)
  show "evolves same_world (EnqueueIssueOpened ac ch)"
    unfolding EnqueueIssueOpened_def destinationActionsForIssueOpenedRules_def by (intro world_intros row all)
qed

subsection \<open>Between two steps of a handler\<close>

definition rests_at :: "DB \<Rightarrow> 'fs \<Rightarrow> 'fs intake \<Rightarrow> bool" where
  "rests_at d w s \<longleftrightarrow> session_ready s \<and> ses_db s = d \<and> iw_files (ses_world s) = w"

lemma rests_at_quiet: "rests_at d w s \<Longrightarrow> quiet (ses_env s)"
  by (simp add: rests_at_def session_ready_quiet)

lemma rests_at_advance: "rests_at d w s \<Longrightarrow> rests_at d w (advance s)"
  using rests_at_quiet [of d w s] by (simp add: rests_at_def session_ready_def idle_advance)

text \<open>The project a key and a reference stand for, as \<open>ResolveProjectKey\<close> finds it.\<close>

definition admits :: "DB \<Rightarrow> sentryAuthCarrier \<Rightarrow> ProjectAuth \<Rightarrow> bool" where
  "admits d carrier auth \<longleftrightarrow> (\<exists>ref key projectID organizationID.
     NewProjectRef (ca_projectRef carrier) = ok ref \<and> NewProjectPublicKey (ca_publicKey carrier) = ok key \<and>
     (projectID, organizationID, auth_scrubIP auth) \<in>
       set (select_project_auth (ProjectRef_value ref) (ProjectPublicKey_String key) d) \<and>
     NewProjectID projectID = ok (auth_projectID auth) \<and> NewOrganizationID organizationID = ok (auth_organizationID auth))"

lemma admits_hex:
  assumes "admits d carrier auth"
  shows "hex_pattern 32 (ProjectID_value (auth_projectID auth))"
    "hex_pattern 32 (OrganizationID_value (auth_organizationID auth))"
  using assms by (auto simp: admits_def dest: projectID.new_valid organizationID.new_valid)

lemma pool_query_rests:
  assumes "pool_query f s = (r, t)" and "rests_at d w s"
  shows "rests_at d w t \<and> (\<forall>v. r = Inr v \<longrightarrow> f d = Inr v)"
  using pool_ready [OF assms(1) [unfolded pool_query_def]] assms(2) evolvesD [OF world_pool_query assms(1)]
  by (cases r) (auto simp: rests_at_def rbind_eq_ok)

lemma resolveProjectAuth_run:
  assumes "resolveProjectAuth carrier s = (r, t)" and s: "rests_at d w s"
  shows "rests_at d w t \<and> (\<forall>auth. r = Inr auth \<longrightarrow> admits d carrier auth)"
proof (cases "NewProjectRef (ca_projectRef carrier)")
  case (Inl e)
  with assms show ?thesis by (auto simp: resolveProjectAuth_def abind_def alift_def)
next
  case ref: (Inr ref)
  show ?thesis
  proof (cases "NewProjectPublicKey (ca_publicKey carrier)")
    case (Inl e)
    with ref assms show ?thesis by (auto simp: resolveProjectAuth_def abind_def alift_def)
  next
    case key: (Inr key)
    let ?rows = "\<lambda>d. select_project_auth (ProjectRef_value ref) (ProjectPublicKey_String key) d"
    let ?q = "\<lambda>d. rbind (check (text_param (ProjectRef_value ref) \<and> uuid_param (ProjectPublicKey_String key))
         ''invalid input syntax'') (\<lambda>_. ok (no_rows_of (?rows d)))"
    obtain x u where q: "pool_query ?q s = (x, u)" by fastforce
    note u = pool_query_rests [OF q s]
    have run: "(r, t) = (case x of Inl e \<Rightarrow> (Inl e, u) | Inr row \<Rightarrow>
        abind (scan_row row) (\<lambda>(projectIDText, organizationIDText, scrubIPAddresses).
         abind (alift (NewProjectID projectIDText)) (\<lambda>projectID.
         abind (alift (NewOrganizationID organizationIDText)) (\<lambda>organizationID.
         alift (NewProjectAuthWithPolicy organizationID projectID scrubIPAddresses)))) u)"
      using assms(1) ref key q by (auto simp: resolveProjectAuth_def ResolveProjectKey_def abind_def alift_def split: sum.split)
    show ?thesis
    proof (cases "\<exists>p i b. x = Inr (Some (p, i, b))")
      case True
      then obtain p i b where x: "x = Inr (Some (p, i, b))" by blast
      then have "(p, i, b) \<in> set (?rows d)" using u by (auto simp: rbind_eq_ok no_rows_of_def split: list.split_asm)
      with run x u ref key show ?thesis
        by (auto simp: abind_def alift_def scan_row_def areturn_def admits_def NewProjectAuthWithPolicy_def
            split: sum.split_asm if_split_asm)
    next
      case False
      with run u show ?thesis
        by (auto simp: abind_def scan_row_def afail_def split: sum.split_asm option.split_asm)
    qed
  qed
qed

lemma receive_time_run: "receive_time s = (r, t) \<Longrightarrow> rests_at d w s \<Longrightarrow> rests_at d w t"
  by (auto simp: receive_time_def abind_def alift_def time_Now_def rests_at_advance)

subsection \<open>Transactions along a relation\<close>

lemma transaction_evolves:
  assumes body: "evolves (db_evolves R) body" and R: "preorder_on_states R"
    and s: "session_ready s" and run: "in_transaction body s = (r, t)"
  shows "session_ready t \<and> R (ses_db s) (ses_db t)"
proof -
  have "evolves session_step body"
    using body by (auto simp: evolves_def db_evolves_def)
  note tr = transaction_ready [OF this s run]
  have refl: "R d d" for d using R by (auto simp: preorder_on_states_def dest: reflpD)
  show ?thesis
  proof (cases r)
    case (Inl e)
    with tr refl show ?thesis by simp
  next
    case (Inr v)
    with tr obtain s1 t1 where "quiet (ses_env s1)" "ses_db s1 = ses_db s" "body s1 = (Inr v, t1)" "ses_db t = ses_db t1"
      by auto
    with evolvesD_quiet [OF body, of s1 "Inr v" t1] tr show ?thesis by simp
  qed
qed

abbreviation except_buckets :: "DB \<Rightarrow> DB" where
  "except_buckets d \<equiv> d\<lparr>db_rate_limit_buckets := []\<rparr>"

lemma checkSentryRateLimit_run:
  assumes run: "checkSentryRateLimit auth carrier receivedAt s = (r, t)" and s: "rests_at d w s"
  shows "\<exists>d'. rests_at d' w t \<and> except_buckets d' = except_buckets d"
proof -
  have stmt: "evolves (db_evolves (\<lambda>d d'. except_buckets d' = except_buckets d)) (statement (upsert_bucket row))" for row
    by (rule evolves_statement) (auto simp: upsert_bucket_def Let_def rbind_eq_ok split: option.split_asm)
  have tx: "evolves (db_evolves (\<lambda>d d'. except_buckets d' = except_buckets d)) (checkRateLimitInTx command)" for command
    unfolding checkRateLimitInTx_def rateLimitPolicyForCommand_def incrementRateLimitBucket_def Let_def
    by (intro store_intros preorder_same stmt)
  have world: "evolves same_world (CheckRateLimit command)" for command
    unfolding CheckRateLimit_def checkRateLimitInTx_def rateLimitPolicyForCommand_def incrementRateLimitBucket_def Let_def
    by (intro world_rules world_intros)
  have "r = Inl e \<and> t = s \<or> (\<exists>command. CheckRateLimit command s = (r, t))" if "r = Inl e" for e
    using run that by (auto simp: checkSentryRateLimit_def Check_def abind_def alift_def split: sum.split_asm)
  moreover have "\<exists>command. CheckRateLimit command s = (r, t)" if "r = Inr v" for v
    using run that by (auto simp: checkSentryRateLimit_def Check_def abind_def alift_def split: sum.split_asm)
  moreover have ?thesis if c: "CheckRateLimit command s = (r, t)" for command
    using transaction_evolves [OF tx preorder_same _ c [unfolded CheckRateLimit_def]] evolvesD [OF world c] s
    by (auto simp: rests_at_def)
  ultimately show ?thesis using s by (cases r) auto
qed

subsection \<open>The rules of the shared steps\<close>

lemma leads_authorised [intake_rules]:
  assumes "\<And>carrier auth. carrierResult = Inr carrier \<Longrightarrow> admits d carrier auth \<Longrightarrow> leads (rests_at d w) (rest carrier auth) Q"
    and "\<And>s. rests_at d w s \<Longrightarrow> Q (Reply \<lparr>ans_status = 403, ans_retryAfter = None, ans_body = [(''detail'', Text ''denied'')]\<rparr>) s"
  shows "leads (rests_at d w) (authorised carrierResult rest) Q"
proof (cases carrierResult)
  case (Inl e)
  then show ?thesis by (auto simp: authorised_def attempt_result_def intro: leads_write assms(2))
next
  case (Inr carrier)
  have "leads (rests_at d w) (attempt (resolveProjectAuth carrier) (\<lambda>_. detail 403 ''denied'') (rest carrier)) Q"
  proof (rule leads_attempt)
    show "leads (rests_at d w) (resolveProjectAuth carrier)
        (\<lambda>r t. rests_at d w t \<and> (\<forall>auth. r = Inr auth \<longrightarrow> admits d carrier auth))"
      by (auto simp: leads_def dest: resolveProjectAuth_run)
    show "leads (\<lambda>t. rests_at d w t \<and> (\<forall>auth. Inl e = Inr auth \<longrightarrow> admits d carrier auth)) (detail 403 ''denied'') Q"
      for e :: go_error by (rule leads_write) (auto intro: assms(2))
    show "leads (\<lambda>t. rests_at d w t \<and> (\<forall>auth'. Inr auth = Inr auth' \<longrightarrow> admits d carrier auth')) (rest carrier auth) Q"
      for auth using assms(1) [OF Inr, of auth] by (auto simp: leads_def)
  qed
  with Inr show ?thesis by (simp add: authorised_def attempt_result_def)
qed

lemma leads_received [intake_rules]:
  assumes "\<And>receivedAt. leads (rests_at d w) (rest receivedAt) Q"
    and "\<And>s. rests_at d w s \<Longrightarrow> Q (Reply \<lparr>ans_status = 500, ans_retryAfter = None, ans_body = [(''detail'', Text ''clock_error'')]\<rparr>) s"
  shows "leads (rests_at d w) (received rest) Q"
  unfolding received_def
proof (rule leads_attempt)
  show "leads (rests_at d w) receive_time (\<lambda>_. rests_at d w)" by (auto simp: leads_def dest: receive_time_run)
  show "leads (rests_at d w) (detail 500 ''clock_error'') Q" by (rule leads_write) (rule assms(2))
  show "leads (rests_at d w) (rest v) Q" for v by (rule assms(1))
qed

definition limited :: "reply \<Rightarrow> bool" where
  "limited r \<longleftrightarrow> (\<exists>n after m. n \<in> {429, 503} \<and>
     r = Reply \<lparr>ans_status = n, ans_retryAfter = after, ans_body = [(''detail'', Text m)]\<rparr>)"

lemma leads_rate_limited:
  assumes "\<And>d'. except_buckets d' = except_buckets d \<Longrightarrow> leads (rests_at d' w) rest Q"
    and "\<And>d' s r. except_buckets d' = except_buckets d \<Longrightarrow> rests_at d' w s \<Longrightarrow> limited r \<Longrightarrow> Q r s"
  shows "leads (rests_at d w) (rate_limited auth carrier receivedAt rest) Q"
  unfolding rate_limited_def
proof (rule leads_attempt)
  let ?P = "\<lambda>t. \<exists>d'. rests_at d' w t \<and> except_buckets d' = except_buckets d"
  show "leads (rests_at d w) (checkSentryRateLimit auth carrier receivedAt) (\<lambda>_. ?P)"
    by (auto simp: leads_def dest: checkSentryRateLimit_run)
  show "leads ?P (detail 503 ''rate_limit_unavailable'') Q"
    by (rule leads_write) (auto intro!: assms(2) simp: limited_def)
  show "leads ?P (if \<not> rd_allowed v then writeRateLimitDecision v else rest) Q" for v
  proof (cases "rd_allowed v")
    case True
    then show ?thesis using assms(1) by (fastforce simp: leads_def)
  next
    case False
    then show ?thesis
      by (auto simp: writeRateLimitDecision_def limited_def intro!: leads_write assms(2))
  qed
qed

subsection \<open>The invariant of the intake\<close>

text \<open>Projects have distinct ids, and the columns of type \<open>uuid\<close> hold their texts.\<close>

definition projects_ok :: "DB \<Rightarrow> bool" where
  "projects_ok d \<longleftrightarrow> distinct (map fst (project_scopes d)) \<and>
     list_all (\<lambda>(p, g). uuid_param p \<and> uuid_param g) (project_scopes d)"

definition intake_consistent :: "DB \<Rightarrow> bool" where
  "intake_consistent d \<longleftrightarrow> store_consistent d \<and> reports_unique d \<and> projects_ok d"

lemma uuid_param_id:
  assumes "uuid_param text"
  shows "NewProjectID text = ok p \<Longrightarrow> ProjectID_String p = text"
    and "NewOrganizationID text = ok g \<Longrightarrow> OrganizationID_String g = text"
  using assms
  by (auto simp: uuid_param_def NewProjectID_def NewOrganizationID_def ProjectID_String_def OrganizationID_String_def
      result_simps split: sum.split_asm)

lemma selected_scope:
  "(p, g, b) \<in> set (select_project_auth ref key d) \<Longrightarrow> (p, g) \<in> set (project_scopes d)"
  by (auto simp: select_project_auth_def project_scopes_def split: if_split_asm)

lemma admits_scope:
  assumes "admits d carrier auth" and ok: "projects_ok d"
  shows "\<forall>x\<in>set (project_scopes d). fst x = ProjectID_String (auth_projectID auth) \<longrightarrow>
    snd x = OrganizationID_String (auth_organizationID auth)"
proof -
  obtain p g where row: "(p, g) \<in> set (project_scopes d)"
      and ids: "NewProjectID p = ok (auth_projectID auth)" "NewOrganizationID g = ok (auth_organizationID auth)"
    using assms(1) selected_scope unfolding admits_def by blast
  have "uuid_param p" "uuid_param g" using row ok by (auto simp: projects_ok_def list_all_iff)
  with ids have "ProjectID_String (auth_projectID auth) = p" "OrganizationID_String (auth_organizationID auth) = g"
    by (simp_all add: uuid_param_id)
  with row ok show ?thesis by (auto simp: projects_ok_def dest: eq_key_imp_eq_value)
qed

lemma projects_ok_same: "project_scopes d' = project_scopes d \<Longrightarrow> projects_ok d' = projects_ok d"
  by (simp add: projects_ok_def)

text \<open>What the ingestion of an event does to reports: the issue it deletes after a race takes its reports along.\<close>

definition reports_kept :: "DB \<Rightarrow> DB \<Rightarrow> bool" where
  "reports_kept d d' \<longleftrightarrow> (\<exists>P. db_user_reports d' = filter P (db_user_reports d))"

lemma preorder_reports_kept [simp]: "preorder_on_states reports_kept"
proof -
  have "reports_kept d d" for d unfolding reports_kept_def by (intro exI [of _ "\<lambda>_. True"]) simp
  moreover have "reports_kept d d2" if "reports_kept d d1" "reports_kept d1 d2" for d d1 d2
    using that by (auto simp: reports_kept_def)
  ultimately show ?thesis unfolding preorder_on_states_def reflp_def transp_def by blast
qed

lemma reports_keptI: "db_user_reports d' = db_user_reports d \<Longrightarrow> reports_kept d d'"
  unfolding reports_kept_def by (intro exI [of _ "\<lambda>_. True"]) simp

abbreviation same_reports :: "DB \<Rightarrow> DB \<Rightarrow> bool" where
  "same_reports d d' \<equiv> db_user_reports d' = db_user_reports d"

lemma statements_same_reports:
  "obeys same_reports insert_event" "obeys same_reports upsert_stats" "obeys same_reports upsert_tag"
  "obeys same_reports insert_transaction" "obeys same_reports (update_issue i t e r)"
  "obeys same_reports take_short_id" "obeys same_reports insert_issue"
  "obeys same_reports insert_fingerprint" "obeys same_reports insert_intent"
  by (auto simp: obeys_def statement_defs Let_def rbind_eq_ok split: if_split_asm)

lemma obeys_reports_kept: "obeys same_reports f \<Longrightarrow> obeys reports_kept f"
  unfolding obeys_def by (blast intro: reports_keptI)

lemmas statements_reports_kept = statements_same_reports [THEN obeys_reports_kept]

lemma delete_reports_kept: "obeys reports_kept delete_issue"
  by (auto simp: obeys_def delete_issue_def rbind_eq_ok reports_kept_def)

lemma reports_kept_unique: "reports_kept d d' \<Longrightarrow> reports_unique d \<Longrightarrow> reports_unique d'"
  by (auto simp: reports_kept_def reports_unique_def distinct_map_filter)

lemma outside_evolves:
  assumes "outside_effect session_step ses_db effect" and "preorder_on_states R"
  shows "evolves (db_evolves R) (effect ac)"
  using assms by (auto simp: outside_effect_def evolves_def db_evolves_def preorder_on_states_def dest: reflpD)

lemma program_reports_kept:
  assumes "outside_effect session_step ses_db effect"
  shows "evolves (db_evolves reports_kept) (ingestProgram ac effect txStore)"
  unfolding ingestProgram_def Let_def txStore_ports
  by (intro store_intros preorder_reports_kept outside_evolves [OF assms] evolves_Exists evolves_CheckQuota
      evolves_Append evolves_Apply evolves_Enqueue statements_reports_kept delete_reports_kept)

subsection \<open>An event is ingested\<close>

definition ingested_event :: "DB \<Rightarrow> CanonicalEvent \<Rightarrow> IngestReceipt result \<Rightarrow> DB \<Rightarrow> bool" where
  "ingested_event d ev x d' \<longleftrightarrow>
     (if accepted_outcome x then key_of ev \<notin> journal_keys d \<and> journal_keys d' = insert (key_of ev) (journal_keys d)
      else d' = d) \<and>
     (\<forall>r. x = Inr r \<longrightarrow> rcpt_eventID r = ev_eventID ev \<and>
        (rcpt_kind r = ReceiptDuplicateEvent \<longrightarrow> key_of ev \<in> journal_keys d) \<and>
        (rcpt_kind r = ReceiptDuplicateEvent \<or> rcpt_kind r = ReceiptQuotaRejected \<or> accepted_receipt r)) \<and>
     (intake_consistent d \<longrightarrow> in_scope ev d \<longrightarrow> intake_consistent d' \<and> project_scopes d' = project_scopes d)"

lemma ingest_ready:
  assumes "ingestCanonicalEvent (NewIngestCommand event) Run effect s = (x, t)" and "session_ready s"
    and "outside_effect session_step ses_db effect"
  shows "session_ready t"
proof -
  have "session_inv t"
    using keepsD [OF postgres.ingest_inv [OF assms(3)] assms(1)] assms(2) by (simp add: session_ready_def)
  moreover obtain y where "Run (ingestProgram (accepted_of event) effect) s = (y, t)"
    using assms(1) unfolding ingestCanonicalEvent_eq by (auto simp: abind_def areturn_def split: prod.split_asm sum.split_asm)
  then have "idle t" using in_transaction_idle assms(2) unfolding Run_def by (auto simp: session_ready_def)
  ultimately show ?thesis by (simp add: session_ready_def)
qed

lemma ingested_event_run:
  fixes s :: "'w Session"
  assumes run: "ingestCanonicalEvent (NewIngestCommand ev) Run effect s = (x, t)" and s: "session_ready s"
    and eff: "outside_effect session_step ses_db effect" and made: "made_event (accepted_of ev)"
  shows "session_ready t \<and> ingested_event (ses_db s) ev x (ses_db t)"
proof -
  have inv: "session_inv s" using s by (simp add: session_ready_def)
  note keys = postgres.ingest_keys [OF made eff inv run]
  have same: "\<not> accepted_outcome x \<Longrightarrow> ses_db t = ses_db s"
    using postgres.ingest_error [OF eff inv, of ev _ t] postgres.ingest_ok [OF made eff inv, of _ t]
      postgres.accepted_run_keys [OF _ made] run
    by (cases x) (auto simp: accepted_outcome_def)
  have receipt: "rcpt_eventID r = ev_eventID ev \<and>
        (rcpt_kind r = ReceiptDuplicateEvent \<longrightarrow> key_of ev \<in> journal_keys (ses_db s)) \<and>
        (rcpt_kind r = ReceiptDuplicateEvent \<or> rcpt_kind r = ReceiptQuotaRejected \<or> accepted_receipt r)" if "x = Inr r" for r
    using postgres.ingest_ok [OF made eff inv run [unfolded that]]
  proof (elim disjE conjE exE)
    assume "postgres.accepted_run TYPE('w) (accepted_of ev) (ses_db s) (ses_db t) r"
    from postgres.accepted_run_keys [OF this made] show ?thesis
      by (auto simp: receipt_defs receipt_kind_defs split: if_split_asm)
  qed (auto simp: receipt_defs receipt_kind_defs)
  have "reports_kept (ses_db s) (ses_db t)"
  proof -
    obtain y where "in_transaction (ingestProgram (accepted_of ev) effect txStore) s = (y, t)"
      using run unfolding ingestCanonicalEvent_eq Run_def
      by (auto simp: abind_def areturn_def split: prod.split_asm sum.split_asm)
    with transaction_evolves [OF program_reports_kept [OF eff] preorder_reports_kept s] show ?thesis by blast
  qed
  then have "intake_consistent (ses_db t) \<and> project_scopes (ses_db t) = project_scopes (ses_db s)"
    if "intake_consistent (ses_db s)" "in_scope ev (ses_db s)"
    using ingest_effects(1,2) [OF made eff inv _ that(2) run] that(1)
      projects_ok_same [of "ses_db t" "ses_db s"] reports_kept_unique [of "ses_db s" "ses_db t"]
    by (simp add: intake_consistent_def)
  moreover have "if accepted_outcome x then key_of ev \<notin> journal_keys (ses_db s) \<and>
      journal_keys (ses_db t) = insert (key_of ev) (journal_keys (ses_db s)) else ses_db t = ses_db s"
    using keys same by (cases x) (simp_all add: accepted_outcome_def)
  ultimately show ?thesis
    using ingest_ready [OF run s eff] receipt unfolding ingested_event_def by blast
qed

subsection \<open>Reports are submitted\<close>

lemma reports_store_same:
  assumes "except_reports d' = except_reports d"
  shows "store_consistent d' = store_consistent d" "project_scopes d' = project_scopes d" "journal_keys d' = journal_keys d"
    "db_log_records d' = db_log_records d"
proof -
  have "db_issues (except_reports d') = db_issues (except_reports d)" "db_projects (except_reports d') = db_projects (except_reports d)"
    "db_issue_fingerprints (except_reports d') = db_issue_fingerprints (except_reports d)" "db_events (except_reports d') = db_events (except_reports d)"
    "db_organization_quota_policies (except_reports d') = db_organization_quota_policies (except_reports d)"
    "db_project_quota_policies (except_reports d') = db_project_quota_policies (except_reports d)"
    "db_project_hourly_stats (except_reports d') = db_project_hourly_stats (except_reports d)"
    "db_log_records (except_reports d') = db_log_records (except_reports d)"
    by (simp_all only: assms)
  then show "store_consistent d' = store_consistent d" "project_scopes d' = project_scopes d" "journal_keys d' = journal_keys d"
    "db_log_records d' = db_log_records d"
    by (simp_all add: store_consistent_def issues_consistent_def stats_consistent_def quota_kept_def day_usage_def
        project_scopes_def journal_keys_def has_event_def)
qed

lemma world_submit: "evolves same_world (Submit parse (Some SubmitUserReport) command)"
proof -
  have "evolves same_world (\<lambda>s. case abind (pool_statement f) scan_row s of
      (Inl e, t) \<Rightarrow> (Inl (g e), t) | (Inr v, t) \<Rightarrow> (ok (h v), t))" for f g h
  proof (rule evolvesI)
    fix s r t assume run: "(case abind (pool_statement f) scan_row s of
      (Inl e, t) \<Rightarrow> (Inl (g e), t) | (Inr v, t) \<Rightarrow> (ok (h v), t)) = (r, t)"
    obtain x u where x: "abind (pool_statement f) scan_row s = (x, u)" by fastforce
    have "evolves same_world (abind (pool_statement f) scan_row)" by (intro world_rules world_intros)
    from evolvesD [OF this x] run x show "ses_world t = ses_world s" by (cases x) auto
  qed
  then show ?thesis
    unfolding Submit_def SubmitUserReport_def option.case by (intro world_rules world_intros)
qed

lemma submit_reports_run:
  assumes "submitPreparedUserReports lib commands s = (r, t)" and "rests_at d w s"
  shows "\<exists>d'. rests_at d' w t \<and> except_reports d' = except_reports d \<and> (reports_unique d \<longrightarrow> reports_unique d') \<and>
    (commands = [] \<longrightarrow> r = ok () \<and> d' = d)"
  using assms
proof (induction commands arbitrary: s d)
  case Nil
  then show ?case by (auto simp: submitPreparedUserReports_def areturn_def)
next
  case (Cons command commands)
  let ?submit = "Submit (lib_ParseAddress lib) (Some SubmitUserReport) command"
  obtain x u where x: "?submit s = (x, u)" by fastforce
  have "\<exists>d'. rests_at d' w u \<and> except_reports d' = except_reports d \<and> (reports_unique d \<longrightarrow> reports_unique d')"
  proof (cases "normalizeSubmitCommand (lib_ParseAddress lib) command")
    case (Inl e)
    with x Cons.prems(2) show ?thesis by (auto simp: Submit_def abind_def alift_def)
  next
    case (Inr normalized)
    with x have run: "SubmitUserReport normalized s = (x, u)" by (simp add: Submit_def abind_def alift_def)
    have "session_ready s" "ses_db s = d" using Cons.prems(2) by (simp_all add: rests_at_def)
    with SubmitUserReport_effect(1,2,5) [OF run] evolvesD [OF world_submit x] Cons.prems(2) show ?thesis
      by (auto simp: rests_at_def)
  qed
  then obtain d1 where d1: "rests_at d1 w u" "except_reports d1 = except_reports d" "reports_unique d \<longrightarrow> reports_unique d1"
    by blast
  show ?case
  proof (cases x)
    case (Inl e)
    with x Cons.prems(1) d1 show ?thesis by (auto simp: submitPreparedUserReports_def abind_def)
  next
    case (Inr v)
    with x Cons.prems(1) have "submitPreparedUserReports lib commands u = (r, t)"
      by (simp add: submitPreparedUserReports_def abind_def areturn_def)
    from Cons.IH [OF this d1(1)] d1 show ?thesis by auto
  qed
qed

end
