(* ===== verification/IntakeAnswers.thy ===== *)
theory IntakeAnswers
  imports IntakeEffects
begin

text \<open>
  What the answers of the intake say. A handler serves a request when it replies, tells the truth about the
  event it was given, and keeps the invariant of the store; every route of \<open>serve\<close> serves its requests.
\<close>

subsection \<open>Truthful answers\<close>

definition says_stored :: "reply \<Rightarrow> string \<Rightarrow> bool" where
  "says_stored r i \<longleftrightarrow> r = Reply \<lparr>ans_status = 200, ans_retryAfter = None, ans_body = [(''id'', Text i)]\<rparr>"

definition says_duplicate :: "reply \<Rightarrow> string \<Rightarrow> bool" where
  "says_duplicate r i \<longleftrightarrow>
     r = Reply \<lparr>ans_status = 200, ans_retryAfter = None, ans_body = [(''id'', Text i), (''duplicate'', Flag True)]\<rparr>"

definition has_status :: "reply \<Rightarrow> nat \<Rightarrow> bool" where
  "has_status r n \<longleftrightarrow> (\<exists>a. r = Reply a \<and> ans_status a = n)"

text \<open>
  \<open>truthful d sender reports r d'\<close>: the reply \<open>r\<close> tells what became of the event in a journal that went from that of \<open>d\<close>
  to that of \<open>d'\<close>. The exception is an event that came with reports of users, one of which was refused.
\<close>

definition truthful :: "DB \<Rightarrow> (ProjectAuth \<Rightarrow> bool) \<Rightarrow> bool \<Rightarrow> reply \<Rightarrow> DB \<Rightarrow> bool" where
  "truthful d sender reports r d' \<longleftrightarrow>
     (\<forall>i. says_stored r i \<longrightarrow> (\<exists>auth e. sender auth \<and> EventID_Hex e = i \<and>
        (auth_projectID auth, e) \<notin> journal_keys d \<and> journal_keys d' = insert (auth_projectID auth, e) (journal_keys d))) \<and>
     (\<forall>i. says_duplicate r i \<longrightarrow> (\<exists>auth e. sender auth \<and> EventID_Hex e = i \<and>
        (auth_projectID auth, e) \<in> journal_keys d \<and> journal_keys d' = journal_keys d)) \<and>
     ((\<forall>i. \<not> says_stored r i) \<longrightarrow> journal_keys d' = journal_keys d \<or>
        reports \<and> has_status r 400 \<and>
        (\<exists>auth e. sender auth \<and> (auth_projectID auth, e) \<notin> journal_keys d \<and>
           journal_keys d' = insert (auth_projectID auth, e) (journal_keys d)))"

text \<open>What every handler guarantees.\<close>

definition serves :: "DB \<Rightarrow> (ProjectAuth \<Rightarrow> bool) \<Rightarrow> bool \<Rightarrow> reply \<Rightarrow> 'fs intake \<Rightarrow> bool" where
  "serves d sender reports r t \<longleftrightarrow> session_ready t \<and> r \<noteq> NoReturn \<and> truthful d sender reports r (ses_db t) \<and>
     (intake_consistent d \<longrightarrow> intake_consistent (ses_db t) \<and> project_scopes (ses_db t) = project_scopes d)"

text \<open>Databases that differ in what neither the journal nor the invariant looks at.\<close>

definition alike :: "DB \<Rightarrow> DB \<Rightarrow> bool" where
  "alike d d' \<longleftrightarrow> journal_keys d' = journal_keys d \<and> project_scopes d' = project_scopes d \<and>
     (intake_consistent d \<longrightarrow> intake_consistent d')"

lemma alike_refl: "alike d d"
  by (simp add: alike_def)

lemma alike_trans: "alike d d1 \<Longrightarrow> alike d1 d2 \<Longrightarrow> alike d d2"
  by (simp add: alike_def)

lemma alike_buckets:
  assumes "except_buckets d' = except_buckets d"
  shows "alike d d'"
proof -
  have "db_issues (except_buckets d') = db_issues (except_buckets d)" "db_projects (except_buckets d') = db_projects (except_buckets d)"
    "db_issue_fingerprints (except_buckets d') = db_issue_fingerprints (except_buckets d)" "db_events (except_buckets d') = db_events (except_buckets d)"
    "db_organization_quota_policies (except_buckets d') = db_organization_quota_policies (except_buckets d)"
    "db_project_quota_policies (except_buckets d') = db_project_quota_policies (except_buckets d)"
    "db_project_hourly_stats (except_buckets d') = db_project_hourly_stats (except_buckets d)"
    "db_user_reports (except_buckets d') = db_user_reports (except_buckets d)"
    by (simp_all only: assms)
  then show ?thesis
    by (simp add: alike_def intake_consistent_def store_consistent_def issues_consistent_def stats_consistent_def quota_kept_def
        day_usage_def project_scopes_def journal_keys_def has_event_def reports_unique_def projects_ok_def)
qed

lemma alike_reports:
  assumes "except_reports d' = except_reports d" and "reports_unique d \<longrightarrow> reports_unique d'"
  shows "alike d d'"
  using reports_store_same [OF assms(1)] assms(2)
  by (auto simp: alike_def intake_consistent_def projects_ok_def)

text \<open>A reply that says neither that an event was stored nor that it was there before.\<close>

definition silent :: "reply \<Rightarrow> bool" where
  "silent r \<longleftrightarrow> r \<noteq> NoReturn \<and> (\<forall>i. \<not> says_stored r i \<and> \<not> says_duplicate r i)"

lemma silent_serves:
  assumes "silent r" and "rests_at d' w t" and "alike d d'"
  shows "serves d sender reports r t"
  using assms by (auto simp: silent_def serves_def truthful_def rests_at_def alike_def)

lemma serves_alike:
  assumes "serves d1 sender reports r t" and "alike d d1"
  shows "serves d sender reports r t"
  using assms unfolding serves_def truthful_def alike_def by auto

lemma silent_replies:
  "silent (Reply \<lparr>ans_status = n, ans_retryAfter = after, ans_body = [(''detail'', Text m)]\<rparr>)"
  "silent (Reply \<lparr>ans_status = n, ans_retryAfter = Some x, ans_body = body\<rparr>)"
  "silent (Reply \<lparr>ans_status = n, ans_retryAfter = after, ans_body = []\<rparr>)"
  "silent (Reply \<lparr>ans_status = n, ans_retryAfter = after, ans_body = [(''accepted'', v)]\<rparr>)"
  "silent (Reply \<lparr>ans_status = n, ans_retryAfter = after, ans_body = [(''eventID'', v)]\<rparr>)"
  "silent (Panicked m)"
  "limited r \<Longrightarrow> silent r"
  by (auto simp: silent_def says_stored_def says_duplicate_def limited_def)

lemma leads_silent:
  assumes "\<And>s. P s \<Longrightarrow> \<exists>d' w. rests_at d' w s \<and> alike d d'"
  shows "leads P (detail n m) (serves d sender reports)"
    "leads P (writeJSON n []) (serves d sender reports)"
    "leads P (writeJSON n [(''accepted'', v)]) (serves d sender reports)"
    "leads P (writeJSON n [(''eventID'', v)]) (serves d sender reports)"
    "leads P (writeRetry after body) (serves d sender reports)"
proof -
  have serves: "serves d sender reports r s" if "silent r" "P s" for r s
  proof -
    have "\<exists>d' w. rests_at d' w s \<and> alike d d'" by (rule assms) (rule that(2))
    then obtain d' w where "rests_at d' w s" "alike d d'" by blast
    with that(1) show ?thesis by (rule silent_serves)
  qed
  show "leads P (detail n m) (serves d sender reports)"
    by (rule leads_write) (rule serves [OF silent_replies(1)])
  show "leads P (writeJSON n []) (serves d sender reports)"
    by (rule leads_write) (rule serves [OF silent_replies(3)])
  show "leads P (writeJSON n [(''accepted'', v)]) (serves d sender reports)"
    by (rule leads_write) (rule serves [OF silent_replies(4)])
  show "leads P (writeJSON n [(''eventID'', v)]) (serves d sender reports)"
    by (rule leads_write) (rule serves [OF silent_replies(5)])
  show "leads P (writeRetry after body) (serves d sender reports)"
    by (rule leads_write) (rule serves [OF silent_replies(2)])
qed

lemma rests_alike: "rests_at d w s \<Longrightarrow> \<exists>d' w'. rests_at d' w' s \<and> alike d d'"
  using alike_refl by blast

lemmas silent_rules = leads_silent [OF rests_alike]

lemma leads_alike:
  "leads P h (serves d' sender reports) \<Longrightarrow> alike d d' \<Longrightarrow> leads P h (serves d sender reports)"
  unfolding leads_def using serves_alike by blast

subsection \<open>Storing an event\<close>

lemma noAppend_outside: "outside_effect session_step ses_db noAppendEffect"
  by (rule postgres.outside_noAppendEffect)

text \<open>After the ingestion of an event, with the receipt it got, and reports that may have followed.\<close>

definition ingested_at :: "DB \<Rightarrow> CanonicalEvent \<Rightarrow> IngestReceipt result \<Rightarrow> 'fs intake \<Rightarrow> bool" where
  "ingested_at d ev x t \<longleftrightarrow> session_ready t \<and> (\<exists>d1. ingested_event d ev x d1 \<and> alike d1 (ses_db t))"

text \<open>An event of the project of some credentials.\<close>

definition sent_for :: "ProjectAuth \<Rightarrow> CanonicalEvent \<Rightarrow> bool" where
  "sent_for auth ev \<longleftrightarrow> made_event (accepted_of ev) \<and> ev_organizationID ev = auth_organizationID auth \<and>
     ev_projectID ev = auth_projectID auth"

lemma sent_in_scope: "admits d carrier auth \<Longrightarrow> intake_consistent d \<Longrightarrow> sent_for auth ev \<Longrightarrow> in_scope ev d"
  using admits_scope [of d carrier auth] by (auto simp: in_scope_scopes sent_for_def intake_consistent_def)

lemma in_scope_alike: "alike d d' \<Longrightarrow> in_scope ev d' = in_scope ev d"
  by (simp add: in_scope_scopes alike_def)

lemma ingested_reply:
  assumes r: "ingested_at d ev (Inr receipt) t" and sender: "sender auth" "sent_for auth ev"
    and scope: "intake_consistent d \<Longrightarrow> in_scope ev d"
  shows "\<exists>reply. writeIngestReceipt receipt t = (reply, t) \<and> serves d sender reports reply t"
proof -
  obtain d1 where facts: "session_ready t" "ingested_event d ev (Inr receipt) d1" "alike d1 (ses_db t)"
    using r by (auto simp: ingested_at_def)
  let ?e = "ev_eventID ev"
  have id: "rcpt_eventID receipt = ?e" using facts(2) by (simp add: ingested_event_def)
  have keep: "intake_consistent d \<longrightarrow> intake_consistent (ses_db t) \<and> project_scopes (ses_db t) = project_scopes d"
    using facts(2,3) scope by (auto simp: ingested_event_def alike_def)
  have keys: "journal_keys (ses_db t) = journal_keys d1" using facts(3) by (simp add: alike_def)
  have key: "key_of ev = (auth_projectID auth, ?e)" using sender(2) by (simp add: sent_for_def)
  consider (quota) "rcpt_kind receipt = ReceiptQuotaRejected" | (dup) "rcpt_kind receipt = ReceiptDuplicateEvent"
    | (acc) "accepted_receipt receipt"
    using facts(2) by (auto simp: ingested_event_def)
  then show ?thesis
  proof cases
    case quota
    then have "\<not> accepted_outcome (Inr receipt)" by (simp add: accepted_outcome_def accepted_receipt_def receipt_kind_defs)
    then have "d1 = d" using facts(2) by (simp add: ingested_event_def)
    with quota facts(1) keys keep silent_replies(2) show ?thesis
      by (auto simp: writeIngestReceipt_def writeRetry_def serves_def truthful_def silent_def)
  next
    case dup
    then have "\<not> accepted_outcome (Inr receipt)" by (simp add: accepted_outcome_def accepted_receipt_def receipt_kind_defs)
    then have "d1 = d" "key_of ev \<in> journal_keys d" using facts(2) dup by (auto simp: ingested_event_def)
    with dup facts(1) id sender keys keep key show ?thesis
      by (auto simp: writeIngestReceipt_def writeJSON_def serves_def truthful_def says_stored_def says_duplicate_def
          receipt_kind_defs)
  next
    case acc
    then have "accepted_outcome (Inr receipt)" by (simp add: accepted_outcome_def)
    then have new: "key_of ev \<notin> journal_keys d" "journal_keys (ses_db t) = insert (key_of ev) (journal_keys d)"
      using facts(2) keys by (auto simp: ingested_event_def)
    have kind: "rcpt_kind receipt \<noteq> ReceiptQuotaRejected" "rcpt_kind receipt \<noteq> ReceiptDuplicateEvent"
      using acc by (auto simp: accepted_receipt_def receipt_kind_defs)
    let ?reply = "Reply \<lparr>ans_status = 200, ans_retryAfter = None, ans_body = [(''id'', Text (EventID_Hex ?e))]\<rparr>"
    have "writeIngestReceipt receipt t = (?reply, t)" using kind id by (simp add: writeIngestReceipt_def writeJSON_def)
    moreover have "truthful d sender reports ?reply (ses_db t)"
      using new sender key by (auto simp: truthful_def says_stored_def says_duplicate_def)
    ultimately show ?thesis using facts(1) keep by (auto simp: serves_def)
  qed
qed

lemma leads_receipt:
  assumes "admits d carrier auth" and "sender auth" and "sent_for auth ev"
  shows "leads (ingested_at d ev (Inr receipt)) (writeIngestReceipt receipt) (serves d sender reports)"
proof (rule leadsI)
  fix s r t assume "ingested_at d ev (Inr receipt) s" and run: "writeIngestReceipt receipt s = (r, t)"
  from ingested_reply [where sender = sender and auth = auth, OF this(1) assms(2,3) sent_in_scope [OF assms(1) _ assms(3)]] run show "serves d sender reports r t"
    by auto
qed

text \<open>An event whose storage failed, or whose reports were refused.\<close>

lemma leads_failed_event:
  "leads (ingested_at d ev (Inl e)) (detail n m) (serves d sender reports)"
  by (rule leads_silent) (auto simp: ingested_at_def ingested_event_def accepted_outcome_def rests_at_def)

lemma leads_refused_reports:
  assumes "admits d carrier auth" and "sender auth" and sent: "sent_for auth ev" and "reports"
  shows "leads (ingested_at d ev (Inr receipt)) (detail 400 m) (serves d sender reports)"
proof (rule leads_write)
  fix s assume "ingested_at d ev (Inr receipt) s"
  then obtain d1 where s: "session_ready s" "ingested_event d ev (Inr receipt) d1" "alike d1 (ses_db s)"
    by (auto simp: ingested_at_def)
  let ?reply = "Reply \<lparr>ans_status = 400, ans_retryAfter = None, ans_body = [(''detail'', Text m)]\<rparr>"
  have keys: "journal_keys (ses_db s) = journal_keys d1" using s(3) by (simp add: alike_def)
  have key: "key_of ev = (auth_projectID auth, ev_eventID ev)" using sent by (simp add: sent_for_def)
  have quiet: "silent ?reply" by (rule silent_replies)
  have "truthful d sender reports ?reply (ses_db s)"
    using quiet s(2) keys key assms(2,4)
    by (auto simp: truthful_def silent_def has_status_def ingested_event_def split: if_split_asm)
  moreover have "intake_consistent (ses_db s) \<and> project_scopes (ses_db s) = project_scopes d" if "intake_consistent d"
    using sent_in_scope [OF assms(1) that sent] s(2,3) that by (auto simp: ingested_event_def alike_def)
  ultimately show "serves d sender reports ?reply s" using s(1) quiet by (auto simp: serves_def silent_def)
qed

lemma leads_ingest_event:
  assumes sent: "sent_for auth ev"
    and rest: "\<And>receipt. leads (ingested_at d ev (Inr receipt)) (rest receipt) (serves d sender reports)"
  shows "leads (rests_at d w) (ingest_event ev rest) (serves d sender reports)"
  unfolding ingest_event_def
proof (rule leads_attempt [OF _ leads_failed_event rest])
  show "leads (rests_at d w) (IngestCanonicalEvent (NewIngestCommand ev) Run) (ingested_at d ev)"
    using ingested_event_run [OF _ _ noAppend_outside] sent alike_refl
    by (fastforce simp: leads_def IngestCanonicalEvent_def ingested_at_def rests_at_def sent_for_def)
qed

subsection \<open>Parsing and enriching\<close>

definition parsed_for :: "ProjectAuth \<Rightarrow> TimePoint \<Rightarrow> bool \<Rightarrow> parsedSentryEvent \<Rightarrow> bool" where
  "parsed_for auth receivedAt reports parsed \<longleftrightarrow>
     (pe_event parsed = None \<or> pe_logs parsed = []) \<and> (\<forall>ev. pe_event parsed = Some ev \<longrightarrow> sent_for auth ev) \<and>
     one_request (auth_organizationID auth) (auth_projectID auth) receivedAt (pe_logs parsed) \<and>
     length (pe_logs parsed) < 2 ^ 31 \<and> (pe_userReports parsed \<noteq> [] \<longrightarrow> reports)"

lemma project_of_ids [simp]:
  "pc_organizationID (project_of auth) = auth_organizationID auth" "pc_projectID (project_of auth) = auth_projectID auth"
  by (simp_all add: project_of_def NewProjectContextWithPrivacy_def)

lemma parseSentryRequest_for:
  assumes "admits d carrier auth"
  shows "\<exists>r. parseSentryRequest lib (project_of auth) receivedAt body kind = Some r \<and>
    (\<forall>parsed. r = Inr parsed \<longrightarrow> parsed_for auth receivedAt (kind = sentryEnvelopeRequest) parsed)"
proof (cases kind)
  case sentryStoreRequest
  have "sent_for auth ev" if "ParseStoreEvent (lib_ord lib) (project_of auth) receivedAt body = Inr ev" for ev
    using parsed_event [OF that [unfolded ParseStoreEvent_def]] admits_hex(1) [OF assms] by (simp add: sent_for_def)
  with sentryStoreRequest show ?thesis
    by (auto simp: parseSentryRequest_def parsed_for_def one_request_def pbind_def split: sum.split)
next
  case sentryEnvelopeRequest
  obtain r where r: "ParseEnvelope (lib_ord lib) (project_of auth) receivedAt body = Some r"
    and valid: "\<forall>state. r = Inr state \<longrightarrow> state_valid (project_of auth) receivedAt MaxEnvelopeItems state"
    using ParseEnvelope_returns by blast
  show ?thesis
  proof (cases r)
    case (Inl e)
    with r sentryEnvelopeRequest show ?thesis by (simp add: parseSentryRequest_def)
  next
    case (Inr state)
    with valid have st: "state_valid (project_of auth) receivedAt MaxEnvelopeItems state" by simp
    have "length (es_logs state) < 2 ^ 31"
      using st by (simp add: state_valid_def MaxEnvelopeItems_def MaxLogRecordsPerItem_def)
    moreover have "one_request (auth_organizationID auth) (auth_projectID auth) receivedAt (es_logs state)"
      using st by (auto simp: state_valid_def one_request_def project_log_def list_all_iff)
    moreover have "sent_for auth ev" if "es_event state = Some ev" for ev
      using st that admits_hex(1) [OF assms] by (simp add: state_valid_def project_event_def sent_for_def)
    ultimately show ?thesis
      using r Inr sentryEnvelopeRequest
      by (auto simp: parseSentryRequest_def parsed_for_def one_request_def split: option.split)
  qed
qed

text \<open>An enriched event keeps its ids.\<close>

definition same_ids :: "CanonicalEvent \<Rightarrow> CanonicalEvent \<Rightarrow> bool" where
  "same_ids ev ev' \<longleftrightarrow> ev_organizationID ev' = ev_organizationID ev \<and> ev_projectID ev' = ev_projectID ev \<and>
     ev_eventID ev' = ev_eventID ev"

lemma resolved_ids: "ResolveCanonicalEvent u m resolver ev s = (Returns ev', t) \<Longrightarrow> same_ids ev ev'"
  by (auto simp: ResolveCanonicalEvent_def WithJsStacktrace_def same_ids_def bind_run_def Let_def
      split: option.split_asm if_split_asm sum.split_asm prod.split_asm run.split_asm)

lemma symbolicated_ids: "SymbolicateCanonicalEvent service ev s = (ev', t) \<Longrightarrow> same_ids ev ev'"
  by (auto simp: SymbolicateCanonicalEvent_def WithNativeFrames_def same_ids_def Let_def
      split: option.split_asm if_split_asm prod.split_asm)

lemma sent_same_ids: "same_ids ev ev' \<Longrightarrow> sent_for auth ev \<Longrightarrow> sent_for auth ev'"
  by (auto simp: same_ids_def sent_for_def made_event_def)

lemma enriched_ids:
  "applyIngestEnrichments lib en ev s = (Returns ev', t) \<Longrightarrow> same_ids ev ev'"
  by (auto simp: applyIngestEnrichments_def same_ids_def split: run.split_asm prod.split_asm
      dest!: resolved_ids symbolicated_ids)

lemma rests_on_files: "on_files m s = (v, t) \<Longrightarrow> rests_at d w s \<Longrightarrow> \<exists>w'. rests_at d w' t"
  by (auto simp: on_files_def rests_at_def session_ready_def Let_def idle_def split: prod.split_asm)

lemma leads_enrichParsed:
  assumes parsed: "parsed_for auth receivedAt reports parsed"
    and rest: "\<And>w enriched. parsed_for auth receivedAt reports enriched \<Longrightarrow>
      leads (rests_at d w) (rest enriched) (serves d sender asked)"
  shows "leads (rests_at d w) (enrichParsed lib en parsed rest) (serves d sender asked)"
proof (rule leadsI)
  fix s r t assume s: "rests_at d w s" and run: "enrichParsed lib en parsed rest s = (r, t)"
  show "serves d sender asked r t"
  proof (cases "pe_event parsed")
    case None
    with run have "rest parsed s = (r, t)" by (simp add: enrichParsed_def)
    with leadsD [OF rest [OF parsed] s] show ?thesis by blast
  next
    case (Some ev)
    obtain x u where x: "on_files (applyIngestEnrichments lib en ev) s = (x, u)" by fastforce
    obtain w' where u: "rests_at d w' u" using rests_on_files [OF x s] by blast
    show ?thesis
    proof (cases x)
      case (Panics m)
      with run Some x have out: "r = Panicked m" "t = u" by (simp_all add: enrichParsed_def)
      show ?thesis unfolding out by (rule silent_serves [OF silent_replies(6) u alike_refl])
    next
      case (Returns ev')
      have "same_ids ev ev'" using x Returns by (auto simp: on_files_def Let_def split: prod.split_asm dest: enriched_ids)
      then have "parsed_for auth receivedAt reports (parsed\<lparr>pe_event := Some ev'\<rparr>)"
        using parsed Some sent_same_ids by (auto simp: parsed_for_def)
      moreover have "rest (parsed\<lparr>pe_event := Some ev'\<rparr>) u = (r, t)" using run Some x Returns by (simp add: enrichParsed_def)
      ultimately show ?thesis using leadsD [OF rest u] by blast
    qed
  qed
qed

subsection \<open>Storing what was parsed\<close>

text \<open>Reports after an event.\<close>

lemma submit_after_event:
  "leads (ingested_at d ev x) (submitPreparedUserReports lib commands)
     (\<lambda>r t. ingested_at d ev x t \<and> (commands = [] \<longrightarrow> r = ok ()))"
proof (rule leadsI)
  fix s r t assume s: "ingested_at d ev x s" and run: "submitPreparedUserReports lib commands s = (r, t)"
  obtain d1 where d1: "session_ready s" "ingested_event d ev x d1" "alike d1 (ses_db s)"
    using s by (auto simp: ingested_at_def)
  have "rests_at (ses_db s) (iw_files (ses_world s)) s" using d1(1) by (simp add: rests_at_def)
  from submit_reports_run [OF run this] obtain d' where d': "session_ready t" "ses_db t = d'"
    "alike (ses_db s) d'" "commands = [] \<longrightarrow> r = ok ()"
    using alike_reports by (auto simp: rests_at_def)
  with d1 alike_trans [OF d1(3), of d'] show "ingested_at d ev x t \<and> (commands = [] \<longrightarrow> r = ok ())"
    by (auto simp: ingested_at_def)
qed

lemma leads_reported_event:
  assumes auth: "admits d carrier auth" "sender auth" and sent: "sent_for auth ev" and "commands \<noteq> [] \<longrightarrow> reports"
  shows "leads (ingested_at d ev (Inr receipt)) (if rcpt_kind receipt = ReceiptQuotaRejected then writeIngestReceipt receipt
    else attempt (submitPreparedUserReports lib commands) (\<lambda>e. detail 400 (Error e)) (\<lambda>_. writeIngestReceipt receipt))
    (serves d sender reports)"
proof (intro leads_if leads_attempt [OF submit_after_event] leads_receipt [where sender = sender, OF auth sent])
  show "leads (\<lambda>t. ingested_at d ev (Inr receipt) t \<and> (commands = [] \<longrightarrow> Inl e = ok ())) (detail 400 (Error e))
      (serves d sender reports)" for e
  proof (cases "commands = []")
    case False
    with assms(4) have "reports" by simp
    show ?thesis
      by (rule leads_mono [OF leads_refused_reports [where sender = sender, OF auth sent \<open>reports\<close>]]) auto
  qed (simp add: leads_def)
  show "leads (\<lambda>t. ingested_at d ev (Inr receipt) t \<and> (commands = [] \<longrightarrow> Inr v = ok ())) (writeIngestReceipt receipt)
      (serves d sender reports)" for v
    by (rule leads_mono [OF leads_receipt [where sender = sender, OF auth sent]]) auto
qed

lemma leads_only_reports:
  "leads (rests_at d w) (attempt (submitPreparedUserReports lib commands) (\<lambda>e. detail n (m e)) (\<lambda>_. writeJSON 200 body))
     (serves d sender reports)" if "body = [] \<or> (\<exists>v. body = [(''eventID'', v)])"
proof (rule leads_attempt [where M = "\<lambda>r t. \<exists>d' w. rests_at d' w t \<and> alike d d'"])
  show "leads (rests_at d w) (submitPreparedUserReports lib commands) (\<lambda>r t. \<exists>d' w. rests_at d' w t \<and> alike d d')"
  proof (rule leadsI)
    fix s r t assume "submitPreparedUserReports lib commands s = (r, t)" "rests_at d w s"
    from submit_reports_run [OF this] obtain d' where "rests_at d' w t" "alike d d'" using alike_reports by blast
    then show "\<exists>d' w. rests_at d' w t \<and> alike d d'" by blast
  qed
  show "leads (\<lambda>t. \<exists>d' w. rests_at d' w t \<and> alike d d') (detail n (m e)) (serves d sender reports)" for e
    by (rule leads_silent) assumption
  show "leads (\<lambda>t. \<exists>d' w. rests_at d' w t \<and> alike d d') (writeJSON 200 body) (serves d sender reports)" for v :: unit
    using that leads_silent(2,4) [of "\<lambda>t. \<exists>d' w. rests_at d' w t \<and> alike d d'" d] by auto
qed

lemma log_run:
  assumes run: "LogIngest (Some RunLogIngest) (NewLogIngestCommand records) s = (x, t)" and s: "rests_at d w s"
    and auth: "admits d carrier auth" and records: "one_request (auth_organizationID auth) (auth_projectID auth) at records"
    "length records < 2 ^ 31"
  shows "session_ready t \<and> alike d (ses_db t)"
proof -
  have s: "session_ready s" "ses_db s = d" using s by (simp_all add: rests_at_def)
  note out = log_store.ingested [OF run s(1)]
  have logs: "except_logs (ses_db t) = except_logs d"
    using out s(2) by (auto simp: logs_added_def split: sum.split_asm)
  note same = except_logs_same [OF logs]
  have "db_user_reports (except_logs (ses_db t)) = db_user_reports (except_logs d)" by (simp only: logs)
  then have reports: "reports_unique (ses_db t) = reports_unique d" by (simp add: reports_unique_def)
  have "store_consistent (ses_db t)" if "intake_consistent d"
  proof -
    have "list_all (log_in_scope d) records"
      using admits_scope [OF auth] that records(1)
      by (auto simp: intake_consistent_def list_all_iff one_request_def log_in_scope_def)
    with log_ingest_effect [OF run s(1) _ records(1) _ records(2)] s(2) that show ?thesis
      by (simp add: intake_consistent_def)
  qed
  then show ?thesis
    using out same(3,4) reports by (auto simp: alike_def intake_consistent_def projects_ok_def journal_keys_def has_event_def)
qed

lemma leads_logs:
  assumes auth: "admits d carrier auth" and records: "one_request (auth_organizationID auth) (auth_projectID auth) at records"
    "length records < 2 ^ 31"
  shows "leads (rests_at d w) (attempt (LogIngest (Some RunLogIngest) (NewLogIngestCommand records))
    (\<lambda>_. detail 503 m) writeLogReceipt) (serves d sender reports)"
proof (rule leads_attempt [where M = "\<lambda>r t. \<exists>d' w. rests_at d' w t \<and> alike d d'"])
  show "leads (rests_at d w) (LogIngest (Some RunLogIngest) (NewLogIngestCommand records)) (\<lambda>r t. \<exists>d' w. rests_at d' w t \<and> alike d d')"
  proof (rule leadsI)
    fix s r t assume "LogIngest (Some RunLogIngest) (NewLogIngestCommand records) s = (r, t)" "rests_at d w s"
    from log_run [OF this auth records] have "rests_at (ses_db t) (iw_files (ses_world t)) t" "alike d (ses_db t)"
      by (simp_all add: rests_at_def)
    then show "\<exists>d' w. rests_at d' w t \<and> alike d d'" by blast
  qed
  show "leads (\<lambda>t. \<exists>d' w. rests_at d' w t \<and> alike d d') (writeLogReceipt v) (serves d sender reports)" for v
    unfolding writeLogReceipt_def by (intro leads_if leads_silent) auto
qed (auto intro!: leads_silent)

subsection \<open>The rate limit\<close>

lemma admits_buckets:
  assumes "except_buckets d' = except_buckets d"
  shows "admits d' carrier auth = admits d carrier auth"
proof -
  have "db_projects (except_buckets d') = db_projects (except_buckets d)"
    "db_project_keys (except_buckets d') = db_project_keys (except_buckets d)"
    "db_organizations (except_buckets d') = db_organizations (except_buckets d)"
    by (simp_all only: assms)
  then show ?thesis by (simp add: admits_def select_project_auth_def)
qed

lemma serves_silent: "rests_at d w s \<Longrightarrow> silent r \<Longrightarrow> serves d sender reports r s"
  by (rule silent_serves [OF _ _ alike_refl])

lemma leads_limited:
  assumes auth: "admits d carrier auth"
    and rest: "\<And>d' w. admits d' carrier auth \<Longrightarrow> leads (rests_at d' w) rest (serves d' sender reports)"
  shows "leads (rests_at d w) (rate_limited auth carrier receivedAt rest) (serves d sender reports)"
proof (rule leads_rate_limited)
  fix d' assume same: "except_buckets d' = except_buckets d"
  from iffD2 [OF admits_buckets [OF same] auth] have "admits d' carrier auth" .
  from leads_alike [OF rest [OF this] alike_buckets [OF same]]
  show "leads (rests_at d' w) rest (serves d sender reports)" .
next
  fix d' s r assume same: "except_buckets d' = except_buckets d" and s: "rests_at d' w s" and "limited r"
  show "serves d sender reports r s"
    by (rule silent_serves [OF silent_replies(7) [OF \<open>limited r\<close>] s alike_buckets [OF same]])
qed

subsection \<open>Events and envelopes\<close>

lemma leads_store_parsed:
  assumes auth: "admits d carrier auth" "sender auth" and parsed: "parsed_for auth receivedAt reports parsed"
    and "length commands = length (pe_userReports parsed)"
  shows "leads (rests_at d w) (store_parsed lib auth carrier receivedAt parsed commands) (serves d sender reports)"
  unfolding store_parsed_def
proof (intro leads_if leads_only_reports leads_limited [OF auth(1)])
  fix d' :: DB and w :: 'a assume auth': "admits d' carrier auth"
  show "leads (rests_at d' w) (attempt (LogIngest (Some RunLogIngest) (NewLogIngestCommand (pe_logs parsed)))
      (\<lambda>_. detail 503 ''storage_unavailable'') writeLogReceipt) (serves d' sender reports)"
    using parsed by (intro leads_logs [OF auth']) (auto simp: parsed_for_def)
  assume "\<not> (pe_event parsed = None \<and> pe_logs parsed = [])" "\<not> pe_logs parsed \<noteq> []"
  then obtain ev where ev: "pe_event parsed = Some ev" by auto
  then have sent: "sent_for auth ev" using parsed by (simp add: parsed_for_def)
  have "commands \<noteq> [] \<longrightarrow> reports" using parsed assms(4) by (auto simp: parsed_for_def)
  from leads_ingest_event [OF sent leads_reported_event [where sender = sender, OF auth' auth(2) sent this]]
  show "leads (rests_at d' w) (ingest_event (the (pe_event parsed)) (\<lambda>receipt.
      if rcpt_kind receipt = ReceiptQuotaRejected then writeIngestReceipt receipt
      else attempt (submitPreparedUserReports lib commands) (\<lambda>e. detail 400 (Error e))
        (\<lambda>_. writeIngestReceipt receipt))) (serves d' sender reports)"
    by (simp add: ev)
qed simp

text \<open>The credentials a request presents, and the projects that are admitted with them.\<close>

definition presented :: "Libraries \<Rightarrow> IntakeRoute \<Rightarrow> HttpRequest \<Rightarrow> sentryAuthCarrier result option" where
  "presented lib route req =
     (if route = EnvelopeRoute
      then (case readSentryBody lib req sentryEnvelopeRequest of
              Inl e \<Rightarrow> None | Inr body \<Rightarrow> decodeSentryAuthCarrier lib req body sentryEnvelopeRequest)
      else Some (requestCarrier req))"

definition sender_of :: "DB \<Rightarrow> Libraries \<Rightarrow> IntakeRoute \<Rightarrow> HttpRequest \<Rightarrow> ProjectAuth \<Rightarrow> bool" where
  "sender_of d lib route req auth \<longleftrightarrow> (\<exists>carrier. presented lib route req = Some (Inr carrier) \<and> admits d carrier auth)"

lemma credentials_decoded: "decodeSentryAuthCarrier lib req body kind \<noteq> None"
  using readEnvelopeHeader_returns [of body]
  by (auto simp: decodeSentryAuthCarrier_def authSourcesFromEnvelope_def EnvelopeHeaderDSN_def
      split: option.split sum.split prod.split)

lemma leads_ingest_carrier:
  assumes sender: "\<And>body carrier auth. readSentryBody lib req kind = Inr body \<Longrightarrow>
      decodeSentryAuthCarrier lib req body kind = Some (Inr carrier) \<Longrightarrow> admits d carrier auth \<Longrightarrow> sender auth"
  shows "leads (rests_at d w) (handleSentryIngestCarrier lib en configured req kind)
    (serves d sender (kind = sentryEnvelopeRequest))"
  unfolding handleSentryIngestCarrier_def
proof (intro intake_rules silent_rules serves_silent silent_replies)
  fix body assume "decodeSentryAuthCarrier lib req body kind = None"
  then show "leads (rests_at d w) no_return (serves d sender (kind = sentryEnvelopeRequest))"
    by (simp add: credentials_decoded)
next
  fix body carrierResult carrier auth receivedAt
  assume "admits d carrier auth" "parseSentryRequest lib (project_of auth) receivedAt body kind = None"
  with parseSentryRequest_for [of d carrier auth lib receivedAt body kind]
  show "leads (rests_at d w) no_return (serves d sender (kind = sentryEnvelopeRequest))" by auto
next
  fix body carrierResult carrier auth receivedAt r e
  show "leads (rests_at d w) (writeProtocolError e) (serves d sender (kind = sentryEnvelopeRequest))"
    unfolding writeProtocolError_def by (rule silent_rules)
next
  fix body carrierResult carrier auth receivedAt r parsed
  assume body: "readSentryBody lib req kind = Inr body" and c: "decodeSentryAuthCarrier lib req body kind = Some carrierResult"
    "carrierResult = Inr carrier" and auth: "admits d carrier auth"
    and p: "parseSentryRequest lib (project_of auth) receivedAt body kind = Some r" "r = Inr parsed"
  have parsed: "parsed_for auth receivedAt (kind = sentryEnvelopeRequest) parsed"
    using parseSentryRequest_for [OF auth, of lib receivedAt body kind] p by auto
  have sent: "sender auth" using sender [OF body _ auth] c by simp
  show "leads (rests_at d w) (enrichParsed lib en parsed (\<lambda>enriched.
      attempt_result (prepareParsedUserReports lib auth (pe_userReports enriched)) (\<lambda>e. detail 400 (Error e))
        (\<lambda>reportCommands. store_parsed lib auth carrier receivedAt enriched reportCommands)))
      (serves d sender (kind = sentryEnvelopeRequest))"
    by (intro leads_enrichParsed [OF parsed] intake_rules silent_rules leads_store_parsed auth sent)
      (auto simp: prepareParsedUserReports_def dest: collect_length)
qed

subsection \<open>Policy reports and feedback\<close>

lemma csp_sent_for:
  assumes "ParseCSPReport ord (project_of auth) receivedAt body = Inr ev" and "admits d carrier auth"
  shows "sent_for auth ev"
proof -
  have "hex_pattern 32 (EventID_value (ev_eventID ev))"
    using ParseCSPReport_event [OF assms(1)] deterministicCSPEventID_ok [of body receivedAt]
      eventID.new_valid [OF deterministicCSPEventID_ok [of body receivedAt, unfolded deterministicCSPEventID_def]]
    by simp
  with ParseCSPReport_event [OF assms(1)] admits_hex(1) [OF assms(2)] show ?thesis
    by (simp add: sent_for_def made_event_def made_ids_def)
qed

lemma leads_security:
  assumes sender: "\<And>carrier auth. requestCarrier req = Inr carrier \<Longrightarrow> admits d carrier auth \<Longrightarrow> sender auth"
  shows "leads (rests_at d w) (handleSentrySecurityCarrier lib configured req) (serves d sender reports)"
  unfolding handleSentrySecurityCarrier_def
proof (intro intake_rules silent_rules serves_silent silent_replies)
  fix body carrier auth receivedAt e
  show "leads (rests_at d w) (writeProtocolError e) (serves d sender reports)"
    unfolding writeProtocolError_def by (rule silent_rules)
next
  fix body carrier auth receivedAt ev
  assume c: "requestCarrier req = Inr carrier" and auth: "admits d carrier auth"
    and p: "ParseCSPReport (lib_ord lib) (project_of auth) receivedAt body = Inr ev"
  note sent = csp_sent_for [OF p auth]
  show "leads (rests_at d w) (rate_limited auth carrier receivedAt (ingest_event ev writeIngestReceipt)) (serves d sender reports)"
    by (intro leads_limited [OF auth] leads_ingest_event [OF sent] leads_receipt [where sender = sender, OF _ sender [OF c auth] sent])
qed

lemma leads_feedback:
  "leads (rests_at d w) (handleSentryUserFeedbackCarrier lib configured req) (serves d sender reports)"
  unfolding handleSentryUserFeedbackCarrier_def
  by (intro intake_rules silent_rules serves_silent silent_replies leads_only_reports) auto

subsection \<open>Minidumps\<close>

lemma db_on_files: "on_files m s = (v, t) \<Longrightarrow> ses_db t = ses_db s \<and> (session_ready s \<longrightarrow> session_ready t)"
  by (auto simp: on_files_def session_ready_def Let_def idle_def split: prod.split_asm)

lemma outside_on_files: "evolves (\<lambda>s t. session_step s t \<and> ses_db t = ses_db s) (on_files m)"
  by (auto simp: evolves_def on_files_def db_evolves_def Let_def split: prod.split)

lemma outside_set_uploaded: "evolves (\<lambda>s t. session_step s t \<and> ses_db t = ses_db s) (set_uploaded b)"
  by (auto simp: evolves_def set_uploaded_def db_evolves_def)

lemma preorder_outside: "preorder_on_states (\<lambda>s t. session_step s t \<and> ses_db t = ses_db s)"
  by (auto simp: preorder_on_states_def reflp_def transp_def db_evolves_def)

lemma outside_uploadEffect: "outside_effect session_step ses_db (uploadEffect vault prepared file)"
  unfolding outside_effect_def uploadEffect_def
  by (intro allI evolves_case_option evolves_alift evolves_abind preorder_outside outside_on_files outside_set_uploaded)

lemma minidump_run:
  assumes sent: "sent_for auth (pm_event prepared)"
  shows "leads (rests_at d w) (ingestMinidumpEvent vault prepared file) (ingested_at d (pm_event prepared))"
proof (rule leadsI)
  fix s r t assume s: "rests_at d w s" and run: "ingestMinidumpEvent vault prepared file s = (r, t)"
  let ?s = "snd (set_uploaded False s)"
  have s': "session_ready ?s" "ses_db ?s = d"
    using s by (auto simp: rests_at_def set_uploaded_def session_ready_def idle_def)
  obtain x u where x: "ingestCanonicalEvent (NewIngestCommand (pm_event prepared)) Run (uploadEffect vault prepared file) ?s = (x, u)"
    by fastforce
  have made: "made_event (accepted_of (pm_event prepared))" using sent by (simp add: sent_for_def)
  have u: "session_ready u" "ingested_event d (pm_event prepared) x (ses_db u)"
    using ingested_event_run [OF x s'(1) outside_uploadEffect made] s'(2) by simp_all
  have "r = x \<and> (t = u \<or> t = snd (cleanupStoredMinidump vault prepared u))"
    using run x by (auto simp: ingestMinidumpEvent_def IngestCanonicalEventWithAppendEffect_def abind_def set_uploaded_def
        split: sum.split_asm prod.split_asm)
  moreover obtain v c where c: "cleanupStoredMinidump vault prepared u = (v, c)" by fastforce
  moreover have "ses_db c = ses_db u" "session_ready c"
    using db_on_files [OF c [unfolded cleanupStoredMinidump_def]] u(1) by simp_all
  ultimately show "ingested_at d (pm_event prepared) r t"
    using u alike_refl [of "ses_db u"] by (auto simp: ingested_at_def)
qed

lemma minidump_sent_for:
  assumes "minidump_event auth receivedAt upload metadata eventID = Inr prepared" and "hex_pattern 32 (EventID_value eventID)"
    and "admits d carrier auth"
  shows "sent_for auth (pm_event prepared)"
  using assms(1,2) admits_hex(1) [OF assms(3)]
  by (auto simp: minidump_event_def result_simps sent_for_def made_event_def made_ids_def dest!: NewCanonicalEvent_fields)

lemma prepareMinidumpEvent_run:
  assumes run: "prepareMinidumpEvent auth receivedAt upload metadata s = (r, t)" and s: "rests_at d w s"
    and auth: "admits d carrier auth"
  shows "rests_at d w t \<and> (\<forall>prepared. r = Inr prepared \<longrightarrow> sent_for auth (pm_event prepared))"
proof -
  obtain x u where x: "minidumpEventID (mu_metadata upload) s = (x, u)" by fastforce
  have u: "rests_at d w u" "x = Inr eventID \<Longrightarrow> hex_pattern 32 (EventID_value eventID)" for eventID
    using x s rests_at_advance [OF s]
    by (auto simp: minidumpEventID_def alift_def randomEventID_def dest: eventID.new_valid
        split: if_split_asm sum.split_asm option.split_asm)
  from run x have "t = u \<and> (case x of Inl e \<Rightarrow> r = Inl e | Inr eventID \<Rightarrow> r = minidump_event auth receivedAt upload metadata eventID)"
    by (auto simp: prepareMinidumpEvent_def abind_def alift_def split: sum.split)
  with u show ?thesis using minidump_sent_for [OF _ _ auth] by (auto split: sum.split_asm)
qed

lemma leads_minidump:
  assumes sender: "\<And>carrier auth. requestCarrier req = Inr carrier \<Longrightarrow> admits d carrier auth \<Longrightarrow> sender auth"
  shows "leads (rests_at d w) (handleSentryMinidumpCarrier lib en configured req) (serves d sender reports)"
  unfolding handleSentryMinidumpCarrier_def
proof (intro intake_rules silent_rules serves_silent silent_replies)
  fix vault carrier auth receivedAt
  assume c: "requestCarrier req = Inr carrier" and auth: "admits d carrier auth"
  have sent: "sender auth" by (rule sender [OF c auth])
  have store: "leads (rests_at d w) (symbolicated_minidump en prepared (\<lambda>symbolicated.
      attempt (ingestMinidumpEvent vault symbolicated f) minidump_error writeIngestReceipt)) (serves d sender reports)"
    if p: "sent_for auth (pm_event prepared)" and auth: "admits d carrier auth" for d w prepared f
  proof (rule leadsI)
    let ?rest = "\<lambda>symbolicated. attempt (ingestMinidumpEvent vault symbolicated f) minidump_error writeIngestReceipt"
    fix s r t assume s: "rests_at d w s" and run: "symbolicated_minidump en prepared ?rest s = (r, t)"
    obtain ev u where ev: "on_files (SymbolicateCanonicalEvent (en_DebugFileStore en) (pm_event prepared)) s = (ev, u)" by fastforce
    obtain w' where u: "rests_at d w' u" using rests_on_files [OF ev s] by blast
    let ?p = "prepared\<lparr>pm_event := ev\<rparr>"
    have "same_ids (pm_event prepared) ev"
      using ev by (auto simp: on_files_def Let_def split: prod.split_asm dest: symbolicated_ids)
    from sent_same_ids [OF this p] have p': "sent_for auth (pm_event ?p)" by simp
    have rest: "?rest ?p u = (r, t)" using run ev by (simp add: symbolicated_minidump_def)
    have "leads (rests_at d w') (?rest ?p) (serves d sender reports)"
      using leads_failed_event leads_receipt [where sender = sender, OF auth sent p']
      by (intro leads_attempt [OF minidump_run [OF p']]) (auto simp: minidump_error_def)
    from leadsD [OF this u rest] show "serves d sender reports r t" .
  qed
  show "leads (rests_at d w) (rate_limited auth carrier receivedAt (
      attempt_result (readMinidumpMultipart lib req) minidump_error (\<lambda>upload.
      attempt_result (parseMinidumpNativeMetadata (mu_file upload)) minidump_error (\<lambda>metadata.
      attempt (prepareMinidumpEvent auth receivedAt upload metadata) (\<lambda>e. detail 400 (Error e)) (\<lambda>prepared.
      symbolicated_minidump en prepared (\<lambda>symbolicated.
      attempt (ingestMinidumpEvent vault symbolicated (mu_file upload)) minidump_error writeIngestReceipt))))))
      (serves d sender reports)"
  proof (intro leads_limited [OF auth] leads_attempt_result)
    fix d' w e assume "admits d' carrier auth"
    have "leads (rests_at d' w) (minidump_error e) (serves d' sender reports)" for d' w
      unfolding minidump_error_def by (rule silent_rules)
    from this [of d' w] this [of d' w] show "leads (rests_at d' w) (minidump_error e) (serves d' sender reports)"
      "leads (rests_at d' w) (minidump_error e) (serves d' sender reports)" .
  next
    fix d' w upload metadata assume auth': "admits d' carrier auth"
    show "leads (rests_at d' w) (attempt (prepareMinidumpEvent auth receivedAt upload metadata) (\<lambda>e. detail 400 (Error e)) (\<lambda>prepared.
      symbolicated_minidump en prepared (\<lambda>symbolicated.
      attempt (ingestMinidumpEvent vault symbolicated (mu_file upload)) minidump_error writeIngestReceipt)))
      (serves d' sender reports)"
    proof (rule leads_attempt [where M = "\<lambda>r t. rests_at d' w t \<and> (\<forall>prepared. r = Inr prepared \<longrightarrow> sent_for auth (pm_event prepared))"])
      show "leads (rests_at d' w) (prepareMinidumpEvent auth receivedAt upload metadata)
        (\<lambda>r t. rests_at d' w t \<and> (\<forall>prepared. r = Inr prepared \<longrightarrow> sent_for auth (pm_event prepared)))"
        by (rule leadsI) (rule prepareMinidumpEvent_run [OF _ _ auth'])
      show "leads (\<lambda>t. rests_at d' w t \<and> (\<forall>prepared. Inl e = Inr prepared \<longrightarrow> sent_for auth (pm_event prepared)))
          (detail 400 (Error e)) (serves d' sender reports)" for e
        by (rule leads_mono [where P = "rests_at d' w", OF silent_rules(1)]) auto
    qed (auto simp: leads_def dest: leadsD [OF store [OF _ auth']])
  qed
qed

subsection \<open>Every route\<close>

lemma served:
  "leads (rests_at d w) (serve lib en configured route req) (serves d (sender_of d lib route req) (route = EnvelopeRoute))"
proof -
  have sender: "requestCarrier req = Inr carrier \<Longrightarrow> admits d carrier auth \<Longrightarrow> sender_of d lib route req auth"
    if "route \<noteq> EnvelopeRoute" for route carrier auth
    using that by (auto simp: sender_of_def presented_def)
  have store: "leads (rests_at d w) (handleSentryIngestCarrier lib en configured req sentryStoreRequest)
      (serves d (sender_of d lib StoreRoute req) (sentryStoreRequest = sentryEnvelopeRequest))"
    by (rule leads_ingest_carrier) (auto simp: decode_store_carrier intro: sender)
  have envelope: "leads (rests_at d w) (handleSentryIngestCarrier lib en configured req sentryEnvelopeRequest)
      (serves d (sender_of d lib EnvelopeRoute req) (sentryEnvelopeRequest = sentryEnvelopeRequest))"
    by (rule leads_ingest_carrier) (auto simp: sender_of_def presented_def)
  show ?thesis
    using store envelope leads_minidump [OF sender [of MinidumpRoute]] leads_security [OF sender [of SecurityRoute]] leads_feedback
    by (cases route) (auto simp: sentryStoreHandler_def sentryEnvelopeHandler_def)
qed

end
