(* ===== verification/MinidumpStore.thy ===== *)
theory MinidumpStore
  imports IntakeAnswers
begin

text \<open>
  Minidumps in the vault and their events in the journal: the file is written while the transaction of its event is
  open, so the two agree only when the upload runs once, after the append, and a failed transaction removes the file.
\<close>

subsection \<open>When the effect of a submission runs\<close>

text \<open>
  The world of a session and the effect of a submission: either the effect did not run and nothing was accepted, or
  it ran once, and when it succeeded the only answers are an error and an accepted event.
\<close>

definition effect_ran ::
  "('w Session, unit) action \<Rightarrow> 'w Session \<Rightarrow> ('a \<Rightarrow> bool) \<Rightarrow> 'a result \<Rightarrow> 'w Session \<Rightarrow> bool" where
  "effect_ran effect s accepted x t \<longleftrightarrow>
     ses_world t = ses_world s \<and> (\<forall>v. x = Inr v \<longrightarrow> \<not> accepted v) \<or>
     (\<exists>s1 y u. ses_world s1 = ses_world s \<and> effect s1 = (y, u) \<and> ses_world t = ses_world u \<and>
        (\<forall>v. x = Inr v \<longrightarrow> accepted v \<and> y = ok ()))"

lemma after_append_effect:
  assumes run: "after_append ac effect txStore s = (x, t)"
  shows "\<exists>y u. effect ac s = (y, u) \<and> ses_world t = ses_world u \<and>
    (\<forall>c. x = Inr c \<longrightarrow> accepted_receipt (txr_receipt c) \<and> y = ok ())"
proof -
  obtain y u where y: "effect ac s = (y, u)" by fastforce
  let ?rest = "if \<not> CanonicalEvent_CreatesIssue (ac_event ac) then areturn (transactionResult (nonIssueReceipt ac))
     else index_issue ac txStore"
  have world: "evolves same_world ?rest" unfolding index_issue_def txStore_ports by (intro world_ports world_intros)
  have accepted: "accepted_receipt (txr_receipt c)" if "?rest u = (Inr c, t)" for c
    using that by (auto simp: index_issue_def abind_ok areturn_eq afail_def accepted_receipt_def transactionResult_def receipt_defs
        split: if_split_asm)
  show ?thesis
  proof (cases y)
    case (Inl e)
    with run y show ?thesis by (auto simp: after_append_def abind_def)
  next
    case (Inr v)
    with run y have "?rest u = (x, t)" by (simp add: after_append_def abind_def)
    with evolvesD [OF world this] accepted y Inr show ?thesis by auto
  qed
qed

lemma program_effect:
  assumes run: "ingestProgram ac effect txStore s = (x, t)"
  shows "effect_ran (effect ac) s (\<lambda>c. accepted_receipt (txr_receipt c)) x t"
proof -
  let ?ev = "ac_event ac"
  have rejected: "\<not> accepted_receipt (duplicateReceipt ac)" "\<not> accepted_receipt (quotaReceipt ac q)" for q
    by (simp_all add: accepted_receipt_def receipt_defs receipt_kind_defs)
  obtain e s1 where e: "Exists (ev_projectID ?ev) (ev_eventID ?ev) s = (e, s1)" by fastforce
  obtain q s2 where q: "CheckQuota ?ev s1 = (q, s2)" by fastforce
  obtain a s3 where a: "Append ac s2 = (a, s3)" by fastforce
  have w: "ses_world s1 = ses_world s" "ses_world s2 = ses_world s1" "ses_world s3 = ses_world s2"
    using evolvesD [OF world_ports(1) e] evolvesD [OF world_ports(2) q] evolvesD [OF world_ports(3) a] by auto
  obtain y u where after: "after_append ac effect txStore s3 = (y, u)" by fastforce
  from after_append_effect [OF after] w have ran: "effect_ran (effect ac) s (\<lambda>c. accepted_receipt (txr_receipt c)) y u"
    by (auto simp: effect_ran_def)
  show ?thesis
    using run e q a after w ran rejected
    by (auto simp: ingestProgram_eq txStore_ports abind_def areturn_def effect_ran_def transactionResult_def
        split: sum.split_asm if_split_asm)
qed

lemma ingest_effect:
  assumes run: "ingestCanonicalEvent (NewIngestCommand ev) Run effect s = (x, t)"
  shows "effect_ran (effect (accepted_of ev)) s accepted_receipt x t"
proof -
  let ?program = "ingestProgram (accepted_of ev) effect txStore"
  obtain y u where y: "in_transaction ?program s = (y, u)" by fastforce
  then have out: "t = u" "x = (case y of Inl e \<Rightarrow> Inl e | Inr c \<Rightarrow> Inr (txr_receipt c))"
    using run by (auto simp: ingestCanonicalEvent_eq Run_def abind_def areturn_def split: sum.split_asm)
  obtain b s1 where b: "begin_tx s = (b, s1)" by fastforce
  have w1: "ses_world s1 = ses_world s" using evolvesD [OF world_steps(5) b] .
  show ?thesis
  proof (cases b)
    case (Inl e)
    with y b w1 out show ?thesis by (auto simp: in_transaction_def abind_def effect_ran_def)
  next
    case (Inr v)
    obtain z s2 where z: "?program s1 = (z, s2)" by fastforce
    note ran = program_effect [OF z]
    obtain c s3 where c: "commit_tx s2 = (c, s3)" by fastforce
    have "ses_world s3 = ses_world s2" using evolvesD [OF world_steps(6) c] .
    with y b z c Inr out w1 ran show ?thesis
      by (cases z; cases c) (auto simp: in_transaction_def abind_def areturn_def effect_ran_def world_rollback)
  qed
qed

subsection \<open>The vault and the journal\<close>

abbreviation files_of :: "'fs intake \<Rightarrow> 'fs" where
  "files_of s \<equiv> iw_files (ses_world s)"

context artifact_vault begin

text \<open>After the upload of a minidump in a transaction, and after its removal.\<close>

lemma uploadEffect_run:
  assumes run: "uploadEffect vault prepared file ac s = (y, u)" and good: "good (files_of s)"
    and ids: "hex_pattern 32 (OrganizationID_value (ev_organizationID (pm_event prepared)))"
      "hex_pattern 32 (ProjectID_value (ev_projectID (pm_event prepared)))"
    and key: "MinidumpKey (ev_organizationID (pm_event prepared)) (ev_projectID (pm_event prepared)) (pm_identity prepared) = ok key"
  shows "good (files_of u) \<and> (calm (files_of s) \<longrightarrow> calm (files_of u)) \<and>
    (\<forall>other. other \<noteq> key \<longrightarrow> store (files_of u) other = store (files_of s) other) \<and>
    (case y of
       Inl e \<Rightarrow> iw_uploaded (ses_world u) = iw_uploaded (ses_world s) \<and> (calm (files_of s) \<longrightarrow>
         store (files_of u) = store (files_of s) \<or> store (files_of u) = (store (files_of s))(key := None))
     | Inr _ \<Rightarrow> iw_uploaded (ses_world u) \<and> store (files_of u) = (store (files_of s))(key \<mapsto> rd_data (ff_reader file)))"
proof (cases "ff_seek file 2")
  case (Some e)
  with run good show ?thesis by (auto simp: uploadEffect_def alift_def)
next
  case None
  obtain r t where up: "MinidumpUpload vault (ev_organizationID (pm_event prepared)) (ev_projectID (pm_event prepared))
      (pm_identity prepared) (Some (ff_reader file)) (files_of s) = (r, t)" by fastforce
  have "ses_world u = \<lparr>iw_files = t, iw_uploaded = (if is_ok r then True else iw_uploaded (ses_world s))\<rparr> \<and>
      (case r of Inl e \<Rightarrow> y = Inl e | Inr _ \<Rightarrow> y = ok ())"
    using run None up
    by (cases "ses_world s") (auto simp: uploadEffect_def abind_def on_files_def set_uploaded_def Let_def split: sum.split_asm)
  with MinidumpUpload_effect [OF good ids up] key show ?thesis by (auto split: sum.split_asm)
qed

lemma cleanup_run:
  assumes run: "cleanupStoredMinidump vault prepared s = (y, u)" and good: "good (files_of s)"
    and key: "MinidumpKey (ev_organizationID (pm_event prepared)) (ev_projectID (pm_event prepared)) (pm_identity prepared) = ok key"
      "key_ok key"
  shows "good (files_of u) \<and> (\<forall>other. other \<noteq> key \<longrightarrow> store (files_of u) other = store (files_of s) other) \<and>
    (calm (files_of s) \<longrightarrow> store (files_of u) = (store (files_of s))(key := None))"
proof -
  obtain r t where del: "av_Delete vault key (files_of s) = (r, t)" by fastforce
  have "files_of u = t"
    using run del key(1) by (auto simp: cleanupStoredMinidump_def on_files_def MinidumpDelete_def abind_def alift_def Let_def)
  moreover have "is_ok r" if "calm (files_of s)" using delete_calm [OF good key(2) that] del by simp
  ultimately show ?thesis using delete_law [OF good key(2) del] by (cases r) auto
qed

lemma minidump_ingested:
  assumes s: "session_ready s" "good (files_of s)"
    and ids: "hex_pattern 32 (OrganizationID_value (ev_organizationID (pm_event prepared)))"
      "hex_pattern 32 (ProjectID_value (ev_projectID (pm_event prepared)))"
    and run: "ingestMinidumpEvent vault prepared file s = (r, t)"
  shows "\<exists>key. MinidumpKey (ev_organizationID (pm_event prepared)) (ev_projectID (pm_event prepared)) (pm_identity prepared) = ok key \<and>
    good (files_of t) \<and> (\<forall>other. other \<noteq> key \<longrightarrow> store (files_of t) other = store (files_of s) other) \<and>
    (case r of
       Inl e \<Rightarrow> calm (files_of s) \<longrightarrow>
         store (files_of t) = store (files_of s) \<or> store (files_of t) = (store (files_of s))(key := None)
     | Inr receipt \<Rightarrow> store (files_of t) = (if accepted_receipt receipt
         then (store (files_of s))(key \<mapsto> rd_data (ff_reader file)) else store (files_of s)))"
proof -
  obtain key where key: "MinidumpKey (ev_organizationID (pm_event prepared)) (ev_projectID (pm_event prepared)) (pm_identity prepared) = ok key"
      "key_ok key" using service_key_ok(3) [OF ids] by blast
  let ?effect = "uploadEffect vault prepared file" and ?event = "pm_event prepared"
  let ?s = "snd (set_uploaded False s)"
  have s': "files_of ?s = files_of s" "\<not> iw_uploaded (ses_world ?s)" by (simp_all add: set_uploaded_def)
  obtain x u where x: "ingestCanonicalEvent (NewIngestCommand ?event) Run ?effect ?s = (x, u)" by fastforce
  have out: "r = x" "t = (if \<not> is_ok x \<and> iw_uploaded (ses_world u) then snd (cleanupStoredMinidump vault prepared u) else u)"
    using run x by (auto simp: ingestMinidumpEvent_def IngestCanonicalEventWithAppendEffect_def abind_def set_uploaded_def
        split: sum.split_asm prod.split_asm)
  from ingest_effect [OF x] consider (skipped) "ses_world u = ses_world ?s" "\<forall>v. x = Inr v \<longrightarrow> \<not> accepted_receipt v"
    | (ran) s1 y u' where "ses_world s1 = ses_world ?s" "?effect (accepted_of ?event) s1 = (y, u')" "ses_world u = ses_world u'"
      "\<forall>v. x = Inr v \<longrightarrow> accepted_receipt v \<and> y = ok ()"
    unfolding effect_ran_def by blast
  then show ?thesis
  proof cases
    case skipped
    then have "files_of t = files_of s" using out(2) s' by simp
    with key(1) s(2) skipped(2) out(1) show ?thesis by (cases x) auto
  next
    case ran
    have s1: "files_of s1 = files_of s" "\<not> iw_uploaded (ses_world s1)" using ran(1) s' by simp_all
    note up = uploadEffect_run [OF ran(2) _ ids key(1), unfolded s1, OF s(2)]
    show ?thesis
    proof (cases "is_ok x")
      case True
      then obtain v where v: "x = Inr v" by (cases x) auto
      then have "files_of t = files_of u'" "y = ok ()" "accepted_receipt v" using out(2) ran(3,4) by simp_all
      with up key(1) out(1) v show ?thesis by auto
    next
      case False
      then obtain e where e: "x = Inl e" by (cases x) auto
      show ?thesis
      proof (cases y)
        case (Inl e')
        with up s1 have "files_of t = files_of u'" using out(2) ran(3) by simp
        with up Inl key(1) out(1) e show ?thesis by auto
      next
        case (Inr v)
        obtain z c where c: "cleanupStoredMinidump vault prepared u = (z, c)" by fastforce
        have u: "files_of u = files_of u'" using ran(3) by simp
        have "t = c" using out(2) e Inr up ran(3) c by simp
        with cleanup_run [OF c _ key, unfolded u] up Inr key(1) out(1) e show ?thesis by auto
      qed
    qed
  qed
qed

end

end
