(* ===== verification/IntakeProperties.thy ===== *)
theory IntakeProperties
  imports MinidumpStore ArtifactProperties SentEnvelopes
begin

text \<open>
  The properties of the intake: what requests without credentials do, what the answers say, the invariant of
  the store, and the minidumps in the vault with the events in the journal.
\<close>

subsection \<open>Strangers\<close>

definition refused :: "DB \<Rightarrow> 'fs \<Rightarrow> reply \<Rightarrow> 'fs intake \<Rightarrow> bool" where
  "refused d w r t \<longleftrightarrow> rests_at d w t \<and> (\<exists>n. List.member [400, 403, 413, 415, 503] n \<and> has_status r n)"

lemma refused_replies:
  "rests_at d w s \<Longrightarrow> refused d w (Reply \<lparr>ans_status = 403, ans_retryAfter = after, ans_body = body\<rparr>) s"
  "rests_at d w s \<Longrightarrow> refused d w (Reply \<lparr>ans_status = 503, ans_retryAfter = after, ans_body = body\<rparr>) s"
  "rests_at d w s \<Longrightarrow> refused d w (Reply \<lparr>ans_status = httpStatusForBodyError e, ans_retryAfter = after, ans_body = body\<rparr>) s"
  by (auto simp: refused_def has_status_def httpStatusForBodyError_def)

lemmas leads_refused = leads_write(2) [of "rests_at d w" "refused d w" for d w]

lemma strangers_refused:
  assumes none: "\<And>auth. \<not> sender_of d lib route req auth"
  shows "leads (rests_at d w) (serve lib en configured route req) (refused d w)"
proof -
  have request: "\<not> admits d carrier auth" if "route \<noteq> EnvelopeRoute" "requestCarrier req = Inr carrier" for carrier auth
    using none [of auth] that by (auto simp: sender_of_def presented_def)
  have envelope: "\<not> admits d carrier auth" if "route = EnvelopeRoute" "readSentryBody lib req sentryEnvelopeRequest = Inr body"
      "decodeSentryAuthCarrier lib req body sentryEnvelopeRequest = Some (Inr carrier)" for body carrier auth
    using none [of auth] that by (auto simp: sender_of_def presented_def)
  show ?thesis
    using request envelope
    by (cases route) (auto simp: credentials_decoded sentryStoreHandler_def sentryEnvelopeHandler_def handleSentryIngestCarrier_def
        decode_store_carrier handleSentryMinidumpCarrier_def handleSentrySecurityCarrier_def
        handleSentryUserFeedbackCarrier_def intro!: intake_rules leads_refused refused_replies)
qed

subsection \<open>Sequences of requests\<close>

lemma serve_step:
  assumes "serve lib en configured route req s = (r, t)" and "session_ready s"
  shows "serves (ses_db s) (sender_of (ses_db s) lib route req) (route = EnvelopeRoute) r t"
  using leadsD [OF served, of "ses_db s" "iw_files (ses_world s)" s lib en configured route req r t] assms
  by (simp add: rests_at_def)

lemma truthful_grows: "truthful d sender reports r d' \<Longrightarrow> journal_keys d \<subseteq> journal_keys d'"
  unfolding truthful_def by (cases "\<exists>i. says_stored r i") auto

lemma serve_all_run:
  assumes "serve_all lib en configured requests s = (rs, t)" and "session_ready s"
  shows "session_ready t \<and> journal_keys (ses_db s) \<subseteq> journal_keys (ses_db t) \<and> length rs = length requests \<and>
    NoReturn \<notin> set rs \<and>
    (intake_consistent (ses_db s) \<longrightarrow> intake_consistent (ses_db t) \<and> project_scopes (ses_db t) = project_scopes (ses_db s))"
  using assms
proof (induction requests arbitrary: s rs)
  case (Cons request requests)
  obtain route req where request: "request = (route, req)" by (cases request)
  obtain r u where r: "serve lib en configured route req s = (r, u)" by fastforce
  obtain rs' where rs: "serve_all lib en configured requests u = (rs', t)" "rs = r # rs'"
    using Cons.prems(1) r by (auto simp: request split: prod.split_asm)
  have one: "serves (ses_db s) (sender_of (ses_db s) lib route req) (route = EnvelopeRoute) r u"
    by (rule serve_step [OF r Cons.prems(2)])
  then have u: "session_ready u" "r \<noteq> NoReturn" by (auto simp: serves_def)
  have "journal_keys (ses_db s) \<subseteq> journal_keys (ses_db u)"
    using one truthful_grows unfolding serves_def by blast
  with Cons.IH [OF rs(1) u(1)] one u(2) rs(2) show ?case by (auto simp: serves_def)
qed simp

subsection \<open>An example\<close>

text \<open>A database with one key, an event that was stored before, and a session that begins at a second.\<close>

definition keyed_db :: DB where
  "keyed_db = example_db\<lparr>
     db_project_keys := [\<lparr>pk_id = dashedUUID (replicate 32 CHR ''c''), pk_project_id = dashedUUID (replicate 32 CHR ''b''),
       pk_public_key = dashedUUID (replicate 32 CHR ''a''), pk_active = True\<rparr>],
     db_events := [example_row (replicate 32 CHR ''d'')]\<rparr>"

definition keyed_session :: "'fs \<Rightarrow> 'fs intake" where
  "keyed_session files = \<lparr>ses_env = (example_env {})\<lparr>env_now := \<lambda>_. 1000000000\<rparr>, ses_tick = 0, ses_db = keyed_db,
     ses_base = keyed_db, ses_aborted = False, ses_world = \<lparr>iw_files = files, iw_uploaded = False\<rparr>\<rparr>"

definition plain_libraries :: Libraries where
  "plain_libraries = \<lparr>lib_ord = (\<lambda>_ ks. ks), lib_gunzip = (\<lambda>_. None), lib_dsn_Parse = (\<lambda>_. None),
     lib_url_Parse = (\<lambda>_. None), lib_source_map = (\<lambda>_. fail ''not read''), lib_ParseAddress = (\<lambda>_. None),
     lib_ParseMultipartForm = (\<lambda>_. Inl FormInvalid)\<rparr>"

definition plain_intake :: "'fs IngestEnrichments" where
  "plain_intake = \<lparr>en_SourceMapResolver = None, en_DebugFileStore = None, en_MinidumpStore = None\<rparr>"

definition keyed_request :: "string \<Rightarrow> string \<Rightarrow> HttpRequest" where
  "keyed_request key body = \<lparr>hr_projectRef = ''1'', hr_query = [(''sentry_key'', [key])], hr_header = (\<lambda>_. []),
     hr_body = \<lparr>rd_data = body, rd_error = None\<rparr>\<rparr>"

lemma keyed_session_ready: "session_ready (keyed_session files)"
  by (simp add: keyed_session_def session_ready_def reliable_def quiet_def example_env_def idle_def)

lemma keyed_fields: "ses_db (keyed_session files) = keyed_db" "files_of (keyed_session files) = files"
  by (simp_all add: keyed_session_def)

lemma keyed_trim: "TrimSpace ''1'' = ''1''" "TrimSpace (replicate 32 CHR ''a'') = replicate 32 CHR ''a''"
  "TrimSpace (replicate 32 CHR ''e'') = replicate 32 CHR ''e''"
  by (simp_all add: TrimSpace_id)

lemma keyed_carrier:
  "requestCarrier (keyed_request (replicate 32 CHR ''a'') body) =
     Inr \<lparr>ca_projectRef = ''1'', ca_publicKey = replicate 32 CHR ''a'', ca_source = ''query:sentry_key''\<rparr>"
  "requestCarrier (keyed_request (replicate 32 CHR ''e'') body) =
     Inr \<lparr>ca_projectRef = ''1'', ca_publicKey = replicate 32 CHR ''e'', ca_source = ''query:sentry_key''\<rparr>"
  by (simp_all add: requestCarrier_def agreeSentryAuthSources_def authSourcesFromRequest_def keyed_request_def query_Get_def
      headerAuthPublicKey_def key_here_def HasPrefix_def keyed_trim)

lemma keyed_body:
  "length body \<le> 1000 \<Longrightarrow> readSentryBody plain_libraries (keyed_request key body) sentryStoreRequest = Inr body"
  by (simp add: readSentryBody_def sentryRequestLimit_def maxStoreRequestBytes_def MaxBytesReader_def keyed_request_def
      sentryBodyReader_def Let_def ToLower_def is_ascii_def read_up_to_def ReadAll_def LimitReader_def)

definition keyed_auth :: ProjectAuth where
  "keyed_auth = \<lparr>auth_organizationID = OrganizationID (replicate 32 CHR ''a''),
     auth_projectID = ProjectID (replicate 32 CHR ''b''), auth_scrubIP = True\<rparr>"

lemma keyed_tables:
  "db_project_keys keyed_db = [\<lparr>pk_id = dashedUUID (replicate 32 CHR ''c''), pk_project_id = dashedUUID (replicate 32 CHR ''b''),
     pk_public_key = dashedUUID (replicate 32 CHR ''a''), pk_active = True\<rparr>]"
  "db_events keyed_db = [example_row (replicate 32 CHR ''d'')]" "db_rate_limit_policies keyed_db = []"
  "db_projects keyed_db = db_projects example_db" "db_organizations keyed_db = db_organizations example_db"
  by (simp_all add: keyed_db_def example_db_def)

lemma keyed_selected:
  "select_project_auth ''1'' (dashedUUID (replicate 32 CHR ''a'')) keyed_db =
     [(dashedUUID (replicate 32 CHR ''b''), dashedUUID (replicate 32 CHR ''a''), True)]"
  "select_project_auth ''1'' (dashedUUID (replicate 32 CHR ''e'')) keyed_db = []"
proof -
  have "dashedUUID (replicate 32 CHR ''a'') \<noteq> dashedUUID (replicate 32 CHR ''e'')"
    using normalizeUUID_dashedUUID [OF example_hexes(1)] normalizeUUID_dashedUUID [OF example_hex_de(2)] by auto
  then show "select_project_auth ''1'' (dashedUUID (replicate 32 CHR ''a'')) keyed_db =
      [(dashedUUID (replicate 32 CHR ''b''), dashedUUID (replicate 32 CHR ''a''), True)]"
    "select_project_auth ''1'' (dashedUUID (replicate 32 CHR ''e'')) keyed_db = []"
    by (simp_all add: select_project_auth_def keyed_tables example_tables)
qed

lemma keyed_uuids: "normalizeUUID (replicate 32 CHR ''a'') = ok (replicate 32 CHR ''a'')"
  "normalizeUUID (replicate 32 CHR ''e'') = ok (replicate 32 CHR ''e'')"
  by (simp_all add: normalizeUUID_id example_hexes(1) example_hex_de(2))

lemma keyed_admits:
  "admits keyed_db \<lparr>ca_projectRef = ''1'', ca_publicKey = replicate 32 CHR ''a'', ca_source = source\<rparr> auth \<longleftrightarrow> auth = keyed_auth"
  "\<not> admits keyed_db \<lparr>ca_projectRef = ''1'', ca_publicKey = replicate 32 CHR ''e'', ca_source = source\<rparr> auth"
  by (cases auth; auto simp: admits_def NewProjectRef_def NewProjectPublicKey_def keyed_trim keyed_uuids ProjectPublicKey_String_def
      keyed_selected NewProjectID_def NewOrganizationID_def normalizeUUID_dashedUUID example_hexes keyed_auth_def)+

text \<open>The steps of a session of this kind, as equations.\<close>

definition second_env :: Env where
  "second_env = (example_env {})\<lparr>env_now := \<lambda>_. 1000000000\<rparr>"

lemma second_statement:
  "\<not> ses_aborted s \<Longrightarrow> ses_env s = second_env \<Longrightarrow> statement f s =
   (case f (ses_db s) of Inl e \<Rightarrow> (Inl e, s\<lparr>ses_tick := Suc (ses_tick s), ses_aborted := True\<rparr>)
    | Inr (v, d) \<Rightarrow> (Inr v, s\<lparr>ses_tick := Suc (ses_tick s), ses_db := d\<rparr>))"
  by (simp add: statement_def second_env_def example_env_def advance_def split: sum.splits)

lemma second_steps:
  "ses_env s = second_env \<Longrightarrow> advance s = s\<lparr>ses_tick := Suc (ses_tick s)\<rparr>"
  "env_commit second_env n = Committed" "env_now second_env n = 1000000000" "env_fault second_env n = None"
  by (simp_all add: advance_def second_env_def example_env_def)

lemmas second_run = second_statement second_steps abind_def areturn_def alift_def Let_def check_def scan_row_def query_def
  pool_query_def pool_statement_def time_Now_def begin_tx_def commit_tx_def in_transaction_def

lemma keyed_session_env: "ses_env (keyed_session files) = second_env" "\<not> ses_aborted (keyed_session files)"
  "ses_db (keyed_session files) = keyed_db" "ses_base (keyed_session files) = keyed_db"
  by (simp_all add: keyed_session_def second_env_def)

lemma keyed_resolved:
  assumes "ses_env s = second_env" and "\<not> ses_aborted s" and "ses_db s = keyed_db"
  shows "\<exists>t. resolveProjectAuth \<lparr>ca_projectRef = ''1'', ca_publicKey = replicate 32 CHR ''a'', ca_source = source\<rparr> s = (ok keyed_auth, t) \<and>
    ses_env t = second_env \<and> \<not> ses_aborted t \<and> ses_db t = keyed_db"
  using assms
  by (simp add: resolveProjectAuth_def ResolveProjectKey_def second_run NewProjectRef_def NewProjectPublicKey_def keyed_trim
      keyed_uuids ProjectPublicKey_String_def keyed_selected no_rows_of_def graph_text_param graph_ascii_def uuid_param_made
      example_hexes NewProjectID_def NewOrganizationID_def normalizeUUID_dashedUUID NewProjectAuthWithPolicy_def keyed_auth_def)

lemma keyed_received:
  assumes "ses_env s = second_env"
  shows "receive_time s = (ok (TimePoint 1000000000), s\<lparr>ses_tick := Suc (ses_tick s)\<rparr>)"
  using assms by (simp add: receive_time_def second_run NewTimePoint_def UTC_def)

lemma keyed_rate:
  assumes "ses_env s = second_env" and "\<not> ses_aborted s" and "ses_db s = keyed_db"
  shows "\<exists>t. checkSentryRateLimit keyed_auth \<lparr>ca_projectRef = ''1'', ca_publicKey = replicate 32 CHR ''a'', ca_source = source\<rparr>
      (TimePoint 1000000000) s = (ok NewAllowed, t) \<and> ses_env t = second_env \<and> \<not> ses_aborted t \<and> ses_db t = keyed_db"
  using assms
  by (simp add: checkSentryRateLimit_def Check_def NormalizeCommand_def RateLimit.requireScope_def dashedUUID_Nil_iff CheckRateLimit_def checkRateLimitInTx_def
      rateLimitPolicyForCommand_def second_run NewProjectPublicKey_def keyed_uuids ProjectPublicKey_String_def keyed_auth_def
      OrganizationID_String_def ProjectID_String_def select_rate_policy_def keyed_tables example_tables no_rows_of_def
      uuid_param_made example_hexes TimePoint_Time_def UTC_def)

lemma keyed_event_known:
  assumes "ses_env s = second_env" and "\<not> ses_aborted s" and "ses_db s = keyed_db"
    and "key_of ev = (ProjectID (replicate 32 CHR ''b''), EventID (replicate 32 CHR ''c''))"
  shows "\<exists>t. IngestCanonicalEvent (NewIngestCommand ev) Run s = (ok (duplicateReceipt (accepted_of ev)), t)"
  using assms
  by (simp add: IngestCanonicalEvent_def ingestCanonicalEvent_eq Run_def ingestProgram_def txStore_def Exists_def second_run
      has_event_def keyed_tables example_row_fields OrganizationID_String_def ProjectID_String_def EventID_String_def
      uuid_param_made example_hexes transactionResult_def)

lemma keyed_served:
  "\<exists>t. serve plain_libraries plain_intake True StoreRoute (keyed_request (replicate 32 CHR ''a'') small_error)
      (keyed_session files) =
    (Reply \<lparr>ans_status = 200, ans_retryAfter = None, ans_body = [(''id'', Text (replicate 32 CHR ''c'')), (''duplicate'', Flag True)]\<rparr>, t)"
proof -
  let ?carrier = "\<lparr>ca_projectRef = ''1'', ca_publicKey = replicate 32 CHR ''a'', ca_source = ''query:sentry_key''\<rparr>"
  obtain s1 where s1: "resolveProjectAuth ?carrier (keyed_session files) = (ok keyed_auth, s1)"
      "ses_env s1 = second_env" "\<not> ses_aborted s1" "ses_db s1 = keyed_db"
    using keyed_resolved [of "keyed_session files" "''query:sentry_key''"] keyed_session_env(1-3) [of files] by auto
  let ?s2 = "s1\<lparr>ses_tick := Suc (ses_tick s1)\<rparr>"
  obtain s3 where s3: "checkSentryRateLimit keyed_auth ?carrier (TimePoint 1000000000) ?s2 = (ok NewAllowed, s3)"
      "ses_env s3 = second_env" "\<not> ses_aborted s3" "ses_db s3 = keyed_db"
    using keyed_rate [of ?s2 "''query:sentry_key''"] s1 by auto
  obtain ev where ev: "ParseStoreEvent (\<lambda>_ ks. ks) (project_of keyed_auth) (TimePoint 1000000000) small_error = Inr ev"
      "ev_eventID ev = EventID (replicate 32 CHR ''c'')"
    using small_error_sent [of "project_of keyed_auth" "TimePoint 1000000000"] example_hexes by (auto simp: keyed_auth_def)
  have "ev_projectID ev = ProjectID (replicate 32 CHR ''b'')"
    using parsed_event [OF ev(1) [unfolded ParseStoreEvent_def]] by (simp add: keyed_auth_def)
  then obtain t where t: "IngestCanonicalEvent (NewIngestCommand ev) Run s3 = (ok (duplicateReceipt (accepted_of ev)), t)"
    using keyed_event_known [OF s3(2-4), of ev] ev(2) by auto
  have enriched: "enrichParsed plain_libraries plain_intake parsed rest s = rest parsed s" if "pe_event parsed = Some ev"
    for parsed rest and s :: "'a intake"
    using that by (cases parsed) (simp add: enrichParsed_def on_files_def applyIngestEnrichments_def ResolveCanonicalEvent_def
        SymbolicateCanonicalEvent_def plain_intake_def Let_def)
  have parsed: "parseSentryRequest plain_libraries (project_of keyed_auth) (TimePoint 1000000000) small_error sentryStoreRequest =
      Some (Inr \<lparr>pe_event = Some ev, pe_logs = [], pe_userReports = []\<rparr>)"
    using ev(1) by (simp add: parseSentryRequest_def plain_libraries_def pbind_def)
  note time = keyed_received [OF s1(2)]
  show ?thesis
    using s3(1) ev(2) t s1(1) time
    by (simp add: sentryStoreHandler_def handleSentryIngestCarrier_def attempt_result_def attempt_def keyed_body small_error_length
        decode_store_carrier keyed_carrier authorised_def received_def parsed enriched prepareParsedUserReports_def
        store_parsed_def rate_limited_def NewAllowed_def ingest_event_def submitPreparedUserReports_def areturn_def
        writeIngestReceipt_def writeJSON_def receipt_defs receipt_kind_defs EventID_Hex_def)
qed

subsection \<open>Requests\<close>

text \<open>
  C7. The answers of the intake are true, whatever the request, the route, the libraries and the statements that fail, in a
  session that runs alone and is told how its commits end: every request is answered (or its handler panics); an answer that an
  event was stored is given only when the journal gained exactly that event, which it did not have, in a project the credentials of
  the request admit; an answer that it is a duplicate only when the journal had it and is as before; and after every answer that does
  not say stored the journal is as before, except for an envelope whose event was stored and one of whose user reports was then
  refused: it is answered with status 400 although its event is stored. (An event that is known may get another answer than
  duplicate, for instance when its key is over the rate limit; and after a commit whose acknowledgement is lost, which
  \<open>session_ready\<close> rules out, the answer is an error although the event is stored.)
\<close>

theorem answers_are_truthful:
  assumes "session_ready s" and "serve lib en configured route req s = (r, t)"
  shows "r \<noteq> NoReturn \<and>
    (says_stored r i \<longrightarrow> (\<exists>auth e. sender_of (ses_db s) lib route req auth \<and> EventID_Hex e = i \<and>
      (auth_projectID auth, e) \<notin> journal_keys (ses_db s) \<and>
      journal_keys (ses_db t) = insert (auth_projectID auth, e) (journal_keys (ses_db s)))) \<and>
    (says_duplicate r i \<longrightarrow> (\<exists>auth e. sender_of (ses_db s) lib route req auth \<and> EventID_Hex e = i \<and>
      (auth_projectID auth, e) \<in> journal_keys (ses_db s) \<and> journal_keys (ses_db t) = journal_keys (ses_db s))) \<and>
    ((\<forall>j. \<not> says_stored r j) \<longrightarrow> journal_keys (ses_db t) = journal_keys (ses_db s) \<or>
      route = EnvelopeRoute \<and> has_status r 400 \<and> (\<exists>auth e. sender_of (ses_db s) lib route req auth \<and>
        (auth_projectID auth, e) \<notin> journal_keys (ses_db s) \<and> journal_keys (ses_db t) = insert (auth_projectID auth, e) (journal_keys (ses_db s))))"
proof -
  have answered: "r \<noteq> NoReturn" and t: "truthful (ses_db s) (sender_of (ses_db s) lib route req) (route = EnvelopeRoute) r (ses_db t)"
    using serve_step [OF assms(2,1)] by (simp_all add: serves_def)
  note t = t [unfolded truthful_def]
  note stored = conjunct1 [OF t, rule_format] and duplicate = conjunct1 [OF conjunct2 [OF t], rule_format]
    and other = conjunct2 [OF conjunct2 [OF t], THEN mp]
  show ?thesis
    by (intro conjI impI) (rule answered, rule stored, assumption, rule duplicate, assumption, rule other, assumption)
qed

theorem answers_are_truthful_witness:
  "\<exists>t. serve plain_libraries plain_intake True StoreRoute (keyed_request (replicate 32 CHR ''a'') small_error) (keyed_session ()) =
      (Reply \<lparr>ans_status = 200, ans_retryAfter = None,
        ans_body = [(''id'', Text (replicate 32 CHR ''c'')), (''duplicate'', Flag True)]\<rparr>, t) \<and>
    (\<exists>e. EventID_Hex e = replicate 32 CHR ''c'' \<and> (auth_projectID keyed_auth, e) \<in> journal_keys keyed_db) \<and>
    journal_keys (ses_db t) = journal_keys keyed_db"
proof -
  define r where "r = Reply \<lparr>ans_status = 200, ans_retryAfter = None,
    ans_body = [(''id'', Text (replicate 32 CHR ''c'')), (''duplicate'', Flag True)]\<rparr>"
  define request where "request = keyed_request (replicate 32 CHR ''a'') small_error"
  define event where "event = replicate 32 CHR ''c''"
  obtain t where run: "serve plain_libraries plain_intake True StoreRoute request (keyed_session ()) = (r, t)"
    unfolding r_def request_def using keyed_served [of "()"] by (elim exE)
  have dup: "says_duplicate r event" by (simp add: says_duplicate_def r_def event_def)
  have sender: "auth = keyed_auth" if "sender_of keyed_db plain_libraries StoreRoute request auth" for auth
    using that by (simp add: sender_of_def presented_def request_def keyed_carrier keyed_admits)
  obtain e where "EventID_Hex e = event" "(auth_projectID keyed_auth, e) \<in> journal_keys keyed_db"
      "journal_keys (ses_db t) = journal_keys keyed_db"
    using answers_are_truthful [OF keyed_session_ready run, of event, unfolded keyed_fields] dup sender by blast
  with run have "\<exists>t. serve plain_libraries plain_intake True StoreRoute request (keyed_session ()) = (r, t) \<and>
      (\<exists>e. EventID_Hex e = event \<and> (auth_projectID keyed_auth, e) \<in> journal_keys keyed_db) \<and>
      journal_keys (ses_db t) = journal_keys keyed_db" by blast
  then show ?thesis unfolding r_def request_def event_def .
qed

text \<open>
  C18. Strangers change nothing: a request whose credentials admit no project (missing, contradictory, unknown or inactive keys,
  projects or organizations that take no events, on any route) is refused with a status of 400, 403, 413, 415 or 503, and leaves the
  whole database and the files of the vault as they were: not even a rate limit is counted.
\<close>

theorem strangers_change_nothing:
  assumes "session_ready s" and "\<forall>auth. \<not> sender_of (ses_db s) lib route req auth"
    and "serve lib en configured route req s = (r, t)"
  shows "ses_db t = ses_db s \<and> files_of t = files_of s \<and>
    (\<exists>n. List.member [400, 403, 413, 415, 503] n \<and> has_status r n)"
  using leadsD [OF strangers_refused [of "ses_db s" lib route req "files_of s"], of s en configured r t] assms
  by (simp add: rests_at_def refused_def)

theorem strangers_change_nothing_witness:
  "\<exists>r t. serve plain_libraries plain_intake True StoreRoute (keyed_request (replicate 32 CHR ''e'') small_error) (keyed_session ()) =
      (r, t) \<and> ses_db t = keyed_db \<and> (\<exists>n. List.member [400, 403, 413, 415, 503] n \<and> has_status r n)"
proof -
  obtain r t where run: "serve plain_libraries plain_intake True StoreRoute
      (keyed_request (replicate 32 CHR ''e'') small_error) (keyed_session ()) = (r, t)" by fastforce
  have "\<forall>auth. \<not> sender_of (ses_db (keyed_session ())) plain_libraries StoreRoute
      (keyed_request (replicate 32 CHR ''e'') small_error) auth"
    by (simp add: sender_of_def presented_def keyed_carrier keyed_admits keyed_fields)
  from strangers_change_nothing [OF keyed_session_ready this run] run show ?thesis by (auto simp: keyed_fields)
qed

text \<open>
  C19. The invariant of the intake: whatever requests arrive on its routes, whatever statements fail, the store stays consistent
  (issues, fingerprints and statistics linked and unique, every quota kept, by log records as well), an event has at most one user report,
  the projects are as before, no event is lost from the journal, and every request gets an answer.
\<close>

theorem intake_keeps_store_consistent:
  assumes "session_ready s" and "store_consistent (ses_db s)" and "reports_unique (ses_db s)" and "projects_ok (ses_db s)"
    and "serve_all lib en configured requests s = (rs, t)"
  shows "session_ready t \<and> store_consistent (ses_db t) \<and> reports_unique (ses_db t) \<and>
    project_scopes (ses_db t) = project_scopes (ses_db s) \<and> journal_keys (ses_db s) \<subseteq> journal_keys (ses_db t) \<and>
    length rs = length requests \<and> NoReturn \<notin> set rs"
  using serve_all_run [OF assms(5,1)] assms(2-4) by (simp add: intake_consistent_def)

lemma keyed_consistent: "store_consistent keyed_db" "reports_unique keyed_db" "projects_ok keyed_db"
proof -
  show "store_consistent keyed_db"
    by (auto simp: store_consistent_def issues_consistent_def stats_consistent_def quota_kept_def day_usage_def
        keyed_db_def example_db_def)
  show "reports_unique keyed_db" by (simp add: reports_unique_def keyed_db_def example_db_def)
  show "projects_ok keyed_db"
    by (simp add: projects_ok_def project_scopes_def keyed_tables example_tables uuid_param_made example_hexes)
qed

theorem intake_keeps_store_consistent_witness:
  "\<exists>rs t. serve_all plain_libraries plain_intake True
      [(StoreRoute, keyed_request (replicate 32 CHR ''a'') small_error), (EnvelopeRoute, keyed_request (replicate 32 CHR ''a'') small_error),
       (FeedbackRoute, keyed_request (replicate 32 CHR ''e'') ''x'')] (keyed_session ()) = (rs, t) \<and>
    length rs = 3 \<and> store_consistent (ses_db t)"
proof -
  obtain rs t where run: "serve_all plain_libraries plain_intake True
      [(StoreRoute, keyed_request (replicate 32 CHR ''a'') small_error), (EnvelopeRoute, keyed_request (replicate 32 CHR ''a'') small_error),
       (FeedbackRoute, keyed_request (replicate 32 CHR ''e'') ''x'')] (keyed_session ()) = (rs, t)" by fastforce
  from intake_keeps_store_consistent [OF keyed_session_ready, unfolded keyed_fields, OF keyed_consistent run] run
  show ?thesis by simp
qed

subsection \<open>Minidumps\<close>

lemma minidump_journal:
  assumes s: "session_ready s" and made: "made_event (accepted_of (pm_event prepared))"
    and run: "ingestMinidumpEvent vault prepared file s = (r, t)"
  shows "if accepted_outcome r then key_of (pm_event prepared) \<notin> journal_keys (ses_db s) \<and>
      journal_keys (ses_db t) = insert (key_of (pm_event prepared)) (journal_keys (ses_db s))
    else journal_keys (ses_db t) = journal_keys (ses_db s)"
proof -
  let ?auth = "\<lparr>auth_organizationID = ev_organizationID (pm_event prepared), auth_projectID = ev_projectID (pm_event prepared),
    auth_scrubIP = False\<rparr>"
  have "sent_for ?auth (pm_event prepared)" using made by (simp add: sent_for_def)
  from leadsD [OF minidump_run [OF this, of "ses_db s" "files_of s"] _ run] s
  obtain d1 where "ingested_event (ses_db s) (pm_event prepared) r d1" "alike d1 (ses_db t)"
    by (auto simp: ingested_at_def rests_at_def)
  then show ?thesis by (auto simp: ingested_event_def alike_def split: if_split_asm)
qed

text \<open>
  C24. The vault and the journal agree on minidumps, on the vault in a directory tree, in a session that runs alone and is told how
  its commits end: when the event is accepted, the journal gained exactly its key and the vault holds exactly the bytes of the file
  under the key of its identity; when it is a duplicate or over the quota, both are as before; and when the submission fails, at the
  upload, after it or at the commit, the journal is as before, and, provided no call on the files fails, the vault is as before or
  holds nothing under the key. No other artifact is ever touched. (Without these conditions it is not so: a file whose deletion fails
  stays in the vault, and after a commit whose acknowledgement is lost the file of a stored event is deleted.)
\<close>

theorem minidumps_follow_their_events:
  assumes "session_ready s" and "rooted root (files_of s)" and "made_event (accepted_of (pm_event prepared))"
    and "hex_pattern 32 (OrganizationID_value (ev_organizationID (pm_event prepared)))"
    and "hex_pattern 32 (ProjectID_value (ev_projectID (pm_event prepared)))"
    and "ingestMinidumpEvent (FilesystemVault root) prepared file s = (r, t)"
  shows "\<exists>key. MinidumpKey (ev_organizationID (pm_event prepared)) (ev_projectID (pm_event prepared)) (pm_identity prepared) = ok key \<and>
    (\<forall>other. other \<noteq> key \<longrightarrow> vault_store root (files_of t) other = vault_store root (files_of s) other) \<and>
    (case r of
       Inl e \<Rightarrow> journal_keys (ses_db t) = journal_keys (ses_db s) \<and> (untroubled root (files_of s) \<longrightarrow>
         vault_store root (files_of t) = vault_store root (files_of s) \<or>
         vault_store root (files_of t) = (vault_store root (files_of s))(key := None))
     | Inr receipt \<Rightarrow>
         if accepted_receipt receipt
         then key_of (pm_event prepared) \<notin> journal_keys (ses_db s) \<and>
           journal_keys (ses_db t) = insert (key_of (pm_event prepared)) (journal_keys (ses_db s)) \<and>
           vault_store root (files_of t) = (vault_store root (files_of s))(key \<mapsto> rd_data (ff_reader file))
         else journal_keys (ses_db t) = journal_keys (ses_db s) \<and>
           vault_store root (files_of t) = vault_store root (files_of s))"
proof -
  note journal = minidump_journal [OF assms(1,3,6)]
  from filesystem_vault.minidump_ingested [OF assms(1,2,4,5,6)] obtain key where
    key: "MinidumpKey (ev_organizationID (pm_event prepared)) (ev_projectID (pm_event prepared)) (pm_identity prepared) = ok key"
    and other: "\<forall>other. other \<noteq> key \<longrightarrow> vault_store root (files_of t) other = vault_store root (files_of s) other"
    and vault: "case r of
       Inl e \<Rightarrow> untroubled root (files_of s) \<longrightarrow> vault_store root (files_of t) = vault_store root (files_of s) \<or>
         vault_store root (files_of t) = (vault_store root (files_of s))(key := None)
     | Inr receipt \<Rightarrow> vault_store root (files_of t) = (if accepted_receipt receipt
         then (vault_store root (files_of s))(key \<mapsto> rd_data (ff_reader file)) else vault_store root (files_of s))"
    by blast
  show ?thesis
    using journal vault by (intro exI [of _ key] conjI key other) (cases r; simp add: accepted_outcome_def)
qed

text \<open>A crash report of the example project, in the session of the ingest example, with an empty vault.\<close>

definition example_dump :: preparedMinidumpEvent where
  "example_dump = \<lparr>pm_event = example_event, pm_identity = example_minidump\<rparr>"

definition example_dump_file :: FormFile where
  "example_dump_file = \<lparr>ff_readerAt = bytes_ReadAt ''MDMPx'', ff_reader = \<lparr>rd_data = ''MDMPx'', rd_error = None\<rparr>, ff_size = 5,
     ff_contentType = [], ff_seek = (\<lambda>_. None)\<rparr>"

definition dump_session :: "FS intake" where
  "dump_session = \<lparr>ses_env = example_env {}, ses_tick = 0, ses_db = example_db, ses_base = example_db, ses_aborted = False,
     ses_world = \<lparr>iw_files = example_tree, iw_uploaded = False\<rparr>\<rparr>"

lemma dump_session_fields: "session_ready dump_session" "files_of dump_session = example_tree" "ses_db dump_session = example_db"
  by (simp_all add: dump_session_def session_ready_def reliable_def quiet_def example_env_def idle_def)

lemma example_event_scope: "ev_organizationID example_event = example_org" "ev_projectID example_event = example_project"
  by (simp_all add: example_event_def example_org_def example_project_def)

lemma example_upload:
  "\<exists>fs. \<forall>s ac. files_of s = example_tree \<longrightarrow>
    uploadEffect (FilesystemVault ''/srv'') example_dump example_dump_file ac s =
      (ok (), s\<lparr>ses_world := \<lparr>iw_files = fs, iw_uploaded = True\<rparr>\<rparr>)"
proof -
  let ?reader = "\<lparr>rd_data = ''MDMPx'', rd_error = None\<rparr>"
  obtain key where key: "MinidumpKey example_org example_project example_minidump = ok key" "key_ok key"
    using service_key_ok(3) [OF example_ids] by blast
  obtain q u where put: "put_within (FilesystemVault ''/srv'') minidumpMaxBytes ErrMinidumpTooLarge key ?reader example_tree = (q, u)"
    by fastforce
  have "0 \<le> minidumpMaxBytes" by (simp add: minidumpMaxBytes_def)
  from filesystem_vault.put_within_effect(2) [OF example_tree_good(1) key(2) this put example_tree_good(2)]
  obtain n where q: "q = Inr n" by (cases q) (auto simp: minidumpMaxBytes_def)
  have sniff: "ReadFull minidumpSniffPrefixSize ?reader = ok (''MDMPx'', \<lparr>rd_data = [], rd_error = None\<rparr>)"
      "DetectMinidump ''MDMPx'' = ok ()"
    by (simp_all add: ReadFull_def minidumpSniffPrefixSize_def DetectMinidump_def HasPrefix_def minidumpMagic_def)
  have "MinidumpUpload (FilesystemVault ''/srv'') example_org example_project example_minidump (Some ?reader) example_tree =
      (ok \<lparr>md_identity = example_minidump, md_size = n\<rparr>, u)"
    using filesystem_vault.MinidumpUpload_runs [OF key(1) sniff] put q by simp
  then show ?thesis
    by (intro exI [of _ u]) (auto simp: uploadEffect_def example_dump_def example_dump_file_def example_event_scope abind_def
        on_files_def set_uploaded_def Let_def)
qed

lemma example_dump_accepted:
  "\<exists>r t. ingestMinidumpEvent (FilesystemVault ''/srv'') example_dump example_dump_file dump_session = (Inr r, t) \<and> accepted_receipt r"
proof -
  obtain fs where up: "files_of s = example_tree \<Longrightarrow>
      uploadEffect (FilesystemVault ''/srv'') example_dump example_dump_file ac s =
      (ok (), s\<lparr>ses_world := \<lparr>iw_files = fs, iw_uploaded = True\<rparr>\<rparr>)" for s ac
    using example_upload by blast
  let ?s = "snd (set_uploaded False dump_session)"
  have "\<exists>r t. ingestCanonicalEvent (NewIngestCommand example_event) Run
      (uploadEffect (FilesystemVault ''/srv'') example_dump example_dump_file) ?s = (Inr r, t) \<and> accepted_receipt r"
    by (simp add: ingestCanonicalEvent_eq Run_def dump_session_def set_uploaded_def ingestProgram_def txStore_def up
        example_ops example_run postgres.receipt_kinds)
  then show ?thesis
    by (auto simp: ingestMinidumpEvent_def IngestCanonicalEventWithAppendEffect_def abind_def set_uploaded_def example_dump_def)
qed

theorem minidumps_follow_their_events_witness:
  "\<exists>key t. MinidumpKey example_org example_project example_minidump = ok key \<and>
    snd (ingestMinidumpEvent (FilesystemVault ''/srv'') example_dump example_dump_file dump_session) = t \<and>
    key_of example_event \<in> journal_keys (ses_db t) \<and> vault_store ''/srv'' (files_of t) = [key \<mapsto> ''MDMPx'']"
proof -
  obtain r t where run: "ingestMinidumpEvent (FilesystemVault ''/srv'') example_dump example_dump_file dump_session = (Inr r, t)"
      and acc: "accepted_receipt r" using example_dump_accepted by blast
  have dump: "pm_event example_dump = example_event" "pm_identity example_dump = example_minidump"
      "rd_data (ff_reader example_dump_file) = ''MDMPx''"
    by (simp_all add: example_dump_def example_dump_file_def)
  obtain key where "MinidumpKey example_org example_project example_minidump = ok key"
      "key_of example_event \<in> journal_keys (ses_db t)" "vault_store ''/srv'' (files_of t) = [key \<mapsto> ''MDMPx'']"
    using minidumps_follow_their_events [OF dump_session_fields(1) _ _ _ _ run] acc example_tree_good example_ids
      example_made by (auto simp: dump dump_session_fields example_event_scope)
  with run show ?thesis by auto
qed

end
