(* ===== verification/RecordProperties.thy ===== *)
theory RecordProperties
  imports IntakeProperties
begin

text \<open>
  The properties of user reports and of the listing of log records.
\<close>

subsection \<open>User reports\<close>

text \<open>
  C10. An event has one report, the last one: a report that is accepted is about an event of the project and says what was sent,
  trimmed, with the address the library read and the issue the event belongs to; it replaces the report the event had, under the same
  id, and, as no event had two before, it is the only row of its event in the table; the reports of all other events and the rest of
  the database are as before. A report that is refused changes nothing. The session runs alone and its commits are acknowledged.
\<close>

lemma only_report:
  assumes "reports_unique d" and "report_on project event d = Some r"
  shows "filter (same_report project event) (db_user_reports d) = [r]"
proof -
  let ?key = "\<lambda>r. (ur_project_id r, ur_event_id r)"
  have "same_report project event = (\<lambda>r. ?key r = (project, event))" by (simp add: same_report_def fun_eq_iff)
  moreover have "distinct (map ?key (db_user_reports d))" using assms(1) by (simp add: reports_unique_def)
  ultimately consider "filter (same_report project event) (db_user_reports d) = []"
    | x where "filter (same_report project event) (db_user_reports d) = [x]"
    using filter_unique [of ?key "db_user_reports d" "(project, event)"] by auto
  moreover have "r \<in> set (filter (same_report project event) (db_user_reports d))"
    using find_SomeD [OF assms(2) [unfolded report_on_def]] by simp
  ultimately show ?thesis by cases simp_all
qed

theorem one_report_per_event:
  assumes "session_ready s" and "reports_unique (ses_db s)" and "Submit parse (Some SubmitUserReport) command s = (x, t)"
  shows "case x of
      Inl e \<Rightarrow> ses_db t = ses_db s
    | Inr receipt \<Rightarrow> \<exists>issue r project event. project = ProjectID_String (us_ProjectID (sc_Scope command)) \<and>
        event = EventID_String (sc_EventID command) \<and>
        linked_event (OrganizationID_String (us_OrganizationID (sc_Scope command))) project event (ses_db s) = Some (event, issue) \<and>
        report_on project event (ses_db t) = Some r \<and> ur_issue_id r = issue \<and>
        ur_name r = TrimSpace (sc_Name command) \<and> ur_comments r = TrimSpace (sc_Comments command) \<and>
        parse (TrimSpace (sc_Email command)) = Some (ur_email r) \<and>
        receipt = \<lparr>sr_ReportID = ur_id r, sr_EventID = event\<rparr> \<and>
        (\<forall>old. report_on project event (ses_db s) = Some old \<longrightarrow> ur_id r = ur_id old) \<and>
        filter (same_report project event) (db_user_reports (ses_db t)) = [r] \<and>
        other_reports project event (ses_db t) = other_reports project event (ses_db s) \<and>
        except_reports (ses_db t) = except_reports (ses_db s)"
proof (cases "normalizeSubmitCommand parse command")
  case (Inl e)
  with assms show ?thesis by (auto simp: Submit_def abind_def alift_def)
next
  case (Inr c)
  have c: "sc_Scope c = sc_Scope command" "sc_EventID c = sc_EventID command" "sc_Name c = TrimSpace (sc_Name command)"
      "sc_Comments c = TrimSpace (sc_Comments command)" "parse (TrimSpace (sc_Email command)) = Some (sc_Email c)"
    using Inr by (auto simp: normalizeSubmitCommand_def normalizeReporterName_def normalizeReporterEmail_def normalizeComments_def
        Let_def rbind_eq_ok split: if_split_asm option.split_asm)
  have run: "SubmitUserReport c s = (x, t)" using assms(3) Inr by (simp add: Submit_def abind_def alift_def)
  note effect = SubmitUserReport_effect [OF run assms(1)]
  show ?thesis
  proof (cases x)
    case (Inl e)
    with effect(3) show ?thesis by simp
  next
    case right: (Inr receipt)
    from effect(4) [OF right] obtain issue r where r:
      "linked_event (OrganizationID_String (us_OrganizationID (sc_Scope c))) (ProjectID_String (us_ProjectID (sc_Scope c)))
        (EventID_String (sc_EventID c)) (ses_db s) = Some (EventID_String (sc_EventID c), issue)"
      "report_on (ProjectID_String (us_ProjectID (sc_Scope c))) (EventID_String (sc_EventID c)) (ses_db t) = Some r"
      "report_says c issue r" "receipt = \<lparr>sr_ReportID = ur_id r, sr_EventID = EventID_String (sc_EventID c)\<rparr>"
      "\<forall>old. report_on (ProjectID_String (us_ProjectID (sc_Scope c))) (EventID_String (sc_EventID c)) (ses_db s) = Some old \<longrightarrow>
        ur_id r = ur_id old"
      "other_reports (ProjectID_String (us_ProjectID (sc_Scope c))) (EventID_String (sc_EventID c)) (ses_db t) =
        other_reports (ProjectID_String (us_ProjectID (sc_Scope c))) (EventID_String (sc_EventID c)) (ses_db s)" by blast
    from only_report [OF effect(5) [OF assms(2)] r(2)] r effect(2) c right show ?thesis
      by (auto simp: report_says_def intro!: exI [of _ issue] exI [of _ r])
  qed
qed

definition example_report :: SubmitCommand where
  "example_report = \<lparr>sc_Scope = \<lparr>us_OrganizationID = OrganizationID (replicate 32 CHR ''a''),
       us_ProjectID = ProjectID (replicate 32 CHR ''b'')\<rparr>, sc_EventID = EventID (replicate 32 CHR ''c''),
     sc_Name = ''N'', sc_Email = ''n@x'', sc_Comments = ''broken''\<rparr>"

lemma report_texts: "TrimSpace ''N'' = ''N''" "TrimSpace ''n@x'' = ''n@x''" "TrimSpace ''broken'' = ''broken''"
  "text_param ''N''" "text_param ''n@x''" "text_param ''broken''"
  by (simp_all add: TrimSpace_id graph_text_param graph_ascii_def)

lemma keyed_reports: "db_user_reports keyed_db = []" "db_issue_fingerprints keyed_db = []"
  "er_organization_id (example_row u) = dashedUUID (replicate 32 CHR ''a'')"
  by (simp_all add: keyed_db_def example_db_def example_row_def event_row_def Let_def example_event_fields OrganizationID_String_def)

lemma second_random: "env_random second_env n = Some (\<lambda>_. char_of n)"
  by (simp add: second_env_def example_env_def)

lemma example_report_taken:
  "\<exists>receipt t. Submit Some (Some SubmitUserReport) example_report (keyed_session ()) = (Inr receipt, t)"
  by (simp add: Submit_def normalizeSubmitCommand_def requireReportScope_def example_report_def normalizeReporterName_def
      normalizeReporterEmail_def normalizeComments_def report_texts maxReporterNameLength_def maxReporterEmailLength_def
      maxCommentsLength_def SubmitUserReport_def submit_report_def linked_event_def upsert_report_def report_row_def
      keyed_session_env second_run randomUUID_def second_random keyed_tables keyed_reports example_tables example_row_fields
      find_fingerprint_def OrganizationID_String_def ProjectID_String_def EventID_String_def dashedUUID_Nil_iff
      uuid_param_made example_hexes uuid4_hex_pattern organization_exists_def project_exists_def)

theorem one_report_per_event_witness:
  "\<exists>receipt t r. Submit Some (Some SubmitUserReport) example_report (keyed_session ()) = (Inr receipt, t) \<and>
    report_on (dashedUUID (replicate 32 CHR ''b'')) (dashedUUID (replicate 32 CHR ''c'')) (ses_db t) = Some r \<and>
    ur_comments r = ''broken'' \<and> ur_email r = ''n@x''"
proof -
  obtain receipt t where run: "Submit Some (Some SubmitUserReport) example_report (keyed_session ()) = (Inr receipt, t)"
    using example_report_taken by blast
  have fields: "ProjectID_String (us_ProjectID (sc_Scope example_report)) = dashedUUID (replicate 32 CHR ''b'')"
      "EventID_String (sc_EventID example_report) = dashedUUID (replicate 32 CHR ''c'')"
      "TrimSpace (sc_Comments example_report) = ''broken''" "TrimSpace (sc_Email example_report) = ''n@x''"
    by (simp_all add: example_report_def ProjectID_String_def EventID_String_def report_texts)
  have "reports_unique (ses_db (keyed_session ()))" using keyed_consistent(2) by (simp add: keyed_fields)
  from one_report_per_event [OF keyed_session_ready this run] run fields show ?thesis by auto
qed

subsection \<open>Listing log records\<close>

text \<open>
  C36. The listing of log records is the filter of its query: whatever the query, the records shown are those of its organization and
  project that have the severity, logger, environment, release and attributes that are asked for (an empty filter asks for nothing),
  the latest received first, at most as many as the limit, which is between 1 and 200. So the text of the SQL statement and the numbers of
  its placeholders always fit its arguments. A listing changes nothing.
\<close>

theorem log_listing_is_filtered:
  assumes "session_ready s" and "LogList (Some ListLogRecords) q s = (Inr (views, filters), t)"
  shows "ses_db t = ses_db s \<and> (\<exists>n. NormalizeQuery q = ok n \<and> lg_Scope n = lg_Scope q \<and> 1 \<le> lg_Limit n \<and> lg_Limit n \<le> 200 \<and>
    views = map scanLogRecord (take (nat (lg_Limit n)) (sort_key (\<lambda>r. - lr_received_at r)
      (filter (log_matches n) (db_log_records (ses_db s))))) \<and> length views \<le> 200)"
proof -
  obtain n where n: "NormalizeQuery q = ok n" and run: "ListLogRecords n s = (Inr (views, filters), t)"
    using assms(2) by (auto simp: LogList_def abind_def alift_def split: sum.split_asm)
  have "lg_Limit n = normalizeLimit (lg_Limit q)" "lg_Scope n = lg_Scope q"
    using n by (auto simp: NormalizeQuery_def rbind_eq_ok)
  moreover have "1 \<le> normalizeLimit l" "normalizeLimit l \<le> 200" for l
    by (simp_all add: normalizeLimit_def defaultLimit_def maxLimit_def)
  moreover have "nat (normalizeLimit l) \<le> 200" for l by (auto simp: normalizeLimit_def defaultLimit_def maxLimit_def)
  ultimately show ?thesis using n log_listing [OF run assms(1)] by (auto intro!: exI [of _ n] min.coboundedI2)
qed

definition example_log :: "string \<Rightarrow> gotime \<Rightarrow> LogRecordRow" where
  "example_log severity at = \<lparr>lr_id = dashedUUID (replicate 32 CHR ''d''), lr_organization_id = dashedUUID (replicate 32 CHR ''a''),
     lr_project_id = dashedUUID (replicate 32 CHR ''b''), lr_timestamp_at = at, lr_received_at = at, lr_severity = severity,
     lr_body = severity, lr_logger = None, lr_trace_id = None, lr_span_id = None, lr_release = None, lr_environment = None,
     lr_resource_attributes = JObject [], lr_attributes = JObject []\<rparr>"

definition log_session :: "unit intake" where
  "log_session = (let d = example_db\<lparr>db_log_records := [example_log ''error'' 1, example_log ''info'' 2, example_log ''error'' 3]\<rparr>
     in (keyed_session ())\<lparr>ses_db := d, ses_base := d\<rparr>)"

definition error_query :: LogQuery where
  "error_query = \<lparr>lg_Scope = \<lparr>us_OrganizationID = OrganizationID (replicate 32 CHR ''a''), us_ProjectID = ProjectID (replicate 32 CHR ''b'')\<rparr>,
     lg_Limit = 0, lg_Severity = ''error'', lg_Logger = [], lg_Environment = [], lg_Release = [],
     lg_ResourceAttribute = \<lparr>af_Key = [], af_Value = []\<rparr>, lg_LogAttribute = \<lparr>af_Key = [], af_Value = []\<rparr>\<rparr>"

lemma error_query_fields:
  "lg_Scope error_query = \<lparr>us_OrganizationID = OrganizationID (replicate 32 CHR ''a''), us_ProjectID = ProjectID (replicate 32 CHR ''b'')\<rparr>"
  "lg_Severity error_query = ''error''" "lg_Logger error_query = []" "lg_Environment error_query = []" "lg_Release error_query = []"
  "lg_ResourceAttribute error_query = \<lparr>af_Key = [], af_Value = []\<rparr>" "lg_LogAttribute error_query = \<lparr>af_Key = [], af_Value = []\<rparr>"
  "lr_received_at (example_log severity at) = at"
  by (simp_all add: error_query_def example_log_def)

lemma error_query_normal:
  "NormalizeQuery error_query = ok (error_query\<lparr>lg_Limit := 100\<rparr>)"
proof -
  have "TrimSpace ''error'' = ''error''" "ToLower ''error'' = ''error''"
    by (simp_all add: TrimSpace_id ToLower_def is_ascii_def lower_byte_def)
  then show ?thesis
    by (simp add: NormalizeQuery_def requireLogScope_def error_query_def OrganizationID_String_def ProjectID_String_def dashedUUID_Nil_iff
        normalizeOptionalSeverity_def NewLogSeverity_def LogSeverityError_def normalizeAttributeFilter_def normalizeLimit_def defaultLimit_def)
qed

lemma log_session_fields: "session_ready log_session" "ses_env log_session = second_env" "\<not> ses_aborted log_session"
  "db_log_records (ses_db log_session) = [example_log ''error'' 1, example_log ''info'' 2, example_log ''error'' 3]"
  by (simp_all add: log_session_def Let_def keyed_session_def session_ready_def reliable_def quiet_def example_env_def
      second_env_def idle_def)

lemma scope_texts: "text_param (dashedUUID (replicate 32 CHR ''a''))" "text_param (dashedUUID (replicate 32 CHR ''b''))"
  by (rule graph_text_param, simp add: dashedUUID_def slice_def graph_ascii_def list_all_iff)+

lemma error_query_runs:
  "\<exists>views filters t. LogList (Some ListLogRecords) error_query log_session = (Inr (views, filters), t)"
  by (simp add: LogList_def error_query_normal ListLogRecords_def select_log_records_def logListSQL_def appendTextFilter_def
      appendJSONFilter_def error_query_fields text_args_ok_def limit_arg_def text_arg_def graph_text_param graph_ascii_def
      OrganizationID_String_def ProjectID_String_def uuid_param_made example_hexes second_run log_session_fields TrimSpace_id
      scope_texts)

theorem log_listing_is_filtered_witness:
  "\<exists>views filters t. LogList (Some ListLogRecords) error_query log_session = (Inr (views, filters), t) \<and>
    views = map scanLogRecord [example_log ''error'' 3, example_log ''error'' 1]"
proof -
  obtain views filters t where run: "LogList (Some ListLogRecords) error_query log_session = (Inr (views, filters), t)"
    using error_query_runs by blast
  have "log_matches (error_query\<lparr>lg_Limit := 100\<rparr>) (example_log severity at) \<longleftrightarrow> severity = ''error''" for severity at
    by (auto simp: log_matches_def error_query_def example_log_def OrganizationID_String_def ProjectID_String_def matches_text_def
        matches_attribute_def TrimSpace_id)
  with log_listing_is_filtered [OF log_session_fields(1) run] run show ?thesis
    by (simp add: error_query_normal log_session_fields error_query_fields)
qed

end
