(* ===== verification/Spec2Isabelle.thy ===== *)
theory Spec2Isabelle
  imports IngestEffects RateLimit SourceMaps Outbound UptimeProperties DeliveryProperties VaultContract ArtifactProperties MinidumpFormat SentEnvelopes RecordProperties
begin

text \<open>
  A verification development for the error tracker of this repository (module
  \<open>github.com/ivanzakutnii/error-tracker\<close>, Go sources under \<open>src/internal\<close>).

  The program takes events, logs, policy reports, minidumps and symbol files from SDKs. An event of
  any protocol becomes one canonical event of \<open>internal/domain\<close>, gets a fingerprint, and a transaction
  on PostgreSQL stores it, counts it for its issue and queues notifications when an issue is new.
  Workers deliver the notifications and check uptime monitors; uploaded source maps and debug
  files are kept in an artifact vault and give stored frames their names.

  The model is a shallow embedding. A Go function that returns \<open>(T, error)\<close> is a function into
  \<open>'a result\<close>, whose error is the message of the outermost error; a panic is an error of its own where the code
  can panic. A method with effects is a function from the state to a result and the next state
  (\<open>Actions\<close>). Strings are lists of bytes, as in Go; \<open>int64\<close>, \<open>uint32\<close> and the like are words where
  they can wrap around and numbers with stated bounds otherwise. Definitions keep the names of the code.

  \<^bold>\<open>The theories\<close>, in the order the packages depend on each other.
  \<^item> \<open>Prelude\<close>, \<open>Actions\<close>: results, loops that stop at the first error, sequencing of effects.
  \<^item> \<open>GoStrings\<close>, \<open>Sha256\<close>, \<open>JsonStrings\<close>, \<open>FilePaths\<close>: what the sources use of \<open>strings\<close>, \<open>unicode\<close>,
    \<open>crypto/sha256\<close>, \<open>json.Marshal\<close> and \<open>path/filepath\<close>. \<open>JsonSyntax\<close>, \<open>JsonNumbers\<close>, \<open>JsonDecode\<close>, \<open>JsonText\<close>:
    \<open>json.Unmarshal\<close> from the bytes on, with a printer and the round trip. \<open>TimeParse\<close>, \<open>TimeText\<close>:
    \<open>time.Parse\<close> and \<open>Format\<close> of \<open>RFC3339Nano\<close>, with the round trip from year 1 to 9999.
  \<^item> \<open>Ids\<close>, \<open>Artifacts\<close>, \<open>Identities\<close>, \<open>Frames\<close>, \<open>Transactions\<close>, \<open>Events\<close>, \<open>LogRecords\<close>, \<open>Monitors\<close>,
    \<open>Notifications\<close>: the package \<open>internal/domain\<close> (and \<open>plans/notifyplan\<close> for the texts of notifications). Each
    value type has a constructor that validates; the locales \<open>text_value\<close>, \<open>uuid_id\<close> and \<open>hashed_identity\<close>
    state what the constructors share and are interpreted on each of them.
  \<^item> \<open>Grouping\<close>: \<open>plans/grouping\<close> and \<open>plans/ingestplan\<close>.
  \<^item> \<open>RawEvents\<close>, \<open>ClientAddresses\<close>, \<open>StoreEvents\<close>: \<open>adapters/sentryprotocol/payload.go\<close>. \<open>LogItems\<close>,
    \<open>CspReports\<close>, \<open>Envelopes\<close>: \<open>logs.go\<close>, \<open>csp.go\<close>, \<open>envelope.go\<close> beside it.
    \<open>ParsedEvents\<close>, \<open>SentEvents\<close>, \<open>SentEnvelopes\<close>: what the parser guarantees for any bytes, and that it
    reads back what an SDK writes.
  \<^item> \<open>Ingest\<close>: \<open>app/ingest\<close>, the workflow over its ports, which are the locale \<open>ingest_ports\<close>. \<open>Payload\<close>,
    \<open>Database\<close>, \<open>IngestStore\<close>: the ports in \<open>adapters/postgres\<close> (\<open>store.go\<close>, \<open>quota.go\<close>, the outbox of new
    issues), on a database of explicit tables. \<open>IssueIndex\<close>, \<open>IngestEffects\<close>: the abstract index of
    issues that the store implements, and what a submission leaves behind.
  \<^item> \<open>RateLimit\<close>: \<open>app/ratelimit\<close> and its store.
  \<^item> \<open>SourceMaps\<close>, \<open>SourceMapApply\<close>: \<open>app/sourcemaps\<close>. \<open>Breakpad\<close>, \<open>Symbolication\<close>: \<open>app/debugfiles\<close>.
    \<open>Minidumps\<close>, \<open>MinidumpFormat\<close>: \<open>app/minidumps\<close>, with a writer of minidumps for the round trip.
    \<open>ArtifactServices\<close>: the services of the three packages on the vault.
  \<^item> \<open>Vault\<close>, \<open>VaultKeys\<close>, \<open>VaultContract\<close>, \<open>ArtifactProperties\<close>: \<open>app/artifacts\<close> and
    \<open>adapters/filesystem\<close>. The locale \<open>artifact_vault\<close> is the contract, a partial function from keys
    to contents; the directory tree interprets it.
  \<^item> \<open>Deliveries\<close>, \<open>DeliveryStore\<close>, \<open>DeliveryEffects\<close>, \<open>DeliveryProperties\<close>: \<open>app/notifications\<close> and
    \<open>adapters/postgres/notifications.go\<close> for the eight providers, each an interpretation of the
    locale \<open>outbox\<close>; the life cycle of an intent is the inductive relation \<open>life_step\<close>.
  \<^item> \<open>Outbound\<close>: \<open>app/outbound\<close>, which addresses webhooks and monitors may reach.
  \<^item> \<open>AuditLog\<close>, \<open>QuietSessions\<close>, \<open>Uptime\<close>, \<open>UptimeEffects\<close>, \<open>UptimeProperties\<close>: \<open>app/uptime\<close> and
    \<open>adapters/postgres/uptime.go\<close>; the locales \<open>check_store\<close> and \<open>uptime_ports\<close> are its ports.
  \<^item> \<open>UserReports\<close>, \<open>LogStore\<close>: \<open>app/userreports\<close> and \<open>app/logs\<close> with their stores; the locale \<open>log_ports\<close> is
    what the ingestion of logs relies on.
  \<^item> \<open>Intake\<close>, \<open>MinidumpIntake\<close>: \<open>adapters/http/sentry.go\<close>, the handlers that bring these parts together: credentials from
    query, headers and envelope, limited and compressed bodies, rate limits, parsing, enrichment, storage and
    the answer. \<open>serve\<close> is a request on one of their routes, \<open>serve_all\<close> a sequence of them. They run on a session
    of the store whose world holds the files of the vault. \<open>IntakeEffects\<close> takes handlers apart with \<open>leads P h Q\<close>
    and the rules \<open>intake_rules\<close>; \<open>IntakeAnswers\<close> shows that every route serves its requests; \<open>MinidumpStore\<close>
    follows a minidump through the transaction of its event, on every vault of the contract;
    \<open>IntakeProperties\<close> and \<open>RecordProperties\<close> state the results.

  \<^bold>\<open>What the groups of theorems show.\<close> C1--C2: events are well-formed and equal fingerprints come from equal
  sources. C3--C5: over any history of submissions, with failing statements and refused commits, an
  event is accepted once, counters and quotas are exact, and the store stays consistent. C6:
  windows of the rate limit. C8--C9: source maps decode, and the binary search is a linear search. C11--C12: the filter of addresses. C13, C37--C40: the SDK protocol, from
  bytes to events: parsing ends, what is accepted is well-formed, no private address
  leaks into tags, what an SDK writes is read back. C14--C17: monitors and incidents. C20--C23, C25--C26: deliveries, with the intents that a
  failure strands. C27--C33:
  the vault, uploads and symbolication, whichever system call fails. C34--C35: minidumps of any bytes. C7, C18, C19, C24: the
  whole intake, from the request to the tables and files: what its answers say is true of the journal, strangers change nothing, the
  store stays consistent, and minidumps and their events agree. C10, C36: user reports and the listing of logs. Further
  theorems beside them keep the behaviour on corner cases: the delay of a rejected client, a source map whose lookup panics, a
  status above 599, offsets of minidumps that wrap around, the accounts of batches.

  \<^bold>\<open>The environment.\<close> A session of the database (\<open>Session\<close>) holds the tables, the clock, the random
  source and which of its statements fail; the theorems quantify over them. \<open>quiet\<close> says that no
  other session commits in between, \<open>reliable\<close> that moreover a commit that reports an error has not happened. Sessions run in UTC. Transactions run one
  after another: row locks and \<open>FOR UPDATE SKIP LOCKED\<close> are not modelled, and rows that tie in
  an \<open>ORDER BY\<close> keep the order of the table. The types of a
  statement are resolved where that decides what it does: the marks of failed deliveries are refused when they are prepared
  (\<open>prepare_retry\<close>), since their parameter \<open>$2\<close> has no cast. The calls of \<open>os\<close> and \<open>io\<close> are steps on a directory tree in which the environment makes
  calls fail; no other process changes the vault. The order in which Go ranges over a map is
  a parameter \<open>ord\<close>. Code that is not in the repository is a parameter of the definitions that use
  it: \<open>url_Parse\<close>, \<open>mail_ParseAddress\<close>, the resolver, the HTTP clients and mail servers, the
  \<open>io.ReaderAt\<close> of minidumps, \<open>json.Unmarshal\<close> into the raw source map, and the decoders of gzip and of
  multipart forms (the record \<open>Libraries\<close>). The Content-Type and the closing of bodies are left out of the answers.
  Floating-point numbers of JSON become integers as on amd64; a JSON array that occurs twice under one
  key is decoded as its last occurrence, without the reuse of the elements of the first.
  What the environment may not do is named in the hypotheses: \<open>session_ready\<close> (quiet and reliable, outside a transaction),
  \<open>untroubled\<close> (no call on the files fails), \<open>network\<close> (a sender leaves the store alone).

  \<^bold>\<open>Bounds and termination.\<close> Loops over data are structural or have a measure. The two loops of the
  envelope reader, which end only because input is used up, are \<open>partial_function (option)\<close>, where \<open>None\<close> would be
  not returning: \<open>read_items_returns\<close> and C13 show that they always return. There is no fuel.
  Constants of the code are kept: at most 64 items in an envelope, 100 records in a log
  item, 4096 bytes in a buffer of \<open>bufio\<close> and a read of the minidump parser, 512 modules, a hundred checks in a batch.

  \<^bold>\<open>Not modelled.\<close> The read models (issues, status pages, audit listing, uptime views), which are SQL text
  with little logic beside it; settings, tokens, accounts and OAuth sign-in, imports, retention, issue
  triage and comments; the senders and the rest of the
  HTTP server, which are network I/O and rendering; the generated templates; the command line and
  the configuration.
\<close>

section \<open>Ingestion on the PostgreSQL store\<close>

text \<open>
  C3. Exactly once: in any history of submissions, with repetitions, statements that fail and
  commits that are refused, no project and event id is accepted twice or accepted when it was
  journalled before, and the journal ends up with the ids it had and those that were accepted.
\<close>

theorem ingest_exactly_once:
  assumes "\<forall>ev\<in>set events. made_event (accepted_of ev)"
    and "outside_effect session_step ses_db effect" and "reliable (ses_env s)"
    and "ingest_history Run effect events s = (outcomes, t)"
  shows "distinct (accepted_keys outcomes) \<and>
    set (accepted_keys outcomes) \<inter> journal_keys (ses_db s) = {} \<and>
    journal_keys (ses_db t) = journal_keys (ses_db s) \<union> set (accepted_keys outcomes)"
  using assms by (rule postgres.history_exactly_once)

theorem ingest_exactly_once_witness:
  "\<exists>outcomes t. ingest_history Run noAppendEffect [example_event, example_event] (example_session {}) =
      (outcomes, t) \<and> accepted_keys outcomes = [key_of example_event] \<and>
    journal_keys (ses_db t) = insert (key_of example_event) (journal_keys (ses_db (example_session {})))"
proof -
  obtain r u where first: "ingestCanonicalEvent (NewIngestCommand example_event) Run noAppendEffect
      (example_session {}) = (Inr r, u)" "accepted_receipt r"
    using example_accepted by blast
  obtain x t where snd: "ingestCanonicalEvent (NewIngestCommand example_event) Run noAppendEffect u = (x, t)"
    by fastforce
  have run: "ingest_history Run noAppendEffect [example_event, example_event] (example_session {}) =
      ([(example_event, Inr r), (example_event, x)], t)"
    using first snd by simp
  have keys: "accepted_keys [(example_event, Inr r), (example_event, x)] = [key_of example_event] \<or>
      \<not> distinct (accepted_keys [(example_event, Inr r), (example_event, x)])"
    using first(2) by (simp add: accepted_keys_Cons accepted_keys_Nil split: sum.split)
  show ?thesis
    using ingest_exactly_once [OF _ example_outside example_session_inv run] keys run by auto
qed

text \<open>
  C4. Issue counters and quota usage: over any history of submissions, failures included, the event
  count of the issue that a project and fingerprint lead to grows by the number of accepted events
  with that project and fingerprint that create issues, and the usage of a day, of an organization
  or one of its projects, by the number of accepted events that fall on it.
\<close>

theorem ingest_counts:
  assumes "\<forall>ev\<in>set events. made_event (accepted_of ev) \<and> in_scope ev (ses_db s)"
    and "outside_effect session_step ses_db effect" and "reliable (ses_env s)"
    and "store_consistent (ses_db s)"
    and "ingest_history Run effect events s = (outcomes, t)"
  shows "counted (ses_db t) p fp = counted (ses_db s) p fp +
      int (length (filter (\<lambda>ev. CanonicalEvent_CreatesIssue ev \<and> issue_key ev = (p, fp))
        (accepted_events outcomes))) \<and>
    day_usage (\<lambda>r. Q (st_project_id r)) org tm (ses_db t) =
      day_usage (\<lambda>r. Q (st_project_id r)) org tm (ses_db s) +
      int (length (filter (counts_in Q org tm) (accepted_events outcomes)))"
  using history_effects [OF assms, of p fp Q org tm] by simp

theorem ingest_counts_witness:
  "\<exists>outcomes t. ingest_history Run noAppendEffect [example_event] (example_session {}) = (outcomes, t) \<and>
    counted (ses_db t) (fst (issue_key example_event)) (snd (issue_key example_event)) = 1 \<and>
    day_usage (\<lambda>r. True) (OrganizationID_String (ev_organizationID example_event)) 6000 (ses_db t) = 1"
proof -
  obtain r t where first: "ingestCanonicalEvent (NewIngestCommand example_event) Run noAppendEffect
      (example_session {}) = (Inr r, t)" "accepted_receipt r"
    using example_accepted by blast
  have run: "ingest_history Run noAppendEffect [example_event] (example_session {}) =
      ([(example_event, Inr r)], t)"
    using first by simp
  have acc: "accepted_events [(example_event, Inr r)] = [example_event]"
    using first(2) by (simp add: accepted_events_def accepted_outcome_def)
  have start: "counted (ses_db (example_session {})) p fp = 0"
      "day_usage P org tm (ses_db (example_session {})) = 0" for p fp P org tm
    by (simp_all add: example_session_def example_tables counted_def issue_of_def find_fingerprint_def
        day_usage_def)
  have now: "counts_in (\<lambda>_. True) (OrganizationID_String (ev_organizationID example_event)) 6000 example_event"
    by (simp add: counts_in_def example_event_fields TimePoint_Time_def timestamptz_def)
  have "\<forall>ev\<in>set [example_event]. made_event (accepted_of ev) \<and>
      in_scope ev (ses_db (example_session {}))" by simp
  note ingest_counts [OF this example_outside example_session_inv example_consistent run,
      of "fst (issue_key example_event)" "snd (issue_key example_event)" "\<lambda>_. True"
        "OrganizationID_String (ev_organizationID example_event)" 6000]
  then show ?thesis
    using run acc start now example_event_fields(13) by simp
qed

text \<open>
  C5. The invariant of the store: every submission, accepted, rejected, repeated or failed half way,
  keeps issue ids, short ids and fingerprints unique and linked to each other, the hourly statistics
  in the organization of their project, and the usage of every day within every enabled quota.
\<close>

theorem ingest_keeps_store_consistent:
  assumes "made_event (accepted_of event)" and "in_scope event (ses_db s)"
    and "outside_effect session_step ses_db effect" and "reliable (ses_env s)"
    and "store_consistent (ses_db s)"
  shows "store_consistent (ses_db (snd (ingestCanonicalEvent (NewIngestCommand event) Run effect s)))"
  using ingest_effects(1) [OF assms(1,3,4,5,2)] by (metis prod.collapse)

theorem ingest_keeps_store_consistent_witness:
  "store_consistent (ses_db (snd (ingestCanonicalEvent (NewIngestCommand example_event) Run
     noAppendEffect (example_session {}))))"
  by (rule ingest_keeps_store_consistent) simp_all

section \<open>Rate limits\<close>

definition example_policy :: rateLimitPolicySnapshot where
  "example_policy = \<lparr>pol_projectKeyID = dashedUUID (replicate 32 CHR ''c''),
     pol_organization = dashedUUID (replicate 32 CHR ''a''), pol_project = dashedUUID (replicate 32 CHR ''b''),
     pol_enabled = True, pol_window = 60, pol_limit = 1\<rparr>"

definition example_rate_session :: "unit Session" where
  "example_rate_session = (let d = example_db\<lparr>
       db_project_keys := [\<lparr>pk_id = dashedUUID (replicate 32 CHR ''c''),
         pk_project_id = dashedUUID (replicate 32 CHR ''b''),
         pk_public_key = dashedUUID (replicate 32 CHR ''a''), pk_active = True\<rparr>],
       db_rate_limit_policies := [\<lparr>rp_project_key_id = dashedUUID (replicate 32 CHR ''c''),
         rp_window_seconds = 60, rp_event_limit = 1, rp_enabled = True\<rparr>]\<rparr>
     in (example_session {})\<lparr>ses_db := d, ses_base := d\<rparr>)"

definition example_command :: "gotime \<Rightarrow> RateCommand" where
  "example_command now = \<lparr>rc_Scope = \<lparr>rs_OrganizationID = OrganizationID (replicate 32 CHR ''a''),
       rs_ProjectID = ProjectID (replicate 32 CHR ''b'')\<rparr>,
     rc_PublicKey = ProjectPublicKey (replicate 32 CHR ''a''), rc_Now = now\<rparr>"

text \<open>
  C6. A window of a project key lets its limit through and no more: of a series of requests in the
  same window, under one enabled policy, exactly as many are allowed as the counter of the window
  leaves below the limit (all of them when they are fewer), and the counter grows by the requests
  that were decided; a request whose transaction fails is neither counted nor allowed.
\<close>

theorem rate_limit_window:
  assumes "\<forall>c\<in>set commands. policy_of c (ses_db s) = Some pol \<and> window_of pol c = b"
    and "pol_enabled pol" and "reliable (ses_env s)" and "rate_history commands s = (xs, t)"
  shows "requests_in (ses_db t) (pol_projectKeyID pol) b (pol_window pol) =
      requests_in (ses_db s) (pol_projectKeyID pol) b (pol_window pol) + int (length (filter is_ok xs)) \<and>
    int (length (filter allowed_result xs)) =
      max 0 (min (int (length (filter is_ok xs)))
        (pol_limit pol - requests_in (ses_db s) (pol_projectKeyID pol) b (pol_window pol)))"
  using assms by (rule rate_history_bound)

lemma example_rate_policy:
  "policy_of (example_command now) (ses_db example_rate_session) = Some example_policy"
  by (simp add: policy_of_def select_rate_policy_def example_command_def example_rate_session_def Let_def
      example_tables OrganizationID_String_def ProjectID_String_def ProjectPublicKey_String_def
      example_policy_def no_rows_of_def)

lemma example_no_buckets: "db_rate_limit_buckets example_db = []"
  by (simp add: example_db_def)

lemma example_window:
  "window_of example_policy (example_command unix_epoch) = timestamptz unix_epoch"
  "window_of example_policy (example_command (unix_epoch + 5000000)) = timestamptz unix_epoch"
  by (simp_all add: window_of_def example_policy_def example_command_def rateLimitBucket_def Unix_def
      UTC_def second_def go_div_def time_Unix_def)

lemma example_rate_run:
  "\<exists>d1 d2 t. rate_history [example_command unix_epoch, example_command (unix_epoch + 5000000)]
     example_rate_session = ([Inr d1, Inr d2], t)"
  by (simp add: example_no_buckets CheckRateLimit_def checkRateLimitInTx_def rateLimitPolicyForCommand_def
      incrementRateLimitBucket_def upsert_bucket_def select_rate_policy_def same_bucket_def no_rows_of_def
      example_rate_session_def example_session_def example_command_def ProjectPublicKey_String_def
      rateLimitBucket_def Unix_def second_def go_div_def time_Unix_def integer32_def example_run)

theorem rate_limit_window_witness:
  "\<exists>xs t. rate_history [example_command unix_epoch, example_command (unix_epoch + 5000000)]
     example_rate_session = (xs, t) \<and> length (filter is_ok xs) = 2 \<and>
     length (filter allowed_result xs) = 1"
proof -
  obtain d1 d2 t where run: "rate_history [example_command unix_epoch, example_command (unix_epoch + 5000000)]
     example_rate_session = ([Inr d1, Inr d2], t)"
    using example_rate_run by blast
  have env: "reliable (ses_env example_rate_session)"
    by (simp add: example_rate_session_def Let_def)
  have b: "\<forall>c\<in>set [example_command unix_epoch, example_command (unix_epoch + 5000000)].
      policy_of c (ses_db example_rate_session) = Some example_policy \<and>
      window_of example_policy c = timestamptz unix_epoch"
    by (simp add: example_rate_policy example_window)
  have start: "requests_in (ses_db example_rate_session) k w p = 0" for k w p
    by (simp add: requests_in_def example_rate_session_def Let_def example_session_def example_db_def)
  show ?thesis
    using rate_limit_window [OF b _ env run] run start by (auto simp: example_policy_def)
qed

text \<open>
  A rejected client is told to wait at least a second and at most the window, and when it does
  the window it was rejected in is over: the reference time lies in its window, which starts at a
  multiple of the window length.
\<close>

theorem rate_limit_retry_after:
  assumes "unix_epoch \<le> now" and "0 < w"
  shows "rateLimitBucket now w \<le> now \<and> now < rateLimitBucket now w + w * second \<and>
    second \<le> rateLimitRetryAfter now (rateLimitBucket now w) w \<and>
    rateLimitRetryAfter now (rateLimitBucket now w) w \<le> w * second \<and>
    rateLimitBucket now w + w * second \<le> now + rateLimitRetryAfter now (rateLimitBucket now w) w"
  using rateLimitBucket_contains [OF assms] rateLimitRetryAfter_bounds [OF assms] by simp

theorem rate_limit_retry_after_witness:
  "rateLimitRetryAfter (unix_epoch + 90500000000) (rateLimitBucket (unix_epoch + 90500000000) 60) 60 \<le> 60 * second"
  using rate_limit_retry_after [of "unix_epoch + 90500000000" 60] by simp

end
